(* ===== verification/Prelude.thy ===== *)
theory Prelude
  imports
    Main
    "HOL-Library.Word"
    "HOL-Library.FSet"
    "HOL-Library.Char_ord"
    "HOL-Library.List_Lexorder"
    "HOL-Library.Product_Lexorder"
    "HOL-Library.Multiset"
begin

text \<open>
  Shared vocabulary of the development.

  \<^item> Results: a fallible Rust function is a function into a sum, \<open>Inl\<close> for the error.
    A body made of statements that may return early is a list of checks, run by
    \<open>checks\<close>, which stops at the first refusal.
  \<^item> Loops: \<open>for_each\<close> runs a fallible body over a slice; \<open>check_unique\<close> is the
    recurring loop that validates every element and refuses the second occurrence of a
    key, keeping the keys seen so far in an ordered set.
  \<^item> Strings are the UTF-8 bytes of a Rust \<open>String\<close> (a \<open>char\<close> is a byte), so
    \<open>length\<close> is \<open>str::len\<close> and the order is the byte order of \<open>str\<close>.
    \<open>trim\<close>, \<open>is_control\<close>, \<open>contains\<close>, \<open>{:?}\<close> and the decimal
    \<open>Display\<close> of integers are written out.
  \<^item> JSON values, and the services of third-party crates (JCS canonicalisation, SHA-256,
    RFC 3339 parsing) as the fields of one record \<open>externals\<close>, which every
    definition that calls them takes as an argument.
\<close>

section \<open>Collections of simplification rules\<close>

named_theorems res_ok \<open>when a fallible function succeeds\<close>
named_theorems res_eval \<open>evaluation of the result combinators on concrete input\<close>
named_theorems json_eval \<open>reading fields of serialised objects\<close>
named_theorems str_eval \<open>evaluation of the string functions on concrete input\<close>

section \<open>Results\<close>

fun res_bind :: "'e + 'a \<Rightarrow> ('a \<Rightarrow> 'e + 'b) \<Rightarrow> 'e + 'b" where
  "res_bind (Inl e) f = Inl e"
| "res_bind (Inr x) f = f x"

fun is_ok :: "'e + 'a \<Rightarrow> bool" where
  "is_ok (Inl e) = False"
| "is_ok (Inr x) = True"

fun map_err :: "('e \<Rightarrow> 'f) \<Rightarrow> 'e + 'a \<Rightarrow> 'f + 'a" where
  "map_err f (Inl e) = Inl (f e)"
| "map_err f (Inr x) = Inr x"

fun ok_or :: "'e \<Rightarrow> 'a option \<Rightarrow> 'e + 'a" where
  "ok_or e None = Inl e"
| "ok_or e (Some x) = Inr x"

definition refuse_if :: "bool \<Rightarrow> 'e \<Rightarrow> 'e + unit" where
  "refuse_if b e = (if b then Inl e else Inr ())"

fun checks :: "('e + unit) list \<Rightarrow> 'e + unit" where
  "checks [] = Inr ()"
| "checks (c # cs) = (case c of Inl e \<Rightarrow> Inl e | Inr u \<Rightarrow> checks cs)"

fun for_each :: "('a \<Rightarrow> 'e + unit) \<Rightarrow> 'a list \<Rightarrow> 'e + unit" where
  "for_each f [] = Inr ()"
| "for_each f (x # xs) = (case f x of Inl e \<Rightarrow> Inl e | Inr u \<Rightarrow> for_each f xs)"

fun check_unique ::
  "('a \<Rightarrow> 'e + unit) \<Rightarrow> ('a \<Rightarrow> 'k) \<Rightarrow> ('a \<Rightarrow> 'e) \<Rightarrow> 'k set \<Rightarrow> 'a list \<Rightarrow> 'e + unit"
where
  "check_unique v key dup seen [] = Inr ()"
| "check_unique v key dup seen (x # xs) =
     (case v x of
        Inl e \<Rightarrow> Inl e
      | Inr u \<Rightarrow>
          if key x \<in> seen then Inl (dup x)
          else check_unique v key dup (insert (key x) seen) xs)"

declare checks.simps [simp del, res_eval] for_each.simps [simp del, res_eval]
  check_unique.simps [simp del, res_eval] refuse_if_def [res_eval]

lemma unit_sum_cases: "(r :: 'e + unit) = Inr () \<or> (\<exists>e. r = Inl e)"
  by (cases r) auto

lemma res_bind_Inr_iff [res_ok]:
  "res_bind r f = Inr y \<longleftrightarrow> (\<exists>x. r = Inr x \<and> f x = Inr y)"
  by (cases r) auto

lemma res_bind_Inl_iff:
  "res_bind r f = Inl e \<longleftrightarrow> r = Inl e \<or> (\<exists>x. r = Inr x \<and> f x = Inl e)"
  by (cases r) auto

lemma is_ok_iff: "is_ok r \<longleftrightarrow> (\<exists>x. r = Inr x)"
  by (cases r) auto

lemma is_ok_unit_iff: "is_ok (r :: 'e + unit) \<longleftrightarrow> r = Inr ()"
  by (cases r) auto

lemma map_err_Inr_iff [res_ok]: "map_err f r = Inr x \<longleftrightarrow> r = Inr x"
  by (cases r) auto

lemma map_err_Inl_iff: "map_err f r = Inl e \<longleftrightarrow> (\<exists>e'. r = Inl e' \<and> e = f e')"
  by (cases r) auto

lemma ok_or_Inr_iff [res_ok]: "ok_or e opt = Inr x \<longleftrightarrow> opt = Some x"
  by (cases opt) auto

lemma ok_or_Inl_iff: "ok_or e opt = Inl e' \<longleftrightarrow> opt = None \<and> e' = e"
  by (cases opt) auto

lemma refuse_if_ok [res_ok]: "refuse_if b e = Inr () \<longleftrightarrow> \<not> b"
  by (simp add: refuse_if_def)

lemma refuse_if_simps [simp]: "refuse_if False e = Inr ()" "refuse_if True e = Inl e"
  by (simp_all add: refuse_if_def)

lemma refuse_if_Inl_iff: "refuse_if b e = Inl e' \<longleftrightarrow> b \<and> e' = e"
  by (auto simp: refuse_if_def)

lemma checks_ok [res_ok]: "checks cs = Inr () \<longleftrightarrow> (\<forall>c \<in> set cs. c = Inr ())"
  by (induction cs) (auto simp: checks.simps split: sum.splits)

lemma checks_Inl_iff:
  "checks [] = Inl e \<longleftrightarrow> False"
  "checks (c # cs) = Inl e \<longleftrightarrow> c = Inl e \<or> c = Inr () \<and> checks cs = Inl e"
  by (simp_all add: checks.simps split: sum.splits)

lemma for_each_ok [res_ok]: "for_each f xs = Inr () \<longleftrightarrow> (\<forall>x \<in> set xs. f x = Inr ())"
  by (induction xs) (auto simp: for_each.simps split: sum.splits)

lemma for_each_Inl_ex: "for_each f xs = Inl e \<Longrightarrow> \<exists>x \<in> set xs. f x = Inl e"
  by (induction xs) (auto simp: for_each.simps split: sum.splits)

lemma check_unique_ok_gen:
  "check_unique v key dup seen xs = Inr () \<longleftrightarrow>
     (\<forall>x \<in> set xs. v x = Inr ()) \<and> distinct (map key xs) \<and> key ` set xs \<inter> seen = {}"
proof (induction xs arbitrary: seen)
  case Nil
  then show ?case by (simp add: check_unique.simps)
next
  case (Cons x xs)
  show ?case
    by (cases "v x") (auto simp: Cons.IH check_unique.simps)
qed

lemma check_unique_ok [res_ok]:
  "check_unique v key dup {} xs = Inr () \<longleftrightarrow>
     (\<forall>x \<in> set xs. v x = Inr ()) \<and> distinct (map key xs)"
  by (simp add: check_unique_ok_gen)

lemma check_unique_Inl_ex:
  "check_unique v key dup seen xs = Inl e \<Longrightarrow> \<exists>x \<in> set xs. v x = Inl e \<or> e = dup x"
proof (induction xs arbitrary: seen)
  case Nil
  then show ?case by (simp add: check_unique.simps)
next
  case (Cons x xs)
  then show ?case by (cases "v x") (auto simp: check_unique.simps split: if_splits)
qed

text \<open>An \<open>anyhow\<close> error is its chain of messages, as \<open>{:#}\<close> prints it.\<close>

definition with_context :: "string \<Rightarrow> string + 'a \<Rightarrow> string + 'a" where
  "with_context msg r = map_err (\<lambda>e. msg @ '': '' @ e) r"

lemma with_context_ok [res_ok]: "with_context msg r = Inr x \<longleftrightarrow> r = Inr x"
  by (simp add: with_context_def map_err_Inr_iff)

definition context_some :: "string \<Rightarrow> 'a option \<Rightarrow> string + 'a" where
  "context_some msg x = ok_or msg x"

lemma context_some_ok [res_ok]: "context_some msg x = Inr v \<longleftrightarrow> x = Some v"
  by (simp add: context_some_def ok_or_Inr_iff)

lemma case_option_Inl_ok [res_ok]:
  "case_option (Inl e) f x = Inr y \<longleftrightarrow> (\<exists>v. x = Some v \<and> f v = Inr y)"
  by (cases x) auto

lemma case_option_Inr_ok [res_ok]:
  "case_option (Inr ()) f x = Inr () \<longleftrightarrow> (\<forall>v. x = Some v \<longrightarrow> f v = Inr ())"
  by (cases x) auto

section \<open>Machine integers, sorting and adjacent duplicates\<close>

type_synonym u16 = "16 word"
type_synonym u32 = "32 word"
type_synonym u64 = "64 word"

definition checked_mul :: "'w::len word \<Rightarrow> 'w word \<Rightarrow> 'w word option" where
  "checked_mul a b = (if unat a * unat b < 2 ^ LENGTH('w) then Some (a * b) else None)"

definition saturating_mul :: "'w::len word \<Rightarrow> 'w word \<Rightarrow> 'w word" where
  "saturating_mul a b = (if unat a * unat b < 2 ^ LENGTH('w) then a * b else - 1)"

lemma unat_mult_small:
  "unat a * unat b < 2 ^ LENGTH('w) \<Longrightarrow> unat (a * b :: 'w::len word) = unat a * unat b"
  by (simp add: unat_word_ariths)

lemma checked_mul_Some: "checked_mul a b = Some c \<Longrightarrow> unat c = unat a * unat b"
  by (auto simp: checked_mul_def unat_mult_small split: if_splits)

lemma saturating_mul_le:
  "saturating_mul a b \<le> c \<Longrightarrow> unat a * unat b \<le> unat c \<or> (c = - 1)"
  by (auto simp: saturating_mul_def word_le_nat_alt unat_mult_small split: if_splits)
    (metis word_not_simps(3) word_order.extremum_uniqueI word_le_nat_alt)

text \<open>\<open>Vec::dedup_by\<close> on a key: every element of a run of equal keys but the first is dropped.\<close>

fun dedup_key :: "('a \<Rightarrow> 'k) \<Rightarrow> 'a list \<Rightarrow> 'a list" where
  "dedup_key f [] = []"
| "dedup_key f [x] = [x]"
| "dedup_key f (x # y # xs) =
     (if f x = f y then dedup_key f (x # xs) else x # dedup_key f (y # xs))"

text \<open>A derived \<open>Ord\<close> compares a key lexicographically; an injective key makes it linear.\<close>

lemma linorder_by_key:
  fixes key :: "'a \<Rightarrow> 'k::linorder"
  assumes "\<And>x y. key x = key y \<Longrightarrow> x = y"
    and "\<And>x y. le x y \<longleftrightarrow> key x \<le> key y" and "\<And>x y. lt x y \<longleftrightarrow> key x < key y"
  shows "class.linorder le lt"
  using assms by unfold_locales (auto simp: less_le_not_le intro: order_trans antisym)

lemma sort_mset_cong: "mset xs = mset ys \<Longrightarrow> sort xs = sort ys"
  by (metis properties_for_sort sorted_sort mset_sort)

section \<open>Strings as UTF-8 bytes\<close>

abbreviation byte :: "char \<Rightarrow> nat" where
  "byte c \<equiv> of_char c"

definition in_range :: "nat \<Rightarrow> nat \<Rightarrow> char \<Rightarrow> bool" where
  "in_range lo hi c \<longleftrightarrow> lo \<le> byte c \<and> byte c \<le> hi"

definition is_lower :: "char \<Rightarrow> bool" where
  "is_lower = in_range 97 122"

definition is_upper :: "char \<Rightarrow> bool" where
  "is_upper = in_range 65 90"

definition is_digit :: "char \<Rightarrow> bool" where
  "is_digit = in_range 48 57"

definition is_ascii :: "string \<Rightarrow> bool" where
  "is_ascii s \<longleftrightarrow> list_all (\<lambda>c. byte c < 128) s"

fun strip_prefix :: "string \<Rightarrow> string \<Rightarrow> string option" where
  "strip_prefix [] s = Some s"
| "strip_prefix (p # ps) [] = None"
| "strip_prefix (p # ps) (c # cs) = (if p = c then strip_prefix ps cs else None)"

fun str_contains :: "string \<Rightarrow> string \<Rightarrow> bool" where
  "str_contains [] pat = (pat = [])"
| "str_contains (c # cs) pat = (strip_prefix pat (c # cs) \<noteq> None \<or> str_contains cs pat)"

lemma strip_prefix_iff: "strip_prefix p s = Some r \<longleftrightarrow> s = p @ r"
  by (induction p s rule: strip_prefix.induct) auto

lemma strip_prefix_append [simp]: "strip_prefix p (p @ r) = Some r"
  by (simp add: strip_prefix_iff)

lemma str_contains_iff: "str_contains s pat \<longleftrightarrow> (\<exists>l r. s = l @ pat @ r)"
proof (induction s)
  case Nil
  then show ?case by auto
next
  case (Cons c cs)
  have "strip_prefix pat (c # cs) \<noteq> None \<longleftrightarrow> (\<exists>r. c # cs = pat @ r)"
    by (simp add: strip_prefix_iff)
  then show ?case
    by (simp add: Cons.IH) (metis append_Cons append_Nil list.exhaust_sel list.sel(3))
qed

text \<open>
  The code points with the Unicode property White\_Space, as UTF-8: U+0009 to U+000D,
  U+0020, U+0085, U+00A0, U+1680, U+2000 to U+200A, U+2028, U+2029, U+202F, U+205F,
  U+3000. \<open>ws_len s\<close> is the number of bytes of the one that starts \<open>s\<close>, 0 if none
  does.
\<close>

fun ws_len :: "string \<Rightarrow> nat" where
  "ws_len [] = 0"
| "ws_len (a # s) =
     (if in_range 9 13 a \<or> byte a = 32 then 1
      else case s of
        [] \<Rightarrow> 0
      | b # s' \<Rightarrow>
          if byte a = 194 \<and> (byte b = 133 \<or> byte b = 160) then 2
          else case s' of
            [] \<Rightarrow> 0
          | c # s'' \<Rightarrow>
              if byte a = 225 \<and> byte b = 154 \<and> byte c = 128
                \<or> byte a = 226 \<and> byte b = 128 \<and>
                    (in_range 128 138 c \<or> byte c = 168 \<or> byte c = 169 \<or> byte c = 175)
                \<or> byte a = 226 \<and> byte b = 129 \<and> byte c = 159
                \<or> byte a = 227 \<and> byte b = 128 \<and> byte c = 128
              then 3 else 0)"

lemma ws_len_le: "ws_len s \<le> length s"
  by (cases s) (auto split: list.splits)

function trim_start :: "string \<Rightarrow> string" where
  "trim_start s = (if ws_len s = 0 then s else trim_start (drop (ws_len s) s))"
  by pat_completeness auto
termination
proof (relation "measure length")
  fix s :: string
  assume "ws_len s \<noteq> 0"
  moreover from this have "s \<noteq> []" by auto
  ultimately show "(drop (ws_len s) s, s) \<in> measure length"
    by (simp add: diff_less)
qed simp

declare trim_start.simps [simp del]

text \<open>
  Trimming the end removes the same code points from the back: \<open>ws_suffix_len\<close> looks at
  the last one, two or three bytes. On valid UTF-8 a match of these bytes is a match of the
  code point, because the encoding is self-synchronising.
\<close>

definition ws_suffix_len :: "string \<Rightarrow> nat" where
  "ws_suffix_len s =
     (let n = length s in
      if 1 \<le> n \<and> ws_len (drop (n - 1) s) = 1 then 1
      else if 2 \<le> n \<and> ws_len (drop (n - 2) s) = 2 then 2
      else if 3 \<le> n \<and> ws_len (drop (n - 3) s) = 3 then 3
      else 0)"

lemma ws_suffix_len_le: "ws_suffix_len s \<le> length s"
  by (simp add: ws_suffix_len_def Let_def)

function trim_end :: "string \<Rightarrow> string" where
  "trim_end s =
     (if ws_suffix_len s = 0 then s else trim_end (take (length s - ws_suffix_len s) s))"
  by pat_completeness auto
termination
proof (relation "measure length")
  fix s :: string
  assume "ws_suffix_len s \<noteq> 0"
  with ws_suffix_len_le [of s]
  show "(take (length s - ws_suffix_len s) s, s) \<in> measure length"
    by auto
qed simp

declare trim_end.simps [simp del]

definition trim :: "string \<Rightarrow> string" where
  "trim s = trim_end (trim_start s)"

text \<open>Unicode control characters: U+0000 to U+001F and U+007F to U+009F, as UTF-8.\<close>

fun has_control :: "string \<Rightarrow> bool" where
  "has_control [] = False"
| "has_control (a # s) =
     (byte a < 32 \<or> byte a = 127
      \<or> (byte a = 194 \<and> (case s of [] \<Rightarrow> False | b # s' \<Rightarrow> in_range 128 159 b))
      \<or> has_control s)"

text \<open>\<open>str::split\<close> on one ASCII byte.\<close>

fun split_on :: "char \<Rightarrow> string \<Rightarrow> string list" where
  "split_on d [] = [[]]"
| "split_on d (c # s) =
     (if c = d then [] # split_on d s
      else case split_on d s of [] \<Rightarrow> [[c]] | seg # segs \<Rightarrow> (c # seg) # segs)"

fun join_with :: "string \<Rightarrow> string list \<Rightarrow> string" where
  "join_with sep [] = []"
| "join_with sep [x] = x"
| "join_with sep (x # y # xs) = x @ sep @ join_with sep (y # xs)"

lemma split_on_nonempty [simp]: "split_on d s \<noteq> []"
  by (cases s) (auto split: list.splits)

lemma join_with_Cons: "xs \<noteq> [] \<Longrightarrow> join_with sep (x # xs) = x @ sep @ join_with sep xs"
  by (cases xs) auto

lemma join_split_on: "join_with [d] (split_on d s) = s"
proof (induction s)
  case Nil
  then show ?case by simp
next
  case (Cons c s)
  obtain seg segs where "split_on d s = seg # segs"
    by (cases "split_on d s") auto
  with Cons.IH show ?case
    by (cases segs) (auto simp: join_with_Cons)
qed

lemma split_on_no_sep: "d \<notin> set x \<Longrightarrow> split_on d x = [x]"
  by (induction x) auto

lemma split_on_append_sep: "d \<notin> set x \<Longrightarrow> split_on d (x @ d # s) = x # split_on d s"
  by (induction x) auto

lemma split_join_with:
  "segs \<noteq> [] \<Longrightarrow> (\<forall>x \<in> set segs. d \<notin> set x) \<Longrightarrow> split_on d (join_with [d] segs) = segs"
proof (induction "[d]" segs rule: join_with.induct)
  case 1
  then show ?case by simp
next
  case (2 x)
  then show ?case by (simp add: split_on_no_sep)
next
  case (3 x y xs)
  then show ?case by (simp add: split_on_append_sep)
qed

lemma set_split_on: "seg \<in> set (split_on d s) \<Longrightarrow> set seg \<subseteq> set s - {d}"
proof (induction s arbitrary: seg)
  case Nil
  then show ?case by simp
next
  case (Cons c s)
  then show ?case by (cases "split_on d s") (auto split: if_splits, fastforce+)
qed

section \<open>Rendering of values in messages\<close>

definition digit_char :: "nat \<Rightarrow> char" where
  "digit_char n = (if n < 10 then char_of (48 + n) else char_of (87 + n))"

fun show_nat :: "nat \<Rightarrow> string" where
  "show_nat n = (if n < 10 then [digit_char n] else show_nat (n div 10) @ [digit_char (n mod 10)])"

fun show_hex :: "nat \<Rightarrow> string" where
  "show_hex n = (if n < 16 then [digit_char n] else show_hex (n div 16) @ [digit_char (n mod 16)])"

declare show_nat.simps [simp del] show_hex.simps [simp del]

text \<open>
  Decimal rendering and canonical decimals: \<open>show_nat\<close> is injective and its values are
  exactly the digit strings with no superfluous leading zero.
\<close>

definition canonical_decimal :: "string \<Rightarrow> bool" where
  "canonical_decimal ds \<longleftrightarrow>
     ds \<noteq> [] \<and> list_all is_digit ds \<and> (length ds = 1 \<or> hd ds \<noteq> CHR ''0'')"

definition decimal_value :: "string \<Rightarrow> nat" where
  "decimal_value ds = foldl (\<lambda>n c. 10 * n + (byte c - 48)) 0 ds"

lemma decimal_value_snoc: "decimal_value (ds @ [c]) = 10 * decimal_value ds + (byte c - 48)"
  by (simp add: decimal_value_def)

lemma byte_digit_char: "n < 10 \<Longrightarrow> byte (digit_char n) = 48 + n"
  by (simp add: digit_char_def)

lemma is_digit_digit_char: "n < 10 \<Longrightarrow> is_digit (digit_char n)"
  by (simp add: is_digit_def in_range_def byte_digit_char)

lemma digit_char_byte: "is_digit c \<Longrightarrow> digit_char (byte c - 48) = c"
  by (auto simp: is_digit_def in_range_def digit_char_def)

lemma decimal_value_show_nat: "decimal_value (show_nat n) = n"
proof (induction n rule: show_nat.induct)
  case (1 n)
  then show ?case
    by (cases "n < 10")
      (simp_all add: show_nat.simps [of n] decimal_value_snoc byte_digit_char,
       simp add: decimal_value_def byte_digit_char)
qed

lemma show_nat_inject [simp]: "show_nat m = show_nat n \<longleftrightarrow> m = n"
  by (metis decimal_value_show_nat)

lemma show_nat_nonempty [simp]: "show_nat n \<noteq> []"
  by (simp add: show_nat.simps [of n])

lemma show_nat_digits: "list_all is_digit (show_nat n)"
proof (induction n rule: show_nat.induct)
  case (1 n)
  then show ?case
    by (cases "n < 10") (simp_all add: show_nat.simps [of n] is_digit_digit_char)
qed

lemma show_nat_hd: "0 < n \<Longrightarrow> hd (show_nat n) \<noteq> CHR ''0''"
proof (induction n rule: show_nat.induct)
  case (1 n)
  show ?case
  proof (cases "n < 10")
    case True
    with "1.prems" have "byte (digit_char n) \<noteq> byte (CHR ''0'')"
      by (simp add: byte_digit_char)
    with True show ?thesis by (auto simp: show_nat.simps [of n])
  next
    case False
    with 1 show ?thesis by (simp add: show_nat.simps [of n])
  qed
qed

lemma decimal_value_pos:
  "ds \<noteq> [] \<Longrightarrow> list_all is_digit ds \<Longrightarrow> hd ds \<noteq> CHR ''0'' \<Longrightarrow> 0 < decimal_value ds"
proof (induction ds rule: rev_induct)
  case Nil
  then show ?case by simp
next
  case (snoc c ds)
  show ?case
  proof (cases "ds = []")
    case True
    with snoc.prems have "is_digit c" "c \<noteq> CHR ''0''" by auto
    moreover from this(2) have "byte c \<noteq> (byte (CHR ''0'') :: nat)"
      by (simp only: of_char_eq_iff) simp
    ultimately show ?thesis
      using True by (auto simp: decimal_value_def is_digit_def in_range_def)
  next
    case False
    with snoc show ?thesis by (simp add: decimal_value_snoc)
  qed
qed

lemma show_nat_decimal_value: "canonical_decimal ds \<Longrightarrow> show_nat (decimal_value ds) = ds"
proof (induction ds rule: rev_induct)
  case Nil
  then show ?case by (simp add: canonical_decimal_def)
next
  case (snoc c ds)
  from snoc.prems have c: "is_digit c" by (simp add: canonical_decimal_def)
  then have d: "byte c - 48 < 10" "digit_char (byte c - 48) = c"
    by (auto simp: is_digit_def in_range_def digit_char_byte)
  show ?case
  proof (cases "ds = []")
    case True
    with d show ?thesis by (simp add: decimal_value_def show_nat.simps)
  next
    case False
    with snoc.prems have hd: "hd ds \<noteq> CHR ''0''" and dig: "list_all is_digit ds"
      by (auto simp: canonical_decimal_def)
    with False have "canonical_decimal ds" and "0 < decimal_value ds"
      by (auto simp: canonical_decimal_def intro: decimal_value_pos)
    with snoc.IH d show ?thesis
      by (simp add: decimal_value_snoc show_nat.simps [of "10 * _ + _"])
  qed
qed

lemma canonical_decimal_iff: "canonical_decimal ds \<longleftrightarrow> (\<exists>n. ds = show_nat n)"
proof
  assume "canonical_decimal ds"
  then show "\<exists>n. ds = show_nat n" by (metis show_nat_decimal_value)
next
  assume "\<exists>n. ds = show_nat n"
  then obtain n where ds: "ds = show_nat n" by blast
  show "canonical_decimal ds"
  proof (cases "n = 0")
    case True
    with ds show ?thesis
      by (simp add: canonical_decimal_def show_nat.simps is_digit_digit_char)
  next
    case False
    with ds show ?thesis by (simp add: canonical_decimal_def show_nat_digits show_nat_hd)
  qed
qed

definition show_int :: "int \<Rightarrow> string" where
  "show_int i = (if i < 0 then CHR ''-'' # show_nat (nat (- i)) else show_nat (nat i))"

abbreviation show_word :: "'w::len word \<Rightarrow> string" where
  "show_word w \<equiv> show_nat (unat w)"

text \<open>
  \<open>{:?}\<close> of a string: the text in double quotes, with the quote, the backslash, NUL, tab,
  newline, carriage return and the ASCII control characters escaped. The bytes of
  non-ASCII code points are kept, as Rust does for the printable ones.
\<close>

definition debug_char :: "char \<Rightarrow> string" where
  "debug_char c =
     (if c = CHR 0x22 then [CHR 0x5C, CHR 0x22]
      else if c = CHR 0x5C then [CHR 0x5C, CHR 0x5C]
      else if byte c = 0 then [CHR 0x5C, CHR ''0'']
      else if byte c = 9 then [CHR 0x5C, CHR ''t'']
      else if byte c = 10 then [CHR 0x5C, CHR ''n'']
      else if byte c = 13 then [CHR 0x5C, CHR ''r'']
      else if byte c < 32 \<or> byte c = 127
        then [CHR 0x5C, CHR ''u'', CHR ''{''] @ show_hex (byte c) @ ''}''
      else [c])"

definition debug_str :: "string \<Rightarrow> string" where
  "debug_str s = [CHR 0x22] @ concat (map debug_char s) @ [CHR 0x22]"

fun debug_opt :: "('a \<Rightarrow> string) \<Rightarrow> 'a option \<Rightarrow> string" where
  "debug_opt f None = ''None''"
| "debug_opt f (Some x) = ''Some('' @ f x @ '')''"

section \<open>Checks on text shared by the inquiry module\<close>

definition require_nonempty :: "string \<Rightarrow> string \<Rightarrow> string + unit" where
  "require_nonempty field value =
     (if trim value = [] then Inl (field @ '' must not be empty'') else Inr ())"

lemma require_nonempty_ok [res_ok]: "require_nonempty field value = Inr () \<longleftrightarrow> trim value \<noteq> []"
  by (simp add: require_nonempty_def)

section \<open>Plain text\<close>

text \<open>
  Visible ASCII other than the double quote and the backslash. Text made of it has nothing
  to trim, no control character and nothing to escape in \<open>{:?}\<close>.
\<close>

definition plain_char :: "char \<Rightarrow> bool" where
  "plain_char c \<longleftrightarrow> in_range 33 126 c \<and> c \<noteq> CHR 0x22 \<and> c \<noteq> CHR 0x5C"

lemma ws_len_plain: "plain_char (hd s) \<Longrightarrow> ws_len s = 0"
  by (cases s) (auto simp: plain_char_def in_range_def split: list.splits)

lemma ws_len_plain_any: "list_all plain_char s \<Longrightarrow> ws_len s = 0"
  by (cases "s = []") (auto simp: ws_len_plain list_all_iff)

lemma trim_plain: "list_all plain_char s \<Longrightarrow> trim s = s"
proof -
  assume p: "list_all plain_char s"
  then have "ws_len (drop k s) = 0" for k
    by (intro ws_len_plain_any) (auto simp: list_all_iff dest: in_set_dropD)
  then have "ws_suffix_len s = 0"
    by (simp add: ws_suffix_len_def Let_def)
  with p show ?thesis
    by (simp add: trim_def trim_start.simps trim_end.simps ws_len_plain_any)
qed

lemma has_control_plain: "list_all plain_char s \<Longrightarrow> \<not> has_control s"
  by (induction s) (auto simp: plain_char_def in_range_def)

lemma debug_char_plain: "plain_char c \<Longrightarrow> debug_char c = [c]"
  by (auto simp: plain_char_def in_range_def debug_char_def)

lemma concat_debug_plain: "list_all plain_char s \<Longrightarrow> concat (map debug_char s) = s"
  by (induction s) (simp_all add: debug_char_plain)

lemma debug_str_plain: "list_all plain_char s \<Longrightarrow> debug_str s = [CHR 0x22] @ s @ [CHR 0x22]"
  by (simp only: debug_str_def concat_debug_plain)

lemma is_ascii_plain: "list_all plain_char s \<Longrightarrow> is_ascii s"
  unfolding is_ascii_def by (erule list.pred_mono_strong) (simp add: plain_char_def in_range_def)

lemma ws_bytes_not_plain: "c \<in> set (take (ws_len s) s) \<Longrightarrow> \<not> plain_char c"
  by (cases s) (auto simp: plain_char_def in_range_def split: list.splits if_splits)

lemma in_set_split: "x \<in> set s \<longleftrightarrow> x \<in> set (take k s) \<or> x \<in> set (drop k s)"
  by (metis Un_iff append_take_drop_id set_append)

lemma trim_start_keeps_plain: "plain_char c \<Longrightarrow> c \<in> set s \<Longrightarrow> c \<in> set (trim_start s)"
proof (induction s rule: trim_start.induct)
  case (1 s)
  then show ?case
    using in_set_split [of c s "ws_len s"] ws_bytes_not_plain [of c s]
    by (subst trim_start.simps) auto
qed

lemma ws_suffix_not_plain:
  "c \<in> set (drop (length s - ws_suffix_len s) s) \<Longrightarrow> \<not> plain_char c"
  using ws_bytes_not_plain [of c "drop (length s - 1) s"] ws_bytes_not_plain [of c "drop (length s - 2) s"]
    ws_bytes_not_plain [of c "drop (length s - 3) s"]
  by (auto simp: ws_suffix_len_def Let_def split: if_splits)

lemma trim_end_keeps_plain: "plain_char c \<Longrightarrow> c \<in> set s \<Longrightarrow> c \<in> set (trim_end s)"
proof (induction s rule: trim_end.induct)
  case (1 s)
  then show ?case
    using in_set_split [of c s "length s - ws_suffix_len s"] ws_suffix_not_plain [of c s]
    by (subst trim_end.simps) auto
qed

lemma trim_nonempty [str_eval]: "list_ex plain_char s \<Longrightarrow> trim s \<noteq> []"
  unfolding trim_def list_ex_iff
  by (metis empty_iff empty_set trim_end_keeps_plain trim_start_keeps_plain)

lemmas plain_eval [str_eval] = plain_char_def in_range_def

section \<open>JSON values and the services of third-party crates\<close>

text \<open>
  A value as \<open>serde\<close> hands it to the serializer. An \<open>f64\<close> is kept as its bit pattern.
\<close>

datatype json =
    JNull
  | JBool bool
  | JInt int
  | JF64 "64 word"
  | JStr string
  | JArr "json list"
  | JObj "(string \<times> json) list"

text \<open>A field under \<open>skip_serializing_if\<close>: absent when there is nothing to write.\<close>

definition opt_field :: "string \<Rightarrow> ('a \<Rightarrow> json) \<Rightarrow> 'a option \<Rightarrow> (string \<times> json) list" where
  "opt_field n f x = (case x of None \<Rightarrow> [] | Some v \<Rightarrow> [(n, f v)])"

definition vec_field :: "string \<Rightarrow> ('a \<Rightarrow> json) \<Rightarrow> 'a list \<Rightarrow> (string \<times> json) list" where
  "vec_field n f xs = (if xs = [] then [] else [(n, JArr (map f xs))])"

fun json_opt :: "('a \<Rightarrow> json) \<Rightarrow> 'a option \<Rightarrow> json" where
  "json_opt f None = JNull"
| "json_opt f (Some x) = f x"

abbreviation json_word :: "'w::len word \<Rightarrow> json" where
  "json_word w \<equiv> JInt (uint w)"

abbreviation json_set :: "('a::linorder \<Rightarrow> json) \<Rightarrow> 'a fset \<Rightarrow> json" where
  "json_set f S \<equiv> JArr (map f (sorted_list_of_fset S))"

lemma map_of_opt_field [simp]:
  "map_of (opt_field n f x) m = (if m = n then map_option f x else None)"
  by (cases x) (auto simp: opt_field_def)

lemma map_of_vec_field [simp]:
  "map_of (vec_field n f xs) m = (if m = n \<and> xs \<noteq> [] then Some (JArr (map f xs)) else None)"
  by (auto simp: vec_field_def)

text \<open>
  \<open>jcs_to_vec\<close> is \<open>serde_jcs::to_vec\<close> (\<open>Inl\<close> its error text), \<open>sha256_hex\<close> is
  \<open>hex::encode\<close> of the SHA-256 of some bytes, \<open>rfc3339_parse\<close> is
  \<open>OffsetDateTime::parse\<close> with the RFC 3339 format, giving the instant in nanoseconds
  (\<open>Inl\<close> its error text). Comparison of \<open>OffsetDateTime\<close>s compares instants.
\<close>

record externals =
  jcs_to_vec :: "json \<Rightarrow> string + string"
  sha256_hex :: "string \<Rightarrow> string"
  rfc3339_parse :: "string \<Rightarrow> string + int"

definition DIGEST_ALGORITHM_PREFIX :: string where
  "DIGEST_ALGORITHM_PREFIX = ''sha256:''"

definition digest_jcs :: "externals \<Rightarrow> json \<Rightarrow> string + string" where
  "digest_jcs ext v =
     (case jcs_to_vec ext v of
        Inl e \<Rightarrow> Inl (''JCS canonicalization failed: '' @ e)
      | Inr bytes \<Rightarrow> Inr (DIGEST_ALGORITHM_PREFIX @ sha256_hex ext bytes))"

definition parse_rfc3339 :: "externals \<Rightarrow> string \<Rightarrow> string \<Rightarrow> string + int" where
  "parse_rfc3339 ext field value =
     map_err (\<lambda>e. field @ '' must be RFC3339: '' @ e) (rfc3339_parse ext value)"

lemma parse_rfc3339_ok [res_ok]: "parse_rfc3339 ext field value = Inr t \<longleftrightarrow> rfc3339_parse ext value = Inr t"
  by (simp add: parse_rfc3339_def map_err_Inr_iff)

text \<open>A fallible step run only for its effect of refusing: its value is dropped.\<close>

definition discard :: "'e + 'a \<Rightarrow> 'e + unit" where
  "discard r = res_bind r (\<lambda>_. Inr ())"

lemma discard_ok [res_ok]: "discard r = Inr () \<longleftrightarrow> is_ok r"
  by (cases r) (auto simp: discard_def)

definition is_lower_hex :: "char \<Rightarrow> bool" where
  "is_lower_hex c \<longleftrightarrow> is_digit c \<or> in_range 97 102 c"

definition is_sha256_digest :: "string \<Rightarrow> bool" where
  "is_sha256_digest v =
     (case strip_prefix DIGEST_ALGORITHM_PREFIX v of
        None \<Rightarrow> False
      | Some hx \<Rightarrow> length hx = 64 \<and> list_all is_lower_hex hx)"

text \<open>
  What the documentation of the crates promises, as predicates on \<open>externals\<close>: a SHA-256
  digest in hexadecimal is 64 lower-case hexadecimal digits; canonicalisation of a value
  succeeds; two given values do not collide.
\<close>

definition sha256_shape :: "externals \<Rightarrow> bool" where
  "sha256_shape ext \<longleftrightarrow> (\<forall>b. length (sha256_hex ext b) = 64 \<and> list_all is_lower_hex (sha256_hex ext b))"

definition jcs_total :: "externals \<Rightarrow> bool" where
  "jcs_total ext \<longleftrightarrow> (\<forall>v. is_ok (jcs_to_vec ext v))"

definition no_collision :: "externals \<Rightarrow> json \<Rightarrow> json \<Rightarrow> bool" where
  "no_collision ext v w \<longleftrightarrow> (\<forall>d. digest_jcs ext v = Inr d \<and> digest_jcs ext w = Inr d \<longrightarrow> v = w)"

lemma digest_jcs_shape: "sha256_shape ext \<Longrightarrow> digest_jcs ext v = Inr d \<Longrightarrow> is_sha256_digest d"
  by (auto simp: digest_jcs_def is_sha256_digest_def sha256_shape_def split: sum.splits)

lemma digest_jcs_total: "jcs_total ext \<Longrightarrow> \<exists>d. digest_jcs ext v = Inr d"
  by (cases "jcs_to_vec ext v") (auto simp: digest_jcs_def jcs_total_def is_ok_iff, metis Inl_Inr_False)

lemma no_collisionD:
  "no_collision ext v w \<Longrightarrow> digest_jcs ext v = Inr d \<Longrightarrow> digest_jcs ext w = Inr d \<Longrightarrow> v = w"
  by (simp add: no_collision_def)

section \<open>Sealed artifacts\<close>

text \<open>
  An artifact that carries the digest of its own digest material. The provider promises that
  writing the digest leaves the material alone and can be read back, and that the material
  together with the digest determines the artifact. A client then gets that a freshly sealed
  artifact verifies, and that two verified artifacts with the same digest are the same one.
\<close>

locale sealed_artifact =
  fixes material :: "'a \<Rightarrow> json"
    and digest_of :: "'a \<Rightarrow> string"
    and put_digest :: "string \<Rightarrow> 'a \<Rightarrow> 'a"
  assumes material_put: "material (put_digest d x) = material x"
    and digest_put: "digest_of (put_digest d x) = d"
    and material_inject: "material x = material y \<Longrightarrow> digest_of x = digest_of y \<Longrightarrow> x = y"
begin

lemma sealed_verifies:
  "digest_jcs ext (material x) = Inr d \<Longrightarrow>
     digest_jcs ext (material (put_digest d x)) = Inr (digest_of (put_digest d x))"
  by (simp add: material_put digest_put)

lemma same_digest_same_artifact:
  "digest_jcs ext (material x) = Inr (digest_of x) \<Longrightarrow>
   digest_jcs ext (material y) = Inr (digest_of y) \<Longrightarrow>
   digest_of x = digest_of y \<Longrightarrow> no_collision ext (material x) (material y) \<Longrightarrow> x = y"
  by (metis material_inject no_collisionD)

lemma reseal_unchanged:
  "digest_jcs ext (material x) = Inr (digest_of x) \<Longrightarrow>
   digest_jcs ext (material x) = Inr d \<Longrightarrow> put_digest d x = x"
  by (metis Inr_inject digest_put material_inject material_put)

end

text \<open>
  An artifact named by the digest of its whole serialised form: the provider promises that the
  form determines the artifact, and a client gets that, short of a collision, equal names mean
  equal artifacts.
\<close>

locale content_addressed =
  fixes material :: "'a \<Rightarrow> json"
  assumes material_inject: "material x = material y \<Longrightarrow> x = y"
begin

lemma digest_identifies:
  "digest_jcs ext (material x) = Inr d \<Longrightarrow> digest_jcs ext (material y) = Inr d \<Longrightarrow>
   no_collision ext (material x) (material y) \<Longrightarrow> x = y"
  by (metis material_inject no_collisionD)

lemma digest_eq_iff:
  "digest_jcs ext (material x) = Inr d \<Longrightarrow> no_collision ext (material x) (material y) \<Longrightarrow>
   digest_jcs ext (material y) = Inr d \<longleftrightarrow> y = x"
  by (metis digest_identifies)

end

text \<open>
  Equality of serialised objects is used field by field: \<open>json_field\<close> reads one field, and
  equal objects agree on every one.
\<close>

definition json_field :: "json \<Rightarrow> string \<Rightarrow> json option" where
  "json_field v n = (case v of JObj fs \<Rightarrow> map_of fs n | _ \<Rightarrow> None)"

lemma json_field_obj [simp]: "json_field (JObj fs) n = map_of fs n"
  by (simp add: json_field_def)

lemma json_fields_eq: "v = w \<Longrightarrow> json_field v n = json_field w n"
  by simp

text \<open>
  Reading a field of an object written as a concatenation: the field is looked up piece by
  piece, and an optional field that is absent gives way to the rest.
\<close>

lemma json_lookup [json_eval]:
  "json_field (JObj fs) n = map_of fs n"
  "map_of (opt_field m f x @ rest) n =
     (if n = m then case_option (map_of rest n) (\<lambda>v. Some (f v)) x else map_of rest n)"
  "map_of (vec_field m g xs @ rest) n =
     (if n = m \<and> xs \<noteq> [] then Some (JArr (map g xs)) else map_of rest n)"
  by (auto simp: opt_field_def vec_field_def split: option.splits)

lemma case_option_map_option [json_eval]: "case_option None (\<lambda>v. Some (f v)) x = map_option f x"
  by (cases x) simp_all

lemma map_option_inject [simp]: "inj f \<Longrightarrow> map_option f a = map_option f b \<longleftrightarrow> a = b"
  by (cases a; cases b) (auto simp: inj_eq)

lemma map_list_inject [simp]: "inj f \<Longrightarrow> map f xs = map f ys \<longleftrightarrow> xs = ys"
  by (rule inj_map_eq_map)

lemma inj_uint_json [simp]: "inj (\<lambda>w. json_word (w :: 'w::len word))"
  by (auto intro: injI simp: word_uint_eq_iff)

lemma json_word_inject [simp]: "uint (a :: 'w::len word) = uint b \<longleftrightarrow> a = b"
  by (simp add: word_uint_eq_iff)

lemma inj_JStr [simp]: "inj JStr"
  by (simp add: inj_def)

lemma sorted_list_of_fset_inject [simp]: "sorted_list_of_fset A = sorted_list_of_fset B \<longleftrightarrow> A = B"
  by (metis fset_inject sorted_list_of_fset_simps(1))

section \<open>A concrete instance of the third-party services\<close>

text \<open>
  A small deterministic instance of \<open>externals\<close>, used to show that the hypotheses about
  the crates can hold: values are rendered as JSON text, the digest is the hexadecimal digits
  found at the end of the bytes, padded to 64, and a timestamp is valid when it ends in \<open>Z\<close>
  (its instant is its length).
\<close>

fun render_json :: "json \<Rightarrow> string" where
  "render_json JNull = ''null''"
| "render_json (JBool b) = (if b then ''true'' else ''false'')"
| "render_json (JInt i) = show_int i"
| "render_json (JF64 w) = show_nat (unat w)"
| "render_json (JStr s) = debug_str s"
| "render_json (JArr vs) = ''['' @ join_with '','' (map render_json vs) @ '']''"
| "render_json (JObj fs) =
     ''{'' @ join_with '','' (map (\<lambda>f. debug_str (fst f) @ '':'' @ render_json (snd f)) fs) @ ''}''"

definition tail_hex :: "string \<Rightarrow> string" where
  "tail_hex b = take 64 (map (\<lambda>c. if is_lower_hex c then c else CHR ''0'') (rev b) @ replicate 64 (CHR ''0''))"

definition demo_ext :: externals where
  "demo_ext =
     \<lparr>jcs_to_vec = (\<lambda>v. Inr (render_json v)), sha256_hex = tail_hex,
      rfc3339_parse = (\<lambda>s. if s \<noteq> [] \<and> last s = CHR ''Z'' then Inr (int (length s)) else Inl ''bad'')\<rparr>"

lemma demo_ext_total: "jcs_total demo_ext"
  by (simp add: jcs_total_def demo_ext_def)

lemma demo_ext_shape: "sha256_shape demo_ext"
  by (auto simp: sha256_shape_def demo_ext_def tail_hex_def list_all_iff is_lower_hex_def is_digit_def
      in_range_def dest!: in_set_takeD split: if_splits)

end
