(* ===== verification/Protocol.thy ===== *)
theory Protocol
  imports Prelude
begin

text \<open>
  The wire primitives of \<open>crates/nq-protocol\<close>: schema identifiers, content digests,
  artifact references, refusal codes and refusals. Every type is a validated wrapper: its
  constructor function \<open>T_new\<close> is the only way to make a value, and deserialisation goes
  through it. The contract the identifier types share is the locale
  \<open>validated_text\<close>; the grammar of each identifier is stated on its own and shown
  equivalent to what the code accepts.
\<close>

section \<open>Errors\<close>

datatype ValidationError =
    VE_SchemaId string string
  | VE_ContentDigest string
  | VE_ArtifactId string string
  | VE_Timestamp string
  | VE_RefusalCode string string
  | VE_RefusalMessage string

fun ValidationError_display :: "ValidationError \<Rightarrow> string" where
  "ValidationError_display (VE_SchemaId v r) =
     ''invalid schema identifier '' @ debug_str v @ '': '' @ r"
| "ValidationError_display (VE_ContentDigest v) =
     ''invalid content digest '' @ debug_str v @ '': expected sha256:<64 lowercase hex digits>''"
| "ValidationError_display (VE_ArtifactId v r) =
     ''invalid artifact identifier '' @ debug_str v @ '': '' @ r"
| "ValidationError_display (VE_Timestamp v) = ''invalid RFC3339 timestamp '' @ debug_str v"
| "ValidationError_display (VE_RefusalCode v r) =
     ''invalid refusal code '' @ debug_str v @ '': '' @ r"
| "ValidationError_display (VE_RefusalMessage r) = ''invalid refusal message: '' @ r"

section \<open>Content digests\<close>

definition SHA256_PREFIX :: string where
  "SHA256_PREFIX = ''sha256:''"

definition SHA256_HEX_LEN :: nat where
  "SHA256_HEX_LEN = 64"

datatype ContentDigest = ContentDigest (digest_as_str: string)

definition ContentDigest_new :: "string \<Rightarrow> ValidationError + ContentDigest" where
  "ContentDigest_new value =
     (case strip_prefix SHA256_PREFIX value of
        None \<Rightarrow> Inl (VE_ContentDigest value)
      | Some hx \<Rightarrow>
          if length hx = SHA256_HEX_LEN \<and> list_all (\<lambda>c. in_range 48 57 c \<or> in_range 97 102 c) hx
          then Inr (ContentDigest value)
          else Inl (VE_ContentDigest value))"

definition ContentDigest_hex :: "ContentDigest \<Rightarrow> string" where
  "ContentDigest_hex d = drop (length SHA256_PREFIX) (digest_as_str d)"

section \<open>Schema identifiers\<close>

definition MAX_SCHEMA_ID_LEN :: nat where
  "MAX_SCHEMA_ID_LEN = 128"

datatype SchemaId = SchemaId (schema_as_str: string)

definition segment_char :: "char \<Rightarrow> bool" where
  "segment_char c \<longleftrightarrow> is_lower c \<or> is_digit c \<or> c = CHR ''_'' \<or> c = CHR ''-''"

fun validate_ordinary_segment :: "string \<Rightarrow> string + unit" where
  "validate_ordinary_segment [] =
     Inl ''each non-version segment must start with a lowercase letter''"
| "validate_ordinary_segment (c # cs) =
     (if \<not> is_lower c
        then Inl ''each non-version segment must start with a lowercase letter''
      else if \<not> list_all segment_char cs
        then Inl (''non-version segments may contain only lowercase letters, digits, '_' or '-'' @ [CHR 0x27])
      else Inr ())"

definition validate_version_segment :: "string \<Rightarrow> string + unit" where
  "validate_version_segment segment =
     (case strip_prefix ''v'' segment of
        None \<Rightarrow> Inl ''the final segment must be an explicit vN version''
      | Some digits \<Rightarrow>
          if digits = [] \<or> \<not> list_all is_digit digits
            then Inl ''the final segment must be an explicit vN version''
          else if 1 < length digits \<and> strip_prefix ''0'' digits \<noteq> None
            then Inl ''the version must use canonical decimal form without leading zeroes''
          else Inr ())"

definition validate_schema_id :: "string \<Rightarrow> ValidationError + unit" where
  "validate_schema_id value =
     (let invalid = VE_SchemaId value; segments = split_on (CHR ''.'') value in
      checks
       [refuse_if (value = []) (invalid ''must not be empty''),
        refuse_if (MAX_SCHEMA_ID_LEN < length value) (invalid ''must be at most 128 bytes''),
        refuse_if (\<not> is_ascii value) (invalid ''must contain only ASCII characters''),
        refuse_if (length segments < 3)
          (invalid ''must contain a namespace, name, and explicit version segment''),
        for_each (\<lambda>segment. map_err invalid (validate_ordinary_segment segment))
          (butlast segments),
        map_err invalid (validate_version_segment (last segments))])"

definition SchemaId_new :: "string \<Rightarrow> ValidationError + SchemaId" where
  "SchemaId_new value = res_bind (validate_schema_id value) (\<lambda>_. Inr (SchemaId value))"

section \<open>Artifact references\<close>

definition MAX_ARTIFACT_ID_LEN :: nat where
  "MAX_ARTIFACT_ID_LEN = 256"

record ArtifactRef =
  ar_schema :: SchemaId
  ar_artifact_id :: string
  ar_digest :: ContentDigest

definition is_alnum :: "char \<Rightarrow> bool" where
  "is_alnum c \<longleftrightarrow> is_lower c \<or> is_upper c \<or> is_digit c"

definition artifact_id_char :: "char \<Rightarrow> bool" where
  "artifact_id_char c \<longleftrightarrow> is_alnum c \<or> c \<in> set ''._-:/@+''"

definition validate_artifact_id :: "string \<Rightarrow> ValidationError + unit" where
  "validate_artifact_id value =
     (let invalid = VE_ArtifactId value in
      checks
       [refuse_if (value = []) (invalid ''must not be empty''),
        refuse_if (MAX_ARTIFACT_ID_LEN < length value) (invalid ''must be at most 256 bytes''),
        refuse_if (\<not> is_ascii value) (invalid ''must contain only ASCII characters''),
        refuse_if (case value of [] \<Rightarrow> True | c # cs \<Rightarrow> \<not> is_alnum c)
          (invalid ''must start with an ASCII letter or digit''),
        refuse_if (\<not> list_all artifact_id_char (tl value))
          (invalid (''may contain only ASCII letters, digits, '.', '_', '-', ':', '/', '@', or '+'' @ [CHR 0x27]))])"

definition ArtifactRef_new ::
  "SchemaId \<Rightarrow> string \<Rightarrow> ContentDigest \<Rightarrow> ValidationError + ArtifactRef"
where
  "ArtifactRef_new schema artifact_id digest =
     res_bind (validate_artifact_id artifact_id)
       (\<lambda>_. Inr \<lparr>ar_schema = schema, ar_artifact_id = artifact_id, ar_digest = digest\<rparr>)"

definition ArtifactRef_into_parts :: "ArtifactRef \<Rightarrow> SchemaId \<times> string \<times> ContentDigest" where
  "ArtifactRef_into_parts r = (ar_schema r, ar_artifact_id r, ar_digest r)"

section \<open>Refusals\<close>

definition MAX_REFUSAL_CODE_LEN :: nat where
  "MAX_REFUSAL_CODE_LEN = 96"

definition MAX_REFUSAL_MESSAGE_LEN :: nat where
  "MAX_REFUSAL_MESSAGE_LEN = 1024"

datatype RefusalCode = RefusalCode (code_as_str: string)

definition code_char :: "char \<Rightarrow> bool" where
  "code_char c \<longleftrightarrow> is_lower c \<or> is_digit c \<or> c = CHR ''_''"

fun validate_code_segment :: "(string \<Rightarrow> ValidationError) \<Rightarrow> string \<Rightarrow> ValidationError + unit" where
  "validate_code_segment invalid [] = Inl (invalid ''each segment must start with a lowercase letter'')"
| "validate_code_segment invalid (c # cs) =
     (if \<not> is_lower c then Inl (invalid ''each segment must start with a lowercase letter'')
      else if \<not> list_all code_char cs
        then Inl (invalid (''segments may contain only lowercase letters, digits, or '_'' @ [CHR 0x27]))
      else Inr ())"

definition validate_code :: "string \<Rightarrow> ValidationError + unit" where
  "validate_code value =
     (let invalid = VE_RefusalCode value in
      checks
       [refuse_if (value = []) (invalid ''must not be empty''),
        refuse_if (MAX_REFUSAL_CODE_LEN < length value) (invalid ''must be at most 96 bytes''),
        refuse_if (\<not> is_ascii value) (invalid ''must contain only ASCII characters''),
        for_each (validate_code_segment invalid) (split_on (CHR ''.'') value)])"

definition RefusalCode_new :: "string \<Rightarrow> ValidationError + RefusalCode" where
  "RefusalCode_new value = res_bind (validate_code value) (\<lambda>_. Inr (RefusalCode value))"

definition validate_message :: "string \<Rightarrow> ValidationError + unit" where
  "validate_message value =
     (let invalid = VE_RefusalMessage in
      checks
       [refuse_if (value = []) (invalid ''must not be empty''),
        refuse_if (MAX_REFUSAL_MESSAGE_LEN < length value) (invalid ''must be at most 1024 bytes''),
        refuse_if (trim value \<noteq> value) (invalid ''must not have leading or trailing whitespace''),
        refuse_if (has_control value) (invalid ''must not contain control characters'')])"

record Refusal =
  rf_code :: RefusalCode
  rf_message :: string
  rf_retryable :: bool
  rf_artifact_ref :: "ArtifactRef option"

definition Refusal_new ::
  "RefusalCode \<Rightarrow> string \<Rightarrow> bool \<Rightarrow> ArtifactRef option \<Rightarrow> ValidationError + Refusal"
where
  "Refusal_new code message retryable artifact_ref =
     res_bind (validate_message message)
       (\<lambda>_. Inr \<lparr>rf_code = code, rf_message = message, rf_retryable = retryable,
                 rf_artifact_ref = artifact_ref\<rparr>)"

definition Refusal_into_parts :: "Refusal \<Rightarrow> RefusalCode \<times> string \<times> bool \<times> ArtifactRef option" where
  "Refusal_into_parts r = (rf_code r, rf_message r, rf_retryable r, rf_artifact_ref r)"


section \<open>The contract of the identifier types\<close>

text \<open>
  What every identifier type of the crate promises: an accepted value is not empty, not
  longer than its bound and made of plain characters. A client may then print, trim and
  embed it without loss, whatever the type.
\<close>

locale validated_text =
  fixes accepts :: "string \<Rightarrow> bool"
    and max_len :: nat
  assumes accepts_nonempty: "accepts v \<Longrightarrow> v \<noteq> []"
    and accepts_bounded: "accepts v \<Longrightarrow> length v \<le> max_len"
    and accepts_plain: "accepts v \<Longrightarrow> list_all plain_char v"
begin

lemma accepted_trim: "accepts v \<Longrightarrow> trim v = v"
  by (simp add: trim_plain accepts_plain)

lemma accepted_no_control: "accepts v \<Longrightarrow> \<not> has_control v"
  by (simp add: has_control_plain accepts_plain)

lemma accepted_debug: "accepts v \<Longrightarrow> debug_str v = [CHR 0x22] @ v @ [CHR 0x22]"
  by (simp add: debug_str_plain accepts_plain)

lemma accepted_is_message:
  "accepts v \<Longrightarrow> max_len \<le> MAX_REFUSAL_MESSAGE_LEN \<Longrightarrow> validate_message v = Inr ()"
  using accepts_nonempty [of v] accepts_bounded [of v] accepted_trim [of v]
    accepted_no_control [of v]
  by (simp add: validate_message_def res_ok)

end

lemma plain_char_lower: "is_lower c \<Longrightarrow> plain_char c"
  by (auto simp: is_lower_def plain_char_def in_range_def)

lemma plain_char_upper: "is_upper c \<Longrightarrow> plain_char c"
  by (auto simp: is_upper_def plain_char_def in_range_def)

lemma plain_char_digit: "is_digit c \<Longrightarrow> plain_char c"
  by (auto simp: is_digit_def plain_char_def in_range_def)

lemma plain_char_segment: "segment_char c \<Longrightarrow> plain_char c"
  by (auto simp: segment_char_def plain_char_lower plain_char_digit)
    (simp_all add: plain_char_def in_range_def)

lemma plain_char_artifact_id: "artifact_id_char c \<Longrightarrow> plain_char c"
  by (auto simp: artifact_id_char_def is_alnum_def plain_char_lower plain_char_upper plain_char_digit)
    (simp_all add: plain_char_def in_range_def)

lemma plain_char_code: "code_char c \<Longrightarrow> plain_char c"
  by (auto simp: code_char_def plain_char_lower plain_char_digit)
    (simp add: plain_char_def in_range_def)

lemma plain_char_hex: "in_range 48 57 c \<or> in_range 97 102 c \<Longrightarrow> plain_char c"
  by (auto simp: plain_char_def in_range_def)

section \<open>Grammars\<close>

text \<open>The grammar of the documentation of \<open>SchemaId\<close>, for one ordinary segment.\<close>

definition ordinary_segment :: "string \<Rightarrow> bool" where
  "ordinary_segment seg \<longleftrightarrow> seg \<noteq> [] \<and> is_lower (hd seg) \<and> list_all segment_char (tl seg)"

definition code_segment :: "string \<Rightarrow> bool" where
  "code_segment seg \<longleftrightarrow> seg \<noteq> [] \<and> is_lower (hd seg) \<and> list_all code_char (tl seg)"

lemma validate_ordinary_segment_ok [res_ok]:
  "validate_ordinary_segment seg = Inr () \<longleftrightarrow> ordinary_segment seg"
  by (cases seg) (auto simp: ordinary_segment_def)

lemma validate_code_segment_ok [res_ok]:
  "validate_code_segment invalid seg = Inr () \<longleftrightarrow> code_segment seg"
  by (cases seg) (auto simp: code_segment_def)

lemma strip_zero_iff: "strip_prefix ''0'' ds \<noteq> None \<longleftrightarrow> ds \<noteq> [] \<and> hd ds = CHR ''0''"
  by (cases ds) auto

lemma validate_version_segment_ok [res_ok]:
  "validate_version_segment seg = Inr () \<longleftrightarrow> (\<exists>n. seg = ''v'' @ show_nat n)"
proof (cases "strip_prefix ''v'' seg")
  case None
  then have "seg \<noteq> ''v'' @ ds" for ds by (metis option.distinct(1) strip_prefix_append)
  with None show ?thesis by (auto simp: validate_version_segment_def)
next
  case (Some ds)
  then have seg: "seg = ''v'' @ ds" by (simp add: strip_prefix_iff)
  have "validate_version_segment seg = Inr () \<longleftrightarrow> canonical_decimal ds"
    using Some strip_zero_iff [of ds]
    by (cases ds) (auto simp: validate_version_segment_def canonical_decimal_def)
  with seg show ?thesis by (auto simp: canonical_decimal_iff)
qed

lemma ordinary_segment_plain: "ordinary_segment seg \<Longrightarrow> list_all plain_char seg"
  by (cases seg) (auto simp: ordinary_segment_def list_all_iff plain_char_lower plain_char_segment)

lemma code_segment_plain: "code_segment seg \<Longrightarrow> list_all plain_char seg"
  by (cases seg) (auto simp: code_segment_def list_all_iff plain_char_lower plain_char_code)

lemma version_segment_plain: "list_all plain_char (''v'' @ show_nat n)"
  using show_nat_digits [of n] by (auto simp: list_all_iff plain_char_digit)
    (simp add: plain_char_def in_range_def)

lemma dot_not_segment: "\<not> segment_char (CHR ''.'')" "\<not> is_lower (CHR ''.'')" "\<not> is_digit (CHR ''.'')"
    "\<not> code_char (CHR ''.'')"
  by (simp_all add: segment_char_def code_char_def is_lower_def is_digit_def in_range_def)

lemma ordinary_segment_no_dot: "ordinary_segment seg \<Longrightarrow> CHR ''.'' \<notin> set seg"
  by (cases seg) (auto simp: ordinary_segment_def list_all_iff dot_not_segment)

lemma code_segment_no_dot: "code_segment seg \<Longrightarrow> CHR ''.'' \<notin> set seg"
  by (cases seg) (auto simp: code_segment_def list_all_iff dot_not_segment)

lemma version_segment_no_dot: "CHR ''.'' \<notin> set (''v'' @ show_nat n)"
  using show_nat_digits [of n] by (auto simp: list_all_iff dot_not_segment)

lemma list_all_join_with:
  "list_all P sep \<Longrightarrow> list_all (list_all P) segs \<Longrightarrow> list_all P (join_with sep segs)"
  by (induction sep segs rule: join_with.induct) auto

lemma plain_dot: "plain_char (CHR ''.'')"
  by (simp add: plain_char_def in_range_def)

section \<open>What the validators accept\<close>

lemma validate_schema_id_ok [res_ok]:
  "validate_schema_id v = Inr () \<longleftrightarrow>
     v \<noteq> [] \<and> length v \<le> MAX_SCHEMA_ID_LEN \<and> is_ascii v \<and> 3 \<le> length (split_on (CHR ''.'') v)
     \<and> list_all ordinary_segment (butlast (split_on (CHR ''.'') v))
     \<and> (\<exists>n. last (split_on (CHR ''.'') v) = ''v'' @ show_nat n)"
  by (auto simp: validate_schema_id_def Let_def res_ok list_all_iff not_less)

lemma validate_artifact_id_ok [res_ok]:
  "validate_artifact_id v = Inr () \<longleftrightarrow>
     v \<noteq> [] \<and> length v \<le> MAX_ARTIFACT_ID_LEN \<and> is_ascii v
     \<and> is_alnum (hd v) \<and> list_all artifact_id_char (tl v)"
  by (cases v) (auto simp: validate_artifact_id_def Let_def res_ok not_less)

lemma validate_code_ok [res_ok]:
  "validate_code v = Inr () \<longleftrightarrow>
     v \<noteq> [] \<and> length v \<le> MAX_REFUSAL_CODE_LEN \<and> is_ascii v
     \<and> list_all code_segment (split_on (CHR ''.'') v)"
  by (auto simp: validate_code_def Let_def res_ok not_less list_all_iff)

lemma ContentDigest_new_ok:
  "ContentDigest_new v = Inr d \<longleftrightarrow>
     d = ContentDigest v \<and>
     (\<exists>hx. v = SHA256_PREFIX @ hx \<and> length hx = SHA256_HEX_LEN
           \<and> list_all (\<lambda>c. in_range 48 57 c \<or> in_range 97 102 c) hx)"
  by (auto simp: ContentDigest_new_def strip_prefix_iff split: option.splits)

lemma schema_id_decompose:
  assumes "validate_schema_id v = Inr ()"
  obtains segs n where "v = join_with ''.'' (segs @ [''v'' @ show_nat n])"
    and "2 \<le> length segs" and "list_all ordinary_segment segs"
proof -
  let ?s = "split_on (CHR ''.'') v"
  from assms obtain n where n: "last ?s = ''v'' @ show_nat n"
    and segs: "list_all ordinary_segment (butlast ?s)" "3 \<le> length ?s"
    by (auto simp: res_ok)
  have "v = join_with ''.'' (butlast ?s @ [last ?s])"
    by (simp add: join_split_on)
  with n segs show thesis by (intro that [of "butlast ?s" n]) auto
qed

lemma schema_id_compose:
  assumes segs: "2 \<le> length segs" "list_all ordinary_segment segs"
    and v: "v = join_with ''.'' (segs @ [''v'' @ show_nat n])"
  shows "split_on (CHR ''.'') v = segs @ [''v'' @ show_nat n]" and "list_all plain_char v"
proof -
  have "\<forall>x \<in> set (segs @ [''v'' @ show_nat n]). CHR ''.'' \<notin> set x"
    using segs(2) version_segment_no_dot [of n]
    by (auto simp: list_all_iff dest: ordinary_segment_no_dot)
  then show "split_on (CHR ''.'') v = segs @ [''v'' @ show_nat n]"
    unfolding v by (intro split_join_with) auto
  have "list_all (list_all plain_char) (segs @ [''v'' @ show_nat n])"
    using segs(2) version_segment_plain [of n]
    by (auto simp: list_all_iff dest: ordinary_segment_plain [unfolded list_all_iff])
  then show "list_all plain_char v"
    unfolding v by (intro list_all_join_with) (simp_all add: plain_dot)
qed

lemma schema_id_accepts_plain: "validate_schema_id v = Inr () \<Longrightarrow> list_all plain_char v"
  by (metis schema_id_decompose schema_id_compose(2))

lemma code_accepts_plain:
  assumes "validate_code v = Inr ()" shows "list_all plain_char v"
proof -
  have "list_all plain_char (join_with ''.'' (split_on (CHR ''.'') v))"
    using assms by (intro list_all_join_with)
      (auto simp: res_ok plain_dot list_all_iff dest: code_segment_plain [unfolded list_all_iff])
  then show ?thesis by (simp add: join_split_on)
qed

lemma artifact_id_accepts_plain:
  "validate_artifact_id v = Inr () \<Longrightarrow> list_all plain_char v"
  by (cases v) (auto simp: res_ok list_all_iff plain_char_artifact_id artifact_id_char_def)

interpretation schema_text: validated_text "\<lambda>v. validate_schema_id v = Inr ()" MAX_SCHEMA_ID_LEN
  by unfold_locales (simp_all add: schema_id_accepts_plain, simp_all add: res_ok)

interpretation artifact_text: validated_text "\<lambda>v. validate_artifact_id v = Inr ()" MAX_ARTIFACT_ID_LEN
  by unfold_locales (simp_all add: artifact_id_accepts_plain, simp_all add: res_ok)

interpretation code_text: validated_text "\<lambda>v. validate_code v = Inr ()" MAX_REFUSAL_CODE_LEN
  by unfold_locales (simp_all add: code_accepts_plain, simp_all add: res_ok)

section \<open>Properties\<close>

text \<open>
  The code accepts exactly the documented grammar of schema identifiers: at least two
  ordinary segments and a final \<open>v\<close> followed by the decimal form of a number, joined by
  dots, in at most 128 bytes. The path and the version of an accepted identifier are
  determined by it.
\<close>

theorem schema_id_grammar:
  "SchemaId_new v = Inr (SchemaId v) \<longleftrightarrow>
     length v \<le> 128 \<and>
     (\<exists>!p. v = join_with ''.'' (fst p @ [''v'' @ show_nat (snd p)])
           \<and> 2 \<le> length (fst p) \<and> list_all ordinary_segment (fst p))"
proof -
  have new: "SchemaId_new v = Inr (SchemaId v) \<longleftrightarrow> validate_schema_id v = Inr ()"
    by (auto simp: SchemaId_new_def res_ok)
  have uniq: "segs = segs' \<and> n = n'"
    if "2 \<le> length segs" "list_all ordinary_segment segs"
      "v = join_with ''.'' (segs @ [''v'' @ show_nat n])"
      "2 \<le> length segs'" "list_all ordinary_segment segs'"
      "v = join_with ''.'' (segs' @ [''v'' @ show_nat n'])" for segs segs' n n'
    using schema_id_compose(1) [OF that(1-3)] schema_id_compose(1) [OF that(4-6)] by simp
  show ?thesis
  proof (intro iffI conjI)
    assume "SchemaId_new v = Inr (SchemaId v)"
    then have ok: "validate_schema_id v = Inr ()" by (simp add: new)
    then show "length v \<le> 128" by (simp add: res_ok MAX_SCHEMA_ID_LEN_def)
    from ok obtain segs n where "v = join_with ''.'' (segs @ [''v'' @ show_nat n])"
      "2 \<le> length segs" "list_all ordinary_segment segs" by (rule schema_id_decompose)
    with uniq show "\<exists>!p. v = join_with ''.'' (fst p @ [''v'' @ show_nat (snd p)])
        \<and> 2 \<le> length (fst p) \<and> list_all ordinary_segment (fst p)"
      by (intro ex1I [of _ "(segs, n)"]) (auto simp: prod_eq_iff)
  next
    assume r: "length v \<le> 128 \<and> (\<exists>!p. v = join_with ''.'' (fst p @ [''v'' @ show_nat (snd p)])
        \<and> 2 \<le> length (fst p) \<and> list_all ordinary_segment (fst p))"
    then obtain segs n where v: "v = join_with ''.'' (segs @ [''v'' @ show_nat n])"
      and segs: "2 \<le> length segs" "list_all ordinary_segment segs"
      by (metis (no_types, lifting))
    note c = schema_id_compose [OF segs v]
    from c(1) have "v \<noteq> []" using segs by (cases v) auto
    with r c segs is_ascii_plain [OF c(2)] show "SchemaId_new v = Inr (SchemaId v)"
      by (simp add: new res_ok MAX_SCHEMA_ID_LEN_def)
  qed
qed

text \<open>
  Refusal codes accepted by the code are the dot-separated sequences of lower-case
  segments of the documentation, in at most 96 bytes.
\<close>

lemma refusal_code_grammar:
  "RefusalCode_new v = Inr (RefusalCode v) \<longleftrightarrow>
     length v \<le> 96 \<and>
     (\<exists>segs. segs \<noteq> [] \<and> v = join_with ''.'' segs \<and> list_all code_segment segs)"
proof -
  have new: "RefusalCode_new v = Inr (RefusalCode v) \<longleftrightarrow> validate_code v = Inr ()"
    by (auto simp: RefusalCode_new_def res_ok)
  show ?thesis
  proof (intro iffI conjI)
    assume "RefusalCode_new v = Inr (RefusalCode v)"
    then have ok: "length v \<le> MAX_REFUSAL_CODE_LEN"
      "list_all code_segment (split_on (CHR ''.'') v)" by (simp_all add: new res_ok)
    then show "length v \<le> 96" by (simp add: MAX_REFUSAL_CODE_LEN_def)
    from ok(2) show "\<exists>segs. segs \<noteq> [] \<and> v = join_with ''.'' segs \<and> list_all code_segment segs"
      by (metis join_split_on split_on_nonempty)
  next
    assume r: "length v \<le> 96 \<and>
      (\<exists>segs. segs \<noteq> [] \<and> v = join_with ''.'' segs \<and> list_all code_segment segs)"
    then obtain segs where segs: "segs \<noteq> []" "v = join_with ''.'' segs" "list_all code_segment segs"
      by blast
    have split: "split_on (CHR ''.'') v = segs"
      unfolding segs(2) using segs(1,3)
      by (intro split_join_with) (auto simp: list_all_iff dest: code_segment_no_dot)
    have "list_all plain_char v"
      unfolding segs(2) using segs(3)
      by (intro list_all_join_with)
        (auto simp: plain_dot list_all_iff dest: code_segment_plain [unfolded list_all_iff])
    moreover from split segs have "v \<noteq> []"
      by (cases v) (auto simp: code_segment_def)
    ultimately show "RefusalCode_new v = Inr (RefusalCode v)"
      using r split segs(3) by (simp add: new res_ok MAX_REFUSAL_CODE_LEN_def is_ascii_plain)
  qed
qed

text \<open>
  An accepted schema identifier, artifact identifier or refusal code is quoted in
  messages without any escape, is unchanged by trimming and is itself an acceptable
  refusal message.
\<close>

lemma identifiers_render_verbatim:
  assumes "validate_schema_id v = Inr () \<or> validate_artifact_id v = Inr () \<or> validate_code v = Inr ()"
  shows "debug_str v = [CHR 0x22] @ v @ [CHR 0x22] \<and> trim v = v \<and> validate_message v = Inr ()"
  using assms
  by (elim disjE)
    (simp_all add: schema_text.accepted_debug schema_text.accepted_trim
      schema_text.accepted_is_message artifact_text.accepted_debug artifact_text.accepted_trim
      artifact_text.accepted_is_message code_text.accepted_debug code_text.accepted_trim
      code_text.accepted_is_message MAX_SCHEMA_ID_LEN_def MAX_ARTIFACT_ID_LEN_def
      MAX_REFUSAL_CODE_LEN_def MAX_REFUSAL_MESSAGE_LEN_def)

text \<open>
  The wire type \<open>ContentDigest\<close> and the predicate \<open>is_sha256_digest\<close> of the inquiry
  module, written separately, accept the same strings, and the digits of an accepted
  digest give the digest back.
\<close>

theorem content_digest_equivalence:
  "is_ok (ContentDigest_new v) = is_sha256_digest v
   \<and> (is_sha256_digest v \<longrightarrow>
        ContentDigest_new (''sha256:'' @ ContentDigest_hex (ContentDigest v)) = Inr (ContentDigest v))"
proof -
  have hex: "in_range 48 57 c \<or> in_range 97 102 c \<longleftrightarrow> is_lower_hex c" for c
    by (simp add: is_lower_hex_def is_digit_def)
  have eq: "is_ok (ContentDigest_new v) = is_sha256_digest v" for v
    by (auto simp: ContentDigest_new_def is_sha256_digest_def SHA256_PREFIX_def
        DIGEST_ALGORITHM_PREFIX_def SHA256_HEX_LEN_def hex split: option.splits)
  moreover have "ContentDigest_new (''sha256:'' @ ContentDigest_hex (ContentDigest v))
      = Inr (ContentDigest v)" if "is_sha256_digest v"
  proof -
    from that have "is_ok (ContentDigest_new v)" by (simp add: eq)
    then obtain d where d: "ContentDigest_new v = Inr d" by (auto simp: is_ok_iff)
    then obtain hx where v: "v = ''sha256:'' @ hx" and "d = ContentDigest v"
      by (auto simp: ContentDigest_new_ok SHA256_PREFIX_def)
    moreover from v have "''sha256:'' @ ContentDigest_hex (ContentDigest v) = v"
      by (simp add: ContentDigest_hex_def SHA256_PREFIX_def)
    ultimately show ?thesis using d by simp
  qed
  ultimately show ?thesis by blast
qed

theorem content_digest_equivalence_witness:
  "is_sha256_digest (''sha256:'' @ replicate 64 (CHR ''a''))
   \<and> ContentDigest_new (''sha256:'' @ ContentDigest_hex (ContentDigest (''sha256:'' @ replicate 64 (CHR ''a''))))
       = Inr (ContentDigest (''sha256:'' @ replicate 64 (CHR ''a'')))"
proof -
  have "is_sha256_digest (''sha256:'' @ replicate 64 (CHR ''a''))" by code_simp
  then show ?thesis
    using content_digest_equivalence [of "''sha256:'' @ replicate 64 (CHR ''a'')"] by blast
qed

end
