(* ===== verification/Inquiry_Profile.thy ===== *)
theory Inquiry_Profile
  imports Prelude
begin

text \<open>
  Governed inquiry V0, first part of \<open>crates/nq-core/src/inquiry.rs\<close>: the closed
  vocabularies, TLS targets, candidate plans, profiles, the profile catalog and its
  resolution, and the admission of a plan as a content-addressed request.

  \<open>InquiryValidationError\<close>, \<open>InquiryResolutionError\<close> and \<open>DigestError\<close> wrap a
  message, and callers read that message, so an error is its message string. A struct is
  serialised by a \<open>_json\<close> function, field by field as \<open>serde\<close> derives it.
\<close>

section \<open>Constants\<close>

definition INQUIRY_PLAN_SCHEMA_V0 :: string where
  "INQUIRY_PLAN_SCHEMA_V0 = ''nq.inquiry_plan.v0''"

definition INQUIRY_PROFILE_SCHEMA_V0 :: string where
  "INQUIRY_PROFILE_SCHEMA_V0 = ''nq.inquiry_profile.v0''"

definition INQUIRY_PROFILE_CATALOG_SCHEMA_V0 :: string where
  "INQUIRY_PROFILE_CATALOG_SCHEMA_V0 = ''nq.inquiry_profile_catalog.v0''"

definition INQUIRY_REQUEST_SCHEMA_V0 :: string where
  "INQUIRY_REQUEST_SCHEMA_V0 = ''nq.inquiry_request.v0''"

definition TLS_CERT_INQUIRY_QUESTION_V0 :: string where
  "TLS_CERT_INQUIRY_QUESTION_V0 =
     ''what certificate did these declared endpoints present, and does it validate within the profile's expiry horizon?''"

definition INQUIRY_REPORT_DEPTH_V0 :: u32 where
  "INQUIRY_REPORT_DEPTH_V0 = 0"

definition INQUIRY_SURVEY_DEPTH_V0 :: u32 where
  "INQUIRY_SURVEY_DEPTH_V0 = 1"

section \<open>Closed vocabularies\<close>

datatype InquiryVersionV0 = V0

fun InquiryVersionV0_as_str :: "InquiryVersionV0 \<Rightarrow> string" where
  "InquiryVersionV0_as_str V0 = ''v0''"

datatype InquiryQuestionV0 =
    FindingOperationalActivity
  | TlsCertificatePresentationAndExpiryHorizon

fun InquiryQuestionV0_str :: "InquiryQuestionV0 \<Rightarrow> string" where
  "InquiryQuestionV0_str FindingOperationalActivity = ''finding_operational_activity''"
| "InquiryQuestionV0_str TlsCertificatePresentationAndExpiryHorizon =
     ''tls_certificate_presentation_and_expiry_horizon''"

datatype InquiryDisposition =
    OperationallyActive | NotOperationallyActive | CannotTestify | PerTargetOutcomes

fun InquiryDisposition_as_str :: "InquiryDisposition \<Rightarrow> string" where
  "InquiryDisposition_as_str OperationallyActive = ''operationally_active''"
| "InquiryDisposition_as_str NotOperationallyActive = ''not_operationally_active''"
| "InquiryDisposition_as_str CannotTestify = ''cannot_testify''"
| "InquiryDisposition_as_str PerTargetOutcomes = ''per_target_outcomes''"

datatype InquiryStatusV0 = Answered | Refused

fun InquiryStatusV0_as_str :: "InquiryStatusV0 \<Rightarrow> string" where
  "InquiryStatusV0_as_str Answered = ''answered''"
| "InquiryStatusV0_as_str Refused = ''refused''"

datatype InquiryRefusalKindV0 =
    RootCause
  | FutureState
  | ConsequenceAuthority
  | EvidenceAbsent
  | EvidenceNotCurrent
  | EvidenceSuppressed
  | EvidenceNotAuthenticallyObserved
  | SnapshotUnavailable
  | SnapshotUnsealed
  | SnapshotIncomplete
  | SnapshotAfterAsOf
  | SnapshotTooOld
  | AcquisitionBoundCannotBeHonored
  | RK_ResolutionFailed
  | RK_ConnectionFailed
  | RK_TlsHandshakeFailed
  | GrantRequired
  | GrantMalformed
  | GrantScopeInsufficient
  | GrantDepthInsufficient
  | GrantAcquisitionEnvelopeInsufficient
  | GrantWitnessClassNotPermitted
  | GrantNotApplicableToPassiveInquiry

fun InquiryRefusalKindV0_as_str :: "InquiryRefusalKindV0 \<Rightarrow> string" where
  "InquiryRefusalKindV0_as_str RootCause = ''root_cause''"
| "InquiryRefusalKindV0_as_str FutureState = ''future_state''"
| "InquiryRefusalKindV0_as_str ConsequenceAuthority = ''consequence_authority''"
| "InquiryRefusalKindV0_as_str EvidenceAbsent = ''evidence_absent''"
| "InquiryRefusalKindV0_as_str EvidenceNotCurrent = ''evidence_not_current''"
| "InquiryRefusalKindV0_as_str EvidenceSuppressed = ''evidence_suppressed''"
| "InquiryRefusalKindV0_as_str EvidenceNotAuthenticallyObserved = ''evidence_not_authentically_observed''"
| "InquiryRefusalKindV0_as_str SnapshotUnavailable = ''snapshot_unavailable''"
| "InquiryRefusalKindV0_as_str SnapshotUnsealed = ''snapshot_unsealed''"
| "InquiryRefusalKindV0_as_str SnapshotIncomplete = ''snapshot_incomplete''"
| "InquiryRefusalKindV0_as_str SnapshotAfterAsOf = ''snapshot_after_as_of''"
| "InquiryRefusalKindV0_as_str SnapshotTooOld = ''snapshot_too_old''"
| "InquiryRefusalKindV0_as_str AcquisitionBoundCannotBeHonored = ''acquisition_bound_cannot_be_honored''"
| "InquiryRefusalKindV0_as_str RK_ResolutionFailed = ''resolution_failed''"
| "InquiryRefusalKindV0_as_str RK_ConnectionFailed = ''connection_failed''"
| "InquiryRefusalKindV0_as_str RK_TlsHandshakeFailed = ''tls_handshake_failed''"
| "InquiryRefusalKindV0_as_str GrantRequired = ''grant_required''"
| "InquiryRefusalKindV0_as_str GrantMalformed = ''grant_malformed''"
| "InquiryRefusalKindV0_as_str GrantScopeInsufficient = ''grant_scope_insufficient''"
| "InquiryRefusalKindV0_as_str GrantDepthInsufficient = ''grant_depth_insufficient''"
| "InquiryRefusalKindV0_as_str GrantAcquisitionEnvelopeInsufficient =
     ''grant_acquisition_envelope_insufficient''"
| "InquiryRefusalKindV0_as_str GrantWitnessClassNotPermitted = ''grant_witness_class_not_permitted''"
| "InquiryRefusalKindV0_as_str GrantNotApplicableToPassiveInquiry =
     ''grant_not_applicable_to_passive_inquiry''"

text \<open>The derived order of an enum is the order of its variants.\<close>

fun refusal_kind_index :: "InquiryRefusalKindV0 \<Rightarrow> nat" where
  "refusal_kind_index RootCause = 0"
| "refusal_kind_index FutureState = 1"
| "refusal_kind_index ConsequenceAuthority = 2"
| "refusal_kind_index EvidenceAbsent = 3"
| "refusal_kind_index EvidenceNotCurrent = 4"
| "refusal_kind_index EvidenceSuppressed = 5"
| "refusal_kind_index EvidenceNotAuthenticallyObserved = 6"
| "refusal_kind_index SnapshotUnavailable = 7"
| "refusal_kind_index SnapshotUnsealed = 8"
| "refusal_kind_index SnapshotIncomplete = 9"
| "refusal_kind_index SnapshotAfterAsOf = 10"
| "refusal_kind_index SnapshotTooOld = 11"
| "refusal_kind_index AcquisitionBoundCannotBeHonored = 12"
| "refusal_kind_index RK_ResolutionFailed = 13"
| "refusal_kind_index RK_ConnectionFailed = 14"
| "refusal_kind_index RK_TlsHandshakeFailed = 15"
| "refusal_kind_index GrantRequired = 16"
| "refusal_kind_index GrantMalformed = 17"
| "refusal_kind_index GrantScopeInsufficient = 18"
| "refusal_kind_index GrantDepthInsufficient = 19"
| "refusal_kind_index GrantAcquisitionEnvelopeInsufficient = 20"
| "refusal_kind_index GrantWitnessClassNotPermitted = 21"
| "refusal_kind_index GrantNotApplicableToPassiveInquiry = 22"

lemma refusal_kind_index_inject: "refusal_kind_index a = refusal_kind_index b \<Longrightarrow> a = b"
  by (cases a; cases b; simp)

instantiation InquiryRefusalKindV0 :: linorder
begin

definition less_eq_refusal_kind: "a \<le> b \<longleftrightarrow> refusal_kind_index a \<le> refusal_kind_index b"

definition less_refusal_kind: "a < b \<longleftrightarrow> refusal_kind_index a < refusal_kind_index b"

instance
  by (rule linorder.intro_of_class, rule linorder_by_key [of refusal_kind_index])
    (simp_all add: refusal_kind_index_inject less_eq_refusal_kind less_refusal_kind)

end

datatype InquiryRefusal = InquiryRefusal (rfl_kind: InquiryRefusalKindV0) (rfl_statement: string)

definition InquiryRefusal_key :: "InquiryRefusal \<Rightarrow> InquiryRefusalKindV0 \<times> string" where
  "InquiryRefusal_key r = (rfl_kind r, rfl_statement r)"

instantiation InquiryRefusal :: linorder
begin

definition less_eq_InquiryRefusal: "a \<le> b \<longleftrightarrow> InquiryRefusal_key a \<le> InquiryRefusal_key b"

definition less_InquiryRefusal: "a < b \<longleftrightarrow> InquiryRefusal_key a < InquiryRefusal_key b"

instance
  by (rule linorder.intro_of_class, rule linorder_by_key [of InquiryRefusal_key])
    (simp_all add: less_eq_InquiryRefusal less_InquiryRefusal InquiryRefusal_key_def
      InquiryRefusal.expand)

end

datatype FindingSelectorV0 =
  FindingSelectorV0 (sel_host: string) (sel_kind: string) (sel_subject: string)

definition FindingSelectorV0_key :: "FindingSelectorV0 \<Rightarrow> string \<times> string \<times> string" where
  "FindingSelectorV0_key s = (sel_host s, sel_kind s, sel_subject s)"

instantiation FindingSelectorV0 :: linorder
begin

definition less_eq_FindingSelectorV0: "a \<le> b \<longleftrightarrow> FindingSelectorV0_key a \<le> FindingSelectorV0_key b"

definition less_FindingSelectorV0: "a < b \<longleftrightarrow> FindingSelectorV0_key a < FindingSelectorV0_key b"

instance
  by (rule linorder.intro_of_class, rule linorder_by_key [of FindingSelectorV0_key])
    (simp_all add: less_eq_FindingSelectorV0 less_FindingSelectorV0 FindingSelectorV0_key_def
      FindingSelectorV0.expand)

end

section \<open>TLS targets\<close>

datatype InquiryTlsTargetV0 =
  InquiryTlsTargetV0 (target_id: string) (tgt_host: string) (tgt_port: u16) (tgt_sni: string)

definition InquiryTlsTargetV0_key :: "InquiryTlsTargetV0 \<Rightarrow> string \<times> string \<times> u16 \<times> string" where
  "InquiryTlsTargetV0_key t = (target_id t, tgt_host t, tgt_port t, tgt_sni t)"

instantiation InquiryTlsTargetV0 :: linorder
begin

definition less_eq_InquiryTlsTargetV0:
  "a \<le> b \<longleftrightarrow> InquiryTlsTargetV0_key a \<le> InquiryTlsTargetV0_key b"

definition less_InquiryTlsTargetV0:
  "a < b \<longleftrightarrow> InquiryTlsTargetV0_key a < InquiryTlsTargetV0_key b"

instance
  by (rule linorder.intro_of_class, rule linorder_by_key [of InquiryTlsTargetV0_key])
    (simp_all add: less_eq_InquiryTlsTargetV0 less_InquiryTlsTargetV0 InquiryTlsTargetV0_key_def
      InquiryTlsTargetV0.expand)

end

definition InquiryTlsTargetV0_validate :: "string \<Rightarrow> InquiryTlsTargetV0 \<Rightarrow> string + unit" where
  "InquiryTlsTargetV0_validate field t =
     checks
      [require_nonempty (field @ ''.target_id'') (target_id t),
       require_nonempty (field @ ''.host'') (tgt_host t),
       refuse_if (tgt_port t = 0) (field @ ''.port must be greater than zero''),
       require_nonempty (field @ ''.sni'') (tgt_sni t)]"

definition endpoint :: "InquiryTlsTargetV0 \<Rightarrow> string" where
  "endpoint t =
     (if CHR '':'' \<in> set (tgt_host t) \<and> strip_prefix ''['' (tgt_host t) = None
      then ''['' @ tgt_host t @ '']:'' @ show_word (tgt_port t)
      else tgt_host t @ '':'' @ show_word (tgt_port t))"

datatype InquiryCollectorV0 = TlsCertProbe

fun InquiryCollectorV0_str :: "InquiryCollectorV0 \<Rightarrow> string" where
  "InquiryCollectorV0_str TlsCertProbe = ''tls_cert_probe''"

instantiation InquiryCollectorV0 :: linorder
begin

definition less_eq_InquiryCollectorV0: "(a :: InquiryCollectorV0) \<le> b \<longleftrightarrow> True"

definition less_InquiryCollectorV0: "(a :: InquiryCollectorV0) < b \<longleftrightarrow> False"

instance
  by (rule linorder.intro_of_class, rule linorder_by_key [of "\<lambda>_. 0 :: nat"])
    (simp_all add: less_eq_InquiryCollectorV0 less_InquiryCollectorV0,
     metis InquiryCollectorV0.exhaust)

end

datatype InquiryTlsValidationPolicyV0 = Webpki

fun InquiryTlsValidationPolicyV0_str :: "InquiryTlsValidationPolicyV0 \<Rightarrow> string" where
  "InquiryTlsValidationPolicyV0_str Webpki = ''webpki''"

section \<open>Serialisation of the vocabulary\<close>

definition version_json :: "InquiryVersionV0 \<Rightarrow> json" where
  "version_json v = JStr (InquiryVersionV0_as_str v)"

definition question_json :: "InquiryQuestionV0 \<Rightarrow> json" where
  "question_json q = JStr (InquiryQuestionV0_str q)"

definition collector_json :: "InquiryCollectorV0 \<Rightarrow> json" where
  "collector_json c = JStr (InquiryCollectorV0_str c)"

definition policy_json :: "InquiryTlsValidationPolicyV0 \<Rightarrow> json" where
  "policy_json p = JStr (InquiryTlsValidationPolicyV0_str p)"

definition refusal_json :: "InquiryRefusal \<Rightarrow> json" where
  "refusal_json r =
     JObj [(''kind'', JStr (InquiryRefusalKindV0_as_str (rfl_kind r))),
           (''statement'', JStr (rfl_statement r))]"

definition selector_json :: "FindingSelectorV0 \<Rightarrow> json" where
  "selector_json s =
     JObj [(''host'', JStr (sel_host s)), (''kind'', JStr (sel_kind s)),
           (''subject'', JStr (sel_subject s))]"

definition target_json :: "InquiryTlsTargetV0 \<Rightarrow> json" where
  "target_json t =
     JObj [(''target_id'', JStr (target_id t)), (''host'', JStr (tgt_host t)),
           (''port'', json_word (tgt_port t)), (''sni'', JStr (tgt_sni t))]"

section \<open>The TLS certificate policy of a profile\<close>

record InquiryTlsCertProfileV0 =
  tls_collector :: InquiryCollectorV0
  tls_declared_targets :: "InquiryTlsTargetV0 list"
  tls_max_targets :: u32
  tls_max_concurrency :: u32
  tls_per_target_deadline_ms :: u64
  tls_total_deadline_ms :: u64
  tls_expiry_horizon_days :: u32
  tls_validation_policy :: InquiryTlsValidationPolicyV0
  tls_vantage :: string

definition InquiryTlsCertProfileV0_validate :: "InquiryTlsCertProfileV0 \<Rightarrow> string + unit" where
  "InquiryTlsCertProfileV0_validate p =
     checks
      [refuse_if (tls_declared_targets p = [])
         ''profile.tls_cert.declared_targets must not be empty'',
       refuse_if (tls_max_targets p = 0 \<or> tls_max_targets p > 32)
         ''profile.tls_cert.max_targets must be in 1..=32'',
       refuse_if (length (tls_declared_targets p) > unat (tls_max_targets p))
         ''profile.tls_cert.declared_targets exceeds max_targets'',
       refuse_if (tls_max_concurrency p \<noteq> 1)
         ''profile.tls_cert.max_concurrency must be exactly 1 in V0'',
       refuse_if (tls_per_target_deadline_ms p < 100 \<or> tls_per_target_deadline_ms p > 60000)
         ''profile.tls_cert.per_target_deadline_ms must be in 100..=60000'',
       refuse_if (tls_total_deadline_ms p = 0 \<or> tls_total_deadline_ms p > 300000)
         ''profile.tls_cert.total_deadline_ms must be in 1..=300000'',
       res_bind
         (ok_or ''profile.tls_cert deadline envelope overflow''
           (checked_mul (tls_per_target_deadline_ms p)
             (of_nat (length (tls_declared_targets p)))))
         (\<lambda>serial_deadline.
           refuse_if (tls_total_deadline_ms p < serial_deadline)
             ''profile.tls_cert.total_deadline_ms must cover every declared serial target deadline''),
       refuse_if (tls_expiry_horizon_days p = 0 \<or> tls_expiry_horizon_days p > 3650)
         ''profile.tls_cert.expiry_horizon_days must be in 1..=3650'',
       require_nonempty ''profile.tls_cert.vantage'' (tls_vantage p),
       check_unique (InquiryTlsTargetV0_validate ''profile.tls_cert.declared_targets[]'') target_id
         (\<lambda>t. ''duplicate TLS target_id '' @ debug_str (target_id t)) {}
         (tls_declared_targets p)]"

definition tls_cert_json :: "InquiryTlsCertProfileV0 \<Rightarrow> json" where
  "tls_cert_json p =
     JObj [(''collector'', collector_json (tls_collector p)),
           (''declared_targets'', JArr (map target_json (tls_declared_targets p))),
           (''max_targets'', json_word (tls_max_targets p)),
           (''max_concurrency'', json_word (tls_max_concurrency p)),
           (''per_target_deadline_ms'', json_word (tls_per_target_deadline_ms p)),
           (''total_deadline_ms'', json_word (tls_total_deadline_ms p)),
           (''expiry_horizon_days'', json_word (tls_expiry_horizon_days p)),
           (''validation_policy'', policy_json (tls_validation_policy p)),
           (''vantage'', JStr (tls_vantage p))]"

section \<open>Candidate plans\<close>

record CandidateInquiryPlanV0 =
  plan_schema :: string
  plan_version :: InquiryVersionV0
  plan_profile :: string
  plan_as_of :: string
  plan_targets :: "InquiryTlsTargetV0 list"

definition CandidateInquiryPlanV0_validate ::
  "externals \<Rightarrow> CandidateInquiryPlanV0 \<Rightarrow> string + unit"
where
  "CandidateInquiryPlanV0_validate ext p =
     checks
      [refuse_if (plan_schema p \<noteq> INQUIRY_PLAN_SCHEMA_V0)
         (''unsupported plan schema '' @ debug_str (plan_schema p) @ ''; expected ''
            @ debug_str INQUIRY_PLAN_SCHEMA_V0),
       require_nonempty ''plan.profile'' (plan_profile p),
       discard (parse_rfc3339 ext ''plan.as_of'' (plan_as_of p)),
       check_unique (InquiryTlsTargetV0_validate ''plan.targets[]'') target_id
         (\<lambda>t. ''duplicate plan target_id '' @ debug_str (target_id t)) {} (plan_targets p)]"

section \<open>Profiles\<close>

record InquiryProfileV0 =
  prof_schema :: string
  prof_version :: InquiryVersionV0
  prof_profile_id :: string
  prof_aliases :: "string list"
  prof_question_kind :: InquiryQuestionV0
  prof_question :: string
  prof_selector :: "FindingSelectorV0 option"
  prof_max_snapshot_age_seconds :: "u64 option"
  prof_evidence_limit :: "u32 option"
  prof_tls_cert :: "InquiryTlsCertProfileV0 option"
  prof_coverage :: "string list"
  prof_cannot_testify :: "InquiryRefusal list"

text \<open>The two arms of the match on \<open>question_kind\<close> in \<open>InquiryProfileV0::validate\<close>.\<close>

definition validate_report_question :: "InquiryProfileV0 \<Rightarrow> string + unit" where
  "validate_report_question p =
     (case prof_selector p of
        None \<Rightarrow> Inl ''report profile requires profile.selector''
      | Some selector \<Rightarrow>
          checks
           [require_nonempty ''profile.selector.host'' (sel_host selector),
            require_nonempty ''profile.selector.kind'' (sel_kind selector),
            (case prof_max_snapshot_age_seconds p of
               None \<Rightarrow> Inl ''report profile requires profile.max_snapshot_age_seconds''
             | Some max_age \<Rightarrow>
                 refuse_if (max_age = 0)
                   ''profile.max_snapshot_age_seconds must be greater than zero''),
            (case prof_evidence_limit p of
               None \<Rightarrow> Inl ''report profile requires profile.evidence_limit''
             | Some evidence_limit \<Rightarrow>
                 refuse_if (evidence_limit = 0 \<or> evidence_limit > 1000)
                   ''profile.evidence_limit must be in 1..=1000''),
            refuse_if (prof_tls_cert p \<noteq> None) ''report profile must not declare profile.tls_cert''])"

definition validate_tls_question :: "InquiryProfileV0 \<Rightarrow> string + unit" where
  "validate_tls_question p =
     checks
      [refuse_if (prof_question p \<noteq> TLS_CERT_INQUIRY_QUESTION_V0)
         (''TLS certificate profile question must be '' @ debug_str TLS_CERT_INQUIRY_QUESTION_V0),
       refuse_if (prof_selector p \<noteq> None \<or> prof_max_snapshot_age_seconds p \<noteq> None
           \<or> prof_evidence_limit p \<noteq> None)
         ''TLS certificate profile must not declare report-only selector or evidence bounds'',
       (case prof_tls_cert p of
          None \<Rightarrow> Inl ''TLS certificate profile requires profile.tls_cert''
        | Some tls_cert \<Rightarrow> InquiryTlsCertProfileV0_validate tls_cert),
       refuse_if (\<not> list_ex (\<lambda>r. rfl_kind r = ConsequenceAuthority) (prof_cannot_testify p))
         ''TLS certificate profile must declare a consequence_authority refusal'']"

definition InquiryProfileV0_validate :: "InquiryProfileV0 \<Rightarrow> string + unit" where
  "InquiryProfileV0_validate p =
     checks
      [refuse_if (prof_schema p \<noteq> INQUIRY_PROFILE_SCHEMA_V0)
         (''unsupported profile schema '' @ debug_str (prof_schema p) @ ''; expected ''
            @ debug_str INQUIRY_PROFILE_SCHEMA_V0),
       require_nonempty ''profile.profile_id'' (prof_profile_id p),
       require_nonempty ''profile.question'' (prof_question p),
       (case prof_question_kind p of
          FindingOperationalActivity \<Rightarrow> validate_report_question p
        | TlsCertificatePresentationAndExpiryHorizon \<Rightarrow> validate_tls_question p),
       refuse_if (prof_coverage p = [])
         ''profile.coverage must declare at least one bounded coverage statement'',
       refuse_if (prof_cannot_testify p = [])
         ''profile.cannot_testify must declare at least one refusal'',
       check_unique
         (\<lambda>alias.
           checks
            [require_nonempty ''profile.aliases[]'' alias,
             refuse_if (alias = prof_profile_id p)
               (''profile alias '' @ debug_str alias @ '' duplicates its canonical profile_id'')])
         id (\<lambda>alias. ''duplicate profile alias '' @ debug_str alias) {} (prof_aliases p),
       check_unique (require_nonempty ''profile.coverage[]'') id
         (\<lambda>statement. ''duplicate coverage statement '' @ debug_str statement) {} (prof_coverage p),
       check_unique
         (\<lambda>r. require_nonempty ''profile.cannot_testify[].statement'' (rfl_statement r))
         (\<lambda>r. (rfl_kind r, rfl_statement r))
         (\<lambda>r. ''duplicate cannot_testify entry '' @ InquiryRefusalKindV0_as_str (rfl_kind r) @ '': ''
                 @ debug_str (rfl_statement r)) {} (prof_cannot_testify p)]"

text \<open>The body of \<open>normalized\<close> after validation: profile arrays are sets at this layer.\<close>

definition normalize_profile :: "InquiryProfileV0 \<Rightarrow> InquiryProfileV0" where
  "normalize_profile p =
     p\<lparr>prof_aliases := sort (prof_aliases p),
       prof_coverage := sort (prof_coverage p),
       prof_cannot_testify := sort (prof_cannot_testify p),
       prof_tls_cert :=
         map_option (\<lambda>t. t\<lparr>tls_declared_targets := sort (tls_declared_targets t)\<rparr>) (prof_tls_cert p)\<rparr>"

definition InquiryProfileV0_normalized :: "InquiryProfileV0 \<Rightarrow> string + InquiryProfileV0" where
  "InquiryProfileV0_normalized p =
     res_bind (InquiryProfileV0_validate p) (\<lambda>_. Inr (normalize_profile p))"

definition profile_json :: "InquiryProfileV0 \<Rightarrow> json" where
  "profile_json p =
     JObj ([(''schema'', JStr (prof_schema p)), (''version'', version_json (prof_version p)),
            (''profile_id'', JStr (prof_profile_id p)),
            (''aliases'', JArr (map JStr (prof_aliases p))),
            (''question_kind'', question_json (prof_question_kind p)),
            (''question'', JStr (prof_question p))]
           @ opt_field ''selector'' selector_json (prof_selector p)
           @ opt_field ''max_snapshot_age_seconds'' json_word (prof_max_snapshot_age_seconds p)
           @ opt_field ''evidence_limit'' json_word (prof_evidence_limit p)
           @ opt_field ''tls_cert'' tls_cert_json (prof_tls_cert p)
           @ [(''coverage'', JArr (map JStr (prof_coverage p))),
              (''cannot_testify'', JArr (map refusal_json (prof_cannot_testify p)))])"

definition profile_digest :: "externals \<Rightarrow> InquiryProfileV0 \<Rightarrow> string + string" where
  "profile_digest ext p =
     res_bind (InquiryProfileV0_normalized p) (\<lambda>n. digest_jcs ext (profile_json n))"

section \<open>The profile catalog\<close>

record InquiryProfileCatalogV0 =
  cat_schema :: string
  cat_version :: InquiryVersionV0
  cat_profiles :: "InquiryProfileV0 list"

record ResolvedInquiryProfileV0 =
  res_profile :: InquiryProfileV0
  res_profile_digest :: string

definition profile_label :: "InquiryProfileV0 \<Rightarrow> string" where
  "profile_label p = prof_profile_id p @ ''@'' @ InquiryVersionV0_as_str (prof_version p)"

text \<open>
  The map \<open>names\<close> of \<open>InquiryProfileCatalogV0::validate\<close>: every push of a label under a
  profile identifier or an alias, in order; the owners of a name, sorted and without
  duplicates; and the first name, in the order of the map, that has more than one owner.
\<close>

definition name_pushes :: "InquiryProfileV0 list \<Rightarrow> (string \<times> string) list" where
  "name_pushes ps =
     concat (map (\<lambda>p. (prof_profile_id p, profile_label p)
                      # map (\<lambda>a. (a, profile_label p)) (prof_aliases p)) ps)"

definition name_owners :: "InquiryProfileV0 list \<Rightarrow> string \<Rightarrow> string list" where
  "name_owners ps name =
     remdups_adj (sort (map snd (filter (\<lambda>np. fst np = name) (name_pushes ps))))"

definition ambiguous_name :: "InquiryProfileV0 list \<Rightarrow> string option" where
  "ambiguous_name ps =
     find (\<lambda>name. 1 < length (name_owners ps name)) (sort (remdups (map fst (name_pushes ps))))"

definition InquiryProfileCatalogV0_validate :: "InquiryProfileCatalogV0 \<Rightarrow> string + unit" where
  "InquiryProfileCatalogV0_validate c =
     checks
      [refuse_if (cat_schema c \<noteq> INQUIRY_PROFILE_CATALOG_SCHEMA_V0)
         (''unsupported profile catalog schema '' @ debug_str (cat_schema c) @ ''; expected ''
            @ debug_str INQUIRY_PROFILE_CATALOG_SCHEMA_V0),
       refuse_if (cat_profiles c = []) ''profile catalog declares no profiles'',
       check_unique InquiryProfileV0_validate (\<lambda>p. (prof_profile_id p, prof_version p))
         (\<lambda>p. ''duplicate profile binding '' @ profile_label p) {} (cat_profiles c),
       (case ambiguous_name (cat_profiles c) of
          None \<Rightarrow> Inr ()
        | Some name \<Rightarrow>
            Inl (''profile name or alias '' @ debug_str name @ '' resolves ambiguously to ''
                   @ join_with '', '' (name_owners (cat_profiles c) name)))]"

definition profile_named :: "string \<Rightarrow> InquiryProfileV0 \<Rightarrow> bool" where
  "profile_named selector p \<longleftrightarrow>
     prof_profile_id p = selector \<or> list_ex (\<lambda>a. a = selector) (prof_aliases p)"

definition resolve_one :: "externals \<Rightarrow> InquiryProfileV0 \<Rightarrow> string + ResolvedInquiryProfileV0" where
  "resolve_one ext p =
     res_bind (InquiryProfileV0_normalized p) (\<lambda>n.
     res_bind (profile_digest ext n) (\<lambda>d.
     Inr \<lparr>res_profile = n, res_profile_digest = d\<rparr>))"

fun collect_results :: "('a \<Rightarrow> 'e + 'b) \<Rightarrow> 'a list \<Rightarrow> 'e + 'b list" where
  "collect_results f [] = Inr []"
| "collect_results f (x # xs) =
     res_bind (f x) (\<lambda>y. res_bind (collect_results f xs) (\<lambda>ys. Inr (y # ys)))"

definition resolved_key :: "ResolvedInquiryProfileV0 \<Rightarrow> string \<times> string \<times> string" where
  "resolved_key r =
     (prof_profile_id (res_profile r), InquiryVersionV0_as_str (prof_version (res_profile r)),
      res_profile_digest r)"

definition InquiryProfileCatalogV0_resolve ::
  "externals \<Rightarrow> InquiryProfileCatalogV0 \<Rightarrow> string \<Rightarrow> string + ResolvedInquiryProfileV0"
where
  "InquiryProfileCatalogV0_resolve ext c selector =
     res_bind (InquiryProfileCatalogV0_validate c) (\<lambda>_.
     res_bind (require_nonempty ''profile selector'' selector) (\<lambda>_.
     res_bind (collect_results (resolve_one ext) (filter (profile_named selector) (cat_profiles c)))
       (\<lambda>found.
         case dedup_key resolved_key (sort_key resolved_key found) of
           [] \<Rightarrow> Inl (''profile selector '' @ debug_str selector @ '' did not resolve'')
         | [r] \<Rightarrow> Inr r
         | _ \<Rightarrow> Inl (''profile selector '' @ debug_str selector
                      @ '' resolved to more than one version/digest''))))"

section \<open>Admitted requests\<close>

record InquiryProfileBindingV0 =
  bind_profile_id :: string
  bind_version :: InquiryVersionV0
  bind_profile_digest :: string

definition binding_json :: "InquiryProfileBindingV0 \<Rightarrow> json" where
  "binding_json b =
     JObj [(''profile_id'', JStr (bind_profile_id b)), (''version'', version_json (bind_version b)),
           (''profile_digest'', JStr (bind_profile_digest b))]"

record AdmittedInquiryRequestV0 =
  req_schema :: string
  req_version :: InquiryVersionV0
  req_profile :: InquiryProfileBindingV0
  req_question_kind :: InquiryQuestionV0
  req_question :: string
  req_selector :: "FindingSelectorV0 option"
  req_as_of :: string
  req_requested_targets :: "InquiryTlsTargetV0 list"
  req_admitted_targets :: "InquiryTlsTargetV0 list"
  req_request_digest :: string

definition RequestDigestMaterial :: "AdmittedInquiryRequestV0 \<Rightarrow> json" where
  "RequestDigestMaterial r =
     JObj ([(''schema'', JStr (req_schema r)), (''version'', version_json (req_version r)),
            (''profile'', binding_json (req_profile r)),
            (''question_kind'', question_json (req_question_kind r)),
            (''question'', JStr (req_question r))]
           @ opt_field ''selector'' selector_json (req_selector r)
           @ [(''as_of'', JStr (req_as_of r))]
           @ vec_field ''requested_targets'' target_json (req_requested_targets r)
           @ vec_field ''admitted_targets'' target_json (req_admitted_targets r))"

text \<open>
  The match of \<open>admit\<close> on the question: the selector and the requested targets, which are
  also the admitted ones.
\<close>

definition admit_targets ::
  "CandidateInquiryPlanV0 \<Rightarrow> InquiryProfileV0 \<Rightarrow>
     string + FindingSelectorV0 option \<times> InquiryTlsTargetV0 list"
where
  "admit_targets plan prof =
     (case prof_question_kind prof of
        FindingOperationalActivity \<Rightarrow>
          if plan_targets plan \<noteq> []
          then Inl ''report inquiry plan must not request active targets''
          else Inr (prof_selector prof, [])
      | TlsCertificatePresentationAndExpiryHorizon \<Rightarrow>
          res_bind (ok_or ''resolved TLS profile has no tls_cert policy'' (prof_tls_cert prof)) (\<lambda>tls_cert.
          let requested =
            remdups_adj (sort (if plan_targets plan = [] then tls_declared_targets tls_cert
                               else plan_targets plan))
          in
          res_bind
            (checks
              [refuse_if (requested = []) ''TLS certificate inquiry requires at least one target'',
               refuse_if (length requested > unat (tls_max_targets tls_cert))
                 (''requested '' @ show_nat (length requested)
                    @ '' TLS targets exceeds profile max_targets ''
                    @ show_word (tls_max_targets tls_cert)),
               for_each
                 (\<lambda>t. refuse_if (t \<notin> set (tls_declared_targets tls_cert))
                    (''TLS target '' @ debug_str (target_id t)
                       @ '' is not exactly predeclared by the profile''))
                 requested])
            (\<lambda>_. Inr (None, requested))))"

definition compute_request_digest :: "externals \<Rightarrow> AdmittedInquiryRequestV0 \<Rightarrow> string + string" where
  "compute_request_digest ext r = digest_jcs ext (RequestDigestMaterial r)"

text \<open>The request \<open>admit\<close> builds from a plan, a resolved profile and the admitted targets.\<close>

definition admitted_request ::
  "CandidateInquiryPlanV0 \<Rightarrow> ResolvedInquiryProfileV0 \<Rightarrow> FindingSelectorV0 option \<Rightarrow>
     InquiryTlsTargetV0 list \<Rightarrow> string \<Rightarrow> AdmittedInquiryRequestV0"
where
  "admitted_request plan resolved sel ts d =
     \<lparr>req_schema = INQUIRY_REQUEST_SCHEMA_V0, req_version = V0,
      req_profile =
        \<lparr>bind_profile_id = prof_profile_id (res_profile resolved),
         bind_version = prof_version (res_profile resolved),
         bind_profile_digest = res_profile_digest resolved\<rparr>,
      req_question_kind = prof_question_kind (res_profile resolved),
      req_question = prof_question (res_profile resolved),
      req_selector = sel, req_as_of = plan_as_of plan,
      req_requested_targets = ts, req_admitted_targets = ts, req_request_digest = d\<rparr>"

definition admit ::
  "externals \<Rightarrow> CandidateInquiryPlanV0 \<Rightarrow> ResolvedInquiryProfileV0 \<Rightarrow>
     string + AdmittedInquiryRequestV0"
where
  "admit ext plan resolved =
     res_bind (CandidateInquiryPlanV0_validate ext plan) (\<lambda>_.
     res_bind (InquiryProfileV0_validate (res_profile resolved)) (\<lambda>_.
     res_bind
       (refuse_if (\<not> profile_named (plan_profile plan) (res_profile resolved))
         (''plan profile selector '' @ debug_str (plan_profile plan)
            @ '' does not name resolved profile '' @ profile_label (res_profile resolved))) (\<lambda>_.
     res_bind
       (map_err (\<lambda>e. ''profile digest verification failed: '' @ e)
         (profile_digest ext (res_profile resolved))) (\<lambda>computed.
     res_bind
       (refuse_if (res_profile_digest resolved \<noteq> computed)
         (''resolved profile digest mismatch: supplied '' @ res_profile_digest resolved
            @ '', computed '' @ computed)) (\<lambda>_.
     res_bind (admit_targets plan (res_profile resolved)) (\<lambda>(selector, targets).
     res_bind
       (map_err (\<lambda>e. ''request digest failed: '' @ e)
         (compute_request_digest ext (admitted_request plan resolved selector targets [])))
       (\<lambda>request_digest.
         Inr ((admitted_request plan resolved selector targets [])
                \<lparr>req_request_digest := request_digest\<rparr>))))))))"

definition verify_request_digest :: "externals \<Rightarrow> AdmittedInquiryRequestV0 \<Rightarrow> string + unit" where
  "verify_request_digest ext r =
     checks
      [refuse_if (req_schema r \<noteq> INQUIRY_REQUEST_SCHEMA_V0)
         (''unsupported inquiry request schema '' @ debug_str (req_schema r)),
       discard (parse_rfc3339 ext ''request.as_of'' (req_as_of r)),
       res_bind (compute_request_digest ext r) (\<lambda>computed.
         refuse_if (computed \<noteq> req_request_digest r)
           (''inquiry request digest mismatch: declared '' @ req_request_digest r
              @ '', computed '' @ computed))]"

section \<open>Serialisation is injective\<close>

lemma version_eq: "(v :: InquiryVersionV0) = w"
  by (cases v; cases w) simp

lemma version_json_inject [simp]: "version_json a = version_json b"
  by (simp add: version_eq [of a b])

lemma question_json_inject [simp]: "question_json a = question_json b \<longleftrightarrow> a = b"
  by (cases a; cases b) (simp_all add: question_json_def)

lemma selector_json_inject [simp]: "selector_json a = selector_json b \<longleftrightarrow> a = b"
  by (cases a; cases b) (auto simp: selector_json_def)

lemma target_json_inject [simp]: "target_json a = target_json b \<longleftrightarrow> a = b"
  by (cases a; cases b) (auto simp: target_json_def)

lemma refusal_kind_str_inject [simp]:
  "InquiryRefusalKindV0_as_str a = InquiryRefusalKindV0_as_str b \<longleftrightarrow> a = b"
  by (cases a; cases b) simp_all

lemma refusal_json_inject [simp]: "refusal_json a = refusal_json b \<longleftrightarrow> a = b"
  by (cases a; cases b) (auto simp: refusal_json_def)

lemma binding_json_inject [simp]: "binding_json a = binding_json b \<longleftrightarrow> a = b"
  by (cases a; cases b) (auto simp: binding_json_def version_eq)

lemma inj_json_parts [simp]:
  "inj selector_json" "inj target_json" "inj refusal_json"
  by (simp_all add: inj_def)

lemma collector_json_all [simp]: "collector_json a = collector_json b" "policy_json p = policy_json q"
  by (cases a; cases b; cases p; cases q; simp add: collector_json_def policy_json_def)+

lemma collector_eq: "(a :: InquiryCollectorV0) = b"
  by (cases a; cases b) simp

lemma policy_eq: "(a :: InquiryTlsValidationPolicyV0) = b"
  by (cases a; cases b) simp

lemma tls_cert_json_inject [simp]: "tls_cert_json a = tls_cert_json b \<longleftrightarrow> a = b"
  by (cases a; cases b) (auto simp: tls_cert_json_def collector_eq policy_eq)

lemma inj_tls_cert_json [simp]: "inj tls_cert_json"
  by (simp add: inj_def)

lemma request_material_inject:
  assumes "RequestDigestMaterial x = RequestDigestMaterial y" "req_request_digest x = req_request_digest y"
  shows "x = y"
proof -
  have f: "json_field (RequestDigestMaterial x) n = json_field (RequestDigestMaterial y) n" for n
    using assms(1) by simp
  show ?thesis
    using assms(2) f [of "''schema''"] f [of "''profile''"] f [of "''question_kind''"]
      f [of "''question''"] f [of "''selector''"] f [of "''as_of''"]
      f [of "''requested_targets''"] f [of "''admitted_targets''"]
    by (cases x; cases y)
      (simp add: RequestDigestMaterial_def map_add_def version_eq split: if_splits option.splits)
qed

interpretation sealed_request: sealed_artifact RequestDigestMaterial req_request_digest
  "\<lambda>d r. r\<lparr>req_request_digest := d\<rparr>"
  by unfold_locales (simp add: RequestDigestMaterial_def, simp, rule request_material_inject)

section \<open>What the validators accept\<close>

lemma target_validate_ok [res_ok]:
  "InquiryTlsTargetV0_validate field t = Inr () \<longleftrightarrow>
     trim (target_id t) \<noteq> [] \<and> trim (tgt_host t) \<noteq> [] \<and> tgt_port t \<noteq> 0 \<and> trim (tgt_sni t) \<noteq> []"
  by (auto simp: InquiryTlsTargetV0_validate_def res_ok)

lemma deadline_envelope_no_overflow:
  assumes "per \<le> (60000 :: u64)" "n \<le> 32"
  shows "checked_mul per (of_nat n) = Some (per * of_nat n)"
    and "unat (per * of_nat n) = unat per * n"
proof -
  have "unat per \<le> 60000" using assms(1) by (simp add: word_le_nat_alt)
  then have "unat per * n \<le> 60000 * 32" using assms(2) by (rule mult_le_mono)
  moreover have n: "unat (of_nat n :: u64) = n"
    using assms(2) by (simp add: unat_of_nat take_bit_nat_eq_self)
  ultimately have small: "unat per * unat (of_nat n :: u64) < 2 ^ LENGTH(64)" by simp
  then show "checked_mul per (of_nat n) = Some (per * of_nat n)"
    by (simp add: checked_mul_def)
  show "unat (per * of_nat n) = unat per * n"
    using unat_mult_small [OF small] n by simp
qed

lemma tls_profile_validate_ok:
  "InquiryTlsCertProfileV0_validate p = Inr () \<longleftrightarrow>
     tls_declared_targets p \<noteq> [] \<and> 0 < tls_max_targets p \<and> tls_max_targets p \<le> 32
     \<and> length (tls_declared_targets p) \<le> unat (tls_max_targets p)
     \<and> tls_max_concurrency p = 1
     \<and> 100 \<le> tls_per_target_deadline_ms p \<and> tls_per_target_deadline_ms p \<le> 60000
     \<and> 0 < tls_total_deadline_ms p \<and> tls_total_deadline_ms p \<le> 300000
     \<and> unat (tls_per_target_deadline_ms p) * length (tls_declared_targets p)
         \<le> unat (tls_total_deadline_ms p)
     \<and> 0 < tls_expiry_horizon_days p \<and> tls_expiry_horizon_days p \<le> 3650
     \<and> trim (tls_vantage p) \<noteq> []
     \<and> (\<forall>t \<in> set (tls_declared_targets p).
          InquiryTlsTargetV0_validate ''profile.tls_cert.declared_targets[]'' t = Inr ())
     \<and> distinct (map target_id (tls_declared_targets p))"
  (is "?ok \<longleftrightarrow> ?rhs")
proof (cases "tls_max_targets p \<le> 32 \<and> length (tls_declared_targets p) \<le> unat (tls_max_targets p)
    \<and> tls_per_target_deadline_ms p \<le> 60000")
  case True
  then have "length (tls_declared_targets p) \<le> 32"
    by (auto simp: word_le_nat_alt)
  with True have ov: "checked_mul (tls_per_target_deadline_ms p) (of_nat (length (tls_declared_targets p)))
      = Some (tls_per_target_deadline_ms p * of_nat (length (tls_declared_targets p)))"
    and un: "unat (tls_per_target_deadline_ms p * of_nat (length (tls_declared_targets p)))
      = unat (tls_per_target_deadline_ms p) * length (tls_declared_targets p)"
    by (simp_all add: deadline_envelope_no_overflow)
  show ?thesis
    unfolding InquiryTlsCertProfileV0_validate_def
    by (auto simp: res_ok ov un not_less word_le_nat_alt word_gt_0)
next
  case False
  then show ?thesis
    by (auto simp: InquiryTlsCertProfileV0_validate_def res_ok not_less)
qed

lemma plan_validate_ok:
  "CandidateInquiryPlanV0_validate ext p = Inr () \<longleftrightarrow>
     plan_schema p = INQUIRY_PLAN_SCHEMA_V0 \<and> trim (plan_profile p) \<noteq> []
     \<and> (\<exists>t. rfc3339_parse ext (plan_as_of p) = Inr t)
     \<and> (\<forall>t \<in> set (plan_targets p). InquiryTlsTargetV0_validate ''plan.targets[]'' t = Inr ())
     \<and> distinct (map target_id (plan_targets p))"
  by (auto simp: CandidateInquiryPlanV0_validate_def res_ok is_ok_iff)

lemma validate_report_question_ok:
  "validate_report_question p = Inr () \<longleftrightarrow>
     (\<exists>sel age lim. prof_selector p = Some sel \<and> trim (sel_host sel) \<noteq> [] \<and> trim (sel_kind sel) \<noteq> []
        \<and> prof_max_snapshot_age_seconds p = Some age \<and> 0 < age
        \<and> prof_evidence_limit p = Some lim \<and> 0 < lim \<and> lim \<le> 1000 \<and> prof_tls_cert p = None)"
  by (auto simp: validate_report_question_def res_ok not_less word_gt_0 split: option.splits)

lemma validate_tls_question_ok:
  "validate_tls_question p = Inr () \<longleftrightarrow>
     prof_question p = TLS_CERT_INQUIRY_QUESTION_V0 \<and> prof_selector p = None
     \<and> prof_max_snapshot_age_seconds p = None \<and> prof_evidence_limit p = None
     \<and> (\<exists>t. prof_tls_cert p = Some t \<and> InquiryTlsCertProfileV0_validate t = Inr ())
     \<and> (\<exists>r \<in> set (prof_cannot_testify p). rfl_kind r = ConsequenceAuthority)"
  by (auto simp: validate_tls_question_def res_ok list_ex_iff split: option.splits)

lemma profile_validate_ok:
  "InquiryProfileV0_validate p = Inr () \<longleftrightarrow>
     prof_schema p = INQUIRY_PROFILE_SCHEMA_V0 \<and> trim (prof_profile_id p) \<noteq> [] \<and> trim (prof_question p) \<noteq> []
     \<and> (case prof_question_kind p of
          FindingOperationalActivity \<Rightarrow> validate_report_question p = Inr ()
        | TlsCertificatePresentationAndExpiryHorizon \<Rightarrow> validate_tls_question p = Inr ())
     \<and> prof_coverage p \<noteq> [] \<and> prof_cannot_testify p \<noteq> []
     \<and> (\<forall>a \<in> set (prof_aliases p). trim a \<noteq> [] \<and> a \<noteq> prof_profile_id p) \<and> distinct (prof_aliases p)
     \<and> (\<forall>s \<in> set (prof_coverage p). trim s \<noteq> []) \<and> distinct (prof_coverage p)
     \<and> (\<forall>r \<in> set (prof_cannot_testify p). trim (rfl_statement r) \<noteq> []) \<and> distinct (prof_cannot_testify p)"
proof -
  have "distinct (map (\<lambda>r. (rfl_kind r, rfl_statement r)) rs) = distinct rs" for rs
    by (auto simp: distinct_map inj_on_def InquiryRefusal.expand)
  then show ?thesis
    by (auto simp: InquiryProfileV0_validate_def res_ok split: InquiryQuestionV0.splits)
qed

section \<open>Normalisation\<close>

text \<open>
  Two profiles that declare the same things in another order: the arrays of one are
  permutations of the arrays of the other.
\<close>

definition same_tls_declarations :: "InquiryTlsCertProfileV0 \<Rightarrow> InquiryTlsCertProfileV0 \<Rightarrow> bool" where
  "same_tls_declarations t u \<longleftrightarrow>
     mset (tls_declared_targets u) = mset (tls_declared_targets t)
     \<and> u = t\<lparr>tls_declared_targets := tls_declared_targets u\<rparr>"

definition same_declarations :: "InquiryProfileV0 \<Rightarrow> InquiryProfileV0 \<Rightarrow> bool" where
  "same_declarations p q \<longleftrightarrow>
     mset (prof_aliases q) = mset (prof_aliases p)
     \<and> mset (prof_coverage q) = mset (prof_coverage p)
     \<and> mset (prof_cannot_testify q) = mset (prof_cannot_testify p)
     \<and> rel_option same_tls_declarations (prof_tls_cert p) (prof_tls_cert q)
     \<and> q = p\<lparr>prof_aliases := prof_aliases q, prof_coverage := prof_coverage q,
             prof_cannot_testify := prof_cannot_testify q, prof_tls_cert := prof_tls_cert q\<rparr>"

lemma perm_same:
  assumes "mset xs = mset ys"
  shows "set xs = set ys" "length xs = length ys" "xs = [] \<longleftrightarrow> ys = []"
    "distinct (map f xs) = distinct (map f ys)" "distinct xs = distinct ys"
proof -
  show "set xs = set ys" "length xs = length ys" "distinct xs = distinct ys"
    by (fact mset_eq_setD [OF assms] mset_eq_length [OF assms] mset_eq_imp_distinct_iff [OF assms])+
  then show "xs = [] \<longleftrightarrow> ys = []" by auto
  show "distinct (map f xs) = distinct (map f ys)"
    using assms by (intro mset_eq_imp_distinct_iff) simp
qed

lemma tls_profile_validate_perm:
  assumes "same_tls_declarations t u"
  shows "InquiryTlsCertProfileV0_validate u = Inr () \<longleftrightarrow> InquiryTlsCertProfileV0_validate t = Inr ()"
proof -
  from assms obtain ts where u: "u = t\<lparr>tls_declared_targets := ts\<rparr>"
    and ts: "mset ts = mset (tls_declared_targets t)"
    unfolding same_tls_declarations_def by metis
  show ?thesis
    unfolding tls_profile_validate_ok u by (simp add: perm_same [OF ts] cong: conj_cong)
qed

lemma same_declarationsE:
  assumes "same_declarations p q"
  obtains as cs rs tc where "q = p\<lparr>prof_aliases := as, prof_coverage := cs,
      prof_cannot_testify := rs, prof_tls_cert := tc\<rparr>"
    and "mset as = mset (prof_aliases p)" "mset cs = mset (prof_coverage p)"
      "mset rs = mset (prof_cannot_testify p)"
    and "rel_option same_tls_declarations (prof_tls_cert p) tc"
  using assms unfolding same_declarations_def by metis

lemma same_declarations_validate:
  assumes "same_declarations p q"
  shows "InquiryProfileV0_validate q = Inr () \<longleftrightarrow> InquiryProfileV0_validate p = Inr ()"
proof -
  from assms obtain as cs rs tc where q: "q = p\<lparr>prof_aliases := as, prof_coverage := cs,
      prof_cannot_testify := rs, prof_tls_cert := tc\<rparr>"
    and m: "mset as = mset (prof_aliases p)" "mset cs = mset (prof_coverage p)"
      "mset rs = mset (prof_cannot_testify p)"
    and tc: "rel_option same_tls_declarations (prof_tls_cert p) tc"
    by (rule same_declarationsE)
  have tls: "(\<exists>t. tc = Some t \<and> InquiryTlsCertProfileV0_validate t = Inr ()) \<longleftrightarrow>
      (\<exists>t. prof_tls_cert p = Some t \<and> InquiryTlsCertProfileV0_validate t = Inr ())"
    and none: "tc = None \<longleftrightarrow> prof_tls_cert p = None"
    using tc by (cases rule: option.rel_cases, auto simp: tls_profile_validate_perm)+
  show ?thesis
    unfolding profile_validate_ok validate_report_question_ok validate_tls_question_ok
    by (simp add: q perm_same [OF m(1)] perm_same [OF m(2)] perm_same [OF m(3)] tls none
        split: InquiryQuestionV0.splits)
qed

lemma same_declarations_normalize:
  assumes "same_declarations p q"
  shows "normalize_profile q = normalize_profile p"
proof -
  have s: "sort xs = sort ys" if "mset xs = mset ys" for xs ys :: "'a::linorder list"
    using that by (rule sort_mset_cong)
  have t: "u\<lparr>tls_declared_targets := sort (tls_declared_targets u)\<rparr>
      = t\<lparr>tls_declared_targets := sort (tls_declared_targets t)\<rparr>" if "same_tls_declarations t u" for t u
  proof -
    from that obtain ts where "u = t\<lparr>tls_declared_targets := ts\<rparr>"
      and ts: "mset ts = mset (tls_declared_targets t)"
      unfolding same_tls_declarations_def by metis
    then show ?thesis by (simp add: s [OF ts])
  qed
  from assms obtain as cs rs tc where q: "q = p\<lparr>prof_aliases := as, prof_coverage := cs,
      prof_cannot_testify := rs, prof_tls_cert := tc\<rparr>"
    and m: "mset as = mset (prof_aliases p)" "mset cs = mset (prof_coverage p)"
      "mset rs = mset (prof_cannot_testify p)"
    and tc: "rel_option same_tls_declarations (prof_tls_cert p) tc"
    by (rule same_declarationsE)
  from tc have "map_option (\<lambda>t. t\<lparr>tls_declared_targets := sort (tls_declared_targets t)\<rparr>) tc
     = map_option (\<lambda>t. t\<lparr>tls_declared_targets := sort (tls_declared_targets t)\<rparr>) (prof_tls_cert p)"
    by (auto elim!: option.rel_cases intro: t)
  then show ?thesis
    by (simp add: normalize_profile_def q s [OF m(1)] s [OF m(2)] s [OF m(3)])
qed

lemma same_tls_refl: "same_tls_declarations t (t\<lparr>tls_declared_targets := sort (tls_declared_targets t)\<rparr>)"
  by (simp add: same_tls_declarations_def)

lemma same_tls_sym: "same_tls_declarations t u \<Longrightarrow> same_tls_declarations u t"
  by (cases t; cases u) (simp add: same_tls_declarations_def)

lemma same_tls_trans: "same_tls_declarations t u \<Longrightarrow> same_tls_declarations u v \<Longrightarrow> same_tls_declarations t v"
  by (cases t; cases u; cases v) (simp add: same_tls_declarations_def)

lemma same_declarations_normal_form: "same_declarations p (normalize_profile p)"
  by (cases "prof_tls_cert p") (simp_all add: same_declarations_def normalize_profile_def same_tls_refl)

lemma same_declarations_sym: "same_declarations p q \<Longrightarrow> same_declarations q p"
  by (cases p; cases q) (auto simp: same_declarations_def elim!: option.rel_cases intro: same_tls_sym)

lemma same_declarations_trans: "same_declarations p q \<Longrightarrow> same_declarations q r \<Longrightarrow> same_declarations p r"
  by (cases p; cases q; cases r)
    (auto simp: same_declarations_def elim!: option.rel_cases intro: same_tls_trans)

lemma normalize_eq_iff: "normalize_profile p = normalize_profile q \<longleftrightarrow> same_declarations p q"
  by (metis same_declarations_normal_form same_declarations_normalize same_declarations_sym
      same_declarations_trans)

lemma normalize_idem [simp]: "normalize_profile (normalize_profile p) = normalize_profile p"
  by (rule same_declarations_normalize [OF same_declarations_normal_form])

lemma normalize_validate [simp]:
  "InquiryProfileV0_validate (normalize_profile p) = Inr () \<longleftrightarrow> InquiryProfileV0_validate p = Inr ()"
  by (rule same_declarations_validate [OF same_declarations_normal_form])

lemma profile_normalized_ok [res_ok]:
  "InquiryProfileV0_normalized p = Inr n \<longleftrightarrow> InquiryProfileV0_validate p = Inr () \<and> n = normalize_profile p"
  by (auto simp: InquiryProfileV0_normalized_def res_bind_Inr_iff)

lemma profile_digest_ok [res_ok]:
  "profile_digest ext p = Inr d \<longleftrightarrow>
     InquiryProfileV0_validate p = Inr () \<and> digest_jcs ext (profile_json (normalize_profile p)) = Inr d"
  by (auto simp: profile_digest_def res_bind_Inr_iff profile_normalized_ok)

lemma profile_digest_valid:
  "InquiryProfileV0_validate p = Inr () \<Longrightarrow>
     profile_digest ext p = digest_jcs ext (profile_json (normalize_profile p))"
  by (simp add: profile_digest_def InquiryProfileV0_normalized_def)

lemma inj_selector_word [simp]: "inj (\<lambda>w. JInt (uint (w :: 'w::len word)))"
  by (rule inj_uint_json)

lemma profile_json_inject: "profile_json p = profile_json q \<longleftrightarrow> p = q"
proof
  assume eq: "profile_json p = profile_json q"
  have f: "json_field (profile_json p) n = json_field (profile_json q) n" for n
    using eq by simp
  show "p = q"
    using f [of "''schema''"] f [of "''profile_id''"] f [of "''aliases''"] f [of "''question_kind''"]
      f [of "''question''"] f [of "''selector''"] f [of "''max_snapshot_age_seconds''"]
      f [of "''evidence_limit''"] f [of "''tls_cert''"] f [of "''coverage''"] f [of "''cannot_testify''"]
    by (cases p; cases q)
      (simp add: profile_json_def map_add_def version_eq split: option.splits)
qed simp

section \<open>The catalog\<close>

lemma length_le1_same: "length xs \<le> 1 \<Longrightarrow> x \<in> set xs \<Longrightarrow> y \<in> set xs \<Longrightarrow> x = y"
  by (cases xs) auto

lemma name_owners_mem: "l \<in> set (name_owners ps n) \<longleftrightarrow> (n, l) \<in> set (name_pushes ps)"
  by (force simp: name_owners_def)

lemma named_push:
  "p \<in> set ps \<Longrightarrow> profile_named n p \<Longrightarrow> (n, profile_label p) \<in> set (name_pushes ps)"
  by (auto simp: name_pushes_def profile_named_def list_ex_iff intro!: bexI [of _ p])

lemma ambiguous_name_None:
  "ambiguous_name ps = None \<longleftrightarrow> (\<forall>n \<in> fst ` set (name_pushes ps). length (name_owners ps n) \<le> 1)"
  by (auto simp: ambiguous_name_def find_None_iff not_less)

lemma profile_label_inject: "profile_label p = profile_label q \<longleftrightarrow> prof_profile_id p = prof_profile_id q"
  by (simp add: profile_label_def version_eq [of "prof_version p" "prof_version q"])

lemma catalog_validate_ok [res_ok]:
  "InquiryProfileCatalogV0_validate c = Inr () \<longleftrightarrow>
     cat_schema c = INQUIRY_PROFILE_CATALOG_SCHEMA_V0 \<and> cat_profiles c \<noteq> []
     \<and> (\<forall>p \<in> set (cat_profiles c). InquiryProfileV0_validate p = Inr ())
     \<and> distinct (map prof_profile_id (cat_profiles c)) \<and> ambiguous_name (cat_profiles c) = None"
proof -
  have "distinct (map (\<lambda>p. (prof_profile_id p, prof_version p)) ps) = distinct (map prof_profile_id ps)" for ps
    by (induction ps) (auto simp: version_eq)
  then show ?thesis
    by (auto simp: InquiryProfileCatalogV0_validate_def res_ok split: option.splits)
qed

lemma catalog_name_unique:
  assumes "InquiryProfileCatalogV0_validate c = Inr ()"
    and "p \<in> set (cat_profiles c)" "q \<in> set (cat_profiles c)" "profile_named n p" "profile_named n q"
  shows "p = q"
proof -
  let ?ps = "cat_profiles c"
  from assms(2-5) have pq: "(n, profile_label p) \<in> set (name_pushes ?ps)"
    "(n, profile_label q) \<in> set (name_pushes ?ps)" by (simp_all add: named_push)
  with assms(1) have "length (name_owners ?ps n) \<le> 1"
    by (force simp: res_ok ambiguous_name_None)
  with pq have "profile_label p = profile_label q"
    by (metis length_le1_same name_owners_mem)
  moreover from assms(1) have "distinct (map prof_profile_id ?ps)" by (simp add: res_ok)
  ultimately show ?thesis
    using assms(2,3) by (auto simp: profile_label_inject distinct_map inj_on_def)
qed

lemma distinct_set_singleton: "distinct ys \<Longrightarrow> set ys = {x} \<Longrightarrow> ys = [x]"
  by (cases ys; cases "tl ys") auto

lemma filter_unique:
  assumes "distinct xs" "x \<in> set xs" "P x" "\<And>y. y \<in> set xs \<Longrightarrow> P y \<Longrightarrow> y = x"
  shows "filter P xs = [x]"
proof (rule distinct_set_singleton)
  show "distinct (filter P xs)" by (simp add: assms(1))
  from assms(2-4) show "set (filter P xs) = {x}" 
    unfolding set_filter by blast
qed

lemma catalog_resolve_named:
  assumes c: "InquiryProfileCatalogV0_validate c = Inr ()" and p: "p \<in> set (cat_profiles c)"
    and n: "profile_named sel p" "trim sel \<noteq> []"
  shows "InquiryProfileCatalogV0_resolve ext c sel = resolve_one ext p"
proof -
  from c have "distinct (cat_profiles c)" by (auto simp: res_ok distinct_map)
  then have "filter (profile_named sel) (cat_profiles c) = [p]"
    by (rule filter_unique) (use p n(1) catalog_name_unique [OF c _ p _ n(1)] in blast)+
  with c n show ?thesis
    by (cases "resolve_one ext p")
      (simp_all add: InquiryProfileCatalogV0_resolve_def require_nonempty_def)
qed

lemma catalog_resolve_unnamed:
  assumes "InquiryProfileCatalogV0_validate c = Inr ()" "trim sel \<noteq> []"
    "\<not> list_ex (profile_named sel) (cat_profiles c)"
  shows "InquiryProfileCatalogV0_resolve ext c sel
    = Inl (''profile selector '' @ debug_str sel @ '' did not resolve'')"
proof -
  have "filter (profile_named sel) (cat_profiles c) = []"
    using assms(3) by (auto simp: filter_empty_conv list_ex_iff)
  with assms(1,2) show ?thesis
    by (simp add: InquiryProfileCatalogV0_resolve_def require_nonempty_def)
qed

lemma mset_name_pushes:
  "mset (name_pushes ps) = (\<Sum>p \<in># mset ps. mset ((prof_profile_id p, profile_label p)
      # map (\<lambda>a. (a, profile_label p)) (prof_aliases p)))"
  by (induction ps) (simp_all add: name_pushes_def)

lemma name_pushes_perm: "mset ps = mset qs \<Longrightarrow> mset (name_pushes ps) = mset (name_pushes qs)"
  by (simp only: mset_name_pushes)

lemma catalog_validate_perm:
  assumes "mset (cat_profiles d) = mset (cat_profiles c)" "cat_schema d = cat_schema c"
  shows "InquiryProfileCatalogV0_validate d = Inr () \<longleftrightarrow> InquiryProfileCatalogV0_validate c = Inr ()"
proof -
  have "mset (map snd (filter f (name_pushes (cat_profiles d))))
      = mset (map snd (filter f (name_pushes (cat_profiles c))))" for f
    by (simp add: name_pushes_perm [OF assms(1)])
  then have "name_owners (cat_profiles d) n = name_owners (cat_profiles c) n" for n
    unfolding name_owners_def by (intro arg_cong [where f = remdups_adj] sort_mset_cong)
  moreover have "set (name_pushes (cat_profiles d)) = set (name_pushes (cat_profiles c))"
    by (rule mset_eq_setD [OF name_pushes_perm [OF assms(1)]])
  ultimately have "ambiguous_name (cat_profiles d) = None \<longleftrightarrow> ambiguous_name (cat_profiles c) = None"
    by (simp add: ambiguous_name_None)
  then show ?thesis
    unfolding catalog_validate_ok
    by (simp only: assms(2) perm_same(1,3) [OF assms(1)] perm_same(4) [OF assms(1), of prof_profile_id])
qed

lemma resolve_one_ok [res_ok]:
  "resolve_one ext p = Inr r \<longleftrightarrow>
     InquiryProfileV0_validate p = Inr () \<and> res_profile r = normalize_profile p
     \<and> profile_digest ext p = Inr (res_profile_digest r)"
  by (cases r) (auto simp: resolve_one_def res_bind_Inr_iff profile_normalized_ok profile_digest_ok)

section \<open>Admission\<close>

lemma distinct_remdups_adj_sort: "sorted xs \<Longrightarrow> distinct (remdups_adj xs)"
proof (induction xs rule: remdups_adj.induct)
  case (3 x y xs)
  then show ?case by (auto dest: order_antisym)
qed simp_all

lemma sorted_distinct_remdups_adj_sort: "sorted (remdups_adj (sort xs)) \<and> distinct (remdups_adj (sort xs))"
  by (simp add: distinct_remdups_adj_sort)

lemma admit_targets_ok:
  "admit_targets plan prof = Inr (sel, ts) \<longleftrightarrow>
     (case prof_question_kind prof of
        FindingOperationalActivity \<Rightarrow> plan_targets plan = [] \<and> sel = prof_selector prof \<and> ts = []
      | TlsCertificatePresentationAndExpiryHorizon \<Rightarrow>
          (\<exists>tls. prof_tls_cert prof = Some tls \<and> sel = None
             \<and> ts = remdups_adj (sort (if plan_targets plan = [] then tls_declared_targets tls
                                       else plan_targets plan))
             \<and> ts \<noteq> [] \<and> length ts \<le> unat (tls_max_targets tls) \<and> set ts \<subseteq> set (tls_declared_targets tls)))"
  unfolding admit_targets_def Let_def
  by (cases "prof_question_kind prof"; cases "prof_tls_cert prof")
    (auto simp: res_bind_Inr_iff checks_ok refuse_if_ok for_each_ok not_less)

lemma admitted_request_fields [simp]:
  "req_schema (admitted_request plan resolved sel ts d) = INQUIRY_REQUEST_SCHEMA_V0"
  "req_profile (admitted_request plan resolved sel ts d) =
     \<lparr>bind_profile_id = prof_profile_id (res_profile resolved),
      bind_version = prof_version (res_profile resolved),
      bind_profile_digest = res_profile_digest resolved\<rparr>"
  "req_question_kind (admitted_request plan resolved sel ts d) = prof_question_kind (res_profile resolved)"
  "req_question (admitted_request plan resolved sel ts d) = prof_question (res_profile resolved)"
  "req_selector (admitted_request plan resolved sel ts d) = sel"
  "req_as_of (admitted_request plan resolved sel ts d) = plan_as_of plan"
  "req_requested_targets (admitted_request plan resolved sel ts d) = ts"
  "req_admitted_targets (admitted_request plan resolved sel ts d) = ts"
  "req_request_digest (admitted_request plan resolved sel ts d) = d"
  "(admitted_request plan resolved sel ts d)\<lparr>req_request_digest := d'\<rparr> = admitted_request plan resolved sel ts d'"
  by (simp_all add: admitted_request_def)

lemma request_digest_put [simp]:
  "compute_request_digest ext (r\<lparr>req_request_digest := d\<rparr>) = compute_request_digest ext r"
  by (simp add: compute_request_digest_def sealed_request.material_put)

lemma admitted_request_digest:
  "compute_request_digest ext (admitted_request plan resolved sel ts d)
     = compute_request_digest ext (admitted_request plan resolved sel ts [])"
  using request_digest_put [of ext d "admitted_request plan resolved sel ts []"] by simp

lemma admit_ok:
  "admit ext plan resolved = Inr r \<longleftrightarrow>
     CandidateInquiryPlanV0_validate ext plan = Inr ()
     \<and> InquiryProfileV0_validate (res_profile resolved) = Inr ()
     \<and> profile_named (plan_profile plan) (res_profile resolved)
     \<and> profile_digest ext (res_profile resolved) = Inr (res_profile_digest resolved)
     \<and> (\<exists>sel ts d. admit_targets plan (res_profile resolved) = Inr (sel, ts)
          \<and> compute_request_digest ext (admitted_request plan resolved sel ts []) = Inr d
          \<and> r = admitted_request plan resolved sel ts d)"
  unfolding admit_def
  by (auto simp: res_bind_Inr_iff refuse_if_ok map_err_Inr_iff)

lemma verify_request_digest_ok:
  "verify_request_digest ext r = Inr () \<longleftrightarrow>
     req_schema r = INQUIRY_REQUEST_SCHEMA_V0 \<and> (\<exists>t. rfc3339_parse ext (req_as_of r) = Inr t)
     \<and> compute_request_digest ext r = Inr (req_request_digest r)"
  by (auto simp: verify_request_digest_def res_ok is_ok_iff)

lemma admit_verifies: "admit ext plan resolved = Inr r \<Longrightarrow> verify_request_digest ext r = Inr ()"
  unfolding admit_ok verify_request_digest_ok
  by (auto simp: plan_validate_ok) (metis admitted_request_digest)

lemma tls_profile_of_valid:
  assumes "InquiryProfileV0_validate prof = Inr ()"
    "prof_question_kind prof = TlsCertificatePresentationAndExpiryHorizon"
  obtains tls where "prof_tls_cert prof = Some tls" "InquiryTlsCertProfileV0_validate tls = Inr ()"
  using assms by (auto simp: profile_validate_ok validate_tls_question_ok)

lemma distinct_map_subset: "distinct (map f ys) \<Longrightarrow> set xs \<subseteq> set ys \<Longrightarrow> distinct xs \<Longrightarrow> distinct (map f xs)"
  by (auto simp: distinct_map intro: inj_on_subset)

lemma admit_targets_tls:
  assumes adm: "admit_targets plan prof = Inr (sel, ts)"
    and kind: "prof_question_kind prof = TlsCertificatePresentationAndExpiryHorizon"
    and tls: "prof_tls_cert prof = Some tls" "InquiryTlsCertProfileV0_validate tls = Inr ()"
  shows "sel = None" "ts \<noteq> []" "sorted ts" "distinct ts" "set ts \<subseteq> set (tls_declared_targets tls)"
    "distinct (map target_id ts)" "length ts \<le> length (tls_declared_targets tls)" "length ts \<le> 32"
proof -
  from adm kind tls(1) obtain xs where ts: "ts = remdups_adj (sort xs)" and
    fit: "sel = None" "ts \<noteq> []" "set ts \<subseteq> set (tls_declared_targets tls)"
    by (auto simp: admit_targets_ok)
  show "sel = None" "ts \<noteq> []" "set ts \<subseteq> set (tls_declared_targets tls)" by (fact fit)+
  show so: "sorted ts" and di: "distinct ts"
    using sorted_distinct_remdups_adj_sort [of xs] by (simp_all add: ts)
  have d: "distinct (map target_id (tls_declared_targets tls))"
    and max: "length (tls_declared_targets tls) \<le> 32"
    using tls(2) by (auto simp: tls_profile_validate_ok word_le_nat_alt)
  from d fit(3) di show "distinct (map target_id ts)" by (rule distinct_map_subset)
  from fit(3) di d show le: "length ts \<le> length (tls_declared_targets tls)"
    by (metis distinct_card distinct_map card_mono finite_set)
  from le max show "length ts \<le> 32" by simp
qed

lemma sort_empty [simp]: "sort xs = [] \<longleftrightarrow> xs = []"
  by (metis set_empty set_sort)

lemma sorted_list_set: "remdups_adj (sort xs) = sorted_list_of_set (set xs)"
  by (rule sorted_distinct_set_unique) (simp_all add: sorted_distinct_remdups_adj_sort)

lemma admit_targets_cong:
  assumes "set (plan_targets p) = set (plan_targets q)"
  shows "admit_targets p prof = admit_targets q prof"
proof -
  have e: "plan_targets p = [] \<longleftrightarrow> plan_targets q = []" using assms by (metis set_empty)
  have "remdups_adj (sort (if plan_targets p = [] then ds else plan_targets p))
      = remdups_adj (sort (if plan_targets q = [] then ds else plan_targets q))" for ds
    using assms by (simp add: e sorted_list_set)
  with e show ?thesis by (simp only: admit_targets_def)
qed

lemma admit_targets_complete:
  assumes v: "InquiryProfileV0_validate prof = Inr ()"
    and kind: "prof_question_kind prof = TlsCertificatePresentationAndExpiryHorizon"
    and tls: "prof_tls_cert prof = Some tls" and sub: "set (plan_targets plan) \<subseteq> set (tls_declared_targets tls)"
  shows "\<exists>ts. admit_targets plan prof = Inr (None, ts)"
proof -
  let ?xs = "if plan_targets plan = [] then tls_declared_targets tls else plan_targets plan"
  let ?ts = "remdups_adj (sort ?xs)"
  from v kind tls have ok: "InquiryTlsCertProfileV0_validate tls = Inr ()"
    by (metis tls_profile_of_valid option.inject)
  have set: "set ?ts \<subseteq> set (tls_declared_targets tls)" using sub by auto
  moreover have "?ts \<noteq> []" using ok by (auto simp: tls_profile_validate_ok)
  moreover have "length ?ts \<le> length (tls_declared_targets tls)"
    using set sorted_distinct_remdups_adj_sort [of ?xs]
    by (metis card_length card_mono distinct_card finite_set order_trans)
  ultimately have "admit_targets plan prof = Inr (None, ?ts)"
    using ok kind tls by (simp add: admit_targets_ok tls_profile_validate_ok)
  then show ?thesis by blast
qed

lemma normalize_fields [simp]:
  "prof_profile_id (normalize_profile p) = prof_profile_id p"
  "prof_version (normalize_profile p) = prof_version p"
  "prof_question_kind (normalize_profile p) = prof_question_kind p"
  "prof_question (normalize_profile p) = prof_question p"
  "prof_selector (normalize_profile p) = prof_selector p"
  "prof_tls_cert (normalize_profile p) =
     map_option (\<lambda>t. t\<lparr>tls_declared_targets := sort (tls_declared_targets t)\<rparr>) (prof_tls_cert p)"
  by (simp_all add: normalize_profile_def)

lemma profile_named_normalize [simp]: "profile_named n (normalize_profile p) = profile_named n p"
  by (simp add: profile_named_def normalize_profile_def list_ex_iff)

lemma profile_digest_normalize:
  "InquiryProfileV0_validate p = Inr () \<Longrightarrow> profile_digest ext (normalize_profile p) = profile_digest ext p"
  by (simp add: profile_digest_valid)

text \<open>The targets a plan may ask of a profile.\<close>

definition plan_within_profile :: "CandidateInquiryPlanV0 \<Rightarrow> InquiryProfileV0 \<Rightarrow> bool" where
  "plan_within_profile plan prof \<longleftrightarrow>
     (case prof_tls_cert prof of
        None \<Rightarrow> plan_targets plan = []
      | Some tls \<Rightarrow> set (plan_targets plan) \<subseteq> set (tls_declared_targets tls))"

lemma admit_targets_iff:
  assumes v: "InquiryProfileV0_validate prof = Inr ()"
  shows "(\<exists>x. admit_targets plan prof = Inr x) \<longleftrightarrow> plan_within_profile plan prof"
proof (cases "prof_question_kind prof")
  case FindingOperationalActivity
  with v show ?thesis
    by (auto simp: profile_validate_ok validate_report_question_ok plan_within_profile_def admit_targets_def)
next
  case tls: TlsCertificatePresentationAndExpiryHorizon
  with v obtain t where t: "prof_tls_cert prof = Some t" by (rule tls_profile_of_valid)
  show ?thesis
  proof
    assume "plan_within_profile plan prof"
    with t admit_targets_complete [OF v tls t] show "\<exists>x. admit_targets plan prof = Inr x"
      by (metis (no_types, lifting) option.simps(5) plan_within_profile_def)
  next
    assume "\<exists>x. admit_targets plan prof = Inr x"
    then obtain sel ts where "admit_targets plan prof = Inr (sel, ts)" by auto
    with tls t show "plan_within_profile plan prof"
      by (auto simp: admit_targets_ok plan_within_profile_def split: if_splits)
  qed
qed

lemma plan_within_normalize [simp]: "plan_within_profile plan (normalize_profile p) = plan_within_profile plan p"
  by (cases "prof_tls_cert p") (simp_all add: plan_within_profile_def)

lemma resolved_admission:
  assumes r: "resolve_one ext p = Inr res" and total: "jcs_total ext"
    and plan: "CandidateInquiryPlanV0_validate ext plan = Inr ()" "profile_named (plan_profile plan) p"
  shows "(\<exists>r. admit ext plan res = Inr r) \<longleftrightarrow> plan_within_profile plan p"
proof -
  from r have v: "InquiryProfileV0_validate p = Inr ()" and n: "res_profile res = normalize_profile p"
    and d: "profile_digest ext p = Inr (res_profile_digest res)"
    by (simp_all add: resolve_one_ok)
  have dig: "\<exists>d. compute_request_digest ext q = Inr d" for q
    using total by (simp add: compute_request_digest_def digest_jcs_total)
  have "(\<exists>r. admit ext plan res = Inr r) \<longleftrightarrow> (\<exists>x. admit_targets plan (normalize_profile p) = Inr x)"
    using plan v d dig by (auto simp: admit_ok n profile_digest_normalize [OF v])
  also have "\<dots> \<longleftrightarrow> plan_within_profile plan p"
    using v admit_targets_iff [of "normalize_profile p" plan] by simp
  finally show ?thesis .
qed

section \<open>A concrete profile, plan and catalog\<close>

text \<open>They meet the hypotheses of the properties below.\<close>

definition demo_target :: "string \<Rightarrow> InquiryTlsTargetV0" where
  "demo_target n = InquiryTlsTargetV0 n ''example.org'' 443 ''example.org''"

definition demo_tls :: InquiryTlsCertProfileV0 where
  "demo_tls =
     \<lparr>tls_collector = TlsCertProbe, tls_declared_targets = [demo_target ''b'', demo_target ''a''],
      tls_max_targets = 2, tls_max_concurrency = 1, tls_per_target_deadline_ms = 100,
      tls_total_deadline_ms = 200, tls_expiry_horizon_days = 30, tls_validation_policy = Webpki,
      tls_vantage = ''lab''\<rparr>"

definition demo_profile :: InquiryProfileV0 where
  "demo_profile =
     \<lparr>prof_schema = INQUIRY_PROFILE_SCHEMA_V0, prof_version = V0, prof_profile_id = ''tls'',
      prof_aliases = [''certs''], prof_question_kind = TlsCertificatePresentationAndExpiryHorizon,
      prof_question = TLS_CERT_INQUIRY_QUESTION_V0, prof_selector = None,
      prof_max_snapshot_age_seconds = None, prof_evidence_limit = None, prof_tls_cert = Some demo_tls,
      prof_coverage = [''c''],
      prof_cannot_testify = [InquiryRefusal ConsequenceAuthority ''none'', InquiryRefusal RootCause ''none'']\<rparr>"

definition demo_plan :: CandidateInquiryPlanV0 where
  "demo_plan =
     \<lparr>plan_schema = INQUIRY_PLAN_SCHEMA_V0, plan_version = V0, plan_profile = ''tls'',
      plan_as_of = ''2026Z'', plan_targets = [demo_target ''b'', demo_target ''a'']\<rparr>"

definition demo_resolved :: ResolvedInquiryProfileV0 where
  "demo_resolved =
    \<lparr>res_profile = normalize_profile demo_profile,
     res_profile_digest = (case profile_digest demo_ext demo_profile of Inl e \<Rightarrow> [] | Inr d \<Rightarrow> d)\<rparr>"


lemma demo_profile_valid: "InquiryProfileV0_validate demo_profile = Inr ()"
  by (simp add: profile_validate_ok validate_tls_question_ok tls_profile_validate_ok target_validate_ok
      demo_profile_def demo_tls_def demo_target_def TLS_CERT_INQUIRY_QUESTION_V0_def str_eval
      word_le_nat_alt)

lemma demo_profile_digest: "profile_digest demo_ext demo_profile = Inr (res_profile_digest demo_resolved)"
  using digest_jcs_total [OF demo_ext_total, of "profile_json (normalize_profile demo_profile)"]
  by (auto simp: demo_resolved_def profile_digest_valid [OF demo_profile_valid])

lemma demo_normalize: "normalize_profile demo_profile = demo_profile
   \<lparr>prof_tls_cert := Some (demo_tls\<lparr>tls_declared_targets := [demo_target ''a'', demo_target ''b'']\<rparr>),
    prof_cannot_testify := [InquiryRefusal RootCause ''none'', InquiryRefusal ConsequenceAuthority ''none'']\<rparr>"
  by (simp add: normalize_profile_def demo_profile_def demo_tls_def demo_target_def
      less_eq_InquiryTlsTargetV0 InquiryTlsTargetV0_key_def
      less_eq_InquiryRefusal InquiryRefusal_key_def less_refusal_kind less_eq_refusal_kind)

definition demo_catalog :: InquiryProfileCatalogV0 where
  "demo_catalog =
     \<lparr>cat_schema = INQUIRY_PROFILE_CATALOG_SCHEMA_V0, cat_version = V0, cat_profiles = [demo_profile]\<rparr>"

lemma demo_catalog_valid: "InquiryProfileCatalogV0_validate demo_catalog = Inr ()"
  by (simp add: catalog_validate_ok demo_catalog_def demo_profile_valid)
    (simp add: ambiguous_name_None name_pushes_def name_owners_def demo_profile_def)

lemma demo_plan_valid: "CandidateInquiryPlanV0_validate demo_ext demo_plan = Inr ()"
  by (simp add: plan_validate_ok demo_plan_def demo_ext_def demo_target_def target_validate_ok str_eval)

lemma demo_resolved_profile: "res_profile demo_resolved = normalize_profile demo_profile"
  by (simp add: demo_resolved_def)

lemma demo_names: "profile_named (plan_profile demo_plan) demo_profile"
  by (simp add: profile_named_def demo_profile_def demo_plan_def)

lemma demo_within: "plan_within_profile demo_plan demo_profile"
  by (simp add: plan_within_profile_def demo_profile_def demo_plan_def demo_tls_def)

lemma demo_resolve_one: "resolve_one demo_ext demo_profile = Inr demo_resolved"
  by (simp add: resolve_one_ok demo_profile_valid demo_profile_digest) (simp add: demo_resolved_def)

lemma demo_resolves: "InquiryProfileCatalogV0_resolve demo_ext demo_catalog ''tls'' = Inr demo_resolved"
  using demo_resolve_one demo_names
  by (subst catalog_resolve_named [OF demo_catalog_valid, of demo_profile])
    (simp_all add: demo_catalog_def demo_plan_def str_eval)

lemma demo_admits: "\<exists>r. admit demo_ext demo_plan demo_resolved = Inr r"
  by (simp add: resolved_admission [OF demo_resolve_one demo_ext_total demo_plan_valid demo_names] demo_within)

section \<open>Properties\<close>

text \<open>
  Admission only narrows. Every request that \<open>admit\<close> returns verifies, asks for
  exactly what it admits, and admits either nothing (a report, which carries its selector)
  or a non-empty, sorted, duplicate-free list of at most 32 targets with distinct
  identifiers, all declared by the profile: the plan's own targets, or all declared ones when
  the plan names none.
\<close>

theorem admit_scope:
  assumes "admit ext plan resolved = Inr r"
  shows "verify_request_digest ext r = Inr () \<and> req_requested_targets r = req_admitted_targets r
    \<and> (case req_question_kind r of
         FindingOperationalActivity \<Rightarrow> req_admitted_targets r = [] \<and> req_selector r \<noteq> None
       | TlsCertificatePresentationAndExpiryHorizon \<Rightarrow>
           req_selector r = None \<and> req_admitted_targets r \<noteq> []
           \<and> sorted (req_admitted_targets r) \<and> distinct (map target_id (req_admitted_targets r))
           \<and> length (req_admitted_targets r) \<le> 32
           \<and> (\<exists>tls. prof_tls_cert (res_profile resolved) = Some tls
                \<and> set (req_admitted_targets r) \<subseteq> set (tls_declared_targets tls)
                \<and> set (req_admitted_targets r) =
                    (if plan_targets plan = [] then set (tls_declared_targets tls)
                     else set (plan_targets plan))))"
proof -
  from assms obtain sel ts d where v: "InquiryProfileV0_validate (res_profile resolved) = Inr ()"
    and a: "admit_targets plan (res_profile resolved) = Inr (sel, ts)"
    and r: "r = admitted_request plan resolved sel ts d"
    by (auto simp: admit_ok)
  show ?thesis
  proof (cases "prof_question_kind (res_profile resolved)")
    case FindingOperationalActivity
    with v a admit_verifies [OF assms] show ?thesis
      by (auto simp: r admit_targets_ok profile_validate_ok validate_report_question_ok)
  next
    case tls: TlsCertificatePresentationAndExpiryHorizon
    with v obtain t where t: "prof_tls_cert (res_profile resolved) = Some t"
      "InquiryTlsCertProfileV0_validate t = Inr ()" by (rule tls_profile_of_valid)
    note n = admit_targets_tls [OF a tls t]
    from a tls t(1) have "set ts = (if plan_targets plan = [] then set (tls_declared_targets t)
        else set (plan_targets plan))" by (auto simp: admit_targets_ok)
    with n t tls admit_verifies [OF assms] show ?thesis
      by (simp add: r)
  qed
qed

theorem admit_scope_witness:
  "\<exists>r. admit demo_ext demo_plan demo_resolved = Inr r \<and> req_requested_targets r = req_admitted_targets r"
  using demo_admits admit_scope [of demo_ext demo_plan demo_resolved] by blast

text \<open>
  The request is a function of what is asked, not of how it is spelled: two valid plans
  for the same instant that name the profile by its identifier or by any alias, and list the
  same targets in any order, are admitted to the same request or refused with the same error.
\<close>

theorem admit_canonical:
  assumes "CandidateInquiryPlanV0_validate ext p = Inr ()" "CandidateInquiryPlanV0_validate ext q = Inr ()"
    and "profile_named (plan_profile p) (res_profile resolved)"
      "profile_named (plan_profile q) (res_profile resolved)"
    and "plan_as_of p = plan_as_of q" "set (plan_targets p) = set (plan_targets q)"
  shows "admit ext p resolved = admit ext q resolved"
proof -
  have "admitted_request p resolved sel ts d = admitted_request q resolved sel ts d" for sel ts d
    by (simp add: admitted_request_def assms(5))
  with assms show ?thesis
    by (simp add: admit_def admit_targets_cong [OF assms(6)])
qed

theorem admit_canonical_witness:
  "admit demo_ext (demo_plan\<lparr>plan_profile := ''certs'', plan_targets := rev (plan_targets demo_plan)\<rparr>)
     demo_resolved = admit demo_ext demo_plan demo_resolved"
proof (rule admit_canonical)
  show "CandidateInquiryPlanV0_validate demo_ext
      (demo_plan\<lparr>plan_profile := ''certs'', plan_targets := rev (plan_targets demo_plan)\<rparr>) = Inr ()"
    using demo_plan_valid by (simp add: plan_validate_ok rev_map [symmetric] str_eval)
qed (simp_all add: demo_plan_valid demo_names demo_resolved_profile, simp add: profile_named_def demo_profile_def)

text \<open>
  A valid catalog resolves every selector to the one profile that carries it as
  identifier or alias, normalised and digested, and refuses a selector no profile carries;
  the branch for several matches is never taken, and the order of the catalog does not
  matter.
\<close>

theorem catalog_resolution:
  assumes "InquiryProfileCatalogV0_validate c = Inr ()" and "trim sel \<noteq> []"
    and "mset (cat_profiles d) = mset (cat_profiles c)" "cat_schema d = cat_schema c"
  shows "InquiryProfileCatalogV0_resolve ext d sel = InquiryProfileCatalogV0_resolve ext c sel
    \<and> InquiryProfileCatalogV0_resolve ext c sel =
        (case find (profile_named sel) (cat_profiles c) of
           None \<Rightarrow> Inl (''profile selector '' @ debug_str sel @ '' did not resolve'')
         | Some p \<Rightarrow> resolve_one ext p)"
proof -
  have vd: "InquiryProfileCatalogV0_validate d = Inr ()"
    using assms(1,3,4) catalog_validate_perm by blast
  have set: "set (cat_profiles d) = set (cat_profiles c)" by (rule mset_eq_setD [OF assms(3)])
  show ?thesis
  proof (cases "find (profile_named sel) (cat_profiles c)")
    case None
    then have "\<not> list_ex (profile_named sel) (cat_profiles c)" by (simp add: find_None_iff list_ex_iff)
    moreover from this have "\<not> list_ex (profile_named sel) (cat_profiles d)" by (simp add: list_ex_iff set)
    ultimately show ?thesis
      using None assms(1,2) vd by (simp add: catalog_resolve_unnamed)
  next
    case (Some p)
    then have "p \<in> set (cat_profiles c)" "profile_named sel p" by (auto simp: find_Some_iff)
    with Some assms(1,2) vd set show ?thesis by (simp add: catalog_resolve_named)
  qed
qed

theorem catalog_resolution_witness:
  "InquiryProfileCatalogV0_validate demo_catalog = Inr ()
   \<and> InquiryProfileCatalogV0_resolve demo_ext demo_catalog ''certs'' = Inr demo_resolved"
proof -
  have "trim ''certs'' \<noteq> []" by (simp add: str_eval)
  moreover have "find (profile_named ''certs'') (cat_profiles demo_catalog) = Some demo_profile"
    by (simp add: demo_catalog_def) (simp add: profile_named_def demo_profile_def)
  ultimately show ?thesis
    using catalog_resolution [OF demo_catalog_valid, of "''certs''" demo_catalog demo_ext]
    by (simp add: demo_catalog_valid demo_resolve_one)
qed

text \<open>
  The profile digest identifies the declarations and nothing else: two valid profiles
  have the same digest exactly when one is a reordering of the arrays of the other, as long
  as SHA-256 does not collide on the two canonical forms.
\<close>

lemma profile_digest_identity:
  assumes "InquiryProfileV0_validate p = Inr ()" "InquiryProfileV0_validate q = Inr ()" "jcs_total ext"
    and "no_collision ext (profile_json (normalize_profile p)) (profile_json (normalize_profile q))"
  shows "profile_digest ext p = profile_digest ext q \<longleftrightarrow> same_declarations p q"
proof -
  obtain d where d: "digest_jcs ext (profile_json (normalize_profile p)) = Inr d"
    using digest_jcs_total [OF assms(3)] by blast
  have "profile_digest ext p = profile_digest ext q \<longleftrightarrow>
      profile_json (normalize_profile p) = profile_json (normalize_profile q)"
    using assms(1,2,4) d by (metis no_collisionD profile_digest_valid)
  then show ?thesis by (simp add: profile_json_inject normalize_eq_iff)
qed

text \<open>
  An admitted request cannot be altered without changing its digest: two verified
  requests with the same digest are the same request, as long as SHA-256 does not collide on
  their digest material.
\<close>

lemma request_tamper_evident:
  assumes "verify_request_digest ext r = Inr ()" "verify_request_digest ext s = Inr ()"
    and "req_request_digest r = req_request_digest s"
    and "no_collision ext (RequestDigestMaterial r) (RequestDigestMaterial s)"
  shows "r = s"
  using assms
  by (intro sealed_request.same_digest_same_artifact [of ext r s])
    (simp_all add: verify_request_digest_ok compute_request_digest_def)

text \<open>
  The limits of a TLS policy. The overflow branch of the deadline check cannot be
  reached, and an accepted policy declares at most 32 targets with distinct identifiers whose
  serial deadlines fit the total deadline, itself at most five minutes.
\<close>

lemma tls_profile_envelope:
  "InquiryTlsCertProfileV0_validate p \<noteq> Inl ''profile.tls_cert deadline envelope overflow''
   \<and> (InquiryTlsCertProfileV0_validate p = Inr () \<longrightarrow>
        tls_declared_targets p \<noteq> [] \<and> length (tls_declared_targets p) \<le> 32
        \<and> distinct (map target_id (tls_declared_targets p))
        \<and> unat (tls_per_target_deadline_ms p) * length (tls_declared_targets p)
            \<le> unat (tls_total_deadline_ms p)
        \<and> unat (tls_total_deadline_ms p) \<le> 300000)"
proof
  show "InquiryTlsCertProfileV0_validate p \<noteq> Inl ''profile.tls_cert deadline envelope overflow''"
  proof (cases "tls_max_targets p \<le> 32 \<and> length (tls_declared_targets p) \<le> unat (tls_max_targets p)
      \<and> tls_per_target_deadline_ms p \<le> 60000")
    case True
    then have "length (tls_declared_targets p) \<le> 32" by (auto simp: word_le_nat_alt)
    with True have "checked_mul (tls_per_target_deadline_ms p) (of_nat (length (tls_declared_targets p)))
        = Some (tls_per_target_deadline_ms p * of_nat (length (tls_declared_targets p)))"
      by (simp add: deadline_envelope_no_overflow)
    then show ?thesis
      by (auto simp: InquiryTlsCertProfileV0_validate_def InquiryTlsTargetV0_validate_def
          checks_Inl_iff refuse_if_Inl_iff require_nonempty_def split: if_splits
          dest!: check_unique_Inl_ex)
  next
    case False
    then show ?thesis
      by (auto simp: InquiryTlsCertProfileV0_validate_def checks.simps refuse_if_def not_le)
  qed
qed (auto simp: tls_profile_validate_ok word_le_nat_alt)

text \<open>
  Resolution and admission fit together: a plan that is valid on its own and whose
  selector the catalog resolves is admitted exactly when it stays within the profile, that
  is, asks for no target (a report) or only for declared ones.
\<close>

theorem admission_complete:
  assumes "InquiryProfileCatalogV0_resolve ext c (plan_profile plan) = Inr resolved"
    and "CandidateInquiryPlanV0_validate ext plan = Inr ()" and "jcs_total ext"
  shows "(\<exists>r. admit ext plan resolved = Inr r) \<longleftrightarrow> plan_within_profile plan (res_profile resolved)"
proof -
  have c: "InquiryProfileCatalogV0_validate c = Inr ()" "trim (plan_profile plan) \<noteq> []"
    using assms(1) by (auto simp: InquiryProfileCatalogV0_resolve_def res_ok)
  have "list_ex (profile_named (plan_profile plan)) (cat_profiles c)"
    using assms(1) catalog_resolve_unnamed [OF c, of ext] by fastforce
  then obtain p where p: "p \<in> set (cat_profiles c)" "profile_named (plan_profile plan) p"
    by (auto simp: list_ex_iff)
  from catalog_resolve_named [OF c(1) p c(2), of ext] assms(1)
  have r: "resolve_one ext p = Inr resolved" by simp
  then have "res_profile resolved = normalize_profile p" by (simp add: resolve_one_ok)
  with resolved_admission [OF r assms(3,2) p(2)] show ?thesis by simp
qed

theorem admission_complete_witness:
  "InquiryProfileCatalogV0_resolve demo_ext demo_catalog (plan_profile demo_plan) = Inr demo_resolved
   \<and> (\<exists>r. admit demo_ext demo_plan demo_resolved = Inr r)"
proof -
  have "InquiryProfileCatalogV0_resolve demo_ext demo_catalog (plan_profile demo_plan) = Inr demo_resolved"
    using demo_resolves by (simp add: demo_plan_def)
  then show ?thesis
    using admission_complete [of demo_ext demo_catalog demo_plan demo_resolved] demo_plan_valid demo_ext_total
      demo_within by (simp add: demo_resolved_profile)
qed

end
