(* ===== verification/Inquiry_Plan.thy ===== *)
theory Inquiry_Plan
  imports Inquiry_Profile
begin

text \<open>
  The execution envelope of the active collector (\<open>InquiryWitnessPlanV0\<close> of
  \<open>crates/nq-core/src/inquiry.rs\<close>): its resolution from an admitted request and a
  resolved profile, its digest, and the check \<open>verify_envelope\<close> a consumer runs on a plan
  it did not make itself.
\<close>

definition INQUIRY_WITNESS_PLAN_SCHEMA_V0 :: string where
  "INQUIRY_WITNESS_PLAN_SCHEMA_V0 = ''nq.inquiry_witness_plan.v0''"

record InquiryAcquisitionBoundsV0 =
  bnd_max_targets :: u32
  bnd_max_concurrency :: u32
  bnd_per_target_deadline_ms :: u64
  bnd_total_deadline_ms :: u64
  bnd_max_dns_attempts :: u32
  bnd_max_connection_attempts :: u32
  bnd_max_handshakes_attempted :: u32
  bnd_max_bound_checks :: u32
  bnd_max_work_units :: u64
  bnd_max_redirects :: u32
  bnd_max_retries :: u32
  bnd_max_aia_fetches :: u32
  bnd_max_ocsp_requests :: u32
  bnd_max_dependency_recursions :: u32

record InquiryWitnessPlanV0 =
  wp_schema :: string
  wp_version :: InquiryVersionV0
  wp_request_digest :: string
  wp_collector :: InquiryCollectorV0
  wp_targets :: "InquiryTlsTargetV0 list"
  wp_expiry_horizon_days :: u32
  wp_validation_policy :: InquiryTlsValidationPolicyV0
  wp_vantage :: string
  wp_bounds :: InquiryAcquisitionBoundsV0
  wp_witness_plan_digest :: string

definition bounds_json :: "InquiryAcquisitionBoundsV0 \<Rightarrow> json" where
  "bounds_json b =
     JObj [(''max_targets'', json_word (bnd_max_targets b)),
           (''max_concurrency'', json_word (bnd_max_concurrency b)),
           (''per_target_deadline_ms'', json_word (bnd_per_target_deadline_ms b)),
           (''total_deadline_ms'', json_word (bnd_total_deadline_ms b)),
           (''max_dns_attempts'', json_word (bnd_max_dns_attempts b)),
           (''max_connection_attempts'', json_word (bnd_max_connection_attempts b)),
           (''max_handshakes_attempted'', json_word (bnd_max_handshakes_attempted b)),
           (''max_bound_checks'', json_word (bnd_max_bound_checks b)),
           (''max_work_units'', json_word (bnd_max_work_units b)),
           (''max_redirects'', json_word (bnd_max_redirects b)),
           (''max_retries'', json_word (bnd_max_retries b)),
           (''max_aia_fetches'', json_word (bnd_max_aia_fetches b)),
           (''max_ocsp_requests'', json_word (bnd_max_ocsp_requests b)),
           (''max_dependency_recursions'', json_word (bnd_max_dependency_recursions b))]"

definition WitnessPlanDigestMaterial :: "InquiryWitnessPlanV0 \<Rightarrow> json" where
  "WitnessPlanDigestMaterial w =
     JObj [(''schema'', JStr (wp_schema w)), (''version'', version_json (wp_version w)),
           (''request_digest'', JStr (wp_request_digest w)),
           (''collector'', collector_json (wp_collector w)),
           (''targets'', JArr (map target_json (wp_targets w))),
           (''expiry_horizon_days'', json_word (wp_expiry_horizon_days w)),
           (''validation_policy'', policy_json (wp_validation_policy w)),
           (''vantage'', JStr (wp_vantage w)), (''bounds'', bounds_json (wp_bounds w))]"

text \<open>\<open>targets.len() as u32\<close> keeps the low 32 bits of the length.\<close>

definition len_u32 :: "'a list \<Rightarrow> u32" where
  "len_u32 xs = of_nat (length xs)"

text \<open>\<open>u64::from(n) * 4\<close>.\<close>

definition work_units_of :: "u32 \<Rightarrow> u64" where
  "work_units_of n = ucast n * 4"

definition bounds_for :: "InquiryTlsCertProfileV0 \<Rightarrow> u32 \<Rightarrow> InquiryAcquisitionBoundsV0" where
  "bounds_for tls_cert admitted =
     \<lparr>bnd_max_targets = tls_max_targets tls_cert,
      bnd_max_concurrency = tls_max_concurrency tls_cert,
      bnd_per_target_deadline_ms = tls_per_target_deadline_ms tls_cert,
      bnd_total_deadline_ms = tls_total_deadline_ms tls_cert,
      bnd_max_dns_attempts = admitted, bnd_max_connection_attempts = admitted,
      bnd_max_handshakes_attempted = admitted, bnd_max_bound_checks = admitted,
      bnd_max_work_units = work_units_of admitted, bnd_max_redirects = 0, bnd_max_retries = 0,
      bnd_max_aia_fetches = 0, bnd_max_ocsp_requests = 0, bnd_max_dependency_recursions = 0\<rparr>"

definition compute_witness_plan_digest :: "externals \<Rightarrow> InquiryWitnessPlanV0 \<Rightarrow> string + string" where
  "compute_witness_plan_digest ext w = digest_jcs ext (WitnessPlanDigestMaterial w)"

definition InquiryWitnessPlanV0_resolve ::
  "externals \<Rightarrow> AdmittedInquiryRequestV0 \<Rightarrow> ResolvedInquiryProfileV0 \<Rightarrow> string + InquiryWitnessPlanV0"
where
  "InquiryWitnessPlanV0_resolve ext request resolved =
     res_bind (map_err (\<lambda>e. ''request digest verification failed: '' @ e)
       (verify_request_digest ext request)) (\<lambda>_.
     res_bind
       (refuse_if
         (req_schema request \<noteq> INQUIRY_REQUEST_SCHEMA_V0
           \<or> req_question_kind request \<noteq> TlsCertificatePresentationAndExpiryHorizon
           \<or> req_question request \<noteq> prof_question (res_profile resolved)
           \<or> req_selector request \<noteq> None
           \<or> req_requested_targets request \<noteq> req_admitted_targets request)
         ''admitted request does not match the resolved TLS certificate question'') (\<lambda>_.
     res_bind (parse_rfc3339 ext ''request.as_of'' (req_as_of request)) (\<lambda>_.
     res_bind (map_err (\<lambda>e. ''profile digest verification failed: '' @ e)
       (profile_digest ext (res_profile resolved))) (\<lambda>computed_profile_digest.
     res_bind
       (refuse_if
         (bind_profile_id (req_profile request) \<noteq> prof_profile_id (res_profile resolved)
           \<or> bind_version (req_profile request) \<noteq> prof_version (res_profile resolved)
           \<or> bind_profile_digest (req_profile request) \<noteq> computed_profile_digest
           \<or> res_profile_digest resolved \<noteq> computed_profile_digest)
         ''admitted request does not bind the resolved profile'') (\<lambda>_.
     res_bind (ok_or ''resolved TLS profile has no tls_cert policy''
       (prof_tls_cert (res_profile resolved))) (\<lambda>tls_cert.
     let targets = sort (req_admitted_targets request) in
     res_bind
       (refuse_if (targets = [] \<or> length targets > unat (tls_max_targets tls_cert))
         ''admitted TLS targets do not fit the profile target bound'') (\<lambda>_.
     res_bind
       (refuse_if (list_ex (\<lambda>target. target \<notin> set (tls_declared_targets tls_cert)) targets)
         ''admitted TLS target is not exactly predeclared by the profile'') (\<lambda>_.
     let w =
       \<lparr>wp_schema = INQUIRY_WITNESS_PLAN_SCHEMA_V0, wp_version = V0,
        wp_request_digest = req_request_digest request, wp_collector = tls_collector tls_cert,
        wp_targets = targets, wp_expiry_horizon_days = tls_expiry_horizon_days tls_cert,
        wp_validation_policy = tls_validation_policy tls_cert, wp_vantage = tls_vantage tls_cert,
        wp_bounds = bounds_for tls_cert (len_u32 targets), wp_witness_plan_digest = []\<rparr>
     in
     res_bind (map_err (\<lambda>e. ''witness plan digest failed: '' @ e) (compute_witness_plan_digest ext w))
       (\<lambda>digest. Inr (w\<lparr>wp_witness_plan_digest := digest\<rparr>))))))))))"

definition verify_witness_plan_digest :: "externals \<Rightarrow> InquiryWitnessPlanV0 \<Rightarrow> string + unit" where
  "verify_witness_plan_digest ext w =
     res_bind (compute_witness_plan_digest ext w) (\<lambda>computed.
       refuse_if (computed \<noteq> wp_witness_plan_digest w)
         (''inquiry witness plan digest mismatch: declared '' @ wp_witness_plan_digest w
            @ '', computed '' @ computed))"

text \<open>The long condition of \<open>verify_envelope\<close>, on the bounds and the number of targets.\<close>

definition bounds_violate :: "InquiryAcquisitionBoundsV0 \<Rightarrow> u32 \<Rightarrow> bool" where
  "bounds_violate b target_count \<longleftrightarrow>
     bnd_max_targets b = 0 \<or> target_count > bnd_max_targets b \<or> bnd_max_concurrency b \<noteq> 1
     \<or> bnd_per_target_deadline_ms b < 100 \<or> bnd_per_target_deadline_ms b > 60000
     \<or> bnd_total_deadline_ms b = 0 \<or> bnd_total_deadline_ms b > 300000
     \<or> bnd_total_deadline_ms b < saturating_mul (bnd_per_target_deadline_ms b) (ucast target_count)
     \<or> bnd_max_dns_attempts b \<noteq> target_count \<or> bnd_max_connection_attempts b \<noteq> target_count
     \<or> bnd_max_handshakes_attempted b \<noteq> target_count \<or> bnd_max_bound_checks b \<noteq> target_count
     \<or> bnd_max_work_units b \<noteq> work_units_of target_count
     \<or> bnd_max_redirects b \<noteq> 0 \<or> bnd_max_retries b \<noteq> 0 \<or> bnd_max_aia_fetches b \<noteq> 0
     \<or> bnd_max_ocsp_requests b \<noteq> 0 \<or> bnd_max_dependency_recursions b \<noteq> 0"

text \<open>
  The loop over the targets keeps the set of targets seen and the set of their identifiers;
  it refuses when either already has the target.
\<close>

fun verify_targets ::
  "InquiryTlsTargetV0 set \<Rightarrow> string set \<Rightarrow> InquiryTlsTargetV0 list \<Rightarrow> string + unit"
where
  "verify_targets targets target_ids [] = Inr ()"
| "verify_targets targets target_ids (target # rest) =
     res_bind (InquiryTlsTargetV0_validate ''witness_plan.targets[]'' target) (\<lambda>_.
       if target \<in> targets \<or> target_id target \<in> target_ids
       then Inl ''inquiry witness plan contains a duplicate target''
       else verify_targets (insert target targets) (insert (target_id target) target_ids) rest)"

definition InquiryWitnessPlanV0_verify_envelope :: "externals \<Rightarrow> InquiryWitnessPlanV0 \<Rightarrow> string + unit" where
  "InquiryWitnessPlanV0_verify_envelope ext w =
     checks
      [verify_witness_plan_digest ext w,
       refuse_if
         (wp_schema w \<noteq> INQUIRY_WITNESS_PLAN_SCHEMA_V0 \<or> wp_targets w = []
           \<or> bnd_max_targets (wp_bounds w) > 32
           \<or> bounds_violate (wp_bounds w) (len_u32 (wp_targets w))
           \<or> wp_expiry_horizon_days w = 0 \<or> wp_expiry_horizon_days w > 3650
           \<or> trim (wp_vantage w) = [])
         ''inquiry witness plan violates the bounded TLS envelope'',
       verify_targets {} {} (wp_targets w)]"

text \<open>The whole plan, as \<open>canonical_bytes\<close> serialises it.\<close>

definition witness_plan_json :: "InquiryWitnessPlanV0 \<Rightarrow> json" where
  "witness_plan_json w =
     JObj [(''schema'', JStr (wp_schema w)), (''version'', version_json (wp_version w)),
           (''request_digest'', JStr (wp_request_digest w)),
           (''collector'', collector_json (wp_collector w)),
           (''targets'', JArr (map target_json (wp_targets w))),
           (''expiry_horizon_days'', json_word (wp_expiry_horizon_days w)),
           (''validation_policy'', policy_json (wp_validation_policy w)),
           (''vantage'', JStr (wp_vantage w)), (''bounds'', bounds_json (wp_bounds w)),
           (''witness_plan_digest'', JStr (wp_witness_plan_digest w))]"

definition canonical_bytes :: "externals \<Rightarrow> json \<Rightarrow> string + string" where
  "canonical_bytes ext v = map_err (\<lambda>e. ''JCS canonicalization failed: '' @ e) (jcs_to_vec ext v)"

definition witness_plan_canonical_bytes :: "externals \<Rightarrow> InquiryWitnessPlanV0 \<Rightarrow> string + string" where
  "witness_plan_canonical_bytes ext w = canonical_bytes ext (witness_plan_json w)"

section \<open>The plan is sealed by its digest\<close>

lemma bounds_json_inject [simp]: "bounds_json a = bounds_json b \<longleftrightarrow> a = b"
  by (cases a; cases b) (auto simp: bounds_json_def)

lemma inj_bounds_json [simp]: "inj bounds_json"
  by (simp add: inj_def)

interpretation sealed_plan: sealed_artifact WitnessPlanDigestMaterial wp_witness_plan_digest
  "\<lambda>d w. w\<lparr>wp_witness_plan_digest := d\<rparr>"
proof
  fix x y :: InquiryWitnessPlanV0
  assume "WitnessPlanDigestMaterial x = WitnessPlanDigestMaterial y"
    "wp_witness_plan_digest x = wp_witness_plan_digest y"
  then show "x = y"
    by (cases x; cases y) (simp add: WitnessPlanDigestMaterial_def version_eq collector_eq policy_eq)
qed (simp_all add: WitnessPlanDigestMaterial_def)

lemma plan_digest_put [simp]:
  "compute_witness_plan_digest ext (w\<lparr>wp_witness_plan_digest := d\<rparr>) = compute_witness_plan_digest ext w"
  by (simp add: compute_witness_plan_digest_def sealed_plan.material_put)

lemma verify_witness_plan_digest_ok [res_ok]:
  "verify_witness_plan_digest ext w = Inr () \<longleftrightarrow>
     compute_witness_plan_digest ext w = Inr (wp_witness_plan_digest w)"
  by (auto simp: verify_witness_plan_digest_def res_ok)

section \<open>Counts kept at their width\<close>

lemma len_u32_small: "length xs \<le> 32 \<Longrightarrow> unat (len_u32 xs) = length xs"
  by (simp add: len_u32_def unat_of_nat take_bit_nat_eq_self)

lemma unat_ucast_u64: "unat (ucast (n :: u32) :: u64) = unat n"
  proof -
  have "unat n < 2 ^ 32" using unsigned_less [of n, where ?'a = nat] by simp
  then show ?thesis by (simp add: unsigned_ucast_eq take_bit_nat_eq_self)
qed

lemma work_units_of_unat: "unat (work_units_of n) = 4 * unat n"
proof -
  have "unat (ucast n :: u64) * unat (4 :: u64) < 2 ^ LENGTH(64)"
    using unsigned_less [of n, where ?'a = nat] by (simp add: unat_ucast_u64)
  then show ?thesis
    by (simp add: work_units_of_def unat_mult_small unat_ucast_u64)
qed

lemma saturating_deadline:
  assumes "per \<le> (60000 :: u64)" "unat (n :: u32) \<le> 32"
  shows "unat (saturating_mul per (ucast n)) = unat per * unat n"
proof -
  have "unat per \<le> 60000" using assms(1) by (simp add: word_le_nat_alt)
  then have "unat per * unat n \<le> 60000 * 32" using assms(2) by (rule mult_le_mono)
  then have "unat per * unat (ucast n :: u64) < 2 ^ LENGTH(64)" by (simp add: unat_ucast_u64)
  then show ?thesis by (simp add: saturating_mul_def unat_mult_small unat_ucast_u64)
qed

lemma bounds_violate_iff:
  assumes "bnd_max_targets b \<le> 32"
  shows "\<not> bounds_violate b n \<longleftrightarrow>
     0 < bnd_max_targets b \<and> n \<le> bnd_max_targets b \<and> bnd_max_concurrency b = 1
     \<and> 100 \<le> bnd_per_target_deadline_ms b \<and> bnd_per_target_deadline_ms b \<le> 60000
     \<and> 0 < bnd_total_deadline_ms b \<and> bnd_total_deadline_ms b \<le> 300000
     \<and> unat (bnd_per_target_deadline_ms b) * unat n \<le> unat (bnd_total_deadline_ms b)
     \<and> bnd_max_dns_attempts b = n \<and> bnd_max_connection_attempts b = n
     \<and> bnd_max_handshakes_attempted b = n \<and> bnd_max_bound_checks b = n
     \<and> bnd_max_work_units b = work_units_of n
     \<and> bnd_max_redirects b = 0 \<and> bnd_max_retries b = 0 \<and> bnd_max_aia_fetches b = 0
     \<and> bnd_max_ocsp_requests b = 0 \<and> bnd_max_dependency_recursions b = 0"
proof (cases "n \<le> bnd_max_targets b \<and> bnd_per_target_deadline_ms b \<le> 60000")
  case True
  with assms have "unat n \<le> 32" by (auto simp: word_le_nat_alt)
  with True have "unat (saturating_mul (bnd_per_target_deadline_ms b) (ucast n))
      = unat (bnd_per_target_deadline_ms b) * unat n" by (simp add: saturating_deadline)
  then show ?thesis
    by (auto simp: bounds_violate_def not_less word_le_nat_alt word_gt_0)
next
  case False
  then show ?thesis by (auto simp: bounds_violate_def not_less)
qed

section \<open>What the verifier accepts\<close>

lemma verify_targets_ok_gen:
  "verify_targets T I ts = Inr () \<longleftrightarrow>
     (\<forall>t \<in> set ts. InquiryTlsTargetV0_validate ''witness_plan.targets[]'' t = Inr ()
        \<and> t \<notin> T \<and> target_id t \<notin> I) \<and> distinct (map target_id ts)"
proof (induction ts arbitrary: T I)
  case Nil
  then show ?case by simp
next
  case (Cons t ts)
  show ?case
    by (cases "InquiryTlsTargetV0_validate ''witness_plan.targets[]'' t") (auto simp: Cons.IH, metis imageI)
qed

lemma verify_targets_ok [res_ok]:
  "verify_targets {} {} ts = Inr () \<longleftrightarrow>
     (\<forall>t \<in> set ts. InquiryTlsTargetV0_validate ''witness_plan.targets[]'' t = Inr ())
     \<and> distinct (map target_id ts)"
  by (auto simp: verify_targets_ok_gen)

lemma verify_envelope_ok:
  "InquiryWitnessPlanV0_verify_envelope ext w = Inr () \<longleftrightarrow>
     compute_witness_plan_digest ext w = Inr (wp_witness_plan_digest w)
     \<and> wp_schema w = INQUIRY_WITNESS_PLAN_SCHEMA_V0 \<and> wp_targets w \<noteq> []
     \<and> bnd_max_targets (wp_bounds w) \<le> 32
     \<and> \<not> bounds_violate (wp_bounds w) (len_u32 (wp_targets w))
     \<and> 0 < wp_expiry_horizon_days w \<and> wp_expiry_horizon_days w \<le> 3650
     \<and> trim (wp_vantage w) \<noteq> []
     \<and> (\<forall>t \<in> set (wp_targets w). InquiryTlsTargetV0_validate ''witness_plan.targets[]'' t = Inr ())
     \<and> distinct (map target_id (wp_targets w))"
  by (auto simp: InquiryWitnessPlanV0_verify_envelope_def res_ok not_less word_gt_0)

lemma target_validate_field:
  "InquiryTlsTargetV0_validate f t = Inr () \<Longrightarrow> InquiryTlsTargetV0_validate g t = Inr ()"
  by (simp add: target_validate_ok)

section \<open>Resolution\<close>

definition planned_witness ::
  "AdmittedInquiryRequestV0 \<Rightarrow> InquiryTlsCertProfileV0 \<Rightarrow> string \<Rightarrow> InquiryWitnessPlanV0"
where
  "planned_witness request tls_cert d =
     \<lparr>wp_schema = INQUIRY_WITNESS_PLAN_SCHEMA_V0, wp_version = V0,
      wp_request_digest = req_request_digest request, wp_collector = tls_collector tls_cert,
      wp_targets = sort (req_admitted_targets request),
      wp_expiry_horizon_days = tls_expiry_horizon_days tls_cert,
      wp_validation_policy = tls_validation_policy tls_cert, wp_vantage = tls_vantage tls_cert,
      wp_bounds = bounds_for tls_cert (len_u32 (req_admitted_targets request)),
      wp_witness_plan_digest = d\<rparr>"

lemma len_u32_sort [simp]: "len_u32 (sort xs) = len_u32 xs"
  by (simp add: len_u32_def)

lemma planned_witness_digest:
  "compute_witness_plan_digest ext (planned_witness request tls_cert d)
     = compute_witness_plan_digest ext (planned_witness request tls_cert [])"
  by (simp add: compute_witness_plan_digest_def WitnessPlanDigestMaterial_def planned_witness_def)

lemma resolve_ok:
  "InquiryWitnessPlanV0_resolve ext request resolved = Inr w \<longleftrightarrow>
     verify_request_digest ext request = Inr ()
     \<and> req_question_kind request = TlsCertificatePresentationAndExpiryHorizon
     \<and> req_question request = prof_question (res_profile resolved) \<and> req_selector request = None
     \<and> req_requested_targets request = req_admitted_targets request
     \<and> profile_digest ext (res_profile resolved) = Inr (res_profile_digest resolved)
     \<and> req_profile request =
         \<lparr>bind_profile_id = prof_profile_id (res_profile resolved),
          bind_version = prof_version (res_profile resolved),
          bind_profile_digest = res_profile_digest resolved\<rparr>
     \<and> (\<exists>tls d. prof_tls_cert (res_profile resolved) = Some tls
          \<and> req_admitted_targets request \<noteq> []
          \<and> length (req_admitted_targets request) \<le> unat (tls_max_targets tls)
          \<and> set (req_admitted_targets request) \<subseteq> set (tls_declared_targets tls)
          \<and> compute_witness_plan_digest ext (planned_witness request tls []) = Inr d
          \<and> w = planned_witness request tls d)"
  (is "?l \<longleftrightarrow> ?r")
proof
  assume ?l
  then show ?r
    unfolding InquiryWitnessPlanV0_resolve_def Let_def
    by (auto simp: res_bind_Inr_iff map_err_Inr_iff refuse_if_ok ok_or_Inr_iff list_ex_iff not_less
        planned_witness_def)
next
  assume r: ?r
  then show ?l
    unfolding InquiryWitnessPlanV0_resolve_def Let_def
    by (auto simp: res_bind_Inr_iff map_err_Inr_iff refuse_if_ok ok_or_Inr_iff list_ex_iff not_less
        planned_witness_def verify_request_digest_ok parse_rfc3339_ok)
qed

lemma admitted_tls_request:
  assumes "admit ext plan resolved = Inr r"
    and "req_question_kind r = TlsCertificatePresentationAndExpiryHorizon"
  obtains tls where "prof_tls_cert (res_profile resolved) = Some tls"
    "InquiryTlsCertProfileV0_validate tls = Inr ()"
    "sorted (req_admitted_targets r)" "distinct (map target_id (req_admitted_targets r))"
    "req_admitted_targets r \<noteq> []" "set (req_admitted_targets r) \<subseteq> set (tls_declared_targets tls)"
    "length (req_admitted_targets r) \<le> length (tls_declared_targets tls)"
proof -
  from assms obtain sel ts d where v: "InquiryProfileV0_validate (res_profile resolved) = Inr ()"
    and a: "admit_targets plan (res_profile resolved) = Inr (sel, ts)"
    and r: "r = admitted_request plan resolved sel ts d"
    and k: "prof_question_kind (res_profile resolved) = TlsCertificatePresentationAndExpiryHorizon"
    by (auto simp: admit_ok)
  from v k obtain tls where t: "prof_tls_cert (res_profile resolved) = Some tls"
    "InquiryTlsCertProfileV0_validate tls = Inr ()" by (rule tls_profile_of_valid)
  from admit_targets_tls [OF a k t] t r show thesis by (intro that [of tls]) simp_all
qed

lemma planned_envelope_fits:
  assumes v: "InquiryTlsCertProfileV0_validate tls = Inr ()"
    and n: "length ts \<le> length (tls_declared_targets tls)"
  shows "\<not> bounds_violate (bounds_for tls (len_u32 ts)) (len_u32 ts)"
proof -
  from v have max: "unat (tls_max_targets tls) \<le> 32" "tls_max_targets tls \<le> 32"
    and d: "length (tls_declared_targets tls) \<le> unat (tls_max_targets tls)"
    and total: "unat (tls_per_target_deadline_ms tls) * length (tls_declared_targets tls)
      \<le> unat (tls_total_deadline_ms tls)"
    by (simp_all add: tls_profile_validate_ok word_le_nat_alt)
  from n d max(1) have l: "unat (len_u32 ts) = length ts" by (intro len_u32_small) simp
  from n have "unat (tls_per_target_deadline_ms tls) * length ts \<le> unat (tls_total_deadline_ms tls)"
    by (intro order_trans [OF _ total]) simp
  moreover from n d l have "len_u32 ts \<le> tls_max_targets tls" by (simp add: word_le_nat_alt)
  ultimately show ?thesis
    using v max(2) l by (subst bounds_violate_iff) (simp_all add: bounds_for_def tls_profile_validate_ok)
qed

lemma planned_witness_verifies:
  assumes v: "InquiryTlsCertProfileV0_validate tls = Inr ()"
    and ts: "req_admitted_targets r \<noteq> []" "set (req_admitted_targets r) \<subseteq> set (tls_declared_targets tls)"
      "distinct (map target_id (req_admitted_targets r))"
      "length (req_admitted_targets r) \<le> length (tls_declared_targets tls)"
    and d: "compute_witness_plan_digest ext (planned_witness r tls []) = Inr d"
  shows "InquiryWitnessPlanV0_verify_envelope ext (planned_witness r tls d) = Inr ()"
proof -
  have di: "distinct (map target_id (sort (req_admitted_targets r)))"
    using ts(3) perm_same(4) [of "sort (req_admitted_targets r)" "req_admitted_targets r" target_id] by simp
  have va: "InquiryTlsTargetV0_validate ''witness_plan.targets[]'' t = Inr ()"
    if "t \<in> set (req_admitted_targets r)" for t
    using that ts(2) v by (auto simp: tls_profile_validate_ok intro: target_validate_field)
  have di2: "compute_witness_plan_digest ext (planned_witness r tls d) = Inr d"
    using d by (metis planned_witness_digest)
  from planned_envelope_fits [OF v ts(4)] di di2 va v ts(1) show ?thesis
    unfolding verify_envelope_ok
    by (simp add: planned_witness_def tls_profile_validate_ok) (simp add: bounds_for_def)
qed

lemma witness_plan_for:
  assumes "admit ext plan resolved = Inr r" "jcs_total ext"
    and "req_question_kind r = TlsCertificatePresentationAndExpiryHorizon"
  shows "\<exists>w. InquiryWitnessPlanV0_resolve ext r resolved = Inr w
    \<and> InquiryWitnessPlanV0_verify_envelope ext w = Inr ()
    \<and> wp_targets w = req_admitted_targets r \<and> wp_request_digest w = req_request_digest r"
proof -
  from assms(1,3) obtain tls where t: "prof_tls_cert (res_profile resolved) = Some tls"
    "InquiryTlsCertProfileV0_validate tls = Inr ()"
    and ts: "sorted (req_admitted_targets r)" "distinct (map target_id (req_admitted_targets r))"
    "req_admitted_targets r \<noteq> []" "set (req_admitted_targets r) \<subseteq> set (tls_declared_targets tls)"
    "length (req_admitted_targets r) \<le> length (tls_declared_targets tls)"
    by (rule admitted_tls_request)
  obtain d where d: "compute_witness_plan_digest ext (planned_witness r tls []) = Inr d"
    using digest_jcs_total [OF assms(2)] by (auto simp: compute_witness_plan_digest_def)
  have "InquiryWitnessPlanV0_resolve ext r resolved = Inr (planned_witness r tls d)"
    unfolding resolve_ok
    using assms(1,3) t ts d admit_verifies [OF assms(1)]
    by (auto simp: admit_ok admit_targets_ok tls_profile_validate_ok)
  moreover have "InquiryWitnessPlanV0_verify_envelope ext (planned_witness r tls d) = Inr ()"
    by (rule planned_witness_verifies [OF t(2) ts(3,4,2,5) d])
  ultimately show ?thesis
    using ts(1) by (auto simp: planned_witness_def sorted_sort_id)
qed

section \<open>Properties\<close>

text \<open>
  Every admitted TLS request has a witness plan, and the plan made for it passes the
  verifier's envelope check: it probes exactly the admitted targets, in order, and is bound
  to the request's digest.
\<close>

lemma witness_plan_exists:
  assumes "admit ext plan resolved = Inr r" "jcs_total ext"
    and "req_question_kind r = TlsCertificatePresentationAndExpiryHorizon"
  shows "\<exists>w. InquiryWitnessPlanV0_resolve ext r resolved = Inr w
    \<and> InquiryWitnessPlanV0_verify_envelope ext w = Inr ()
    \<and> wp_targets w = req_admitted_targets r \<and> wp_request_digest w = req_request_digest r"
  using assms by (rule witness_plan_for)

lemma demo_request_tls:
  "admit demo_ext demo_plan demo_resolved = Inr r \<Longrightarrow>
     req_question_kind r = TlsCertificatePresentationAndExpiryHorizon"
  by (auto simp: admit_ok demo_resolved_profile) (simp add: demo_profile_def)

text \<open>
  What a verified plan bounds. With fewer than 2^32 targets (the width of the counters),
  a plan that passes the envelope check has at most 32 targets with distinct identifiers, one
  attempt of each kind per target and no redirect, retry or fetch, a total of four work units
  per target, and serial deadlines that fit a total of at most five minutes; no product in it
  wraps.
\<close>

theorem verified_plan_bounds:
  assumes "InquiryWitnessPlanV0_verify_envelope ext w = Inr ()" "length (wp_targets w) < 2 ^ 32"
  shows "length (wp_targets w) \<in> {1..32} \<and> distinct (map target_id (wp_targets w))
    \<and> unat (bnd_max_dns_attempts (wp_bounds w)) = length (wp_targets w)
    \<and> unat (bnd_max_connection_attempts (wp_bounds w)) = length (wp_targets w)
    \<and> unat (bnd_max_handshakes_attempted (wp_bounds w)) = length (wp_targets w)
    \<and> unat (bnd_max_bound_checks (wp_bounds w)) = length (wp_targets w)
    \<and> unat (bnd_max_work_units (wp_bounds w)) = 4 * length (wp_targets w)
    \<and> unat (bnd_per_target_deadline_ms (wp_bounds w)) * length (wp_targets w)
        \<le> unat (bnd_total_deadline_ms (wp_bounds w))
    \<and> unat (bnd_total_deadline_ms (wp_bounds w)) \<le> 300000
    \<and> bnd_max_redirects (wp_bounds w) = 0 \<and> bnd_max_retries (wp_bounds w) = 0
    \<and> bnd_max_aia_fetches (wp_bounds w) = 0 \<and> bnd_max_ocsp_requests (wp_bounds w) = 0"
proof -
  let ?b = "wp_bounds w"
  from assms(1) have m: "bnd_max_targets ?b \<le> 32" and ne: "wp_targets w \<noteq> []"
    and di: "distinct (map target_id (wp_targets w))"
    and b: "\<not> bounds_violate ?b (len_u32 (wp_targets w))"
    by (simp_all add: verify_envelope_ok)
  have l: "unat (len_u32 (wp_targets w)) = length (wp_targets w)"
    using assms(2) by (simp add: len_u32_def unat_of_nat take_bit_nat_eq_self)
  note bb = b [unfolded bounds_violate_iff [OF m]]
  then have "len_u32 (wp_targets w) \<le> 32" using m by auto
  then have "length (wp_targets w) \<le> 32" using l by (simp add: word_le_nat_alt)
  moreover have "0 < length (wp_targets w)" using ne by simp
  ultimately show ?thesis
    using bb di l by (simp add: work_units_of_unat word_le_nat_alt Suc_le_eq)
qed

theorem verified_plan_bounds_witness:
  "\<exists>w. InquiryWitnessPlanV0_verify_envelope demo_ext w = Inr () \<and> length (wp_targets w) \<in> {1..32}"
proof -
  obtain r where r: "admit demo_ext demo_plan demo_resolved = Inr r" using demo_admits by blast
  obtain tls where t: "InquiryTlsCertProfileV0_validate tls = Inr ()"
    and l: "length (req_admitted_targets r) \<le> length (tls_declared_targets tls)"
    and ts: "distinct (map target_id (req_admitted_targets r))"
      "req_admitted_targets r \<noteq> []" "set (req_admitted_targets r) \<subseteq> set (tls_declared_targets tls)"
    using admitted_tls_request [OF r demo_request_tls [OF r]] by metis
  obtain d where d: "compute_witness_plan_digest demo_ext (planned_witness r tls []) = Inr d"
    using digest_jcs_total [OF demo_ext_total] by (auto simp: compute_witness_plan_digest_def)
  have v: "InquiryWitnessPlanV0_verify_envelope demo_ext (planned_witness r tls d) = Inr ()"
    by (rule planned_witness_verifies [OF t ts(2,3,1) l d])
  have "length (tls_declared_targets tls) \<le> 32"
    using t by (auto simp: tls_profile_validate_ok word_le_nat_alt)
  then have "length (wp_targets (planned_witness r tls d)) < 2 ^ 32"
    using l by (simp add: planned_witness_def)
  with v show ?thesis
    using verified_plan_bounds [of demo_ext "planned_witness r tls d"] by blast
qed

end
