(* ===== verification/Inquiry_Ratchet.thy ===== *)
theory Inquiry_Ratchet
  imports Inquiry_Profile
begin

text \<open>
  The escalation ratchet of \<open>crates/nq-core/src/inquiry.rs\<close>: acquisition spend, grants,
  positions within a grant, and the same-grant transition that may only narrow the scope,
  deepen the inquiry and spend down. The step function is
  \<open>authorize_same_grant_transition\<close>; the runs it allows are the relation
  \<open>ratchet_run\<close>. The contract of a consumable budget is the locale \<open>spend_down\<close>.
\<close>

section \<open>Constants\<close>

definition INQUIRY_GRANT_SCHEMA_V0 :: string where
  "INQUIRY_GRANT_SCHEMA_V0 = ''nq.inquiry_grant.v0''"

definition INQUIRY_POSITION_SCHEMA_V0 :: string where
  "INQUIRY_POSITION_SCHEMA_V0 = ''nq.inquiry_position.v0''"

definition INQUIRY_TRANSITION_REQUEST_SCHEMA_V0 :: string where
  "INQUIRY_TRANSITION_REQUEST_SCHEMA_V0 = ''nq.inquiry_transition_request.v0''"

definition AUTHORIZED_INQUIRY_TRANSITION_SCHEMA_V0 :: string where
  "AUTHORIZED_INQUIRY_TRANSITION_SCHEMA_V0 = ''nq.authorized_inquiry_transition.v0''"

definition INQUIRY_TRANSITION_REFUSAL_SCHEMA_V0 :: string where
  "INQUIRY_TRANSITION_REFUSAL_SCHEMA_V0 = ''nq.inquiry_transition_refusal.v0''"

section \<open>Acquisition spend\<close>

record InquiryAcquisitionSpendV0 =
  sp_dns_attempts :: u32
  sp_connection_attempts :: u32
  sp_handshakes_attempted :: u32
  sp_handshakes_completed :: u32
  sp_bound_checks :: u32
  sp_wall_ms :: u64
  sp_work_units :: u64

definition spend_default :: InquiryAcquisitionSpendV0 where
  "spend_default =
     \<lparr>sp_dns_attempts = 0, sp_connection_attempts = 0, sp_handshakes_attempted = 0,
      sp_handshakes_completed = 0, sp_bound_checks = 0, sp_wall_ms = 0, sp_work_units = 0\<rparr>"

definition counted_work_units :: "InquiryAcquisitionSpendV0 \<Rightarrow> u64" where
  "counted_work_units s =
     ucast (sp_dns_attempts s) + ucast (sp_connection_attempts s)
     + ucast (sp_handshakes_attempted s) + ucast (sp_bound_checks s)"

definition spend_json :: "InquiryAcquisitionSpendV0 \<Rightarrow> json" where
  "spend_json s =
     JObj [(''dns_attempts'', json_word (sp_dns_attempts s)),
           (''connection_attempts'', json_word (sp_connection_attempts s)),
           (''handshakes_attempted'', json_word (sp_handshakes_attempted s)),
           (''handshakes_completed'', json_word (sp_handshakes_completed s)),
           (''bound_checks'', json_word (sp_bound_checks s)),
           (''wall_ms'', json_word (sp_wall_ms s)),
           (''work_units'', json_word (sp_work_units s))]"

definition first_spend_dimension_over_limit ::
  "InquiryAcquisitionSpendV0 \<Rightarrow> InquiryAcquisitionSpendV0 \<Rightarrow> string option"
where
  "first_spend_dimension_over_limit candidate limit =
     (if sp_dns_attempts candidate > sp_dns_attempts limit then Some ''dns_attempts''
      else if sp_connection_attempts candidate > sp_connection_attempts limit
        then Some ''connection_attempts''
      else if sp_handshakes_attempted candidate > sp_handshakes_attempted limit
        then Some ''handshakes_attempted''
      else if sp_handshakes_completed candidate > sp_handshakes_completed limit
        then Some ''handshakes_completed''
      else if sp_bound_checks candidate > sp_bound_checks limit then Some ''bound_checks''
      else if sp_wall_ms candidate > sp_wall_ms limit then Some ''wall_ms''
      else if sp_work_units candidate > sp_work_units limit then Some ''work_units''
      else None)"

definition spend_is_pointwise_at_most ::
  "InquiryAcquisitionSpendV0 \<Rightarrow> InquiryAcquisitionSpendV0 \<Rightarrow> bool"
where
  "spend_is_pointwise_at_most candidate limit \<longleftrightarrow>
     first_spend_dimension_over_limit candidate limit = None"

section \<open>Scopes, grants and positions\<close>

definition validate_ratchet_scope :: "string \<Rightarrow> InquiryTlsTargetV0 fset \<Rightarrow> string + unit" where
  "validate_ratchet_scope field scope =
     check_unique (InquiryTlsTargetV0_validate (field @ ''[]'')) target_id
       (\<lambda>t. ''duplicate '' @ field @ '' target_id '' @ debug_str (target_id t)) {}
       (sorted_list_of_fset scope)"

record InquiryGrantV0 =
  gr_schema :: string
  gr_version :: InquiryVersionV0
  gr_admitted_scope :: "InquiryTlsTargetV0 fset"
  gr_max_depth :: u32
  gr_total_acquisition_envelope :: InquiryAcquisitionSpendV0
  gr_permitted_witness_classes :: "InquiryCollectorV0 fset"

definition grant_json :: "InquiryGrantV0 \<Rightarrow> json" where
  "grant_json g =
     JObj [(''schema'', JStr (gr_schema g)), (''version'', version_json (gr_version g)),
           (''admitted_scope'', json_set target_json (gr_admitted_scope g)),
           (''max_depth'', json_word (gr_max_depth g)),
           (''total_acquisition_envelope'', spend_json (gr_total_acquisition_envelope g)),
           (''permitted_witness_classes'', json_set collector_json (gr_permitted_witness_classes g))]"

definition InquiryGrantV0_validate :: "InquiryGrantV0 \<Rightarrow> string + unit" where
  "InquiryGrantV0_validate g =
     checks
      [refuse_if (gr_schema g \<noteq> INQUIRY_GRANT_SCHEMA_V0)
         (''unsupported inquiry grant schema '' @ debug_str (gr_schema g) @ ''; expected ''
            @ debug_str INQUIRY_GRANT_SCHEMA_V0),
       validate_ratchet_scope ''grant.admitted_scope'' (gr_admitted_scope g)]"

definition grant_digest :: "externals \<Rightarrow> InquiryGrantV0 \<Rightarrow> string + string" where
  "grant_digest ext g = res_bind (InquiryGrantV0_validate g) (\<lambda>_. digest_jcs ext (grant_json g))"

record InquiryPositionV0 =
  pos_schema :: string
  pos_version :: InquiryVersionV0
  pos_scope :: "InquiryTlsTargetV0 fset"
  pos_depth :: u32
  pos_remaining_acquisition_envelope :: InquiryAcquisitionSpendV0

definition position_json :: "InquiryPositionV0 \<Rightarrow> json" where
  "position_json p =
     JObj [(''schema'', JStr (pos_schema p)), (''version'', version_json (pos_version p)),
           (''scope'', json_set target_json (pos_scope p)), (''depth'', json_word (pos_depth p)),
           (''remaining_acquisition_envelope'',
              spend_json (pos_remaining_acquisition_envelope p))]"

definition InquiryPositionV0_validate :: "InquiryPositionV0 \<Rightarrow> string + unit" where
  "InquiryPositionV0_validate p =
     checks
      [refuse_if (pos_schema p \<noteq> INQUIRY_POSITION_SCHEMA_V0)
         (''unsupported inquiry position schema '' @ debug_str (pos_schema p) @ ''; expected ''
            @ debug_str INQUIRY_POSITION_SCHEMA_V0),
       validate_ratchet_scope ''position.scope'' (pos_scope p)]"

definition position_digest :: "externals \<Rightarrow> InquiryPositionV0 \<Rightarrow> string + string" where
  "position_digest ext p =
     res_bind (InquiryPositionV0_validate p) (\<lambda>_. digest_jcs ext (position_json p))"

section \<open>Transition requests and their results\<close>

record InquiryTransitionRequestV0 =
  trq_schema :: string
  trq_version :: InquiryVersionV0
  trq_grant_digest :: string
  trq_requested_position :: InquiryPositionV0

definition InquiryTransitionRequestV0_bind ::
  "externals \<Rightarrow> InquiryGrantV0 \<Rightarrow> InquiryPositionV0 \<Rightarrow> string + InquiryTransitionRequestV0"
where
  "InquiryTransitionRequestV0_bind ext grant requested_position =
     res_bind (InquiryGrantV0_validate grant) (\<lambda>_.
     res_bind (InquiryPositionV0_validate requested_position) (\<lambda>_.
     res_bind (map_err (\<lambda>e. ''inquiry grant digest failed: '' @ e) (grant_digest ext grant)) (\<lambda>d.
     Inr \<lparr>trq_schema = INQUIRY_TRANSITION_REQUEST_SCHEMA_V0, trq_version = V0,
          trq_grant_digest = d, trq_requested_position = requested_position\<rparr>)))"

definition InquiryTransitionRequestV0_validate :: "InquiryTransitionRequestV0 \<Rightarrow> string + unit" where
  "InquiryTransitionRequestV0_validate r =
     checks
      [refuse_if (trq_schema r \<noteq> INQUIRY_TRANSITION_REQUEST_SCHEMA_V0)
         (''unsupported inquiry transition request schema '' @ debug_str (trq_schema r)
            @ ''; expected '' @ debug_str INQUIRY_TRANSITION_REQUEST_SCHEMA_V0),
       refuse_if (\<not> is_sha256_digest (trq_grant_digest r))
         ''transition request grant_digest must be a canonical SHA-256 digest'',
       InquiryPositionV0_validate (trq_requested_position r)]"

definition transition_request_json :: "InquiryTransitionRequestV0 \<Rightarrow> json" where
  "transition_request_json r =
     JObj [(''schema'', JStr (trq_schema r)), (''version'', version_json (trq_version r)),
           (''grant_digest'', JStr (trq_grant_digest r)),
           (''requested_position'', position_json (trq_requested_position r))]"

definition transition_request_digest :: "externals \<Rightarrow> InquiryTransitionRequestV0 \<Rightarrow> string + string" where
  "transition_request_digest ext r =
     res_bind (InquiryTransitionRequestV0_validate r) (\<lambda>_. digest_jcs ext (transition_request_json r))"

datatype InquiryTransitionAdmissionResultV0 = Authorized

datatype InquiryTransitionRefusalKindV0 =
    InvalidGrant
  | InvalidCurrentPosition
  | InvalidRequestedPosition
  | CurrentPositionOutsideGrant
  | RequestedScopeOutsideGrant
  | DepthExceedsGrant
  | RequestedAcquisitionEnvelopeExceedsGrant
  | ScopeWidening
  | DepthRegression
  | AcquisitionSpendReplenished
  | DepthIncreaseRequiresStrictScopeNarrowing
  | NoProgress

record AuthorizedInquiryTransitionV0 =
  aut_schema :: string
  aut_version :: InquiryVersionV0
  aut_grant_digest :: string
  aut_before_position_digest :: string
  aut_requested_position_digest :: string
  aut_result :: InquiryTransitionAdmissionResultV0

record InquiryTransitionRefusalV0 =
  tref_schema :: string
  tref_version :: InquiryVersionV0
  tref_grant_digest :: string
  tref_before_position_digest :: string
  tref_requested_position_digest :: string
  tref_kind :: InquiryTransitionRefusalKindV0

definition validate_transition_binding_digests :: "string \<Rightarrow> string \<Rightarrow> string \<Rightarrow> string + unit" where
  "validate_transition_binding_digests gd bd rd =
     refuse_if (\<not> is_sha256_digest gd \<or> \<not> is_sha256_digest bd \<or> \<not> is_sha256_digest rd)
       ''transition bindings must be canonical SHA-256 digests''"

definition AuthorizedInquiryTransitionV0_validate :: "AuthorizedInquiryTransitionV0 \<Rightarrow> string + unit" where
  "AuthorizedInquiryTransitionV0_validate a =
     checks
      [refuse_if (aut_schema a \<noteq> AUTHORIZED_INQUIRY_TRANSITION_SCHEMA_V0)
         (''unsupported authorized inquiry transition schema '' @ debug_str (aut_schema a)
            @ ''; expected '' @ debug_str AUTHORIZED_INQUIRY_TRANSITION_SCHEMA_V0),
       validate_transition_binding_digests (aut_grant_digest a) (aut_before_position_digest a)
         (aut_requested_position_digest a)]"

definition InquiryTransitionRefusalV0_validate :: "InquiryTransitionRefusalV0 \<Rightarrow> string + unit" where
  "InquiryTransitionRefusalV0_validate r =
     checks
      [refuse_if (tref_schema r \<noteq> INQUIRY_TRANSITION_REFUSAL_SCHEMA_V0)
         (''unsupported inquiry transition refusal schema '' @ debug_str (tref_schema r)
            @ ''; expected '' @ debug_str INQUIRY_TRANSITION_REFUSAL_SCHEMA_V0),
       validate_transition_binding_digests (tref_grant_digest r) (tref_before_position_digest r)
         (tref_requested_position_digest r)]"

fun refusal_kind_str :: "InquiryTransitionRefusalKindV0 \<Rightarrow> string" where
  "refusal_kind_str InvalidGrant = ''invalid_grant''"
| "refusal_kind_str InvalidCurrentPosition = ''invalid_current_position''"
| "refusal_kind_str InvalidRequestedPosition = ''invalid_requested_position''"
| "refusal_kind_str CurrentPositionOutsideGrant = ''current_position_outside_grant''"
| "refusal_kind_str RequestedScopeOutsideGrant = ''requested_scope_outside_grant''"
| "refusal_kind_str DepthExceedsGrant = ''depth_exceeds_grant''"
| "refusal_kind_str RequestedAcquisitionEnvelopeExceedsGrant =
     ''requested_acquisition_envelope_exceeds_grant''"
| "refusal_kind_str ScopeWidening = ''scope_widening''"
| "refusal_kind_str DepthRegression = ''depth_regression''"
| "refusal_kind_str AcquisitionSpendReplenished = ''acquisition_spend_replenished''"
| "refusal_kind_str DepthIncreaseRequiresStrictScopeNarrowing =
     ''depth_increase_requires_strict_scope_narrowing''"
| "refusal_kind_str NoProgress = ''no_progress''"

definition authorized_json :: "AuthorizedInquiryTransitionV0 \<Rightarrow> json" where
  "authorized_json a =
     JObj [(''schema'', JStr (aut_schema a)), (''version'', version_json (aut_version a)),
           (''grant_digest'', JStr (aut_grant_digest a)),
           (''before_position_digest'', JStr (aut_before_position_digest a)),
           (''requested_position_digest'', JStr (aut_requested_position_digest a)),
           (''result'', case aut_result a of Authorized \<Rightarrow> JStr ''authorized'')]"

definition authorized_receipt_digest :: "externals \<Rightarrow> AuthorizedInquiryTransitionV0 \<Rightarrow> string + string" where
  "authorized_receipt_digest ext a =
     res_bind (AuthorizedInquiryTransitionV0_validate a) (\<lambda>_. digest_jcs ext (authorized_json a))"

definition transition_refusal_json :: "InquiryTransitionRefusalV0 \<Rightarrow> json" where
  "transition_refusal_json r =
     JObj [(''schema'', JStr (tref_schema r)), (''version'', version_json (tref_version r)),
           (''grant_digest'', JStr (tref_grant_digest r)),
           (''before_position_digest'', JStr (tref_before_position_digest r)),
           (''requested_position_digest'', JStr (tref_requested_position_digest r)),
           (''kind'', JStr (refusal_kind_str (tref_kind r)))]"

definition refusal_receipt_digest :: "externals \<Rightarrow> InquiryTransitionRefusalV0 \<Rightarrow> string + string" where
  "refusal_receipt_digest ext r =
     res_bind (InquiryTransitionRefusalV0_validate r) (\<lambda>_. digest_jcs ext (transition_refusal_json r))"

section \<open>Admission and the ratchet\<close>

definition admit_initial_position :: "InquiryGrantV0 \<Rightarrow> InquiryPositionV0 \<Rightarrow> string + unit" where
  "admit_initial_position grant position =
     checks
      [InquiryGrantV0_validate grant,
       InquiryPositionV0_validate position,
       refuse_if (\<not> pos_scope position |\<subseteq>| gr_admitted_scope grant)
         ''initial inquiry position scope is outside the grant'',
       refuse_if (pos_depth position > gr_max_depth grant)
         ''initial inquiry position depth exceeds grant.max_depth'',
       (case first_spend_dimension_over_limit (pos_remaining_acquisition_envelope position)
               (gr_total_acquisition_envelope grant) of
          None \<Rightarrow> Inr ()
        | Some dimension \<Rightarrow>
            Inl (''initial inquiry position remaining acquisition '' @ dimension
                   @ '' exceeds the grant envelope''))]"

text \<open>\<open>ratchet_artifact_digest\<close> panics when canonicalisation fails: \<open>None\<close>.\<close>

definition ratchet_artifact_digest :: "externals \<Rightarrow> json \<Rightarrow> string option" where
  "ratchet_artifact_digest ext v = (case digest_jcs ext v of Inl e \<Rightarrow> None | Inr d \<Rightarrow> Some d)"

text \<open>
  The guards of the ratchet in the order of the code; \<open>None\<close> when all of them let the
  transition pass.
\<close>

definition transition_refusal ::
  "InquiryGrantV0 \<Rightarrow> InquiryPositionV0 \<Rightarrow> InquiryPositionV0 \<Rightarrow> InquiryTransitionRefusalKindV0 option"
where
  "transition_refusal grant current requested =
     (let remaining = pos_remaining_acquisition_envelope;
          scope_strictly_narrowed = pos_scope requested \<noteq> pos_scope current;
          depth_increased = pos_depth requested > pos_depth current;
          spend_decreased = remaining requested \<noteq> remaining current
      in
      if \<not> is_ok (InquiryGrantV0_validate grant) then Some InvalidGrant
      else if \<not> is_ok (InquiryPositionV0_validate current) then Some InvalidCurrentPosition
      else if \<not> is_ok (InquiryPositionV0_validate requested) then Some InvalidRequestedPosition
      else if \<not> is_ok (admit_initial_position grant current) then Some CurrentPositionOutsideGrant
      else if \<not> pos_scope requested |\<subseteq>| gr_admitted_scope grant
        then Some RequestedScopeOutsideGrant
      else if pos_depth requested > gr_max_depth grant then Some DepthExceedsGrant
      else if \<not> spend_is_pointwise_at_most (remaining requested) (gr_total_acquisition_envelope grant)
        then Some RequestedAcquisitionEnvelopeExceedsGrant
      else if \<not> pos_scope requested |\<subseteq>| pos_scope current then Some ScopeWidening
      else if pos_depth requested < pos_depth current then Some DepthRegression
      else if \<not> spend_is_pointwise_at_most (remaining requested) (remaining current)
        then Some AcquisitionSpendReplenished
      else if depth_increased \<and> \<not> scope_strictly_narrowed
        then Some DepthIncreaseRequiresStrictScopeNarrowing
      else if \<not> scope_strictly_narrowed \<and> \<not> depth_increased \<and> \<not> spend_decreased
        then Some NoProgress
      else None)"

definition authorize_same_grant_transition ::
  "externals \<Rightarrow> InquiryGrantV0 \<Rightarrow> InquiryPositionV0 \<Rightarrow> InquiryPositionV0 \<Rightarrow>
     (InquiryTransitionRefusalV0 + AuthorizedInquiryTransitionV0) option"
where
  "authorize_same_grant_transition ext grant current requested =
     (case ratchet_artifact_digest ext (grant_json grant) of
        None \<Rightarrow> None
      | Some gd \<Rightarrow>
          (case ratchet_artifact_digest ext (position_json current) of
             None \<Rightarrow> None
           | Some bd \<Rightarrow>
               (case ratchet_artifact_digest ext (position_json requested) of
                  None \<Rightarrow> None
                | Some rd \<Rightarrow>
                    Some
                      (case transition_refusal grant current requested of
                         Some kind \<Rightarrow>
                           Inl \<lparr>tref_schema = INQUIRY_TRANSITION_REFUSAL_SCHEMA_V0, tref_version = V0,
                                tref_grant_digest = gd, tref_before_position_digest = bd,
                                tref_requested_position_digest = rd, tref_kind = kind\<rparr>
                       | None \<Rightarrow>
                           Inr \<lparr>aut_schema = AUTHORIZED_INQUIRY_TRANSITION_SCHEMA_V0, aut_version = V0,
                                aut_grant_digest = gd, aut_before_position_digest = bd,
                                aut_requested_position_digest = rd, aut_result = Authorized\<rparr>))))"

section \<open>Spend as a pointwise order\<close>

definition spend_le :: "InquiryAcquisitionSpendV0 \<Rightarrow> InquiryAcquisitionSpendV0 \<Rightarrow> bool" where
  "spend_le a b \<longleftrightarrow>
     sp_dns_attempts a \<le> sp_dns_attempts b \<and> sp_connection_attempts a \<le> sp_connection_attempts b
     \<and> sp_handshakes_attempted a \<le> sp_handshakes_attempted b
     \<and> sp_handshakes_completed a \<le> sp_handshakes_completed b
     \<and> sp_bound_checks a \<le> sp_bound_checks b \<and> sp_wall_ms a \<le> sp_wall_ms b
     \<and> sp_work_units a \<le> sp_work_units b"

definition spend_total :: "InquiryAcquisitionSpendV0 \<Rightarrow> nat" where
  "spend_total s =
     unat (sp_dns_attempts s) + unat (sp_connection_attempts s) + unat (sp_handshakes_attempted s)
     + unat (sp_handshakes_completed s) + unat (sp_bound_checks s) + unat (sp_wall_ms s)
     + unat (sp_work_units s)"

lemma first_dimension_None: "first_spend_dimension_over_limit a b = None \<longleftrightarrow> spend_le a b"
  by (auto simp: first_spend_dimension_over_limit_def spend_le_def not_less)

lemma spend_is_pointwise_iff [simp]: "spend_is_pointwise_at_most a b \<longleftrightarrow> spend_le a b"
  by (simp add: spend_is_pointwise_at_most_def first_dimension_None)

lemma spend_le_refl [simp]: "spend_le a a"
  by (simp add: spend_le_def)

lemma spend_le_trans: "spend_le a b \<Longrightarrow> spend_le b c \<Longrightarrow> spend_le a c"
  by (auto simp: spend_le_def)

lemma spend_le_total: "spend_le a b \<Longrightarrow> spend_total a \<le> spend_total b"
  by (auto simp: spend_le_def spend_total_def word_le_nat_alt intro!: add_mono)

lemma spend_eq_if_total:
  "spend_le a b \<Longrightarrow> spend_total a = spend_total b \<Longrightarrow> a = b"
  by (cases a; cases b) (simp add: spend_le_def spend_total_def word_le_nat_alt word_unat_eq_iff)

lemma spend_less_total: "spend_le a b \<Longrightarrow> a \<noteq> b \<Longrightarrow> spend_total a < spend_total b"
  using spend_le_total spend_eq_if_total by (metis le_neq_implies_less)

lemma counted_work_units_unat:
  "unat (counted_work_units s) =
     unat (sp_dns_attempts s) + unat (sp_connection_attempts s)
     + unat (sp_handshakes_attempted s) + unat (sp_bound_checks s)"
proof -
  have u: "unat (ucast (n :: u32) :: u64) = unat n" for n
  proof -
    have "unat n < 2 ^ 32" using unsigned_less [of n, where ?'a = nat] by simp
    then show ?thesis by (simp add: unsigned_ucast_eq take_bit_nat_eq_self)
  qed
  have b: "unat (n :: u32) < 2 ^ 32" for n
    using unsigned_less [of n, where ?'a = nat] by simp
  show ?thesis
    using b [of "sp_dns_attempts s"] b [of "sp_connection_attempts s"]
      b [of "sp_handshakes_attempted s"] b [of "sp_bound_checks s"]
    by (simp add: counted_work_units_def unat_word_ariths u)
qed

section \<open>Scopes\<close>

text \<open>A valid scope: every target is valid, and identifiers are distinct.\<close>

definition valid_scope :: "InquiryTlsTargetV0 fset \<Rightarrow> bool" where
  "valid_scope S \<longleftrightarrow>
     (\<forall>t \<in> fset S. trim (target_id t) \<noteq> [] \<and> trim (tgt_host t) \<noteq> [] \<and> tgt_port t \<noteq> 0 \<and> trim (tgt_sni t) \<noteq> [])
     \<and> inj_on target_id (fset S)"

lemma validate_ratchet_scope_ok [res_ok]: "validate_ratchet_scope f S = Inr () \<longleftrightarrow> valid_scope S"
  by (simp add: validate_ratchet_scope_def check_unique_ok target_validate_ok valid_scope_def distinct_map
      sorted_list_of_fset.rep_eq)

lemma valid_scope_subset: "valid_scope T \<Longrightarrow> S |\<subseteq>| T \<Longrightarrow> valid_scope S"
  by (auto simp: valid_scope_def less_eq_fset.rep_eq intro: inj_on_subset)

lemma grant_validate_ok [res_ok]:
  "InquiryGrantV0_validate g = Inr () \<longleftrightarrow> gr_schema g = INQUIRY_GRANT_SCHEMA_V0 \<and> valid_scope (gr_admitted_scope g)"
  by (simp add: InquiryGrantV0_validate_def res_ok)

lemma position_validate_ok [res_ok]:
  "InquiryPositionV0_validate p = Inr () \<longleftrightarrow> pos_schema p = INQUIRY_POSITION_SCHEMA_V0 \<and> valid_scope (pos_scope p)"
  by (simp add: InquiryPositionV0_validate_def res_ok)

section \<open>The abstract ratchet\<close>

text \<open>
  The specification, free of the order in which the code tests: a position is within a grant,
  and one position may follow another when it narrows the scope, does not go back in depth,
  does not get spend back, and makes progress, which at the same scope can only be spending.
\<close>

definition within_grant :: "InquiryGrantV0 \<Rightarrow> InquiryPositionV0 \<Rightarrow> bool" where
  "within_grant g p \<longleftrightarrow>
     InquiryGrantV0_validate g = Inr () \<and> InquiryPositionV0_validate p = Inr ()
     \<and> pos_scope p |\<subseteq>| gr_admitted_scope g \<and> pos_depth p \<le> gr_max_depth g
     \<and> spend_le (pos_remaining_acquisition_envelope p) (gr_total_acquisition_envelope g)"

definition narrows :: "InquiryPositionV0 \<Rightarrow> InquiryPositionV0 \<Rightarrow> bool" where
  "narrows p q \<longleftrightarrow>
     pos_scope q |\<subseteq>| pos_scope p \<and> pos_depth p \<le> pos_depth q
     \<and> spend_le (pos_remaining_acquisition_envelope q) (pos_remaining_acquisition_envelope p)"

definition may_follow :: "InquiryPositionV0 \<Rightarrow> InquiryPositionV0 \<Rightarrow> bool" where
  "may_follow p q \<longleftrightarrow>
     narrows p q
     \<and> (pos_scope q |\<subset>| pos_scope p
        \<or> pos_depth q = pos_depth p
            \<and> pos_remaining_acquisition_envelope q \<noteq> pos_remaining_acquisition_envelope p)"

definition headroom :: "InquiryPositionV0 \<Rightarrow> nat" where
  "headroom p = fcard (pos_scope p) + spend_total (pos_remaining_acquisition_envelope p)"

lemma admit_initial_position_ok [res_ok]: "admit_initial_position g p = Inr () \<longleftrightarrow> within_grant g p"
proof -
  have "(case first_spend_dimension_over_limit a b of None \<Rightarrow> Inr () | Some d \<Rightarrow> Inl (f d)) = Inr ()
      \<longleftrightarrow> spend_le a b" for a b and f :: "string \<Rightarrow> string"
    using first_dimension_None [of a b] by (auto split: option.splits)
  then show ?thesis
    by (auto simp: admit_initial_position_def within_grant_def checks_ok refuse_if_ok not_less)
qed

lemma transition_refusal_None:
  "transition_refusal g p q = None \<longleftrightarrow> within_grant g p \<and> within_grant g q \<and> may_follow p q"
proof -
  have "pos_scope q |\<subset>| pos_scope p \<longleftrightarrow> pos_scope q |\<subseteq>| pos_scope p \<and> pos_scope q \<noteq> pos_scope p"
    by auto
  then show ?thesis
    by (auto simp: transition_refusal_def Let_def is_ok_unit_iff admit_initial_position_ok within_grant_def
        may_follow_def narrows_def not_less split: if_splits)
qed

lemma narrows_refl: "narrows p p"
  by (simp add: narrows_def)

lemma narrows_trans: "narrows p q \<Longrightarrow> narrows q r \<Longrightarrow> narrows p r"
  unfolding narrows_def by (metis fsubset_trans order_trans spend_le_trans)

lemma may_follow_headroom:
  assumes "may_follow p q"
  shows "headroom q < headroom p"
proof -
  from assms have n: "pos_scope q |\<subseteq>| pos_scope p"
    "spend_le (pos_remaining_acquisition_envelope q) (pos_remaining_acquisition_envelope p)"
    by (simp_all add: may_follow_def narrows_def)
  note c = fcard_mono [OF n(1)] spend_le_total [OF n(2)]
  from assms consider "pos_scope q |\<subset>| pos_scope p"
    | "pos_remaining_acquisition_envelope q \<noteq> pos_remaining_acquisition_envelope p"
    by (auto simp: may_follow_def)
  then show ?thesis
  proof cases
    case 1
    then have "fcard (pos_scope q) < fcard (pos_scope p)" by (rule pfsubset_fcard_mono)
    with c show ?thesis by (simp add: headroom_def)
  next
    case 2
    with n(2) c(1) show ?thesis by (simp add: headroom_def spend_less_total add_le_less_mono)
  qed
qed

section \<open>Consumable budgets\<close>

text \<open>
  The contract of a budget that is only ever consumed: steps stay inside what was granted,
  move along a preorder, and use up a measure. A client gets that every run stays inside,
  is itself ordered, and is no longer than the measure of its start.
\<close>

locale spend_down =
  fixes step :: "'s \<Rightarrow> 's \<Rightarrow> bool"
    and inside :: "'s \<Rightarrow> bool"
    and consumes :: "'s \<Rightarrow> 's \<Rightarrow> bool"
    and fuel :: "'s \<Rightarrow> nat"
  assumes step_inside: "step a b \<Longrightarrow> inside b"
    and step_consumes: "step a b \<Longrightarrow> consumes a b"
    and consumes_refl: "consumes a a"
    and consumes_trans: "consumes a b \<Longrightarrow> consumes b c \<Longrightarrow> consumes a c"
    and step_fuel: "step a b \<Longrightarrow> fuel b < fuel a"
begin

lemma run_inside: "(step ^^ n) a b \<Longrightarrow> inside a \<Longrightarrow> inside b"
  by (induction n arbitrary: b) (auto dest: step_inside)

lemma run_consumes: "(step ^^ n) a b \<Longrightarrow> consumes a b"
  by (induction n arbitrary: b) (auto intro: consumes_refl consumes_trans dest: step_consumes)

lemma run_length: "(step ^^ n) a b \<Longrightarrow> n + fuel b \<le> fuel a"
proof (induction n arbitrary: b)
  case (Suc n)
  then obtain c where "(step ^^ n) a c" "step c b" by auto
  with Suc.IH [of c] step_fuel [of c b] show ?case by simp
qed simp

lemma no_infinite_run: "\<not> (\<forall>i. step (f i) (f (Suc i)))"
proof
  assume s: "\<forall>i. step (f i) (f (Suc i))"
  have "(step ^^ n) (f 0) (f n)" for n
    using s by (induction n) auto
  from run_length [OF this, of "Suc (fuel (f 0))"] show False by simp
qed

end

section \<open>Authorisation\<close>

lemma ratchet_digest_Some:
  "ratchet_artifact_digest ext v = Some d \<longleftrightarrow> digest_jcs ext v = Inr d"
  by (auto simp: ratchet_artifact_digest_def split: sum.splits)

lemma ratchet_digest_total: "jcs_total ext \<Longrightarrow> \<exists>d. ratchet_artifact_digest ext v = Some d"
  using digest_jcs_total [of ext v] by (auto simp: ratchet_digest_Some)

lemma authorize_Inr_iff:
  "authorize_same_grant_transition ext g p q = Some (Inr a) \<longleftrightarrow>
     within_grant g p \<and> within_grant g q \<and> may_follow p q
     \<and> aut_schema a = AUTHORIZED_INQUIRY_TRANSITION_SCHEMA_V0
     \<and> digest_jcs ext (grant_json g) = Inr (aut_grant_digest a)
     \<and> digest_jcs ext (position_json p) = Inr (aut_before_position_digest a)
     \<and> digest_jcs ext (position_json q) = Inr (aut_requested_position_digest a)"
  unfolding authorize_same_grant_transition_def using transition_refusal_None [of g p q]
  by (cases a; cases "aut_result a")
    (auto simp: ratchet_digest_Some [symmetric] version_eq split: option.splits)

lemma authorize_Inl_iff:
  "authorize_same_grant_transition ext g p q = Some (Inl r) \<longleftrightarrow>
     transition_refusal g p q = Some (tref_kind r)
     \<and> tref_schema r = INQUIRY_TRANSITION_REFUSAL_SCHEMA_V0
     \<and> digest_jcs ext (grant_json g) = Inr (tref_grant_digest r)
     \<and> digest_jcs ext (position_json p) = Inr (tref_before_position_digest r)
     \<and> digest_jcs ext (position_json q) = Inr (tref_requested_position_digest r)"
  unfolding authorize_same_grant_transition_def
  by (cases r) (auto simp: ratchet_digest_Some [symmetric] version_eq split: option.splits)

lemma authorize_total:
  "jcs_total ext \<Longrightarrow> authorize_same_grant_transition ext g p q \<noteq> None"
  using ratchet_digest_total [of ext "grant_json g"] ratchet_digest_total [of ext "position_json p"]
    ratchet_digest_total [of ext "position_json q"]
  by (auto simp: authorize_same_grant_transition_def)

definition authorized_step :: "externals \<Rightarrow> InquiryGrantV0 \<Rightarrow> InquiryPositionV0 \<Rightarrow> InquiryPositionV0 \<Rightarrow> bool" where
  "authorized_step ext g p q \<longleftrightarrow>
     (case authorize_same_grant_transition ext g p q of Some (Inr a) \<Rightarrow> True | _ \<Rightarrow> False)"

lemma authorized_step_iff:
  "authorized_step ext g p q \<longleftrightarrow> (\<exists>a. authorize_same_grant_transition ext g p q = Some (Inr a))"
  by (auto simp: authorized_step_def split: option.splits sum.splits)

interpretation ratchet: spend_down "authorized_step ext g" "within_grant g" narrows headroom for ext g
  by unfold_locales
    (auto simp: authorized_step_iff authorize_Inr_iff may_follow_headroom narrows_refl
      intro: narrows_trans, simp add: may_follow_def)

text \<open>
  Runs of the ratchet under one grant, with the receipts issued on the way: an admitted
  position, then one authorised transition at a time.
\<close>

inductive ratchet_run ::
  "externals \<Rightarrow> InquiryGrantV0 \<Rightarrow> InquiryPositionV0 \<Rightarrow> AuthorizedInquiryTransitionV0 list \<Rightarrow>
     InquiryPositionV0 \<Rightarrow> bool"
  for ext g p
where
  start: "admit_initial_position g p = Inr () \<Longrightarrow> ratchet_run ext g p [] p"
| advance: "ratchet_run ext g p receipts q \<Longrightarrow>
    authorize_same_grant_transition ext g q q' = Some (Inr a) \<Longrightarrow>
    ratchet_run ext g p (receipts @ [a]) q'"

inductive_cases ratchet_run_NilE: "ratchet_run ext g p [] q"

lemma ratchet_run_steps: "ratchet_run ext g p receipts q \<Longrightarrow> (authorized_step ext g ^^ length receipts) p q"
  by (induction rule: ratchet_run.induct) (auto simp: authorized_step_iff)

lemma ratchet_run_start: "ratchet_run ext g p receipts q \<Longrightarrow> within_grant g p"
  by (induction rule: ratchet_run.induct) (auto simp: admit_initial_position_ok)

text \<open>
  The receipts of a run as a chain: each starts at the digest the previous one ends at.
\<close>

fun receipts_chain :: "string \<Rightarrow> AuthorizedInquiryTransitionV0 list \<Rightarrow> string \<Rightarrow> bool" where
  "receipts_chain d [] e \<longleftrightarrow> d = e"
| "receipts_chain d (a # as) e \<longleftrightarrow>
     aut_before_position_digest a = d \<and> receipts_chain (aut_requested_position_digest a) as e"

lemma receipts_chain_snoc:
  "receipts_chain d as e \<Longrightarrow> aut_before_position_digest a = e \<Longrightarrow>
     receipts_chain d (as @ [a]) (aut_requested_position_digest a)"
  by (induction as arbitrary: d) auto

lemma ratchet_run_chain:
  assumes "ratchet_run ext g p receipts q" "digest_jcs ext (position_json p) = Inr d"
  shows "\<exists>e. digest_jcs ext (position_json q) = Inr e \<and> receipts_chain d receipts e"
  using assms
proof (induction rule: ratchet_run.induct)
  case start
  then show ?case by simp
next
  case (advance receipts q q' a)
  then obtain e where "digest_jcs ext (position_json q) = Inr e" "receipts_chain d receipts e" by blast
  with advance.hyps(2) show ?case
    by (auto simp: authorize_Inr_iff intro: receipts_chain_snoc)
qed

section \<open>Artifacts are determined by their serialisation\<close>

lemma spend_json_inject [simp]: "spend_json a = spend_json b \<longleftrightarrow> a = b"
  by (cases a; cases b) (auto simp: spend_json_def)

lemma inj_collector_json: "inj collector_json"
  by (simp add: inj_def collector_eq)

lemma grant_json_inject: "grant_json g = grant_json h \<longleftrightarrow> g = h"
  by (cases g; cases h) (auto simp: grant_json_def version_eq inj_collector_json)

lemma position_json_inject: "position_json p = position_json q \<longleftrightarrow> p = q"
  by (cases p; cases q) (auto simp: position_json_def version_eq)

section \<open>A concrete run\<close>

definition demo_spend :: "u32 \<Rightarrow> InquiryAcquisitionSpendV0" where
  "demo_spend n =
     \<lparr>sp_dns_attempts = n, sp_connection_attempts = 2, sp_handshakes_attempted = 2,
      sp_handshakes_completed = 2, sp_bound_checks = 2, sp_wall_ms = 200, sp_work_units = 8\<rparr>"

definition demo_grant :: InquiryGrantV0 where
  "demo_grant =
     \<lparr>gr_schema = INQUIRY_GRANT_SCHEMA_V0, gr_version = V0,
      gr_admitted_scope = {|demo_target ''a'', demo_target ''b''|}, gr_max_depth = 2,
      gr_total_acquisition_envelope = demo_spend 2, gr_permitted_witness_classes = {|TlsCertProbe|}\<rparr>"

definition demo_position :: "InquiryTlsTargetV0 fset \<Rightarrow> u32 \<Rightarrow> u32 \<Rightarrow> InquiryPositionV0" where
  "demo_position S d n =
     \<lparr>pos_schema = INQUIRY_POSITION_SCHEMA_V0, pos_version = V0, pos_scope = S, pos_depth = d,
      pos_remaining_acquisition_envelope = demo_spend n\<rparr>"

lemma demo_grant_valid: "valid_scope (gr_admitted_scope demo_grant)"
  by (simp add: valid_scope_def demo_grant_def demo_target_def str_eval)

lemma demo_within_grant:
  "within_grant demo_grant (demo_position (gr_admitted_scope demo_grant) 1 2)"
  "within_grant demo_grant (demo_position {|demo_target ''a''|} 2 1)"
  using demo_grant_valid valid_scope_subset [OF demo_grant_valid, of "{|demo_target ''a''|}"]
  by (simp_all add: within_grant_def grant_validate_ok position_validate_ok demo_position_def)
    (simp_all add: demo_grant_def demo_spend_def spend_le_def)

lemma demo_may_follow:
  "may_follow (demo_position (gr_admitted_scope demo_grant) 1 2) (demo_position {|demo_target ''a''|} 2 1)"
proof -
  have "demo_target ''b'' |\<notin>| {|demo_target ''a''|}" by (simp add: demo_target_def)
  then show ?thesis
    by (auto simp: may_follow_def narrows_def demo_position_def demo_grant_def demo_spend_def spend_le_def)
qed

lemma demo_authorized:
  "\<exists>a. authorize_same_grant_transition demo_ext demo_grant
     (demo_position (gr_admitted_scope demo_grant) 1 2) (demo_position {|demo_target ''a''|} 2 1)
     = Some (Inr a)"
proof -
  obtain gd bd rd where "digest_jcs demo_ext (grant_json demo_grant) = Inr gd"
    "digest_jcs demo_ext (position_json (demo_position (gr_admitted_scope demo_grant) 1 2)) = Inr bd"
    "digest_jcs demo_ext (position_json (demo_position {|demo_target ''a''|} 2 1)) = Inr rd"
    using digest_jcs_total [OF demo_ext_total] by metis
  then have "authorize_same_grant_transition demo_ext demo_grant
     (demo_position (gr_admitted_scope demo_grant) 1 2) (demo_position {|demo_target ''a''|} 2 1)
     = Some (Inr \<lparr>aut_schema = AUTHORIZED_INQUIRY_TRANSITION_SCHEMA_V0, aut_version = V0,
          aut_grant_digest = gd, aut_before_position_digest = bd, aut_requested_position_digest = rd,
          aut_result = Authorized\<rparr>)"
    by (simp add: authorize_Inr_iff demo_within_grant demo_may_follow)
  then show ?thesis by blast
qed

lemma demo_run:
  "\<exists>a. ratchet_run demo_ext demo_grant (demo_position (gr_admitted_scope demo_grant) 1 2) [a]
     (demo_position {|demo_target ''a''|} 2 1)"
proof -
  have "ratchet_run demo_ext demo_grant (demo_position (gr_admitted_scope demo_grant) 1 2) []
      (demo_position (gr_admitted_scope demo_grant) 1 2)"
    by (rule ratchet_run.start) (simp add: admit_initial_position_ok demo_within_grant)
  from ratchet_run.advance [OF this] demo_authorized show ?thesis by fastforce
qed

section \<open>Properties\<close>

text \<open>
  C2: the ratchet implements its specification. The function always returns (its digests
  cannot fail), and it authorises a transition exactly when both positions are within the
  grant and the requested one may follow the current one: narrower or equal scope, no
  regress in depth, no spend given back, and progress, where a deeper position needs a
  strictly narrower scope. Otherwise it returns a refusal of the kind of the first guard that
  fails.
\<close>

theorem authorize_refines_ratchet:
  assumes "jcs_total ext"
  shows "\<exists>r. authorize_same_grant_transition ext g p q = Some r
    \<and> (is_ok r \<longleftrightarrow> within_grant g p \<and> within_grant g q \<and> may_follow p q)
    \<and> (\<forall>e. r = Inl e \<longrightarrow> transition_refusal g p q = Some (tref_kind e))"
proof -
  obtain r where r: "authorize_same_grant_transition ext g p q = Some r"
    using authorize_total [OF assms, of g p q] by auto
  show ?thesis
  proof (cases r)
    case (Inl e)
    with r have k: "transition_refusal g p q = Some (tref_kind e)" by (simp add: authorize_Inl_iff)
    then have "\<not> (within_grant g p \<and> within_grant g q \<and> may_follow p q)"
      using transition_refusal_None [of g p q] by auto
    with r Inl k show ?thesis by auto
  next
    case (Inr a)
    with r have "within_grant g p \<and> within_grant g q \<and> may_follow p q"
      by (simp add: authorize_Inr_iff)
    with r Inr show ?thesis by auto
  qed
qed

theorem authorize_refines_ratchet_witness:
  "\<exists>r. authorize_same_grant_transition demo_ext demo_grant
      (demo_position (gr_admitted_scope demo_grant) 1 2) (demo_position {|demo_target ''a''|} 2 1) = Some r
    \<and> is_ok r"
  using authorize_refines_ratchet [OF demo_ext_total, of demo_grant
      "demo_position (gr_admitted_scope demo_grant) 1 2" "demo_position {|demo_target ''a''|} 2 1"]
    demo_within_grant demo_may_follow by blast

text \<open>
  C1: standing is only spent. Whatever sequence of transitions is authorised under one
  grant, the position reached is within the grant, its scope is inside the initial scope, its
  depth is not smaller, no counter of its remaining envelope is larger, and the number of
  transitions is at most the number of targets and units of spend given up since the start; in
  particular no run is longer than the headroom of the initial position.
\<close>

theorem ratchet_run_spends_down:
  assumes "ratchet_run ext g p receipts q"
  shows "admit_initial_position g q = Inr ()
    \<and> pos_scope q |\<subseteq>| pos_scope p \<and> pos_depth p \<le> pos_depth q
    \<and> spend_le (pos_remaining_acquisition_envelope q) (pos_remaining_acquisition_envelope p)
    \<and> length receipts + headroom q \<le> headroom p"
proof -
  note steps = ratchet_run_steps [OF assms]
  have "within_grant g q"
    by (rule ratchet.run_inside [OF steps ratchet_run_start [OF assms]])
  with ratchet.run_consumes [OF steps] ratchet.run_length [OF steps] show ?thesis
    by (simp add: admit_initial_position_ok narrows_def)
qed

theorem ratchet_run_spends_down_witness:
  "\<exists>a. ratchet_run demo_ext demo_grant (demo_position (gr_admitted_scope demo_grant) 1 2) [a]
     (demo_position {|demo_target ''a''|} 2 1)
   \<and> admit_initial_position demo_grant (demo_position {|demo_target ''a''|} 2 1) = Inr ()"
proof -
  obtain a where "ratchet_run demo_ext demo_grant
      (demo_position (gr_admitted_scope demo_grant) 1 2) [a] (demo_position {|demo_target ''a''|} 2 1)"
    using demo_run by blast
  then show ?thesis
    using ratchet_run_spends_down [of demo_ext demo_grant
        "demo_position (gr_admitted_scope demo_grant) 1 2" "[a]" "demo_position {|demo_target ''a''|} 2 1"]
    by auto
qed

text \<open>
  The receipts of a run are a chain from the digest of the initial position to the
  digest of the last one, every receipt names the digest of the one grant, and every receipt
  is well formed.
\<close>

theorem ratchet_receipts_chain:
  assumes "ratchet_run ext g p receipts q" "sha256_shape ext" "jcs_total ext"
  shows "\<exists>d e. digest_jcs ext (position_json p) = Inr d \<and> digest_jcs ext (position_json q) = Inr e
    \<and> receipts_chain d receipts e
    \<and> (\<forall>a \<in> set receipts. AuthorizedInquiryTransitionV0_validate a = Inr ()
         \<and> digest_jcs ext (grant_json g) = Inr (aut_grant_digest a))"
proof -
  obtain d where d: "digest_jcs ext (position_json p) = Inr d"
    using digest_jcs_total [OF assms(3)] by blast
  have "\<forall>a \<in> set receipts. AuthorizedInquiryTransitionV0_validate a = Inr ()
         \<and> digest_jcs ext (grant_json g) = Inr (aut_grant_digest a)"
    using assms(1)
    by (induction rule: ratchet_run.induct)
      (auto simp: authorize_Inr_iff AuthorizedInquiryTransitionV0_validate_def
        validate_transition_binding_digests_def res_ok digest_jcs_shape [OF assms(2)])
  with ratchet_run_chain [OF assms(1) d] d show ?thesis by blast
qed

theorem ratchet_receipts_chain_witness:
  "\<exists>a. ratchet_run demo_ext demo_grant (demo_position (gr_admitted_scope demo_grant) 1 2) [a]
     (demo_position {|demo_target ''a''|} 2 1)
   \<and> AuthorizedInquiryTransitionV0_validate a = Inr ()"
proof -
  obtain a where run: "ratchet_run demo_ext demo_grant
      (demo_position (gr_admitted_scope demo_grant) 1 2) [a] (demo_position {|demo_target ''a''|} 2 1)"
    using demo_run by blast
  with ratchet_receipts_chain [OF run demo_ext_shape demo_ext_total] show ?thesis by auto
qed

text \<open>
  A receipt of the ratchet, authorisation or refusal, identifies what was decided: if
  the same receipt is issued for two decisions, they were about the same grant and the same
  two positions, as long as SHA-256 does not collide on them.
\<close>

lemma ratchet_receipt_binds:
  assumes "authorize_same_grant_transition ext g p q = Some r"
    and "authorize_same_grant_transition ext g' p' q' = Some r"
    and "no_collision ext (grant_json g) (grant_json g')"
      "no_collision ext (position_json p) (position_json p')"
      "no_collision ext (position_json q) (position_json q')"
  shows "g = g' \<and> p = p' \<and> q = q'"
proof -
  obtain gd bd rd where
    "digest_jcs ext (grant_json g) = Inr gd" "digest_jcs ext (position_json p) = Inr bd"
    "digest_jcs ext (position_json q) = Inr rd" "digest_jcs ext (grant_json g') = Inr gd"
    "digest_jcs ext (position_json p') = Inr bd" "digest_jcs ext (position_json q') = Inr rd"
    using assms(1,2) by (cases r) (auto simp: authorize_Inl_iff authorize_Inr_iff)
  then have "grant_json g = grant_json g'" "position_json p = position_json p'"
    "position_json q = position_json q'"
    using assms(3-5) by (meson no_collisionD)+
  then show ?thesis by (simp add: grant_json_inject position_json_inject)
qed

end
