(* ===== verification/Inquiry_Preflight.thy ===== *)
theory Inquiry_Preflight
  imports Inquiry_Plan Inquiry_Ratchet
begin

text \<open>
  The preflight of \<open>crates/nq-core/src/inquiry.rs\<close>: a pure rendering of the envelope an
  admitted inquiry would use, of the grant an outer authority would have to mint for it, and
  of what the rendering cannot testify to; and the validation a consumer runs on it.
\<close>

definition INQUIRY_PREFLIGHT_SCHEMA_V0 :: string where
  "INQUIRY_PREFLIGHT_SCHEMA_V0 = ''nq.inquiry_preflight.v0''"

record InquiryGrantRequirementsV0 =
  rqm_admitted_scope :: "InquiryTlsTargetV0 fset"
  rqm_max_depth :: u32
  rqm_total_acquisition_envelope :: InquiryAcquisitionSpendV0
  rqm_permitted_witness_classes :: "InquiryCollectorV0 fset"

definition InquiryGrantRequirementsV0_validate :: "InquiryGrantRequirementsV0 \<Rightarrow> string + unit" where
  "InquiryGrantRequirementsV0_validate r =
     validate_ratchet_scope ''grant_requirements.admitted_scope'' (rqm_admitted_scope r)"

definition requirements_json :: "InquiryGrantRequirementsV0 \<Rightarrow> json" where
  "requirements_json r =
     JObj [(''admitted_scope'', json_set target_json (rqm_admitted_scope r)),
           (''max_depth'', json_word (rqm_max_depth r)),
           (''total_acquisition_envelope'', spend_json (rqm_total_acquisition_envelope r)),
           (''permitted_witness_classes'', json_set collector_json (rqm_permitted_witness_classes r))]"

datatype InquiryPreflightCannotTestifyKindV0 = Authorization | Execution | GrantExistence

fun preflight_kind_str :: "InquiryPreflightCannotTestifyKindV0 \<Rightarrow> string" where
  "preflight_kind_str Authorization = ''authorization''"
| "preflight_kind_str Execution = ''execution''"
| "preflight_kind_str GrantExistence = ''grant_existence''"

datatype InquiryPreflightCannotTestifyV0 =
  InquiryPreflightCannotTestifyV0
    (pct_kind: InquiryPreflightCannotTestifyKindV0) (pct_statement: string)

definition preflight_refusal_json :: "InquiryPreflightCannotTestifyV0 \<Rightarrow> json" where
  "preflight_refusal_json r =
     JObj [(''kind'', JStr (preflight_kind_str (pct_kind r))), (''statement'', JStr (pct_statement r))]"

record InquiryPreflightV0 =
  pf_schema :: string
  pf_version :: InquiryVersionV0
  pf_profile :: InquiryProfileBindingV0
  pf_question_kind :: InquiryQuestionV0
  pf_as_of :: string
  pf_selector :: "FindingSelectorV0 option"
  pf_request_digest :: string
  pf_declared_targets :: "InquiryTlsTargetV0 fset"
  pf_witness_class :: "InquiryCollectorV0 option"
  pf_witness_plan_digest :: "string option"
  pf_bounds :: "InquiryAcquisitionBoundsV0 option"
  pf_expiry_horizon_days :: "u32 option"
  pf_validation_policy :: "InquiryTlsValidationPolicyV0 option"
  pf_vantage :: "string option"
  pf_max_snapshot_age_seconds :: "u64 option"
  pf_evidence_limit :: "u32 option"
  pf_acquisition_envelope :: InquiryAcquisitionSpendV0
  pf_acquisition_spend :: InquiryAcquisitionSpendV0
  pf_grant_requirements :: InquiryGrantRequirementsV0
  pf_cannot_testify :: "InquiryPreflightCannotTestifyV0 list"
  pf_preflight_digest :: string

definition InquiryPreflightDigestMaterial :: "InquiryPreflightV0 \<Rightarrow> json" where
  "InquiryPreflightDigestMaterial p =
     JObj ([(''schema'', JStr (pf_schema p)), (''version'', version_json (pf_version p)),
            (''profile'', binding_json (pf_profile p)),
            (''question_kind'', question_json (pf_question_kind p)), (''as_of'', JStr (pf_as_of p))]
           @ opt_field ''selector'' selector_json (pf_selector p)
           @ [(''request_digest'', JStr (pf_request_digest p)),
              (''declared_targets'', json_set target_json (pf_declared_targets p))]
           @ opt_field ''witness_class'' collector_json (pf_witness_class p)
           @ opt_field ''witness_plan_digest'' JStr (pf_witness_plan_digest p)
           @ opt_field ''bounds'' bounds_json (pf_bounds p)
           @ opt_field ''expiry_horizon_days'' json_word (pf_expiry_horizon_days p)
           @ opt_field ''validation_policy'' policy_json (pf_validation_policy p)
           @ opt_field ''vantage'' JStr (pf_vantage p)
           @ opt_field ''max_snapshot_age_seconds'' json_word (pf_max_snapshot_age_seconds p)
           @ opt_field ''evidence_limit'' json_word (pf_evidence_limit p)
           @ [(''acquisition_envelope'', spend_json (pf_acquisition_envelope p)),
              (''acquisition_spend'', spend_json (pf_acquisition_spend p)),
              (''grant_requirements'', requirements_json (pf_grant_requirements p)),
              (''cannot_testify'', JArr (map preflight_refusal_json (pf_cannot_testify p)))])"

definition acquisition_envelope_from_bounds ::
  "InquiryAcquisitionBoundsV0 \<Rightarrow> InquiryAcquisitionSpendV0"
where
  "acquisition_envelope_from_bounds b =
     \<lparr>sp_dns_attempts = bnd_max_dns_attempts b,
      sp_connection_attempts = bnd_max_connection_attempts b,
      sp_handshakes_attempted = bnd_max_handshakes_attempted b,
      sp_handshakes_completed = bnd_max_handshakes_attempted b,
      sp_bound_checks = bnd_max_bound_checks b, sp_wall_ms = bnd_total_deadline_ms b,
      sp_work_units = bnd_max_work_units b\<rparr>"

definition inquiry_preflight_cannot_testify :: "InquiryPreflightCannotTestifyV0 list" where
  "inquiry_preflight_cannot_testify =
     [InquiryPreflightCannotTestifyV0 Authorization ''preflight authorizes nothing'',
      InquiryPreflightCannotTestifyV0 Execution ''preflight executes nothing'',
      InquiryPreflightCannotTestifyV0 GrantExistence
        ''preflight does not evaluate whether any inquiry grant exists'']"

definition compute_preflight_digest :: "externals \<Rightarrow> InquiryPreflightV0 \<Rightarrow> string + string" where
  "compute_preflight_digest ext p = digest_jcs ext (InquiryPreflightDigestMaterial p)"

definition len_fset_u32 :: "'a fset \<Rightarrow> u32" where
  "len_fset_u32 S = of_nat (fcard S)"

text \<open>The arms of the match on the question in \<open>InquiryPreflightV0::validate\<close>.\<close>

definition validate_report_preflight :: "InquiryPreflightV0 \<Rightarrow> string + unit" where
  "validate_report_preflight p =
     (case pf_selector p of
        None \<Rightarrow> Inl ''report inquiry preflight is missing its selector''
      | Some selector \<Rightarrow>
          checks
           [require_nonempty ''preflight.selector.host'' (sel_host selector),
            require_nonempty ''preflight.selector.kind'' (sel_kind selector),
            refuse_if
              (pf_declared_targets p \<noteq> {||} \<or> pf_witness_class p \<noteq> None
                \<or> pf_witness_plan_digest p \<noteq> None \<or> pf_bounds p \<noteq> None
                \<or> pf_expiry_horizon_days p \<noteq> None \<or> pf_validation_policy p \<noteq> None
                \<or> pf_vantage p \<noteq> None
                \<or> (case pf_max_snapshot_age_seconds p of None \<Rightarrow> True | Some v \<Rightarrow> v = 0)
                \<or> (case pf_evidence_limit p of None \<Rightarrow> True | Some v \<Rightarrow> v = 0)
                \<or> pf_acquisition_envelope p \<noteq> spend_default
                \<or> rqm_max_depth (pf_grant_requirements p) \<noteq> INQUIRY_REPORT_DEPTH_V0)
              ''report inquiry preflight has an invalid L0 envelope''])"

definition validate_active_preflight :: "InquiryPreflightV0 \<Rightarrow> string + unit" where
  "validate_active_preflight p =
     (case pf_bounds p of
        None \<Rightarrow> Inl ''active inquiry preflight is missing bounds''
      | Some bounds \<Rightarrow>
          refuse_if
            (pf_selector p \<noteq> None \<or> pf_declared_targets p = {||} \<or> pf_witness_class p = None
              \<or> pf_witness_plan_digest p = None \<or> pf_expiry_horizon_days p = None
              \<or> pf_validation_policy p = None
              \<or> (case pf_vantage p of None \<Rightarrow> True | Some v \<Rightarrow> v = [])
              \<or> pf_max_snapshot_age_seconds p \<noteq> None \<or> pf_evidence_limit p \<noteq> None
              \<or> bounds_violate bounds (len_fset_u32 (pf_declared_targets p))
              \<or> (case pf_expiry_horizon_days p of None \<Rightarrow> True | Some days \<Rightarrow> days = 0 \<or> days > 3650)
              \<or> pf_acquisition_envelope p \<noteq> acquisition_envelope_from_bounds bounds
              \<or> rqm_max_depth (pf_grant_requirements p) \<noteq> INQUIRY_SURVEY_DEPTH_V0)
            ''active inquiry preflight has an invalid L1 envelope'')"

definition InquiryPreflightV0_validate :: "externals \<Rightarrow> InquiryPreflightV0 \<Rightarrow> string + unit" where
  "InquiryPreflightV0_validate ext p =
     (let req = pf_grant_requirements p in
      checks
       [refuse_if (pf_schema p \<noteq> INQUIRY_PREFLIGHT_SCHEMA_V0)
          (''unsupported inquiry preflight schema '' @ debug_str (pf_schema p) @ ''; expected ''
             @ debug_str INQUIRY_PREFLIGHT_SCHEMA_V0),
        require_nonempty ''preflight.profile.profile_id'' (bind_profile_id (pf_profile p)),
        discard (parse_rfc3339 ext ''preflight.as_of'' (pf_as_of p)),
        refuse_if
          (\<not> is_sha256_digest (bind_profile_digest (pf_profile p))
            \<or> \<not> is_sha256_digest (pf_request_digest p) \<or> \<not> is_sha256_digest (pf_preflight_digest p)
            \<or> (case pf_witness_plan_digest p of None \<Rightarrow> False | Some d \<Rightarrow> \<not> is_sha256_digest d))
          ''inquiry preflight bindings must be canonical SHA-256 digests'',
        validate_ratchet_scope ''preflight.declared_targets'' (pf_declared_targets p),
        InquiryGrantRequirementsV0_validate req,
        refuse_if (pf_acquisition_spend p \<noteq> spend_default)
          ''inquiry preflight acquisition_spend must be zero'',
        refuse_if
          (rqm_admitted_scope req \<noteq> pf_declared_targets p
            \<or> rqm_total_acquisition_envelope req \<noteq> pf_acquisition_envelope p)
          ''inquiry preflight grant requirements do not cover its rendered envelope'',
        refuse_if
          (rqm_permitted_witness_classes req
            \<noteq> (case pf_witness_class p of None \<Rightarrow> {||} | Some c \<Rightarrow> {|c|}))
          ''inquiry preflight grant requirements do not name its witness class'',
        refuse_if (pf_cannot_testify p \<noteq> inquiry_preflight_cannot_testify)
          ''inquiry preflight must refuse authorization, execution, and grant-existence testimony'',
        (case pf_question_kind p of
           FindingOperationalActivity \<Rightarrow> validate_report_preflight p
         | TlsCertificatePresentationAndExpiryHorizon \<Rightarrow> validate_active_preflight p),
        res_bind
          (map_err (\<lambda>e. ''inquiry preflight digest failed: '' @ e) (compute_preflight_digest ext p))
          (\<lambda>computed.
            refuse_if (computed \<noteq> pf_preflight_digest p)
              (''inquiry preflight digest mismatch: declared '' @ pf_preflight_digest p
                 @ '', computed '' @ computed))])"

text \<open>
  The part of the rendering that depends on the question: the fields the report and the
  active arm of \<open>render\<close> fill in, on a preflight that has the common fields.
\<close>

definition render_base :: "AdmittedInquiryRequestV0 \<Rightarrow> InquiryPreflightV0" where
  "render_base request =
     \<lparr>pf_schema = INQUIRY_PREFLIGHT_SCHEMA_V0, pf_version = V0, pf_profile = req_profile request,
      pf_question_kind = req_question_kind request, pf_as_of = req_as_of request,
      pf_selector = req_selector request, pf_request_digest = req_request_digest request,
      pf_declared_targets = {||}, pf_witness_class = None, pf_witness_plan_digest = None,
      pf_bounds = None, pf_expiry_horizon_days = None, pf_validation_policy = None,
      pf_vantage = None, pf_max_snapshot_age_seconds = None, pf_evidence_limit = None,
      pf_acquisition_envelope = spend_default, pf_acquisition_spend = spend_default,
      pf_grant_requirements =
        \<lparr>rqm_admitted_scope = {||}, rqm_max_depth = INQUIRY_REPORT_DEPTH_V0,
         rqm_total_acquisition_envelope = spend_default, rqm_permitted_witness_classes = {||}\<rparr>,
      pf_cannot_testify = inquiry_preflight_cannot_testify, pf_preflight_digest = []\<rparr>"

definition render_report :: "AdmittedInquiryRequestV0 \<Rightarrow> InquiryProfileV0 \<Rightarrow> InquiryPreflightV0" where
  "render_report request prof =
     (render_base request)
       \<lparr>pf_max_snapshot_age_seconds := prof_max_snapshot_age_seconds prof,
        pf_evidence_limit := prof_evidence_limit prof\<rparr>"

definition render_active :: "AdmittedInquiryRequestV0 \<Rightarrow> InquiryWitnessPlanV0 \<Rightarrow> InquiryPreflightV0" where
  "render_active request witness_plan =
     (let targets = fset_of_list (wp_targets witness_plan);
          envelope = acquisition_envelope_from_bounds (wp_bounds witness_plan) in
      (render_base request)
        \<lparr>pf_declared_targets := targets,
         pf_witness_class := Some (wp_collector witness_plan),
         pf_witness_plan_digest := Some (wp_witness_plan_digest witness_plan),
         pf_bounds := Some (wp_bounds witness_plan),
         pf_expiry_horizon_days := Some (wp_expiry_horizon_days witness_plan),
         pf_validation_policy := Some (wp_validation_policy witness_plan),
         pf_vantage := Some (wp_vantage witness_plan),
         pf_acquisition_envelope := envelope,
         pf_grant_requirements :=
           \<lparr>rqm_admitted_scope = targets, rqm_max_depth = INQUIRY_SURVEY_DEPTH_V0,
            rqm_total_acquisition_envelope = envelope,
            rqm_permitted_witness_classes = {|wp_collector witness_plan|}\<rparr>\<rparr>)"

definition InquiryPreflightV0_render ::
  "externals \<Rightarrow> CandidateInquiryPlanV0 \<Rightarrow> ResolvedInquiryProfileV0 \<Rightarrow> string + InquiryPreflightV0"
where
  "InquiryPreflightV0_render ext plan resolved =
     res_bind (admit ext plan resolved) (\<lambda>request.
     res_bind
       (case req_question_kind request of
          FindingOperationalActivity \<Rightarrow> Inr (render_report request (res_profile resolved))
        | TlsCertificatePresentationAndExpiryHorizon \<Rightarrow>
            res_bind (InquiryWitnessPlanV0_resolve ext request resolved) (\<lambda>witness_plan.
            Inr (render_active request witness_plan)))
       (\<lambda>preflight.
     res_bind
       (map_err (\<lambda>e. ''inquiry preflight digest failed: '' @ e)
         (compute_preflight_digest ext preflight)) (\<lambda>digest.
     let preflight = preflight\<lparr>pf_preflight_digest := digest\<rparr> in
     res_bind (InquiryPreflightV0_validate ext preflight) (\<lambda>_. Inr preflight))))"

text \<open>The whole preflight, as \<open>canonical_bytes\<close> serialises it after validating it.\<close>

definition preflight_json :: "InquiryPreflightV0 \<Rightarrow> json" where
  "preflight_json p =
     (case InquiryPreflightDigestMaterial p of
        JObj fs \<Rightarrow> JObj (fs @ [(''preflight_digest'', JStr (pf_preflight_digest p))])
      | v \<Rightarrow> v)"

definition preflight_canonical_bytes :: "externals \<Rightarrow> InquiryPreflightV0 \<Rightarrow> string + string" where
  "preflight_canonical_bytes ext p =
     res_bind (InquiryPreflightV0_validate ext p) (\<lambda>_. canonical_bytes ext (preflight_json p))"

section \<open>The preflight is sealed by its digest\<close>

lemma requirements_json_inject [simp]: "requirements_json a = requirements_json b \<longleftrightarrow> a = b"
  by (cases a; cases b) (auto simp: requirements_json_def inj_collector_json)

lemma preflight_refusal_json_inject: "preflight_refusal_json a = preflight_refusal_json b \<longleftrightarrow> a = b"
  by (cases a; cases b; cases "pct_kind a"; cases "pct_kind b") (auto simp: preflight_refusal_json_def)

lemma inj_preflight_refusal_json [simp]: "inj preflight_refusal_json"
  by (simp add: inj_def preflight_refusal_json_inject)

lemma inj_policy_json [simp]: "inj policy_json"
  by (simp add: inj_def policy_eq)

lemmas preflight_lookup = InquiryPreflightDigestMaterial_def json_eval inj_collector_json

lemma preflight_material_inject:
  assumes "InquiryPreflightDigestMaterial x = InquiryPreflightDigestMaterial y"
    "pf_preflight_digest x = pf_preflight_digest y"
  shows "x = y"
proof -
  have f: "json_field (InquiryPreflightDigestMaterial x) n = json_field (InquiryPreflightDigestMaterial y) n" for n
    using assms(1) by simp
  from f [of "''schema''"] have "pf_schema x = pf_schema y" by (simp add: preflight_lookup cong: option.case_cong del: map_of_append)
  moreover from f [of "''profile''"] have "pf_profile x = pf_profile y" by (simp add: preflight_lookup cong: option.case_cong del: map_of_append)
  moreover from f [of "''question_kind''"] have "pf_question_kind x = pf_question_kind y" by (simp add: preflight_lookup cong: option.case_cong del: map_of_append)
  moreover from f [of "''as_of''"] have "pf_as_of x = pf_as_of y" by (simp add: preflight_lookup cong: option.case_cong del: map_of_append)
  moreover from f [of "''selector''"] have "pf_selector x = pf_selector y" by (simp add: preflight_lookup cong: option.case_cong del: map_of_append)
  moreover from f [of "''request_digest''"] have "pf_request_digest x = pf_request_digest y" by (simp add: preflight_lookup cong: option.case_cong del: map_of_append)
  moreover from f [of "''declared_targets''"] have "pf_declared_targets x = pf_declared_targets y" by (simp add: preflight_lookup cong: option.case_cong del: map_of_append)
  moreover from f [of "''witness_class''"] have "pf_witness_class x = pf_witness_class y" by (simp add: preflight_lookup cong: option.case_cong del: map_of_append)
  moreover from f [of "''witness_plan_digest''"] have "pf_witness_plan_digest x = pf_witness_plan_digest y" by (simp add: preflight_lookup cong: option.case_cong del: map_of_append)
  moreover from f [of "''bounds''"] have "pf_bounds x = pf_bounds y" by (simp add: preflight_lookup cong: option.case_cong del: map_of_append)
  moreover from f [of "''expiry_horizon_days''"] have "pf_expiry_horizon_days x = pf_expiry_horizon_days y" by (simp add: preflight_lookup cong: option.case_cong del: map_of_append)
  moreover from f [of "''validation_policy''"] have "pf_validation_policy x = pf_validation_policy y" by (simp add: preflight_lookup cong: option.case_cong del: map_of_append)
  moreover from f [of "''vantage''"] have "pf_vantage x = pf_vantage y" by (simp add: preflight_lookup cong: option.case_cong del: map_of_append)
  moreover from f [of "''max_snapshot_age_seconds''"] have "pf_max_snapshot_age_seconds x = pf_max_snapshot_age_seconds y" by (simp add: preflight_lookup cong: option.case_cong del: map_of_append)
  moreover from f [of "''evidence_limit''"] have "pf_evidence_limit x = pf_evidence_limit y" by (simp add: preflight_lookup cong: option.case_cong del: map_of_append)
  moreover from f [of "''acquisition_envelope''"] have "pf_acquisition_envelope x = pf_acquisition_envelope y" by (simp add: preflight_lookup cong: option.case_cong del: map_of_append)
  moreover from f [of "''acquisition_spend''"] have "pf_acquisition_spend x = pf_acquisition_spend y" by (simp add: preflight_lookup cong: option.case_cong del: map_of_append)
  moreover from f [of "''grant_requirements''"] have "pf_grant_requirements x = pf_grant_requirements y" by (simp add: preflight_lookup cong: option.case_cong del: map_of_append)
  moreover from f [of "''cannot_testify''"] have "pf_cannot_testify x = pf_cannot_testify y" by (simp add: preflight_lookup cong: option.case_cong del: map_of_append)
  ultimately show ?thesis
    using assms(2) by (cases x; cases y) (simp add: version_eq)
qed

interpretation sealed_preflight: sealed_artifact InquiryPreflightDigestMaterial pf_preflight_digest
  "\<lambda>d p. p\<lparr>pf_preflight_digest := d\<rparr>"
  by unfold_locales (simp add: InquiryPreflightDigestMaterial_def, simp, rule preflight_material_inject)

lemma preflight_digest_put [simp]:
  "compute_preflight_digest ext (p\<lparr>pf_preflight_digest := d\<rparr>) = compute_preflight_digest ext p"
  by (simp add: compute_preflight_digest_def sealed_preflight.material_put)

section \<open>What a valid preflight is\<close>

lemma trim_empty_is_empty: "trim v \<noteq> [] \<Longrightarrow> v \<noteq> []"
  using trim_plain [of "[]"] by auto

lemma report_preflight_ok:
  "validate_report_preflight p = Inr () \<longleftrightarrow>
     (\<exists>sel age lim. pf_selector p = Some sel \<and> trim (sel_host sel) \<noteq> [] \<and> trim (sel_kind sel) \<noteq> []
       \<and> pf_max_snapshot_age_seconds p = Some age \<and> age \<noteq> 0
       \<and> pf_evidence_limit p = Some lim \<and> lim \<noteq> 0)
     \<and> pf_declared_targets p = {||} \<and> pf_witness_class p = None \<and> pf_witness_plan_digest p = None
     \<and> pf_bounds p = None \<and> pf_expiry_horizon_days p = None \<and> pf_validation_policy p = None
     \<and> pf_vantage p = None \<and> pf_acquisition_envelope p = spend_default
     \<and> rqm_max_depth (pf_grant_requirements p) = INQUIRY_REPORT_DEPTH_V0"
  by (auto simp: validate_report_preflight_def res_ok split: option.splits)

lemma active_preflight_ok:
  "validate_active_preflight p = Inr () \<longleftrightarrow>
     (\<exists>b days v. pf_bounds p = Some b \<and> pf_expiry_horizon_days p = Some days \<and> days \<noteq> 0 \<and> days \<le> 3650
        \<and> pf_vantage p = Some v \<and> v \<noteq> []
        \<and> \<not> bounds_violate b (len_fset_u32 (pf_declared_targets p))
        \<and> pf_acquisition_envelope p = acquisition_envelope_from_bounds b)
     \<and> pf_selector p = None \<and> pf_declared_targets p \<noteq> {||} \<and> pf_witness_class p \<noteq> None
     \<and> pf_witness_plan_digest p \<noteq> None \<and> pf_validation_policy p \<noteq> None
     \<and> pf_max_snapshot_age_seconds p = None \<and> pf_evidence_limit p = None
     \<and> rqm_max_depth (pf_grant_requirements p) = INQUIRY_SURVEY_DEPTH_V0"
  by (auto simp: validate_active_preflight_def res_ok not_less split: option.splits)

lemma preflight_validate_ok:
  "InquiryPreflightV0_validate ext p = Inr () \<longleftrightarrow>
     pf_schema p = INQUIRY_PREFLIGHT_SCHEMA_V0 \<and> trim (bind_profile_id (pf_profile p)) \<noteq> []
     \<and> (\<exists>t. rfc3339_parse ext (pf_as_of p) = Inr t)
     \<and> is_sha256_digest (bind_profile_digest (pf_profile p)) \<and> is_sha256_digest (pf_request_digest p)
     \<and> is_sha256_digest (pf_preflight_digest p)
     \<and> (\<forall>d. pf_witness_plan_digest p = Some d \<longrightarrow> is_sha256_digest d)
     \<and> valid_scope (pf_declared_targets p) \<and> valid_scope (rqm_admitted_scope (pf_grant_requirements p))
     \<and> pf_acquisition_spend p = spend_default
     \<and> rqm_admitted_scope (pf_grant_requirements p) = pf_declared_targets p
     \<and> rqm_total_acquisition_envelope (pf_grant_requirements p) = pf_acquisition_envelope p
     \<and> rqm_permitted_witness_classes (pf_grant_requirements p)
         = (case pf_witness_class p of None \<Rightarrow> {||} | Some c \<Rightarrow> {|c|})
     \<and> pf_cannot_testify p = inquiry_preflight_cannot_testify
     \<and> (case pf_question_kind p of
          FindingOperationalActivity \<Rightarrow> validate_report_preflight p = Inr ()
        | TlsCertificatePresentationAndExpiryHorizon \<Rightarrow> validate_active_preflight p = Inr ())
     \<and> compute_preflight_digest ext p = Inr (pf_preflight_digest p)"
  by (auto simp: InquiryPreflightV0_validate_def InquiryGrantRequirementsV0_validate_def Let_def res_ok
      is_ok_iff split: option.splits InquiryQuestionV0.splits)

section \<open>Rendering\<close>

lemma admitted_request_shape:
  assumes "admit ext plan resolved = Inr r" "sha256_shape ext"
  shows "trim (bind_profile_id (req_profile r)) \<noteq> []" "\<exists>t. rfc3339_parse ext (req_as_of r) = Inr t"
    "is_sha256_digest (bind_profile_digest (req_profile r))" "is_sha256_digest (req_request_digest r)"
proof -
  from assms(1) show "trim (bind_profile_id (req_profile r)) \<noteq> []"
    "\<exists>t. rfc3339_parse ext (req_as_of r) = Inr t"
    by (auto simp: admit_ok profile_validate_ok plan_validate_ok)
  from assms(1) show "is_sha256_digest (bind_profile_digest (req_profile r))"
    by (auto simp: admit_ok profile_digest_ok digest_jcs_shape [OF assms(2)])
  from assms(1) show "is_sha256_digest (req_request_digest r)"
    by (auto simp: admit_ok compute_request_digest_def digest_jcs_shape [OF assms(2)])
qed

lemma len_fset_of_list: "distinct xs \<Longrightarrow> len_fset_u32 (fset_of_list xs) = len_u32 xs"
  by (simp add: len_fset_u32_def len_u32_def fcard.rep_eq fset_of_list.rep_eq distinct_card)

lemma fset_of_list_empty_iff [simp]: "fset_of_list xs = {||} \<longleftrightarrow> xs = []"
  by (cases xs) auto

lemma valid_scope_of_list:
  assumes "\<forall>t \<in> set ts. InquiryTlsTargetV0_validate f t = Inr ()" "distinct (map target_id ts)"
  shows "valid_scope (fset_of_list ts)"
  using assms by (auto simp: valid_scope_def target_validate_ok fset_of_list.rep_eq distinct_map)

lemma preflight_seal:
  assumes "compute_preflight_digest ext p = Inr d"
  shows "InquiryPreflightV0_validate ext (p\<lparr>pf_preflight_digest := d\<rparr>) = Inr () \<longleftrightarrow>
    is_sha256_digest d \<and> pf_schema p = INQUIRY_PREFLIGHT_SCHEMA_V0 \<and> trim (bind_profile_id (pf_profile p)) \<noteq> []
     \<and> (\<exists>t. rfc3339_parse ext (pf_as_of p) = Inr t)
     \<and> is_sha256_digest (bind_profile_digest (pf_profile p)) \<and> is_sha256_digest (pf_request_digest p)
     \<and> (\<forall>d. pf_witness_plan_digest p = Some d \<longrightarrow> is_sha256_digest d)
     \<and> valid_scope (pf_declared_targets p)
     \<and> pf_acquisition_spend p = spend_default
     \<and> rqm_admitted_scope (pf_grant_requirements p) = pf_declared_targets p
     \<and> rqm_total_acquisition_envelope (pf_grant_requirements p) = pf_acquisition_envelope p
     \<and> rqm_permitted_witness_classes (pf_grant_requirements p)
         = (case pf_witness_class p of None \<Rightarrow> {||} | Some c \<Rightarrow> {|c|})
     \<and> pf_cannot_testify p = inquiry_preflight_cannot_testify
     \<and> (case pf_question_kind p of
          FindingOperationalActivity \<Rightarrow> validate_report_preflight p = Inr ()
        | TlsCertificatePresentationAndExpiryHorizon \<Rightarrow> validate_active_preflight p = Inr ())"
proof -
  have "validate_report_preflight (p\<lparr>pf_preflight_digest := d\<rparr>) = validate_report_preflight p"
    "validate_active_preflight (p\<lparr>pf_preflight_digest := d\<rparr>) = validate_active_preflight p"
    by (simp_all add: validate_report_preflight_def validate_active_preflight_def cong: option.case_cong)
  then show ?thesis
    using assms unfolding preflight_validate_ok
    by (auto split: InquiryQuestionV0.splits)
qed

lemma render_report_validates:
  assumes a: "admit ext plan resolved = Inr r" and s: "sha256_shape ext"
    and k: "req_question_kind r = FindingOperationalActivity"
    and d: "compute_preflight_digest ext (render_report r (res_profile resolved)) = Inr d"
  shows "InquiryPreflightV0_validate ext ((render_report r (res_profile resolved))\<lparr>pf_preflight_digest := d\<rparr>) = Inr ()"
proof -
  from a k have kind: "prof_question_kind (res_profile resolved) = FindingOperationalActivity"
    and v: "InquiryProfileV0_validate (res_profile resolved) = Inr ()"
    and sel: "req_selector r = prof_selector (res_profile resolved)"
    by (auto simp: admit_ok admit_targets_ok)
  from v kind have rep: "validate_report_question (res_profile resolved) = Inr ()"
    by (simp add: profile_validate_ok)
  have "is_sha256_digest d" using d s by (simp add: compute_preflight_digest_def digest_jcs_shape)
  then show ?thesis
    unfolding preflight_seal [OF d]
    using admitted_request_shape [OF a s] rep k sel
    by (auto simp: render_report_def render_base_def report_preflight_ok validate_report_question_ok
        valid_scope_def)
qed

lemma render_active_validates:
  assumes a: "admit ext plan resolved = Inr r" and s: "sha256_shape ext"
    and w: "InquiryWitnessPlanV0_resolve ext r resolved = Inr w"
      "InquiryWitnessPlanV0_verify_envelope ext w = Inr ()"
    and d: "compute_preflight_digest ext (render_active r w) = Inr d"
  shows "InquiryPreflightV0_validate ext ((render_active r w)\<lparr>pf_preflight_digest := d\<rparr>) = Inr ()"
proof -
  from w(1) have k: "req_question_kind r = TlsCertificatePresentationAndExpiryHorizon"
    and sel: "req_selector r = None" by (simp_all add: resolve_ok)
  from w(2) have di: "distinct (map target_id (wp_targets w))" by (simp add: verify_envelope_ok)
  then have l: "len_fset_u32 (fset_of_list (wp_targets w)) = len_u32 (wp_targets w)"
    by (simp add: len_fset_of_list distinct_map)
  have scope: "valid_scope (fset_of_list (wp_targets w))"
    using w(2) di by (intro valid_scope_of_list) (auto simp: verify_envelope_ok)
  from w(2) have "digest_jcs ext (WitnessPlanDigestMaterial w) = Inr (wp_witness_plan_digest w)"
    by (simp add: verify_envelope_ok compute_witness_plan_digest_def)
  then have "is_sha256_digest d" "is_sha256_digest (wp_witness_plan_digest w)"
    using d s by (auto simp: compute_preflight_digest_def intro: digest_jcs_shape)
  then show ?thesis
    unfolding preflight_seal [OF d]
    using admitted_request_shape [OF a s] k sel scope l w(2) trim_empty_is_empty
    by (auto simp: render_active_def render_base_def Let_def active_preflight_ok verify_envelope_ok
        fset_of_list_empty_iff)
qed

lemma render_fields:
  "pf_request_digest (render_report r prof) = req_request_digest r"
  "pf_request_digest (render_active r w) = req_request_digest r"
  "pf_declared_targets (render_report r prof) = {||}"
  "pf_declared_targets (render_active r w) = fset_of_list (wp_targets w)"
  by (simp_all add: render_report_def render_active_def render_base_def Let_def)

lemma render_ok:
  assumes "InquiryPreflightV0_render ext plan resolved = Inr p"
  shows "\<exists>r. admit ext plan resolved = Inr r \<and> InquiryPreflightV0_validate ext p = Inr ()
       \<and> pf_request_digest p = req_request_digest r
       \<and> fset (pf_declared_targets p) = set (req_admitted_targets r)"
proof -
  from assms obtain r q d u where a: "admit ext plan resolved = Inr r"
    and q: "(case req_question_kind r of
          FindingOperationalActivity \<Rightarrow> Inr (render_report r (res_profile resolved))
        | TlsCertificatePresentationAndExpiryHorizon \<Rightarrow>
            res_bind (InquiryWitnessPlanV0_resolve ext r resolved) (\<lambda>witness_plan.
            Inr (render_active r witness_plan))) = Inr q"
    and p: "q\<lparr>pf_preflight_digest := d\<rparr> = p"
    and v: "InquiryPreflightV0_validate ext (q\<lparr>pf_preflight_digest := d\<rparr>) = Inr u"
    unfolding InquiryPreflightV0_render_def Let_def res_bind_Inr_iff sum.inject
    by blast
  have "pf_request_digest q = req_request_digest r \<and> fset (pf_declared_targets q) = set (req_admitted_targets r)"
  proof (cases "req_question_kind r")
    case FindingOperationalActivity
    with a have "req_admitted_targets r = []" by (auto simp: admit_ok admit_targets_ok)
    with q FindingOperationalActivity show ?thesis by (auto simp: render_fields)
  next
    case TlsCertificatePresentationAndExpiryHorizon
    with q obtain w where "InquiryWitnessPlanV0_resolve ext r resolved = Inr w" "q = render_active r w"
      by (auto simp: res_bind_Inr_iff)
    then show ?thesis by (auto simp: render_fields resolve_ok planned_witness_def fset_of_list.rep_eq)
  qed
  with a v show ?thesis by (auto simp: p [symmetric])
qed

text \<open>The position an executor takes from the requirements of a preflight.\<close>

definition requirements_position :: "InquiryGrantRequirementsV0 \<Rightarrow> InquiryPositionV0" where
  "requirements_position req =
     \<lparr>pos_schema = INQUIRY_POSITION_SCHEMA_V0, pos_version = V0, pos_scope = rqm_admitted_scope req,
      pos_depth = rqm_max_depth req,
      pos_remaining_acquisition_envelope = rqm_total_acquisition_envelope req\<rparr>"

section \<open>Properties\<close>

text \<open>
  Preflight is total on admitted inquiries and never overstates: a plan has a preflight
  exactly when it is admitted, and the preflight passes its own validation, is bound to the
  request, covers exactly the admitted targets and reports zero spend.
\<close>

theorem preflight_renders:
  assumes "jcs_total ext" "sha256_shape ext"
  shows "((\<exists>p. InquiryPreflightV0_render ext plan resolved = Inr p) \<longleftrightarrow>
            (\<exists>r. admit ext plan resolved = Inr r))
    \<and> (\<forall>p. InquiryPreflightV0_render ext plan resolved = Inr p \<longrightarrow>
          (\<exists>r. admit ext plan resolved = Inr r \<and> InquiryPreflightV0_validate ext p = Inr ()
            \<and> pf_request_digest p = req_request_digest r
            \<and> fset (pf_declared_targets p) = set (req_admitted_targets r)
            \<and> pf_acquisition_spend p = spend_default))"
proof -
  have "\<exists>p. InquiryPreflightV0_render ext plan resolved = Inr p" if a: "admit ext plan resolved = Inr r" for r
  proof (cases "req_question_kind r")
    case FindingOperationalActivity
    obtain d where "compute_preflight_digest ext (render_report r (res_profile resolved)) = Inr d"
      using digest_jcs_total [OF assms(1)] by (auto simp: compute_preflight_digest_def)
    with render_report_validates [OF a assms(2) FindingOperationalActivity] a FindingOperationalActivity
    show ?thesis by (simp add: InquiryPreflightV0_render_def Let_def)
  next
    case TlsCertificatePresentationAndExpiryHorizon
    with witness_plan_for [OF a assms(1)] obtain w where
      w: "InquiryWitnessPlanV0_resolve ext r resolved = Inr w"
      "InquiryWitnessPlanV0_verify_envelope ext w = Inr ()" by blast
    obtain d where "compute_preflight_digest ext (render_active r w) = Inr d"
      using digest_jcs_total [OF assms(1)] by (auto simp: compute_preflight_digest_def)
    with render_active_validates [OF a assms(2) w] a w TlsCertificatePresentationAndExpiryHorizon
    show ?thesis by (simp add: InquiryPreflightV0_render_def Let_def)
  qed
  with render_ok [of ext plan resolved] show ?thesis
    by (meson preflight_validate_ok)
qed

theorem preflight_renders_witness:
  "\<exists>p. InquiryPreflightV0_render demo_ext demo_plan demo_resolved = Inr p
     \<and> pf_acquisition_spend p = spend_default"
  using preflight_renders [OF demo_ext_total demo_ext_shape, of demo_plan demo_resolved] demo_admits
  by blast

text \<open>
  The requirements a preflight states are exactly what a grant must cover: for a
  rendered preflight, a grant admits the position taken from them if and only if the grant is
  valid and its scope, depth and envelope cover the required ones, counter by counter.
\<close>

theorem requirements_are_minimal:
  assumes "InquiryPreflightV0_validate ext p = Inr ()"
  shows "admit_initial_position g (requirements_position (pf_grant_requirements p)) = Inr () \<longleftrightarrow>
    InquiryGrantV0_validate g = Inr () \<and> pf_declared_targets p |\<subseteq>| gr_admitted_scope g
    \<and> rqm_max_depth (pf_grant_requirements p) \<le> gr_max_depth g
    \<and> spend_le (pf_acquisition_envelope p) (gr_total_acquisition_envelope g)"
  using assms
  by (auto simp: admit_initial_position_ok within_grant_def requirements_position_def preflight_validate_ok
      position_validate_ok)

theorem requirements_are_minimal_witness:
  "\<exists>p. InquiryPreflightV0_validate demo_ext p = Inr ()
     \<and> (\<forall>g. admit_initial_position g (requirements_position (pf_grant_requirements p)) = Inr () \<longrightarrow>
            pf_declared_targets p |\<subseteq>| gr_admitted_scope g)"
proof -
  obtain r where r: "admit demo_ext demo_plan demo_resolved = Inr r" using demo_admits by blast
  obtain w where w: "InquiryWitnessPlanV0_resolve demo_ext r demo_resolved = Inr w"
    "InquiryWitnessPlanV0_verify_envelope demo_ext w = Inr ()"
    using witness_plan_for [OF r demo_ext_total demo_request_tls [OF r]] by blast
  obtain d where "compute_preflight_digest demo_ext (render_active r w) = Inr d"
    using digest_jcs_total [OF demo_ext_total] by (auto simp: compute_preflight_digest_def)
  then have "InquiryPreflightV0_validate demo_ext ((render_active r w)\<lparr>pf_preflight_digest := d\<rparr>) = Inr ()"
    by (rule render_active_validates [OF r demo_ext_shape w])
  with requirements_are_minimal show ?thesis by blast
qed

text \<open>
  A preflight cannot be altered without changing its digest: two valid preflights with
  the same digest are the same, as long as SHA-256 does not collide on their material.
\<close>

lemma preflight_tamper_evident:
  assumes "InquiryPreflightV0_validate ext p = Inr ()" "InquiryPreflightV0_validate ext q = Inr ()"
    and "pf_preflight_digest p = pf_preflight_digest q"
    and "no_collision ext (InquiryPreflightDigestMaterial p) (InquiryPreflightDigestMaterial q)"
  shows "p = q"
  using assms
  by (intro sealed_preflight.same_digest_same_artifact [of ext p q])
    (simp_all add: preflight_validate_ok compute_preflight_digest_def)

end
