(* ===== verification/Inquiry_Receipt.thy ===== *)
theory Inquiry_Receipt
  imports Inquiry_Preflight
begin

text \<open>
  Inquiry receipts (\<open>crates/nq-core/src/inquiry.rs\<close>): the records a receipt carries, its
  serialisation and digest, and \<open>seal\<close>, which normalises the receipt, checks the envelope
  of its question and stores the digest. Counters are added at their width, as the code adds
  them.
\<close>

definition INQUIRY_RECEIPT_SCHEMA_V0 :: string where
  "INQUIRY_RECEIPT_SCHEMA_V0 = ''nq.inquiry_receipt.v0''"

section \<open>TLS observations\<close>

datatype InquiryTlsOutcomeV0 =
    ResolutionFailed
  | ConnectionFailed
  | TlsHandshakeFailed
  | NoCertificatePresented
  | NameMismatch
  | ChainInvalid
  | ExpiredUnderAcquisitionClock
  | ValidNowButExpiresWithinHorizon
  | ValidBeyondExpiryHorizon
  | AcquisitionBoundRefused

fun InquiryTlsOutcomeV0_str :: "InquiryTlsOutcomeV0 \<Rightarrow> string" where
  "InquiryTlsOutcomeV0_str ResolutionFailed = ''resolution_failed''"
| "InquiryTlsOutcomeV0_str ConnectionFailed = ''connection_failed''"
| "InquiryTlsOutcomeV0_str TlsHandshakeFailed = ''tls_handshake_failed''"
| "InquiryTlsOutcomeV0_str NoCertificatePresented = ''no_certificate_presented''"
| "InquiryTlsOutcomeV0_str NameMismatch = ''name_mismatch''"
| "InquiryTlsOutcomeV0_str ChainInvalid = ''chain_invalid''"
| "InquiryTlsOutcomeV0_str ExpiredUnderAcquisitionClock = ''expired_under_acquisition_clock''"
| "InquiryTlsOutcomeV0_str ValidNowButExpiresWithinHorizon = ''valid_now_but_expires_within_horizon''"
| "InquiryTlsOutcomeV0_str ValidBeyondExpiryHorizon = ''valid_beyond_expiry_horizon''"
| "InquiryTlsOutcomeV0_str AcquisitionBoundRefused = ''acquisition_bound_refused''"

datatype InquiryTlsValidationResultV0 = Valid | Invalid string | NotAttempted

fun validation_result_json :: "InquiryTlsValidationResultV0 \<Rightarrow> json" where
  "validation_result_json Valid = JObj [(''result'', JStr ''valid'')]"
| "validation_result_json (Invalid reason) =
     JObj [(''result'', JStr ''invalid''), (''reason'', JStr reason)]"
| "validation_result_json NotAttempted = JObj [(''result'', JStr ''not_attempted'')]"

record InquiryTlsObservationV0 =
  ob_acquired_at :: string
  ob_target :: InquiryTlsTargetV0
  ob_observed_ip :: "string option"
  ob_certificate_digest :: "string option"
  ob_chain_digest :: "string option"
  ob_chain_fingerprints :: "string list"
  ob_not_before :: "string option"
  ob_not_after :: "string option"
  ob_validation_result :: InquiryTlsValidationResultV0
  ob_outcome :: InquiryTlsOutcomeV0
  ob_spend :: InquiryAcquisitionSpendV0
  ob_refusals :: "InquiryRefusal list"

definition observation_json :: "InquiryTlsObservationV0 \<Rightarrow> json" where
  "observation_json ob =
     JObj ([(''acquired_at'', JStr (ob_acquired_at ob)), (''target'', target_json (ob_target ob))]
           @ opt_field ''observed_ip'' JStr (ob_observed_ip ob)
           @ opt_field ''certificate_digest'' JStr (ob_certificate_digest ob)
           @ opt_field ''chain_digest'' JStr (ob_chain_digest ob)
           @ [(''chain_fingerprints'', JArr (map JStr (ob_chain_fingerprints ob)))]
           @ opt_field ''not_before'' JStr (ob_not_before ob)
           @ opt_field ''not_after'' JStr (ob_not_after ob)
           @ [(''validation_result'', validation_result_json (ob_validation_result ob)),
              (''outcome'', JStr (InquiryTlsOutcomeV0_str (ob_outcome ob))),
              (''spend'', spend_json (ob_spend ob))]
           @ vec_field ''refusals'' refusal_json (ob_refusals ob))"

definition certificate_observed :: "InquiryTlsObservationV0 \<Rightarrow> bool" where
  "certificate_observed ob \<longleftrightarrow>
     ob_certificate_digest ob \<noteq> None \<and> ob_chain_digest ob \<noteq> None \<and> ob_chain_fingerprints ob \<noteq> []
     \<and> ob_not_before ob \<noteq> None \<and> ob_not_after ob \<noteq> None"

definition no_certificate_evidence :: "InquiryTlsObservationV0 \<Rightarrow> bool" where
  "no_certificate_evidence ob \<longleftrightarrow>
     ob_certificate_digest ob = None \<and> ob_chain_digest ob = None \<and> ob_chain_fingerprints ob = []
     \<and> ob_not_before ob = None \<and> ob_not_after ob = None"

definition has_refusal :: "InquiryTlsObservationV0 \<Rightarrow> InquiryRefusalKindV0 \<Rightarrow> bool" where
  "has_refusal ob kind \<longleftrightarrow> list_ex (\<lambda>r. rfl_kind r = kind) (ob_refusals ob)"

fun is_invalid :: "InquiryTlsValidationResultV0 \<Rightarrow> bool" where
  "is_invalid (Invalid reason) = True"
| "is_invalid Valid = False"
| "is_invalid NotAttempted = False"

definition shape_is_valid :: "InquiryTlsObservationV0 \<Rightarrow> bool" where
  "shape_is_valid ob =
     (let spend = ob_spend ob;
          completed = (sp_handshakes_completed spend = 1);
          seen = (ob_observed_ip ob \<noteq> None);
          presented = (completed \<and> certificate_observed ob \<and> seen)
      in
      case ob_outcome ob of
        ResolutionFailed \<Rightarrow>
          sp_connection_attempts spend = 0 \<and> sp_handshakes_attempted spend = 0
          \<and> ob_observed_ip ob = None \<and> no_certificate_evidence ob
          \<and> ob_validation_result ob = NotAttempted \<and> has_refusal ob RK_ResolutionFailed
      | ConnectionFailed \<Rightarrow>
          sp_connection_attempts spend = 1 \<and> sp_handshakes_attempted spend = 0 \<and> seen
          \<and> no_certificate_evidence ob \<and> ob_validation_result ob = NotAttempted
          \<and> has_refusal ob RK_ConnectionFailed
      | TlsHandshakeFailed \<Rightarrow>
          sp_handshakes_attempted spend = 1 \<and> \<not> completed \<and> seen \<and> no_certificate_evidence ob
          \<and> ob_validation_result ob = NotAttempted \<and> has_refusal ob RK_TlsHandshakeFailed
      | NoCertificatePresented \<Rightarrow>
          completed \<and> \<not> certificate_observed ob \<and> seen \<and> has_refusal ob EvidenceAbsent
      | NameMismatch \<Rightarrow> presented \<and> is_invalid (ob_validation_result ob)
      | ExpiredUnderAcquisitionClock \<Rightarrow> presented \<and> is_invalid (ob_validation_result ob)
      | ChainInvalid \<Rightarrow> presented \<and> is_invalid (ob_validation_result ob)
      | ValidNowButExpiresWithinHorizon \<Rightarrow> presented \<and> ob_validation_result ob = Valid
      | ValidBeyondExpiryHorizon \<Rightarrow> presented \<and> ob_validation_result ob = Valid
      | AcquisitionBoundRefused \<Rightarrow> has_refusal ob AcquisitionBoundCannotBeHonored)"

definition verify_shape :: "externals \<Rightarrow> InquiryTlsObservationV0 \<Rightarrow> string + unit" where
  "verify_shape ext ob =
     checks
      [refuse_if
         ((case ob_certificate_digest ob of None \<Rightarrow> False | Some d \<Rightarrow> \<not> is_sha256_digest d)
           \<or> (case ob_chain_digest ob of None \<Rightarrow> False | Some d \<Rightarrow> \<not> is_sha256_digest d))
         ''TLS observation carries a malformed SHA-256 digest'',
       (case ob_not_before ob of
          None \<Rightarrow> Inr ()
        | Some t \<Rightarrow> discard (parse_rfc3339 ext ''tls_observations[].not_before'' t)),
       (case ob_not_after ob of
          None \<Rightarrow> Inr ()
        | Some t \<Rightarrow> discard (parse_rfc3339 ext ''tls_observations[].not_after'' t)),
       refuse_if (\<not> shape_is_valid ob)
         ''TLS observation outcome contradicts its evidence or refusal'']"

section \<open>Report evidence\<close>

datatype GenerationStatus = Complete | Partial | Failed

fun GenerationStatus_as_str :: "GenerationStatus \<Rightarrow> string" where
  "GenerationStatus_as_str Complete = ''complete''"
| "GenerationStatus_as_str Partial = ''partial''"
| "GenerationStatus_as_str Failed = ''failed''"

record InquirySourceSnapshotV0 =
  snap_generation_id :: int
  snap_started_at :: string
  snap_completed_at :: string
  snap_status :: GenerationStatus
  snap_sources_expected :: int
  snap_sources_ok :: int
  snap_sources_failed :: int
  snap_duration_ms :: int
  snap_summary_hash :: "string option"
  snap_findings_observed :: int
  snap_detectors_run :: int
  snap_findings_suppressed :: int
  snap_coverage_json :: "json option"

definition snapshot_json :: "InquirySourceSnapshotV0 \<Rightarrow> json" where
  "snapshot_json s =
     JObj [(''generation_id'', JInt (snap_generation_id s)),
           (''started_at'', JStr (snap_started_at s)), (''completed_at'', JStr (snap_completed_at s)),
           (''status'', JStr (GenerationStatus_as_str (snap_status s))),
           (''sources_expected'', JInt (snap_sources_expected s)),
           (''sources_ok'', JInt (snap_sources_ok s)),
           (''sources_failed'', JInt (snap_sources_failed s)),
           (''duration_ms'', JInt (snap_duration_ms s)),
           (''summary_hash'', json_opt JStr (snap_summary_hash s)),
           (''findings_observed'', JInt (snap_findings_observed s)),
           (''detectors_run'', JInt (snap_detectors_run s)),
           (''findings_suppressed'', JInt (snap_findings_suppressed s)),
           (''coverage_json'', json_opt id (snap_coverage_json s))]"

record InquiryFindingStateV0 =
  fs_host :: string
  fs_kind :: string
  fs_subject :: string
  fs_domain :: string
  fs_severity :: string
  fs_message :: string
  fs_first_seen_gen :: int
  fs_first_seen_at :: string
  fs_last_seen_gen :: int
  fs_last_seen_at :: string
  fs_consecutive_gens :: int
  fs_absent_gens :: int
  fs_visibility_state :: string
  fs_admissibility :: string
  fs_suppression_kind :: "string option"
  fs_ancestor_reason :: "string option"
  fs_suppression_declaration_id :: "string option"
  fs_basis_state :: string
  fs_basis_source_id :: "string option"
  fs_basis_witness_id :: "string option"
  fs_last_basis_generation :: "int option"
  fs_basis_state_at :: "string option"
  fs_origin_source :: string
  fs_origin_producer_id :: "string option"
  fs_origin_extraction_run_id :: "string option"
  fs_origin_producer_extraction_time :: "string option"
  fs_origin_import_contract_version :: "int option"
  fs_origin_mode :: string

definition finding_state_json :: "InquiryFindingStateV0 \<Rightarrow> json" where
  "finding_state_json f =
     JObj [(''host'', JStr (fs_host f)), (''kind'', JStr (fs_kind f)), (''subject'', JStr (fs_subject f)),
           (''domain'', JStr (fs_domain f)), (''severity'', JStr (fs_severity f)),
           (''message'', JStr (fs_message f)), (''first_seen_gen'', JInt (fs_first_seen_gen f)),
           (''first_seen_at'', JStr (fs_first_seen_at f)),
           (''last_seen_gen'', JInt (fs_last_seen_gen f)),
           (''last_seen_at'', JStr (fs_last_seen_at f)),
           (''consecutive_gens'', JInt (fs_consecutive_gens f)),
           (''absent_gens'', JInt (fs_absent_gens f)),
           (''visibility_state'', JStr (fs_visibility_state f)),
           (''admissibility'', JStr (fs_admissibility f)),
           (''suppression_kind'', json_opt JStr (fs_suppression_kind f)),
           (''ancestor_reason'', json_opt JStr (fs_ancestor_reason f)),
           (''suppression_declaration_id'', json_opt JStr (fs_suppression_declaration_id f)),
           (''basis_state'', JStr (fs_basis_state f)),
           (''basis_source_id'', json_opt JStr (fs_basis_source_id f)),
           (''basis_witness_id'', json_opt JStr (fs_basis_witness_id f)),
           (''last_basis_generation'', json_opt JInt (fs_last_basis_generation f)),
           (''basis_state_at'', json_opt JStr (fs_basis_state_at f)),
           (''origin_source'', JStr (fs_origin_source f)),
           (''origin_producer_id'', json_opt JStr (fs_origin_producer_id f)),
           (''origin_extraction_run_id'', json_opt JStr (fs_origin_extraction_run_id f)),
           (''origin_producer_extraction_time'',
              json_opt JStr (fs_origin_producer_extraction_time f)),
           (''origin_import_contract_version'',
              json_opt JInt (fs_origin_import_contract_version f)),
           (''origin_mode'', JStr (fs_origin_mode f))]"

record InquiryEvidenceReceiptV0 =
  ev_observation_id :: int
  ev_generation_id :: int
  ev_finding_key :: string
  ev_scope :: string
  ev_detector_id :: string
  ev_host :: string
  ev_subject :: string
  ev_domain :: string
  ev_severity :: "string option"
  ev_value :: "64 word option"
  ev_message :: "string option"
  ev_finding_class :: string
  ev_rule_hash :: "string option"
  ev_observed_at :: string
  ev_basis_source_id :: "string option"
  ev_basis_witness_id :: "string option"

definition evidence_json :: "InquiryEvidenceReceiptV0 \<Rightarrow> json" where
  "evidence_json e =
     JObj [(''observation_id'', JInt (ev_observation_id e)),
           (''generation_id'', JInt (ev_generation_id e)), (''finding_key'', JStr (ev_finding_key e)),
           (''scope'', JStr (ev_scope e)), (''detector_id'', JStr (ev_detector_id e)),
           (''host'', JStr (ev_host e)), (''subject'', JStr (ev_subject e)),
           (''domain'', JStr (ev_domain e)), (''severity'', json_opt JStr (ev_severity e)),
           (''value'', json_opt JF64 (ev_value e)), (''message'', json_opt JStr (ev_message e)),
           (''finding_class'', JStr (ev_finding_class e)),
           (''rule_hash'', json_opt JStr (ev_rule_hash e)),
           (''observed_at'', JStr (ev_observed_at e)),
           (''basis_source_id'', json_opt JStr (ev_basis_source_id e)),
           (''basis_witness_id'', json_opt JStr (ev_basis_witness_id e))]"

record InquiryEvidenceCoverageV0 =
  cov_matched_current_rows :: u64
  cov_matched_receipt_rows :: u64
  cov_receipt_limit :: u32
  cov_receipt_tail_truncated :: bool
  cov_newest_receipt_generation :: "int option"
  cov_oldest_receipt_generation :: "int option"

definition coverage_json :: "InquiryEvidenceCoverageV0 \<Rightarrow> json" where
  "coverage_json c =
     JObj [(''matched_current_rows'', json_word (cov_matched_current_rows c)),
           (''matched_receipt_rows'', json_word (cov_matched_receipt_rows c)),
           (''receipt_limit'', json_word (cov_receipt_limit c)),
           (''receipt_tail_truncated'', JBool (cov_receipt_tail_truncated c)),
           (''newest_receipt_generation'', json_opt JInt (cov_newest_receipt_generation c)),
           (''oldest_receipt_generation'', json_opt JInt (cov_oldest_receipt_generation c))]"

section \<open>The receipt\<close>

record InquiryReceiptV0 =
  rc_schema :: string
  rc_version :: InquiryVersionV0
  rc_status :: InquiryStatusV0
  rc_disposition :: InquiryDisposition
  rc_request :: AdmittedInquiryRequestV0
  rc_source_snapshot :: "InquirySourceSnapshotV0 option"
  rc_finding_state :: "InquiryFindingStateV0 option"
  rc_evidence_receipts :: "InquiryEvidenceReceiptV0 list"
  rc_evidence_coverage :: InquiryEvidenceCoverageV0
  rc_witness_plan :: "InquiryWitnessPlanV0 option"
  rc_tls_observations :: "InquiryTlsObservationV0 list"
  rc_acquisition :: "InquiryAcquisitionSpendV0 option"
  rc_grant_digest :: "string option"
  rc_authorized_acquisition_envelope :: "InquiryAcquisitionSpendV0 option"
  rc_observed_acquisition_spend :: "InquiryAcquisitionSpendV0 option"
  rc_coverage :: "string list"
  rc_cannot_testify :: "InquiryRefusal list"
  rc_acquisition_spend :: u64
  rc_receipt_digest :: "string option"

definition request_json :: "AdmittedInquiryRequestV0 \<Rightarrow> json" where
  "request_json r =
     (case RequestDigestMaterial r of
        JObj fs \<Rightarrow> JObj (fs @ [(''request_digest'', JStr (req_request_digest r))])
      | v \<Rightarrow> v)"

definition receipt_json :: "InquiryReceiptV0 \<Rightarrow> json" where
  "receipt_json r =
     JObj ([(''schema'', JStr (rc_schema r)), (''version'', version_json (rc_version r)),
            (''status'', JStr (InquiryStatusV0_as_str (rc_status r))),
            (''disposition'', JStr (InquiryDisposition_as_str (rc_disposition r))),
            (''request'', request_json (rc_request r)),
            (''source_snapshot'', json_opt snapshot_json (rc_source_snapshot r)),
            (''finding_state'', json_opt finding_state_json (rc_finding_state r)),
            (''evidence_receipts'', JArr (map evidence_json (rc_evidence_receipts r))),
            (''evidence_coverage'', coverage_json (rc_evidence_coverage r))]
           @ opt_field ''witness_plan'' witness_plan_json (rc_witness_plan r)
           @ vec_field ''tls_observations'' observation_json (rc_tls_observations r)
           @ opt_field ''acquisition'' spend_json (rc_acquisition r)
           @ opt_field ''grant_digest'' JStr (rc_grant_digest r)
           @ opt_field ''authorized_acquisition_envelope'' spend_json
               (rc_authorized_acquisition_envelope r)
           @ opt_field ''observed_acquisition_spend'' spend_json (rc_observed_acquisition_spend r)
           @ [(''coverage'', JArr (map JStr (rc_coverage r))),
              (''cannot_testify'', JArr (map refusal_json (rc_cannot_testify r))),
              (''acquisition_spend'', json_word (rc_acquisition_spend r))]
           @ opt_field ''receipt_digest'' JStr (rc_receipt_digest r))"

definition compute_receipt_digest :: "externals \<Rightarrow> InquiryReceiptV0 \<Rightarrow> string + string" where
  "compute_receipt_digest ext r = digest_jcs ext (receipt_json (r\<lparr>rc_receipt_digest := None\<rparr>))"

datatype InquiryTlsEnvelopeShape = CompletedPerTargetOutcomes | PreAcquisitionGrantRefusal

section \<open>Envelopes\<close>

definition verify_report_envelope :: "InquiryReceiptV0 \<Rightarrow> string + unit" where
  "verify_report_envelope r =
     checks
      [refuse_if
         (rc_acquisition_spend r \<noteq> 0 \<or> rc_acquisition r \<noteq> None \<or> rc_witness_plan r \<noteq> None
           \<or> rc_tls_observations r \<noteq> [] \<or> rc_grant_digest r \<noteq> None
           \<or> rc_authorized_acquisition_envelope r \<noteq> None \<or> rc_observed_acquisition_spend r \<noteq> None)
         ''report inquiry requires zero acquisition and no active payload'',
       refuse_if
         (req_selector (rc_request r) = None \<or> req_requested_targets (rc_request r) \<noteq> []
           \<or> req_admitted_targets (rc_request r) \<noteq> [])
         ''report inquiry request has invalid selector/target shape'',
       refuse_if (rc_disposition r = PerTargetOutcomes)
         ''report inquiry cannot use per_target_outcomes disposition'']"

fun is_grant_refusal_kind :: "InquiryRefusalKindV0 \<Rightarrow> bool" where
  "is_grant_refusal_kind GrantRequired = True"
| "is_grant_refusal_kind GrantMalformed = True"
| "is_grant_refusal_kind GrantScopeInsufficient = True"
| "is_grant_refusal_kind GrantDepthInsufficient = True"
| "is_grant_refusal_kind GrantAcquisitionEnvelopeInsufficient = True"
| "is_grant_refusal_kind GrantWitnessClassNotPermitted = True"
| "is_grant_refusal_kind k = False"

definition tls_envelope_shape :: "InquiryReceiptV0 \<Rightarrow> string + InquiryTlsEnvelopeShape" where
  "tls_envelope_shape r =
     (let has_grant_refusal = list_ex (\<lambda>x. is_grant_refusal_kind (rfl_kind x)) (rc_cannot_testify r) in
      if rc_disposition r = PerTargetOutcomes then Inr CompletedPerTargetOutcomes
      else if rc_disposition r = CannotTestify \<and> rc_status r = Refused \<and> has_grant_refusal
        then Inr PreAcquisitionGrantRefusal
      else Inl ''TLS inquiry envelope is neither completed per-target outcomes nor a pre-acquisition grant refusal'')"

definition verify_grant_binding :: "InquiryReceiptV0 \<Rightarrow> InquiryAcquisitionSpendV0 \<Rightarrow> string + unit" where
  "verify_grant_binding r acquisition =
     (case (rc_grant_digest r, rc_authorized_acquisition_envelope r, rc_observed_acquisition_spend r) of
        (None, None, None) \<Rightarrow> Inr ()
      | (Some gd, Some authorized, Some observed) \<Rightarrow>
          checks
           [refuse_if (\<not> is_sha256_digest gd)
              ''inquiry receipt grant_digest must be a canonical SHA-256 digest'',
            refuse_if (observed \<noteq> acquisition)
              ''inquiry receipt observed spend does not match acquisition accounting'',
            refuse_if (\<not> spend_is_pointwise_at_most observed authorized)
              ''inquiry receipt observed spend exceeds its authorized envelope'']
      | _ \<Rightarrow> Inl ''inquiry receipt grant binding must be wholly present or wholly absent'')"

definition verify_pre_acquisition_grant_refusal ::
  "InquiryReceiptV0 \<Rightarrow> InquiryAcquisitionSpendV0 \<Rightarrow> string + unit"
where
  "verify_pre_acquisition_grant_refusal r acquisition =
     (let has_no_usable_grant =
        list_ex (\<lambda>x. rfl_kind x = GrantRequired \<or> rfl_kind x = GrantMalformed) (rc_cannot_testify r) in
      checks
       [refuse_if
          (rc_tls_observations r \<noteq> [] \<or> rc_acquisition_spend r \<noteq> 0 \<or> acquisition \<noteq> spend_default)
          ''pre-acquisition grant refusal requires zero spend and no per-target testimony'',
        refuse_if
          (has_no_usable_grant
            \<and> (rc_grant_digest r \<noteq> None \<or> rc_authorized_acquisition_envelope r \<noteq> None
               \<or> rc_observed_acquisition_spend r \<noteq> None))
          ''missing or malformed grant refusal cannot carry a grant binding'',
        verify_grant_binding r acquisition])"

text \<open>The pointwise sum of the loop; \<open>wall_ms\<close> included.\<close>

definition spend_add ::
  "InquiryAcquisitionSpendV0 \<Rightarrow> InquiryAcquisitionSpendV0 \<Rightarrow> InquiryAcquisitionSpendV0"
where
  "spend_add a b =
     \<lparr>sp_dns_attempts = sp_dns_attempts a + sp_dns_attempts b,
      sp_connection_attempts = sp_connection_attempts a + sp_connection_attempts b,
      sp_handshakes_attempted = sp_handshakes_attempted a + sp_handshakes_attempted b,
      sp_handshakes_completed = sp_handshakes_completed a + sp_handshakes_completed b,
      sp_bound_checks = sp_bound_checks a + sp_bound_checks b,
      sp_wall_ms = sp_wall_ms a + sp_wall_ms b,
      sp_work_units = sp_work_units a + sp_work_units b\<rparr>"

definition target_spend_exceeds :: "InquiryAcquisitionBoundsV0 \<Rightarrow> InquiryAcquisitionSpendV0 \<Rightarrow> bool" where
  "target_spend_exceeds bounds s \<longleftrightarrow>
     sp_work_units s \<noteq> counted_work_units s \<or> sp_handshakes_completed s > sp_handshakes_attempted s
     \<or> sp_connection_attempts s > sp_dns_attempts s
     \<or> sp_handshakes_attempted s > sp_connection_attempts s \<or> sp_dns_attempts s > 1
     \<or> sp_connection_attempts s > 1 \<or> sp_handshakes_attempted s > 1 \<or> sp_bound_checks s > 1
     \<or> sp_wall_ms s > bnd_per_target_deadline_ms bounds"

text \<open>
  The loop over the observations of \<open>verify_tls_envelope\<close>, with the targets observed and
  the spend summed so far.
\<close>

fun verify_observations ::
  "externals \<Rightarrow> InquiryWitnessPlanV0 \<Rightarrow> InquiryRefusal list \<Rightarrow> InquiryTlsTargetV0 set \<Rightarrow>
     InquiryAcquisitionSpendV0 \<Rightarrow> InquiryTlsObservationV0 list \<Rightarrow> string + InquiryAcquisitionSpendV0"
where
  "verify_observations ext plan cannot observed summed [] = Inr summed"
| "verify_observations ext plan cannot observed summed (ob # obs) =
     res_bind
      (checks
        [discard (parse_rfc3339 ext ''tls_observations[].acquired_at'' (ob_acquired_at ob)),
         verify_shape ext ob,
         refuse_if (ob_target ob \<notin> set (wp_targets plan) \<or> ob_target ob \<in> observed)
           ''TLS inquiry observation target is undeclared or duplicated'',
         refuse_if (target_spend_exceeds (wp_bounds plan) (ob_spend ob))
           ''TLS target observation exceeded its resolved bounds'',
         refuse_if (list_ex (\<lambda>refusal. refusal \<notin> set cannot) (ob_refusals ob))
           ''TLS target refusal is missing from receipt cannot_testify''])
      (\<lambda>_. verify_observations ext plan cannot (insert (ob_target ob) observed)
             (spend_add summed (ob_spend ob)) obs)"

definition outcome_refuses :: "InquiryTlsOutcomeV0 \<Rightarrow> bool" where
  "outcome_refuses out \<longleftrightarrow>
     out \<in> {ResolutionFailed, ConnectionFailed, TlsHandshakeFailed, NoCertificatePresented,
            AcquisitionBoundRefused}"

definition acquisition_exceeds :: "InquiryAcquisitionBoundsV0 \<Rightarrow> InquiryAcquisitionSpendV0 \<Rightarrow> bool" where
  "acquisition_exceeds bounds a \<longleftrightarrow>
     sp_dns_attempts a > bnd_max_dns_attempts bounds
     \<or> sp_connection_attempts a > bnd_max_connection_attempts bounds
     \<or> sp_handshakes_attempted a > bnd_max_handshakes_attempted bounds
     \<or> sp_bound_checks a > bnd_max_bound_checks bounds
     \<or> sp_connection_attempts a > sp_dns_attempts a
     \<or> sp_handshakes_attempted a > sp_connection_attempts a
     \<or> sp_handshakes_completed a > sp_handshakes_attempted a
     \<or> sp_work_units a > bnd_max_work_units bounds \<or> sp_wall_ms a > bnd_total_deadline_ms bounds"

definition sum_differs :: "InquiryAcquisitionSpendV0 \<Rightarrow> InquiryAcquisitionSpendV0 \<Rightarrow> bool" where
  "sum_differs summed a \<longleftrightarrow>
     sp_dns_attempts summed \<noteq> sp_dns_attempts a
     \<or> sp_connection_attempts summed \<noteq> sp_connection_attempts a
     \<or> sp_handshakes_attempted summed \<noteq> sp_handshakes_attempted a
     \<or> sp_handshakes_completed summed \<noteq> sp_handshakes_completed a
     \<or> sp_bound_checks summed \<noteq> sp_bound_checks a
     \<or> sp_wall_ms summed > sp_wall_ms a \<or> sp_work_units summed \<noteq> sp_work_units a"

text \<open>The part of \<open>verify_tls_envelope\<close> after the match on the shape, for completed receipts.\<close>

definition verify_completed ::
  "externals \<Rightarrow> InquiryReceiptV0 \<Rightarrow> InquiryWitnessPlanV0 \<Rightarrow> InquiryAcquisitionSpendV0 \<Rightarrow> string + unit"
where
  "verify_completed ext r plan acquisition =
     (let should_refuse = list_ex (\<lambda>ob. outcome_refuses (ob_outcome ob)) (rc_tls_observations r) in
      checks
       [refuse_if
          (sp_work_units acquisition = 0 \<or> sp_work_units acquisition \<noteq> counted_work_units acquisition
            \<or> rc_acquisition_spend r \<noteq> sp_work_units acquisition)
          ''TLS inquiry acquisition_spend must be the positive counted work-unit sum'',
        refuse_if (acquisition_exceeds (wp_bounds plan) acquisition)
          ''TLS inquiry acquisition exceeded its resolved bounds'',
        refuse_if (length (rc_tls_observations r) \<noteq> length (wp_targets plan))
          ''TLS inquiry requires exactly one observation per admitted target'',
        res_bind
          (verify_observations ext plan (rc_cannot_testify r) {} spend_default (rc_tls_observations r))
          (\<lambda>summed.
            refuse_if (sum_differs summed acquisition)
              ''TLS inquiry aggregate spend does not equal target accounting''),
        refuse_if
          ((should_refuse \<and> rc_status r \<noteq> Refused) \<or> (\<not> should_refuse \<and> rc_status r \<noteq> Answered))
          ''TLS inquiry status contradicts its target outcomes'',
        verify_grant_binding r acquisition])"

definition verify_tls_envelope :: "externals \<Rightarrow> InquiryReceiptV0 \<Rightarrow> string + unit" where
  "verify_tls_envelope ext r =
     (let coverage = rc_evidence_coverage r; request = rc_request r in
      res_bind
       (checks
         [refuse_if
            (req_selector request \<noteq> None \<or> rc_source_snapshot r \<noteq> None \<or> rc_finding_state r \<noteq> None
              \<or> rc_evidence_receipts r \<noteq> [] \<or> cov_matched_current_rows coverage \<noteq> 0
              \<or> cov_matched_receipt_rows coverage \<noteq> 0 \<or> cov_receipt_limit coverage \<noteq> 0
              \<or> cov_receipt_tail_truncated coverage \<or> cov_newest_receipt_generation coverage \<noteq> None
              \<or> cov_oldest_receipt_generation coverage \<noteq> None)
            ''TLS inquiry must carry only per-target active testimony'',
          refuse_if (\<not> list_ex (\<lambda>x. rfl_kind x = ConsequenceAuthority) (rc_cannot_testify r))
            ''TLS inquiry requires a consequence_authority refusal'']) (\<lambda>_.
      res_bind (ok_or ''TLS inquiry receipt is missing its witness plan'' (rc_witness_plan r)) (\<lambda>plan.
      res_bind (InquiryWitnessPlanV0_verify_envelope ext plan) (\<lambda>_.
      res_bind
       (refuse_if
         (wp_request_digest plan \<noteq> req_request_digest request
           \<or> wp_targets plan \<noteq> req_admitted_targets request
           \<or> req_requested_targets request \<noteq> req_admitted_targets request)
         ''TLS inquiry witness plan does not match the admitted request'') (\<lambda>_.
      res_bind
       (ok_or ''TLS inquiry receipt is missing acquisition accounting'' (rc_acquisition r)) (\<lambda>acquisition.
      res_bind (tls_envelope_shape r) (\<lambda>shape.
      case shape of
        CompletedPerTargetOutcomes \<Rightarrow> verify_completed ext r plan acquisition
      | PreAcquisitionGrantRefusal \<Rightarrow> verify_pre_acquisition_grant_refusal r acquisition)))))))"

section \<open>Sealing\<close>

definition normalize_receipt :: "InquiryReceiptV0 \<Rightarrow> InquiryReceiptV0" where
  "normalize_receipt r =
     r\<lparr>rc_coverage := sort (rc_coverage r),
       rc_cannot_testify := remdups_adj (sort (rc_cannot_testify r)),
       rc_tls_observations :=
         sort_key ob_target
           (map (\<lambda>ob. ob\<lparr>ob_refusals := remdups_adj (sort (ob_refusals ob))\<rparr>) (rc_tls_observations r))\<rparr>"

definition verify_question_envelope :: "externals \<Rightarrow> InquiryReceiptV0 \<Rightarrow> string + unit" where
  "verify_question_envelope ext r =
     (case req_question_kind (rc_request r) of
        FindingOperationalActivity \<Rightarrow> verify_report_envelope r
      | TlsCertificatePresentationAndExpiryHorizon \<Rightarrow> verify_tls_envelope ext r)"

definition seal :: "externals \<Rightarrow> InquiryReceiptV0 \<Rightarrow> string + InquiryReceiptV0" where
  "seal ext r =
     res_bind
      (refuse_if (rc_schema r \<noteq> INQUIRY_RECEIPT_SCHEMA_V0)
        (''unsupported inquiry receipt schema '' @ debug_str (rc_schema r))) (\<lambda>_.
     res_bind (verify_request_digest ext (rc_request r)) (\<lambda>_.
     let n = normalize_receipt r in
     res_bind (verify_question_envelope ext n) (\<lambda>_.
     res_bind (compute_receipt_digest ext n) (\<lambda>d.
     Inr (n\<lparr>rc_receipt_digest := Some d\<rparr>)))))"

definition receipt_canonical_bytes :: "externals \<Rightarrow> InquiryReceiptV0 \<Rightarrow> string + string" where
  "receipt_canonical_bytes ext r = canonical_bytes ext (receipt_json r)"

section \<open>Sums of counters\<close>

lemma unat_sum_list:
  fixes f :: "'a \<Rightarrow> 'w::len word"
  assumes "(\<Sum>x\<leftarrow>xs. unat (f x)) < 2 ^ LENGTH('w)"
  shows "unat (\<Sum>x\<leftarrow>xs. f x) = (\<Sum>x\<leftarrow>xs. unat (f x))"
  using assms
proof (induction xs)
  case (Cons a xs)
  then have "unat (\<Sum>x\<leftarrow>xs. f x) = (\<Sum>x\<leftarrow>xs. unat (f x))" by simp
  with Cons.prems show ?case by (simp add: unat_word_ariths)
qed simp

lemma sum_list_le_mult: "(\<And>x. x \<in> set xs \<Longrightarrow> g x \<le> (k :: nat)) \<Longrightarrow> (\<Sum>x\<leftarrow>xs. g x) \<le> length xs * k"
  by (induction xs) (simp_all add: add_mono)

lemma unat_sum_list_bounded:
  fixes f :: "'a \<Rightarrow> 'w::len word"
  assumes "\<And>x. x \<in> set xs \<Longrightarrow> unat (f x) \<le> k" "length xs * k < 2 ^ LENGTH('w)"
  shows "unat (\<Sum>x\<leftarrow>xs. f x) = (\<Sum>x\<leftarrow>xs. unat (f x))"
proof (rule unat_sum_list)
  show "(\<Sum>x\<leftarrow>xs. unat (f x)) < 2 ^ LENGTH('w)"
    using sum_list_le_mult [of xs "\<lambda>x. unat (f x)" k] assms by simp
qed

lemma foldl_spend_add:
  "sp_dns_attempts (foldl spend_add a ss) = sp_dns_attempts a + (\<Sum>s\<leftarrow>ss. sp_dns_attempts s)"
  "sp_connection_attempts (foldl spend_add a ss) = sp_connection_attempts a + (\<Sum>s\<leftarrow>ss. sp_connection_attempts s)"
  "sp_handshakes_attempted (foldl spend_add a ss) = sp_handshakes_attempted a + (\<Sum>s\<leftarrow>ss. sp_handshakes_attempted s)"
  "sp_handshakes_completed (foldl spend_add a ss) = sp_handshakes_completed a + (\<Sum>s\<leftarrow>ss. sp_handshakes_completed s)"
  "sp_bound_checks (foldl spend_add a ss) = sp_bound_checks a + (\<Sum>s\<leftarrow>ss. sp_bound_checks s)"
  "sp_wall_ms (foldl spend_add a ss) = sp_wall_ms a + (\<Sum>s\<leftarrow>ss. sp_wall_ms s)"
  "sp_work_units (foldl spend_add a ss) = sp_work_units a + (\<Sum>s\<leftarrow>ss. sp_work_units s)"
  by (induction ss arbitrary: a) (simp_all add: spend_add_def add.assoc)

section \<open>What the envelope checks accept\<close>

definition observation_ok ::
  "externals \<Rightarrow> InquiryWitnessPlanV0 \<Rightarrow> InquiryRefusal list \<Rightarrow> InquiryTlsObservationV0 \<Rightarrow> bool"
where
  "observation_ok ext plan cannot ob \<longleftrightarrow>
     is_ok (rfc3339_parse ext (ob_acquired_at ob)) \<and> verify_shape ext ob = Inr ()
     \<and> ob_target ob \<in> set (wp_targets plan) \<and> \<not> target_spend_exceeds (wp_bounds plan) (ob_spend ob)
     \<and> set (ob_refusals ob) \<subseteq> set cannot"

lemma is_ok_parse: "is_ok (parse_rfc3339 ext f v) \<longleftrightarrow> is_ok (rfc3339_parse ext v)"
  by (auto simp: is_ok_iff parse_rfc3339_ok)

lemma verify_observations_ok_gen:
  "verify_observations ext plan cannot observed summed obs = Inr sm \<longleftrightarrow>
     (\<forall>ob \<in> set obs. observation_ok ext plan cannot ob) \<and> distinct (map ob_target obs)
     \<and> ob_target ` set obs \<inter> observed = {} \<and> sm = foldl spend_add summed (map ob_spend obs)"
proof (induction obs arbitrary: observed summed)
  case Nil
  then show ?case by auto
next
  case (Cons ob obs)
  have "checks
        [discard (parse_rfc3339 ext ''tls_observations[].acquired_at'' (ob_acquired_at ob)),
         verify_shape ext ob,
         refuse_if (ob_target ob \<notin> set (wp_targets plan) \<or> ob_target ob \<in> observed)
           ''TLS inquiry observation target is undeclared or duplicated'',
         refuse_if (target_spend_exceeds (wp_bounds plan) (ob_spend ob))
           ''TLS target observation exceeded its resolved bounds'',
         refuse_if (list_ex (\<lambda>refusal. refusal \<notin> set cannot) (ob_refusals ob))
           ''TLS target refusal is missing from receipt cannot_testify''] = Inr ()
      \<longleftrightarrow> observation_ok ext plan cannot ob \<and> ob_target ob \<notin> observed"
    by (auto simp: checks_ok discard_ok refuse_if_ok is_ok_parse observation_ok_def list_ex_iff)
  then show ?case
    by (auto simp: res_bind_Inr_iff Cons.IH)
qed

lemma verify_observations_ok:
  "verify_observations ext plan cannot {} spend_default obs = Inr sm \<longleftrightarrow>
     (\<forall>ob \<in> set obs. observation_ok ext plan cannot ob) \<and> distinct (map ob_target obs)
     \<and> sm = foldl spend_add spend_default (map ob_spend obs)"
  by (simp add: verify_observations_ok_gen)

lemma verify_grant_binding_ok:
  "verify_grant_binding r a = Inr () \<longleftrightarrow>
     (rc_grant_digest r = None \<and> rc_authorized_acquisition_envelope r = None
        \<and> rc_observed_acquisition_spend r = None)
     \<or> (\<exists>gd au. rc_grant_digest r = Some gd \<and> rc_authorized_acquisition_envelope r = Some au
          \<and> rc_observed_acquisition_spend r = Some a \<and> is_sha256_digest gd \<and> spend_le a au)"
  by (auto simp: verify_grant_binding_def checks_ok refuse_if_ok split: option.splits)

lemma verify_completed_ok:
  "verify_completed ext r plan a = Inr () \<longleftrightarrow>
     sp_work_units a \<noteq> 0 \<and> sp_work_units a = counted_work_units a \<and> rc_acquisition_spend r = sp_work_units a
     \<and> \<not> acquisition_exceeds (wp_bounds plan) a
     \<and> length (rc_tls_observations r) = length (wp_targets plan)
     \<and> (\<forall>ob \<in> set (rc_tls_observations r). observation_ok ext plan (rc_cannot_testify r) ob)
     \<and> distinct (map ob_target (rc_tls_observations r))
     \<and> \<not> sum_differs (foldl spend_add spend_default (map ob_spend (rc_tls_observations r))) a
     \<and> (rc_status r = Refused \<longleftrightarrow> (\<exists>ob \<in> set (rc_tls_observations r). outcome_refuses (ob_outcome ob)))
     \<and> verify_grant_binding r a = Inr ()"
proof -
  have "rc_status r = Refused \<or> rc_status r = Answered" by (cases "rc_status r") simp_all
  then show ?thesis
    by (auto simp: verify_completed_def Let_def checks_ok refuse_if_ok res_bind_Inr_iff
        verify_observations_ok list_ex_iff)
qed

lemma verify_pre_acquisition_ok:
  "verify_pre_acquisition_grant_refusal r a = Inr () \<longleftrightarrow>
     rc_tls_observations r = [] \<and> rc_acquisition_spend r = 0 \<and> a = spend_default
     \<and> ((\<exists>x \<in> set (rc_cannot_testify r). rfl_kind x = GrantRequired \<or> rfl_kind x = GrantMalformed) \<longrightarrow>
          rc_grant_digest r = None)
     \<and> verify_grant_binding r a = Inr ()"
  by (auto simp: verify_pre_acquisition_grant_refusal_def Let_def checks_ok refuse_if_ok list_ex_iff
      verify_grant_binding_ok)

lemma tls_envelope_shape_ok:
  "tls_envelope_shape r = Inr CompletedPerTargetOutcomes \<longleftrightarrow> rc_disposition r = PerTargetOutcomes"
  "tls_envelope_shape r = Inr PreAcquisitionGrantRefusal \<longleftrightarrow>
     rc_disposition r = CannotTestify \<and> rc_status r = Refused
     \<and> (\<exists>x \<in> set (rc_cannot_testify r). is_grant_refusal_kind (rfl_kind x))"
  by (auto simp: tls_envelope_shape_def Let_def list_ex_iff)

lemma case_shape_ok:
  "case_InquiryTlsEnvelopeShape x y sh = Inr () \<longleftrightarrow>
     sh = CompletedPerTargetOutcomes \<and> x = Inr () \<or> sh = PreAcquisitionGrantRefusal \<and> y = Inr ()"
  by (cases sh) simp_all

lemma verify_tls_envelope_ok:
  "verify_tls_envelope ext r = Inr () \<longleftrightarrow>
     req_selector (rc_request r) = None \<and> rc_source_snapshot r = None \<and> rc_finding_state r = None
     \<and> rc_evidence_receipts r = []
     \<and> rc_evidence_coverage r =
         \<lparr>cov_matched_current_rows = 0, cov_matched_receipt_rows = 0, cov_receipt_limit = 0,
          cov_receipt_tail_truncated = False, cov_newest_receipt_generation = None,
          cov_oldest_receipt_generation = None\<rparr>
     \<and> (\<exists>x \<in> set (rc_cannot_testify r). rfl_kind x = ConsequenceAuthority)
     \<and> (\<exists>plan a. rc_witness_plan r = Some plan \<and> rc_acquisition r = Some a
          \<and> InquiryWitnessPlanV0_verify_envelope ext plan = Inr ()
          \<and> wp_request_digest plan = req_request_digest (rc_request r)
          \<and> wp_targets plan = req_admitted_targets (rc_request r)
          \<and> req_requested_targets (rc_request r) = req_admitted_targets (rc_request r)
          \<and> (tls_envelope_shape r = Inr CompletedPerTargetOutcomes \<and> verify_completed ext r plan a = Inr ()
             \<or> tls_envelope_shape r = Inr PreAcquisitionGrantRefusal
                 \<and> verify_pre_acquisition_grant_refusal r a = Inr ()))"
  (is "?l = ?r")
proof
  assume ?l
  then show ?r
    unfolding verify_tls_envelope_def Let_def
    by (cases "rc_evidence_coverage r")
      (auto simp: res_bind_Inr_iff checks_ok refuse_if_ok ok_or_Inr_iff list_ex_iff case_shape_ok)
next
  assume ?r
  then show ?l
    unfolding verify_tls_envelope_def Let_def
    by (auto simp: res_bind_Inr_iff checks_ok refuse_if_ok ok_or_Inr_iff list_ex_iff)
qed

lemma verify_report_envelope_ok:
  "verify_report_envelope r = Inr () \<longleftrightarrow>
     rc_acquisition_spend r = 0 \<and> rc_acquisition r = None \<and> rc_witness_plan r = None
     \<and> rc_tls_observations r = [] \<and> rc_grant_digest r = None
     \<and> rc_authorized_acquisition_envelope r = None \<and> rc_observed_acquisition_spend r = None
     \<and> req_selector (rc_request r) \<noteq> None \<and> req_requested_targets (rc_request r) = []
     \<and> req_admitted_targets (rc_request r) = [] \<and> rc_disposition r \<noteq> PerTargetOutcomes"
  by (auto simp: verify_report_envelope_def checks_ok refuse_if_ok)

section \<open>Sealing\<close>

lemma sort_key_sorted: "sorted (map f xs) \<Longrightarrow> sort_key f xs = xs"
proof (induction xs)
  case (Cons a xs)
  then have "sort_key f xs = xs" by simp
  moreover from Cons.prems have "\<forall>x \<in> set xs. f a \<le> f x" by simp
  ultimately show ?case by (simp add: insort_is_Cons)
qed simp

lemma remdups_sort_idem [simp]: "remdups_adj (sort (remdups_adj (sort xs))) = remdups_adj (sort xs)"
  using sorted_distinct_remdups_adj_sort [of xs] by (simp add: sorted_sort_id remdups_adj_distinct)

lemma normalize_receipt_idem [simp]: "normalize_receipt (normalize_receipt r) = normalize_receipt r"
proof -
  let ?F = "\<lambda>ob. ob\<lparr>ob_refusals := remdups_adj (sort (ob_refusals ob))\<rparr>"
  let ?obs = "sort_key ob_target (map ?F (rc_tls_observations r))"
  have "map ?F ?obs = ?obs" by (rule map_idI) auto
  moreover have "sort_key ob_target ?obs = ?obs" by (rule sort_key_sorted) simp
  ultimately have "sort_key ob_target (map ?F ?obs) = ?obs" by simp
  moreover have "sort (sort (rc_coverage r)) = sort (rc_coverage r)" by (rule sorted_sort_id) simp
  ultimately show ?thesis by (simp add: normalize_receipt_def)
qed

lemma normalize_receipt_digest:
  "normalize_receipt (r\<lparr>rc_receipt_digest := d\<rparr>) = (normalize_receipt r)\<lparr>rc_receipt_digest := d\<rparr>"
  by (simp add: normalize_receipt_def)

lemma verify_question_envelope_digest [simp]:
  "verify_question_envelope ext (r\<lparr>rc_receipt_digest := d\<rparr>) = verify_question_envelope ext r"
proof -
  let ?s = "r\<lparr>rc_receipt_digest := d\<rparr>"
  have g: "verify_grant_binding ?s a = verify_grant_binding r a" for a
    by (simp add: verify_grant_binding_def)
  have c: "verify_completed ext ?s plan a = verify_completed ext r plan a" for plan a
    by (simp add: verify_completed_def g)
  have p: "verify_pre_acquisition_grant_refusal ?s a = verify_pre_acquisition_grant_refusal r a" for a
    by (simp add: verify_pre_acquisition_grant_refusal_def g)
  have "verify_tls_envelope ext ?s = verify_tls_envelope ext r"
    by (simp add: verify_tls_envelope_def tls_envelope_shape_def c p)
  then show ?thesis
    by (cases "req_question_kind (rc_request r)")
      (simp_all add: verify_question_envelope_def verify_report_envelope_def)
qed

lemma compute_receipt_digest_put [simp]:
  "compute_receipt_digest ext (r\<lparr>rc_receipt_digest := d\<rparr>) = compute_receipt_digest ext r"
  by (simp add: compute_receipt_digest_def)

lemma sort_key_empty: "sort_key f xs = [] \<longleftrightarrow> xs = []"
  using length_sort [of f xs] by (auto simp del: length_sort)

lemma normalize_receipt_fields [simp]:
  "rc_schema (normalize_receipt r) = rc_schema r" "rc_request (normalize_receipt r) = rc_request r"
  "rc_status (normalize_receipt r) = rc_status r" "rc_disposition (normalize_receipt r) = rc_disposition r"
  "rc_witness_plan (normalize_receipt r) = rc_witness_plan r"
  "rc_acquisition (normalize_receipt r) = rc_acquisition r"
  "rc_grant_digest (normalize_receipt r) = rc_grant_digest r"
  "rc_authorized_acquisition_envelope (normalize_receipt r) = rc_authorized_acquisition_envelope r"
  "rc_observed_acquisition_spend (normalize_receipt r) = rc_observed_acquisition_spend r"
  "rc_acquisition_spend (normalize_receipt r) = rc_acquisition_spend r"
  "rc_receipt_digest (normalize_receipt r) = rc_receipt_digest r"
  "rc_source_snapshot (normalize_receipt r) = rc_source_snapshot r"
  "rc_finding_state (normalize_receipt r) = rc_finding_state r"
  "rc_evidence_receipts (normalize_receipt r) = rc_evidence_receipts r"
  "rc_evidence_coverage (normalize_receipt r) = rc_evidence_coverage r"
  "set (rc_cannot_testify (normalize_receipt r)) = set (rc_cannot_testify r)"
  "length (rc_tls_observations (normalize_receipt r)) = length (rc_tls_observations r)"
  "rc_tls_observations (normalize_receipt r) = [] \<longleftrightarrow> rc_tls_observations r = []"
  by (simp_all add: normalize_receipt_def sort_key_empty)

lemma seal_ok:
  "seal ext r = Inr s \<longleftrightarrow>
     rc_schema r = INQUIRY_RECEIPT_SCHEMA_V0 \<and> verify_request_digest ext (rc_request r) = Inr ()
     \<and> verify_question_envelope ext (normalize_receipt r) = Inr ()
     \<and> (\<exists>d. compute_receipt_digest ext (normalize_receipt r) = Inr d
          \<and> s = (normalize_receipt r)\<lparr>rc_receipt_digest := Some d\<rparr>)"
  by (auto simp: seal_def Let_def res_bind_Inr_iff refuse_if_ok)

lemma seal_idem:
  assumes "seal ext r = Inr s"
  shows "seal ext s = Inr s"
proof -
  from assms obtain d where s: "s = (normalize_receipt r)\<lparr>rc_receipt_digest := Some d\<rparr>"
    and d: "compute_receipt_digest ext (normalize_receipt r) = Inr d"
    and ok: "rc_schema r = INQUIRY_RECEIPT_SCHEMA_V0" "verify_request_digest ext (rc_request r) = Inr ()"
      "verify_question_envelope ext (normalize_receipt r) = Inr ()"
    by (auto simp: seal_ok)
  have n: "normalize_receipt s = s" by (simp add: s normalize_receipt_digest)
  show ?thesis
    unfolding seal_ok n
  proof (intro conjI exI [of _ d])
    show "s = s\<lparr>rc_receipt_digest := Some d\<rparr>" by (simp add: s)
  qed (simp_all add: s d ok)
qed

lemma sealed_envelope:
  assumes "seal ext r = Inr s"
  shows "verify_question_envelope ext s = Inr ()" "verify_request_digest ext (rc_request s) = Inr ()"
    "rc_receipt_digest s \<noteq> None" "compute_receipt_digest ext s = Inr (the (rc_receipt_digest s))"
  using assms by (auto simp: seal_ok)

section \<open>Accounting\<close>

lemma spend_not_exceeded:
  assumes "\<not> target_spend_exceeds b s"
  shows "unat (sp_dns_attempts s) \<le> 1" "unat (sp_connection_attempts s) \<le> 1"
    "unat (sp_handshakes_attempted s) \<le> 1" "unat (sp_handshakes_completed s) \<le> 1"
    "unat (sp_bound_checks s) \<le> 1" "unat (sp_work_units s) \<le> 4"
    "unat (sp_wall_ms s) \<le> unat (bnd_per_target_deadline_ms b)"
    "unat (sp_work_units s) = unat (sp_dns_attempts s) + unat (sp_connection_attempts s)
       + unat (sp_handshakes_attempted s) + unat (sp_bound_checks s)"
  using assms counted_work_units_unat [of s]
  by (auto simp: target_spend_exceeds_def not_less word_le_nat_alt)

text \<open>The counters of a list of spends, as natural numbers.\<close>

definition spends_total :: "(InquiryAcquisitionSpendV0 \<Rightarrow> 'w::len word) \<Rightarrow> InquiryTlsObservationV0 list \<Rightarrow> nat" where
  "spends_total f obs = (\<Sum>ob\<leftarrow>obs. unat (f (ob_spend ob)))"

lemma spends_total_exact:
  fixes f :: "InquiryAcquisitionSpendV0 \<Rightarrow> 'w::len word"
  assumes "\<And>ob. ob \<in> set obs \<Longrightarrow> unat (f (ob_spend ob)) \<le> k" "length obs * k < 2 ^ LENGTH('w)"
  shows "unat (\<Sum>s\<leftarrow>map ob_spend obs. f s) = spends_total f obs"
proof -
  have "unat (\<Sum>s\<leftarrow>map ob_spend obs. f s) = (\<Sum>s\<leftarrow>map ob_spend obs. unat (f s))"
    by (rule unat_sum_list_bounded [where k = k]) (use assms in auto)
  then show ?thesis by (simp add: spends_total_def comp_def)
qed

lemma spends_total_le:
  "(\<And>ob. ob \<in> set obs \<Longrightarrow> unat (f (ob_spend ob)) \<le> k) \<Longrightarrow> spends_total f obs \<le> length obs * k"
  unfolding spends_total_def by (rule sum_list_le_mult)

lemma completed_accounting:
  assumes c: "verify_completed ext r plan a = Inr ()" and n: "length (wp_targets plan) \<le> 32"
    and per: "unat (bnd_per_target_deadline_ms (wp_bounds plan)) \<le> 60000"
  shows "unat (sp_dns_attempts a) = spends_total sp_dns_attempts (rc_tls_observations r)"
    "unat (sp_connection_attempts a) = spends_total sp_connection_attempts (rc_tls_observations r)"
    "unat (sp_handshakes_attempted a) = spends_total sp_handshakes_attempted (rc_tls_observations r)"
    "unat (sp_handshakes_completed a) = spends_total sp_handshakes_completed (rc_tls_observations r)"
    "unat (sp_bound_checks a) = spends_total sp_bound_checks (rc_tls_observations r)"
    "unat (sp_work_units a) = spends_total sp_work_units (rc_tls_observations r)"
    "spends_total sp_wall_ms (rc_tls_observations r) \<le> unat (sp_wall_ms a)"
    "unat (sp_work_units a) \<le> 4 * length (wp_targets plan)"
proof -
  let ?obs = "rc_tls_observations r"
  from c have len: "length ?obs \<le> 32" using n by (simp add: verify_completed_ok)
  have ok: "\<not> target_spend_exceeds (wp_bounds plan) (ob_spend ob)" if "ob \<in> set ?obs" for ob
    using c that by (auto simp: verify_completed_ok observation_ok_def)
  note b = spend_not_exceeded [OF ok]
  have wall: "unat (sp_wall_ms (ob_spend ob)) \<le> 60000" if "ob \<in> set ?obs" for ob
    using b(7) [OF that] per by simp
  from c have s: "\<not> sum_differs (foldl spend_add spend_default (map ob_spend ?obs)) a"
    by (simp add: verify_completed_ok)
  note eq = s [unfolded sum_differs_def foldl_spend_add spend_default_def, simplified]
  show "unat (sp_dns_attempts a) = spends_total sp_dns_attempts ?obs"
    using eq spends_total_exact [of ?obs sp_dns_attempts 1] b(1) len by simp
  show "unat (sp_connection_attempts a) = spends_total sp_connection_attempts ?obs"
    using eq spends_total_exact [of ?obs sp_connection_attempts 1] b(2) len by simp
  show "unat (sp_handshakes_attempted a) = spends_total sp_handshakes_attempted ?obs"
    using eq spends_total_exact [of ?obs sp_handshakes_attempted 1] b(3) len by simp
  show "unat (sp_handshakes_completed a) = spends_total sp_handshakes_completed ?obs"
    using eq spends_total_exact [of ?obs sp_handshakes_completed 1] b(4) len by simp
  show "unat (sp_bound_checks a) = spends_total sp_bound_checks ?obs"
    using eq spends_total_exact [of ?obs sp_bound_checks 1] b(5) len by simp
  show w: "unat (sp_work_units a) = spends_total sp_work_units ?obs"
    using eq spends_total_exact [of ?obs sp_work_units 4] b(6) len by simp
  show "spends_total sp_wall_ms ?obs \<le> unat (sp_wall_ms a)"
    using eq spends_total_exact [of ?obs sp_wall_ms 60000] wall len
    by (simp add: not_less word_le_nat_alt)
  show "unat (sp_work_units a) \<le> 4 * length (wp_targets plan)"
    using w spends_total_le [of ?obs sp_work_units 4] b(6) c by (simp add: verify_completed_ok)
qed

lemma verified_plan_limits:
  assumes "InquiryWitnessPlanV0_verify_envelope ext plan = Inr ()" "length (wp_targets plan) < 2 ^ 32"
  shows "length (wp_targets plan) \<le> 32" "unat (bnd_per_target_deadline_ms (wp_bounds plan)) \<le> 60000"
    "distinct (wp_targets plan)"
proof -
  from assms(1) have m: "bnd_max_targets (wp_bounds plan) \<le> 32"
    and di: "distinct (map target_id (wp_targets plan))"
    and b: "\<not> bounds_violate (wp_bounds plan) (len_u32 (wp_targets plan))"
    by (simp_all add: verify_envelope_ok)
  have l: "unat (len_u32 (wp_targets plan)) = length (wp_targets plan)"
    using assms(2) by (simp add: len_u32_def unat_of_nat take_bit_nat_eq_self)
  note bb = b [unfolded bounds_violate_iff [OF m]]
  then have "len_u32 (wp_targets plan) \<le> 32" using m by auto
  then show "length (wp_targets plan) \<le> 32" using l by (simp add: word_le_nat_alt)
  from bb show "unat (bnd_per_target_deadline_ms (wp_bounds plan)) \<le> 60000"
    by (simp add: word_le_nat_alt)
  from di show "distinct (wp_targets plan)" by (simp add: distinct_map)
qed

section \<open>Serialised receipts\<close>

lemma json_opt_inject:
  "inj f \<Longrightarrow> (\<And>x. f x \<noteq> JNull) \<Longrightarrow> json_opt f a = json_opt f b \<longleftrightarrow> a = b"
  by (cases a; cases b) (auto simp: inj_eq, metis)

lemma json_opt_str [simp]: "json_opt JStr a = json_opt JStr b \<longleftrightarrow> a = b"
  by (cases a; cases b) auto

lemma json_opt_int [simp]: "json_opt JInt a = json_opt JInt b \<longleftrightarrow> a = b"
  by (cases a; cases b) auto

lemma json_opt_f64 [simp]: "json_opt JF64 a = json_opt JF64 b \<longleftrightarrow> a = b"
  by (cases a; cases b) auto

lemma status_str_inject [simp]: "InquiryStatusV0_as_str a = InquiryStatusV0_as_str b \<longleftrightarrow> a = b"
  by (cases a; cases b) simp_all

lemma disposition_str_inject [simp]: "InquiryDisposition_as_str a = InquiryDisposition_as_str b \<longleftrightarrow> a = b"
  by (cases a; cases b) simp_all

lemma outcome_str_inject [simp]: "InquiryTlsOutcomeV0_str a = InquiryTlsOutcomeV0_str b \<longleftrightarrow> a = b"
  by (cases a; cases b) simp_all

lemma validation_result_json_inject [simp]: "validation_result_json a = validation_result_json b \<longleftrightarrow> a = b"
  by (cases a; cases b) simp_all

lemma inj_spend_json [simp]: "inj spend_json"
  by (simp add: inj_def)

lemma inj_finding_state_json [simp]: "inj finding_state_json"
proof (rule injI)
  fix x y assume "finding_state_json x = finding_state_json y"
  then show "x = y" by (cases x; cases y) (simp add: finding_state_json_def)
qed

lemma inj_evidence_json [simp]: "inj evidence_json"
proof (rule injI)
  fix x y assume "evidence_json x = evidence_json y"
  then show "x = y" by (cases x; cases y) (simp add: evidence_json_def)
qed

lemma coverage_json_inject [simp]: "coverage_json a = coverage_json b \<longleftrightarrow> a = b"
  by (cases a; cases b) (auto simp: coverage_json_def)

lemma inj_witness_plan_json [simp]: "inj witness_plan_json"
proof (rule injI)
  fix x y assume "witness_plan_json x = witness_plan_json y"
  then show "x = y"
    by (cases x; cases y) (simp add: witness_plan_json_def version_eq collector_eq policy_eq)
qed

lemma request_json_inject: "request_json x = request_json y \<longleftrightarrow> x = y"
proof
  assume eq: "request_json x = request_json y"
  have o: "\<exists>fs. RequestDigestMaterial r = JObj fs" for r by (simp add: RequestDigestMaterial_def)
  obtain fx fy where f: "RequestDigestMaterial x = JObj fx" "RequestDigestMaterial y = JObj fy"
    using o by metis
  with eq have "fx = fy" "req_request_digest x = req_request_digest y"
    by (simp_all add: request_json_def)
  with f show "x = y" by (intro request_material_inject) simp_all
qed simp

lemmas observation_lookup = observation_json_def json_eval

lemma inj_observation_json [simp]: "inj observation_json"
proof (rule injI)
  fix x y assume eq: "observation_json x = observation_json y"
  have f: "json_field (observation_json x) n = json_field (observation_json y) n" for n
    using eq by simp
  have last: "map_of (vec_field n g xs) n = (if xs \<noteq> [] then Some (JArr (map g xs)) else None)"
    for n :: string and g :: "InquiryRefusal \<Rightarrow> json" and xs by (simp add: vec_field_def)
  from f [of "''acquired_at''"] have "ob_acquired_at x = ob_acquired_at y"
    by (simp add: observation_lookup cong: option.case_cong del: map_of_append)
  moreover from f [of "''target''"] have "ob_target x = ob_target y"
    by (simp add: observation_lookup cong: option.case_cong del: map_of_append)
  moreover from f [of "''observed_ip''"] have "ob_observed_ip x = ob_observed_ip y"
    by (simp add: observation_lookup cong: option.case_cong del: map_of_append)
  moreover from f [of "''certificate_digest''"] have "ob_certificate_digest x = ob_certificate_digest y"
    by (simp add: observation_lookup cong: option.case_cong del: map_of_append)
  moreover from f [of "''chain_digest''"] have "ob_chain_digest x = ob_chain_digest y"
    by (simp add: observation_lookup cong: option.case_cong del: map_of_append)
  moreover from f [of "''chain_fingerprints''"] have "ob_chain_fingerprints x = ob_chain_fingerprints y"
    by (simp add: observation_lookup cong: option.case_cong del: map_of_append)
  moreover from f [of "''not_before''"] have "ob_not_before x = ob_not_before y"
    by (simp add: observation_lookup cong: option.case_cong del: map_of_append)
  moreover from f [of "''not_after''"] have "ob_not_after x = ob_not_after y"
    by (simp add: observation_lookup cong: option.case_cong del: map_of_append)
  moreover from f [of "''validation_result''"] have "ob_validation_result x = ob_validation_result y"
    by (simp add: observation_lookup cong: option.case_cong del: map_of_append)
  moreover from f [of "''outcome''"] have "ob_outcome x = ob_outcome y"
    by (simp add: observation_lookup cong: option.case_cong del: map_of_append)
  moreover from f [of "''spend''"] have "ob_spend x = ob_spend y"
    by (simp add: observation_lookup cong: option.case_cong del: map_of_append)
  moreover from f [of "''refusals''"] have "ob_refusals x = ob_refusals y"
    by (simp add: observation_lookup cong: option.case_cong del: map_of_append split: if_splits)
  ultimately show "x = y" by (cases x; cases y) simp
qed

lemmas receipt_lookup = receipt_json_def json_eval

lemma finding_state_json_opt [simp]: "json_opt finding_state_json a = json_opt finding_state_json b \<longleftrightarrow> a = b"
  by (rule json_opt_inject) (simp_all add: finding_state_json_def)

lemma receipt_json_binds:
  assumes "receipt_json (x\<lparr>rc_receipt_digest := None\<rparr>) = receipt_json (y\<lparr>rc_receipt_digest := None\<rparr>)"
  shows "x = y\<lparr>rc_source_snapshot := rc_source_snapshot x, rc_receipt_digest := rc_receipt_digest x\<rparr>"
    and "json_opt snapshot_json (rc_source_snapshot x) = json_opt snapshot_json (rc_source_snapshot y)"
proof -
  have f: "json_field (receipt_json (x\<lparr>rc_receipt_digest := None\<rparr>)) n
      = json_field (receipt_json (y\<lparr>rc_receipt_digest := None\<rparr>)) n" for n
    using assms by simp
  from f [of "''source_snapshot''"]
  show "json_opt snapshot_json (rc_source_snapshot x) = json_opt snapshot_json (rc_source_snapshot y)"
    by (simp add: receipt_lookup cong: option.case_cong del: map_of_append)
  from f [of "''schema''"] have "rc_schema x = rc_schema y"
    by (simp add: receipt_lookup cong: option.case_cong del: map_of_append)
  moreover from f [of "''status''"] have "rc_status x = rc_status y"
    by (simp add: receipt_lookup cong: option.case_cong del: map_of_append)
  moreover from f [of "''disposition''"] have "rc_disposition x = rc_disposition y"
    by (simp add: receipt_lookup cong: option.case_cong del: map_of_append)
  moreover from f [of "''request''"] have "rc_request x = rc_request y"
    by (simp add: receipt_lookup request_json_inject cong: option.case_cong del: map_of_append)
  moreover from f [of "''finding_state''"] have "rc_finding_state x = rc_finding_state y"
    by (simp add: receipt_lookup cong: option.case_cong del: map_of_append)
  moreover from f [of "''evidence_receipts''"] have "rc_evidence_receipts x = rc_evidence_receipts y"
    by (simp add: receipt_lookup cong: option.case_cong del: map_of_append)
  moreover from f [of "''evidence_coverage''"] have "rc_evidence_coverage x = rc_evidence_coverage y"
    by (simp add: receipt_lookup cong: option.case_cong del: map_of_append)
  moreover from f [of "''witness_plan''"] have "rc_witness_plan x = rc_witness_plan y"
    by (simp add: receipt_lookup cong: option.case_cong del: map_of_append)
  moreover from f [of "''tls_observations''"] have "rc_tls_observations x = rc_tls_observations y"
    by (simp add: receipt_lookup cong: option.case_cong del: map_of_append split: if_splits)
  moreover from f [of "''acquisition''"] have "rc_acquisition x = rc_acquisition y"
    by (simp add: receipt_lookup cong: option.case_cong del: map_of_append)
  moreover from f [of "''grant_digest''"] have "rc_grant_digest x = rc_grant_digest y"
    by (simp add: receipt_lookup cong: option.case_cong del: map_of_append)
  moreover from f [of "''authorized_acquisition_envelope''"] have "rc_authorized_acquisition_envelope x = rc_authorized_acquisition_envelope y"
    by (simp add: receipt_lookup cong: option.case_cong del: map_of_append)
  moreover from f [of "''observed_acquisition_spend''"] have "rc_observed_acquisition_spend x = rc_observed_acquisition_spend y"
    by (simp add: receipt_lookup cong: option.case_cong del: map_of_append)
  moreover from f [of "''coverage''"] have "rc_coverage x = rc_coverage y"
    by (simp add: receipt_lookup cong: option.case_cong del: map_of_append)
  moreover from f [of "''cannot_testify''"] have "rc_cannot_testify x = rc_cannot_testify y"
    by (simp add: receipt_lookup cong: option.case_cong del: map_of_append)
  moreover from f [of "''acquisition_spend''"] have "rc_acquisition_spend x = rc_acquisition_spend y"
    by (simp add: receipt_lookup cong: option.case_cong del: map_of_append)
  ultimately show "x = y\<lparr>rc_source_snapshot := rc_source_snapshot x, rc_receipt_digest := rc_receipt_digest x\<rparr>"
    by (cases x; cases y) (simp add: version_eq)
qed

section \<open>A concrete receipt\<close>

definition demo_refusal :: InquiryRefusal where
  "demo_refusal = InquiryRefusal AcquisitionBoundCannotBeHonored ''halted''"

definition demo_observation :: "InquiryTlsTargetV0 \<Rightarrow> InquiryTlsObservationV0" where
  "demo_observation t =
     \<lparr>ob_acquired_at = ''2026Z'', ob_target = t, ob_observed_ip = None, ob_certificate_digest = None,
      ob_chain_digest = None, ob_chain_fingerprints = [], ob_not_before = None, ob_not_after = None,
      ob_validation_result = NotAttempted, ob_outcome = AcquisitionBoundRefused,
      ob_spend = spend_default\<lparr>sp_bound_checks := 1, sp_work_units := 1\<rparr>,
      ob_refusals = [demo_refusal]\<rparr>"

definition empty_coverage :: InquiryEvidenceCoverageV0 where
  "empty_coverage =
     \<lparr>cov_matched_current_rows = 0, cov_matched_receipt_rows = 0, cov_receipt_limit = 0,
      cov_receipt_tail_truncated = False, cov_newest_receipt_generation = None,
      cov_oldest_receipt_generation = None\<rparr>"

definition demo_receipt :: "AdmittedInquiryRequestV0 \<Rightarrow> InquiryWitnessPlanV0 \<Rightarrow> InquiryReceiptV0" where
  "demo_receipt r w =
     \<lparr>rc_schema = INQUIRY_RECEIPT_SCHEMA_V0, rc_version = V0, rc_status = Refused,
      rc_disposition = PerTargetOutcomes, rc_request = r, rc_source_snapshot = None,
      rc_finding_state = None, rc_evidence_receipts = [], rc_evidence_coverage = empty_coverage,
      rc_witness_plan = Some w,
      rc_tls_observations = [demo_observation (demo_target ''b''), demo_observation (demo_target ''a'')],
      rc_acquisition = Some (spend_default\<lparr>sp_bound_checks := 2, sp_work_units := 2\<rparr>),
      rc_grant_digest = None, rc_authorized_acquisition_envelope = None,
      rc_observed_acquisition_spend = None, rc_coverage = [''c''],
      rc_cannot_testify = [InquiryRefusal ConsequenceAuthority ''none'', demo_refusal],
      rc_acquisition_spend = 2, rc_receipt_digest = None\<rparr>"

lemma demo_targets_admitted:
  assumes "admit demo_ext demo_plan demo_resolved = Inr r"
  shows "req_admitted_targets r = [demo_target ''a'', demo_target ''b'']"
proof -
  from assms obtain tls where t: "sorted (req_admitted_targets r)"
      "distinct (map target_id (req_admitted_targets r))"
    by (rule admitted_tls_request) (auto simp: demo_request_tls [OF assms])
  have "plan_targets demo_plan \<noteq> []" by (simp add: demo_plan_def)
  then have "set (req_admitted_targets r) = set (plan_targets demo_plan)"
    using assms demo_request_tls [OF assms] by (auto simp: admit_ok admit_targets_ok)
  then have "set (req_admitted_targets r) = {demo_target ''a'', demo_target ''b''}"
    by (auto simp: demo_plan_def)
  moreover have "sorted [demo_target ''a'', demo_target ''b'']"
    by (simp add: demo_target_def less_eq_InquiryTlsTargetV0 InquiryTlsTargetV0_key_def)
  moreover have "distinct [demo_target ''a'', demo_target ''b'']" by (simp add: demo_target_def)
  ultimately show ?thesis
    using t by (intro sorted_distinct_set_unique) (auto simp: distinct_map)
qed

lemma demo_normal_receipt:
  "normalize_receipt (demo_receipt r w) =
     (demo_receipt r w)\<lparr>rc_tls_observations :=
        [demo_observation (demo_target ''a''), demo_observation (demo_target ''b'')],
      rc_cannot_testify := [InquiryRefusal ConsequenceAuthority ''none'', demo_refusal]\<rparr>"
  by (simp add: normalize_receipt_def demo_receipt_def demo_observation_def demo_refusal_def demo_target_def
      less_eq_InquiryTlsTargetV0 InquiryTlsTargetV0_key_def
      less_eq_InquiryRefusal InquiryRefusal_key_def less_refusal_kind less_eq_refusal_kind)

lemma demo_observation_ok:
  assumes "t \<in> set (wp_targets w)" "demo_refusal \<in> set cannot"
  shows "observation_ok demo_ext w cannot (demo_observation t)"
  using assms
  by (auto simp: observation_ok_def demo_observation_def demo_ext_def verify_shape_def checks_ok refuse_if_ok
      shape_is_valid_def has_refusal_def target_spend_exceeds_def counted_work_units_def spend_default_def)
    (simp add: demo_refusal_def)

lemma demo_seals:
  assumes a: "admit demo_ext demo_plan demo_resolved = Inr r"
    and w: "InquiryWitnessPlanV0_verify_envelope demo_ext w = Inr ()"
      "wp_targets w = req_admitted_targets r" "wp_request_digest w = req_request_digest r"
  shows "\<exists>s. seal demo_ext (demo_receipt r w) = Inr s"
proof -
  let ?a = "spend_default\<lparr>sp_bound_checks := 2, sp_work_units := 2\<rparr>"
  let ?n = "normalize_receipt (demo_receipt r w)"
  have ts: "wp_targets w = [demo_target ''a'', demo_target ''b'']"
    by (simp add: w(2) demo_targets_admitted [OF a])
  have len: "length (wp_targets w) < 2 ^ 32" by (simp add: ts)
  have m: "bnd_max_targets (wp_bounds w) \<le> 32"
    and b: "\<not> bounds_violate (wp_bounds w) (len_u32 (wp_targets w))"
    using w(1) by (simp_all add: verify_envelope_ok)
  have l: "len_u32 (wp_targets w) = 2" by (simp add: ts len_u32_def)
  note bb = b [unfolded bounds_violate_iff [OF m] l]
  have wu: "work_units_of 2 = 8" by (simp add: work_units_of_def)
  have "verify_completed demo_ext ?n w ?a = Inr ()"
    unfolding verify_completed_ok
  proof (intro conjI)
    show "\<not> acquisition_exceeds (wp_bounds w) ?a"
      using bb by (simp add: acquisition_exceeds_def spend_default_def wu)
    show "\<forall>ob \<in> set (rc_tls_observations ?n). observation_ok demo_ext w (rc_cannot_testify ?n) ob"
      by (simp add: demo_normal_receipt demo_observation_ok ts)
    show "\<not> sum_differs (foldl spend_add spend_default (map ob_spend (rc_tls_observations ?n))) ?a"
      by (simp add: demo_normal_receipt demo_observation_def sum_differs_def spend_add_def spend_default_def)
    show "distinct (map ob_target (rc_tls_observations ?n))"
      by (simp add: demo_normal_receipt demo_observation_def demo_target_def)
    show "(rc_status ?n = Refused) = (\<exists>ob \<in> set (rc_tls_observations ?n). outcome_refuses (ob_outcome ob))"
      by (simp add: demo_normal_receipt) (simp add: demo_receipt_def demo_observation_def outcome_refuses_def)
  qed (simp_all add: demo_receipt_def ts counted_work_units_def spend_default_def verify_grant_binding_ok)
  moreover have "req_selector r = None" "req_requested_targets r = req_admitted_targets r"
    using a demo_request_tls [OF a] by (auto simp: admit_ok admit_targets_ok)
  moreover have "\<exists>x \<in> set (rc_cannot_testify ?n). rfl_kind x = ConsequenceAuthority"
    by (simp add: demo_normal_receipt)
  ultimately have "verify_tls_envelope demo_ext ?n = Inr ()"
    unfolding verify_tls_envelope_ok tls_envelope_shape_ok
    using w by (auto simp: demo_receipt_def empty_coverage_def)
  then have "verify_question_envelope demo_ext ?n = Inr ()"
    using demo_request_tls [OF a] by (simp add: verify_question_envelope_def demo_receipt_def)
  moreover obtain d where "compute_receipt_digest demo_ext ?n = Inr d"
    using digest_jcs_total [OF demo_ext_total] by (auto simp: compute_receipt_digest_def)
  ultimately have "seal demo_ext (demo_receipt r w) = Inr (?n\<lparr>rc_receipt_digest := Some d\<rparr>)"
    unfolding seal_ok using admit_verifies [OF a] by (simp add: demo_receipt_def)
  then show ?thesis by blast
qed

lemma demo_sealed:
  "\<exists>r w s. seal demo_ext (demo_receipt r w) = Inr s
     \<and> req_question_kind r = TlsCertificatePresentationAndExpiryHorizon"
proof -
  obtain r where r: "admit demo_ext demo_plan demo_resolved = Inr r" using demo_admits by blast
  obtain w where "InquiryWitnessPlanV0_verify_envelope demo_ext w = Inr ()"
    "wp_targets w = req_admitted_targets r" "wp_request_digest w = req_request_digest r"
    using witness_plan_for [OF r demo_ext_total demo_request_tls [OF r]] by blast
  from demo_seals [OF r this] demo_request_tls [OF r] show ?thesis by blast
qed

text \<open>The same inquiry refused before acquisition, for want of a grant.\<close>

definition demo_refused :: "AdmittedInquiryRequestV0 \<Rightarrow> InquiryWitnessPlanV0 \<Rightarrow> InquiryReceiptV0" where
  "demo_refused r w =
     (demo_receipt r w)\<lparr>rc_disposition := CannotTestify, rc_tls_observations := [],
       rc_acquisition := Some spend_default, rc_acquisition_spend := 0,
       rc_cannot_testify := [InquiryRefusal ConsequenceAuthority ''none'', InquiryRefusal GrantRequired ''none'']\<rparr>"

lemma demo_refused_seals:
  assumes a: "admit demo_ext demo_plan demo_resolved = Inr r"
    and w: "InquiryWitnessPlanV0_verify_envelope demo_ext w = Inr ()"
      "wp_targets w = req_admitted_targets r" "wp_request_digest w = req_request_digest r"
  shows "\<exists>s. seal demo_ext (demo_refused r w) = Inr s"
proof -
  let ?n = "normalize_receipt (demo_refused r w)"
  have "req_selector r = None" "req_requested_targets r = req_admitted_targets r"
    using a demo_request_tls [OF a] by (auto simp: admit_ok admit_targets_ok)
  moreover have "verify_pre_acquisition_grant_refusal ?n spend_default = Inr ()"
    by (simp add: verify_pre_acquisition_ok verify_grant_binding_ok) (simp add: demo_refused_def demo_receipt_def)
  ultimately have "verify_tls_envelope demo_ext ?n = Inr ()"
    unfolding verify_tls_envelope_ok tls_envelope_shape_ok
    using w by (auto simp: demo_refused_def demo_receipt_def empty_coverage_def)
  then have "verify_question_envelope demo_ext ?n = Inr ()"
    using demo_request_tls [OF a] by (simp add: verify_question_envelope_def demo_refused_def demo_receipt_def)
  moreover obtain d where "compute_receipt_digest demo_ext ?n = Inr d"
    using digest_jcs_total [OF demo_ext_total] by (auto simp: compute_receipt_digest_def)
  ultimately have "seal demo_ext (demo_refused r w) = Inr (?n\<lparr>rc_receipt_digest := Some d\<rparr>)"
    unfolding seal_ok using admit_verifies [OF a] by (simp add: demo_refused_def demo_receipt_def)
  then show ?thesis by blast
qed

section \<open>Properties\<close>

text \<open>
  Sealing is a normal form. A sealed receipt carries the digest of its own testimony,
  its coverage, refusals and observations are in canonical order without repeated refusals,
  and sealing it again changes nothing.
\<close>

lemma seal_is_stable:
  assumes "seal ext r = Inr s"
  shows "seal ext s = Inr s \<and> compute_receipt_digest ext s = Inr (the (rc_receipt_digest s))
    \<and> rc_receipt_digest s \<noteq> None \<and> sorted (rc_coverage s)
    \<and> sorted (rc_cannot_testify s) \<and> distinct (rc_cannot_testify s)
    \<and> sorted (map ob_target (rc_tls_observations s))"
proof -
  from assms obtain d where s: "s = (normalize_receipt r)\<lparr>rc_receipt_digest := Some d\<rparr>"
    by (auto simp: seal_ok)
  have "sorted (rc_coverage s)" "sorted (map ob_target (rc_tls_observations s))"
    by (simp_all add: s normalize_receipt_def)
  moreover have "sorted (rc_cannot_testify s) \<and> distinct (rc_cannot_testify s)"
    using sorted_distinct_remdups_adj_sort [of "rc_cannot_testify r"]
    by (simp add: s normalize_receipt_def)
  ultimately show ?thesis
    using seal_idem [OF assms] sealed_envelope(3,4) [OF assms] by blast
qed

text \<open>
  C16: the books of a completed TLS receipt balance. If a receipt with per-target outcomes is
  sealed (and has fewer than 2^32 targets, the width of the counters), there is exactly one
  observation per planned target, every aggregate counter is the exact sum of the targets'
  counters (nothing wraps), the reported spend is the sum of the four kinds of attempt and at
  most four units per target, the serial wall times fit the total, the status is refused
  exactly when some outcome is a refusal, and a bound grant's envelope covers the spend in
  every counter.
\<close>

theorem completed_receipt_balances:
  assumes "seal ext r = Inr s"
    and "req_question_kind (rc_request s) = TlsCertificatePresentationAndExpiryHorizon"
    and "rc_disposition s = PerTargetOutcomes" "length (req_admitted_targets (rc_request s)) < 2 ^ 32"
  shows "\<exists>plan a. rc_witness_plan s = Some plan \<and> rc_acquisition s = Some a
    \<and> set (map ob_target (rc_tls_observations s)) = set (wp_targets plan)
    \<and> distinct (map ob_target (rc_tls_observations s))
    \<and> unat (sp_dns_attempts a) = spends_total sp_dns_attempts (rc_tls_observations s)
    \<and> unat (sp_connection_attempts a) = spends_total sp_connection_attempts (rc_tls_observations s)
    \<and> unat (sp_handshakes_attempted a) = spends_total sp_handshakes_attempted (rc_tls_observations s)
    \<and> unat (sp_handshakes_completed a) = spends_total sp_handshakes_completed (rc_tls_observations s)
    \<and> unat (sp_bound_checks a) = spends_total sp_bound_checks (rc_tls_observations s)
    \<and> spends_total sp_wall_ms (rc_tls_observations s) \<le> unat (sp_wall_ms a)
    \<and> unat (sp_wall_ms a) \<le> unat (bnd_total_deadline_ms (wp_bounds plan))
    \<and> unat (rc_acquisition_spend s) = unat (sp_dns_attempts a) + unat (sp_connection_attempts a)
        + unat (sp_handshakes_attempted a) + unat (sp_bound_checks a)
    \<and> unat (rc_acquisition_spend s) \<in> {1..4 * length (wp_targets plan)}
    \<and> (rc_status s = Refused \<longleftrightarrow> (\<exists>ob \<in> set (rc_tls_observations s). outcome_refuses (ob_outcome ob)))
    \<and> (rc_grant_digest s \<noteq> None \<longrightarrow>
         (\<exists>au. rc_authorized_acquisition_envelope s = Some au
            \<and> rc_observed_acquisition_spend s = Some a \<and> spend_le a au))"
proof -
  from sealed_envelope(1) [OF assms(1)] assms(2) have "verify_tls_envelope ext s = Inr ()"
    by (simp add: verify_question_envelope_def)
  then obtain plan a where p: "rc_witness_plan s = Some plan" "rc_acquisition s = Some a"
      "InquiryWitnessPlanV0_verify_envelope ext plan = Inr ()"
      "wp_targets plan = req_admitted_targets (rc_request s)"
    and c: "verify_completed ext s plan a = Inr ()"
    using assms(3) by (auto simp: verify_tls_envelope_ok tls_envelope_shape_ok)
  note lim = verified_plan_limits [OF p(3)]
  have l: "length (wp_targets plan) < 2 ^ 32" using assms(4) p(4) by simp
  note acc = completed_accounting [OF c lim(1) [OF l] lim(2) [OF l]]
  note cc = c [unfolded verify_completed_ok]
  have sub: "set (map ob_target (rc_tls_observations s)) \<subseteq> set (wp_targets plan)"
    using cc by (auto simp: observation_ok_def)
  moreover have "card (set (map ob_target (rc_tls_observations s))) = card (set (wp_targets plan))"
    using cc lim(3) [OF l] by (simp only: distinct_card length_map)
  ultimately have set: "set (map ob_target (rc_tls_observations s)) = set (wp_targets plan)"
    by (simp add: card_subset_eq)
  have wall: "unat (sp_wall_ms a) \<le> unat (bnd_total_deadline_ms (wp_bounds plan))"
    using cc by (auto simp: acquisition_exceeds_def not_less word_le_nat_alt)
  have spend: "unat (rc_acquisition_spend s) = unat (sp_dns_attempts a) + unat (sp_connection_attempts a)
      + unat (sp_handshakes_attempted a) + unat (sp_bound_checks a)"
    using cc counted_work_units_unat [of a] by simp
  have units: "unat (rc_acquisition_spend s) = unat (sp_work_units a)" "sp_work_units a \<noteq> 0"
    using cc by auto
  then have "unat (rc_acquisition_spend s) \<in> {1..4 * length (wp_targets plan)}"
    using acc(8) by (simp add: unat_gt_0 Suc_le_eq)
  moreover have "rc_grant_digest s \<noteq> None \<longrightarrow>
         (\<exists>au. rc_authorized_acquisition_envelope s = Some au
            \<and> rc_observed_acquisition_spend s = Some a \<and> spend_le a au)"
    using cc by (auto simp: verify_grant_binding_ok)
  ultimately show ?thesis
    using p(1,2) set cc acc(1-5,7) wall spend by (intro exI [of _ plan] exI [of _ a] conjI) simp_all
qed

theorem completed_receipt_balances_witness:
  "\<exists>r w s. seal demo_ext (demo_receipt r w) = Inr s \<and> unat (rc_acquisition_spend s) = 2
     \<and> (\<exists>plan. rc_witness_plan s = Some plan \<and> 2 \<le> 4 * length (wp_targets plan))"
proof -
  obtain r where r: "admit demo_ext demo_plan demo_resolved = Inr r" using demo_admits by blast
  obtain w where "InquiryWitnessPlanV0_verify_envelope demo_ext w = Inr ()"
    "wp_targets w = req_admitted_targets r" "wp_request_digest w = req_request_digest r"
    using witness_plan_for [OF r demo_ext_total demo_request_tls [OF r]] by blast
  from demo_seals [OF r this] obtain s where s: "seal demo_ext (demo_receipt r w) = Inr s" by blast
  then have f: "rc_request s = r" "rc_disposition s = PerTargetOutcomes" "rc_acquisition_spend s = 2"
    by (auto simp: seal_ok demo_receipt_def)
  have "length (req_admitted_targets (rc_request s)) < 2 ^ 32"
    using f demo_targets_admitted [OF r] by simp
  with completed_receipt_balances [OF s] f demo_request_tls [OF r] s show ?thesis by fastforce
qed

text \<open>
  A sealed receipt that is not a completed TLS survey carries no acquisition: a report,
  or a TLS inquiry refused before acquisition, reports zero spend and no observation, and a
  refusal for a missing or malformed grant names no grant.
\<close>

theorem no_survey_no_spend:
  assumes "seal ext r = Inr s" "rc_disposition s \<noteq> PerTargetOutcomes"
  shows "rc_acquisition_spend s = 0 \<and> rc_tls_observations s = []
    \<and> (\<forall>a. rc_acquisition s = Some a \<longrightarrow> a = spend_default)
    \<and> ((\<exists>x \<in> set (rc_cannot_testify s). rfl_kind x = GrantRequired \<or> rfl_kind x = GrantMalformed) \<longrightarrow>
         rc_grant_digest s = None)"
  using sealed_envelope(1) [OF assms(1)] assms(2)
  by (cases "req_question_kind (rc_request s)")
    (auto simp: verify_question_envelope_def verify_report_envelope_ok verify_tls_envelope_ok
      tls_envelope_shape_ok verify_pre_acquisition_ok)

theorem no_survey_no_spend_witness:
  "\<exists>r w s. seal demo_ext (demo_refused r w) = Inr s \<and> rc_acquisition_spend s = 0
     \<and> rc_grant_digest s = None"
proof -
  obtain r where r: "admit demo_ext demo_plan demo_resolved = Inr r" using demo_admits by blast
  obtain w where "InquiryWitnessPlanV0_verify_envelope demo_ext w = Inr ()"
    "wp_targets w = req_admitted_targets r" "wp_request_digest w = req_request_digest r"
    using witness_plan_for [OF r demo_ext_total demo_request_tls [OF r]] by blast
  from demo_refused_seals [OF r this] obtain s where s: "seal demo_ext (demo_refused r w) = Inr s" by blast
  then have "rc_disposition s \<noteq> PerTargetOutcomes" "rc_grant_digest s = None"
    by (auto simp: seal_ok demo_refused_def demo_receipt_def)
  with no_survey_no_spend [OF s] s show ?thesis by blast
qed

text \<open>
  C38: a sealed receipt cannot be altered without changing its digest: two sealed receipts
  with the same digest agree in everything but, possibly, the snapshot, and their snapshots
  have the same serialised form, as long as SHA-256 does not collide on the two testimonies.
  (An absent coverage document and an explicit null one serialise alike.)
\<close>

theorem sealed_receipt_tamper_evident:
  assumes "seal ext r = Inr s" "seal ext r' = Inr s'" "rc_receipt_digest s = rc_receipt_digest s'"
    and "no_collision ext (receipt_json (s\<lparr>rc_receipt_digest := None\<rparr>))
           (receipt_json (s'\<lparr>rc_receipt_digest := None\<rparr>))"
  shows "s = s'\<lparr>rc_source_snapshot := rc_source_snapshot s\<rparr>
    \<and> json_opt snapshot_json (rc_source_snapshot s) = json_opt snapshot_json (rc_source_snapshot s')"
proof -
  have "receipt_json (s\<lparr>rc_receipt_digest := None\<rparr>) = receipt_json (s'\<lparr>rc_receipt_digest := None\<rparr>)"
    using sealed_envelope(4) [OF assms(1)] sealed_envelope(4) [OF assms(2)] assms(3,4)
    unfolding compute_receipt_digest_def by (metis no_collisionD)
  note b = receipt_json_binds [OF this]
  from b(1) assms(3) have "s = s'\<lparr>rc_source_snapshot := rc_source_snapshot s, rc_receipt_digest := rc_receipt_digest s'\<rparr>"
    by simp
  also have "\<dots> = s'\<lparr>rc_source_snapshot := rc_source_snapshot s\<rparr>" by simp
  finally show ?thesis using b(2) by simp
qed

theorem sealed_receipt_tamper_evident_witness:
  "\<exists>r w s. seal demo_ext (demo_receipt r w) = Inr s
     \<and> (\<forall>r' s'. seal demo_ext r' = Inr s' \<and> rc_receipt_digest s = rc_receipt_digest s'
          \<and> no_collision demo_ext (receipt_json (s\<lparr>rc_receipt_digest := None\<rparr>))
              (receipt_json (s'\<lparr>rc_receipt_digest := None\<rparr>)) \<longrightarrow> rc_status s = rc_status s')"
proof -
  obtain r w s where s: "seal demo_ext (demo_receipt r w) = Inr s" using demo_sealed by blast
  have "rc_status s = rc_status s'"
    if "seal demo_ext r' = Inr s' \<and> rc_receipt_digest s = rc_receipt_digest s'
          \<and> no_collision demo_ext (receipt_json (s\<lparr>rc_receipt_digest := None\<rparr>))
              (receipt_json (s'\<lparr>rc_receipt_digest := None\<rparr>))" for r' s'
    using sealed_receipt_tamper_evident [OF s, of r' s'] that
    by (metis InquiryReceiptV0.select_convs(3) InquiryReceiptV0.surjective InquiryReceiptV0.update_convs(6))
  with s show ?thesis by blast
qed

end
