(* ===== verification/Inquiry_Escalation.thy ===== *)
theory Inquiry_Escalation
  imports Inquiry_Receipt
begin

text \<open>
  Escalation requests of \<open>crates/nq-core/src/inquiry.rs\<close>: an annotation addressed to the
  outer standing boundary, which cites findings or observations of a sealed receipt and asks
  for a successor envelope. It binds why the envelope is asked for and carries no authority:
  the ratchet does not take it as an argument.
\<close>

definition INQUIRY_ESCALATION_REQUEST_SCHEMA_V0 :: string where
  "INQUIRY_ESCALATION_REQUEST_SCHEMA_V0 = ''nq.inquiry_escalation_request.v0''"

section \<open>Cited observations\<close>

datatype InquiryObservationIdentityV0 =
    EvidenceReceipt int int string
  | TlsObservation InquiryTlsTargetV0 string

fun InquiryObservationIdentityV0_key ::
  "InquiryObservationIdentityV0 \<Rightarrow> nat \<times> (int \<times> int \<times> string) \<times> (InquiryTlsTargetV0 \<times> string)"
where
  "InquiryObservationIdentityV0_key (EvidenceReceipt obs gen key) =
     (0, (obs, gen, key), (InquiryTlsTargetV0 [] [] 0 [], []))"
| "InquiryObservationIdentityV0_key (TlsObservation target acquired_at) =
     (1, (0, 0, []), (target, acquired_at))"

instantiation InquiryObservationIdentityV0 :: linorder
begin

definition less_eq_InquiryObservationIdentityV0:
  "a \<le> b \<longleftrightarrow> InquiryObservationIdentityV0_key a \<le> InquiryObservationIdentityV0_key b"

definition less_InquiryObservationIdentityV0:
  "a < b \<longleftrightarrow> InquiryObservationIdentityV0_key a < InquiryObservationIdentityV0_key b"

instance
proof (rule linorder.intro_of_class, rule linorder_by_key [of InquiryObservationIdentityV0_key])
  fix x y :: InquiryObservationIdentityV0
  assume "InquiryObservationIdentityV0_key x = InquiryObservationIdentityV0_key y"
  then show "x = y" by (cases x; cases y) auto
qed (simp_all add: less_eq_InquiryObservationIdentityV0 less_InquiryObservationIdentityV0)

end

fun observation_identity_json :: "InquiryObservationIdentityV0 \<Rightarrow> json" where
  "observation_identity_json (EvidenceReceipt obs gen key) =
     JObj [(''kind'', JStr ''evidence_receipt''), (''observation_id'', JInt obs),
           (''generation_id'', JInt gen), (''finding_key'', JStr key)]"
| "observation_identity_json (TlsObservation target acquired_at) =
     JObj [(''kind'', JStr ''tls_observation''), (''target'', target_json target),
           (''acquired_at'', JStr acquired_at)]"

fun InquiryObservationIdentityV0_validate ::
  "externals \<Rightarrow> InquiryObservationIdentityV0 \<Rightarrow> string + unit"
where
  "InquiryObservationIdentityV0_validate ext (EvidenceReceipt observation_id generation_id finding_key) =
     checks
      [refuse_if (observation_id \<le> 0 \<or> generation_id \<le> 0)
         ''cited evidence observation ids must be positive'',
       require_nonempty ''candidate.cited_observations[].finding_key'' finding_key]"
| "InquiryObservationIdentityV0_validate ext (TlsObservation target acquired_at) =
     checks
      [InquiryTlsTargetV0_validate ''candidate.cited_observations[].target'' target,
       discard (parse_rfc3339 ext ''candidate.cited_observations[].acquired_at'' acquired_at)]"

section \<open>Candidates\<close>

record EscalationRequestCandidateV0 =
  esc_schema :: string
  esc_version :: InquiryVersionV0
  esc_source_receipt_digest :: string
  esc_cited_findings :: "FindingSelectorV0 fset"
  esc_cited_observations :: "InquiryObservationIdentityV0 fset"
  esc_requested_scope :: "InquiryTlsTargetV0 fset"
  esc_requested_depth :: u32
  esc_requested_acquisition_envelope :: InquiryAcquisitionSpendV0
  esc_requested_witness_classes :: "InquiryCollectorV0 fset"
  esc_escalation_request_digest :: string

definition EscalationRequestDigestMaterial :: "EscalationRequestCandidateV0 \<Rightarrow> json" where
  "EscalationRequestDigestMaterial c =
     JObj [(''schema'', JStr (esc_schema c)), (''version'', version_json (esc_version c)),
           (''source_receipt_digest'', JStr (esc_source_receipt_digest c)),
           (''cited_findings'', json_set selector_json (esc_cited_findings c)),
           (''cited_observations'', json_set observation_identity_json (esc_cited_observations c)),
           (''requested_scope'', json_set target_json (esc_requested_scope c)),
           (''requested_depth'', json_word (esc_requested_depth c)),
           (''requested_acquisition_envelope'', spend_json (esc_requested_acquisition_envelope c)),
           (''requested_witness_classes'', json_set collector_json (esc_requested_witness_classes c))]"

definition compute_escalation_request_digest ::
  "externals \<Rightarrow> EscalationRequestCandidateV0 \<Rightarrow> string + string"
where
  "compute_escalation_request_digest ext c = digest_jcs ext (EscalationRequestDigestMaterial c)"

definition EscalationRequestCandidateV0_validate ::
  "externals \<Rightarrow> EscalationRequestCandidateV0 \<Rightarrow> string + unit"
where
  "EscalationRequestCandidateV0_validate ext c =
     checks
      [refuse_if (esc_schema c \<noteq> INQUIRY_ESCALATION_REQUEST_SCHEMA_V0)
         (''unsupported inquiry escalation request schema '' @ debug_str (esc_schema c)
            @ ''; expected '' @ debug_str INQUIRY_ESCALATION_REQUEST_SCHEMA_V0),
       refuse_if
         (\<not> is_sha256_digest (esc_source_receipt_digest c)
           \<or> \<not> is_sha256_digest (esc_escalation_request_digest c))
         ''inquiry escalation request bindings must be canonical SHA-256 digests'',
       refuse_if (esc_cited_findings c = {||} \<and> esc_cited_observations c = {||})
         ''inquiry escalation request must cite a finding or observation'',
       for_each
         (\<lambda>finding.
           checks
            [require_nonempty ''candidate.cited_findings[].host'' (sel_host finding),
             require_nonempty ''candidate.cited_findings[].kind'' (sel_kind finding)])
         (sorted_list_of_fset (esc_cited_findings c)),
       for_each (InquiryObservationIdentityV0_validate ext)
         (sorted_list_of_fset (esc_cited_observations c)),
       validate_ratchet_scope ''candidate.requested_scope'' (esc_requested_scope c),
       res_bind
         (map_err (\<lambda>e. ''inquiry escalation request digest failed: '' @ e)
           (compute_escalation_request_digest ext c))
         (\<lambda>computed.
           refuse_if (computed \<noteq> esc_escalation_request_digest c)
             (''inquiry escalation request digest mismatch: declared ''
                @ esc_escalation_request_digest c @ '', computed '' @ computed))]"

definition EscalationRequestCandidateV0_bind ::
  "externals \<Rightarrow> InquiryReceiptV0 \<Rightarrow> FindingSelectorV0 fset \<Rightarrow> InquiryObservationIdentityV0 fset \<Rightarrow>
     InquiryTlsTargetV0 fset \<Rightarrow> u32 \<Rightarrow> InquiryAcquisitionSpendV0 \<Rightarrow> InquiryCollectorV0 fset \<Rightarrow>
     string + EscalationRequestCandidateV0"
where
  "EscalationRequestCandidateV0_bind ext source findings observations scope depth envelope classes =
     res_bind
      (refuse_if (rc_schema source \<noteq> INQUIRY_RECEIPT_SCHEMA_V0)
        ''escalation source must be an nq.inquiry_receipt.v0 artifact'') (\<lambda>_.
     res_bind (ok_or ''escalation source receipt must be sealed'' (rc_receipt_digest source))
      (\<lambda>source_receipt_digest.
     res_bind
      (map_err (\<lambda>e. ''source receipt digest failed: '' @ e) (compute_receipt_digest ext source))
      (\<lambda>computed_source_digest.
     res_bind
      (refuse_if (source_receipt_digest \<noteq> computed_source_digest)
        ''escalation source receipt digest does not match its testimony'') (\<lambda>_.
     let candidate =
       \<lparr>esc_schema = INQUIRY_ESCALATION_REQUEST_SCHEMA_V0, esc_version = V0,
        esc_source_receipt_digest = source_receipt_digest, esc_cited_findings = findings,
        esc_cited_observations = observations, esc_requested_scope = scope,
        esc_requested_depth = depth, esc_requested_acquisition_envelope = envelope,
        esc_requested_witness_classes = classes, esc_escalation_request_digest = []\<rparr>
     in
     res_bind
      (map_err (\<lambda>e. ''inquiry escalation request digest failed: '' @ e)
        (compute_escalation_request_digest ext candidate)) (\<lambda>digest.
     let candidate = candidate\<lparr>esc_escalation_request_digest := digest\<rparr> in
     res_bind (EscalationRequestCandidateV0_validate ext candidate) (\<lambda>_. Inr candidate))))))"

section \<open>The candidate is sealed by its digest\<close>

lemma observation_identity_json_inject [simp]:
  "observation_identity_json a = observation_identity_json b \<longleftrightarrow> a = b"
  by (cases a; cases b) auto

lemma inj_observation_identity_json [simp]: "inj observation_identity_json"
  by (simp add: inj_def)

interpretation sealed_escalation: sealed_artifact EscalationRequestDigestMaterial
  esc_escalation_request_digest "\<lambda>d c. c\<lparr>esc_escalation_request_digest := d\<rparr>"
proof
  fix x y :: EscalationRequestCandidateV0
  assume "EscalationRequestDigestMaterial x = EscalationRequestDigestMaterial y"
    "esc_escalation_request_digest x = esc_escalation_request_digest y"
  then show "x = y"
    by (cases x; cases y)
      (simp add: EscalationRequestDigestMaterial_def version_eq inj_collector_json)
qed (simp_all add: EscalationRequestDigestMaterial_def)

lemma escalation_validate_ok:
  "EscalationRequestCandidateV0_validate ext c = Inr () \<longleftrightarrow>
     esc_schema c = INQUIRY_ESCALATION_REQUEST_SCHEMA_V0
     \<and> is_sha256_digest (esc_source_receipt_digest c) \<and> is_sha256_digest (esc_escalation_request_digest c)
     \<and> (esc_cited_findings c \<noteq> {||} \<or> esc_cited_observations c \<noteq> {||})
     \<and> (\<forall>f \<in> fset (esc_cited_findings c). trim (sel_host f) \<noteq> [] \<and> trim (sel_kind f) \<noteq> [])
     \<and> (\<forall>ob \<in> fset (esc_cited_observations c). InquiryObservationIdentityV0_validate ext ob = Inr ())
     \<and> valid_scope (esc_requested_scope c)
     \<and> compute_escalation_request_digest ext c = Inr (esc_escalation_request_digest c)"
  by (auto simp: EscalationRequestCandidateV0_validate_def res_ok)

section \<open>Properties\<close>

text \<open>
  An escalation request is bound to real testimony. A request that \<open>bind\<close> returns is
  valid, cites at least one finding or observation, and names the digest that its source
  receipt both carries and computes to, so an unsealed or altered receipt cannot be a source;
  and it asks for exactly what the caller passed.
\<close>

theorem escalation_is_bound:
  assumes "EscalationRequestCandidateV0_bind ext source findings observations scope depth envelope classes
    = Inr c"
  shows "EscalationRequestCandidateV0_validate ext c = Inr ()
    \<and> rc_receipt_digest source = Some (esc_source_receipt_digest c)
    \<and> compute_receipt_digest ext source = Inr (esc_source_receipt_digest c)
    \<and> (findings \<noteq> {||} \<or> observations \<noteq> {||}) \<and> valid_scope scope
    \<and> esc_requested_scope c = scope \<and> esc_requested_depth c = depth
    \<and> esc_requested_acquisition_envelope c = envelope \<and> esc_requested_witness_classes c = classes"
proof -
  from assms obtain sd d where v: "EscalationRequestCandidateV0_validate ext c = Inr ()"
    and s: "rc_receipt_digest source = Some sd" "compute_receipt_digest ext source = Inr sd"
    and c: "c = \<lparr>esc_schema = INQUIRY_ESCALATION_REQUEST_SCHEMA_V0, esc_version = V0,
        esc_source_receipt_digest = sd, esc_cited_findings = findings,
        esc_cited_observations = observations, esc_requested_scope = scope,
        esc_requested_depth = depth, esc_requested_acquisition_envelope = envelope,
        esc_requested_witness_classes = classes, esc_escalation_request_digest = d\<rparr>"
    unfolding EscalationRequestCandidateV0_bind_def Let_def
    by (auto simp: res_bind_Inr_iff refuse_if_ok ok_or_Inr_iff map_err_Inr_iff)
  from v have "findings \<noteq> {||} \<or> observations \<noteq> {||}" "valid_scope scope"
    by (simp_all add: escalation_validate_ok c)
  with v s c show ?thesis by simp
qed

theorem escalation_is_bound_witness:
  "\<exists>r w s c. seal demo_ext (demo_receipt r w) = Inr s
     \<and> EscalationRequestCandidateV0_bind demo_ext s {|FindingSelectorV0 ''h'' ''k'' ''s''|} {||} {||} 2
          spend_default {||} = Inr c
     \<and> rc_receipt_digest s = Some (esc_source_receipt_digest c)"
proof -
  obtain r w s where s: "seal demo_ext (demo_receipt r w) = Inr s" using demo_sealed by blast
  let ?sd = "the (rc_receipt_digest s)"
  let ?c = "\<lparr>esc_schema = INQUIRY_ESCALATION_REQUEST_SCHEMA_V0, esc_version = V0,
        esc_source_receipt_digest = ?sd, esc_cited_findings = {|FindingSelectorV0 ''h'' ''k'' ''s''|},
        esc_cited_observations = {||}, esc_requested_scope = {||},
        esc_requested_depth = 2, esc_requested_acquisition_envelope = spend_default,
        esc_requested_witness_classes = {||}, esc_escalation_request_digest = []\<rparr>"
  obtain d where d: "compute_escalation_request_digest demo_ext ?c = Inr d"
    using digest_jcs_total [OF demo_ext_total] by (auto simp: compute_escalation_request_digest_def)
  have dp: "compute_escalation_request_digest demo_ext (?c\<lparr>esc_escalation_request_digest := d\<rparr>) = Inr d"
    using sealed_escalation.material_put [of d ?c] d by (simp add: compute_escalation_request_digest_def)
  have sd: "is_sha256_digest ?sd" "is_sha256_digest d"
    using sealed_envelope(4) [OF s] d digest_jcs_shape [OF demo_ext_shape]
    by (auto simp: compute_receipt_digest_def compute_escalation_request_digest_def)
  have "EscalationRequestCandidateV0_validate demo_ext (?c\<lparr>esc_escalation_request_digest := d\<rparr>) = Inr ()"
    unfolding escalation_validate_ok using sd dp by (simp add: valid_scope_def str_eval)
  then have "EscalationRequestCandidateV0_bind demo_ext s {|FindingSelectorV0 ''h'' ''k'' ''s''|} {||} {||} 2
      spend_default {||} = Inr (?c\<lparr>esc_escalation_request_digest := d\<rparr>)"
    using s sealed_envelope(3,4) [OF s] d
    by (auto simp: EscalationRequestCandidateV0_bind_def Let_def seal_ok)
  with s escalation_is_bound show ?thesis by blast
qed

end
