(* ===== verification/Std_Net.thy ===== *)
theory Std_Net
  imports Prelude
begin

text \<open>
  The parts of the Rust standard library that the TLS probe uses: the textual form of IP
  addresses (\<open>core::net\<close>: the parser behind \<open>str::parse::<IpAddr>\<close> and the
  \<open>Display\<close> instances), and the arithmetic of \<open>Instant\<close> and \<open>Duration\<close>
  (\<open>std::time\<close>). A duration is a number of nanoseconds, an instant a number of
  nanoseconds on the monotonic clock whose seconds fit an \<open>i64\<close>.
\<close>

section \<open>IP addresses\<close>

type_synonym u8 = "8 word"

datatype IpAddr = IpV4 nat nat nat nat | IpV6 "nat list"

text \<open>\<open>char::to_digit\<close>\<close>

definition to_digit :: "nat \<Rightarrow> char \<Rightarrow> nat option" where
  "to_digit radix c =
     (let d = (if is_digit c then byte c - 48
               else if is_lower c then byte c - 87
               else if is_upper c then byte c - 55 else radix)
      in if d < radix then Some d else None)"

fun take_digits :: "nat \<Rightarrow> string \<Rightarrow> nat list \<times> string" where
  "take_digits radix [] = ([], [])"
| "take_digits radix (c # s) =
     (case to_digit radix c of
        None \<Rightarrow> ([], c # s)
      | Some d \<Rightarrow> (case take_digits radix s of (ds, rest) \<Rightarrow> (d # ds, rest)))"

text \<open>
  \<open>Parser::read_number\<close>: at least one and at most \<open>max_digits\<close> digits whose value is
  below \<open>bound\<close>, the modulus of the integer type.
\<close>

definition read_number :: "nat \<Rightarrow> nat \<Rightarrow> nat \<Rightarrow> bool \<Rightarrow> string \<Rightarrow> (nat \<times> string) option" where
  "read_number radix max_digits bound allow_zero_prefix s =
     (case take_digits radix s of
        (ds, rest) \<Rightarrow>
          let n = foldl (\<lambda>a d. a * radix + d) 0 ds in
          if ds = [] \<or> length ds > max_digits \<or> n \<ge> bound
            \<or> (\<not> allow_zero_prefix \<and> hd ds = 0 \<and> length ds > 1)
          then None else Some (n, rest))"

fun read_given_char :: "char \<Rightarrow> string \<Rightarrow> string option" where
  "read_given_char c [] = None"
| "read_given_char c (d # s) = (if c = d then Some s else None)"

abbreviation read_octet :: "string \<Rightarrow> (nat \<times> string) option" where
  "read_octet \<equiv> read_number 10 3 256 False"

definition read_dot_octet :: "string \<Rightarrow> (nat \<times> string) option" where
  "read_dot_octet s = Option.bind (read_given_char CHR ''.'' s) read_octet"

definition read_ipv4_addr :: "string \<Rightarrow> ((nat \<times> nat \<times> nat \<times> nat) \<times> string) option" where
  "read_ipv4_addr s =
     Option.bind (read_octet s) (\<lambda>(a, s).
     Option.bind (read_dot_octet s) (\<lambda>(b, s).
     Option.bind (read_dot_octet s) (\<lambda>(c, s).
     Option.bind (read_dot_octet s) (\<lambda>(d, s). Some ((a, b, c, d), s)))))"

definition read_separator :: "bool \<Rightarrow> string \<Rightarrow> string option" where
  "read_separator first s = (if first then Some s else read_given_char CHR '':'' s)"

text \<open>
  \<open>read_groups\<close> on the slots that remain: the groups read, whether the last two are an
  embedded IPv4 address, and the unread input. An embedded address needs two slots.
\<close>

fun read_groups :: "bool \<Rightarrow> nat \<Rightarrow> string \<Rightarrow> nat list \<times> bool \<times> string" where
  "read_groups first 0 s = ([], False, s)"
| "read_groups first (Suc left) s =
     (case (if 0 < left then Option.bind (read_separator first s) read_ipv4_addr else None) of
        Some ((a, b, c, d), rest) \<Rightarrow> ([a * 256 + b, c * 256 + d], True, rest)
      | None \<Rightarrow>
          (case Option.bind (read_separator first s) (read_number 16 4 65536 True) of
             None \<Rightarrow> ([], False, s)
           | Some (g, rest) \<Rightarrow>
               (case read_groups False left rest of (gs, v4, rest') \<Rightarrow> (g # gs, v4, rest'))))"

definition read_ipv6_addr :: "string \<Rightarrow> (nat list \<times> string) option" where
  "read_ipv6_addr s =
     (case read_groups True 8 s of
        (head, v4, s1) \<Rightarrow>
          if length head = 8 then Some (head, s1)
          else if v4 then None
          else Option.bind (read_given_char CHR '':'' s1) (\<lambda>s2.
               Option.bind (read_given_char CHR '':'' s2) (\<lambda>s3.
               case read_groups True (7 - length head) s3 of
                 (tail, _, s4) \<Rightarrow>
                   Some (head @ replicate (8 - length head - length tail) 0 @ tail, s4))))"

definition whole :: "('a \<times> string) option \<Rightarrow> 'a option" where
  "whole r = (case r of Some (v, []) \<Rightarrow> Some v | _ \<Rightarrow> None)"

definition v4_addr :: "nat \<times> nat \<times> nat \<times> nat \<Rightarrow> IpAddr" where
  "v4_addr q = (case q of (a, b, c, d) \<Rightarrow> IpV4 a b c d)"

definition parse_ipv4 :: "string \<Rightarrow> IpAddr option" where
  "parse_ipv4 s = (if length s > 15 then None else map_option v4_addr (whole (read_ipv4_addr s)))"

definition parse_ipv6 :: "string \<Rightarrow> IpAddr option" where
  "parse_ipv6 s = map_option IpV6 (whole (read_ipv6_addr s))"

text \<open>\<open>str::parse::<IpAddr>\<close>: an IPv4 prefix commits the parser to IPv4.\<close>

definition parse_ip :: "string \<Rightarrow> IpAddr option" where
  "parse_ip s =
     (case read_ipv4_addr s of
        Some r \<Rightarrow> map_option v4_addr (whole (Some r))
      | None \<Rightarrow> map_option IpV6 (whole (read_ipv6_addr s)))"

text \<open>\<open>Display\<close>: the longest run of zero groups, the first among equals, is written \<open>::\<close>.\<close>

fun longest_zeros :: "nat \<Rightarrow> nat \<Rightarrow> nat \<Rightarrow> nat \<Rightarrow> nat \<Rightarrow> nat list \<Rightarrow> nat \<times> nat" where
  "longest_zeros i cs cl ls ll [] = (ls, ll)"
| "longest_zeros i cs cl ls ll (g # gs) =
     (if g = 0
      then let cs' = (if cl = 0 then i else cs); cl' = cl + 1 in
        (if cl' > ll then longest_zeros (i + 1) cs' cl' cs' cl' gs
         else longest_zeros (i + 1) cs' cl' ls ll gs)
      else longest_zeros (i + 1) 0 0 ls ll gs)"

definition show_groups :: "nat list \<Rightarrow> string" where
  "show_groups gs = join_with '':'' (map show_hex gs)"

definition show_v4 :: "nat \<Rightarrow> nat \<Rightarrow> nat \<Rightarrow> nat \<Rightarrow> string" where
  "show_v4 a b c d = join_with ''.'' (map show_nat [a, b, c, d])"

fun show_ip :: "IpAddr \<Rightarrow> string" where
  "show_ip (IpV4 a b c d) = show_v4 a b c d"
| "show_ip (IpV6 gs) =
     (if take 6 gs = [0, 0, 0, 0, 0, 65535]
      then ''::ffff:'' @ show_v4 (gs ! 6 div 256) (gs ! 6 mod 256) (gs ! 7 div 256) (gs ! 7 mod 256)
      else
        (case longest_zeros 0 0 0 0 0 gs of
           (start, len) \<Rightarrow>
             if len > 1
             then show_groups (take start gs) @ ''::'' @ show_groups (drop (start + len) gs)
             else show_groups gs))"

lemma take_digits_split: "take_digits r s = (ds, rest) \<Longrightarrow> length s = length ds + length rest"
  by (induction s arbitrary: ds rest) (auto split: option.splits prod.splits)

lemma read_number_length:
  "read_number r m b z s = Some (n, rest) \<Longrightarrow> length s \<le> length rest + m"
  by (auto simp: read_number_def Let_def dest!: take_digits_split split: prod.splits if_splits)

lemma read_given_char_length: "read_given_char c s = Some rest \<Longrightarrow> length s = length rest + 1"
  by (cases s) (auto split: if_splits)

lemma read_dot_octet_length: "read_dot_octet s = Some (n, rest) \<Longrightarrow> length s \<le> length rest + 4"
  by (auto simp: read_dot_octet_def bind_eq_Some_conv dest!: read_given_char_length read_number_length)

lemma read_ipv4_length: "read_ipv4_addr s = Some (q, rest) \<Longrightarrow> length s \<le> length rest + 15"
  by (auto simp: read_ipv4_addr_def bind_eq_Some_conv
      dest!: read_number_length read_dot_octet_length)

text \<open>The combined parser accepts nothing that the two parsers reject.\<close>

lemma parse_ip_cases: "parse_ip s = Some a \<Longrightarrow> parse_ipv4 s = Some a \<or> parse_ipv6 s = Some a"
  by (auto simp: parse_ip_def parse_ipv4_def parse_ipv6_def whole_def
      dest: read_ipv4_length split: option.splits list.splits)

section \<open>Instants and durations\<close>

type_synonym instant = int
type_synonym duration = int

definition from_millis :: "u64 \<Rightarrow> duration" where
  "from_millis ms = uint ms * 1000000"

definition instant_checked_add :: "instant \<Rightarrow> duration \<Rightarrow> instant option" where
  "instant_checked_add t d = (if (t + d) div 1000000000 < 2 ^ 63 then Some (t + d) else None)"

definition instant_checked_sub :: "instant \<Rightarrow> duration \<Rightarrow> instant option" where
  "instant_checked_sub t d = (if - (2 ^ 63) \<le> (t - d) div 1000000000 then Some (t - d) else None)"

definition checked_duration_since :: "instant \<Rightarrow> instant \<Rightarrow> duration option" where
  "checked_duration_since later earlier = (if earlier \<le> later then Some (later - earlier) else None)"

definition unwrap_or :: "'a option \<Rightarrow> 'a \<Rightarrow> 'a" where
  "unwrap_or x d = (case x of None \<Rightarrow> d | Some v \<Rightarrow> v)"

lemma unwrap_or_simps [simp]: "unwrap_or None d = d" "unwrap_or (Some v) d = v"
  by (simp_all add: unwrap_or_def)

text \<open>The milliseconds between two instants: \<open>elapsed().as_millis().min(u64::MAX as u128) as u64\<close>.\<close>

definition millis_between :: "instant \<Rightarrow> instant \<Rightarrow> u64" where
  "millis_between started now = word_of_int (min (2 ^ 64 - 1) (max 0 (now - started) div 1000000))"

lemma uint_millis_between:
  "uint (millis_between s t) = min (2 ^ 64 - 1) (max 0 (t - s) div 1000000)"
  by (simp add: millis_between_def uint_word_of_int_eq take_bit_int_eq_self)

end
