(* ===== verification/Tls_Probe.thy ===== *)
theory Tls_Probe
  imports Std_Net
begin

text \<open>
  The TLS certificate probe (\<open>crates/nq-monitor/src/tls_cert_probe.rs\<close> and
  \<open>tls_cert_transport.rs\<close>): the verdict core, a pure function of the observed facts, the
  policy and an injected clock, and the transport that gathers the facts with at most one
  connection and one handshake.

  What is not code of the repository is an argument. \<open>tls_crates\<close> holds the third-party
  crates (timestamps of \<open>time\<close>, the X.509 parser, the WebPKI verifier of \<open>rustls\<close>);
  \<open>'w platform\<close> holds the operating system as operations on a world \<open>'w\<close>: the two
  clocks, the resolver and the socket. The loop that drives the \<open>rustls\<close> handshake over
  the socket (\<open>observe_chain\<close>) is one such operation, which returns the certificates
  presented or an error. A date and time is its instant in nanoseconds.
\<close>

section \<open>Third-party crates and the operating system\<close>

datatype GeneralName = DNSName string | OtherName

record X509Certificate =
  x509_subject :: string
  x509_issuer :: string
  x509_not_before :: int
  x509_not_after :: int
  x509_alternative_names :: "GeneralName list option"

record tls_crates =
  rfc3339_format :: "int \<Rightarrow> string option"
  whole_days :: "int \<Rightarrow> int"
  x509_from_der :: "string \<Rightarrow> string + X509Certificate"
  verifier_build :: "string + unit"
  server_name :: "string \<Rightarrow> string + unit"
  verify_server_cert :: "string \<Rightarrow> string list \<Rightarrow> string \<Rightarrow> u64 \<Rightarrow> string + unit"

record SocketAddr =
  sa_ip :: IpAddr
  sa_port :: u16

record 'w platform =
  instant_now :: "'w \<Rightarrow> instant \<times> 'w"
  now_utc :: "'w \<Rightarrow> int \<times> 'w"
  lookup_host :: "string \<Rightarrow> u16 \<Rightarrow> 'w \<Rightarrow> (string + SocketAddr list) \<times> 'w"
  connect_timeout :: "SocketAddr \<Rightarrow> duration \<Rightarrow> 'w \<Rightarrow> bool \<times> 'w"
  observe_chain :: "string \<Rightarrow> instant \<Rightarrow> 'w \<Rightarrow> (string + string list) \<times> 'w"

text \<open>
  \<open>ToSocketAddrs\<close> for a host and a port, of the standard library: a numeric host is not
  looked up.
\<close>

definition to_socket_addrs ::
  "'w platform \<Rightarrow> string \<Rightarrow> u16 \<Rightarrow> 'w \<Rightarrow> (string + SocketAddr list) \<times> 'w"
where
  "to_socket_addrs pf host port w =
     (case parse_ipv4 host of
        Some ip \<Rightarrow> (Inr [\<lparr>sa_ip = ip, sa_port = port\<rparr>], w)
      | None \<Rightarrow>
          (case parse_ipv6 host of
             Some ip \<Rightarrow> (Inr [\<lparr>sa_ip = ip, sa_port = port\<rparr>], w)
           | None \<Rightarrow> lookup_host pf host port w))"

section \<open>The verdict core\<close>

definition TLS_CERT_PROBE_SCHEMA :: string where
  "TLS_CERT_PROBE_SCHEMA = ''nq.probe.tls_cert.v1''"

datatype ValidationPolicy = VP_Webpki | VP_PinnedCa

datatype ChainValidation = CV_Valid | CV_Invalid string | CV_NotAttempted

record DeliveryBasis =
  dlv_dns_answers :: "string list"
  dlv_tcp_connected :: bool
  dlv_tls_handshake_completed :: bool

record ResponseHorizon =
  rh_timeout_ms :: u64
  rh_elapsed_ms :: "u64 option"

record ClockBasis =
  cb_source :: string
  cb_ntp_status :: string

record PresentedCert =
  pc_subject :: string
  pc_issuer :: string
  pc_not_before :: int
  pc_not_after :: int
  pc_sans :: "string list"
  pc_sha256_fingerprint :: string

record TlsCertFacts =
  fct_delivery :: DeliveryBasis
  fct_response_horizon :: ResponseHorizon
  fct_presented_chain :: "PresentedCert list"
  fct_validation :: ChainValidation

record TlsCertPolicy =
  pol_expected_names :: "string list"
  pol_warning_threshold_days :: int
  pol_validation_policy :: ValidationPolicy

record TlsCertTarget =
  tct_target :: string
  tct_sni :: string
  tct_vantage :: string

datatype TlsCertVerdict =
    TV_ProbeNotAttempted
  | TV_DnsFailed
  | TV_TcpFailed
  | TV_TlsHandshakeFailed
  | TV_NoCertificatePresented
  | TV_NameMismatch
  | TV_ChainInvalid
  | TV_ExpiredUnderProbeClock
  | TV_ValidButWithinWarningHorizon
  | TV_ValidAtProbeTime

record Perturbation =
  ptb_class :: string
  ptb_expected_side_effects :: "string list"

record TlsCertProbeReceipt =
  pr_schema :: string
  pr_probe_kind :: string
  pr_target :: string
  pr_sni :: string
  pr_expected_names :: "string list"
  pr_vantage :: string
  pr_probe_time :: string
  pr_clock_basis :: ClockBasis
  pr_delivery_basis :: DeliveryBasis
  pr_response_horizon :: ResponseHorizon
  pr_chain_subjects :: "string list"
  pr_chain_fingerprints :: "string list"
  pr_leaf_not_before :: "string option"
  pr_leaf_not_after :: "string option"
  pr_issuer :: "string option"
  pr_days_remaining :: "int option"
  pr_warning_threshold_days :: int
  pr_validation_policy :: ValidationPolicy
  pr_validation_result :: ChainValidation
  pr_perturbation :: Perturbation
  pr_verdict :: TlsCertVerdict
  pr_non_claims :: "string list"

definition read_only_handshake :: Perturbation where
  "read_only_handshake =
     \<lparr>ptb_class = ''read_only_tls_handshake'', ptb_expected_side_effects = [''access_log'']\<rparr>"

definition scope_ceiling_non_claims :: "ValidationPolicy \<Rightarrow> string list" where
  "scope_ceiling_non_claims policy =
     [''does not witness service-logic integrity'',
      ''does not witness host integrity or root custody (a root attacker holding the key still presents a valid cert)'',
      ''absence on a route is not its cause ('' @ [CHR 0x27] @ ''the box is down'' @ [CHR 0x27] @ '' is unproven)'',
      ''validity is relative to name/chain/trust-anchor/probe-clock/vantage only'']
     @ (if policy = VP_PinnedCa
        then [''under pinned_ca: valid only under the operator'' @ [CHR 0x27]
                @ ''s own PKI universe, not '' @ [CHR 0x27] @ ''valid, period'' @ [CHR 0x27]]
        else [])"

definition rfc3339 :: "tls_crates \<Rightarrow> int \<Rightarrow> string" where
  "rfc3339 cr t = unwrap_or (rfc3339_format cr t) []"

text \<open>\<open>str::to_ascii_lowercase\<close> and \<open>str::split_once\<close> of the standard library.\<close>

definition to_ascii_lowercase :: "string \<Rightarrow> string" where
  "to_ascii_lowercase s = map (\<lambda>c. if is_upper c then char_of (byte c + 32) else c) s"

fun split_once :: "char \<Rightarrow> string \<Rightarrow> (string \<times> string) option" where
  "split_once d [] = None"
| "split_once d (c # s) =
     (if c = d then Some ([], s) else map_option (\<lambda>(l, r). (c # l, r)) (split_once d s))"

definition san_covers :: "string \<Rightarrow> string \<Rightarrow> bool" where
  "san_covers san want =
     (let san = to_ascii_lowercase san; want = to_ascii_lowercase want in
      if san = want then True
      else
        (case strip_prefix ''*.'' san of
           None \<Rightarrow> False
         | Some suffix \<Rightarrow>
             (case split_once CHR ''.'' want of None \<Rightarrow> False | Some (_, rest) \<Rightarrow> rest = suffix)))"

definition name_matches :: "string list \<Rightarrow> string list \<Rightarrow> bool" where
  "name_matches sans expected_names \<longleftrightarrow>
     list_all (\<lambda>want. list_ex (\<lambda>san. san_covers san want) sans) expected_names \<and> expected_names \<noteq> []"

definition first_cert :: "'a list \<Rightarrow> 'a option" where
  "first_cert xs = (case xs of [] \<Rightarrow> None | x # _ \<Rightarrow> Some x)"

definition compute_verdict ::
  "tls_crates \<Rightarrow> TlsCertFacts \<Rightarrow> TlsCertPolicy \<Rightarrow> PresentedCert option \<Rightarrow> int \<Rightarrow> TlsCertVerdict"
where
  "compute_verdict cr facts policy leaf now =
     (if \<not> dlv_tcp_connected (fct_delivery facts)
      then (if dlv_dns_answers (fct_delivery facts) = [] then TV_DnsFailed else TV_TcpFailed)
      else if \<not> dlv_tls_handshake_completed (fct_delivery facts) then TV_TlsHandshakeFailed
      else
        (case leaf of
           None \<Rightarrow> TV_NoCertificatePresented
         | Some leaf \<Rightarrow>
             if \<not> name_matches (pc_sans leaf) (pol_expected_names policy) then TV_NameMismatch
             else if now < pc_not_before leaf \<or> now > pc_not_after leaf then TV_ExpiredUnderProbeClock
             else if (case fct_validation facts of CV_Invalid _ \<Rightarrow> True | _ \<Rightarrow> False) then TV_ChainInvalid
             else if whole_days cr (pc_not_after leaf - now) \<le> pol_warning_threshold_days policy
               then TV_ValidButWithinWarningHorizon
             else TV_ValidAtProbeTime))"

definition evaluate_tls_cert ::
  "tls_crates \<Rightarrow> TlsCertTarget \<Rightarrow> TlsCertFacts \<Rightarrow> TlsCertPolicy \<Rightarrow> ClockBasis \<Rightarrow> int \<Rightarrow> TlsCertProbeReceipt"
where
  "evaluate_tls_cert cr target facts policy clock now =
     (let leaf = first_cert (fct_presented_chain facts) in
      \<lparr>pr_schema = TLS_CERT_PROBE_SCHEMA, pr_probe_kind = ''tls_cert'', pr_target = tct_target target,
       pr_sni = tct_sni target, pr_expected_names = pol_expected_names policy,
       pr_vantage = tct_vantage target, pr_probe_time = rfc3339 cr now, pr_clock_basis = clock,
       pr_delivery_basis = fct_delivery facts, pr_response_horizon = fct_response_horizon facts,
       pr_chain_subjects = map pc_subject (fct_presented_chain facts),
       pr_chain_fingerprints = map pc_sha256_fingerprint (fct_presented_chain facts),
       pr_leaf_not_before = map_option (\<lambda>l. rfc3339 cr (pc_not_before l)) leaf,
       pr_leaf_not_after = map_option (\<lambda>l. rfc3339 cr (pc_not_after l)) leaf,
       pr_issuer = map_option pc_issuer leaf,
       pr_days_remaining = map_option (\<lambda>l. whole_days cr (pc_not_after l - now)) leaf,
       pr_warning_threshold_days = pol_warning_threshold_days policy,
       pr_validation_policy = pol_validation_policy policy, pr_validation_result = fct_validation facts,
       pr_perturbation = read_only_handshake, pr_verdict = compute_verdict cr facts policy leaf now,
       pr_non_claims = scope_ceiling_non_claims (pol_validation_policy policy)\<rparr>)"

section \<open>The transport\<close>

record BoundedTlsCertProbeResult =
  bp_receipt :: TlsCertProbeReceipt
  bp_connection_attempted :: bool
  bp_handshake_attempted :: bool
  bp_deadline_exhausted :: bool
  bp_leaf_der_digest :: "string option"
  bp_chain_der_digest :: "string option"

text \<open>The eight bytes of a length, most significant first (\<open>u64::to_be_bytes\<close>).\<close>

definition to_be_bytes :: "u64 \<Rightarrow> string" where
  "to_be_bytes w = map (\<lambda>i. char_of (unat w div 256 ^ i mod 256)) [7, 6, 5, 4, 3, 2, 1, 0]"

definition length_prefixed :: "string \<Rightarrow> string" where
  "length_prefixed part = to_be_bytes (of_nat (length part)) @ part"

definition digest_der_parts :: "externals \<Rightarrow> string list \<Rightarrow> string" where
  "digest_der_parts ext parts = ''sha256:'' @ sha256_hex ext (concat (map length_prefixed parts))"

definition digest_der :: "externals \<Rightarrow> string \<Rightarrow> string" where
  "digest_der ext der = ''sha256:'' @ sha256_hex ext der"

text \<open>The digest in upper-case hexadecimal, a colon after every byte but the last.\<close>

definition to_ascii_uppercase :: "string \<Rightarrow> string" where
  "to_ascii_uppercase s = map (\<lambda>c. if is_lower c then char_of (byte c - 32) else c) s"

fun byte_pairs :: "string \<Rightarrow> string list" where
  "byte_pairs (a # b # s) = [a, b] # byte_pairs s"
| "byte_pairs s = []"

definition der_fingerprint :: "externals \<Rightarrow> string \<Rightarrow> string" where
  "der_fingerprint ext der = join_with '':'' (byte_pairs (to_ascii_uppercase (sha256_hex ext der)))"

definition dns_names :: "GeneralName list \<Rightarrow> string list" where
  "dns_names gns = concat (map (\<lambda>gn. case gn of DNSName n \<Rightarrow> [n] | OtherName \<Rightarrow> []) gns)"

definition parse_presented_cert :: "externals \<Rightarrow> tls_crates \<Rightarrow> string \<Rightarrow> string + PresentedCert" where
  "parse_presented_cert ext cr der =
     res_bind (map_err (\<lambda>e. ''x509 parse: '' @ e) (x509_from_der cr der)) (\<lambda>cert.
     Inr \<lparr>pc_subject = x509_subject cert, pc_issuer = x509_issuer cert,
          pc_not_before = x509_not_before cert, pc_not_after = x509_not_after cert,
          pc_sans = (case x509_alternative_names cert of None \<Rightarrow> [] | Some gns \<Rightarrow> dns_names gns),
          pc_sha256_fingerprint = der_fingerprint ext der\<rparr>)"

text \<open>\<open>filter_map\<close> of the certificates that parse.\<close>

definition parsed_certs :: "externals \<Rightarrow> tls_crates \<Rightarrow> string list \<Rightarrow> PresentedCert list" where
  "parsed_certs ext cr chain =
     concat (map (\<lambda>der. case parse_presented_cert ext cr der of Inl _ \<Rightarrow> [] | Inr c \<Rightarrow> [c]) chain)"

definition validate_observed_chain ::
  "tls_crates \<Rightarrow> string list \<Rightarrow> string \<Rightarrow> int \<Rightarrow> ChainValidation"
where
  "validate_observed_chain cr chain sni now =
     (case chain of
        [] \<Rightarrow> CV_Invalid ''no certificate presented''
      | leaf # intermediates \<Rightarrow>
          (case verifier_build cr of
             Inl e \<Rightarrow> CV_Invalid (''verifier build: '' @ e)
           | Inr _ \<Rightarrow>
               (case server_name cr sni of
                  Inl e \<Rightarrow> CV_Invalid (''invalid sni: '' @ e)
                | Inr _ \<Rightarrow>
                    (case verify_server_cert cr leaf intermediates sni
                            (word_of_int (max 0 (now div 1000000000))) of
                       Inr _ \<Rightarrow> CV_Valid
                     | Inl e \<Rightarrow> CV_Invalid e))))"

definition finish ::
  "tls_crates \<Rightarrow> TlsCertTarget \<Rightarrow> TlsCertFacts \<Rightarrow> TlsCertPolicy \<Rightarrow> ClockBasis \<Rightarrow> int \<Rightarrow> TlsCertProbeReceipt"
where
  "finish cr target facts policy clock now =
     (let receipt = evaluate_tls_cert cr target facts policy clock now;
          dash = [CHR 0xE2, CHR 0x80, CHR 0x94];
          validation_basis =
            (if fct_validation facts = CV_NotAttempted
             then ''trust validation not attempted '' @ dash @ '' no chain was delivered to validate''
             else ''trust-chain validated under WebPKI against bundled webpki-roots, at the probe clock; ''
                  @ ''a successful TLS handshake is NOT a successful validation '' @ dash
                  @ '' the observed chain and the validation_result are distinct'')
      in receipt\<lparr>pr_non_claims := pr_non_claims receipt @ [validation_basis,
           ''vantage basis is operator-provided/manual: '' @ [CHR 0x27] @ tct_vantage target @ [CHR 0x27]
             @ '' '' @ dash @ '' no independent external runner asserts it'']\<rparr>)"

definition elapsed_ms :: "'w platform \<Rightarrow> instant \<Rightarrow> 'w \<Rightarrow> u64 \<times> 'w" where
  "elapsed_ms pf started w = (case instant_now pf w of (t, w) \<Rightarrow> (millis_between started t, w))"

definition remaining_until :: "'w platform \<Rightarrow> instant \<Rightarrow> 'w \<Rightarrow> duration option \<times> 'w" where
  "remaining_until pf deadline w =
     (case instant_now pf w of
        (t, w) \<Rightarrow>
          (case checked_duration_since deadline t of
             None \<Rightarrow> (None, w)
           | Some remaining \<Rightarrow> (if remaining = 0 then None else Some remaining, w)))"

definition failed_receipt ::
  "tls_crates \<Rightarrow> 'w platform \<Rightarrow> TlsCertTarget \<Rightarrow> TlsCertPolicy \<Rightarrow> ClockBasis \<Rightarrow> int \<Rightarrow> DeliveryBasis
     \<Rightarrow> u64 \<Rightarrow> instant \<Rightarrow> 'w \<Rightarrow> TlsCertProbeReceipt \<times> 'w"
where
  "failed_receipt cr pf target policy clock now delivery timeout_ms started w =
     (case elapsed_ms pf started w of
        (elapsed, w) \<Rightarrow>
          (finish cr target
             \<lparr>fct_delivery = delivery,
              fct_response_horizon = \<lparr>rh_timeout_ms = timeout_ms, rh_elapsed_ms = Some elapsed\<rparr>,
              fct_presented_chain = [], fct_validation = CV_NotAttempted\<rparr>
             policy clock now, w))"

definition probe_tls_cert_resolved ::
  "externals \<Rightarrow> tls_crates \<Rightarrow> 'w platform \<Rightarrow> SocketAddr \<Rightarrow> string list \<Rightarrow> TlsCertTarget \<Rightarrow> TlsCertPolicy
     \<Rightarrow> instant \<Rightarrow> instant \<Rightarrow> u64 \<Rightarrow> ClockBasis \<Rightarrow> int \<Rightarrow> 'w \<Rightarrow> BoundedTlsCertProbeResult \<times> 'w"
where
  "probe_tls_cert_resolved ext cr pf addr dns_answers target policy started deadline
       declared_timeout_ms clock now w =
     (let fail = (\<lambda>tcp. failed_receipt cr pf target policy clock now
                    \<lparr>dlv_dns_answers = dns_answers, dlv_tcp_connected = tcp,
                     dlv_tls_handshake_completed = False\<rparr> declared_timeout_ms started);
          result = (\<lambda>receipt tcp tls exhausted leaf chain.
                    \<lparr>bp_receipt = receipt, bp_connection_attempted = tcp, bp_handshake_attempted = tls,
                     bp_deadline_exhausted = exhausted, bp_leaf_der_digest = leaf,
                     bp_chain_der_digest = chain\<rparr>)
      in
      case remaining_until pf deadline w of
        (None, w) \<Rightarrow>
          (case fail False w of (receipt, w) \<Rightarrow> (result receipt False False True None None, w))
      | (Some timeout, w) \<Rightarrow>
          (case connect_timeout pf addr timeout w of
             (False, w) \<Rightarrow>
               (case fail False w of
                  (receipt, w) \<Rightarrow>
                    (case instant_now pf w of
                       (t, w) \<Rightarrow> (result receipt True False (deadline \<le> t) None None, w)))
           | (True, w) \<Rightarrow>
               (case observe_chain pf (tct_sni target) deadline w of
                  (Inl _, w) \<Rightarrow>
                    (case fail True w of
                       (receipt, w) \<Rightarrow>
                         (case instant_now pf w of
                            (t, w) \<Rightarrow> (result receipt True True (deadline \<le> t) None None, w)))
                | (Inr chain, w) \<Rightarrow>
                    (case elapsed_ms pf started w of
                       (elapsed, w) \<Rightarrow>
                         let facts =
                           \<lparr>fct_delivery =
                              \<lparr>dlv_dns_answers = dns_answers, dlv_tcp_connected = True,
                               dlv_tls_handshake_completed = True\<rparr>,
                            fct_response_horizon =
                              \<lparr>rh_timeout_ms = declared_timeout_ms, rh_elapsed_ms = Some elapsed\<rparr>,
                            fct_presented_chain = parsed_certs ext cr chain,
                            fct_validation = validate_observed_chain cr chain (tct_sni target) now\<rparr>
                         in (result (finish cr target facts policy clock now) True True False
                               (map_option (digest_der ext) (first_cert chain))
                               (if chain = [] then None else Some (digest_der_parts ext chain)), w)))))"

definition duration_as_millis_u64 :: "duration \<Rightarrow> u64" where
  "duration_as_millis_u64 d = word_of_int (min (2 ^ 64 - 1) (d div 1000000))"

definition probe_tls_cert ::
  "externals \<Rightarrow> tls_crates \<Rightarrow> 'w platform \<Rightarrow> string \<Rightarrow> u16 \<Rightarrow> TlsCertTarget \<Rightarrow> TlsCertPolicy
     \<Rightarrow> duration \<Rightarrow> ClockBasis \<Rightarrow> int \<Rightarrow> 'w \<Rightarrow> TlsCertProbeReceipt \<times> 'w"
where
  "probe_tls_cert ext cr pf host port target policy timeout clock now w =
     (case instant_now pf w of
        (started, w) \<Rightarrow>
          let deadline = unwrap_or (instant_checked_add started timeout) started;
              timeout_ms = duration_as_millis_u64 timeout
          in
          case to_socket_addrs pf host port w of
            (resolved, w) \<Rightarrow>
              let addrs = (case resolved of Inl _ \<Rightarrow> [] | Inr as \<Rightarrow> as);
                  dns_answers = map (\<lambda>a. show_ip (sa_ip a)) addrs
              in
              (case first_cert addrs of
                 None \<Rightarrow>
                   failed_receipt cr pf target policy clock now
                     \<lparr>dlv_dns_answers = dns_answers, dlv_tcp_connected = False,
                      dlv_tls_handshake_completed = False\<rparr> timeout_ms started w
               | Some addr \<Rightarrow>
                   (case probe_tls_cert_resolved ext cr pf addr dns_answers target policy started deadline
                           timeout_ms clock now w of
                      (result, w) \<Rightarrow> (bp_receipt result, w))))"

section \<open>What a probe returns\<close>

definition failed_facts :: "string list \<Rightarrow> bool \<Rightarrow> u64 \<Rightarrow> u64 \<Rightarrow> TlsCertFacts" where
  "failed_facts dns tcp timeout_ms elapsed =
     \<lparr>fct_delivery = \<lparr>dlv_dns_answers = dns, dlv_tcp_connected = tcp, dlv_tls_handshake_completed = False\<rparr>,
      fct_response_horizon = \<lparr>rh_timeout_ms = timeout_ms, rh_elapsed_ms = Some elapsed\<rparr>,
      fct_presented_chain = [], fct_validation = CV_NotAttempted\<rparr>"

definition chain_facts ::
  "externals \<Rightarrow> tls_crates \<Rightarrow> string list \<Rightarrow> string list \<Rightarrow> string \<Rightarrow> int \<Rightarrow> u64 \<Rightarrow> u64 \<Rightarrow> TlsCertFacts"
where
  "chain_facts ext cr dns chain sni now timeout_ms elapsed =
     \<lparr>fct_delivery = \<lparr>dlv_dns_answers = dns, dlv_tcp_connected = True, dlv_tls_handshake_completed = True\<rparr>,
      fct_response_horizon = \<lparr>rh_timeout_ms = timeout_ms, rh_elapsed_ms = Some elapsed\<rparr>,
      fct_presented_chain = parsed_certs ext cr chain,
      fct_validation = validate_observed_chain cr chain sni now\<rparr>"

lemma probe_resolved_cases:
  assumes "probe_tls_cert_resolved ext cr pf addr dns target policy started deadline ms clock now w = (r, w')"
  obtains
    (out_of_time) el where
      "r = \<lparr>bp_receipt = finish cr target (failed_facts dns False ms el) policy clock now,
            bp_connection_attempted = False, bp_handshake_attempted = False, bp_deadline_exhausted = True,
            bp_leaf_der_digest = None, bp_chain_der_digest = None\<rparr>"
  | (unconnected) el x where
      "r = \<lparr>bp_receipt = finish cr target (failed_facts dns False ms el) policy clock now,
            bp_connection_attempted = True, bp_handshake_attempted = False, bp_deadline_exhausted = x,
            bp_leaf_der_digest = None, bp_chain_der_digest = None\<rparr>"
  | (no_handshake) el x where
      "r = \<lparr>bp_receipt = finish cr target (failed_facts dns True ms el) policy clock now,
            bp_connection_attempted = True, bp_handshake_attempted = True, bp_deadline_exhausted = x,
            bp_leaf_der_digest = None, bp_chain_der_digest = None\<rparr>"
  | (observed) el chain where
      "r = \<lparr>bp_receipt = finish cr target (chain_facts ext cr dns chain (tct_sni target) now ms el) policy clock now,
            bp_connection_attempted = True, bp_handshake_attempted = True, bp_deadline_exhausted = False,
            bp_leaf_der_digest = map_option (digest_der ext) (first_cert chain),
            bp_chain_der_digest = (if chain = [] then None else Some (digest_der_parts ext chain))\<rparr>"
proof -
  obtain rem w1 where 1: "remaining_until pf deadline w = (rem, w1)" by fastforce
  show thesis
  proof (cases rem)
    case None
    obtain el w2 where 2: "elapsed_ms pf started w1 = (el, w2)" by fastforce
    show thesis
      by (rule out_of_time [of el])
        (use assms 1 2 None in \<open>simp add: probe_tls_cert_resolved_def Let_def failed_receipt_def failed_facts_def\<close>)
  next
    case (Some timeout)
    obtain c w2 where 2: "connect_timeout pf addr timeout w1 = (c, w2)" by fastforce
    show thesis
    proof (cases c)
      case False
      obtain el w3 where 3: "elapsed_ms pf started w2 = (el, w3)" by fastforce
      obtain t w4 where 4: "instant_now pf w3 = (t, w4)" by fastforce
      show thesis
        by (rule unconnected [of el "deadline \<le> t"])
          (use assms 1 2 3 4 Some False in
            \<open>simp add: probe_tls_cert_resolved_def Let_def failed_receipt_def failed_facts_def\<close>)
    next
      case True
      obtain oc w3 where 3: "observe_chain pf (tct_sni target) deadline w2 = (oc, w3)" by fastforce
      obtain el w4 where 4: "elapsed_ms pf started w3 = (el, w4)" by fastforce
      obtain t w5 where 5: "instant_now pf w4 = (t, w5)" by fastforce
      show thesis
      proof (cases oc)
        case (Inl e)
        show thesis
          by (rule no_handshake [of el "deadline \<le> t"])
            (use assms 1 2 3 4 5 Some True Inl in
              \<open>simp add: probe_tls_cert_resolved_def Let_def failed_receipt_def failed_facts_def\<close>)
      next
        case (Inr chain)
        show thesis
          by (rule observed [of chain el])
            (use assms 1 2 3 4 Some True Inr in
              \<open>simp add: probe_tls_cert_resolved_def Let_def chain_facts_def\<close>)
      qed
    qed
  qed
qed

lemma finish_fields [simp]:
  "pr_probe_time (finish cr target facts policy clock now) = rfc3339 cr now"
  "pr_delivery_basis (finish cr target facts policy clock now) = fct_delivery facts"
  "pr_chain_fingerprints (finish cr target facts policy clock now) =
     map pc_sha256_fingerprint (fct_presented_chain facts)"
  "pr_leaf_not_before (finish cr target facts policy clock now) =
     map_option (\<lambda>l. rfc3339 cr (pc_not_before l)) (first_cert (fct_presented_chain facts))"
  "pr_leaf_not_after (finish cr target facts policy clock now) =
     map_option (\<lambda>l. rfc3339 cr (pc_not_after l)) (first_cert (fct_presented_chain facts))"
  "pr_validation_result (finish cr target facts policy clock now) = fct_validation facts"
  "pr_verdict (finish cr target facts policy clock now) =
     compute_verdict cr facts policy (first_cert (fct_presented_chain facts)) now"
  by (simp_all add: finish_def evaluate_tls_cert_def Let_def)

lemma failed_facts_fields [simp]:
  "fct_presented_chain (failed_facts dns tcp ms el) = []"
  "fct_validation (failed_facts dns tcp ms el) = CV_NotAttempted"
  "fct_delivery (failed_facts dns tcp ms el) =
     \<lparr>dlv_dns_answers = dns, dlv_tcp_connected = tcp, dlv_tls_handshake_completed = False\<rparr>"
  by (simp_all add: failed_facts_def)

lemma chain_facts_fields [simp]:
  "fct_presented_chain (chain_facts ext cr dns chain sni now ms el) = parsed_certs ext cr chain"
  "fct_validation (chain_facts ext cr dns chain sni now ms el) = validate_observed_chain cr chain sni now"
  "fct_delivery (chain_facts ext cr dns chain sni now ms el) =
     \<lparr>dlv_dns_answers = dns, dlv_tcp_connected = True, dlv_tls_handshake_completed = True\<rparr>"
  by (simp_all add: chain_facts_def)

lemma first_cert_simps [simp]: "first_cert [] = None" "first_cert (x # xs) = Some x"
  by (simp_all add: first_cert_def)

lemma first_cert_eq: "first_cert xs = None \<longleftrightarrow> xs = []" "first_cert xs = Some x \<longleftrightarrow> (\<exists>ys. xs = x # ys)"
  by (cases xs; auto)+

lemma failed_verdict:
  "compute_verdict cr (failed_facts dns tcp ms el) policy leaf now =
     (if tcp then TV_TlsHandshakeFailed else if dns = [] then TV_DnsFailed else TV_TcpFailed)"
  by (simp add: compute_verdict_def)

lemma parsed_certs_Nil [simp]: "parsed_certs ext cr [] = []"
  by (simp add: parsed_certs_def)

lemma parsed_certs_nonempty: "parsed_certs ext cr chain \<noteq> [] \<Longrightarrow> chain \<noteq> []"
  by auto

lemma validation_attempted: "validate_observed_chain cr chain sni now \<noteq> CV_NotAttempted"
  by (auto simp: validate_observed_chain_def split: list.splits sum.splits)

text \<open>A name is covered by equality, or by a wildcard for exactly its first label.\<close>

lemma split_once_Some:
  "split_once d s = Some (l, r) \<longleftrightarrow> s = l @ d # r \<and> d \<notin> set l"
proof (induction s arbitrary: l)
  case (Cons c s)
  show ?case by (cases l) (auto simp: Cons.IH)
qed simp

lemma split_once_rest:
  "(case split_once d s of None \<Rightarrow> False | Some (_, rest) \<Rightarrow> rest = suffix) \<longleftrightarrow>
     (\<exists>label. s = label @ d # suffix \<and> d \<notin> set label)"
  by (cases "split_once d s") (auto simp: split_once_Some [symmetric])

lemma validated_chain:
  assumes "validate_observed_chain cr chain sni now = CV_Valid"
  obtains leaf rest where "chain = leaf # rest" "server_name cr sni = Inr ()"
    "verify_server_cert cr leaf rest sni (word_of_int (max 0 (now div 1000000000))) = Inr ()"
  using assms by (auto simp: validate_observed_chain_def split: list.splits sum.splits)

lemma valid_verdict:
  assumes "compute_verdict cr facts policy leaf now \<in> {TV_ValidAtProbeTime, TV_ValidButWithinWarningHorizon}"
  obtains cert where "leaf = Some cert" "name_matches (pc_sans cert) (pol_expected_names policy)"
    "pc_not_before cert \<le> now" "now \<le> pc_not_after cert" "\<nexists>e. fct_validation facts = CV_Invalid e"
    "dlv_tls_handshake_completed (fct_delivery facts)"
    "compute_verdict cr facts policy leaf now = TV_ValidAtProbeTime \<longleftrightarrow>
       pol_warning_threshold_days policy < whole_days cr (pc_not_after cert - now)"
  using assms that by (auto simp: compute_verdict_def split: option.splits if_splits ChainValidation.splits)

text \<open>
  A certificate name covers a server name, ignoring ASCII case, exactly when the two are
  equal or the certificate name is a wildcard whose domain is what follows the first label of
  the server name: a wildcard stands for one label, never for none or for two.
\<close>

theorem san_covers_one_label:
  "san_covers san want \<longleftrightarrow>
     to_ascii_lowercase san = to_ascii_lowercase want
     \<or> (\<exists>label domain. to_ascii_lowercase san = ''*.'' @ domain
          \<and> to_ascii_lowercase want = label @ CHR ''.'' # domain \<and> CHR ''.'' \<notin> set label)"
proof (cases "strip_prefix ''*.'' (to_ascii_lowercase san)")
  case None
  then have "to_ascii_lowercase san \<noteq> ''*.'' @ domain" for domain
    by (metis option.distinct(1) strip_prefix_append)
  with None show ?thesis by (simp add: san_covers_def Let_def)
next
  case (Some suffix)
  then have "to_ascii_lowercase san = ''*.'' @ suffix" by (simp add: strip_prefix_iff)
  with Some show ?thesis by (auto simp: san_covers_def Let_def split_once_rest)
qed

text \<open>
  No valid verdict without validation. If the transport returns a receipt with one of the
  two valid verdicts, a handshake completed and presented a chain that the WebPKI verifier
  accepted for the server name at the probe clock, whose first certificate is the one whose
  digest is reported; the certificate the verdict is about covers every expected name, is
  within its validity at the probe clock, and the verdict is the warning one exactly when the
  days left do not exceed the threshold.
\<close>

theorem valid_verdict_is_validated:
  assumes "probe_tls_cert_resolved ext cr pf addr dns target policy started deadline ms clock now w = (r, w')"
    and "pr_verdict (bp_receipt r) \<in> {TV_ValidAtProbeTime, TV_ValidButWithinWarningHorizon}"
  shows "\<exists>leaf rest cert.
     bp_leaf_der_digest r = Some (digest_der ext leaf)
     \<and> bp_chain_der_digest r = Some (digest_der_parts ext (leaf # rest))
     \<and> verify_server_cert cr leaf rest (tct_sni target) (word_of_int (max 0 (now div 1000000000))) = Inr ()
     \<and> first_cert (parsed_certs ext cr (leaf # rest)) = Some cert
     \<and> name_matches (pc_sans cert) (pol_expected_names policy)
     \<and> pc_not_before cert \<le> now \<and> now \<le> pc_not_after cert
     \<and> pr_leaf_not_after (bp_receipt r) = Some (rfc3339 cr (pc_not_after cert))
     \<and> (pr_verdict (bp_receipt r) = TV_ValidAtProbeTime \<longleftrightarrow>
          pol_warning_threshold_days policy < whole_days cr (pc_not_after cert - now))"
  using assms(1)
proof (cases rule: probe_resolved_cases)
  case (observed el chain)
  let ?f = "chain_facts ext cr dns chain (tct_sni target) now ms el"
  from assms(2) observed
  have "compute_verdict cr ?f policy (first_cert (parsed_certs ext cr chain)) now
      \<in> {TV_ValidAtProbeTime, TV_ValidButWithinWarningHorizon}" by simp
  then obtain cert where c: "first_cert (parsed_certs ext cr chain) = Some cert"
    "name_matches (pc_sans cert) (pol_expected_names policy)" "pc_not_before cert \<le> now"
    "now \<le> pc_not_after cert" "\<nexists>e. fct_validation ?f = CV_Invalid e"
    "compute_verdict cr ?f policy (first_cert (parsed_certs ext cr chain)) now = TV_ValidAtProbeTime \<longleftrightarrow>
       pol_warning_threshold_days policy < whole_days cr (pc_not_after cert - now)"
    by (rule valid_verdict)
  from c(5) validation_attempted [of cr chain "tct_sni target" now]
  have "validate_observed_chain cr chain (tct_sni target) now = CV_Valid"
    by (cases "validate_observed_chain cr chain (tct_sni target) now") auto
  then obtain leaf rest where "chain = leaf # rest"
    "verify_server_cert cr leaf rest (tct_sni target) (word_of_int (max 0 (now div 1000000000))) = Inr ()"
    by (rule validated_chain)
  with observed c show ?thesis by (intro exI [of _ leaf] exI [of _ rest] exI [of _ cert]) auto
qed (use assms(2) in \<open>simp_all add: failed_verdict split: if_splits\<close>)

text \<open>
  A leaf that the X.509 parser rejects is dropped from the presented chain, so the next
  certificate takes its place in the verdict and in the dates, while the reported digest is
  still the leaf's.
\<close>

lemma unparseable_leaf_is_skipped:
  assumes "x509_from_der cr leaf = Inl e" "x509_from_der cr next_cert = Inr c"
  shows "\<exists>cert. first_cert (parsed_certs ext cr (leaf # next_cert # rest)) = Some cert
    \<and> pc_not_after cert = x509_not_after c \<and> pc_sha256_fingerprint cert = der_fingerprint ext next_cert
    \<and> map_option (digest_der ext) (first_cert (leaf # next_cert # rest)) = Some (digest_der ext leaf)"
  using assms by (simp add: parsed_certs_def parse_presented_cert_def)

section \<open>Fingerprints\<close>

lemma join_byte_pairs:
  "even (length s) \<Longrightarrow> CHR '':'' \<notin> set s \<Longrightarrow> filter (\<lambda>c. c \<noteq> CHR '':'') (join_with '':'' (byte_pairs s)) = s"
proof (induction s rule: byte_pairs.induct)
  case (1 a b s)
  then show ?case by (cases "byte_pairs s") auto
qed auto

lemma lower_upper_hex: "is_lower_hex c \<Longrightarrow>
  (let u = (if is_lower c then char_of (byte c - 32) else c) in if is_upper u then char_of (byte u + 32) else u) = c"
  by (auto simp: is_lower_hex_def is_lower_def is_upper_def is_digit_def in_range_def Let_def)

lemma lower_upper: "list_all is_lower_hex s \<Longrightarrow> to_ascii_lowercase (to_ascii_uppercase s) = s"
  by (induction s) (auto simp: to_ascii_lowercase_def to_ascii_uppercase_def Let_def dest: lower_upper_hex)

lemma colon_not_upper_hex: "is_lower_hex c \<Longrightarrow> (if is_lower c then char_of (byte c - 32) else c) \<noteq> CHR '':''"
proof
  assume h: "is_lower_hex c" and eq: "(if is_lower c then char_of (byte c - 32) else c) = CHR '':''"
  from eq have "byte (if is_lower c then char_of (byte c - 32) else c) = (58 :: nat)" by simp
  with h show False
    by (auto simp: is_lower_hex_def is_lower_def is_digit_def in_range_def split: if_splits)
qed

lemma colon_not_hex: "list_all is_lower_hex s \<Longrightarrow> CHR '':'' \<notin> set (to_ascii_uppercase s)"
  using colon_not_upper_hex by (fastforce simp: to_ascii_uppercase_def list_all_iff)

lemma fingerprint_hex:
  "sha256_shape ext \<Longrightarrow>
     filter (\<lambda>c. c \<noteq> CHR '':'') (der_fingerprint ext der) = to_ascii_uppercase (sha256_hex ext der)"
  unfolding der_fingerprint_def
  by (rule join_byte_pairs) (simp_all add: sha256_shape_def colon_not_hex, simp add: to_ascii_uppercase_def)

section \<open>A concrete platform\<close>

text \<open>
  A platform whose world counts the operations (each takes a millisecond), on which every
  connection and handshake succeeds and presents one certificate for \<open>example.org\<close>.
\<close>

definition demo_crates :: tls_crates where
  "demo_crates =
     \<lparr>rfc3339_format = (\<lambda>t. Some ''2026Z''), whole_days = (\<lambda>d. d div (86400 * 1000000000)),
      x509_from_der = (\<lambda>der. Inr \<lparr>x509_subject = ''s'', x509_issuer = ''i'', x509_not_before = 0,
         x509_not_after = 100 * 86400 * 1000000000,
         x509_alternative_names = Some [DNSName ''*.Example.org'', DNSName ''example.org'']\<rparr>),
      verifier_build = Inr (), server_name = (\<lambda>s. Inr ()), verify_server_cert = (\<lambda>l c s t. Inr ())\<rparr>"

definition demo_platform :: "nat platform" where
  "demo_platform =
     \<lparr>instant_now = (\<lambda>w. (int w * 1000000, w + 1)), now_utc = (\<lambda>w. (86400 * 1000000000, w)),
      lookup_host = (\<lambda>h p w. (Inl ''no resolver'', w)), connect_timeout = (\<lambda>a d w. (True, w + 1)),
      observe_chain = (\<lambda>s d w. (Inr [''leaf''], w + 1))\<rparr>"

definition demo_probe :: "string \<Rightarrow> BoundedTlsCertProbeResult" where
  "demo_probe sni =
     fst (probe_tls_cert_resolved demo_ext demo_crates demo_platform
       \<lparr>sa_ip = IpV4 192 0 2 7, sa_port = 443\<rparr> [''192.0.2.7'']
       \<lparr>tct_target = ''192.0.2.7:443'', tct_sni = sni, tct_vantage = ''lab''\<rparr>
       \<lparr>pol_expected_names = [sni], pol_warning_threshold_days = 30, pol_validation_policy = VP_Webpki\<rparr>
       0 100000000 100 \<lparr>cb_source = ''system_wall'', cb_ntp_status = ''unknown''\<rparr> (86400 * 1000000000) 0)"

lemma demo_probe_verdict: "pr_verdict (bp_receipt (demo_probe ''example.org'')) = TV_ValidAtProbeTime"
  by (simp add: demo_probe_def probe_tls_cert_resolved_def Let_def remaining_until_def demo_platform_def
      checked_duration_since_def elapsed_ms_def compute_verdict_def parsed_certs_def parse_presented_cert_def
      demo_crates_def dns_names_def name_matches_def san_covers_def validate_observed_chain_def)

theorem valid_verdict_is_validated_witness:
  "\<exists>cert. first_cert (parsed_certs demo_ext demo_crates [''leaf'']) = Some cert
     \<and> name_matches (pc_sans cert) [''example.org'']
     \<and> pr_leaf_not_after (bp_receipt (demo_probe ''example.org'')) = Some (rfc3339 demo_crates (pc_not_after cert))"
proof -
  have v: "pr_verdict (bp_receipt (demo_probe ''example.org'')) \<in> {TV_ValidAtProbeTime, TV_ValidButWithinWarningHorizon}"
    by (simp add: demo_probe_verdict)
  from valid_verdict_is_validated [OF prod.collapse [symmetric] v [unfolded demo_probe_def]]
  show ?thesis
    by (auto simp: parsed_certs_def parse_presented_cert_def demo_crates_def demo_probe_def)
qed

end
