(* ===== verification/Inquiry_Execution.thy ===== *)
theory Inquiry_Execution
  imports Tls_Probe Inquiry_Receipt
begin

text \<open>
  The executor of active inquiries (\<open>crates/nq-monitor/src/inquiry.rs\<close>): it admits the
  request, checks the grant against the requirements of the preflight, probes the planned
  targets one after the other and seals the receipt. A function that reads a clock or uses the
  network takes the platform and a world and returns the world after it; the list of receipt
  refusals, which the code passes by mutable reference, is passed and returned.
\<close>

section \<open>One target\<close>

definition target_refusal :: "InquiryTlsTargetV0 \<Rightarrow> InquiryRefusalKindV0 \<Rightarrow> string \<Rightarrow> InquiryRefusal" where
  "target_refusal target kind statement =
     InquiryRefusal kind
       (''target '' @ debug_str (target_id target) @ '' ('' @ endpoint target @ ''): '' @ statement)"

definition failed_observation ::
  "'w platform \<Rightarrow> InquiryTlsTargetV0 \<Rightarrow> string \<Rightarrow> InquiryAcquisitionSpendV0 \<Rightarrow> instant \<Rightarrow> InquiryTlsOutcomeV0
     \<Rightarrow> InquiryRefusalKindV0 \<Rightarrow> string \<Rightarrow> InquiryRefusal list \<Rightarrow> 'w
     \<Rightarrow> InquiryTlsObservationV0 \<times> InquiryRefusal list \<times> 'w"
where
  "failed_observation pf target acquired_at spend started outcome kind statement receipt_refusals w =
     (case elapsed_ms pf started w of
        (ms, w) \<Rightarrow>
          let refusal = target_refusal target kind statement in
          (\<lparr>ob_acquired_at = acquired_at, ob_target = target, ob_observed_ip = None,
            ob_certificate_digest = None, ob_chain_digest = None, ob_chain_fingerprints = [],
            ob_not_before = None, ob_not_after = None, ob_validation_result = NotAttempted,
            ob_outcome = outcome, ob_spend = spend\<lparr>sp_wall_ms := ms\<rparr>, ob_refusals = [refusal]\<rparr>,
           receipt_refusals @ [refusal], w))"

definition bound_refusal ::
  "'w platform \<Rightarrow> InquiryTlsTargetV0 \<Rightarrow> string \<Rightarrow> InquiryAcquisitionSpendV0 \<Rightarrow> instant \<Rightarrow> string
     \<Rightarrow> InquiryRefusal list \<Rightarrow> 'w \<Rightarrow> InquiryTlsObservationV0 \<times> InquiryRefusal list \<times> 'w"
where
  "bound_refusal pf target acquired_at spend started statement receipt_refusals w =
     failed_observation pf target acquired_at spend started AcquisitionBoundRefused
       AcquisitionBoundCannotBeHonored statement receipt_refusals w"

definition normalize_fingerprint :: "string \<Rightarrow> string" where
  "normalize_fingerprint fingerprint =
     ''sha256:'' @ to_ascii_lowercase (filter (\<lambda>c. c \<noteq> CHR '':'') fingerprint)"

definition chain_digest :: "externals \<Rightarrow> string list \<Rightarrow> string option" where
  "chain_digest ext fingerprints =
     (if fingerprints = [] then None
      else Some (''sha256:'' @ sha256_hex ext (concat (map length_prefixed fingerprints))))"

definition now_rfc3339 :: "tls_crates \<Rightarrow> 'w platform \<Rightarrow> 'w \<Rightarrow> string \<times> 'w" where
  "now_rfc3339 cr pf w =
     (case now_utc pf w of (t, w) \<Rightarrow> (unwrap_or (rfc3339_format cr t) ''1970-01-01T00:00:00Z'', w))"

text \<open>The outcome and refusal of a verdict that came in time.\<close>

fun verdict_outcome :: "TlsCertVerdict \<Rightarrow> InquiryTlsOutcomeV0 \<times> (InquiryRefusalKindV0 \<times> string) option" where
  "verdict_outcome TV_ProbeNotAttempted =
     (AcquisitionBoundRefused,
      Some (AcquisitionBoundCannotBeHonored, ''the TLS certificate probe was not attempted''))"
| "verdict_outcome TV_DnsFailed =
     (ResolutionFailed, Some (RK_ResolutionFailed, ''the declared endpoint did not resolve''))"
| "verdict_outcome TV_TcpFailed =
     (ConnectionFailed, Some (RK_ConnectionFailed, ''the single connection attempt failed''))"
| "verdict_outcome TV_TlsHandshakeFailed =
     (TlsHandshakeFailed, Some (RK_TlsHandshakeFailed, ''the single TLS handshake did not complete''))"
| "verdict_outcome TV_NoCertificatePresented =
     (NoCertificatePresented,
      Some (EvidenceAbsent, ''the completed handshake presented no parseable certificate''))"
| "verdict_outcome TV_NameMismatch = (NameMismatch, None)"
| "verdict_outcome TV_ChainInvalid = (ChainInvalid, None)"
| "verdict_outcome TV_ExpiredUnderProbeClock = (ExpiredUnderAcquisitionClock, None)"
| "verdict_outcome TV_ValidButWithinWarningHorizon = (ValidNowButExpiresWithinHorizon, None)"
| "verdict_outcome TV_ValidAtProbeTime = (ValidBeyondExpiryHorizon, None)"

fun map_validation :: "ChainValidation \<Rightarrow> InquiryTlsValidationResultV0" where
  "map_validation CV_Valid = Valid"
| "map_validation (CV_Invalid reason) = Invalid reason"
| "map_validation CV_NotAttempted = NotAttempted"

definition or_else :: "'a option \<Rightarrow> 'a option \<Rightarrow> 'a option" where
  "or_else x y = (case x of None \<Rightarrow> y | Some v \<Rightarrow> Some v)"

definition map_probe_receipt ::
  "externals \<Rightarrow> InquiryTlsTargetV0 \<Rightarrow> SocketAddr \<Rightarrow> BoundedTlsCertProbeResult \<Rightarrow> InquiryAcquisitionSpendV0
     \<Rightarrow> bool \<Rightarrow> InquiryRefusal list \<Rightarrow> InquiryTlsObservationV0 \<times> InquiryRefusal list"
where
  "map_probe_receipt ext target selected result spend deadline_exhausted receipt_refusals =
     (let receipt = bp_receipt result;
          (outcome, refusal) =
            (if deadline_exhausted
             then (AcquisitionBoundRefused,
                   Some (AcquisitionBoundCannotBeHonored,
                         ''the target acquisition exhausted its fixed deadline''))
             else verdict_outcome (pr_verdict receipt));
          refusals =
            (case refusal of
               None \<Rightarrow> []
             | Some (kind, statement) \<Rightarrow> [target_refusal target kind statement])
      in
      (\<lparr>ob_acquired_at = pr_probe_time receipt, ob_target = target,
        ob_observed_ip = Some (show_ip (sa_ip selected)),
        ob_certificate_digest =
          or_else (bp_leaf_der_digest result)
            (map_option normalize_fingerprint (first_cert (pr_chain_fingerprints receipt))),
        ob_chain_digest =
          or_else (bp_chain_der_digest result) (chain_digest ext (pr_chain_fingerprints receipt)),
        ob_chain_fingerprints = pr_chain_fingerprints receipt,
        ob_not_before = pr_leaf_not_before receipt, ob_not_after = pr_leaf_not_after receipt,
        ob_validation_result = map_validation (pr_validation_result receipt), ob_outcome = outcome,
        ob_spend = spend, ob_refusals = refusals\<rparr>,
       receipt_refusals @ refusals))"

datatype Resolution = Addresses "SocketAddr list" | ResolutionError string

definition resolve_once :: "'w platform \<Rightarrow> InquiryTlsTargetV0 \<Rightarrow> 'w \<Rightarrow> Resolution \<times> 'w" where
  "resolve_once pf target w =
     (case to_socket_addrs pf (tgt_host target) (tgt_port target) w of
        (Inr addresses, w) \<Rightarrow> (Addresses addresses, w)
      | (Inl e, w) \<Rightarrow> (ResolutionError e, w))"

text \<open>What every target spends before anything else: one bound check.\<close>

definition bound_check_spend :: InquiryAcquisitionSpendV0 where
  "bound_check_spend = spend_default\<lparr>sp_bound_checks := 1, sp_work_units := 1\<rparr>"

definition count_probe :: "BoundedTlsCertProbeResult \<Rightarrow> InquiryAcquisitionSpendV0 \<Rightarrow> InquiryAcquisitionSpendV0" where
  "count_probe result s0 =
     (let s1 = (if bp_connection_attempted result
                then s0\<lparr>sp_connection_attempts := 1, sp_work_units := sp_work_units s0 + 1\<rparr> else s0);
          s2 = (if bp_handshake_attempted result
                then s1\<lparr>sp_handshakes_attempted := 1, sp_work_units := sp_work_units s1 + 1\<rparr> else s1)
      in s2\<lparr>sp_handshakes_completed :=
              (if dlv_tls_handshake_completed (pr_delivery_basis (bp_receipt result)) then 1 else 0)\<rparr>)"

text \<open>The part of \<open>execute_target\<close> from the selection of the address on.\<close>

definition probe_selected ::
  "externals \<Rightarrow> tls_crates \<Rightarrow> 'w platform \<Rightarrow> InquiryTlsTargetV0 \<Rightarrow> InquiryWitnessPlanV0 \<Rightarrow> SocketAddr
     \<Rightarrow> SocketAddr list \<Rightarrow> instant \<Rightarrow> instant \<Rightarrow> InquiryAcquisitionSpendV0 \<Rightarrow> InquiryRefusal list \<Rightarrow> 'w
     \<Rightarrow> InquiryTlsObservationV0 \<times> InquiryRefusal list \<times> 'w"
where
  "probe_selected ext cr pf target plan selected addresses started deadline spend refusals w =
     (case now_utc pf w of
        (acquisition_time, w) \<Rightarrow>
      case instant_now pf w of
        (t, w) \<Rightarrow>
      let remaining = unwrap_or (checked_duration_since deadline t) 0;
          processing_reserve = min (remaining div 10) (from_millis 50);
          transport_deadline = unwrap_or (instant_checked_sub deadline processing_reserve) deadline
      in
      case probe_tls_cert_resolved ext cr pf selected (map (\<lambda>a. show_ip (sa_ip a)) addresses)
             \<lparr>tct_target = endpoint target, tct_sni = tgt_sni target, tct_vantage = wp_vantage plan\<rparr>
             \<lparr>pol_expected_names = [tgt_sni target],
              pol_warning_threshold_days = uint (wp_expiry_horizon_days plan),
              pol_validation_policy = VP_Webpki\<rparr>
             started transport_deadline (bnd_per_target_deadline_ms (wp_bounds plan))
             \<lparr>cb_source = ''system_wall'', cb_ntp_status = ''unknown''\<rparr> acquisition_time w of
        (result, w) \<Rightarrow>
      case elapsed_ms pf started w of
        (ms, w) \<Rightarrow>
      let spend = (count_probe result spend)\<lparr>sp_wall_ms := ms\<rparr> in
      case (if bp_deadline_exhausted result then (True, w)
            else case instant_now pf w of (t, w) \<Rightarrow> (deadline \<le> t, w)) of
        (exhausted, w) \<Rightarrow>
      case map_probe_receipt ext target selected result spend exhausted refusals of
        (ob, refusals) \<Rightarrow> (ob, refusals, w))"

definition execute_target ::
  "externals \<Rightarrow> tls_crates \<Rightarrow> 'w platform \<Rightarrow> InquiryTlsTargetV0 \<Rightarrow> InquiryWitnessPlanV0 \<Rightarrow> instant
     \<Rightarrow> InquiryRefusal list \<Rightarrow> 'w \<Rightarrow> InquiryTlsObservationV0 \<times> InquiryRefusal list \<times> 'w"
where
  "execute_target ext cr pf target plan overall_deadline refusals w =
     (case instant_now pf w of
        (started, w) \<Rightarrow>
      let per_target_deadline =
            unwrap_or (instant_checked_add started
                        (from_millis (bnd_per_target_deadline_ms (wp_bounds plan)))) started;
          deadline = min per_target_deadline overall_deadline
      in
      case now_rfc3339 cr pf w of
        (acquired_at, w) \<Rightarrow>
      case instant_now pf w of
        (t, w) \<Rightarrow>
      if checked_duration_since deadline t = None
      then bound_refusal pf target acquired_at bound_check_spend started
             ''total acquisition deadline elapsed before target resolution'' refusals w
      else if parse_ip (tgt_host target) = None
      then bound_refusal pf target acquired_at bound_check_spend started
             ''the system resolver cannot guarantee one packet-level attempt or a hard deadline; declare a numeric host with separate SNI''
             refusals w
      else
      let spend = bound_check_spend\<lparr>sp_dns_attempts := 1,
                    sp_work_units := sp_work_units bound_check_spend + 1\<rparr> in
      case resolve_once pf target w of
        (ResolutionError reason, w) \<Rightarrow>
          failed_observation pf target acquired_at spend started ResolutionFailed RK_ResolutionFailed
            (''the single DNS resolution failed: '' @ reason) refusals w
      | (Addresses [], w) \<Rightarrow>
          failed_observation pf target acquired_at spend started ResolutionFailed RK_ResolutionFailed
            ''the single DNS resolution returned no addresses'' refusals w
      | (Addresses (selected # others), w) \<Rightarrow>
          (case instant_now pf w of
             (t, w) \<Rightarrow>
               if deadline \<le> t
               then bound_refusal pf target acquired_at spend started
                      ''the target deadline elapsed after resolution and before connection'' refusals w
               else probe_selected ext cr pf target plan selected (selected # others) started deadline
                      spend refusals w))"

section \<open>The executor\<close>

fun InquiryCollectorV0_debug :: "InquiryCollectorV0 \<Rightarrow> string" where
  "InquiryCollectorV0_debug TlsCertProbe = ''TlsCertProbe''"

definition grant_admission_refusal :: "string \<Rightarrow> InquiryRefusal" where
  "grant_admission_refusal error =
     InquiryRefusal
       (if str_contains error ''position scope'' then GrantScopeInsufficient
        else if str_contains error ''position depth'' then GrantDepthInsufficient
        else if str_contains error ''remaining acquisition'' then GrantAcquisitionEnvelopeInsufficient
        else GrantMalformed) error"

definition seal_pre_acquisition_refusal ::
  "externals \<Rightarrow> ResolvedInquiryProfileV0 \<Rightarrow> AdmittedInquiryRequestV0 \<Rightarrow> InquiryWitnessPlanV0
     \<Rightarrow> InquiryRefusal \<Rightarrow> InquiryGrantV0 option \<Rightarrow> string + InquiryReceiptV0"
where
  "seal_pre_acquisition_refusal ext resolved request witness_plan refusal grant =
     res_bind
      (case grant of
         None \<Rightarrow> Inr (None, None, None)
       | Some g \<Rightarrow>
           res_bind (with_context ''digesting refused active inquiry grant'' (grant_digest ext g)) (\<lambda>d.
           Inr (Some d, Some (gr_total_acquisition_envelope g), Some spend_default)))
      (\<lambda>(digest, authorized, observed).
     with_context ''sealing pre-acquisition inquiry refusal''
      (seal ext
        \<lparr>rc_schema = INQUIRY_RECEIPT_SCHEMA_V0, rc_version = V0, rc_status = Refused,
         rc_disposition = CannotTestify, rc_request = request, rc_source_snapshot = None,
         rc_finding_state = None, rc_evidence_receipts = [], rc_evidence_coverage = empty_coverage,
         rc_witness_plan = Some witness_plan, rc_tls_observations = [],
         rc_acquisition = Some spend_default, rc_grant_digest = digest,
         rc_authorized_acquisition_envelope = authorized, rc_observed_acquisition_spend = observed,
         rc_coverage = prof_coverage (res_profile resolved),
         rc_cannot_testify = prof_cannot_testify (res_profile resolved) @ [refusal],
         rc_acquisition_spend = 0, rc_receipt_digest = None\<rparr>))"

definition refuse_tls_cert_inquiry_before_acquisition ::
  "externals \<Rightarrow> ResolvedInquiryProfileV0 \<Rightarrow> CandidateInquiryPlanV0 \<Rightarrow> InquiryRefusal
     \<Rightarrow> string + InquiryReceiptV0"
where
  "refuse_tls_cert_inquiry_before_acquisition ext resolved plan refusal =
     res_bind (with_context ''admitting refused active inquiry request'' (admit ext plan resolved)) (\<lambda>request.
     res_bind
      (with_context ''resolving refused active inquiry witness plan''
        (InquiryWitnessPlanV0_resolve ext request resolved)) (\<lambda>witness_plan.
     seal_pre_acquisition_refusal ext resolved request witness_plan refusal None))"

type_synonym 'w acquire =
  "InquiryTlsTargetV0 \<Rightarrow> InquiryWitnessPlanV0 \<Rightarrow> instant \<Rightarrow> InquiryRefusal list \<Rightarrow> 'w
     \<Rightarrow> InquiryTlsObservationV0 \<times> InquiryRefusal list \<times> 'w"

text \<open>The loop over the planned targets.\<close>

fun survey ::
  "tls_crates \<Rightarrow> 'w platform \<Rightarrow> 'w acquire \<Rightarrow> InquiryWitnessPlanV0 \<Rightarrow> instant \<Rightarrow> bool
     \<Rightarrow> InquiryTlsTargetV0 list \<Rightarrow> InquiryRefusal list \<Rightarrow> 'w
     \<Rightarrow> InquiryTlsObservationV0 list \<times> InquiryRefusal list \<times> 'w"
where
  "survey cr pf acquire plan deadline halted [] cannot w = ([], cannot, w)"
| "survey cr pf acquire plan deadline halted (target # targets) cannot w =
     (case (if halted
            then (case now_rfc3339 cr pf w of (acquired_at, w) \<Rightarrow>
                  case instant_now pf w of (t, w) \<Rightarrow>
                    bound_refusal pf target acquired_at bound_check_spend t
                      ''acquisition halted after an earlier target could not honor its bound'' cannot w)
            else acquire target plan deadline cannot w) of
        (ob, cannot, w) \<Rightarrow>
          (case survey cr pf acquire plan deadline (ob_outcome ob = AcquisitionBoundRefused) targets cannot w of
             (obs, cannot, w) \<Rightarrow> (ob # obs, cannot, w)))"

text \<open>The totals of the second loop: every counter but the wall time.\<close>

definition add_counters ::
  "InquiryAcquisitionSpendV0 \<Rightarrow> InquiryAcquisitionSpendV0 \<Rightarrow> InquiryAcquisitionSpendV0"
where
  "add_counters a s =
     a\<lparr>sp_dns_attempts := sp_dns_attempts a + sp_dns_attempts s,
       sp_connection_attempts := sp_connection_attempts a + sp_connection_attempts s,
       sp_handshakes_attempted := sp_handshakes_attempted a + sp_handshakes_attempted s,
       sp_handshakes_completed := sp_handshakes_completed a + sp_handshakes_completed s,
       sp_bound_checks := sp_bound_checks a + sp_bound_checks s,
       sp_work_units := sp_work_units a + sp_work_units s\<rparr>"

definition survey_receipt ::
  "ResolvedInquiryProfileV0 \<Rightarrow> AdmittedInquiryRequestV0 \<Rightarrow> InquiryWitnessPlanV0 \<Rightarrow> string
     \<Rightarrow> InquiryAcquisitionSpendV0 \<Rightarrow> InquiryTlsObservationV0 list \<Rightarrow> InquiryRefusal list \<Rightarrow> u64 \<Rightarrow> InquiryReceiptV0"
where
  "survey_receipt resolved request witness_plan digest authorized observations cannot wall_ms =
     (let acquisition =
            foldl add_counters (spend_default\<lparr>sp_wall_ms := wall_ms\<rparr>) (map ob_spend observations)
      in
      \<lparr>rc_schema = INQUIRY_RECEIPT_SCHEMA_V0, rc_version = V0,
       rc_status = (if list_ex (\<lambda>ob. outcome_refuses (ob_outcome ob)) observations then Refused else Answered),
       rc_disposition = PerTargetOutcomes, rc_request = request, rc_source_snapshot = None,
       rc_finding_state = None, rc_evidence_receipts = [], rc_evidence_coverage = empty_coverage,
       rc_witness_plan = Some witness_plan, rc_tls_observations = observations,
       rc_acquisition = Some acquisition, rc_grant_digest = Some digest,
       rc_authorized_acquisition_envelope = Some authorized,
       rc_observed_acquisition_spend = Some acquisition,
       rc_coverage = prof_coverage (res_profile resolved), rc_cannot_testify = cannot,
       rc_acquisition_spend = sp_work_units acquisition, rc_receipt_digest = None\<rparr>)"

text \<open>The part after the grant is accepted.\<close>

definition run_survey ::
  "externals \<Rightarrow> tls_crates \<Rightarrow> 'w platform \<Rightarrow> 'w acquire \<Rightarrow> ResolvedInquiryProfileV0
     \<Rightarrow> AdmittedInquiryRequestV0 \<Rightarrow> InquiryWitnessPlanV0 \<Rightarrow> string \<Rightarrow> InquiryAcquisitionSpendV0 \<Rightarrow> 'w
     \<Rightarrow> (string + InquiryReceiptV0) \<times> 'w"
where
  "run_survey ext cr pf acquire resolved request witness_plan digest authorized w =
     (case instant_now pf w of
        (overall_started, w) \<Rightarrow>
      let overall_deadline =
            unwrap_or (instant_checked_add overall_started
                        (from_millis (bnd_total_deadline_ms (wp_bounds witness_plan)))) overall_started
      in
      case survey cr pf acquire witness_plan overall_deadline False (wp_targets witness_plan)
             (prof_cannot_testify (res_profile resolved)) w of
        (observations, cannot, w) \<Rightarrow>
      case elapsed_ms pf overall_started w of
        (ms, w) \<Rightarrow>
      (with_context ''sealing active inquiry receipt''
         (seal ext (survey_receipt resolved request witness_plan digest authorized observations cannot ms)),
       w))"

definition execute_tls_cert_inquiry_with ::
  "externals \<Rightarrow> tls_crates \<Rightarrow> 'w platform \<Rightarrow> 'w acquire \<Rightarrow> ResolvedInquiryProfileV0
     \<Rightarrow> CandidateInquiryPlanV0 \<Rightarrow> InquiryGrantV0 \<Rightarrow> 'w \<Rightarrow> (string + InquiryReceiptV0) \<times> 'w"
where
  "execute_tls_cert_inquiry_with ext cr pf acquire resolved plan grant w =
     (case with_context ''admitting active inquiry request'' (admit ext plan resolved) of
        Inl e \<Rightarrow> (Inl e, w)
      | Inr request \<Rightarrow>
     (case with_context ''resolving active inquiry witness plan''
             (InquiryWitnessPlanV0_resolve ext request resolved) of
        Inl e \<Rightarrow> (Inl e, w)
      | Inr witness_plan \<Rightarrow>
      if wp_validation_policy witness_plan \<noteq> Webpki
      then (Inl ''active inquiry V0 only executes WebPKI validation'', w)
      else
     (case with_context ''rendering active inquiry grant requirements''
             (InquiryPreflightV0_render ext plan resolved) of
        Inl e \<Rightarrow> (Inl e, w)
      | Inr preflight \<Rightarrow>
     (case admit_initial_position grant (requirements_position (pf_grant_requirements preflight)) of
        Inl error \<Rightarrow>
          let refusal = grant_admission_refusal error;
              valid_grant = (if rfl_kind refusal \<noteq> GrantMalformed then Some grant else None)
          in (seal_pre_acquisition_refusal ext resolved request witness_plan refusal valid_grant, w)
      | Inr _ \<Rightarrow>
      if wp_collector witness_plan |\<notin>| gr_permitted_witness_classes grant
      then (seal_pre_acquisition_refusal ext resolved request witness_plan
              (InquiryRefusal GrantWitnessClassNotPermitted
                (''grant permitted_witness_classes does not include ''
                   @ InquiryCollectorV0_debug (wp_collector witness_plan)))
              (Some grant), w)
      else
     (case with_context ''digesting admitted active inquiry grant'' (grant_digest ext grant) of
        Inl e \<Rightarrow> (Inl e, w)
      | Inr digest \<Rightarrow>
          run_survey ext cr pf acquire resolved request witness_plan digest
            (gr_total_acquisition_envelope grant) w)))))"

definition execute_tls_cert_inquiry ::
  "externals \<Rightarrow> tls_crates \<Rightarrow> 'w platform \<Rightarrow> ResolvedInquiryProfileV0 \<Rightarrow> CandidateInquiryPlanV0
     \<Rightarrow> InquiryGrantV0 \<Rightarrow> 'w \<Rightarrow> (string + InquiryReceiptV0) \<times> 'w"
where
  "execute_tls_cert_inquiry ext cr pf resolved plan grant w =
     execute_tls_cert_inquiry_with ext cr pf (execute_target ext cr pf) resolved plan grant w"

section \<open>What one target reports\<close>

definition stage_spend :: "InquiryAcquisitionSpendV0 \<Rightarrow> bool" where
  "stage_spend s \<longleftrightarrow>
     sp_bound_checks s = 1 \<and> sp_dns_attempts s \<le> 1 \<and> sp_connection_attempts s \<le> sp_dns_attempts s
     \<and> sp_handshakes_attempted s \<le> sp_connection_attempts s
     \<and> sp_handshakes_completed s \<le> sp_handshakes_attempted s \<and> sp_work_units s = counted_work_units s"

text \<open>The two combinations of outcome and validation that \<open>verify_shape\<close> refuses.\<close>

definition contradictory :: "InquiryTlsObservationV0 \<Rightarrow> bool" where
  "contradictory ob \<longleftrightarrow>
     ob_outcome ob \<in> {NameMismatch, ExpiredUnderAcquisitionClock} \<and> ob_validation_result ob = Valid"

definition target_testimony :: "InquiryTlsObservationV0 \<Rightarrow> bool" where
  "target_testimony ob \<longleftrightarrow>
     stage_spend (ob_spend ob) \<and> length (ob_refusals ob) \<le> 1 \<and> (ob_refusals ob \<noteq> [] \<longleftrightarrow> outcome_refuses (ob_outcome ob))
     \<and> (shape_is_valid ob \<longleftrightarrow> \<not> contradictory ob)"

text \<open>Timestamps that parse and digests of the right form.\<close>

definition dated :: "externals \<Rightarrow> InquiryTlsObservationV0 \<Rightarrow> bool" where
  "dated ext ob \<longleftrightarrow>
     (\<forall>t \<in> {ob_acquired_at ob} \<union> set_option (ob_not_before ob) \<union> set_option (ob_not_after ob).
        is_ok (rfc3339_parse ext t))"

definition digested :: "InquiryTlsObservationV0 \<Rightarrow> bool" where
  "digested ob \<longleftrightarrow>
     (\<forall>d \<in> set_option (ob_certificate_digest ob) \<union> set_option (ob_chain_digest ob). is_sha256_digest d)"

lemma verify_shape_iff:
  "verify_shape ext ob = Inr () \<longleftrightarrow>
     digested ob \<and> (\<forall>t \<in> set_option (ob_not_before ob) \<union> set_option (ob_not_after ob). is_ok (rfc3339_parse ext t))
     \<and> shape_is_valid ob"
  by (auto simp: verify_shape_def checks_ok refuse_if_ok digested_def discard_ok is_ok_parse
      split: option.splits)

lemma failed_observation_is:
  assumes "failed_observation pf t acq s started out kind stmt refs w = (ob, refs', w')"
  shows "ob_target ob = t" "ob_refusals ob = [target_refusal t kind stmt]" "refs' = refs @ ob_refusals ob"
    "ob_outcome ob = out" "\<exists>ms. ob_spend ob = s\<lparr>sp_wall_ms := ms\<rparr>" "ob_acquired_at ob = acq"
    "ob_observed_ip ob = None" "no_certificate_evidence ob" "ob_validation_result ob = NotAttempted"
  using assms by (auto simp: failed_observation_def Let_def no_certificate_evidence_def split: prod.splits)

lemma rfl_kind_target_refusal [simp]: "rfl_kind (target_refusal t kind stmt) = kind"
  by (simp add: target_refusal_def)

lemma stage_spend_wall [simp]: "stage_spend (s\<lparr>sp_wall_ms := ms\<rparr>) = stage_spend s"
  by (simp add: stage_spend_def counted_work_units_def)

lemma bound_refusal_testimony:
  assumes "bound_refusal pf t acq s started stmt refs w = (ob, refs', w')" "stage_spend s"
  shows "ob_target ob = t \<and> refs' = refs @ ob_refusals ob \<and> target_testimony ob"
    "ob_outcome ob = AcquisitionBoundRefused"
proof -
  note f = failed_observation_is [OF assms(1) [unfolded bound_refusal_def]]
  from f assms(2) show "ob_target ob = t \<and> refs' = refs @ ob_refusals ob \<and> target_testimony ob"
    "ob_outcome ob = AcquisitionBoundRefused"
    by (auto simp: target_testimony_def outcome_refuses_def shape_is_valid_def Let_def has_refusal_def
        contradictory_def)
qed

lemma bound_check_stage: "stage_spend bound_check_spend"
  by (simp add: stage_spend_def bound_check_spend_def spend_default_def counted_work_units_def)

abbreviation resolved_spend :: InquiryAcquisitionSpendV0 where
  "resolved_spend \<equiv> bound_check_spend\<lparr>sp_dns_attempts := 1, sp_work_units := sp_work_units bound_check_spend + 1\<rparr>"

lemma resolved_stage: "stage_spend resolved_spend"
  by (simp add: stage_spend_def bound_check_spend_def spend_default_def counted_work_units_def)

definition counted_spend :: "bool \<Rightarrow> bool \<Rightarrow> bool \<Rightarrow> u64 \<Rightarrow> InquiryAcquisitionSpendV0" where
  "counted_spend conn hs completed ms =
     \<lparr>sp_dns_attempts = 1, sp_connection_attempts = of_bool conn, sp_handshakes_attempted = of_bool hs,
      sp_handshakes_completed = of_bool completed, sp_bound_checks = 1, sp_wall_ms = ms,
      sp_work_units = 2 + of_bool conn + of_bool hs\<rparr>"

lemma count_probe_spend:
  "(count_probe r resolved_spend)\<lparr>sp_wall_ms := ms\<rparr> =
     counted_spend (bp_connection_attempted r) (bp_handshake_attempted r)
       (dlv_tls_handshake_completed (pr_delivery_basis (bp_receipt r))) ms"
  by (simp add: count_probe_def counted_spend_def bound_check_spend_def spend_default_def Let_def)

lemma counted_stage: "(c \<longrightarrow> hs) \<Longrightarrow> (hs \<longrightarrow> conn) \<Longrightarrow> stage_spend (counted_spend conn hs c ms)"
  by (auto simp: stage_spend_def counted_spend_def counted_work_units_def of_bool_def)

lemma or_else_simps [simp]: "or_else None y = y" "or_else (Some v) y = Some v"
  by (simp_all add: or_else_def)

lemma chain_digest_Nil [simp]: "chain_digest ext [] = None"
  by (simp add: chain_digest_def)

lemmas probe_shape = target_testimony_def counted_stage shape_is_valid_def Let_def has_refusal_def
  contradictory_def outcome_refuses_def certificate_observed_def no_certificate_evidence_def

lemma map_probe_fields:
  assumes "map_probe_receipt ext t sel r s ex refs = (ob, refs')"
  shows "ob_target ob = t \<and> refs' = refs @ ob_refusals ob \<and> ob_spend ob = s
     \<and> ob_acquired_at ob = pr_probe_time (bp_receipt r)"
  using assms by (auto simp: map_probe_receipt_def Let_def split: prod.splits)

lemma map_probe_testimony_exhausted:
  assumes "map_probe_receipt ext t sel r s True refs = (ob, refs')" "stage_spend s"
  shows "target_testimony ob"
  using assms by (auto simp: map_probe_receipt_def probe_shape)

lemma map_probe_testimony_failed:
  assumes "map_probe_receipt ext t sel r (counted_spend True hs False ms) ex refs = (ob, refs')"
    and "bp_receipt r = finish cr target (failed_facts dns hs tms el) policy clock now" "dns \<noteq> []"
    and "bp_leaf_der_digest r = None" "bp_chain_der_digest r = None"
  shows "target_testimony ob"
  using assms by (cases ex; cases hs)
    (auto simp: map_probe_receipt_def probe_shape failed_verdict, simp_all add: counted_spend_def)

lemma chain_verdict_cases:
  "compute_verdict cr (chain_facts ext cr dns chain sni now tms el) policy (first_cert (parsed_certs ext cr chain)) now
    \<in> (if parsed_certs ext cr chain = [] then {TV_NoCertificatePresented}
       else {TV_NameMismatch, TV_ExpiredUnderProbeClock}
         \<union> (if validate_observed_chain cr chain sni now = CV_Valid
            then {TV_ValidButWithinWarningHorizon, TV_ValidAtProbeTime} else {TV_ChainInvalid}))"
proof (cases "parsed_certs ext cr chain")
  case Nil
  then show ?thesis by (simp add: compute_verdict_def)
next
  case (Cons leaf rest)
  with validation_attempted [of cr chain sni now] show ?thesis
    by (cases "validate_observed_chain cr chain sni now") (auto simp: compute_verdict_def)
qed

lemma map_probe_testimony_observed:
  assumes "map_probe_receipt ext t sel r (counted_spend True True True ms) ex refs = (ob, refs')"
    and "bp_receipt r = finish cr target (chain_facts ext cr dns chain sni now tms el) policy clock now"
    and "bp_leaf_der_digest r = map_option (digest_der ext) (first_cert chain)"
    and "bp_chain_der_digest r = (if chain = [] then None else Some (digest_der_parts ext chain))"
  shows "target_testimony ob"
proof (cases ex)
  case True
  with assms(1) show ?thesis by (auto intro: map_probe_testimony_exhausted simp: counted_stage)
next
  case False
  note v = chain_verdict_cases [where ext = ext and cr = cr and dns = dns and chain = chain and sni = sni
    and now = now and tms = tms and el = el and policy = policy]
  have st: "stage_spend (counted_spend True True True ms)" by (simp add: counted_stage)
  have one: "sp_handshakes_completed (counted_spend True True True ms) = 1" by (simp add: counted_spend_def)
  show ?thesis
  proof (cases "parsed_certs ext cr chain")
    case Nil
    with v False assms st one show ?thesis by (auto simp: map_probe_receipt_def probe_shape)
  next
    case (Cons leaf rest)
    then have "chain \<noteq> []" by auto
    then obtain l c where "chain = l # c" by (cases chain) auto
    with v Cons False assms st one validation_attempted [of cr chain sni now] show ?thesis
      by (cases "validate_observed_chain cr chain sni now")
        (auto simp: map_probe_receipt_def probe_shape split: if_splits)
  qed
qed

lemma probe_testimony:
  assumes "probe_tls_cert_resolved ext cr pf sel dns target policy started dl tms clock now w = (r, w')"
    and "map_probe_receipt ext t sel' r ((count_probe r resolved_spend)\<lparr>sp_wall_ms := ms\<rparr>) ex refs = (ob, refs')"
    and "bp_deadline_exhausted r \<longrightarrow> ex" "dns \<noteq> []"
  shows "ob_target ob = t \<and> refs' = refs @ ob_refusals ob \<and> target_testimony ob"
proof -
  note m = assms(2) [unfolded count_probe_spend]
  from assms(1) have "target_testimony ob"
  proof (cases rule: probe_resolved_cases)
    case (out_of_time el)
    with m assms(3) show ?thesis
      by (intro map_probe_testimony_exhausted [of ext t sel' r "counted_spend False False False ms" refs ob refs'])
        (simp_all add: counted_stage)
  next
    case (unconnected el x)
    with m assms(4) show ?thesis
      by (intro map_probe_testimony_failed [of ext t sel' r False ms ex refs ob refs']) auto
  next
    case (no_handshake el x)
    with m assms(4) show ?thesis
      by (intro map_probe_testimony_failed [of ext t sel' r True ms ex refs ob refs']) auto
  next
    case (observed el chain)
    with m show ?thesis
      by (intro map_probe_testimony_observed [of ext t sel' r ms ex refs ob refs']) auto
  qed
  with map_probe_fields [OF assms(2)] show ?thesis by blast
qed

lemma probe_selected_cases:
  assumes "probe_selected ext cr pf t plan sel addrs started dl s refs w = (ob, refs', w')"
  obtains now w1 td target policy clock tms w2 r w3 ms ex where
    "now_utc pf w = (now, w1)"
    "probe_tls_cert_resolved ext cr pf sel (map (\<lambda>a. show_ip (sa_ip a)) addrs) target policy started td tms
       clock now w2 = (r, w3)"
    "map_probe_receipt ext t sel r ((count_probe r s)\<lparr>sp_wall_ms := ms\<rparr>) ex refs = (ob, refs')"
    "bp_deadline_exhausted r \<longrightarrow> ex"
proof -
  obtain now w1 where 1: "now_utc pf w = (now, w1)" by fastforce
  obtain i w2 where 2: "instant_now pf w1 = (i, w2)" by fastforce
  let ?td = "unwrap_or (instant_checked_sub dl (min (unwrap_or (checked_duration_since dl i) 0 div 10)
    (from_millis 50))) dl"
  obtain r w3 where 3: "probe_tls_cert_resolved ext cr pf sel (map (\<lambda>a. show_ip (sa_ip a)) addrs)
      \<lparr>tct_target = endpoint t, tct_sni = tgt_sni t, tct_vantage = wp_vantage plan\<rparr>
      \<lparr>pol_expected_names = [tgt_sni t], pol_warning_threshold_days = uint (wp_expiry_horizon_days plan),
       pol_validation_policy = VP_Webpki\<rparr> started ?td (bnd_per_target_deadline_ms (wp_bounds plan))
      \<lparr>cb_source = ''system_wall'', cb_ntp_status = ''unknown''\<rparr> now w2 = (r, w3)" by fastforce
  obtain ms w4 where 4: "elapsed_ms pf started w3 = (ms, w4)" by fastforce
  obtain ex w5 where 5: "(if bp_deadline_exhausted r then (True, w4)
      else case instant_now pf w4 of (j, w) \<Rightarrow> (dl \<le> j, w)) = (ex, w5)" by fastforce
  obtain ob2 refs2 where 6:
    "map_probe_receipt ext t sel r ((count_probe r s)\<lparr>sp_wall_ms := ms\<rparr>) ex refs = (ob2, refs2)" by fastforce
  from assms have "(ob2, refs2, w5) = (ob, refs', w')"
    unfolding probe_selected_def Let_def 1 2 3 4 5 6 prod.case by simp
  with 6 have m: "map_probe_receipt ext t sel r ((count_probe r s)\<lparr>sp_wall_ms := ms\<rparr>) ex refs = (ob, refs')"
    by simp
  from 5 have "bp_deadline_exhausted r \<longrightarrow> ex" by (auto split: if_splits)
  then show thesis by (rule that [OF 1 3 m])
qed

lemma probe_selected_testimony:
  assumes "probe_selected ext cr pf t plan sel addrs started dl resolved_spend refs w = (ob, refs', w')" "addrs \<noteq> []"
  shows "ob_target ob = t \<and> refs' = refs @ ob_refusals ob \<and> target_testimony ob"
  using assms(1) by (rule probe_selected_cases) (rule probe_testimony, use assms(2) in auto)

text \<open>
  The paths through \<open>execute_target\<close>: a host that is not numeric is refused, a numeric one
  resolves to itself, so the resolver is never asked and resolution cannot fail.
\<close>

lemma resolve_numeric:
  assumes "parse_ip (tgt_host t) \<noteq> None"
  obtains a where "\<And>w. resolve_once pf t w = (Addresses [a], w)" "sa_port a = tgt_port t"
proof -
  from assms obtain ip where "parse_ip (tgt_host t) = Some ip" by auto
  then have "parse_ipv4 (tgt_host t) = Some ip \<or> parse_ipv4 (tgt_host t) \<noteq> None \<or> parse_ipv6 (tgt_host t) = Some ip"
    by (auto dest: parse_ip_cases)
  then show thesis
    by (cases "parse_ipv4 (tgt_host t)")
      (auto intro!: that [of "\<lparr>sa_ip = _, sa_port = tgt_port t\<rparr>"] simp: resolve_once_def to_socket_addrs_def)
qed

lemma execute_target_cases:
  assumes "execute_target ext cr pf t plan od refs w = (ob, refs', w')"
  obtains
    (refused) acq w1 w2 w3 started s stmt where "now_rfc3339 cr pf w1 = (acq, w2)"
      "stage_spend s" "bound_refusal pf t acq s started stmt refs w3 = (ob, refs', w')"
  | (probed) sel started dl w1 where
      "probe_selected ext cr pf t plan sel [sel] started dl resolved_spend refs w1 = (ob, refs', w')"
proof -
  obtain started w1 where 1: "instant_now pf w = (started, w1)" by fastforce
  obtain acq w2 where 2: "now_rfc3339 cr pf w1 = (acq, w2)" by fastforce
  obtain i w3 where 3: "instant_now pf w2 = (i, w3)" by fastforce
  obtain D where D: "D = min (unwrap_or (instant_checked_add started
    (from_millis (bnd_per_target_deadline_ms (wp_bounds plan)))) started) od" by simp
  note ex = assms [unfolded execute_target_def Let_def 1 2 3 prod.case, folded D]
  show thesis
  proof (cases "checked_duration_since D i = None \<or> parse_ip (tgt_host t) = None")
    case True
    with ex obtain stmt where "bound_refusal pf t acq bound_check_spend started stmt refs w3 = (ob, refs', w')"
      by (cases "checked_duration_since D i = None") auto
    then show thesis by (rule refused [OF 2 bound_check_stage])
  next
    case False
    then have n: "(checked_duration_since D i = None) = False" "(parse_ip (tgt_host t) = None) = False"
      by auto
    from False obtain a where r: "\<And>w. resolve_once pf t w = (Addresses [a], w)" using resolve_numeric [of t pf] by auto
    obtain j w4 where 4: "instant_now pf w3 = (j, w4)" by fastforce
    note ex2 = ex [unfolded n if_False r 4 prod.case Resolution.case list.case]
    show thesis
    proof (cases "D \<le> j")
      case True
      with ex2 have "bound_refusal pf t acq resolved_spend started
          ''the target deadline elapsed after resolution and before connection'' refs w4 = (ob, refs', w')" by simp
      then show thesis by (rule refused [OF 2 resolved_stage])
    next
      case late: False
      with ex2 show thesis by (intro probed [of a started D w4]) simp
    qed
  qed
qed

lemma execute_target_testimony:
  assumes "execute_target ext cr pf t plan od refs w = (ob, refs', w')"
  shows "ob_target ob = t \<and> refs' = refs @ ob_refusals ob \<and> target_testimony ob"
  using assms
proof (cases rule: execute_target_cases)
  case refused
  then show ?thesis by (auto dest: bound_refusal_testimony)
next
  case probed
  then show ?thesis by (rule probe_selected_testimony) simp
qed

text \<open>
  What the \<open>time\<close> crate promises for the dates that occur: the clock and the certificates
  give instants that have an RFC 3339 form, and that form parses.
\<close>

definition timestamps_ok :: "externals \<Rightarrow> tls_crates \<Rightarrow> 'w platform \<Rightarrow> bool" where
  "timestamps_ok ext cr pf \<longleftrightarrow>
     (\<forall>w t w'. now_utc pf w = (t, w') \<longrightarrow>
        (\<exists>s. rfc3339_format cr t = Some s \<and> is_ok (rfc3339_parse ext s)))
     \<and> (\<forall>der c t. x509_from_der cr der = Inr c \<and> (t = x509_not_before c \<or> t = x509_not_after c) \<longrightarrow>
        (\<exists>s. rfc3339_format cr t = Some s \<and> is_ok (rfc3339_parse ext s)))"

lemma now_parses:
  "timestamps_ok ext cr pf \<Longrightarrow> now_utc pf w = (t, w') \<Longrightarrow> is_ok (rfc3339_parse ext (rfc3339 cr t))"
  unfolding timestamps_ok_def rfc3339_def by (metis unwrap_or_simps(2))

lemma now_rfc3339_parses:
  "timestamps_ok ext cr pf \<Longrightarrow> now_rfc3339 cr pf w = (s, w') \<Longrightarrow> is_ok (rfc3339_parse ext s)"
  by (auto simp: timestamps_ok_def now_rfc3339_def split: prod.splits) (metis unwrap_or_simps(2))

lemma parsed_cert_dates:
  assumes "timestamps_ok ext cr pf" "c \<in> set (parsed_certs ext cr chain)"
  shows "is_ok (rfc3339_parse ext (rfc3339 cr (pc_not_before c)))"
    "is_ok (rfc3339_parse ext (rfc3339 cr (pc_not_after c)))"
proof -
  from assms(2) obtain der where p: "parse_presented_cert ext cr der = Inr c"
    by (auto simp: parsed_certs_def dest: sym split: sum.splits)
  from p obtain x where "x509_from_der cr der = Inr x" "pc_not_before c = x509_not_before x"
    "pc_not_after c = x509_not_after x"
    by (auto simp: parse_presented_cert_def res_bind_Inr_iff map_err_Inr_iff)
  with assms(1) show "is_ok (rfc3339_parse ext (rfc3339 cr (pc_not_before c)))"
    "is_ok (rfc3339_parse ext (rfc3339 cr (pc_not_after c)))"
    unfolding timestamps_ok_def rfc3339_def by (metis unwrap_or_simps(2))+
qed

lemma first_cert_in_set: "first_cert xs = Some x \<Longrightarrow> x \<in> set xs"
  by (auto simp: first_cert_eq)

lemma sha256_form: "sha256_shape ext \<Longrightarrow> is_sha256_digest (''sha256:'' @ sha256_hex ext b)"
  unfolding is_sha256_digest_def DIGEST_ALGORITHM_PREFIX_def strip_prefix_append
  by (simp add: sha256_shape_def)

lemmas digest_forms = sha256_form [unfolded digest_der_def [symmetric]]
  sha256_form [where b = "concat (map length_prefixed parts)" for parts, unfolded digest_der_parts_def [symmetric]]

lemma probe_evidence:
  assumes "probe_tls_cert_resolved ext cr pf sel dns target policy started dl tms clock now w = (r, w')"
    and "now_utc pf w0 = (now, w1)" and "map_probe_receipt ext t sel r s ex refs = (ob, refs')"
  shows "timestamps_ok ext cr pf \<Longrightarrow> dated ext ob" "sha256_shape ext \<Longrightarrow> digested ob"
proof -
  have ob: "ob_acquired_at ob = pr_probe_time (bp_receipt r)" "ob_not_before ob = pr_leaf_not_before (bp_receipt r)"
    "ob_not_after ob = pr_leaf_not_after (bp_receipt r)"
    "ob_certificate_digest ob = or_else (bp_leaf_der_digest r)
       (map_option normalize_fingerprint (first_cert (pr_chain_fingerprints (bp_receipt r))))"
    "ob_chain_digest ob = or_else (bp_chain_der_digest r) (chain_digest ext (pr_chain_fingerprints (bp_receipt r)))"
    using assms(3) by (auto simp: map_probe_receipt_def Let_def split: prod.splits)
  from assms(1) show "timestamps_ok ext cr pf \<Longrightarrow> dated ext ob"
    by (cases rule: probe_resolved_cases)
      (auto simp: ob dated_def now_parses [OF _ assms(2)] parsed_cert_dates dest!: first_cert_in_set)
  from assms(1) show "sha256_shape ext \<Longrightarrow> digested ob"
  proof (cases rule: probe_resolved_cases)
    case (observed el chain)
    then show "sha256_shape ext \<Longrightarrow> digested ob"
      by (cases chain) (simp_all add: ob digested_def digest_forms)
  qed (simp_all add: ob digested_def)
qed

lemma bound_refusal_evidence:
  assumes "bound_refusal pf t acq s started stmt refs w = (ob, refs', w')"
  shows "is_ok (rfc3339_parse ext acq) \<Longrightarrow> dated ext ob" "digested ob"
  using failed_observation_is [OF assms [unfolded bound_refusal_def]]
  by (simp_all add: dated_def digested_def no_certificate_evidence_def)

lemma execute_target_evidence:
  assumes "execute_target ext cr pf t plan od refs w = (ob, refs', w')"
  shows "timestamps_ok ext cr pf \<Longrightarrow> dated ext ob" "sha256_shape ext \<Longrightarrow> digested ob"
  using assms
proof (atomize (full), cases rule: execute_target_cases)
  case (refused acq w1 w2 w3 started s stmt)
  from bound_refusal_evidence [OF refused(3)] now_rfc3339_parses [OF _ refused(1)]
  show "(timestamps_ok ext cr pf \<longrightarrow> dated ext ob) \<and> (sha256_shape ext \<longrightarrow> digested ob)" by blast
next
  case (probed sel started dl w1)
  then show "(timestamps_ok ext cr pf \<longrightarrow> dated ext ob) \<and> (sha256_shape ext \<longrightarrow> digested ob)"
    by (rule probe_selected_cases) (blast intro: probe_evidence)
qed

text \<open>
  The fingerprint fallback is consistent: normalising the colon-separated upper-case
  fingerprint of a certificate gives the digest that the transport computes from its bytes.
\<close>

lemma fingerprint_roundtrip:
  assumes "sha256_shape ext"
  shows "normalize_fingerprint (der_fingerprint ext der) = digest_der ext der"
proof -
  have "list_all is_lower_hex (sha256_hex ext der)" using assms by (simp add: sha256_shape_def)
  then show ?thesis
    by (simp add: normalize_fingerprint_def digest_der_def fingerprint_hex [OF assms] lower_upper)
qed

end
