(* ===== verification/Inquiry_Survey.thy ===== *)
theory Inquiry_Survey
  imports Inquiry_Execution
begin

text \<open>
  Correctness of the executor of \<open>Inquiry_Execution\<close>: the survey loop over an arbitrary
  acquisition function (an interface, provided by \<open>execute_target\<close>), the books of the
  receipt it builds, exactly when that receipt can be sealed, and what happens with a grant that
  does not cover the plan.
\<close>

section \<open>The survey\<close>

text \<open>One round of the loop.\<close>

lemma survey_Cons_cases:
  assumes "survey cr pf acquire plan dl halted (t # ts) cannot w = (obs, cannot', w')"
  obtains ob rest cannot1 w1 where "obs = ob # rest"
    "halted \<longrightarrow> (\<exists>acq w2 i stmt w3. now_rfc3339 cr pf w = (acq, w2)
       \<and> bound_refusal pf t acq bound_check_spend i stmt cannot w3 = (ob, cannot1, w1))"
    "\<not> halted \<longrightarrow> acquire t plan dl cannot w = (ob, cannot1, w1)"
    "survey cr pf acquire plan dl (ob_outcome ob = AcquisitionBoundRefused) ts cannot1 w1 = (rest, cannot', w')"
proof -
  define step where "step = (if halted
      then (case now_rfc3339 cr pf w of (acq, w) \<Rightarrow> case instant_now pf w of (i, w) \<Rightarrow>
              bound_refusal pf t acq bound_check_spend i
                ''acquisition halted after an earlier target could not honor its bound'' cannot w)
      else acquire t plan dl cannot w)"
  obtain ob cannot1 w1 where s: "step = (ob, cannot1, w1)" by (cases step) auto
  obtain rest cannot2 w2 where r: "survey cr pf acquire plan dl (ob_outcome ob = AcquisitionBoundRefused) ts
      cannot1 w1 = (rest, cannot2, w2)" using prod_cases3 by blast
  from assms have "(ob # rest, cannot2, w2) = (obs, cannot', w')"
    unfolding survey.simps step_def [symmetric] s prod.case r by simp
  moreover from s have "halted \<longrightarrow> (\<exists>acq w2 i stmt w3. now_rfc3339 cr pf w = (acq, w2)
       \<and> bound_refusal pf t acq bound_check_spend i stmt cannot w3 = (ob, cannot1, w1))"
    by (auto simp: step_def split: prod.splits) blast
  moreover from s have "\<not> halted \<longrightarrow> acquire t plan dl cannot w = (ob, cannot1, w1)" by (auto simp: step_def)
  ultimately show thesis using r by (intro that [of ob rest cannot1 w1]) auto
qed

text \<open>
  The executor takes the function that acquires a target as an argument. What it relies on: the
  observation is about the target it was asked for, its refusals are appended to the receipt's,
  and it has the property \<open>good\<close>, which the refusals of halted targets have too.
\<close>

locale target_acquirer =
  fixes cr :: tls_crates and pf :: "'w platform" and acquire :: "'w acquire"
    and good :: "InquiryTlsObservationV0 \<Rightarrow> bool"
  assumes acquired: "acquire t plan dl refs w = (ob, refs', w') \<Longrightarrow>
      ob_target ob = t \<and> refs' = refs @ ob_refusals ob \<and> good ob"
    and halted_good: "now_rfc3339 cr pf w1 = (acq, w2) \<Longrightarrow>
      bound_refusal pf t acq bound_check_spend started stmt refs w = (ob, refs', w') \<Longrightarrow> good ob"
begin

lemma survey_reports:
  assumes "survey cr pf acquire plan dl halted ts cannot w = (obs, cannot', w')"
  shows "map ob_target obs = ts \<and> cannot' = cannot @ concat (map ob_refusals obs) \<and> (\<forall>ob \<in> set obs. good ob)"
  using assms
proof (induction ts arbitrary: halted cannot w obs)
  case (Cons t ts)
  from Cons.prems show ?case
  proof (rule survey_Cons_cases)
    fix ob rest cannot1 w1
    assume o: "obs = ob # rest"
      and h: "halted \<longrightarrow> (\<exists>acq w2 i stmt w3. now_rfc3339 cr pf w = (acq, w2)
        \<and> bound_refusal pf t acq bound_check_spend i stmt cannot w3 = (ob, cannot1, w1))"
        "\<not> halted \<longrightarrow> acquire t plan dl cannot w = (ob, cannot1, w1)"
      and s: "survey cr pf acquire plan dl (ob_outcome ob = AcquisitionBoundRefused) ts cannot1 w1 = (rest, cannot', w')"
    have "ob_target ob = t \<and> cannot1 = cannot @ ob_refusals ob \<and> good ob"
      using h by (cases halted)
        (auto dest: acquired bound_refusal_testimony(1) [OF _ bound_check_stage] halted_good)
    with o Cons.IH [OF s] show ?case by simp
  qed
qed simp

end

interpretation probe: target_acquirer cr pf "execute_target ext cr pf"
  "\<lambda>ob. target_testimony ob \<and> (timestamps_ok ext cr pf \<longrightarrow> dated ext ob) \<and> (sha256_shape ext \<longrightarrow> digested ob)"
  for ext cr pf
proof
  fix t plan dl refs w ob refs' w'
  assume "execute_target ext cr pf t plan dl refs w = (ob, refs', w')"
  from execute_target_testimony [OF this] execute_target_evidence [OF this]
  show "ob_target ob = t \<and> refs' = refs @ ob_refusals ob \<and> target_testimony ob
    \<and> (timestamps_ok ext cr pf \<longrightarrow> dated ext ob) \<and> (sha256_shape ext \<longrightarrow> digested ob)" by blast
next
  fix w1 acq w2 t started stmt refs w ob refs' w'
  assume "now_rfc3339 cr pf w1 = (acq, w2)"
    and b: "bound_refusal pf t acq bound_check_spend started stmt refs w = (ob, refs', w')"
  from bound_refusal_testimony [OF b bound_check_stage] bound_refusal_evidence [OF b]
    now_rfc3339_parses [OF _ this(1)]
  show "target_testimony ob \<and> (timestamps_ok ext cr pf \<longrightarrow> dated ext ob) \<and> (sha256_shape ext \<longrightarrow> digested ob)"
    by blast
qed

text \<open>A halted target costs one bound check and no attempt.\<close>

definition halted_report :: "InquiryTlsObservationV0 \<Rightarrow> bool" where
  "halted_report ob \<longleftrightarrow>
     ob_outcome ob = AcquisitionBoundRefused \<and> (ob_spend ob)\<lparr>sp_wall_ms := 0\<rparr> = bound_check_spend
     \<and> ob_observed_ip ob = None \<and> no_certificate_evidence ob"

lemma bound_refusal_halted:
  assumes "bound_refusal pf t acq bound_check_spend started stmt refs w = (ob, refs', w')"
  shows "halted_report ob"
proof -
  note f = failed_observation_is [OF assms [unfolded bound_refusal_def]]
  then show ?thesis by (auto simp: halted_report_def bound_check_spend_def spend_default_def)
qed

lemma survey_halted:
  assumes "survey cr pf acquire plan dl True ts cannot w = (obs, cannot', w')"
  shows "\<forall>ob \<in> set obs. halted_report ob"
  using assms
proof (induction ts arbitrary: cannot w obs)
  case (Cons t ts)
  from Cons.prems show ?case
  proof (rule survey_Cons_cases)
    fix ob rest cannot1 w1
    assume o: "obs = ob # rest"
      and h: "True \<longrightarrow> (\<exists>acq w2 i stmt w3. now_rfc3339 cr pf w = (acq, w2)
        \<and> bound_refusal pf t acq bound_check_spend i stmt cannot w3 = (ob, cannot1, w1))"
      and s: "survey cr pf acquire plan dl (ob_outcome ob = AcquisitionBoundRefused) ts cannot1 w1 = (rest, cannot', w')"
    from h have b: "halted_report ob" by (auto dest: bound_refusal_halted)
    then have "ob_outcome ob = AcquisitionBoundRefused" by (simp add: halted_report_def)
    with s Cons.IH [of cannot1 w1 rest] o b show ?case by simp
  qed
qed simp

lemma survey_stays_halted:
  assumes "survey cr pf acquire plan dl halted ts cannot w = (obs, cannot', w')"
    and "i < j" "j < length obs" "ob_outcome (obs ! i) = AcquisitionBoundRefused"
  shows "halted_report (obs ! j)"
  using assms
proof (induction ts arbitrary: halted cannot w obs i j)
  case (Cons t ts)
  from Cons.prems(1) show ?case
  proof (rule survey_Cons_cases)
    fix ob rest cannot1 w1
    assume o: "obs = ob # rest"
      and s: "survey cr pf acquire plan dl (ob_outcome ob = AcquisitionBoundRefused) ts cannot1 w1 = (rest, cannot', w')"
    from Cons.prems(2,3) o obtain j' where j: "j = Suc j'" "j' < length rest" by (cases j) auto
    show ?case
    proof (cases i)
      case 0
      with Cons.prems(4) o have "ob_outcome ob = AcquisitionBoundRefused" by simp
      with s have "\<forall>ob \<in> set rest. halted_report ob" by (intro survey_halted) simp
      with o j show ?thesis by simp
    next
      case (Suc i')
      with Cons.prems(2,4) o j Cons.IH [OF s, of i' j'] show ?thesis by simp
    qed
  qed
qed simp

section \<open>No name is looked up\<close>

lemma lookup_fields:
  "instant_now (pf\<lparr>lookup_host := f\<rparr>) = instant_now pf" "now_utc (pf\<lparr>lookup_host := f\<rparr>) = now_utc pf"
  "connect_timeout (pf\<lparr>lookup_host := f\<rparr>) = connect_timeout pf"
  "observe_chain (pf\<lparr>lookup_host := f\<rparr>) = observe_chain pf"
  by simp_all

lemma lookup_irrelevant:
  "elapsed_ms (pf\<lparr>lookup_host := f\<rparr>) = elapsed_ms pf"
  "remaining_until (pf\<lparr>lookup_host := f\<rparr>) = remaining_until pf"
  "now_rfc3339 cr (pf\<lparr>lookup_host := f\<rparr>) = now_rfc3339 cr pf"
  "bound_refusal (pf\<lparr>lookup_host := f\<rparr>) = bound_refusal pf"
  "failed_receipt cr (pf\<lparr>lookup_host := f\<rparr>) = failed_receipt cr pf"
  by (intro ext; unfold elapsed_ms_def remaining_until_def now_rfc3339_def bound_refusal_def
      failed_observation_def failed_receipt_def lookup_fields; rule refl)+

lemma probe_without_lookup:
  "probe_tls_cert_resolved x cr (pf\<lparr>lookup_host := f\<rparr>) = probe_tls_cert_resolved x cr pf"
  by (intro ext, unfold probe_tls_cert_resolved_def lookup_irrelevant lookup_fields, rule refl)

lemma selected_without_lookup: "probe_selected x cr (pf\<lparr>lookup_host := f\<rparr>) = probe_selected x cr pf"
  by (intro ext, unfold probe_selected_def lookup_irrelevant lookup_fields probe_without_lookup, rule refl)

lemma target_without_lookup: "execute_target x cr (pf\<lparr>lookup_host := f\<rparr>) = execute_target x cr pf"
proof (intro ext)
  fix t plan dl refs w
  show "execute_target x cr (pf\<lparr>lookup_host := f\<rparr>) t plan dl refs w = execute_target x cr pf t plan dl refs w"
  proof (cases "parse_ip (tgt_host t) = None")
    case True
    then have n: "(parse_ip (tgt_host t) = None) = True" by simp
    show ?thesis unfolding execute_target_def Let_def lookup_irrelevant lookup_fields n if_True
      by (rule refl)
  next
    case False
    then have "resolve_once (pf\<lparr>lookup_host := f\<rparr>) t v = resolve_once pf t v" for v
      by (auto simp: resolve_once_def to_socket_addrs_def dest!: parse_ip_cases split: option.splits)
    then have e: "resolve_once (pf\<lparr>lookup_host := f\<rparr>) t = resolve_once pf t" by (rule HOL.ext)
    show ?thesis
      unfolding execute_target_def failed_observation_def lookup_irrelevant lookup_fields e selected_without_lookup
      by (rule refl)
  qed
qed

lemma survey_without_lookup:
  "survey cr (pf\<lparr>lookup_host := f\<rparr>) acquire plan dl h ts c w = survey cr pf acquire plan dl h ts c w"
proof (induction ts arbitrary: h c w)
  case (Cons t ts)
  show ?case unfolding survey.simps lookup_irrelevant lookup_fields Cons.IH by (rule refl)
qed simp

section \<open>The books of a survey\<close>

lemma foldl_add_counters:
  "sp_dns_attempts (foldl add_counters a ss) = sp_dns_attempts a + (\<Sum>s\<leftarrow>ss. sp_dns_attempts s)"
  "sp_connection_attempts (foldl add_counters a ss) = sp_connection_attempts a + (\<Sum>s\<leftarrow>ss. sp_connection_attempts s)"
  "sp_handshakes_attempted (foldl add_counters a ss) = sp_handshakes_attempted a + (\<Sum>s\<leftarrow>ss. sp_handshakes_attempted s)"
  "sp_handshakes_completed (foldl add_counters a ss) = sp_handshakes_completed a + (\<Sum>s\<leftarrow>ss. sp_handshakes_completed s)"
  "sp_bound_checks (foldl add_counters a ss) = sp_bound_checks a + (\<Sum>s\<leftarrow>ss. sp_bound_checks s)"
  "sp_work_units (foldl add_counters a ss) = sp_work_units a + (\<Sum>s\<leftarrow>ss. sp_work_units s)"
  "sp_wall_ms (foldl add_counters a ss) = sp_wall_ms a"
  by (induction ss arbitrary: a) (simp_all add: add_counters_def add.assoc)

definition survey_total :: "InquiryTlsObservationV0 list \<Rightarrow> u64 \<Rightarrow> InquiryAcquisitionSpendV0" where
  "survey_total obs ms = foldl add_counters (spend_default\<lparr>sp_wall_ms := ms\<rparr>) (map ob_spend obs)"

lemma stage_bounds:
  assumes "stage_spend s"
  shows "unat (sp_dns_attempts s) \<le> 1" "unat (sp_connection_attempts s) \<le> unat (sp_dns_attempts s)"
    "unat (sp_handshakes_attempted s) \<le> unat (sp_connection_attempts s)"
    "unat (sp_handshakes_completed s) \<le> unat (sp_handshakes_attempted s)" "unat (sp_bound_checks s) = 1"
    "unat (sp_work_units s) = unat (sp_dns_attempts s) + unat (sp_connection_attempts s)
       + unat (sp_handshakes_attempted s) + unat (sp_bound_checks s)"
  using assms counted_work_units_unat [of s] by (auto simp: stage_spend_def word_le_nat_alt)

lemma spends_total_mono:
  "(\<And>ob. ob \<in> set obs \<Longrightarrow> unat (f (ob_spend ob)) \<le> unat (g (ob_spend ob))) \<Longrightarrow> spends_total f obs \<le> spends_total g obs"
  unfolding spends_total_def by (rule sum_list_mono) auto

lemma survey_totals:
  assumes st: "\<forall>ob \<in> set obs. stage_spend (ob_spend ob)" and n: "length obs \<le> 32"
  shows "unat (sp_dns_attempts (survey_total obs ms)) = spends_total sp_dns_attempts obs"
    "unat (sp_connection_attempts (survey_total obs ms)) = spends_total sp_connection_attempts obs"
    "unat (sp_handshakes_attempted (survey_total obs ms)) = spends_total sp_handshakes_attempted obs"
    "unat (sp_handshakes_completed (survey_total obs ms)) = spends_total sp_handshakes_completed obs"
    "unat (sp_bound_checks (survey_total obs ms)) = spends_total sp_bound_checks obs"
    "unat (sp_work_units (survey_total obs ms)) = spends_total sp_work_units obs"
proof -
  note b = stage_bounds [OF bspec [OF st]]
  note e = survey_total_def foldl_add_counters spend_default_def
  have c: "unat (sp_connection_attempts (ob_spend ob)) \<le> 1" "unat (sp_handshakes_attempted (ob_spend ob)) \<le> 1"
    "unat (sp_handshakes_completed (ob_spend ob)) \<le> 1" "unat (sp_bound_checks (ob_spend ob)) \<le> 1"
    "unat (sp_work_units (ob_spend ob)) \<le> 4"
    if "ob \<in> set obs" for ob using b [OF that] by linarith+
  show "unat (sp_dns_attempts (survey_total obs ms)) = spends_total sp_dns_attempts obs"
    using spends_total_exact [of obs sp_dns_attempts 1] b(1) n by (simp add: e)
  show "unat (sp_connection_attempts (survey_total obs ms)) = spends_total sp_connection_attempts obs"
    using spends_total_exact [of obs sp_connection_attempts 1] c(1) n by (simp add: e)
  show "unat (sp_handshakes_attempted (survey_total obs ms)) = spends_total sp_handshakes_attempted obs"
    using spends_total_exact [of obs sp_handshakes_attempted 1] c(2) n by (simp add: e)
  show "unat (sp_handshakes_completed (survey_total obs ms)) = spends_total sp_handshakes_completed obs"
    using spends_total_exact [of obs sp_handshakes_completed 1] c(3) n by (simp add: e)
  show "unat (sp_bound_checks (survey_total obs ms)) = spends_total sp_bound_checks obs"
    using spends_total_exact [of obs sp_bound_checks 1] c(4) n by (simp add: e)
  show "unat (sp_work_units (survey_total obs ms)) = spends_total sp_work_units obs"
    using spends_total_exact [of obs sp_work_units 4] c(5) n by (simp add: e)
qed

lemma survey_total_wall [simp]: "sp_wall_ms (survey_total obs ms) = ms"
  by (simp add: survey_total_def foldl_add_counters)

lemma survey_total_order:
  fixes ms :: u64
  assumes st: "\<forall>ob \<in> set obs. stage_spend (ob_spend ob)" and n: "length obs \<le> 32"
  defines "a \<equiv> survey_total obs ms"
  shows "unat (sp_dns_attempts a) \<le> length obs" "unat (sp_connection_attempts a) \<le> unat (sp_dns_attempts a)"
    "unat (sp_handshakes_attempted a) \<le> unat (sp_connection_attempts a)"
    "unat (sp_handshakes_completed a) \<le> unat (sp_handshakes_attempted a)"
    "unat (sp_bound_checks a) = length obs" "sp_work_units a = counted_work_units a"
    "unat (sp_work_units a) \<le> 4 * length obs" "obs \<noteq> [] \<Longrightarrow> sp_work_units a \<noteq> 0"
proof -
  note t = survey_totals [OF st n] and b = stage_bounds [OF bspec [OF st]]
  show 1: "unat (sp_dns_attempts a) \<le> length obs"
    unfolding a_def t using spends_total_le [of obs sp_dns_attempts 1] b(1) by simp
  show 2: "unat (sp_connection_attempts a) \<le> unat (sp_dns_attempts a)"
    unfolding a_def t by (rule spends_total_mono) (rule b)
  show 3: "unat (sp_handshakes_attempted a) \<le> unat (sp_connection_attempts a)"
    unfolding a_def t by (rule spends_total_mono) (rule b)
  show "unat (sp_handshakes_completed a) \<le> unat (sp_handshakes_attempted a)"
    unfolding a_def t by (rule spends_total_mono) (rule b)
  have "spends_total sp_bound_checks obs = (\<Sum>ob\<leftarrow>obs. 1)"
    unfolding spends_total_def by (rule arg_cong [where f = sum_list]) (simp add: b(5))
  then show 4: "unat (sp_bound_checks a) = length obs" by (simp add: a_def t sum_list_triv)
  have "spends_total sp_work_units obs = (\<Sum>ob\<leftarrow>obs. unat (sp_dns_attempts (ob_spend ob))
      + unat (sp_connection_attempts (ob_spend ob)) + unat (sp_handshakes_attempted (ob_spend ob))
      + unat (sp_bound_checks (ob_spend ob)))"
    unfolding spends_total_def by (rule arg_cong [where f = sum_list]) (simp add: b(6))
  then have "unat (sp_work_units a) = unat (counted_work_units a)"
    by (simp add: a_def t counted_work_units_unat sum_list_addf spends_total_def)
  then show 5: "sp_work_units a = counted_work_units a" by (simp add: word_unat_eq_iff)
  have w: "unat (sp_work_units a) = unat (sp_dns_attempts a) + unat (sp_connection_attempts a)
      + unat (sp_handshakes_attempted a) + unat (sp_bound_checks a)"
    using 5 counted_work_units_unat [of a] by simp
  with 1 2 3 4 show "unat (sp_work_units a) \<le> 4 * length obs" by simp
  from w 4 show "obs \<noteq> [] \<Longrightarrow> sp_work_units a \<noteq> 0" by (auto simp: unat_eq_0 [symmetric])
qed

section \<open>When a survey can be sealed\<close>

text \<open>
  A survey is timely when every target finished within its deadline, the targets' times fit the
  elapsed time and that fits the total deadline; and consistent when no observation contradicts
  its own validation result.
\<close>

definition timely :: "InquiryWitnessPlanV0 \<Rightarrow> InquiryTlsObservationV0 list \<Rightarrow> u64 \<Rightarrow> bool" where
  "timely plan obs ms \<longleftrightarrow>
     (\<forall>ob \<in> set obs. sp_wall_ms (ob_spend ob) \<le> bnd_per_target_deadline_ms (wp_bounds plan))
     \<and> spends_total sp_wall_ms obs \<le> unat ms \<and> ms \<le> bnd_total_deadline_ms (wp_bounds plan)"

lemma survey_receipt_fields [simp]:
  "rc_tls_observations (survey_receipt rs rq wp d au obs cannot ms) = obs"
  "rc_cannot_testify (survey_receipt rs rq wp d au obs cannot ms) = cannot"
  "rc_acquisition (survey_receipt rs rq wp d au obs cannot ms) = Some (survey_total obs ms)"
  "rc_acquisition_spend (survey_receipt rs rq wp d au obs cannot ms) = sp_work_units (survey_total obs ms)"
  "rc_observed_acquisition_spend (survey_receipt rs rq wp d au obs cannot ms) = Some (survey_total obs ms)"
  "rc_authorized_acquisition_envelope (survey_receipt rs rq wp d au obs cannot ms) = Some au"
  "rc_grant_digest (survey_receipt rs rq wp d au obs cannot ms) = Some d"
  "rc_witness_plan (survey_receipt rs rq wp d au obs cannot ms) = Some wp"
  "rc_request (survey_receipt rs rq wp d au obs cannot ms) = rq"
  "rc_disposition (survey_receipt rs rq wp d au obs cannot ms) = PerTargetOutcomes"
  "rc_schema (survey_receipt rs rq wp d au obs cannot ms) = INQUIRY_RECEIPT_SCHEMA_V0"
  "rc_source_snapshot (survey_receipt rs rq wp d au obs cannot ms) = None"
  "rc_finding_state (survey_receipt rs rq wp d au obs cannot ms) = None"
  "rc_evidence_receipts (survey_receipt rs rq wp d au obs cannot ms) = []"
  "rc_evidence_coverage (survey_receipt rs rq wp d au obs cannot ms) = empty_coverage"
  "rc_status (survey_receipt rs rq wp d au obs cannot ms) =
     (if \<exists>ob \<in> set obs. outcome_refuses (ob_outcome ob) then Refused else Answered)"
  by (simp_all add: survey_receipt_def Let_def survey_total_def list_ex_iff)

lemma one_refusal_normal: "length (ob_refusals ob) \<le> 1 \<Longrightarrow> ob\<lparr>ob_refusals := remdups_adj (sort (ob_refusals ob))\<rparr> = ob"
  by (cases "ob_refusals ob") auto

lemma normal_observations:
  assumes "\<forall>ob \<in> set (rc_tls_observations r). length (ob_refusals ob) \<le> 1"
    and "sorted (map ob_target (rc_tls_observations r))"
  shows "rc_tls_observations (normalize_receipt r) = rc_tls_observations r"
proof -
  have "map (\<lambda>ob. ob\<lparr>ob_refusals := remdups_adj (sort (ob_refusals ob))\<rparr>) (rc_tls_observations r)
      = rc_tls_observations r"
    using assms(1) by (intro map_idI) (auto intro: one_refusal_normal)
  with assms(2) show ?thesis by (simp add: normalize_receipt_def sort_key_sorted)
qed

lemma stage_within_bounds:
  "stage_spend s \<Longrightarrow> \<not> target_spend_exceeds b s \<longleftrightarrow> sp_wall_ms s \<le> bnd_per_target_deadline_ms b"
  by (auto simp: stage_spend_def target_spend_exceeds_def not_less)

lemma testimony_ok:
  assumes "target_testimony ob" "dated ext ob" "digested ob" "ob_target ob \<in> set (wp_targets plan)"
    "set (ob_refusals ob) \<subseteq> set cannot"
  shows "observation_ok ext plan cannot ob \<longleftrightarrow>
     \<not> contradictory ob \<and> sp_wall_ms (ob_spend ob) \<le> bnd_per_target_deadline_ms (wp_bounds plan)"
  using assms stage_within_bounds [of "ob_spend ob" "wp_bounds plan"]
  by (auto simp: observation_ok_def verify_shape_iff target_testimony_def dated_def)

lemma survey_within_envelope:
  assumes st: "\<forall>ob \<in> set obs. stage_spend (ob_spend ob)" and n: "length obs = length (wp_targets plan)"
    and v: "InquiryWitnessPlanV0_verify_envelope ext plan = Inr ()" and len: "length (wp_targets plan) < 2 ^ 32"
    and ms: "ms \<le> bnd_total_deadline_ms (wp_bounds plan)"
  shows "spend_le (survey_total obs ms) (acquisition_envelope_from_bounds (wp_bounds plan))"
    "\<not> acquisition_exceeds (wp_bounds plan) (survey_total obs ms)"
proof -
  from verified_plan_limits [OF v len] n have l: "length obs \<le> 32" by simp
  note o = survey_total_order [OF st l, of ms]
  let ?n = "len_u32 (wp_targets plan)"
  have nn: "unat ?n = length obs" using l n by (simp add: len_u32_small)
  from v have m: "bnd_max_targets (wp_bounds plan) \<le> 32" and b: "\<not> bounds_violate (wp_bounds plan) ?n"
    by (simp_all add: verify_envelope_ok)
  from b [unfolded bounds_violate_iff [OF m]]
  have e: "bnd_max_dns_attempts (wp_bounds plan) = ?n" "bnd_max_connection_attempts (wp_bounds plan) = ?n"
    "bnd_max_handshakes_attempted (wp_bounds plan) = ?n" "bnd_max_bound_checks (wp_bounds plan) = ?n"
    "bnd_max_work_units (wp_bounds plan) = work_units_of ?n" by simp_all
  note w = word_le_nat_alt nn work_units_of_unat
  show "spend_le (survey_total obs ms) (acquisition_envelope_from_bounds (wp_bounds plan))"
    unfolding spend_le_def acquisition_envelope_from_bounds_def using o ms by (simp add: e w)
  show "\<not> acquisition_exceeds (wp_bounds plan) (survey_total obs ms)"
    unfolding acquisition_exceeds_def not_less using o ms by (simp add: e w not_less)
qed

lemma survey_sums_agree:
  assumes st: "\<forall>ob \<in> set obs. stage_spend (ob_spend ob)" and l: "length obs \<le> 32"
    and per: "\<forall>ob \<in> set obs. unat (sp_wall_ms (ob_spend ob)) \<le> 60000"
  shows "\<not> sum_differs (foldl spend_add spend_default (map ob_spend obs)) (survey_total obs ms) \<longleftrightarrow>
    spends_total sp_wall_ms obs \<le> unat ms"
proof -
  have "unat (\<Sum>s\<leftarrow>map ob_spend obs. sp_wall_ms s) = spends_total sp_wall_ms obs"
    by (rule spends_total_exact [where k = 60000]) (use per l in auto)
  then show ?thesis
    by (auto simp: sum_differs_def foldl_spend_add survey_total_def foldl_add_counters spend_default_def not_less
        word_le_nat_alt)
qed

lemma survey_completed_iff:
  fixes rs rq ms
  assumes v: "InquiryWitnessPlanV0_verify_envelope ext plan = Inr ()" and len: "length (wp_targets plan) < 2 ^ 32"
    and so: "sorted (wp_targets plan)" and t: "map ob_target obs = wp_targets plan"
    and ok: "\<forall>ob \<in> set obs. target_testimony ob \<and> dated ext ob \<and> digested ob"
    and ref: "\<forall>ob \<in> set obs. set (ob_refusals ob) \<subseteq> set cannot"
    and d: "is_sha256_digest d" and au: "spend_le (acquisition_envelope_from_bounds (wp_bounds plan)) au"
  defines "r \<equiv> survey_receipt rs rq plan d au obs cannot ms"
  shows "verify_completed ext (normalize_receipt r) plan (survey_total obs ms) = Inr () \<longleftrightarrow>
     timely plan obs ms \<and> (\<forall>ob \<in> set obs. \<not> contradictory ob)"
proof -
  note lim = verified_plan_limits [OF v len]
  from t have n: "length obs = length (wp_targets plan)" by (metis length_map)
  have st: "\<forall>ob \<in> set obs. stage_spend (ob_spend ob)" and rl: "\<forall>ob \<in> set obs. length (ob_refusals ob) \<le> 1"
    using ok by (simp_all add: target_testimony_def)
  from n lim(1) have l: "length obs \<le> 32" by simp
  note o = survey_total_order [OF st l, of ms]
  from v t have ne: "obs \<noteq> []" by (auto simp: verify_envelope_ok)
  have ob: "rc_tls_observations (normalize_receipt r) = obs"
    using normal_observations [of r] rl so t by (simp add: r_def)
  have oks: "observation_ok ext plan (rc_cannot_testify (normalize_receipt r)) ob \<longleftrightarrow>
      \<not> contradictory ob \<and> sp_wall_ms (ob_spend ob) \<le> bnd_per_target_deadline_ms (wp_bounds plan)"
    if "ob \<in> set obs" for ob
  proof (rule testimony_ok)
    from that t show "ob_target ob \<in> set (wp_targets plan)" by (metis image_eqI list.set_map)
  qed (use ok ref that in \<open>auto simp: r_def\<close>)
  have bind: "verify_grant_binding (normalize_receipt r) (survey_total obs ms) = Inr () \<longleftrightarrow>
      spend_le (survey_total obs ms) au" using d by (simp add: verify_grant_binding_ok r_def)
  have per: "unat (sp_wall_ms (ob_spend ob)) \<le> 60000"
    if "sp_wall_ms (ob_spend ob) \<le> bnd_per_target_deadline_ms (wp_bounds plan)" for ob
    using that lim(2) by (simp add: word_le_nat_alt)
  have "verify_completed ext (normalize_receipt r) plan (survey_total obs ms) = Inr () \<longleftrightarrow>
      \<not> acquisition_exceeds (wp_bounds plan) (survey_total obs ms)
      \<and> (\<forall>ob \<in> set obs. \<not> contradictory ob \<and> sp_wall_ms (ob_spend ob) \<le> bnd_per_target_deadline_ms (wp_bounds plan))
      \<and> \<not> sum_differs (foldl spend_add spend_default (map ob_spend obs)) (survey_total obs ms)
      \<and> spend_le (survey_total obs ms) au"
    unfolding verify_completed_ok ob bind
    using o(6) o(8) [OF ne] n t lim(3) oks by (auto simp: r_def)
  also have "\<dots> \<longleftrightarrow> timely plan obs ms \<and> (\<forall>ob \<in> set obs. \<not> contradictory ob)" (is "?l \<longleftrightarrow> ?r")
  proof
    assume ?l
    then have "ms \<le> bnd_total_deadline_ms (wp_bounds plan)" by (auto simp: acquisition_exceeds_def not_less)
    with \<open>?l\<close> survey_sums_agree [OF st l, of ms] per show ?r by (auto simp: timely_def)
  next
    assume ?r
    then have "ms \<le> bnd_total_deadline_ms (wp_bounds plan)" by (simp add: timely_def)
    from survey_within_envelope [OF st n v len this] au \<open>?r\<close> survey_sums_agree [OF st l, of ms] per
    show ?l by (auto simp: timely_def intro: spend_le_trans)
  qed
  finally show ?thesis .
qed

lemma tls_request_shape:
  assumes "admit ext plan resolved = Inr r" "req_question_kind r = TlsCertificatePresentationAndExpiryHorizon"
  shows "req_selector r = None" "req_requested_targets r = req_admitted_targets r"
    "\<exists>x \<in> set (prof_cannot_testify (res_profile resolved)). rfl_kind x = ConsequenceAuthority"
    "sorted (req_admitted_targets r)" "length (req_admitted_targets r) < 2 ^ 32"
proof -
  from assms have k: "prof_question_kind (res_profile resolved) = TlsCertificatePresentationAndExpiryHorizon"
    and v: "InquiryProfileV0_validate (res_profile resolved) = Inr ()" by (auto simp: admit_ok)
  from assms show "req_selector r = None" "req_requested_targets r = req_admitted_targets r"
    by (auto simp: admit_ok admit_targets_ok)
  from v k show "\<exists>x \<in> set (prof_cannot_testify (res_profile resolved)). rfl_kind x = ConsequenceAuthority"
    by (simp add: profile_validate_ok validate_tls_question_ok)
  from assms obtain tls where "InquiryTlsCertProfileV0_validate tls = Inr ()" "sorted (req_admitted_targets r)"
    "length (req_admitted_targets r) \<le> length (tls_declared_targets tls)"
    by (rule admitted_tls_request)
  moreover from this(1) have "length (tls_declared_targets tls) \<le> 32"
    by (simp add: tls_profile_validate_ok word_le_nat_alt)
  ultimately show "sorted (req_admitted_targets r)" "length (req_admitted_targets r) < 2 ^ 32" by simp_all
qed

lemma tls_envelope_for:
  assumes a: "admit ext plan resolved = Inr rq" and k: "req_question_kind rq = TlsCertificatePresentationAndExpiryHorizon"
    and w: "InquiryWitnessPlanV0_verify_envelope ext wp = Inr ()" "wp_targets wp = req_admitted_targets rq"
      "wp_request_digest wp = req_request_digest rq"
    and r: "rc_request r = rq" "rc_source_snapshot r = None" "rc_finding_state r = None" "rc_evidence_receipts r = []"
      "rc_evidence_coverage r = empty_coverage" "rc_witness_plan r = Some wp" "rc_acquisition r = Some acq"
      "set (prof_cannot_testify (res_profile resolved)) \<subseteq> set (rc_cannot_testify r)"
  shows "verify_question_envelope ext r = Inr () \<longleftrightarrow>
     tls_envelope_shape r = Inr CompletedPerTargetOutcomes \<and> verify_completed ext r wp acq = Inr ()
     \<or> tls_envelope_shape r = Inr PreAcquisitionGrantRefusal
         \<and> verify_pre_acquisition_grant_refusal r acq = Inr ()"
proof -
  note s = tls_request_shape [OF a k]
  from s(3) r(8) have "\<exists>x \<in> set (rc_cannot_testify r). rfl_kind x = ConsequenceAuthority" by blast
  then show ?thesis
    using s w r k by (simp add: verify_question_envelope_def verify_tls_envelope_ok empty_coverage_def)
qed

section \<open>The executor\<close>

text \<open>The position a survey of a witness plan needs, and the grants that cover it.\<close>

definition survey_position :: "InquiryWitnessPlanV0 \<Rightarrow> InquiryPositionV0" where
  "survey_position wp =
     \<lparr>pos_schema = INQUIRY_POSITION_SCHEMA_V0, pos_version = V0, pos_scope = fset_of_list (wp_targets wp),
      pos_depth = INQUIRY_SURVEY_DEPTH_V0,
      pos_remaining_acquisition_envelope = acquisition_envelope_from_bounds (wp_bounds wp)\<rparr>"

definition covers :: "InquiryGrantV0 \<Rightarrow> InquiryWitnessPlanV0 \<Rightarrow> bool" where
  "covers grant wp \<longleftrightarrow>
     within_grant grant (survey_position wp) \<and> wp_collector wp |\<in>| gr_permitted_witness_classes grant"

lemma active_preflight:
  assumes a: "admit ext plan resolved = Inr rq" and j: "jcs_total ext" and s: "sha256_shape ext"
    and w: "InquiryWitnessPlanV0_resolve ext rq resolved = Inr wp" "InquiryWitnessPlanV0_verify_envelope ext wp = Inr ()"
  obtains p where "InquiryPreflightV0_render ext plan resolved = Inr p"
    "requirements_position (pf_grant_requirements p) = survey_position wp"
proof -
  from w(1) have k: "req_question_kind rq = TlsCertificatePresentationAndExpiryHorizon" by (simp add: resolve_ok)
  obtain d where d: "compute_preflight_digest ext (render_active rq wp) = Inr d"
    using digest_jcs_total [OF j] by (auto simp: compute_preflight_digest_def)
  have "InquiryPreflightV0_render ext plan resolved = Inr ((render_active rq wp)\<lparr>pf_preflight_digest := d\<rparr>)"
    using render_active_validates [OF a s w d] a w d k by (simp add: InquiryPreflightV0_render_def Let_def)
  moreover have "requirements_position (pf_grant_requirements ((render_active rq wp)\<lparr>pf_preflight_digest := d\<rparr>))
      = survey_position wp"
    by (simp add: requirements_position_def survey_position_def render_active_def render_base_def Let_def)
  ultimately show thesis by (rule that)
qed

lemma survey_position_valid:
  "InquiryWitnessPlanV0_verify_envelope ext wp = Inr () \<Longrightarrow> InquiryPositionV0_validate (survey_position wp) = Inr ()"
  by (auto simp: position_validate_ok survey_position_def verify_envelope_ok intro!: valid_scope_of_list)

text \<open>The executor on an admitted TLS request, its early returns resolved.\<close>

lemma execute_admitted:
  assumes a: "admit ext plan resolved = Inr rq" and j: "jcs_total ext" and s: "sha256_shape ext"
    and w: "InquiryWitnessPlanV0_resolve ext rq resolved = Inr wp" "InquiryWitnessPlanV0_verify_envelope ext wp = Inr ()"
  shows "execute_tls_cert_inquiry_with ext cr pf acquire resolved plan grant w =
     (case admit_initial_position grant (survey_position wp) of
        Inl error \<Rightarrow>
          (seal_pre_acquisition_refusal ext resolved rq wp (grant_admission_refusal error)
             (if rfl_kind (grant_admission_refusal error) \<noteq> GrantMalformed then Some grant else None), w)
      | Inr _ \<Rightarrow>
          if wp_collector wp |\<notin>| gr_permitted_witness_classes grant
          then (seal_pre_acquisition_refusal ext resolved rq wp
                  (InquiryRefusal GrantWitnessClassNotPermitted
                    (''grant permitted_witness_classes does not include ''
                       @ InquiryCollectorV0_debug (wp_collector wp))) (Some grant), w)
          else
            (case with_context ''digesting admitted active inquiry grant'' (grant_digest ext grant) of
               Inl e \<Rightarrow> (Inl e, w)
             | Inr digest \<Rightarrow>
                 run_survey ext cr pf acquire resolved rq wp digest (gr_total_acquisition_envelope grant) w))"
proof -
  obtain p where p: "InquiryPreflightV0_render ext plan resolved = Inr p"
    "requirements_position (pf_grant_requirements p) = survey_position wp"
    by (rule active_preflight [OF a j s w])
  have pol: "wp_validation_policy wp = Webpki" by (cases "wp_validation_policy wp")
  have ctx: "with_context m (Inr x) = Inr x" for m and x :: 'b by (simp add: with_context_def)
  show ?thesis
    unfolding execute_tls_cert_inquiry_with_def a w(1) p ctx sum.case pol Let_def by simp
qed

lemma grant_digest_total:
  assumes "InquiryGrantV0_validate g = Inr ()" "jcs_total ext" "sha256_shape ext"
  obtains d where "grant_digest ext g = Inr d" "is_sha256_digest d"
proof -
  obtain d where d: "digest_jcs ext (grant_json g) = Inr d" using digest_jcs_total [OF assms(2)] by blast
  then have "is_sha256_digest d" using assms(3) by (rule digest_jcs_shape [rotated])
  with assms(1) d show thesis by (intro that [of d]) (simp_all add: grant_digest_def)
qed

definition survey_run ::
  "externals \<Rightarrow> tls_crates \<Rightarrow> 'w platform \<Rightarrow> ResolvedInquiryProfileV0 \<Rightarrow> InquiryWitnessPlanV0 \<Rightarrow> 'w
     \<Rightarrow> InquiryTlsObservationV0 list \<times> u64"
where
  "survey_run ext cr pf resolved wp w =
     (case instant_now pf w of
        (started, w) \<Rightarrow>
      case survey cr pf (execute_target ext cr pf) wp
             (unwrap_or (instant_checked_add started (from_millis (bnd_total_deadline_ms (wp_bounds wp)))) started)
             False (wp_targets wp) (prof_cannot_testify (res_profile resolved)) w of
        (obs, _, w) \<Rightarrow> (obs, fst (elapsed_ms pf started w)))"

lemma run_survey_eq:
  assumes "survey_run ext cr pf resolved wp w = (obs, ms)"
  shows "fst (run_survey ext cr pf (execute_target ext cr pf) resolved rq wp d au w) =
     with_context ''sealing active inquiry receipt''
       (seal ext (survey_receipt resolved rq wp d au obs
          (prof_cannot_testify (res_profile resolved) @ concat (map ob_refusals obs)) ms))"
    "map ob_target obs = wp_targets wp"
    "\<forall>ob \<in> set obs. target_testimony ob \<and> (timestamps_ok ext cr pf \<longrightarrow> dated ext ob)
       \<and> (sha256_shape ext \<longrightarrow> digested ob)"
proof -
  obtain started w1 where 1: "instant_now pf w = (started, w1)" by fastforce
  let ?dl = "unwrap_or (instant_checked_add started (from_millis (bnd_total_deadline_ms (wp_bounds wp)))) started"
  obtain obs' cannot w2 where 2: "survey cr pf (execute_target ext cr pf) wp ?dl False (wp_targets wp)
      (prof_cannot_testify (res_profile resolved)) w1 = (obs', cannot, w2)" using prod_cases3 by blast
  obtain ms' w3 where 3: "elapsed_ms pf started w2 = (ms', w3)" by fastforce
  from assms have eq: "obs' = obs" "ms' = ms" by (simp_all add: survey_run_def 1 2 3)
  from probe.survey_reports [OF 2] eq
  have r: "map ob_target obs = wp_targets wp"
    "cannot = prof_cannot_testify (res_profile resolved) @ concat (map ob_refusals obs)"
    "\<forall>ob \<in> set obs. target_testimony ob \<and> (timestamps_ok ext cr pf \<longrightarrow> dated ext ob)
       \<and> (sha256_shape ext \<longrightarrow> digested ob)" by auto
  then show "map ob_target obs = wp_targets wp"
    "\<forall>ob \<in> set obs. target_testimony ob \<and> (timestamps_ok ext cr pf \<longrightarrow> dated ext ob)
       \<and> (sha256_shape ext \<longrightarrow> digested ob)" by auto
  show "fst (run_survey ext cr pf (execute_target ext cr pf) resolved rq wp d au w) =
     with_context ''sealing active inquiry receipt''
       (seal ext (survey_receipt resolved rq wp d au obs
          (prof_cannot_testify (res_profile resolved) @ concat (map ob_refusals obs)) ms))"
    unfolding run_survey_def Let_def 1 2 3 prod.case by (simp add: 2 3 eq r(2))
qed

lemma survey_sealed_iff:
  assumes a: "admit ext plan resolved = Inr rq" and k: "req_question_kind rq = TlsCertificatePresentationAndExpiryHorizon"
    and j: "jcs_total ext"
    and w: "InquiryWitnessPlanV0_verify_envelope ext wp = Inr ()" "wp_targets wp = req_admitted_targets rq"
      "wp_request_digest wp = req_request_digest rq"
    and t: "map ob_target obs = wp_targets wp"
    and ok: "\<forall>ob \<in> set obs. target_testimony ob \<and> dated ext ob \<and> digested ob"
    and d: "is_sha256_digest d" and au: "spend_le (acquisition_envelope_from_bounds (wp_bounds wp)) au"
  shows "is_ok (seal ext (survey_receipt resolved rq wp d au obs
       (prof_cannot_testify (res_profile resolved) @ concat (map ob_refusals obs)) ms)) \<longleftrightarrow>
     timely wp obs ms \<and> (\<forall>ob \<in> set obs. \<not> contradictory ob)"
    (is "is_ok (seal ext ?r) \<longleftrightarrow> ?c")
proof -
  note q = tls_request_shape [OF a k]
  let ?n = "normalize_receipt ?r"
  have "verify_question_envelope ext ?n = Inr () \<longleftrightarrow>
      tls_envelope_shape ?n = Inr CompletedPerTargetOutcomes \<and> verify_completed ext ?n wp (survey_total obs ms) = Inr ()
     \<or> tls_envelope_shape ?n = Inr PreAcquisitionGrantRefusal
         \<and> verify_pre_acquisition_grant_refusal ?n (survey_total obs ms) = Inr ()"
    by (rule tls_envelope_for [OF a k w]) auto
  also have "\<dots> \<longleftrightarrow> verify_completed ext ?n wp (survey_total obs ms) = Inr ()"
    by (simp add: tls_envelope_shape_ok)
  also have "\<dots> \<longleftrightarrow> ?c"
    by (rule survey_completed_iff [OF w(1) _ _ t ok _ d au]) (use q(4,5) w(2) in auto)
  finally have "verify_question_envelope ext ?n = Inr () \<longleftrightarrow> ?c" .
  moreover obtain e where "compute_receipt_digest ext ?n = Inr e"
    using digest_jcs_total [OF j] by (auto simp: compute_receipt_digest_def)
  ultimately show ?thesis
    using admit_verifies [OF a] by (simp add: is_ok_iff seal_ok)
qed

lemma executed_survey_iff:
  assumes "admit ext plan resolved = Inr rq" and "InquiryWitnessPlanV0_resolve ext rq resolved = Inr wp"
    and "jcs_total ext" "sha256_shape ext" "timestamps_ok ext cr pf" and "covers grant wp"
  shows "is_ok (fst (execute_tls_cert_inquiry ext cr pf resolved plan grant w)) \<longleftrightarrow>
     (case survey_run ext cr pf resolved wp w of
        (obs, ms) \<Rightarrow> timely wp obs ms \<and> (\<forall>ob \<in> set obs. \<not> contradictory ob))"
proof -
  from assms(2) have k: "req_question_kind rq = TlsCertificatePresentationAndExpiryHorizon" by (simp add: resolve_ok)
  from witness_plan_for [OF assms(1,3) k] assms(2)
  have v: "InquiryWitnessPlanV0_verify_envelope ext wp = Inr ()" "wp_targets wp = req_admitted_targets rq"
    "wp_request_digest wp = req_request_digest rq" by auto
  from assms(6) have g: "within_grant grant (survey_position wp)"
    "wp_collector wp |\<in>| gr_permitted_witness_classes grant" by (simp_all add: covers_def)
  then have adm: "admit_initial_position grant (survey_position wp) = Inr ()" by (simp add: admit_initial_position_ok)
  from g(1) have gv: "InquiryGrantV0_validate grant = Inr ()"
    and au: "spend_le (acquisition_envelope_from_bounds (wp_bounds wp)) (gr_total_acquisition_envelope grant)"
    by (simp_all add: within_grant_def survey_position_def)
  obtain d where d: "grant_digest ext grant = Inr d" "is_sha256_digest d"
    by (rule grant_digest_total [OF gv assms(3,4)])
  obtain obs ms where r: "survey_run ext cr pf resolved wp w = (obs, ms)" by fastforce
  note rs = run_survey_eq [OF r]
  have "is_ok (fst (execute_tls_cert_inquiry ext cr pf resolved plan grant w)) \<longleftrightarrow>
      is_ok (seal ext (survey_receipt resolved rq wp d (gr_total_acquisition_envelope grant) obs
       (prof_cannot_testify (res_profile resolved) @ concat (map ob_refusals obs)) ms))"
    unfolding execute_tls_cert_inquiry_def execute_admitted [OF assms(1,3,4,2) v(1)] adm
    using g(2) d(1) by (simp add: with_context_def rs(1) is_ok_iff map_err_Inr_iff)
  also have "\<dots> \<longleftrightarrow> timely wp obs ms \<and> (\<forall>ob \<in> set obs. \<not> contradictory ob)"
    by (rule survey_sealed_iff [OF assms(1) k assms(3) v rs(2) _ d(2) au]) (use rs(3) assms(4,5) in auto)
  finally show ?thesis by (simp add: r)
qed

text \<open>
  C4: exactly when an authorised survey yields a receipt. For an admitted TLS request and a
  grant that covers it, whatever the network does, the executor returns a sealed receipt if and
  only if every target finished within its deadline, the elapsed times add up and fit the total
  deadline, and no target was reported with a name mismatch or an expired certificate although
  the chain validated. A refusal by a target, a failed connection or a bound refusal never
  prevents the receipt.
\<close>

theorem execution_seals_iff:
  assumes "admit ext plan resolved = Inr rq" and "InquiryWitnessPlanV0_resolve ext rq resolved = Inr wp"
    and "jcs_total ext" "sha256_shape ext" "timestamps_ok ext cr pf" and "covers grant wp"
  shows "is_ok (fst (execute_tls_cert_inquiry ext cr pf resolved plan grant w)) \<longleftrightarrow>
     (case survey_run ext cr pf resolved wp w of
        (obs, ms) \<Rightarrow> timely wp obs ms \<and> (\<forall>ob \<in> set obs. \<not> contradictory ob))"
  by (rule executed_survey_iff [OF assms])

text \<open>
  What one target can cost and say. Every observation of the executor's probe is about the
  target it was asked for, costs one bound check, at most one of each other attempt and each
  only after the one before it, counts its work units exactly, carries a refusal exactly when
  its outcome is one, and passes the receipt's evidence check unless it reports a name mismatch
  or an expired certificate for a chain that validated.
\<close>

theorem target_observation_shape:
  assumes "execute_target ext cr pf target plan deadline refusals w = (ob, refusals', w')"
  shows "ob_target ob = target \<and> refusals' = refusals @ ob_refusals ob \<and> sp_bound_checks (ob_spend ob) = 1
    \<and> sp_dns_attempts (ob_spend ob) \<le> 1 \<and> sp_connection_attempts (ob_spend ob) \<le> sp_dns_attempts (ob_spend ob)
    \<and> sp_handshakes_attempted (ob_spend ob) \<le> sp_connection_attempts (ob_spend ob)
    \<and> sp_handshakes_completed (ob_spend ob) \<le> sp_handshakes_attempted (ob_spend ob)
    \<and> sp_work_units (ob_spend ob) = counted_work_units (ob_spend ob)
    \<and> (ob_refusals ob \<noteq> [] \<longleftrightarrow> outcome_refuses (ob_outcome ob))
    \<and> (shape_is_valid ob \<longleftrightarrow>
         \<not> (ob_outcome ob \<in> {NameMismatch, ExpiredUnderAcquisitionClock} \<and> ob_validation_result ob = Valid))"
  using execute_target_testimony [OF assms]
  by (simp add: target_testimony_def stage_spend_def contradictory_def)

text \<open>
  A survey that meets a bound it cannot honour stops acquiring. Whatever function acquires
  the targets, once one observation is a bound refusal every later one is, costs exactly one
  bound check, and carries no address and no certificate.
\<close>

theorem survey_halts:
  assumes "survey cr pf acquire plan deadline halted targets cannot w = (obs, cannot', w')"
    and "i < j" "j < length obs" "ob_outcome (obs ! i) = AcquisitionBoundRefused"
  shows "ob_outcome (obs ! j) = AcquisitionBoundRefused
    \<and> (ob_spend (obs ! j))\<lparr>sp_wall_ms := 0\<rparr> = bound_check_spend \<and> ob_observed_ip (obs ! j) = None
    \<and> no_certificate_evidence (obs ! j)"
  using survey_stays_halted [OF assms] by (simp add: halted_report_def)

text \<open>
  An active inquiry never asks the resolver: the executor's result and its effect on the
  world are the same whatever the system's host lookup does, for every plan, grant and world.
\<close>

theorem execution_never_resolves:
  "execute_tls_cert_inquiry ext cr (pf\<lparr>lookup_host := f\<rparr>) resolved plan grant w =
     execute_tls_cert_inquiry ext cr pf resolved plan grant w"
  unfolding execute_tls_cert_inquiry_def execute_tls_cert_inquiry_with_def run_survey_def
    target_without_lookup survey_without_lookup lookup_fields lookup_irrelevant
  by (rule refl)

section \<open>Grants that do not cover the plan\<close>

text \<open>What a valid grant lacks, in the order in which the code looks.\<close>

definition missing_authority :: "InquiryGrantV0 \<Rightarrow> InquiryWitnessPlanV0 \<Rightarrow> InquiryRefusalKindV0" where
  "missing_authority grant wp =
     (if \<not> fset_of_list (wp_targets wp) |\<subseteq>| gr_admitted_scope grant then GrantScopeInsufficient
      else if INQUIRY_SURVEY_DEPTH_V0 > gr_max_depth grant then GrantDepthInsufficient
      else if \<not> spend_le (acquisition_envelope_from_bounds (wp_bounds wp)) (gr_total_acquisition_envelope grant)
        then GrantAcquisitionEnvelopeInsufficient
      else GrantWitnessClassNotPermitted)"

lemma dimension_cases:
  "first_spend_dimension_over_limit a b = Some d \<Longrightarrow>
     d \<in> {''dns_attempts'', ''connection_attempts'', ''handshakes_attempted'', ''handshakes_completed'',
          ''bound_checks'', ''wall_ms'', ''work_units''}"
  by (auto simp: first_spend_dimension_over_limit_def split: if_splits)

lemma classify_scope:
  "rfl_kind (grant_admission_refusal ''initial inquiry position scope is outside the grant'') = GrantScopeInsufficient"
  by (simp add: grant_admission_refusal_def)

lemma classify_depth:
  "rfl_kind (grant_admission_refusal ''initial inquiry position depth exceeds grant.max_depth'') = GrantDepthInsufficient"
  by (simp add: grant_admission_refusal_def)

lemma classify_envelope:
  assumes "first_spend_dimension_over_limit a b = Some d"
  shows "rfl_kind (grant_admission_refusal (''initial inquiry position remaining acquisition '' @ d
           @ '' exceeds the grant envelope'')) = GrantAcquisitionEnvelopeInsufficient"
  using dimension_cases [OF assms] by (auto simp: grant_admission_refusal_def)

lemma admission_error:
  assumes "InquiryGrantV0_validate grant = Inr ()" "InquiryPositionV0_validate (survey_position wp) = Inr ()"
    and "admit_initial_position grant (survey_position wp) = Inl e"
  shows "rfl_kind (grant_admission_refusal e) = missing_authority grant wp \<and> missing_authority grant wp \<noteq> GrantMalformed"
proof -
  let ?p = "survey_position wp"
  let ?dim = "first_spend_dimension_over_limit (acquisition_envelope_from_bounds (wp_bounds wp))
    (gr_total_acquisition_envelope grant)"
  have dim: "spend_le (acquisition_envelope_from_bounds (wp_bounds wp)) (gr_total_acquisition_envelope grant)
      \<longleftrightarrow> ?dim = None" by (simp add: first_dimension_None)
  have f: "pos_scope ?p = fset_of_list (wp_targets wp)" "pos_depth ?p = INQUIRY_SURVEY_DEPTH_V0"
    "pos_remaining_acquisition_envelope ?p = acquisition_envelope_from_bounds (wp_bounds wp)"
    by (simp_all add: survey_position_def)
  note e = assms(3) [unfolded admit_initial_position_def assms(1,2) f checks.simps sum.case]
  show ?thesis
  proof (cases "fset_of_list (wp_targets wp) |\<subseteq>| gr_admitted_scope grant")
    case False
    with e show ?thesis by (auto simp: classify_scope missing_authority_def)
  next
    case scope: True
    show ?thesis
    proof (cases "INQUIRY_SURVEY_DEPTH_V0 > gr_max_depth grant")
      case True
      with e scope show ?thesis by (auto simp: classify_depth missing_authority_def)
    next
      case False
      with e scope obtain d where d: "?dim = Some d" by (cases ?dim) auto
      with e scope False have eq: "e = ''initial inquiry position remaining acquisition '' @ d @ '' exceeds the grant envelope''"
        by simp
      have m: "missing_authority grant wp = GrantAcquisitionEnvelopeInsufficient"
        using scope False d by (simp add: missing_authority_def dim)
      show ?thesis unfolding eq classify_envelope [OF d] m by simp
    qed
  qed
qed

lemma pre_acquisition_seals:
  assumes a: "admit ext plan resolved = Inr rq" and k: "req_question_kind rq = TlsCertificatePresentationAndExpiryHorizon"
    and j: "jcs_total ext"
    and w: "InquiryWitnessPlanV0_verify_envelope ext wp = Inr ()" "wp_targets wp = req_admitted_targets rq"
      "wp_request_digest wp = req_request_digest rq"
    and kind: "is_grant_refusal_kind (rfl_kind x)"
    and g: "case grant of None \<Rightarrow> True
        | Some gr \<Rightarrow> grant_digest ext gr = Inr d \<and> is_sha256_digest d
            \<and> (\<forall>y \<in> set (x # prof_cannot_testify (res_profile resolved)). rfl_kind y \<noteq> GrantRequired \<and> rfl_kind y \<noteq> GrantMalformed)"
  shows "\<exists>rc. seal_pre_acquisition_refusal ext resolved rq wp x grant = Inr rc \<and> x \<in> set (rc_cannot_testify rc)
    \<and> rc_status rc = Refused \<and> rc_disposition rc = CannotTestify
    \<and> rc_grant_digest rc = (if grant = None then None else Some d)"
proof -
  let ?some = "\<lambda>v. if grant = None then None else Some v"
  let ?r = "\<lparr>rc_schema = INQUIRY_RECEIPT_SCHEMA_V0, rc_version = V0, rc_status = Refused,
         rc_disposition = CannotTestify, rc_request = rq, rc_source_snapshot = None,
         rc_finding_state = None, rc_evidence_receipts = [], rc_evidence_coverage = empty_coverage,
         rc_witness_plan = Some wp, rc_tls_observations = [],
         rc_acquisition = Some spend_default, rc_grant_digest = ?some d,
         rc_authorized_acquisition_envelope = ?some (gr_total_acquisition_envelope (the grant)),
         rc_observed_acquisition_spend = ?some spend_default,
         rc_coverage = prof_coverage (res_profile resolved),
         rc_cannot_testify = prof_cannot_testify (res_profile resolved) @ [x],
         rc_acquisition_spend = 0, rc_receipt_digest = None\<rparr>"
  let ?n = "normalize_receipt ?r"
  have z: "spend_le spend_default s" for s by (simp add: spend_le_def spend_default_def)
  have b: "verify_grant_binding ?n spend_default = Inr ()"
    using g z by (cases grant) (auto simp: verify_grant_binding_ok)
  have "verify_pre_acquisition_grant_refusal ?n spend_default = Inr ()"
    unfolding verify_pre_acquisition_ok using g b by (cases grant) auto
  moreover have "tls_envelope_shape ?n = Inr PreAcquisitionGrantRefusal"
    using kind by (simp add: tls_envelope_shape_ok)
  ultimately have "verify_question_envelope ext ?n = Inr ()"
    by (subst tls_envelope_for [OF a k w, of _ spend_default]) auto
  moreover obtain e where "compute_receipt_digest ext ?n = Inr e"
    using digest_jcs_total [OF j] by (auto simp: compute_receipt_digest_def)
  ultimately have "seal ext ?r = Inr (?n\<lparr>rc_receipt_digest := Some e\<rparr>)"
    using admit_verifies [OF a] by (simp add: seal_ok)
  moreover have "seal_pre_acquisition_refusal ext resolved rq wp x grant
      = with_context ''sealing pre-acquisition inquiry refusal'' (seal ext ?r)"
    using g by (cases grant) (simp_all add: seal_pre_acquisition_refusal_def with_context_def)
  ultimately show ?thesis
    by (intro exI [of _ "?n\<lparr>rc_receipt_digest := Some e\<rparr>"]) (simp add: with_context_def)
qed

text \<open>
  C29: a grant that is valid but does not cover the plan always yields a sealed refusal, and
  nothing is acquired: the world is untouched, whatever the platform and the acquisition
  function, the receipt is bound to the grant, reports zero spend, and names the first thing the
  grant lacks (scope, depth, envelope or witness class). The profile must not itself disclaim
  with a missing or malformed grant.
\<close>

theorem insufficient_grant_refused:
  assumes "admit ext plan resolved = Inr rq" and "InquiryWitnessPlanV0_resolve ext rq resolved = Inr wp"
    and "jcs_total ext" "sha256_shape ext"
    and "InquiryGrantV0_validate grant = Inr ()" "\<not> covers grant wp"
    and "\<forall>y \<in> set (prof_cannot_testify (res_profile resolved)). rfl_kind y \<noteq> GrantRequired \<and> rfl_kind y \<noteq> GrantMalformed"
  shows "\<exists>rc d x. execute_tls_cert_inquiry_with ext cr pf acquire resolved plan grant w = (Inr rc, w)
    \<and> seal ext rc = Inr rc \<and> rc_status rc = Refused \<and> rc_disposition rc = CannotTestify
    \<and> grant_digest ext grant = Inr d \<and> rc_grant_digest rc = Some d
    \<and> x \<in> set (rc_cannot_testify rc) \<and> rfl_kind x = missing_authority grant wp"
proof -
  from assms(2) have k: "req_question_kind rq = TlsCertificatePresentationAndExpiryHorizon" by (simp add: resolve_ok)
  from witness_plan_for [OF assms(1,3) k] assms(2)
  have v: "InquiryWitnessPlanV0_verify_envelope ext wp = Inr ()" "wp_targets wp = req_admitted_targets rq"
    "wp_request_digest wp = req_request_digest rq" by auto
  obtain d where d: "grant_digest ext grant = Inr d" "is_sha256_digest d"
    by (rule grant_digest_total [OF assms(5,3,4)])
  note ex = execute_admitted [OF assms(1,3,4,2) v(1), where cr = cr and pf = pf and acquire = acquire
      and grant = grant and w = w]
  have refusal: "\<exists>x. execute_tls_cert_inquiry_with ext cr pf acquire resolved plan grant w
        = (seal_pre_acquisition_refusal ext resolved rq wp x (Some grant), w)
      \<and> rfl_kind x = missing_authority grant wp \<and> missing_authority grant wp \<noteq> GrantMalformed"
  proof (cases "admit_initial_position grant (survey_position wp)")
    case (Inl e)
    from admission_error [OF assms(5) survey_position_valid [OF v(1)] Inl] show ?thesis
      unfolding ex Inl by (intro exI [of _ "grant_admission_refusal e"]) simp
  next
    case (Inr u)
    then have "within_grant grant (survey_position wp)" by (cases u) (simp add: admit_initial_position_ok)
    with assms(6) have n: "wp_collector wp |\<notin>| gr_permitted_witness_classes grant"
      and "missing_authority grant wp = GrantWitnessClassNotPermitted"
      by (auto simp: covers_def missing_authority_def within_grant_def survey_position_def)
    then show ?thesis unfolding ex Inr by (intro exI) auto
  qed
  then obtain x where x: "execute_tls_cert_inquiry_with ext cr pf acquire resolved plan grant w
        = (seal_pre_acquisition_refusal ext resolved rq wp x (Some grant), w)"
      "rfl_kind x = missing_authority grant wp" "missing_authority grant wp \<noteq> GrantMalformed" by blast
  have "is_grant_refusal_kind (rfl_kind x)" "rfl_kind x \<noteq> GrantRequired"
    by (simp_all add: x(2) missing_authority_def)
  with pre_acquisition_seals [OF assms(1) k assms(3) v, where x = x and grant = "Some grant" and d = d] d x assms(7)
  obtain rc where rc: "seal_pre_acquisition_refusal ext resolved rq wp x (Some grant) = Inr rc"
    "x \<in> set (rc_cannot_testify rc)" "rc_status rc = Refused" "rc_disposition rc = CannotTestify"
    "rc_grant_digest rc = Some d" by auto
  from rc(1) obtain r where "seal ext r = Inr rc"
    by (auto simp: seal_pre_acquisition_refusal_def res_bind_Inr_iff with_context_ok split: option.splits)
  then have "seal ext rc = Inr rc" by (rule seal_idem)
  with rc x d show ?thesis by auto
qed

lemma with_context_fst_Inr: "with_context m r = Inr x \<Longrightarrow> r = Inr x"
  by (simp add: with_context_ok)

lemma execute_result_cases:
  assumes "execute_tls_cert_inquiry_with ext cr pf acquire resolved plan grant w = (Inr rc, w')"
  obtains (refused) rq wp x g where "admit ext plan resolved = Inr rq"
      "seal_pre_acquisition_refusal ext resolved rq wp x g = Inr rc" "w' = w"
  | (surveyed) rq wp p d where "admit ext plan resolved = Inr rq" "InquiryPreflightV0_render ext plan resolved = Inr p"
      "admit_initial_position grant (requirements_position (pf_grant_requirements p)) = Inr ()"
      "wp_collector wp |\<in>| gr_permitted_witness_classes grant" "grant_digest ext grant = Inr d"
      "run_survey ext cr pf acquire resolved rq wp d (gr_total_acquisition_envelope grant) w = (Inr rc, w')"
proof -
  from assms obtain rq wp p where 1: "admit ext plan resolved = Inr rq"
    "InquiryWitnessPlanV0_resolve ext rq resolved = Inr wp" "InquiryPreflightV0_render ext plan resolved = Inr p"
    unfolding execute_tls_cert_inquiry_with_def by (auto simp: with_context_ok split: sum.splits if_splits)
  have ctx: "with_context m (Inr v) = Inr v" for m and v :: 'b by (simp add: with_context_def)
  have pol: "(wp_validation_policy wp \<noteq> Webpki) = False" by (cases "wp_validation_policy wp") simp
  note ex = assms [unfolded execute_tls_cert_inquiry_with_def 1 ctx sum.case pol if_False Let_def]
  show thesis
  proof (cases "admit_initial_position grant (requirements_position (pf_grant_requirements p))")
    case (Inl e)
    with ex show thesis by (intro refused [OF 1(1)]) auto
  next
    case (Inr u)
    show thesis
    proof (cases "wp_collector wp |\<in>| gr_permitted_witness_classes grant")
      case False
      with ex Inr show thesis by (intro refused [OF 1(1)]) auto
    next
      case True
      with ex Inr obtain d where "grant_digest ext grant = Inr d"
        by (auto simp: with_context_ok split: sum.splits)
      with ex Inr True show thesis by (intro surveyed [OF 1(1,3) _ True]) (auto simp: ctx)
    qed
  qed
qed

text \<open>
  C3: nothing is acquired outside the grant. Whatever acquires the targets, a receipt of the
  executor is sealed, and it is either a refusal with zero spend and no observation, made
  without touching the world, or a survey of targets inside the grant's scope, bound to the
  grant's digest, whose accounted spend is within the grant's envelope in every counter.
\<close>

theorem execution_within_grant:
  assumes "execute_tls_cert_inquiry_with ext cr pf acquire resolved plan grant w = (Inr rc, w')"
  shows "seal ext rc = Inr rc
    \<and> (rc_disposition rc = CannotTestify \<and> rc_status rc = Refused \<and> rc_acquisition_spend rc = 0
         \<and> rc_tls_observations rc = [] \<and> w' = w
       \<or> rc_disposition rc = PerTargetOutcomes \<and> InquiryGrantV0_validate grant = Inr ()
         \<and> set (req_admitted_targets (rc_request rc)) \<subseteq> fset (gr_admitted_scope grant)
         \<and> (\<exists>d a. grant_digest ext grant = Inr d \<and> rc_grant_digest rc = Some d
              \<and> rc_acquisition rc = Some a \<and> rc_acquisition_spend rc = sp_work_units a
              \<and> spend_le a (gr_total_acquisition_envelope grant)))"
  using assms
proof (cases rule: execute_result_cases)
  case (refused rq wp x g)
  then obtain r where r: "seal ext r = Inr rc" "rc_disposition r = CannotTestify" "rc_status r = Refused"
    "rc_tls_observations r = []" "rc_acquisition_spend r = 0"
    by (auto simp: seal_pre_acquisition_refusal_def res_bind_Inr_iff with_context_ok split: option.splits)
  then have "seal ext rc = Inr rc" by (intro seal_idem)
  moreover from r have "rc_disposition rc = CannotTestify" "rc_status rc = Refused" "rc_tls_observations rc = []"
    "rc_acquisition_spend rc = 0" by (auto simp: seal_ok)
  ultimately show ?thesis using refused(3) by simp
next
  case (surveyed rq wp p d)
  from surveyed(6) obtain obs cannot ms
    where s: "seal ext (survey_receipt resolved rq wp d (gr_total_acquisition_envelope grant) obs cannot ms) = Inr rc"
    by (auto simp: run_survey_def with_context_ok Let_def split: prod.splits)
  from s have rc: "rc_disposition rc = PerTargetOutcomes" "rc_grant_digest rc = Some d" "rc_request rc = rq"
    "rc_acquisition rc = Some (survey_total obs ms)" "rc_acquisition_spend rc = sp_work_units (survey_total obs ms)"
    by (auto simp: seal_ok)
  from render_ok [OF surveyed(2)] surveyed(1)
  have p: "InquiryPreflightV0_validate ext p = Inr ()" "fset (pf_declared_targets p) = set (req_admitted_targets rq)"
    by auto
  have sealed: "seal ext rc = Inr rc" using s by (rule seal_idem)
  from surveyed(3) p have g: "InquiryGrantV0_validate grant = Inr ()"
    "set (req_admitted_targets rq) \<subseteq> fset (gr_admitted_scope grant)"
    by (auto simp: admit_initial_position_ok within_grant_def requirements_position_def preflight_validate_ok
        less_eq_fset.rep_eq)
  have "spend_le (survey_total obs ms) (gr_total_acquisition_envelope grant)"
  proof (cases "req_question_kind rq")
    case FindingOperationalActivity
    with sealed_envelope(1) [OF s] rc show ?thesis
      by (simp add: verify_question_envelope_def verify_report_envelope_ok)
  next
    case TlsCertificatePresentationAndExpiryHorizon
    from s have au: "rc_authorized_acquisition_envelope rc = Some (gr_total_acquisition_envelope grant)"
      by (auto simp: seal_ok)
    from TlsCertificatePresentationAndExpiryHorizon sealed_envelope(1) [OF s] rc
    have "verify_grant_binding rc (survey_total obs ms) = Inr ()"
      by (auto simp: verify_question_envelope_def verify_tls_envelope_ok verify_completed_ok
          verify_pre_acquisition_ok)
    with au rc show ?thesis by (auto simp: verify_grant_binding_ok)
  qed
  with sealed rc g surveyed(5) show ?thesis by simp
qed

section \<open>A concrete survey\<close>

text \<open>
  The concrete profile's hosts are names, so its first target is refused and the second is
  halted: a survey with two bound checks and no attempt.
\<close>

lemma demo_timestamps: "timestamps_ok demo_ext demo_crates demo_platform"
  by (simp add: timestamps_ok_def demo_crates_def demo_ext_def)

lemma demo_digits:
  "to_digit 10 CHR ''e'' = None" "to_digit 16 CHR ''e'' = Some 14" "to_digit 16 CHR ''x'' = None"
  by (simp_all add: to_digit_def is_digit_def is_lower_def is_upper_def in_range_def)

lemma demo_host_not_numeric: "parse_ip (tgt_host (demo_target n)) = None"
proof -
  let ?x = "''xample.org''"
  have v4: "read_ipv4_addr (CHR ''e'' # ?x) = None"
    by (simp add: read_ipv4_addr_def read_number_def demo_digits)
  have "read_groups False (Suc k) ?x = ([], False, ?x)" for k
    by (simp add: read_separator_def)
  then have "read_groups False 7 ?x = ([], False, ?x)" by (metis eval_nat_numeral(3))
  then have "read_groups True (Suc 7) (CHR ''e'' # ?x) = ([14], False, ?x)"
    unfolding read_groups.simps(2) using v4
    by (simp add: read_separator_def read_number_def demo_digits del: read_groups.simps(2))
  then have "read_ipv6_addr (CHR ''e'' # ?x) = None" by (simp add: read_ipv6_addr_def)
  with v4 show ?thesis by (simp add: demo_target_def parse_ip_def whole_def)
qed

lemma demo_millis: "millis_between (int m * 1000000) (int n * 1000000) = word_of_nat (min (2 ^ 64 - 1) (n - m))"
proof -
  have "max 0 (int n * 1000000 - int m * 1000000) div 1000000 = int (n - m)" by (cases "m \<le> n") auto
  then show ?thesis by (simp add: millis_between_def) (simp add: min_def of_nat_le_iff [symmetric] del: of_nat_le_iff)
qed

lemma demo_plan_facts:
  assumes a: "admit demo_ext demo_plan demo_resolved = Inr rq"
    and w: "InquiryWitnessPlanV0_resolve demo_ext rq demo_resolved = Inr wp"
  shows "wp_targets wp = [demo_target ''a'', demo_target ''b'']"
    "bnd_per_target_deadline_ms (wp_bounds wp) = 100" "bnd_total_deadline_ms (wp_bounds wp) = 200"
    "acquisition_envelope_from_bounds (wp_bounds wp) = demo_spend 2" "wp_collector wp = TlsCertProbe"
proof -
  note t = demo_targets_admitted [OF a]
  from w obtain tls d where p: "prof_tls_cert (res_profile demo_resolved) = Some tls" "wp = planned_witness rq tls d"
    by (auto simp: resolve_ok)
  from witness_plan_for [OF a demo_ext_total demo_request_tls [OF a]] w t
  show "wp_targets wp = [demo_target ''a'', demo_target ''b'']" by auto
  from p(1) have f: "tls_per_target_deadline_ms tls = 100" "tls_total_deadline_ms tls = 200"
    by (auto simp: demo_resolved_def normalize_profile_def demo_profile_def demo_tls_def)
  with p(2) show "bnd_per_target_deadline_ms (wp_bounds wp) = 100" "bnd_total_deadline_ms (wp_bounds wp) = 200"
    by (simp_all add: planned_witness_def bounds_for_def)
  show "acquisition_envelope_from_bounds (wp_bounds wp) = demo_spend 2"
    using p(2) f t by (simp add: planned_witness_def bounds_for_def acquisition_envelope_from_bounds_def demo_spend_def
        len_u32_def work_units_of_def)
  show "wp_collector wp = TlsCertProbe" by (cases "wp_collector wp")
qed

lemma demo_covers:
  assumes a: "admit demo_ext demo_plan demo_resolved = Inr rq"
    and w: "InquiryWitnessPlanV0_resolve demo_ext rq demo_resolved = Inr wp"
  shows "covers demo_grant wp"
proof -
  note f = demo_plan_facts [OF a w]
  have "survey_position wp = demo_position (gr_admitted_scope demo_grant) 1 2"
    by (simp add: survey_position_def demo_position_def f demo_grant_def INQUIRY_SURVEY_DEPTH_V0_def)
  with demo_within_grant(1) f(5) show ?thesis by (simp add: covers_def demo_grant_def)
qed

lemma demo_clock:
  "instant_now demo_platform w = (int w * 1000000, w + 1)" "now_rfc3339 demo_crates demo_platform w = (''2026Z'', w)"
  "elapsed_ms demo_platform (int m * 1000000) w = (word_of_nat (min (2 ^ 64 - 1) (w - m)), w + 1)"
  by (simp_all add: demo_platform_def now_rfc3339_def demo_crates_def elapsed_ms_def demo_millis)

definition demo_report :: "InquiryTlsTargetV0 \<Rightarrow> string \<Rightarrow> u64 \<Rightarrow> InquiryTlsObservationV0" where
  "demo_report t stmt ms =
     \<lparr>ob_acquired_at = ''2026Z'', ob_target = t, ob_observed_ip = None,
      ob_certificate_digest = None, ob_chain_digest = None, ob_chain_fingerprints = [],
      ob_not_before = None, ob_not_after = None, ob_validation_result = NotAttempted,
      ob_outcome = AcquisitionBoundRefused, ob_spend = bound_check_spend\<lparr>sp_wall_ms := ms\<rparr>,
      ob_refusals = [target_refusal t AcquisitionBoundCannotBeHonored stmt]\<rparr>"

lemma demo_bound_refusal:
  "bound_refusal demo_platform t ''2026Z'' bound_check_spend (int m * 1000000) stmt refs w =
     (demo_report t stmt (word_of_nat (min (2 ^ 64 - 1) (w - m))),
      refs @ [target_refusal t AcquisitionBoundCannotBeHonored stmt], w + 1)"
  unfolding bound_refusal_def failed_observation_def demo_clock prod.case Let_def demo_report_def by (rule refl)

lemma demo_execute_target:
  assumes "bnd_per_target_deadline_ms (wp_bounds plan) = 100" "dl = 200000000"
  shows "\<exists>stmt refs'. execute_target demo_ext demo_crates demo_platform (demo_target n) plan dl refs 1
     = (demo_report (demo_target n) stmt 2, refs', 4)"
proof -
  have n: "(parse_ip (tgt_host (demo_target n)) = None) = True" by (simp add: demo_host_not_numeric)
  have c: "(checked_duration_since (min (unwrap_or (instant_checked_add (int 1 * 1000000) (from_millis 100)) (int 1 * 1000000))
      200000000) (int 2 * 1000000) = None) = False"
    by (simp add: checked_duration_since_def instant_checked_add_def from_millis_def)
  have e: "(1::nat) + 1 = 2" "(2::nat) + 1 = 3" "(3::nat) + 1 = 4" by simp_all
  have m: "(word_of_nat (min (2 ^ 64 - 1) (3 - 1)) :: u64) = 2" by simp
  show ?thesis
    unfolding execute_target_def assms demo_clock prod.case Let_def n if_True e c if_False demo_bound_refusal m
    by blast
qed

lemma demo_survey_run:
  assumes "wp_targets wp = [demo_target ''a'', demo_target ''b'']"
    and "bnd_per_target_deadline_ms (wp_bounds wp) = 100" "bnd_total_deadline_ms (wp_bounds wp) = 200"
  shows "\<exists>s1 s2. survey_run demo_ext demo_crates demo_platform resolved wp 0 =
     ([demo_report (demo_target ''a'') s1 2, demo_report (demo_target ''b'') s2 1], 6)"
proof -
  have dl: "unwrap_or (instant_checked_add (int 0 * 1000000) (from_millis 200)) (int 0 * 1000000) = 200000000"
    by (simp add: instant_checked_add_def from_millis_def)
  obtain s1 refs1 where 1: "execute_target demo_ext demo_crates demo_platform (demo_target ''a'') wp 200000000
      (prof_cannot_testify (res_profile resolved)) 1 = (demo_report (demo_target ''a'') s1 2, refs1, 4)"
    using demo_execute_target [OF assms(2), of 200000000] by blast
  have h: "(ob_outcome (demo_report t s ms) = AcquisitionBoundRefused) = True" for t s ms by (simp add: demo_report_def)
  have e: "(0::nat) + 1 = 1" "(4::nat) + 1 = 5" "(5::nat) + 1 = 6" by simp_all
  show ?thesis
    unfolding survey_run_def demo_clock prod.case assms dl survey.simps if_False if_True e 1 h demo_bound_refusal
    by (simp, blast)
qed

section \<open>Witnesses\<close>

lemma demo_admitted_plan:
  obtains rq wp where "admit demo_ext demo_plan demo_resolved = Inr rq"
    "InquiryWitnessPlanV0_resolve demo_ext rq demo_resolved = Inr wp"
proof -
  obtain rq where r: "admit demo_ext demo_plan demo_resolved = Inr rq" using demo_admits by blast
  from witness_plan_for [OF r demo_ext_total demo_request_tls [OF r]] that [OF r] show thesis by blast
qed

lemma demo_survey_seals:
  assumes a: "admit demo_ext demo_plan demo_resolved = Inr rq"
    and w: "InquiryWitnessPlanV0_resolve demo_ext rq demo_resolved = Inr wp"
  shows "case survey_run demo_ext demo_crates demo_platform demo_resolved wp 0 of
     (obs, ms) \<Rightarrow> timely wp obs ms \<and> (\<forall>ob \<in> set obs. \<not> contradictory ob)"
proof -
  note f = demo_plan_facts [OF a w]
  from demo_survey_run [OF f(1,2,3), of demo_resolved] show ?thesis
    by (auto simp: timely_def contradictory_def demo_report_def spends_total_def f)
qed

theorem execution_seals_iff_witness:
  "is_ok (fst (execute_tls_cert_inquiry demo_ext demo_crates demo_platform demo_resolved demo_plan demo_grant 0))"
proof -
  obtain rq wp where a: "admit demo_ext demo_plan demo_resolved = Inr rq"
    and w: "InquiryWitnessPlanV0_resolve demo_ext rq demo_resolved = Inr wp" by (rule demo_admitted_plan)
  from execution_seals_iff [OF a w demo_ext_total demo_ext_shape demo_timestamps demo_covers [OF a w], of 0]
    demo_survey_seals [OF a w]
  show ?thesis by blast
qed

theorem execution_within_grant_witness:
  "\<exists>rc w'. execute_tls_cert_inquiry_with demo_ext demo_crates demo_platform
       (execute_target demo_ext demo_crates demo_platform) demo_resolved demo_plan demo_grant 0 = (Inr rc, w')
     \<and> seal demo_ext rc = Inr rc"
proof -
  obtain rq wp where a: "admit demo_ext demo_plan demo_resolved = Inr rq"
    and w: "InquiryWitnessPlanV0_resolve demo_ext rq demo_resolved = Inr wp" by (rule demo_admitted_plan)
  from executed_survey_iff [OF a w demo_ext_total demo_ext_shape demo_timestamps demo_covers [OF a w], of 0]
    demo_survey_seals [OF a w]
  obtain rc where "fst (execute_tls_cert_inquiry_with demo_ext demo_crates demo_platform
       (execute_target demo_ext demo_crates demo_platform) demo_resolved demo_plan demo_grant 0) = Inr rc"
    by (auto simp: is_ok_iff execute_tls_cert_inquiry_def)
  then obtain w' where "execute_tls_cert_inquiry_with demo_ext demo_crates demo_platform
       (execute_target demo_ext demo_crates demo_platform) demo_resolved demo_plan demo_grant 0 = (Inr rc, w')"
    by (metis prod.collapse)
  with execution_within_grant [OF this] show ?thesis by blast
qed

definition demo_witness_plan :: InquiryWitnessPlanV0 where
  "demo_witness_plan =
     \<lparr>wp_schema = INQUIRY_WITNESS_PLAN_SCHEMA_V0, wp_version = V0, wp_request_digest = [],
      wp_collector = TlsCertProbe, wp_targets = [demo_target ''a'', demo_target ''b''],
      wp_expiry_horizon_days = 30, wp_validation_policy = Webpki, wp_vantage = ''lab'',
      wp_bounds = bounds_for demo_tls 2, wp_witness_plan_digest = []\<rparr>"

theorem target_observation_shape_witness:
  "ob_target (fst (execute_target demo_ext demo_crates demo_platform (demo_target ''a'') demo_witness_plan
       200000000 [] 1)) = demo_target ''a''
   \<and> sp_bound_checks (ob_spend (fst (execute_target demo_ext demo_crates demo_platform (demo_target ''a'')
       demo_witness_plan 200000000 [] 1))) = 1"
proof -
  let ?x = "execute_target demo_ext demo_crates demo_platform (demo_target ''a'') demo_witness_plan 200000000 [] 1"
  have "?x = (fst ?x, fst (snd ?x), snd (snd ?x))" by simp
  from target_observation_shape [OF this] show ?thesis by blast
qed

theorem survey_halts_witness:
  "\<exists>obs cannot w. survey demo_crates demo_platform (\<lambda>t plan dl refs w. (demo_report t ''late'' 0, refs, w))
       demo_witness_plan 200000000 False (wp_targets demo_witness_plan) [] 0 = (obs, cannot, w)
     \<and> ob_outcome (obs ! 1) = AcquisitionBoundRefused"
proof -
  have h: "(ob_outcome (demo_report t s ms) = AcquisitionBoundRefused) = True" for t s ms
    by (simp add: demo_report_def)
  have x: "survey demo_crates demo_platform (\<lambda>t plan dl refs w. (demo_report t ''late'' 0, refs, w))
       demo_witness_plan 200000000 False [demo_target ''a'', demo_target ''b''] [] 0 =
     ([demo_report (demo_target ''a'') ''late'' 0,
       demo_report (demo_target ''b'') ''acquisition halted after an earlier target could not honor its bound'' 1],
      [target_refusal (demo_target ''b'') AcquisitionBoundCannotBeHonored
         ''acquisition halted after an earlier target could not honor its bound''], 2)"
    unfolding survey.simps if_False if_True prod.case h demo_clock demo_bound_refusal by simp
  have "wp_targets demo_witness_plan = [demo_target ''a'', demo_target ''b'']" by (simp add: demo_witness_plan_def)
  with x survey_halts [OF x, of 0 1] show ?thesis by (simp add: h)
qed

lemma demo_weak_grant:
  "InquiryGrantV0_validate (demo_grant\<lparr>gr_max_depth := 0\<rparr>) = Inr ()" "\<not> covers (demo_grant\<lparr>gr_max_depth := 0\<rparr>) wp"
  using demo_within_grant(1)
  by (simp_all add: within_grant_def grant_validate_ok covers_def survey_position_def INQUIRY_SURVEY_DEPTH_V0_def)

theorem insufficient_grant_refused_witness:
  "\<exists>rc. execute_tls_cert_inquiry_with demo_ext demo_crates demo_platform
       (execute_target demo_ext demo_crates demo_platform) demo_resolved demo_plan
       (demo_grant\<lparr>gr_max_depth := 0\<rparr>) 0 = (Inr rc, 0) \<and> rc_status rc = Refused"
proof -
  obtain rq wp where a: "admit demo_ext demo_plan demo_resolved = Inr rq"
    and w: "InquiryWitnessPlanV0_resolve demo_ext rq demo_resolved = Inr wp" by (rule demo_admitted_plan)
  have "\<forall>y \<in> set (prof_cannot_testify (res_profile demo_resolved)). rfl_kind y \<noteq> GrantRequired \<and> rfl_kind y \<noteq> GrantMalformed"
    by (simp add: demo_resolved_def normalize_profile_def demo_profile_def)
  from insufficient_grant_refused [OF a w demo_ext_total demo_ext_shape demo_weak_grant this, where cr = demo_crates
      and pf = demo_platform and acquire = "execute_target demo_ext demo_crates demo_platform" and w = 0]
  show ?thesis by blast
qed

text \<open>
  A malformed grant whose error text happens to contain one of the phrases the classifier
  looks for is taken for an insufficient one; binding it then fails, so the refusal that the
  code means to seal becomes an error and no receipt.
\<close>

theorem misclassified_grant_is_an_error:
  assumes "admit ext plan resolved = Inr rq" and "InquiryWitnessPlanV0_resolve ext rq resolved = Inr wp"
    and "jcs_total ext" "sha256_shape ext"
    and "InquiryGrantV0_validate grant = Inl e" "str_contains e ''position scope''"
  shows "\<exists>m. execute_tls_cert_inquiry_with ext cr pf acquire resolved plan grant w = (Inl m, w)"
proof -
  from assms(2) have k: "req_question_kind rq = TlsCertificatePresentationAndExpiryHorizon" by (simp add: resolve_ok)
  from witness_plan_for [OF assms(1,3) k] assms(2)
  have v: "InquiryWitnessPlanV0_verify_envelope ext wp = Inr ()" by auto
  have "admit_initial_position grant (survey_position wp) = Inl e"
    by (simp add: admit_initial_position_def checks.simps assms(5))
  moreover have "grant_digest ext grant = Inl e" by (simp add: grant_digest_def assms(5))
  ultimately show ?thesis
    unfolding execute_admitted [OF assms(1,3,4,2) v]
    by (simp add: grant_admission_refusal_def assms(6) seal_pre_acquisition_refusal_def with_context_def)
qed

theorem misclassified_grant_is_an_error_witness:
  "\<exists>m. execute_tls_cert_inquiry_with demo_ext demo_crates demo_platform
       (execute_target demo_ext demo_crates demo_platform) demo_resolved demo_plan
       (demo_grant\<lparr>gr_schema := ''position scope''\<rparr>) 0 = (Inl m, 0)"
proof -
  obtain rq wp where a: "admit demo_ext demo_plan demo_resolved = Inr rq"
    and w: "InquiryWitnessPlanV0_resolve demo_ext rq demo_resolved = Inr wp" by (rule demo_admitted_plan)
  let ?e = "''unsupported inquiry grant schema '' @ debug_str ''position scope'' @ ''; expected ''
      @ debug_str INQUIRY_GRANT_SCHEMA_V0"
  have "InquiryGrantV0_validate (demo_grant\<lparr>gr_schema := ''position scope''\<rparr>) = Inl ?e"
    by (simp add: InquiryGrantV0_validate_def checks.simps INQUIRY_GRANT_SCHEMA_V0_def)
  moreover have "debug_str ''position scope'' = [CHR 0x22] @ ''position scope'' @ [CHR 0x22]" by code_simp
  then have "str_contains ?e ''position scope''"
    unfolding str_contains_iff by (metis append.assoc)
  ultimately show ?thesis
    by (rule misclassified_grant_is_an_error [OF a w demo_ext_total demo_ext_shape])
qed

end
