(* ===== verification/Witness_Packet.thy ===== *)
theory Witness_Packet
  imports Protocol
begin

text \<open>
  Witness packets, the crate \<open>nq-witness\<close>: the packet as \<open>nq.witness.v1\<close> serialises it,
  its structural validation with the typed failures and their refusals
  (\<open>witness.rs\<close>), its content identity (\<open>digest.rs\<close>) and the adoption of one packet or of
  a set of packets (\<open>adoption.rs\<close>).

  Observations are JSON values chosen by the producer. A \<open>DigestError\<close> is its message. A
  call of \<open>Result::expect\<close> that would panic is \<open>None\<close> in the conversions to refusals; the
  one in \<open>digest_bytes\<close> is shown unreachable for a SHA-256 of the documented shape.
\<close>

section \<open>Packets\<close>

definition WITNESS_SCHEMA :: string where
  "WITNESS_SCHEMA = ''nq.witness.v1''"

definition CUSTODY_BASIS_NATIVE :: string where
  "CUSTODY_BASIS_NATIVE = ''native_observation''"

definition CUSTODY_BASIS_LEGACY_PROJECTION :: string where
  "CUSTODY_BASIS_LEGACY_PROJECTION = ''legacy_projection''"

definition CUSTODY_BASIS_EXTERNAL_PROJECTION :: string where
  "CUSTODY_BASIS_EXTERNAL_PROJECTION = ''external_projection''"

definition PROJECTION_LIMIT_NATIVE_WITNESS_CUSTODY :: string where
  "PROJECTION_LIMIT_NATIVE_WITNESS_CUSTODY = ''native_witness_custody''"

datatype WitnessPosition = Substrate | ApplicationInternal | Platform

fun WitnessPosition_json :: "WitnessPosition \<Rightarrow> json" where
  "WitnessPosition_json Substrate = JStr ''substrate''"
| "WitnessPosition_json ApplicationInternal = JStr ''application_internal''"
| "WitnessPosition_json Platform = JStr ''platform''"

record WitnessPacket =
  wp_schema :: string
  wp_witness_type :: string
  wp_subject :: string
  wp_access_path :: string
  wp_observed_at :: string
  wp_generated_at :: string
  wp_observations :: "json list"
  wp_coverage_limits :: "string list"
  wp_dependencies :: "string list"
  wp_custody_basis :: "string option"
  wp_source_finding_ref :: "string option"
  wp_projection_limits :: "string list"
  wp_position :: "WitnessPosition option"

definition packet_json :: "WitnessPacket \<Rightarrow> json" where
  "packet_json p = JObj
     ([(''schema'', JStr (wp_schema p)),
       (''witness_type'', JStr (wp_witness_type p)),
       (''subject'', JStr (wp_subject p)),
       (''access_path'', JStr (wp_access_path p)),
       (''observed_at'', JStr (wp_observed_at p)),
       (''generated_at'', JStr (wp_generated_at p)),
       (''observations'', JArr (wp_observations p)),
       (''coverage_limits'', JArr (map JStr (wp_coverage_limits p))),
       (''dependencies'', JArr (map JStr (wp_dependencies p)))]
      @ opt_field ''custody_basis'' JStr (wp_custody_basis p)
      @ opt_field ''source_finding_ref'' JStr (wp_source_finding_ref p)
      @ vec_field ''projection_limits'' JStr (wp_projection_limits p)
      @ opt_field ''position'' WitnessPosition_json (wp_position p))"

section \<open>Validation\<close>

datatype WitnessValidationFailure =
    UnsupportedSchema string
  | EmptyField string
  | InvalidTimestamp string string string
  | ObservationNamesClaim nat string
  | NativeCarriesSourceReference
  | NativeCarriesProjectionLimits
  | ProjectionSourceReferenceRequired string
  | ProjectionLimitsRequired string
  | EmptyProjectionLimit nat
  | NativeCustodyLimitRequired
  | UnsupportedCustodyBasis string

fun WitnessValidationFailure_display :: "WitnessValidationFailure \<Rightarrow> string" where
  "WitnessValidationFailure_display (UnsupportedSchema found) =
     ''schema must be '' @ debug_str WITNESS_SCHEMA @ '', got '' @ debug_str found"
| "WitnessValidationFailure_display (EmptyField field) = ''field '' @ field @ '' must not be empty''"
| "WitnessValidationFailure_display (InvalidTimestamp field value reason) =
     ''field '' @ field @ '': invalid RFC3339 timestamp '' @ debug_str value @ '' ('' @ reason @ '')''"
| "WitnessValidationFailure_display (ObservationNamesClaim index key) =
     ''observations['' @ show_nat index @ ''] declares a '' @ debug_str key
       @ '' key; witnesses report observations, not claims''"
| "WitnessValidationFailure_display NativeCarriesSourceReference =
     ''source_finding_ref is set without a projection custody_basis; native packets must not name a projection source''"
| "WitnessValidationFailure_display NativeCarriesProjectionLimits =
     ''projection_limits is non-empty without a projection custody_basis; native packets must not carry projection limits''"
| "WitnessValidationFailure_display (ProjectionSourceReferenceRequired basis) =
     ''custody_basis == '' @ debug_str basis @ '' requires a non-empty source_finding_ref''"
| "WitnessValidationFailure_display (ProjectionLimitsRequired basis) =
     ''custody_basis == '' @ debug_str basis @ '' requires non-empty projection_limits''"
| "WitnessValidationFailure_display (EmptyProjectionLimit index) =
     ''projection_limits['' @ show_nat index @ ''] is empty''"
| "WitnessValidationFailure_display NativeCustodyLimitRequired =
     ''projection_limits on a projection packet must include ''
       @ debug_str PROJECTION_LIMIT_NATIVE_WITNESS_CUSTODY"
| "WitnessValidationFailure_display (UnsupportedCustodyBasis found) =
     ''custody_basis must be '' @ debug_str CUSTODY_BASIS_NATIVE @ '', ''
       @ debug_str CUSTODY_BASIS_LEGACY_PROJECTION @ '', or ''
       @ debug_str CUSTODY_BASIS_EXTERNAL_PROJECTION @ '', got '' @ debug_str found"

definition packet_timestamp ::
  "externals \<Rightarrow> string \<Rightarrow> string \<Rightarrow> WitnessValidationFailure + unit"
where
  "packet_timestamp ext value field =
     map_err (\<lambda>e. InvalidTimestamp field value e) (discard (rfc3339_parse ext value))"

fun observation_keys :: "nat \<Rightarrow> json \<Rightarrow> WitnessValidationFailure + unit" where
  "observation_keys index (JObj object) =
     for_each (\<lambda>key. refuse_if (key \<in> fst ` set object) (ObservationNamesClaim index key))
       [''claim'', ''supports'']"
| "observation_keys index _ = Inr ()"

definition check_custody :: "WitnessPacket \<Rightarrow> WitnessValidationFailure + unit" where
  "check_custody p =
     (let native =
        checks
         [refuse_if (wp_source_finding_ref p \<noteq> None) NativeCarriesSourceReference,
          refuse_if (wp_projection_limits p \<noteq> []) NativeCarriesProjectionLimits]
      in case wp_custody_basis p of
        None \<Rightarrow> native
      | Some basis \<Rightarrow>
          if basis = CUSTODY_BASIS_NATIVE then native
          else if basis = CUSTODY_BASIS_LEGACY_PROJECTION \<or> basis = CUSTODY_BASIS_EXTERNAL_PROJECTION
          then checks
           [refuse_if (trim (case wp_source_finding_ref p of None \<Rightarrow> [] | Some s \<Rightarrow> s) = [])
              (ProjectionSourceReferenceRequired basis),
            refuse_if (wp_projection_limits p = []) (ProjectionLimitsRequired basis),
            for_each (\<lambda>(index, limit). refuse_if (trim limit = []) (EmptyProjectionLimit index))
              (enumerate 0 (wp_projection_limits p)),
            refuse_if (PROJECTION_LIMIT_NATIVE_WITNESS_CUSTODY \<notin> set (wp_projection_limits p))
              NativeCustodyLimitRequired]
          else Inl (UnsupportedCustodyBasis basis))"

definition validate_typed :: "externals \<Rightarrow> WitnessPacket \<Rightarrow> WitnessValidationFailure + unit" where
  "validate_typed ext p =
     checks
      [refuse_if (wp_schema p \<noteq> WITNESS_SCHEMA) (UnsupportedSchema (wp_schema p)),
       for_each (\<lambda>(field, value). refuse_if (trim value = []) (EmptyField field))
         [(''witness_type'', wp_witness_type p), (''subject'', wp_subject p),
          (''access_path'', wp_access_path p), (''observed_at'', wp_observed_at p),
          (''generated_at'', wp_generated_at p)],
       packet_timestamp ext (wp_observed_at p) ''observed_at'',
       packet_timestamp ext (wp_generated_at p) ''generated_at'',
       for_each (\<lambda>(index, observation). observation_keys index observation)
         (enumerate 0 (wp_observations p)),
       check_custody p]"

definition WitnessPacket_validate :: "externals \<Rightarrow> WitnessPacket \<Rightarrow> string + unit" where
  "WitnessPacket_validate ext p = map_err WitnessValidationFailure_display (validate_typed ext p)"

fun failure_code :: "WitnessValidationFailure \<Rightarrow> string" where
  "failure_code (UnsupportedSchema _) = ''witness.unsupported_schema''"
| "failure_code (EmptyField _) = ''witness.empty_field''"
| "failure_code (InvalidTimestamp _ _ _) = ''witness.invalid_timestamp''"
| "failure_code (ObservationNamesClaim _ _) = ''witness.claim_key_forbidden''"
| "failure_code NativeCarriesSourceReference = ''witness.native_source_ref_forbidden''"
| "failure_code NativeCarriesProjectionLimits = ''witness.native_projection_limits_forbidden''"
| "failure_code (ProjectionSourceReferenceRequired _) = ''witness.projection_source_ref_required''"
| "failure_code (ProjectionLimitsRequired _) = ''witness.projection_limits_required''"
| "failure_code (EmptyProjectionLimit _) = ''witness.empty_projection_limit''"
| "failure_code NativeCustodyLimitRequired = ''witness.native_custody_limit_required''"
| "failure_code (UnsupportedCustodyBasis _) = ''witness.unsupported_custody_basis''"

fun failure_message :: "WitnessValidationFailure \<Rightarrow> string" where
  "failure_message (UnsupportedSchema _) = ''The witness schema is unsupported.''"
| "failure_message (EmptyField _) = ''A required witness field is empty.''"
| "failure_message (InvalidTimestamp _ _ _) = ''A witness timestamp is not valid RFC3339.''"
| "failure_message (ObservationNamesClaim _ _) = ''A witness observation attempted to name a claim.''"
| "failure_message NativeCarriesSourceReference =
     ''A native witness carried projection-only source identity.''"
| "failure_message NativeCarriesProjectionLimits =
     ''A native witness carried projection-only limitations.''"
| "failure_message (ProjectionSourceReferenceRequired _) =
     ''A projected witness did not identify its source record.''"
| "failure_message (ProjectionLimitsRequired _) =
     ''A projected witness did not declare its projection limits.''"
| "failure_message (EmptyProjectionLimit _) = ''A projected witness contained a blank limit.''"
| "failure_message NativeCustodyLimitRequired =
     ''A projected witness did not disclaim native witness custody.''"
| "failure_message (UnsupportedCustodyBasis _) = ''The witness custody basis is unsupported.''"

text \<open>\<open>Result::expect\<close>: a panic is \<open>None\<close>.\<close>

definition expect :: "'e + 'a \<Rightarrow> 'a option" where
  "expect r = (case r of Inl _ \<Rightarrow> None | Inr x \<Rightarrow> Some x)"

definition fixed_refusal :: "string \<Rightarrow> string \<Rightarrow> Refusal option" where
  "fixed_refusal code message =
     Option.bind (expect (RefusalCode_new code)) (\<lambda>c. expect (Refusal_new c message False None))"

definition WitnessValidationFailure_refusal_code :: "WitnessValidationFailure \<Rightarrow> RefusalCode option" where
  "WitnessValidationFailure_refusal_code f = expect (RefusalCode_new (failure_code f))"

definition WitnessValidationFailure_refusal :: "WitnessValidationFailure \<Rightarrow> Refusal option" where
  "WitnessValidationFailure_refusal f =
     Option.bind (WitnessValidationFailure_refusal_code f)
       (\<lambda>code. expect (Refusal_new code (failure_message f) False None))"

section \<open>Identity and adoption\<close>

definition digest_bytes :: "externals \<Rightarrow> string \<Rightarrow> ContentDigest" where
  "digest_bytes ext bytes = ContentDigest (DIGEST_ALGORITHM_PREFIX @ sha256_hex ext bytes)"

definition witness_digest_jcs :: "externals \<Rightarrow> json \<Rightarrow> string + ContentDigest" where
  "witness_digest_jcs ext value =
     (case jcs_to_vec ext value of
        Inl e \<Rightarrow> Inl (''JCS canonicalization failed: '' @ e)
      | Inr bytes \<Rightarrow> Inr (digest_bytes ext bytes))"

definition content_digest :: "externals \<Rightarrow> WitnessPacket \<Rightarrow> string + ContentDigest" where
  "content_digest ext p = witness_digest_jcs ext (packet_json p)"

definition WitnessPacket_digest :: "externals \<Rightarrow> WitnessPacket \<Rightarrow> string + string" where
  "WitnessPacket_digest ext p =
     (case content_digest ext p of Inl e \<Rightarrow> Inl e | Inr d \<Rightarrow> Inr (digest_as_str d))"

definition WITNESS_SET_SCHEMA :: string where
  "WITNESS_SET_SCHEMA = ''nq.witness_set.v1''"

record ValidatedWitness =
  vw_packet :: WitnessPacket
  vw_digest :: ContentDigest

datatype WitnessAdoptionError = WAE_Validation WitnessValidationFailure | WAE_Digest string

definition ValidatedWitness_adopt ::
  "externals \<Rightarrow> WitnessPacket \<Rightarrow> WitnessAdoptionError + ValidatedWitness"
where
  "ValidatedWitness_adopt ext packet =
     res_bind (map_err WAE_Validation (validate_typed ext packet))
       (\<lambda>_. res_bind (map_err WAE_Digest (content_digest ext packet))
         (\<lambda>digest. Inr \<lparr>vw_packet = packet, vw_digest = digest\<rparr>))"

fun WitnessAdoptionError_refusal :: "WitnessAdoptionError \<Rightarrow> Refusal option" where
  "WitnessAdoptionError_refusal (WAE_Validation e) = WitnessValidationFailure_refusal e"
| "WitnessAdoptionError_refusal (WAE_Digest _) =
     fixed_refusal ''witness.digest_failed'' ''The witness packet could not be canonically identified.''"

record AdoptedWitnessSet =
  aws_witnesses :: "ValidatedWitness list"
  aws_digest :: ContentDigest

datatype PacketSetAdoptionError =
    PSE_UnsupportedSchema ContentDigest string
  | PSE_InvalidPacket ContentDigest WitnessValidationFailure
  | PSE_DuplicatePacket ContentDigest
  | PSE_Digest string

fun set_error_code :: "PacketSetAdoptionError \<Rightarrow> string" where
  "set_error_code (PSE_UnsupportedSchema _ _) = ''witness.unsupported_schema''"
| "set_error_code (PSE_InvalidPacket _ _) = ''witness.invalid_packet''"
| "set_error_code (PSE_DuplicatePacket _) = ''witness.duplicate_packet''"
| "set_error_code (PSE_Digest _) = ''witness.digest_failed''"

fun set_error_message :: "PacketSetAdoptionError \<Rightarrow> string" where
  "set_error_message (PSE_UnsupportedSchema _ _) = ''A witness packet uses an unsupported schema.''"
| "set_error_message (PSE_InvalidPacket _ _) = ''A witness packet failed structural validation.''"
| "set_error_message (PSE_DuplicatePacket _) =
     ''The packet set contains the same witness artifact more than once.''"
| "set_error_message (PSE_Digest _) = ''The witness packet set could not be canonically identified.''"

definition PacketSetAdoptionError_refusal_code :: "PacketSetAdoptionError \<Rightarrow> RefusalCode option" where
  "PacketSetAdoptionError_refusal_code e = expect (RefusalCode_new (set_error_code e))"

definition PacketSetAdoptionError_refusal :: "PacketSetAdoptionError \<Rightarrow> Refusal option" where
  "PacketSetAdoptionError_refusal e =
     Option.bind (PacketSetAdoptionError_refusal_code e)
       (\<lambda>code. expect (Refusal_new code (set_error_message e) False None))"

fun identify_packets ::
  "externals \<Rightarrow> WitnessPacket list \<Rightarrow> string + (ContentDigest \<times> WitnessPacket) list"
where
  "identify_packets ext [] = Inr []"
| "identify_packets ext (p # ps) =
     res_bind (content_digest ext p)
       (\<lambda>d. res_bind (identify_packets ext ps) (\<lambda>rest. Inr ((d, p) # rest)))"

fun validate_identified ::
  "externals \<Rightarrow> (ContentDigest \<times> WitnessPacket) list \<Rightarrow> PacketSetAdoptionError + ValidatedWitness list"
where
  "validate_identified ext [] = Inr []"
| "validate_identified ext ((d, p) # rest) =
     (case validate_typed ext p of
        Inl (UnsupportedSchema found) \<Rightarrow> Inl (PSE_UnsupportedSchema d found)
      | Inl source \<Rightarrow> Inl (PSE_InvalidPacket d source)
      | Inr _ \<Rightarrow>
          res_bind (validate_identified ext rest)
            (\<lambda>ws. Inr (\<lparr>vw_packet = p, vw_digest = d\<rparr> # ws)))"

fun adjacent_duplicate :: "ValidatedWitness list \<Rightarrow> ContentDigest option" where
  "adjacent_duplicate (a # b # rest) =
     (if vw_digest a = vw_digest b then Some (vw_digest a) else adjacent_duplicate (b # rest))"
| "adjacent_duplicate _ = None"

definition set_identity :: "ValidatedWitness list \<Rightarrow> json" where
  "set_identity ws = JObj
     [(''schema'', JStr WITNESS_SET_SCHEMA),
      (''packet_digests'', JArr (map (\<lambda>w. JStr (digest_as_str (vw_digest w))) ws))]"

definition adopt_packet_set ::
  "externals \<Rightarrow> WitnessPacket list \<Rightarrow> PacketSetAdoptionError + AdoptedWitnessSet"
where
  "adopt_packet_set ext packets =
     res_bind (map_err PSE_Digest (identify_packets ext packets)) (\<lambda>identified.
     res_bind (validate_identified ext (sort_key (\<lambda>x. digest_as_str (fst x)) identified)) (\<lambda>validated.
     case adjacent_duplicate validated of
       Some d \<Rightarrow> Inl (PSE_DuplicatePacket d)
     | None \<Rightarrow>
         res_bind (map_err PSE_Digest (witness_digest_jcs ext (set_identity validated)))
           (\<lambda>digest. Inr \<lparr>aws_witnesses = validated, aws_digest = digest\<rparr>)))"

section \<open>Refusals\<close>

text \<open>Printable text that starts and ends with a visible character is a refusal message.\<close>

definition printable :: "string \<Rightarrow> bool" where
  "printable s \<longleftrightarrow> s \<noteq> [] \<and> length s \<le> MAX_REFUSAL_MESSAGE_LEN
     \<and> plain_char (hd s) \<and> plain_char (last s) \<and> list_all (in_range 32 126) s"

lemma trim_end_last_plain: "s \<noteq> [] \<Longrightarrow> plain_char (last s) \<Longrightarrow> trim_end s = s"
proof -
  assume s: "s \<noteq> []" "plain_char (last s)"
  have "ws_suffix_len s = 0"
  proof (rule ccontr)
    assume "ws_suffix_len s \<noteq> 0"
    with s have "length s - ws_suffix_len s < length s" by simp
    then have "last s \<in> set (drop (length s - ws_suffix_len s) s)"
      by (metis drop_eq_Nil last_drop last_in_set leD)
    with s show False using ws_suffix_not_plain by blast
  qed
  then show ?thesis by (simp add: trim_end.simps)
qed

lemma trim_plain_ends: "s \<noteq> [] \<Longrightarrow> plain_char (hd s) \<Longrightarrow> plain_char (last s) \<Longrightarrow> trim s = s"
  by (simp add: trim_def trim_start.simps ws_len_plain trim_end_last_plain)

lemma printable_message: "printable s \<Longrightarrow> validate_message s = Inr ()"
proof -
  have "list_all (in_range 32 126) s \<Longrightarrow> \<not> has_control s" for s
    by (induction s) (auto simp: in_range_def)
  then show "printable s \<Longrightarrow> validate_message s = Inr ()"
    by (simp add: printable_def validate_message_def res_ok trim_plain_ends)
qed

lemma Refusal_new_printable:
  "printable m \<Longrightarrow> Refusal_new c m r a = Inr \<lparr>rf_code = c, rf_message = m, rf_retryable = r, rf_artifact_ref = a\<rparr>"
  by (simp add: Refusal_new_def printable_message)

lemma failure_code_valid: "validate_code (failure_code f) = Inr ()"
  by (cases f; simp; code_simp)

lemma set_error_code_valid: "validate_code (set_error_code e) = Inr ()"
  by (cases e; simp; code_simp)

lemma failure_message_printable: "printable (failure_message f)"
  by (cases f; simp; code_simp)

lemma set_error_message_printable: "printable (set_error_message e)"
  by (cases e; simp; code_simp)

lemmas refusal_eval = expect_def RefusalCode_new_def failure_code_valid set_error_code_valid
  Refusal_new_printable failure_message_printable set_error_message_printable

lemma failure_refusal:
  "WitnessValidationFailure_refusal f =
     Some \<lparr>rf_code = RefusalCode (failure_code f), rf_message = failure_message f,
           rf_retryable = False, rf_artifact_ref = None\<rparr>"
  by (simp add: WitnessValidationFailure_refusal_def WitnessValidationFailure_refusal_code_def refusal_eval)

lemma set_error_refusal:
  "PacketSetAdoptionError_refusal e =
     Some \<lparr>rf_code = RefusalCode (set_error_code e), rf_message = set_error_message e,
           rf_retryable = False, rf_artifact_ref = None\<rparr>"
  by (simp add: PacketSetAdoptionError_refusal_def PacketSetAdoptionError_refusal_code_def refusal_eval)

lemma adoption_error_refusal:
  "\<exists>r. WitnessAdoptionError_refusal e = Some r
     \<and> validate_code (code_as_str (rf_code r)) = Inr () \<and> validate_message (rf_message r) = Inr ()
     \<and> \<not> rf_retryable r"
proof (cases e)
  case (WAE_Digest m)
  have "validate_code ''witness.digest_failed'' = Inr ()" by code_simp
  moreover have "printable ''The witness packet could not be canonically identified.''" by code_simp
  ultimately show ?thesis
    using WAE_Digest
    by (simp add: fixed_refusal_def expect_def RefusalCode_new_def Refusal_new_printable printable_message)
qed (simp add: failure_refusal failure_code_valid failure_message_printable printable_message)

section \<open>Identity\<close>

text \<open>The \<open>expect\<close> of \<open>digest_bytes\<close> cannot panic.\<close>

lemma digest_bytes_valid:
  "sha256_shape ext \<Longrightarrow> ContentDigest_new (digest_as_str (digest_bytes ext bytes)) = Inr (digest_bytes ext bytes)"
  by (auto simp: digest_bytes_def ContentDigest_new_ok sha256_shape_def DIGEST_ALGORITHM_PREFIX_def
      SHA256_PREFIX_def SHA256_HEX_LEN_def list_all_iff is_lower_hex_def is_digit_def)

lemma witness_digest_jcs_eq:
  "witness_digest_jcs ext v = (case digest_jcs ext v of Inl e \<Rightarrow> Inl e | Inr d \<Rightarrow> Inr (ContentDigest d))"
  by (simp add: witness_digest_jcs_def digest_jcs_def digest_bytes_def split: sum.splits)

lemma WitnessPacket_digest_eq: "WitnessPacket_digest ext p = digest_jcs ext (packet_json p)"
  by (simp add: WitnessPacket_digest_def content_digest_def witness_digest_jcs_eq split: sum.splits)

lemma content_digest_ok: "content_digest ext p = Inr d \<longleftrightarrow> digest_jcs ext (packet_json p) = Inr (digest_as_str d)"
  by (cases d) (auto simp: content_digest_def witness_digest_jcs_eq split: sum.splits)

lemma position_json_eq [simp]: "WitnessPosition_json a = WitnessPosition_json b \<longleftrightarrow> a = b"
  by (cases a; cases b) simp_all

lemma packet_json_inject: "packet_json p = packet_json q \<longleftrightarrow> p = q"
proof
  assume eq: "packet_json p = packet_json q"
  have f: "json_field (packet_json p) n = json_field (packet_json q) n" for n
    using eq by simp
  have inj: "inj WitnessPosition_json" by (simp add: inj_def)
  show "p = q"
    using f [of "''schema''"] f [of "''witness_type''"] f [of "''subject''"] f [of "''access_path''"]
      f [of "''observed_at''"] f [of "''generated_at''"] f [of "''observations''"]
      f [of "''coverage_limits''"] f [of "''dependencies''"] f [of "''custody_basis''"]
      f [of "''source_finding_ref''"] f [of "''projection_limits''"] f [of "''position''"]
    by (cases p; cases q) (auto simp: packet_json_def map_add_def inj split: option.splits if_splits)
qed simp

interpretation packet: content_addressed packet_json
  by unfold_locales (simp add: packet_json_inject)

section \<open>Valid packets\<close>

text \<open>
  The envelope of \<open>nq.witness.v1\<close> as its documentation words it: the named schema, required
  fields that are not blank, two RFC 3339 times, observations that name no claim, and a custody
  basis from the closed vocabulary, where a projection and only a projection carries a source
  reference and limits, the native-custody limit among them.
\<close>

fun names_claim :: "json \<Rightarrow> bool" where
  "names_claim (JObj object) \<longleftrightarrow> ''claim'' \<in> fst ` set object \<or> ''supports'' \<in> fst ` set object"
| "names_claim _ \<longleftrightarrow> False"

definition is_projection :: "WitnessPacket \<Rightarrow> bool" where
  "is_projection p \<longleftrightarrow> wp_custody_basis p \<in> {Some CUSTODY_BASIS_LEGACY_PROJECTION, Some CUSTODY_BASIS_EXTERNAL_PROJECTION}"

definition custody_declared :: "WitnessPacket \<Rightarrow> bool" where
  "custody_declared p \<longleftrightarrow>
     (if is_projection p
      then (\<exists>s. wp_source_finding_ref p = Some s \<and> trim s \<noteq> [])
           \<and> (\<forall>l \<in> set (wp_projection_limits p). trim l \<noteq> [])
           \<and> PROJECTION_LIMIT_NATIVE_WITNESS_CUSTODY \<in> set (wp_projection_limits p)
      else wp_custody_basis p \<in> {None, Some CUSTODY_BASIS_NATIVE}
           \<and> wp_source_finding_ref p = None \<and> wp_projection_limits p = [])"

definition valid_packet :: "externals \<Rightarrow> WitnessPacket \<Rightarrow> bool" where
  "valid_packet ext p \<longleftrightarrow>
     wp_schema p = WITNESS_SCHEMA
     \<and> trim (wp_witness_type p) \<noteq> [] \<and> trim (wp_subject p) \<noteq> [] \<and> trim (wp_access_path p) \<noteq> []
     \<and> trim (wp_observed_at p) \<noteq> [] \<and> trim (wp_generated_at p) \<noteq> []
     \<and> is_ok (rfc3339_parse ext (wp_observed_at p)) \<and> is_ok (rfc3339_parse ext (wp_generated_at p))
     \<and> list_all (\<lambda>v. \<not> names_claim v) (wp_observations p)
     \<and> custody_declared p"

lemma custody_bases_distinct [simp]:
  "CUSTODY_BASIS_LEGACY_PROJECTION \<noteq> CUSTODY_BASIS_NATIVE"
  "CUSTODY_BASIS_EXTERNAL_PROJECTION \<noteq> CUSTODY_BASIS_NATIVE"
  "CUSTODY_BASIS_NATIVE \<noteq> CUSTODY_BASIS_LEGACY_PROJECTION"
  "CUSTODY_BASIS_NATIVE \<noteq> CUSTODY_BASIS_EXTERNAL_PROJECTION"
  by (simp_all add: CUSTODY_BASIS_LEGACY_PROJECTION_def CUSTODY_BASIS_EXTERNAL_PROJECTION_def
      CUSTODY_BASIS_NATIVE_def)

lemma observation_keys_ok [res_ok]: "observation_keys i v = Inr () \<longleftrightarrow> \<not> names_claim v"
  by (cases v) (auto simp: res_ok)

lemma packet_timestamp_ok [res_ok]: "packet_timestamp ext v f = Inr () \<longleftrightarrow> is_ok (rfc3339_parse ext v)"
  by (simp add: packet_timestamp_def res_ok)

lemma trim_Nil [simp]: "trim [] = []"
  by (simp add: trim_def trim_start.simps trim_end.simps ws_suffix_len_def)

lemma ball_enumerate: "(\<forall>(i, x) \<in> set (enumerate n xs). P x) \<longleftrightarrow> (\<forall>x \<in> set xs. P x)"
  by (induction xs arbitrary: n) auto

lemma enumerate_checked:
  assumes "\<And>i x. f i x = Inr () \<longleftrightarrow> P x"
  shows "(\<forall>x \<in> set (enumerate n xs). (case x of (i, y) \<Rightarrow> f i y) = Inr ()) \<longleftrightarrow> (\<forall>x \<in> set xs. P x)"
  using ball_enumerate [of n xs P] by (simp add: assms case_prod_unfold)

lemmas limits_checked = enumerate_checked [where f = "\<lambda>i l. refuse_if (trim l = []) (EmptyProjectionLimit i)"
    and P = "\<lambda>l. trim l \<noteq> []", OF refuse_if_ok]

lemmas observations_checked = enumerate_checked [where f = observation_keys
    and P = "\<lambda>v. \<not> names_claim v", OF observation_keys_ok]

lemma check_custody_ok [res_ok]: "check_custody p = Inr () \<longleftrightarrow> custody_declared p"
  by (cases "wp_custody_basis p"; cases "wp_source_finding_ref p")
    (auto simp: check_custody_def custody_declared_def is_projection_def res_ok limits_checked)

lemma validate_typed_ok [res_ok]: "validate_typed ext p = Inr () \<longleftrightarrow> valid_packet ext p"
  by (simp add: validate_typed_def valid_packet_def res_ok observations_checked list_all_iff)

lemma WitnessPacket_validate_ok [res_ok]: "WitnessPacket_validate ext p = Inr () \<longleftrightarrow> valid_packet ext p"
  by (simp add: WitnessPacket_validate_def res_ok)

lemma adopt_ok:
  "ValidatedWitness_adopt ext p = Inr w \<longleftrightarrow>
     valid_packet ext p \<and> vw_packet w = p
     \<and> digest_jcs ext (packet_json p) = Inr (digest_as_str (vw_digest w))"
  by (cases w) (auto simp: ValidatedWitness_adopt_def res_ok content_digest_ok)

section \<open>Packet sets\<close>

abbreviation digest_key :: "ContentDigest \<times> WitnessPacket \<Rightarrow> string" where
  "digest_key x \<equiv> digest_as_str (fst x)"

definition identified :: "externals \<Rightarrow> WitnessPacket \<Rightarrow> ContentDigest \<times> WitnessPacket" where
  "identified ext p = (ContentDigest (case digest_jcs ext (packet_json p) of Inl _ \<Rightarrow> [] | Inr d \<Rightarrow> d), p)"

lemma identify_packets_total:
  assumes "jcs_total ext"
  shows "identify_packets ext ps = Inr (map (identified ext) ps)"
proof (induction ps)
  case (Cons p ps)
  from assms obtain d where "digest_jcs ext (packet_json p) = Inr d"
    using digest_jcs_total by blast
  with Cons show ?case
    by (simp add: identified_def content_digest_def witness_digest_jcs_eq)
qed simp

lemma validate_identified_ok:
  "validate_identified ext xs = Inr ws \<longleftrightarrow>
     (\<forall>x \<in> set xs. valid_packet ext (snd x)) \<and> ws = map (\<lambda>(d, p). \<lparr>vw_packet = p, vw_digest = d\<rparr>) xs"
proof (induction xs arbitrary: ws)
  case (Cons x xs)
  obtain d p where x: "x = (d, p)" by (cases x)
  show ?case
  proof (cases "validate_typed ext p")
    case (Inl e)
    then have "\<not> valid_packet ext p" using validate_typed_ok [of ext p] by auto
    with Inl x show ?thesis by (cases e) auto
  next
    case (Inr u)
    then have "valid_packet ext p" using validate_typed_ok [of ext p] by simp
    with Inr x show ?thesis by (auto simp: res_bind_Inr_iff Cons.IH)
  qed
qed auto

lemma adjacent_duplicate_None:
  "sorted (map (\<lambda>w. digest_as_str (vw_digest w)) ws) \<Longrightarrow>
   adjacent_duplicate ws = None \<longleftrightarrow> distinct (map vw_digest ws)"
proof (induction ws rule: adjacent_duplicate.induct)
  case (1 a b rest)
  show ?case
  proof (cases "vw_digest a = vw_digest b")
    case False
    have "vw_digest a \<notin> vw_digest ` set rest"
    proof
      assume "vw_digest a \<in> vw_digest ` set rest"
      then obtain w where w: "w \<in> set rest" "vw_digest a = vw_digest w" by auto
      with 1 have "digest_as_str (vw_digest a) = digest_as_str (vw_digest b)"
        by (auto intro: antisym)
      with False show False by (simp add: ContentDigest.expand)
    qed
    with False 1 show ?thesis by auto
  qed simp
qed simp_all

abbreviation collision_free :: "externals \<Rightarrow> WitnessPacket list \<Rightarrow> bool" where
  "collision_free ext ps \<equiv>
     list_all (\<lambda>p. list_all (\<lambda>q. no_collision ext (packet_json p) (packet_json q)) ps) ps"

lemma sort_key_mset_cong:
  assumes "mset xs = mset ys" "inj_on f (set xs)"
  shows "sort_key f xs = sort_key f ys"
  using assms by (intro sort_key_inj_key_eq) simp_all

lemma identified_key_inj:
  assumes "jcs_total ext" "collision_free ext ps"
  shows "inj_on (\<lambda>p. digest_as_str (fst (identified ext p))) (set ps)"
proof (rule inj_onI)
  fix p q assume pq: "p \<in> set ps" "q \<in> set ps"
    and eq: "digest_as_str (fst (identified ext p)) = digest_as_str (fst (identified ext q))"
  obtain d e where d: "digest_jcs ext (packet_json p) = Inr d" and e: "digest_jcs ext (packet_json q) = Inr e"
    using assms(1) digest_jcs_total by meson
  with eq have "d = e" by (simp add: identified_def)
  with d e pq assms(2) show "p = q"
    by (auto simp: list_all_iff intro: packet.digest_identifies)
qed

lemma identified_inj_on:
  "jcs_total ext \<Longrightarrow> collision_free ext ps \<Longrightarrow> inj_on digest_key (set (map (identified ext) ps))"
  using identified_key_inj [of ext ps] by (auto simp: inj_on_def)

lemma adopt_packet_set_eq:
  assumes "jcs_total ext"
  shows "adopt_packet_set ext ps =
     res_bind (validate_identified ext (sort_key digest_key (map (identified ext) ps))) (\<lambda>validated.
     case adjacent_duplicate validated of
       Some d \<Rightarrow> Inl (PSE_DuplicatePacket d)
     | None \<Rightarrow> Inr \<lparr>aws_witnesses = validated,
         aws_digest = ContentDigest (case digest_jcs ext (set_identity validated) of Inl _ \<Rightarrow> [] | Inr d \<Rightarrow> d)\<rparr>)"
proof -
  have "\<exists>d. digest_jcs ext v = Inr d" for v using assms by (rule digest_jcs_total)
  then have "witness_digest_jcs ext v = Inr (ContentDigest (case digest_jcs ext v of Inl _ \<Rightarrow> [] | Inr d \<Rightarrow> d))" for v
    by (auto simp: witness_digest_jcs_eq split: sum.split) (metis Inl_Inr_False)
  then show ?thesis
    by (simp add: adopt_packet_set_def identify_packets_total [OF assms] cong: option.case_cong)
qed

lemma adopt_packet_set_ok:
  assumes t: "jcs_total ext" and c: "collision_free ext ps"
  shows "adopt_packet_set ext ps = Inr s \<Longrightarrow>
           mset (map vw_packet (aws_witnesses s)) = mset ps
           \<and> sorted (map (\<lambda>w. digest_as_str (vw_digest w)) (aws_witnesses s))
           \<and> (\<forall>w \<in> set (aws_witnesses s). ValidatedWitness_adopt ext (vw_packet w) = Inr w)"
    and "is_ok (adopt_packet_set ext ps) \<longleftrightarrow> distinct ps \<and> (\<forall>p \<in> set ps. valid_packet ext p)"
proof -
  let ?xs = "sort_key digest_key (map (identified ext) ps)"
  let ?ws = "map (\<lambda>(d, p). \<lparr>vw_packet = p, vw_digest = d\<rparr>) ?xs"
  have pk: "map vw_packet ?ws = map snd ?xs" and dg: "map vw_digest ?ws = map fst ?xs"
    by (auto simp: case_prod_unfold)
  have "image_mset snd (mset ?xs) = mset ps"
    by (simp add: image_mset.compositionality identified_def comp_def)
  then have ms: "mset (map vw_packet ?ws) = mset ps"
    unfolding pk by simp
  have "sorted (map digest_key ?xs)" by simp
  then have st: "sorted (map (\<lambda>w. digest_as_str (vw_digest w)) ?ws)"
    by (simp add: comp_def case_prod_unfold)
  have dup: "distinct (map vw_digest ?ws) \<longleftrightarrow> distinct ps"
  proof -
    have "distinct (map fst ?xs) \<longleftrightarrow> distinct (map fst (map (identified ext) ps))"
      by (intro mset_eq_imp_distinct_iff) (simp add: multiset.map_comp)
    also have "\<dots> \<longleftrightarrow> distinct ps"
      using identified_key_inj [OF t c] by (auto simp: distinct_map inj_on_def)
    finally show ?thesis unfolding dg .
  qed
  have ok: "validate_identified ext ?xs = Inr v \<longleftrightarrow> (\<forall>p \<in> set ps. valid_packet ext p) \<and> v = ?ws" for v
    by (auto simp: validate_identified_ok identified_def)
  show "is_ok (adopt_packet_set ext ps) \<longleftrightarrow> distinct ps \<and> (\<forall>p \<in> set ps. valid_packet ext p)"
    using adjacent_duplicate_None [OF st] dup
    by (auto simp: adopt_packet_set_eq [OF t] is_ok_iff res_ok ok split: option.splits)
  assume "adopt_packet_set ext ps = Inr s"
  then have v: "\<forall>p \<in> set ps. valid_packet ext p" and s: "aws_witnesses s = ?ws"
    by (auto simp: adopt_packet_set_eq [OF t] res_ok ok split: option.splits)
  have "digest_jcs ext (packet_json p) = Inr (digest_as_str (fst (identified ext p)))" for p
    using digest_jcs_total [OF t, of "packet_json p"] by (auto simp: identified_def)
  with v have "\<forall>w \<in> set ?ws. ValidatedWitness_adopt ext (vw_packet w) = Inr w"
    by (auto simp: adopt_ok identified_def)
  with ms st s show "mset (map vw_packet (aws_witnesses s)) = mset ps
           \<and> sorted (map (\<lambda>w. digest_as_str (vw_digest w)) (aws_witnesses s))
           \<and> (\<forall>w \<in> set (aws_witnesses s). ValidatedWitness_adopt ext (vw_packet w) = Inr w)"
    by simp
qed

lemma adopt_packet_set_perm:
  assumes "jcs_total ext" "collision_free ext ps" "mset qs = mset ps"
  shows "adopt_packet_set ext qs = adopt_packet_set ext ps"
proof -
  have "sort_key digest_key (map (identified ext) ps) = sort_key digest_key (map (identified ext) qs)"
    using assms by (intro sort_key_mset_cong identified_inj_on) simp_all
  then show ?thesis by (simp add: adopt_packet_set_eq [OF assms(1)])
qed


text \<open>
  C37: adopting a set of packets does not depend on the order in which they are supplied, it
  succeeds exactly when every packet is valid and none occurs twice, and the adopted set holds
  each supplied packet once, in the order of the content digests, each as if adopted alone.
  Canonicalisation is total and the supplied packets do not collide.
\<close>

theorem packet_set_adoption:
  assumes "jcs_total ext" and "collision_free ext ps"
  shows "(mset qs = mset ps \<longrightarrow> adopt_packet_set ext qs = adopt_packet_set ext ps)
   \<and> (is_ok (adopt_packet_set ext ps) \<longleftrightarrow> distinct ps \<and> (\<forall>p \<in> set ps. valid_packet ext p))
   \<and> (\<forall>s. adopt_packet_set ext ps = Inr s \<longrightarrow>
        mset (map vw_packet (aws_witnesses s)) = mset ps
        \<and> sorted (map (\<lambda>w. digest_as_str (vw_digest w)) (aws_witnesses s))
        \<and> (\<forall>w \<in> set (aws_witnesses s). ValidatedWitness_adopt ext (vw_packet w) = Inr w))"
  using adopt_packet_set_ok [OF assms] adopt_packet_set_perm [OF assms] by blast

text \<open>
  C40: every failure of adopting a packet or a packet set converts into a refusal without a
  panic, and the refusal is well formed: its code and its message pass the checks of the wire
  types, and it is never marked retryable.
\<close>

theorem refusals_are_well_formed:
  "(\<exists>r. WitnessAdoptionError_refusal e = Some r
      \<and> validate_code (code_as_str (rf_code r)) = Inr () \<and> validate_message (rf_message r) = Inr ()
      \<and> \<not> rf_retryable r)
   \<and> (\<exists>r. PacketSetAdoptionError_refusal e' = Some r
      \<and> validate_code (code_as_str (rf_code r)) = Inr () \<and> validate_message (rf_message r) = Inr ()
      \<and> \<not> rf_retryable r)"
  using adoption_error_refusal [of e] set_error_refusal [of e']
  by (auto simp: set_error_code_valid set_error_message_printable printable_message)

section \<open>A concrete packet\<close>

definition demo_packet :: WitnessPacket where
  "demo_packet = \<lparr>wp_schema = ''nq.witness.v1'', wp_witness_type = ''pytest'', wp_subject = ''repo'',
     wp_access_path = ''cli'', wp_observed_at = ''2026Z'', wp_generated_at = ''2026Z'',
     wp_observations = [JObj [(''type'', JStr ''pytest_run''), (''exit_code'', JInt 0)]],
     wp_coverage_limits = [], wp_dependencies = [], wp_custody_basis = Some ''native_observation'',
     wp_source_finding_ref = None, wp_projection_limits = [], wp_position = None\<rparr>"

lemma demo_packet_valid: "valid_packet demo_ext demo_packet"
  by (simp add: valid_packet_def demo_packet_def demo_ext_def custody_declared_def is_projection_def
      WITNESS_SCHEMA_def CUSTODY_BASIS_LEGACY_PROJECTION_def CUSTODY_BASIS_EXTERNAL_PROJECTION_def
      CUSTODY_BASIS_NATIVE_def str_eval)

lemma no_collision_refl: "no_collision ext v v"
  by (simp add: no_collision_def)

theorem packet_set_adoption_witness:
  "is_ok (adopt_packet_set demo_ext [demo_packet]) \<and> \<not> is_ok (adopt_packet_set demo_ext [demo_packet, demo_packet])"
proof -
  have c: "collision_free demo_ext [demo_packet]" "collision_free demo_ext [demo_packet, demo_packet]"
    by (simp_all add: no_collision_refl)
  have "is_ok (adopt_packet_set demo_ext [demo_packet]) \<longleftrightarrow>
      distinct [demo_packet] \<and> (\<forall>p \<in> set [demo_packet]. valid_packet demo_ext p)"
    using packet_set_adoption [OF demo_ext_total c(1)] by blast
  moreover have "is_ok (adopt_packet_set demo_ext [demo_packet, demo_packet]) \<longrightarrow>
      distinct [demo_packet, demo_packet]"
    using packet_set_adoption [OF demo_ext_total c(2)] by blast
  ultimately show ?thesis by (simp add: demo_packet_valid)
qed

end
