(* ===== verification/Preflight_Core.thy ===== *)
theory Preflight_Core
  imports Witness_Packet
begin

text \<open>
  The vocabulary of evidence evaluation and of operational preflights: the refusals and
  dispositions of the crate \<open>nq\<close> (\<open>refusal.rs\<close>, \<open>disposition.rs\<close>) and the preflight result of
  \<open>nq-core\<close> (\<open>preflight.rs\<close>) with its claim kinds, verdicts, constitutional refusal lists,
  skeleton and time-basis check.

  The refusal lists are the statements of the source, byte for byte (a dash or an arrow is its
  UTF-8 encoding). The instant of a timestamp is in nanoseconds.
\<close>

section \<open>Refusals and dispositions\<close>

datatype RefusalKind =
    ConsequenceClaim
  | FutureStateClaim
  | SelfAuditRefusal
  | OutOfJurisdiction
  | AboveSubstrate
  | BelowSubstrate
  | EnvironmentalContext
  | AbsenceSemantics
  | CompositionReEmission
  | KindSpecific

fun RefusalKind_json :: "RefusalKind \<Rightarrow> json" where
  "RefusalKind_json ConsequenceClaim = JStr ''consequence_claim''"
| "RefusalKind_json FutureStateClaim = JStr ''future_state_claim''"
| "RefusalKind_json SelfAuditRefusal = JStr ''self_audit_refusal''"
| "RefusalKind_json OutOfJurisdiction = JStr ''out_of_jurisdiction''"
| "RefusalKind_json AboveSubstrate = JStr ''above_substrate''"
| "RefusalKind_json BelowSubstrate = JStr ''below_substrate''"
| "RefusalKind_json EnvironmentalContext = JStr ''environmental_context''"
| "RefusalKind_json AbsenceSemantics = JStr ''absence_semantics''"
| "RefusalKind_json CompositionReEmission = JStr ''composition_re_emission''"
| "RefusalKind_json KindSpecific = JStr ''kind_specific''"

record ClaimRefusal =
  cr_refusal_kind :: RefusalKind
  cr_statement :: string

definition ClaimRefusal_new :: "RefusalKind \<Rightarrow> string \<Rightarrow> ClaimRefusal" where
  "ClaimRefusal_new refusal_kind statement = \<lparr>cr_refusal_kind = refusal_kind, cr_statement = statement\<rparr>"

definition ClaimRefusal_json :: "ClaimRefusal \<Rightarrow> json" where
  "ClaimRefusal_json r = JObj
     [(''refusal_kind'', RefusalKind_json (cr_refusal_kind r)), (''statement'', JStr (cr_statement r))]"

datatype Status = Verified | PartiallyVerified | NeedsMoreEvidence | NotVerified | InvalidEvidence

fun Status_json :: "Status \<Rightarrow> json" where
  "Status_json Verified = JStr ''verified''"
| "Status_json PartiallyVerified = JStr ''partially_verified''"
| "Status_json NeedsMoreEvidence = JStr ''needs_more_evidence''"
| "Status_json NotVerified = JStr ''not_verified''"
| "Status_json InvalidEvidence = JStr ''invalid_evidence''"

datatype StatusReason =
    AllRequirementsVerified
  | PartialComposite
  | MissingRequiredClaim
  | ClaimConditionFailed
  | StaleObservation
  | ContradictoryObservation
  | NonMintable
  | SuggestedWeakerClaimAvailable
  | InvalidWitness

fun StatusReason_json :: "StatusReason \<Rightarrow> json" where
  "StatusReason_json AllRequirementsVerified = JStr ''all_requirements_verified''"
| "StatusReason_json PartialComposite = JStr ''partial_composite''"
| "StatusReason_json MissingRequiredClaim = JStr ''missing_required_claim''"
| "StatusReason_json ClaimConditionFailed = JStr ''claim_condition_failed''"
| "StatusReason_json StaleObservation = JStr ''stale_observation''"
| "StatusReason_json ContradictoryObservation = JStr ''contradictory_observation''"
| "StatusReason_json NonMintable = JStr ''non_mintable''"
| "StatusReason_json SuggestedWeakerClaimAvailable = JStr ''suggested_weaker_claim_available''"
| "StatusReason_json InvalidWitness = JStr ''invalid_witness''"

record WitnessRef =
  wr_witness_type :: string
  wr_digest :: "string option"
  wr_observed_at :: "string option"
  wr_custody_basis :: "string option"

definition WitnessRef_json :: "WitnessRef \<Rightarrow> json" where
  "WitnessRef_json w = JObj
     ([(''witness_type'', JStr (wr_witness_type w))]
      @ opt_field ''digest'' JStr (wr_digest w)
      @ opt_field ''observed_at'' JStr (wr_observed_at w)
      @ opt_field ''custody_basis'' JStr (wr_custody_basis w))"

record EvaluationView =
  ev_claim :: string
  ev_subject :: string
  ev_status :: Status
  ev_status_reasons :: "StatusReason list"
  ev_cannot_testify :: "ClaimRefusal list"
  ev_witnesses :: "WitnessRef list"
  ev_content_hash :: "string option"

section \<open>Preflight results\<close>

definition PREFLIGHT_DISK_STATE_SCHEMA :: string where
  "PREFLIGHT_DISK_STATE_SCHEMA = ''nq.preflight.disk_state.v1''"

definition PREFLIGHT_INGEST_STATE_SCHEMA :: string where
  "PREFLIGHT_INGEST_STATE_SCHEMA = ''nq.preflight.ingest_state.v1''"

definition PREFLIGHT_DNS_STATE_SCHEMA :: string where
  "PREFLIGHT_DNS_STATE_SCHEMA = ''nq.preflight.dns_state.v1''"

definition PREFLIGHT_SQLITE_WAL_STATE_SCHEMA :: string where
  "PREFLIGHT_SQLITE_WAL_STATE_SCHEMA = ''nq.preflight.sqlite_wal_state.v1''"

definition PREFLIGHT_SERVICE_STATE_SCHEMA :: string where
  "PREFLIGHT_SERVICE_STATE_SCHEMA = ''nq.preflight.service_state.v1''"

definition PREFLIGHT_COMPONENT_TESTIMONY_OBSERVATION_LOOP_ALIVE_SCHEMA :: string where
  "PREFLIGHT_COMPONENT_TESTIMONY_OBSERVATION_LOOP_ALIVE_SCHEMA = ''nq.preflight.component_testimony_observation_loop_alive.v1''"

definition PREFLIGHT_NQ_BINARY_MTIME_STATE_SCHEMA :: string where
  "PREFLIGHT_NQ_BINARY_MTIME_STATE_SCHEMA = ''nq.preflight.nq_binary_mtime_state.v1''"

definition PREFLIGHT_NQ_EVALUATOR_STATE_SCHEMA :: string where
  "PREFLIGHT_NQ_EVALUATOR_STATE_SCHEMA = ''nq.preflight.nq_evaluator_state.v1''"

definition PREFLIGHT_NQ_SQL_CONTRACT_STATE_SCHEMA :: string where
  "PREFLIGHT_NQ_SQL_CONTRACT_STATE_SCHEMA = ''nq.preflight.nq_sql_contract_state.v1''"

definition PREFLIGHT_CONTRACT_VERSION :: u32 where
  "PREFLIGHT_CONTRACT_VERSION = 2"

definition TIME_BASIS_DRIFT_THRESHOLD_MS :: int where
  "TIME_BASIS_DRIFT_THRESHOLD_MS = 300000"

datatype ClaimKind =
    DiskState
  | IngestState
  | DnsState
  | SqliteWalState
  | ComponentTestimonyObservationLoopAlive
  | NqBinaryMtimeState
  | NqEvaluatorState
  | NqSqlContractState
  | ServiceState

fun ClaimKind_as_str :: "ClaimKind \<Rightarrow> string" where
  "ClaimKind_as_str DiskState = ''disk_state''"
| "ClaimKind_as_str IngestState = ''ingest_state''"
| "ClaimKind_as_str DnsState = ''dns_state''"
| "ClaimKind_as_str SqliteWalState = ''sqlite_wal_state''"
| "ClaimKind_as_str ComponentTestimonyObservationLoopAlive = ''component_testimony_observation_loop_alive''"
| "ClaimKind_as_str NqBinaryMtimeState = ''nq_binary_mtime_state''"
| "ClaimKind_as_str NqEvaluatorState = ''nq_evaluator_state''"
| "ClaimKind_as_str NqSqlContractState = ''nq_sql_contract_state''"
| "ClaimKind_as_str ServiceState = ''service_state''"

datatype ResponseKind =
  Success | Nodata | Nxdomain | Servfail | Refused | Timeout | TransportError | ValidationFailure

fun ResponseKind_as_str :: "ResponseKind \<Rightarrow> string" where
  "ResponseKind_as_str Success = ''success''"
| "ResponseKind_as_str Nodata = ''nodata''"
| "ResponseKind_as_str Nxdomain = ''nxdomain''"
| "ResponseKind_as_str Servfail = ''servfail''"
| "ResponseKind_as_str Refused = ''refused''"
| "ResponseKind_as_str Timeout = ''timeout''"
| "ResponseKind_as_str TransportError = ''transport_error''"
| "ResponseKind_as_str ValidationFailure = ''validation_failure''"

datatype UnknownResponseKind = UnknownResponseKind string

fun UnknownResponseKind_display :: "UnknownResponseKind \<Rightarrow> string" where
  "UnknownResponseKind_display (UnknownResponseKind s) = ''unknown dns response_kind: '' @ debug_str s"

definition ResponseKind_from_str :: "string \<Rightarrow> UnknownResponseKind + ResponseKind" where
  "ResponseKind_from_str s =
     (if s = ''success'' then Inr Success
      else if s = ''nodata'' then Inr Nodata
      else if s = ''nxdomain'' then Inr Nxdomain
      else if s = ''servfail'' then Inr Servfail
      else if s = ''refused'' then Inr Refused
      else if s = ''timeout'' then Inr Timeout
      else if s = ''transport_error'' then Inr TransportError
      else if s = ''validation_failure'' then Inr ValidationFailure
      else Inl (UnknownResponseKind s))"

datatype Verdict =
    Admissible
  | AdmissibleWithScope
  | UnsupportedAsStated
  | ClaimExceedsTestimony
  | InsufficientCoverage
  | StaleTestimony
  | ContradictoryTestimony
  | CannotTestify

datatype TimeBasisStatus = TB_Unknown | TB_Suspect

record TimeBasisAnnotation =
  tb_status :: TimeBasisStatus
  tb_suspicion_kinds :: "string list"
  tb_max_observation_delta_ms :: "int option"
  tb_threshold_ms :: int

record PreflightTarget =
  pt_host :: string
  pt_scope :: string
  pt_id :: "string option"

definition PreflightTarget_json :: "PreflightTarget \<Rightarrow> json" where
  "PreflightTarget_json t = JObj
     ([(''host'', JStr (pt_host t)), (''scope'', JStr (pt_scope t))] @ opt_field ''id'' JStr (pt_id t))"

record SupportingWitnessPacket =
  swp_witness_type :: string
  swp_digest :: string
  swp_observed_at :: string
  swp_custody_basis :: "string option"
  swp_position :: "WitnessPosition option"

record PreflightSupport =
  ps_claim :: string
  ps_finding_kind :: string
  ps_subject :: string
  ps_observed_at :: "string option"
  ps_freshness :: "string option"
  ps_admissibility_state :: "string option"
  ps_witness_packet :: "SupportingWitnessPacket option"

record PreflightExclusion =
  pe_finding_kind :: string
  pe_subject :: string
  pe_reason :: string
  pe_detail :: "string option"

record PreflightCoverage =
  pc_witness :: string
  pc_standing :: string
  pc_note :: "string option"

record PreflightResult =
  pr_schema :: string
  pr_contract_version :: u32
  pr_claim_kind :: ClaimKind
  pr_target :: PreflightTarget
  pr_verdict :: Verdict
  pr_verdict_note :: "string option"
  pr_supports :: "PreflightSupport list"
  pr_excludes :: "PreflightExclusion list"
  pr_cannot_testify :: "ClaimRefusal list"
  pr_coverage :: "PreflightCoverage list"
  pr_generated_at :: string
  pr_observed_at_min :: "string option"
  pr_observed_at_max :: "string option"
  pr_freshness_horizon :: "string option"
  pr_time_basis :: "TimeBasisAnnotation option"
  pr_signals :: "json option"

section \<open>Constitutional refusals\<close>

definition ingest_state_cannot_testify :: "ClaimRefusal list" where
  "ingest_state_cannot_testify =
     [ClaimRefusal_new EnvironmentalContext
        (''Upstream source substrate health (NQ observed its own pull attempt; the source's actual state is upstream and beyond witness)''),
      ClaimRefusal_new FutureStateClaim
        (''Future ingest success or failure''),
      ClaimRefusal_new AboveSubstrate
        (''Semantic correctness of ingested data (the pull cycle's structural state is testifiable; the content's truth is not)''),
      ClaimRefusal_new EnvironmentalContext
        (''Network connectivity health''),
      ClaimRefusal_new ConsequenceClaim
        (''Whether to restart, reconfigure, or deactivate a failing source (consequence claim)''),
      ClaimRefusal_new SelfAuditRefusal
        (''NQ's own overall health (the witness cannot be its own complete audit)''),
      ClaimRefusal_new FutureStateClaim
        (''Whether ingest will recover from the current failure shape (future-state claim)'')]"

definition dns_state_cannot_testify :: "ClaimRefusal list" where
  "dns_state_cannot_testify =
     [ClaimRefusal_new AboveSubstrate
        (''Endpoint reachability for the resolved name (DNS is not TCP)''),
      ClaimRefusal_new AboveSubstrate
        (''Service health at any address returned (DNS is not the service)''),
      ClaimRefusal_new OutOfJurisdiction
        (''User-visible availability (anycast / split horizon / per-network views unobserved)''),
      ClaimRefusal_new OutOfJurisdiction
        (''Global DNS truth for this name (one vantage, one resolver '' @ [CHR 0xE2, CHR 0x80, CHR 0x94] @ '' not the world)''),
      ClaimRefusal_new EnvironmentalContext
        (''Authoritative-zone correctness (V0 likely reads recursive/cached answers; authority is upstream)''),
      ClaimRefusal_new FutureStateClaim
        (''Future resolution (TTL is a hint, not a contract)''),
      ClaimRefusal_new FutureStateClaim
        (''Permanence of negative answers (NXDOMAIN now '' @ [CHR 0xE2, CHR 0x89, CHR 0xA0] @ '' NXDOMAIN forever; cached denial is dated)''),
      ClaimRefusal_new KindSpecific
        (''Reverse mapping (address '' @ [CHR 0xE2, CHR 0x86, CHR 0x92] @ '' name) for any A/AAAA result (PTR is a separate query)''),
      ClaimRefusal_new AboveSubstrate
        (''Registrar / account / ownership status (DNS responses do not testify to custody)''),
      ClaimRefusal_new KindSpecific
        (''DNSSEC validation outcome (V0 does not validate; reserve refusal slot for when it does)''),
      ClaimRefusal_new BelowSubstrate
        (''Resolver-internal substrate health (SERVFAIL is testimony about the resolver, not about the name)''),
      ClaimRefusal_new FutureStateClaim
        (''Recovery prediction for any error-class response (future-state claim)''),
      ClaimRefusal_new ConsequenceClaim
        (''Whether to repoint, fail over, retry, or page (consequence claim)'')]"

definition sqlite_wal_state_cannot_testify :: "ClaimRefusal list" where
  "sqlite_wal_state_cannot_testify =
     [ClaimRefusal_new AboveSubstrate
        (''Whether the application that owns this DB will recover (application-state claim; the WAL substrate does not testify to it)''),
      ClaimRefusal_new AboveSubstrate
        (''Whether queries against this DB will return correct results (application-layer query semantics, above what WAL substrate licenses)''),
      ClaimRefusal_new AboveSubstrate
        (''Whether reports / downstream artifacts derived from this DB are stale (application-layer claim, not WAL substrate)''),
      ClaimRefusal_new OutOfJurisdiction
        (''Whether the WAL state on a different DB file is healthy (single-target jurisdiction)''),
      ClaimRefusal_new FutureStateClaim
        (''Whether the WAL state will degrade in the future (future-state claim)''),
      ClaimRefusal_new BelowSubstrate
        (''Whether checkpoint operations succeeded (the operation itself is below substrate; absence of effect is testifiable, the operation is not)''),
      ClaimRefusal_new AbsenceSemantics
        (''Why the '' @ [CHR 0x60] @ ''-wal'' @ [CHR 0x60] @ '' sidecar is absent on a given observation (a non-WAL '' @ [CHR 0x60] @ ''journal_mode'' @ [CHR 0x60] @ '', post-checkpoint cleanup, and post-close cleanup all produce '' @ [CHR 0x60] @ ''wal_present=false'' @ [CHR 0x60] @ ''; the probe stat()s the path and cannot distinguish them from substrate state alone '' @ [CHR 0xE2, CHR 0x80, CHR 0x94] @ '' see '' @ [CHR 0x60] @ ''KIND_4_SQLITE_WAL_PROBE.md'' @ [CHR 0x60] @ '' '' @ [CHR 0xC2, CHR 0xA7] @ ''8)''),
      ClaimRefusal_new AboveSubstrate
        (''Whether the reader holding a pinned transaction is the right reader to hold it (operational-context claim)''),
      ClaimRefusal_new BelowSubstrate
        (''Whether SQLite's behavior is correct given its inputs (DB engine correctness is below substrate)''),
      ClaimRefusal_new ConsequenceClaim
        (''Whether to restart, repoint, kill the pinned reader, or page (consequence claim)'')]"

definition component_testimony_observation_loop_alive_cannot_testify :: "ClaimRefusal list" where
  "component_testimony_observation_loop_alive_cannot_testify =
     [ClaimRefusal_new SelfAuditRefusal
        (''Whether NQ is healthy (the observation loop running is one signal among many; an alive loop emitting heartbeats does not testify to NQ standing as a whole)''),
      ClaimRefusal_new OutOfJurisdiction
        (''Whether other NQ loops (reconciler, ack, ingest, export) are alive (this kind testifies only to the observation loop; sibling loops need their own component-testimony kinds)''),
      ClaimRefusal_new AboveSubstrate
        (''Whether NQ's stored claims are semantically correct (substrate observation only)''),
      ClaimRefusal_new AboveSubstrate
        (''Whether NQ's ingested witnesses are truthful (NQ does not certify producer truthfulness)''),
      ClaimRefusal_new KindSpecific
        (''Whether SQLite is an admissible architecture for this deployment (substrate-state observation does not endorse substrate-choice)''),
      ClaimRefusal_new ConsequenceClaim
        (''Whether to escalate, restart, or page (consequence claim; per the escalation_target field, lifecycle resolution lives outside NQ when the subject is NQ-self)''),
      ClaimRefusal_new AbsenceSemantics
        (''Whether absence of this testimony means NQ is unhealthy (absence under declared coverage is one of seven absence states; only the consumer routes it to escalation, NQ does not)''),
      ClaimRefusal_new FutureStateClaim
        (''Whether NQ's future operation is safe (no future-state testimony)''),
      ClaimRefusal_new CompositionReEmission
        (''Whether composed verdicts derived from this testimony may be re-emitted as claims (composition is read-side projection only; see NQ_NS_CHANNEL_SPLIT_NQ_SIDE '' @ [CHR 0xC2, CHR 0xA7] @ ''4 composition rule)'')]"

definition nq_binary_mtime_state_cannot_testify :: "ClaimRefusal list" where
  "nq_binary_mtime_state_cannot_testify =
     [ClaimRefusal_new BelowSubstrate
        (''Whether the binary contains the source code the operator intended (build-time provenance; substrate observation cannot verify)''),
      ClaimRefusal_new BelowSubstrate
        (''Whether the binary will execute correctly (behavior, not substrate)''),
      ClaimRefusal_new OutOfJurisdiction
        (''Whether the binary's content_hash matches a peer host's binary (single-target jurisdiction; cross-host comparison is Tier 2)''),
      ClaimRefusal_new OutOfJurisdiction
        (''Whether the running process is using this binary (process inspection, not on-disk observation; /proc/<pid>/exe would be the substrate for that)''),
      ClaimRefusal_new KindSpecific
        (''Whether the binary was tampered with (signature verification is not part of this kind; content_hash is identity, not authenticity)''),
      ClaimRefusal_new ConsequenceClaim
        (''Whether to redeploy, roll back, or page (consequence claim)''),
      ClaimRefusal_new SelfAuditRefusal
        (''Whether NQ as a whole is operationally sound (the binary is one substrate among many; binary identity alone does not testify to NQ standing; see the sixth-keeper rule in NQ_ON_NQ_OPERATIONAL_CLAIMS_GAP)'')]"

definition nq_evaluator_state_cannot_testify :: "ClaimRefusal list" where
  "nq_evaluator_state_cannot_testify =
     [ClaimRefusal_new KindSpecific
        (''Whether the evaluator's verdicts about real-world state are correct (fixture liveness is not correctness; a broken evaluator can pass its own fixture)''),
      ClaimRefusal_new OutOfJurisdiction
        (''Whether the route serves this kind (route-level testimony is nq_route_state's job; not designed)''),
      ClaimRefusal_new OutOfJurisdiction
        (''Whether all supported kinds work on this host (per-kind testimony only; aggregation would collapse the diagnostic axis the kind exists to preserve)''),
      ClaimRefusal_new OutOfJurisdiction
        (''Whether cross-host evaluator parity holds (Tier 2; not designed)''),
      ClaimRefusal_new FutureStateClaim
        (''Whether the evaluator's substrate is healthy in the abstract (this kind tests query-path reachability at observation time, not substrate health as an ongoing property)''),
      ClaimRefusal_new OutOfJurisdiction
        (''Whether the binary running is the right binary (nq_binary_mtime_state's job)''),
      ClaimRefusal_new SelfAuditRefusal
        (''Whether NQ as a whole is operationally sound (sixth-keeper refusal; per-kind evaluator readiness does not testify to NQ standing)''),
      ClaimRefusal_new FutureStateClaim
        (''Whether the evaluator should be trusted past this observation (the scope is per-observation; AdmissibleWithScope at time T does not license a forward-going trust horizon)''),
      ClaimRefusal_new KindSpecific
        (''Whether the evaluator is bug-free (fixture coverage is narrow; absence of fixture failure is not evidence of correctness)''),
      ClaimRefusal_new ConsequenceClaim
        (''Whether to redeploy, roll back, page, or take any action (consequence claim)'')]"

definition nq_sql_contract_state_cannot_testify :: "ClaimRefusal list" where
  "nq_sql_contract_state_cannot_testify =
     [ClaimRefusal_new KindSpecific
        (''Whether the documented public-tier views have stable columns (existence check only; column drift is out of scope for this kind)''),
      ClaimRefusal_new AboveSubstrate
        (''Whether the documented public-tier views return semantically correct rows (existence check, not query-result correctness)''),
      ClaimRefusal_new KindSpecific
        (''Whether the live database matches the migrated schema (receipt is produced at the test boundary; runtime DB introspection is refused to preserve test/runtime separation)''),
      ClaimRefusal_new OutOfJurisdiction
        (''Whether operator-visible storage tables (warning_state, *_history, generations, etc.) match their cookbook examples (out of contract scope)''),
      ClaimRefusal_new OutOfJurisdiction
        (''Whether internal tables or internal derived views are bounded in any way (no stability claim; out of contract scope)''),
      ClaimRefusal_new AboveSubstrate
        (''Whether SQL query performance is acceptable (existence check only)''),
      ClaimRefusal_new KindSpecific
        (''Whether the contract documented in sql-contract.md was reviewed or correct (this kind tests adherence, not authorship)''),
      ClaimRefusal_new OutOfJurisdiction
        (''Whether the binary running this preflight is the right binary (that is nq_binary_mtime_state's jurisdiction)''),
      ClaimRefusal_new SelfAuditRefusal
        (''Whether NQ as a whole is operationally sound (sixth-keeper refusal; receipt adherence to one narrow contract slice does not testify to NQ standing)''),
      ClaimRefusal_new ConsequenceClaim
        (''Whether to take any action (consequence claim; receipts attest, they do not authorize mutation)'')]"

definition service_state_cannot_testify :: "ClaimRefusal list" where
  "service_state_cannot_testify =
     [ClaimRefusal_new KindSpecific
        (''Recovery '' @ [CHR 0xE2, CHR 0x80, CHR 0x94] @ '' that a prior failure was resolved (no recovered/recovered_at is observed; 'active now' is not 'was fixed')''),
      ClaimRefusal_new AboveSubstrate
        (''Service health '' @ [CHR 0xE2, CHR 0x80, CHR 0x94] @ '' 'active' is a manager liveness state, not application health (active does not imply healthy)''),
      ClaimRefusal_new AboveSubstrate
        (''Dependency-graph satisfaction '' @ [CHR 0xE2, CHR 0x80, CHR 0x94] @ '' that this service's dependencies are themselves up''),
      ClaimRefusal_new OutOfJurisdiction
        (''Coverage '' @ [CHR 0xE2, CHR 0x80, CHR 0x94] @ '' that all of the host's services are observed (one named service is not the host)''),
      ClaimRefusal_new FutureStateClaim
        (''Future liveness '' @ [CHR 0xE2, CHR 0x80, CHR 0x94] @ '' active at T0 is not active-tomorrow''),
      ClaimRefusal_new KindSpecific
        (''That 'inactive'/'failed' means broken '' @ [CHR 0xE2, CHR 0x80, CHR 0x94] @ '' a stopped service may be intentionally stopped; inactive does not imply fault''),
      ClaimRefusal_new ConsequenceClaim
        (''Safety of any action '' @ [CHR 0xE2, CHR 0x80, CHR 0x94] @ '' restart / failover / ignore (consequence claim; observation does not authorize action)''),
      ClaimRefusal_new ConsequenceClaim
        (''Causal repair '' @ [CHR 0xE2, CHR 0x80, CHR 0x94] @ '' that any action fixed anything (the witness records state, not cause)'')]"

definition disk_state_cannot_testify :: "ClaimRefusal list" where
  "disk_state_cannot_testify =
     [ClaimRefusal_new KindSpecific
        (''Physical disk death''),
      ClaimRefusal_new ConsequenceClaim
        (''Replacement workflow (authorization, initiation, skipping, completion, closure-criteria satisfaction)''),
      ClaimRefusal_new KindSpecific
        (''Physical component identity beyond witness coverage (sled / slot / enclosure / asset-record)''),
      ClaimRefusal_new AboveSubstrate
        (''Data loss occurrence, recoverability, or unrecoverability''),
      ClaimRefusal_new FutureStateClaim
        (''Future failure probability''),
      ClaimRefusal_new ConsequenceClaim
        (''Incident closure readiness''),
      ClaimRefusal_new ConsequenceClaim
        (''Drive is fine to keep / no action required (mirror consequence claim)'')]"

fun constitutional_refusals :: "ClaimKind \<Rightarrow> string \<times> ClaimRefusal list" where
  "constitutional_refusals DiskState = (PREFLIGHT_DISK_STATE_SCHEMA, disk_state_cannot_testify)"
| "constitutional_refusals IngestState = (PREFLIGHT_INGEST_STATE_SCHEMA, ingest_state_cannot_testify)"
| "constitutional_refusals DnsState = (PREFLIGHT_DNS_STATE_SCHEMA, dns_state_cannot_testify)"
| "constitutional_refusals SqliteWalState =
     (PREFLIGHT_SQLITE_WAL_STATE_SCHEMA, sqlite_wal_state_cannot_testify)"
| "constitutional_refusals ComponentTestimonyObservationLoopAlive =
     (PREFLIGHT_COMPONENT_TESTIMONY_OBSERVATION_LOOP_ALIVE_SCHEMA,
      component_testimony_observation_loop_alive_cannot_testify)"
| "constitutional_refusals NqBinaryMtimeState =
     (PREFLIGHT_NQ_BINARY_MTIME_STATE_SCHEMA, nq_binary_mtime_state_cannot_testify)"
| "constitutional_refusals NqEvaluatorState =
     (PREFLIGHT_NQ_EVALUATOR_STATE_SCHEMA, nq_evaluator_state_cannot_testify)"
| "constitutional_refusals NqSqlContractState =
     (PREFLIGHT_NQ_SQL_CONTRACT_STATE_SCHEMA, nq_sql_contract_state_cannot_testify)"
| "constitutional_refusals ServiceState = (PREFLIGHT_SERVICE_STATE_SCHEMA, service_state_cannot_testify)"

definition PreflightResult_skeleton :: "ClaimKind \<Rightarrow> PreflightTarget \<Rightarrow> string \<Rightarrow> PreflightResult" where
  "PreflightResult_skeleton claim_kind target generated_at =
     (let (schema, cannot_testify) = constitutional_refusals claim_kind in
      \<lparr>pr_schema = schema, pr_contract_version = PREFLIGHT_CONTRACT_VERSION,
       pr_claim_kind = claim_kind, pr_target = target, pr_verdict = InsufficientCoverage,
       pr_verdict_note = None, pr_supports = [], pr_excludes = [],
       pr_cannot_testify = cannot_testify, pr_coverage = [], pr_generated_at = generated_at,
       pr_observed_at_min = None, pr_observed_at_max = None, pr_freshness_horizon = None,
       pr_time_basis = None, pr_signals = None\<rparr>)"

section \<open>The time-basis check\<close>

text \<open>
  \<open>Duration::whole_milliseconds\<close> rounds towards zero and gives an \<open>i128\<close>; \<open>as i64\<close> keeps its
  low 64 bits.
\<close>

definition whole_milliseconds :: "int \<Rightarrow> int" where
  "whole_milliseconds d = (if d < 0 then - ((- d) div 1000000) else d div 1000000)"

definition as_i64 :: "int \<Rightarrow> int" where
  "as_i64 x = (x + 2 ^ 63) mod 2 ^ 64 - 2 ^ 63"

definition parse_rfc3339_ok_value :: "externals \<Rightarrow> string \<Rightarrow> int option" where
  "parse_rfc3339_ok_value ext s = (case rfc3339_parse ext s of Inl _ \<Rightarrow> None | Inr t \<Rightarrow> Some t)"

fun future_delta ::
  "externals \<Rightarrow> int \<Rightarrow> PreflightSupport list \<Rightarrow> int \<times> bool \<Rightarrow> int \<times> bool"
where
  "future_delta ext now [] acc = acc"
| "future_delta ext now (s # ss) (max_future_delta_ms, had_any_observed_at) =
     (case Option.bind (ps_observed_at s) (parse_rfc3339_ok_value ext) of
        None \<Rightarrow> future_delta ext now ss (max_future_delta_ms, had_any_observed_at)
      | Some obs \<Rightarrow>
          let delta_ms = as_i64 (whole_milliseconds (obs - now)) in
          future_delta ext now ss
            (if max_future_delta_ms < delta_ms then delta_ms else max_future_delta_ms, True))"

definition compute_time_basis :: "externals \<Rightarrow> PreflightResult \<Rightarrow> PreflightResult" where
  "compute_time_basis ext r =
     (case parse_rfc3339_ok_value ext (pr_generated_at r) of
        None \<Rightarrow> r\<lparr>pr_time_basis := None\<rparr>
      | Some now \<Rightarrow>
          let (max_future_delta_ms, had_any_observed_at) = future_delta ext now (pr_supports r) (0, False);
              threshold_ms = TIME_BASIS_DRIFT_THRESHOLD_MS;
              (status, suspicion_kinds) =
                (if threshold_ms < max_future_delta_ms
                 then (TB_Suspect, [''observed_at_future_of_evaluator''])
                 else (TB_Unknown, []))
          in r\<lparr>pr_time_basis := Some
                \<lparr>tb_status = status, tb_suspicion_kinds = suspicion_kinds,
                 tb_max_observation_delta_ms =
                   (if had_any_observed_at then Some max_future_delta_ms else None),
                 tb_threshold_ms = threshold_ms\<rparr>\<rparr>)"

section \<open>Closed vocabularies and the time basis\<close>

lemma response_kind_roundtrip:
  "ResponseKind_from_str (ResponseKind_as_str k) = Inr k"
  "ResponseKind_from_str s = Inr k \<longleftrightarrow> s = ResponseKind_as_str k"
  by (cases k; simp add: ResponseKind_from_str_def)+

lemma claim_kind_inject: "ClaimKind_as_str a = ClaimKind_as_str b \<longleftrightarrow> a = b"
  by (cases a; cases b) simp_all

lemma as_i64_small: "- (2 ^ 63) \<le> x \<Longrightarrow> x < 2 ^ 63 \<Longrightarrow> as_i64 x = x"
  by (simp add: as_i64_def)

text \<open>The deltas of the supports that carry a readable time.\<close>

definition deltas :: "externals \<Rightarrow> int \<Rightarrow> PreflightSupport list \<Rightarrow> int list" where
  "deltas ext now ss =
     map (\<lambda>obs. as_i64 (whole_milliseconds (obs - now)))
       (List.map_filter (\<lambda>s. Option.bind (ps_observed_at s) (parse_rfc3339_ok_value ext)) ss)"

lemma future_delta_eq:
  "future_delta ext now ss (m, had) = (fold max (deltas ext now ss) m, had \<or> deltas ext now ss \<noteq> [])"
  by (induction ss arbitrary: m had)
    (auto simp: deltas_def map_filter_simps Let_def max_def split: option.split)

lemma fold_max_less: "(x :: int) < fold max ds m \<longleftrightarrow> x < m \<or> (\<exists>d \<in> set ds. x < d)"
  by (induction ds arbitrary: m) (auto simp: less_max_iff_disj)

lemma time_basis_suspect_iff:
  assumes "parse_rfc3339_ok_value ext (pr_generated_at r) = Some now"
  shows "\<exists>a. pr_time_basis (compute_time_basis ext r) = Some a
    \<and> (tb_status a = TB_Suspect \<longleftrightarrow> (\<exists>d \<in> set (deltas ext now (pr_supports r)). 300000 < d))
    \<and> (tb_suspicion_kinds a \<noteq> [] \<longleftrightarrow> tb_status a = TB_Suspect)
    \<and> pr_verdict (compute_time_basis ext r) = pr_verdict r"
  using assms fold_max_less [of 300000 "deltas ext now (pr_supports r)" 0]
  by (auto simp: compute_time_basis_def future_delta_eq Let_def TIME_BASIS_DRIFT_THRESHOLD_MS_def)

end
