(* ===== verification/Claim_Receipt.thy ===== *)
theory Claim_Receipt
  imports Preflight_Core
begin

text \<open>
  The receipt of an evidence evaluation, \<open>nq.receipt.v1\<close> (\<open>nq-core\<close>, \<open>receipt.rs\<close>): its record
  and serialised form, its content hash and sealing, the view of it that reliance reads, and
  the conversion of an operational preflight result into a sealed receipt.

  A receipt is mutated by \<open>seal\<close>, which may fail after it has stamped the evaluator binding;
  its model returns the result and the receipt as the call leaves it.
\<close>

section \<open>Receipts\<close>

definition RECEIPT_SCHEMA :: string where
  "RECEIPT_SCHEMA = ''nq.receipt.v1''"

record EvaluatorBinding =
  eb_evaluator :: string
  eb_version :: u32

definition EvaluatorBinding_json :: "EvaluatorBinding \<Rightarrow> json" where
  "EvaluatorBinding_json b = JObj [(''evaluator'', JStr (eb_evaluator b)), (''version'', json_word (eb_version b))]"

record NotVerifiedEntry =
  nv_claim :: string
  nv_reason :: string
  nv_detail :: "string option"

definition NotVerifiedEntry_json :: "NotVerifiedEntry \<Rightarrow> json" where
  "NotVerifiedEntry_json n = JObj
     ([(''claim'', JStr (nv_claim n)), (''reason'', JStr (nv_reason n))]
      @ opt_field ''detail'' JStr (nv_detail n))"

record Receipt =
  rcp_schema :: string
  rcp_claim :: string
  rcp_subject :: string
  rcp_target :: "PreflightTarget option"
  rcp_status :: Status
  rcp_status_reasons :: "StatusReason list"
  rcp_verified :: "string list"
  rcp_not_verified :: "NotVerifiedEntry list"
  rcp_suggested_weaker_claims :: "string list"
  rcp_supported_status :: string
  rcp_cannot_testify :: "ClaimRefusal list"
  rcp_witnesses :: "WitnessRef list"
  rcp_observed_at_min :: "string option"
  rcp_observed_at_max :: "string option"
  rcp_generated_at :: string
  rcp_evaluator :: "EvaluatorBinding option"
  rcp_freshness_horizon :: "string option"
  rcp_signals :: "json option"
  rcp_content_hash :: "string option"

definition claim_receipt_json :: "Receipt \<Rightarrow> json" where
  "claim_receipt_json r = JObj
     ([(''schema'', JStr (rcp_schema r)),
       (''claim'', JStr (rcp_claim r)),
       (''subject'', JStr (rcp_subject r))]
      @ opt_field ''target'' PreflightTarget_json (rcp_target r)
      @ [(''status'', Status_json (rcp_status r)),
         (''status_reasons'', JArr (map StatusReason_json (rcp_status_reasons r))),
         (''verified'', JArr (map JStr (rcp_verified r))),
         (''not_verified'', JArr (map NotVerifiedEntry_json (rcp_not_verified r))),
         (''suggested_weaker_claims'', JArr (map JStr (rcp_suggested_weaker_claims r))),
         (''supported_status'', JStr (rcp_supported_status r)),
         (''cannot_testify'', JArr (map ClaimRefusal_json (rcp_cannot_testify r))),
         (''witnesses'', JArr (map WitnessRef_json (rcp_witnesses r)))]
      @ opt_field ''observed_at_min'' JStr (rcp_observed_at_min r)
      @ opt_field ''observed_at_max'' JStr (rcp_observed_at_max r)
      @ [(''generated_at'', JStr (rcp_generated_at r))]
      @ opt_field ''evaluator'' EvaluatorBinding_json (rcp_evaluator r)
      @ opt_field ''freshness_horizon'' JStr (rcp_freshness_horizon r)
      @ opt_field ''signals'' (\<lambda>v. v) (rcp_signals r)
      @ opt_field ''content_hash'' JStr (rcp_content_hash r))"

definition Receipt_new :: "string \<Rightarrow> string \<Rightarrow> string \<Rightarrow> Receipt" where
  "Receipt_new claim subject generated_at =
     \<lparr>rcp_schema = RECEIPT_SCHEMA, rcp_claim = claim, rcp_subject = subject, rcp_target = None,
      rcp_status = NotVerified, rcp_status_reasons = [], rcp_verified = [], rcp_not_verified = [],
      rcp_suggested_weaker_claims = [], rcp_supported_status = [], rcp_cannot_testify = [],
      rcp_witnesses = [], rcp_observed_at_min = None, rcp_observed_at_max = None,
      rcp_generated_at = generated_at, rcp_evaluator = None, rcp_freshness_horizon = None,
      rcp_signals = None, rcp_content_hash = None\<rparr>"

definition compute_content_hash :: "externals \<Rightarrow> Receipt \<Rightarrow> string + string" where
  "compute_content_hash ext r = digest_jcs ext (claim_receipt_json (r\<lparr>rcp_content_hash := None\<rparr>))"

definition Receipt_seal :: "externals \<Rightarrow> EvaluatorBinding \<Rightarrow> Receipt \<Rightarrow> (string + unit) \<times> Receipt" where
  "Receipt_seal ext binding r =
     (let stamped = r\<lparr>rcp_evaluator := Some binding\<rparr> in
      case compute_content_hash ext stamped of
        Inl e \<Rightarrow> (Inl e, stamped)
      | Inr hash \<Rightarrow> (Inr (), stamped\<lparr>rcp_content_hash := Some hash\<rparr>))"

definition evaluation_view :: "Receipt \<Rightarrow> EvaluationView" where
  "evaluation_view r =
     \<lparr>ev_claim = rcp_claim r, ev_subject = rcp_subject r, ev_status = rcp_status r,
      ev_status_reasons = rcp_status_reasons r, ev_cannot_testify = rcp_cannot_testify r,
      ev_witnesses = rcp_witnesses r, ev_content_hash = rcp_content_hash r\<rparr>"

section \<open>Receipts of preflight results\<close>

fun map_verdict :: "Verdict \<Rightarrow> Status \<times> StatusReason list" where
  "map_verdict Admissible = (Verified, [AllRequirementsVerified])"
| "map_verdict AdmissibleWithScope = (Verified, [AllRequirementsVerified])"
| "map_verdict UnsupportedAsStated = (NotVerified, [MissingRequiredClaim])"
| "map_verdict ClaimExceedsTestimony =
     (PartiallyVerified, [PartialComposite, SuggestedWeakerClaimAvailable])"
| "map_verdict InsufficientCoverage = (NeedsMoreEvidence, [MissingRequiredClaim])"
| "map_verdict StaleTestimony = (NeedsMoreEvidence, [StaleObservation])"
| "map_verdict ContradictoryTestimony = (NotVerified, [ContradictoryObservation])"
| "map_verdict CannotTestify = (NotVerified, [NonMintable])"

definition render_subject :: "PreflightTarget \<Rightarrow> string" where
  "render_subject t =
     (if pt_scope t = ''host'' then ''host:'' @ pt_host t
      else case pt_id t of
        None \<Rightarrow> ''host:'' @ pt_host t
      | Some ident \<Rightarrow> ''host:'' @ pt_host t @ ''/'' @ pt_scope t @ '':'' @ ident)"

definition render_supported_status ::
  "PreflightTarget \<Rightarrow> Status \<Rightarrow> PreflightSupport list \<Rightarrow> string option \<Rightarrow> string"
where
  "render_supported_status target status supports verdict_note =
     (let subject = render_subject target;
          claims = join_with ''; '' (map ps_claim supports);
          by_status =
            (case status of
               Verified \<Rightarrow>
                 if supports = []
                 then ''Disk-state substrate is observable on '' @ subject
                        @ '' with no admissible adverse findings.''
                 else ''Disk-state substrate on '' @ subject
                        @ '' is observable. Supported scoped findings: '' @ claims @ ''.''
             | PartiallyVerified \<Rightarrow>
                 ''Disk-state substrate on '' @ subject @ '' testifies to: '' @ claims
                   @ ''. The submitted claim is broader than the available testimony.''
             | NeedsMoreEvidence \<Rightarrow>
                 ''Disk-state substrate on '' @ subject
                   @ '' is not currently observable; required testimony is missing.''
             | NotVerified \<Rightarrow>
                 ''Disk-state substrate on '' @ subject @ '' cannot support the submitted claim.''
             | InvalidEvidence \<Rightarrow> ''Submitted evidence failed validation.'')
      in case verdict_note of
           None \<Rightarrow> by_status
         | Some note \<Rightarrow> if note \<noteq> [] then note else by_status)"

text \<open>\<open>Iterator::min\<close> and \<open>Iterator::max\<close>.\<close>

fun iter_min :: "'a::linorder list \<Rightarrow> 'a option" where
  "iter_min [] = None"
| "iter_min (x # xs) = Some (fold min xs x)"

fun iter_max :: "'a::linorder list \<Rightarrow> 'a option" where
  "iter_max [] = None"
| "iter_max (x # xs) = Some (fold max xs x)"

definition receipt_witnesses :: "PreflightResult \<Rightarrow> WitnessRef list" where
  "receipt_witnesses pr =
     (if list_ex (\<lambda>s. ps_witness_packet s \<noteq> None) (pr_supports pr)
      then List.map_filter
        (\<lambda>s. map_option
           (\<lambda>wp. \<lparr>wr_witness_type = swp_witness_type wp, wr_digest = Some (swp_digest wp),
                  wr_observed_at = Some (swp_observed_at wp),
                  wr_custody_basis = swp_custody_basis wp\<rparr>)
           (ps_witness_packet s)) (pr_supports pr)
      else map
        (\<lambda>c. \<lparr>wr_witness_type = pc_witness c, wr_digest = None, wr_observed_at = None,
              wr_custody_basis = None\<rparr>) (pr_coverage pr))"

definition Receipt_from_preflight :: "externals \<Rightarrow> PreflightResult \<Rightarrow> Receipt" where
  "Receipt_from_preflight ext pr =
     (let claim = ClaimKind_as_str (pr_claim_kind pr);
          subject = render_subject (pr_target pr);
          (status, status_reasons) = map_verdict (pr_verdict pr);
          verified =
            (if status = Verified \<or> status = PartiallyVerified then map ps_claim (pr_supports pr) else []);
          suggested_weaker_claims =
            (if pr_verdict pr = ClaimExceedsTestimony \<or> pr_verdict pr = AdmissibleWithScope
             then map ps_claim (pr_supports pr) else []);
          status_reasons =
            (if suggested_weaker_claims \<noteq> []
                \<and> SuggestedWeakerClaimAvailable \<notin> set status_reasons
                \<and> pr_verdict pr = ClaimExceedsTestimony
             then status_reasons @ [SuggestedWeakerClaimAvailable] else status_reasons);
          not_verified =
            map (\<lambda>e. \<lparr>nv_claim = pe_finding_kind e, nv_reason = pe_reason e, nv_detail = pe_detail e\<rparr>)
              (pr_excludes pr);
          observed = List.map_filter ps_observed_at (pr_supports pr);
          track_a_binding = \<lparr>eb_evaluator = claim, eb_version = pr_contract_version pr\<rparr>;
          receipt =
            \<lparr>rcp_schema = RECEIPT_SCHEMA, rcp_claim = claim, rcp_subject = subject,
             rcp_target = Some (pr_target pr), rcp_status = status,
             rcp_status_reasons = status_reasons, rcp_verified = verified,
             rcp_not_verified = not_verified,
             rcp_suggested_weaker_claims = suggested_weaker_claims,
             rcp_supported_status =
               render_supported_status (pr_target pr) status (pr_supports pr) (pr_verdict_note pr),
             rcp_cannot_testify = pr_cannot_testify pr, rcp_witnesses = receipt_witnesses pr,
             rcp_observed_at_min = iter_min observed, rcp_observed_at_max = iter_max observed,
             rcp_generated_at = pr_generated_at pr, rcp_evaluator = None,
             rcp_freshness_horizon = pr_freshness_horizon pr, rcp_signals = pr_signals pr,
             rcp_content_hash = None\<rparr>
      in snd (Receipt_seal ext track_a_binding receipt))"

section \<open>Identity of a receipt\<close>

lemma Status_json_eq [simp]: "Status_json a = Status_json b \<longleftrightarrow> a = b"
  by (cases a; cases b) simp_all

lemma StatusReason_json_eq [simp]: "StatusReason_json a = StatusReason_json b \<longleftrightarrow> a = b"
  by (cases a; cases b) simp_all

lemma RefusalKind_json_eq [simp]: "RefusalKind_json a = RefusalKind_json b \<longleftrightarrow> a = b"
  by (cases a; cases b) simp_all

lemma ClaimRefusal_json_eq [simp]: "ClaimRefusal_json a = ClaimRefusal_json b \<longleftrightarrow> a = b"
  by (cases a; cases b) (simp add: ClaimRefusal_json_def)

lemma EvaluatorBinding_json_eq [simp]: "EvaluatorBinding_json a = EvaluatorBinding_json b \<longleftrightarrow> a = b"
  by (cases a; cases b) (simp add: EvaluatorBinding_json_def)

lemma opt_field_eq_iff [simp]: "inj f \<Longrightarrow> opt_field n f a = opt_field n f b \<longleftrightarrow> a = b"
  by (cases a; cases b) (auto simp: opt_field_def inj_eq)

lemma NotVerifiedEntry_json_eq [simp]: "NotVerifiedEntry_json a = NotVerifiedEntry_json b \<longleftrightarrow> a = b"
  by (cases a; cases b) (simp add: NotVerifiedEntry_json_def)

lemma PreflightTarget_json_eq [simp]: "PreflightTarget_json a = PreflightTarget_json b \<longleftrightarrow> a = b"
  by (cases a; cases b) (simp add: PreflightTarget_json_def)

lemma WitnessRef_json_eq [simp]: "WitnessRef_json a = WitnessRef_json b \<longleftrightarrow> a = b"
proof
  assume eq: "WitnessRef_json a = WitnessRef_json b"
  have f: "json_field (WitnessRef_json a) n = json_field (WitnessRef_json b) n" for n
    using eq by simp
  show "a = b"
    using f [of "''witness_type''"] f [of "''digest''"] f [of "''observed_at''"] f [of "''custody_basis''"]
    by (cases a; cases b) (auto simp: WitnessRef_json_def map_add_def split: option.splits)
qed simp

lemma receipt_json_injs [simp]:
  "inj Status_json" "inj StatusReason_json" "inj ClaimRefusal_json" "inj EvaluatorBinding_json"
  "inj NotVerifiedEntry_json" "inj PreflightTarget_json" "inj WitnessRef_json"
  by (simp_all add: inj_def)

lemma inj_id_json [simp]: "inj (\<lambda>v. v :: json)"
  by (simp add: inj_def)

text \<open>Reading one field of a serialised receipt.\<close>

lemma claim_receipt_lookup:
  "json_field (claim_receipt_json r) ''schema'' = Some (JStr (rcp_schema r))"
  "json_field (claim_receipt_json r) ''claim'' = Some (JStr (rcp_claim r))"
  "json_field (claim_receipt_json r) ''subject'' = Some (JStr (rcp_subject r))"
  "json_field (claim_receipt_json r) ''target'' = map_option PreflightTarget_json (rcp_target r)"
  "json_field (claim_receipt_json r) ''status'' = Some (Status_json (rcp_status r))"
  "json_field (claim_receipt_json r) ''status_reasons'' = Some (JArr (map StatusReason_json (rcp_status_reasons r)))"
  "json_field (claim_receipt_json r) ''verified'' = Some (JArr (map JStr (rcp_verified r)))"
  "json_field (claim_receipt_json r) ''not_verified'' = Some (JArr (map NotVerifiedEntry_json (rcp_not_verified r)))"
  "json_field (claim_receipt_json r) ''suggested_weaker_claims'' = Some (JArr (map JStr (rcp_suggested_weaker_claims r)))"
  "json_field (claim_receipt_json r) ''supported_status'' = Some (JStr (rcp_supported_status r))"
  "json_field (claim_receipt_json r) ''cannot_testify'' = Some (JArr (map ClaimRefusal_json (rcp_cannot_testify r)))"
  "json_field (claim_receipt_json r) ''witnesses'' = Some (JArr (map WitnessRef_json (rcp_witnesses r)))"
  "json_field (claim_receipt_json r) ''observed_at_min'' = map_option JStr (rcp_observed_at_min r)"
  "json_field (claim_receipt_json r) ''observed_at_max'' = map_option JStr (rcp_observed_at_max r)"
  "json_field (claim_receipt_json r) ''generated_at'' = Some (JStr (rcp_generated_at r))"
  "json_field (claim_receipt_json r) ''evaluator'' = map_option EvaluatorBinding_json (rcp_evaluator r)"
  "json_field (claim_receipt_json r) ''freshness_horizon'' = map_option JStr (rcp_freshness_horizon r)"
  "json_field (claim_receipt_json r) ''signals'' = rcp_signals r"
  "json_field (claim_receipt_json r) ''content_hash'' = map_option JStr (rcp_content_hash r)"
  by (simp_all add: claim_receipt_json_def json_lookup case_option_map_option del: map_of_append split: option.split)

lemma claim_receipt_json_inject: "claim_receipt_json r = claim_receipt_json s \<longleftrightarrow> r = s"
proof
  assume eq: "claim_receipt_json r = claim_receipt_json s"
  have f: "json_field (claim_receipt_json r) n = json_field (claim_receipt_json s) n" for n
    using eq by simp
  show "r = s"
    using f [of "''schema''"] f [of "''claim''"] f [of "''subject''"] f [of "''target''"] f [of "''status''"]
      f [of "''status_reasons''"] f [of "''verified''"] f [of "''not_verified''"]
      f [of "''suggested_weaker_claims''"] f [of "''supported_status''"] f [of "''cannot_testify''"]
      f [of "''witnesses''"] f [of "''observed_at_min''"] f [of "''observed_at_max''"]
      f [of "''generated_at''"] f [of "''evaluator''"] f [of "''freshness_horizon''"]
      f [of "''signals''"] f [of "''content_hash''"]
    unfolding claim_receipt_lookup
    by (cases r; cases s) simp
qed simp

interpretation claim_receipt: content_addressed claim_receipt_json
  by unfold_locales (simp add: claim_receipt_json_inject)

section \<open>Sealing\<close>

definition sealed_receipt :: "externals \<Rightarrow> Receipt \<Rightarrow> bool" where
  "sealed_receipt ext r \<longleftrightarrow>
     (case rcp_content_hash r of None \<Rightarrow> False | Some h \<Rightarrow> compute_content_hash ext r = Inr h)"

lemma compute_content_hash_ignores [simp]:
  "compute_content_hash ext (r\<lparr>rcp_content_hash := h\<rparr>) = compute_content_hash ext r"
  by (simp add: compute_content_hash_def)

lemma compute_content_hash_total: "jcs_total ext \<Longrightarrow> \<exists>h. compute_content_hash ext r = Inr h"
  by (simp add: compute_content_hash_def digest_jcs_total)

lemma seal_sealed: "fst (Receipt_seal ext b r) = Inr () \<Longrightarrow> sealed_receipt ext (snd (Receipt_seal ext b r))"
  by (auto simp: Receipt_seal_def Let_def sealed_receipt_def split: sum.splits)

lemma seal_total: "jcs_total ext \<Longrightarrow> fst (Receipt_seal ext b r) = Inr ()"
  using compute_content_hash_total [of ext "r\<lparr>rcp_evaluator := Some b\<rparr>"]
  by (auto simp: Receipt_seal_def Let_def)

lemma seal_keeps [simp]:
  "rcp_schema (snd (Receipt_seal ext b r)) = rcp_schema r"
  "rcp_claim (snd (Receipt_seal ext b r)) = rcp_claim r"
  "rcp_subject (snd (Receipt_seal ext b r)) = rcp_subject r"
  "rcp_target (snd (Receipt_seal ext b r)) = rcp_target r"
  "rcp_status (snd (Receipt_seal ext b r)) = rcp_status r"
  "rcp_status_reasons (snd (Receipt_seal ext b r)) = rcp_status_reasons r"
  "rcp_verified (snd (Receipt_seal ext b r)) = rcp_verified r"
  "rcp_not_verified (snd (Receipt_seal ext b r)) = rcp_not_verified r"
  "rcp_suggested_weaker_claims (snd (Receipt_seal ext b r)) = rcp_suggested_weaker_claims r"
  "rcp_supported_status (snd (Receipt_seal ext b r)) = rcp_supported_status r"
  "rcp_cannot_testify (snd (Receipt_seal ext b r)) = rcp_cannot_testify r"
  "rcp_witnesses (snd (Receipt_seal ext b r)) = rcp_witnesses r"
  "rcp_observed_at_min (snd (Receipt_seal ext b r)) = rcp_observed_at_min r"
  "rcp_observed_at_max (snd (Receipt_seal ext b r)) = rcp_observed_at_max r"
  "rcp_generated_at (snd (Receipt_seal ext b r)) = rcp_generated_at r"
  "rcp_freshness_horizon (snd (Receipt_seal ext b r)) = rcp_freshness_horizon r"
  "rcp_evaluator (snd (Receipt_seal ext b r)) = Some b"
  by (simp_all add: Receipt_seal_def Let_def split: sum.split)

text \<open>The content hash covers everything else: short of a collision, two sealed receipts with one hash are one receipt.\<close>

lemma same_hash_same_receipt:
  assumes "sealed_receipt ext r" "sealed_receipt ext s" "rcp_content_hash r = rcp_content_hash s"
    and "no_collision ext (claim_receipt_json (r\<lparr>rcp_content_hash := None\<rparr>))
           (claim_receipt_json (s\<lparr>rcp_content_hash := None\<rparr>))"
  shows "r = s"
proof -
  from assms(1-3) obtain h where h: "rcp_content_hash r = Some h" "rcp_content_hash s = Some h"
    "compute_content_hash ext r = Inr h" "compute_content_hash ext s = Inr h"
    by (auto simp: sealed_receipt_def split: option.splits)
  then have "r\<lparr>rcp_content_hash := None\<rparr> = s\<lparr>rcp_content_hash := None\<rparr>"
    using assms(4) unfolding compute_content_hash_def by (metis claim_receipt.digest_identifies)
  with h show ?thesis by (cases r; cases s) simp
qed

section \<open>Preflight receipts\<close>

lemma map_verdict_verified: "fst (map_verdict v) = Verified \<longleftrightarrow> v = Admissible \<or> v = AdmissibleWithScope"
  by (cases v) simp_all

lemma iter_min_eq: "iter_min xs = (if xs = [] then None else Some (Min (set xs)))"
  by (cases xs) (simp_all only: iter_min.simps Min.set_eq_fold, simp_all)

lemma iter_max_eq: "iter_max xs = (if xs = [] then None else Some (Max (set xs)))"
  by (cases xs) (simp_all only: iter_max.simps Max.set_eq_fold, simp_all)

lemma iter_set_cong: "set xs = set ys \<Longrightarrow> iter_min xs = iter_min ys \<and> iter_max xs = iter_max ys"
  by (auto simp: iter_min_eq iter_max_eq)

lemma preflight_receipt_fields:
  defines "rc ext pr \<equiv> Receipt_from_preflight ext pr"
  shows "rcp_claim (rc ext pr) = ClaimKind_as_str (pr_claim_kind pr)"
    "rcp_subject (rc ext pr) = render_subject (pr_target pr)"
    "rcp_target (rc ext pr) = Some (pr_target pr)"
    "rcp_status (rc ext pr) = fst (map_verdict (pr_verdict pr))"
    "rcp_status_reasons (rc ext pr) = snd (map_verdict (pr_verdict pr))"
    "rcp_cannot_testify (rc ext pr) = pr_cannot_testify pr"
    "rcp_witnesses (rc ext pr) = receipt_witnesses pr"
    "rcp_freshness_horizon (rc ext pr) = pr_freshness_horizon pr"
    "rcp_evaluator (rc ext pr) =
       Some \<lparr>eb_evaluator = ClaimKind_as_str (pr_claim_kind pr), eb_version = pr_contract_version pr\<rparr>"
    "jcs_total ext \<Longrightarrow> sealed_receipt ext (rc ext pr)"
  by (cases "pr_verdict pr";
      simp add: rc_def Receipt_from_preflight_def Let_def seal_sealed seal_total split: prod.split)+

end
