(* ===== verification/Claim_Registry.thy ===== *)
theory Claim_Registry
  imports Claim_Receipt "HOL-Library.Finite_Map"
begin

text \<open>
  The claim registry and its evaluator (\<open>nq-core\<close>, \<open>claim_registry.rs\<close>): leaf, composite and
  non-mintable claims, the conditions of leaves on JSON observations, the starter catalogue and
  the evaluation of a claim over witness packets into a sealed receipt.

  The registry is the \<open>BTreeMap\<close> of the source as a finite map; \<open>names\<close> lists its keys in
  order. \<open>resolve\<close>, \<open>resolve_composite\<close> and \<open>resolve_non_mintable\<close> call each other through the
  registry, and \<open>register\<close> refuses no cycle, so the recursion of the source need not end: the
  model bounds the depth of \<open>resolve\<close> by a fuel, \<open>None\<close> when it is exhausted, and the two
  others take the recursive call as an argument. Enough fuel is any number above the rank of
  the claim in a registry without cycles; the starter catalogue needs 3.
\<close>

section \<open>Claims\<close>

definition EVALUATOR_VERSION :: u32 where
  "EVALUATOR_VERSION = 2"

datatype LeafCondition =
    ExitCodeZero
  | StringFieldEquals string string
  | NumberFieldEquals string int
  | BoolFieldTrue string

record LeafClaim =
  lc_name :: string
  lc_witness_type :: string
  lc_observation_type :: string
  lc_condition :: LeafCondition
  lc_describes :: string

record CompositeClaim =
  cc_name :: string
  cc_requires :: "string list"
  cc_describes :: string

record NonMintableClaim =
  nm_name :: string
  nm_reason :: string
  nm_suggested_weaker_claims :: "string list"

datatype ClaimEntry = Leaf LeafClaim | Composite CompositeClaim | NonMintableEntry NonMintableClaim

type_synonym ClaimRegistry = "(string, ClaimEntry) fmap"

definition ClaimRegistry_new :: ClaimRegistry where
  "ClaimRegistry_new = fmempty"

fun entry_name :: "ClaimEntry \<Rightarrow> string" where
  "entry_name (Leaf c) = lc_name c"
| "entry_name (Composite c) = cc_name c"
| "entry_name (NonMintableEntry c) = nm_name c"

definition ClaimRegistry_register :: "ClaimEntry \<Rightarrow> ClaimRegistry \<Rightarrow> ClaimRegistry" where
  "ClaimRegistry_register entry registry = fmupd (entry_name entry) entry registry"

definition ClaimRegistry_get :: "ClaimRegistry \<Rightarrow> string \<Rightarrow> ClaimEntry option" where
  "ClaimRegistry_get registry name = fmlookup registry name"

definition ClaimRegistry_names :: "ClaimRegistry \<Rightarrow> string list" where
  "ClaimRegistry_names registry = sorted_list_of_fset (fmdom registry)"

definition track_b_starter :: ClaimRegistry where
  "track_b_starter =
     fold ClaimRegistry_register
      [Leaf
        \<lparr>lc_name = ''repo_clean'', lc_witness_type = ''git_status'',
         lc_observation_type = ''git_status_porcelain'',
         lc_condition = StringFieldEquals ''porcelain'' '''',
         lc_describes = ''git working tree has no uncommitted changes''\<rparr>,
       Leaf
        \<lparr>lc_name = ''tests_passed'', lc_witness_type = ''pytest'',
         lc_observation_type = ''pytest_run'', lc_condition = ExitCodeZero,
         lc_describes = ''pytest run exited zero in this checkout''\<rparr>,
       Leaf
        \<lparr>lc_name = ''diff_scope_matches_claim'', lc_witness_type = ''diff_scope'',
         lc_observation_type = ''diff_scope_porcelain'',
         lc_condition = BoolFieldTrue ''matches_declared_scope'',
         lc_describes = ''git diff matched the declared scope''\<rparr>,
       Leaf
        \<lparr>lc_name = ''continuity_rely_eligible'', lc_witness_type = ''continuity_rely_record'',
         lc_observation_type = ''continuity_rely_result'',
         lc_condition = BoolFieldTrue ''rely_ok'',
         lc_describes = ''continuity's rely gate reported eligible for this subject at ''
           @ ''the recorded evaluation time, under the recorded premises and authoring tier''\<rparr>,
       Leaf
        \<lparr>lc_name = ''docket_attempt_settled'', lc_witness_type = ''docket_attempt_dossier'',
         lc_observation_type = ''docket_attempt_core'',
         lc_condition = StringFieldEquals ''docket_state'' ''committed'',
         lc_describes = ''the imported Docket projection records normal committed state for this ''
           @ ''attempt; NQ did not independently establish Docket settlement''\<rparr>,
       Composite
        \<lparr>cc_name = ''ready_for_review'',
         cc_requires = [''repo_clean'', ''tests_passed'', ''diff_scope_matches_claim''],
         cc_describes = ''repo is clean, tests passed, and the diff matched the declared scope''\<rparr>,
       NonMintableEntry
        \<lparr>nm_name = ''safe_to_merge'',
         nm_reason = ''requires semantic safety, maintainer authority, and consequence ownership ''
           @ ''outside NQ witness scope'',
         nm_suggested_weaker_claims = [''ready_for_review'']\<rparr>]
      ClaimRegistry_new"

section \<open>Conditions on observations\<close>

text \<open>\<open>Value::get\<close> with a string index, \<open>as_i64\<close>, \<open>as_str\<close> and \<open>as_bool\<close>.\<close>

abbreviation json_get :: "json \<Rightarrow> string \<Rightarrow> json option" where
  "json_get \<equiv> json_field"

fun json_as_i64 :: "json \<Rightarrow> int option" where
  "json_as_i64 (JInt n) = (if - (2 ^ 63) \<le> n \<and> n < 2 ^ 63 then Some n else None)"
| "json_as_i64 _ = None"

fun json_as_str :: "json \<Rightarrow> string option" where
  "json_as_str (JStr s) = Some s"
| "json_as_str _ = None"

fun json_as_bool :: "json \<Rightarrow> bool option" where
  "json_as_bool (JBool b) = Some b"
| "json_as_bool _ = None"

fun resolve_segments :: "json \<Rightarrow> string list \<Rightarrow> json option" where
  "resolve_segments cur [] = Some cur"
| "resolve_segments cur (segment # segments) =
     Option.bind (json_get cur segment) (\<lambda>v. resolve_segments v segments)"

definition resolve_path :: "json \<Rightarrow> string \<Rightarrow> json option" where
  "resolve_path v path = resolve_segments v (split_on (CHR ''.'') path)"

fun LeafCondition_holds :: "LeafCondition \<Rightarrow> json \<Rightarrow> bool" where
  "LeafCondition_holds ExitCodeZero obs =
     (case Option.bind (json_get obs ''exit_code'') json_as_i64 of None \<Rightarrow> False | Some n \<Rightarrow> n = 0)"
| "LeafCondition_holds (StringFieldEquals path expected) obs =
     (case Option.bind (resolve_path obs path) json_as_str of None \<Rightarrow> False | Some s \<Rightarrow> s = expected)"
| "LeafCondition_holds (NumberFieldEquals path expected) obs =
     (case Option.bind (resolve_path obs path) json_as_i64 of None \<Rightarrow> False | Some n \<Rightarrow> n = expected)"
| "LeafCondition_holds (BoolFieldTrue path) obs =
     (case Option.bind (resolve_path obs path) json_as_bool of None \<Rightarrow> False | Some b \<Rightarrow> b)"

fun LeafCondition_describe_failure :: "LeafCondition \<Rightarrow> string" where
  "LeafCondition_describe_failure ExitCodeZero = ''expected exit_code == 0''"
| "LeafCondition_describe_failure (StringFieldEquals path expected) =
     ''expected '' @ debug_str path @ '' == '' @ debug_str expected"
| "LeafCondition_describe_failure (NumberFieldEquals path expected) =
     ''expected '' @ debug_str path @ '' == '' @ show_int expected"
| "LeafCondition_describe_failure (BoolFieldTrue path) =
     ''expected '' @ debug_str path @ '' == true''"

section \<open>Resolution\<close>

fun status_word :: "Status \<Rightarrow> string" where
  "status_word Verified = ''verified''"
| "status_word PartiallyVerified = ''partially_verified''"
| "status_word NeedsMoreEvidence = ''needs_more_evidence''"
| "status_word NotVerified = ''not_verified''"
| "status_word InvalidEvidence = ''invalid_evidence''"

definition matching_observations :: "LeafClaim \<Rightarrow> WitnessPacket list \<Rightarrow> json list" where
  "matching_observations leaf witnesses =
     filter (\<lambda>obs. Option.bind (json_get obs ''type'') json_as_str = Some (lc_observation_type leaf))
       (concat (map wp_observations (filter (\<lambda>w. wp_witness_type w = lc_witness_type leaf) witnesses)))"

definition resolve_leaf :: "LeafClaim \<Rightarrow> string \<Rightarrow> WitnessPacket list \<Rightarrow> string \<Rightarrow> Receipt" where
  "resolve_leaf leaf subject witnesses generated_at =
     (let receipt = Receipt_new (lc_name leaf) subject generated_at;
          matching = matching_observations leaf witnesses
      in if matching = [] then
           receipt\<lparr>rcp_status := NeedsMoreEvidence,
             rcp_status_reasons := [MissingRequiredClaim],
             rcp_not_verified :=
               [\<lparr>nv_claim = lc_name leaf, nv_reason = ''no_applicable_observation'',
                 nv_detail = Some (''no observation of type '' @ debug_str (lc_observation_type leaf)
                   @ '' from witness_type '' @ debug_str (lc_witness_type leaf))\<rparr>],
             rcp_supported_status :=
               ''No '' @ lc_witness_type leaf @ '' witness observation present for this subject.''\<rparr>
         else if list_all (LeafCondition_holds (lc_condition leaf)) matching then
           receipt\<lparr>rcp_status := Verified,
             rcp_status_reasons := [AllRequirementsVerified],
             rcp_verified := [lc_name leaf],
             rcp_supported_status := lc_describes leaf\<rparr>
         else
           receipt\<lparr>rcp_status := NotVerified,
             rcp_status_reasons := [ClaimConditionFailed],
             rcp_not_verified :=
               [\<lparr>nv_claim = lc_name leaf, nv_reason = ''condition_failed'',
                 nv_detail = Some (LeafCondition_describe_failure (lc_condition leaf))\<rparr>],
             rcp_supported_status :=
               lc_witness_type leaf @ '' observation present but condition not met.''\<rparr>)"

definition first_detail :: "Receipt \<Rightarrow> string option" where
  "first_detail sub =
     (case rcp_not_verified sub of [] \<Rightarrow> None | n # _ \<Rightarrow> nv_detail n)"

text \<open>The loop over \<open>requires\<close>, with the state \<open>(verified, not_verified, needs_more)\<close>.\<close>

fun composite_loop ::
  "(ClaimEntry \<Rightarrow> Receipt option) \<Rightarrow> ClaimRegistry \<Rightarrow> string list
     \<Rightarrow> string list \<times> NotVerifiedEntry list \<times> bool \<Rightarrow> (string list \<times> NotVerifiedEntry list \<times> bool) option"
where
  "composite_loop recur registry [] acc = Some acc"
| "composite_loop recur registry (req # reqs) (verified, not_verified, needs_more) =
     (case ClaimRegistry_get registry req of
        None \<Rightarrow>
          composite_loop recur registry reqs
            (verified,
             not_verified @ [\<lparr>nv_claim = req, nv_reason = ''unknown_claim'', nv_detail = None\<rparr>],
             needs_more)
      | Some entry \<Rightarrow>
          Option.bind (recur entry) (\<lambda>sub.
            case rcp_status sub of
              Verified \<Rightarrow> composite_loop recur registry reqs (verified @ [req], not_verified, needs_more)
            | NeedsMoreEvidence \<Rightarrow>
                composite_loop recur registry reqs
                  (verified,
                   not_verified @ [\<lparr>nv_claim = req, nv_reason = ''needs_more_evidence'',
                     nv_detail = first_detail sub\<rparr>], True)
            | status \<Rightarrow>
                composite_loop recur registry reqs
                  (verified,
                   not_verified @ [\<lparr>nv_claim = req, nv_reason = status_word status,
                     nv_detail = first_detail sub\<rparr>], needs_more)))"

definition composite_receipt ::
  "CompositeClaim \<Rightarrow> string \<Rightarrow> string \<Rightarrow> string list \<times> NotVerifiedEntry list \<times> bool \<Rightarrow> Receipt"
where
  "composite_receipt composite subject generated_at acc =
     (let (verified, not_verified, needs_more) = acc;
          receipt = (Receipt_new (cc_name composite) subject generated_at)
            \<lparr>rcp_verified := verified, rcp_not_verified := not_verified\<rparr>
      in if not_verified = [] then
           receipt\<lparr>rcp_status := Verified, rcp_status_reasons := [AllRequirementsVerified],
             rcp_supported_status := cc_describes composite\<rparr>
         else if verified = [] \<and> needs_more then
           receipt\<lparr>rcp_status := NeedsMoreEvidence, rcp_status_reasons := [MissingRequiredClaim],
             rcp_supported_status :=
               ''Required testimony for '' @ debug_str (cc_name composite) @ '' is missing.''\<rparr>
         else
           receipt\<lparr>rcp_status := PartiallyVerified,
             rcp_status_reasons :=
               PartialComposite # (if needs_more then [MissingRequiredClaim] else []),
             rcp_supported_status :=
               (if verified = []
                then ''None of the requirements for '' @ debug_str (cc_name composite) @ '' verified.''
                else ''Verified: '' @ join_with '', '' verified @ ''.'')\<rparr>)"

definition resolve_composite ::
  "(ClaimEntry \<Rightarrow> Receipt option) \<Rightarrow> ClaimRegistry \<Rightarrow> CompositeClaim \<Rightarrow> string \<Rightarrow> string \<Rightarrow> Receipt option"
where
  "resolve_composite recur registry composite subject generated_at =
     map_option (composite_receipt composite subject generated_at)
       (composite_loop recur registry (cc_requires composite) ([], [], False))"

text \<open>The loop over the weaker claims, with the state \<open>(verified, suggested, supported_status)\<close>.\<close>

fun weaker_loop ::
  "(ClaimEntry \<Rightarrow> Receipt option) \<Rightarrow> ClaimRegistry \<Rightarrow> string list
     \<Rightarrow> string list \<times> string list \<times> string \<Rightarrow> (string list \<times> string list \<times> string) option"
where
  "weaker_loop recur registry [] acc = Some acc"
| "weaker_loop recur registry (weaker # rest) (verified, suggested, supported_status) =
     (case ClaimRegistry_get registry weaker of
        None \<Rightarrow> weaker_loop recur registry rest (verified, suggested, supported_status)
      | Some entry \<Rightarrow>
          Option.bind (recur entry) (\<lambda>sub.
            let verified' = (if rcp_verified sub \<noteq> [] then rcp_verified sub else verified) in
            if rcp_status sub = Verified \<or> rcp_status sub = PartiallyVerified then
              weaker_loop recur registry rest
                (verified', suggested @ [weaker],
                 (if rcp_status sub = Verified then rcp_supported_status sub
                  else if strip_prefix ''Claim '' supported_status \<noteq> None then rcp_supported_status sub
                  else supported_status))
            else weaker_loop recur registry rest (verified', suggested, supported_status)))"

definition resolve_non_mintable ::
  "(ClaimEntry \<Rightarrow> Receipt option) \<Rightarrow> ClaimRegistry \<Rightarrow> NonMintableClaim \<Rightarrow> string \<Rightarrow> string \<Rightarrow> Receipt option"
where
  "resolve_non_mintable recur registry nm subject generated_at =
     map_option
       (\<lambda>(verified, suggested, supported_status).
          (Receipt_new (nm_name nm) subject generated_at)
            \<lparr>rcp_status := NotVerified, rcp_verified := verified,
             rcp_suggested_weaker_claims := suggested,
             rcp_status_reasons :=
               NonMintable # (if suggested \<noteq> [] then [SuggestedWeakerClaimAvailable] else []),
             rcp_supported_status := supported_status\<rparr>)
       (weaker_loop recur registry (nm_suggested_weaker_claims nm)
          ([], [], ''Claim '' @ debug_str (nm_name nm) @ '' is non-mintable: '' @ nm_reason nm @ ''.''))"

fun resolve ::
  "nat \<Rightarrow> ClaimRegistry \<Rightarrow> string \<Rightarrow> WitnessPacket list \<Rightarrow> string \<Rightarrow> ClaimEntry \<Rightarrow> Receipt option"
where
  "resolve 0 registry subject witnesses generated_at entry = None"
| "resolve (Suc fuel) registry subject witnesses generated_at entry =
     (case entry of
        Leaf leaf \<Rightarrow> Some (resolve_leaf leaf subject witnesses generated_at)
      | Composite composite \<Rightarrow>
          resolve_composite (resolve fuel registry subject witnesses generated_at)
            registry composite subject generated_at
      | NonMintableEntry nm \<Rightarrow>
          resolve_non_mintable (resolve fuel registry subject witnesses generated_at)
            registry nm subject generated_at)"

section \<open>Evaluation\<close>

fun first_invalid :: "externals \<Rightarrow> nat \<Rightarrow> WitnessPacket list \<Rightarrow> (nat \<times> string) option" where
  "first_invalid ext idx [] = None"
| "first_invalid ext idx (w # ws) =
     (case WitnessPacket_validate ext w of
        Inl message \<Rightarrow> Some (idx, message)
      | Inr _ \<Rightarrow> first_invalid ext (Suc idx) ws)"

definition invalid_evidence :: "string \<Rightarrow> string \<Rightarrow> string \<Rightarrow> nat \<Rightarrow> string \<Rightarrow> Receipt" where
  "invalid_evidence claim_name subject generated_at idx message =
     (Receipt_new claim_name subject generated_at)
       \<lparr>rcp_status := InvalidEvidence, rcp_status_reasons := [InvalidWitness],
        rcp_not_verified :=
          [\<lparr>nv_claim = claim_name, nv_reason = ''invalid_witness'',
            nv_detail = Some (''witness['' @ show_nat idx @ '']: '' @ message)\<rparr>],
        rcp_supported_status := ''Witness packet #'' @ show_nat idx @ '' failed validation.''\<rparr>"

definition unknown_claim :: "ClaimRegistry \<Rightarrow> string \<Rightarrow> string \<Rightarrow> string \<Rightarrow> Receipt" where
  "unknown_claim registry claim_name subject generated_at =
     \<lparr>rcp_schema = RECEIPT_SCHEMA, rcp_claim = claim_name, rcp_subject = subject, rcp_target = None,
      rcp_status = InvalidEvidence, rcp_status_reasons = [InvalidWitness], rcp_verified = [],
      rcp_not_verified =
        [\<lparr>nv_claim = claim_name, nv_reason = ''unknown_claim'',
          nv_detail = Some (''claim '' @ debug_str claim_name
            @ '' is not registered; registered claims: ''
            @ join_with '', '' (ClaimRegistry_names registry))\<rparr>],
      rcp_suggested_weaker_claims = [],
      rcp_supported_status = ''Claim '' @ debug_str claim_name @ '' is not registered.'',
      rcp_cannot_testify = [], rcp_witnesses = [], rcp_observed_at_min = None,
      rcp_observed_at_max = None, rcp_generated_at = generated_at, rcp_evaluator = None,
      rcp_freshness_horizon = None, rcp_signals = None, rcp_content_hash = None\<rparr>"

definition packet_ref :: "externals \<Rightarrow> WitnessPacket \<Rightarrow> WitnessRef" where
  "packet_ref ext w =
     \<lparr>wr_witness_type = wp_witness_type w,
      wr_digest = (case WitnessPacket_digest ext w of Inl _ \<Rightarrow> None | Inr d \<Rightarrow> Some d),
      wr_observed_at = Some (wp_observed_at w), wr_custody_basis = wp_custody_basis w\<rparr>"

definition claim_registry_binding :: EvaluatorBinding where
  "claim_registry_binding = \<lparr>eb_evaluator = ''claim_registry'', eb_version = EVALUATOR_VERSION\<rparr>"

definition registry_evaluate ::
  "nat \<Rightarrow> externals \<Rightarrow> ClaimRegistry \<Rightarrow> string \<Rightarrow> string \<Rightarrow> WitnessPacket list \<Rightarrow> string \<Rightarrow> Receipt option"
where
  "registry_evaluate fuel ext registry claim_name subject witnesses generated_at =
     (case first_invalid ext 0 witnesses of
        Some (idx, message) \<Rightarrow> Some (invalid_evidence claim_name subject generated_at idx message)
      | None \<Rightarrow>
          let applicable = filter (\<lambda>w. wp_subject w = subject) witnesses;
              observed = map wp_observed_at applicable
          in map_option
               (\<lambda>receipt.
                  snd (Receipt_seal ext claim_registry_binding
                    (receipt\<lparr>rcp_witnesses := map (packet_ref ext) applicable,
                       rcp_observed_at_min := iter_min observed,
                       rcp_observed_at_max := iter_max observed\<rparr>)))
               (case ClaimRegistry_get registry claim_name of
                  None \<Rightarrow> Some (unknown_claim registry claim_name subject generated_at)
                | Some entry \<Rightarrow> resolve fuel registry subject applicable generated_at entry))"

section \<open>The two loops\<close>

lemma composite_loop_mono:
  assumes "\<And>e r. f e = Some r \<Longrightarrow> g e = Some r"
  shows "composite_loop f registry reqs acc = Some x \<Longrightarrow> composite_loop g registry reqs acc = Some x"
proof (induction reqs arbitrary: acc)
  case (Cons req reqs)
  obtain v n m where acc: "acc = (v, n, m)" by (cases acc)
  show ?case
  proof (cases "ClaimRegistry_get registry req")
    case (Some e)
    with Cons.prems acc obtain s where s: "f e = Some s" by (auto simp: bind_eq_Some_conv)
    with assms have "g e = Some s" by blast
    with Cons acc Some s show ?thesis by (simp split: Status.splits)
  qed (use Cons acc in simp)
qed simp

lemma weaker_loop_mono:
  assumes "\<And>e r. f e = Some r \<Longrightarrow> g e = Some r"
  shows "weaker_loop f registry ws acc = Some x \<Longrightarrow> weaker_loop g registry ws acc = Some x"
proof (induction ws arbitrary: acc)
  case (Cons w ws)
  obtain v n m where acc: "acc = (v, n, m)" by (cases acc)
  show ?case
  proof (cases "ClaimRegistry_get registry w")
    case (Some e)
    with Cons.prems acc obtain s where s: "f e = Some s" by (auto simp: bind_eq_Some_conv)
    with assms have "g e = Some s" by blast
    with Cons acc Some s show ?thesis by (simp add: Let_def split: if_splits)
  qed (use Cons acc in simp)
qed simp

definition resolves :: "(ClaimEntry \<Rightarrow> Receipt option) \<Rightarrow> ClaimRegistry \<Rightarrow> string \<Rightarrow> bool" where
  "resolves f registry d \<longleftrightarrow> (\<forall>e. ClaimRegistry_get registry d = Some e \<longrightarrow> f e \<noteq> None)"

lemma composite_loop_total:
  "\<forall>d \<in> set reqs. resolves f registry d \<Longrightarrow> composite_loop f registry reqs acc \<noteq> None"
proof (induction reqs arbitrary: acc)
  case (Cons req reqs)
  then have IH: "composite_loop f registry reqs acc \<noteq> None" for acc by simp
  obtain v n m where acc: "acc = (v, n, m)" by (cases acc)
  show ?case
  proof (cases "ClaimRegistry_get registry req")
    case (Some e)
    with Cons.prems obtain s where "f e = Some s" by (auto simp: resolves_def)
    with Some acc IH show ?thesis by (simp split: Status.split)
  qed (use acc IH in simp)
qed simp

lemma weaker_loop_total:
  "\<forall>d \<in> set ws. resolves f registry d \<Longrightarrow> weaker_loop f registry ws acc \<noteq> None"
proof (induction ws arbitrary: acc)
  case (Cons w ws)
  then have IH: "weaker_loop f registry ws acc \<noteq> None" for acc by simp
  obtain v n m where acc: "acc = (v, n, m)" by (cases acc)
  show ?case
  proof (cases "ClaimRegistry_get registry w")
    case (Some e)
    with Cons.prems obtain s where "f e = Some s" by (auto simp: resolves_def)
    with Some acc IH show ?thesis by (simp add: Let_def)
  qed (use acc IH in simp)
qed simp

text \<open>When the loop of a composite returns, every registered requirement was resolved, and nothing is left unverified exactly when each was resolved as verified.\<close>

definition verified_by :: "(ClaimEntry \<Rightarrow> Receipt option) \<Rightarrow> ClaimRegistry \<Rightarrow> string \<Rightarrow> bool" where
  "verified_by f registry d \<longleftrightarrow>
     (\<exists>e s. ClaimRegistry_get registry d = Some e \<and> f e = Some s \<and> rcp_status s = Verified)"

lemma composite_loop_result:
  "composite_loop f registry reqs (v, n, m) = Some (v', n', m') \<Longrightarrow>
     (n' = [] \<longleftrightarrow> n = [] \<and> (\<forall>d \<in> set reqs. verified_by f registry d))
     \<and> set v' = set v \<union> {d \<in> set reqs. verified_by f registry d}"
proof (induction reqs arbitrary: v n m)
  case (Cons req reqs)
  show ?case
  proof (cases "ClaimRegistry_get registry req")
    case None
    with Cons.prems obtain x where "composite_loop f registry reqs (v, n @ [x], m) = Some (v', n', m')" by auto
    with Cons.IH [OF this] None show ?thesis by (auto simp: verified_by_def)
  next
    case (Some e)
    with Cons.prems obtain s where s: "f e = Some s" by (auto simp: bind_eq_Some_conv)
    with Some have vb: "verified_by f registry req \<longleftrightarrow> rcp_status s = Verified" by (simp add: verified_by_def)
    show ?thesis
    proof (cases "rcp_status s = Verified")
      case True
      with Cons.prems Some s have "composite_loop f registry reqs (v @ [req], n, m) = Some (v', n', m')" by simp
      with Cons.IH [OF this] True vb show ?thesis by auto
    next
      case False
      with Cons.prems Some s obtain x m1
        where "composite_loop f registry reqs (v, n @ [x], m1) = Some (v', n', m')"
        by (cases "rcp_status s") auto
      with Cons.IH [OF this] False vb show ?thesis by auto
    qed
  qed
qed auto

definition verified_names :: "(ClaimEntry \<Rightarrow> Receipt option) \<Rightarrow> ClaimRegistry \<Rightarrow> string \<Rightarrow> string set" where
  "verified_names f registry d =
     {c. \<exists>e s. ClaimRegistry_get registry d = Some e \<and> f e = Some s \<and> c \<in> set (rcp_verified s)}"

lemma weaker_loop_result:
  "weaker_loop f registry ws (v, n, m) = Some (v', n', m') \<Longrightarrow>
     set v' \<subseteq> set v \<union> (\<Union>d \<in> set ws. verified_names f registry d)"
proof (induction ws arbitrary: v n m)
  case (Cons w ws)
  show ?case
  proof (cases "ClaimRegistry_get registry w")
    case None
    with Cons.prems have "weaker_loop f registry ws (v, n, m) = Some (v', n', m')" by simp
    with Cons.IH [OF this] show ?thesis by auto
  next
    case (Some e)
    with Cons.prems obtain s where s: "f e = Some s" by (auto simp: bind_eq_Some_conv)
    let ?v = "if rcp_verified s \<noteq> [] then rcp_verified s else v"
    from Cons.prems Some s obtain n1 m1 where "weaker_loop f registry ws (?v, n1, m1) = Some (v', n', m')"
      by (auto simp: Let_def split: if_splits)
    note Cons.IH [OF this]
    moreover have "set ?v \<subseteq> set v \<union> verified_names f registry w"
      using Some s by (auto simp: verified_names_def)
    ultimately show ?thesis by auto
  qed
qed simp

section \<open>Depth of resolution\<close>

fun entry_deps :: "ClaimEntry \<Rightarrow> string list" where
  "entry_deps (Leaf _) = []"
| "entry_deps (Composite c) = cc_requires c"
| "entry_deps (NonMintableEntry c) = nm_suggested_weaker_claims c"

text \<open>A rank that decreases along the references of a registry: there is one exactly when no claim refers back to itself.\<close>

definition ranked :: "ClaimRegistry \<Rightarrow> (string \<Rightarrow> nat) \<Rightarrow> bool" where
  "ranked registry rank \<longleftrightarrow>
     (\<forall>n e d. ClaimRegistry_get registry n = Some e \<and> d \<in> set (entry_deps e)
        \<and> ClaimRegistry_get registry d \<noteq> None \<longrightarrow> rank d < rank n)"

lemma resolve_mono_Suc:
  "resolve fuel registry subject ws t e = Some r \<Longrightarrow> resolve (Suc fuel) registry subject ws t e = Some r"
proof (induction fuel arbitrary: e r)
  case (Suc fuel)
  then have IH: "\<And>e r. resolve fuel registry subject ws t e = Some r \<Longrightarrow> resolve (Suc fuel) registry subject ws t e = Some r"
    by blast
  let ?f = "resolve fuel registry subject ws t" and ?g = "resolve (Suc fuel) registry subject ws t"
  have comp: "composite_loop ?f registry reqs acc = Some x \<Longrightarrow> composite_loop ?g registry reqs acc = Some x" for reqs acc x
    using IH by (rule composite_loop_mono)
  have weak: "weaker_loop ?f registry reqs acc = Some x \<Longrightarrow> weaker_loop ?g registry reqs acc = Some x" for reqs acc x
    using IH by (rule weaker_loop_mono)
  show ?case
  proof (cases e)
    case (Composite c)
    with Suc.prems obtain x where "composite_loop ?f registry (cc_requires c) ([], [], False) = Some x"
      and "r = composite_receipt c subject t x"
      by (auto simp: resolve_composite_def)
    with comp have "map_option (composite_receipt c subject t) (composite_loop ?g registry (cc_requires c) ([], [], False)) = Some r"
      by (metis option.simps(9))
    with Composite show ?thesis
      by (subst resolve.simps) (simp only: ClaimEntry.case resolve_composite_def)
  next
    case (NonMintableEntry c)
    from Suc.prems NonMintableEntry obtain x where
      "weaker_loop ?f registry (nm_suggested_weaker_claims c)
         ([], [], ''Claim '' @ debug_str (nm_name c) @ '' is non-mintable: '' @ nm_reason c @ ''.'') = Some x"
      by (auto simp: resolve_non_mintable_def)
    note x = this weak [OF this]
    have "resolve_non_mintable ?g registry c subject t = resolve_non_mintable ?f registry c subject t"
      unfolding resolve_non_mintable_def x ..
    with Suc.prems NonMintableEntry show ?thesis
      by (metis ClaimEntry.simps(12) resolve.simps(2))
  qed (use Suc.prems in simp)
qed simp

lemma resolve_mono:
  "fuel \<le> fuel' \<Longrightarrow> resolve fuel registry subject ws t e = Some r \<Longrightarrow>
   resolve fuel' registry subject ws t e = Some r"
  by (induction fuel' rule: dec_induct) (auto simp: resolve_mono_Suc simp del: resolve.simps)

lemma resolve_ranked:
  assumes "ranked registry rank"
  shows "ClaimRegistry_get registry n = Some e \<Longrightarrow> rank n < fuel \<Longrightarrow>
     resolve fuel registry subject ws t e \<noteq> None"
proof (induction fuel arbitrary: n e)
  case (Suc fuel)
  have deps: "\<forall>d \<in> set (entry_deps e). resolves (resolve fuel registry subject ws t) registry d"
  proof
    fix d assume d: "d \<in> set (entry_deps e)"
    show "resolves (resolve fuel registry subject ws t) registry d"
      unfolding resolves_def
    proof (intro allI impI)
      fix e' assume e': "ClaimRegistry_get registry d = Some e'"
      with assms Suc.prems d have "rank d < rank n" by (auto simp: ranked_def)
      with Suc.prems have "rank d < fuel" by simp
      with Suc.IH [OF e'] show "resolve fuel registry subject ws t e' \<noteq> None" by simp
    qed
  qed
  show ?case
  proof (cases e)
    case (Composite c)
    with composite_loop_total [OF deps] show ?thesis by (simp add: resolve_composite_def)
  next
    case (NonMintableEntry c)
    with weaker_loop_total [OF deps] show ?thesis by (simp add: resolve_non_mintable_def)
  qed simp
qed simp

text \<open>A claim that requires itself first is never resolved, whatever the depth.\<close>

lemma resolve_self_reference:
  assumes "ClaimRegistry_get registry n = Some (Composite c)" "cc_requires c = n # reqs"
  shows "resolve fuel registry subject ws t (Composite c) = None"
  using assms by (induction fuel) (simp_all add: resolve_composite_def)

section \<open>Support\<close>

definition leaf_supported :: "LeafClaim \<Rightarrow> WitnessPacket list \<Rightarrow> bool" where
  "leaf_supported leaf ws \<longleftrightarrow>
     matching_observations leaf ws \<noteq> []
     \<and> list_all (LeafCondition_holds (lc_condition leaf)) (matching_observations leaf ws)"

text \<open>
  What it means for packets to support a registered claim: a leaf has an observation and all
  of them meet its condition; a composite has all its requirements supported; nothing supports
  a non-mintable claim.
\<close>

inductive claim_supported :: "ClaimRegistry \<Rightarrow> WitnessPacket list \<Rightarrow> string \<Rightarrow> bool"
  for registry :: ClaimRegistry and ws :: "WitnessPacket list"
where
  leaf: "ClaimRegistry_get registry n = Some (Leaf l) \<Longrightarrow> leaf_supported l ws \<Longrightarrow> claim_supported registry ws n"
| composite: "ClaimRegistry_get registry n = Some (Composite c) \<Longrightarrow>
    (\<forall>d \<in> set (cc_requires c). claim_supported registry ws d) \<Longrightarrow> claim_supported registry ws n"

inductive_simps claim_supported_iff: "claim_supported registry ws n"

definition registry_wf :: "ClaimRegistry \<Rightarrow> bool" where
  "registry_wf registry \<longleftrightarrow> (\<forall>n e. ClaimRegistry_get registry n = Some e \<longrightarrow> entry_name e = n)"

lemma registry_wf_new: "registry_wf ClaimRegistry_new"
  by (simp add: registry_wf_def ClaimRegistry_get_def ClaimRegistry_new_def)

lemma registry_wf_register: "registry_wf registry \<Longrightarrow> registry_wf (ClaimRegistry_register e registry)"
  by (auto simp: registry_wf_def ClaimRegistry_get_def ClaimRegistry_register_def)

lemma registry_wf_starter: "registry_wf track_b_starter"
  by (simp add: track_b_starter_def registry_wf_new registry_wf_register)

lemma resolve_leaf_verified:
  "rcp_status (resolve_leaf leaf subject ws t) = Verified \<longleftrightarrow> leaf_supported leaf ws"
  "rcp_verified (resolve_leaf leaf subject ws t) = (if leaf_supported leaf ws then [lc_name leaf] else [])"
  by (auto simp: resolve_leaf_def leaf_supported_def Let_def Receipt_new_def)

lemma composite_receipt_verified:
  "rcp_status (composite_receipt c subject t (v, n, m)) = Verified \<longleftrightarrow> n = []"
  "rcp_verified (composite_receipt c subject t (v, n, m)) = v"
  by (auto simp: composite_receipt_def Let_def Receipt_new_def)

lemma composite_loop_resolved:
  "composite_loop f registry reqs acc = Some x \<Longrightarrow> \<forall>d \<in> set reqs. resolves f registry d"
proof (induction reqs arbitrary: acc)
  case (Cons req reqs)
  obtain v n m where acc: "acc = (v, n, m)" by (cases acc)
  have "resolves f registry req"
    using Cons.prems acc by (auto simp: resolves_def bind_eq_Some_conv)
  moreover from Cons.prems acc obtain acc' where "composite_loop f registry reqs acc' = Some x"
    by (auto simp: bind_eq_Some_conv split: option.splits Status.splits) (metis Status.exhaust)
  ultimately show ?case using Cons.IH by auto
qed simp

lemma resolve_supported:
  assumes wf: "registry_wf registry"
  shows "ClaimRegistry_get registry n = Some e \<Longrightarrow> resolve fuel registry subject ws t e = Some r \<Longrightarrow>
     (rcp_status r = Verified \<longleftrightarrow> claim_supported registry ws n)
     \<and> (\<forall>c \<in> set (rcp_verified r). claim_supported registry ws c)"
proof (induction fuel arbitrary: n e r)
  case (Suc fuel)
  let ?f = "resolve fuel registry subject ws t"
  have vb: "verified_by ?f registry d \<Longrightarrow> claim_supported registry ws d" for d
    using Suc.IH by (auto simp: verified_by_def)
  show ?case
  proof (cases e)
    case (Leaf l)
    with Suc.prems wf have "lc_name l = n" unfolding registry_wf_def by (metis entry_name.simps(1))
    with Leaf Suc.prems show ?thesis
      by (auto simp: resolve_leaf_verified claim_supported_iff [of _ _ n] intro: claim_supported.leaf)
  next
    case (Composite c)
    with Suc.prems obtain v nv m where
      loop: "composite_loop ?f registry (cc_requires c) ([], [], False) = Some (v, nv, m)"
      and r: "r = composite_receipt c subject t (v, nv, m)"
      by (auto simp: resolve_composite_def)
    have "claim_supported registry ws d \<longleftrightarrow> verified_by ?f registry d" if "d \<in> set (cc_requires c)" for d
    proof
      assume "claim_supported registry ws d"
      then obtain e' where e': "ClaimRegistry_get registry d = Some e'" by cases auto
      with composite_loop_resolved [OF loop] that obtain s where "?f e' = Some s" by (auto simp: resolves_def)
      with Suc.IH [OF e'] e' \<open>claim_supported registry ws d\<close> show "verified_by ?f registry d"
        by (auto simp: verified_by_def)
    qed (rule vb)
    with composite_loop_result [OF loop] r Composite Suc.prems vb show ?thesis
      by (auto simp: composite_receipt_verified claim_supported_iff [of _ _ n])
  next
    case (NonMintableEntry c)
    with Suc.prems obtain v sg st where
      loop: "weaker_loop ?f registry (nm_suggested_weaker_claims c)
          ([], [], ''Claim '' @ debug_str (nm_name c) @ '' is non-mintable: '' @ nm_reason c @ ''.'') = Some (v, sg, st)"
      and r: "rcp_status r = NotVerified" "rcp_verified r = v"
      by (auto simp: resolve_non_mintable_def Receipt_new_def)
    have "\<forall>x \<in> set v. claim_supported registry ws x"
      using weaker_loop_result [OF loop] Suc.IH by (fastforce simp: verified_names_def)
    with r NonMintableEntry Suc.prems show ?thesis by (simp add: claim_supported_iff [of _ _ n])
  qed
qed simp

section \<open>Evaluated receipts\<close>

lemma first_invalid_None: "first_invalid ext i ws = None \<longleftrightarrow> (\<forall>w \<in> set ws. valid_packet ext w)"
proof (induction ws arbitrary: i)
  case (Cons w ws)
  show ?case
  proof (cases "WitnessPacket_validate ext w")
    case (Inl m)
    then have "\<not> valid_packet ext w" using WitnessPacket_validate_ok [of ext w] by simp
    with Inl show ?thesis by simp
  next
    case (Inr u)
    then have "valid_packet ext w" using WitnessPacket_validate_ok [of ext w] by simp
    with Inr Cons show ?thesis by simp
  qed
qed simp

abbreviation about_subject :: "string \<Rightarrow> WitnessPacket list \<Rightarrow> WitnessPacket list" where
  "about_subject subject ws \<equiv> filter (\<lambda>w. wp_subject w = subject) ws"

definition evaluation_core ::
  "nat \<Rightarrow> ClaimRegistry \<Rightarrow> string \<Rightarrow> string \<Rightarrow> WitnessPacket list \<Rightarrow> string \<Rightarrow> Receipt option"
where
  "evaluation_core fuel registry claim_name subject ws t =
     (case ClaimRegistry_get registry claim_name of
        None \<Rightarrow> Some (unknown_claim registry claim_name subject t)
      | Some entry \<Rightarrow> resolve fuel registry subject (about_subject subject ws) t entry)"

lemma evaluate_valid:
  assumes "\<forall>w \<in> set ws. valid_packet ext w"
  shows "registry_evaluate fuel ext registry claim_name subject ws t =
     map_option (\<lambda>receipt. snd (Receipt_seal ext claim_registry_binding
        (receipt\<lparr>rcp_witnesses := map (packet_ref ext) (about_subject subject ws),
                 rcp_observed_at_min := iter_min (map wp_observed_at (about_subject subject ws)),
                 rcp_observed_at_max := iter_max (map wp_observed_at (about_subject subject ws))\<rparr>)))
       (evaluation_core fuel registry claim_name subject ws t)"
  using assms first_invalid_None [of ext 0 ws]
  by (simp add: registry_evaluate_def evaluation_core_def Let_def)

lemma evaluate_invalid:
  assumes "\<not> (\<forall>w \<in> set ws. valid_packet ext w)"
  shows "\<exists>idx m. registry_evaluate fuel ext registry claim_name subject ws t =
     Some (invalid_evidence claim_name subject t idx m)"
  using assms first_invalid_None [of ext 0 ws]
  by (cases "first_invalid ext 0 ws") (auto simp: registry_evaluate_def)

lemma unknown_claim_status: "rcp_status (unknown_claim registry c s t) = InvalidEvidence"
  "rcp_verified (unknown_claim registry c s t) = []"
  by (simp_all add: unknown_claim_def)

lemma invalid_evidence_status:
  "rcp_status (invalid_evidence c s t i m) = InvalidEvidence" "rcp_verified (invalid_evidence c s t i m) = []"
  by (simp_all add: invalid_evidence_def Receipt_new_def)

lemma evaluate_supported:
  assumes "registry_wf registry"
    and "registry_evaluate fuel ext registry claim_name subject ws t = Some r"
  shows "rcp_status r = Verified \<longleftrightarrow>
      (\<forall>w \<in> set ws. valid_packet ext w) \<and> claim_supported registry (about_subject subject ws) claim_name"
    and "\<forall>c \<in> set (rcp_verified r). claim_supported registry (about_subject subject ws) c"
proof -
  have "(rcp_status r = Verified \<longleftrightarrow>
      (\<forall>w \<in> set ws. valid_packet ext w) \<and> claim_supported registry (about_subject subject ws) claim_name)
      \<and> (\<forall>c \<in> set (rcp_verified r). claim_supported registry (about_subject subject ws) c)"
  proof (cases "\<forall>w \<in> set ws. valid_packet ext w")
    case True
    with assms(2) obtain r0 where r0: "evaluation_core fuel registry claim_name subject ws t = Some r0"
      and r: "rcp_status r = rcp_status r0" "rcp_verified r = rcp_verified r0"
      by (auto simp: evaluate_valid)
    show ?thesis
    proof (cases "ClaimRegistry_get registry claim_name")
      case None
      with r0 r show ?thesis
        by (auto simp: evaluation_core_def unknown_claim_status claim_supported_iff [of _ _ claim_name])
    next
      case (Some e)
      with r0 have "resolve fuel registry subject (about_subject subject ws) t e = Some r0"
        by (simp add: evaluation_core_def)
      from resolve_supported [OF assms(1) Some this] r True show ?thesis by simp
    qed
  next
    case False
    from evaluate_invalid [OF this, of fuel registry claim_name subject t] assms(2) False show ?thesis
      by (auto simp: invalid_evidence_status)
  qed
  then show "rcp_status r = Verified \<longleftrightarrow>
      (\<forall>w \<in> set ws. valid_packet ext w) \<and> claim_supported registry (about_subject subject ws) claim_name"
    and "\<forall>c \<in> set (rcp_verified r). claim_supported registry (about_subject subject ws) c" by auto
qed

lemma evaluate_sealed:
  assumes "\<forall>w \<in> set ws. valid_packet ext w" "jcs_total ext"
    and "registry_evaluate fuel ext registry claim_name subject ws t = Some r"
  shows "sealed_receipt ext r" "rcp_evaluator r = Some claim_registry_binding"
    "rcp_witnesses r = map (packet_ref ext) (about_subject subject ws)"
  using assms(3) seal_sealed [OF seal_total [OF assms(2)]] by (auto simp: evaluate_valid [OF assms(1)])

lemma evaluate_terminates:
  assumes "ranked registry rank" "rank claim_name < fuel"
  shows "\<exists>r. \<forall>fuel' \<ge> fuel. registry_evaluate fuel' ext registry claim_name subject ws t = Some r"
proof (cases "\<forall>w \<in> set ws. valid_packet ext w")
  case True
  have "\<exists>r. \<forall>fuel' \<ge> fuel. evaluation_core fuel' registry claim_name subject ws t = Some r"
  proof (cases "ClaimRegistry_get registry claim_name")
    case (Some e)
    with resolve_ranked [OF assms(1) Some assms(2)] obtain r
      where "resolve fuel registry subject (about_subject subject ws) t e = Some r" by blast
    with Some show ?thesis by (auto simp: evaluation_core_def dest: resolve_mono simp del: resolve.simps)
  qed (simp add: evaluation_core_def)
  with True show ?thesis by (auto simp: evaluate_valid)
next
  case False
  then obtain idx m where "first_invalid ext 0 ws = Some (idx, m)"
    using first_invalid_None [of ext 0 ws] by (metis not_None_eq old.prod.exhaust)
  then show ?thesis by (simp add: registry_evaluate_def)
qed

section \<open>The starter catalogue\<close>

definition starter_rank :: "string \<Rightarrow> nat" where
  "starter_rank n = (if n = ''safe_to_merge'' then 2 else if n = ''ready_for_review'' then 1 else 0)"

lemma starter_ranked: "ranked track_b_starter starter_rank"
  by (auto simp: ranked_def ClaimRegistry_get_def track_b_starter_def ClaimRegistry_register_def
      ClaimRegistry_new_def starter_rank_def split: if_splits)

lemma starter_fuel: "starter_rank n < 3"
  by (simp add: starter_rank_def)

section \<open>Only the set of packets matters\<close>

lemma leaf_cong: "set ws = set ws' \<Longrightarrow> resolve_leaf leaf subject ws t = resolve_leaf leaf subject ws' t"
proof -
  assume "set ws = set ws'"
  then have "set (matching_observations leaf ws) = set (matching_observations leaf ws')"
    by (simp add: matching_observations_def)
  then have eq: "matching_observations leaf ws = [] \<longleftrightarrow> matching_observations leaf ws' = []"
    "list_all P (matching_observations leaf ws) \<longleftrightarrow> list_all P (matching_observations leaf ws')" for P
    by (metis set_empty) (simp add: list_all_iff \<open>set (matching_observations leaf ws) = _\<close>)
  show ?thesis unfolding resolve_leaf_def Let_def eq ..
qed

lemma resolve_cong:
  assumes "set ws = set ws'"
  shows "resolve fuel registry subject ws t = resolve fuel registry subject ws' t"
proof (induction fuel)
  case (Suc fuel)
  show ?case
  proof (rule ext)
    show "resolve (Suc fuel) registry subject ws t e = resolve (Suc fuel) registry subject ws' t e" for e
      unfolding resolve.simps Suc leaf_cong [OF assms] ..
  qed
qed auto

section \<open>Properties\<close>

text \<open>
  C10: in a registry whose entries are stored under their own names, an evaluation that returns
  reports \<open>verified\<close> exactly when every supplied packet is valid and the packets about the
  subject support the claim; every claim it lists as verified is supported; and a non-mintable
  claim is never verified.
\<close>

theorem verified_iff_supported:
  assumes "registry_wf registry"
    and "registry_evaluate fuel ext registry claim_name subject ws t = Some r"
  shows "(rcp_status r = Verified \<longleftrightarrow>
        (\<forall>w \<in> set ws. valid_packet ext w) \<and> claim_supported registry (about_subject subject ws) claim_name)
    \<and> (\<forall>c \<in> set (rcp_verified r). claim_supported registry (about_subject subject ws) c)
    \<and> (\<forall>nm. ClaimRegistry_get registry claim_name = Some (NonMintableEntry nm) \<longrightarrow> rcp_status r \<noteq> Verified)"
  using evaluate_supported [OF assms] by (auto elim: claim_supported.cases)

lemma demo_supported: "claim_supported track_b_starter (about_subject ''repo'' [demo_packet]) ''tests_passed''"
proof -
  have "ClaimRegistry_get track_b_starter ''tests_passed'' = Some (Leaf
        \<lparr>lc_name = ''tests_passed'', lc_witness_type = ''pytest'',
         lc_observation_type = ''pytest_run'', lc_condition = ExitCodeZero,
         lc_describes = ''pytest run exited zero in this checkout''\<rparr>)"
    by (simp add: ClaimRegistry_get_def track_b_starter_def ClaimRegistry_register_def)
  then show ?thesis
    by (rule claim_supported.leaf)
      (simp add: leaf_supported_def matching_observations_def demo_packet_def)
qed

theorem verified_iff_supported_witness:
  "\<exists>r. registry_evaluate 3 demo_ext track_b_starter ''tests_passed'' ''repo'' [demo_packet] ''2026Z'' = Some r
     \<and> rcp_status r = Verified"
proof -
  obtain r where r: "registry_evaluate 3 demo_ext track_b_starter ''tests_passed'' ''repo'' [demo_packet] ''2026Z'' = Some r"
    using evaluate_terminates [OF starter_ranked starter_fuel] by blast
  from verified_iff_supported [OF registry_wf_starter r] demo_supported demo_packet_valid
  have "rcp_status r = Verified" by simp
  with r show ?thesis by blast
qed

text \<open>
  C36: the recursion of the evaluator ends in a registry without cycles: a depth above the rank
  of the claim always gives a receipt, and a greater depth gives the same one.
\<close>

theorem evaluation_terminates:
  assumes "ranked registry rank" and "rank claim_name < fuel"
  shows "\<exists>r. \<forall>fuel' \<ge> fuel. registry_evaluate fuel' ext registry claim_name subject ws t = Some r"
  using assms by (rule evaluate_terminates)

theorem evaluation_terminates_witness:
  "\<exists>r. \<forall>fuel' \<ge> 3. registry_evaluate fuel' demo_ext track_b_starter ''safe_to_merge'' ''repo'' [demo_packet] ''2026Z'' = Some r"
  using evaluation_terminates [OF starter_ranked starter_fuel] .

text \<open>
  Nothing stops a composite claim from being registered among its own requirements, and an
  evaluation of it over valid packets then never returns, at any depth of recursion.
\<close>

lemma self_requiring_claim_diverges:
  assumes "\<forall>w \<in> set ws. valid_packet ext w" and "cc_requires c = cc_name c # reqs"
  shows "registry_evaluate fuel ext (ClaimRegistry_register (Composite c) registry) (cc_name c) subject ws t = None"
proof -
  have "ClaimRegistry_get (ClaimRegistry_register (Composite c) registry) (cc_name c) = Some (Composite c)"
    by (simp add: ClaimRegistry_get_def ClaimRegistry_register_def)
  with resolve_self_reference [OF this assms(2)] show ?thesis
    by (simp add: evaluate_valid [OF assms(1)] evaluation_core_def)
qed

end
