(* ===== verification/Receipt_Check.thy ===== *)
theory Receipt_Check
  imports Claim_Registry
begin

text \<open>
  Structural verification of receipts against supplied packets (\<open>nq-core\<close>,
  \<open>receipt_check.rs\<close>): the schema, the content hash, the anchoring of every witness reference
  in a supplied packet, packets nothing refers to, freshness, and the exit code.

  A \<open>CheckReport\<close> is built by \<open>push\<close>; the model folds \<open>push\<close> over the outcomes in the order
  in which the code produces them. The vector \<open>packet_used\<close> of the source is a list of the
  indices set so far.
\<close>

section \<open>Reports\<close>

record CheckOptions =
  co_strict :: bool
  co_fresh :: bool
  co_as_of :: "string option"

datatype CheckKind =
    CK_Schema string
  | CK_ContentHash
  | CK_WitnessDigest string "string option"
  | CK_ExtraSuppliedPacket string
  | CK_FreshnessHorizon
  | CK_EvaluatorBinding string u32

datatype CheckStatus =
    CS_Ok
  | CS_ReceiptNotAnchored
  | CS_BrokenContentHash
  | CS_WitnessNotAnchored
  | CS_MissingWitnessPacket
  | CS_ExtraWitnessPacket
  | CS_MalformedDigest
  | CS_UnsupportedDigestAlgorithm
  | CS_Stale
  | CS_FreshnessNotApplicable
  | CS_UnsupportedReceiptVersion

definition CheckStatus_is_broken :: "CheckStatus \<Rightarrow> bool" where
  "CheckStatus_is_broken s \<longleftrightarrow> s = CS_BrokenContentHash"

record CheckOutcome =
  co_kind :: CheckKind
  co_status :: CheckStatus
  co_detail :: "string option"

record CheckReport =
  rep_outcomes :: "CheckOutcome list"
  rep_integrity_broken :: bool

definition CheckReport_push :: "CheckOutcome \<Rightarrow> CheckReport \<Rightarrow> CheckReport" where
  "CheckReport_push outcome report =
     report\<lparr>rep_outcomes := rep_outcomes report @ [outcome],
       rep_integrity_broken :=
         (if CheckStatus_is_broken (co_status outcome) then True else rep_integrity_broken report)\<rparr>"

abbreviation outcome :: "CheckKind \<Rightarrow> CheckStatus \<Rightarrow> string option \<Rightarrow> CheckOutcome" where
  "outcome kind status detail \<equiv> \<lparr>co_kind = kind, co_status = status, co_detail = detail\<rparr>"

datatype DigestShape = DS_Sha256 | DS_UnsupportedAlgorithm string | DS_Malformed

text \<open>\<open>str::find(':')\<close> with \<open>split_at(colon + 1)\<close>: the text up to and with the first colon, and the rest.\<close>

fun split_after_colon :: "string \<Rightarrow> (string \<times> string) option" where
  "split_after_colon [] = None"
| "split_after_colon (c # s) =
     (if c = CHR '':'' then Some ([c], s)
      else map_option (\<lambda>(a, b). (c # a, b)) (split_after_colon s))"

definition parse_digest :: "string \<Rightarrow> DigestShape" where
  "parse_digest s =
     (case split_after_colon s of
        None \<Rightarrow> DS_Malformed
      | Some (algo_with_colon, rest) \<Rightarrow>
          if algo_with_colon = DIGEST_ALGORITHM_PREFIX
          then if length rest \<noteq> 64 \<or> \<not> list_all is_lower_hex rest then DS_Malformed else DS_Sha256
          else DS_UnsupportedAlgorithm algo_with_colon)"

section \<open>The checks\<close>

definition schema_outcome :: "Receipt \<Rightarrow> CheckOutcome" where
  "schema_outcome receipt =
     (let schema_supported = rcp_schema receipt = RECEIPT_SCHEMA in
      outcome (CK_Schema (rcp_schema receipt))
        (if schema_supported then CS_Ok else CS_UnsupportedReceiptVersion)
        (if schema_supported then None
         else Some (''receipt schema '' @ debug_str (rcp_schema receipt) @ '' is not ''
           @ debug_str RECEIPT_SCHEMA @ ''; this binary cannot canonicalize it'')))"

definition content_hash_outcome :: "externals \<Rightarrow> Receipt \<Rightarrow> CheckOutcome" where
  "content_hash_outcome ext receipt =
     (case rcp_content_hash receipt of
        None \<Rightarrow>
          outcome CK_ContentHash CS_ReceiptNotAnchored
            (Some ''receipt has no content_hash; no integrity claim to verify'')
      | Some stored \<Rightarrow>
          (case compute_content_hash ext receipt of
             Inr recomputed \<Rightarrow>
               if stored = recomputed then outcome CK_ContentHash CS_Ok None
               else outcome CK_ContentHash CS_BrokenContentHash
                 (Some (''stored content_hash '' @ stored @ '' does not match recomputed '' @ recomputed))
           | Inl e \<Rightarrow>
               outcome CK_ContentHash CS_BrokenContentHash
                 (Some (''could not recompute hash to compare against stored '' @ stored @ '': '' @ e))))"

definition packet_digests :: "externals \<Rightarrow> WitnessPacket list \<Rightarrow> string list" where
  "packet_digests ext packets =
     List.map_filter (\<lambda>p. case WitnessPacket_digest ext p of Inl _ \<Rightarrow> None | Inr d \<Rightarrow> Some d) packets"

fun find_index :: "('a \<Rightarrow> bool) \<Rightarrow> nat \<Rightarrow> 'a list \<Rightarrow> nat option" where
  "find_index P i [] = None"
| "find_index P i (x # xs) = (if P x then Some i else find_index P (Suc i) xs)"

text \<open>One witness reference: the index of the packet it uses, if any, and its outcome.\<close>

definition witness_outcome :: "string list \<Rightarrow> WitnessRef \<Rightarrow> nat option \<times> CheckOutcome" where
  "witness_outcome digests wref =
     (case wr_digest wref of
        None \<Rightarrow>
          (None, outcome (CK_WitnessDigest (wr_witness_type wref) None) CS_WitnessNotAnchored
            (Some (''witness ref '' @ debug_str (wr_witness_type wref)
              @ '' has no digest; the receipt did not anchor it'')))
      | Some d \<Rightarrow>
          (let kind = CK_WitnessDigest (wr_witness_type wref) (Some d) in
           case parse_digest d of
             DS_Sha256 \<Rightarrow>
               (case find_index (\<lambda>pd. pd = d) 0 digests of
                  Some idx \<Rightarrow> (Some idx, outcome kind CS_Ok None)
                | None \<Rightarrow>
                    (None, outcome kind CS_MissingWitnessPacket
                      (Some (''no supplied packet hashes to '' @ d))))
           | DS_UnsupportedAlgorithm prefix \<Rightarrow>
               (None, outcome kind CS_UnsupportedDigestAlgorithm
                 (Some (''digest prefix '' @ debug_str prefix @ '' is not implemented by this binary'')))
           | DS_Malformed \<Rightarrow>
               (None, outcome kind CS_MalformedDigest
                 (Some (''digest string '' @ debug_str d @ '' does not parse as algorithm:hex'')))))"

definition extra_packet_outcomes :: "string list \<Rightarrow> nat list \<Rightarrow> CheckOutcome list" where
  "extra_packet_outcomes digests used =
     map (\<lambda>(idx, digest).
            outcome (CK_ExtraSuppliedPacket digest) CS_ExtraWitnessPacket
              (Some (''supplied packet '' @ digest @ '' does not correspond to any WitnessRef in the receipt'')))
       (filter (\<lambda>(idx, digest). idx \<notin> set used) (enumerate 0 digests))"

definition freshness_check :: "externals \<Rightarrow> Receipt \<Rightarrow> CheckOptions \<Rightarrow> CheckOutcome" where
  "freshness_check ext receipt opts =
     (case (rcp_freshness_horizon receipt, co_as_of opts) of
        (None, _) \<Rightarrow>
          outcome CK_FreshnessHorizon CS_FreshnessNotApplicable
            (Some ''receipt has no freshness_horizon; --fresh cannot be evaluated'')
      | (Some horizon, None) \<Rightarrow>
          outcome CK_FreshnessHorizon CS_FreshnessNotApplicable
            (Some (''--fresh requested but no as_of supplied; horizon '' @ horizon @ '' not evaluated''))
      | (Some horizon, Some as_of) \<Rightarrow>
          (case (parse_rfc3339_ok_value ext horizon, parse_rfc3339_ok_value ext as_of) of
             (Some h, Some a) \<Rightarrow>
               outcome CK_FreshnessHorizon (if a < h then CS_Ok else CS_Stale)
                 (Some (''as_of='' @ as_of @ '' horizon='' @ horizon))
           | _ \<Rightarrow>
               outcome CK_FreshnessHorizon CS_FreshnessNotApplicable
                 (Some (''could not parse as_of '' @ debug_str as_of @ '' or horizon ''
                   @ debug_str horizon @ '' as RFC3339''))))"

definition check_outcomes :: "externals \<Rightarrow> Receipt \<Rightarrow> WitnessPacket list \<Rightarrow> CheckOptions \<Rightarrow> CheckOutcome list" where
  "check_outcomes ext receipt packets opts =
     (let digests = packet_digests ext packets;
          refs = map (witness_outcome digests) (rcp_witnesses receipt)
      in [schema_outcome receipt]
         @ (if rcp_schema receipt = RECEIPT_SCHEMA then [content_hash_outcome ext receipt] else [])
         @ map snd refs
         @ extra_packet_outcomes digests (List.map_filter fst refs)
         @ (if co_fresh opts then [freshness_check ext receipt opts] else [])
         @ (case rcp_evaluator receipt of
              None \<Rightarrow> []
            | Some ev \<Rightarrow> [outcome (CK_EvaluatorBinding (eb_evaluator ev) (eb_version ev)) CS_Ok None]))"

definition check_receipt :: "externals \<Rightarrow> Receipt \<Rightarrow> WitnessPacket list \<Rightarrow> CheckOptions \<Rightarrow> CheckReport" where
  "check_receipt ext receipt packets opts =
     fold CheckReport_push (check_outcomes ext receipt packets opts)
       \<lparr>rep_outcomes = [], rep_integrity_broken = False\<rparr>"

fun outcome_code :: "bool \<Rightarrow> CheckStatus \<Rightarrow> int" where
  "outcome_code strict CS_Ok = 0"
| "outcome_code strict CS_ReceiptNotAnchored = (if strict then 1 else 0)"
| "outcome_code strict CS_WitnessNotAnchored = (if strict then 1 else 0)"
| "outcome_code strict CS_MissingWitnessPacket = (if strict then 1 else 0)"
| "outcome_code strict CS_ExtraWitnessPacket = (if strict then 1 else 0)"
| "outcome_code strict CS_FreshnessNotApplicable = (if strict then 1 else 0)"
| "outcome_code strict CS_Stale = 1"
| "outcome_code strict CS_MalformedDigest = 1"
| "outcome_code strict CS_UnsupportedDigestAlgorithm = 1"
| "outcome_code strict CS_UnsupportedReceiptVersion = 1"
| "outcome_code strict CS_BrokenContentHash = 2"

definition check_exit_code_for :: "CheckReport \<Rightarrow> bool \<Rightarrow> int" where
  "check_exit_code_for report strict =
     (if rep_integrity_broken report then 2
      else fold (\<lambda>outcome worst.
             let candidate = outcome_code strict (co_status outcome) in
             if worst < candidate then candidate else worst) (rep_outcomes report) 0)"

section \<open>Reports\<close>

lemma push_all:
  "rep_outcomes (fold CheckReport_push os report) = rep_outcomes report @ os"
  "rep_integrity_broken (fold CheckReport_push os report)
     \<longleftrightarrow> rep_integrity_broken report \<or> (\<exists>x \<in> set os. CheckStatus_is_broken (co_status x))"
  by (induction os arbitrary: report) (auto simp: CheckReport_push_def)

lemma check_receipt_outcomes: "rep_outcomes (check_receipt ext r ps opts) = check_outcomes ext r ps opts"
  by (simp add: check_receipt_def push_all)

lemma witness_outcome_not_broken: "co_status (snd (witness_outcome ds w)) \<noteq> CS_BrokenContentHash"
  by (auto simp: witness_outcome_def Let_def split: option.split DigestShape.split)

lemma freshness_check_not_broken: "co_status (freshness_check ext r opts) \<noteq> CS_BrokenContentHash"
  by (auto simp: freshness_check_def split: option.split)

lemma extra_not_broken: "x \<in> set (extra_packet_outcomes ds used) \<Longrightarrow> co_status x = CS_ExtraWitnessPacket"
  by (auto simp: extra_packet_outcomes_def)

lemma report_broken:
  "rep_integrity_broken (check_receipt ext r ps opts) \<longleftrightarrow>
     (\<exists>x \<in> set (check_outcomes ext r ps opts). co_status x = CS_BrokenContentHash)"
  by (simp add: check_receipt_def push_all CheckStatus_is_broken_def)

lemma integrity_broken_iff:
  "rep_integrity_broken (check_receipt ext r ps opts) \<longleftrightarrow>
     rcp_schema r = RECEIPT_SCHEMA \<and> rcp_content_hash r \<noteq> None \<and> \<not> sealed_receipt ext r"
proof -
  have "rep_integrity_broken (check_receipt ext r ps opts) \<longleftrightarrow>
      rcp_schema r = RECEIPT_SCHEMA \<and> co_status (content_hash_outcome ext r) = CS_BrokenContentHash"
    by (auto simp: report_broken check_outcomes_def Let_def schema_outcome_def witness_outcome_not_broken freshness_check_not_broken
        dest!: extra_not_broken split: option.splits if_splits)
  moreover have "co_status (content_hash_outcome ext r) = CS_BrokenContentHash \<longleftrightarrow>
      rcp_content_hash r \<noteq> None \<and> \<not> sealed_receipt ext r"
    by (auto simp: content_hash_outcome_def sealed_receipt_def split: option.split sum.split)
  ultimately show ?thesis by blast
qed

lemma fold_worst:
  "fold (\<lambda>x worst. let c = f x in if worst < c then c else worst) xs (w :: int) = Max (insert w (f ` set xs))"
proof (induction xs arbitrary: w)
  case (Cons x xs)
  have "(if w < f x then f x else w) = max w (f x)" by (simp add: max_def)
  with Cons have "fold (\<lambda>x worst. let c = f x in if worst < c then c else worst) (x # xs) w
      = Max (insert (max w (f x)) (f ` set xs))"
    by (simp add: Let_def)
  then show ?case by (cases "xs = []") (simp_all add: max.assoc)
qed simp

lemma exit_code_eq:
  "check_exit_code_for report strict =
     (if rep_integrity_broken report then 2
      else Max (insert 0 (outcome_code strict ` co_status ` set (rep_outcomes report))))"
  unfolding check_exit_code_for_def
  using fold_worst [of "\<lambda>x. outcome_code strict (co_status x)" "rep_outcomes report" 0]
  by (simp add: image_image)

lemma outcome_code_bounds: "0 \<le> outcome_code strict s" "outcome_code strict s \<le> 2"
  "outcome_code strict s = 2 \<longleftrightarrow> s = CS_BrokenContentHash"
  by (cases s; simp)+

lemma exit_code_zero_iff:
  "check_exit_code_for (check_receipt ext r ps opts) strict = 0 \<longleftrightarrow>
     (\<forall>x \<in> set (check_outcomes ext r ps opts). outcome_code strict (co_status x) = 0)"
proof -
  let ?c = "check_outcomes ext r ps opts" and ?rep = "check_receipt ext r ps opts"
  note b = report_broken [of ext r ps opts]
  show ?thesis
  proof (cases "rep_integrity_broken ?rep")
    case True
    then show ?thesis using b by (auto simp: exit_code_eq) (metis outcome_code.simps(11) zero_neq_numeral)
  next
    case False
    then have "check_exit_code_for ?rep strict = Max (insert 0 (outcome_code strict ` co_status ` set ?c))"
      by (simp add: exit_code_eq check_receipt_outcomes)
    moreover have "Max (insert 0 A) = 0 \<longleftrightarrow> (\<forall>x \<in> A. x = 0)" if "finite A" "\<forall>x \<in> A. 0 \<le> x" for A :: "int set"
      using that by (auto simp: Max_eq_iff) (metis order_antisym)
    ultimately show ?thesis by (simp add: outcome_code_bounds)
  qed
qed

lemma exit_code_range: "check_exit_code_for report strict \<in> {0, 1, 2}"
proof -
  let ?A = "insert 0 (outcome_code strict ` co_status ` set (rep_outcomes report))"
  have "Max ?A \<in> ?A" by (rule Max_in) auto
  then have "0 \<le> Max ?A" "Max ?A \<le> 2" using outcome_code_bounds by auto
  moreover have "m = 0 \<or> m = 1 \<or> m = 2" if "0 \<le> m" "m \<le> 2" for m :: int
    using that by arith
  ultimately show ?thesis by (auto simp: exit_code_eq)
qed

lemma exit_code_two_iff:
  "check_exit_code_for (check_receipt ext r ps opts) strict = 2 \<longleftrightarrow>
     rep_integrity_broken (check_receipt ext r ps opts)"
proof -
  let ?c = "check_outcomes ext r ps opts"
  let ?A = "insert 0 (outcome_code strict ` co_status ` set ?c)"
  have "rep_integrity_broken (check_receipt ext r ps opts)" if "Max ?A = 2"
  proof -
    have "Max ?A \<in> ?A" by (rule Max_in) auto
    with that obtain x where "x \<in> set ?c" "outcome_code strict (co_status x) = 2" by auto
    then show ?thesis by (auto simp: outcome_code_bounds report_broken)
  qed
  then show ?thesis by (auto simp: exit_code_eq check_receipt_outcomes)
qed

section \<open>Receipts of the evaluator\<close>

lemma resolve_schema: "resolve fuel registry subject ws t e = Some r \<Longrightarrow> rcp_schema r = RECEIPT_SCHEMA"
  by (cases fuel; cases e)
    (auto simp: resolve_leaf_def resolve_composite_def resolve_non_mintable_def composite_receipt_def
      Receipt_new_def Let_def split: if_splits)

lemma evaluation_core_schema:
  "evaluation_core fuel registry claim_name subject ws t = Some r \<Longrightarrow> rcp_schema r = RECEIPT_SCHEMA"
  by (auto simp: evaluation_core_def unknown_claim_def resolve_schema split: option.splits)


lemma packet_digests_total:
  "jcs_total ext \<Longrightarrow> packet_digests ext ps = map (\<lambda>p. case digest_jcs ext (packet_json p) of Inl _ \<Rightarrow> [] | Inr d \<Rightarrow> d) ps"
proof (induction ps)
  case (Cons p ps)
  from Cons.prems obtain d where "digest_jcs ext (packet_json p) = Inr d" using digest_jcs_total by blast
  with Cons show ?case by (simp add: packet_digests_def WitnessPacket_digest_eq map_filter_simps)
qed (simp add: packet_digests_def map_filter_simps)

lemma parse_digest_sha256: "is_sha256_digest d \<Longrightarrow> parse_digest d = DS_Sha256"
  by (auto simp: is_sha256_digest_def parse_digest_def strip_prefix_iff DIGEST_ALGORITHM_PREFIX_def
      split: option.splits)

lemma find_index_Some:
  "d \<in> set ds \<Longrightarrow> \<exists>j < length ds. find_index (\<lambda>x. x = d) i ds = Some (i + j) \<and> ds ! j = d"
proof (induction ds arbitrary: i)
  case (Cons a ds)
  show ?case
  proof (cases "a = d")
    case False
    with Cons.prems obtain j where "j < length ds" "find_index (\<lambda>x. x = d) (Suc i) ds = Some (Suc i + j)" "ds ! j = d"
      using Cons.IH [of "Suc i"] by auto
    with False show ?thesis by (intro exI [of _ "Suc j"]) simp
  qed (intro exI [of _ 0], simp)
qed simp

lemma anchored_ref:
  assumes "jcs_total ext" "sha256_shape ext" "p \<in> set ps"
  shows "\<exists>j < length ps. fst (witness_outcome (packet_digests ext ps) (packet_ref ext p)) = Some j
     \<and> packet_digests ext ps ! j = packet_digests ext [p] ! 0
     \<and> co_status (snd (witness_outcome (packet_digests ext ps) (packet_ref ext p))) = CS_Ok"
proof -
  from assms(1) obtain d where d: "digest_jcs ext (packet_json p) = Inr d" using digest_jcs_total by blast
  then have "wr_digest (packet_ref ext p) = Some d" by (simp add: packet_ref_def WitnessPacket_digest_eq)
  moreover have "parse_digest d = DS_Sha256"
    using digest_jcs_shape [OF assms(2) d] by (rule parse_digest_sha256)
  moreover have "d \<in> set (packet_digests ext ps)"
    using assms d by (force simp: packet_digests_total)
  ultimately show ?thesis
    using find_index_Some [of d "packet_digests ext ps" 0] d assms(1)
    by (auto simp: witness_outcome_def packet_digests_total)
qed


lemma evaluated_outcomes_ok:
  assumes "jcs_total ext" "sha256_shape ext" "\<forall>w \<in> set ws. valid_packet ext w"
    and "registry_evaluate fuel ext registry claim_name subject ws t = Some r"
  shows "rcp_schema r = RECEIPT_SCHEMA" "co_status (content_hash_outcome ext r) = CS_Ok"
    "\<forall>x \<in> set (map snd (map (witness_outcome (packet_digests ext ws)) (rcp_witnesses r))). co_status x = CS_Ok"
proof -
  note sealed = evaluate_sealed [OF assms(3,1,4)]
  from assms(4) obtain r0 where "evaluation_core fuel registry claim_name subject ws t = Some r0"
    and "rcp_schema r = rcp_schema r0"
    by (auto simp: evaluate_valid [OF assms(3)])
  then show "rcp_schema r = RECEIPT_SCHEMA" using evaluation_core_schema by simp
  from sealed(1) show "co_status (content_hash_outcome ext r) = CS_Ok"
    by (auto simp: content_hash_outcome_def sealed_receipt_def split: option.splits)
  show "\<forall>x \<in> set (map snd (map (witness_outcome (packet_digests ext ws)) (rcp_witnesses r))). co_status x = CS_Ok"
    using anchored_ref [OF assms(1,2)] by (fastforce simp: sealed(3))
qed

lemma no_extra_packets:
  assumes "jcs_total ext" "sha256_shape ext" "distinct (packet_digests ext ws)"
  shows "extra_packet_outcomes (packet_digests ext ws)
     (List.map_filter fst (map (witness_outcome (packet_digests ext ws)) (map (packet_ref ext) ws))) = []"
proof -
  let ?ds = "packet_digests ext ws"
  let ?used = "List.map_filter fst (map (witness_outcome ?ds) (map (packet_ref ext) ws))"
  have len: "length ?ds = length ws" by (simp add: packet_digests_total [OF assms(1)])
  have "i \<in> set ?used" if "i < length ?ds" for i
  proof -
    let ?o = "witness_outcome ?ds (packet_ref ext (ws ! i))"
    from that len have i: "ws ! i \<in> set ws" "?ds ! i = packet_digests ext [ws ! i] ! 0"
      by (auto simp: packet_digests_total [OF assms(1)])
    with anchored_ref [OF assms(1,2)] obtain j where "j < length ws" "fst ?o = Some j" "?ds ! j = ?ds ! i"
      by metis
    with assms(3) that len have "fst ?o = Some i" by (simp add: nth_eq_iff_index_eq)
    with i(1) show ?thesis by (force simp: List.map_filter_def)
  qed
  then show ?thesis by (auto simp: extra_packet_outcomes_def filter_empty_conv in_set_enumerate_eq)
qed

lemma evaluated_freshness:
  assumes "\<forall>w \<in> set ws. valid_packet ext w"
    and "registry_evaluate fuel ext registry claim_name subject ws t = Some r"
  shows "rcp_freshness_horizon r = None"
proof -
  have "resolve fuel registry subject vs t e = Some r0 \<Longrightarrow> rcp_freshness_horizon r0 = None" for vs e r0
    by (cases fuel; cases e)
      (auto simp: resolve_leaf_def resolve_composite_def resolve_non_mintable_def composite_receipt_def
        Receipt_new_def Let_def split: if_splits)
  with assms(2) show ?thesis
    by (auto simp: evaluate_valid [OF assms(1)] evaluation_core_def unknown_claim_def split: option.splits)
qed

lemma distinct_digests:
  assumes "jcs_total ext" "collision_free ext ws" "distinct ws"
  shows "distinct (packet_digests ext ws)"
  using assms(3) identified_key_inj [OF assms(1,2)]
  by (simp add: packet_digests_total [OF assms(1)] distinct_map identified_def)

lemma evaluated_check_lenient:
  assumes "jcs_total ext" "sha256_shape ext" "\<forall>w \<in> set ws. valid_packet ext w"
    and "registry_evaluate fuel ext registry claim_name subject ws t = Some r"
  shows "check_exit_code_for (check_receipt ext r ws opts) False = 0"
  unfolding exit_code_zero_iff
  using evaluated_outcomes_ok [OF assms] evaluated_freshness [OF assms(3,4)]
  by (auto simp: check_outcomes_def Let_def schema_outcome_def freshness_check_def
      dest!: extra_not_broken split: option.splits if_splits)

lemma evaluated_check_strict:
  assumes "jcs_total ext" "sha256_shape ext" "\<forall>w \<in> set ws. valid_packet ext w"
    and ev: "registry_evaluate fuel ext registry claim_name subject ws t = Some r"
    and d: "collision_free ext ws" "distinct ws" and s: "\<forall>w \<in> set ws. wp_subject w = subject"
    and "\<not> co_fresh opts"
  shows "check_exit_code_for (check_receipt ext r ws opts) True = 0"
proof -
  from s have "about_subject subject ws = ws" by simp
  with evaluate_sealed(3) [OF assms(3,1) ev] no_extra_packets [OF assms(1,2) distinct_digests [OF assms(1) d]]
  have "extra_packet_outcomes (packet_digests ext ws)
      (List.map_filter fst (map (witness_outcome (packet_digests ext ws)) (rcp_witnesses r))) = []" by simp
  with evaluated_outcomes_ok [OF assms(1-3) ev] assms(8) show ?thesis
    unfolding exit_code_zero_iff
    by (auto simp: check_outcomes_def Let_def schema_outcome_def split: option.splits if_splits)
qed

section \<open>Properties\<close>

text \<open>
  C30: the exit code of a check is 0, 1 or 2, and it is 2, broken integrity, exactly when the
  receipt has the known schema and carries a content hash that is not the hash of its content,
  whatever packets and options the check is run with.
\<close>

theorem tampering_is_exit_two:
  "check_exit_code_for (check_receipt ext r packets opts) strict \<in> {0, 1, 2}
   \<and> (check_exit_code_for (check_receipt ext r packets opts) strict = 2 \<longleftrightarrow>
        rcp_schema r = RECEIPT_SCHEMA \<and> rcp_content_hash r \<noteq> None \<and> \<not> sealed_receipt ext r)"
  using exit_code_range exit_code_two_iff integrity_broken_iff by blast

text \<open>
  A receipt the evaluator mints over valid packets passes the check against these packets
  with exit code 0; under \<open>--strict\<close> too, when freshness is not asked for and the packets are
  distinct, do not collide and are all about the subject. The digests have the documented
  shape and canonicalisation is total.
\<close>

theorem evaluated_receipt_checks:
  assumes "jcs_total ext" and "sha256_shape ext" and "\<forall>w \<in> set ws. valid_packet ext w"
    and "registry_evaluate fuel ext registry claim_name subject ws t = Some r"
  shows "check_exit_code_for (check_receipt ext r ws opts) False = 0
    \<and> (collision_free ext ws \<and> distinct ws \<and> (\<forall>w \<in> set ws. wp_subject w = subject) \<and> \<not> co_fresh opts \<longrightarrow>
         check_exit_code_for (check_receipt ext r ws opts) True = 0)"
  using evaluated_check_lenient [OF assms] evaluated_check_strict [OF assms] by blast

theorem evaluated_receipt_checks_witness:
  "\<exists>r. registry_evaluate 3 demo_ext track_b_starter ''tests_passed'' ''repo'' [demo_packet] ''2026Z'' = Some r
     \<and> check_exit_code_for (check_receipt demo_ext r [demo_packet]
         \<lparr>co_strict = True, co_fresh = False, co_as_of = None\<rparr>) True = 0"
proof -
  obtain r where r: "registry_evaluate 3 demo_ext track_b_starter ''tests_passed'' ''repo'' [demo_packet] ''2026Z'' = Some r"
    using evaluate_terminates [OF starter_ranked starter_fuel] by blast
  have v: "\<forall>w \<in> set [demo_packet]. valid_packet demo_ext w" by (simp add: demo_packet_valid)
  have "collision_free demo_ext [demo_packet]" by (simp add: no_collision_refl)
  moreover have "\<forall>w \<in> set [demo_packet]. wp_subject w = ''repo''" by (simp add: demo_packet_def)
  ultimately have "check_exit_code_for (check_receipt demo_ext r [demo_packet]
         \<lparr>co_strict = True, co_fresh = False, co_as_of = None\<rparr>) True = 0"
    using evaluated_receipt_checks [OF demo_ext_total demo_ext_shape v r,
        of "\<lparr>co_strict = True, co_fresh = False, co_as_of = None\<rparr>"]
    by (metis CheckOptions.select_convs(2) distinct_singleton)
  with r show ?thesis by blast
qed

end
