(* ===== verification/Receipt_Replay.thy ===== *)
theory Receipt_Replay
  imports Receipt_Check "HOL-Library.Option_ord"
begin

text \<open>
  Semantic replay of receipts (\<open>nq-core\<close>, \<open>receipt_replay.rs\<close>): after the structural check, the
  gates on schema, evaluator binding, version and witness material, the evaluation is run again
  over the supplied packets without duplicates, and the two receipts are compared field by
  field.

  The comparison of vectors after sorting is the source's, on tuples in lexicographic order.
  A replay that re-evaluates takes the fuel of the evaluator, and returns \<open>None\<close> when that is
  exhausted; 3 is enough, since the replay uses the starter catalogue.
\<close>

section \<open>Reports\<close>

record ReplayOptions =
  ro_strict :: bool
  ro_fresh :: bool
  ro_as_of :: "string option"

datatype ReplayStatus =
    RS_Ok
  | RS_Mismatch
  | RS_NotApplicable
  | RS_UnsupportedEvaluator
  | RS_UnsupportedVersion
  | RS_PolicyUnspecified
  | RS_MissingWitnessMaterial
  | RS_StructuralFailure

record FieldMismatch =
  fm_field :: string
  fm_original :: json
  fm_replayed :: json

datatype FreshnessOutcome = FO_NotChecked | FO_Ok | FO_Stale | FO_NotApplicable

record ReplayReport =
  rr_status :: ReplayStatus
  rr_integrity :: CheckReport
  rr_comparison :: "FieldMismatch list option"
  rr_freshness :: FreshnessOutcome
  rr_detail :: "string option"
  rr_duplicate_packet_digests :: "string list"

section \<open>Comparison\<close>

definition push_field_mismatch :: "string \<Rightarrow> ('a \<Rightarrow> json) \<Rightarrow> 'a \<Rightarrow> 'a \<Rightarrow> FieldMismatch" where
  "push_field_mismatch field to_value a b =
     \<lparr>fm_field = field, fm_original = to_value a, fm_replayed = to_value b\<rparr>"

definition push_if_diff :: "string \<Rightarrow> ('a \<Rightarrow> json) \<Rightarrow> 'a \<Rightarrow> 'a \<Rightarrow> FieldMismatch list" where
  "push_if_diff field to_value a b = (if a \<noteq> b then [push_field_mismatch field to_value a b] else [])"

definition push_if_set_diff_strings :: "string \<Rightarrow> string list \<Rightarrow> string list \<Rightarrow> FieldMismatch list" where
  "push_if_set_diff_strings field a b =
     (if sort a \<noteq> sort b then [push_field_mismatch field (\<lambda>xs. JArr (map JStr xs)) a b] else [])"

definition nv_set_eq :: "NotVerifiedEntry list \<Rightarrow> NotVerifiedEntry list \<Rightarrow> bool" where
  "nv_set_eq a b =
     (let key = (\<lambda>e. (nv_claim e, nv_reason e, nv_detail e)) in
      sort (map key a) = sort (map key b))"

definition witness_set_eq :: "WitnessRef list \<Rightarrow> WitnessRef list \<Rightarrow> bool" where
  "witness_set_eq a b =
     (let key = (\<lambda>w. (wr_witness_type w, wr_digest w, wr_observed_at w)) in
      sort (map key a) = sort (map key b))"

definition semantic_diff :: "Receipt \<Rightarrow> Receipt \<Rightarrow> FieldMismatch list" where
  "semantic_diff original replayed =
     push_if_diff ''claim'' JStr (rcp_claim original) (rcp_claim replayed)
     @ push_if_diff ''subject'' JStr (rcp_subject original) (rcp_subject replayed)
     @ push_if_diff ''status'' Status_json (rcp_status original) (rcp_status replayed)
     @ push_if_diff ''status_reasons'' (\<lambda>rs. JArr (map StatusReason_json rs))
         (rcp_status_reasons original) (rcp_status_reasons replayed)
     @ push_if_set_diff_strings ''verified'' (rcp_verified original) (rcp_verified replayed)
     @ push_if_set_diff_strings ''suggested_weaker_claims''
         (rcp_suggested_weaker_claims original) (rcp_suggested_weaker_claims replayed)
     @ (if \<not> nv_set_eq (rcp_not_verified original) (rcp_not_verified replayed)
        then [push_field_mismatch ''not_verified'' (\<lambda>ns. JArr (map NotVerifiedEntry_json ns))
                (rcp_not_verified original) (rcp_not_verified replayed)] else [])
     @ push_if_diff ''supported_status'' JStr
         (rcp_supported_status original) (rcp_supported_status replayed)
     @ (if \<not> witness_set_eq (rcp_witnesses original) (rcp_witnesses replayed)
        then [push_field_mismatch ''witnesses'' (\<lambda>ws. JArr (map WitnessRef_json ws))
                (rcp_witnesses original) (rcp_witnesses replayed)] else [])
     @ push_if_diff ''observed_at_min'' (json_opt JStr)
         (rcp_observed_at_min original) (rcp_observed_at_min replayed)
     @ push_if_diff ''observed_at_max'' (json_opt JStr)
         (rcp_observed_at_max original) (rcp_observed_at_max replayed)"

section \<open>Packets\<close>

text \<open>The loop of \<open>dedupe_by_digest\<close>, with the state \<open>(seen, deduped, duplicates)\<close>.\<close>

fun dedupe_loop ::
  "externals \<Rightarrow> WitnessPacket list \<Rightarrow> string list \<times> WitnessPacket list \<times> string list
     \<Rightarrow> string list \<times> WitnessPacket list \<times> string list"
where
  "dedupe_loop ext [] acc = acc"
| "dedupe_loop ext (p # ps) (seen, deduped, duplicates) =
     (case WitnessPacket_digest ext p of
        Inl _ \<Rightarrow> dedupe_loop ext ps (seen, deduped @ [p], duplicates)
      | Inr d \<Rightarrow>
          if d \<in> set seen
          then dedupe_loop ext ps
            (seen, deduped, if d \<notin> set duplicates then duplicates @ [d] else duplicates)
          else dedupe_loop ext ps (seen @ [d], deduped @ [p], duplicates))"

definition dedupe_by_digest :: "externals \<Rightarrow> WitnessPacket list \<Rightarrow> WitnessPacket list \<times> string list" where
  "dedupe_by_digest ext packets =
     (case dedupe_loop ext packets ([], [], []) of (seen, deduped, duplicates) \<Rightarrow> (deduped, duplicates))"

section \<open>Replay\<close>

definition track_a_not_applicable_detail :: "Receipt \<Rightarrow> string \<Rightarrow> string" where
  "track_a_not_applicable_detail receipt evaluator =
     (let bases = sorted_list_of_set (set (List.map_filter wr_custody_basis (rcp_witnesses receipt)));
          head =
            (case bases of
               [] \<Rightarrow> ''Track A replay is not applicable for evaluator '' @ debug_str evaluator
                       @ ''; witness refs do not carry an explicit custody basis.''
             | [basis] \<Rightarrow>
                 if basis = CUSTODY_BASIS_LEGACY_PROJECTION
                 then ''Track A replay is not applicable for evaluator '' @ debug_str evaluator
                        @ '' with projected legacy witness custody: '' @ basis @ ''.''
                 else ''Track A replay is not applicable for evaluator '' @ debug_str evaluator
                        @ '' with witness custody basis: '' @ basis @ ''.''
             | _ \<Rightarrow> ''Track A replay is not applicable for evaluator '' @ debug_str evaluator
                       @ ''; witness refs declare mixed custody bases: '' @ join_with '', '' bases @ ''.'')
      in head @ '' Structural integrity, witness digests, and freshness still ''
           @ ''checked. See docs/working/decisions/preflights/TRACK_A_WITNESS_PACKET_CUTOVER.md.'')"

definition freshness_outcome_from :: "CheckReport \<Rightarrow> ReplayOptions \<Rightarrow> FreshnessOutcome" where
  "freshness_outcome_from integrity opts =
     (if \<not> ro_fresh opts then FO_NotChecked
      else case find (\<lambda>x. co_kind x = CK_FreshnessHorizon) (rep_outcomes integrity) of
        None \<Rightarrow> FO_NotApplicable
      | Some x \<Rightarrow>
          (case co_status x of CS_Ok \<Rightarrow> FO_Ok | CS_Stale \<Rightarrow> FO_Stale | _ \<Rightarrow> FO_NotApplicable))"

definition material_present :: "externals \<Rightarrow> WitnessPacket list \<Rightarrow> WitnessRef \<Rightarrow> bool" where
  "material_present ext packets wref =
     (case wr_digest wref of
        None \<Rightarrow> True
      | Some needed \<Rightarrow>
          list_ex (\<lambda>p. case WitnessPacket_digest ext p of Inl _ \<Rightarrow> False | Inr d \<Rightarrow> d = needed) packets)"

definition replay_track_b ::
  "nat \<Rightarrow> externals \<Rightarrow> Receipt \<Rightarrow> u32 \<Rightarrow> WitnessPacket list \<Rightarrow> CheckReport \<Rightarrow> FreshnessOutcome
     \<Rightarrow> string list \<Rightarrow> ReplayReport option"
where
  "replay_track_b fuel ext receipt receipt_version deduped_packets integrity freshness duplicates =
     (let report = \<lparr>rr_status = RS_Ok, rr_integrity = integrity, rr_comparison = None,
            rr_freshness = freshness, rr_detail = None, rr_duplicate_packet_digests = duplicates\<rparr>
      in if receipt_version \<noteq> EVALUATOR_VERSION then
           Some (report\<lparr>rr_status := RS_UnsupportedVersion,
             rr_detail := Some (''receipt evaluator version '' @ show_word receipt_version
               @ '' differs from this binary's claim_registry version '' @ show_word EVALUATOR_VERSION
               @ ''; replay refused to avoid cross-version pseudo-replay'')\<rparr>)
         else case find (\<lambda>wref. \<not> material_present ext deduped_packets wref) (rcp_witnesses receipt) of
           Some wref \<Rightarrow>
             Some (report\<lparr>rr_status := RS_MissingWitnessMaterial,
               rr_detail := Some (''receipt requires witness packet with digest ''
                 @ (case wr_digest wref of None \<Rightarrow> [] | Some needed \<Rightarrow> needed) @ '' ('' @ debug_str (wr_witness_type wref)
                 @ ''); not supplied'')\<rparr>)
         | None \<Rightarrow>
             map_option
               (\<lambda>replayed.
                  let mismatches = semantic_diff receipt replayed in
                  report\<lparr>rr_status := (if mismatches = [] then RS_Ok else RS_Mismatch),
                    rr_comparison := Some mismatches\<rparr>)
               (registry_evaluate fuel ext track_b_starter (rcp_claim receipt) (rcp_subject receipt)
                  deduped_packets (rcp_generated_at receipt)))"

definition replay_receipt ::
  "nat \<Rightarrow> externals \<Rightarrow> Receipt \<Rightarrow> WitnessPacket list \<Rightarrow> ReplayOptions \<Rightarrow> ReplayReport option"
where
  "replay_receipt fuel ext receipt packets opts =
     (let integrity = check_receipt ext receipt packets
            \<lparr>co_strict = False, co_fresh = ro_fresh opts, co_as_of = ro_as_of opts\<rparr>;
          freshness = freshness_outcome_from integrity opts;
          report = \<lparr>rr_status = RS_Ok, rr_integrity = integrity, rr_comparison = None,
            rr_freshness = freshness, rr_detail = None, rr_duplicate_packet_digests = []\<rparr>
      in if rep_integrity_broken integrity then
           Some (report\<lparr>rr_status := RS_StructuralFailure,
             rr_detail := Some ''receipt content_hash mismatch (1d); semantic replay refused''\<rparr>)
         else if rcp_schema receipt \<noteq> RECEIPT_SCHEMA then
           Some (report\<lparr>rr_status := RS_UnsupportedEvaluator,
             rr_detail := Some (''receipt schema '' @ debug_str (rcp_schema receipt) @ '' is not ''
               @ debug_str RECEIPT_SCHEMA @ ''; this binary cannot replay against it'')\<rparr>)
         else case rcp_evaluator receipt of
           None \<Rightarrow>
             Some (report\<lparr>rr_status := RS_PolicyUnspecified,
               rr_detail := Some (''receipt has no evaluator binding; replay context is ''
                 @ ''unspecified (pre-Slice-1b receipt, or built by a path that did not seal)'')\<rparr>)
         | Some binding \<Rightarrow>
             (let (deduped, duplicates) = dedupe_by_digest ext packets;
                  report = report\<lparr>rr_duplicate_packet_digests := duplicates\<rparr>
              in if eb_evaluator binding = ''claim_registry'' then
                   replay_track_b fuel ext receipt (eb_version binding) deduped integrity freshness duplicates
                 else if eb_evaluator binding = ''disk_state'' \<or> eb_evaluator binding = ''ingest_state''
                         \<or> eb_evaluator binding = ''dns_state'' then
                   Some (report\<lparr>rr_status := RS_NotApplicable,
                     rr_detail := Some (track_a_not_applicable_detail receipt (eb_evaluator binding))\<rparr>)
                 else
                   Some (report\<lparr>rr_status := RS_UnsupportedEvaluator,
                     rr_detail := Some (''evaluator '' @ debug_str (eb_evaluator binding)
                       @ '' is not known to this binary'')\<rparr>)))"

definition replay_exit_code_for :: "ReplayReport \<Rightarrow> int" where
  "replay_exit_code_for report =
     (if rep_integrity_broken (rr_integrity report) \<or> rr_status report = RS_StructuralFailure then 2
      else if rr_freshness report = FO_Stale then 1
      else if rr_status report \<noteq> RS_Ok then 1
      else 0)"

section \<open>Comparison\<close>

lemma sort_eq_iff: "sort xs = sort ys \<longleftrightarrow> mset xs = mset (ys :: 'a::linorder list)"
  by (metis mset_sort sort_mset_cong)

definition nv_key :: "NotVerifiedEntry \<Rightarrow> string \<times> string \<times> string option" where
  "nv_key e = (nv_claim e, nv_reason e, nv_detail e)"

definition ref_key :: "WitnessRef \<Rightarrow> string \<times> string option \<times> string option" where
  "ref_key w = (wr_witness_type w, wr_digest w, wr_observed_at w)"

text \<open>Two receipts tell the same story: equal where order carries meaning, equal as multisets elsewhere.\<close>

definition same_decision :: "Receipt \<Rightarrow> Receipt \<Rightarrow> bool" where
  "same_decision r s \<longleftrightarrow>
     rcp_claim r = rcp_claim s \<and> rcp_subject r = rcp_subject s \<and> rcp_status r = rcp_status s
     \<and> rcp_status_reasons r = rcp_status_reasons s
     \<and> mset (rcp_verified r) = mset (rcp_verified s)
     \<and> mset (rcp_suggested_weaker_claims r) = mset (rcp_suggested_weaker_claims s)
     \<and> mset (map nv_key (rcp_not_verified r)) = mset (map nv_key (rcp_not_verified s))
     \<and> rcp_supported_status r = rcp_supported_status s
     \<and> mset (map ref_key (rcp_witnesses r)) = mset (map ref_key (rcp_witnesses s))
     \<and> rcp_observed_at_min r = rcp_observed_at_min s
     \<and> rcp_observed_at_max r = rcp_observed_at_max s"

lemma semantic_diff_empty: "semantic_diff r s = [] \<longleftrightarrow> same_decision r s"
proof -
  have nv: "nv_set_eq a b \<longleftrightarrow> mset (map nv_key a) = mset (map nv_key b)" for a b
    unfolding nv_set_eq_def nv_key_def [abs_def] Let_def sort_eq_iff ..
  have wr: "witness_set_eq a b \<longleftrightarrow> mset (map ref_key a) = mset (map ref_key b)" for a b
    unfolding witness_set_eq_def ref_key_def [abs_def] Let_def sort_eq_iff ..
  show ?thesis
    unfolding semantic_diff_def same_decision_def push_if_diff_def push_if_set_diff_strings_def nv wr sort_eq_iff
    by (simp add: conj_ac del: mset_map)
qed

section \<open>Duplicates\<close>

lemma collision_free_subset: "collision_free ext ps \<Longrightarrow> set qs \<subseteq> set ps \<Longrightarrow> collision_free ext qs"
  by (auto simp: list_all_iff)

lemma dedupe_loop_spec:
  assumes "jcs_total ext" "collision_free ext (qs @ ps)" "seen = map (\<lambda>p. digest_as_str (fst (identified ext p))) qs"
    "distinct qs"
  shows "\<exists>seen' ded' dups'. dedupe_loop ext ps (seen, qs, dups) = (seen', ded', dups')
    \<and> set ded' = set qs \<union> set ps \<and> distinct ded'
    \<and> (dups' = [] \<longleftrightarrow> dups = [] \<and> distinct (qs @ ps))
    \<and> (distinct (qs @ ps) \<longrightarrow> ded' = qs @ ps)"
  using assms
proof (induction ps arbitrary: qs seen dups)
  case (Cons p ps)
  let ?k = "\<lambda>p. digest_as_str (fst (identified ext p))"
  have dg: "WitnessPacket_digest ext p = Inr (?k p)"
    using digest_jcs_total [OF Cons.prems(1), of "packet_json p"]
    by (auto simp: identified_def WitnessPacket_digest_eq)
  have inj: "inj_on ?k (set (qs @ p # ps))" by (rule identified_key_inj [OF Cons.prems(1,2)])
  have mem: "?k p \<in> set seen \<longleftrightarrow> p \<in> set qs"
    using inj Cons.prems(3) by (auto simp: inj_on_def)
  show ?case
  proof (cases "p \<in> set qs")
    case True
    have "collision_free ext (qs @ ps)" by (rule collision_free_subset [OF Cons.prems(2)]) auto
    from Cons.IH [OF Cons.prems(1) this Cons.prems(3,4), of "if ?k p \<notin> set dups then dups @ [?k p] else dups"]
    obtain seen' ded' dups' where
      "dedupe_loop ext ps (seen, qs, if ?k p \<notin> set dups then dups @ [?k p] else dups) = (seen', ded', dups')"
      "set ded' = set qs \<union> set ps" "distinct ded'"
      "dups' = [] \<longrightarrow> (if ?k p \<notin> set dups then dups @ [?k p] else dups) = []"
      by blast
    with True mem dg show ?thesis by (cases "?k p \<in> set dups") auto
  next
    case False
    have "collision_free ext ((qs @ [p]) @ ps)" by (rule collision_free_subset [OF Cons.prems(2)]) auto
    from Cons.IH [OF Cons.prems(1) this, of "seen @ [?k p]" dups] False Cons.prems(3,4)
    obtain seen' ded' dups' where "dedupe_loop ext ps (seen @ [?k p], qs @ [p], dups) = (seen', ded', dups')"
      "set ded' = insert p (set qs) \<union> set ps" "distinct ded'" "dups' = [] \<longleftrightarrow> dups = [] \<and> distinct (qs @ p # ps)"
      "distinct (qs @ p # ps) \<longrightarrow> ded' = qs @ p # ps"
      by fastforce
    with False mem dg show ?thesis by simp
  qed
qed simp

lemma dedupe_by_digest_spec:
  assumes "jcs_total ext" "collision_free ext ps" "dedupe_by_digest ext ps = (ded, dups)"
  shows "set ded = set ps" "distinct ded" "dups = [] \<longleftrightarrow> distinct ps" "distinct ps \<Longrightarrow> ded = ps"
proof -
  obtain seen' ded' dups' where l: "dedupe_loop ext ps ([], [], []) = (seen', ded', dups')"
    and sp: "set ded' = set ps" "distinct ded'" "dups' = [] \<longleftrightarrow> distinct ps" "distinct ps \<longrightarrow> ded' = ps"
    using dedupe_loop_spec [of ext "[]" ps "[]" "[]", OF assms(1)] assms(2) by fastforce
  from assms(3) l have "ded = ded'" "dups = dups'" by (simp_all add: dedupe_by_digest_def)
  with sp show "set ded = set ps" "distinct ded" "dups = [] \<longleftrightarrow> distinct ps" "distinct ps \<Longrightarrow> ded = ps"
    by simp_all
qed

section \<open>Two evaluations of the same packets\<close>

lemma resolve_identity:
  assumes "resolve fuel registry subject ws t e = Some r"
  shows "rcp_claim r = entry_name e" "rcp_subject r = subject" "rcp_generated_at r = t"
  using assms
  by (cases fuel; cases e;
      auto simp: resolve_leaf_def resolve_composite_def resolve_non_mintable_def composite_receipt_def
        Receipt_new_def Let_def split: if_splits)+

lemma evaluate_identity:
  assumes "registry_wf registry" "\<forall>w \<in> set ws. valid_packet ext w"
    and "registry_evaluate fuel ext registry claim_name subject ws t = Some r"
  shows "rcp_claim r = claim_name" "rcp_subject r = subject" "rcp_generated_at r = t"
proof -
  from assms(3) obtain r0 where r0: "evaluation_core fuel registry claim_name subject ws t = Some r0"
    and r: "rcp_claim r = rcp_claim r0" "rcp_subject r = rcp_subject r0" "rcp_generated_at r = rcp_generated_at r0"
    by (auto simp: evaluate_valid [OF assms(2)])
  have "rcp_claim r0 = claim_name \<and> rcp_subject r0 = subject \<and> rcp_generated_at r0 = t"
  proof (cases "ClaimRegistry_get registry claim_name")
    case None
    with r0 show ?thesis by (auto simp: evaluation_core_def unknown_claim_def)
  next
    case (Some e)
    with assms(1) have "entry_name e = claim_name" by (simp add: registry_wf_def)
    with Some r0 resolve_identity show ?thesis by (fastforce simp: evaluation_core_def)
  qed
  with r show "rcp_claim r = claim_name" "rcp_subject r = subject" "rcp_generated_at r = t" by simp_all
qed

lemma evaluation_core_cong:
  "set ws = set vs \<Longrightarrow> evaluation_core fuel registry c subject ws t = evaluation_core fuel registry c subject vs t"
  using resolve_cong [of "about_subject subject ws" "about_subject subject vs"]
  by (simp add: evaluation_core_def cong: option.case_cong)

lemma mset_about_subject:
  "set ws = set vs \<Longrightarrow> distinct ws \<Longrightarrow> distinct vs \<Longrightarrow>
   mset (about_subject subject ws) = mset (about_subject subject vs)"
  by (simp add: set_eq_iff_mset_eq_distinct)

lemma evaluate_same_decision:
  assumes "\<forall>w \<in> set ws. valid_packet ext w" "set ws = set vs" "distinct ws" "distinct vs"
    and "registry_evaluate fuel ext registry c subject ws t = Some r"
    and "registry_evaluate fuel ext registry c subject vs t = Some s"
  shows "same_decision r s"
proof -
  let ?w = "about_subject subject ws" and ?v = "about_subject subject vs"
  from assms(1,2) have v: "\<forall>w \<in> set vs. valid_packet ext w" by simp
  have "set (map wp_observed_at ?w) = set (map wp_observed_at ?v)" using assms(2) by auto
  note observed = iter_set_cong [OF this]
  have "mset (map ref_key (map (packet_ref ext) ?w)) = mset (map ref_key (map (packet_ref ext) ?v))"
    using mset_about_subject [OF assms(2-4), of subject] by (metis mset_map)
  with assms(5,6) observed evaluation_core_cong [OF assms(2), of fuel registry c subject t] show ?thesis
    by (auto simp: evaluate_valid [OF assms(1)] evaluate_valid [OF v] same_decision_def simp del: mset_map)
qed

lemma starter_result:
  obtains r where "\<forall>fuel \<ge> 3. registry_evaluate fuel ext track_b_starter c subject ws t = Some r"
  using evaluate_terminates [OF starter_ranked starter_fuel] by blast

lemma starter_evaluates:
  "3 \<le> fuel \<Longrightarrow> \<exists>r. registry_evaluate fuel ext track_b_starter c subject ws t = Some r"
  by (rule starter_result [of ext c subject ws t]) blast

lemma starter_fuel_irrelevant:
  "3 \<le> fuel \<Longrightarrow> 3 \<le> fuel' \<Longrightarrow>
   registry_evaluate fuel ext track_b_starter c subject ws t = registry_evaluate fuel' ext track_b_starter c subject ws t"
  by (rule starter_result [of ext c subject ws t]) simp

section \<open>What a replay returns\<close>

lemma replay_cases:
  assumes "\<not> rep_integrity_broken (check_receipt ext r ps
      \<lparr>co_strict = False, co_fresh = ro_fresh opts, co_as_of = ro_as_of opts\<rparr>)"
    and "rcp_schema r = RECEIPT_SCHEMA" "rcp_evaluator r = Some claim_registry_binding"
    and "dedupe_by_digest ext ps = (ded, dups)"
  shows "replay_receipt fuel ext r ps opts =
    (let integrity = check_receipt ext r ps \<lparr>co_strict = False, co_fresh = ro_fresh opts, co_as_of = ro_as_of opts\<rparr>
     in replay_track_b fuel ext r EVALUATOR_VERSION ded integrity (freshness_outcome_from integrity opts) dups)"
  using assms by (simp add: replay_receipt_def claim_registry_binding_def Let_def)

lemma material_present_all:
  assumes "jcs_total ext" "set ws \<subseteq> set ded" "rcp_witnesses r = map (packet_ref ext) ws"
  shows "find (\<lambda>wref. \<not> material_present ext ded wref) (rcp_witnesses r) = None"
proof -
  have "material_present ext ded (packet_ref ext w)" if "w \<in> set ws" for w
    using that assms(2) digest_jcs_total [OF assms(1), of "packet_json w"]
    by (auto simp: material_present_def packet_ref_def WitnessPacket_digest_eq list_ex_iff intro!: bexI [of _ w])
  with assms(3) show ?thesis by (auto simp: find_None_iff)
qed

lemma horizonless_not_stale:
  "rcp_freshness_horizon r = None \<Longrightarrow>
   freshness_outcome_from (check_receipt ext r ps
     \<lparr>co_strict = False, co_fresh = ro_fresh opts, co_as_of = ro_as_of opts\<rparr>) opts \<noteq> FO_Stale"
proof -
  assume h: "rcp_freshness_horizon r = None"
  let ?c = "\<lparr>co_strict = False, co_fresh = ro_fresh opts, co_as_of = ro_as_of opts\<rparr>"
  have "co_kind (snd (witness_outcome ds w)) \<noteq> CK_FreshnessHorizon" for ds w
    by (auto simp: witness_outcome_def Let_def split: option.split DigestShape.split)
  then have "co_status x \<noteq> CS_Stale"
    if "x \<in> set (check_outcomes ext r ps ?c)" "co_kind x = CK_FreshnessHorizon" for x
    using that h
    by (auto simp: check_outcomes_def Let_def schema_outcome_def content_hash_outcome_def
        freshness_check_def extra_packet_outcomes_def split: option.splits if_splits sum.splits)
  then show ?thesis
    by (auto simp: freshness_outcome_from_def check_receipt_outcomes find_Some_iff
        split: option.split CheckStatus.split)
qed

lemma evaluated_not_broken:
  assumes "jcs_total ext" "\<forall>w \<in> set ws. valid_packet ext w"
    and "registry_evaluate fuel ext registry claim_name subject ws t = Some r"
  shows "\<not> rep_integrity_broken (check_receipt ext r ps opts)" "rcp_schema r = RECEIPT_SCHEMA"
proof -
  from evaluate_sealed(1) [OF assms(2,1,3)] show "\<not> rep_integrity_broken (check_receipt ext r ps opts)"
    by (simp add: integrity_broken_iff)
  from assms(3) obtain r0 where "evaluation_core fuel registry claim_name subject ws t = Some r0"
    and "rcp_schema r = rcp_schema r0"
    by (auto simp: evaluate_valid [OF assms(2)])
  then show "rcp_schema r = RECEIPT_SCHEMA" using evaluation_core_schema by simp
qed

text \<open>
  The replay of a minted receipt over the same packets, in any order and with any repetition:
  it re-evaluates, and compares with the evaluation of the packets without duplicates.
\<close>

lemma replay_of_minted:
  assumes t: "jcs_total ext" and v: "\<forall>w \<in> set ws. valid_packet ext w" and c: "collision_free ext ws"
    and s: "set ps = set ws" and f: "3 \<le> fuel" "3 \<le> fuel'"
    and ev: "registry_evaluate fuel ext track_b_starter claim_name subject ws t0 = Some r"
  obtains rep ded r' where "replay_receipt fuel' ext r ps opts = Some rep"
    "rr_status rep = (if same_decision r r' then RS_Ok else RS_Mismatch)"
    "rr_duplicate_packet_digests rep = [] \<longleftrightarrow> distinct ps"
    "replay_exit_code_for rep = (if same_decision r r' then 0 else 1)"
    "distinct ded" "set ded = set ws"
    "registry_evaluate fuel ext track_b_starter claim_name subject ded t0 = Some r'"
proof -
  obtain ded dups where d: "dedupe_by_digest ext ps = (ded, dups)" by (cases "dedupe_by_digest ext ps")
  have "collision_free ext ps" by (rule collision_free_subset [OF c]) (simp add: s)
  note ds = dedupe_by_digest_spec [OF t this d]
  note id = evaluate_identity [OF registry_wf_starter v ev]
  note sealed = evaluate_sealed [OF v t ev]
  note ok = evaluated_not_broken [OF t v ev]
  obtain r' where r': "registry_evaluate fuel ext track_b_starter claim_name subject ded t0 = Some r'"
    using starter_evaluates [OF f(1)] by blast
  then have r'': "registry_evaluate fuel' ext track_b_starter claim_name subject ded t0 = Some r'"
    using starter_fuel_irrelevant [OF f] by simp
  let ?c = "\<lparr>co_strict = False, co_fresh = ro_fresh opts, co_as_of = ro_as_of opts\<rparr>"
  let ?i = "check_receipt ext r ps ?c"
  have "find (\<lambda>wref. \<not> material_present ext ded wref) (rcp_witnesses r) = None"
    by (rule material_present_all [OF t _ sealed(3)]) (use ds(1) s in auto)
  then have rep: "replay_receipt fuel' ext r ps opts = Some
      \<lparr>rr_status = (if same_decision r r' then RS_Ok else RS_Mismatch), rr_integrity = ?i,
       rr_comparison = Some (semantic_diff r r'), rr_freshness = freshness_outcome_from ?i opts,
       rr_detail = None, rr_duplicate_packet_digests = dups\<rparr>"
    using replay_cases [OF ok sealed(2) d, where opts = opts and fuel = fuel'] r''
    by (simp add: replay_track_b_def Let_def id semantic_diff_empty)
  have "freshness_outcome_from ?i opts \<noteq> FO_Stale"
    by (rule horizonless_not_stale) (rule evaluated_freshness [OF v ev])
  then show ?thesis
    using that [OF rep, of r' ded] ds r' s ok by (simp add: replay_exit_code_for_def)
qed

lemma claim_supported_mono:
  assumes "claim_supported registry ws n" "set ws = set vs"
  shows "claim_supported registry vs n"
  using assms(1)
proof (induction rule: claim_supported.induct)
  case (leaf n l)
  have "set (matching_observations l ws) = set (matching_observations l vs)"
    using assms(2) by (simp add: matching_observations_def)
  with leaf.hyps show ?case
    by (intro claim_supported.leaf [of _ _ l]) (auto simp: leaf_supported_def list_all_iff simp flip: set_empty)
next
  case (composite n c)
  then show ?case by (intro claim_supported.composite [of _ _ c]) auto
qed

lemma claim_supported_cong: "set ws = set vs \<Longrightarrow> claim_supported registry ws n \<longleftrightarrow> claim_supported registry vs n"
  using claim_supported_mono by blast

lemma replay_ok_evaluated:
  assumes "replay_receipt fuel ext r ps opts = Some rep" "rr_status rep = RS_Ok"
    and "dedupe_by_digest ext ps = (ded, dups)"
  obtains r' where "\<not> rep_integrity_broken (check_receipt ext r ps
      \<lparr>co_strict = False, co_fresh = ro_fresh opts, co_as_of = ro_as_of opts\<rparr>)"
    "rcp_schema r = RECEIPT_SCHEMA"
    "registry_evaluate fuel ext track_b_starter (rcp_claim r) (rcp_subject r) ded (rcp_generated_at r) = Some r'"
    "same_decision r r'"
proof -
  from assms(1-3) obtain r' where
    "registry_evaluate fuel ext track_b_starter (rcp_claim r) (rcp_subject r) ded (rcp_generated_at r) = Some r'"
    "semantic_diff r r' = []" "rcp_schema r = RECEIPT_SCHEMA"
    "\<not> rep_integrity_broken (check_receipt ext r ps
      \<lparr>co_strict = False, co_fresh = ro_fresh opts, co_as_of = ro_as_of opts\<rparr>)"
    by (auto simp: replay_receipt_def replay_track_b_def Let_def split: if_splits option.splits)
  then show ?thesis using that by (simp add: semantic_diff_empty)
qed

lemma replay_ok_supported:
  assumes "jcs_total ext" and "collision_free ext ps"
    and "replay_receipt fuel ext r ps opts = Some rep" and "rr_status rep = RS_Ok"
  shows "(rcp_status r = Verified \<longleftrightarrow> (\<forall>w \<in> set ps. valid_packet ext w)
        \<and> claim_supported track_b_starter (about_subject (rcp_subject r) ps) (rcp_claim r))
    \<and> (\<forall>c \<in> set (rcp_verified r). claim_supported track_b_starter (about_subject (rcp_subject r) ps) c)
    \<and> (rcp_content_hash r \<noteq> None \<longrightarrow> sealed_receipt ext r)"
proof -
  obtain ded dups where d: "dedupe_by_digest ext ps = (ded, dups)" by (cases "dedupe_by_digest ext ps")
  note ds = dedupe_by_digest_spec [OF assms(1,2) d]
  obtain r' where nb: "\<not> rep_integrity_broken (check_receipt ext r ps
      \<lparr>co_strict = False, co_fresh = ro_fresh opts, co_as_of = ro_as_of opts\<rparr>)" "rcp_schema r = RECEIPT_SCHEMA"
    and ev: "registry_evaluate fuel ext track_b_starter (rcp_claim r) (rcp_subject r) ded (rcp_generated_at r) = Some r'"
    and same: "same_decision r r'"
    using assms(3,4) d by (rule replay_ok_evaluated)
  have "set (about_subject (rcp_subject r) ded) = set (about_subject (rcp_subject r) ps)"
    using ds(1) by simp
  note cong = claim_supported_cong [OF this]
  from same have "rcp_status r = rcp_status r'" "set (rcp_verified r) = set (rcp_verified r')"
    by (auto simp: same_decision_def dest: mset_eq_setD)
  with evaluate_supported [OF registry_wf_starter ev] nb cong ds(1) show ?thesis
    by (auto simp: integrity_broken_iff)
qed

section \<open>Properties\<close>

text \<open>
  C18: a receipt the evaluator mints over valid, distinct packets replays with status \<open>Ok\<close> and
  exit code 0 over the same packets, supplied in any order and with any repetition; the
  repetition is reported and, against the documentation of \<open>--strict\<close>, never changes the code,
  whatever the options.
\<close>

theorem honest_receipt_replays:
  assumes "jcs_total ext" and "\<forall>w \<in> set ws. valid_packet ext w" and "collision_free ext ws"
    and "distinct ws" and "set ps = set ws" and "3 \<le> fuel" and "3 \<le> fuel'"
    and "registry_evaluate fuel ext track_b_starter claim_name subject ws t = Some r"
  shows "\<exists>rep. replay_receipt fuel' ext r ps opts = Some rep \<and> rr_status rep = RS_Ok
    \<and> replay_exit_code_for rep = 0 \<and> (rr_duplicate_packet_digests rep = [] \<longleftrightarrow> distinct ps)"
proof -
  obtain rep ded r' where rep: "replay_receipt fuel' ext r ps opts = Some rep"
    "rr_status rep = (if same_decision r r' then RS_Ok else RS_Mismatch)"
    "rr_duplicate_packet_digests rep = [] \<longleftrightarrow> distinct ps"
    "replay_exit_code_for rep = (if same_decision r r' then 0 else 1)"
    and ded: "distinct ded" "set ded = set ws"
    "registry_evaluate fuel ext track_b_starter claim_name subject ded t = Some r'"
    by (rule replay_of_minted [OF assms(1,2,3,5,6,7,8)])
  from evaluate_same_decision [OF assms(2) ded(2) [symmetric] assms(4) ded(1) assms(8) ded(3)] rep
  show ?thesis by auto
qed

text \<open>
  C17: when a replay comes back \<open>Ok\<close>, the receipt's verdict is the packets' own: it says
  \<open>verified\<close> exactly when the supplied packets are all valid and those about its subject
  support its claim, every claim it lists as verified is supported, and a content hash it
  carries is genuine. The supplied packets do not collide.
\<close>

theorem replay_ok_means_supported:
  assumes "jcs_total ext" and "collision_free ext ps"
    and "replay_receipt fuel ext r ps opts = Some rep" and "rr_status rep = RS_Ok"
  shows "(rcp_status r = Verified \<longleftrightarrow> (\<forall>w \<in> set ps. valid_packet ext w)
        \<and> claim_supported track_b_starter (about_subject (rcp_subject r) ps) (rcp_claim r))
    \<and> (\<forall>c \<in> set (rcp_verified r). claim_supported track_b_starter (about_subject (rcp_subject r) ps) c)
    \<and> (rcp_content_hash r \<noteq> None \<longrightarrow> sealed_receipt ext r)"
  using assms by (rule replay_ok_supported)

text \<open>
  A receipt minted over packets of which one about the subject was supplied twice never
  replays: the evaluator counts both, the replay drops one, and the witnesses no longer match.
\<close>

theorem minted_over_duplicates_mismatches:
  assumes "jcs_total ext" and "\<forall>w \<in> set ws. valid_packet ext w" and "collision_free ext ws"
    and "\<not> distinct (about_subject subject ws)" and "set ps = set ws" and "3 \<le> fuel" and "3 \<le> fuel'"
    and "registry_evaluate fuel ext track_b_starter claim_name subject ws t = Some r"
  shows "\<exists>rep. replay_receipt fuel' ext r ps opts = Some rep \<and> rr_status rep = RS_Mismatch
    \<and> replay_exit_code_for rep = 1"
proof -
  obtain rep ded r' where rep: "replay_receipt fuel' ext r ps opts = Some rep"
    "rr_status rep = (if same_decision r r' then RS_Ok else RS_Mismatch)"
    "rr_duplicate_packet_digests rep = [] \<longleftrightarrow> distinct ps"
    "replay_exit_code_for rep = (if same_decision r r' then 0 else 1)"
    and ded: "distinct ded" "set ded = set ws"
    "registry_evaluate fuel ext track_b_starter claim_name subject ded t = Some r'"
    by (rule replay_of_minted [OF assms(1,2,3,5,6,7,8)])
  have v: "\<forall>w \<in> set ded. valid_packet ext w" using ded(2) assms(2) by simp
  have "length (about_subject subject ded) = card (set (about_subject subject ws))"
    using distinct_card [OF distinct_filter [OF ded(1)]] ded(2) by (metis set_filter)
  moreover have "card (set (about_subject subject ws)) < length (about_subject subject ws)"
    using assms(4) card_distinct card_length le_neq_implies_less by blast
  ultimately have "length (rcp_witnesses r) \<noteq> length (rcp_witnesses r')"
    using evaluate_sealed(3) [OF assms(2,1,8)] evaluate_sealed(3) [OF v assms(1) ded(3)] by simp
  then have "\<not> same_decision r r'"
    unfolding same_decision_def by (metis length_map size_mset)
  with rep show ?thesis by simp
qed


section \<open>Concrete replays\<close>

lemma demo_minted:
  obtains r where "registry_evaluate 3 demo_ext track_b_starter ''tests_passed'' ''repo'' ws ''2026Z'' = Some r"
  using starter_evaluates [of 3] by blast

lemma demo_collision_free: "collision_free demo_ext [demo_packet, demo_packet]" "collision_free demo_ext [demo_packet]"
  by (simp_all add: no_collision_refl)

lemma demo_all_valid: "set ws \<subseteq> {demo_packet} \<Longrightarrow> \<forall>w \<in> set ws. valid_packet demo_ext w"
  using demo_packet_valid by blast

theorem honest_receipt_replays_witness:
  "\<exists>r rep. registry_evaluate 3 demo_ext track_b_starter ''tests_passed'' ''repo'' [demo_packet] ''2026Z'' = Some r
     \<and> replay_receipt 3 demo_ext r [demo_packet, demo_packet] \<lparr>ro_strict = True, ro_fresh = False, ro_as_of = None\<rparr> = Some rep
     \<and> rr_status rep = RS_Ok \<and> rr_duplicate_packet_digests rep \<noteq> [] \<and> replay_exit_code_for rep = 0"
proof -
  obtain r where r: "registry_evaluate 3 demo_ext track_b_starter ''tests_passed'' ''repo'' [demo_packet] ''2026Z'' = Some r"
    by (rule demo_minted)
  have "\<exists>rep. replay_receipt 3 demo_ext r [demo_packet, demo_packet] \<lparr>ro_strict = True, ro_fresh = False, ro_as_of = None\<rparr> = Some rep
      \<and> rr_status rep = RS_Ok \<and> replay_exit_code_for rep = 0
      \<and> (rr_duplicate_packet_digests rep = [] \<longleftrightarrow> distinct [demo_packet, demo_packet])"
    by (rule honest_receipt_replays [OF demo_ext_total demo_all_valid demo_collision_free(2) _ _ _ _ r]) simp_all
  then show ?thesis using r by auto
qed

theorem replay_ok_means_supported_witness:
  "\<exists>r rep. replay_receipt 3 demo_ext r [demo_packet] \<lparr>ro_strict = False, ro_fresh = False, ro_as_of = None\<rparr> = Some rep
     \<and> rr_status rep = RS_Ok \<and> sealed_receipt demo_ext r
     \<and> (rcp_status r = Verified \<longleftrightarrow> (\<forall>w \<in> set [demo_packet]. valid_packet demo_ext w)
          \<and> claim_supported track_b_starter (about_subject (rcp_subject r) [demo_packet]) (rcp_claim r))"
proof -
  obtain r where r: "registry_evaluate 3 demo_ext track_b_starter ''tests_passed'' ''repo'' [demo_packet] ''2026Z'' = Some r"
    by (rule demo_minted)
  have v: "\<forall>w \<in> set [demo_packet]. valid_packet demo_ext w" by (rule demo_all_valid) simp
  obtain rep ded r' where rep: "replay_receipt 3 demo_ext r [demo_packet] \<lparr>ro_strict = False, ro_fresh = False, ro_as_of = None\<rparr> = Some rep"
    "rr_status rep = (if same_decision r r' then RS_Ok else RS_Mismatch)"
    "rr_duplicate_packet_digests rep = [] \<longleftrightarrow> distinct [demo_packet]"
    "replay_exit_code_for rep = (if same_decision r r' then 0 else 1)"
    and ded: "distinct ded" "set ded = set [demo_packet]"
    "registry_evaluate 3 demo_ext track_b_starter ''tests_passed'' ''repo'' ded ''2026Z'' = Some r'"
    by (rule replay_of_minted [OF demo_ext_total v demo_collision_free(2) refl _ _ r, where fuel' = 3]) simp_all
  have "same_decision r r'"
    by (rule evaluate_same_decision [OF v ded(2) [symmetric] _ ded(1) r ded(3)]) simp
  with rep have "rr_status rep = RS_Ok" by simp
  with replay_ok_means_supported [OF demo_ext_total demo_collision_free(2) rep(1)] rep(1)
    evaluate_sealed(1) [OF v demo_ext_total r]
  show ?thesis by blast
qed

theorem minted_over_duplicates_mismatches_witness:
  "\<exists>r rep. registry_evaluate 3 demo_ext track_b_starter ''tests_passed'' ''repo'' [demo_packet, demo_packet] ''2026Z'' = Some r
     \<and> replay_receipt 3 demo_ext r [demo_packet, demo_packet] \<lparr>ro_strict = False, ro_fresh = False, ro_as_of = None\<rparr> = Some rep
     \<and> rr_status rep = RS_Mismatch \<and> replay_exit_code_for rep = 1"
proof -
  obtain r where r: "registry_evaluate 3 demo_ext track_b_starter ''tests_passed'' ''repo'' [demo_packet, demo_packet] ''2026Z'' = Some r"
    by (rule demo_minted)
  have "\<not> distinct (about_subject ''repo'' [demo_packet, demo_packet])" by (simp add: demo_packet_def)
  then show ?thesis
    using minted_over_duplicates_mismatches [OF demo_ext_total demo_all_valid demo_collision_free(1) _ refl _ _ r, of 3] r
    by simp
qed

end
