(* ===== verification/Reliance.thy ===== *)
theory Reliance
  imports Claim_Receipt
begin

text \<open>
  Consumer-indexed reliance (crate \<open>nq\<close>, \<open>reliance.rs\<close>): may this consumer rely on an evaluated
  receipt for this purpose? The profile catalogue and its loading, the request and the evidence
  context with their digests, the ordered conjuncts of \<open>evaluate\<close>, and the decision record.

  \<open>evaluate\<close> pushes its reason onto a vector and returns at the first conjunct that fails: each
  conjunct is a check that refuses with an outcome and a message, and the vector has the message
  of the check that refused. Parsing the catalogue's JSON is a parameter.
\<close>

section \<open>Profiles\<close>

definition RELIANCE_REQUEST_SCHEMA :: string where
  "RELIANCE_REQUEST_SCHEMA = ''nq.reliance.request.v1''"

definition RELIANCE_RECEIPT_SCHEMA :: string where
  "RELIANCE_RECEIPT_SCHEMA = ''nq.reliance.receipt.v1''"

definition RELIANCE_PROFILES_SCHEMA :: string where
  "RELIANCE_PROFILES_SCHEMA = ''nq.reliance.profiles.v1''"

datatype CallerBinding = Configured | OperatorSelected

fun CallerBinding_json :: "CallerBinding \<Rightarrow> json" where
  "CallerBinding_json Configured = JStr ''configured''"
| "CallerBinding_json OperatorSelected = JStr ''operator_selected''"

fun CallerBinding_disclosure :: "CallerBinding \<Rightarrow> string" where
  "CallerBinding_disclosure Configured =
     ''consumer profile was selected from local configuration; ''
     @ ''this is not an authenticated consumer identity''"
| "CallerBinding_disclosure OperatorSelected =
     ''consumer profile was selected by a local operator for this ''
     @ ''request; this is not an authenticated consumer identity''"

datatype PremisePolicy = RequireAllEnforceable | AllowQualified

datatype ContradictionPolicy = RefuseOnRetained | Contradiction_AllowWithDisclosure

datatype ResidualPolicy = RefuseOnUnresolved | Residual_AllowWithDisclosure

record ConsumerProfile =
  cp_consumer_profile_id :: string
  cp_allowed_claims :: "string list"
  cp_allowed_purposes :: "string list"
  cp_accepted_custody_bases :: "string list"
  cp_max_evidence_age_s :: u64
  cp_premise_policy :: PremisePolicy
  cp_contradiction_policy :: ContradictionPolicy
  cp_residual_policy :: ResidualPolicy
  cp_required_supporting_claims :: "string list"

record ProfileCatalog =
  pcat_schema :: string
  pcat_policy_version :: string
  pcat_profiles :: "ConsumerProfile list"

definition ProfileCatalog_get :: "ProfileCatalog \<Rightarrow> string \<Rightarrow> ConsumerProfile option" where
  "ProfileCatalog_get catalog ident = find (\<lambda>p. cp_consumer_profile_id p = ident) (pcat_profiles catalog)"

fun duplicate_profile :: "string list \<Rightarrow> ConsumerProfile list \<Rightarrow> string + unit" where
  "duplicate_profile earlier [] = Inr ()"
| "duplicate_profile earlier (p # ps) =
     (if cp_consumer_profile_id p \<in> set earlier
      then Inl (''duplicate consumer profile '' @ debug_str (cp_consumer_profile_id p))
      else duplicate_profile (earlier @ [cp_consumer_profile_id p]) ps)"

definition ProfileCatalog_from_json_slice ::
  "(string \<Rightarrow> string + ProfileCatalog) \<Rightarrow> string \<Rightarrow> string + ProfileCatalog"
where
  "ProfileCatalog_from_json_slice from_slice bytes =
     res_bind (map_err (\<lambda>e. ''not a profile catalog: '' @ e) (from_slice bytes)) (\<lambda>catalog.
     res_bind (checks
       [refuse_if (pcat_schema catalog \<noteq> RELIANCE_PROFILES_SCHEMA)
          (''unsupported catalog schema '' @ debug_str (pcat_schema catalog) @ '', expected ''
             @ debug_str RELIANCE_PROFILES_SCHEMA),
        refuse_if (pcat_policy_version catalog = []) ''catalog policy_version must not be empty'',
        duplicate_profile [] (pcat_profiles catalog)])
     (\<lambda>_. Inr catalog))"

section \<open>Requests and evidence\<close>

record EvidenceContext =
  ec_coverage_limits :: "string list"
  ec_premises :: "string list"
  ec_unenforceable_premises :: "string list"
  ec_unresolved_residuals :: "string list"
  ec_retained_contradictions :: "string list"
  ec_evidence_age_s :: "u64 option"
  ec_supporting_evidence_age_s :: "u64 option"

definition evidence_context_json :: "EvidenceContext \<Rightarrow> json" where
  "evidence_context_json e = JObj
     ([(''coverage_limits'', JArr (map JStr (ec_coverage_limits e))),
       (''premises'', JArr (map JStr (ec_premises e))),
       (''unenforceable_premises'', JArr (map JStr (ec_unenforceable_premises e))),
       (''unresolved_residuals'', JArr (map JStr (ec_unresolved_residuals e))),
       (''retained_contradictions'', JArr (map JStr (ec_retained_contradictions e)))]
      @ opt_field ''evidence_age_s'' (\<lambda>w. json_word w) (ec_evidence_age_s e)
      @ opt_field ''supporting_evidence_age_s'' (\<lambda>w. json_word w) (ec_supporting_evidence_age_s e))"

definition EvidenceContext_digest :: "externals \<Rightarrow> EvidenceContext \<Rightarrow> string + string" where
  "EvidenceContext_digest ext e = digest_jcs ext (evidence_context_json e)"

record RelianceRequest =
  rq_schema :: string
  rq_consumer_profile_id :: string
  rq_caller_binding :: CallerBinding
  rq_purpose :: string
  rq_claim :: string
  rq_receipt_content_hash :: string
  rq_policy_version :: string
  rq_request_id :: string
  rq_supporting_receipt_hashes :: "string list"

definition reliance_request_json :: "RelianceRequest \<Rightarrow> json" where
  "reliance_request_json q = JObj
     ([(''schema'', JStr (rq_schema q)),
       (''consumer_profile_id'', JStr (rq_consumer_profile_id q)),
       (''caller_binding'', CallerBinding_json (rq_caller_binding q)),
       (''purpose'', JStr (rq_purpose q)),
       (''claim'', JStr (rq_claim q)),
       (''receipt_content_hash'', JStr (rq_receipt_content_hash q)),
       (''policy_version'', JStr (rq_policy_version q)),
       (''request_id'', JStr (rq_request_id q))]
      @ vec_field ''supporting_receipt_hashes'' JStr (rq_supporting_receipt_hashes q))"

definition RelianceRequest_digest :: "externals \<Rightarrow> RelianceRequest \<Rightarrow> string + string" where
  "RelianceRequest_digest ext q = digest_jcs ext (reliance_request_json q)"

datatype RelianceOutcome =
    RO_AuthorizedReliance
  | RO_ClaimNotVerified
  | RO_ClaimNonMintable
  | RO_ConsumerUnknown
  | RO_ClaimNotAuthorizedForConsumer
  | RO_PurposeNotAuthorized
  | RO_CoverageInsufficient
  | RO_PremiseNotAccepted
  | RO_ContradictionRetained
  | RO_ResidualObligationBlocks
  | RO_StaleEvidence
  | RO_CannotTestify
  | RO_CustodyBasisNotAccepted
  | RO_MalformedRequest

definition RelianceOutcome_is_authorized :: "RelianceOutcome \<Rightarrow> bool" where
  "RelianceOutcome_is_authorized x \<longleftrightarrow> x = RO_AuthorizedReliance"

record SupportingRef =
  sr_claim :: string
  sr_content_hash :: string
  sr_status :: Status
  sr_subject :: string

record RelianceReceipt =
  rl_schema :: string
  rl_decision_id :: string
  rl_request_digest :: string
  rl_evidence_context_digest :: string
  rl_consumer_profile_id :: string
  rl_caller_binding :: CallerBinding
  rl_caller_binding_disclosure :: string
  rl_purpose :: string
  rl_claim :: string
  rl_receipt_content_hash :: string
  rl_underlying_status :: Status
  rl_supporting_receipts :: "SupportingRef list"
  rl_witnesses :: "WitnessRef list"
  rl_premises :: "string list"
  rl_coverage_limits :: "string list"
  rl_unresolved_residuals :: "string list"
  rl_retained_contradictions :: "string list"
  rl_decision :: RelianceOutcome
  rl_refusal_reasons :: "string list"
  rl_establishes :: "string list"
  rl_does_not_establish :: "string list"
  rl_policy_version :: string
  rl_generated_at :: string

definition mandatory_does_not_establish :: "string list" where
  "mandatory_does_not_establish =
     [''this decision grants no execution authority'',
      ''this decision is operational evidence, not sealed custody'',
      ''this decision names no action and licenses no retry, clearing, or escalation'',
      ''a reliance refusal is not a refutation of the underlying claim'']"

section \<open>The conjuncts\<close>

type_synonym refusal = "RelianceOutcome \<times> string"

fun Status_debug :: "Status \<Rightarrow> string" where
  "Status_debug Verified = ''Verified''"
| "Status_debug PartiallyVerified = ''PartiallyVerified''"
| "Status_debug NeedsMoreEvidence = ''NeedsMoreEvidence''"
| "Status_debug NotVerified = ''NotVerified''"
| "Status_debug InvalidEvidence = ''InvalidEvidence''"

definition declines :: "EvaluationView \<Rightarrow> string \<Rightarrow> bool" where
  "declines view claim \<longleftrightarrow> list_ex (\<lambda>r. str_contains (cr_statement r) claim) (ev_cannot_testify view)"

definition request_conjuncts :: "RelianceRequest \<Rightarrow> EvaluationView \<Rightarrow> refusal + unit" where
  "request_conjuncts request receipt =
     checks
      [refuse_if (rq_schema request \<noteq> RELIANCE_REQUEST_SCHEMA)
         (RO_MalformedRequest, ''unsupported request schema '' @ debug_str (rq_schema request)
            @ '', expected '' @ debug_str RELIANCE_REQUEST_SCHEMA),
       (case ev_content_hash receipt of
          Some h \<Rightarrow>
            refuse_if (h \<noteq> rq_receipt_content_hash request)
              (RO_MalformedRequest, ''receipt content_hash '' @ debug_str h
                 @ '' does not match the requested '' @ debug_str (rq_receipt_content_hash request)
                 @ ''; evidence substituted under an unchanged decision identity'')
        | None \<Rightarrow>
            Inl (RO_MalformedRequest, ''receipt is unsealed (no content_hash); an unsealed receipt has ''
                 @ ''no stable identity to rely on''))]"

definition receipt_conjuncts ::
  "RelianceRequest \<Rightarrow> EvaluationView \<Rightarrow> EvidenceContext \<Rightarrow> ConsumerProfile \<Rightarrow> refusal + unit"
where
  "receipt_conjuncts request receipt evidence profile =
     checks
      [refuse_if (rq_claim request \<notin> set (cp_allowed_claims profile))
         (RO_ClaimNotAuthorizedForConsumer, ''profile '' @ debug_str (cp_consumer_profile_id profile)
            @ '' is not permitted to rely on claim '' @ debug_str (rq_claim request)),
       refuse_if (rq_purpose request \<notin> set (cp_allowed_purposes profile))
         (RO_PurposeNotAuthorized, ''profile '' @ debug_str (cp_consumer_profile_id profile)
            @ '' is not permitted the purpose '' @ debug_str (rq_purpose request)),
       refuse_if (declines receipt (rq_claim request))
         (RO_CannotTestify, ''the evaluator constitutionally declines to testify to ''
            @ debug_str (rq_claim request) @ ''; inability is not authorization''),
       refuse_if (NonMintable \<in> set (ev_status_reasons receipt))
         (RO_ClaimNonMintable, ''claim '' @ debug_str (rq_claim request)
            @ '' is non-mintable under current NQ law''),
       refuse_if (ev_status receipt \<noteq> Verified)
         (RO_ClaimNotVerified, ''underlying evaluation status is '' @ Status_debug (ev_status receipt)
            @ '', not verified; this is not permission to retry or proceed''),
       refuse_if ((ContradictoryObservation \<in> set (ev_status_reasons receipt)
                     \<or> ec_retained_contradictions evidence \<noteq> [])
                  \<and> cp_contradiction_policy profile = RefuseOnRetained)
         (RO_ContradictionRetained, ''a retained contradiction in the source testimony defeats ''
            @ ''reliance under this profile's contradiction policy''),
       for_each
         (\<lambda>w. let basis = (case wr_custody_basis w of None \<Rightarrow> ''undeclared'' | Some b \<Rightarrow> b) in
            refuse_if (basis \<notin> set (cp_accepted_custody_bases profile))
              (RO_CustodyBasisNotAccepted, ''witness custody basis '' @ debug_str basis
                 @ '' is outside profile '' @ debug_str (cp_consumer_profile_id profile)
                 @ [CHR 0x27] @ ''s accepted bases''))
         (ev_witnesses receipt)]"

definition binding_conjuncts :: "RelianceRequest \<Rightarrow> EvaluationView list \<Rightarrow> refusal + unit" where
  "binding_conjuncts request supporting =
     checks
      [for_each
         (\<lambda>s. case ev_content_hash s of
            None \<Rightarrow>
              Inl (RO_MalformedRequest, ''supporting receipt for claim '' @ debug_str (ev_claim s)
                 @ '' is unsealed (no content_hash); an unsealed evaluation has no stable ''
                 @ ''identity to support a decision'')
          | Some h \<Rightarrow>
              refuse_if (h \<notin> set (rq_supporting_receipt_hashes request))
                (RO_MalformedRequest, ''supporting receipt '' @ debug_str h @ '' (claim ''
                   @ debug_str (ev_claim s) @ '') is not bound by the request; evidence substituted ''
                   @ ''under an unchanged decision identity''))
         supporting,
       for_each
         (\<lambda>bound.
            refuse_if (\<not> list_ex (\<lambda>s. ev_content_hash s = Some bound) supporting)
              (RO_MalformedRequest, ''the request binds supporting receipt '' @ debug_str bound
                 @ '' but no such sealed evaluation was provided''))
         (rq_supporting_receipt_hashes request)]"

definition support_conjuncts :: "ConsumerProfile \<Rightarrow> string \<Rightarrow> EvaluationView \<Rightarrow> refusal + unit" where
  "support_conjuncts profile required s =
     checks
      [refuse_if (declines s required)
         (RO_CannotTestify, ''the evaluator constitutionally declines to testify to ''
            @ ''the required supporting claim '' @ debug_str required
            @ ''; inability is not authorization''),
       refuse_if (StaleObservation \<in> set (ev_status_reasons s))
         (RO_StaleEvidence, ''supporting evaluation of '' @ debug_str required @ '' is marked stale''),
       refuse_if (ContradictoryObservation \<in> set (ev_status_reasons s)
                  \<and> cp_contradiction_policy profile = RefuseOnRetained)
         (RO_ContradictionRetained, ''supporting evaluation of '' @ debug_str required
            @ '' retains a contradiction, which this profile's contradiction policy refuses''),
       refuse_if (ev_status s \<noteq> Verified)
         (RO_CoverageInsufficient, ''required supporting claim '' @ debug_str required @ '' is ''
            @ Status_debug (ev_status s) @ '', not verified; a supporting refusal is not the negation of ''
            @ ''the original claim, and it does not permit reliance now'')]"

definition required_conjuncts ::
  "EvaluationView \<Rightarrow> EvaluationView list \<Rightarrow> ConsumerProfile \<Rightarrow> string \<Rightarrow> refusal + unit"
where
  "required_conjuncts receipt supporting profile required =
     (let bound = filter (\<lambda>s. ev_claim s = required \<and> ev_subject s = ev_subject receipt) supporting in
      if bound = [] then
        Inl (RO_CoverageInsufficient, ''profile '' @ debug_str (cp_consumer_profile_id profile)
          @ '' requires a current supporting evaluation of claim '' @ debug_str required
          @ '' for subject '' @ debug_str (ev_subject receipt) @ '', and none is bound; ''
          @ ''absence of supporting testimony is not evidence either way'')
      else for_each (support_conjuncts profile required) bound)"

definition age_exceeds :: "u64 option \<Rightarrow> ConsumerProfile \<Rightarrow> bool" where
  "age_exceeds age profile = (case age of None \<Rightarrow> False | Some a \<Rightarrow> cp_max_evidence_age_s profile < a)"

definition evidence_conjuncts ::
  "EvaluationView \<Rightarrow> EvidenceContext \<Rightarrow> ConsumerProfile \<Rightarrow> refusal + unit"
where
  "evidence_conjuncts receipt evidence profile =
     (let age_text = (\<lambda>age. case age of None \<Rightarrow> [] | Some a \<Rightarrow> show_word a) in
      checks
      [refuse_if (cp_required_supporting_claims profile \<noteq> []
                  \<and> age_exceeds (ec_supporting_evidence_age_s evidence) profile)
         (RO_StaleEvidence, ''supporting evidence is ''
            @ age_text (ec_supporting_evidence_age_s evidence) @ ''s old, beyond profile ''
            @ debug_str (cp_consumer_profile_id profile) @ [CHR 0x27] @ ''s maximum of ''
            @ show_word (cp_max_evidence_age_s profile)
            @ ''s; a current requirement needs current testimony''),
       refuse_if (cp_premise_policy profile = RequireAllEnforceable
                  \<and> ec_unenforceable_premises evidence \<noteq> [])
         (RO_PremiseNotAccepted, show_nat (length (ec_unenforceable_premises evidence))
            @ '' premise(s) are recorded but not enforceable as coverage ''
            @ ''limits, which this profile does not accept''),
       refuse_if (ec_unresolved_residuals evidence \<noteq> []
                  \<and> cp_residual_policy profile = RefuseOnUnresolved)
         (RO_ResidualObligationBlocks, show_nat (length (ec_unresolved_residuals evidence))
            @ '' unresolved residual obligation(s) block reliance for this consumer and purpose''),
       refuse_if (StaleObservation \<in> set (ev_status_reasons receipt))
         (RO_StaleEvidence, ''the evaluator marked the observation stale''),
       refuse_if (age_exceeds (ec_evidence_age_s evidence) profile)
         (RO_StaleEvidence, ''evidence is '' @ age_text (ec_evidence_age_s evidence)
            @ ''s old, beyond profile '' @ debug_str (cp_consumer_profile_id profile)
            @ [CHR 0x27] @ ''s maximum of '' @ show_word (cp_max_evidence_age_s profile) @ ''s''),
       refuse_if (MissingRequiredClaim \<in> set (ev_status_reasons receipt))
         (RO_CoverageInsufficient, ''coverage is insufficient for the requested claim'')])"

definition reliance_conjuncts ::
  "RelianceRequest \<Rightarrow> EvaluationView \<Rightarrow> EvaluationView list \<Rightarrow> EvidenceContext \<Rightarrow> ProfileCatalog \<Rightarrow> refusal + unit"
where
  "reliance_conjuncts request receipt supporting evidence catalog =
     res_bind (request_conjuncts request receipt) (\<lambda>_.
     case ProfileCatalog_get catalog (rq_consumer_profile_id request) of
       None \<Rightarrow>
         Inl (RO_ConsumerUnknown, ''no consumer profile '' @ debug_str (rq_consumer_profile_id request)
            @ '' in policy version '' @ debug_str (pcat_policy_version catalog))
     | Some profile \<Rightarrow>
         checks
          [receipt_conjuncts request receipt evidence profile,
           binding_conjuncts request supporting,
           for_each (required_conjuncts receipt supporting profile) (cp_required_supporting_claims profile),
           evidence_conjuncts receipt evidence profile])"

definition reliance_evaluate ::
  "RelianceRequest \<Rightarrow> EvaluationView \<Rightarrow> EvaluationView list \<Rightarrow> EvidenceContext \<Rightarrow> ProfileCatalog
     \<Rightarrow> RelianceOutcome \<times> string list"
where
  "reliance_evaluate request receipt supporting evidence catalog =
     (case reliance_conjuncts request receipt supporting evidence catalog of
        Inl (refused, message) \<Rightarrow> (refused, [message])
      | Inr _ \<Rightarrow> (RO_AuthorizedReliance, []))"

section \<open>Decisions\<close>

definition supporting_ref :: "EvaluationView \<Rightarrow> SupportingRef" where
  "supporting_ref s =
     \<lparr>sr_claim = ev_claim s,
      sr_content_hash = (case ev_content_hash s of None \<Rightarrow> [] | Some h \<Rightarrow> h),
      sr_status = ev_status s, sr_subject = ev_subject s\<rparr>"

definition reliance_decide ::
  "externals \<Rightarrow> ('r \<Rightarrow> EvaluationView) \<Rightarrow> RelianceRequest \<Rightarrow> 'r \<Rightarrow> 'r list \<Rightarrow> EvidenceContext \<Rightarrow> ProfileCatalog
     \<Rightarrow> string \<Rightarrow> string + RelianceReceipt"
where
  "reliance_decide ext view_of request receipt supporting evidence catalog generated_at =
     (let receipt = view_of receipt;
          supporting = map view_of supporting
      in
      res_bind (RelianceRequest_digest ext request) (\<lambda>request_digest.
      res_bind (EvidenceContext_digest ext evidence) (\<lambda>evidence_context_digest.
      let (decision, refusals) = reliance_evaluate request receipt supporting evidence catalog;
          establishes =
            (if RelianceOutcome_is_authorized decision
             then [''consumer profile '' @ debug_str (rq_consumer_profile_id request)
                   @ '' may rely on claim '' @ debug_str (rq_claim request) @ '' for purpose ''
                   @ debug_str (rq_purpose request)
                   @ '', under the coverage limits and premises recorded here'']
             else []);
          does_not_establish =
            mandatory_does_not_establish
            @ (if ec_unresolved_residuals evidence \<noteq> []
               then [''residual obligations recorded here remain undischarged; this ''
                     @ ''decision discharges none of them''] else [])
            @ (if ec_retained_contradictions evidence \<noteq> []
               then [''a retained contradiction in the source testimony is preserved ''
                     @ ''here and is not resolved by this decision''] else [])
      in Inr
        \<lparr>rl_schema = RELIANCE_RECEIPT_SCHEMA, rl_decision_id = request_digest,
         rl_request_digest = request_digest, rl_evidence_context_digest = evidence_context_digest,
         rl_consumer_profile_id = rq_consumer_profile_id request,
         rl_caller_binding = rq_caller_binding request,
         rl_caller_binding_disclosure = CallerBinding_disclosure (rq_caller_binding request),
         rl_purpose = rq_purpose request, rl_claim = rq_claim request,
         rl_receipt_content_hash = rq_receipt_content_hash request,
         rl_underlying_status = ev_status receipt,
         rl_supporting_receipts = map supporting_ref supporting,
         rl_witnesses = ev_witnesses receipt, rl_premises = ec_premises evidence,
         rl_coverage_limits = ec_coverage_limits evidence,
         rl_unresolved_residuals = ec_unresolved_residuals evidence,
         rl_retained_contradictions = ec_retained_contradictions evidence,
         rl_decision = decision, rl_refusal_reasons = refusals, rl_establishes = establishes,
         rl_does_not_establish = does_not_establish,
         rl_policy_version = pcat_policy_version catalog, rl_generated_at = generated_at\<rparr>)))"

section \<open>When reliance is authorised\<close>

text \<open>
  The conjuncts as one condition: what the profile permits, what the sealed receipt says of
  itself, what the bound supporting evaluations say, and what the evidence context discloses.
\<close>

definition profile_permits :: "ConsumerProfile \<Rightarrow> RelianceRequest \<Rightarrow> bool" where
  "profile_permits profile request \<longleftrightarrow>
     rq_claim request \<in> set (cp_allowed_claims profile) \<and> rq_purpose request \<in> set (cp_allowed_purposes profile)"

definition tolerates_contradiction :: "ConsumerProfile \<Rightarrow> EvaluationView \<Rightarrow> bool" where
  "tolerates_contradiction profile view \<longleftrightarrow>
     (ContradictoryObservation \<in> set (ev_status_reasons view) \<longrightarrow> cp_contradiction_policy profile \<noteq> RefuseOnRetained)"

definition receipt_stands :: "ConsumerProfile \<Rightarrow> RelianceRequest \<Rightarrow> EvaluationView \<Rightarrow> bool" where
  "receipt_stands profile request receipt \<longleftrightarrow>
     ev_status receipt = Verified \<and> \<not> declines receipt (rq_claim request)
     \<and> set (ev_status_reasons receipt) \<inter> {NonMintable, StaleObservation, MissingRequiredClaim} = {}
     \<and> tolerates_contradiction profile receipt
     \<and> (\<forall>w \<in> set (ev_witnesses receipt).
          (case wr_custody_basis w of None \<Rightarrow> ''undeclared'' | Some b \<Rightarrow> b) \<in> set (cp_accepted_custody_bases profile))"

definition support_bound :: "RelianceRequest \<Rightarrow> EvaluationView list \<Rightarrow> bool" where
  "support_bound request supporting \<longleftrightarrow>
     Some ` set (rq_supporting_receipt_hashes request) = ev_content_hash ` set supporting"

definition support_stands :: "ConsumerProfile \<Rightarrow> string \<Rightarrow> EvaluationView \<Rightarrow> bool" where
  "support_stands profile required s \<longleftrightarrow>
     ev_status s = Verified \<and> \<not> declines s required \<and> StaleObservation \<notin> set (ev_status_reasons s)
     \<and> tolerates_contradiction profile s"

definition support_sufficient ::
  "ConsumerProfile \<Rightarrow> EvaluationView \<Rightarrow> EvaluationView list \<Rightarrow> bool"
where
  "support_sufficient profile receipt supporting \<longleftrightarrow>
     (\<forall>required \<in> set (cp_required_supporting_claims profile).
        let bound = {s \<in> set supporting. ev_claim s = required \<and> ev_subject s = ev_subject receipt} in
        bound \<noteq> {} \<and> (\<forall>s \<in> bound. support_stands profile required s))"

definition evidence_acceptable :: "ConsumerProfile \<Rightarrow> EvidenceContext \<Rightarrow> bool" where
  "evidence_acceptable profile evidence \<longleftrightarrow>
     (cp_required_supporting_claims profile = [] \<or> \<not> age_exceeds (ec_supporting_evidence_age_s evidence) profile)
     \<and> \<not> age_exceeds (ec_evidence_age_s evidence) profile
     \<and> (cp_premise_policy profile = RequireAllEnforceable \<longrightarrow> ec_unenforceable_premises evidence = [])
     \<and> (cp_residual_policy profile = RefuseOnUnresolved \<longrightarrow> ec_unresolved_residuals evidence = [])
     \<and> (cp_contradiction_policy profile = RefuseOnRetained \<longrightarrow> ec_retained_contradictions evidence = [])"

definition may_rely ::
  "RelianceRequest \<Rightarrow> EvaluationView \<Rightarrow> EvaluationView list \<Rightarrow> EvidenceContext \<Rightarrow> ProfileCatalog \<Rightarrow> bool"
where
  "may_rely request receipt supporting evidence catalog \<longleftrightarrow>
     rq_schema request = RELIANCE_REQUEST_SCHEMA
     \<and> ev_content_hash receipt = Some (rq_receipt_content_hash request)
     \<and> (case ProfileCatalog_get catalog (rq_consumer_profile_id request) of
          None \<Rightarrow> False
        | Some profile \<Rightarrow>
            profile_permits profile request \<and> receipt_stands profile request receipt
            \<and> support_bound request supporting \<and> support_sufficient profile receipt supporting
            \<and> evidence_acceptable profile evidence)"

lemma request_conjuncts_ok [res_ok]:
  "request_conjuncts request receipt = Inr () \<longleftrightarrow>
     rq_schema request = RELIANCE_REQUEST_SCHEMA
     \<and> ev_content_hash receipt = Some (rq_receipt_content_hash request)"
  by (auto simp: request_conjuncts_def res_ok split: option.split)

lemma support_conjuncts_ok [res_ok]: "support_conjuncts profile required s = Inr () \<longleftrightarrow> support_stands profile required s"
  by (auto simp: support_conjuncts_def support_stands_def tolerates_contradiction_def res_ok)

lemma required_conjuncts_ok:
  "for_each (required_conjuncts receipt supporting profile) (cp_required_supporting_claims profile) = Inr ()
     \<longleftrightarrow> support_sufficient profile receipt supporting"
  by (auto simp: required_conjuncts_def support_sufficient_def Let_def res_ok filter_empty_conv split: if_splits)

lemma binding_conjuncts_ok [res_ok]: "binding_conjuncts request supporting = Inr () \<longleftrightarrow> support_bound request supporting"
  by (auto simp: binding_conjuncts_def support_bound_def res_ok list_ex_iff image_iff set_eq_iff split: option.split) metis+

lemma receipt_evidence_conjuncts_ok:
  "receipt_conjuncts request receipt evidence profile = Inr () \<and> evidence_conjuncts receipt evidence profile = Inr ()
     \<longleftrightarrow> profile_permits profile request \<and> receipt_stands profile request receipt \<and> evidence_acceptable profile evidence"
  unfolding receipt_conjuncts_def evidence_conjuncts_def profile_permits_def receipt_stands_def
    evidence_acceptable_def tolerates_contradiction_def Let_def checks_ok
  by (simp add: res_ok) blast

lemma reliance_conjuncts_ok:
  "reliance_conjuncts request receipt supporting evidence catalog = Inr () \<longleftrightarrow>
     may_rely request receipt supporting evidence catalog"
proof (cases "ProfileCatalog_get catalog (rq_consumer_profile_id request)")
  case (Some profile)
  then show ?thesis
    using receipt_evidence_conjuncts_ok [of request receipt evidence profile]
      required_conjuncts_ok [of receipt supporting profile]
    by (auto simp: reliance_conjuncts_def may_rely_def res_ok)
qed (simp add: reliance_conjuncts_def may_rely_def res_bind_Inr_iff)


text \<open>
  Which outcomes a group of conjuncts can refuse with: none of them refuses with an
  authorisation, and only \<open>declines\<close> refuses with \<open>CannotTestify\<close>.
\<close>

definition avoids :: "RelianceOutcome \<Rightarrow> refusal + unit \<Rightarrow> bool" where
  "avoids x r \<longleftrightarrow> (case r of Inl (y, _) \<Rightarrow> y \<noteq> x | Inr _ \<Rightarrow> True)"

lemma avoids_simps [simp]:
  "avoids x (Inl (y, m)) \<longleftrightarrow> y \<noteq> x" "avoids x (Inr u)"
  "avoids x (refuse_if b (y, m)) \<longleftrightarrow> b \<longrightarrow> y \<noteq> x"
  by (simp_all add: avoids_def refuse_if_def)

lemma avoids_checks: "\<forall>c \<in> set cs. avoids x c \<Longrightarrow> avoids x (checks cs)"
  by (induction cs) (auto simp: checks.simps split: sum.split)

lemma avoids_for_each: "(\<And>y. avoids x (f y)) \<Longrightarrow> avoids x (for_each f ys)"
proof (induction ys)
  case (Cons y ys)
  have "avoids x (f y)" by (rule Cons.prems)
  with Cons.IH [OF Cons.prems] show ?case by (cases "f y") (simp_all add: for_each.simps)
qed (simp add: for_each.simps)

lemma conjuncts_avoid:
  assumes "x = RO_AuthorizedReliance
    \<or> x = RO_CannotTestify \<and> \<not> declines receipt (rq_claim request) \<and> supporting = []"
  shows "avoids x (reliance_conjuncts request receipt supporting evidence catalog)"
proof -
  have q: "avoids x (request_conjuncts request receipt)"
    unfolding request_conjuncts_def using assms by (intro avoids_checks) (auto split: option.split)
  have a: "avoids x (receipt_conjuncts request receipt evidence p)" for p
    unfolding receipt_conjuncts_def using assms by (intro avoids_checks) (auto intro!: avoids_for_each simp: Let_def)
  have b: "avoids x (binding_conjuncts request supporting)"
    unfolding binding_conjuncts_def using assms
    by (intro avoids_checks) (auto intro!: avoids_for_each split: option.split)
  have "avoids RO_AuthorizedReliance (support_conjuncts p d s)" for p d s
    unfolding support_conjuncts_def by (rule avoids_checks) simp
  then have c: "avoids x (required_conjuncts receipt supporting p d)" for p d
    using assms by (auto simp: required_conjuncts_def Let_def intro: avoids_for_each)
  have d: "avoids x (evidence_conjuncts receipt evidence p)" for p
    unfolding evidence_conjuncts_def Let_def using assms by (intro avoids_checks) auto
  have "avoids x (checks [receipt_conjuncts request receipt evidence p, binding_conjuncts request supporting,
      for_each (required_conjuncts receipt supporting p) (cp_required_supporting_claims p),
      evidence_conjuncts receipt evidence p])" for p
    using a b c d by (intro avoids_checks) (auto intro: avoids_for_each)
  with q assms show ?thesis
    by (cases "request_conjuncts request receipt") (auto simp: reliance_conjuncts_def split: option.split)
qed

lemma evaluate_avoids:
  assumes "\<not> declines receipt (rq_claim request)"
  shows "fst (reliance_evaluate request receipt [] evidence catalog) \<noteq> RO_CannotTestify"
  using conjuncts_avoid [of RO_CannotTestify receipt request "[]" evidence catalog] assms
  by (auto simp: reliance_evaluate_def avoids_def split: sum.splits prod.splits)

lemma reliance_evaluate_cases:
  "(may_rely request receipt supporting evidence catalog
      \<and> reliance_evaluate request receipt supporting evidence catalog = (RO_AuthorizedReliance, []))
   \<or> (\<not> may_rely request receipt supporting evidence catalog
      \<and> (\<exists>x m. x \<noteq> RO_AuthorizedReliance
            \<and> reliance_evaluate request receipt supporting evidence catalog = (x, [m])))"
proof (cases "reliance_conjuncts request receipt supporting evidence catalog")
  case (Inl e)
  obtain x m where "e = (x, m)" by (cases e)
  with Inl conjuncts_avoid [of RO_AuthorizedReliance receipt request supporting evidence catalog]
    reliance_conjuncts_ok [of request receipt supporting evidence catalog]
  show ?thesis by (auto simp: reliance_evaluate_def)
next
  case (Inr u)
  with reliance_conjuncts_ok [of request receipt supporting evidence catalog]
  show ?thesis by (simp add: reliance_evaluate_def)
qed

text \<open>Of the receipt relied on, no conjunct reads the claim.\<close>

lemma receipt_claim_unread:
  "request_conjuncts q (v\<lparr>ev_claim := c\<rparr>) = request_conjuncts q v"
  "receipt_conjuncts q (v\<lparr>ev_claim := c\<rparr>) e p = receipt_conjuncts q v e p"
  "required_conjuncts (v\<lparr>ev_claim := c\<rparr>) ss p = required_conjuncts v ss p"
  "evidence_conjuncts (v\<lparr>ev_claim := c\<rparr>) e p = evidence_conjuncts v e p"
  by (simp_all add: request_conjuncts_def receipt_conjuncts_def required_conjuncts_def [abs_def]
      evidence_conjuncts_def declines_def Let_def cong: if_cong)

section \<open>Catalogues and identities\<close>

lemma duplicate_profile_ok [res_ok]:
  "duplicate_profile earlier ps = Inr () \<longleftrightarrow>
     distinct (map cp_consumer_profile_id ps) \<and> set earlier \<inter> cp_consumer_profile_id ` set ps = {}"
  by (induction ps arbitrary: earlier) auto

lemma from_json_slice_ok:
  "ProfileCatalog_from_json_slice from_slice bytes = Inr catalog \<longleftrightarrow>
     from_slice bytes = Inr catalog \<and> pcat_schema catalog = RELIANCE_PROFILES_SCHEMA
     \<and> pcat_policy_version catalog \<noteq> [] \<and> distinct (map cp_consumer_profile_id (pcat_profiles catalog))"
  by (auto simp: ProfileCatalog_from_json_slice_def res_ok)

lemma loaded_catalog_get:
  assumes "ProfileCatalog_from_json_slice from_slice bytes = Inr catalog"
  shows "ProfileCatalog_get catalog ident = Some p \<longleftrightarrow>
     p \<in> set (pcat_profiles catalog) \<and> cp_consumer_profile_id p = ident"
proof -
  from assms have d: "distinct (map cp_consumer_profile_id (pcat_profiles catalog))"
    by (simp add: from_json_slice_ok)
  have "find (\<lambda>p. cp_consumer_profile_id p = ident) ps = Some p \<longleftrightarrow> p \<in> set ps \<and> cp_consumer_profile_id p = ident"
    if "distinct (map cp_consumer_profile_id ps)" for ps
    using that by (induction ps) auto
  from this [OF d] show ?thesis by (simp add: ProfileCatalog_get_def)
qed

lemma CallerBinding_json_eq [simp]: "CallerBinding_json a = CallerBinding_json b \<longleftrightarrow> a = b"
  by (cases a; cases b) simp_all

lemma reliance_request_json_inject: "reliance_request_json q = reliance_request_json q' \<longleftrightarrow> q = q'"
  by (cases q; cases q') (auto simp: reliance_request_json_def vec_field_def split: if_splits)

lemma evidence_context_json_inject: "evidence_context_json e = evidence_context_json e' \<longleftrightarrow> e = e'"
proof
  assume eq: "evidence_context_json e = evidence_context_json e'"
  have f: "json_field (evidence_context_json e) n = json_field (evidence_context_json e') n" for n
    using eq by simp
  show "e = e'"
    using f [of "''coverage_limits''"] f [of "''premises''"] f [of "''unenforceable_premises''"]
      f [of "''unresolved_residuals''"] f [of "''retained_contradictions''"]
      f [of "''evidence_age_s''"] f [of "''supporting_evidence_age_s''"]
    by (cases e; cases e') (auto simp: evidence_context_json_def map_add_def split: option.splits)
qed simp

interpretation reliance_request: content_addressed reliance_request_json
  by unfold_locales (simp add: reliance_request_json_inject)

interpretation evidence_context: content_addressed evidence_context_json
  by unfold_locales (simp add: evidence_context_json_inject)

lemma decide_ok:
  "reliance_decide ext view_of request receipt supporting evidence catalog t = Inr d \<Longrightarrow>
     RelianceRequest_digest ext request = Inr (rl_decision_id d)
     \<and> EvidenceContext_digest ext evidence = Inr (rl_evidence_context_digest d)
     \<and> (rl_decision d, rl_refusal_reasons d) =
         reliance_evaluate request (view_of receipt) (map view_of supporting) evidence catalog
     \<and> (rl_establishes d \<noteq> [] \<longleftrightarrow> rl_decision d = RO_AuthorizedReliance)
     \<and> set mandatory_does_not_establish \<subseteq> set (rl_does_not_establish d)
     \<and> rl_underlying_status d = ev_status (view_of receipt)
     \<and> rl_receipt_content_hash d = rq_receipt_content_hash request \<and> rl_claim d = rq_claim request"
  by (cases "reliance_evaluate request (view_of receipt) (map view_of supporting) evidence catalog")
    (auto simp: reliance_decide_def Let_def res_ok RelianceOutcome_is_authorized_def split: if_splits)

lemma decide_total:
  "jcs_total ext \<Longrightarrow> \<exists>d. reliance_decide ext view_of request receipt supporting evidence catalog t = Inr d"
  using digest_jcs_total [of ext "reliance_request_json request"] digest_jcs_total [of ext "evidence_context_json evidence"]
  by (cases "reliance_evaluate request (view_of receipt) (map view_of supporting) evidence catalog")
    (auto simp: reliance_decide_def RelianceRequest_digest_def EvidenceContext_digest_def Let_def)

section \<open>Constitutional refusals\<close>

lemma own_claim_not_named:
  "\<not> list_ex (\<lambda>r. str_contains (cr_statement r) (ClaimKind_as_str kind)) (snd (constitutional_refusals kind))"
  by (cases kind; hypsubst; code_simp)

lemma preflight_not_declined:
  assumes "pr_cannot_testify pr = snd (constitutional_refusals (pr_claim_kind pr))"
  shows "\<not> declines (evaluation_view (Receipt_from_preflight ext pr)) (ClaimKind_as_str (pr_claim_kind pr))"
  using own_claim_not_named [of "pr_claim_kind pr"] assms
  by (simp add: declines_def evaluation_view_def preflight_receipt_fields)

section \<open>Properties\<close>

text \<open>
  C9: the ordered conjuncts authorise a reliance exactly when all of them hold together: the
  sealed receipt is the one the request names, the consumer's profile permits claim and purpose,
  the receipt is verified and not defeated by a refusal, a staleness or a contradiction, its
  witnesses have an accepted custody basis, the supporting evaluations are exactly those the
  request binds and stand for every claim the profile requires, and the evidence context
  discloses nothing the profile refuses. An authorisation carries no reason and a refusal exactly
  one: the comment in \<open>evaluate\<close> announces that all reasons are disclosed, and the code diverges
  from it by returning at the first.
\<close>

theorem reliance_authorised_iff:
  "(fst (reliance_evaluate request receipt supporting evidence catalog) = RO_AuthorizedReliance
      \<longleftrightarrow> may_rely request receipt supporting evidence catalog)
   \<and> length (snd (reliance_evaluate request receipt supporting evidence catalog))
      = (if may_rely request receipt supporting evidence catalog then 0 else 1)"
  using reliance_evaluate_cases [of request receipt supporting evidence catalog] by auto

text \<open>
  A decision is always reached and recorded: its identity is the digest of the request, it
  establishes something exactly when the reliance is authorised, it reports the status of the
  underlying evaluation whatever it decides, and it always disclaims execution authority,
  custody, action and refutation. Canonicalisation is total.
\<close>

theorem decision_is_recorded:
  assumes "jcs_total ext"
  shows "\<exists>d. reliance_decide ext view_of request receipt supporting evidence catalog t = Inr d
    \<and> RelianceRequest_digest ext request = Inr (rl_decision_id d)
    \<and> (rl_decision d = RO_AuthorizedReliance
         \<longleftrightarrow> may_rely request (view_of receipt) (map view_of supporting) evidence catalog)
    \<and> (rl_establishes d \<noteq> [] \<longleftrightarrow> rl_decision d = RO_AuthorizedReliance)
    \<and> (rl_refusal_reasons d = [] \<longleftrightarrow> rl_decision d = RO_AuthorizedReliance)
    \<and> rl_underlying_status d = ev_status (view_of receipt)
    \<and> set mandatory_does_not_establish \<subseteq> set (rl_does_not_establish d)"
proof -
  obtain d where d: "reliance_decide ext view_of request receipt supporting evidence catalog t = Inr d"
    using decide_total [OF assms, of view_of request receipt supporting evidence catalog t] by blast
  note decide_ok [OF d] reliance_evaluate_cases [of request "view_of receipt" "map view_of supporting" evidence catalog]
  then show ?thesis by (intro exI [of _ d]) (auto simp: d)
qed

text \<open>
  The identity of a decision names its request and the bound evidence context: short of a
  collision, two decisions with the same identity and the same context digest come from the
  same request and the same context.
\<close>

theorem decision_identity:
  assumes "reliance_decide ext view_of q r ss e c t = Inr d"
    and "reliance_decide ext view_of' q' r' ss' e' c' t' = Inr d'"
    and "rl_decision_id d = rl_decision_id d'"
    and "rl_evidence_context_digest d = rl_evidence_context_digest d'"
    and "no_collision ext (reliance_request_json q) (reliance_request_json q')"
    and "no_collision ext (evidence_context_json e) (evidence_context_json e')"
  shows "q = q' \<and> e = e'"
  using decide_ok [OF assms(1)] decide_ok [OF assms(2)] assms(3-6)
  by (auto simp: RelianceRequest_digest_def EvidenceContext_digest_def
      intro: reliance_request.digest_identifies evidence_context.digest_identifies)

text \<open>
  A receipt converted from a preflight result that carries the refusals of its claim kind is
  never refused as \<open>CannotTestify\<close> when it is relied on for its own claim without supporting
  evaluations: the statements are prose, none of them contains the name of its claim kind, and
  the conjunct looks for that name.
\<close>

theorem own_claim_never_declined:
  assumes "pr_cannot_testify pr = snd (constitutional_refusals (pr_claim_kind pr))"
    and "rq_claim request = rcp_claim (Receipt_from_preflight ext pr)"
  shows "fst (reliance_evaluate request (evaluation_view (Receipt_from_preflight ext pr)) [] evidence catalog)
    \<noteq> RO_CannotTestify"
  by (rule evaluate_avoids) (use assms preflight_not_declined [OF assms(1)] in \<open>simp add: preflight_receipt_fields\<close>)

section \<open>A concrete decision\<close>

definition demo_consumer :: ConsumerProfile where
  "demo_consumer = \<lparr>cp_consumer_profile_id = ''reviewer'',
     cp_allowed_claims = [''tests_passed'', ''docket_attempt_settled''],
     cp_allowed_purposes = [''review''], cp_accepted_custody_bases = [''native_observation''],
     cp_max_evidence_age_s = 900, cp_premise_policy = RequireAllEnforceable,
     cp_contradiction_policy = RefuseOnRetained, cp_residual_policy = RefuseOnUnresolved,
     cp_required_supporting_claims = []\<rparr>"

definition demo_profiles :: ProfileCatalog where
  "demo_profiles = \<lparr>pcat_schema = ''nq.reliance.profiles.v1'', pcat_policy_version = ''v1'',
     pcat_profiles = [demo_consumer]\<rparr>"

definition demo_context :: EvidenceContext where
  "demo_context = \<lparr>ec_coverage_limits = [], ec_premises = [], ec_unenforceable_premises = [],
     ec_unresolved_residuals = [], ec_retained_contradictions = [], ec_evidence_age_s = Some 60,
     ec_supporting_evidence_age_s = None\<rparr>"

definition demo_request :: "string \<Rightarrow> string \<Rightarrow> RelianceRequest" where
  "demo_request claim hash = \<lparr>rq_schema = ''nq.reliance.request.v1'', rq_consumer_profile_id = ''reviewer'',
     rq_caller_binding = Configured, rq_purpose = ''review'', rq_claim = claim,
     rq_receipt_content_hash = hash, rq_policy_version = ''v1'', rq_request_id = ''req-1'',
     rq_supporting_receipt_hashes = []\<rparr>"

lemma demo_may_rely:
  assumes "claim = ''tests_passed'' \<or> claim = ''docket_attempt_settled''"
    and "ev_content_hash view = Some hash" "ev_status view = Verified"
    "set (ev_status_reasons view) \<subseteq> {AllRequirementsVerified}" "ev_cannot_testify view = []"
    "\<forall>w \<in> set (ev_witnesses view). wr_custody_basis w = Some ''native_observation''"
  shows "may_rely (demo_request claim hash) view [] demo_context demo_profiles"
  using assms
  by (auto simp: may_rely_def demo_request_def demo_profiles_def demo_consumer_def demo_context_def
      ProfileCatalog_get_def RELIANCE_REQUEST_SCHEMA_def profile_permits_def receipt_stands_def declines_def
      tolerates_contradiction_def support_bound_def support_sufficient_def evidence_acceptable_def age_exceeds_def)

definition demo_view :: EvaluationView where
  "demo_view = \<lparr>ev_claim = ''tests_passed'', ev_subject = ''repo'', ev_status = Verified,
     ev_status_reasons = [AllRequirementsVerified], ev_cannot_testify = [], ev_witnesses = [],
     ev_content_hash = Some ''h''\<rparr>"

theorem decision_is_recorded_witness:
  "\<exists>d. reliance_decide demo_ext (\<lambda>v. v) (demo_request ''tests_passed'' ''h'') demo_view [] demo_context demo_profiles ''2026Z'' = Inr d
     \<and> rl_decision d = RO_AuthorizedReliance \<and> rl_refusal_reasons d = [] \<and> rl_establishes d \<noteq> []"
proof -
  have "may_rely (demo_request ''tests_passed'' ''h'') demo_view [] demo_context demo_profiles"
    by (rule demo_may_rely) (simp_all add: demo_view_def)
  then show ?thesis
    using decision_is_recorded [OF demo_ext_total, of "\<lambda>v. v" "demo_request ''tests_passed'' ''h''" demo_view "[]"
        demo_context demo_profiles "''2026Z''"] by auto
qed

theorem decision_identity_witness:
  "\<exists>d d'. reliance_decide demo_ext (\<lambda>v. v) (demo_request ''tests_passed'' ''h'') demo_view [] demo_context demo_profiles ''2026Z'' = Inr d
     \<and> reliance_decide demo_ext (\<lambda>v. v) (demo_request ''tests_passed'' ''h'') demo_view [] demo_context demo_profiles ''2027Z'' = Inr d'
     \<and> rl_decision_id d = rl_decision_id d'
     \<and> demo_request ''tests_passed'' ''h'' = demo_request ''tests_passed'' ''h'' \<and> demo_context = demo_context"
proof -
  let ?dec = "reliance_decide demo_ext (\<lambda>v. v) (demo_request ''tests_passed'' ''h'') demo_view [] demo_context demo_profiles"
  obtain d where d: "?dec ''2026Z'' = Inr d"
    using decide_total [OF demo_ext_total, of "\<lambda>v. v" _ demo_view "[]"] by blast
  obtain d' where d': "?dec ''2027Z'' = Inr d'"
    using decide_total [OF demo_ext_total, of "\<lambda>v. v" _ demo_view "[]"] by blast
  from decide_ok [OF d] decide_ok [OF d'] have eq: "rl_decision_id d = rl_decision_id d'"
    "rl_evidence_context_digest d = rl_evidence_context_digest d'" by auto
  from decision_identity [OF d d' eq no_collision_refl no_collision_refl] d d' eq show ?thesis by blast
qed

theorem own_claim_never_declined_witness:
  "fst (reliance_evaluate (demo_request ''nq_evaluator_state'' ''h'')
      (evaluation_view (Receipt_from_preflight demo_ext (PreflightResult_skeleton NqEvaluatorState
        \<lparr>pt_host = ''host'', pt_scope = ''host'', pt_id = None\<rparr> ''2026Z''))) [] demo_context demo_profiles)
    \<noteq> RO_CannotTestify"
  by (rule own_claim_never_declined)
    (simp_all add: PreflightResult_skeleton_def demo_request_def preflight_receipt_fields)

end
