(* ===== verification/Store.thy ===== *)
theory Store
  imports Prelude
begin

text \<open>
  The finding store (\<open>crates/nq-db\<close>): the findings a detector emits
  (\<open>src/detect.rs\<close>) and the rows of the tables the lifecycle engine, the operator actions
  and the report inquiry read and write (\<open>migrations/\<close>), at the types the code reads them.
  Columns that form one envelope are grouped in a record of their own; columns that no modelled
  statement touches are left out. A \<open>REAL\<close> is the bit pattern of its \<open>f64\<close>; an \<open>INTEGER\<close>
  is an integer.
\<close>

section \<open>Vocabularies of a finding\<close>

datatype FailureClass =
    FC_Availability | FC_Accumulation | FC_Pressure | FC_Saturation | FC_Exhaustion
  | FC_Drift | FC_Stuckness | FC_Silence | FC_Flapping | FC_Unspecified

fun FailureClass_as_str :: "FailureClass \<Rightarrow> string" where
  "FailureClass_as_str FC_Availability = ''availability''"
| "FailureClass_as_str FC_Accumulation = ''accumulation''"
| "FailureClass_as_str FC_Pressure = ''pressure''"
| "FailureClass_as_str FC_Saturation = ''saturation''"
| "FailureClass_as_str FC_Exhaustion = ''exhaustion''"
| "FailureClass_as_str FC_Drift = ''drift''"
| "FailureClass_as_str FC_Stuckness = ''stuckness''"
| "FailureClass_as_str FC_Silence = ''silence''"
| "FailureClass_as_str FC_Flapping = ''flapping''"
| "FailureClass_as_str FC_Unspecified = ''unspecified''"

datatype ServiceImpact = SI_NoneCurrent | SI_Degraded | SI_ImmediateRisk

fun ServiceImpact_as_str :: "ServiceImpact \<Rightarrow> string" where
  "ServiceImpact_as_str SI_NoneCurrent = ''none_current''"
| "ServiceImpact_as_str SI_Degraded = ''degraded''"
| "ServiceImpact_as_str SI_ImmediateRisk = ''immediate_risk''"

datatype ActionBias =
    AB_Watch | AB_InvestigateBusinessHours | AB_InvestigateNow | AB_InterveneSoon | AB_InterveneNow

fun ActionBias_as_str :: "ActionBias \<Rightarrow> string" where
  "ActionBias_as_str AB_Watch = ''watch''"
| "ActionBias_as_str AB_InvestigateBusinessHours = ''investigate_business_hours''"
| "ActionBias_as_str AB_InvestigateNow = ''investigate_now''"
| "ActionBias_as_str AB_InterveneSoon = ''intervene_soon''"
| "ActionBias_as_str AB_InterveneNow = ''intervene_now''"

datatype StateKind = SK_Incident | SK_Degradation | SK_Maintenance | SK_Informational | SK_LegacyUnclassified

fun StateKind_as_str :: "StateKind \<Rightarrow> string" where
  "StateKind_as_str SK_Incident = ''incident''"
| "StateKind_as_str SK_Degradation = ''degradation''"
| "StateKind_as_str SK_Maintenance = ''maintenance''"
| "StateKind_as_str SK_Informational = ''informational''"
| "StateKind_as_str SK_LegacyUnclassified = ''legacy_unclassified''"

datatype RecoveryState = RV_Active | RV_Candidate | RV_Satisfied

fun RecoveryState_as_str :: "RecoveryState \<Rightarrow> string" where
  "RecoveryState_as_str RV_Active = ''active''"
| "RecoveryState_as_str RV_Candidate = ''candidate''"
| "RecoveryState_as_str RV_Satisfied = ''satisfied''"

datatype RecoveryComparator = RC_Lt | RC_Gt | RC_Le | RC_Ge | RC_Eq

fun RecoveryComparator_as_str :: "RecoveryComparator \<Rightarrow> string" where
  "RecoveryComparator_as_str RC_Lt = ''lt''"
| "RecoveryComparator_as_str RC_Gt = ''gt''"
| "RecoveryComparator_as_str RC_Le = ''le''"
| "RecoveryComparator_as_str RC_Ge = ''ge''"
| "RecoveryComparator_as_str RC_Eq = ''eq''"

datatype NodeType = NT_Host | NT_Witness | NT_Transport | NT_Collector

fun NodeType_as_str :: "NodeType \<Rightarrow> string" where
  "NodeType_as_str NT_Host = ''host''"
| "NodeType_as_str NT_Witness = ''witness''"
| "NodeType_as_str NT_Transport = ''transport''"
| "NodeType_as_str NT_Collector = ''collector''"

datatype CauseCandidate =
    CC_AgentStopped | CC_AgentUnreachable | CC_HostUnreachable | CC_TransportFailed | CC_CollectorExpired

fun CauseCandidate_as_str :: "CauseCandidate \<Rightarrow> string" where
  "CauseCandidate_as_str CC_AgentStopped = ''agent_stopped''"
| "CauseCandidate_as_str CC_AgentUnreachable = ''agent_unreachable''"
| "CauseCandidate_as_str CC_HostUnreachable = ''host_unreachable''"
| "CauseCandidate_as_str CC_TransportFailed = ''transport_failed''"
| "CauseCandidate_as_str CC_CollectorExpired = ''collector_expired''"

section \<open>Findings\<close>

type_synonym f64 = "64 word"

record FindingDiagnosis =
  dg_failure_class :: FailureClass
  dg_service_impact :: ServiceImpact
  dg_action_bias :: ActionBias
  dg_synopsis :: string
  dg_why_care :: string

record CoverageDegradedEnvelope =
  cde_degradation_kind :: string
  cde_degradation_metric :: string
  cde_degradation_value :: "f64 option"
  cde_degradation_threshold :: "f64 option"
  cde_recovery_state :: RecoveryState
  cde_recovery_metric :: string
  cde_recovery_comparator :: RecoveryComparator
  cde_recovery_threshold :: f64
  cde_recovery_sustained_for_s :: int
  cde_recovery_evidence_since :: "string option"
  cde_recovery_satisfied_at :: "string option"

record HealthClaimMisleadingEnvelope =
  hcm_coverage_degraded_ref :: string

datatype CoverageEnvelope =
    CE_Degraded CoverageDegradedEnvelope
  | CE_HealthClaimMisleading HealthClaimMisleadingEnvelope

record NodeUnobservableEnvelope =
  nue_node_type :: NodeType
  nue_cause_candidate :: CauseCandidate
  nue_evidence_finding_key :: string
  nue_suppressed_descendant_count :: "int option"

record Finding =
  fd_host :: string
  fd_domain :: string
  fd_kind :: string
  fd_subject :: string
  fd_message :: string
  fd_value :: "f64 option"
  fd_finding_class :: string
  fd_rule_hash :: "string option"
  fd_state_kind :: StateKind
  fd_diagnosis :: "FindingDiagnosis option"
  fd_basis_source_id :: "string option"
  fd_basis_witness_id :: "string option"
  fd_coverage_envelope :: "CoverageEnvelope option"
  fd_node_unobservable_envelope :: "NodeUnobservableEnvelope option"

section \<open>Rows\<close>

record diagnosis_columns =
  col_failure_class :: "string option"
  col_service_impact :: "string option"
  col_action_bias :: "string option"
  col_synopsis :: "string option"
  col_why_care :: "string option"

record coverage_columns =
  col_degradation_kind :: "string option"
  col_degradation_metric :: "string option"
  col_degradation_value :: "f64 option"
  col_degradation_threshold :: "f64 option"
  col_recovery_state :: "string option"
  col_recovery_metric :: "string option"
  col_recovery_comparator :: "string option"
  col_recovery_threshold :: "f64 option"
  col_recovery_sustained_for_s :: "int option"
  col_recovery_evidence_since :: "string option"
  col_recovery_satisfied_at :: "string option"
  col_coverage_degraded_ref :: "string option"

record node_columns =
  col_node_type :: "string option"
  col_cause_candidate :: "string option"
  col_evidence_finding_key :: "string option"
  col_suppressed_descendant_count :: "int option"

record silence_columns =
  col_silence_scope :: "string option"
  col_silence_basis :: "string option"
  col_silence_duration_s :: "int option"
  col_silence_expected :: "string option"

record generation_row =
  gen_generation_id :: int
  gen_started_at :: string
  gen_completed_at :: string
  gen_status :: string
  gen_sources_expected :: int
  gen_sources_ok :: int
  gen_sources_failed :: int
  gen_duration_ms :: int
  gen_summary_hash :: "string option"
  gen_findings_observed :: int
  gen_detectors_run :: int
  gen_findings_suppressed :: int
  gen_coverage_json :: "string option"

record warning_state_row =
  ws_host :: string
  ws_kind :: string
  ws_subject :: string
  ws_domain :: string
  ws_message :: string
  ws_severity :: string
  ws_first_seen_gen :: int
  ws_first_seen_at :: string
  ws_last_seen_gen :: int
  ws_last_seen_at :: string
  ws_consecutive_gens :: int
  ws_peak_value :: "f64 option"
  ws_finding_class :: string
  ws_rule_hash :: "string option"
  ws_absent_gens :: int
  ws_diagnosis :: diagnosis_columns
  ws_state_kind :: string
  ws_coverage :: coverage_columns
  ws_node :: node_columns
  ws_silence :: silence_columns
  ws_visibility_state :: string
  ws_suppression_kind :: "string option"
  ws_suppression_reason :: "string option"
  ws_suppressed_since_gen :: "int option"
  ws_suppression_declaration_id :: "string option"
  ws_basis_state :: string
  ws_basis_source_id :: "string option"
  ws_basis_witness_id :: "string option"
  ws_last_basis_generation :: "int option"
  ws_basis_state_at :: "string option"
  ws_origin_mode :: string
  ws_origin_source :: string
  ws_origin_producer_id :: "string option"
  ws_origin_extraction_run_id :: "string option"
  ws_origin_producer_extraction_time :: "string option"
  ws_origin_import_contract_version :: "int option"
  ws_stability :: "string option"
  ws_work_state :: string
  ws_work_state_at :: "string option"
  ws_owner :: "string option"
  ws_note :: "string option"
  ws_acknowledged :: int
  ws_acknowledged_at :: "string option"
  ws_ack_expires_at :: "string option"
  ws_entity_gone_gens :: int
  ws_maintenance_state :: string
  ws_maintenance_id :: "string option"

record observation_row =
  obs_observation_id :: int
  obs_generation_id :: int
  obs_finding_key :: string
  obs_scope :: string
  obs_detector_id :: string
  obs_host :: string
  obs_subject :: string
  obs_domain :: string
  obs_severity :: "string option"
  obs_value :: "f64 option"
  obs_message :: "string option"
  obs_finding_class :: string
  obs_rule_hash :: "string option"
  obs_observed_at :: string
  obs_diagnosis :: diagnosis_columns
  obs_basis_source_id :: "string option"
  obs_basis_witness_id :: "string option"
  obs_state_kind :: string
  obs_coverage :: coverage_columns
  obs_node :: node_columns

record transition_row =
  tr_transition_id :: int
  tr_host :: string
  tr_kind :: string
  tr_subject :: string
  tr_from_state :: "string option"
  tr_to_state :: string
  tr_changed_by :: "string option"
  tr_note :: "string option"
  tr_created_at :: string

record retired_row =
  rt_source_id :: string
  rt_retired_at :: string
  rt_retired_reason :: string
  rt_retired_by :: string

record maintenance_row =
  mt_maintenance_id :: string
  mt_declared_at :: string
  mt_start_at :: string
  mt_end_at :: string
  mt_host :: string
  mt_kind :: string
  mt_subject :: "string option"

record source_run_row =
  sr_generation_id :: int
  sr_source :: string
  sr_status :: string

record tombstone_row =
  tb_tombstone_id :: int
  tb_generation_id_low :: int
  tb_generation_id_high :: int
  tb_generations_deleted :: int
  tb_rows_deleted_json :: string
  tb_retention_rule_cited :: string
  tb_tombstoned_at :: string

text \<open>
  The five current-state tables that reference a generation are present by the columns the
  modelled statements read: the host and the generation a row is of. The remaining tables with
  a \<open>generation_id\<close> column are present by name, each row by that column.
\<close>

record current_row =
  cur_host :: string
  cur_as_of_generation :: int

record database =
  db_generations :: "generation_row list"
  db_source_runs :: "source_run_row list"
  db_warning_state :: "warning_state_row list"
  db_finding_observations :: "observation_row list"
  db_finding_transitions :: "transition_row list"
  db_sources_retired :: "retired_row list"
  db_maintenance_declarations :: "maintenance_row list"
  db_evidence_tombstones :: "tombstone_row list"
  db_hosts_current :: "current_row list"
  db_services_current :: "current_row list"
  db_monitored_dbs_current :: "current_row list"
  db_metrics_current :: "current_row list"
  db_log_observations_current :: "current_row list"
  db_history :: "(string \<times> int list) list"

section \<open>Statements\<close>

text \<open>
  The forms of statement the code uses: \<open>UPDATE ... SET ... WHERE\<close>, \<open>DELETE ... WHERE\<close>, a
  lookup by primary key, and \<open>ORDER BY ... DESC LIMIT 1\<close>, which is the last row in ascending
  order. A rowid is one more than the largest in use.
\<close>

definition update_where :: "('r \<Rightarrow> bool) \<Rightarrow> ('r \<Rightarrow> 'r) \<Rightarrow> 'r list \<Rightarrow> 'r list" where
  "update_where p f rows = map (\<lambda>r. if p r then f r else r) rows"

definition delete_where :: "('r \<Rightarrow> bool) \<Rightarrow> 'r list \<Rightarrow> 'r list" where
  "delete_where p rows = filter (\<lambda>r. \<not> p r) rows"

definition row_at :: "('r \<Rightarrow> 'k) \<Rightarrow> 'k \<Rightarrow> 'r list \<Rightarrow> 'r option" where
  "row_at key k rows = find (\<lambda>r. key r = k) rows"

definition latest_by :: "('r \<Rightarrow> 'o::linorder) \<Rightarrow> 'r list \<Rightarrow> 'r option" where
  "latest_by ord rows = (if rows = [] then None else Some (last (sort_key ord rows)))"

definition next_rowid :: "int list \<Rightarrow> int" where
  "next_rowid ids = (if ids = [] then 1 else Max (set ids) + 1)"

definition ws_key :: "warning_state_row \<Rightarrow> string \<times> string \<times> string" where
  "ws_key w = (ws_host w, ws_kind w, ws_subject w)"

definition fd_key :: "Finding \<Rightarrow> string \<times> string \<times> string" where
  "fd_key f = (fd_host f, fd_kind f, fd_subject f)"

fun try_fold :: "('a \<Rightarrow> 's \<Rightarrow> 'e + 's) \<Rightarrow> 'a list \<Rightarrow> 's \<Rightarrow> 'e + 's" where
  "try_fold f [] s = Inr s"
| "try_fold f (x # xs) s = res_bind (f x s) (try_fold f xs)"

section \<open>Laws of keyed tables\<close>

lemma row_at_some: "row_at key k rows = Some r \<Longrightarrow> r \<in> set rows \<and> key r = k"
  by (auto simp: row_at_def find_Some_iff)

lemma row_at_none: "row_at key k rows = None \<longleftrightarrow> k \<notin> key ` set rows"
  by (auto simp: row_at_def find_None_iff)

lemma row_at_mem:
  assumes "distinct (map key rows)" "r \<in> set rows"
  shows "row_at key (key r) rows = Some r"
  using assms by (induction rows) (auto simp: row_at_def image_iff)

lemma row_at_iff:
  "distinct (map key rows) \<Longrightarrow> row_at key k rows = Some r \<longleftrightarrow> r \<in> set rows \<and> key r = k"
  using row_at_mem row_at_some by metis

lemma row_at_append: "row_at key k (rows @ [r]) =
    (case row_at key k rows of None \<Rightarrow> (if key r = k then Some r else None) | Some x \<Rightarrow> Some x)"
  by (induction rows) (auto simp: row_at_def)

lemma row_at_delete:
  assumes "distinct (map key rows)"
  shows "row_at key k (delete_where p rows) =
    (case row_at key k rows of None \<Rightarrow> None | Some r \<Rightarrow> if p r then None else Some r)"
  using assms
proof (induction rows)
  case (Cons a rows)
  have "key a = k \<Longrightarrow> row_at key k rows = None" "key a = k \<Longrightarrow> row_at key k (delete_where p rows) = None"
    using Cons.prems by (auto simp: row_at_none delete_where_def)
  with Cons show ?case by (auto simp: row_at_def delete_where_def)
qed (simp add: row_at_def delete_where_def)

lemma keys_delete: "distinct (map key rows) \<Longrightarrow> distinct (map key (delete_where p rows))"
  by (simp add: delete_where_def distinct_map_filter)

text \<open>A \<open>SET\<close> clause that leaves the primary key alone acts on each row by itself.\<close>

locale keyed_update =
  fixes key :: "'r \<Rightarrow> 'k" and f :: "'r \<Rightarrow> 'r"
  assumes keeps_key: "key (f r) = key r"
begin

lemma row_at_update:
  "row_at key k (update_where p f rows) = map_option (\<lambda>r. if p r then f r else r) (row_at key k rows)"
  by (induction rows) (auto simp: row_at_def update_where_def keeps_key)

lemma map_key_update: "map key (update_where p f rows) = map key rows"
  by (simp add: update_where_def keeps_key)

lemma row_at_update_one:
  assumes "distinct (map key rows)" "r \<in> set rows"
  shows "row_at key k (update_where (\<lambda>v. key v = key r) f rows) = (if k = key r then Some (f r) else row_at key k rows)"
proof (cases "k = key r")
  case True
  then show ?thesis using row_at_mem [OF assms] by (simp add: row_at_update)
next
  case False
  then show ?thesis using row_at_some [of key k rows] by (cases "row_at key k rows") (simp_all add: row_at_update)
qed

end

lemma latest_by_none: "latest_by ord rows = None \<longleftrightarrow> rows = []"
  by (simp add: latest_by_def)

lemma latest_by_max:
  assumes "latest_by ord rows = Some r"
  shows "r \<in> set rows" "x \<in> set rows \<Longrightarrow> ord x \<le> ord r"
proof -
  let ?s = "sort_key ord rows"
  have ne: "rows \<noteq> []" and r: "r = last ?s" using assms by (auto simp: latest_by_def split: if_splits)
  have "length ?s = length rows" by simp
  with ne have nes: "?s \<noteq> []" by (metis length_0_conv)
  show "r \<in> set rows" using last_in_set [OF nes] r by simp
  assume "x \<in> set rows"
  then have "x \<in> set (butlast ?s @ [last ?s])" using append_butlast_last_id [OF nes] by simp
  moreover have "sorted (map ord (butlast ?s @ [last ?s]))" using append_butlast_last_id [OF nes] by simp
  ultimately show "ord x \<le> ord r" unfolding r by (auto simp: sorted_append)
qed

lemma latest_by_iff:
  assumes "inj_on ord (set rows)"
  shows "latest_by ord rows = Some r \<longleftrightarrow> r \<in> set rows \<and> (\<forall>x \<in> set rows. ord x \<le> ord r)"
proof
  assume r: "r \<in> set rows \<and> (\<forall>x \<in> set rows. ord x \<le> ord r)"
  then obtain s where s: "latest_by ord rows = Some s" by (cases rows) (auto simp: latest_by_def)
  then have "ord s = ord r" using latest_by_max [OF s] r by (meson order_antisym)
  with assms r s latest_by_max(1) [OF s] show "latest_by ord rows = Some r" by (metis inj_on_def)
next
  assume "latest_by ord rows = Some r"
  from latest_by_max [OF this] show "r \<in> set rows \<and> (\<forall>x \<in> set rows. ord x \<le> ord r)" by simp
qed

lemma next_rowid_fresh: "next_rowid ids \<notin> set ids" and next_rowid_greater: "i \<in> set ids \<Longrightarrow> i < next_rowid ids"
proof -
  show *: "i \<in> set ids \<Longrightarrow> i < next_rowid ids" for i
    using Max_ge [of "set ids" i] by (auto simp: next_rowid_def split: if_splits)
  show "next_rowid ids \<notin> set ids" using * by blast
qed

lemma try_fold_append: "try_fold f (xs @ ys) s = res_bind (try_fold f xs s) (try_fold f ys)"
proof (induction xs arbitrary: s)
  case (Cons x xs)
  then show ?case by (cases "f x s") simp_all
qed simp

lemma try_fold_invariant:
  assumes "try_fold f xs s = Inr s'" "P s" "\<And>x s s'. x \<in> set xs \<Longrightarrow> P s \<Longrightarrow> f x s = Inr s' \<Longrightarrow> P s'"
  shows "P s'"
  using assms
proof (induction xs arbitrary: s)
  case (Cons x xs)
  then obtain t where t: "f x s = Inr t" "try_fold f xs t = Inr s'" by (auto simp: res_bind_Inr_iff)
  show ?case
    by (rule Cons.IH [OF t(2)]) (use Cons.prems(2,3) t(1) in auto)
qed simp

end
