(* ===== verification/Declarations.thy ===== *)
theory Declarations
  imports Store
begin

text \<open>
  Operational-intent declarations (\<open>crates/nq-db/src/declarations.rs\<close>): the file of
  declarations is read at the start of a cycle, each entry validated, the active ones handed to
  the suppression overlay, and the hygiene detectors turn what is wrong with the file or its
  entries into findings. Reading the file and parsing its JSON are arguments.
\<close>

section \<open>Declarations\<close>

datatype SubjectKind = SubjectHost
datatype Mode = Mode_Quiesced | Withdrawn

fun Mode_as_str :: "Mode \<Rightarrow> string" where
  "Mode_as_str Mode_Quiesced = ''quiesced''"
| "Mode_as_str Withdrawn = ''withdrawn''"

datatype Durability = Transient | Persistent
datatype Scope = SubjectOnly

record Declaration =
  dl_declaration_id :: string
  dl_subject_kind :: SubjectKind
  dl_subject_id :: string
  dl_mode :: Mode
  dl_durability :: Durability
  dl_affects :: "string list"
  dl_reason_class :: string
  dl_declared_by :: string
  dl_declared_at :: string
  dl_expires_at :: "string option"
  dl_review_after :: "string option"
  dl_scope :: Scope
  dl_evidence_refs :: "string list"
  dl_revoked_at :: "string option"

record InvalidDeclaration =
  iv_declaration_id :: "string option"
  iv_reason :: string

datatype LoadOutcome =
    Disabled
  | Missing
  | Unreadable string string
  | Loaded "Declaration list" "InvalidDeclaration list"

text \<open>What reading the file gives: its bytes, \<open>NotFound\<close>, or another error.\<close>

datatype file_read = ReadBytes string | ReadNotFound | ReadError string

definition invalid_time :: "externals \<Rightarrow> string \<Rightarrow> string \<Rightarrow> string + int" where
  "invalid_time ext field value =
     map_err (\<lambda>e. field @ '' invalid RFC3339: '' @ e) (rfc3339_parse ext value)"

definition Declaration_validate :: "externals \<Rightarrow> Declaration \<Rightarrow> string + unit" where
  "Declaration_validate ext d =
     checks
      [refuse_if (dl_declaration_id d = []) ''declaration_id is empty'',
       refuse_if (dl_subject_id d = []) ''subject_id is empty'',
       refuse_if (dl_reason_class d = []) ''reason_class is empty'',
       refuse_if (dl_declared_by d = []) ''declared_by is empty'',
       refuse_if (dl_evidence_refs d = []) ''evidence_refs must contain at least one entry'',
       res_bind (invalid_time ext ''declared_at'' (dl_declared_at d)) (\<lambda>declared_at.
         case dl_expires_at d of
           None \<Rightarrow> Inr ()
         | Some s \<Rightarrow>
             res_bind (invalid_time ext ''expires_at'' s) (\<lambda>expires.
               refuse_if (expires \<le> declared_at) ''expires_at must be after declared_at'')),
       (case dl_review_after d of
          None \<Rightarrow> Inr () | Some s \<Rightarrow> discard (invalid_time ext ''review_after'' s)),
       (case dl_revoked_at d of
          None \<Rightarrow> Inr () | Some s \<Rightarrow> discard (invalid_time ext ''revoked_at'' s))]"

fun load_loop ::
  "externals \<Rightarrow> Declaration list \<Rightarrow> string list \<times> Declaration list \<times> InvalidDeclaration list
     \<Rightarrow> string list \<times> Declaration list \<times> InvalidDeclaration list"
where
  "load_loop ext [] acc = acc"
| "load_loop ext (d # ds) (seen, valid, invalid) =
     (if dl_declaration_id d \<in> set seen then
        load_loop ext ds (seen, valid,
          invalid @ [\<lparr>iv_declaration_id = Some (dl_declaration_id d), iv_reason = ''duplicate declaration_id''\<rparr>])
      else
        case Declaration_validate ext d of
          Inr _ \<Rightarrow> load_loop ext ds (dl_declaration_id d # seen, valid @ [d], invalid)
        | Inl reason \<Rightarrow>
            load_loop ext ds (dl_declaration_id d # seen, valid,
              invalid @ [\<lparr>iv_declaration_id = Some (dl_declaration_id d), iv_reason = reason\<rparr>]))"

definition load_declarations ::
  "externals \<Rightarrow> (string \<Rightarrow> file_read) \<Rightarrow> (string \<Rightarrow> string + Declaration list) \<Rightarrow> string option \<Rightarrow> LoadOutcome"
where
  "load_declarations ext read_file from_slice path_opt =
     (case path_opt of
        None \<Rightarrow> Disabled
      | Some path \<Rightarrow>
          (case read_file path of
             ReadNotFound \<Rightarrow> Missing
           | ReadError e \<Rightarrow> Unreadable path (''read failed: '' @ e)
           | ReadBytes bytes \<Rightarrow>
               (case from_slice bytes of
                  Inl e \<Rightarrow> Unreadable path (''parse failed: '' @ e)
                | Inr declarations \<Rightarrow>
                    (case load_loop ext declarations ([], [], []) of
                       (seen, valid, invalid) \<Rightarrow> Loaded valid invalid))))"

definition is_active :: "externals \<Rightarrow> int \<Rightarrow> Declaration \<Rightarrow> bool" where
  "is_active ext now d =
     (if dl_revoked_at d \<noteq> None then False
      else
        case dl_expires_at d of
          None \<Rightarrow> True
        | Some s \<Rightarrow> (case rfc3339_parse ext s of Inl _ \<Rightarrow> True | Inr t \<Rightarrow> \<not> t \<le> now))"

definition active_declarations :: "externals \<Rightarrow> int \<Rightarrow> LoadOutcome \<Rightarrow> Declaration list" where
  "active_declarations ext now outcome =
     (case outcome of Loaded valid _ \<Rightarrow> filter (is_active ext now) valid | _ \<Rightarrow> [])"

section \<open>Hygiene findings\<close>

text \<open>\<open>as f64\<close> of a count: rounded to nearest, ties to even.\<close>

fun bit_length :: "nat \<Rightarrow> nat" where
  "bit_length n = (if n = 0 then 0 else Suc (bit_length (n div 2)))"

definition f64_of_nat :: "nat \<Rightarrow> f64" where
  "f64_of_nat n =
     (if n = 0 then 0
      else
        let len = bit_length n;
            mant = (if len \<le> 53 then n * 2 ^ (53 - len)
                    else
                      let s = len - 53; q = n div 2 ^ s; r = n mod 2 ^ s; half = 2 ^ (s - 1)
                      in if half < r \<or> half = r \<and> odd q then q + 1 else q)
        in word_of_nat ((len + 1022) * 2 ^ 52 + (mant - 2 ^ 52)))"

definition delta_o :: string where
  "delta_o = [CHR 0xCE, CHR 0x94, CHR ''o'']"

definition em_dash :: string where
  "em_dash = [CHR 0xE2, CHR 0x80, CHR 0x94]"

definition meta_finding :: "string \<Rightarrow> string \<Rightarrow> string \<Rightarrow> string \<Rightarrow> FailureClass \<Rightarrow> string \<Rightarrow> string \<Rightarrow> Finding" where
  "meta_finding host kind subject message failure_class synopsis why_care =
     \<lparr>fd_host = host, fd_domain = delta_o, fd_kind = kind, fd_subject = subject, fd_message = message,
      fd_value = None, fd_finding_class = ''meta'', fd_rule_hash = None, fd_state_kind = SK_Informational,
      fd_diagnosis = Some
        \<lparr>dg_failure_class = failure_class, dg_service_impact = SI_NoneCurrent,
         dg_action_bias = AB_InvestigateBusinessHours, dg_synopsis = synopsis, dg_why_care = why_care\<rparr>,
      fd_basis_source_id = None, fd_basis_witness_id = None, fd_coverage_envelope = None,
      fd_node_unobservable_envelope = None\<rparr>"

definition unreadable_finding :: "string \<Rightarrow> string \<Rightarrow> Finding" where
  "unreadable_finding subject reason =
     meta_finding [] ''declarations_file_unreadable'' subject reason FC_Unspecified
       ''Declarations file or entry could not be loaded.''
       ''A broken declarations path silently disables operator-intent suppression. The finding makes the failure operator-visible.''"

definition expired_finding :: "Declaration \<Rightarrow> string \<Rightarrow> Finding" where
  "expired_finding d exp_s =
     meta_finding [] ''declaration_expired'' (dl_declaration_id d)
       (Mode_as_str (dl_mode d) @ '' declaration on '' @ dl_subject_id d @ '' expired at '' @ exp_s) FC_Unspecified
       (''Declaration '' @ dl_declaration_id d @ '' ('' @ Mode_as_str (dl_mode d) @ '' on '' @ dl_subject_id d
          @ '') is past expires_at.'')
       (''Expired declarations can become haunted furniture '' @ em_dash
          @ '' the operator intent is no longer guaranteed to reflect reality. Either revoke or renew.'')"

definition persistent_no_review_finding :: "Declaration \<Rightarrow> Finding" where
  "persistent_no_review_finding d =
     meta_finding [] ''persistent_declaration_without_review'' (dl_declaration_id d)
       (''persistent '' @ Mode_as_str (dl_mode d) @ '' declaration on '' @ dl_subject_id d @ '' has no review_after'')
       FC_Unspecified
       (''Persistent declaration '' @ dl_declaration_id d @ '' on '' @ dl_subject_id d
          @ '' carries no review_after date.'')
       ''Quiet undated decommission flags become haunted furniture; explicit review windows defend against forgotten intent.''"

definition withdrawn_active_finding :: "Declaration \<Rightarrow> nat \<Rightarrow> Finding" where
  "withdrawn_active_finding d observation_count =
     (meta_finding (dl_subject_id d) ''withdrawn_subject_active'' (dl_declaration_id d)
       (''host '' @ dl_subject_id d @ '' declared withdrawn at '' @ dl_declared_at d @ '' but ''
          @ show_nat observation_count @ '' observation(s) recorded since'')
       FC_Drift
       (''Host '' @ dl_subject_id d @ '' is declared withdrawn but is still producing substrate observations.'')
       ''Conflict between operator declaration and observed reality. Either the declaration is stale, or substrate is reporting from a host that should be quiet.'')
       \<lparr>fd_value := Some (f64_of_nat observation_count)\<rparr>"

definition observations_since :: "database \<Rightarrow> Declaration \<Rightarrow> nat" where
  "observations_since db d =
     length (filter (\<lambda>r. obs_host r = dl_subject_id d \<and> dl_declared_at d \<le> obs_observed_at r)
       (db_finding_observations db))"

definition declaration_findings :: "externals \<Rightarrow> int \<Rightarrow> database \<Rightarrow> Declaration \<Rightarrow> Finding list" where
  "declaration_findings ext now db d =
     (if dl_revoked_at d \<noteq> None then []
      else
        (case dl_expires_at d of
           None \<Rightarrow> []
         | Some exp_s \<Rightarrow>
             (case rfc3339_parse ext exp_s of
                Inl _ \<Rightarrow> [] | Inr expires \<Rightarrow> if expires \<le> now then [expired_finding d exp_s] else []))
        @ (if dl_durability d = Persistent \<and> dl_review_after d = None
           then [persistent_no_review_finding d] else [])
        @ (if dl_subject_kind d = SubjectHost \<and> dl_mode d = Withdrawn \<and> observations_since db d > 0
           then [withdrawn_active_finding d (observations_since db d)] else []))"

definition run_hygiene :: "externals \<Rightarrow> int \<Rightarrow> database \<Rightarrow> LoadOutcome \<Rightarrow> Finding list" where
  "run_hygiene ext now db outcome =
     (case outcome of
        Disabled \<Rightarrow> []
      | Missing \<Rightarrow> []
      | Unreadable path reason \<Rightarrow> [unreadable_finding path reason]
      | Loaded valid invalid \<Rightarrow>
          map (\<lambda>iv. unreadable_finding
                 (case iv_declaration_id iv of None \<Rightarrow> ''<unidentified>'' | Some i \<Rightarrow> i)
                 (''invalid declaration: '' @ iv_reason iv)) invalid
          @ concat (map (declaration_findings ext now db) valid))"

end
