(* ===== verification/Lifecycle.thy ===== *)
theory Lifecycle
  imports Declarations
begin

text \<open>
  The lifecycle engine (\<open>crates/nq-db/src/publish.rs\<close>): one call takes the findings of a
  generation, records each as an observation, moves every row of \<open>warning_state\<close> one step and
  applies the declaration and the maintenance overlays, all in one transaction. The two clock
  readings and the iteration order of a \<open>HashMap\<close> are arguments. An error leaves the database
  as it was, because the transaction is dropped.
\<close>

section \<open>Numbers\<close>

definition f64_is_nan :: "f64 \<Rightarrow> bool" where
  "f64_is_nan v \<longleftrightarrow> 0x7FF0000000000000 < take_bit 63 v"

text \<open>The order of the numbers among the bit patterns that are not NaN.\<close>

definition f64_order :: "f64 \<Rightarrow> int" where
  "f64_order v = (if bit v 63 then - uint (take_bit 63 v) else uint v)"

text \<open>SQLite stores NaN as \<open>NULL\<close>; \<open>MAX\<close> keeps its first argument unless the second is greater.\<close>

definition sql_real :: "f64 option \<Rightarrow> f64 option" where
  "sql_real v = (case v of None \<Rightarrow> None | Some x \<Rightarrow> if f64_is_nan x then None else Some x)"

definition coalesce_real :: "f64 option \<Rightarrow> f64" where
  "coalesce_real v = (case v of None \<Rightarrow> 0 | Some x \<Rightarrow> x)"

definition sql_max :: "f64 \<Rightarrow> f64 \<Rightarrow> f64" where
  "sql_max a b = (if f64_order a < f64_order b then b else a)"

text \<open>\<open>as i64\<close> truncates towards zero, saturates, and takes NaN to zero.\<close>

definition f64_as_i64 :: "f64 \<Rightarrow> int" where
  "f64_as_i64 v =
     (if f64_is_nan v then 0
      else
        let expo = uint (take_bit 11 (drop_bit 52 v));
            frac = uint (take_bit 52 v);
            mant = (if expo = 0 then frac else 2 ^ 52 + frac);
            shift = (if expo = 0 then - 1074 else expo - 1075);
            mag = (if 0 \<le> shift then mant * 2 ^ nat shift else mant div 2 ^ nat (- shift))
        in if bit v 63 then max (- (2 ^ 63)) (- mag) else min (2 ^ 63 - 1) mag)"

section \<open>Finding keys\<close>

definition unreserved :: "char \<Rightarrow> bool" where
  "unreserved c \<longleftrightarrow> is_upper c \<or> is_lower c \<or> is_digit c \<or> c \<in> {CHR ''-'', CHR ''_'', CHR ''.'', CHR ''~''}"

definition hex_upper :: "nat \<Rightarrow> char" where
  "hex_upper n = char_of (if n < 10 then 48 + n else 55 + n)"

definition enc :: "string \<Rightarrow> string" where
  "enc s = concat (map (\<lambda>b. if unreserved b then [b]
     else [CHR ''%'', hex_upper (of_char b div 16), hex_upper (of_char b mod 16)]) s)"

definition compute_finding_key :: "string \<Rightarrow> string \<Rightarrow> string \<Rightarrow> string \<Rightarrow> string" where
  "compute_finding_key scope host detector_id subject =
     scope @ ''/'' @ enc host @ ''/'' @ enc detector_id @ ''/'' @ enc subject"

definition local_key :: "string \<times> string \<times> string \<Rightarrow> string" where
  "local_key k = (case k of (host, kind, subject) \<Rightarrow> compute_finding_key ''local'' host kind subject)"

section \<open>Masking rules\<close>

record MaskingRule =
  mr_parent_kind :: string
  mr_suppression_reason :: string
  mr_child_kind_prefix :: "string option"

definition MASKING_RULES :: "MaskingRule list" where
  "MASKING_RULES =
     [\<lparr>mr_parent_kind = ''stale_host'', mr_suppression_reason = ''host_unreachable'', mr_child_kind_prefix = None\<rparr>,
      \<lparr>mr_parent_kind = ''source_error'', mr_suppression_reason = ''source_unreachable'', mr_child_kind_prefix = None\<rparr>,
      \<lparr>mr_parent_kind = ''smart_witness_silent'', mr_suppression_reason = ''witness_unobservable'',
       mr_child_kind_prefix = Some ''smart_''\<rparr>,
      \<lparr>mr_parent_kind = ''zfs_witness_silent'', mr_suppression_reason = ''witness_unobservable'',
       mr_child_kind_prefix = Some ''zfs_''\<rparr>]"

section \<open>Severity\<close>

record EscalationConfig =
  warn_after_gens :: int
  critical_after_gens :: int

definition EscalationConfig_default :: EscalationConfig where
  "EscalationConfig_default = \<lparr>warn_after_gens = 30, critical_after_gens = 180\<rparr>"

definition compute_severity :: "string \<Rightarrow> StateKind \<Rightarrow> int \<Rightarrow> EscalationConfig \<Rightarrow> string" where
  "compute_severity kind state_kind consecutive_gens esc =
     (let base = (if consecutive_gens > critical_after_gens esc then ''critical''
                  else if consecutive_gens > warn_after_gens esc then ''warning''
                  else ''info'')
      in if base = ''info'' \<and> kind = ''service_status'' \<and> state_kind = SK_Incident then ''warning'' else base)"

section \<open>Columns of a finding\<close>

definition diagnosis_columns_of :: "FindingDiagnosis option \<Rightarrow> diagnosis_columns" where
  "diagnosis_columns_of d =
     \<lparr>col_failure_class = map_option (\<lambda>x. FailureClass_as_str (dg_failure_class x)) d,
      col_service_impact = map_option (\<lambda>x. ServiceImpact_as_str (dg_service_impact x)) d,
      col_action_bias = map_option (\<lambda>x. ActionBias_as_str (dg_action_bias x)) d,
      col_synopsis = map_option dg_synopsis d,
      col_why_care = map_option dg_why_care d\<rparr>"

definition no_coverage_columns :: coverage_columns where
  "no_coverage_columns =
     \<lparr>col_degradation_kind = None, col_degradation_metric = None, col_degradation_value = None,
      col_degradation_threshold = None, col_recovery_state = None, col_recovery_metric = None,
      col_recovery_comparator = None, col_recovery_threshold = None,
      col_recovery_sustained_for_s = None, col_recovery_evidence_since = None,
      col_recovery_satisfied_at = None, col_coverage_degraded_ref = None\<rparr>"

definition coverage_columns_of :: "CoverageEnvelope option \<Rightarrow> coverage_columns" where
  "coverage_columns_of envelope =
     (case envelope of
        None \<Rightarrow> no_coverage_columns
      | Some (CE_Degraded env) \<Rightarrow>
          \<lparr>col_degradation_kind = Some (cde_degradation_kind env),
           col_degradation_metric = Some (cde_degradation_metric env),
           col_degradation_value = sql_real (cde_degradation_value env),
           col_degradation_threshold = sql_real (cde_degradation_threshold env),
           col_recovery_state = Some (RecoveryState_as_str (cde_recovery_state env)),
           col_recovery_metric = Some (cde_recovery_metric env),
           col_recovery_comparator = Some (RecoveryComparator_as_str (cde_recovery_comparator env)),
           col_recovery_threshold = sql_real (Some (cde_recovery_threshold env)),
           col_recovery_sustained_for_s = Some (cde_recovery_sustained_for_s env),
           col_recovery_evidence_since = cde_recovery_evidence_since env,
           col_recovery_satisfied_at = cde_recovery_satisfied_at env,
           col_coverage_degraded_ref = None\<rparr>
      | Some (CE_HealthClaimMisleading env) \<Rightarrow>
          no_coverage_columns\<lparr>col_coverage_degraded_ref := Some (hcm_coverage_degraded_ref env)\<rparr>)"

definition node_columns_of :: "NodeUnobservableEnvelope option \<Rightarrow> node_columns" where
  "node_columns_of envelope =
     \<lparr>col_node_type = map_option (\<lambda>e. NodeType_as_str (nue_node_type e)) envelope,
      col_cause_candidate = map_option (\<lambda>e. CauseCandidate_as_str (nue_cause_candidate e)) envelope,
      col_evidence_finding_key = map_option nue_evidence_finding_key envelope,
      col_suppressed_descendant_count =
        (case envelope of None \<Rightarrow> None | Some e \<Rightarrow> nue_suppressed_descendant_count e)\<rparr>"

definition silence_columns_of :: "Finding \<Rightarrow> silence_columns" where
  "silence_columns_of f =
     (if fd_kind f = ''smart_witness_silent'' \<or> fd_kind f = ''zfs_witness_silent'' then
        \<lparr>col_silence_scope = Some ''witness'', col_silence_basis = Some ''age_threshold'',
         col_silence_duration_s = map_option f64_as_i64 (fd_value f), col_silence_expected = Some ''none''\<rparr>
      else
        \<lparr>col_silence_scope = None, col_silence_basis = None, col_silence_duration_s = None,
         col_silence_expected = None\<rparr>)"

text \<open>The basis of a finding: its state, the generation and the time it was established.\<close>

definition retired_source_map :: "database \<Rightarrow> string \<Rightarrow> string option" where
  "retired_source_map db source_id =
     map_option rt_retired_at (row_at rt_source_id source_id (db_sources_retired db))"

definition basis_of ::
  "(string \<Rightarrow> string option) \<Rightarrow> int \<Rightarrow> string \<Rightarrow> string option \<Rightarrow> string \<times> int option \<times> string option"
where
  "basis_of retired generation_id now source_id =
     (case source_id of
        Some sid \<Rightarrow>
          (case retired sid of
             Some retired_at \<Rightarrow> (''retired'', None, Some retired_at)
           | None \<Rightarrow> (''live'', Some generation_id, Some now))
      | None \<Rightarrow> (''unknown'', None, None))"

section \<open>Upsert of a finding\<close>

text \<open>The count of consecutive generations, as the code computes it for the severity.\<close>

definition new_gens :: "database \<Rightarrow> int \<Rightarrow> Finding \<Rightarrow> int" where
  "new_gens db generation_id f =
     (let previous = row_at ws_key (fd_key f) (db_warning_state db);
          prev_gens = (case previous of None \<Rightarrow> 0 | Some w \<Rightarrow> ws_consecutive_gens w);
          prev_hash = (case previous of None \<Rightarrow> None | Some w \<Rightarrow> ws_rule_hash w);
          prev_visibility = (case previous of None \<Rightarrow> ''observed'' | Some w \<Rightarrow> ws_visibility_state w);
          hash_changed = (case (fd_rule_hash f, prev_hash) of (Some new, Some old) \<Rightarrow> new \<noteq> old | _ \<Rightarrow> False);
          was_last_gen = (case previous of None \<Rightarrow> False | Some w \<Rightarrow> ws_last_seen_gen w = generation_id - 1)
      in if hash_changed then 1
         else if prev_visibility = ''suppressed'' then prev_gens + 1
         else if was_last_gen then prev_gens + 1 else 1)"

text \<open>The \<open>CASE\<close> of the statement, for the stored count.\<close>

definition upsert_gens :: "int \<Rightarrow> Finding \<Rightarrow> warning_state_row \<Rightarrow> int" where
  "upsert_gens generation_id f w =
     (if (case (fd_rule_hash f, ws_rule_hash w) of (Some new, Some old) \<Rightarrow> old \<noteq> new | _ \<Rightarrow> False) then 1
      else if ws_visibility_state w = ''suppressed'' then ws_consecutive_gens w + 1
      else if ws_last_seen_gen w = generation_id - 1 then ws_consecutive_gens w + 1
      else 1)"

definition inserted_row ::
  "(string \<Rightarrow> string option) \<Rightarrow> int \<Rightarrow> string \<Rightarrow> string \<Rightarrow> string \<Rightarrow> Finding \<Rightarrow> warning_state_row"
where
  "inserted_row retired generation_id now origin_mode severity f =
     (case basis_of retired generation_id now (fd_basis_source_id f) of (basis_state, basis_gen, basis_at) \<Rightarrow>
     \<lparr>ws_host = fd_host f, ws_kind = fd_kind f, ws_subject = fd_subject f, ws_domain = fd_domain f,
      ws_message = fd_message f, ws_severity = severity,
      ws_first_seen_gen = generation_id, ws_first_seen_at = now,
      ws_last_seen_gen = generation_id, ws_last_seen_at = now, ws_consecutive_gens = 1,
      ws_peak_value = sql_real (fd_value f), ws_finding_class = fd_finding_class f,
      ws_rule_hash = fd_rule_hash f, ws_absent_gens = 0,
      ws_diagnosis = diagnosis_columns_of (fd_diagnosis f), ws_state_kind = StateKind_as_str (fd_state_kind f),
      ws_coverage = coverage_columns_of (fd_coverage_envelope f),
      ws_node = node_columns_of (fd_node_unobservable_envelope f), ws_silence = silence_columns_of f,
      ws_visibility_state = ''observed'', ws_suppression_kind = None, ws_suppression_reason = None,
      ws_suppressed_since_gen = None, ws_suppression_declaration_id = None,
      ws_basis_state = basis_state, ws_basis_source_id = fd_basis_source_id f,
      ws_basis_witness_id = fd_basis_witness_id f, ws_last_basis_generation = basis_gen,
      ws_basis_state_at = basis_at, ws_origin_mode = origin_mode, ws_origin_source = ''nq'',
      ws_origin_producer_id = None, ws_origin_extraction_run_id = None,
      ws_origin_producer_extraction_time = None, ws_origin_import_contract_version = None,
      ws_stability = None, ws_work_state = ''new'', ws_work_state_at = None, ws_owner = None, ws_note = None,
      ws_acknowledged = 0, ws_acknowledged_at = None, ws_ack_expires_at = None, ws_entity_gone_gens = 0,
      ws_maintenance_state = ''none'', ws_maintenance_id = None\<rparr>)"

definition updated_row ::
  "(string \<Rightarrow> string option) \<Rightarrow> int \<Rightarrow> string \<Rightarrow> string \<Rightarrow> string \<Rightarrow> Finding \<Rightarrow> warning_state_row \<Rightarrow> warning_state_row"
where
  "updated_row retired generation_id now origin_mode severity f w =
     (case basis_of retired generation_id now (fd_basis_source_id f) of (basis_state, basis_gen, basis_at) \<Rightarrow>
     w\<lparr>ws_domain := fd_domain f, ws_message := fd_message f,
       ws_last_seen_gen := generation_id, ws_last_seen_at := now,
       ws_consecutive_gens := upsert_gens generation_id f w,
       ws_peak_value := Some (sql_max (coalesce_real (ws_peak_value w)) (coalesce_real (sql_real (fd_value f)))),
       ws_severity := severity, ws_finding_class := fd_finding_class f, ws_rule_hash := fd_rule_hash f,
       ws_absent_gens := 0,
       ws_visibility_state := ''observed'', ws_suppression_reason := None, ws_suppressed_since_gen := None,
       ws_diagnosis := diagnosis_columns_of (fd_diagnosis f),
       ws_basis_state := basis_state, ws_basis_source_id := fd_basis_source_id f,
       ws_basis_witness_id := fd_basis_witness_id f, ws_last_basis_generation := basis_gen,
       ws_basis_state_at := basis_at, ws_state_kind := StateKind_as_str (fd_state_kind f),
       ws_coverage := coverage_columns_of (fd_coverage_envelope f),
       ws_node := node_columns_of (fd_node_unobservable_envelope f), ws_origin_mode := origin_mode,
       ws_silence := silence_columns_of f\<rparr>)"

definition upsert ::
  "(string \<Rightarrow> string option) \<Rightarrow> int \<Rightarrow> string \<Rightarrow> string \<Rightarrow> string \<Rightarrow> Finding \<Rightarrow> warning_state_row list \<Rightarrow> warning_state_row list"
where
  "upsert retired generation_id now origin_mode severity f rows =
     (if row_at ws_key (fd_key f) rows = None
      then rows @ [inserted_row retired generation_id now origin_mode severity f]
      else update_where (\<lambda>w. ws_key w = fd_key f) (updated_row retired generation_id now origin_mode severity f) rows)"

text \<open>The evidence row; the foreign key and the unique constraint of the table may refuse it.\<close>

definition observation_of :: "int \<Rightarrow> int \<Rightarrow> string \<Rightarrow> string \<Rightarrow> Finding \<Rightarrow> observation_row" where
  "observation_of observation_id generation_id now severity f =
     \<lparr>obs_observation_id = observation_id, obs_generation_id = generation_id,
      obs_finding_key = local_key (fd_key f), obs_scope = ''local'', obs_detector_id = fd_kind f,
      obs_host = fd_host f, obs_subject = fd_subject f, obs_domain = fd_domain f,
      obs_severity = Some severity, obs_value = sql_real (fd_value f), obs_message = Some (fd_message f),
      obs_finding_class = fd_finding_class f, obs_rule_hash = fd_rule_hash f, obs_observed_at = now,
      obs_diagnosis = diagnosis_columns_of (fd_diagnosis f), obs_basis_source_id = fd_basis_source_id f,
      obs_basis_witness_id = fd_basis_witness_id f, obs_state_kind = StateKind_as_str (fd_state_kind f),
      obs_coverage = coverage_columns_of (fd_coverage_envelope f),
      obs_node = node_columns_of (fd_node_unobservable_envelope f)\<rparr>"

definition insert_obs :: "int \<Rightarrow> string \<Rightarrow> string \<Rightarrow> Finding \<Rightarrow> database \<Rightarrow> string + database" where
  "insert_obs generation_id now severity f db =
     (if list_ex (\<lambda>r. obs_generation_id r = generation_id \<and> obs_finding_key r = local_key (fd_key f))
           (db_finding_observations db)
      then Inl ''UNIQUE constraint failed: finding_observations.generation_id, finding_observations.finding_key''
      else if \<not> list_ex (\<lambda>g. gen_generation_id g = generation_id) (db_generations db)
      then Inl ''FOREIGN KEY constraint failed''
      else Inr (db\<lparr>db_finding_observations := db_finding_observations db
             @ [observation_of (next_rowid (map obs_observation_id (db_finding_observations db)))
                  generation_id now severity f]\<rparr>))"

definition record_finding ::
  "(string \<Rightarrow> string option) \<Rightarrow> int \<Rightarrow> string \<Rightarrow> EscalationConfig \<Rightarrow> string \<Rightarrow> Finding \<Rightarrow> database \<Rightarrow> string + database"
where
  "record_finding retired generation_id now escalation origin_mode f db =
     (let severity = compute_severity (fd_kind f) (fd_state_kind f) (new_gens db generation_id f) escalation
      in res_bind (insert_obs generation_id now severity f db) (\<lambda>db.
         Inr (db\<lparr>db_warning_state :=
           upsert retired generation_id now origin_mode severity f (db_warning_state db)\<rparr>)))"

section \<open>Stability\<close>

definition stability_of :: "database \<Rightarrow> int \<Rightarrow> Finding \<Rightarrow> string" where
  "stability_of db generation_id f =
     (let gens = (case row_at ws_key (fd_key f) (db_warning_state db) of
                    None \<Rightarrow> 0 | Some w \<Rightarrow> ws_consecutive_gens w)
      in if gens < 10 then ''new''
         else
           let window_start = generation_id - 24;
               observed_in_window = int (length (remdups (map obs_generation_id
                 (filter (\<lambda>r. obs_finding_key r = local_key (fd_key f) \<and> obs_generation_id r > window_start)
                   (db_finding_observations db)))));
               gaps = min 24 generation_id - observed_in_window
           in if gaps \<ge> 2 then ''flickering'' else ''stable'')"

definition set_stability :: "int \<Rightarrow> Finding \<Rightarrow> database \<Rightarrow> database" where
  "set_stability generation_id f db =
     db\<lparr>db_warning_state :=
       update_where (\<lambda>w. ws_key w = fd_key f) (ws_stability_update (\<lambda>_. Some (stability_of db generation_id f)))
         (db_warning_state db)\<rparr>"

section \<open>Masking and recovery\<close>

definition masking_rules_for :: "warning_state_row list \<Rightarrow> string \<Rightarrow> MaskingRule list" where
  "masking_rules_for rows host =
     [rule. rule \<leftarrow> MASKING_RULES,
        row \<leftarrow> filter (\<lambda>w. ws_kind w = mr_parent_kind rule \<and> ws_visibility_state w = ''observed'') rows,
        ws_host row = host]"

definition masking_reason :: "warning_state_row list \<Rightarrow> string \<Rightarrow> string \<Rightarrow> string option" where
  "masking_reason rows host kind =
     (let is_parent_kind = list_ex (\<lambda>r. mr_parent_kind r = kind) MASKING_RULES
      in if host \<noteq> [] \<and> \<not> is_parent_kind then
           map_option mr_suppression_reason
             (find (\<lambda>r. case mr_child_kind_prefix r of
                          None \<Rightarrow> True | Some pre \<Rightarrow> strip_prefix pre kind \<noteq> None)
               (masking_rules_for rows host))
         else None)"

definition suppress_row :: "int \<Rightarrow> string \<Rightarrow> warning_state_row \<Rightarrow> warning_state_row" where
  "suppress_row generation_id reason w =
     w\<lparr>ws_visibility_state := ''suppressed'', ws_suppression_kind := Some ''ancestor_loss'',
       ws_suppression_reason := Some reason,
       ws_suppressed_since_gen :=
         (case ws_suppressed_since_gen w of None \<Rightarrow> Some generation_id | Some g \<Rightarrow> Some g)\<rparr>"

definition inc_absent_row :: "warning_state_row \<Rightarrow> warning_state_row" where
  "inc_absent_row w = w\<lparr>ws_absent_gens := ws_absent_gens w + 1, ws_stability := Some ''recovering''\<rparr>"

definition recovery_window :: int where
  "recovery_window = 3"

text \<open>One step of the loop over the rows as they were read before it.\<close>

definition age_row ::
  "(string \<Rightarrow> string \<Rightarrow> string option) \<Rightarrow> int \<Rightarrow> (string \<times> string \<times> string) set
     \<Rightarrow> (string \<times> string \<times> string) \<times> int \<Rightarrow> warning_state_row list \<Rightarrow> warning_state_row list"
where
  "age_row masking generation_id active_keys existing rows =
     (case existing of (key, absent) \<Rightarrow>
        if key \<in> active_keys then rows
        else
          case masking (fst key) (fst (snd key)) of
            Some reason \<Rightarrow> update_where (\<lambda>w. ws_key w = key) (suppress_row generation_id reason) rows
          | None \<Rightarrow>
              if absent + 1 \<ge> recovery_window then delete_where (\<lambda>w. ws_key w = key) rows
              else update_where (\<lambda>w. ws_key w = key) inc_absent_row rows)"

definition age_missing :: "int \<Rightarrow> Finding list \<Rightarrow> warning_state_row list \<Rightarrow> warning_state_row list" where
  "age_missing generation_id findings rows =
     fold (age_row (masking_reason rows) generation_id (set (map fd_key findings)))
       (map (\<lambda>w. (ws_key w, ws_absent_gens w)) rows) rows"

section \<open>Expiry of work states\<close>

definition work_state_expired :: "string \<Rightarrow> warning_state_row \<Rightarrow> bool" where
  "work_state_expired now w \<longleftrightarrow>
     (case ws_ack_expires_at w of None \<Rightarrow> False | Some t \<Rightarrow> t < now)
     \<and> ws_work_state w \<in> {''acknowledged'', ''quiesced'', ''suppressed''}"

definition reset_work_state :: "string \<Rightarrow> warning_state_row \<Rightarrow> warning_state_row" where
  "reset_work_state now w =
     w\<lparr>ws_work_state := ''new'', ws_work_state_at := Some now,
       ws_acknowledged := (if ws_work_state w = ''acknowledged'' then 0 else ws_acknowledged w),
       ws_acknowledged_at := (if ws_work_state w = ''acknowledged'' then None else ws_acknowledged_at w),
       ws_ack_expires_at := None\<rparr>"

text \<open>Rows appended to \<open>finding_transitions\<close>, each with the next rowid.\<close>

definition insert_transition :: "transition_row \<Rightarrow> transition_row list \<Rightarrow> transition_row list" where
  "insert_transition t ts = ts @ [t\<lparr>tr_transition_id := next_rowid (map tr_transition_id ts)\<rparr>]"

definition expiry_transition :: "string \<Rightarrow> warning_state_row \<Rightarrow> transition_row" where
  "expiry_transition now w =
     \<lparr>tr_transition_id = 0, tr_host = ws_host w, tr_kind = ws_kind w, tr_subject = ws_subject w,
      tr_from_state = Some (ws_work_state w), tr_to_state = ''new'', tr_changed_by = Some ''nq-lifecycle'',
      tr_note = Some ''work-state TTL expired'', tr_created_at = now\<rparr>"

definition expire_work_states :: "string \<Rightarrow> database \<Rightarrow> database" where
  "expire_work_states now db =
     db\<lparr>db_finding_transitions :=
          fold (\<lambda>w. insert_transition (expiry_transition now w))
            (filter (work_state_expired now) (db_warning_state db)) (db_finding_transitions db),
        db_warning_state := update_where (work_state_expired now) (reset_work_state now) (db_warning_state db)\<rparr>"

section \<open>Collection of vanished entities\<close>

definition entity_gc_threshold :: int where
  "entity_gc_threshold = 10"

definition entity_gone :: "database \<Rightarrow> warning_state_row \<Rightarrow> bool" where
  "entity_gone db w \<longleftrightarrow>
     ws_host w \<noteq> [] \<and> ws_visibility_state w = ''observed''
     \<and> ws_host w \<notin> cur_host ` (set (db_hosts_current db) \<union> set (db_services_current db)
          \<union> set (db_metrics_current db) \<union> set (db_log_observations_current db))"

definition entity_present :: "database \<Rightarrow> warning_state_row \<Rightarrow> bool" where
  "entity_present db w \<longleftrightarrow>
     ws_host w \<noteq> [] \<and> ws_host w \<in> cur_host ` (set (db_hosts_current db) \<union> set (db_services_current db))"

definition collect_entities :: "database \<Rightarrow> warning_state_row list \<Rightarrow> warning_state_row list" where
  "collect_entities db rows =
     delete_where (\<lambda>w. ws_entity_gone_gens w > entity_gc_threshold)
       (update_where (entity_present db) (ws_entity_gone_gens_update (\<lambda>_. 0))
         (update_where (entity_gone db) (ws_entity_gone_gens_update (\<lambda>n. n + 1)) rows))"

section \<open>The update\<close>

definition record_lineage :: "int \<Rightarrow> Finding list \<Rightarrow> database \<Rightarrow> database" where
  "record_lineage generation_id findings db =
     db\<lparr>db_generations :=
       update_where (\<lambda>g. gen_generation_id g = generation_id)
         (\<lambda>g. g\<lparr>gen_findings_observed := int (length findings),
                gen_detectors_run := int (length (remdups (map fd_kind findings))),
                gen_findings_suppressed :=
                  int (length (filter (\<lambda>w. ws_visibility_state w = ''suppressed'') (db_warning_state db)))\<rparr>)
         (db_generations db)\<rparr>"

definition update_warning_state_inner ::
  "string \<Rightarrow> int \<Rightarrow> Finding list \<Rightarrow> EscalationConfig \<Rightarrow> string \<Rightarrow> database \<Rightarrow> string + database"
where
  "update_warning_state_inner now generation_id findings escalation origin_mode db =
     res_bind (try_fold (record_finding (retired_source_map db) generation_id now escalation origin_mode) findings db)
       (\<lambda>recorded.
     let stable = fold (set_stability generation_id) findings recorded;
         aged = stable\<lparr>db_warning_state := age_missing generation_id findings (db_warning_state stable)\<rparr>;
         expired = expire_work_states now aged;
         collected = expired\<lparr>db_warning_state := collect_entities expired (db_warning_state expired)\<rparr>
     in Inr (record_lineage generation_id findings collected))"

section \<open>Composition of coverage findings\<close>

definition orphan_hygiene_finding :: "string \<Rightarrow> string \<Rightarrow> string \<Rightarrow> Finding" where
  "orphan_hygiene_finding host bad_ref child_key =
     \<lparr>fd_host = host, fd_domain = [CHR 0xCE, CHR 0x94, CHR ''s''],
      fd_kind = ''health_claim_misleading_orphan_ref'', fd_subject = bad_ref,
      fd_message = ''child: '' @ child_key, fd_value = None, fd_finding_class = ''meta'',
      fd_rule_hash = None, fd_state_kind = SK_Informational,
      fd_diagnosis = Some
        \<lparr>dg_failure_class = FC_Drift, dg_service_impact = SI_NoneCurrent,
         dg_action_bias = AB_InvestigateBusinessHours,
         dg_synopsis = ''health_claim_misleading references missing or non-observed coverage_degraded parent.'',
         dg_why_care = ''Derived finding has no admissible parent '' @ [CHR 0xE2, CHR 0x80, CHR 0x94]
           @ '' either the producer is stale, or the parent was cleared/suppressed without the child being retracted.''\<rparr>,
      fd_basis_source_id = None, fd_basis_witness_id = None, fd_coverage_envelope = None,
      fd_node_unobservable_envelope = None\<rparr>"

definition open_parents :: "warning_state_row list \<Rightarrow> Finding list \<Rightarrow> string set" where
  "open_parents rows findings =
     set (map (\<lambda>f. local_key (fd_key f)) (filter (\<lambda>f. fd_kind f = ''coverage_degraded'') findings))
     \<union> set (map (\<lambda>w. local_key (ws_key w))
          (filter (\<lambda>w. ws_kind w = ''coverage_degraded'' \<and> ws_visibility_state w = ''observed'') rows))"

fun orphan_ref :: "string set \<Rightarrow> Finding \<Rightarrow> string option" where
  "orphan_ref parents f =
     (if fd_kind f \<noteq> ''health_claim_misleading'' then None
      else
        case fd_coverage_envelope f of
          Some (CE_HealthClaimMisleading env) \<Rightarrow>
            if hcm_coverage_degraded_ref env \<in> parents then None else Some (hcm_coverage_degraded_ref env)
        | _ \<Rightarrow> None)"

text \<open>The map of orphans: the first child recorded for a host and a reference stays.\<close>

definition add_orphan ::
  "string set \<Rightarrow> Finding \<Rightarrow> ((string \<times> string) \<times> string) list \<Rightarrow> ((string \<times> string) \<times> string) list"
where
  "add_orphan parents f orphans =
     (case orphan_ref parents f of
        None \<Rightarrow> orphans
      | Some parent_ref \<Rightarrow>
          if map_of orphans (fd_host f, parent_ref) = None
          then orphans @ [((fd_host f, parent_ref), local_key (fd_key f))] else orphans)"

definition validate_coverage_composition ::
  "(((string \<times> string) \<times> string) list \<Rightarrow> ((string \<times> string) \<times> string) list)
     \<Rightarrow> database \<Rightarrow> Finding list \<Rightarrow> Finding list"
where
  "validate_coverage_composition hash_order db findings =
     map (\<lambda>((host, bad_ref), child_key). orphan_hygiene_finding host bad_ref child_key)
       (hash_order (fold (add_orphan (open_parents (db_warning_state db) findings)) findings []))"

section \<open>Overlays\<close>

definition clear_suppression :: "warning_state_row \<Rightarrow> warning_state_row" where
  "clear_suppression w =
     w\<lparr>ws_visibility_state := ''observed'', ws_suppression_kind := None, ws_suppression_declaration_id := None,
       ws_suppression_reason := None, ws_suppressed_since_gen := None\<rparr>"

text \<open>\<open>NOT IN\<close> is not true of \<open>NULL\<close>.\<close>

definition orphaned_declaration :: "Declaration list \<Rightarrow> warning_state_row \<Rightarrow> bool" where
  "orphaned_declaration active w \<longleftrightarrow>
     ws_suppression_kind w = Some ''operator_declaration''
     \<and> (active = [] \<or> (case ws_suppression_declaration_id w of
          None \<Rightarrow> False | Some i \<Rightarrow> i \<notin> set (map dl_declaration_id active)))"

definition declare_row :: "int \<Rightarrow> Declaration \<Rightarrow> warning_state_row \<Rightarrow> warning_state_row" where
  "declare_row generation_id d w =
     w\<lparr>ws_visibility_state := ''suppressed'', ws_suppression_kind := Some ''operator_declaration'',
       ws_suppression_declaration_id := Some (dl_declaration_id d), ws_suppression_reason := None,
       ws_suppressed_since_gen :=
         (case ws_suppressed_since_gen w of None \<Rightarrow> Some generation_id | Some g \<Rightarrow> Some g)\<rparr>"

definition withdraws :: "Declaration \<Rightarrow> bool" where
  "withdraws d \<longleftrightarrow> dl_subject_kind d = SubjectHost \<and> dl_mode d = Withdrawn"

definition apply_declaration_overlay :: "int \<Rightarrow> Declaration list \<Rightarrow> database \<Rightarrow> database" where
  "apply_declaration_overlay generation_id active db =
     db\<lparr>db_warning_state :=
       fold (\<lambda>d. update_where (\<lambda>w. ws_host w = dl_subject_id d) (declare_row generation_id d))
         (filter withdraws active)
         (update_where (orphaned_declaration active) clear_suppression (db_warning_state db))\<rparr>"

definition in_scope :: "warning_state_row \<Rightarrow> maintenance_row \<Rightarrow> bool" where
  "in_scope w m \<longleftrightarrow>
     mt_host m = ws_host w \<and> mt_kind m = ws_kind w \<and> (mt_subject m = None \<or> mt_subject m = Some (ws_subject w))"

definition active_maintenance :: "maintenance_row list \<Rightarrow> string \<Rightarrow> warning_state_row \<Rightarrow> maintenance_row option" where
  "active_maintenance ms now w =
     latest_by (\<lambda>m. (mt_declared_at m, mt_maintenance_id m))
       (filter (\<lambda>m. in_scope w m \<and> mt_start_at m \<le> now \<and> mt_end_at m \<ge> now) ms)"

definition expired_maintenance :: "maintenance_row list \<Rightarrow> string \<Rightarrow> warning_state_row \<Rightarrow> maintenance_row option" where
  "expired_maintenance ms now w =
     latest_by (\<lambda>m. (mt_end_at m, mt_declared_at m, mt_maintenance_id m))
       (filter (\<lambda>m. in_scope w m \<and> mt_end_at m < now) ms)"

definition maintain_row :: "maintenance_row list \<Rightarrow> string \<Rightarrow> warning_state_row \<Rightarrow> warning_state_row" where
  "maintain_row ms now w =
     (case active_maintenance ms now w of
        Some m \<Rightarrow> w\<lparr>ws_maintenance_state := ''covered'', ws_maintenance_id := Some (mt_maintenance_id m)\<rparr>
      | None \<Rightarrow>
          (case expired_maintenance ms now w of
             Some m \<Rightarrow> w\<lparr>ws_maintenance_state := ''overrun'', ws_maintenance_id := Some (mt_maintenance_id m)\<rparr>
           | None \<Rightarrow>
               if ws_maintenance_state w \<noteq> ''none''
               then w\<lparr>ws_maintenance_state := ''none'', ws_maintenance_id := None\<rparr> else w))"

definition apply_maintenance_overlay :: "string \<Rightarrow> database \<Rightarrow> database" where
  "apply_maintenance_overlay now db =
     db\<lparr>db_warning_state :=
       fold (\<lambda>k. update_where (\<lambda>w. ws_key w = k) (maintain_row (db_maintenance_declarations db) now))
         (map ws_key (db_warning_state db)) (db_warning_state db)\<rparr>"

section \<open>Entry points\<close>

definition VALID_ORIGIN_MODES :: "string list" where
  "VALID_ORIGIN_MODES = [''observed'', ''drill'', ''replay'', ''synthetic'']"

definition DEFAULT_ORIGIN_MODE :: string where
  "DEFAULT_ORIGIN_MODE = ''observed''"

record lifecycle_env =
  le_now :: string
  le_overlay_now :: string
  le_hash_order :: "((string \<times> string) \<times> string) list \<Rightarrow> ((string \<times> string) \<times> string) list"

definition update_warning_state_with_origin_mode ::
  "lifecycle_env \<Rightarrow> int \<Rightarrow> Finding list \<Rightarrow> EscalationConfig \<Rightarrow> Declaration list \<Rightarrow> string \<Rightarrow> database \<Rightarrow> string + database"
where
  "update_warning_state_with_origin_mode env generation_id findings escalation active origin_mode db =
     res_bind
       (refuse_if (origin_mode \<notin> set VALID_ORIGIN_MODES)
         (''origin_mode `'' @ origin_mode @ ''` is not in the closed vocabulary [''
            @ join_with '', '' (map debug_str VALID_ORIGIN_MODES) @ '']'')) (\<lambda>_.
     let composition_hygiene = validate_coverage_composition (le_hash_order env) db findings;
         combined = (if composition_hygiene = [] then findings else findings @ composition_hygiene)
     in res_bind (update_warning_state_inner (le_now env) generation_id combined escalation origin_mode db) (\<lambda>db.
        Inr (apply_maintenance_overlay (le_overlay_now env) (apply_declaration_overlay generation_id active db))))"

definition update_warning_state_with_declarations ::
  "lifecycle_env \<Rightarrow> int \<Rightarrow> Finding list \<Rightarrow> EscalationConfig \<Rightarrow> Declaration list \<Rightarrow> database \<Rightarrow> string + database"
where
  "update_warning_state_with_declarations env generation_id findings escalation active db =
     update_warning_state_with_origin_mode env generation_id findings escalation active DEFAULT_ORIGIN_MODE db"

definition update_warning_state ::
  "lifecycle_env \<Rightarrow> int \<Rightarrow> Finding list \<Rightarrow> EscalationConfig \<Rightarrow> database \<Rightarrow> string + database"
where
  "update_warning_state env generation_id findings escalation db =
     update_warning_state_with_declarations env generation_id findings escalation [] db"

section \<open>Finding keys identify findings\<close>

lemma hex_upper_inject: "m < 16 \<Longrightarrow> n < 16 \<Longrightarrow> hex_upper m = hex_upper n \<longleftrightarrow> m = n"
  by (auto simp: hex_upper_def split: if_splits)

lemma hex_upper_not_slash: "n < 16 \<Longrightarrow> hex_upper n \<noteq> CHR ''/''"
proof -
  assume "n < 16"
  then have "of_char (hex_upper n) \<noteq> (47 :: nat)" by (auto simp: hex_upper_def)
  then show ?thesis by auto
qed

lemma not_unreserved: "\<not> unreserved (CHR ''%'')" "\<not> unreserved (CHR ''/'')"
  by (simp_all add: unreserved_def is_upper_def is_lower_def is_digit_def in_range_def)

lemma enc_Nil [simp]: "enc [] = []"
  by (simp add: enc_def)

lemma enc_Cons:
  "enc (b # s) = (if unreserved b then [b]
     else [CHR ''%'', hex_upper (of_char b div 16), hex_upper (of_char b mod 16)]) @ enc s"
  by (simp add: enc_def)

lemma hex_digits: "of_char (c :: char) div 16 < (16 :: nat)" "of_char c mod 16 < (16 :: nat)"
  using less_mult_imp_div_less [of "of_char c" 16 16] by simp_all

lemma enc_no_slash: "CHR ''/'' \<notin> set (enc s)"
proof (induction s)
  case (Cons b s)
  have "b \<noteq> CHR ''/''" if "unreserved b" using that not_unreserved by metis
  with Cons hex_upper_not_slash [OF hex_digits(1) [of b]] hex_upper_not_slash [OF hex_digits(2) [of b]] show ?case by (auto simp: enc_Cons)
qed simp

lemma enc_inject: "enc s = enc t \<Longrightarrow> s = t"
proof (induction s arbitrary: t)
  case Nil
  then show ?case by (cases t) (auto simp: enc_Cons split: if_splits)
next
  case (Cons b s)
  have pct: "unreserved x \<Longrightarrow> x \<noteq> CHR ''%''" for x using not_unreserved(1) by metis
  from Cons.prems obtain c t' where t: "t = c # t'" by (cases t) (auto simp: enc_Cons split: if_splits)
  have "of_char b = (of_char c :: nat)"
    if "hex_upper (of_char b div 16) = hex_upper (of_char c div 16)"
       "hex_upper (of_char b mod 16) = hex_upper (of_char c mod 16)"
    using that hex_upper_inject [OF hex_digits(1) hex_digits(1)] hex_upper_inject [OF hex_digits(2) hex_digits(2)] by (metis div_mult_mod_eq)
  then have "b = c \<and> enc s = enc t'" using Cons.prems pct unfolding t by (auto simp: enc_Cons split: if_splits)
  with Cons.IH t show ?case by simp
qed

lemma local_key_inject [simp]: "local_key k = local_key k' \<longleftrightarrow> k = k'"
proof -
  obtain h d s h' d' s' where k: "k = (h, d, s)" "k' = (h', d', s')" by (metis prod_cases3)
  have split: "split_on (CHR ''/'') (enc a @ CHR ''/'' # enc b @ CHR ''/'' # enc c) = [enc a, enc b, enc c]" for a b c
    by (simp add: split_on_append_sep enc_no_slash split_on_no_sep)
  have "local_key k = local_key k' \<longleftrightarrow> [enc h, enc d, enc s] = [enc h', enc d', enc s']"
  proof
    assume "local_key k = local_key k'"
    then have "enc h @ CHR ''/'' # enc d @ CHR ''/'' # enc s = enc h' @ CHR ''/'' # enc d' @ CHR ''/'' # enc s'"
      by (simp add: local_key_def compute_finding_key_def k)
    then show "[enc h, enc d, enc s] = [enc h', enc d', enc s']" by (metis split)
  qed (simp add: local_key_def compute_finding_key_def k)
  then show ?thesis unfolding k using enc_inject by auto
qed

end
