(* ===== verification/Lifecycle_Rows.thy ===== *)
theory Lifecycle_Rows
  imports Lifecycle
begin

text \<open>
  What the lifecycle engine does to each row of \<open>warning_state\<close>. The update is a sequence of
  statements over whole tables; here it is refined to a function from the row and the finding
  of one key to the next row of that key. Recording, the presence pattern, masking and aging,
  the expiry of work states, the collection of vanished entities and the overlays are each
  shown to act row by row, and the update succeeds on exactly the inputs the tables accept.
\<close>

section \<open>Recording the findings of a generation\<close>

interpretation updated: keyed_update ws_key "updated_row retired generation_id now origin_mode severity f"
  for retired generation_id now origin_mode severity f
  by unfold_locales (simp add: ws_key_def updated_row_def split: prod.splits)

lemma inserted_row_key: "ws_key (inserted_row retired g now origin severity f) = fd_key f"
  by (simp add: inserted_row_def ws_key_def fd_key_def split: prod.splits)

lemma new_gens_row:
  "new_gens db g f =
     (case row_at ws_key (fd_key f) (db_warning_state db) of None \<Rightarrow> 1 | Some w \<Rightarrow> upsert_gens g f w)"
  by (auto simp: new_gens_def upsert_gens_def Let_def split: option.splits)

text \<open>What recording a finding makes of the row it finds: the severity is that of the stored count.\<close>

definition upserted ::
  "(string \<Rightarrow> string option) \<Rightarrow> int \<Rightarrow> string \<Rightarrow> EscalationConfig \<Rightarrow> string \<Rightarrow> Finding \<Rightarrow> warning_state_row option
     \<Rightarrow> warning_state_row"
where
  "upserted retired g now esc origin f prev =
     (case prev of
        None \<Rightarrow> inserted_row retired g now origin (compute_severity (fd_kind f) (fd_state_kind f) 1 esc) f
      | Some w \<Rightarrow> updated_row retired g now origin
          (compute_severity (fd_kind f) (fd_state_kind f) (upsert_gens g f w) esc) f w)"

lemma upsert_row_at:
  "row_at ws_key k (upsert retired g now origin severity f rows) =
     (if k = fd_key f
      then Some (case row_at ws_key k rows of
          None \<Rightarrow> inserted_row retired g now origin severity f
        | Some w \<Rightarrow> updated_row retired g now origin severity f w)
      else row_at ws_key k rows)"
proof -
  have "ws_key w = k" if "row_at ws_key k rows = Some w" for w using row_at_some [OF that] by blast
  then show ?thesis
    by (auto simp: upsert_def row_at_append updated.row_at_update inserted_row_key option.map_comp
        split: option.splits)
qed

lemma upsert_keys:
  assumes "distinct (map ws_key rows)"
  shows "distinct (map ws_key (upsert retired g now origin severity f rows))"
  using assms by (auto simp: upsert_def updated.map_key_update inserted_row_key row_at_none)

lemma insert_obs_ok:
  "insert_obs g now severity f db = Inr db' \<longleftrightarrow>
     (g, local_key (fd_key f)) \<notin> (\<lambda>r. (obs_generation_id r, obs_finding_key r)) ` set (db_finding_observations db)
     \<and> g \<in> gen_generation_id ` set (db_generations db)
     \<and> db' = db\<lparr>db_finding_observations := db_finding_observations db
         @ [observation_of (next_rowid (map obs_observation_id (db_finding_observations db))) g now severity f]\<rparr>"
proof -
  have "list_ex (\<lambda>r. obs_generation_id r = g \<and> obs_finding_key r = local_key (fd_key f)) (db_finding_observations db)
      \<longleftrightarrow> (g, local_key (fd_key f)) \<in> (\<lambda>r. (obs_generation_id r, obs_finding_key r)) ` set (db_finding_observations db)"
    "list_ex (\<lambda>x. gen_generation_id x = g) (db_generations db) \<longleftrightarrow> g \<in> gen_generation_id ` set (db_generations db)"
    by (force simp: list_ex_iff)+
  then show ?thesis unfolding insert_obs_def by auto
qed

lemma record_finding_ok:
  "record_finding retired g now esc origin f db = Inr db' \<longleftrightarrow>
     (g, local_key (fd_key f)) \<notin> (\<lambda>r. (obs_generation_id r, obs_finding_key r)) ` set (db_finding_observations db)
     \<and> g \<in> gen_generation_id ` set (db_generations db)
     \<and> (let severity = compute_severity (fd_kind f) (fd_state_kind f) (new_gens db g f) esc
        in db' = db\<lparr>db_finding_observations := db_finding_observations db
             @ [observation_of (next_rowid (map obs_observation_id (db_finding_observations db))) g now severity f],
             db_warning_state := upsert retired g now origin severity f (db_warning_state db)\<rparr>)"
  by (auto simp: record_finding_def Let_def res_bind_Inr_iff insert_obs_ok)

lemma record_finding_row:
  assumes "record_finding retired g now esc origin f db = Inr db'"
  shows "row_at ws_key k (db_warning_state db') =
    (if k = fd_key f then Some (upserted retired g now esc origin f (row_at ws_key k (db_warning_state db)))
     else row_at ws_key k (db_warning_state db))"
  using assms
  by (auto simp: record_finding_ok Let_def upsert_row_at upserted_def new_gens_row split: option.splits)

lemma record_finding_keys:
  assumes "record_finding retired g now esc origin f db = Inr db'" "distinct (map ws_key (db_warning_state db))"
  shows "distinct (map ws_key (db_warning_state db'))"
  using assms by (auto simp: record_finding_ok Let_def upsert_keys)

definition obs_key :: "observation_row \<Rightarrow> int \<times> string" where
  "obs_key r = (obs_generation_id r, obs_finding_key r)"

lemma observation_key [simp]: "obs_key (observation_of i g now severity f) = (g, local_key (fd_key f))"
  by (simp add: obs_key_def observation_of_def)

lemma record_all_ok:
  "(\<exists>db'. try_fold (record_finding retired g now esc origin) fs db = Inr db') \<longleftrightarrow>
     fs = [] \<or> g \<in> gen_generation_id ` set (db_generations db) \<and> distinct (map fd_key fs)
       \<and> (\<forall>f \<in> set fs. (g, local_key (fd_key f)) \<notin> obs_key ` set (db_finding_observations db))"
proof (induction fs arbitrary: db)
  case (Cons f fs)
  let ?go = "record_finding retired g now esc origin"
  show ?case
  proof (cases "\<exists>d. ?go f db = Inr d")
    case True
    then obtain d where d: "?go f db = Inr d" by blast
    then have f: "(g, local_key (fd_key f)) \<notin> obs_key ` set (db_finding_observations db)"
        "g \<in> gen_generation_id ` set (db_generations db)" "db_generations d = db_generations db"
        "obs_key ` set (db_finding_observations d) = insert (g, local_key (fd_key f)) (obs_key ` set (db_finding_observations db))"
      by (auto simp: record_finding_ok Let_def obs_key_def [abs_def] observation_of_def)
    have "(\<exists>db'. try_fold ?go (f # fs) db = Inr db') \<longleftrightarrow> (\<exists>db'. try_fold ?go fs d = Inr db')" using d by simp
    also have "\<dots> \<longleftrightarrow> g \<in> gen_generation_id ` set (db_generations db) \<and> distinct (map fd_key (f # fs))
       \<and> (\<forall>f \<in> set (f # fs). (g, local_key (fd_key f)) \<notin> obs_key ` set (db_finding_observations db))"
      unfolding Cons.IH [of d] f(3,4) using f(1,2) by (auto simp: image_iff)
    finally show ?thesis by simp
  next
    case False
    then show ?thesis
      by (auto simp: record_finding_ok Let_def obs_key_def [abs_def] res_bind_Inr_iff)
  qed
qed simp

lemma record_all_row:
  assumes "try_fold (record_finding retired g now esc origin) fs db = Inr db'" "distinct (map fd_key fs)"
  shows "row_at ws_key k (db_warning_state db') =
    (case find (\<lambda>f. fd_key f = k) fs of
       None \<Rightarrow> row_at ws_key k (db_warning_state db)
     | Some f \<Rightarrow> Some (upserted retired g now esc origin f (row_at ws_key k (db_warning_state db))))"
  using assms
proof (induction fs arbitrary: db)
  case (Cons f fs)
  then obtain d where d: "record_finding retired g now esc origin f db = Inr d"
      "try_fold (record_finding retired g now esc origin) fs d = Inr db'"
    by (auto simp: res_bind_Inr_iff)
  have "find (\<lambda>f. fd_key f = k) fs = None" if "fd_key f = k"
    using Cons.prems(2) that by (auto simp: find_None_iff image_iff)
  with Cons.IH [OF d(2)] Cons.prems(2) record_finding_row [OF d(1), of k] show ?case
    by (auto split: option.splits)
qed simp

text \<open>The tables that recording leaves alone, and the observations it appends.\<close>

lemma record_all_frame:
  assumes "try_fold (record_finding retired g now esc origin) fs db = Inr db'"
  shows "db_generations db' = db_generations db" "db_finding_transitions db' = db_finding_transitions db"
    "db_sources_retired db' = db_sources_retired db"
    "db_maintenance_declarations db' = db_maintenance_declarations db"
    "db_hosts_current db' = db_hosts_current db" "db_services_current db' = db_services_current db"
    "db_metrics_current db' = db_metrics_current db"
    "db_log_observations_current db' = db_log_observations_current db"
    "distinct (map ws_key (db_warning_state db)) \<Longrightarrow> distinct (map ws_key (db_warning_state db'))"
proof -
  have "db_generations db' = db_generations db \<and> db_finding_transitions db' = db_finding_transitions db
    \<and> db_sources_retired db' = db_sources_retired db
    \<and> db_maintenance_declarations db' = db_maintenance_declarations db
    \<and> db_hosts_current db' = db_hosts_current db \<and> db_services_current db' = db_services_current db
    \<and> db_metrics_current db' = db_metrics_current db
    \<and> db_log_observations_current db' = db_log_observations_current db
    \<and> (distinct (map ws_key (db_warning_state db)) \<longrightarrow> distinct (map ws_key (db_warning_state db')))"
    by (rule try_fold_invariant [OF assms])
      (auto simp: record_finding_ok Let_def upsert_keys)
  then show "db_generations db' = db_generations db" "db_finding_transitions db' = db_finding_transitions db"
    "db_sources_retired db' = db_sources_retired db"
    "db_maintenance_declarations db' = db_maintenance_declarations db"
    "db_hosts_current db' = db_hosts_current db" "db_services_current db' = db_services_current db"
    "db_metrics_current db' = db_metrics_current db"
    "db_log_observations_current db' = db_log_observations_current db"
    "distinct (map ws_key (db_warning_state db)) \<Longrightarrow> distinct (map ws_key (db_warning_state db'))"
    by blast+
qed

lemma record_all_observations:
  assumes "try_fold (record_finding retired g now esc origin) fs db = Inr db'"
  shows "\<exists>rows. db_finding_observations db' = db_finding_observations db @ rows
    \<and> list_all2 (\<lambda>r f. \<exists>i severity. r = observation_of i g now severity f) rows fs
    \<and> (distinct (map obs_observation_id (db_finding_observations db))
         \<longrightarrow> distinct (map obs_observation_id (db_finding_observations db @ rows)))"
  using assms
proof (induction fs arbitrary: db)
  case (Cons f fs)
  then obtain d where d: "record_finding retired g now esc origin f db = Inr d"
      "try_fold (record_finding retired g now esc origin) fs d = Inr db'"
    by (auto simp: res_bind_Inr_iff)
  let ?id = "next_rowid (map obs_observation_id (db_finding_observations db))"
  from d(1) obtain severity where
    r: "db_finding_observations d = db_finding_observations db @ [observation_of ?id g now severity f]"
    by (auto simp: record_finding_ok Let_def)
  from Cons.IH [OF d(2)] obtain rows where
    rows: "db_finding_observations db' = db_finding_observations d @ rows"
      "list_all2 (\<lambda>r f. \<exists>i severity. r = observation_of i g now severity f) rows fs"
      "distinct (map obs_observation_id (db_finding_observations d))
         \<longrightarrow> distinct (map obs_observation_id (db_finding_observations d @ rows))" by blast
  have "obs_observation_id (observation_of ?id g now severity f) = ?id" by (simp add: observation_of_def)
  then have "distinct (map obs_observation_id (db_finding_observations db))
      \<longrightarrow> distinct (map obs_observation_id (db_finding_observations d))"
    using next_rowid_fresh [of "map obs_observation_id (db_finding_observations db)"] by (simp add: r)
  with rows(3) show ?case
    by (intro exI [of _ "observation_of ?id g now severity f # rows"]) (use r rows(1,2) in auto)
qed simp

section \<open>Stability\<close>

interpretation stability: keyed_update ws_key "ws_stability_update h" for h
  by unfold_locales (simp add: ws_key_def)

text \<open>The presence pattern of a finding, from its count and the generations it was observed in.\<close>

definition presence :: "int \<Rightarrow> int set \<Rightarrow> int \<Rightarrow> string" where
  "presence g seen gens =
     (if gens < 10 then ''new''
      else if min 24 g - int (card {i \<in> seen. g - 24 < i}) \<ge> 2 then ''flickering'' else ''stable'')"

definition seen_gens :: "database \<Rightarrow> string \<times> string \<times> string \<Rightarrow> int set" where
  "seen_gens db k = {obs_generation_id r | r. r \<in> set (db_finding_observations db) \<and> obs_finding_key r = local_key k}"

lemma stability_of_presence:
  assumes "row_at ws_key (fd_key f) (db_warning_state db) = Some w"
  shows "stability_of db g f = presence g (seen_gens db (fd_key f)) (ws_consecutive_gens w)"
proof -
  let ?l = "map obs_generation_id (filter (\<lambda>r. obs_finding_key r = local_key (fd_key f) \<and> obs_generation_id r > g - 24)
      (db_finding_observations db))"
  have "length (remdups ?l) = card (set ?l)" by (simp add: length_remdups_card_conv)
  also have "set ?l = {i \<in> seen_gens db (fd_key f). g - 24 < i}" by (auto simp: seen_gens_def)
  finally show ?thesis using assms by (simp add: stability_of_def presence_def Let_def)
qed

lemma set_stability_row:
  "row_at ws_key k (db_warning_state (set_stability g f db)) =
     map_option (\<lambda>w. if k = fd_key f then w\<lparr>ws_stability := Some (stability_of db g f)\<rparr> else w)
       (row_at ws_key k (db_warning_state db))"
proof -
  have "ws_key w = k" if "row_at ws_key k (db_warning_state db) = Some w" for w using row_at_some [OF that] by blast
  then show ?thesis by (auto simp: set_stability_def stability.row_at_update split: option.splits intro!: option.map_cong)
qed

lemma set_stability_frame:
  "db_finding_observations (set_stability g f db) = db_finding_observations db"
  "map ws_key (db_warning_state (set_stability g f db)) = map ws_key (db_warning_state db)"
  "\<exists>rows. set_stability g f db = db\<lparr>db_warning_state := rows\<rparr>"
  by (auto simp: set_stability_def stability.map_key_update)

lemma stability_unaffected: "stability_of (set_stability g f db) g f' = stability_of db g f'"
proof -
  have "(case row_at ws_key (fd_key f') (db_warning_state (set_stability g f db)) of
        None \<Rightarrow> 0 | Some w \<Rightarrow> ws_consecutive_gens w)
      = (case row_at ws_key (fd_key f') (db_warning_state db) of None \<Rightarrow> 0 | Some w \<Rightarrow> ws_consecutive_gens w)"
    by (simp add: set_stability_row split: option.split)
  then show ?thesis unfolding stability_of_def set_stability_frame(1) by (simp only:)
qed

lemma stabilise_row:
  assumes "distinct (map fd_key fs)"
  shows "row_at ws_key k (db_warning_state (fold (set_stability g) fs db)) =
    map_option (\<lambda>w. case find (\<lambda>f. fd_key f = k) fs of
        None \<Rightarrow> w | Some f \<Rightarrow> w\<lparr>ws_stability := Some (stability_of db g f)\<rparr>) (row_at ws_key k (db_warning_state db))"
  using assms
proof (induction fs arbitrary: db)
  case (Cons f fs)
  have "find (\<lambda>f. fd_key f = k) fs = None" if "fd_key f = k"
    using Cons.prems that by (auto simp: find_None_iff image_iff)
  with Cons show ?case
    by (auto simp: set_stability_row stability_unaffected option.map_comp o_def split: option.splits intro!: option.map_cong)
qed (simp add: option.map_ident)

lemma stabilise_keys:
  "map ws_key (db_warning_state (fold (set_stability g) fs db)) = map ws_key (db_warning_state db)"
  by (induction fs arbitrary: db) (simp_all add: set_stability_frame(2))

lemma stabilise_frame: "\<exists>rows. fold (set_stability g) fs db = db\<lparr>db_warning_state := rows\<rparr>"
proof (induction fs arbitrary: db)
  case Nil
  show ?case by (intro exI [of _ "db_warning_state db"]) simp
next
  case (Cons f fs)
  obtain rows where r: "set_stability g f db = db\<lparr>db_warning_state := rows\<rparr>" using set_stability_frame(3) by blast
  show ?case using Cons [of "set_stability g f db"] by (auto simp: r)
qed

section \<open>Masking\<close>

text \<open>A parent is seen when it is emitted in this generation or its row is visible.\<close>

definition parent_seen :: "warning_state_row list \<Rightarrow> Finding list \<Rightarrow> string \<Rightarrow> string \<Rightarrow> bool" where
  "parent_seen rows fs host kind \<longleftrightarrow>
     (\<exists>f \<in> set fs. fd_host f = host \<and> fd_kind f = kind)
     \<or> (\<exists>w \<in> set rows. ws_host w = host \<and> ws_kind w = kind \<and> ws_visibility_state w = ''observed'')"

definition is_parent_kind :: "string \<Rightarrow> bool" where
  "is_parent_kind kind \<longleftrightarrow> kind \<in> mr_parent_kind ` set MASKING_RULES"

definition masked_by :: "warning_state_row list \<Rightarrow> Finding list \<Rightarrow> string \<Rightarrow> string \<Rightarrow> string option" where
  "masked_by rows fs host kind =
     (if host = [] \<or> is_parent_kind kind then None
      else map_option mr_suppression_reason
        (find (\<lambda>r. parent_seen rows fs host (mr_parent_kind r)
            \<and> (case mr_child_kind_prefix r of None \<Rightarrow> True | Some pre \<Rightarrow> strip_prefix pre kind \<noteq> None)) MASKING_RULES))"

lemma find_concat_replicated:
  assumes "\<And>x. x \<in> set xs \<Longrightarrow> set (g x) \<subseteq> {x}"
  shows "find P (concat (map g xs)) = find (\<lambda>x. g x \<noteq> [] \<and> P x) xs"
  using assms
proof (induction xs)
  case (Cons x xs)
  have only: "set ys \<subseteq> {x} \<Longrightarrow> find P (ys @ zs) = (if ys \<noteq> [] \<and> P x then Some x else find P zs)" for ys zs
    by (induction ys) auto
  from Cons show ?case by (auto simp: only)
qed simp

lemma masking_reason_parents:
  "masking_reason rows host kind = masked_by rows [] host kind"
proof -
  define replicas where "replicas rule = [rule. row \<leftarrow> filter (\<lambda>w. ws_kind w = mr_parent_kind rule
      \<and> ws_visibility_state w = ''observed'') rows, ws_host row = host]" for rule :: MaskingRule
  have seen: "replicas rule \<noteq> [] \<longleftrightarrow> parent_seen rows [] host (mr_parent_kind rule)" for rule
    by (auto simp: parent_seen_def replicas_def)
  have rules: "masking_rules_for rows host = concat (map replicas MASKING_RULES)"
    by (simp add: masking_rules_for_def replicas_def [abs_def])
  have "find P (masking_rules_for rows host) = find (\<lambda>x. replicas x \<noteq> [] \<and> P x) MASKING_RULES" for P
    unfolding rules by (rule find_concat_replicated) (auto simp: replicas_def)
  then show ?thesis
    unfolding seen by (auto simp: masking_reason_def masked_by_def Let_def is_parent_kind_def list_ex_iff image_iff)
qed

lemma masked_by_cong:
  assumes "\<And>pk. parent_seen rows fs host pk = parent_seen rows' fs' host pk"
  shows "masked_by rows fs host kind = masked_by rows' fs' host kind"
  unfolding masked_by_def assms ..

lemma visible_rows:
  assumes "distinct (map ws_key rows)"
  shows "parent_seen rows [] host kind \<longleftrightarrow>
    (\<exists>s w. row_at ws_key (host, kind, s) rows = Some w \<and> ws_visibility_state w = ''observed'')"
  unfolding parent_seen_def row_at_iff [OF assms] by (auto simp: ws_key_def)

section \<open>Recovery\<close>

interpretation suppress: keyed_update ws_key "suppress_row generation_id reason" for generation_id reason
  by unfold_locales (simp add: ws_key_def suppress_row_def)

interpretation inc_absent: keyed_update ws_key inc_absent_row
  by unfold_locales (simp add: ws_key_def inc_absent_row_def)

lemma age_row_keys:
  "distinct (map ws_key rows) \<Longrightarrow> distinct (map ws_key (age_row m g act e rows))"
  by (auto simp: age_row_def suppress.map_key_update inc_absent.map_key_update keys_delete split: prod.splits option.splits)

definition aged :: "(string \<Rightarrow> string \<Rightarrow> string option) \<Rightarrow> int \<Rightarrow> warning_state_row \<Rightarrow> warning_state_row option" where
  "aged masking g w =
     (case masking (ws_host w) (ws_kind w) of
        Some reason \<Rightarrow> Some (suppress_row g reason w)
      | None \<Rightarrow> if ws_absent_gens w + 1 \<ge> recovery_window then None else Some (inc_absent_row w))"

lemma age_row_row:
  assumes "distinct (map ws_key rows)"
  shows "row_at ws_key k (age_row m g act (key, absent) rows) =
    (if k \<noteq> key \<or> key \<in> act then row_at ws_key k rows
     else case row_at ws_key k rows of
         None \<Rightarrow> None
       | Some w \<Rightarrow> (case m (fst key) (fst (snd key)) of
             Some reason \<Rightarrow> Some (suppress_row g reason w)
           | None \<Rightarrow> if absent + 1 \<ge> recovery_window then None else Some (inc_absent_row w)))"
proof -
  have "ws_key w = k" if "row_at ws_key k rows = Some w" for w using row_at_some [OF that] by blast
  then show ?thesis
    by (auto simp: age_row_def suppress.row_at_update inc_absent.row_at_update row_at_delete [OF assms]
        split: option.splits intro!: option.map_cong)
qed

lemma age_fold_row:
  assumes "distinct (map ws_key rows)" "distinct (map fst es)"
  shows "row_at ws_key k (fold (age_row m g act) es rows) =
    (case map_of es k of
       None \<Rightarrow> row_at ws_key k rows
     | Some absent \<Rightarrow> row_at ws_key k (age_row m g act (k, absent) rows))"
  using assms
proof (induction es arbitrary: rows)
  case (Cons e es)
  obtain key absent where e: "e = (key, absent)" by fastforce
  have "map_of es key = None" using Cons.prems(2) by (simp add: e map_of_eq_None_iff)
  with Cons.IH [OF age_row_keys [OF Cons.prems(1), of m g act e]] Cons.prems show ?case
    by (auto simp: e age_row_row age_row_keys split: option.splits)
qed simp

lemma age_fold_keys:
  "distinct (map ws_key rows) \<Longrightarrow> distinct (map ws_key (fold (age_row m g act) es rows))"
  by (induction es arbitrary: rows) (auto simp: age_row_keys)

lemma age_missing_row:
  assumes "distinct (map ws_key rows)"
  shows "row_at ws_key k (age_missing g fs rows) =
    (case row_at ws_key k rows of
       None \<Rightarrow> None
     | Some w \<Rightarrow> if k \<in> fd_key ` set fs then Some w else aged (masked_by rows [] ) g w)"
proof -
  let ?es = "map (\<lambda>w. (ws_key w, ws_absent_gens w)) rows"
  have d: "distinct (map fst ?es)" using assms by (simp add: o_def)
  have "map_of ?es k = map_option ws_absent_gens (row_at ws_key k rows)"
    by (induction rows) (auto simp: row_at_def)
  moreover have "ws_key w = k" if "row_at ws_key k rows = Some w" for w using row_at_some [OF that] by blast
  ultimately show ?thesis
    unfolding age_missing_def age_fold_row [OF assms d]
    by (auto simp: age_row_row [OF assms] aged_def ws_key_def masking_reason_parents split: option.splits)
qed

lemma age_missing_keys: "distinct (map ws_key rows) \<Longrightarrow> distinct (map ws_key (age_missing g fs rows))"
  by (simp add: age_missing_def age_fold_keys)

section \<open>Expiry and collection\<close>

interpretation reset: keyed_update ws_key "reset_work_state now" for now
  by unfold_locales (simp add: ws_key_def reset_work_state_def)

interpretation gone_gens: keyed_update ws_key "ws_entity_gone_gens_update h" for h
  by unfold_locales (simp add: ws_key_def)

interpretation cleared: keyed_update ws_key clear_suppression
  by unfold_locales (simp add: ws_key_def clear_suppression_def)

interpretation declare_row: keyed_update ws_key "declare_row generation_id d" for generation_id d
  by unfold_locales (simp add: ws_key_def declare_row_def)

interpretation maintain: keyed_update ws_key "maintain_row ms now" for ms now
  by unfold_locales (simp add: ws_key_def maintain_row_def split: option.split)

definition expired :: "string \<Rightarrow> warning_state_row \<Rightarrow> warning_state_row" where
  "expired now w = (if work_state_expired now w then reset_work_state now w else w)"

lemma expire_row:
  "row_at ws_key k (db_warning_state (expire_work_states now db)) =
     map_option (expired now) (row_at ws_key k (db_warning_state db))"
  by (simp add: expire_work_states_def reset.row_at_update expired_def [abs_def])

lemma expire_keys:
  "map ws_key (db_warning_state (expire_work_states now db)) = map ws_key (db_warning_state db)"
  by (simp add: expire_work_states_def reset.map_key_update)

definition gone_count :: "database \<Rightarrow> warning_state_row \<Rightarrow> int" where
  "gone_count db w =
     (if entity_present db w then 0
      else if entity_gone db w then ws_entity_gone_gens w + 1 else ws_entity_gone_gens w)"

definition collected :: "database \<Rightarrow> warning_state_row \<Rightarrow> warning_state_row option" where
  "collected db w =
     (if gone_count db w > entity_gc_threshold then None else Some (w\<lparr>ws_entity_gone_gens := gone_count db w\<rparr>))"

lemma entity_present_gone [simp]: "entity_present db (ws_entity_gone_gens_update h w) = entity_present db w"
  by (simp add: entity_present_def)

lemma gone_update_id: "w\<lparr>ws_entity_gone_gens := ws_entity_gone_gens w\<rparr> = w"
  by simp

lemma collected_eq:
  "(let w1 = (if entity_gone db w then ws_entity_gone_gens_update (\<lambda>n. n + 1) w else w);
        w2 = (if entity_present db w1 then ws_entity_gone_gens_update (\<lambda>_. 0) w1 else w1)
    in if ws_entity_gone_gens w2 > entity_gc_threshold then None else Some w2) = collected db w"
  by (cases "entity_gone db w"; cases "entity_present db w")
    (simp_all add: collected_def gone_count_def gone_update_id)

lemma collect_row:
  assumes "distinct (map ws_key rows)"
  shows "row_at ws_key k (collect_entities db rows) =
    (case row_at ws_key k rows of None \<Rightarrow> None | Some w \<Rightarrow> collected db w)"
proof -
  let ?u = "update_where (entity_present db) (ws_entity_gone_gens_update (\<lambda>_. 0))
         (update_where (entity_gone db) (ws_entity_gone_gens_update (\<lambda>n. n + 1)) rows)"
  have "distinct (map ws_key ?u)" using assms by (simp add: gone_gens.map_key_update)
  then show ?thesis
    unfolding collect_entities_def
    by (cases "row_at ws_key k rows")
      (simp_all add: row_at_delete gone_gens.row_at_update collected_eq [symmetric] Let_def)
qed

lemma collect_keys: "distinct (map ws_key rows) \<Longrightarrow> distinct (map ws_key (collect_entities db rows))"
  by (simp add: collect_entities_def keys_delete gone_gens.map_key_update)

section \<open>Overlays\<close>

definition declared :: "int \<Rightarrow> Declaration list \<Rightarrow> warning_state_row \<Rightarrow> warning_state_row" where
  "declared g active w =
     fold (\<lambda>d w. if ws_host w = dl_subject_id d then declare_row g d w else w) (filter withdraws active)
       (if orphaned_declaration active w then clear_suppression w else w)"

lemma declare_fold_row:
  "row_at ws_key k (fold (\<lambda>d. update_where (\<lambda>w. ws_host w = dl_subject_id d) (declare_row g d)) ds rows) =
     map_option (fold (\<lambda>d w. if ws_host w = dl_subject_id d then declare_row g d w else w) ds) (row_at ws_key k rows)"
  by (induction ds arbitrary: rows) (simp_all add: option.map_id declare_row.row_at_update option.map_comp o_def)

lemma declare_row_at:
  "row_at ws_key k (db_warning_state (apply_declaration_overlay g active db)) =
     map_option (declared g active) (row_at ws_key k (db_warning_state db))"
  by (simp add: apply_declaration_overlay_def declare_fold_row cleared.row_at_update option.map_comp o_def declared_def [abs_def])

lemma declare_keys:
  "map ws_key (db_warning_state (apply_declaration_overlay g active db)) = map ws_key (db_warning_state db)"
proof -
  have "map ws_key (fold (\<lambda>d. update_where (\<lambda>w. ws_host w = dl_subject_id d) (declare_row g d)) ds rows) = map ws_key rows"
    for ds rows by (induction ds arbitrary: rows) (simp_all add: declare_row.map_key_update)
  then show ?thesis by (simp add: apply_declaration_overlay_def cleared.map_key_update)
qed

lemma maintain_fold_row:
  assumes "distinct ks"
  shows "row_at ws_key k (fold (\<lambda>k. update_where (\<lambda>w. ws_key w = k) (maintain_row ms now)) ks rows) =
    map_option (\<lambda>w. if k \<in> set ks then maintain_row ms now w else w) (row_at ws_key k rows)"
  using assms
proof (induction ks arbitrary: rows)
  case (Cons a ks)
  have "ws_key w = k" if "row_at ws_key k rows = Some w" for w using row_at_some [OF that] by blast
  with Cons show ?case
    by (auto simp: maintain.row_at_update option.map_comp o_def intro!: option.map_cong)
qed (simp add: option.map_ident)

lemma maintain_keys:
  "map ws_key (db_warning_state (apply_maintenance_overlay now db)) = map ws_key (db_warning_state db)"
proof -
  have "map ws_key (fold (\<lambda>k. update_where (\<lambda>w. ws_key w = k) (maintain_row ms now)) ks rows) = map ws_key rows"
    for ms ks rows by (induction ks arbitrary: rows) (simp_all add: maintain.map_key_update)
  then show ?thesis by (simp add: apply_maintenance_overlay_def)
qed

lemma maintain_row_at:
  assumes "distinct (map ws_key (db_warning_state db))"
  shows "row_at ws_key k (db_warning_state (apply_maintenance_overlay now db)) =
    map_option (maintain_row (db_maintenance_declarations db) now) (row_at ws_key k (db_warning_state db))"
proof -
  have "k \<in> ws_key ` set (db_warning_state db)" if "row_at ws_key k (db_warning_state db) = Some w" for w
    using row_at_some [OF that] by blast
  then show ?thesis
    unfolding apply_maintenance_overlay_def
    by (auto simp: maintain_fold_row [OF assms] intro!: option.map_cong)
qed

section \<open>One generation, one row at a time\<close>

text \<open>
  The row a key has after an update, from the row and the finding it had before it: recorded
  and given its presence pattern when it was emitted, otherwise suppressed, aged or dropped;
  then the expiry of its work state, the collection of vanished entities, and the overlays.
\<close>

definition emitted ::
  "string \<Rightarrow> int \<Rightarrow> Finding list \<Rightarrow> EscalationConfig \<Rightarrow> string \<Rightarrow> database \<Rightarrow> string \<times> string \<times> string
     \<Rightarrow> Finding \<Rightarrow> warning_state_row"
where
  "emitted now g fs esc origin db k f =
     (let w = upserted (retired_source_map db) g now esc origin f (row_at ws_key k (db_warning_state db))
      in w\<lparr>ws_stability := Some (presence g (insert g (seen_gens db k)) (ws_consecutive_gens w))\<rparr>)"

definition next_row ::
  "lifecycle_env \<Rightarrow> int \<Rightarrow> Finding list \<Rightarrow> EscalationConfig \<Rightarrow> Declaration list \<Rightarrow> string \<Rightarrow> database
     \<Rightarrow> string \<times> string \<times> string \<Rightarrow> warning_state_row option"
where
  "next_row env g fs esc active origin db k =
     Option.bind
       (case find (\<lambda>f. fd_key f = k) fs of
          Some f \<Rightarrow> Some (emitted (le_now env) g fs esc origin db k f)
        | None \<Rightarrow> Option.bind (row_at ws_key k (db_warning_state db))
                    (aged (masked_by (db_warning_state db) fs) g))
       (\<lambda>w. map_option (\<lambda>w. maintain_row (db_maintenance_declarations db) (le_overlay_now env) (declared g active w))
              (collected db (expired (le_now env) w)))"

lemma entity_frame:
  assumes "db_hosts_current db' = db_hosts_current db" "db_services_current db' = db_services_current db"
    "db_metrics_current db' = db_metrics_current db" "db_log_observations_current db' = db_log_observations_current db"
  shows "collected db' w = collected db w"
  using assms by (simp add: collected_def gone_count_def entity_gone_def entity_present_def)

lemma find_key_iff: "find (\<lambda>f. fd_key f = k) fs = None \<longleftrightarrow> k \<notin> fd_key ` set fs"
  by (auto simp: find_None_iff)

text \<open>Recording and stability together, and the parents visible afterwards.\<close>

lemma recorded_row:
  assumes rec: "try_fold (record_finding (retired_source_map db) g now esc origin) fs db = Inr r"
    and d: "distinct (map fd_key fs)"
  shows "row_at ws_key k (db_warning_state (fold (set_stability g) fs r)) =
    (case find (\<lambda>f. fd_key f = k) fs of
       Some f \<Rightarrow> Some (emitted now g fs esc origin db k f)
     | None \<Rightarrow> row_at ws_key k (db_warning_state db))"
proof (cases "find (\<lambda>f. fd_key f = k) fs")
  case None
  with record_all_row [OF rec d, of k] show ?thesis
    by (simp add: stabilise_row [OF d] option.map_ident)
next
  case (Some f)
  then have f: "fd_key f = k" "f \<in> set fs" by (auto simp: find_Some_iff)
  let ?w = "upserted (retired_source_map db) g now esc origin f (row_at ws_key k (db_warning_state db))"
  have w: "row_at ws_key k (db_warning_state r) = Some ?w" using record_all_row [OF rec d, of k] Some by simp
  obtain rows where rows: "db_finding_observations r = db_finding_observations db @ rows"
      "list_all2 (\<lambda>r f. \<exists>i severity. r = observation_of i g now severity f) rows fs"
    using record_all_observations [OF rec] by blast
  have gens: "obs_generation_id x = g" if "x \<in> set rows" for x
    using rows(2) that by (auto simp: list_all2_conv_all_nth in_set_conv_nth observation_of_def)
  obtain x where x: "x \<in> set rows" "obs_finding_key x = local_key k"
    using rows(2) f by (fastforce simp: list_all2_conv_all_nth in_set_conv_nth observation_of_def)
  have "seen_gens r k = insert g (seen_gens db k)"
    using gens x unfolding seen_gens_def rows(1) by force
  with stability_of_presence [of f r ?w g] w f(1) Some show ?thesis
    by (simp add: stabilise_row [OF d] emitted_def Let_def)
qed

lemma upserted_observed: "ws_visibility_state (upserted r g now esc origin f prev) = ''observed''"
  by (simp add: upserted_def inserted_row_def updated_row_def split: option.split prod.split)

lemma recorded_parents:
  assumes rec: "try_fold (record_finding (retired_source_map db) g now esc origin) fs db = Inr r"
    and d: "distinct (map fd_key fs)" "distinct (map ws_key (db_warning_state db))"
  shows "parent_seen (db_warning_state (fold (set_stability g) fs r)) [] host kind
    \<longleftrightarrow> parent_seen (db_warning_state db) fs host kind"
proof -
  let ?rows = "db_warning_state (fold (set_stability g) fs r)"
  have dr: "distinct (map ws_key ?rows)" using record_all_frame(9) [OF rec d(2)] by (simp add: stabilise_keys)
  have "(\<exists>w. row_at ws_key (host, kind, s) ?rows = Some w \<and> ws_visibility_state w = ''observed'')
      \<longleftrightarrow> (\<exists>f \<in> set fs. fd_key f = (host, kind, s))
        \<or> (\<exists>w. row_at ws_key (host, kind, s) (db_warning_state db) = Some w \<and> ws_visibility_state w = ''observed'')" for s
  proof (cases "find (\<lambda>f. fd_key f = (host, kind, s)) fs")
    case None
    then have "\<not> (\<exists>f \<in> set fs. fd_key f = (host, kind, s))" by (auto simp: find_None_iff)
    with None show ?thesis unfolding recorded_row [OF rec d(1)] by simp
  next
    case (Some f)
    then have "fd_key f = (host, kind, s)" "f \<in> set fs" by (auto simp: find_Some_iff)
    with Some show ?thesis unfolding recorded_row [OF rec d(1)] by (auto simp: emitted_def Let_def upserted_observed)
  qed
  then show ?thesis
    unfolding visible_rows [OF dr] parent_seen_def [of "db_warning_state db" fs]
    using visible_rows [OF d(2), of host kind, unfolded parent_seen_def] by (auto simp: fd_key_def)
qed


lemma inner_rows:
  assumes upd: "update_warning_state_inner now g fs esc origin db = Inr db'"
    and k: "distinct (map ws_key (db_warning_state db))"
  shows "distinct (map ws_key (db_warning_state db'))"
    and "row_at ws_key key (db_warning_state db') =
      Option.bind
        (case find (\<lambda>f. fd_key f = key) fs of
           Some f \<Rightarrow> Some (emitted now g fs esc origin db key f)
         | None \<Rightarrow> Option.bind (row_at ws_key key (db_warning_state db)) (aged (masked_by (db_warning_state db) fs) g))
        (\<lambda>w. collected db (expired now w))"
    and "db_maintenance_declarations db' = db_maintenance_declarations db"
    and "db_sources_retired db' = db_sources_retired db"
    and "distinct (map fd_key fs)"
proof -
  from upd obtain r where rec: "try_fold (record_finding (retired_source_map db) g now esc origin) fs db = Inr r"
    and db': "db' = (let stable = fold (set_stability g) fs r;
         aged = stable\<lparr>db_warning_state := age_missing g fs (db_warning_state stable)\<rparr>;
         expired = expire_work_states now aged;
         collected = expired\<lparr>db_warning_state := collect_entities expired (db_warning_state expired)\<rparr>
       in record_lineage g fs collected)"
    by (auto simp: update_warning_state_inner_def res_bind_Inr_iff Let_def)
  from rec have "\<exists>x. try_fold (record_finding (retired_source_map db) g now esc origin) fs db = Inr x" by blast
  then show d: "distinct (map fd_key fs)" unfolding record_all_ok by auto
  let ?s = "fold (set_stability g) fs r"
  let ?a = "?s\<lparr>db_warning_state := age_missing g fs (db_warning_state ?s)\<rparr>"
  let ?e = "expire_work_states now ?a"
  let ?rows = "db_warning_state db"
  have ds: "distinct (map ws_key (db_warning_state ?s))"
    using record_all_frame(9) [OF rec k] by (simp add: stabilise_keys)
  have de: "distinct (map ws_key (db_warning_state ?e))" by (simp add: expire_keys age_missing_keys [OF ds])
  have fin: "db_warning_state db' = collect_entities ?e (db_warning_state ?e)"
    by (simp add: db' Let_def record_lineage_def)
  show "distinct (map ws_key (db_warning_state db'))" unfolding fin by (rule collect_keys [OF de])
  obtain rows where st: "?s = r\<lparr>db_warning_state := rows\<rparr>" using stabilise_frame by blast
  note frame = record_all_frame [OF rec]
  show "db_maintenance_declarations db' = db_maintenance_declarations db"
      "db_sources_retired db' = db_sources_retired db"
    by (simp_all add: db' Let_def record_lineage_def expire_work_states_def st frame)
  have col: "collected ?e w = collected db w" for w
    by (rule entity_frame) (simp_all add: expire_work_states_def st frame)
  have mask: "masked_by (db_warning_state ?s) [] = masked_by ?rows fs"
    by (intro ext masked_by_cong recorded_parents [OF rec d k])
  show "row_at ws_key key (db_warning_state db') =
      Option.bind
        (case find (\<lambda>f. fd_key f = key) fs of
           Some f \<Rightarrow> Some (emitted now g fs esc origin db key f)
         | None \<Rightarrow> Option.bind (row_at ws_key key ?rows) (aged (masked_by ?rows fs) g))
        (\<lambda>w. collected db (expired now w))"
  proof (cases "find (\<lambda>f. fd_key f = key) fs")
    case None
    then have "key \<notin> fd_key ` set fs" by (simp add: find_key_iff)
    with None show ?thesis unfolding fin collect_row [OF de] expire_row
      by (simp add: age_missing_row [OF ds] recorded_row [OF rec d] mask col split: option.split Option.bind_split)
  next
    case (Some f)
    then have "key \<in> fd_key ` set fs" using find_key_iff [of key fs] by simp
    with Some show ?thesis unfolding fin collect_row [OF de] expire_row
      by (simp add: age_missing_row [OF ds] recorded_row [OF rec d] col)
  qed
qed

lemma update_rows:
  assumes "distinct (map ws_key (db_warning_state db))"
    and "update_warning_state_with_origin_mode env g fs esc active origin db = Inr db'"
  shows "distinct (map ws_key (db_warning_state db'))
    \<and> (\<forall>k. row_at ws_key k (db_warning_state db') =
         next_row env g (fs @ validate_coverage_composition (le_hash_order env) db fs) esc active origin db k)"
proof -
  let ?all = "fs @ validate_coverage_composition (le_hash_order env) db fs"
  from assms(2) obtain i where i: "update_warning_state_inner (le_now env) g ?all esc origin db = Inr i"
    and db': "db' = apply_maintenance_overlay (le_overlay_now env) (apply_declaration_overlay g active i)"
    by (auto simp: update_warning_state_with_origin_mode_def Let_def res_bind_Inr_iff split: if_splits)
  note rows = inner_rows [OF i assms(1)]
  have d: "distinct (map ws_key (db_warning_state (apply_declaration_overlay g active i)))"
    using rows(1) by (simp add: declare_keys)
  have m: "db_maintenance_declarations (apply_declaration_overlay g active i) = db_maintenance_declarations db"
    using rows(3) by (simp add: apply_declaration_overlay_def)
  show ?thesis
    using d rows(2) unfolding db' next_row_def
    by (simp add: maintain_keys maintain_row_at [OF d] declare_row_at m option.map_comp o_def map_option_bind
        split: Option.bind_split)
qed

section \<open>What an update does\<close>

lemma inner_ok:
  "(\<exists>db'. update_warning_state_inner now g fs esc origin db = Inr db') \<longleftrightarrow>
     fs = [] \<or> g \<in> gen_generation_id ` set (db_generations db) \<and> distinct (map fd_key fs)
       \<and> (\<forall>f \<in> set fs. (g, local_key (fd_key f)) \<notin> obs_key ` set (db_finding_observations db))"
  unfolding record_all_ok [of "retired_source_map db" g now esc origin fs db, symmetric]
  by (auto simp: update_warning_state_inner_def res_bind_Inr_iff Let_def)

lemma update_ok:
  "(\<exists>db'. update_warning_state_with_origin_mode env g fs esc active origin db = Inr db') \<longleftrightarrow>
     origin \<in> set VALID_ORIGIN_MODES
     \<and> (let all = fs @ validate_coverage_composition (le_hash_order env) db fs
        in all = [] \<or> g \<in> gen_generation_id ` set (db_generations db) \<and> distinct (map fd_key all)
           \<and> (\<forall>f \<in> set all. (g, local_key (fd_key f)) \<notin> obs_key ` set (db_finding_observations db)))"
proof -
  let ?all = "fs @ validate_coverage_composition (le_hash_order env) db fs"
  have "(\<exists>db'. update_warning_state_with_origin_mode env g fs esc active origin db = Inr db') \<longleftrightarrow>
      origin \<in> set VALID_ORIGIN_MODES \<and> (\<exists>i. update_warning_state_inner (le_now env) g ?all esc origin db = Inr i)"
    by (auto simp: update_warning_state_with_origin_mode_def Let_def res_bind_Inr_iff refuse_if_ok split: if_splits)
  then show ?thesis unfolding inner_ok Let_def .
qed

text \<open>Orphans are reported once per host and reference.\<close>

lemma add_orphan_distinct:
  "distinct (map fst os) \<Longrightarrow> distinct (map fst (add_orphan parents f os))"
  by (auto simp: add_orphan_def map_of_eq_None_iff split: option.splits)

lemma orphans_distinct: "distinct (map fst os) \<Longrightarrow> distinct (map fst (fold (add_orphan parents) fs os))"
  by (induction fs arbitrary: os) (auto simp: add_orphan_distinct)

lemma hygiene_keys:
  assumes "\<And>xs. mset (hash_order xs) = mset xs"
  shows "distinct (map fd_key (validate_coverage_composition hash_order db fs))"
    and "\<forall>f \<in> set (validate_coverage_composition hash_order db fs). fd_kind f = ''health_claim_misleading_orphan_ref''"
proof -
  let ?os = "fold (add_orphan (open_parents (db_warning_state db) fs)) fs []"
  have m: "mset (map fst (hash_order ?os)) = mset (map fst ?os)" using assms [of ?os] by simp
  have "distinct (map fst (hash_order ?os))"
    using orphans_distinct [of "[]"] mset_eq_imp_distinct_iff [OF m] by simp
  moreover have "inj (\<lambda>p. (fst p, ''health_claim_misleading_orphan_ref'', snd p))" by (auto simp: inj_def)
  ultimately have "distinct (map (\<lambda>p. (fst p, ''health_claim_misleading_orphan_ref'', snd p)) (map fst (hash_order ?os)))"
    unfolding distinct_map [of _ "map fst (hash_order ?os)"] using inj_on_subset [OF _ subset_UNIV] by blast
  also have "map (\<lambda>p. (fst p, ''health_claim_misleading_orphan_ref'', snd p)) (map fst (hash_order ?os))
      = map fd_key (validate_coverage_composition hash_order db fs)"
    unfolding validate_coverage_composition_def map_map
    by (rule map_cong) (simp_all add: fd_key_def orphan_hygiene_finding_def split: prod.split)
  finally show "distinct (map fd_key (validate_coverage_composition hash_order db fs))" .
  show "\<forall>f \<in> set (validate_coverage_composition hash_order db fs). fd_kind f = ''health_claim_misleading_orphan_ref''"
    by (auto simp: validate_coverage_composition_def orphan_hygiene_finding_def)
qed

section \<open>The invariant of the rows\<close>

text \<open>
  A row is \<open>retired\<close> exactly while its source is; a \<open>live\<close> one has a source and says when it was
  established.
\<close>

definition basis_inv ::
  "(string \<Rightarrow> string option) \<Rightarrow> string \<Rightarrow> string option \<Rightarrow> int option \<Rightarrow> string option \<Rightarrow> bool"
where
  "basis_inv retired state source gen at \<longleftrightarrow>
     state \<in> {''live'', ''unknown'', ''retired''}
     \<and> (state = ''retired'' \<longleftrightarrow> (\<exists>s. source = Some s \<and> retired s \<noteq> None))
     \<and> (state = ''live'' \<longrightarrow> source \<noteq> None \<and> gen \<noteq> None \<and> at \<noteq> None)"

definition work_states :: "string set" where
  "work_states = {''new'', ''acknowledged'', ''watching'', ''quiesced'', ''closed'', ''suppressed''}"

lemma new_work_state [simp]: "''new'' \<in> work_states"
  by (simp add: work_states_def)

definition row_inv :: "(string \<Rightarrow> string option) \<Rightarrow> warning_state_row \<Rightarrow> bool" where
  "row_inv retired w \<longleftrightarrow>
     0 \<le> ws_absent_gens w \<and> ws_absent_gens w < recovery_window \<and> 1 \<le> ws_consecutive_gens w
     \<and> 0 \<le> ws_entity_gone_gens w \<and> ws_entity_gone_gens w \<le> entity_gc_threshold
     \<and> ws_severity w \<in> {''info'', ''warning'', ''critical''}
     \<and> (ws_visibility_state w = ''observed''
        \<or> ws_visibility_state w = ''suppressed'' \<and> ws_suppression_kind w \<noteq> None \<and> ws_suppressed_since_gen w \<noteq> None)
     \<and> ws_work_state w \<in> work_states
     \<and> basis_inv retired (ws_basis_state w) (ws_basis_source_id w) (ws_last_basis_generation w) (ws_basis_state_at w)"

lemma severity_vocabulary: "compute_severity kind sk n esc \<in> {''info'', ''warning'', ''critical''}"
  by (simp add: compute_severity_def Let_def)

lemma upsert_gens_pos: "1 \<le> ws_consecutive_gens w \<Longrightarrow> 1 \<le> upsert_gens g f w"
  by (auto simp: upsert_gens_def)

lemma basis_of_inv:
  assumes "basis_of retired g now source = (state, gen, at)"
  shows "basis_inv retired state source gen at"
proof -
  have "(state, gen, at) = basis_of retired g now source" using assms by simp
  then show ?thesis
    by (cases source; cases "retired (the source)") (simp_all add: basis_of_def basis_inv_def)
qed

lemma inserted_inv:
  assumes "severity \<in> {''info'', ''warning'', ''critical''}"
  shows "row_inv retired (inserted_row retired g now origin severity f)"
proof -
  obtain state gen at where b: "basis_of retired g now (fd_basis_source_id f) = (state, gen, at)" by (rule prod_cases3)
  note live = basis_of_inv [OF b]
  show ?thesis
    using live assms unfolding row_inv_def
    by (simp add: inserted_row_def b recovery_window_def entity_gc_threshold_def del: insert_iff)
qed

lemma updated_inv:
  assumes "severity \<in> {''info'', ''warning'', ''critical''}" "row_inv retired w"
  shows "row_inv retired (updated_row retired g now origin severity f w)"
proof -
  obtain state gen at where b: "basis_of retired g now (fd_basis_source_id f) = (state, gen, at)" by (rule prod_cases3)
  note live = basis_of_inv [OF b]
  show ?thesis
    using live assms upsert_gens_pos [of w g f] unfolding row_inv_def
    by (simp add: updated_row_def b recovery_window_def del: insert_iff)
qed

lemma upserted_inv:
  assumes "\<And>w. prev = Some w \<Longrightarrow> row_inv retired w"
  shows "row_inv retired (upserted retired g now esc origin f prev)"
  using assms by (simp add: upserted_def inserted_inv updated_inv severity_vocabulary del: insert_iff split: option.split)

lemma aged_inv:
  assumes "aged m g w = Some w'" "row_inv retired w"
  shows "row_inv retired w'"
proof (cases "m (ws_host w) (ws_kind w)")
  case None
  with assms(1) have "\<not> recovery_window \<le> ws_absent_gens w + 1" "w' = inc_absent_row w"
    by (simp_all add: aged_def split: if_splits)
  with assms(2) show ?thesis unfolding row_inv_def by (simp add: inc_absent_row_def)
next
  case (Some reason)
  with assms(1) have "w' = suppress_row g reason w" by (simp add: aged_def)
  with assms(2) show ?thesis unfolding row_inv_def by (simp add: suppress_row_def split: option.split)
qed

lemma expired_inv: "row_inv retired w \<Longrightarrow> row_inv retired (expired now w)"
  unfolding row_inv_def expired_def by (cases "work_state_expired now w") (simp_all add: reset_work_state_def del: insert_iff)

lemma collected_inv:
  assumes "collected db w = Some w'" "row_inv retired w"
  shows "row_inv retired w'"
proof -
  from assms(1) have w': "w' = w\<lparr>ws_entity_gone_gens := gone_count db w\<rparr>" and n: "gone_count db w \<le> entity_gc_threshold"
    unfolding collected_def by (simp_all split: if_split_asm)
  have "0 \<le> ws_entity_gone_gens w" using assms(2) unfolding row_inv_def by simp
  then have "0 \<le> gone_count db w" by (simp add: gone_count_def)
  with assms(2) n show ?thesis unfolding w' row_inv_def by simp
qed

lemma declared_inv: "row_inv retired w \<Longrightarrow> row_inv retired (declared g active w)"
proof -
  have "row_inv retired (fold (\<lambda>d w. if ws_host w = dl_subject_id d then declare_row g d w else w) ds w)"
    if "row_inv retired w" for ds w
    using that by (induction ds arbitrary: w) (auto simp: declare_row_def row_inv_def split: option.splits)
  moreover assume "row_inv retired w"
  ultimately show ?thesis
    by (simp add: declared_def) (simp add: clear_suppression_def row_inv_def)
qed

lemma maintain_inv: "row_inv retired w \<Longrightarrow> row_inv retired (maintain_row ms now w)"
  by (simp add: maintain_row_def row_inv_def split: option.split)

lemma next_row_inv:
  assumes "next_row env g fs esc active origin db k = Some w'"
    and "\<And>w. row_at ws_key k (db_warning_state db) = Some w \<Longrightarrow> row_inv (retired_source_map db) w"
  shows "row_inv (retired_source_map db) w'"
proof -
  have e: "row_inv (retired_source_map db) (emitted now g fs esc origin db k f)" for now f
    using upserted_inv [of "row_at ws_key k (db_warning_state db)" "retired_source_map db" g now esc origin f, OF assms(2)]
    by (simp add: emitted_def Let_def row_inv_def)
  let ?r = "retired_source_map db"
  from assms(1) obtain w c where w: "(case find (\<lambda>f. fd_key f = k) fs of
          Some f \<Rightarrow> Some (emitted (le_now env) g fs esc origin db k f)
        | None \<Rightarrow> Option.bind (row_at ws_key k (db_warning_state db)) (aged (masked_by (db_warning_state db) fs) g)) = Some w"
    and c: "collected db (expired (le_now env) w) = Some c"
    and w': "w' = maintain_row (db_maintenance_declarations db) (le_overlay_now env) (declared g active c)"
    unfolding next_row_def bind_eq_Some_conv map_option_eq_Some by metis
  have "row_inv ?r w"
  proof (cases "find (\<lambda>f. fd_key f = k) fs")
    case None
    with w obtain v where "row_at ws_key k (db_warning_state db) = Some v"
      "aged (masked_by (db_warning_state db) fs) g v = Some w" by (auto simp: bind_eq_Some_conv)
    then show ?thesis using assms(2) aged_inv by blast
  next
    case (Some f)
    with w e show ?thesis by auto
  qed
  then show ?thesis unfolding w' using collected_inv [OF c] expired_inv maintain_inv declared_inv by blast
qed

end
