(* ===== verification/Store_Demo.thy ===== *)
theory Store_Demo
  imports Lifecycle_Rows
begin

text \<open>
  A small concrete store: two generations, one finding seen in both, and the arguments of an
  update. The witnesses of the store's theorems evaluate the model on it.
\<close>

definition demo_generation :: "int \<Rightarrow> generation_row" where
  "demo_generation n =
     \<lparr>gen_generation_id = n, gen_started_at = ''Z'', gen_completed_at = ''0Z'', gen_status = ''complete'',
      gen_sources_expected = 1, gen_sources_ok = 1, gen_sources_failed = 0, gen_duration_ms = 1,
      gen_summary_hash = None, gen_findings_observed = 0, gen_detectors_run = 0, gen_findings_suppressed = 0,
      gen_coverage_json = None\<rparr>"

definition demo_finding :: "string \<Rightarrow> string \<Rightarrow> Finding" where
  "demo_finding host kind =
     \<lparr>fd_host = host, fd_domain = ''d'', fd_kind = kind, fd_subject = ''s'', fd_message = ''m'', fd_value = None,
      fd_finding_class = ''signal'', fd_rule_hash = None, fd_state_kind = SK_Incident, fd_diagnosis = None,
      fd_basis_source_id = Some ''src'', fd_basis_witness_id = None, fd_coverage_envelope = None,
      fd_node_unobservable_envelope = None\<rparr>"

definition demo_row :: "int \<Rightarrow> string \<Rightarrow> string \<Rightarrow> warning_state_row" where
  "demo_row g host kind = inserted_row (\<lambda>_. None) g ''1Z'' ''observed'' ''info'' (demo_finding host kind)"

definition demo_seen :: "int \<Rightarrow> int \<Rightarrow> string \<Rightarrow> string \<Rightarrow> observation_row" where
  "demo_seen i g host kind = observation_of i g ''1Z'' ''info'' (demo_finding host kind)"

definition demo_db :: database where
  "demo_db =
     \<lparr>db_generations = [demo_generation 1, demo_generation 2],
      db_source_runs = [\<lparr>sr_generation_id = 1, sr_source = ''src'', sr_status = ''ok''\<rparr>],
      db_warning_state = [demo_row 2 ''h'' ''k''],
      db_finding_observations = [demo_seen 1 2 ''h'' ''k''],
      db_finding_transitions = [], db_sources_retired = [], db_maintenance_declarations = [],
      db_evidence_tombstones = [],
      db_hosts_current = [\<lparr>cur_host = ''h'', cur_as_of_generation = 2\<rparr>],
      db_services_current = [], db_monitored_dbs_current = [], db_metrics_current = [],
      db_log_observations_current = [], db_history = [(''hosts_history'', [1, 2])]\<rparr>"

definition demo_env :: lifecycle_env where
  "demo_env = \<lparr>le_now = ''2Z'', le_overlay_now = ''3Z'', le_hash_order = (\<lambda>xs. xs)\<rparr>"

end
