(* ===== verification/Inquiry_Report.thy ===== *)
theory Inquiry_Report
  imports Inquiry_Receipt Store_Demo
begin

text \<open>
  The passive report inquiry (\<open>crates/nq-db/src/inquiry.rs\<close>): in one read transaction the
  executor reads the newest generation, the exact lifecycle row of the finding and the tail of
  its observation receipts, decides whether the finding is operationally active and seals a
  receipt. The tables it reads are lists of typed rows; a statement that SQLite fails to run is
  an error in place of the rows, and \<open>from_str\<close> is the parser of \<open>serde_json\<close>.
\<close>

section \<open>What is read\<close>

record admissibility_row =
  va_host :: string
  va_kind :: string
  va_subject :: string
  va_admissibility :: string
  va_suppression_kind :: "string option"
  va_ancestor_reason :: "string option"
  va_suppression_declaration_id :: "string option"

text \<open>The columns of the view \<open>v_admissibility\<close> that the executor selects.\<close>

definition v_admissibility :: "warning_state_row \<Rightarrow> admissibility_row" where
  "v_admissibility ws =
     \<lparr>va_host = ws_host ws, va_kind = ws_kind ws, va_subject = ws_subject ws,
      va_admissibility =
        (if ws_visibility_state ws = ''suppressed'' \<and> ws_suppression_kind ws = Some ''operator_declaration''
           then ''suppressed_by_declaration''
         else if ws_visibility_state ws = ''suppressed'' then ''suppressed_by_ancestor''
         else ''observable''),
      va_suppression_kind = ws_suppression_kind ws,
      va_ancestor_reason = ws_suppression_reason ws,
      va_suppression_declaration_id = ws_suppression_declaration_id ws\<rparr>"

text \<open>
  A connection: whether it is read-only, whether a transaction starts and ends, and the rows its
  statements yield or the error they fail with. \<open>connection_of\<close> is a healthy one.
\<close>

record connection =
  cn_is_readonly :: "string + bool"
  cn_unchecked_transaction :: "string + unit"
  cn_generations :: "string + generation_row list"
  cn_warning_state :: "string + warning_state_row list"
  cn_finding_observations :: "string + observation_row list"
  cn_commit :: "string + unit"

definition connection_of :: "database \<Rightarrow> connection" where
  "connection_of db =
     \<lparr>cn_is_readonly = Inr True, cn_unchecked_transaction = Inr (), cn_generations = Inr (db_generations db),
      cn_warning_state = Inr (db_warning_state db), cn_finding_observations = Inr (db_finding_observations db),
      cn_commit = Inr ()\<rparr>"

section \<open>Reads\<close>

definition parse_time :: "externals \<Rightarrow> string \<Rightarrow> string \<Rightarrow> string + int" where
  "parse_time ext field value =
     with_context (''parsing '' @ field @ ''='' @ debug_str value @ '' as RFC3339'') (rfc3339_parse ext value)"

definition parse_generation_status :: "string \<Rightarrow> string + GenerationStatus" where
  "parse_generation_status value =
     (if value = ''complete'' then Inr Complete
      else if value = ''partial'' then Inr Partial
      else if value = ''failed'' then Inr Failed
      else Inl (''unsupported generations.status '' @ debug_str value))"

definition source_snapshot ::
  "(string \<Rightarrow> string + json) \<Rightarrow> generation_row \<Rightarrow> string + InquirySourceSnapshotV0"
where
  "source_snapshot from_str row =
     res_bind (parse_generation_status (gen_status row)) (\<lambda>status.
     res_bind
       (case gen_coverage_json row of
          None \<Rightarrow> Inr None
        | Some raw \<Rightarrow>
            res_bind (with_context ''parsing generations.coverage_json as JSON'' (from_str raw)) (\<lambda>v. Inr (Some v)))
       (\<lambda>coverage.
     Inr \<lparr>snap_generation_id = gen_generation_id row, snap_started_at = gen_started_at row,
          snap_completed_at = gen_completed_at row, snap_status = status,
          snap_sources_expected = gen_sources_expected row, snap_sources_ok = gen_sources_ok row,
          snap_sources_failed = gen_sources_failed row, snap_duration_ms = gen_duration_ms row,
          snap_summary_hash = gen_summary_hash row,
          snap_findings_observed = gen_findings_observed row, snap_detectors_run = gen_detectors_run row,
          snap_findings_suppressed = gen_findings_suppressed row, snap_coverage_json = coverage\<rparr>))"

definition load_latest_snapshot ::
  "(string \<Rightarrow> string + json) \<Rightarrow> connection \<Rightarrow> string + InquirySourceSnapshotV0 option"
where
  "load_latest_snapshot from_str db =
     res_bind (with_context ''reading latest NQ generation for inquiry snapshot'' (cn_generations db)) (\<lambda>rows.
     case latest_by gen_generation_id rows of
       None \<Rightarrow> Inr None
     | Some row \<Rightarrow> res_bind (source_snapshot from_str row) (\<lambda>s. Inr (Some s)))"

definition finding_state_of :: "warning_state_row \<Rightarrow> admissibility_row \<Rightarrow> InquiryFindingStateV0" where
  "finding_state_of ws va =
     \<lparr>fs_host = ws_host ws, fs_kind = ws_kind ws, fs_subject = ws_subject ws, fs_domain = ws_domain ws,
      fs_severity = ws_severity ws, fs_message = ws_message ws,
      fs_first_seen_gen = ws_first_seen_gen ws, fs_first_seen_at = ws_first_seen_at ws,
      fs_last_seen_gen = ws_last_seen_gen ws, fs_last_seen_at = ws_last_seen_at ws,
      fs_consecutive_gens = ws_consecutive_gens ws, fs_absent_gens = ws_absent_gens ws,
      fs_visibility_state = ws_visibility_state ws, fs_admissibility = va_admissibility va,
      fs_suppression_kind = va_suppression_kind va, fs_ancestor_reason = va_ancestor_reason va,
      fs_suppression_declaration_id = va_suppression_declaration_id va,
      fs_basis_state = ws_basis_state ws, fs_basis_source_id = ws_basis_source_id ws,
      fs_basis_witness_id = ws_basis_witness_id ws,
      fs_last_basis_generation = ws_last_basis_generation ws, fs_basis_state_at = ws_basis_state_at ws,
      fs_origin_source = ws_origin_source ws, fs_origin_producer_id = ws_origin_producer_id ws,
      fs_origin_extraction_run_id = ws_origin_extraction_run_id ws,
      fs_origin_producer_extraction_time = ws_origin_producer_extraction_time ws,
      fs_origin_import_contract_version = ws_origin_import_contract_version ws,
      fs_origin_mode = ws_origin_mode ws\<rparr>"

text \<open>The inner join of \<open>warning_state\<close> with the view, restricted to one key.\<close>

definition joined_states :: "warning_state_row list \<Rightarrow> string \<Rightarrow> string \<Rightarrow> string \<Rightarrow> InquiryFindingStateV0 list" where
  "joined_states rows host kind subject =
     [finding_state_of ws va. ws \<leftarrow> rows, va \<leftarrow> map v_admissibility rows,
        va_host va = ws_host ws \<and> va_kind va = ws_kind ws \<and> va_subject va = ws_subject ws
        \<and> ws_host ws = host \<and> ws_kind ws = kind \<and> ws_subject ws = subject]"

definition load_finding_state ::
  "connection \<Rightarrow> string \<Rightarrow> string \<Rightarrow> string \<Rightarrow> string + InquiryFindingStateV0 option"
where
  "load_finding_state db host kind subject =
     res_bind (with_context ''reading exact inquiry finding lifecycle state'' (cn_warning_state db)) (\<lambda>rows.
     Inr (case joined_states rows host kind subject of [] \<Rightarrow> None | f # _ \<Rightarrow> Some f))"

text \<open>The rows of the receipt-tail query, newest first, before its \<open>LIMIT\<close>.\<close>

definition receipt_of :: "observation_row \<Rightarrow> InquiryEvidenceReceiptV0" where
  "receipt_of r =
     \<lparr>ev_observation_id = obs_observation_id r, ev_generation_id = obs_generation_id r,
      ev_finding_key = obs_finding_key r, ev_scope = obs_scope r, ev_detector_id = obs_detector_id r,
      ev_host = obs_host r, ev_subject = obs_subject r, ev_domain = obs_domain r, ev_severity = obs_severity r,
      ev_value = obs_value r, ev_message = obs_message r, ev_finding_class = obs_finding_class r,
      ev_rule_hash = obs_rule_hash r, ev_observed_at = obs_observed_at r,
      ev_basis_source_id = obs_basis_source_id r, ev_basis_witness_id = obs_basis_witness_id r\<rparr>"

definition matching_receipts ::
  "observation_row list \<Rightarrow> string \<Rightarrow> string \<Rightarrow> string \<Rightarrow> int \<Rightarrow> InquiryEvidenceReceiptV0 list"
where
  "matching_receipts rows host kind subject snapshot_generation =
     map receipt_of
       (sort_key (\<lambda>r. (- obs_generation_id r, - obs_observation_id r))
         (filter (\<lambda>r. obs_scope r = ''local'' \<and> obs_host r = host \<and> obs_detector_id r = kind
            \<and> obs_subject r = subject \<and> obs_generation_id r \<le> snapshot_generation) rows))"

definition load_evidence_tail ::
  "connection \<Rightarrow> string \<Rightarrow> string \<Rightarrow> string \<Rightarrow> int \<Rightarrow> u32 \<Rightarrow> string + InquiryEvidenceReceiptV0 list \<times> bool"
where
  "load_evidence_tail db host kind subject snapshot_generation limit =
     res_bind (with_context ''reading inquiry receipt-tail rows'' (cn_finding_observations db)) (\<lambda>rows.
     let query_limit = unat limit + 1;
         receipts = take query_limit (matching_receipts rows host kind subject snapshot_generation);
         truncated = length receipts > unat limit
     in Inr (if truncated then take (unat limit) receipts else receipts, truncated))"

section \<open>Disposition\<close>

text \<open>
  A step of the classification: an error, a refusal that ends it, or nothing, after which the
  next step runs.
\<close>

type_synonym classification = "string + InquiryRefusal option"

definition refuse :: "bool \<Rightarrow> InquiryRefusalKindV0 \<Rightarrow> string \<Rightarrow> classification" where
  "refuse b kind statement = Inr (if b then Some (InquiryRefusal kind statement) else None)"

fun first_refusal :: "classification list \<Rightarrow> classification" where
  "first_refusal [] = Inr None"
| "first_refusal (Inr None # cs) = first_refusal cs"
| "first_refusal (c # cs) = c"

definition age_seconds_u64 :: "int \<Rightarrow> u64" where
  "age_seconds_u64 ns = word_of_int (ns div 1000000000)"

definition classify_snapshot :: "externals \<Rightarrow> InquirySourceSnapshotV0 \<Rightarrow> int \<Rightarrow> u64 \<Rightarrow> classification" where
  "classify_snapshot ext s as_of max_age =
     first_refusal
      [refuse (snap_summary_hash s = None) SnapshotUnsealed
         ''The latest NQ generation has no summary_hash and may be between publish, lifecycle, and seal transactions.'',
       refuse (snap_status s \<noteq> Complete) SnapshotIncomplete
         ''The latest NQ generation is not complete; partial or failed generation state cannot support this current-activity lift.'',
       refuse (snap_sources_expected s < 0 \<or> snap_sources_ok s < 0 \<or> snap_sources_failed s < 0
             \<or> snap_sources_failed s \<noteq> 0 \<or> snap_sources_ok s \<noteq> snap_sources_expected s
             \<or> snap_findings_observed s < 0 \<or> snap_detectors_run s < 0 \<or> snap_findings_suppressed s < 0)
         SnapshotIncomplete
         (''The latest NQ generation has inconsistent coverage counters (sources expected/ok/failed=''
            @ show_int (snap_sources_expected s) @ ''/'' @ show_int (snap_sources_ok s) @ ''/''
            @ show_int (snap_sources_failed s) @ '', findings observed/detectors/suppressed=''
            @ show_int (snap_findings_observed s) @ ''/'' @ show_int (snap_detectors_run s) @ ''/''
            @ show_int (snap_findings_suppressed s) @ '').''),
       res_bind (parse_time ext ''generations.completed_at'' (snap_completed_at s)) (\<lambda>completed_at.
         let age_seconds = age_seconds_u64 (as_of - completed_at) in
         first_refusal
          [refuse (completed_at > as_of) SnapshotAfterAsOf
             ''The source generation completed after the request's frozen as_of time; current tables cannot reconstruct the earlier state.'',
           refuse (age_seconds > max_age) SnapshotTooOld
             (''The source generation is '' @ show_word age_seconds
                @ ''s old at as_of, beyond the profile horizon of '' @ show_word max_age @ ''s.'')])]"

definition classify_import :: "externals \<Rightarrow> InquiryFindingStateV0 \<Rightarrow> int \<Rightarrow> u64 \<Rightarrow> classification" where
  "classify_import ext f as_of max_age =
     (case (fs_origin_producer_id f, fs_origin_extraction_run_id f,
            fs_origin_producer_extraction_time f, fs_origin_import_contract_version f) of
        (Some producer_id, Some extraction_run_id, Some extraction_time, Some _) \<Rightarrow>
          first_refusal
           [refuse (producer_id = [] \<or> extraction_run_id = []) EvidenceNotCurrent
              ''The imported finding carries an empty producer or extraction-run identity.'',
            res_bind (parse_time ext ''warning_state.origin_producer_extraction_time'' extraction_time) (\<lambda>extraction_time.
              let producer_age = age_seconds_u64 (as_of - extraction_time) in
              first_refusal
               [refuse (extraction_time > as_of) SnapshotAfterAsOf
                  ''The imported producer extraction time is after the request's frozen as_of time.'',
                refuse (producer_age > max_age) SnapshotTooOld
                  (''The imported producer evidence is '' @ show_word producer_age
                     @ ''s old at as_of, beyond the profile horizon of '' @ show_word max_age @ ''s.'')])]
      | _ \<Rightarrow> refuse True EvidenceNotCurrent
               ''The imported finding lacks its complete two-clock producer provenance envelope.'')"

definition classify_origin :: "externals \<Rightarrow> InquiryFindingStateV0 \<Rightarrow> int \<Rightarrow> u64 \<Rightarrow> classification" where
  "classify_origin ext f as_of max_age =
     first_refusal
      [refuse (fs_visibility_state f \<noteq> ''observed'' \<or> fs_admissibility f \<noteq> ''observable'') EvidenceSuppressed
         (''The exact finding is visibility='' @ fs_visibility_state f @ '' and admissibility=''
            @ fs_admissibility f @ ''; held last-known state is not current operational testimony.''),
       refuse (fs_origin_mode f \<noteq> ''observed'') EvidenceNotAuthenticallyObserved
         (''The exact finding carries origin_mode='' @ fs_origin_mode f
            @ ''; drill, replay, and synthetic findings cannot establish authentic operational activity.''),
       (if fs_origin_source f = ''nq'' then Inr None
        else if fs_origin_source f = ''import'' then classify_import ext f as_of max_age
        else refuse True EvidenceNotAuthenticallyObserved
          (''The exact finding carries unsupported origin_source='' @ fs_origin_source f @ ''.''))]"

definition classify_basis ::
  "externals \<Rightarrow> InquirySourceSnapshotV0 \<Rightarrow> InquiryFindingStateV0 \<Rightarrow> int \<Rightarrow> classification"
where
  "classify_basis ext s f as_of =
     first_refusal
      [refuse (fs_basis_state f \<noteq> ''live'' \<or> fs_basis_source_id f = None
             \<or> fs_last_basis_generation f \<noteq> Some (snap_generation_id s)) EvidenceNotCurrent
         (''The exact finding carries basis_state='' @ fs_basis_state f @ '' and last_basis_generation=''
            @ debug_opt show_int (fs_last_basis_generation f) @ ''; current standing at generation ''
            @ show_int (snap_generation_id s) @ '' is not established.''),
       (case fs_basis_state_at f of
          Some basis_state_at \<Rightarrow>
            res_bind (parse_time ext ''warning_state.basis_state_at'' basis_state_at) (\<lambda>t.
              refuse (t > as_of) SnapshotAfterAsOf
                ''The selected finding basis-state timestamp is after the request's frozen as_of time.'')
        | None \<Rightarrow>
            refuse True EvidenceNotCurrent
              ''The selected finding claims a live basis without a basis_state_at timestamp.''),
       refuse (fs_last_seen_gen f \<noteq> snap_generation_id s \<or> fs_absent_gens f \<noteq> 0 \<or> fs_consecutive_gens f < 1)
         EvidenceNotCurrent
         (''The lifecycle row is not a current firing at generation '' @ show_int (snap_generation_id s)
            @ '' (last_seen_gen='' @ show_int (fs_last_seen_gen f) @ '', absent_gens=''
            @ show_int (fs_absent_gens f) @ '', consecutive_gens='' @ show_int (fs_consecutive_gens f)
            @ ''). Absence alone is not negative coverage.'')]"

definition classify_carried :: "externals \<Rightarrow> int \<Rightarrow> InquiryEvidenceReceiptV0 \<Rightarrow> classification" where
  "classify_carried ext as_of receipt =
     res_bind (parse_time ext ''finding_observations.observed_at'' (ev_observed_at receipt)) (\<lambda>observed_at.
     refuse (observed_at > as_of) SnapshotAfterAsOf
       (''Carried finding receipt '' @ show_int (ev_observation_id receipt)
          @ '' has observed_at after the request's frozen as_of time.''))"

definition classify_evidence ::
  "externals \<Rightarrow> InquirySourceSnapshotV0 \<Rightarrow> InquiryFindingStateV0 \<Rightarrow> int \<Rightarrow> InquiryEvidenceReceiptV0 list
     \<Rightarrow> int \<Rightarrow> classification"
where
  "classify_evidence ext s f last_seen_at evidence as_of =
     (case evidence of
        [] \<Rightarrow> refuse True EvidenceAbsent
                ''The lifecycle row has no matching admitted finding-observation receipt.''
      | latest # carried \<Rightarrow>
          res_bind (parse_time ext ''finding_observations.observed_at'' (ev_observed_at latest)) (\<lambda>observed_at.
          first_refusal
           ([refuse (ev_generation_id latest \<noteq> snap_generation_id s) EvidenceNotCurrent
               (''The newest admitted finding receipt is generation '' @ show_int (ev_generation_id latest)
                  @ '' while the source snapshot is generation '' @ show_int (snap_generation_id s) @ ''.''),
             refuse (observed_at > as_of) SnapshotAfterAsOf
               (''The newest admitted finding receipt '' @ show_int (ev_observation_id latest)
                  @ '' was observed after the request's frozen as_of time.''),
             refuse (ev_basis_source_id latest \<noteq> fs_basis_source_id f
                   \<or> ev_basis_witness_id latest \<noteq> fs_basis_witness_id f \<or> observed_at \<noteq> last_seen_at)
               EvidenceNotCurrent
               ''The newest finding receipt does not agree with the lifecycle row's basis identity or last-seen time.'']
            @ map (classify_carried ext as_of) carried)))"

definition classify_finding ::
  "externals \<Rightarrow> InquirySourceSnapshotV0 \<Rightarrow> InquiryFindingStateV0 \<Rightarrow> InquiryEvidenceReceiptV0 list
     \<Rightarrow> int \<Rightarrow> u64 \<Rightarrow> classification"
where
  "classify_finding ext s f evidence as_of max_age =
     res_bind (parse_time ext ''warning_state.last_seen_at'' (fs_last_seen_at f)) (\<lambda>last_seen_at.
     first_refusal
      [refuse (last_seen_at > as_of) SnapshotAfterAsOf
         ''The selected finding state contains evidence after the request's frozen as_of time.'',
       classify_origin ext f as_of max_age,
       classify_basis ext s f as_of,
       classify_evidence ext s f last_seen_at evidence as_of])"

definition classify_disposition ::
  "externals \<Rightarrow> InquirySourceSnapshotV0 option \<Rightarrow> InquiryFindingStateV0 option
     \<Rightarrow> InquiryEvidenceReceiptV0 list \<Rightarrow> int \<Rightarrow> u64 \<Rightarrow> InquiryRefusal list
     \<Rightarrow> string + InquiryDisposition \<times> InquiryRefusal list"
where
  "classify_disposition ext snapshot finding evidence as_of max_age cannot_testify =
     res_bind
       (case snapshot of
          None \<Rightarrow>
            refuse True SnapshotUnavailable
              ''No NQ generation exists in the source database; no receipt snapshot can be identified.''
        | Some s \<Rightarrow>
            first_refusal
             [classify_snapshot ext s as_of max_age,
              (case finding of
                 None \<Rightarrow>
                   refuse True EvidenceAbsent
                     ''No exact current finding row exists. NQ receipt absence does not prove operational inactivity or detector coverage.''
               | Some f \<Rightarrow> classify_finding ext s f evidence as_of max_age)])
       (\<lambda>refused. Inr (case refused of
          Some r \<Rightarrow> (CannotTestify, cannot_testify @ [r])
        | None \<Rightarrow> (OperationallyActive, cannot_testify)))"

section \<open>The executor\<close>

definition validate_report_executor :: "connection \<Rightarrow> ResolvedInquiryProfileV0 \<Rightarrow> string + unit" where
  "validate_report_executor db resolved =
     res_bind (with_context ''checking inquiry database open mode'' (cn_is_readonly db)) (\<lambda>readonly.
     checks
      [refuse_if (\<not> readonly) ''governed inquiry requires a read-only SQLite connection'',
       refuse_if (prof_question_kind (res_profile resolved) \<noteq> FindingOperationalActivity)
         ''nq-db only executes the passive report inquiry''])"

definition evidence_coverage_of ::
  "InquiryFindingStateV0 option \<Rightarrow> InquiryEvidenceReceiptV0 list \<Rightarrow> u32 \<Rightarrow> bool \<Rightarrow> InquiryEvidenceCoverageV0"
where
  "evidence_coverage_of finding evidence limit truncated =
     \<lparr>cov_matched_current_rows = (if finding = None then 0 else 1),
      cov_matched_receipt_rows = word_of_nat (length evidence),
      cov_receipt_limit = limit, cov_receipt_tail_truncated = truncated,
      cov_newest_receipt_generation = (if evidence = [] then None else Some (ev_generation_id (hd evidence))),
      cov_oldest_receipt_generation = (if evidence = [] then None else Some (ev_generation_id (last evidence)))\<rparr>"

definition report_receipt ::
  "ResolvedInquiryProfileV0 \<Rightarrow> AdmittedInquiryRequestV0 \<Rightarrow> InquirySourceSnapshotV0 option
     \<Rightarrow> InquiryFindingStateV0 option \<Rightarrow> InquiryEvidenceReceiptV0 list \<Rightarrow> InquiryEvidenceCoverageV0
     \<Rightarrow> InquiryDisposition \<Rightarrow> InquiryRefusal list \<Rightarrow> InquiryReceiptV0"
where
  "report_receipt resolved request snapshot finding evidence coverage disposition cannot_testify =
     \<lparr>rc_schema = INQUIRY_RECEIPT_SCHEMA_V0, rc_version = V0,
      rc_status = (if disposition = CannotTestify then Refused else Answered),
      rc_disposition = disposition, rc_request = request, rc_source_snapshot = snapshot,
      rc_finding_state = finding, rc_evidence_receipts = evidence, rc_evidence_coverage = coverage,
      rc_witness_plan = None, rc_tls_observations = [], rc_acquisition = None, rc_grant_digest = None,
      rc_authorized_acquisition_envelope = None, rc_observed_acquisition_spend = None,
      rc_coverage = prof_coverage (res_profile resolved), rc_cannot_testify = cannot_testify,
      rc_acquisition_spend = 0, rc_receipt_digest = None\<rparr>"

definition execute_report_inquiry_in_snapshot ::
  "externals \<Rightarrow> connection \<Rightarrow> ResolvedInquiryProfileV0 \<Rightarrow> AdmittedInquiryRequestV0 \<Rightarrow> int
     \<Rightarrow> InquirySourceSnapshotV0 option \<Rightarrow> string + InquiryReceiptV0"
where
  "execute_report_inquiry_in_snapshot ext tx resolved request as_of snapshot =
     res_bind (context_some ''validated report profile is missing its selector''
       (prof_selector (res_profile resolved))) (\<lambda>selector.
     res_bind (context_some ''validated report profile is missing its evidence limit''
       (prof_evidence_limit (res_profile resolved))) (\<lambda>evidence_limit.
     res_bind (context_some ''validated report profile is missing its snapshot age bound''
       (prof_max_snapshot_age_seconds (res_profile resolved))) (\<lambda>max_snapshot_age_seconds.
     res_bind (load_finding_state tx (sel_host selector) (sel_kind selector) (sel_subject selector)) (\<lambda>finding_state.
     res_bind
       (case snapshot of
          Some s \<Rightarrow> load_evidence_tail tx (sel_host selector) (sel_kind selector) (sel_subject selector)
                      (snap_generation_id s) evidence_limit
        | None \<Rightarrow> Inr ([], False)) (\<lambda>(evidence_receipts, tail_truncated).
     res_bind
       (classify_disposition ext snapshot finding_state evidence_receipts as_of max_snapshot_age_seconds
          (prof_cannot_testify (res_profile resolved))) (\<lambda>(disposition, cannot_testify).
     res_bind
       (with_context ''sealing governed inquiry receipt''
         (seal ext (report_receipt resolved request snapshot finding_state evidence_receipts
           (evidence_coverage_of finding_state evidence_receipts evidence_limit tail_truncated)
           disposition cannot_testify))) (\<lambda>receipt.
     res_bind (with_context ''ending explicit read-only inquiry transaction'' (cn_commit tx)) (\<lambda>_.
     Inr receipt))))))))"

definition execute_report_inquiry ::
  "externals \<Rightarrow> (string \<Rightarrow> string + json) \<Rightarrow> connection \<Rightarrow> ResolvedInquiryProfileV0 \<Rightarrow> CandidateInquiryPlanV0
     \<Rightarrow> string + InquiryReceiptV0"
where
  "execute_report_inquiry ext from_str db resolved plan =
     res_bind (validate_report_executor db resolved) (\<lambda>_.
     res_bind (with_context ''admitting governed inquiry request'' (admit ext plan resolved)) (\<lambda>request.
     res_bind (parse_time ext ''plan.as_of'' (req_as_of request)) (\<lambda>as_of.
     res_bind (with_context ''starting explicit read-only inquiry transaction'' (cn_unchecked_transaction db)) (\<lambda>_.
     res_bind (load_latest_snapshot from_str db) (\<lambda>snapshot.
     execute_report_inquiry_in_snapshot ext db resolved request as_of snapshot)))))"

definition execute_latest_report_inquiry ::
  "externals \<Rightarrow> (string \<Rightarrow> string + json) \<Rightarrow> connection \<Rightarrow> ResolvedInquiryProfileV0
     \<Rightarrow> (InquirySourceSnapshotV0 \<Rightarrow> string + CandidateInquiryPlanV0) \<Rightarrow> string + InquiryReceiptV0"
where
  "execute_latest_report_inquiry ext from_str db resolved resolve_plan =
     res_bind (validate_report_executor db resolved) (\<lambda>_.
     res_bind (with_context ''starting explicit read-only inquiry transaction'' (cn_unchecked_transaction db)) (\<lambda>_.
     res_bind (load_latest_snapshot from_str db) (\<lambda>snapshot.
     res_bind (context_some ''cannot resolve latest inquiry: the source database has no generations'' snapshot) (\<lambda>source.
     res_bind (with_context ''resolving latest into a concrete inquiry plan'' (resolve_plan source)) (\<lambda>plan.
     res_bind
       (refuse_if (plan_as_of plan \<noteq> snap_completed_at source)
         (''latest inquiry resolved as_of '' @ debug_str (plan_as_of plan)
            @ '', expected newest generation completed_at '' @ debug_str (snap_completed_at source))) (\<lambda>_.
     res_bind (with_context ''admitting latest-resolved governed inquiry request'' (admit ext plan resolved)) (\<lambda>request.
     res_bind (parse_time ext ''plan.as_of'' (req_as_of request)) (\<lambda>as_of.
     execute_report_inquiry_in_snapshot ext db resolved request as_of snapshot))))))))"


section \<open>The classification\<close>

lemma refuse_none [simp]: "refuse b kind statement = Inr None \<longleftrightarrow> \<not> b"
  by (simp add: refuse_def)

lemma first_refusal_none [simp]: "first_refusal cs = Inr None \<longleftrightarrow> (\<forall>c \<in> set cs. c = Inr None)"
  by (induction cs rule: first_refusal.induct) auto

lemma parse_time_ok [res_ok]: "parse_time ext field value = Inr t \<longleftrightarrow> rfc3339_parse ext value = Inr t"
  by (simp add: parse_time_def with_context_ok)

text \<open>
  The range of the timestamps: \<open>OffsetDateTime\<close> holds the years from -9999 to 9999, less than
  400 000 000 000 seconds from the epoch.
\<close>

definition rfc3339_bounded :: "externals \<Rightarrow> bool" where
  "rfc3339_bounded ext \<longleftrightarrow>
     (\<forall>v t. rfc3339_parse ext v = Inr t \<longrightarrow> \<bar>t\<bar> \<le> 400000000000 * 1000000000)"

lemma age_seconds_exact:
  assumes "0 \<le> ns" "ns < 2 ^ 64 * 1000000000"
  shows "uint (age_seconds_u64 ns) = ns div 1000000000"
proof -
  have "ns div 1000000000 < 2 ^ 64" using assms(2) by (simp add: div_less_iff_less_mult)
  with assms(1) show ?thesis by (simp add: age_seconds_u64_def uint_word_of_int take_bit_int_def)
qed

text \<open>
  What the executor means by operational activity, without the order of its checks: a time is
  \<^emph>\<open>timely\<close> when it is not after \<open>as_of\<close>, and \<^emph>\<open>fresh\<close> when it is not older than the horizon either.
\<close>

definition timely_at :: "externals \<Rightarrow> int \<Rightarrow> string \<Rightarrow> bool" where
  "timely_at ext as_of value \<longleftrightarrow> (\<exists>t. rfc3339_parse ext value = Inr t \<and> t \<le> as_of)"

definition fresh_at :: "externals \<Rightarrow> int \<Rightarrow> u64 \<Rightarrow> string \<Rightarrow> bool" where
  "fresh_at ext as_of max_age value \<longleftrightarrow>
     (\<exists>t. rfc3339_parse ext value = Inr t \<and> t \<le> as_of \<and> (as_of - t) div 1000000000 \<le> uint max_age)"

definition sound_snapshot :: "externals \<Rightarrow> int \<Rightarrow> u64 \<Rightarrow> InquirySourceSnapshotV0 \<Rightarrow> bool" where
  "sound_snapshot ext as_of max_age s \<longleftrightarrow>
     snap_summary_hash s \<noteq> None \<and> snap_status s = Complete
     \<and> 0 \<le> snap_sources_ok s \<and> snap_sources_ok s = snap_sources_expected s \<and> snap_sources_failed s = 0
     \<and> 0 \<le> snap_findings_observed s \<and> 0 \<le> snap_detectors_run s \<and> 0 \<le> snap_findings_suppressed s
     \<and> fresh_at ext as_of max_age (snap_completed_at s)"

definition authentic :: "externals \<Rightarrow> int \<Rightarrow> u64 \<Rightarrow> InquiryFindingStateV0 \<Rightarrow> bool" where
  "authentic ext as_of max_age f \<longleftrightarrow>
     fs_visibility_state f = ''observed'' \<and> fs_admissibility f = ''observable'' \<and> fs_origin_mode f = ''observed''
     \<and> (fs_origin_source f = ''nq''
        \<or> fs_origin_source f = ''import''
          \<and> (\<exists>p e t. fs_origin_producer_id f = Some p \<and> p \<noteq> [] \<and> fs_origin_extraction_run_id f = Some e \<and> e \<noteq> []
               \<and> fs_origin_producer_extraction_time f = Some t \<and> fresh_at ext as_of max_age t
               \<and> fs_origin_import_contract_version f \<noteq> None))"

definition held_now :: "externals \<Rightarrow> int \<Rightarrow> int \<Rightarrow> InquiryFindingStateV0 \<Rightarrow> bool" where
  "held_now ext as_of generation f \<longleftrightarrow>
     fs_basis_state f = ''live'' \<and> fs_basis_source_id f \<noteq> None \<and> fs_last_basis_generation f = Some generation
     \<and> (\<exists>t. fs_basis_state_at f = Some t \<and> timely_at ext as_of t)
     \<and> fs_last_seen_gen f = generation \<and> fs_absent_gens f = 0 \<and> 1 \<le> fs_consecutive_gens f"

definition witnessed ::
  "externals \<Rightarrow> int \<Rightarrow> int \<Rightarrow> InquiryFindingStateV0 \<Rightarrow> InquiryEvidenceReceiptV0 list \<Rightarrow> bool"
where
  "witnessed ext as_of generation f evidence \<longleftrightarrow>
     evidence \<noteq> [] \<and> ev_generation_id (hd evidence) = generation
     \<and> ev_basis_source_id (hd evidence) = fs_basis_source_id f
     \<and> ev_basis_witness_id (hd evidence) = fs_basis_witness_id f
     \<and> rfc3339_parse ext (ev_observed_at (hd evidence)) = rfc3339_parse ext (fs_last_seen_at f)
     \<and> (\<forall>e \<in> set evidence. timely_at ext as_of (ev_observed_at e))"

definition firing ::
  "externals \<Rightarrow> int \<Rightarrow> u64 \<Rightarrow> InquirySourceSnapshotV0 \<Rightarrow> InquiryFindingStateV0 \<Rightarrow> InquiryEvidenceReceiptV0 list \<Rightarrow> bool"
where
  "firing ext as_of max_age s f evidence \<longleftrightarrow>
     sound_snapshot ext as_of max_age s \<and> timely_at ext as_of (fs_last_seen_at f)
     \<and> authentic ext as_of max_age f \<and> held_now ext as_of (snap_generation_id s) f
     \<and> witnessed ext as_of (snap_generation_id s) f evidence"

lemma age_check:
  assumes "rfc3339_bounded ext" "\<bar>as_of\<bar> \<le> 400000000000 * 1000000000"
  shows "(\<exists>t. rfc3339_parse ext v = Inr t \<and> \<not> as_of < t \<and> \<not> max_age < age_seconds_u64 (as_of - t))
    \<longleftrightarrow> fresh_at ext as_of max_age v"
proof -
  have "\<not> max_age < age_seconds_u64 (as_of - t) \<longleftrightarrow> (as_of - t) div 1000000000 \<le> uint max_age"
    if "rfc3339_parse ext v = Inr t" "t \<le> as_of" for t
  proof -
    have "\<bar>t\<bar> \<le> 400000000000 * 1000000000" using assms(1) that(1) unfolding rfc3339_bounded_def by blast
    then have "uint (age_seconds_u64 (as_of - t)) = (as_of - t) div 1000000000"
      using that(2) assms(2) by (intro age_seconds_exact) simp_all
    then show ?thesis by (simp add: word_less_def not_less)
  qed
  then show ?thesis by (auto simp: fresh_at_def not_less)
qed

lemma classify_snapshot_ok:
  assumes "rfc3339_bounded ext" "\<bar>as_of\<bar> \<le> 400000000000 * 1000000000"
  shows "classify_snapshot ext s as_of max_age = Inr None \<longleftrightarrow> sound_snapshot ext as_of max_age s"
  by (auto simp: classify_snapshot_def sound_snapshot_def res_bind_Inr_iff parse_time_ok Let_def
      age_check [OF assms, symmetric])

lemma classify_import_ok:
  assumes "rfc3339_bounded ext" "\<bar>as_of\<bar> \<le> 400000000000 * 1000000000"
  shows "classify_import ext f as_of max_age = Inr None \<longleftrightarrow>
     (\<exists>p e t. fs_origin_producer_id f = Some p \<and> p \<noteq> [] \<and> fs_origin_extraction_run_id f = Some e \<and> e \<noteq> []
        \<and> fs_origin_producer_extraction_time f = Some t \<and> fresh_at ext as_of max_age t
        \<and> fs_origin_import_contract_version f \<noteq> None)"
  by (auto simp: classify_import_def res_bind_Inr_iff parse_time_ok Let_def
      age_check [OF assms, symmetric] split: option.splits)

lemma classify_origin_ok:
  assumes "rfc3339_bounded ext" "\<bar>as_of\<bar> \<le> 400000000000 * 1000000000"
  shows "classify_origin ext f as_of max_age = Inr None \<longleftrightarrow> authentic ext as_of max_age f"
  unfolding classify_origin_def authentic_def classify_import_ok [OF assms, symmetric] by auto

lemma classify_basis_ok:
  "classify_basis ext s f as_of = Inr None \<longleftrightarrow> held_now ext as_of (snap_generation_id s) f"
  by (auto simp: classify_basis_def held_now_def timely_at_def res_bind_Inr_iff parse_time_ok not_less
      split: option.splits)

lemma classify_carried_ok:
  "classify_carried ext as_of e = Inr None \<longleftrightarrow> timely_at ext as_of (ev_observed_at e)"
  by (auto simp: classify_carried_def timely_at_def res_bind_Inr_iff parse_time_ok not_less)

lemma classify_evidence_ok:
  assumes "rfc3339_parse ext (fs_last_seen_at f) = Inr t"
  shows "classify_evidence ext s f t evidence as_of = Inr None \<longleftrightarrow>
    witnessed ext as_of (snap_generation_id s) f evidence"
  using assms
  by (cases evidence)
    (auto simp: classify_evidence_def witnessed_def timely_at_def res_bind_Inr_iff parse_time_ok not_less
      classify_carried_ok ball_Un)

lemma classify_finding_ok:
  assumes "rfc3339_bounded ext" "\<bar>as_of\<bar> \<le> 400000000000 * 1000000000"
  shows "classify_finding ext s f evidence as_of max_age = Inr None \<longleftrightarrow>
    timely_at ext as_of (fs_last_seen_at f) \<and> authentic ext as_of max_age f
    \<and> held_now ext as_of (snap_generation_id s) f \<and> witnessed ext as_of (snap_generation_id s) f evidence"
  by (auto simp: classify_finding_def timely_at_def res_bind_Inr_iff parse_time_ok not_less
      classify_origin_ok [OF assms] classify_basis_ok classify_evidence_ok)

lemma classify_disposition_cases:
  assumes "rfc3339_bounded ext" "\<bar>as_of\<bar> \<le> 400000000000 * 1000000000"
    and "classify_disposition ext snapshot finding evidence as_of max_age refusals = Inr (disposition, refusals')"
  shows "if \<exists>s f. snapshot = Some s \<and> finding = Some f \<and> firing ext as_of max_age s f evidence
    then disposition = OperationallyActive \<and> refusals' = refusals
    else disposition = CannotTestify \<and> (\<exists>x. refusals' = refusals @ [x])"
proof -
  let ?c = "case snapshot of
          None \<Rightarrow>
            refuse True SnapshotUnavailable
              ''No NQ generation exists in the source database; no receipt snapshot can be identified.''
        | Some s \<Rightarrow>
            first_refusal
             [classify_snapshot ext s as_of max_age,
              (case finding of
                 None \<Rightarrow>
                   refuse True EvidenceAbsent
                     ''No exact current finding row exists. NQ receipt absence does not prove operational inactivity or detector coverage.''
               | Some f \<Rightarrow> classify_finding ext s f evidence as_of max_age)]"
  have "?c = Inr None \<longleftrightarrow>
      (\<exists>s f. snapshot = Some s \<and> finding = Some f \<and> firing ext as_of max_age s f evidence)"
    by (auto simp: firing_def classify_snapshot_ok [OF assms(1,2)] classify_finding_ok [OF assms(1,2)]
        split: option.splits)
  with assms(3) show ?thesis
    unfolding classify_disposition_def by (auto simp: res_bind_Inr_iff split: option.splits)
qed


section \<open>Reads of the tables\<close>

lemma joined_states_row:
  assumes "distinct (map ws_key rows)"
  shows "joined_states rows host kind subject =
    (case row_at ws_key (host, kind, subject) rows of
       None \<Rightarrow> [] | Some w \<Rightarrow> [finding_state_of w (v_admissibility w)])"
proof -
  let ?k = "(host, kind, subject)"
  have key: "va_host (v_admissibility v) = ws_host w \<and> va_kind (v_admissibility v) = ws_kind w
      \<and> va_subject (v_admissibility v) = ws_subject w \<and> ws_host w = host \<and> ws_kind w = kind \<and> ws_subject w = subject
      \<longleftrightarrow> ws_key w = ?k \<and> ws_key v = ?k" for v w
    by (auto simp: v_admissibility_def ws_key_def)
  have one: "filter (\<lambda>w. ws_key w = ?k) rows = (case row_at ws_key ?k rows of None \<Rightarrow> [] | Some w \<Rightarrow> [w])"
    using assms
  proof (induction rows)
    case (Cons a rows)
    have "filter (\<lambda>w. ws_key w = ?k) rows = []" if "ws_key a = ?k"
      using Cons.prems that by (auto simp: filter_empty_conv image_iff)
    with Cons show ?case by (auto simp: row_at_def)
  qed (simp add: row_at_def)
  have "joined_states rows host kind subject =
      concat (map (\<lambda>w. map (\<lambda>v. finding_state_of w (v_admissibility v)) (filter (\<lambda>v. ws_key v = ?k) rows))
        (filter (\<lambda>w. ws_key w = ?k) rows))"
  proof -
    have inner: "concat (map (\<lambda>v. if ws_key w = ?k \<and> ws_key v = ?k then [finding_state_of w (v_admissibility v)] else []) vs)
        = (if ws_key w = ?k then map (\<lambda>v. finding_state_of w (v_admissibility v)) (filter (\<lambda>v. ws_key v = ?k) vs) else [])" for w vs
      by (induction vs) auto
    have outer: "concat (map (\<lambda>w. if ws_key w = ?k then g w else []) ws) = concat (map g (filter (\<lambda>w. ws_key w = ?k) ws))" for g ws
      by (induction ws) auto
    show ?thesis unfolding joined_states_def map_map o_def key inner outer ..
  qed
  then show ?thesis by (simp add: one split: option.split)
qed

lemma load_finding_state_row:
  assumes "distinct (map ws_key rows)" "cn_warning_state cn = Inr rows"
  shows "load_finding_state cn host kind subject =
    Inr (map_option (\<lambda>w. finding_state_of w (v_admissibility w)) (row_at ws_key (host, kind, subject) rows))"
  using assms(2)
  by (simp add: load_finding_state_def with_context_def joined_states_row [OF assms(1)] split: option.split)

lemma load_evidence_tail_ok:
  assumes "cn_finding_observations cn = Inr rows"
  shows "load_evidence_tail cn host kind subject generation limit =
    Inr (take (unat limit) (matching_receipts rows host kind subject generation),
         length (matching_receipts rows host kind subject generation) > unat limit)"
  using assms by (auto simp: load_evidence_tail_def with_context_def Let_def min_def)

section \<open>Operational activity of a finding\<close>

definition sel_key :: "FindingSelectorV0 \<Rightarrow> string \<times> string \<times> string" where
  "sel_key sel = (sel_host sel, sel_kind sel, sel_subject sel)"

definition evidence_of :: "database \<Rightarrow> FindingSelectorV0 \<Rightarrow> u32 \<Rightarrow> int \<Rightarrow> InquiryEvidenceReceiptV0 list" where
  "evidence_of db sel limit generation =
     take (unat limit)
       (matching_receipts (db_finding_observations db) (sel_host sel) (sel_kind sel) (sel_subject sel) generation)"

text \<open>A generation that can carry an answer.\<close>

definition sound_generation :: "externals \<Rightarrow> int \<Rightarrow> u64 \<Rightarrow> generation_row \<Rightarrow> bool" where
  "sound_generation ext as_of max_age g \<longleftrightarrow>
     gen_summary_hash g \<noteq> None \<and> gen_status g = ''complete''
     \<and> 0 \<le> gen_sources_ok g \<and> gen_sources_ok g = gen_sources_expected g \<and> gen_sources_failed g = 0
     \<and> 0 \<le> gen_findings_observed g \<and> 0 \<le> gen_detectors_run g \<and> 0 \<le> gen_findings_suppressed g
     \<and> fresh_at ext as_of max_age (gen_completed_at g)"

text \<open>A row of the lifecycle that is a visible, authentic, current firing in a generation.\<close>

definition active_row :: "externals \<Rightarrow> int \<Rightarrow> u64 \<Rightarrow> int \<Rightarrow> warning_state_row \<Rightarrow> bool" where
  "active_row ext as_of max_age generation w \<longleftrightarrow>
     timely_at ext as_of (ws_last_seen_at w)
     \<and> ws_visibility_state w = ''observed'' \<and> ws_origin_mode w = ''observed''
     \<and> (ws_origin_source w = ''nq''
        \<or> ws_origin_source w = ''import''
          \<and> (\<exists>p e t. ws_origin_producer_id w = Some p \<and> p \<noteq> [] \<and> ws_origin_extraction_run_id w = Some e \<and> e \<noteq> []
               \<and> ws_origin_producer_extraction_time w = Some t \<and> fresh_at ext as_of max_age t
               \<and> ws_origin_import_contract_version w \<noteq> None))
     \<and> ws_basis_state w = ''live'' \<and> ws_basis_source_id w \<noteq> None \<and> ws_last_basis_generation w = Some generation
     \<and> (\<exists>t. ws_basis_state_at w = Some t \<and> timely_at ext as_of t)
     \<and> ws_last_seen_gen w = generation \<and> ws_absent_gens w = 0 \<and> 1 \<le> ws_consecutive_gens w"

text \<open>Its newest receipt is of that generation and agrees with it; no carried one is from the future.\<close>

definition attested :: "externals \<Rightarrow> int \<Rightarrow> int \<Rightarrow> warning_state_row \<Rightarrow> InquiryEvidenceReceiptV0 list \<Rightarrow> bool" where
  "attested ext as_of generation w evidence \<longleftrightarrow>
     evidence \<noteq> [] \<and> ev_generation_id (hd evidence) = generation
     \<and> ev_basis_source_id (hd evidence) = ws_basis_source_id w
     \<and> ev_basis_witness_id (hd evidence) = ws_basis_witness_id w
     \<and> rfc3339_parse ext (ev_observed_at (hd evidence)) = rfc3339_parse ext (ws_last_seen_at w)
     \<and> (\<forall>e \<in> set evidence. timely_at ext as_of (ev_observed_at e))"

definition operationally_active ::
  "externals \<Rightarrow> database \<Rightarrow> FindingSelectorV0 \<Rightarrow> u32 \<Rightarrow> int \<Rightarrow> u64 \<Rightarrow> bool"
where
  "operationally_active ext db sel limit as_of max_age \<longleftrightarrow>
     (\<exists>g w. latest_by gen_generation_id (db_generations db) = Some g
        \<and> row_at ws_key (sel_key sel) (db_warning_state db) = Some w
        \<and> sound_generation ext as_of max_age g \<and> active_row ext as_of max_age (gen_generation_id g) w
        \<and> attested ext as_of (gen_generation_id g) w (evidence_of db sel limit (gen_generation_id g)))"

lemma source_snapshot_ok:
  "source_snapshot from_str g = Inr s \<Longrightarrow>
     snap_generation_id s = gen_generation_id g \<and> snap_completed_at s = gen_completed_at g
     \<and> (sound_snapshot ext as_of max_age s \<longleftrightarrow> sound_generation ext as_of max_age g)"
  by (auto simp: source_snapshot_def res_bind_Inr_iff sound_snapshot_def sound_generation_def parse_generation_status_def
      split: if_splits)

lemma firing_row:
  assumes "source_snapshot from_str g = Inr s"
  shows "firing ext as_of max_age s (finding_state_of w (v_admissibility w)) evidence \<longleftrightarrow>
    sound_generation ext as_of max_age g \<and> active_row ext as_of max_age (gen_generation_id g) w
    \<and> attested ext as_of (gen_generation_id g) w evidence"
proof -
  let ?f = "finding_state_of w (v_admissibility w)"
  have "sound_snapshot ext as_of max_age s \<longleftrightarrow> sound_generation ext as_of max_age g"
    and i: "snap_generation_id s = gen_generation_id g"
    using source_snapshot_ok [OF assms] by auto
  moreover have "timely_at ext as_of (fs_last_seen_at ?f) \<and> authentic ext as_of max_age ?f \<and> held_now ext as_of (gen_generation_id g) ?f
      \<longleftrightarrow> active_row ext as_of max_age (gen_generation_id g) w"
    by (auto simp: active_row_def authentic_def held_now_def finding_state_of_def v_admissibility_def)
  moreover have "witnessed ext as_of (gen_generation_id g) ?f evidence \<longleftrightarrow> attested ext as_of (gen_generation_id g) w evidence"
    by (simp add: witnessed_def attested_def finding_state_of_def)
  ultimately show ?thesis unfolding firing_def i by blast
qed

lemma latest_snapshot_ok:
  "load_latest_snapshot from_str (connection_of db) = Inr x \<longleftrightarrow>
     (case latest_by gen_generation_id (db_generations db) of
        None \<Rightarrow> x = None
      | Some g \<Rightarrow> \<exists>s. source_snapshot from_str g = Inr s \<and> x = Some s)"
  by (auto simp: load_latest_snapshot_def connection_of_def with_context_def res_bind_Inr_iff split: option.splits)

section \<open>Running the executor\<close>

definition shown :: "database \<Rightarrow> FindingSelectorV0 \<Rightarrow> InquiryFindingStateV0 option" where
  "shown db sel = map_option (\<lambda>w. finding_state_of w (v_admissibility w)) (row_at ws_key (sel_key sel) (db_warning_state db))"

definition tail_of :: "database \<Rightarrow> FindingSelectorV0 \<Rightarrow> u32 \<Rightarrow> InquirySourceSnapshotV0 option \<Rightarrow> InquiryEvidenceReceiptV0 list" where
  "tail_of db sel limit snapshot = (case snapshot of None \<Rightarrow> [] | Some s \<Rightarrow> evidence_of db sel limit (snap_generation_id s))"

lemma in_snapshot_ok:
  assumes "distinct (map ws_key (db_warning_state db))"
    and "prof_selector (res_profile resolved) = Some sel" "prof_evidence_limit (res_profile resolved) = Some lim"
    and "prof_max_snapshot_age_seconds (res_profile resolved) = Some age"
  shows "execute_report_inquiry_in_snapshot ext (connection_of db) resolved request as_of snapshot = Inr receipt \<longleftrightarrow>
    (\<exists>disposition refusals truncated.
       classify_disposition ext snapshot (shown db sel) (tail_of db sel lim snapshot) as_of age
         (prof_cannot_testify (res_profile resolved)) = Inr (disposition, refusals)
       \<and> truncated = (case snapshot of None \<Rightarrow> False | Some s \<Rightarrow> unat lim < length (matching_receipts (db_finding_observations db)
            (sel_host sel) (sel_kind sel) (sel_subject sel) (snap_generation_id s)))
       \<and> seal ext (report_receipt resolved request snapshot (shown db sel) (tail_of db sel lim snapshot)
           (evidence_coverage_of (shown db sel) (tail_of db sel lim snapshot) lim truncated) disposition refusals) = Inr receipt)"
proof -
  have "load_finding_state (connection_of db) (sel_host sel) (sel_kind sel) (sel_subject sel) = Inr (shown db sel)"
    using load_finding_state_row [OF assms(1), of "connection_of db"] by (simp add: connection_of_def shown_def sel_key_def)
  moreover have "load_evidence_tail (connection_of db) (sel_host sel) (sel_kind sel) (sel_subject sel) i lim =
      Inr (evidence_of db sel lim i, unat lim < length (matching_receipts (db_finding_observations db)
            (sel_host sel) (sel_kind sel) (sel_subject sel) i))" for i
    by (subst load_evidence_tail_ok) (simp_all add: connection_of_def evidence_of_def)
  ultimately show ?thesis
    unfolding execute_report_inquiry_in_snapshot_def
    by (cases snapshot)
      (auto simp: assms(2-4) context_some_ok res_bind_Inr_iff with_context_ok tail_of_def connection_of_def split: prod.splits)
qed

lemma report_ok:
  "execute_report_inquiry ext from_str (connection_of db) resolved plan = Inr receipt \<longleftrightarrow>
     prof_question_kind (res_profile resolved) = FindingOperationalActivity
     \<and> (\<exists>request as_of snapshot. admit ext plan resolved = Inr request
          \<and> rfc3339_parse ext (plan_as_of plan) = Inr as_of
          \<and> load_latest_snapshot from_str (connection_of db) = Inr snapshot
          \<and> execute_report_inquiry_in_snapshot ext (connection_of db) resolved request as_of snapshot = Inr receipt)"
proof -
  have "validate_report_executor (connection_of db) resolved = Inr () \<longleftrightarrow>
      prof_question_kind (res_profile resolved) = FindingOperationalActivity"
    by (auto simp: validate_report_executor_def connection_of_def with_context_def checks_ok refuse_if_ok)
  moreover have "req_as_of request = plan_as_of plan" if "admit ext plan resolved = Inr request" for request
    using that by (auto simp: admit_ok)
  moreover have "with_context m (cn_unchecked_transaction (connection_of db)) = Inr ()" for m
    by (simp add: connection_of_def with_context_def)
  ultimately show ?thesis
    unfolding execute_report_inquiry_def
    by (auto simp: res_bind_Inr_iff with_context_ok parse_time_ok)
qed

lemma report_profile:
  assumes "admit ext plan resolved = Inr request" "prof_question_kind (res_profile resolved) = FindingOperationalActivity"
  obtains sel lim age where "prof_selector (res_profile resolved) = Some sel"
    "prof_evidence_limit (res_profile resolved) = Some lim" "prof_max_snapshot_age_seconds (res_profile resolved) = Some age"
    "0 < lim" "lim \<le> 1000" "req_selector request = Some sel" "req_requested_targets request = []" "req_admitted_targets request = []"
    "req_question_kind request = FindingOperationalActivity"
proof -
  have "validate_report_question (res_profile resolved) = Inr ()"
    using assms by (auto simp: admit_ok profile_validate_ok)
  with assms that show ?thesis by (auto simp: validate_report_question_ok admit_ok admit_targets_ok)
qed

section \<open>Properties of the executor\<close>

lemma left_out:
  assumes "sorted (map f xs)" "x \<in> set xs" "x \<notin> set (take n xs)"
  shows "n < length xs \<and> (\<forall>y \<in> set (take n xs). f y \<le> f x)"
proof -
  have xs: "take n xs @ drop n xs = xs" by simp
  then have x: "x \<in> set (drop n xs)" using assms(2,3) by (metis Un_iff set_append)
  then have "drop n xs \<noteq> []" by auto
  moreover have "sorted (map f (take n xs) @ map f (drop n xs))" using assms(1) by (simp flip: map_append)
  ultimately show ?thesis using x unfolding sorted_append by auto
qed

lemma snapshot_active:
  assumes "rfc3339_bounded ext" "rfc3339_parse ext at = Inr as_of"
    and "load_latest_snapshot from_str (connection_of db) = Inr snapshot"
    and "classify_disposition ext snapshot (shown db sel) (tail_of db sel lim snapshot) as_of age refusals = Inr (disposition, refusals')"
  shows "if operationally_active ext db sel lim as_of age
    then disposition = OperationallyActive \<and> refusals' = refusals
    else disposition = CannotTestify \<and> (\<exists>x. refusals' = refusals @ [x])"
proof -
  have b: "\<bar>as_of\<bar> \<le> 400000000000 * 1000000000" using assms(1,2) unfolding rfc3339_bounded_def by blast
  have "operationally_active ext db sel lim as_of age \<longleftrightarrow>
      (\<exists>s f. snapshot = Some s \<and> shown db sel = Some f \<and> firing ext as_of age s f (tail_of db sel lim snapshot))"
  proof (cases "latest_by gen_generation_id (db_generations db)")
    case None
    with assms(3) show ?thesis by (simp add: latest_snapshot_ok operationally_active_def)
  next
    case (Some g)
    with assms(3) obtain s where s: "source_snapshot from_str g = Inr s" "snapshot = Some s"
      by (auto simp: latest_snapshot_ok)
    have "snap_generation_id s = gen_generation_id g" using source_snapshot_ok [OF s(1)] by simp
    then show ?thesis
      by (cases "row_at ws_key (sel_key sel) (db_warning_state db)")
        (simp_all add: operationally_active_def Some s(2) shown_def tail_of_def firing_row [OF s(1)])
  qed
  with classify_disposition_cases [OF assms(1) b assms(4)] show ?thesis by (simp only:)
qed

lemma report_answers:
  assumes "rfc3339_bounded ext" and "distinct (map ws_key (db_warning_state db))"
    and "execute_report_inquiry ext from_str (connection_of db) resolved plan = Inr receipt"
    and "rfc3339_parse ext (plan_as_of plan) = Inr as_of"
    and "prof_selector (res_profile resolved) = Some sel" and "prof_evidence_limit (res_profile resolved) = Some lim"
    and "prof_max_snapshot_age_seconds (res_profile resolved) = Some age"
  shows "if operationally_active ext db sel lim as_of age
    then rc_status receipt = Answered \<and> rc_disposition receipt = OperationallyActive
      \<and> set (rc_cannot_testify receipt) = set (prof_cannot_testify (res_profile resolved))
    else rc_status receipt = Refused \<and> rc_disposition receipt = CannotTestify
      \<and> (\<exists>x. set (rc_cannot_testify receipt) = insert x (set (prof_cannot_testify (res_profile resolved))))"
proof -
  from assms(3,4) obtain request snapshot where
    snap: "load_latest_snapshot from_str (connection_of db) = Inr snapshot" and
    run: "execute_report_inquiry_in_snapshot ext (connection_of db) resolved request as_of snapshot = Inr receipt"
    by (auto simp: report_ok)
  from run [unfolded in_snapshot_ok [OF assms(2,5-7)]] obtain disposition refusals truncated where
    c: "classify_disposition ext snapshot (shown db sel) (tail_of db sel lim snapshot) as_of age
         (prof_cannot_testify (res_profile resolved)) = Inr (disposition, refusals)" and
    s: "seal ext (report_receipt resolved request snapshot (shown db sel) (tail_of db sel lim snapshot)
           (evidence_coverage_of (shown db sel) (tail_of db sel lim snapshot) lim truncated) disposition refusals) = Inr receipt"
    by blast
  have "rc_status receipt = (if disposition = CannotTestify then Refused else Answered)"
    "rc_disposition receipt = disposition" "set (rc_cannot_testify receipt) = set refusals"
    using s by (auto simp: seal_ok report_receipt_def)
  note fields = this
  show ?thesis
  proof (cases "operationally_active ext db sel lim as_of age")
    case True
    with snapshot_active [OF assms(1,4) snap c] fields show ?thesis by simp
  next
    case False
    with snapshot_active [OF assms(1,4) snap c] obtain x where
      "disposition = CannotTestify" "refusals = prof_cannot_testify (res_profile resolved) @ [x]" by auto
    with False fields show ?thesis by (simp, intro exI [of _ x]) simp
  qed
qed


text \<open>
  C31: the evidence a report carries is bounded and the newest there is: at most the profile's
  limit of receipts, newest first, each of the finding and not after the newest generation; a
  receipt of the finding left out is not newer than any carried, and the report says so.
\<close>

theorem report_evidence_bounded:
  assumes "distinct (map ws_key (db_warning_state db))"
    and "execute_report_inquiry ext from_str (connection_of db) resolved plan = Inr receipt"
    and "prof_selector (res_profile resolved) = Some sel" and "prof_evidence_limit (res_profile resolved) = Some lim"
    and "latest_by gen_generation_id (db_generations db) = Some g"
  shows "length (rc_evidence_receipts receipt) \<le> unat lim
    \<and> sorted (map (\<lambda>e. (- ev_generation_id e, - ev_observation_id e)) (rc_evidence_receipts receipt))
    \<and> (\<forall>e \<in> set (rc_evidence_receipts receipt). \<exists>r \<in> set (db_finding_observations db). e = receipt_of r
         \<and> (obs_host r, obs_detector_id r, obs_subject r) = sel_key sel \<and> obs_generation_id r \<le> gen_generation_id g)
    \<and> (\<forall>r \<in> set (db_finding_observations db). obs_scope r = ''local''
         \<longrightarrow> (obs_host r, obs_detector_id r, obs_subject r) = sel_key sel \<longrightarrow> obs_generation_id r \<le> gen_generation_id g
         \<longrightarrow> receipt_of r \<notin> set (rc_evidence_receipts receipt)
         \<longrightarrow> cov_receipt_tail_truncated (rc_evidence_coverage receipt)
           \<and> (\<forall>e \<in> set (rc_evidence_receipts receipt). (obs_generation_id r, obs_observation_id r) \<le> (ev_generation_id e, ev_observation_id e)))"
proof -
  let ?rows = "sort_key (\<lambda>r. (- obs_generation_id r, - obs_observation_id r))
         (filter (\<lambda>r. obs_scope r = ''local'' \<and> obs_host r = sel_host sel \<and> obs_detector_id r = sel_kind sel
            \<and> obs_subject r = sel_subject sel \<and> obs_generation_id r \<le> gen_generation_id g) (db_finding_observations db))"
  let ?m = "map receipt_of ?rows"
  from assms(2) obtain request as_of snapshot where adm: "admit ext plan resolved = Inr request"
    and kind: "prof_question_kind (res_profile resolved) = FindingOperationalActivity"
    and snap: "load_latest_snapshot from_str (connection_of db) = Inr snapshot"
    and run: "execute_report_inquiry_in_snapshot ext (connection_of db) resolved request as_of snapshot = Inr receipt"
    by (auto simp: report_ok)
  obtain age where age: "prof_max_snapshot_age_seconds (res_profile resolved) = Some age"
    by (rule report_profile [OF adm kind])
  obtain s where s: "snapshot = Some s" "snap_generation_id s = gen_generation_id g"
    using snap assms(5) source_snapshot_ok by (auto simp: latest_snapshot_ok)
  have m: "matching_receipts (db_finding_observations db) (sel_host sel) (sel_kind sel) (sel_subject sel) (gen_generation_id g) = ?m"
    by (simp add: matching_receipts_def)
  from run [unfolded in_snapshot_ok [OF assms(1,3,4) age]]
  have e: "rc_evidence_receipts receipt = take (unat lim) ?m"
    and t: "cov_receipt_tail_truncated (rc_evidence_coverage receipt) \<longleftrightarrow> unat lim < length ?m"
    unfolding s(1) by (auto simp: seal_ok report_receipt_def tail_of_def evidence_of_def s(2) m evidence_coverage_of_def)
  have ord: "(\<lambda>e. (- ev_generation_id e, - ev_observation_id e)) \<circ> receipt_of = (\<lambda>r. (- obs_generation_id r, - obs_observation_id r))"
    by (simp add: receipt_of_def fun_eq_iff)
  have sorted: "sorted (map (\<lambda>e. (- ev_generation_id e, - ev_observation_id e)) ?m)" by (simp add: ord)
  have "sorted (map (\<lambda>e. (- ev_generation_id e, - ev_observation_id e)) (rc_evidence_receipts receipt))"
    using sorted_wrt_take [OF sorted, of "unat lim"] unfolding e take_map .
  moreover have "\<exists>r \<in> set (db_finding_observations db). x = receipt_of r
         \<and> (obs_host r, obs_detector_id r, obs_subject r) = sel_key sel \<and> obs_generation_id r \<le> gen_generation_id g"
    if "x \<in> set (rc_evidence_receipts receipt)" for x
    using in_set_takeD [OF that [unfolded e]] by (auto simp: sel_key_def)
  moreover have "cov_receipt_tail_truncated (rc_evidence_coverage receipt)
      \<and> (\<forall>x \<in> set (rc_evidence_receipts receipt). (obs_generation_id r, obs_observation_id r) \<le> (ev_generation_id x, ev_observation_id x))"
    if r: "r \<in> set (db_finding_observations db)" "obs_scope r = ''local''" "(obs_host r, obs_detector_id r, obs_subject r) = sel_key sel"
      "obs_generation_id r \<le> gen_generation_id g" "receipt_of r \<notin> set (rc_evidence_receipts receipt)" for r
  proof -
    have "receipt_of r \<in> set ?m" using r(1-4) by (auto simp: sel_key_def)
    with left_out [OF sorted, of "receipt_of r" "unat lim"] r(5)
    have "unat lim < length ?m" and le: "\<forall>x \<in> set (take (unat lim) ?m).
        (- ev_generation_id x, - ev_observation_id x) \<le> (- ev_generation_id (receipt_of r), - ev_observation_id (receipt_of r))"
      unfolding e by blast+
    moreover have "(obs_generation_id r, obs_observation_id r) \<le> (ev_generation_id x, ev_observation_id x)"
      if "x \<in> set (take (unat lim) ?m)" for x
      using bspec [OF le that] by (auto simp: receipt_of_def)
    ultimately show ?thesis unfolding e t by blast
  qed
  ultimately show ?thesis by (simp add: e)
qed

section \<open>The latest generation\<close>

text \<open>
  Resolving \<open>latest\<close> is asking about the newest generation's completion time: the latest
  inquiry returns a receipt exactly when there is a newest generation, the resolver turns it into
  a plan for that time, and the ordinary inquiry returns that receipt for the plan.
\<close>

lemma latest_explicit:
  "execute_latest_report_inquiry ext from_str (connection_of db) resolved resolve_plan = Inr receipt \<longleftrightarrow>
     (\<exists>g s plan. latest_by gen_generation_id (db_generations db) = Some g \<and> source_snapshot from_str g = Inr s
        \<and> resolve_plan s = Inr plan \<and> plan_as_of plan = gen_completed_at g
        \<and> execute_report_inquiry ext from_str (connection_of db) resolved plan = Inr receipt)"
proof -
  have v: "validate_report_executor (connection_of db) resolved = Inr () \<longleftrightarrow>
      prof_question_kind (res_profile resolved) = FindingOperationalActivity"
    by (auto simp: validate_report_executor_def connection_of_def with_context_def checks_ok refuse_if_ok)
  have t: "with_context m (cn_unchecked_transaction (connection_of db)) = Inr ()" for m
    by (simp add: connection_of_def with_context_def)
  have a: "req_as_of request = plan_as_of plan" if "admit ext plan resolved = Inr request" for request plan
    using that by (auto simp: admit_ok)
  have "execute_latest_report_inquiry ext from_str (connection_of db) resolved resolve_plan = Inr receipt \<longleftrightarrow>
      prof_question_kind (res_profile resolved) = FindingOperationalActivity
      \<and> (\<exists>s plan request as_of. load_latest_snapshot from_str (connection_of db) = Inr (Some s) \<and> resolve_plan s = Inr plan
          \<and> plan_as_of plan = snap_completed_at s \<and> admit ext plan resolved = Inr request
          \<and> rfc3339_parse ext (plan_as_of plan) = Inr as_of
          \<and> execute_report_inquiry_in_snapshot ext (connection_of db) resolved request as_of (Some s) = Inr receipt)"
    unfolding execute_latest_report_inquiry_def
    by (auto simp: res_bind_Inr_iff with_context_ok parse_time_ok context_some_ok refuse_if_ok t v a)
  also have "\<dots> \<longleftrightarrow> (\<exists>g s plan. latest_by gen_generation_id (db_generations db) = Some g \<and> source_snapshot from_str g = Inr s
        \<and> resolve_plan s = Inr plan \<and> plan_as_of plan = gen_completed_at g
        \<and> execute_report_inquiry ext from_str (connection_of db) resolved plan = Inr receipt)"
    unfolding report_ok latest_snapshot_ok
    using source_snapshot_ok by (cases "latest_by gen_generation_id (db_generations db)") fastforce+
  finally show ?thesis .
qed

section \<open>The executor returns\<close>

definition parses :: "externals \<Rightarrow> string option \<Rightarrow> bool" where
  "parses ext v \<longleftrightarrow> (\<forall>t. v = Some t \<longrightarrow> is_ok (rfc3339_parse ext t))"

definition readable :: "externals \<Rightarrow> (string \<Rightarrow> string + json) \<Rightarrow> database \<Rightarrow> bool" where
  "readable ext from_str db \<longleftrightarrow>
     (\<forall>g \<in> set (db_generations db). gen_status g \<in> {''complete'', ''partial'', ''failed''}
        \<and> parses ext (Some (gen_completed_at g))
        \<and> (\<forall>raw. gen_coverage_json g = Some raw \<longrightarrow> is_ok (from_str raw)))
     \<and> (\<forall>w \<in> set (db_warning_state db). parses ext (Some (ws_last_seen_at w)) \<and> parses ext (ws_basis_state_at w)
        \<and> parses ext (ws_origin_producer_extraction_time w))
     \<and> (\<forall>r \<in> set (db_finding_observations db). parses ext (Some (obs_observed_at r)))"

lemma first_refusal_total: "\<forall>c \<in> set cs. is_ok c \<Longrightarrow> is_ok (first_refusal cs)"
  by (induction cs rule: first_refusal.induct) auto

lemma refuse_total [simp]: "is_ok (refuse b kind statement)"
  by (simp add: refuse_def)

lemma parse_total:
  assumes "parses ext (Some v)" "\<And>t. is_ok (f t)"
  shows "is_ok (res_bind (parse_time ext field v) f)"
proof -
  obtain t where "rfc3339_parse ext v = Inr t" using assms(1) by (cases "rfc3339_parse ext v") (auto simp: parses_def)
  then have "parse_time ext field v = Inr t" by (simp add: parse_time_ok)
  with assms(2) show ?thesis by simp
qed

lemma classify_snapshot_total: "parses ext (Some (snap_completed_at s)) \<Longrightarrow> is_ok (classify_snapshot ext s as_of age)"
  unfolding classify_snapshot_def Let_def by (rule first_refusal_total) (auto intro!: parse_total first_refusal_total)

lemma classify_origin_total:
  assumes "parses ext (fs_origin_producer_extraction_time f)"
  shows "is_ok (classify_origin ext f as_of age)"
proof -
  have "is_ok (classify_import ext f as_of age)"
    using assms unfolding classify_import_def Let_def
    by (auto intro!: first_refusal_total parse_total split: option.split)
  then show ?thesis unfolding classify_origin_def by (intro first_refusal_total) auto
qed

lemma classify_basis_total: "parses ext (fs_basis_state_at f) \<Longrightarrow> is_ok (classify_basis ext s f as_of)"
  unfolding classify_basis_def by (rule first_refusal_total) (auto intro!: parse_total split: option.split)

lemma classify_evidence_total:
  "\<forall>e \<in> set evidence. parses ext (Some (ev_observed_at e)) \<Longrightarrow> is_ok (classify_evidence ext s f t evidence as_of)"
  by (cases evidence) (auto simp: classify_evidence_def classify_carried_def intro!: parse_total first_refusal_total)

lemma classify_disposition_total:
  assumes "\<And>s. snapshot = Some s \<Longrightarrow> parses ext (Some (snap_completed_at s))"
    and "\<And>f. finding = Some f \<Longrightarrow> parses ext (Some (fs_last_seen_at f)) \<and> parses ext (fs_basis_state_at f)
      \<and> parses ext (fs_origin_producer_extraction_time f)"
    and "\<forall>e \<in> set evidence. parses ext (Some (ev_observed_at e))"
  shows "\<exists>d r. classify_disposition ext snapshot finding evidence as_of age refusals = Inr (d, r)"
proof -
  have "is_ok (classify_finding ext s f evidence as_of age)" if "finding = Some f" for s f
    unfolding classify_finding_def using assms(2) [OF that] assms(3)
    by (auto intro!: parse_total first_refusal_total classify_origin_total classify_basis_total classify_evidence_total)
  then have "is_ok (case snapshot of None \<Rightarrow> refuse True SnapshotUnavailable
              ''No NQ generation exists in the source database; no receipt snapshot can be identified.''
        | Some s \<Rightarrow> first_refusal [classify_snapshot ext s as_of age,
              (case finding of None \<Rightarrow> refuse True EvidenceAbsent
                     ''No exact current finding row exists. NQ receipt absence does not prove operational inactivity or detector coverage.''
               | Some f \<Rightarrow> classify_finding ext s f evidence as_of age)])" (is "is_ok ?c")
    using assms(1) by (auto intro!: first_refusal_total classify_snapshot_total split: option.split)
  then obtain x where "?c = Inr x" by (cases ?c) auto
  then show ?thesis unfolding classify_disposition_def by (cases x) auto
qed

lemma source_snapshot_total:
  assumes "gen_status g \<in> {''complete'', ''partial'', ''failed''}" "\<forall>raw. gen_coverage_json g = Some raw \<longrightarrow> is_ok (from_str raw)"
  shows "\<exists>s. source_snapshot from_str g = Inr s"
proof -
  obtain st where st: "parse_generation_status (gen_status g) = Inr st"
    using assms(1) by (auto simp: parse_generation_status_def)
  show ?thesis
  proof (cases "gen_coverage_json g")
    case (Some raw)
    with assms(2) obtain v where "from_str raw = Inr v" by (cases "from_str raw") auto
    with Some st show ?thesis by (simp add: source_snapshot_def with_context_def)
  qed (simp add: source_snapshot_def st)
qed

lemma report_runs:
  assumes "jcs_total ext" and "distinct (map ws_key (db_warning_state db))" and "readable ext from_str db"
    and "admit ext plan resolved = Inr request" and "prof_question_kind (res_profile resolved) = FindingOperationalActivity"
  shows "\<exists>receipt. execute_report_inquiry ext from_str (connection_of db) resolved plan = Inr receipt
    \<and> rc_receipt_digest receipt \<noteq> None \<and> rc_request receipt = request"
proof -
  obtain sel lim age where prof: "prof_selector (res_profile resolved) = Some sel"
    "prof_evidence_limit (res_profile resolved) = Some lim" "prof_max_snapshot_age_seconds (res_profile resolved) = Some age"
    and req: "req_selector request = Some sel" "req_requested_targets request = []" "req_admitted_targets request = []"
    "req_question_kind request = FindingOperationalActivity"
    by (rule report_profile [OF assms(4,5)])
  obtain as_of where as_of: "rfc3339_parse ext (plan_as_of plan) = Inr as_of"
    using assms(4) by (auto simp: admit_ok plan_validate_ok)
  obtain snapshot where snap: "load_latest_snapshot from_str (connection_of db) = Inr snapshot"
    and ready: "\<And>s. snapshot = Some s \<Longrightarrow> parses ext (Some (snap_completed_at s))"
  proof (cases "latest_by gen_generation_id (db_generations db)")
    case None
    then show ?thesis using that [of None] by (simp add: latest_snapshot_ok)
  next
    case (Some g)
    then have g: "g \<in> set (db_generations db)" by (rule latest_by_max(1))
    with assms(3) obtain s where s: "source_snapshot from_str g = Inr s"
      using source_snapshot_total [of g from_str] unfolding readable_def by blast
    moreover have "parses ext (Some (snap_completed_at s))"
      using source_snapshot_ok [OF s] assms(3) g unfolding readable_def by simp
    ultimately show ?thesis using that [of "Some s"] Some by (simp add: latest_snapshot_ok)
  qed
  have "\<exists>d r. classify_disposition ext snapshot (shown db sel) (tail_of db sel lim snapshot) as_of age
      (prof_cannot_testify (res_profile resolved)) = Inr (d, r)"
  proof (rule classify_disposition_total)
    fix f assume "shown db sel = Some f"
    then obtain w where "w \<in> set (db_warning_state db)" "f = finding_state_of w (v_admissibility w)"
      using row_at_some [of ws_key "sel_key sel" "db_warning_state db"] by (auto simp: shown_def)
    with assms(3) show "parses ext (Some (fs_last_seen_at f)) \<and> parses ext (fs_basis_state_at f)
        \<and> parses ext (fs_origin_producer_extraction_time f)" unfolding readable_def by (simp add: finding_state_of_def)
  next
    have "e \<in> set (matching_receipts (db_finding_observations db) h k s i) \<Longrightarrow> parses ext (Some (ev_observed_at e))" for e h k s i
      using assms(3) unfolding readable_def by (auto simp: matching_receipts_def receipt_of_def)
    then show "\<forall>e \<in> set (tail_of db sel lim snapshot). parses ext (Some (ev_observed_at e))"
      by (auto simp: tail_of_def evidence_of_def dest!: in_set_takeD split: option.splits)
  qed (rule ready)
  then obtain d r where c: "classify_disposition ext snapshot (shown db sel) (tail_of db sel lim snapshot) as_of age
      (prof_cannot_testify (res_profile resolved)) = Inr (d, r)" by blast
  have d: "d \<noteq> PerTargetOutcomes"
    using c unfolding classify_disposition_def by (auto simp: res_bind_Inr_iff split: option.splits)
  define t where "t = (case snapshot of None \<Rightarrow> False | Some s \<Rightarrow> unat lim < length (matching_receipts (db_finding_observations db)
            (sel_host sel) (sel_kind sel) (sel_subject sel) (snap_generation_id s)))"
  let ?r = "report_receipt resolved request snapshot (shown db sel) (tail_of db sel lim snapshot)
       (evidence_coverage_of (shown db sel) (tail_of db sel lim snapshot) lim t) d r"
  obtain h where "compute_receipt_digest ext (normalize_receipt ?r) = Inr h"
    using digest_jcs_total [OF assms(1)] by (auto simp: compute_receipt_digest_def)
  moreover have "verify_question_envelope ext (normalize_receipt ?r) = Inr ()"
    using req d by (simp add: verify_question_envelope_def verify_report_envelope_ok report_receipt_def)
  ultimately have sealed: "seal ext ?r = Inr ((normalize_receipt ?r)\<lparr>rc_receipt_digest := Some h\<rparr>)"
    using admit_verifies [OF assms(4)] by (simp add: seal_ok report_receipt_def)
  then have "execute_report_inquiry_in_snapshot ext (connection_of db) resolved request as_of snapshot =
      Inr ((normalize_receipt ?r)\<lparr>rc_receipt_digest := Some h\<rparr>)"
    unfolding in_snapshot_ok [OF assms(2) prof] using c t_def by blast
  then have "execute_report_inquiry ext from_str (connection_of db) resolved plan = Inr ((normalize_receipt ?r)\<lparr>rc_receipt_digest := Some h\<rparr>)"
    unfolding report_ok using assms(4,5) as_of snap by blast
  moreover have "rc_request ?r = request" by (simp add: report_receipt_def)
  ultimately show ?thesis
    by (intro exI [of _ "(normalize_receipt ?r)\<lparr>rc_receipt_digest := Some h\<rparr>"] conjI) simp_all
qed

text \<open>
  On a store whose times and statuses can be read, an admitted report inquiry always returns
  a sealed receipt: no state of the finding, of its generation or of its evidence makes it fail.
\<close>

theorem report_returns:
  assumes "jcs_total ext" and "distinct (map ws_key (db_warning_state db))" and "readable ext from_str db"
    and "admit ext plan resolved = Inr request" and "prof_question_kind (res_profile resolved) = FindingOperationalActivity"
  shows "\<exists>receipt. execute_report_inquiry ext from_str (connection_of db) resolved plan = Inr receipt
    \<and> rc_receipt_digest receipt \<noteq> None \<and> rc_request receipt = request"
  using assms by (rule report_runs)

section \<open>A concrete report\<close>

definition report_ext :: externals where
  "report_ext = demo_ext\<lparr>rfc3339_parse :=
     (\<lambda>s. if s \<noteq> [] \<and> last s = CHR ''Z'' \<and> length s \<le> 1000 then Inr (int (length s)) else Inl ''bad'')\<rparr>"

definition report_profile_demo :: InquiryProfileV0 where
  "report_profile_demo = demo_profile\<lparr>prof_profile_id := ''report'', prof_aliases := [],
     prof_question_kind := FindingOperationalActivity, prof_question := ''q'',
     prof_selector := Some (FindingSelectorV0 ''h'' ''k'' ''s''), prof_max_snapshot_age_seconds := Some 60,
     prof_evidence_limit := Some 1, prof_tls_cert := None\<rparr>"

definition report_resolved :: ResolvedInquiryProfileV0 where
  "report_resolved =
    \<lparr>res_profile = normalize_profile report_profile_demo,
     res_profile_digest = (case profile_digest report_ext report_profile_demo of Inl e \<Rightarrow> [] | Inr d \<Rightarrow> d)\<rparr>"

definition report_plan :: CandidateInquiryPlanV0 where
  "report_plan = demo_plan\<lparr>plan_profile := ''report'', plan_targets := []\<rparr>"

definition sealed_demo :: database where
  "sealed_demo = demo_db\<lparr>db_generations := [demo_generation 1, (demo_generation 2)\<lparr>gen_summary_hash := Some ''f''\<rparr>]\<rparr>"

lemma report_ext_total: "jcs_total report_ext"
  using demo_ext_total by (simp add: report_ext_def jcs_total_def)

lemma report_ext_bounded: "rfc3339_bounded report_ext"
  by (auto simp: report_ext_def rfc3339_bounded_def split: if_splits)

lemma report_profile_valid: "InquiryProfileV0_validate report_profile_demo = Inr ()"
  by (simp add: profile_validate_ok validate_report_question_ok report_profile_demo_def demo_profile_def str_eval)

lemma report_digest: "profile_digest report_ext report_profile_demo = Inr (res_profile_digest report_resolved)"
  using digest_jcs_total [OF report_ext_total, of "profile_json (normalize_profile report_profile_demo)"]
  by (auto simp: report_resolved_def profile_digest_valid [OF report_profile_valid])

lemma report_admits_at:
  assumes "rfc3339_parse report_ext at = Inr time"
  shows "\<exists>r. admit report_ext (report_plan\<lparr>plan_as_of := at\<rparr>) report_resolved = Inr r"
proof -
  let ?plan = "report_plan\<lparr>plan_as_of := at\<rparr>"
  have "resolve_one report_ext report_profile_demo = Inr report_resolved"
    by (simp add: resolve_one_ok report_profile_valid report_digest) (simp add: report_resolved_def)
  moreover have "CandidateInquiryPlanV0_validate report_ext ?plan = Inr ()"
    using assms by (simp add: plan_validate_ok report_plan_def demo_plan_def str_eval)
  moreover have "profile_named (plan_profile ?plan) report_profile_demo"
    by (simp add: profile_named_def report_profile_demo_def report_plan_def)
  ultimately show ?thesis
    by (simp add: resolved_admission [OF _ report_ext_total] plan_within_profile_def report_profile_demo_def report_plan_def)
qed

lemma report_admits: "\<exists>r. admit report_ext report_plan report_resolved = Inr r"
  using report_admits_at [of "plan_as_of report_plan" 5] by (simp add: report_ext_def report_plan_def demo_plan_def)

lemma report_fields:
  "prof_question_kind (res_profile report_resolved) = FindingOperationalActivity"
  "prof_selector (res_profile report_resolved) = Some (FindingSelectorV0 ''h'' ''k'' ''s'')"
  "prof_evidence_limit (res_profile report_resolved) = Some 1"
  "prof_max_snapshot_age_seconds (res_profile report_resolved) = Some 60"
  by (simp_all add: report_resolved_def report_profile_demo_def normalize_profile_def demo_profile_def)

lemma sealed_keys: "distinct (map ws_key (db_warning_state sealed_demo))"
  by (simp add: sealed_demo_def demo_db_def)

lemma sealed_readable: "readable report_ext (\<lambda>_. Inr JNull) sealed_demo"
  by (simp add: readable_def parses_def sealed_demo_def demo_db_def demo_generation_def demo_row_def demo_seen_def
      inserted_row_def basis_of_def observation_of_def demo_finding_def report_ext_def)

lemma sealed_latest:
  "latest_by gen_generation_id (db_generations sealed_demo) = Some ((demo_generation 2)\<lparr>gen_summary_hash := Some ''f''\<rparr>)"
  by code_simp

lemma sealed_active:
  "operationally_active report_ext sealed_demo (FindingSelectorV0 ''h'' ''k'' ''s'') 1 5 60"
proof -
  have w: "row_at ws_key (sel_key (FindingSelectorV0 ''h'' ''k'' ''s'')) (db_warning_state sealed_demo) = Some (demo_row 2 ''h'' ''k'')"
    by code_simp
  have e: "evidence_of sealed_demo (FindingSelectorV0 ''h'' ''k'' ''s'') 1 2 = [receipt_of (demo_seen 1 2 ''h'' ''k'')]"
    by code_simp
  note rows = demo_generation_def demo_row_def demo_seen_def inserted_row_def basis_of_def observation_of_def demo_finding_def report_ext_def
  have "sound_generation report_ext 5 60 ((demo_generation 2)\<lparr>gen_summary_hash := Some ''f''\<rparr>)"
    by (simp add: sound_generation_def fresh_at_def rows)
  moreover have "active_row report_ext 5 60 2 (demo_row 2 ''h'' ''k'')"
    by (simp add: active_row_def timely_at_def rows)
  moreover have "attested report_ext 5 2 (demo_row 2 ''h'' ''k'') [receipt_of (demo_seen 1 2 ''h'' ''k'')]"
    by (simp add: attested_def timely_at_def receipt_of_def rows)
  ultimately show ?thesis
    unfolding operationally_active_def sealed_latest w by (simp add: e demo_generation_def)
qed

lemma sealed_report:
  obtains receipt where
    "execute_report_inquiry report_ext (\<lambda>_. Inr JNull) (connection_of sealed_demo) report_resolved report_plan = Inr receipt"
  using report_admits report_runs [OF report_ext_total sealed_keys sealed_readable _ report_fields(1)] by blast

theorem report_returns_witness:
  "\<exists>receipt. execute_report_inquiry report_ext (\<lambda>_. Inr JNull) (connection_of sealed_demo) report_resolved report_plan = Inr receipt
     \<and> rc_receipt_digest receipt \<noteq> None"
  using report_admits report_returns [OF report_ext_total sealed_keys sealed_readable _ report_fields(1)] by blast


theorem report_evidence_bounded_witness:
  "\<exists>receipt. execute_report_inquiry report_ext (\<lambda>_. Inr JNull) (connection_of sealed_demo) report_resolved report_plan = Inr receipt
     \<and> length (rc_evidence_receipts receipt) \<le> 1"
proof -
  obtain receipt where r: "execute_report_inquiry report_ext (\<lambda>_. Inr JNull) (connection_of sealed_demo) report_resolved report_plan
      = Inr receipt" by (rule sealed_report)
  from report_evidence_bounded [OF sealed_keys r report_fields(2,3) sealed_latest] r show ?thesis by auto
qed

end
