(* ===== verification/Finding_Actions.thy ===== *)
theory Finding_Actions
  imports Store_Demo
begin

text \<open>
  Guarded work-state transitions of findings (\<open>crates/nq-db/src/finding_actions.rs\<close>) and the
  retirement of sources (\<open>crates/nq-db/src/source_retirement.rs\<close>). An action names a finding by
  its canonical key together with the work state and the generation the operator reviewed; it is
  applied, with its row of history, only when the finding is still current. The clock reading,
  the formatting of a time and the addition of hours are arguments; times are nanoseconds.
  Failures of the storage engine itself are not modelled.
\<close>

section \<open>Vocabulary\<close>

definition MIN_TTL_HOURS :: int where "MIN_TTL_HOURS = 1"
definition MAX_TTL_HOURS :: int where "MAX_TTL_HOURS = 720"
definition FINDING_ACTION_MAX_AGE_SECONDS :: int where "FINDING_ACTION_MAX_AGE_SECONDS = 300"

datatype FindingAction = Acknowledge | Watch | Quiesce | Close | Suppress | Reset

datatype FindingWorkState =
    WS_New | WS_Acknowledged | WS_Watching | WS_Quiesced | WS_Closed | WS_Suppressed

fun FindingWorkState_as_str :: "FindingWorkState \<Rightarrow> string" where
  "FindingWorkState_as_str WS_New = ''new''"
| "FindingWorkState_as_str WS_Acknowledged = ''acknowledged''"
| "FindingWorkState_as_str WS_Watching = ''watching''"
| "FindingWorkState_as_str WS_Quiesced = ''quiesced''"
| "FindingWorkState_as_str WS_Closed = ''closed''"
| "FindingWorkState_as_str WS_Suppressed = ''suppressed''"

definition from_stored :: "string \<Rightarrow> FindingWorkState option" where
  "from_stored value =
     (if value = ''new'' then Some WS_New
      else if value = ''acknowledged'' then Some WS_Acknowledged
      else if value = ''watching'' then Some WS_Watching
      else if value = ''quiesced'' then Some WS_Quiesced
      else if value = ''closed'' then Some WS_Closed
      else if value = ''suppressed'' then Some WS_Suppressed
      else None)"

fun target_work_state :: "FindingAction \<Rightarrow> FindingWorkState" where
  "target_work_state Acknowledge = WS_Acknowledged"
| "target_work_state Watch = WS_Watching"
| "target_work_state Quiesce = WS_Quiesced"
| "target_work_state Close = WS_Closed"
| "target_work_state Suppress = WS_Suppressed"
| "target_work_state Reset = WS_New"

datatype NotificationEffect = NE_Continue | NE_Pause | NE_ResumeEligibility

datatype TtlPolicy = TTL_Unsupported | TTL_OptionalBounded int int

record FindingActionContract =
  fc_action :: FindingAction
  fc_label :: string
  fc_summary :: string
  fc_target_work_state :: FindingWorkState
  fc_notification_effect :: NotificationEffect
  fc_ttl_policy :: TtlPolicy
  fc_reversible :: bool
  fc_will :: "string list"
  fc_will_not :: "string list"

definition DOES_NOT_ACTUATE :: "string list" where
  "DOES_NOT_ACTUATE =
     [''change the monitored system'',
      ''resolve or alter the detector condition'',
      ''change evidence, visibility, basis, severity, or response posture'',
      ''delete or hide observations'']"

definition ACK_WILL :: "string list" where
  "ACK_WILL =
     [''record that an operator has seen this finding'',
      ''keep future notifications eligible'',
      ''keep detector observation running'']"

definition WATCH_WILL :: "string list" where
  "WATCH_WILL =
     [''record that an operator deliberately left this finding under observation'',
      ''keep future notifications eligible'',
      ''keep detector observation running'']"

definition QUIESCE_WILL :: "string list" where
  "QUIESCE_WILL =
     [''record an operational quiet period while investigation or planned work is underway'',
      ''pause future notifications until Reset or an optional expiry'',
      ''keep the finding, its evidence, and its history visible'',
      ''keep detector observation running'']"

definition CLOSE_WILL :: "string list" where
  "CLOSE_WILL =
     [''record that operator coordination work is complete'',
      ''pause future notifications while this lifecycle row remains closed'',
      ''keep detector observation running'']"

definition SUPPRESS_WILL :: "string list" where
  "SUPPRESS_WILL =
     [''record an explicit decision that notifications for this finding are not currently useful'',
      ''pause future notifications until Reset or an optional expiry'',
      ''keep the finding, its evidence, and its history visible'',
      ''keep detector observation running'']"

definition RESET_WILL :: "string list" where
  "RESET_WILL =
     [''return this finding's operator coordination state to new'',
      ''make future notifications eligible again without promising a resend'',
      ''preserve evidence, history, notification deduplication, and recorded canon'',
      ''keep detector observation running'']"

definition RESET_WILL_NOT :: "string list" where
  "RESET_WILL_NOT =
     [''resend an already-recorded notification'',
      ''clear recorded owner, note, or external reference when replacements are omitted'',
      ''change the monitored system'',
      ''resolve or alter the detector condition'',
      ''change or delete evidence'']"

definition bounded_ttl :: TtlPolicy where
  "bounded_ttl = TTL_OptionalBounded MIN_TTL_HOURS MAX_TTL_HOURS"

fun contract :: "FindingAction \<Rightarrow> FindingActionContract" where
  "contract Acknowledge =
     \<lparr>fc_action = Acknowledge, fc_label = ''Acknowledge'',
      fc_summary = ''Record that this finding has been seen; notifications continue.'',
      fc_target_work_state = target_work_state Acknowledge, fc_notification_effect = NE_Continue,
      fc_ttl_policy = bounded_ttl, fc_reversible = True,
      fc_will = ACK_WILL, fc_will_not = DOES_NOT_ACTUATE\<rparr>"
| "contract Watch =
     \<lparr>fc_action = Watch, fc_label = ''Watch'',
      fc_summary = ''Record deliberate observation without pausing future notifications.'',
      fc_target_work_state = target_work_state Watch, fc_notification_effect = NE_Continue,
      fc_ttl_policy = TTL_Unsupported, fc_reversible = True,
      fc_will = WATCH_WILL, fc_will_not = DOES_NOT_ACTUATE\<rparr>"
| "contract Quiesce =
     \<lparr>fc_action = Quiesce, fc_label = ''Quiesce'',
      fc_summary = ''Record an operational quiet period; pause notifications until Reset or an optional expiry; ''
        @ ''observation and evidence continue.'',
      fc_target_work_state = target_work_state Quiesce, fc_notification_effect = NE_Pause,
      fc_ttl_policy = bounded_ttl, fc_reversible = True,
      fc_will = QUIESCE_WILL, fc_will_not = DOES_NOT_ACTUATE\<rparr>"
| "contract Close =
     \<lparr>fc_action = Close, fc_label = ''Close'',
      fc_summary = ''Mark coordination work complete; the detector condition may remain open.'',
      fc_target_work_state = target_work_state Close, fc_notification_effect = NE_Pause,
      fc_ttl_policy = TTL_Unsupported, fc_reversible = True,
      fc_will = CLOSE_WILL, fc_will_not = DOES_NOT_ACTUATE\<rparr>"
| "contract Suppress =
     \<lparr>fc_action = Suppress, fc_label = ''Suppress'',
      fc_summary = ''Record an intentional notification mute until Reset or an optional expiry; ''
        @ ''retain the finding, evidence, and observation.'',
      fc_target_work_state = target_work_state Suppress, fc_notification_effect = NE_Pause,
      fc_ttl_policy = bounded_ttl, fc_reversible = True,
      fc_will = SUPPRESS_WILL, fc_will_not = DOES_NOT_ACTUATE\<rparr>"
| "contract Reset =
     \<lparr>fc_action = Reset, fc_label = ''Reset'',
      fc_summary = ''Return coordination state to new; this does not guarantee a notification resend.'',
      fc_target_work_state = target_work_state Reset, fc_notification_effect = NE_ResumeEligibility,
      fc_ttl_policy = TTL_Unsupported, fc_reversible = True,
      fc_will = RESET_WILL, fc_will_not = RESET_WILL_NOT\<rparr>"

section \<open>Requests, receipts and errors\<close>

record FindingActionRequest =
  fq_finding_key :: string
  fq_action :: FindingAction
  fq_expected_work_state :: FindingWorkState
  fq_expected_last_seen_gen :: int
  fq_note :: "string option"
  fq_owner :: "string option"
  fq_actor :: "string option"
  fq_ttl_hours :: "int option"

record FindingActionTarget =
  ft_finding_key :: string
  ft_host :: string
  ft_detector_id :: string
  ft_subject :: string
  ft_work_state :: FindingWorkState
  ft_last_seen_gen :: int
  ft_last_seen_at :: string
  ft_basis_state :: string

record FindingActionPreview =
  fp_target :: FindingActionTarget
  fp_contract :: FindingActionContract
  fp_requested_at :: string
  fp_expires_after_hours :: "int option"
  fp_owner_will_change :: bool
  fp_note_will_change :: bool

record FindingActionReceipt =
  fr_target :: FindingActionTarget
  fr_contract :: FindingActionContract
  fr_from_work_state :: FindingWorkState
  fr_to_work_state :: FindingWorkState
  fr_applied_at :: string
  fr_expires_at :: "string option"
  fr_transition_id :: int

datatype FindingStaleReason =
    VisibilityNotObserved string
  | FindingRecovering int
  | BehindLatestGeneration int int
  | NoPublishedGeneration
  | LatestGenerationNotComplete string
  | GenerationTimestampUnavailable string
  | LatestGenerationTooOld string int int
  | LatestGenerationFromFuture string int
  | FindingTimestampUnavailable string
  | FindingObservationTooOld string int int
  | FindingObservationFromFuture string int
  | FindingObservationGenerationMismatch int int
  | BasisNotCurrent string

datatype FindingActionError =
    FA_NotFound string
  | FA_Stale string FindingStaleReason
  | FA_Conflict string string string string
  | FA_Invalid string string

record ResolvedTarget =
  rs_host :: string
  rs_kind :: string
  rs_subject :: string
  rs_work_state :: FindingWorkState
  rs_last_seen_gen :: int
  rs_last_seen_at :: string
  rs_observation_generation :: "int option"
  rs_observation_at :: "string option"
  rs_visibility_state :: string
  rs_absent_gens :: int
  rs_basis_state :: string

definition observed_or_seen :: "ResolvedTarget \<Rightarrow> string" where
  "observed_or_seen t = (case rs_observation_at t of None \<Rightarrow> rs_last_seen_at t | Some at \<Rightarrow> at)"

definition ResolvedTarget_public :: "ResolvedTarget \<Rightarrow> string \<Rightarrow> FindingActionTarget" where
  "ResolvedTarget_public t finding_key =
     \<lparr>ft_finding_key = finding_key, ft_host = rs_host t, ft_detector_id = rs_kind t,
      ft_subject = rs_subject t, ft_work_state = rs_work_state t, ft_last_seen_gen = rs_last_seen_gen t,
      ft_last_seen_at = observed_or_seen t,
      ft_basis_state = rs_basis_state t\<rparr>"

text \<open>The clock and the crate that formats times.\<close>

record action_env =
  ae_now :: int
  ae_checked_add_hours :: "int \<Rightarrow> int \<Rightarrow> int option"
  ae_format :: "int \<Rightarrow> string + string"

section \<open>Checks of a request\<close>

definition ttl_supported :: "FindingAction \<Rightarrow> bool" where
  "ttl_supported a \<longleftrightarrow> a = Acknowledge \<or> a = Quiesce \<or> a = Suppress"

definition validate_request :: "FindingActionRequest \<Rightarrow> FindingActionError + unit" where
  "validate_request r =
     res_bind (refuse_if (trim (fq_finding_key r) = []) (FA_Invalid ''finding_key'' ''must not be empty'')) (\<lambda>_.
     res_bind (refuse_if (fq_expected_last_seen_gen r < 1)
       (FA_Invalid ''expected_last_seen_gen'' ''must be a positive generation identifier'')) (\<lambda>_.
     res_bind (refuse_if (case fq_actor r of None \<Rightarrow> True | Some v \<Rightarrow> trim v = [])
       (FA_Invalid ''actor'' ''is required for durable transition history'')) (\<lambda>_.
     res_bind (refuse_if (case fq_owner r of None \<Rightarrow> False | Some v \<Rightarrow> trim v = [])
       (FA_Invalid ''owner'' ''must be omitted rather than blank'')) (\<lambda>_.
     case fq_ttl_hours r of
       None \<Rightarrow> Inr ()
     | Some ttl_hours \<Rightarrow>
         res_bind (refuse_if (\<not> ttl_supported (fq_action r))
           (FA_Invalid ''ttl_hours'' (fc_label (contract (fq_action r))
              @ '' does not support expiry; only acknowledge, quiesce, and suppress do''))) (\<lambda>_.
         refuse_if (\<not> (MIN_TTL_HOURS \<le> ttl_hours \<and> ttl_hours \<le> MAX_TTL_HOURS))
           (FA_Invalid ''ttl_hours''
              (''must be between '' @ show_int MIN_TTL_HOURS @ '' and '' @ show_int MAX_TTL_HOURS @ '' hours'')))))))"

definition format_timestamp :: "action_env \<Rightarrow> int \<Rightarrow> FindingActionError + string" where
  "format_timestamp env value =
     map_err (\<lambda>e. FA_Invalid ''now'' (''cannot format injected timestamp: '' @ e)) (ae_format env value)"

definition expiration_at :: "action_env \<Rightarrow> FindingActionRequest \<Rightarrow> FindingActionError + string option" where
  "expiration_at env r =
     (case fq_ttl_hours r of
        None \<Rightarrow> Inr None
      | Some ttl_hours \<Rightarrow>
          (case ae_checked_add_hours env (ae_now env) ttl_hours of
             None \<Rightarrow> Inl (FA_Invalid ''now'' ''timestamp plus TTL is outside the supported range'')
           | Some expires \<Rightarrow> res_bind (format_timestamp env expires) (\<lambda>s. Inr (Some s))))"

section \<open>Resolution of a target\<close>

definition resolved_of :: "warning_state_row \<Rightarrow> FindingWorkState \<Rightarrow> ResolvedTarget" where
  "resolved_of w work_state =
     \<lparr>rs_host = ws_host w, rs_kind = ws_kind w, rs_subject = ws_subject w, rs_work_state = work_state,
      rs_last_seen_gen = ws_last_seen_gen w, rs_last_seen_at = ws_last_seen_at w,
      rs_observation_generation = None, rs_observation_at = None,
      rs_visibility_state = ws_visibility_state w, rs_absent_gens = ws_absent_gens w,
      rs_basis_state = ws_basis_state w\<rparr>"

fun resolve_scan ::
  "string \<Rightarrow> warning_state_row list \<Rightarrow> ResolvedTarget option \<Rightarrow> FindingActionError + ResolvedTarget option"
where
  "resolve_scan finding_key [] found = Inr found"
| "resolve_scan finding_key (w # ws) found =
     (if compute_finding_key ''local'' (ws_host w) (ws_kind w) (ws_subject w) \<noteq> finding_key
      then resolve_scan finding_key ws found
      else if found \<noteq> None
      then Inl (FA_Invalid ''finding_key'' ''canonical key resolved to more than one current row'')
      else
        case from_stored (ws_work_state w) of
          None \<Rightarrow> Inl (FA_Invalid ''stored work_state'' (''unsupported value '' @ debug_str (ws_work_state w)))
        | Some work_state \<Rightarrow> resolve_scan finding_key ws (Some (resolved_of w work_state)))"

definition latest_observation :: "database \<Rightarrow> string \<Rightarrow> observation_row option" where
  "latest_observation db finding_key =
     latest_by (\<lambda>r. (obs_generation_id r, obs_observation_id r))
       (filter (\<lambda>r. obs_finding_key r = finding_key) (db_finding_observations db))"

definition resolve_by_canonical_key :: "database \<Rightarrow> string \<Rightarrow> FindingActionError + ResolvedTarget option" where
  "resolve_by_canonical_key db finding_key =
     res_bind (resolve_scan finding_key (db_warning_state db) None) (\<lambda>found.
     Inr (map_option
       (\<lambda>target.
          case latest_observation db finding_key of
            None \<Rightarrow> target
          | Some ob \<Rightarrow> target\<lparr>rs_observation_generation := Some (obs_generation_id ob),
                             rs_observation_at := Some (obs_observed_at ob)\<rparr>) found))"

text \<open>\<open>whole_seconds\<close> truncates towards zero.\<close>

definition whole_seconds :: "int \<Rightarrow> int" where
  "whole_seconds d = sgn d * (\<bar>d\<bar> div 1000000000)"

definition validate_action_timestamp ::
  "externals \<Rightarrow> FindingActionRequest \<Rightarrow> int \<Rightarrow> string \<Rightarrow> (string \<Rightarrow> FindingStaleReason)
     \<Rightarrow> (string \<Rightarrow> int \<Rightarrow> FindingStaleReason) \<Rightarrow> (string \<Rightarrow> int \<Rightarrow> FindingStaleReason) \<Rightarrow> FindingActionError + unit"
where
  "validate_action_timestamp ext r now timestamp unavailable too_old from_future =
     res_bind (map_err (\<lambda>_. FA_Stale (fq_finding_key r) (unavailable timestamp)) (rfc3339_parse ext timestamp))
       (\<lambda>observed_at.
     let age_seconds = whole_seconds (now - observed_at) in
     res_bind (refuse_if (age_seconds < 0)
       (FA_Stale (fq_finding_key r) (from_future timestamp (- age_seconds)))) (\<lambda>_.
     refuse_if (age_seconds > FINDING_ACTION_MAX_AGE_SECONDS)
       (FA_Stale (fq_finding_key r) (too_old timestamp age_seconds))))"

definition basis_current :: "string \<Rightarrow> string \<Rightarrow> FindingActionError + unit" where
  "basis_current finding_key basis_state =
     (if basis_state = ''live'' then Inr ()
      else if basis_state \<in> {''unknown'', ''stale'', ''retired'', ''invalidated''}
      then Inl (FA_Stale finding_key (BasisNotCurrent basis_state))
      else Inl (FA_Invalid ''stored basis_state'' (''unsupported value '' @ debug_str basis_state)))"

definition resolve_and_validate ::
  "externals \<Rightarrow> database \<Rightarrow> FindingActionRequest \<Rightarrow> int \<Rightarrow> FindingActionError + ResolvedTarget"
where
  "resolve_and_validate ext db r now =
     res_bind (resolve_by_canonical_key db (fq_finding_key r)) (\<lambda>found.
     case found of
       None \<Rightarrow> Inl (FA_NotFound (fq_finding_key r))
     | Some t \<Rightarrow>
     res_bind (refuse_if (rs_work_state t \<noteq> fq_expected_work_state r)
       (FA_Conflict (fq_finding_key r) ''work_state'' (FindingWorkState_as_str (fq_expected_work_state r))
          (FindingWorkState_as_str (rs_work_state t)))) (\<lambda>_.
     res_bind (refuse_if (rs_last_seen_gen t \<noteq> fq_expected_last_seen_gen r)
       (FA_Conflict (fq_finding_key r) ''last_seen_gen'' (show_int (fq_expected_last_seen_gen r))
          (show_int (rs_last_seen_gen t)))) (\<lambda>_.
     res_bind (case rs_observation_generation t of
         None \<Rightarrow> Inr ()
       | Some g \<Rightarrow> refuse_if (g \<noteq> rs_last_seen_gen t)
           (FA_Stale (fq_finding_key r) (FindingObservationGenerationMismatch g (rs_last_seen_gen t)))) (\<lambda>_.
     res_bind (refuse_if (rs_visibility_state t \<noteq> ''observed'')
       (FA_Stale (fq_finding_key r) (VisibilityNotObserved (rs_visibility_state t)))) (\<lambda>_.
     res_bind (refuse_if (rs_absent_gens t \<noteq> 0)
       (FA_Stale (fq_finding_key r) (FindingRecovering (rs_absent_gens t)))) (\<lambda>_.
     res_bind (basis_current (fq_finding_key r) (rs_basis_state t)) (\<lambda>_.
     case latest_by gen_generation_id (db_generations db) of
       None \<Rightarrow> Inl (FA_Stale (fq_finding_key r) NoPublishedGeneration)
     | Some latest \<Rightarrow>
     res_bind (refuse_if (gen_status latest \<noteq> ''complete'')
       (FA_Stale (fq_finding_key r) (LatestGenerationNotComplete (gen_status latest)))) (\<lambda>_.
     res_bind (refuse_if (rs_last_seen_gen t \<noteq> gen_generation_id latest)
       (FA_Stale (fq_finding_key r) (BehindLatestGeneration (rs_last_seen_gen t) (gen_generation_id latest)))) (\<lambda>_.
     res_bind (validate_action_timestamp ext r now (gen_completed_at latest)
       GenerationTimestampUnavailable
       (\<lambda>v age. LatestGenerationTooOld v age FINDING_ACTION_MAX_AGE_SECONDS)
       LatestGenerationFromFuture) (\<lambda>_.
     res_bind (validate_action_timestamp ext r now (observed_or_seen t)
       FindingTimestampUnavailable
       (\<lambda>v age. FindingObservationTooOld v age FINDING_ACTION_MAX_AGE_SECONDS)
       FindingObservationFromFuture) (\<lambda>_.
     Inr t)))))))))))"

section \<open>Preview and transition\<close>

definition preview_finding_action ::
  "externals \<Rightarrow> action_env \<Rightarrow> database \<Rightarrow> FindingActionRequest \<Rightarrow> FindingActionError + FindingActionPreview"
where
  "preview_finding_action ext env db r =
     res_bind (validate_request r) (\<lambda>_.
     res_bind (resolve_and_validate ext db r (ae_now env)) (\<lambda>resolved.
     res_bind (format_timestamp env (ae_now env)) (\<lambda>requested_at.
     Inr \<lparr>fp_target = ResolvedTarget_public resolved (fq_finding_key r),
          fp_contract = contract (fq_action r),
          fp_requested_at = requested_at,
          fp_expires_after_hours = fq_ttl_hours r,
          fp_owner_will_change = (fq_action r \<noteq> Reset \<and> fq_owner r \<noteq> None),
          fp_note_will_change = (fq_action r \<noteq> Reset \<and> fq_note r \<noteq> None)\<rparr>)))"

definition work_update ::
  "FindingActionRequest \<Rightarrow> string \<Rightarrow> string option \<Rightarrow> warning_state_row \<Rightarrow> warning_state_row"
where
  "work_update r applied_at expires_at w =
     (let ack_change = (case fq_action r of Acknowledge \<Rightarrow> 1 | Reset \<Rightarrow> -1 | _ \<Rightarrow> (0 :: int));
          preserve_canon = (fq_action r = Reset) in
      w\<lparr>ws_work_state := FindingWorkState_as_str (target_work_state (fq_action r)),
        ws_work_state_at := Some applied_at,
        ws_owner := (if preserve_canon then ws_owner w else (case fq_owner r of None \<Rightarrow> ws_owner w | Some v \<Rightarrow> Some v)),
        ws_note := (if preserve_canon then ws_note w else (case fq_note r of None \<Rightarrow> ws_note w | Some v \<Rightarrow> Some v)),
        ws_ack_expires_at := expires_at,
        ws_acknowledged := (if ack_change = 1 then 1 else if ack_change = -1 then 0 else ws_acknowledged w),
        ws_acknowledged_at :=
          (if ack_change = 1 then Some applied_at else if ack_change = -1 then None else ws_acknowledged_at w)\<rparr>)"

definition still_current :: "FindingActionRequest \<Rightarrow> ResolvedTarget \<Rightarrow> warning_state_row \<Rightarrow> bool" where
  "still_current r t w \<longleftrightarrow>
     ws_host w = rs_host t \<and> ws_kind w = rs_kind t \<and> ws_subject w = rs_subject t
     \<and> ws_work_state w = FindingWorkState_as_str (fq_expected_work_state r)
     \<and> ws_last_seen_gen w = fq_expected_last_seen_gen r
     \<and> ws_visibility_state w = ''observed'' \<and> ws_absent_gens w = 0"

text \<open>The two statements of the transaction; the receipt is built after the commit.\<close>

definition apply_transition ::
  "FindingActionRequest \<Rightarrow> string \<Rightarrow> string option \<Rightarrow> ResolvedTarget \<Rightarrow> database
     \<Rightarrow> FindingActionError + FindingActionReceipt \<times> database"
where
  "apply_transition r applied_at expires_at resolved db =
     (let to_state = target_work_state (fq_action r);
          changed = length (filter (still_current r resolved) (db_warning_state db));
          db1 = db\<lparr>db_warning_state :=
            update_where (still_current r resolved) (work_update r applied_at expires_at) (db_warning_state db)\<rparr> in
      res_bind (refuse_if (changed \<noteq> 1)
        (FA_Conflict (fq_finding_key r) ''target''
           (''work_state='' @ FindingWorkState_as_str (fq_expected_work_state r)
              @ '', last_seen_gen='' @ show_int (fq_expected_last_seen_gen r) @ '', observed and present'')
           ''target changed while applying action'')) (\<lambda>_.
      let db2 = db1\<lparr>db_finding_transitions :=
            insert_transition
              \<lparr>tr_transition_id = 0, tr_host = rs_host resolved, tr_kind = rs_kind resolved,
               tr_subject = rs_subject resolved,
               tr_from_state = Some (FindingWorkState_as_str (rs_work_state resolved)),
               tr_to_state = FindingWorkState_as_str to_state, tr_changed_by = fq_actor r,
               tr_note = fq_note r, tr_created_at = applied_at\<rparr> (db_finding_transitions db1)\<rparr> in
      Inr (\<lparr>fr_target = ResolvedTarget_public resolved (fq_finding_key r),
            fr_contract = contract (fq_action r),
            fr_from_work_state = rs_work_state resolved,
            fr_to_work_state = to_state,
            fr_applied_at = applied_at,
            fr_expires_at = expires_at,
            fr_transition_id = next_rowid (map tr_transition_id (db_finding_transitions db1))\<rparr>, db2)))"

definition transition_finding_action ::
  "externals \<Rightarrow> action_env \<Rightarrow> FindingActionRequest \<Rightarrow> database \<Rightarrow> FindingActionError + FindingActionReceipt \<times> database"
where
  "transition_finding_action ext env r db =
     res_bind (validate_request r) (\<lambda>_.
     res_bind (expiration_at env r) (\<lambda>expires_at.
     res_bind (format_timestamp env (ae_now env)) (\<lambda>applied_at.
     res_bind (resolve_and_validate ext db r (ae_now env)) (\<lambda>resolved.
     apply_transition r applied_at expires_at resolved db))))"

section \<open>Retirement of sources\<close>

definition LOCAL_OPERATOR_ACTOR :: string where
  "LOCAL_OPERATOR_ACTOR = ''local-operator''"

record RetireStats =
  rst_source_id :: string
  rst_findings_transitioned :: nat
  rst_newly_retired :: bool

record UnretireStats =
  ust_source_id :: string
  ust_findings_transitioned :: nat
  ust_was_retired :: bool

definition doomed :: "string \<Rightarrow> warning_state_row \<Rightarrow> bool" where
  "doomed source_id w \<longleftrightarrow> ws_basis_source_id w = Some source_id \<and> ws_basis_state w \<noteq> ''retired''"

definition retire_audit :: "string \<Rightarrow> string \<Rightarrow> string \<Rightarrow> warning_state_row \<Rightarrow> transition_row" where
  "retire_audit reason actor now w =
     \<lparr>tr_transition_id = 0, tr_host = ws_host w, tr_kind = ws_kind w, tr_subject = ws_subject w,
      tr_from_state = Some (ws_basis_state w), tr_to_state = ''retired'', tr_changed_by = Some actor,
      tr_note = Some (''source retired: '' @ reason), tr_created_at = now\<rparr>"

definition retire_source :: "string \<Rightarrow> string \<Rightarrow> string \<Rightarrow> string \<Rightarrow> database \<Rightarrow> RetireStats \<times> database" where
  "retire_source source_id reason actor now db =
     (let newly_retired = (row_at rt_source_id source_id (db_sources_retired db) = None);
          retired = (if newly_retired
            then db_sources_retired db @ [\<lparr>rt_source_id = source_id, rt_retired_at = now, rt_retired_reason = reason, rt_retired_by = actor\<rparr>]
            else db_sources_retired db);
          doomed_rows = filter (doomed source_id) (db_warning_state db);
          audit = fold (\<lambda>w. insert_transition (retire_audit reason actor now w)) doomed_rows (db_finding_transitions db)
      in (\<lparr>rst_source_id = source_id, rst_findings_transitioned = length doomed_rows, rst_newly_retired = newly_retired\<rparr>,
          db\<lparr>db_sources_retired := retired, db_finding_transitions := audit,
             db_warning_state := update_where (doomed source_id)
               (\<lambda>w. w\<lparr>ws_basis_state := ''retired'', ws_basis_state_at := Some now\<rparr>) (db_warning_state db)\<rparr>))"

definition revived :: "string \<Rightarrow> warning_state_row \<Rightarrow> bool" where
  "revived source_id w \<longleftrightarrow> ws_basis_source_id w = Some source_id \<and> ws_basis_state w = ''retired''"

definition unretire_audit :: "string \<Rightarrow> string \<Rightarrow> warning_state_row \<Rightarrow> transition_row" where
  "unretire_audit actor now w =
     \<lparr>tr_transition_id = 0, tr_host = ws_host w, tr_kind = ws_kind w, tr_subject = ws_subject w,
      tr_from_state = Some ''retired'', tr_to_state = ''unknown'', tr_changed_by = Some actor,
      tr_note = Some ''source unretired'', tr_created_at = now\<rparr>"

definition unretire_source :: "string \<Rightarrow> string \<Rightarrow> string \<Rightarrow> database \<Rightarrow> UnretireStats \<times> database" where
  "unretire_source source_id actor now db =
     (let was_retired = (row_at rt_source_id source_id (db_sources_retired db) \<noteq> None);
          revived_rows = filter (revived source_id) (db_warning_state db);
          audit = fold (\<lambda>w. insert_transition (unretire_audit actor now w)) revived_rows (db_finding_transitions db)
      in (\<lparr>ust_source_id = source_id, ust_findings_transitioned = length revived_rows, ust_was_retired = was_retired\<rparr>,
          db\<lparr>db_sources_retired := delete_where (\<lambda>r. rt_source_id r = source_id) (db_sources_retired db),
             db_finding_transitions := audit,
             db_warning_state := update_where (revived source_id)
               (\<lambda>w. w\<lparr>ws_basis_state := ''unknown'', ws_basis_state_at := Some now\<rparr>) (db_warning_state db)\<rparr>))"

section \<open>When an action applies\<close>

lemma local_key_row: "compute_finding_key ''local'' (ws_host w) (ws_kind w) (ws_subject w) = local_key (ws_key w)"
  by (simp add: local_key_def ws_key_def)

lemma from_stored_iff: "from_stored s = Some v \<longleftrightarrow> s = FindingWorkState_as_str v"
  by (cases v) (auto simp: from_stored_def)

lemma as_str_inject [simp]: "FindingWorkState_as_str a = FindingWorkState_as_str b \<longleftrightarrow> a = b"
  using from_stored_iff by (metis option.inject)

lemma scan_absent: "k \<notin> (\<lambda>w. local_key (ws_key w)) ` set rows \<Longrightarrow> resolve_scan k rows found = Inr found"
  by (induction rows) (auto simp: local_key_row)

text \<open>The scan over the rows is a lookup by canonical key, because keys identify rows.\<close>

lemma scan_row:
  assumes "distinct (map ws_key rows)"
  shows "resolve_scan k rows None =
    (case find (\<lambda>w. local_key (ws_key w) = k) rows of
       None \<Rightarrow> Inr None
     | Some w \<Rightarrow>
         (case from_stored (ws_work_state w) of
            None \<Rightarrow> Inl (FA_Invalid ''stored work_state'' (''unsupported value '' @ debug_str (ws_work_state w)))
          | Some s \<Rightarrow> Inr (Some (resolved_of w s))))"
  using assms
proof (induction rows)
  case (Cons a rows)
  show ?case
  proof (cases "local_key (ws_key a) = k")
    case True
    then have "k \<notin> (\<lambda>w. local_key (ws_key w)) ` set rows" using Cons.prems by (auto simp: image_iff)
    with True show ?thesis by (simp add: local_key_row scan_absent split: option.split)
  next
    case False
    with Cons show ?thesis by (simp add: local_key_row)
  qed
qed simp

lemma find_local_key:
  assumes "distinct (map ws_key rows)"
  shows "find (\<lambda>w. local_key (ws_key w) = k) rows = Some w \<longleftrightarrow> w \<in> set rows \<and> local_key (ws_key w) = k"
proof
  assume r: "w \<in> set rows \<and> local_key (ws_key w) = k"
  then have "(\<lambda>v. local_key (ws_key v) = k) = (\<lambda>v. ws_key v = ws_key w)" by auto
  with r row_at_mem [OF assms, of w] show "find (\<lambda>w. local_key (ws_key w) = k) rows = Some w"
    by (simp add: row_at_def)
qed (auto simp: find_Some_iff)

text \<open>A time is timely when it is less than a second ahead and less than 301 seconds behind.\<close>

definition timely :: "externals \<Rightarrow> int \<Rightarrow> string \<Rightarrow> bool" where
  "timely ext now stamp \<longleftrightarrow>
     (case rfc3339_parse ext stamp of
        Inl _ \<Rightarrow> False
      | Inr t \<Rightarrow> - 1000000000 < now - t \<and> now - t < (FINDING_ACTION_MAX_AGE_SECONDS + 1) * 1000000000)"

lemma seconds_less: "d div 1000000000 < n \<longleftrightarrow> d < n * (1000000000 :: int)"
  using div_mult_mod_eq [of d 1000000000] pos_mod_bound [of 1000000000 d] pos_mod_sign [of 1000000000 d] by linarith

lemma whole_seconds_nonneg: "0 \<le> whole_seconds d \<longleftrightarrow> - 1000000000 < d"
proof (cases "0 \<le> d")
  case False
  then have "whole_seconds d = - (- d div 1000000000)" by (simp add: whole_seconds_def)
  with seconds_less [of "- d" 1] show ?thesis by linarith
qed (simp add: whole_seconds_def sgn_if pos_imp_zdiv_nonneg_iff)

lemma whole_seconds_le: "- 1000000000 < d \<Longrightarrow> 0 \<le> n \<Longrightarrow> whole_seconds d \<le> n \<longleftrightarrow> d < (n + 1) * 1000000000"
proof (cases "0 \<le> d")
  case True
  then have "whole_seconds d = d div 1000000000" by (auto simp: whole_seconds_def sgn_if)
  with seconds_less [of d "n + 1"] show ?thesis by linarith
next
  case False
  assume "- 1000000000 < d" "0 \<le> n"
  moreover have "whole_seconds d = 0"
    using False \<open>- 1000000000 < d\<close> div_pos_pos_trivial [of "- d" 1000000000] by (simp add: whole_seconds_def)
  ultimately show ?thesis using False by (simp add: add_nonneg_pos)
qed

lemma timestamp_ok:
  "validate_action_timestamp ext r now stamp unavailable too_old from_future = Inr () \<longleftrightarrow> timely ext now stamp"
proof (cases "rfc3339_parse ext stamp")
  case (Inr t)
  have "(\<not> whole_seconds (now - t) < 0 \<and> \<not> FINDING_ACTION_MAX_AGE_SECONDS < whole_seconds (now - t)) \<longleftrightarrow>
      - 1000000000 < now - t \<and> now - t < (FINDING_ACTION_MAX_AGE_SECONDS + 1) * 1000000000"
    using whole_seconds_nonneg [of "now - t"] whole_seconds_le [of "now - t" FINDING_ACTION_MAX_AGE_SECONDS]
    by (auto simp: not_less FINDING_ACTION_MAX_AGE_SECONDS_def)
  with Inr show ?thesis
    by (auto simp: validate_action_timestamp_def timely_def Let_def map_err_Inr_iff res_bind_Inr_iff refuse_if_ok)
qed (simp add: validate_action_timestamp_def timely_def)

definition valid_action :: "FindingActionRequest \<Rightarrow> bool" where
  "valid_action r \<longleftrightarrow>
     trim (fq_finding_key r) \<noteq> [] \<and> 1 \<le> fq_expected_last_seen_gen r
     \<and> (\<exists>v. fq_actor r = Some v \<and> trim v \<noteq> [])
     \<and> (\<forall>v. fq_owner r = Some v \<longrightarrow> trim v \<noteq> [])
     \<and> (\<forall>h. fq_ttl_hours r = Some h \<longrightarrow> ttl_supported (fq_action r) \<and> 1 \<le> h \<and> h \<le> 720)"

lemma validate_request_ok: "validate_request r = Inr () \<longleftrightarrow> valid_action r"
  by (auto simp: validate_request_def valid_action_def res_bind_Inr_iff refuse_if_ok MIN_TTL_HOURS_def MAX_TTL_HOURS_def
      split: option.splits)

definition actionable :: "externals \<Rightarrow> database \<Rightarrow> FindingActionRequest \<Rightarrow> int \<Rightarrow> warning_state_row \<Rightarrow> bool" where
  "actionable ext db r now w \<longleftrightarrow>
     w \<in> set (db_warning_state db) \<and> local_key (ws_key w) = fq_finding_key r
     \<and> ws_work_state w = FindingWorkState_as_str (fq_expected_work_state r)
     \<and> ws_last_seen_gen w = fq_expected_last_seen_gen r
     \<and> ws_visibility_state w = ''observed'' \<and> ws_absent_gens w = 0 \<and> ws_basis_state w = ''live''
     \<and> (case latest_observation db (fq_finding_key r) of
          None \<Rightarrow> timely ext now (ws_last_seen_at w)
        | Some x \<Rightarrow> obs_generation_id x = ws_last_seen_gen w \<and> timely ext now (obs_observed_at x))
     \<and> (case latest_by gen_generation_id (db_generations db) of
          None \<Rightarrow> False
        | Some g \<Rightarrow> gen_status g = ''complete'' \<and> gen_generation_id g = ws_last_seen_gen w
            \<and> timely ext now (gen_completed_at g))"

definition target_of :: "database \<Rightarrow> FindingActionRequest \<Rightarrow> warning_state_row \<Rightarrow> ResolvedTarget" where
  "target_of db r w =
     (let t = resolved_of w (fq_expected_work_state r) in
      case latest_observation db (fq_finding_key r) of
        None \<Rightarrow> t
      | Some x \<Rightarrow> t\<lparr>rs_observation_generation := Some (obs_generation_id x),
                  rs_observation_at := Some (obs_observed_at x)\<rparr>)"

lemma resolved_fields [simp]:
  "rs_host (resolved_of w s) = ws_host w" "rs_kind (resolved_of w s) = ws_kind w"
  "rs_subject (resolved_of w s) = ws_subject w" "rs_work_state (resolved_of w s) = s"
  "rs_last_seen_gen (resolved_of w s) = ws_last_seen_gen w" "rs_last_seen_at (resolved_of w s) = ws_last_seen_at w"
  "rs_observation_generation (resolved_of w s) = None" "rs_observation_at (resolved_of w s) = None"
  "rs_visibility_state (resolved_of w s) = ws_visibility_state w" "rs_absent_gens (resolved_of w s) = ws_absent_gens w"
  "rs_basis_state (resolved_of w s) = ws_basis_state w"
  by (simp_all add: resolved_of_def)

lemma target_fields [simp]:
  "rs_host (target_of db r w) = ws_host w" "rs_kind (target_of db r w) = ws_kind w"
  "rs_subject (target_of db r w) = ws_subject w" "rs_work_state (target_of db r w) = fq_expected_work_state r"
  by (simp_all add: target_of_def Let_def split: option.split)

lemma basis_current_ok: "basis_current k s = Inr () \<longleftrightarrow> s = ''live''"
  by (simp add: basis_current_def)

lemma resolve_key_ok:
  assumes "distinct (map ws_key (db_warning_state db))"
  shows "resolve_by_canonical_key db k = Inr (Some t) \<longleftrightarrow>
    (\<exists>w s. w \<in> set (db_warning_state db) \<and> local_key (ws_key w) = k \<and> ws_work_state w = FindingWorkState_as_str s
       \<and> t = (case latest_observation db k of None \<Rightarrow> resolved_of w s
            | Some x \<Rightarrow> (resolved_of w s)\<lparr>rs_observation_generation := Some (obs_generation_id x),
                rs_observation_at := Some (obs_observed_at x)\<rparr>))"
proof -
  have "resolve_by_canonical_key db k = Inr (Some t) \<longleftrightarrow>
    (\<exists>w s. find (\<lambda>w. local_key (ws_key w) = k) (db_warning_state db) = Some w \<and> from_stored (ws_work_state w) = Some s
       \<and> t = (case latest_observation db k of None \<Rightarrow> resolved_of w s
            | Some x \<Rightarrow> (resolved_of w s)\<lparr>rs_observation_generation := Some (obs_generation_id x),
                rs_observation_at := Some (obs_observed_at x)\<rparr>))"
    unfolding resolve_by_canonical_key_def scan_row [OF assms]
    by (cases "find (\<lambda>w. local_key (ws_key w) = k) (db_warning_state db)"; cases "latest_observation db k")
      (auto split: option.split option.split_asm)
  then show ?thesis by (simp add: find_local_key [OF assms] from_stored_iff conj_assoc)
qed

definition current_target :: "externals \<Rightarrow> database \<Rightarrow> FindingActionRequest \<Rightarrow> int \<Rightarrow> ResolvedTarget \<Rightarrow> bool" where
  "current_target ext db r now t \<longleftrightarrow>
     rs_work_state t = fq_expected_work_state r \<and> rs_last_seen_gen t = fq_expected_last_seen_gen r
     \<and> (case rs_observation_generation t of None \<Rightarrow> True | Some g \<Rightarrow> g = rs_last_seen_gen t)
     \<and> rs_visibility_state t = ''observed'' \<and> rs_absent_gens t = 0 \<and> rs_basis_state t = ''live''
     \<and> timely ext now (observed_or_seen t)
     \<and> (case latest_by gen_generation_id (db_generations db) of
          None \<Rightarrow> False
        | Some g \<Rightarrow> gen_status g = ''complete'' \<and> gen_generation_id g = rs_last_seen_gen t
            \<and> timely ext now (gen_completed_at g))"

lemma resolve_and_validate_target:
  "resolve_and_validate ext db r now = Inr t \<longleftrightarrow>
     resolve_by_canonical_key db (fq_finding_key r) = Inr (Some t) \<and> current_target ext db r now t"
proof (cases "resolve_by_canonical_key db (fq_finding_key r)")
  case (Inr found)
  note found = this
  show ?thesis
  proof (cases found)
    case (Some u)
    with found show ?thesis
      unfolding resolve_and_validate_def current_target_def
      by (cases "rs_observation_generation u"; cases "latest_by gen_generation_id (db_generations db)")
        (auto simp: res_bind_Inr_iff refuse_if_ok timestamp_ok basis_current_ok)
  qed (simp add: resolve_and_validate_def found)
qed (simp add: resolve_and_validate_def)

lemma current_target_row:
  assumes "w \<in> set (db_warning_state db)" "local_key (ws_key w) = fq_finding_key r"
    and "ws_work_state w = FindingWorkState_as_str (fq_expected_work_state r)"
  shows "current_target ext db r now (target_of db r w) \<longleftrightarrow> actionable ext db r now w"
  using assms unfolding current_target_def actionable_def target_of_def observed_or_seen_def Let_def
  by (cases "latest_observation db (fq_finding_key r)"; cases "latest_by gen_generation_id (db_generations db)")
    (simp_all add: conj_ac)

lemma resolve_and_validate_ok:
  assumes "distinct (map ws_key (db_warning_state db))"
  shows "resolve_and_validate ext db r now = Inr t \<longleftrightarrow> (\<exists>w. actionable ext db r now w \<and> t = target_of db r w)"
    (is "?L \<longleftrightarrow> ?R")
proof
  assume ?L
  then have t: "resolve_by_canonical_key db (fq_finding_key r) = Inr (Some t)" "current_target ext db r now t"
    unfolding resolve_and_validate_target by auto
  obtain w s where w: "w \<in> set (db_warning_state db)" "local_key (ws_key w) = fq_finding_key r"
    "ws_work_state w = FindingWorkState_as_str s"
    "t = (case latest_observation db (fq_finding_key r) of None \<Rightarrow> resolved_of w s
        | Some x \<Rightarrow> (resolved_of w s)\<lparr>rs_observation_generation := Some (obs_generation_id x),
            rs_observation_at := Some (obs_observed_at x)\<rparr>)"
    using t(1) unfolding resolve_key_ok [OF assms] by blast
  have "rs_work_state t = s" unfolding w(4) by (simp split: option.split)
  moreover have "rs_work_state t = fq_expected_work_state r" using t(2) unfolding current_target_def by (elim conjE)
  ultimately have "s = fq_expected_work_state r" by simp
  note s = this
  have "t = target_of db r w" unfolding w(4) s target_of_def Let_def ..
  with t(2) w(1-3) s show ?R using current_target_row [of w db r ext now] by blast
next
  assume ?R
  then obtain w where w: "actionable ext db r now w" "t = target_of db r w" by blast
  then have row: "w \<in> set (db_warning_state db)" "local_key (ws_key w) = fq_finding_key r"
    "ws_work_state w = FindingWorkState_as_str (fq_expected_work_state r)" unfolding actionable_def by auto
  with w have "current_target ext db r now t" by (simp add: current_target_row)
  moreover have "resolve_by_canonical_key db (fq_finding_key r) = Inr (Some t)"
    unfolding resolve_key_ok [OF assms] w(2) target_of_def Let_def using row by blast
  ultimately show ?L unfolding resolve_and_validate_target by simp
qed

section \<open>What an action changes\<close>

interpretation worked: keyed_update ws_key "work_update r applied_at expires_at" for r applied_at expires_at
  by unfold_locales (simp add: ws_key_def work_update_def Let_def)

interpretation retired_rows: keyed_update ws_key "\<lambda>w. w\<lparr>ws_basis_state := s, ws_basis_state_at := at\<rparr>" for s at
  by unfold_locales (simp add: ws_key_def)

text \<open>The columns of coordination; everything else of a row is testimony.\<close>

definition testimony :: "warning_state_row \<Rightarrow> warning_state_row" where
  "testimony w =
     w\<lparr>ws_work_state := [], ws_work_state_at := None, ws_owner := None, ws_note := None,
       ws_ack_expires_at := None, ws_acknowledged := 0, ws_acknowledged_at := None\<rparr>"

lemma work_update_testimony [simp]: "testimony (work_update r at ex w) = testimony w"
  by (simp add: testimony_def work_update_def Let_def)

definition history_of ::
  "FindingActionRequest \<Rightarrow> string \<Rightarrow> warning_state_row \<Rightarrow> transition_row"
where
  "history_of r at w =
     \<lparr>tr_transition_id = 0, tr_host = ws_host w, tr_kind = ws_kind w, tr_subject = ws_subject w,
      tr_from_state = Some (ws_work_state w),
      tr_to_state = FindingWorkState_as_str (target_work_state (fq_action r)), tr_changed_by = fq_actor r,
      tr_note = fq_note r, tr_created_at = at\<rparr>"

lemma still_current_actionable:
  assumes "distinct (map ws_key (db_warning_state db))" "actionable ext db r now w" "v \<in> set (db_warning_state db)"
  shows "still_current r (target_of db r w) v \<longleftrightarrow> v = w"
proof
  assume "still_current r (target_of db r w) v"
  then have "ws_key v = ws_key w" by (simp add: still_current_def ws_key_def)
  moreover have "w \<in> set (db_warning_state db)" using assms(2) unfolding actionable_def by (elim conjE)
  ultimately show "v = w" using assms(1,3) by (auto simp: distinct_map inj_on_def)
next
  assume "v = w"
  with assms(2) show "still_current r (target_of db r w) v" by (simp add: still_current_def actionable_def)
qed

lemma one_changed:
  assumes "distinct (map ws_key (db_warning_state db))" "actionable ext db r now w"
  shows "filter (still_current r (target_of db r w)) (db_warning_state db) = [w]"
    and "update_where (still_current r (target_of db r w)) f (db_warning_state db) =
      update_where (\<lambda>v. ws_key v = ws_key w) f (db_warning_state db)"
proof -
  have w: "w \<in> set (db_warning_state db)" using assms(2) unfolding actionable_def by (elim conjE)
  have "filter (\<lambda>v. v = w) rows = [w]" if "distinct rows" "w \<in> set rows" for rows
    using that by (induction rows) (auto simp: filter_empty_conv)
  moreover have "filter (still_current r (target_of db r w)) (db_warning_state db) = filter (\<lambda>v. v = w) (db_warning_state db)"
    by (rule filter_cong) (simp_all add: still_current_actionable [OF assms])
  ultimately show "filter (still_current r (target_of db r w)) (db_warning_state db) = [w]"
    using assms(1) w by (simp add: distinct_map)
  have "ws_key v = ws_key w \<longleftrightarrow> v = w" if "v \<in> set (db_warning_state db)" for v
    using assms(1) w that by (auto simp: distinct_map inj_on_def)
  then show "update_where (still_current r (target_of db r w)) f (db_warning_state db) =
      update_where (\<lambda>v. ws_key v = ws_key w) f (db_warning_state db)"
    unfolding update_where_def by (intro map_cong) (simp_all add: still_current_actionable [OF assms])
qed

text \<open>The whole of an action: it applies to exactly the actionable findings, and does one thing.\<close>

definition applied_action ::
  "FindingActionRequest \<Rightarrow> string \<Rightarrow> string option \<Rightarrow> warning_state_row \<Rightarrow> database \<Rightarrow> FindingActionReceipt \<times> database"
where
  "applied_action r at ex w db =
     (\<lparr>fr_target = ResolvedTarget_public (target_of db r w) (fq_finding_key r), fr_contract = contract (fq_action r),
       fr_from_work_state = fq_expected_work_state r, fr_to_work_state = target_work_state (fq_action r),
       fr_applied_at = at, fr_expires_at = ex,
       fr_transition_id = next_rowid (map tr_transition_id (db_finding_transitions db))\<rparr>,
      db\<lparr>db_warning_state := update_where (\<lambda>v. ws_key v = ws_key w) (work_update r at ex) (db_warning_state db),
         db_finding_transitions := insert_transition (history_of r at w) (db_finding_transitions db)\<rparr>)"

lemma apply_actionable:
  assumes "distinct (map ws_key (db_warning_state db))" "actionable ext db r now w"
  shows "apply_transition r at ex (target_of db r w) db = Inr (applied_action r at ex w db)"
proof -
  have "ws_work_state w = FindingWorkState_as_str (fq_expected_work_state r)"
    using assms(2) unfolding actionable_def by (elim conjE)
  with one_changed [OF assms] show ?thesis
    by (simp add: apply_transition_def refuse_if_def applied_action_def history_of_def Let_def)
qed

lemma transition_ok:
  assumes "distinct (map ws_key (db_warning_state db))"
  shows "transition_finding_action ext env r db = Inr res \<longleftrightarrow>
    valid_action r \<and> (\<exists>ex at w. expiration_at env r = Inr ex \<and> ae_format env (ae_now env) = Inr at
      \<and> actionable ext db r (ae_now env) w \<and> res = applied_action r at ex w db)"
proof -
  have "transition_finding_action ext env r db = Inr res \<longleftrightarrow>
      valid_action r \<and> (\<exists>ex at t. expiration_at env r = Inr ex \<and> ae_format env (ae_now env) = Inr at
        \<and> resolve_and_validate ext db r (ae_now env) = Inr t \<and> apply_transition r at ex t db = Inr res)"
    by (auto simp: transition_finding_action_def res_bind_Inr_iff validate_request_ok format_timestamp_def map_err_Inr_iff)
  then show ?thesis unfolding resolve_and_validate_ok [OF assms] using apply_actionable [OF assms] by (metis sum.inject(2))
qed

text \<open>An action is as its contract says: the target state, and the rest of the row kept.\<close>

lemma action_row:
  assumes "transition_finding_action ext env r db = Inr (rcpt, db')" "distinct (map ws_key (db_warning_state db))"
  obtains w where "actionable ext db r (ae_now env) w" "fr_transition_id rcpt = next_rowid (map tr_transition_id (db_finding_transitions db))"
    "\<And>k. row_at ws_key k (db_warning_state db') =
      (if k = ws_key w then Some (work_update r (fr_applied_at rcpt) (fr_expires_at rcpt) w) else row_at ws_key k (db_warning_state db))"
    "db_finding_transitions db' = insert_transition (history_of r (fr_applied_at rcpt) w) (db_finding_transitions db)"
    "\<And>h t. db'\<lparr>db_warning_state := h, db_finding_transitions := t\<rparr> = db\<lparr>db_warning_state := h, db_finding_transitions := t\<rparr>"
proof -
  from assms obtain ex at w where w: "actionable ext db r (ae_now env) w" "(rcpt, db') = applied_action r at ex w db"
    unfolding transition_ok [OF assms(2)] by auto
  have mem: "w \<in> set (db_warning_state db)" using w(1) unfolding actionable_def by (elim conjE)
  have db': "db' = db\<lparr>db_warning_state := update_where (\<lambda>v. ws_key v = ws_key w) (work_update r at ex) (db_warning_state db),
      db_finding_transitions := insert_transition (history_of r at w) (db_finding_transitions db)\<rparr>"
    and rcpt: "fr_applied_at rcpt = at" "fr_expires_at rcpt = ex"
      "fr_transition_id rcpt = next_rowid (map tr_transition_id (db_finding_transitions db))"
    using w(2) by (simp_all add: applied_action_def)
  have "row_at ws_key k (update_where (\<lambda>v. ws_key v = ws_key w) (work_update r at ex) (db_warning_state db)) =
      (if k = ws_key w then Some (work_update r at ex w) else row_at ws_key k (db_warning_state db))" for k
    by (rule worked.row_at_update_one [OF assms(2) mem])
  then show ?thesis by (intro that [of w]) (simp_all add: db' rcpt w(1))
qed

section \<open>Properties of actions\<close>

interpretation coordination: keyed_update testimony "work_update r applied_at expires_at" for r applied_at expires_at
  by unfold_locales simp

text \<open>
  C11: an action succeeds exactly on a well-formed request, at a time that can be written down,
  for a finding that is still in the reviewed work state and generation, visible, present, on
  a live basis, seen in the newest generation, complete, with both the generation and the
  observation less than a second ahead and less than 301 seconds old.
\<close>

theorem action_guarded:
  assumes "distinct (map ws_key (db_warning_state db))"
  shows "is_ok (transition_finding_action ext env r db) \<longleftrightarrow>
    valid_action r \<and> is_ok (expiration_at env r) \<and> is_ok (ae_format env (ae_now env))
    \<and> (\<exists>w. actionable ext db r (ae_now env) w)"
proof -
  have ok: "is_ok x \<longleftrightarrow> (\<exists>y. x = Inr y)" for x :: "'e + 'v" by (cases x) auto
  show ?thesis unfolding ok transition_ok [OF assms] by blast
qed

text \<open>
  C12: an action changes coordination only. Every row keeps its place, its key and every column
  but the seven of the work state; one row of history is appended, under a fresh identifier that
  the receipt names, from the reviewed state to the state of the action; nothing else changes.
\<close>

theorem action_coordination_only:
  assumes "distinct (map ws_key (db_warning_state db))"
    and "transition_finding_action ext env r db = Inr (rcpt, db')"
  shows "map ws_key (db_warning_state db') = map ws_key (db_warning_state db)
    \<and> map testimony (db_warning_state db') = map testimony (db_warning_state db)
    \<and> db'\<lparr>db_warning_state := db_warning_state db, db_finding_transitions := db_finding_transitions db\<rparr> = db
    \<and> (\<exists>t. db_finding_transitions db' = db_finding_transitions db @ [t]
         \<and> tr_transition_id t = fr_transition_id rcpt
         \<and> tr_transition_id t \<notin> set (map tr_transition_id (db_finding_transitions db))
         \<and> tr_from_state t = Some (FindingWorkState_as_str (fq_expected_work_state r))
         \<and> tr_to_state t = FindingWorkState_as_str (target_work_state (fq_action r)))"
proof -
  from assms(2) obtain ex at w where w: "actionable ext db r (ae_now env) w" "(rcpt, db') = applied_action r at ex w db"
    unfolding transition_ok [OF assms(1)] by auto
  have st: "ws_work_state w = FindingWorkState_as_str (fq_expected_work_state r)"
    using w(1) unfolding actionable_def by (elim conjE)
  have db': "db' = db\<lparr>db_warning_state := update_where (\<lambda>v. ws_key v = ws_key w) (work_update r at ex) (db_warning_state db),
      db_finding_transitions := insert_transition (history_of r at w) (db_finding_transitions db)\<rparr>"
    and id: "fr_transition_id rcpt = next_rowid (map tr_transition_id (db_finding_transitions db))"
    using w(2) by (simp_all add: applied_action_def)
  show ?thesis
    using next_rowid_fresh [of "map tr_transition_id (db_finding_transitions db)"]
    by (simp add: db' id worked.map_key_update coordination.map_key_update insert_transition_def history_of_def st)
qed

text \<open>
  The preview of an action is exactly what the transition does on the same state: one is
  given when the other is, for the same target, under the same contract, with the same time.
\<close>

theorem preview_agrees:
  assumes "distinct (map ws_key (db_warning_state db))"
  shows "preview_finding_action ext env db r = Inr p \<and> is_ok (expiration_at env r) \<longleftrightarrow>
    (\<exists>rcpt db'. transition_finding_action ext env r db = Inr (rcpt, db')
       \<and> p = \<lparr>fp_target = fr_target rcpt, fp_contract = fr_contract rcpt, fp_requested_at = fr_applied_at rcpt,
              fp_expires_after_hours = fq_ttl_hours r,
              fp_owner_will_change = (fq_action r \<noteq> Reset \<and> fq_owner r \<noteq> None),
              fp_note_will_change = (fq_action r \<noteq> Reset \<and> fq_note r \<noteq> None)\<rparr>)"
proof -
  let ?p = "\<lambda>at w. \<lparr>fp_target = ResolvedTarget_public (target_of db r w) (fq_finding_key r),
      fp_contract = contract (fq_action r), fp_requested_at = at, fp_expires_after_hours = fq_ttl_hours r,
      fp_owner_will_change = (fq_action r \<noteq> Reset \<and> fq_owner r \<noteq> None),
      fp_note_will_change = (fq_action r \<noteq> Reset \<and> fq_note r \<noteq> None)\<rparr>"
  have "preview_finding_action ext env db r = Inr p \<longleftrightarrow> valid_action r
      \<and> (\<exists>at w. ae_format env (ae_now env) = Inr at \<and> actionable ext db r (ae_now env) w \<and> p = ?p at w)"
    unfolding preview_finding_action_def res_bind_Inr_iff validate_request_ok resolve_and_validate_ok [OF assms]
      format_timestamp_def map_err_Inr_iff
    by (auto simp: validate_request_ok)
  moreover have "(\<exists>rcpt db'. transition_finding_action ext env r db = Inr (rcpt, db')
       \<and> p = \<lparr>fp_target = fr_target rcpt, fp_contract = fr_contract rcpt, fp_requested_at = fr_applied_at rcpt,
              fp_expires_after_hours = fq_ttl_hours r,
              fp_owner_will_change = (fq_action r \<noteq> Reset \<and> fq_owner r \<noteq> None),
              fp_note_will_change = (fq_action r \<noteq> Reset \<and> fq_note r \<noteq> None)\<rparr>)
      \<longleftrightarrow> valid_action r \<and> (\<exists>ex at w. expiration_at env r = Inr ex \<and> ae_format env (ae_now env) = Inr at
        \<and> actionable ext db r (ae_now env) w \<and> p = ?p at w)"
    unfolding transition_ok [OF assms] applied_action_def by force
  moreover have "is_ok (expiration_at env r) \<longleftrightarrow> (\<exists>ex. expiration_at env r = Inr ex)"
    by (cases "expiration_at env r") auto
  ultimately show ?thesis by blast
qed

text \<open>
  A request that changed the work state cannot be applied again: on the state it left, the
  same request conflicts with the work state it expects, whatever the clock says.
\<close>

theorem action_not_repeated:
  assumes "distinct (map ws_key (db_warning_state db))"
    and "transition_finding_action ext env r db = Inr (rcpt, db')"
    and "target_work_state (fq_action r) \<noteq> fq_expected_work_state r"
  shows "resolve_and_validate ext db' r now =
      Inl (FA_Conflict (fq_finding_key r) ''work_state'' (FindingWorkState_as_str (fq_expected_work_state r))
        (FindingWorkState_as_str (target_work_state (fq_action r))))
    \<and> \<not> is_ok (transition_finding_action ext env' r db')"
proof -
  obtain w where w: "actionable ext db r (ae_now env) w"
      "\<And>k. row_at ws_key k (db_warning_state db') = (if k = ws_key w
        then Some (work_update r (fr_applied_at rcpt) (fr_expires_at rcpt) w) else row_at ws_key k (db_warning_state db))"
    using action_row [OF assms(2,1)] by metis
  let ?w = "work_update r (fr_applied_at rcpt) (fr_expires_at rcpt) w"
  have d: "distinct (map ws_key (db_warning_state db'))"
    using assms(1,2) unfolding transition_ok [OF assms(1)] by (auto simp: applied_action_def worked.map_key_update)
  have "?w \<in> set (db_warning_state db')" using row_at_some [of ws_key "ws_key w" "db_warning_state db'"] w(2) by simp
  moreover have "local_key (ws_key ?w) = fq_finding_key r" "ws_work_state ?w = FindingWorkState_as_str (target_work_state (fq_action r))"
    using w(1) by (auto simp: actionable_def worked.keeps_key) (simp add: work_update_def Let_def)
  ultimately obtain t where t: "resolve_by_canonical_key db' (fq_finding_key r) = Inr (Some t)"
      "rs_work_state t = target_work_state (fq_action r)"
    using resolve_key_ok [OF d, of "fq_finding_key r"] by (cases "latest_observation db' (fq_finding_key r)") fastforce+
  have conflict: "resolve_and_validate ext db' r n =
      Inl (FA_Conflict (fq_finding_key r) ''work_state'' (FindingWorkState_as_str (fq_expected_work_state r))
        (FindingWorkState_as_str (target_work_state (fq_action r))))" for n
    using t assms(3) by (simp add: resolve_and_validate_def refuse_if_def)
  then have "\<not> is_ok (transition_finding_action ext env' r db')"
    unfolding transition_finding_action_def
    by (cases "validate_request r"; cases "expiration_at env' r"; cases "format_timestamp env' (ae_now env')") simp_all
  with conflict show ?thesis by simp
qed

section \<open>Witnesses\<close>

definition demo_action :: FindingActionRequest where
  "demo_action =
     \<lparr>fq_finding_key = local_key (''h'', ''k'', ''s''), fq_action = Quiesce, fq_expected_work_state = WS_New,
      fq_expected_last_seen_gen = 2, fq_note = None, fq_owner = None, fq_actor = Some ''op'', fq_ttl_hours = Some 4\<rparr>"

definition demo_action_env :: action_env where
  "demo_action_env = \<lparr>ae_now = 10, ae_checked_add_hours = (\<lambda>t h. Some (t + h)), ae_format = (\<lambda>t. Inr ''4Z'')\<rparr>"

lemma demo_keys: "distinct (map ws_key (db_warning_state demo_db))"
  by code_simp

lemma demo_action_ok: "is_ok (transition_finding_action demo_ext demo_action_env demo_action demo_db)"
  by code_simp

lemma demo_action_result:
  obtains rcpt db' where "transition_finding_action demo_ext demo_action_env demo_action demo_db = Inr (rcpt, db')"
  using demo_action_ok by (cases "transition_finding_action demo_ext demo_action_env demo_action demo_db") auto

theorem action_guarded_witness:
  "valid_action demo_action \<and> (\<exists>w. actionable demo_ext demo_db demo_action (ae_now demo_action_env) w)"
  using action_guarded [OF demo_keys, of demo_ext demo_action_env demo_action] demo_action_ok by blast

theorem action_coordination_only_witness:
  "\<exists>rcpt db'. transition_finding_action demo_ext demo_action_env demo_action demo_db = Inr (rcpt, db')
     \<and> map testimony (db_warning_state db') = map testimony (db_warning_state demo_db)
     \<and> map ws_work_state (db_warning_state db') \<noteq> map ws_work_state (db_warning_state demo_db)"
proof -
  obtain rcpt db' where r: "transition_finding_action demo_ext demo_action_env demo_action demo_db = Inr (rcpt, db')"
    by (rule demo_action_result)
  have "map ws_work_state (db_warning_state (snd (case transition_finding_action demo_ext demo_action_env demo_action demo_db
      of Inr x \<Rightarrow> x | Inl _ \<Rightarrow> undefined))) = [''quiesced'']" by code_simp
  moreover have "map ws_work_state (db_warning_state demo_db) = [''new'']" by code_simp
  ultimately show ?thesis using action_coordination_only [OF demo_keys r] r by auto
qed

theorem preview_agrees_witness:
  "\<exists>p. preview_finding_action demo_ext demo_action_env demo_db demo_action = Inr p"
proof -
  obtain rcpt db' where "transition_finding_action demo_ext demo_action_env demo_action demo_db = Inr (rcpt, db')"
    by (rule demo_action_result)
  then show ?thesis using preview_agrees [OF demo_keys, of demo_ext demo_action_env demo_action] by blast
qed

theorem action_not_repeated_witness:
  "\<exists>rcpt db'. transition_finding_action demo_ext demo_action_env demo_action demo_db = Inr (rcpt, db')
     \<and> \<not> is_ok (transition_finding_action demo_ext demo_action_env demo_action db')"
proof -
  obtain rcpt db' where r: "transition_finding_action demo_ext demo_action_env demo_action demo_db = Inr (rcpt, db')"
    by (rule demo_action_result)
  have "target_work_state (fq_action demo_action) \<noteq> fq_expected_work_state demo_action" by (simp add: demo_action_def)
  from action_not_repeated [OF demo_keys r this, of 0 demo_action_env] r show ?thesis by blast
qed

end
