(* ===== verification/Retention.thy ===== *)
theory Retention
  imports Store_Demo
begin

text \<open>
  Generations at rest: the digest that seals a generation (\<open>crates/nq-db/src/digest.rs\<close>) and the
  sweep that deletes the oldest generations behind a tombstone (\<open>crates/nq-db/src/retention.rs\<close>).
  Deleting a generation cascades to the tables with a \<open>generation_id\<close> column; the current-state
  tables reference it without a cascade, so a row still of a doomed generation refuses the sweep.
\<close>

section \<open>The digest\<close>

definition OFFSET_BASIS :: u64 where "OFFSET_BASIS = 0xcbf29ce484222325"
definition PRIME :: u64 where "PRIME = 0x00000100000001B3"

definition fnv_write :: "string \<Rightarrow> u64 \<Rightarrow> u64" where
  "fnv_write bytes h = fold (\<lambda>b h. (xor h (of_nat (of_char b))) * PRIME) bytes h"

definition digest_source :: "source_run_row \<Rightarrow> string" where
  "digest_source r = sr_source r @ '':'' @ sr_status r @ [CHR 0x0A]"

definition digest_warning :: "warning_state_row \<Rightarrow> string" where
  "digest_warning w =
     ws_host w @ ''/'' @ ws_domain w @ ''/'' @ ws_kind w @ ''/'' @ ws_subject w @ ''='' @ ws_severity w @ [CHR 0x0A]"

definition hash_rows :: "('r \<Rightarrow> string) \<Rightarrow> 'r list \<Rightarrow> u64 \<Rightarrow> u64" where
  "hash_rows line rows h = fold (\<lambda>r. fnv_write (line r)) rows h"

definition hex16 :: "u64 \<Rightarrow> string" where
  "hex16 v = (let s = show_hex (unat v) in replicate (16 - length s) (CHR ''0'') @ s)"

definition generation_digest :: "database \<Rightarrow> int \<Rightarrow> string" where
  "generation_digest db generation_id =
     (let runs = sort_key sr_source (filter (\<lambda>r. sr_generation_id r = generation_id) (db_source_runs db));
          h1 = hash_rows digest_source runs OFFSET_BASIS;
          h2 = fnv_write (''---'' @ [CHR 0x0A]) h1;
          h3 = hash_rows digest_warning (sort_key ws_key (db_warning_state db)) h2
      in hex16 h3)"

definition seal_generation :: "int \<Rightarrow> database \<Rightarrow> string \<times> database" where
  "seal_generation generation_id db =
     (let hash = generation_digest db generation_id
      in (hash, db\<lparr>db_generations :=
           update_where (\<lambda>g. gen_generation_id g = generation_id) (\<lambda>g. g\<lparr>gen_summary_hash := Some hash\<rparr>)
             (db_generations db)\<rparr>))"

section \<open>The sweep\<close>

record PruneStats =
  ps_generations_pruned :: u64
  ps_tombstone_id :: "int option"
  ps_generation_id_low :: "int option"
  ps_generation_id_high :: "int option"
  ps_rows_deleted :: "(string \<times> int) list"

definition PruneStats_noop :: PruneStats where
  "PruneStats_noop =
     \<lparr>ps_generations_pruned = 0, ps_tombstone_id = None, ps_generation_id_low = None,
      ps_generation_id_high = None, ps_rows_deleted = []\<rparr>"

text \<open>The tables with a \<open>generation_id\<close> column, by name in order, and that column.\<close>

definition generation_id_tables :: "database \<Rightarrow> (string \<times> int list) list" where
  "generation_id_tables db =
     sort_key fst
       ((''finding_observations'', map obs_generation_id (db_finding_observations db))
        # (''source_runs'', map sr_generation_id (db_source_runs db)) # db_history db)"

definition in_range_ids :: "int \<Rightarrow> int \<Rightarrow> int \<Rightarrow> bool" where
  "in_range_ids low high i \<longleftrightarrow> low \<le> i \<and> i \<le> high"

definition rows_deleted :: "int \<Rightarrow> int \<Rightarrow> (string \<times> int list) list \<Rightarrow> (string \<times> int) list" where
  "rows_deleted low high tables =
     filter (\<lambda>(table, n). n > 0)
       (map (\<lambda>(table, ids). (table, int (length (filter (in_range_ids low high) ids)))) tables)"

text \<open>The foreign keys that refuse the deletion.\<close>

definition referenced :: "database \<Rightarrow> current_row list" where
  "referenced db =
     db_hosts_current db @ db_services_current db @ db_monitored_dbs_current db
       @ db_metrics_current db @ db_log_observations_current db"

definition delete_generations :: "int \<Rightarrow> int \<Rightarrow> database \<Rightarrow> string + database" where
  "delete_generations low high db =
     (if list_ex (\<lambda>c. in_range_ids low high (cur_as_of_generation c)
           \<and> cur_as_of_generation c \<in> set (map gen_generation_id (db_generations db))) (referenced db)
      then Inl ''FOREIGN KEY constraint failed''
      else Inr (db\<lparr>
        db_generations := delete_where (\<lambda>g. in_range_ids low high (gen_generation_id g)) (db_generations db),
        db_source_runs := delete_where (\<lambda>r. in_range_ids low high (sr_generation_id r)) (db_source_runs db),
        db_finding_observations :=
          delete_where (\<lambda>r. in_range_ids low high (obs_generation_id r)) (db_finding_observations db),
        db_history := map (\<lambda>(t, ids). (t, filter (\<lambda>i. \<not> in_range_ids low high i) ids)) (db_history db)\<rparr>))"

text \<open>The clock reading, formatted, and the JSON serializer.\<close>

record sweep_env =
  sw_now :: "string + string"
  sw_to_string :: "(string \<times> int) list \<Rightarrow> string + string"

definition prune :: "sweep_env \<Rightarrow> u64 \<Rightarrow> database \<Rightarrow> string + PruneStats \<times> database" where
  "prune env max_generations db =
     (let count = length (db_generations db) in
      if count \<le> unat max_generations then Inr (PruneStats_noop, db)
      else
        let to_prune = count - unat max_generations;
            oldest = take to_prune (sort (map gen_generation_id (db_generations db)));
            gen_low = Min (set oldest);
            gen_high = Max (set oldest);
            rows = rows_deleted gen_low gen_high (generation_id_tables db) in
        res_bind (sw_to_string env rows) (\<lambda>rows_deleted_json.
        res_bind (sw_now env) (\<lambda>tombstoned_at.
        let tombstone_id = next_rowid (map tb_tombstone_id (db_evidence_tombstones db));
            db1 = db\<lparr>db_evidence_tombstones := db_evidence_tombstones db @
              [\<lparr>tb_tombstone_id = tombstone_id, tb_generation_id_low = gen_low, tb_generation_id_high = gen_high,
                tb_generations_deleted = int to_prune,
                tb_rows_deleted_json = rows_deleted_json,
                tb_retention_rule_cited = ''retention.max_generations='' @ show_nat (unat max_generations),
                tb_tombstoned_at = tombstoned_at\<rparr>]\<rparr> in
        res_bind (delete_generations gen_low gen_high db1) (\<lambda>db2.
        Inr (\<lparr>ps_generations_pruned = of_nat (length (db_generations db1) - length (db_generations db2)),
              ps_tombstone_id = Some tombstone_id, ps_generation_id_low = Some gen_low,
              ps_generation_id_high = Some gen_high, ps_rows_deleted = rows\<rparr>, db2)))))"

section \<open>What the sweep deletes\<close>

text \<open>The range between the oldest and the youngest doomed identifier holds the doomed ones only.\<close>

lemma oldest_range:
  fixes ids :: "int list"
  assumes "distinct ids" "0 < n" "n \<le> length ids" "i \<in> set ids"
  shows "in_range_ids (Min (set (take n (sort ids)))) (Max (set (take n (sort ids)))) i \<longleftrightarrow> i \<in> set (take n (sort ids))"
proof -
  let ?s = "sort ids"
  let ?o = "take n ?s"
  have "length ?o = n" using assms(3) by simp
  with assms(2) have ne: "set ?o \<noteq> {}" by (metis length_greater_0_conv set_empty)
  have "sorted_wrt (<) (?o @ drop n ?s)" using assms(1) by (simp add: strict_sorted_iff)
  then have lt: "x < y" if "x \<in> set ?o" "y \<in> set (drop n ?s)" for x y using that unfolding sorted_wrt_append by blast
  show ?thesis
  proof
    assume r: "in_range_ids (Min (set ?o)) (Max (set ?o)) i"
    show "i \<in> set ?o"
    proof (rule ccontr)
      assume "i \<notin> set ?o"
      then have "i \<in> set (drop n ?s)"
        using assms(4) append_take_drop_id [of n ?s] by (metis Un_iff set_append set_sort)
      then have "Max (set ?o) < i" using lt Max_in [OF _ ne] by blast
      with r show False by (simp add: in_range_ids_def)
    qed
  next
    assume "i \<in> set ?o"
    then show "in_range_ids (Min (set ?o)) (Max (set ?o)) i" by (simp add: in_range_ids_def)
  qed
qed

lemma oldest_below:
  fixes ids :: "int list"
  assumes "distinct ids" "i \<in> set (take n (sort ids))" "j \<in> set ids - set (take n (sort ids))"
  shows "i < j"
proof -
  let ?s = "sort ids"
  have "sorted_wrt (<) (take n ?s @ drop n ?s)" using assms(1) by (simp add: strict_sorted_iff)
  moreover have "j \<in> set (drop n ?s)"
    using assms(3) append_take_drop_id [of n ?s] by (metis DiffD1 DiffD2 Un_iff set_append set_sort)
  ultimately show ?thesis using assms(2) unfolding sorted_wrt_append by blast
qed

lemma length_delete: "length (delete_where p rows) = length rows - length (filter p rows)"
  using sum_length_filter_compl [of p rows] by (simp add: delete_where_def)

text \<open>The identifiers of the generations a sweep dooms.\<close>

definition doomed_ids :: "u64 \<Rightarrow> database \<Rightarrow> int list" where
  "doomed_ids m db = take (length (db_generations db) - unat m) (sort (map gen_generation_id (db_generations db)))"

definition low_id :: "u64 \<Rightarrow> database \<Rightarrow> int" where "low_id m db = Min (set (doomed_ids m db))"
definition high_id :: "u64 \<Rightarrow> database \<Rightarrow> int" where "high_id m db = Max (set (doomed_ids m db))"

lemma doomed_range:
  assumes "distinct (map gen_generation_id (db_generations db))" "unat m < length (db_generations db)"
    and "i \<in> set (map gen_generation_id (db_generations db))"
  shows "in_range_ids (low_id m db) (high_id m db) i \<longleftrightarrow> i \<in> set (doomed_ids m db)"
  unfolding low_id_def high_id_def doomed_ids_def
  by (rule oldest_range) (use assms in auto)

lemma doomed_subset: "set (doomed_ids m db) \<subseteq> set (map gen_generation_id (db_generations db))"
  unfolding doomed_ids_def by (auto dest: in_set_takeD)

lemma doomed_length:
  "length (doomed_ids m db) = length (db_generations db) - unat m"
  by (simp add: doomed_ids_def)

lemma doomed_count:
  assumes "distinct (map gen_generation_id (db_generations db))" "unat m < length (db_generations db)"
  shows "length (filter (\<lambda>g. in_range_ids (low_id m db) (high_id m db) (gen_generation_id g)) (db_generations db))
    = length (db_generations db) - unat m"
proof -
  let ?g = "db_generations db"
  have d: "distinct (doomed_ids m db)" using assms(1) by (simp add: doomed_ids_def)
  have "filter (\<lambda>g. in_range_ids (low_id m db) (high_id m db) (gen_generation_id g)) ?g
      = filter (\<lambda>g. gen_generation_id g \<in> set (doomed_ids m db)) ?g"
    by (rule filter_cong) (use doomed_range [OF assms] in auto)
  moreover have "length (filter (\<lambda>g. gen_generation_id g \<in> set (doomed_ids m db)) ?g)
      = card (set (filter (\<lambda>i. i \<in> set (doomed_ids m db)) (map gen_generation_id ?g)))"
    using assms(1) distinct_card [of "filter (\<lambda>i. i \<in> set (doomed_ids m db)) (map gen_generation_id ?g)"]
    by (simp add: filter_map o_def distinct_map_filter)
  moreover have "set (filter (\<lambda>i. i \<in> set (doomed_ids m db)) (map gen_generation_id ?g)) = set (doomed_ids m db)"
    using doomed_subset by auto
  ultimately show ?thesis using distinct_card [OF d] doomed_length by simp
qed

definition blocked :: "u64 \<Rightarrow> database \<Rightarrow> bool" where
  "blocked m db \<longleftrightarrow> (\<exists>c \<in> set (referenced db). cur_as_of_generation c \<in> set (doomed_ids m db))"

definition swept_tables :: "u64 \<Rightarrow> database \<Rightarrow> (string \<times> int) list" where
  "swept_tables m db = rows_deleted (low_id m db) (high_id m db) (generation_id_tables db)"

definition tombstone_of :: "u64 \<Rightarrow> database \<Rightarrow> string \<Rightarrow> string \<Rightarrow> tombstone_row" where
  "tombstone_of m db json at =
     \<lparr>tb_tombstone_id = next_rowid (map tb_tombstone_id (db_evidence_tombstones db)),
      tb_generation_id_low = low_id m db, tb_generation_id_high = high_id m db,
      tb_generations_deleted = int (length (doomed_ids m db)), tb_rows_deleted_json = json,
      tb_retention_rule_cited = ''retention.max_generations='' @ show_nat (unat m), tb_tombstoned_at = at\<rparr>"

definition swept :: "u64 \<Rightarrow> database \<Rightarrow> tombstone_row \<Rightarrow> database" where
  "swept m db t =
     (let doomed = in_range_ids (low_id m db) (high_id m db) in
      db\<lparr>db_evidence_tombstones := db_evidence_tombstones db @ [t],
         db_generations := filter (\<lambda>g. gen_generation_id g \<notin> set (doomed_ids m db)) (db_generations db),
         db_source_runs := delete_where (\<lambda>r. doomed (sr_generation_id r)) (db_source_runs db),
         db_finding_observations := delete_where (\<lambda>r. doomed (obs_generation_id r)) (db_finding_observations db),
         db_history := map (\<lambda>(t, ids). (t, filter (\<lambda>i. \<not> doomed i) ids)) (db_history db)\<rparr>)"

lemma delete_generations_ok:
  assumes "distinct (map gen_generation_id (db_generations db))" "unat m < length (db_generations db)"
  shows "delete_generations (low_id m db) (high_id m db) (db\<lparr>db_evidence_tombstones := db_evidence_tombstones db @ [t]\<rparr>) =
    (if blocked m db then Inl ''FOREIGN KEY constraint failed'' else Inr (swept m db t))"
proof -
  let ?d = "in_range_ids (low_id m db) (high_id m db)"
  have "delete_where (\<lambda>g. ?d (gen_generation_id g)) (db_generations db)
      = filter (\<lambda>g. gen_generation_id g \<notin> set (doomed_ids m db)) (db_generations db)"
    unfolding delete_where_def by (rule filter_cong) (use doomed_range [OF assms] in auto)
  moreover have "list_ex (\<lambda>c. ?d (cur_as_of_generation c)
           \<and> cur_as_of_generation c \<in> set (map gen_generation_id (db_generations db))) (referenced db) \<longleftrightarrow> blocked m db"
    unfolding blocked_def list_ex_iff using doomed_range [OF assms] doomed_subset [of m db] by blast
  ultimately show ?thesis
    by (simp add: delete_generations_def swept_def referenced_def Let_def)
qed

lemma swept_count:
  assumes "distinct (map gen_generation_id (db_generations db))" "unat m < length (db_generations db)"
  shows "length (db_generations db) - length (filter (\<lambda>g. gen_generation_id g \<notin> set (doomed_ids m db)) (db_generations db))
    = length (doomed_ids m db)"
proof -
  let ?g = "db_generations db"
  have "filter (\<lambda>g. in_range_ids (low_id m db) (high_id m db) (gen_generation_id g)) ?g
      = filter (\<lambda>g. gen_generation_id g \<in> set (doomed_ids m db)) ?g"
    by (rule filter_cong) (use doomed_range [OF assms] in auto)
  with doomed_count [OF assms] have "length (filter (\<lambda>g. gen_generation_id g \<in> set (doomed_ids m db)) ?g) = length (doomed_ids m db)"
    by (simp add: doomed_length)
  with sum_length_filter_compl [of "\<lambda>g. gen_generation_id g \<in> set (doomed_ids m db)" ?g] show ?thesis by linarith
qed

lemma prune_result:
  assumes "distinct (map gen_generation_id (db_generations db))" "unat m < length (db_generations db)"
  shows "prune env m db =
    res_bind (sw_to_string env (swept_tables m db)) (\<lambda>json.
    res_bind (sw_now env) (\<lambda>at.
      if blocked m db then Inl ''FOREIGN KEY constraint failed''
      else Inr (\<lparr>ps_generations_pruned = of_nat (length (doomed_ids m db)),
                ps_tombstone_id = Some (tb_tombstone_id (tombstone_of m db json at)),
                ps_generation_id_low = Some (low_id m db), ps_generation_id_high = Some (high_id m db),
                ps_rows_deleted = swept_tables m db\<rparr>, swept m db (tombstone_of m db json at))))"
proof -
  note len = swept_count [OF assms]
  have ids: "take (length (db_generations db) - unat m) (sort (map gen_generation_id (db_generations db))) = doomed_ids m db"
    by (simp add: doomed_ids_def)
  have gens: "db_generations (swept m db t) = filter (\<lambda>g. gen_generation_id g \<notin> set (doomed_ids m db)) (db_generations db)" for t
    by (simp add: swept_def Let_def)
  have *: "\<not> length (db_generations db) \<le> unat m" using assms(2) by simp
  note del = delete_generations_ok [OF assms]
  show ?thesis
    unfolding prune_def Let_def ids if_not_P [OF *] low_id_def [symmetric] high_id_def [symmetric]
      swept_tables_def [symmetric] tombstone_of_def [symmetric]
    by (cases "blocked m db") (simp_all add: del tombstone_of_def doomed_length [symmetric] gens len)
qed

lemma prune_success:
  assumes "distinct (map gen_generation_id (db_generations db))" "unat m < length (db_generations db)"
    and "prune env m db = Inr (st, db')"
  obtains json at where "\<not> blocked m db" "db' = swept m db (tombstone_of m db json at)"
    "ps_rows_deleted st = swept_tables m db" "sw_to_string env (swept_tables m db) = Inr json" "sw_now env = Inr at"
    "ps_generations_pruned st = of_nat (length (doomed_ids m db))"
  using assms(3) unfolding prune_result [OF assms(1,2)] by (auto simp: res_bind_Inr_iff split: if_splits)

text \<open>The count the receipt gives for a table is the number of rows it lost.\<close>

lemma rows_deleted_count:
  assumes "distinct (map fst tables)" "(t, ids) \<in> set tables"
  shows "(case map_of (rows_deleted low high tables) t of None \<Rightarrow> 0 | Some n \<Rightarrow> n)
    = int (length ids) - int (length (filter (\<lambda>i. \<not> in_range_ids low high i) ids))"
  using assms
proof (induction tables)
  case (Cons a tables)
  have none: "map_of (rows_deleted low high tables) (fst a) = None"
  proof -
    have "fst ` set (rows_deleted low high tables) \<subseteq> fst ` set tables" by (force simp: rows_deleted_def)
    with Cons.prems(1) show ?thesis by (auto simp: map_of_eq_None_iff)
  qed
  show ?case
  proof (cases "a = (t, ids)")
    case True
    with none have "map_of (rows_deleted low high tables) t = None" by simp
    with True sum_length_filter_compl [of "in_range_ids low high" ids] show ?thesis
      by (auto simp: rows_deleted_def)
  next
    case False
    with Cons.prems(2) have m: "(t, ids) \<in> set tables" by simp
    then have "t \<in> fst ` set tables" by force
    with Cons.prems(1) have "fst a \<noteq> t" by auto
    note this m
    with Cons.IH Cons.prems(1) m show ?thesis by (cases a) (simp add: rows_deleted_def)
  qed
qed simp

lemma table_lengths:
  "(t, ids) \<in> set (generation_id_tables db) \<Longrightarrow>
     (t, filter (\<lambda>i. \<not> in_range_ids (low_id m db) (high_id m db) i) ids) \<in> set (generation_id_tables (swept m db b))"
  unfolding generation_id_tables_def set_sort
  by (auto simp: swept_def Let_def delete_where_def filter_map o_def image_iff intro: bexI [of _ "(t, ids)"])

lemma swept_generations:
  assumes "distinct (map gen_generation_id (db_generations db))" "unat m < length (db_generations db)"
  shows "length (db_generations (swept m db t)) = unat m"
    and "g \<in> set (db_generations db) \<Longrightarrow> g \<in> set (db_generations (swept m db t)) \<longleftrightarrow>
      \<not> in_range_ids (low_id m db) (high_id m db) (gen_generation_id g)"
    and "g \<in> set (db_generations db) \<Longrightarrow> g \<notin> set (db_generations (swept m db t)) \<Longrightarrow>
      k \<in> set (db_generations (swept m db t)) \<Longrightarrow> gen_generation_id g < gen_generation_id k"
proof -
  have kept: "db_generations (swept m db t) = filter (\<lambda>g. gen_generation_id g \<notin> set (doomed_ids m db)) (db_generations db)"
    by (simp add: swept_def Let_def)
  have "length (filter (\<lambda>g. gen_generation_id g \<notin> set (doomed_ids m db)) (db_generations db)) \<le> length (db_generations db)" by simp
  then show "length (db_generations (swept m db t)) = unat m"
    using swept_count [OF assms] assms(2) unfolding kept doomed_length by linarith
  show "g \<in> set (db_generations db) \<Longrightarrow> g \<in> set (db_generations (swept m db t)) \<longleftrightarrow>
      \<not> in_range_ids (low_id m db) (high_id m db) (gen_generation_id g)"
    using doomed_range [OF assms, of "gen_generation_id g"] by (simp add: kept)
  assume "g \<in> set (db_generations db)" "g \<notin> set (db_generations (swept m db t))" "k \<in> set (db_generations (swept m db t))"
  then have "gen_generation_id g \<in> set (doomed_ids m db)" "gen_generation_id k \<in> set (map gen_generation_id (db_generations db)) - set (doomed_ids m db)"
    by (auto simp: kept)
  then show "gen_generation_id g < gen_generation_id k" using oldest_below [OF assms(1)] unfolding doomed_ids_def by blast
qed

text \<open>A sweep above the threshold.\<close>

lemma sweep_deletes:
  assumes "distinct (map gen_generation_id (db_generations db))" and "unat m < length (db_generations db)"
    and "distinct (map fst (generation_id_tables db))" and "prune env m db = Inr (st, db')"
  shows "length (db_generations db') = unat m
    \<and> (\<forall>g k. g \<in> set (db_generations db) \<longrightarrow> g \<notin> set (db_generations db') \<longrightarrow> k \<in> set (db_generations db')
         \<longrightarrow> gen_generation_id g < gen_generation_id k)
    \<and> (\<exists>t. db_evidence_tombstones db' = db_evidence_tombstones db @ [t]
         \<and> tb_generations_deleted t = int (length (db_generations db)) - int (length (db_generations db'))
         \<and> (\<forall>g \<in> set (db_generations db). g \<in> set (db_generations db') \<longleftrightarrow>
              \<not> (tb_generation_id_low t \<le> gen_generation_id g \<and> gen_generation_id g \<le> tb_generation_id_high t)))
    \<and> (\<forall>(table, ids) \<in> set (generation_id_tables db). \<exists>kept. (table, kept) \<in> set (generation_id_tables db')
         \<and> int (length ids) - int (length kept) = (case map_of (ps_rows_deleted st) table of None \<Rightarrow> 0 | Some n \<Rightarrow> n))"
proof -
  obtain json at where db': "db' = swept m db (tombstone_of m db json at)" and st: "ps_rows_deleted st = swept_tables m db"
    using prune_success [OF assms(1,2,4)] by metis
  note gens = swept_generations [OF assms(1,2)]
  have tomb: "\<exists>t. db_evidence_tombstones db' = db_evidence_tombstones db @ [t]
         \<and> tb_generations_deleted t = int (length (db_generations db)) - int (length (db_generations db'))
         \<and> (\<forall>g \<in> set (db_generations db). g \<in> set (db_generations db') \<longleftrightarrow>
              \<not> (tb_generation_id_low t \<le> gen_generation_id g \<and> gen_generation_id g \<le> tb_generation_id_high t))"
  proof (intro exI [of _ "tombstone_of m db json at"] conjI)
    show "db_evidence_tombstones db' = db_evidence_tombstones db @ [tombstone_of m db json at]"
      by (simp add: db' swept_def Let_def)
    show "tb_generations_deleted (tombstone_of m db json at) = int (length (db_generations db)) - int (length (db_generations db'))"
      using gens(1) assms(2) by (simp add: db' tombstone_of_def doomed_length of_nat_diff)
    show "\<forall>g \<in> set (db_generations db). g \<in> set (db_generations db') \<longleftrightarrow>
        \<not> (tb_generation_id_low (tombstone_of m db json at) \<le> gen_generation_id g
           \<and> gen_generation_id g \<le> tb_generation_id_high (tombstone_of m db json at))"
      using gens(2) by (simp add: db' tombstone_of_def in_range_ids_def)
  qed
  have "\<exists>kept. (table, kept) \<in> set (generation_id_tables db')
         \<and> int (length ids) - int (length kept) = (case map_of (ps_rows_deleted st) table of None \<Rightarrow> 0 | Some n \<Rightarrow> n)"
    if "(table, ids) \<in> set (generation_id_tables db)" for table ids
    using table_lengths [OF that, of m "tombstone_of m db json at"]
      rows_deleted_count [OF assms(3) that, of "low_id m db" "high_id m db"]
    unfolding db' st swept_tables_def by auto
  with tomb gens(1,3) show ?thesis unfolding db' by blast
qed

text \<open>
  C27: a sweep of a store with more than \<open>max_generations\<close> generations that succeeds keeps exactly
  the newest \<open>max_generations\<close> of them, writes one tombstone whose range holds the deleted
  generations and no kept one, and its receipt counts, for every table with a \<open>generation_id\<close>
  column, exactly the rows that table lost. A sweep at or under the threshold always succeeds,
  changes nothing, writes no tombstone and reports nothing pruned.
\<close>

theorem sweep_receipted:
  assumes "distinct (map gen_generation_id (db_generations db))"
    and "distinct (map fst (generation_id_tables db))"
  shows "if length (db_generations db) \<le> unat m
    then \<exists>st. prune env m db = Inr (st, db) \<and> ps_generations_pruned st = 0 \<and> ps_tombstone_id st = None
      \<and> ps_rows_deleted st = []
    else \<forall>st db'. prune env m db = Inr (st, db') \<longrightarrow> length (db_generations db') = unat m
    \<and> (\<forall>g k. g \<in> set (db_generations db) \<longrightarrow> g \<notin> set (db_generations db') \<longrightarrow> k \<in> set (db_generations db')
         \<longrightarrow> gen_generation_id g < gen_generation_id k)
    \<and> (\<exists>t. db_evidence_tombstones db' = db_evidence_tombstones db @ [t]
         \<and> tb_generations_deleted t = int (length (db_generations db)) - int (length (db_generations db'))
         \<and> (\<forall>g \<in> set (db_generations db). g \<in> set (db_generations db') \<longleftrightarrow>
              \<not> (tb_generation_id_low t \<le> gen_generation_id g \<and> gen_generation_id g \<le> tb_generation_id_high t)))
    \<and> (\<forall>(table, ids) \<in> set (generation_id_tables db). \<exists>kept. (table, kept) \<in> set (generation_id_tables db')
         \<and> int (length ids) - int (length kept) = (case map_of (ps_rows_deleted st) table of None \<Rightarrow> 0 | Some n \<Rightarrow> n))"
proof (cases "length (db_generations db) \<le> unat m")
  case True
  then show ?thesis by (simp add: prune_def PruneStats_noop_def)
next
  case False
  then have "unat m < length (db_generations db)" by simp
  from sweep_deletes [OF assms(1) this assms(2)] False show ?thesis by (simp only: if_False) blast
qed

text \<open>
  A row of a current-state table that is still of a generation with \<open>max_generations\<close> newer
  ones, such as the last report of a host that has gone away, makes every sweep fail.
\<close>

theorem vanished_host_blocks_sweep:
  assumes "distinct (map gen_generation_id (db_generations db))" and "c \<in> set (referenced db)"
    and "cur_as_of_generation c \<in> set (map gen_generation_id (db_generations db))"
    and "unat m \<le> length (filter (\<lambda>g. cur_as_of_generation c < gen_generation_id g) (db_generations db))"
  shows "\<exists>e. prune env m db = Inl e"
proof -
  let ?i = "cur_as_of_generation c" and ?g = "db_generations db"
  obtain x where x: "x \<in> set ?g" "gen_generation_id x = ?i" using assms(3) by auto
  then have "length (filter (\<lambda>g. ?i < gen_generation_id g) ?g) < length ?g" by (intro length_filter_less) auto
  with assms(4) have len: "unat m < length ?g" by linarith
  have "?i \<in> set (doomed_ids m db)"
  proof (rule ccontr)
    assume kept: "?i \<notin> set (doomed_ids m db)"
    let ?K = "filter (\<lambda>g. gen_generation_id g \<notin> set (doomed_ids m db)) ?g"
    have "set (filter (\<lambda>g. ?i < gen_generation_id g) ?g) \<subseteq> set ?K - {x}"
    proof
      fix g assume "g \<in> set (filter (\<lambda>g. ?i < gen_generation_id g) ?g)"
      then have g: "g \<in> set ?g" "?i < gen_generation_id g" by auto
      have "gen_generation_id g \<notin> set (doomed_ids m db)"
      proof
        assume "gen_generation_id g \<in> set (doomed_ids m db)"
        then have "gen_generation_id g < ?i"
          using oldest_below [OF assms(1), of "gen_generation_id g" _ ?i] kept assms(3) unfolding doomed_ids_def by blast
        with g(2) show False by simp
      qed
      with g x(2) show "g \<in> set ?K - {x}" by auto
    qed
    moreover have "x \<in> set ?K" using x kept by simp
    moreover have d: "distinct ?g" using assms(1) by (simp add: distinct_map)
    ultimately have "length (filter (\<lambda>g. ?i < gen_generation_id g) ?g) < length ?K"
      using psubset_card_mono [of "set ?K" "set (filter (\<lambda>g. ?i < gen_generation_id g) ?g)"]
        distinct_card [of "filter (\<lambda>g. ?i < gen_generation_id g) ?g"] distinct_card [of ?K] by (auto simp: psubset_eq)
    moreover have "length ?K = unat m" using swept_generations(1) [OF assms(1) len] by (simp add: swept_def Let_def)
    ultimately show False using assms(4) by linarith
  qed
  then have "blocked m db" using assms(2) unfolding blocked_def by blast
  then show ?thesis
    unfolding prune_result [OF assms(1) len]
    by (cases "sw_to_string env (swept_tables m db)"; cases "sw_now env") simp_all
qed

section \<open>Witnesses\<close>

definition demo_sweep :: sweep_env where
  "demo_sweep = \<lparr>sw_now = Inr ''Z'', sw_to_string = (\<lambda>rows. Inr (concat (map fst rows)))\<rparr>"

lemma demo_sweep_ok: "is_ok (prune demo_sweep 1 demo_db)"
  by code_simp

theorem sweep_receipted_witness:
  "(\<exists>st db'. prune demo_sweep 1 demo_db = Inr (st, db') \<and> length (db_generations db') = 1
     \<and> length (db_evidence_tombstones db') = 1)
   \<and> (\<exists>st. prune demo_sweep 9 demo_db = Inr (st, demo_db) \<and> ps_tombstone_id st = None)"
proof -
  obtain st db' where r: "prune demo_sweep 1 demo_db = Inr (st, db')"
    using demo_sweep_ok by (cases "prune demo_sweep 1 demo_db") auto
  have h: "distinct (map gen_generation_id (db_generations demo_db))" "distinct (map fst (generation_id_tables demo_db))"
    "\<not> length (db_generations demo_db) \<le> unat (1 :: u64)" "length (db_generations demo_db) \<le> unat (9 :: u64)"
    "db_evidence_tombstones demo_db = []" by code_simp+
  from sweep_receipted [OF h(1,2), where m = 1 and env = demo_sweep] h(3,5) r
  have "\<exists>st db'. prune demo_sweep 1 demo_db = Inr (st, db') \<and> length (db_generations db') = 1
     \<and> length (db_evidence_tombstones db') = 1" by fastforce
  moreover from sweep_receipted [OF h(1,2), where m = 9 and env = demo_sweep] h(4)
  have "\<exists>st. prune demo_sweep 9 demo_db = Inr (st, demo_db) \<and> ps_tombstone_id st = None" by auto
  ultimately show ?thesis ..
qed

theorem vanished_host_blocks_sweep_witness:
  "\<exists>e. prune demo_sweep 1 (demo_db\<lparr>db_hosts_current := [\<lparr>cur_host = ''gone'', cur_as_of_generation = 1\<rparr>]\<rparr>) = Inl e"
proof (rule vanished_host_blocks_sweep)
  let ?c = "\<lparr>cur_host = ''gone'', cur_as_of_generation = 1\<rparr>"
  let ?db = "demo_db\<lparr>db_hosts_current := [?c]\<rparr>"
  show "distinct (map gen_generation_id (db_generations ?db))"
    "?c \<in> set (referenced ?db)" "cur_as_of_generation ?c \<in> set (map gen_generation_id (db_generations ?db))"
    "unat (1 :: u64) \<le> length (filter (\<lambda>g. cur_as_of_generation ?c < gen_generation_id g) (db_generations ?db))"
    by code_simp+
qed

end
