(* ===== verification/Lifecycle_Laws.thy ===== *)
theory Lifecycle_Laws
  imports Store_Demo
begin

text \<open>
  What the lifecycle engine promises about a finding from one generation to the next, over the
  refinement of the update to its rows: which updates succeed, how a finding's count and
  severity grow while it is seen, how it recovers once it is not, and that a finding hidden by
  a lost ancestor is kept as it was.
\<close>

section \<open>Steps of a row\<close>

text \<open>The row that the later stages make of a row whose host still reports.\<close>

definition finished ::
  "lifecycle_env \<Rightarrow> int \<Rightarrow> Declaration list \<Rightarrow> database \<Rightarrow> warning_state_row \<Rightarrow> warning_state_row"
where
  "finished env g active db w =
     maintain_row (db_maintenance_declarations db) (le_overlay_now env)
       (declared g active ((expired (le_now env) w)\<lparr>ws_entity_gone_gens := 0\<rparr>))"

text \<open>A host that has a current report.\<close>

definition reporting :: "database \<Rightarrow> string \<Rightarrow> bool" where
  "reporting db host \<longleftrightarrow> host \<noteq> [] \<and> host \<in> cur_host ` (set (db_hosts_current db) \<union> set (db_services_current db))"

lemma expired_fields [simp]:
  "ws_host (expired now w) = ws_host w" "ws_absent_gens (expired now w) = ws_absent_gens w"
  "ws_consecutive_gens (expired now w) = ws_consecutive_gens w" "ws_severity (expired now w) = ws_severity w"
  "ws_last_seen_gen (expired now w) = ws_last_seen_gen w" "ws_message (expired now w) = ws_message w"
  "ws_rule_hash (expired now w) = ws_rule_hash w" "ws_kind (expired now w) = ws_kind w"
  "ws_visibility_state (expired now w) = ws_visibility_state w" "ws_basis_state (expired now w) = ws_basis_state w"
  by (simp_all add: expired_def reset_work_state_def)

lemma declared_fields [simp]:
  "ws_host (declared g active w) = ws_host w" "ws_absent_gens (declared g active w) = ws_absent_gens w"
  "ws_consecutive_gens (declared g active w) = ws_consecutive_gens w" "ws_severity (declared g active w) = ws_severity w"
  "ws_last_seen_gen (declared g active w) = ws_last_seen_gen w" "ws_message (declared g active w) = ws_message w"
  "ws_rule_hash (declared g active w) = ws_rule_hash w" "ws_kind (declared g active w) = ws_kind w"
  "ws_basis_state (declared g active w) = ws_basis_state w"
proof -
  let ?f = "\<lambda>d w. if ws_host w = dl_subject_id d then declare_row g d w else w"
  have "ws_host (fold ?f ds w) = ws_host w \<and> ws_absent_gens (fold ?f ds w) = ws_absent_gens w
      \<and> ws_consecutive_gens (fold ?f ds w) = ws_consecutive_gens w \<and> ws_severity (fold ?f ds w) = ws_severity w
      \<and> ws_last_seen_gen (fold ?f ds w) = ws_last_seen_gen w \<and> ws_message (fold ?f ds w) = ws_message w
      \<and> ws_rule_hash (fold ?f ds w) = ws_rule_hash w \<and> ws_kind (fold ?f ds w) = ws_kind w
      \<and> ws_basis_state (fold ?f ds w) = ws_basis_state w" for ds w
    by (induction ds arbitrary: w) (simp_all add: declare_row_def)
  then show "ws_host (declared g active w) = ws_host w" "ws_absent_gens (declared g active w) = ws_absent_gens w"
    "ws_consecutive_gens (declared g active w) = ws_consecutive_gens w" "ws_severity (declared g active w) = ws_severity w"
    "ws_last_seen_gen (declared g active w) = ws_last_seen_gen w" "ws_message (declared g active w) = ws_message w"
    "ws_rule_hash (declared g active w) = ws_rule_hash w" "ws_kind (declared g active w) = ws_kind w"
    "ws_basis_state (declared g active w) = ws_basis_state w"
    by (simp_all add: declared_def clear_suppression_def)
qed

lemma maintain_fields [simp]:
  "ws_host (maintain_row ms now w) = ws_host w" "ws_absent_gens (maintain_row ms now w) = ws_absent_gens w"
  "ws_consecutive_gens (maintain_row ms now w) = ws_consecutive_gens w" "ws_severity (maintain_row ms now w) = ws_severity w"
  "ws_last_seen_gen (maintain_row ms now w) = ws_last_seen_gen w" "ws_message (maintain_row ms now w) = ws_message w"
  "ws_rule_hash (maintain_row ms now w) = ws_rule_hash w" "ws_kind (maintain_row ms now w) = ws_kind w"
  "ws_visibility_state (maintain_row ms now w) = ws_visibility_state w" "ws_basis_state (maintain_row ms now w) = ws_basis_state w"
  by (simp_all add: maintain_row_def split: option.split)

lemma finished_fields [simp]:
  "ws_host (finished env g active db w) = ws_host w" "ws_absent_gens (finished env g active db w) = ws_absent_gens w"
  "ws_consecutive_gens (finished env g active db w) = ws_consecutive_gens w"
  "ws_severity (finished env g active db w) = ws_severity w" "ws_kind (finished env g active db w) = ws_kind w"
  "ws_last_seen_gen (finished env g active db w) = ws_last_seen_gen w" "ws_message (finished env g active db w) = ws_message w"
  "ws_rule_hash (finished env g active db w) = ws_rule_hash w" "ws_basis_state (finished env g active db w) = ws_basis_state w"
  by (simp_all add: finished_def)

text \<open>A host that no active declaration withdraws.\<close>

definition not_withdrawn :: "Declaration list \<Rightarrow> string \<Rightarrow> bool" where
  "not_withdrawn active host \<longleftrightarrow> (\<forall>d \<in> set active. withdraws d \<longrightarrow> dl_subject_id d \<noteq> host)"

lemma declared_not_withdrawn:
  assumes "not_withdrawn active (ws_host w)"
  shows "declared g active w = (if orphaned_declaration active w then clear_suppression w else w)"
proof -
  let ?f = "\<lambda>d w. if ws_host w = dl_subject_id d then declare_row g d w else w"
  have "fold ?f ds v = v" if "\<forall>d \<in> set ds. dl_subject_id d \<noteq> ws_host v" for ds v
    using that by (induction ds) auto
  moreover have "\<forall>d \<in> set (filter withdraws active). dl_subject_id d \<noteq> ws_host w"
    using assms by (auto simp: not_withdrawn_def)
  ultimately show ?thesis by (simp add: declared_def clear_suppression_def)
qed

lemma declared_visible:
  "not_withdrawn active (ws_host w) \<Longrightarrow> ws_visibility_state w = ''observed''
     \<Longrightarrow> ws_visibility_state (declared g active w) = ''observed''"
  by (simp add: declared_not_withdrawn clear_suppression_def)

text \<open>A row whose ancestor is lost stays suppressed, whatever is declared about its host.\<close>

lemma declared_suppressed:
  assumes "ws_visibility_state w = ''suppressed''" "ws_suppression_kind w = Some ''ancestor_loss''"
    and "ws_suppressed_since_gen w = Some s"
  shows "ws_visibility_state (declared g active w) = ''suppressed'' \<and> ws_suppressed_since_gen (declared g active w) = Some s"
proof -
  let ?f = "\<lambda>d w. if ws_host w = dl_subject_id d then declare_row g d w else w"
  have "ws_visibility_state (fold ?f ds v) = ''suppressed'' \<and> ws_suppressed_since_gen (fold ?f ds v) = Some s"
    if "ws_visibility_state v = ''suppressed''" "ws_suppressed_since_gen v = Some s" for ds v
    using that by (induction ds arbitrary: v) (simp_all add: declare_row_def)
  with assms show ?thesis by (simp add: declared_def orphaned_declaration_def)
qed

lemma maintain_suppression [simp]:
  "ws_suppression_kind (maintain_row ms now w) = ws_suppression_kind w"
  "ws_suppression_reason (maintain_row ms now w) = ws_suppression_reason w"
  "ws_suppressed_since_gen (maintain_row ms now w) = ws_suppressed_since_gen w"
  by (simp_all add: maintain_row_def split: option.split)

lemma expired_suppression [simp]:
  "ws_suppression_kind (expired now w) = ws_suppression_kind w"
  "ws_suppression_reason (expired now w) = ws_suppression_reason w"
  "ws_suppressed_since_gen (expired now w) = ws_suppressed_since_gen w"
  by (simp_all add: expired_def reset_work_state_def)

lemma finished_suppressed:
  assumes "v = finished env g active db (suppress_row g reason w)"
  shows "ws_visibility_state v = ''suppressed''"
    and "ws_suppressed_since_gen v = Some (case ws_suppressed_since_gen w of None \<Rightarrow> g | Some s \<Rightarrow> s)"
    and "not_withdrawn active (ws_host w) \<Longrightarrow>
      ws_suppression_kind v = Some ''ancestor_loss'' \<and> ws_suppression_reason v = Some reason"
proof -
  let ?u = "(expired (le_now env) (suppress_row g reason w))\<lparr>ws_entity_gone_gens := 0\<rparr>"
  have u: "ws_visibility_state ?u = ''suppressed''" "ws_suppression_kind ?u = Some ''ancestor_loss''"
    "ws_suppressed_since_gen ?u = Some (case ws_suppressed_since_gen w of None \<Rightarrow> g | Some s \<Rightarrow> s)"
    "ws_suppression_reason ?u = Some reason" "ws_host ?u = ws_host w"
    by (simp_all add: suppress_row_def split: option.split)
  show "ws_visibility_state v = ''suppressed''"
    "ws_suppressed_since_gen v = Some (case ws_suppressed_since_gen w of None \<Rightarrow> g | Some s \<Rightarrow> s)"
    using declared_suppressed [OF u(1-3), of g active] by (simp_all add: assms finished_def)
  show "ws_suppression_kind v = Some ''ancestor_loss'' \<and> ws_suppression_reason v = Some reason"
    if "not_withdrawn active (ws_host w)"
  proof -
    have "declared g active ?u = ?u"
      using declared_not_withdrawn [of active ?u g] that u by (simp add: orphaned_declaration_def)
    then show ?thesis using u by (simp add: assms finished_def)
  qed
qed

lemma collected_reporting:
  assumes "reporting db (ws_host w)"
  shows "collected db w = Some (w\<lparr>ws_entity_gone_gens := 0\<rparr>)"
proof -
  have "entity_present db w" using assms unfolding reporting_def entity_present_def by blast
  then show ?thesis by (simp add: collected_def gone_count_def entity_gc_threshold_def)
qed

lemma key_host: "row_at ws_key (host, kind, subject) rows = Some w \<Longrightarrow> ws_host w = host \<and> ws_kind w = kind"
  using row_at_some [of ws_key "(host, kind, subject)" rows w] by (simp add: ws_key_def)

lemma aged_host: "aged m g w = Some v \<Longrightarrow> ws_host v = ws_host w"
  by (auto simp: aged_def suppress_row_def inc_absent_row_def split: option.splits if_splits)

lemma next_row_missing:
  assumes "find (\<lambda>f. fd_key f = (host, kind, subject)) fs = None" "reporting db host"
  shows "next_row env g fs esc active origin db (host, kind, subject) =
    map_option (finished env g active db)
      (Option.bind (row_at ws_key (host, kind, subject) (db_warning_state db)) (aged (masked_by (db_warning_state db) fs) g))"
proof (cases "Option.bind (row_at ws_key (host, kind, subject) (db_warning_state db)) (aged (masked_by (db_warning_state db) fs) g)")
  case (Some v)
  then obtain w where "row_at ws_key (host, kind, subject) (db_warning_state db) = Some w"
    "aged (masked_by (db_warning_state db) fs) g w = Some v" by (auto simp: bind_eq_Some_conv)
  then have "ws_host v = host" using key_host aged_host by metis
  with Some assms show ?thesis by (simp add: next_row_def collected_reporting finished_def)
qed (simp add: next_row_def assms(1))

lemma upserted_key: "(\<And>w. prev = Some w \<Longrightarrow> ws_key w = fd_key f) \<Longrightarrow> ws_key (upserted r g now esc origin f prev) = fd_key f"
  by (cases prev) (simp_all add: upserted_def inserted_row_key updated.keeps_key)

lemma emitted_host:
  assumes "fd_key f = (host, kind, subject)"
  shows "ws_host (emitted now g fs esc origin db (host, kind, subject) f) = host"
proof -
  have "ws_key (upserted (retired_source_map db) g now esc origin f (row_at ws_key (host, kind, subject) (db_warning_state db))) = fd_key f"
    by (rule upserted_key) (use row_at_some assms in fastforce)
  then show ?thesis using assms by (simp add: emitted_def Let_def ws_key_def)
qed

lemma next_row_emitted:
  assumes "find (\<lambda>f. fd_key f = (host, kind, subject)) fs = Some f" "reporting db host"
  shows "next_row env g fs esc active origin db (host, kind, subject) =
    Some (finished env g active db (emitted (le_now env) g fs esc origin db (host, kind, subject) f))"
proof -
  have "fd_key f = (host, kind, subject)" using assms(1) by (auto simp: find_Some_iff)
  with assms show ?thesis by (simp add: next_row_def collected_reporting emitted_host finished_def)
qed

section \<open>Which updates succeed\<close>

text \<open>The update adds findings of one kind, each once, and none when nothing is to be recorded.\<close>

lemma hygiene_empty:
  "(\<And>xs. mset (le_hash_order env xs) = mset xs) \<Longrightarrow> validate_coverage_composition (le_hash_order env) db [] = []"
proof -
  assume "\<And>xs. mset (le_hash_order env xs) = mset xs"
  then have "le_hash_order env [] = []" by (metis mset_zero_iff)
  then show ?thesis by (simp add: validate_coverage_composition_def)
qed

text \<open>
  C15: an update succeeds exactly when the origin mode is of the vocabulary and, if anything is to
  be recorded, the generation is stored, the findings have distinct keys, none of them the key of
  a hygiene finding that the update adds, and neither they nor the added ones were already
  observed in it. When no finding is of the kind that is added no key is shared, and when none
  of that kind was observed in the generation the added ones were not.
\<close>

theorem update_accepts:
  assumes "\<And>xs. mset (le_hash_order env xs) = mset xs"
    and "added = validate_coverage_composition (le_hash_order env) db fs"
  shows "(is_ok (update_warning_state_with_origin_mode env g fs esc active origin db) \<longleftrightarrow>
      origin \<in> set VALID_ORIGIN_MODES
      \<and> (fs = [] \<or> g \<in> set (map gen_generation_id (db_generations db)) \<and> distinct (map fd_key fs)
           \<and> fd_key ` set fs \<inter> fd_key ` set added = {}
           \<and> (\<forall>f \<in> set fs \<union> set added. \<forall>r \<in> set (db_finding_observations db).
                obs_generation_id r = g \<longrightarrow> obs_finding_key r \<noteq> local_key (fd_key f))))
    \<and> ((\<forall>f \<in> set fs. fd_kind f \<noteq> ''health_claim_misleading_orphan_ref'') \<longrightarrow> fd_key ` set fs \<inter> fd_key ` set added = {})
    \<and> ((\<forall>r \<in> set (db_finding_observations db). \<forall>host subject. obs_generation_id r = g \<longrightarrow>
           obs_finding_key r \<noteq> local_key (host, ''health_claim_misleading_orphan_ref'', subject))
        \<longrightarrow> (\<forall>f \<in> set added. \<forall>r \<in> set (db_finding_observations db).
                obs_generation_id r = g \<longrightarrow> obs_finding_key r \<noteq> local_key (fd_key f)))"
proof -
  note hyg = hygiene_keys [of "le_hash_order env" db fs, OF assms(1), folded assms(2)]
  have key: "fd_key f = (fd_host f, ''health_claim_misleading_orphan_ref'', fd_subject f)" if "f \<in> set added" for f
    using hyg(2) that by (simp add: fd_key_def)
  have ok: "is_ok (update_warning_state_with_origin_mode env g fs esc active origin db) \<longleftrightarrow>
      (\<exists>y. update_warning_state_with_origin_mode env g fs esc active origin db = Inr y)"
    by (cases "update_warning_state_with_origin_mode env g fs esc active origin db") simp_all
  have e: "fs @ added = [] \<longleftrightarrow> fs = []" using hygiene_empty [OF assms(1)] assms(2) by auto
  have d: "distinct (map fd_key (fs @ added)) \<longleftrightarrow> distinct (map fd_key fs) \<and> fd_key ` set fs \<inter> fd_key ` set added = {}"
    using hyg(1) by auto
  have seen: "(g, k) \<notin> obs_key ` set (db_finding_observations db) \<longleftrightarrow>
      (\<forall>r \<in> set (db_finding_observations db). obs_generation_id r = g \<longrightarrow> obs_finding_key r \<noteq> k)" for k
    by (auto simp: obs_key_def image_iff)
  show ?thesis
  proof (intro conjI impI ballI notI)
    show "is_ok (update_warning_state_with_origin_mode env g fs esc active origin db) \<longleftrightarrow>
      origin \<in> set VALID_ORIGIN_MODES
      \<and> (fs = [] \<or> g \<in> set (map gen_generation_id (db_generations db)) \<and> distinct (map fd_key fs)
           \<and> fd_key ` set fs \<inter> fd_key ` set added = {}
           \<and> (\<forall>f \<in> set fs \<union> set added. \<forall>r \<in> set (db_finding_observations db).
                obs_generation_id r = g \<longrightarrow> obs_finding_key r \<noteq> local_key (fd_key f)))"
      unfolding ok update_ok Let_def assms(2) [symmetric] e d unfolding seen set_append by (simp only: conj_assoc set_map)
    show "fd_key ` set fs \<inter> fd_key ` set added = {}"
      if "\<forall>f \<in> set fs. fd_kind f \<noteq> ''health_claim_misleading_orphan_ref''"
      using that key by (fastforce simp: fd_key_def)
    show False
      if "\<forall>r \<in> set (db_finding_observations db). \<forall>host subject. obs_generation_id r = g \<longrightarrow>
           obs_finding_key r \<noteq> local_key (host, ''health_claim_misleading_orphan_ref'', subject)"
        and f: "f \<in> set added" and "r \<in> set (db_finding_observations db)" "obs_generation_id r = g"
        and "obs_finding_key r = local_key (fd_key f)" for f r
      using that(1,3-5) unfolding key [OF f] by blast
  qed
qed

section \<open>A finding that is seen\<close>

text \<open>
  A finding emitted for a host that reports is recorded with no absence and the severity of
  its count of consecutive generations: one more than before when it was seen in the previous
  generation or suppressed, by the same rule; otherwise one.
\<close>

theorem seen_finding_counts:
  assumes "distinct (map ws_key (db_warning_state db))"
    and "update_warning_state_with_origin_mode env g fs esc active origin db = Inr db'"
    and "f \<in> set fs" and "reporting db (fd_host f)"
  shows "\<exists>w. row_at ws_key (fd_key f) (db_warning_state db') = Some w
    \<and> ws_absent_gens w = 0 \<and> ws_last_seen_gen w = g \<and> ws_message w = fd_message f
    \<and> ws_consecutive_gens w =
        (case row_at ws_key (fd_key f) (db_warning_state db) of
           None \<Rightarrow> 1
         | Some v \<Rightarrow>
             if (\<forall>new old. fd_rule_hash f = Some new \<longrightarrow> ws_rule_hash v = Some old \<longrightarrow> new = old)
               \<and> (ws_visibility_state v = ''suppressed'' \<or> ws_last_seen_gen v = g - 1)
             then ws_consecutive_gens v + 1 else 1)
    \<and> ws_severity w = compute_severity (fd_kind f) (fd_state_kind f) (ws_consecutive_gens w) esc"
proof -
  let ?all = "fs @ validate_coverage_composition (le_hash_order env) db fs"
  have d: "distinct (map fd_key ?all)"
    using assms(2,3) update_ok [of env g fs esc active origin db] unfolding Let_def by auto
  obtain host kind subject where k: "fd_key f = (host, kind, subject)" and h: "fd_host f = host"
    by (simp add: fd_key_def)
  have "find (\<lambda>x. fd_key x = fd_key f) ?all = Some f"
    using row_at_mem [OF d, of f] assms(3) by (simp add: row_at_def)
  from next_row_emitted [OF this [unfolded k], of db env g esc active origin] assms(4) h
  have row: "row_at ws_key (fd_key f) (db_warning_state db') =
      Some (finished env g active db (emitted (le_now env) g ?all esc origin db (fd_key f) f))"
    using update_rows [OF assms(1,2)] by (simp add: k)
  have gens: "upsert_gens g f v = (if (\<forall>new old. fd_rule_hash f = Some new \<longrightarrow> ws_rule_hash v = Some old \<longrightarrow> new = old)
      \<and> (ws_visibility_state v = ''suppressed'' \<or> ws_last_seen_gen v = g - 1) then ws_consecutive_gens v + 1 else 1)" for v
    by (auto simp: upsert_gens_def split: option.splits)
  show ?thesis
    unfolding row gens [symmetric]
    by (cases "row_at ws_key (fd_key f) (db_warning_state db)")
      (simp_all add: emitted_def Let_def upserted_def inserted_row_def updated_row_def split: prod.split)
qed

section \<open>A finding that is not seen\<close>

text \<open>
  Updates in which the finding of a key is not emitted and is masked, on a host that reports,
  each with its generation, the declarations in force and the reason of the masking rule.
\<close>

inductive masked_run ::
  "string \<times> string \<times> string \<Rightarrow> (int \<times> Declaration list \<times> string) list \<Rightarrow> database \<Rightarrow> database \<Rightarrow> bool" for k where
  start: "masked_run k [] db db"
| masked: "masked_run k us db db1 \<Longrightarrow>
    update_warning_state_with_origin_mode env g fs esc active origin db1 = Inr db2 \<Longrightarrow>
    all = fs @ validate_coverage_composition (le_hash_order env) db1 fs \<Longrightarrow>
    k \<notin> fd_key ` set all \<Longrightarrow>
    masked_by (db_warning_state db1) all (fst k) (fst (snd k)) = Some reason \<Longrightarrow> reporting db1 (fst k) \<Longrightarrow>
    masked_run k (us @ [(g, active, reason)]) db db2"

lemma masked_step:
  assumes "distinct (map ws_key (db_warning_state db))"
    and "update_warning_state_with_origin_mode env g fs esc active origin db = Inr db'"
    and "all = fs @ validate_coverage_composition (le_hash_order env) db fs"
    and "k \<notin> fd_key ` set all" "masked_by (db_warning_state db) all (fst k) (fst (snd k)) = Some reason"
    and "reporting db (fst k)" and "row_at ws_key k (db_warning_state db) = Some w"
  shows "row_at ws_key k (db_warning_state db') = Some (finished env g active db (suppress_row g reason w))"
proof -
  obtain host kind subject where k: "k = (host, kind, subject)" by (cases k) auto
  then have h: "ws_host w = host" "ws_kind w = kind" using key_host assms(7) by auto
  have "find (\<lambda>f. fd_key f = (host, kind, subject)) all = None" using assms(4) k by (simp add: find_key_iff)
  from next_row_missing [OF this, of db env g esc active origin] assms(5-7) h k show ?thesis
    using update_rows [OF assms(1,2)] assms(3) by (simp add: aged_def)
qed

lemma masked_run_rows:
  "masked_run k us db db' \<Longrightarrow> distinct (map ws_key (db_warning_state db)) \<Longrightarrow> distinct (map ws_key (db_warning_state db'))"
  by (induction rule: masked_run.induct) (use update_rows in blast)+

text \<open>
  C14: a finding that is not emitted, on a host that reports while an ancestor hides it, is kept
  and suppressed, however often this happens: its count, its severity, its last sighting, its
  message and its absences are as they were, it is suppressed since the first such generation or
  since before, and unless its host is withdrawn by a declaration it says that an ancestor is
  lost, and why.
\<close>

theorem masked_finding_kept:
  assumes "distinct (map ws_key (db_warning_state db))"
    and "row_at ws_key k (db_warning_state db) = Some w" and "masked_run k us db db'"
  shows "\<exists>v. row_at ws_key k (db_warning_state db') = Some v
    \<and> ws_consecutive_gens v = ws_consecutive_gens w \<and> ws_severity v = ws_severity w
    \<and> ws_last_seen_gen v = ws_last_seen_gen w \<and> ws_message v = ws_message w
    \<and> ws_absent_gens v = ws_absent_gens w
    \<and> (us \<noteq> [] \<longrightarrow> ws_visibility_state v = ''suppressed''
         \<and> ws_suppressed_since_gen v = Some (case ws_suppressed_since_gen w of None \<Rightarrow> fst (hd us) | Some s \<Rightarrow> s)
         \<and> (not_withdrawn (fst (snd (last us))) (fst k) \<longrightarrow>
              ws_suppression_kind v = Some ''ancestor_loss'' \<and> ws_suppression_reason v = Some (snd (snd (last us)))))"
  using assms(3,1,2)
proof (induction rule: masked_run.induct)
  case (masked us db db1 env g fs esc active origin db2 all reason)
  from masked.IH [OF masked.prems] obtain u where u: "row_at ws_key k (db_warning_state db1) = Some u"
    and same: "ws_consecutive_gens u = ws_consecutive_gens w" "ws_severity u = ws_severity w"
      "ws_last_seen_gen u = ws_last_seen_gen w" "ws_message u = ws_message w" "ws_absent_gens u = ws_absent_gens w"
    and since: "us \<noteq> [] \<longrightarrow> ws_suppressed_since_gen u = Some (case ws_suppressed_since_gen w of None \<Rightarrow> fst (hd us) | Some s \<Rightarrow> s)"
    by blast
  have first: "us = [] \<Longrightarrow> u = w" using masked.hyps(1) masked.prems(2) u by (auto elim: masked_run.cases)
  define v where "v = finished env g active db1 (suppress_row g reason u)"
  have row: "row_at ws_key k (db_warning_state db2) = Some v"
    unfolding v_def using masked_run_rows [OF masked.hyps(1) masked.prems(1)] masked.hyps(2-6) u by (rule masked_step)
  have host: "ws_host u = fst k" using row_at_some [OF u] by (auto simp: ws_key_def)
  have "ws_suppressed_since_gen v = Some (case ws_suppressed_since_gen w of None \<Rightarrow> fst (hd (us @ [(g, active, reason)])) | Some s \<Rightarrow> s)"
    using finished_suppressed(2) [OF v_def] since first by (cases "us = []") (auto split: option.split)
  moreover have "ws_consecutive_gens v = ws_consecutive_gens w \<and> ws_severity v = ws_severity w
      \<and> ws_last_seen_gen v = ws_last_seen_gen w \<and> ws_message v = ws_message w \<and> ws_absent_gens v = ws_absent_gens w"
    by (simp add: v_def suppress_row_def same)
  ultimately show ?case using row finished_suppressed(1,3) [OF v_def] host by simp
qed simp

text \<open>
  Updates in which the finding of a key is neither emitted nor masked, on a host that reports.
\<close>

inductive silent_run :: "string \<times> string \<times> string \<Rightarrow> nat \<Rightarrow> database \<Rightarrow> database \<Rightarrow> bool" for k where
  start: "silent_run k 0 db db"
| silent: "silent_run k n db db1 \<Longrightarrow>
    update_warning_state_with_origin_mode env g fs esc active origin db1 = Inr db2 \<Longrightarrow>
    all = fs @ validate_coverage_composition (le_hash_order env) db1 fs \<Longrightarrow>
    k \<notin> fd_key ` set all \<Longrightarrow>
    masked_by (db_warning_state db1) all (fst k) (fst (snd k)) = None \<Longrightarrow> reporting db1 (fst k) \<Longrightarrow>
    silent_run k (Suc n) db db2"

lemma silent_step:
  assumes "distinct (map ws_key (db_warning_state db))"
    and "update_warning_state_with_origin_mode env g fs esc active origin db = Inr db'"
    and "all = fs @ validate_coverage_composition (le_hash_order env) db fs"
    and "k \<notin> fd_key ` set all" "masked_by (db_warning_state db) all (fst k) (fst (snd k)) = None" "reporting db (fst k)"
  shows "row_at ws_key k (db_warning_state db') =
    Option.bind (row_at ws_key k (db_warning_state db)) (\<lambda>w.
      if recovery_window \<le> ws_absent_gens w + 1 then None else Some (finished env g active db (inc_absent_row w)))"
proof -
  obtain host kind subject where k: "k = (host, kind, subject)" by (cases k) auto
  have "find (\<lambda>f. fd_key f = (host, kind, subject)) all = None" using assms(4) k by (simp add: find_key_iff)
  from next_row_missing [OF this, of db env g esc active origin] assms(6) k
  have "row_at ws_key k (db_warning_state db') = map_option (finished env g active db)
      (Option.bind (row_at ws_key k (db_warning_state db)) (aged (masked_by (db_warning_state db) all) g))"
    using update_rows [OF assms(1,2)] assms(3) by simp
  moreover have "aged (masked_by (db_warning_state db) all) g w =
      (if recovery_window \<le> ws_absent_gens w + 1 then None else Some (inc_absent_row w))"
    if "row_at ws_key k (db_warning_state db) = Some w" for w
    using key_host [of host kind subject "db_warning_state db" w] that k assms(5) by (simp add: aged_def)
  ultimately show ?thesis by (cases "row_at ws_key k (db_warning_state db)") simp_all
qed

text \<open>
  C13: a finding that stays silent, unmasked, on a reporting host is dropped after exactly as many
  generations as are left of the recovery window, and until then kept with its count, severity
  and message, the absences counted.
\<close>

theorem silent_finding_recovers:
  assumes "distinct (map ws_key (db_warning_state db))"
    and "row_at ws_key k (db_warning_state db) = Some w" and "ws_absent_gens w < recovery_window"
    and "silent_run k n db db'"
  shows "if recovery_window \<le> ws_absent_gens w + int n then row_at ws_key k (db_warning_state db') = None
    else \<exists>v. row_at ws_key k (db_warning_state db') = Some v \<and> ws_absent_gens v = ws_absent_gens w + int n
      \<and> ws_consecutive_gens v = ws_consecutive_gens w \<and> ws_severity v = ws_severity w \<and> ws_message v = ws_message w"
  using assms(4,1-3)
proof (induction rule: silent_run.induct)
  case (start db)
  then show ?case by simp
next
  case (silent n db db1 env g fs esc active origin db2 all)
  have d: "distinct (map ws_key (db_warning_state db1))"
    using silent.hyps(1) silent.prems(1) update_rows
    by (induction rule: silent_run.induct) blast+
  show ?case
    using silent.IH [OF silent.prems] silent_step [OF d silent.hyps(2-6)]
    by (auto simp: inc_absent_row_def split: if_splits)
qed

section \<open>Witnesses\<close>

lemma demo_hash_order: "mset (le_hash_order demo_env xs) = mset xs"
  by (simp add: demo_env_def)

lemma demo_rows: "distinct (map ws_key (db_warning_state demo_db))"
  by code_simp

definition demo_update :: "Finding list \<Rightarrow> string + database" where
  "demo_update fs = update_warning_state_with_origin_mode demo_env 2 fs EscalationConfig_default [] ''observed'' demo_db"

lemma demo_composition:
  "validate_coverage_composition (le_hash_order demo_env) demo_db [] = []"
  "validate_coverage_composition (le_hash_order demo_env) demo_db [demo_finding ''h'' ''stale_host''] = []"
  by code_simp+

lemma demo_update_result:
  "\<exists>db'. update_warning_state_with_origin_mode demo_env 2 [] EscalationConfig_default [] ''observed'' demo_db = Inr db'"
  "\<exists>db'. update_warning_state_with_origin_mode demo_env 2 [demo_finding ''h'' ''stale_host''] EscalationConfig_default []
     ''observed'' demo_db = Inr db'"
  unfolding update_ok Let_def demo_composition append_Nil2 by code_simp+

theorem update_accepts_witness:
  "is_ok (update_warning_state_with_origin_mode demo_env 2 [demo_finding ''h'' ''stale_host''] EscalationConfig_default []
     ''observed'' demo_db)"
proof -
  let ?f = "demo_finding ''h'' ''stale_host''"
  have o: "map obs_finding_key (db_finding_observations demo_db) = [local_key (''h'', ''k'', ''s'')]" by code_simp
  then have "obs_finding_key r = local_key (''h'', ''k'', ''s'')" if "r \<in> set (db_finding_observations demo_db)" for r
    using that by (metis empty_iff image_eqI list.set(1) list.set_map set_ConsD)
  moreover have "''observed'' \<in> set VALID_ORIGIN_MODES" "2 \<in> set (map gen_generation_id (db_generations demo_db))"
    "fd_key ?f = (''h'', ''stale_host'', ''s'')" by code_simp+
  ultimately show ?thesis
    using update_accepts [OF demo_hash_order demo_composition(2) [symmetric], of 2 EscalationConfig_default "[]" "''observed''"]
    by simp
qed

theorem seen_finding_counts_witness:
  "\<exists>db' w. demo_update [demo_finding ''h'' ''stale_host''] = Inr db'
     \<and> row_at ws_key (''h'', ''stale_host'', ''s'') (db_warning_state db') = Some w \<and> ws_consecutive_gens w = 1"
proof -
  let ?f = "demo_finding ''h'' ''stale_host''"
  obtain db' where db': "update_warning_state_with_origin_mode demo_env 2 [?f] EscalationConfig_default [] ''observed'' demo_db = Inr db'"
    using demo_update_result(2) by blast
  have "reporting demo_db (fd_host ?f)" "fd_key ?f = (''h'', ''stale_host'', ''s'')" by code_simp+
  moreover have "row_at ws_key (''h'', ''stale_host'', ''s'') (db_warning_state demo_db) = None" by code_simp
  ultimately show ?thesis
    using seen_finding_counts [OF demo_rows db', of ?f] db' by (auto simp: demo_update_def)
qed

theorem masked_finding_kept_witness:
  "\<exists>db' v. demo_update [demo_finding ''h'' ''stale_host''] = Inr db'
     \<and> row_at ws_key (''h'', ''k'', ''s'') (db_warning_state db') = Some v \<and> ws_absent_gens v = 0
     \<and> ws_visibility_state v = ''suppressed'' \<and> ws_suppressed_since_gen v = Some 2
     \<and> ws_suppression_reason v = Some ''host_unreachable''"
proof -
  let ?f = "demo_finding ''h'' ''stale_host''" and ?w = "demo_row 2 ''h'' ''k''" and ?k = "(''h'', ''k'', ''s'')"
  obtain db' where db': "update_warning_state_with_origin_mode demo_env 2 [?f] EscalationConfig_default [] ''observed'' demo_db = Inr db'"
    using demo_update_result(2) by blast
  have "masked_by (db_warning_state demo_db) [?f] ''h'' ''k'' = Some ''host_unreachable''" "reporting demo_db ''h''"
    "fd_key ?f = (''h'', ''stale_host'', ''s'')" by code_simp+
  then have "masked_run ?k ([] @ [(2, [], ''host_unreachable'')]) demo_db db'"
    using demo_composition(2) by (intro masked_run.masked [OF masked_run.start db' refl]) simp_all
  moreover have "row_at ws_key ?k (db_warning_state demo_db) = Some ?w" "ws_absent_gens ?w = 0"
    "ws_suppressed_since_gen ?w = None" by code_simp+
  ultimately show ?thesis
    using masked_finding_kept [OF demo_rows, of ?k ?w "[(2, [], ''host_unreachable'')]" db'] db'
    by (auto simp: demo_update_def not_withdrawn_def)
qed

theorem silent_finding_recovers_witness:
  "\<exists>db' v. demo_update [] = Inr db' \<and> row_at ws_key (''h'', ''k'', ''s'') (db_warning_state db') = Some v
     \<and> ws_absent_gens v = 1"
proof -
  let ?w = "demo_row 2 ''h'' ''k''" and ?k = "(''h'', ''k'', ''s'')"
  obtain db' where db': "update_warning_state_with_origin_mode demo_env 2 [] EscalationConfig_default [] ''observed'' demo_db = Inr db'"
    using demo_update_result(1) by blast
  note h = demo_composition(1)
  have "masked_by (db_warning_state demo_db) [] ''h'' ''k'' = None" "reporting demo_db ''h''" by code_simp+
  with silent_run.silent [OF silent_run.start [of ?k] db' h [symmetric, THEN arg_cong [of _ _ "(@) []"]]]
  have "silent_run ?k 1 demo_db db'" by simp
  moreover have "row_at ws_key ?k (db_warning_state demo_db) = Some ?w" "ws_absent_gens ?w = 0" "recovery_window = 3"
    by code_simp+
  ultimately show ?thesis using silent_finding_recovers [OF demo_rows, of ?k ?w 1 db'] db' by (auto simp: demo_update_def)
qed

end
