(* ===== verification/Store_Machine.thy ===== *)
theory Store_Machine
  imports Finding_Actions Retention Lifecycle_Laws
begin

text \<open>
  The store as a state machine: the operations of the pipeline and of the operator, in any
  order. A step publishes a generation, updates the lifecycle, seals or sweeps generations, acts
  on a finding, or retires or restores a source. The invariant of the store holds in every state
  reachable from an empty database, and history is never rewritten.
\<close>

section \<open>Tables an update touches\<close>

lemma insert_all_transitions:
  "\<exists>new. fold (\<lambda>w. insert_transition (row w)) ws ts = ts @ new
     \<and> (distinct (map tr_transition_id ts) \<longrightarrow> distinct (map tr_transition_id (ts @ new)))"
proof (induction ws arbitrary: ts)
  case (Cons w ws)
  let ?r = "(row w)\<lparr>tr_transition_id := next_rowid (map tr_transition_id ts)\<rparr>"
  obtain new where n: "fold (\<lambda>w. insert_transition (row w)) ws (ts @ [?r]) = (ts @ [?r]) @ new"
      "distinct (map tr_transition_id (ts @ [?r])) \<longrightarrow> distinct (map tr_transition_id ((ts @ [?r]) @ new))"
    using Cons.IH [of "ts @ [?r]"] by blast
  have "distinct (map tr_transition_id ts) \<longrightarrow> distinct (map tr_transition_id (ts @ [?r]))"
    using next_rowid_fresh [of "map tr_transition_id ts"] by simp
  moreover have "insert_transition (row w) ts = ts @ [?r]" by (simp add: insert_transition_def)
  ultimately show ?case using n by (intro exI [of _ "?r # new"]) simp
qed simp

interpretation lineage: keyed_update gen_generation_id
    "\<lambda>g. g\<lparr>gen_findings_observed := a, gen_detectors_run := b, gen_findings_suppressed := c\<rparr>" for a b c
  by unfold_locales simp

interpretation sealed: keyed_update gen_generation_id "\<lambda>g. g\<lparr>gen_summary_hash := h\<rparr>" for h
  by unfold_locales simp

lemma inner_tables:
  assumes "update_warning_state_inner now g fs esc origin db = Inr db'"
  shows "map gen_generation_id (db_generations db') = map gen_generation_id (db_generations db)"
    and "\<exists>rows. db_finding_observations db' = db_finding_observations db @ rows
      \<and> list_all2 (\<lambda>r f. \<exists>i severity. r = observation_of i g now severity f) rows fs"
    and "\<exists>new. db_finding_transitions db' = db_finding_transitions db @ new
      \<and> (distinct (map tr_transition_id (db_finding_transitions db))
           \<longrightarrow> distinct (map tr_transition_id (db_finding_transitions db')))"
proof -
  from assms obtain r where rec: "try_fold (record_finding (retired_source_map db) g now esc origin) fs db = Inr r"
    and db': "db' = (let stable = fold (set_stability g) fs r;
         aged = stable\<lparr>db_warning_state := age_missing g fs (db_warning_state stable)\<rparr>;
         expired = expire_work_states now aged;
         collected = expired\<lparr>db_warning_state := collect_entities expired (db_warning_state expired)\<rparr>
       in record_lineage g fs collected)"
    by (auto simp: update_warning_state_inner_def res_bind_Inr_iff Let_def)
  obtain rows where st: "fold (set_stability g) fs r = r\<lparr>db_warning_state := rows\<rparr>" using stabilise_frame by blast
  note frame = record_all_frame [OF rec]
  show "map gen_generation_id (db_generations db') = map gen_generation_id (db_generations db)"
    by (simp add: db' Let_def record_lineage_def expire_work_states_def st frame lineage.map_key_update)
  have "db_finding_observations db' = db_finding_observations r"
    by (simp add: db' Let_def record_lineage_def expire_work_states_def st)
  with record_all_observations [OF rec] show "\<exists>rows. db_finding_observations db' = db_finding_observations db @ rows
      \<and> list_all2 (\<lambda>r f. \<exists>i severity. r = observation_of i g now severity f) rows fs" by auto
  let ?a = "(fold (set_stability g) fs r)\<lparr>db_warning_state := age_missing g fs (db_warning_state (fold (set_stability g) fs r))\<rparr>"
  have "db_finding_transitions db' = fold (\<lambda>w. insert_transition (expiry_transition now w))
      (filter (work_state_expired now) (db_warning_state ?a)) (db_finding_transitions db)"
    by (simp add: db' Let_def record_lineage_def expire_work_states_def st frame)
  with insert_all_transitions [of "expiry_transition now" "filter (work_state_expired now) (db_warning_state ?a)" "db_finding_transitions db"]
  show "\<exists>new. db_finding_transitions db' = db_finding_transitions db @ new
      \<and> (distinct (map tr_transition_id (db_finding_transitions db))
           \<longrightarrow> distinct (map tr_transition_id (db_finding_transitions db')))" by auto
qed

lemma update_tables:
  assumes "update_warning_state_with_origin_mode env g fs esc active origin db = Inr db'"
    and "all = fs @ validate_coverage_composition (le_hash_order env) db fs"
  shows "map gen_generation_id (db_generations db') = map gen_generation_id (db_generations db)"
    and "db_sources_retired db' = db_sources_retired db"
    and "\<exists>rows. db_finding_observations db' = db_finding_observations db @ rows
      \<and> list_all2 (\<lambda>r f. \<exists>i severity. r = observation_of i g (le_now env) severity f) rows all"
    and "\<exists>new. db_finding_transitions db' = db_finding_transitions db @ new
      \<and> (distinct (map tr_transition_id (db_finding_transitions db))
           \<longrightarrow> distinct (map tr_transition_id (db_finding_transitions db')))"
    and "db_evidence_tombstones db' = db_evidence_tombstones db"
proof -
  from assms obtain i where i: "update_warning_state_inner (le_now env) g all esc origin db = Inr i"
    and db': "db' = apply_maintenance_overlay (le_overlay_now env) (apply_declaration_overlay g active i)"
    by (auto simp: update_warning_state_with_origin_mode_def Let_def res_bind_Inr_iff split: if_splits)
  have o: "db_generations db' = db_generations i" "db_finding_observations db' = db_finding_observations i"
    "db_finding_transitions db' = db_finding_transitions i" "db_sources_retired db' = db_sources_retired i"
    "db_evidence_tombstones db' = db_evidence_tombstones i"
    by (simp_all add: db' apply_maintenance_overlay_def apply_declaration_overlay_def)
  from i obtain r where rec: "try_fold (record_finding (retired_source_map db) g (le_now env) esc origin) all db = Inr r"
    by (auto simp: update_warning_state_inner_def res_bind_Inr_iff Let_def)
  obtain rows where st: "fold (set_stability g) all r = r\<lparr>db_warning_state := rows\<rparr>" using stabilise_frame by blast
  have "db_evidence_tombstones r = db_evidence_tombstones db"
    by (rule try_fold_invariant [OF rec]) (auto simp: record_finding_ok Let_def)
  then have "db_sources_retired i = db_sources_retired db" "db_evidence_tombstones i = db_evidence_tombstones db"
    using i rec st record_all_frame(3) [OF rec]
    by (auto simp: update_warning_state_inner_def Let_def record_lineage_def expire_work_states_def)
  with o show "db_sources_retired db' = db_sources_retired db" "db_evidence_tombstones db' = db_evidence_tombstones db" by simp_all
  from inner_tables [OF i] o show "map gen_generation_id (db_generations db') = map gen_generation_id (db_generations db)"
    "\<exists>rows. db_finding_observations db' = db_finding_observations db @ rows
      \<and> list_all2 (\<lambda>r f. \<exists>i severity. r = observation_of i g (le_now env) severity f) rows all"
    "\<exists>new. db_finding_transitions db' = db_finding_transitions db @ new
      \<and> (distinct (map tr_transition_id (db_finding_transitions db))
           \<longrightarrow> distinct (map tr_transition_id (db_finding_transitions db')))" by simp_all
qed

section \<open>The machine\<close>

inductive store_step :: "externals \<Rightarrow> database \<Rightarrow> database \<Rightarrow> bool" for ext where
  publish: "gen_generation_id g = next_rowid (map gen_generation_id (db_generations db)) \<Longrightarrow>
    store_step ext db (db\<lparr>db_generations := db_generations db @ [g], db_source_runs := runs,
      db_hosts_current := hosts, db_services_current := services, db_monitored_dbs_current := dbs,
      db_metrics_current := metrics, db_log_observations_current := logs, db_history := history\<rparr>)"
| lifecycle: "update_warning_state_with_origin_mode env g fs esc active origin db = Inr db' \<Longrightarrow> store_step ext db db'"
| seal: "store_step ext db (snd (seal_generation g db))"
| act: "transition_finding_action ext env r db = Inr (rcpt, db') \<Longrightarrow> store_step ext db db'"
| retire: "store_step ext db (snd (retire_source source reason actor now db))"
| unretire: "store_step ext db (snd (unretire_source source actor now db))"
| maintenance: "store_step ext db (db\<lparr>db_maintenance_declarations := ms\<rparr>)"
| sweep: "prune env m db = Inr (st, db') \<Longrightarrow> store_step ext db db'"

definition empty_database :: database where
  "empty_database =
     \<lparr>db_generations = [], db_source_runs = [], db_warning_state = [], db_finding_observations = [],
      db_finding_transitions = [], db_sources_retired = [], db_maintenance_declarations = [],
      db_evidence_tombstones = [], db_hosts_current = [], db_services_current = [],
      db_monitored_dbs_current = [], db_metrics_current = [], db_log_observations_current = [], db_history = []\<rparr>"

inductive reachable :: "externals \<Rightarrow> database \<Rightarrow> bool" for ext where
  initial: "reachable ext empty_database"
| step: "reachable ext db \<Longrightarrow> store_step ext db db' \<Longrightarrow> reachable ext db'"

definition store_inv :: "database \<Rightarrow> bool" where
  "store_inv db \<longleftrightarrow>
     distinct (map gen_generation_id (db_generations db))
     \<and> distinct (map ws_key (db_warning_state db))
     \<and> distinct (map obs_key (db_finding_observations db))
     \<and> (\<forall>r \<in> set (db_finding_observations db). obs_generation_id r \<in> set (map gen_generation_id (db_generations db)))
     \<and> distinct (map tr_transition_id (db_finding_transitions db))
     \<and> (\<forall>w \<in> set (db_warning_state db). row_inv (retired_source_map db) w)"

lemma retired_map_cong: "db_sources_retired db' = db_sources_retired db \<Longrightarrow> retired_source_map db' = retired_source_map db"
  by (rule ext) (simp add: retired_source_map_def)

lemma publish_inv:
  assumes "store_inv db" "gen_generation_id g = next_rowid (map gen_generation_id (db_generations db))"
  shows "store_inv (db\<lparr>db_generations := db_generations db @ [g], db_source_runs := runs,
      db_hosts_current := hosts, db_services_current := services, db_monitored_dbs_current := dbs,
      db_metrics_current := metrics, db_log_observations_current := logs, db_history := history\<rparr>)" (is "store_inv ?d")
proof -
  have r: "retired_source_map ?d = retired_source_map db" by (rule retired_map_cong) simp
  show ?thesis
    using assms next_rowid_fresh [of "map gen_generation_id (db_generations db)"] unfolding store_inv_def r by auto
qed

lemma lifecycle_inv:
  assumes "store_inv db" "update_warning_state_with_origin_mode env g fs esc active origin db = Inr db'"
  shows "store_inv db'"
proof -
  define all where "all = fs @ validate_coverage_composition (le_hash_order env) db fs"
  have k: "distinct (map ws_key (db_warning_state db))"
    and row: "\<And>w. w \<in> set (db_warning_state db) \<Longrightarrow> row_inv (retired_source_map db) w"
    using assms(1) by (auto simp: store_inv_def)
  note rows = update_rows [OF k assms(2), folded all_def]
  note tabs = update_tables [OF assms(2) all_def]
  have r: "retired_source_map db' = retired_source_map db" by (rule retired_map_cong) (rule tabs(2))
  have "row_inv (retired_source_map db) w" if "w \<in> set (db_warning_state db')" for w
  proof (rule next_row_inv)
    show "next_row env g all esc active origin db (ws_key w) = Some w"
      using rows row_at_mem [of ws_key "db_warning_state db'" w] that by metis
    show "row_inv (retired_source_map db) v" if "row_at ws_key (ws_key w) (db_warning_state db) = Some v" for v
      using row row_at_some [OF that] by blast
  qed
  moreover obtain new where new: "db_finding_observations db' = db_finding_observations db @ new"
      "list_all2 (\<lambda>r f. \<exists>i severity. r = observation_of i g (le_now env) severity f) new all" using tabs(3) by blast
  have keys: "map obs_key new = map (\<lambda>f. (g, local_key (fd_key f))) all"
    using new(2) by (induction rule: list_all2_induct) auto
  have ok: "all = [] \<or> g \<in> gen_generation_id ` set (db_generations db) \<and> distinct (map fd_key all)
      \<and> (\<forall>f \<in> set all. (g, local_key (fd_key f)) \<notin> obs_key ` set (db_finding_observations db))"
    using assms(2) update_ok [of env g fs esc active origin db] unfolding Let_def all_def by blast
  have "distinct (map obs_key (db_finding_observations db'))"
  proof -
    have "distinct (map (\<lambda>f. (g, local_key (fd_key f))) all)" using ok by (auto simp: distinct_map inj_on_def)
    moreover have "set (map obs_key (db_finding_observations db)) \<inter> set (map (\<lambda>f. (g, local_key (fd_key f))) all) = {}"
      using ok by auto
    ultimately show ?thesis using assms(1) by (simp add: new(1) keys store_inv_def)
  qed
  moreover have "obs_generation_id x \<in> set (map gen_generation_id (db_generations db'))"
    if "x \<in> set (db_finding_observations db')" for x
  proof (cases "x \<in> set (db_finding_observations db)")
    case True
    with assms(1) show ?thesis unfolding tabs(1) by (simp add: store_inv_def)
  next
    case False
    with that new(1) have "obs_key x \<in> set (map obs_key new)" by auto
    then obtain f where "f \<in> set all" "obs_key x = (g, local_key (fd_key f))" unfolding keys by auto
    then have "obs_generation_id x = g" "all \<noteq> []" by (auto simp: obs_key_def)
    with ok show ?thesis unfolding tabs(1) by auto
  qed
  ultimately show ?thesis
    using assms(1) rows tabs(1,4) unfolding store_inv_def r by simp
qed

lemma act_inv:
  assumes "store_inv db" "transition_finding_action ext env r db = Inr (rcpt, db')"
  shows "store_inv db'"
proof -
  have k: "distinct (map ws_key (db_warning_state db))" using assms(1) by (simp add: store_inv_def)
  from assms(2) obtain ex at w where w: "(rcpt, db') = applied_action r at ex w db"
    unfolding transition_ok [OF k] by auto
  have db': "db' = db\<lparr>db_warning_state := update_where (\<lambda>v. ws_key v = ws_key w) (work_update r at ex) (db_warning_state db),
      db_finding_transitions := insert_transition (history_of r at w) (db_finding_transitions db)\<rparr>"
    using w by (simp add: applied_action_def)
  have m: "retired_source_map db' = retired_source_map db" by (rule retired_map_cong) (simp add: db')
  have target: "FindingWorkState_as_str s \<in> work_states" for s by (cases s) (simp_all add: work_states_def)
  have "row_inv (retired_source_map db) (work_update r at ex v)" if "row_inv (retired_source_map db) v" for v
    using that target unfolding row_inv_def by (simp add: work_update_def Let_def del: insert_iff)
  then have "\<forall>v \<in> set (db_warning_state db'). row_inv (retired_source_map db') v"
    using assms(1) unfolding m by (auto simp: db' update_where_def store_inv_def)
  moreover have "distinct (map tr_transition_id (db_finding_transitions db'))"
    using assms(1) next_rowid_fresh [of "map tr_transition_id (db_finding_transitions db)"]
    by (simp add: db' insert_transition_def store_inv_def)
  ultimately show ?thesis using assms(1) by (simp add: store_inv_def db' worked.map_key_update)
qed

lemma insert_all_distinct:
  "distinct (map tr_transition_id ts) \<Longrightarrow> distinct (map tr_transition_id (fold (\<lambda>w. insert_transition (row w)) ws ts))"
  using insert_all_transitions [of row ws ts] by auto

lemma update_where_all:
  "\<forall>r \<in> set rows. Q r \<Longrightarrow> (\<And>r. Q r \<Longrightarrow> P (if p r then f r else r)) \<Longrightarrow> \<forall>r \<in> set (update_where p f rows). P r"
  unfolding update_where_def set_map by blast

lemma row_inv_basis:
  "row_inv m w \<Longrightarrow> basis_inv m' state (ws_basis_source_id w) (ws_last_basis_generation w) at \<Longrightarrow>
     row_inv m' (w\<lparr>ws_basis_state := state, ws_basis_state_at := at\<rparr>)"
  "row_inv m w \<Longrightarrow> basis_inv m' (ws_basis_state w) (ws_basis_source_id w) (ws_last_basis_generation w) (ws_basis_state_at w) \<Longrightarrow>
     row_inv m' w"
  "row_inv m w \<Longrightarrow> basis_inv m (ws_basis_state w) (ws_basis_source_id w) (ws_last_basis_generation w) (ws_basis_state_at w)"
  unfolding row_inv_def by (simp_all del: insert_iff)

lemma retired_after:
  "retired_source_map (snd (retire_source source reason actor now db)) =
     (retired_source_map db)(source := Some (case retired_source_map db source of None \<Rightarrow> now | Some t \<Rightarrow> t))"
proof (rule ext)
  fix s
  have "db_sources_retired (snd (retire_source source reason actor now db)) =
      (if row_at rt_source_id source (db_sources_retired db) = None
       then db_sources_retired db @ [\<lparr>rt_source_id = source, rt_retired_at = now, rt_retired_reason = reason, rt_retired_by = actor\<rparr>]
       else db_sources_retired db)" by (simp add: retire_source_def Let_def)
  then show "retired_source_map (snd (retire_source source reason actor now db)) s =
     ((retired_source_map db)(source := Some (case retired_source_map db source of None \<Rightarrow> now | Some t \<Rightarrow> t))) s"
    by (cases "row_at rt_source_id source (db_sources_retired db)"; cases "row_at rt_source_id s (db_sources_retired db)")
      (auto simp: retired_source_map_def row_at_append)
qed

lemma row_at_delete_key:
  "row_at key k (delete_where (\<lambda>r. key r = s) rows) = (if k = s then None else row_at key k rows)"
  by (induction rows) (auto simp: row_at_def delete_where_def)

lemma unretired_after:
  "retired_source_map (snd (unretire_source source actor now db)) = (retired_source_map db)(source := None)"
  by (rule ext) (simp add: retired_source_map_def unretire_source_def Let_def row_at_delete_key)

lemma basis_inv_update:
  assumes "basis_inv m state source gen at" "source \<noteq> Some s"
  shows "basis_inv (m(s := x)) state source gen at"
  using assms unfolding basis_inv_def by (cases source) (simp_all del: insert_iff)

lemma retire_inv:
  assumes "store_inv db"
  shows "store_inv (snd (retire_source source reason actor now db))" (is "store_inv ?d")
proof -
  let ?m = "retired_source_map db"
  have row: "row_inv (retired_source_map ?d) (if doomed source w then w\<lparr>ws_basis_state := ''retired'', ws_basis_state_at := Some now\<rparr> else w)"
    if "row_inv ?m w" for w
  proof (cases "doomed source w")
    case True
    then have "basis_inv (retired_source_map ?d) ''retired'' (ws_basis_source_id w) (ws_last_basis_generation w) (Some now)"
      unfolding retired_after by (simp add: basis_inv_def doomed_def)
    with True row_inv_basis(1) [OF that] show ?thesis by simp
  next
    case False
    have b: "basis_inv ?m (ws_basis_state w) (ws_basis_source_id w) (ws_last_basis_generation w) (ws_basis_state_at w)"
      using that by (rule row_inv_basis(3))
    have "basis_inv (retired_source_map ?d) (ws_basis_state w) (ws_basis_source_id w) (ws_last_basis_generation w) (ws_basis_state_at w)"
    proof (cases "ws_basis_source_id w = Some source")
      case True
      with False have "ws_basis_state w = ''retired''" by (simp add: doomed_def)
      with True show ?thesis unfolding retired_after by (simp add: basis_inv_def)
    qed (unfold retired_after, rule basis_inv_update [OF b])
    with False row_inv_basis(2) [OF that] show ?thesis by simp
  qed
  have ws: "db_warning_state ?d = update_where (doomed source) (\<lambda>w. w\<lparr>ws_basis_state := ''retired'', ws_basis_state_at := Some now\<rparr>) (db_warning_state db)"
    and rest: "db_generations ?d = db_generations db" "db_finding_observations ?d = db_finding_observations db"
    by (simp_all add: retire_source_def Let_def)
  have "\<forall>w \<in> set (db_warning_state ?d). row_inv (retired_source_map ?d) w"
    unfolding ws
  proof (rule update_where_all)
    show "\<forall>w \<in> set (db_warning_state db). row_inv ?m w" using assms unfolding store_inv_def by (elim conjE)
  qed (rule row)
  moreover have "distinct (map tr_transition_id (db_finding_transitions ?d))"
    using assms insert_all_distinct [where row = "retire_audit reason actor now"] by (simp add: retire_source_def Let_def store_inv_def)
  ultimately show ?thesis using assms unfolding store_inv_def rest ws retired_rows.map_key_update by simp
qed

lemma unretire_inv:
  assumes "store_inv db"
  shows "store_inv (snd (unretire_source source actor now db))" (is "store_inv ?d")
proof -
  let ?m = "retired_source_map db"
  have row: "row_inv (retired_source_map ?d) (if revived source w then w\<lparr>ws_basis_state := ''unknown'', ws_basis_state_at := Some now\<rparr> else w)"
    if "row_inv ?m w" for w
  proof (cases "revived source w")
    case True
    then have "basis_inv (retired_source_map ?d) ''unknown'' (ws_basis_source_id w) (ws_last_basis_generation w) (Some now)"
      unfolding unretired_after by (simp add: basis_inv_def revived_def)
    with True row_inv_basis(1) [OF that] show ?thesis by simp
  next
    case False
    have b: "basis_inv ?m (ws_basis_state w) (ws_basis_source_id w) (ws_last_basis_generation w) (ws_basis_state_at w)"
      using that by (rule row_inv_basis(3))
    have "basis_inv (retired_source_map ?d) (ws_basis_state w) (ws_basis_source_id w) (ws_last_basis_generation w) (ws_basis_state_at w)"
    proof (cases "ws_basis_source_id w = Some source")
      case True
      with False have "ws_basis_state w \<noteq> ''retired''" by (simp add: revived_def)
      with True b show ?thesis unfolding unretired_after by (simp add: basis_inv_def)
    qed (unfold unretired_after, rule basis_inv_update [OF b])
    with False row_inv_basis(2) [OF that] show ?thesis by simp
  qed
  have ws: "db_warning_state ?d = update_where (revived source) (\<lambda>w. w\<lparr>ws_basis_state := ''unknown'', ws_basis_state_at := Some now\<rparr>) (db_warning_state db)"
    and rest: "db_generations ?d = db_generations db" "db_finding_observations ?d = db_finding_observations db"
    by (simp_all add: unretire_source_def Let_def)
  have "\<forall>w \<in> set (db_warning_state ?d). row_inv (retired_source_map ?d) w"
    unfolding ws
  proof (rule update_where_all)
    show "\<forall>w \<in> set (db_warning_state db). row_inv ?m w" using assms unfolding store_inv_def by (elim conjE)
  qed (rule row)
  moreover have "distinct (map tr_transition_id (db_finding_transitions ?d))"
    using assms insert_all_distinct [where row = "unretire_audit actor now"] by (simp add: unretire_source_def Let_def store_inv_def)
  ultimately show ?thesis using assms unfolding store_inv_def rest ws retired_rows.map_key_update by simp
qed

lemma sweep_inv:
  assumes "store_inv db" "prune env m db = Inr (st, db')"
  shows "store_inv db'"
proof (cases "length (db_generations db) \<le> unat m")
  case True
  with assms show ?thesis by (simp add: prune_def)
next
  case False
  then have len: "unat m < length (db_generations db)" by simp
  have d: "distinct (map gen_generation_id (db_generations db))" using assms(1) by (simp add: store_inv_def)
  obtain t where db': "db' = swept m db t" using prune_success [OF d len assms(2)] by metis
  have r: "retired_source_map db' = retired_source_map db" by (rule retired_map_cong) (simp add: db' swept_def Let_def)
  have kept: "db_generations db' = filter (\<lambda>g. gen_generation_id g \<notin> set (doomed_ids m db)) (db_generations db)"
    and obs: "db_finding_observations db' =
      delete_where (\<lambda>r. in_range_ids (low_id m db) (high_id m db) (obs_generation_id r)) (db_finding_observations db)"
    and rest: "db_warning_state db' = db_warning_state db" "db_finding_transitions db' = db_finding_transitions db"
    by (simp_all add: db' swept_def Let_def)
  have "obs_generation_id x \<in> set (map gen_generation_id (db_generations db'))" if "x \<in> set (db_finding_observations db')" for x
  proof -
    from that have x: "x \<in> set (db_finding_observations db)" "\<not> in_range_ids (low_id m db) (high_id m db) (obs_generation_id x)"
      by (auto simp: obs delete_where_def)
    then have g: "obs_generation_id x \<in> set (map gen_generation_id (db_generations db))" using assms(1) by (simp add: store_inv_def)
    with x(2) doomed_range [OF d len] have "obs_generation_id x \<notin> set (doomed_ids m db)" by blast
    with g show ?thesis by (auto simp: kept)
  qed
  moreover have "distinct (map gen_generation_id (db_generations db'))" using d by (simp add: kept distinct_map_filter)
  moreover have "distinct (map obs_key (db_finding_observations db'))"
    using assms(1) by (simp add: obs keys_delete store_inv_def)
  ultimately show ?thesis using assms(1) unfolding store_inv_def r rest by simp
qed

lemma empty_inv: "store_inv empty_database"
  by (simp add: store_inv_def empty_database_def)

lemma step_inv:
  assumes "store_step ext db db'" "store_inv db"
  shows "store_inv db'"
  using assms
proof (cases rule: store_step.cases)
  case (seal g)
  have "retired_source_map db' = retired_source_map db" by (rule retired_map_cong) (simp add: seal seal_generation_def Let_def)
  moreover have "map gen_generation_id (db_generations db') = map gen_generation_id (db_generations db)"
    by (simp add: seal seal_generation_def Let_def sealed.map_key_update)
  moreover have "db_warning_state db' = db_warning_state db" "db_finding_observations db' = db_finding_observations db"
    "db_finding_transitions db' = db_finding_transitions db"
    by (simp_all add: seal seal_generation_def Let_def)
  ultimately show ?thesis using assms(2) by (simp add: store_inv_def)
next
  case (maintenance ms)
  have "retired_source_map db' = retired_source_map db" by (rule retired_map_cong) (simp add: maintenance)
  then show ?thesis using assms(2) by (simp add: store_inv_def maintenance)
next
  case publish
  then show ?thesis using publish_inv [OF assms(2)] by simp
next
  case lifecycle
  then show ?thesis using lifecycle_inv [OF assms(2)] by blast
next
  case act
  then show ?thesis using act_inv [OF assms(2)] by blast
next
  case retire
  then show ?thesis using retire_inv [OF assms(2)] by simp
next
  case unretire
  then show ?thesis using unretire_inv [OF assms(2)] by simp
next
  case sweep
  then show ?thesis using sweep_inv [OF assms(2)] by blast
qed

lemma reachable_inv: "reachable ext db \<Longrightarrow> store_inv db"
proof (induction rule: reachable.induct)
  case initial
  show ?case by (rule empty_inv)
qed (rule step_inv)

text \<open>
  C7: in every state the store can reach, in any order of publishing, lifecycle updates, actions,
  retirements, restorations, sealing and sweeps: identifiers and keys are unique; every
  observation is of a stored generation; every row counts its absences below the recovery
  window and its entity's below the collection threshold, has a severity, visibility and work
  state of the vocabularies, and is \<open>retired\<close> exactly while its source is.
\<close>

theorem reachable_store_inv: "reachable ext db \<Longrightarrow> store_inv db"
  by (rule reachable_inv)

section \<open>Consequences\<close>

text \<open>
  C8: one update is the step of every row by itself. When it succeeds, each key has the row that
  its previous row, its finding and its ancestors determine; exactly one observation is appended
  for each finding, in order, under the generation; rows of history are only appended; the
  identifiers of the generations and the retired sources are as they were.
\<close>

theorem update_refines:
  assumes "distinct (map ws_key (db_warning_state db))"
    and "update_warning_state_with_origin_mode env g fs esc active origin db = Inr db'"
    and "all = fs @ validate_coverage_composition (le_hash_order env) db fs"
  shows "distinct (map ws_key (db_warning_state db'))
    \<and> (\<forall>k. row_at ws_key k (db_warning_state db') = next_row env g all esc active origin db k)
    \<and> (\<exists>rows. db_finding_observations db' = db_finding_observations db @ rows
         \<and> list_all2 (\<lambda>r f. \<exists>i severity. r = observation_of i g (le_now env) severity f) rows all)
    \<and> (\<exists>new. db_finding_transitions db' = db_finding_transitions db @ new)
    \<and> map gen_generation_id (db_generations db') = map gen_generation_id (db_generations db)
    \<and> db_sources_retired db' = db_sources_retired db"
  using update_rows [OF assms(1,2)] update_tables [OF assms(2,3)] assms(3) by auto

lemma step_history:
  assumes "store_step ext db db'" "store_inv db"
  shows "(\<exists>new. db_finding_transitions db' = db_finding_transitions db @ new)
    \<and> (\<exists>new. db_evidence_tombstones db' = db_evidence_tombstones db @ new)"
  using assms(1)
proof (cases rule: store_step.cases)
  case (lifecycle env g fs esc active origin)
  then show ?thesis using update_tables(4,5) [OF lifecycle refl] by auto
next
  case (act env r rcpt)
  have k: "distinct (map ws_key (db_warning_state db))" using assms(2) by (simp add: store_inv_def)
  from act obtain ex at w where "(rcpt, db') = applied_action r at ex w db" unfolding transition_ok [OF k] by auto
  then show ?thesis by (simp add: applied_action_def insert_transition_def)
next
  case (retire source reason actor now)
  then show ?thesis
    using insert_all_transitions [of "retire_audit reason actor now"] by (simp add: retire_source_def Let_def) blast
next
  case (unretire source actor now)
  then show ?thesis
    using insert_all_transitions [of "unretire_audit actor now"] by (simp add: unretire_source_def Let_def) blast
next
  case (sweep env m st)
  show ?thesis
  proof (cases "length (db_generations db) \<le> unat m")
    case True
    with sweep show ?thesis by (simp add: prune_def)
  next
    case False
    then have len: "unat m < length (db_generations db)" by simp
    have d: "distinct (map gen_generation_id (db_generations db))" using assms(2) by (simp add: store_inv_def)
    obtain t where "db' = swept m db t" using prune_success [OF d len sweep] by metis
    then show ?thesis by (simp add: swept_def Let_def)
  qed
qed (simp_all add: seal_generation_def Let_def)

text \<open>
  C28: history is append-only. Whatever the store does next, the rows of the transition history
  and the tombstones of the sweeps it holds are kept, in place and unchanged.
\<close>

theorem history_append_only:
  assumes "reachable ext db" and "store_step ext db db'"
  shows "(\<exists>new. db_finding_transitions db' = db_finding_transitions db @ new)
    \<and> (\<exists>new. db_evidence_tombstones db' = db_evidence_tombstones db @ new)"
proof -
  have "store_inv db" using assms(1) by (rule reachable_inv)
  with assms(2) show ?thesis by (rule step_history)
qed

section \<open>Actions on a reachable store\<close>

lemma timestamp_refusal:
  "validate_action_timestamp ext r now stamp u t f = Inl e \<Longrightarrow> \<exists>reason. e = FA_Stale (fq_finding_key r) reason"
  by (cases "rfc3339_parse ext stamp")
    (auto simp: validate_action_timestamp_def Let_def refuse_if_def split: if_splits)

lemma stored_target:
  assumes "store_inv db" "resolve_by_canonical_key db k = res"
  shows "res = Inr None \<or> (\<exists>t. res = Inr (Some t) \<and> rs_basis_state t \<in> {''live'', ''unknown'', ''retired''})"
proof -
  have d: "distinct (map ws_key (db_warning_state db))" using assms(1) by (simp add: store_inv_def)
  show ?thesis
  proof (cases "find (\<lambda>w. local_key (ws_key w) = k) (db_warning_state db)")
    case None
    with assms(2) show ?thesis by (auto simp: resolve_by_canonical_key_def scan_row [OF d])
  next
    case (Some w)
    then have "w \<in> set (db_warning_state db)" by (auto simp: find_Some_iff)
    with assms(1) have inv: "row_inv (retired_source_map db) w" by (simp add: store_inv_def)
    then have "ws_work_state w \<in> work_states" and b: "ws_basis_state w \<in> {''live'', ''unknown'', ''retired''}"
      unfolding row_inv_def basis_inv_def by (simp_all del: insert_iff)
    then obtain s where "from_stored (ws_work_state w) = Some s"
      by (auto simp: work_states_def from_stored_def split: if_splits)
    with Some b assms(2) show ?thesis
      by (auto simp: resolve_by_canonical_key_def scan_row [OF d] split: option.splits)
  qed
qed

lemma basis_refusal:
  assumes "basis_current k s = Inl e" "s \<in> {''live'', ''unknown'', ''retired''}"
  shows "\<exists>reason. e = FA_Stale k reason"
  using assms by (auto simp: basis_current_def split: if_splits)

lemma resolve_refusal:
  assumes "store_inv db" "resolve_and_validate ext db r now = Inl e"
  shows "\<not> (\<exists>f d. e = FA_Invalid f d)"
proof -
  obtain res where res: "resolve_by_canonical_key db (fq_finding_key r) = res" by simp
  from stored_target [OF assms(1) res] show ?thesis
  proof (elim disjE exE conjE)
    assume "res = Inr None"
    with res assms(2) show ?thesis by (auto simp: resolve_and_validate_def)
  next
    fix t assume t: "res = Inr (Some t)" "rs_basis_state t \<in> {''live'', ''unknown'', ''retired''}"
    note b = basis_refusal [OF _ t(2), of "fq_finding_key r"]
    from res t(1) assms(2) show ?thesis
      by (cases "rs_observation_generation t"; cases "latest_by gen_generation_id (db_generations db)")
        (auto simp: resolve_and_validate_def res_bind_Inl_iff refuse_if_Inl_iff dest!: timestamp_refusal b)
  qed
qed

text \<open>
  On a store the code can reach, an action is never refused for a stored value outside its
  vocabulary or an ambiguous key, and it only applies to a finding whose source is not retired.
\<close>

theorem action_on_reachable:
  assumes "reachable ext db"
  shows "(\<forall>f d. resolve_and_validate ext db r now \<noteq> Inl (FA_Invalid f d))
    \<and> (\<forall>w. actionable ext db r now w \<longrightarrow>
         (\<exists>s. ws_basis_source_id w = Some s \<and> retired_source_map db s = None))"
proof -
  have inv: "store_inv db" using assms by (rule reachable_inv)
  have "\<exists>s. ws_basis_source_id w = Some s \<and> retired_source_map db s = None" if "actionable ext db r now w" for w
  proof -
    from that have "w \<in> set (db_warning_state db)" "ws_basis_state w = ''live''" unfolding actionable_def by (elim conjE; simp)+
    with inv have "basis_inv (retired_source_map db) ''live'' (ws_basis_source_id w) (ws_last_basis_generation w) (ws_basis_state_at w)"
      using row_inv_basis(3) [of "retired_source_map db" w] by (simp add: store_inv_def)
    then show ?thesis by (cases "ws_basis_source_id w") (simp_all add: basis_inv_def)
  qed
  with resolve_refusal [OF inv] show ?thesis by blast
qed

section \<open>Witnesses\<close>

definition demo_published :: database where
  "demo_published = empty_database\<lparr>db_generations := [demo_generation 1]\<rparr>"

lemma demo_reachable: "reachable demo_ext demo_published"
proof -
  have "gen_generation_id (demo_generation 1) = next_rowid (map gen_generation_id (db_generations empty_database))" by code_simp
  from store_step.publish [OF this, of demo_ext "[]" "[]" "[]" "[]" "[]" "[]" "[]"]
  have "store_step demo_ext empty_database demo_published" by (simp add: demo_published_def empty_database_def)
  then show ?thesis by (rule reachable.step [OF reachable.initial])
qed

theorem reachable_store_inv_witness:
  "store_inv (snd (retire_source ''src'' ''gone'' ''op'' ''Z'' demo_published))"
  by (rule reachable_store_inv [OF reachable.step [OF demo_reachable store_step.retire]])

text \<open>A store in which a finding was recorded and then quiesced.\<close>

definition demo_reporting :: database where
  "demo_reporting = demo_published\<lparr>db_generations := db_generations demo_published @ [demo_generation 2],
     db_hosts_current := [\<lparr>cur_host = ''h'', cur_as_of_generation = 2\<rparr>]\<rparr>"

definition demo_history :: database where
  "demo_history =
     (case update_warning_state_with_origin_mode demo_env 2 [demo_finding ''h'' ''k''] EscalationConfig_default [] ''observed''
        demo_reporting of
        Inl _ \<Rightarrow> demo_reporting
      | Inr db \<Rightarrow>
          (case transition_finding_action demo_ext demo_action_env demo_action db of Inl _ \<Rightarrow> db | Inr (_, db') \<Rightarrow> db'))"

lemma demo_history_rows:
  "map (\<lambda>r. (tr_host r, tr_to_state r)) (db_finding_transitions demo_history) = [(''h'', ''quiesced'')]"
  "is_ok (prune demo_sweep 1 demo_history)"
  by code_simp+

lemma demo_history_reachable: "reachable demo_ext demo_history"
proof -
  have "gen_generation_id (demo_generation 2) = next_rowid (map gen_generation_id (db_generations demo_published))" by code_simp
  from store_step.publish [OF this, where hosts = "[\<lparr>cur_host = ''h'', cur_as_of_generation = 2\<rparr>]" and runs = "[]"
      and services = "[]" and dbs = "[]" and metrics = "[]" and logs = "[]" and history = "[]"]
  have "store_step demo_ext demo_published demo_reporting"
    by (simp add: demo_reporting_def demo_published_def empty_database_def)
  then have "reachable demo_ext demo_reporting" by (rule reachable.step [OF demo_reachable])
  then show ?thesis
    unfolding demo_history_def
    by (auto split: sum.split prod.split intro: reachable.step store_step.lifecycle store_step.act)
qed

theorem history_append_only_witness:
  "\<exists>st db'. prune demo_sweep 1 demo_history = Inr (st, db')
     \<and> map (\<lambda>r. (tr_host r, tr_to_state r)) (take 1 (db_finding_transitions db')) = [(''h'', ''quiesced'')]"
proof -
  obtain st db' where r: "prune demo_sweep 1 demo_history = Inr (st, db')"
    using demo_history_rows(2) by (cases "prune demo_sweep 1 demo_history") auto
  from history_append_only [OF demo_history_reachable store_step.sweep [OF r]]
  obtain new where "db_finding_transitions db' = db_finding_transitions demo_history @ new" by blast
  moreover have "length (db_finding_transitions demo_history) = 1"
    using arg_cong [OF demo_history_rows(1), of length] by simp
  ultimately show ?thesis using r demo_history_rows(1) by auto
qed

theorem action_on_reachable_witness:
  "resolve_and_validate demo_ext demo_published demo_action 0 \<noteq> Inl (FA_Invalid ''stored basis_state'' ''x'')"
  using action_on_reachable [OF demo_reachable, of demo_action 0] by blast

theorem update_refines_witness:
  "\<exists>db'. update_warning_state_with_origin_mode demo_env 2 [] EscalationConfig_default [] ''observed'' demo_db = Inr db'
     \<and> db_finding_observations db' = db_finding_observations demo_db"
proof -
  obtain db' where db': "update_warning_state_with_origin_mode demo_env 2 [] EscalationConfig_default [] ''observed'' demo_db = Inr db'"
    using demo_update_result(1) by blast
  from update_refines [OF demo_rows db' refl] demo_composition(1) db' show ?thesis by auto
qed

end
