(* ===== verification/Pipeline.thy ===== *)
theory Pipeline
  imports Inquiry_Report Store_Machine
begin

text \<open>
  One pass of the monitor after a generation is published (\<open>crates/nq-monitor/src/cmd/serve.rs\<close>):
  the declarations are loaded once, the detectors' findings and the declarations' hygiene
  findings drive the lifecycle update, and the generation is sealed whatever became of the
  update. What the loop does afterwards is left out: the regime features, the notifications
  (\<open>Notifications\<close>), and the heartbeat with the finding recorded in its absence. The properties run a report inquiry on the store such a pass leaves.
\<close>

section \<open>A pass\<close>

text \<open>
  \<open>detected\<close> is what the detectors yield, \<open>decl_now\<close> and \<open>hygiene_now\<close> the two clock readings of
  the declaration code. A failure of the detectors or of the update is logged and leaves the
  store as it was; the pass goes on to seal.
\<close>

definition lifecycle_pass ::
  "externals \<Rightarrow> lifecycle_env \<Rightarrow> int \<Rightarrow> int \<Rightarrow> LoadOutcome \<Rightarrow> string + Finding list \<Rightarrow> EscalationConfig \<Rightarrow> int
     \<Rightarrow> database \<Rightarrow> database"
where
  "lifecycle_pass ext env decl_now hygiene_now decl_outcome detected esc g db =
     (let active_decls = active_declarations ext decl_now decl_outcome;
          db = (case detected of
                  Inl _ \<Rightarrow> db
                | Inr findings \<Rightarrow>
                    (case update_warning_state_with_declarations env g
                            (findings @ run_hygiene ext hygiene_now db decl_outcome) esc active_decls db of
                       Inl _ \<Rightarrow> db
                     | Inr db' \<Rightarrow> db'))
      in snd (seal_generation g db))"

section \<open>The row a pass leaves\<close>

lemma expired_origin [simp]:
  "ws_last_seen_at (expired now w) = ws_last_seen_at w" "ws_origin_mode (expired now w) = ws_origin_mode w"
  "ws_origin_source (expired now w) = ws_origin_source w" "ws_basis_source_id (expired now w) = ws_basis_source_id w"
  "ws_basis_witness_id (expired now w) = ws_basis_witness_id w"
  "ws_last_basis_generation (expired now w) = ws_last_basis_generation w"
  "ws_basis_state_at (expired now w) = ws_basis_state_at w"
  "ws_origin_producer_extraction_time (expired now w) = ws_origin_producer_extraction_time w"
  by (simp_all add: expired_def reset_work_state_def)

lemma maintain_origin [simp]:
  "ws_last_seen_at (maintain_row ms now w) = ws_last_seen_at w" "ws_origin_mode (maintain_row ms now w) = ws_origin_mode w"
  "ws_origin_source (maintain_row ms now w) = ws_origin_source w" "ws_basis_source_id (maintain_row ms now w) = ws_basis_source_id w"
  "ws_basis_witness_id (maintain_row ms now w) = ws_basis_witness_id w"
  "ws_last_basis_generation (maintain_row ms now w) = ws_last_basis_generation w"
  "ws_basis_state_at (maintain_row ms now w) = ws_basis_state_at w"
  "ws_origin_producer_extraction_time (maintain_row ms now w) = ws_origin_producer_extraction_time w"
  by (simp_all add: maintain_row_def split: option.split)

lemma declared_origin [simp]:
  "ws_last_seen_at (declared g active w) = ws_last_seen_at w" "ws_origin_mode (declared g active w) = ws_origin_mode w"
  "ws_origin_source (declared g active w) = ws_origin_source w" "ws_basis_source_id (declared g active w) = ws_basis_source_id w"
  "ws_basis_witness_id (declared g active w) = ws_basis_witness_id w"
  "ws_last_basis_generation (declared g active w) = ws_last_basis_generation w"
  "ws_basis_state_at (declared g active w) = ws_basis_state_at w"
  "ws_origin_producer_extraction_time (declared g active w) = ws_origin_producer_extraction_time w"
proof -
  let ?f = "\<lambda>d w. if ws_host w = dl_subject_id d then declare_row g d w else w"
  have "ws_last_seen_at (fold ?f ds w) = ws_last_seen_at w \<and> ws_origin_mode (fold ?f ds w) = ws_origin_mode w
      \<and> ws_origin_source (fold ?f ds w) = ws_origin_source w \<and> ws_basis_source_id (fold ?f ds w) = ws_basis_source_id w
      \<and> ws_basis_witness_id (fold ?f ds w) = ws_basis_witness_id w
      \<and> ws_last_basis_generation (fold ?f ds w) = ws_last_basis_generation w
      \<and> ws_basis_state_at (fold ?f ds w) = ws_basis_state_at w
      \<and> ws_origin_producer_extraction_time (fold ?f ds w) = ws_origin_producer_extraction_time w" for ds w
    by (induction ds arbitrary: w) (simp_all add: declare_row_def)
  then show "ws_last_seen_at (declared g active w) = ws_last_seen_at w" "ws_origin_mode (declared g active w) = ws_origin_mode w"
    "ws_origin_source (declared g active w) = ws_origin_source w" "ws_basis_source_id (declared g active w) = ws_basis_source_id w"
    "ws_basis_witness_id (declared g active w) = ws_basis_witness_id w"
    "ws_last_basis_generation (declared g active w) = ws_last_basis_generation w"
    "ws_basis_state_at (declared g active w) = ws_basis_state_at w"
  "ws_origin_producer_extraction_time (declared g active w) = ws_origin_producer_extraction_time w"
    by (simp_all add: declared_def clear_suppression_def)
qed

lemma upserted_fields:
  fixes f :: Finding
  defines "b \<equiv> \<lambda>r g now. basis_of r g now (fd_basis_source_id f)"
  shows "ws_last_seen_at (upserted r g now esc origin f prev) = now"
    "ws_last_seen_gen (upserted r g now esc origin f prev) = g"
    "ws_absent_gens (upserted r g now esc origin f prev) = 0"
    "ws_visibility_state (upserted r g now esc origin f prev) = ''observed''"
    "ws_origin_mode (upserted r g now esc origin f prev) = origin"
    "ws_basis_source_id (upserted r g now esc origin f prev) = fd_basis_source_id f"
    "ws_basis_witness_id (upserted r g now esc origin f prev) = fd_basis_witness_id f"
    "ws_basis_state (upserted r g now esc origin f prev) = fst (b r g now)"
    "ws_last_basis_generation (upserted r g now esc origin f prev) = fst (snd (b r g now))"
    "ws_basis_state_at (upserted r g now esc origin f prev) = snd (snd (b r g now))"
    "ws_origin_source (upserted r g now esc origin f prev) = (case prev of None \<Rightarrow> ''nq'' | Some v \<Rightarrow> ws_origin_source v)"
  by (simp_all add: b_def upserted_def inserted_row_def updated_row_def split: option.split prod.split)

text \<open>What an update makes of an emitted finding.\<close>

lemma emitted_row:
  assumes "distinct (map ws_key (db_warning_state db))"
    and "update_warning_state_with_origin_mode env g fs esc active origin db = Inr db'"
    and "f \<in> set fs" and "reporting db (fd_host f)"
  shows "\<exists>w. row_at ws_key (fd_key f) (db_warning_state db') =
      Some (finished env g active db (w\<lparr>ws_stability := Some (presence g (insert g (seen_gens db (fd_key f))) (ws_consecutive_gens w))\<rparr>))
    \<and> w = upserted (retired_source_map db) g (le_now env) esc origin f (row_at ws_key (fd_key f) (db_warning_state db))"
proof -
  let ?all = "fs @ validate_coverage_composition (le_hash_order env) db fs"
  have d: "distinct (map fd_key ?all)"
    using assms(2,3) update_ok [of env g fs esc active origin db] unfolding Let_def by auto
  obtain host kind subject where k: "fd_key f = (host, kind, subject)" and h: "fd_host f = host"
    by (simp add: fd_key_def)
  have "find (\<lambda>x. fd_key x = fd_key f) ?all = Some f"
    using row_at_mem [OF d, of f] assms(3) by (simp add: row_at_def)
  from next_row_emitted [OF this [unfolded k], of db env g esc active origin] assms(4) h
  show ?thesis using update_rows [OF assms(1,2)] by (simp add: k emitted_def Let_def)
qed

section \<open>The latest generation\<close>

lemma sort_key_map:
  assumes "\<And>x. ord (h x) = ord x"
  shows "sort_key ord (map h xs) = map h (sort_key ord xs)"
proof -
  have "insort_key ord (h x) (map h ys) = map h (insort_key ord x ys)" for x ys
    by (induction ys) (simp_all add: assms)
  then show ?thesis by (induction xs) simp_all
qed

lemma latest_by_map:
  assumes "\<And>x. ord (h x) = ord x"
  shows "latest_by ord (map h xs) = map_option h (latest_by ord xs)"
proof (cases "xs = []")
  case False
  then have "sort_key ord xs \<noteq> []" by (metis length_0_conv length_sort)
  with False show ?thesis by (simp add: latest_by_def sort_key_map [of ord h, OF assms] last_map)
qed (simp add: latest_by_def)

text \<open>The generations after an update: only the counters of the updated one are written.\<close>

definition counted :: "int \<Rightarrow> int \<Rightarrow> int \<Rightarrow> int \<Rightarrow> generation_row \<Rightarrow> generation_row" where
  "counted g a b c x =
     (if gen_generation_id x = g
      then x\<lparr>gen_findings_observed := a, gen_detectors_run := b, gen_findings_suppressed := c\<rparr> else x)"

lemma update_generations:
  assumes "update_warning_state_with_origin_mode env g fs esc active origin db = Inr db'"
  obtains a b c where "0 \<le> a" "0 \<le> b" "0 \<le> c" "db_generations db' = map (counted g a b c) (db_generations db)"
proof -
  let ?all = "fs @ validate_coverage_composition (le_hash_order env) db fs"
  from assms obtain i where i: "update_warning_state_inner (le_now env) g ?all esc origin db = Inr i"
    and db': "db' = apply_maintenance_overlay (le_overlay_now env) (apply_declaration_overlay g active i)"
    by (auto simp: update_warning_state_with_origin_mode_def Let_def res_bind_Inr_iff split: if_splits)
  from i obtain r where rec: "try_fold (record_finding (retired_source_map db) g (le_now env) esc origin) ?all db = Inr r"
    and i': "i = (let stable = fold (set_stability g) ?all r;
         aged = stable\<lparr>db_warning_state := age_missing g ?all (db_warning_state stable)\<rparr>;
         expired = expire_work_states (le_now env) aged;
         collected = expired\<lparr>db_warning_state := collect_entities expired (db_warning_state expired)\<rparr>
       in record_lineage g ?all collected)"
    by (auto simp: update_warning_state_inner_def res_bind_Inr_iff Let_def)
  obtain rows where st: "fold (set_stability g) ?all r = r\<lparr>db_warning_state := rows\<rparr>" using stabilise_frame by blast
  define u where "u = expire_work_states (le_now env) ((r\<lparr>db_warning_state := age_missing g ?all rows\<rparr>))"
  let ?n = "int (length ?all)" and ?k = "int (length (remdups (map fd_kind ?all)))"
    and ?s = "int (length (filter (\<lambda>w. ws_visibility_state w = ''suppressed'') (collect_entities u (db_warning_state u))))"
  have "db_generations u = db_generations db" by (simp add: u_def expire_work_states_def record_all_frame [OF rec])
  moreover have "i = record_lineage g ?all (u\<lparr>db_warning_state := collect_entities u (db_warning_state u)\<rparr>)"
    unfolding i' Let_def st u_def by simp
  ultimately have "db_generations i = map (counted g ?n ?k ?s) (db_generations db)"
    by (simp add: record_lineage_def update_where_def counted_def [abs_def])
  then have "db_generations db' = map (counted g ?n ?k ?s) (db_generations db)"
    by (simp add: db' apply_maintenance_overlay_def apply_declaration_overlay_def)
  then show thesis by (rule that [rotated 3]) simp_all
qed

text \<open>The newest generation a pass leaves is the newest it found, counted and sealed.\<close>

lemma pass_newest:
  assumes "update_warning_state_with_origin_mode env g fs esc active origin db = Inr db'"
    and "latest_by gen_generation_id (db_generations db) = Some n"
  obtains n' where "latest_by gen_generation_id (db_generations (snd (seal_generation g db'))) = Some n'"
    "gen_generation_id n' = gen_generation_id n" "gen_completed_at n' = gen_completed_at n" "gen_status n' = gen_status n"
    "gen_sources_expected n' = gen_sources_expected n" "gen_sources_ok n' = gen_sources_ok n"
    "gen_sources_failed n' = gen_sources_failed n"
    "gen_generation_id n = g \<Longrightarrow> gen_summary_hash n' \<noteq> None \<and> 0 \<le> gen_findings_observed n' \<and> 0 \<le> gen_detectors_run n'
       \<and> 0 \<le> gen_findings_suppressed n'"
proof -
  obtain a b c where n: "0 \<le> a" "0 \<le> b" "0 \<le> c" and db': "db_generations db' = map (counted g a b c) (db_generations db)"
    using update_generations [OF assms(1)] by blast
  define h :: "generation_row \<Rightarrow> generation_row" where "h = (\<lambda>x. if gen_generation_id x = g then x\<lparr>gen_summary_hash := Some (generation_digest db' g)\<rparr> else x)"
  have "db_generations (snd (seal_generation g db')) = map h (map (counted g a b c) (db_generations db))"
    by (simp add: seal_generation_def Let_def db' update_where_def h_def)
  moreover have "gen_generation_id (h (counted g a b c x)) = gen_generation_id x" for x
    by (simp add: h_def counted_def)
  ultimately have "latest_by gen_generation_id (db_generations (snd (seal_generation g db'))) = Some (h (counted g a b c n))"
    using assms(2) by (simp add: latest_by_map o_def)
  then show thesis by (rule that) (use n in \<open>simp_all add: h_def counted_def\<close>)
qed

text \<open>A pass whose update succeeds.\<close>

lemma pass_ok:
  assumes "update_warning_state_with_declarations env g (fs @ run_hygiene ext hygiene_now db outcome) esc
      (active_declarations ext decl_now outcome) db = Inr db'"
  shows "lifecycle_pass ext env decl_now hygiene_now outcome (Inr fs) esc g db = snd (seal_generation g db')"
  by (simp add: lifecycle_pass_def assms)

lemma pass_rows:
  "db_warning_state (snd (seal_generation g db)) = db_warning_state db"
  "db_finding_observations (snd (seal_generation g db)) = db_finding_observations db"
  by (simp_all add: seal_generation_def Let_def)

lemma report_refuses:
  assumes "rfc3339_bounded ext" and "distinct (map ws_key (db_warning_state db))"
    and "execute_report_inquiry ext from_str (connection_of db) resolved plan = Inr receipt"
    and "rfc3339_parse ext (plan_as_of plan) = Inr as_of" and "prof_selector (res_profile resolved) = Some sel"
    and "\<And>lim age. \<not> operationally_active ext db sel lim as_of age"
  shows "rc_status receipt = Refused \<and> rc_disposition receipt = CannotTestify"
proof -
  from assms(3) obtain request where "admit ext plan resolved = Inr request"
    "prof_question_kind (res_profile resolved) = FindingOperationalActivity" by (auto simp: report_ok)
  from report_profile [OF this] obtain lim age where "prof_evidence_limit (res_profile resolved) = Some lim"
    "prof_max_snapshot_age_seconds (res_profile resolved) = Some age" by metis
  from report_answers [OF assms(1-5) this] assms(6) show ?thesis by simp
qed

text \<open>The evidence of a finding the update recorded, in a generation that had none before.\<close>

lemma recorded_observation:
  assumes "update_warning_state_with_origin_mode env g fs esc active origin db = Inr db'"
    and "f \<in> set fs" and "\<forall>r \<in> set (db_finding_observations db). obs_generation_id r \<noteq> g"
  shows "\<exists>i severity. observation_of i g (le_now env) severity f \<in> set (db_finding_observations db')"
    and "r \<in> set (db_finding_observations db') \<Longrightarrow> obs_generation_id r = g
      \<Longrightarrow> (obs_host r, obs_detector_id r, obs_subject r) = fd_key f
      \<Longrightarrow> \<exists>i severity. r = observation_of i g (le_now env) severity f"
    and "r \<in> set (db_finding_observations db') \<Longrightarrow> r \<in> set (db_finding_observations db) \<or> obs_observed_at r = le_now env"
proof -
  define all where "all = fs @ validate_coverage_composition (le_hash_order env) db fs"
  have d: "distinct (map fd_key all)"
    using assms(1,2) update_ok [of env g fs esc active origin db] unfolding Let_def all_def by auto
  from update_tables(3) [OF assms(1) all_def] obtain rows where
    rows: "db_finding_observations db' = db_finding_observations db @ rows"
    and each: "list_all2 (\<lambda>r f. \<exists>i severity. r = observation_of i g (le_now env) severity f) rows all" by blast
  have new: "\<exists>x \<in> set all. \<exists>i severity. r = observation_of i g (le_now env) severity x" if "r \<in> set rows" for r
    using each that by (auto simp: list_all2_conv_all_nth in_set_conv_nth) (metis nth_mem)
  have "f \<in> set all" using assms(2) by (simp add: all_def)
  then have "\<exists>r \<in> set rows. \<exists>i severity. r = observation_of i g (le_now env) severity f"
    using each by (auto simp: list_all2_conv_all_nth in_set_conv_nth) (metis nth_mem)
  then show "\<exists>i severity. observation_of i g (le_now env) severity f \<in> set (db_finding_observations db')"
    unfolding rows by auto
  show "\<exists>i severity. r = observation_of i g (le_now env) severity f"
    if r: "r \<in> set (db_finding_observations db')" "obs_generation_id r = g" "(obs_host r, obs_detector_id r, obs_subject r) = fd_key f"
  proof -
    from r(1,2) assms(3) have "r \<in> set rows" unfolding rows by auto
    then obtain x i severity where x: "x \<in> set all" "r = observation_of i g (le_now env) severity x" using new by blast
    with r(3) have "fd_key x = fd_key f" by (simp add: observation_of_def fd_key_def)
    with d x(1) \<open>f \<in> set all\<close> have "x = f" by (auto simp: distinct_map inj_on_def)
    with x(2) show ?thesis by blast
  qed
  show "r \<in> set (db_finding_observations db) \<or> obs_observed_at r = le_now env" if "r \<in> set (db_finding_observations db')"
  proof (cases "r \<in> set rows")
    case True
    then obtain x i severity where "r = observation_of i g (le_now env) severity x" using new by blast
    then show ?thesis by (simp add: observation_of_def)
  qed (use that rows in simp)
qed

lemma hd_newest:
  assumes "r \<in> set rows" "P r" "0 < n" "\<And>x. x \<in> set rows \<Longrightarrow> P x \<Longrightarrow> obs_generation_id x \<le> obs_generation_id r"
  obtains x where "x \<in> set rows" "P x" "obs_generation_id x = obs_generation_id r"
    "hd (take n (map receipt_of (sort_key (\<lambda>r. (- obs_generation_id r, - obs_observation_id r)) (filter P rows)))) = receipt_of x"
    "take n (map receipt_of (sort_key (\<lambda>r. (- obs_generation_id r, - obs_observation_id r)) (filter P rows))) \<noteq> []"
proof -
  let ?ord = "\<lambda>r. (- obs_generation_id r, - obs_observation_id r)"
  let ?s = "sort_key ?ord (filter P rows)"
  have r: "r \<in> set ?s" using assms(1,2) by simp
  then obtain x xs where s: "?s = x # xs" by (cases ?s) auto
  then have x: "x \<in> set rows" "P x" using set_sort [of ?ord "filter P rows"] by auto
  have "sorted (map ?ord ?s)" by simp
  then have "?ord x \<le> ?ord r" using r unfolding s by auto
  then have "obs_generation_id r \<le> obs_generation_id x" by (auto simp: less_eq_prod_def)
  moreover have "obs_generation_id x \<le> obs_generation_id r" using assms(4) x by simp
  ultimately show thesis using that [OF x] assms(3) by (simp add: s take_Cons')
qed

text \<open>
  A \<open>latest\<close> inquiry about a finding the pass has just recorded is refused. It asks as of the
  generation's completion time, the batch was completed before the lifecycle update read its
  clock, and the row the update wrote is therefore newer than the question.
\<close>

theorem latest_refuses_fresh_finding:
  assumes "rfc3339_bounded ext" and "store_inv db" and "f \<in> set fs" and "reporting db (fd_host f)"
    and "is_ok (update_warning_state_with_declarations env g (fs @ run_hygiene ext hygiene_now db outcome) esc
      (active_declarations ext decl_now outcome) db)"
    and "latest_by gen_generation_id (db_generations db) = Some n"
    and "rfc3339_parse ext (gen_completed_at n) = Inr completed" and "rfc3339_parse ext (le_now env) = Inr now"
    and "completed < now" and "prof_selector (res_profile resolved) = Some sel" and "sel_key sel = fd_key f"
    and "execute_latest_report_inquiry ext from_str
      (connection_of (lifecycle_pass ext env decl_now hygiene_now outcome (Inr fs) esc g db)) resolved resolve_plan = Inr receipt"
  shows "rc_status receipt = Refused \<and> rc_disposition receipt = CannotTestify"
proof -
  from assms(5) obtain db' where u: "update_warning_state_with_declarations env g (fs @ run_hygiene ext hygiene_now db outcome) esc
      (active_declarations ext decl_now outcome) db = Inr db'" by (auto simp: is_ok_iff)
  note u' = u [unfolded update_warning_state_with_declarations_def]
  define p where "p = snd (seal_generation g db')"
  have pass: "lifecycle_pass ext env decl_now hygiene_now outcome (Inr fs) esc g db = p" by (simp add: pass_ok [OF u] p_def)
  have d: "distinct (map ws_key (db_warning_state db))" using assms(2) by (simp add: store_inv_def)
  have d': "distinct (map ws_key (db_warning_state p))"
    using lifecycle_inv [OF assms(2) u'] by (simp add: p_def pass_rows store_inv_def)
  obtain n' where n': "latest_by gen_generation_id (db_generations p) = Some n'" "gen_completed_at n' = gen_completed_at n"
    using pass_newest [OF u' assms(6)] unfolding p_def by metis
  from assms(12) [unfolded pass latest_explicit] n' obtain plan where
    plan: "plan_as_of plan = gen_completed_at n" "execute_report_inquiry ext from_str (connection_of p) resolved plan = Inr receipt"
    by auto
  obtain w where w: "row_at ws_key (fd_key f) (db_warning_state p) = Some w" "ws_last_seen_at w = le_now env"
    using emitted_row [OF d u', of f] assms(3,4) by (auto simp: p_def pass_rows finished_def upserted_fields)
  show ?thesis
  proof (rule report_refuses [OF assms(1) d' plan(2) _ assms(10)])
    show "rfc3339_parse ext (plan_as_of plan) = Inr completed" using assms(7) plan(1) by simp
    show "\<not> operationally_active ext p sel lim completed age" for lim age
      using w assms(8,9,11) by (simp add: operationally_active_def active_row_def timely_at_def)
  qed
qed

section \<open>A report on the pass\<close>

text \<open>The newest generation holds what the pass published, and nothing was observed in it yet.\<close>

definition just_published :: "database \<Rightarrow> int \<Rightarrow> generation_row \<Rightarrow> bool" where
  "just_published db g n \<longleftrightarrow>
     latest_by gen_generation_id (db_generations db) = Some n \<and> gen_generation_id n = g \<and> gen_status n = ''complete''
     \<and> 0 \<le> gen_sources_ok n \<and> gen_sources_ok n = gen_sources_expected n \<and> gen_sources_failed n = 0
     \<and> (\<forall>r \<in> set (db_finding_observations db). obs_generation_id r \<noteq> g)"

text \<open>A stored observation of a finding.\<close>

definition observes :: "observation_row \<Rightarrow> Finding \<Rightarrow> bool" where
  "observes r f \<longleftrightarrow> (obs_host r, obs_detector_id r, obs_subject r) = fd_key f"

text \<open>
  A row that \<open>nq\<close> has observed itself, or whose producer extracted it within the horizon. The
  upsert of a pass keeps the origin of the row it finds.
\<close>

definition origin_current :: "externals \<Rightarrow> int \<Rightarrow> u64 \<Rightarrow> warning_state_row \<Rightarrow> bool" where
  "origin_current ext as_of age w \<longleftrightarrow>
     ws_origin_source w = ''nq''
     \<or> ws_origin_source w = ''import''
       \<and> (\<exists>p e t. ws_origin_producer_id w = Some p \<and> p \<noteq> [] \<and> ws_origin_extraction_run_id w = Some e \<and> e \<noteq> []
            \<and> ws_origin_producer_extraction_time w = Some t \<and> fresh_at ext as_of age t
            \<and> ws_origin_import_contract_version w \<noteq> None)"

definition origin_envelope :: "warning_state_row \<Rightarrow> string \<times> string option \<times> string option \<times> string option \<times> int option" where
  "origin_envelope w =
     (ws_origin_source w, ws_origin_producer_id w, ws_origin_extraction_run_id w,
      ws_origin_producer_extraction_time w, ws_origin_import_contract_version w)"

lemma origin_current_cong:
  "origin_envelope v = origin_envelope w \<Longrightarrow> origin_current ext as_of age v \<longleftrightarrow> origin_current ext as_of age w"
  by (simp add: origin_envelope_def origin_current_def)

lemma origin_kept:
  "origin_envelope (maintain_row ms now w) = origin_envelope w" "origin_envelope (expired now w) = origin_envelope w"
  "origin_envelope (declared g active w) = origin_envelope w"
  "origin_envelope (w\<lparr>ws_entity_gone_gens := n\<rparr>) = origin_envelope w" "origin_envelope (w\<lparr>ws_stability := s\<rparr>) = origin_envelope w"
proof -
  let ?f = "\<lambda>d w. if ws_host w = dl_subject_id d then declare_row g d w else w"
  have "origin_envelope (fold ?f ds w) = origin_envelope w" for ds w
    by (induction ds arbitrary: w) (simp_all add: declare_row_def origin_envelope_def)
  then show "origin_envelope (declared g active w) = origin_envelope w"
    by (simp add: declared_def clear_suppression_def) (simp add: origin_envelope_def)
qed (simp_all add: origin_envelope_def maintain_row_def expired_def reset_work_state_def split: option.split)

lemma upserted_origin:
  "origin_current ext as_of age (upserted r g now esc origin f prev) \<longleftrightarrow>
     (\<forall>v. prev = Some v \<longrightarrow> origin_current ext as_of age v)"
proof (cases prev)
  case (Some v)
  then have "origin_envelope (upserted r g now esc origin f prev) = origin_envelope v"
    by (simp add: upserted_def updated_row_def origin_envelope_def split: prod.split)
  from origin_current_cong [OF this] Some show ?thesis by simp
qed (simp add: upserted_fields origin_current_def)

lemma pass_evidence:
  assumes "update_warning_state_with_origin_mode env g fs esc active origin db = Inr db'"
    and "f \<in> set fs" and "\<forall>r \<in> set (db_finding_observations db). obs_generation_id r \<noteq> g"
    and "sel_key sel = fd_key f" and "0 < lim"
  obtains i severity where
    "evidence_of db' sel lim g \<noteq> []" "hd (evidence_of db' sel lim g) = receipt_of (observation_of i g (le_now env) severity f)"
    "\<forall>e \<in> set (evidence_of db' sel lim g). ev_observed_at e = le_now env
       \<or> (\<exists>r \<in> set (db_finding_observations db). observes r f \<and> ev_observed_at e = obs_observed_at r)"
proof -
  let ?P = "\<lambda>r. obs_scope r = ''local'' \<and> obs_host r = sel_host sel \<and> obs_detector_id r = sel_kind sel
            \<and> obs_subject r = sel_subject sel \<and> obs_generation_id r \<le> g"
  note rec = recorded_observation [OF assms(1-3)]
  obtain i severity where o: "observation_of i g (le_now env) severity f \<in> set (db_finding_observations db')" (is "?o \<in> _")
    using rec(1) by blast
  have P: "?P ?o" using assms(4) by (simp add: observation_of_def sel_key_def fd_key_def)
  have g: "obs_generation_id ?o = g" by (simp add: observation_of_def)
  have lim: "0 < unat lim" using assms(5) by (simp add: word_less_nat_alt)
  have "\<exists>x. x \<in> set (db_finding_observations db') \<and> ?P x \<and> obs_generation_id x = g
      \<and> hd (evidence_of db' sel lim g) = receipt_of x \<and> evidence_of db' sel lim g \<noteq> []"
    unfolding evidence_of_def matching_receipts_def
    by (rule hd_newest [OF o, of ?P, OF P lim], unfold g) blast+
  then obtain x where x: "x \<in> set (db_finding_observations db')" "?P x" "obs_generation_id x = g"
    "hd (evidence_of db' sel lim g) = receipt_of x" and ne: "evidence_of db' sel lim g \<noteq> []" by blast
  have "(obs_host x, obs_detector_id x, obs_subject x) = fd_key f" using x(2) assms(4) by (simp add: sel_key_def)
  then obtain j s where "x = observation_of j g (le_now env) s f" using rec(2) [OF x(1,3)] by blast
  moreover have "\<forall>e \<in> set (evidence_of db' sel lim g). ev_observed_at e = le_now env
       \<or> (\<exists>r \<in> set (db_finding_observations db). observes r f \<and> ev_observed_at e = obs_observed_at r)"
    using rec(3) unfolding observes_def assms(4) [symmetric]
    by (fastforce simp: evidence_of_def matching_receipts_def receipt_of_def sel_key_def dest!: in_set_takeD)
  ultimately show thesis using that [OF ne] x(4) by blast
qed

lemma recorded_active_row:
  assumes "store_inv db" and "update_warning_state_with_origin_mode env g fs esc active DEFAULT_ORIGIN_MODE db = Inr db'"
    and "f \<in> set fs" and "reporting db (fd_host f)" and "not_withdrawn active (fd_host f)"
    and "fd_basis_source_id f = Some source" and "retired_source_map db source = None"
    and "timely_at ext as_of (le_now env)"
  obtains w where "row_at ws_key (fd_key f) (db_warning_state db') = Some w"
    "active_row ext as_of age g w \<longleftrightarrow>
       (\<forall>v. row_at ws_key (fd_key f) (db_warning_state db) = Some v \<longrightarrow> origin_current ext as_of age v)"
    "ws_last_seen_at w = le_now env" "ws_basis_source_id w = fd_basis_source_id f" "ws_basis_witness_id w = fd_basis_witness_id f"
proof -
  have d: "distinct (map ws_key (db_warning_state db))" using assms(1) by (simp add: store_inv_def)
  define v where "v = upserted (retired_source_map db) g (le_now env) esc DEFAULT_ORIGIN_MODE f (row_at ws_key (fd_key f) (db_warning_state db))"
  define w where "w = finished env g active db (v\<lparr>ws_stability := Some (presence g (insert g (seen_gens db (fd_key f))) (ws_consecutive_gens v))\<rparr>)"
  have row: "row_at ws_key (fd_key f) (db_warning_state db') = Some w"
    using emitted_row [OF d assms(2-4)] by (simp add: w_def v_def)
  have "w \<in> set (db_warning_state db')" "ws_key w = fd_key f" using row_at_some [OF row] by simp_all
  then have count: "1 \<le> ws_consecutive_gens w" and host: "ws_host w = fd_host f"
    using lifecycle_inv [OF assms(1,2)] unfolding store_inv_def row_inv_def by (blast, simp add: ws_key_def fd_key_def)
  have visible: "ws_visibility_state w = ''observed''"
    using host assms(5) declared_visible by (simp add: w_def finished_def v_def upserted_fields)
  have "origin_envelope w = origin_envelope v" by (simp add: w_def finished_def origin_kept)
  then have origin: "origin_current ext as_of age w \<longleftrightarrow>
      (\<forall>v. row_at ws_key (fd_key f) (db_warning_state db) = Some v \<longrightarrow> origin_current ext as_of age v)"
    using origin_current_cong upserted_origin unfolding v_def by metis
  have rest: "ws_last_seen_at w = le_now env" "ws_last_seen_gen w = g" "ws_absent_gens w = 0" "ws_origin_mode w = ''observed''"
    "ws_basis_source_id w = fd_basis_source_id f" "ws_basis_witness_id w = fd_basis_witness_id f"
    "ws_basis_state w = ''live''" "ws_last_basis_generation w = Some g" "ws_basis_state_at w = Some (le_now env)"
    by (simp_all add: w_def finished_def v_def upserted_fields basis_of_def DEFAULT_ORIGIN_MODE_def assms(6,7))
  have "active_row ext as_of age g w \<longleftrightarrow> origin_current ext as_of age w"
    unfolding active_row_def origin_current_def [symmetric] using count visible assms(6,8) by (simp add: rest)
  with row rest origin show thesis by (intro that) simp_all
qed

text \<open>
  C5: a finding that a pass records is answered for. Suppose the published generation is complete
  and within the horizon, nothing was observed in it before, the host of the finding reports and
  is not withdrawn, its source is not retired, and the inquiry asks as of a time no earlier than
  the pass and than every stored observation of the finding. Then the report on the store the
  pass leaves is \<open>operationally active\<close> exactly when the row of the finding is new, was observed by
  \<open>nq\<close> itself, or was imported from a producer whose extraction is complete and within the
  horizon. Otherwise it is refused: the pass does not make an imported row its own.
\<close>

theorem recorded_finding_answers:
  assumes "rfc3339_bounded ext" and "store_inv db" and "just_published db g n"
    and "f \<in> set fs" and "reporting db (fd_host f)" and "not_withdrawn (active_declarations ext decl_now outcome) (fd_host f)"
    and "fd_basis_source_id f = Some source" and "retired_source_map db source = None"
    and "is_ok (update_warning_state_with_declarations env g (fs @ run_hygiene ext hygiene_now db outcome) esc
      (active_declarations ext decl_now outcome) db)"
    and "execute_report_inquiry ext from_str
      (connection_of (lifecycle_pass ext env decl_now hygiene_now outcome (Inr fs) esc g db)) resolved plan = Inr receipt"
    and "rfc3339_parse ext (plan_as_of plan) = Inr as_of" and "timely_at ext as_of (le_now env)"
    and "\<forall>r \<in> set (db_finding_observations db). observes r f \<longrightarrow> timely_at ext as_of (obs_observed_at r)"
    and "prof_max_snapshot_age_seconds (res_profile resolved) = Some age" and "fresh_at ext as_of age (gen_completed_at n)"
    and "prof_selector (res_profile resolved) = Some sel" and "sel_key sel = fd_key f"
  shows "if \<forall>v. row_at ws_key (fd_key f) (db_warning_state db) = Some v \<longrightarrow> origin_current ext as_of age v
    then rc_status receipt = Answered \<and> rc_disposition receipt = OperationallyActive
    else rc_status receipt = Refused \<and> rc_disposition receipt = CannotTestify"
proof -
  define active where "active = active_declarations ext decl_now outcome"
  from assms(9) obtain db' where u: "update_warning_state_with_declarations env g (fs @ run_hygiene ext hygiene_now db outcome) esc
      (active_declarations ext decl_now outcome) db = Inr db'" by (auto simp: is_ok_iff)
  note u' = u [unfolded update_warning_state_with_declarations_def, folded active_def]
  define p where "p = snd (seal_generation g db')"
  have pass: "lifecycle_pass ext env decl_now hygiene_now outcome (Inr fs) esc g db = p" by (simp add: pass_ok [OF u] p_def)
  have d: "distinct (map ws_key (db_warning_state db))" using assms(2) by (simp add: store_inv_def)
  have inv': "store_inv db'" by (rule lifecycle_inv [OF assms(2) u'])
  then have d': "distinct (map ws_key (db_warning_state p))" by (simp add: p_def pass_rows store_inv_def)
  from assms(10) obtain request where "admit ext plan resolved = Inr request"
    "prof_question_kind (res_profile resolved) = FindingOperationalActivity" by (auto simp: report_ok)
  from report_profile [OF this] obtain lim where lim: "prof_evidence_limit (res_profile resolved) = Some lim" "0 < lim" by metis
  note pub = assms(3) [unfolded just_published_def]
  obtain n' where n': "latest_by gen_generation_id (db_generations p) = Some n'" "gen_generation_id n' = g"
    "sound_generation ext as_of age n'"
    using pass_newest [OF u', of n] pub assms(15) unfolding p_def sound_generation_def by metis
  have f: "f \<in> set (fs @ run_hygiene ext hygiene_now db outcome)" using assms(4) by simp
  obtain w where w: "row_at ws_key (fd_key f) (db_warning_state p) = Some w" "active_row ext as_of age g w \<longleftrightarrow>
      (\<forall>v. row_at ws_key (fd_key f) (db_warning_state db) = Some v \<longrightarrow> origin_current ext as_of age v)"
    and basis: "ws_last_seen_at w = le_now env" "ws_basis_source_id w = fd_basis_source_id f"
      "ws_basis_witness_id w = fd_basis_witness_id f"
    using recorded_active_row [OF assms(2) u' f assms(5) _ assms(7,8,12)] assms(6) unfolding p_def pass_rows active_def by metis
  have "attested ext as_of g w (evidence_of p sel lim g)"
  proof -
    have same: "evidence_of p sel lim g = evidence_of db' sel lim g" by (simp add: evidence_of_def p_def pass_rows)
    have fresh: "\<forall>r \<in> set (db_finding_observations db). obs_generation_id r \<noteq> g" using pub by blast
    obtain i severity where "evidence_of db' sel lim g \<noteq> []"
      "hd (evidence_of db' sel lim g) = receipt_of (observation_of i g (le_now env) severity f)"
      and times: "\<forall>e \<in> set (evidence_of db' sel lim g). ev_observed_at e = le_now env
       \<or> (\<exists>r \<in> set (db_finding_observations db). observes r f \<and> ev_observed_at e = obs_observed_at r)"
      by (rule pass_evidence [OF u' f fresh assms(17) lim(2)])
    moreover have "\<forall>e \<in> set (evidence_of db' sel lim g). timely_at ext as_of (ev_observed_at e)"
      using times assms(12,13) by metis
    ultimately show ?thesis
      unfolding attested_def same by (simp add: receipt_of_def observation_of_def basis)
  qed
  then have "operationally_active ext p sel lim as_of age \<longleftrightarrow> active_row ext as_of age g w"
    unfolding operationally_active_def assms(17) using n' w(1) by auto
  with report_answers [OF assms(1) d' assms(10) [unfolded pass] assms(11,16) lim(1) assms(14)] w(2) show ?thesis
    by (simp only:) metis
qed

section \<open>A pass keeps the store readable\<close>

definition row_readable :: "externals \<Rightarrow> warning_state_row \<Rightarrow> bool" where
  "row_readable ext w \<longleftrightarrow> parses ext (Some (ws_last_seen_at w)) \<and> parses ext (ws_basis_state_at w)
     \<and> parses ext (ws_origin_producer_extraction_time w)"

lemma upserted_readable:
  assumes "parses ext (Some now)" "\<And>s. parses ext (r s)" "\<And>w. prev = Some w \<Longrightarrow> row_readable ext w"
  shows "row_readable ext (upserted r g now esc origin f prev)"
proof -
  have "parses ext (snd (snd (basis_of r g now s)))" for s
    using assms(1,2) by (auto simp: basis_of_def parses_def split: option.split)
  moreover have "ws_origin_producer_extraction_time (upserted r g now esc origin f prev) =
      (case prev of None \<Rightarrow> None | Some v \<Rightarrow> ws_origin_producer_extraction_time v)"
    by (simp add: upserted_def inserted_row_def updated_row_def split: option.split prod.split)
  ultimately show ?thesis
    using assms(1,3) by (cases prev) (simp_all add: row_readable_def upserted_fields, simp add: parses_def)
qed

lemma next_row_readable:
  assumes "next_row env g fs esc active origin db k = Some w'" and "parses ext (Some (le_now env))"
    and "\<And>s. parses ext (retired_source_map db s)"
    and "\<And>w. row_at ws_key k (db_warning_state db) = Some w \<Longrightarrow> row_readable ext w"
  shows "row_readable ext w'"
proof -
  from assms(1) obtain w c where w: "(case find (\<lambda>f. fd_key f = k) fs of
          Some f \<Rightarrow> Some (emitted (le_now env) g fs esc origin db k f)
        | None \<Rightarrow> Option.bind (row_at ws_key k (db_warning_state db)) (aged (masked_by (db_warning_state db) fs) g)) = Some w"
    and c: "collected db (expired (le_now env) w) = Some c"
    and w': "w' = maintain_row (db_maintenance_declarations db) (le_overlay_now env) (declared g active c)"
    unfolding next_row_def bind_eq_Some_conv map_option_eq_Some by metis
  have "row_readable ext w"
  proof (cases "find (\<lambda>f. fd_key f = k) fs")
    case None
    with w obtain v where "row_at ws_key k (db_warning_state db) = Some v"
      "aged (masked_by (db_warning_state db) fs) g v = Some w" by (auto simp: bind_eq_Some_conv)
    with assms(4) show ?thesis
      by (auto simp: row_readable_def aged_def suppress_row_def inc_absent_row_def split: option.splits if_splits)
  next
    case (Some f)
    with w show ?thesis using upserted_readable [OF assms(2-4)] by (auto simp: emitted_def Let_def row_readable_def)
  qed
  with c show ?thesis by (auto simp: w' row_readable_def collected_def split: if_splits)
qed

lemma readable_rows:
  "readable ext from_str db \<Longrightarrow> w \<in> set (db_warning_state db) \<Longrightarrow> row_readable ext w"
  by (simp add: readable_def row_readable_def)

lemma pass_keeps_readable:
  assumes "readable ext from_str db" and "distinct (map ws_key (db_warning_state db))"
    and "update_warning_state_with_origin_mode env g fs esc active origin db = Inr db'"
    and "parses ext (Some (le_now env))" and "\<And>s. parses ext (retired_source_map db s)"
  shows "readable ext from_str (snd (seal_generation g db'))"
proof -
  obtain a b c where gens: "db_generations db' = map (counted g a b c) (db_generations db)"
    using update_generations [OF assms(3)] by blast
  have "row_readable ext w" if "w \<in> set (db_warning_state db')" for w
  proof (rule next_row_readable [OF _ assms(4,5)])
    show "next_row env g (fs @ validate_coverage_composition (le_hash_order env) db fs) esc active origin db (ws_key w) = Some w"
      using update_rows [OF assms(2,3)] row_at_mem [of ws_key "db_warning_state db'" w] that by metis
    show "row_readable ext v" if "row_at ws_key (ws_key w) (db_warning_state db) = Some v" for v
      using row_at_some [OF that] readable_rows [OF assms(1)] by blast
  qed
  moreover obtain rows where "db_finding_observations db' = db_finding_observations db @ rows"
    "list_all2 (\<lambda>r f. \<exists>i severity. r = observation_of i g (le_now env) severity f) rows
       (fs @ validate_coverage_composition (le_hash_order env) db fs)"
    using update_tables(3) [OF assms(3) refl] by blast
  moreover have "obs_observed_at r = le_now env" if "r \<in> set rows" for r
    using calculation(3) that by (fastforce simp: list_all2_conv_all_nth in_set_conv_nth observation_of_def)
  ultimately show ?thesis
    using assms(1,4) unfolding readable_def row_readable_def pass_rows
    by (auto simp: seal_generation_def Let_def gens update_where_def counted_def)
qed

section \<open>A declarations file that stops the lifecycle\<close>

lemma load_loop_invalid:
  "load_loop ext ds (seen, valid, invalid) = (seen', valid', invalid') \<Longrightarrow>
     count_list (map iv_declaration_id invalid) (Some i)
       + (count_list (map dl_declaration_id ds) i - (if i \<in> set seen then 0 else 1))
     \<le> count_list (map iv_declaration_id invalid') (Some i)"
proof (induction ds arbitrary: seen valid invalid)
  case (Cons d ds)
  define k where "k = dl_declaration_id d"
  show ?case
  proof (cases "k \<in> set seen")
    case True
    with Cons.prems have "load_loop ext ds (seen, valid, invalid @ [\<lparr>iv_declaration_id = Some k, iv_reason = ''duplicate declaration_id''\<rparr>])
        = (seen', valid', invalid')" by (simp add: k_def)
    from Cons.IH [OF this] True show ?thesis by (auto simp: k_def)
  next
    case False
    with Cons.prems obtain vs bad where "load_loop ext ds (k # seen, vs, invalid @ bad) = (seen', valid', invalid')"
      by (cases "Declaration_validate ext d") (auto simp: k_def intro: that [of _ "[]"])
    from Cons.IH [OF this] False show ?thesis by (auto simp: k_def)
  qed
qed simp

lemma distinct_occurs: "distinct xs \<Longrightarrow> count_list xs x \<le> 1"
  by (induction xs) auto

lemma update_repeated:
  assumes "\<not> distinct (map fd_key fs)"
  shows "\<exists>e. update_warning_state_with_declarations env g fs esc active db = Inl e"
proof -
  have "\<not> distinct (map fd_key (fs @ validate_coverage_composition (le_hash_order env) db fs))"
    "fs @ validate_coverage_composition (le_hash_order env) db fs \<noteq> []" using assms by auto
  then have "\<nexists>db'. update_warning_state_with_origin_mode env g fs esc active DEFAULT_ORIGIN_MODE db = Inr db'"
    unfolding update_ok Let_def by blast
  then show ?thesis
    unfolding update_warning_state_with_declarations_def
    by (cases "update_warning_state_with_origin_mode env g fs esc active DEFAULT_ORIGIN_MODE db") auto
qed

lemma hygiene_repeats:
  assumes "2 \<le> count_list (map iv_declaration_id invalid) (Some i)"
  shows "\<not> distinct (map fd_key (fs @ run_hygiene ext now db (Loaded valid invalid)))"
proof -
  have key: "fd_key (unreadable_finding subject reason) = fd_key (unreadable_finding subject [])" for subject reason
    by (simp add: fd_key_def unreadable_finding_def meta_finding_def)
  let ?h = "\<lambda>v. fd_key (unreadable_finding (case v of None \<Rightarrow> ''<unidentified>'' | Some i \<Rightarrow> i) [])"
  have "map fd_key (map (\<lambda>iv. unreadable_finding (case iv_declaration_id iv of None \<Rightarrow> ''<unidentified>'' | Some i \<Rightarrow> i)
      (''invalid declaration: '' @ iv_reason iv)) invalid) = map ?h (map iv_declaration_id invalid)"
    unfolding map_map o_def by (intro map_cong refl key)
  then have r: "map fd_key (run_hygiene ext now db (Loaded valid invalid)) = map ?h (map iv_declaration_id invalid)
      @ map fd_key (concat (map (declaration_findings ext now db) valid))"
    unfolding run_hygiene_def LoadOutcome.case map_append by (rule arg_cong)
  have "2 \<le> count_list (map ?h (map iv_declaration_id invalid)) (?h (Some i))"
    using count_list_map_ge [of "map iv_declaration_id invalid" "Some i" ?h] assms by simp
  then have "\<not> distinct (map ?h (map iv_declaration_id invalid))" using distinct_occurs [of _ "?h (Some i)"] by fastforce
  then show ?thesis using r by simp
qed

text \<open>
  C33: a declarations file that names one declaration three times stops the lifecycle. Each
  repetition is reported as a hygiene finding of the same key, the second violates the evidence
  table's unique constraint, the update is rolled back and the pass only seals: no finding of any
  host is recorded, aged or recovered.
\<close>

theorem repeated_declaration_stalls:
  assumes "read_file path = ReadBytes bytes" and "from_slice bytes = Inr ds"
    and "3 \<le> count_list (map dl_declaration_id ds) i"
  shows "lifecycle_pass ext env decl_now hygiene_now (load_declarations ext read_file from_slice (Some path)) (Inr fs) esc g db
    = snd (seal_generation g db)"
proof -
  obtain seen valid invalid where l: "load_loop ext ds ([], [], []) = (seen, valid, invalid)" by (rule prod_cases3)
  have "2 \<le> count_list (map iv_declaration_id invalid) (Some i)"
    using load_loop_invalid [OF l, of i] assms(3) by simp
  then obtain e where "update_warning_state_with_declarations env g (fs @ run_hygiene ext hygiene_now db (Loaded valid invalid)) esc
      (active_declarations ext decl_now (Loaded valid invalid)) db = Inl e"
    using update_repeated [OF hygiene_repeats] by blast
  then show ?thesis using assms(1,2) by (simp add: lifecycle_pass_def load_declarations_def l)
qed

section \<open>Witnesses\<close>

definition pass_demo :: database where
  "pass_demo = demo_db\<lparr>db_generations := [demo_generation 1, demo_generation 2, demo_generation 3]\<rparr>"

definition pass_env :: lifecycle_env where
  "pass_env = demo_env\<lparr>le_now := ''10Z''\<rparr>"

definition pass_after :: database where
  "pass_after = lifecycle_pass report_ext pass_env 0 0 Disabled (Inr [demo_finding ''h'' ''k'']) EscalationConfig_default 3 pass_demo"

lemma pass_update:
  "is_ok (update_warning_state_with_declarations pass_env 3 ([demo_finding ''h'' ''k''] @ run_hygiene report_ext 0 pass_demo Disabled)
     EscalationConfig_default (active_declarations report_ext 0 Disabled) pass_demo)"
proof -
  have c: "validate_coverage_composition (le_hash_order pass_env) pass_demo [demo_finding ''h'' ''k''] = []" by code_simp
  have "\<exists>db'. update_warning_state_with_origin_mode pass_env 3 [demo_finding ''h'' ''k''] EscalationConfig_default []
      DEFAULT_ORIGIN_MODE pass_demo = Inr db'"
    unfolding update_ok Let_def c append_Nil2 by code_simp
  then show ?thesis
    by (auto simp: update_warning_state_with_declarations_def run_hygiene_def active_declarations_def is_ok_iff)
qed

lemma pass_inv: "store_inv pass_demo"
proof -
  have "retired_source_map pass_demo = (\<lambda>_. None)"
    by (rule HOL.ext) (simp add: retired_source_map_def pass_demo_def demo_db_def row_at_def)
  then have "row_inv (retired_source_map pass_demo) (demo_row 2 ''h'' ''k'')"
    unfolding demo_row_def by (simp add: inserted_inv)
  moreover have "db_warning_state pass_demo = [demo_row 2 ''h'' ''k'']" by (simp add: pass_demo_def demo_db_def)
  ultimately show ?thesis by (simp add: store_inv_def pass_demo_def demo_db_def demo_generation_def demo_seen_def observation_of_def)
qed

lemma pass_newest_demo:
  "just_published pass_demo 3 (demo_generation 3)" "latest_by gen_generation_id (db_generations pass_demo) = Some (demo_generation 3)"
  by (simp add: just_published_def) code_simp+

lemma pass_after_keys: "distinct (map ws_key (db_warning_state pass_after))"
proof -
  obtain db' where u: "update_warning_state_with_declarations pass_env 3 ([demo_finding ''h'' ''k''] @ run_hygiene report_ext 0 pass_demo Disabled)
     EscalationConfig_default (active_declarations report_ext 0 Disabled) pass_demo = Inr db'"
    using pass_update by (auto simp: is_ok_iff)
  from lifecycle_inv [OF pass_inv this [unfolded update_warning_state_with_declarations_def]] show ?thesis
    unfolding pass_after_def pass_ok [OF u] pass_rows by (simp add: store_inv_def)
qed

lemma pass_readable: "readable report_ext (\<lambda>_. Inr JNull) pass_after"
proof -
  obtain db' where u: "update_warning_state_with_declarations pass_env 3 ([demo_finding ''h'' ''k''] @ run_hygiene report_ext 0 pass_demo Disabled)
     EscalationConfig_default (active_declarations report_ext 0 Disabled) pass_demo = Inr db'"
    using pass_update by (auto simp: is_ok_iff)
  have "readable report_ext (\<lambda>_. Inr JNull) pass_demo"
    by (simp add: readable_def parses_def pass_demo_def demo_db_def demo_generation_def demo_row_def demo_seen_def
        inserted_row_def basis_of_def observation_of_def demo_finding_def report_ext_def)
  moreover have "distinct (map ws_key (db_warning_state pass_demo))" using pass_inv by (simp add: store_inv_def)
  moreover have "parses report_ext (Some (le_now pass_env))" "\<And>s. parses report_ext (retired_source_map pass_demo s)"
    by (simp_all add: parses_def pass_env_def report_ext_def retired_source_map_def pass_demo_def demo_db_def row_at_def)
  ultimately show ?thesis
    unfolding pass_after_def pass_ok [OF u] by (intro pass_keeps_readable [OF _ _ u [unfolded update_warning_state_with_declarations_def]])
qed

lemma pass_report:
  obtains receipt where
    "execute_report_inquiry report_ext (\<lambda>_. Inr JNull) (connection_of pass_after) report_resolved report_plan = Inr receipt"
  using report_admits report_runs [OF report_ext_total pass_after_keys pass_readable _ report_fields(1)] by blast

theorem recorded_finding_answers_witness:
  "\<exists>receipt. execute_report_inquiry report_ext (\<lambda>_. Inr JNull) (connection_of pass_after) report_resolved report_plan = Inr receipt
     \<and> rc_status receipt = Answered"
proof -
  let ?f = "demo_finding ''h'' ''k''"
  obtain receipt where r: "execute_report_inquiry report_ext (\<lambda>_. Inr JNull) (connection_of pass_after) report_resolved report_plan = Inr receipt"
    by (rule pass_report)
  have "reporting pass_demo (fd_host ?f)" "retired_source_map pass_demo ''src'' = None"
    "map ws_origin_source (db_warning_state pass_demo) = [''nq'']" by code_simp+
  moreover have "rfc3339_parse report_ext (plan_as_of report_plan) = Inr 5" "timely_at report_ext 5 (le_now pass_env)"
    "fresh_at report_ext 5 60 (gen_completed_at (demo_generation 3))"
    "\<forall>r \<in> set (db_finding_observations pass_demo). timely_at report_ext 5 (obs_observed_at r)"
    by (simp_all add: report_ext_def report_plan_def demo_plan_def timely_at_def fresh_at_def pass_env_def demo_generation_def
        pass_demo_def demo_db_def demo_seen_def observation_of_def)
  moreover have "\<forall>v. row_at ws_key (fd_key ?f) (db_warning_state pass_demo) = Some v \<longrightarrow> origin_current report_ext 5 60 v"
    using calculation(3) row_at_some by (fastforce simp: map_eq_Cons_conv origin_current_def)
  moreover have "sel_key (FindingSelectorV0 ''h'' ''k'' ''s'') = fd_key ?f" "not_withdrawn (active_declarations report_ext 0 Disabled) (fd_host ?f)"
    "?f \<in> set [?f]" "fd_basis_source_id ?f = Some ''src''"
    by (simp_all add: sel_key_def fd_key_def demo_finding_def not_withdrawn_def active_declarations_def)
  ultimately show ?thesis
    using recorded_finding_answers [OF report_ext_bounded pass_inv pass_newest_demo(1) _ _ _ _ _ pass_update r [unfolded pass_after_def]
      _ _ _ report_fields(4) _ report_fields(2)] r by (metis (no_types, lifting))
qed

lemma demo_generation_fields: "gen_completed_at (demo_generation n) = ''0Z''" "gen_status (demo_generation n) = ''complete''"
  by (simp_all add: demo_generation_def)

definition latest_plan :: CandidateInquiryPlanV0 where
  "latest_plan = report_plan\<lparr>plan_as_of := ''0Z''\<rparr>"

lemma latest_admits: "\<exists>r. admit report_ext latest_plan report_resolved = Inr r"
  unfolding latest_plan_def by (rule report_admits_at [of _ 2]) (simp add: report_ext_def)

theorem latest_refuses_fresh_finding_witness:
  "\<exists>receipt. execute_latest_report_inquiry report_ext (\<lambda>_. Inr JNull) (connection_of pass_after) report_resolved
       (\<lambda>s. Inr latest_plan) = Inr receipt
     \<and> rc_status receipt = Refused"
proof -
  let ?f = "demo_finding ''h'' ''k''"
  obtain receipt where "execute_report_inquiry report_ext (\<lambda>_. Inr JNull) (connection_of pass_after) report_resolved latest_plan = Inr receipt"
    using latest_admits report_runs [OF report_ext_total pass_after_keys pass_readable _ report_fields(1)] by blast
  moreover obtain db' where u: "update_warning_state_with_declarations pass_env 3 ([?f] @ run_hygiene report_ext 0 pass_demo Disabled)
     EscalationConfig_default (active_declarations report_ext 0 Disabled) pass_demo = Inr db'"
    using pass_update by (auto simp: is_ok_iff)
  moreover obtain n' where "latest_by gen_generation_id (db_generations pass_after) = Some n'"
    "gen_completed_at n' = ''0Z''" "gen_status n' = ''complete''"
    using pass_newest [OF u [unfolded update_warning_state_with_declarations_def] pass_newest_demo(2)]
    unfolding pass_after_def pass_ok [OF u] by (metis demo_generation_fields)
  moreover have "\<exists>s. source_snapshot (\<lambda>_. Inr JNull) n' = Inr s"
    using calculation(5) by (intro source_snapshot_total) simp_all
  ultimately have r: "execute_latest_report_inquiry report_ext (\<lambda>_. Inr JNull) (connection_of pass_after) report_resolved
       (\<lambda>s. Inr latest_plan) = Inr receipt"
    unfolding latest_explicit by (auto simp: latest_plan_def)
  have "reporting pass_demo (fd_host ?f)" "rfc3339_parse report_ext (gen_completed_at (demo_generation 3)) = Inr 2"
    "rfc3339_parse report_ext (le_now pass_env) = Inr 3" "sel_key (FindingSelectorV0 ''h'' ''k'' ''s'') = fd_key ?f"
    by code_simp+
  then show ?thesis
    using latest_refuses_fresh_finding [OF report_ext_bounded pass_inv _ _ pass_update pass_newest_demo(2) _ _ _
        report_fields(2) _ r [unfolded pass_after_def]] r by simp
qed

theorem repeated_declaration_stalls_witness:
  "\<exists>d. lifecycle_pass report_ext pass_env 0 0
       (load_declarations report_ext (\<lambda>_. ReadBytes []) (\<lambda>_. Inr [d, d, d]) (Some ''declarations.json''))
       (Inr [demo_finding ''h'' ''k'']) EscalationConfig_default 3 pass_demo = snd (seal_generation 3 pass_demo)"
  by (rule exI, rule repeated_declaration_stalls) auto

end
