(* ===== verification/Notifications.thy ===== *)
theory Notifications
  imports Finding_Actions
begin

text \<open>
  The notification engine (\<open>crates/nq-db/src/notify.rs\<close>) and the loop that sends
  (\<open>send_notifications\<close> of \<open>crates/nq-monitor/src/cmd/serve.rs\<close>): which findings are announced,
  what they are announced as, how they are grouped, and what is remembered of it. The texts sent
  to the channels and the delivery are presentation and network; the annotation a finding gets
  from the regime features is an argument that is passed on.
\<close>

section \<open>Stored vocabularies\<close>

text \<open>An enumeration written to a column by \<open>as_str\<close> and read back by \<open>from_str\<close>.\<close>

locale stored_enum =
  fixes as_str :: "'e \<Rightarrow> string" and from_str :: "string \<Rightarrow> 'e option"
  assumes from_str_iff: "from_str s = Some e \<longleftrightarrow> s = as_str e"
begin

lemma roundtrip [simp]: "from_str (as_str e) = Some e"
  by (simp add: from_str_iff)

lemma stored_inject: "as_str e = as_str e' \<longleftrightarrow> e = e'"
  using from_str_iff by (metis option.inject)

end

definition FailureClass_from_str :: "string \<Rightarrow> FailureClass option" where
  "FailureClass_from_str s =
     (if s = ''availability'' then Some FC_Availability
      else if s = ''accumulation'' then Some FC_Accumulation
      else if s = ''pressure'' then Some FC_Pressure
      else if s = ''saturation'' then Some FC_Saturation
      else if s = ''exhaustion'' then Some FC_Exhaustion
      else if s = ''drift'' then Some FC_Drift
      else if s = ''stuckness'' then Some FC_Stuckness
      else if s = ''silence'' then Some FC_Silence
      else if s = ''flapping'' then Some FC_Flapping
      else if s = ''unspecified'' then Some FC_Unspecified
      else None)"

definition ServiceImpact_from_str :: "string \<Rightarrow> ServiceImpact option" where
  "ServiceImpact_from_str s =
     (if s = ''none_current'' then Some SI_NoneCurrent
      else if s = ''degraded'' then Some SI_Degraded
      else if s = ''immediate_risk'' then Some SI_ImmediateRisk
      else None)"

definition ActionBias_from_str :: "string \<Rightarrow> ActionBias option" where
  "ActionBias_from_str s =
     (if s = ''watch'' then Some AB_Watch
      else if s = ''investigate_business_hours'' then Some AB_InvestigateBusinessHours
      else if s = ''investigate_now'' then Some AB_InvestigateNow
      else if s = ''intervene_soon'' then Some AB_InterveneSoon
      else if s = ''intervene_now'' then Some AB_InterveneNow
      else None)"

definition StateKind_from_str :: "string \<Rightarrow> StateKind option" where
  "StateKind_from_str s =
     (if s = ''incident'' then Some SK_Incident
      else if s = ''degradation'' then Some SK_Degradation
      else if s = ''maintenance'' then Some SK_Maintenance
      else if s = ''informational'' then Some SK_Informational
      else if s = ''legacy_unclassified'' then Some SK_LegacyUnclassified
      else None)"

fun lane_order :: "StateKind \<Rightarrow> nat" where
  "lane_order SK_Incident = 0"
| "lane_order SK_Degradation = 1"
| "lane_order SK_Maintenance = 2"
| "lane_order SK_Informational = 3"
| "lane_order SK_LegacyUnclassified = 4"

section \<open>Pending notifications\<close>

datatype NotificationKind = New | Recurring string | Escalated string

text \<open>The columns of \<open>warning_state\<close> that only the notifier writes, and its own table.\<close>

record notified_row = warning_state_row +
  ws_notified_severity :: "string option"
  ws_notified_at :: "string option"
  ws_last_notification_dedup_key :: "string option"

record history_row =
  nh_host :: string
  nh_kind :: string
  nh_subject :: string
  nh_first_notified_at :: string
  nh_last_notified_at :: string
  nh_last_notified_severity :: string
  nh_notification_count :: int

record notify_tables =
  nt_warning_state :: "notified_row list"
  nt_notification_history :: "history_row list"

record 'r PendingNotification =
  pn_host :: string
  pn_domain :: string
  pn_kind :: string
  pn_subject :: string
  pn_message :: string
  pn_severity :: string
  pn_notification_kind :: NotificationKind
  pn_consecutive_gens :: int
  pn_first_seen_at :: string
  pn_peak_value :: "f64 option"
  pn_regime :: "'r option"
  pn_state_kind :: StateKind
  pn_diagnosis :: "FindingDiagnosis option"

definition nh_key :: "history_row \<Rightarrow> string \<times> string \<times> string" where
  "nh_key h = (nh_host h, nh_kind h, nh_subject h)"

definition nr_key :: "notified_row \<Rightarrow> string \<times> string \<times> string" where
  "nr_key w = (ws_host w, ws_kind w, ws_subject w)"

definition pn_key :: "'r PendingNotification \<Rightarrow> string \<times> string \<times> string" where
  "pn_key n = (pn_host n, pn_kind n, pn_subject n)"

definition severity_rank :: "string \<Rightarrow> nat" where
  "severity_rank s = (if s = ''info'' then 1 else if s = ''warning'' then 2 else if s = ''critical'' then 3 else 0)"

definition COOLDOWN_HOURS :: int where "COOLDOWN_HOURS = 24"

definition whole_hours :: "int \<Rightarrow> int" where
  "whole_hours ns = (if ns < 0 then - ((- ns) div 3600000000000) else ns div 3600000000000)"

definition diagnosis_from_columns :: "diagnosis_columns \<Rightarrow> FindingDiagnosis option" where
  "diagnosis_from_columns c =
     Option.bind (Option.bind (col_failure_class c) FailureClass_from_str) (\<lambda>fc.
     Option.bind (Option.bind (col_service_impact c) ServiceImpact_from_str) (\<lambda>si.
     Option.bind (Option.bind (col_action_bias c) ActionBias_from_str) (\<lambda>ab.
     Option.bind (col_synopsis c) (\<lambda>synopsis.
     Option.bind (col_why_care c) (\<lambda>why_care.
     Some \<lparr>dg_failure_class = fc, dg_service_impact = si, dg_action_bias = ab,
           dg_synopsis = synopsis, dg_why_care = why_care\<rparr>)))))"

text \<open>The rows of the query: its \<open>WHERE\<close> clause, and the left join with the history.\<close>

definition unannounced :: "notified_row \<Rightarrow> bool" where
  "unannounced w \<longleftrightarrow>
     (ws_notified_severity w = None \<or> ws_notified_severity w \<noteq> Some (ws_severity w))
     \<and> ws_work_state w \<notin> {''quiesced'', ''suppressed'', ''closed''}
     \<and> ws_visibility_state w = ''observed'' \<and> ws_basis_state w \<noteq> ''retired''"

definition with_history :: "history_row list \<Rightarrow> notified_row \<Rightarrow> (notified_row \<times> history_row option) list" where
  "with_history history w =
     (case filter (\<lambda>h. nh_key h = nr_key w) history of
        [] \<Rightarrow> [(w, None)] | hs \<Rightarrow> map (\<lambda>h. (w, Some h)) hs)"

definition within_cooldown :: "externals \<Rightarrow> int \<Rightarrow> history_row \<Rightarrow> bool" where
  "within_cooldown ext now h =
     (case rfc3339_parse ext (nh_last_notified_at h) of
        Inl _ \<Rightarrow> False | Inr last_at \<Rightarrow> whole_hours (now - last_at) < COOLDOWN_HOURS)"

definition notification_kind_of :: "externals \<Rightarrow> int \<Rightarrow> string \<Rightarrow> history_row option \<Rightarrow> NotificationKind option" where
  "notification_kind_of ext now severity history =
     (case history of
        None \<Rightarrow> Some New
      | Some h \<Rightarrow>
          if severity_rank severity > severity_rank (nh_last_notified_severity h)
          then Some (Escalated (nh_last_notified_severity h))
          else if within_cooldown ext now h then None
          else Some (Recurring (nh_last_notified_severity h)))"

definition pending_of ::
  "externals \<Rightarrow> (string \<Rightarrow> string \<Rightarrow> string \<Rightarrow> 'r option) \<Rightarrow> int \<Rightarrow> nat \<Rightarrow> notified_row \<times> history_row option
     \<Rightarrow> 'r PendingNotification list"
where
  "pending_of ext regime now min_rank row =
     (case row of (w, history) \<Rightarrow>
      case notification_kind_of ext now (ws_severity w) history of
        None \<Rightarrow> []
      | Some k \<Rightarrow>
          if severity_rank (ws_severity w) \<ge> min_rank
          then [\<lparr>pn_host = ws_host w, pn_domain = ws_domain w, pn_kind = ws_kind w, pn_subject = ws_subject w,
                 pn_message = ws_message w, pn_severity = ws_severity w, pn_notification_kind = k,
                 pn_consecutive_gens = ws_consecutive_gens w, pn_first_seen_at = ws_first_seen_at w,
                 pn_peak_value = ws_peak_value w, pn_regime = regime (ws_host w) (ws_kind w) (ws_subject w),
                 pn_state_kind =
                   (case StateKind_from_str (ws_state_kind w) of None \<Rightarrow> SK_LegacyUnclassified | Some sk \<Rightarrow> sk),
                 pn_diagnosis = diagnosis_from_columns (ws_diagnosis w)\<rparr>]
          else [])"

definition find_pending ::
  "externals \<Rightarrow> (string \<Rightarrow> string \<Rightarrow> string \<Rightarrow> 'r option) \<Rightarrow> int \<Rightarrow> string \<Rightarrow> notify_tables \<Rightarrow> 'r PendingNotification list"
where
  "find_pending ext regime now min_severity t =
     concat (map (pending_of ext regime now (severity_rank min_severity))
       (concat (map (with_history (nt_notification_history t)) (filter unannounced (nt_warning_state t)))))"

definition mark_notified :: "string \<Rightarrow> string \<Rightarrow> string \<Rightarrow> string \<Rightarrow> string \<Rightarrow> notify_tables \<Rightarrow> notify_tables" where
  "mark_notified now host kind subject severity t =
     (let dedup_key = host @ '':'' @ kind @ '':'' @ subject @ '':'' @ severity;
          history = nt_notification_history t
      in \<lparr>nt_warning_state =
            update_where (\<lambda>w. nr_key w = (host, kind, subject))
              (\<lambda>w. w\<lparr>ws_notified_severity := Some severity, ws_notified_at := Some now,
                     ws_last_notification_dedup_key := Some dedup_key\<rparr>) (nt_warning_state t),
          nt_notification_history =
            (if row_at nh_key (host, kind, subject) history = None
             then history @ [\<lparr>nh_host = host, nh_kind = kind, nh_subject = subject, nh_first_notified_at = now,
                  nh_last_notified_at = now, nh_last_notified_severity = severity, nh_notification_count = 1\<rparr>]
             else update_where (\<lambda>h. nh_key h = (host, kind, subject))
                    (\<lambda>h. h\<lparr>nh_last_notified_at := now, nh_last_notified_severity := severity,
                           nh_notification_count := nh_notification_count h + 1\<rparr>) history)\<rparr>)"

section \<open>Rollups\<close>

definition detector_family :: "string \<Rightarrow> string" where
  "detector_family kind =
     (if kind \<in> {''wal_bloat'', ''freelist_bloat''} then ''sqlite''
      else if strip_prefix ''zfs_'' kind \<noteq> None then ''zfs''
      else if kind \<in> {''disk_pressure'', ''mem_pressure'', ''resource_drift'', ''stale_host''} then ''host''
      else if kind \<in> {''stale_service'', ''service_status'', ''service_flap'', ''signal_dropout''} then ''service''
      else if kind \<in> {''log_silence'', ''error_shift''} then ''logs''
      else if kind \<in> {''metric_signal'', ''scrape_regime_shift''} then ''metric''
      else if kind \<in> {''check_failed'', ''check_error''} then ''saved_check''
      else if kind = ''source_error'' then ''source''
      else ''other'')"

record 'r NotificationRollup =
  ru_host :: string
  ru_state_kind :: StateKind
  ru_detector_family :: string
  ru_findings :: "'r PendingNotification list"

type_synonym bucket_key = "nat \<times> string \<times> string \<times> string \<times> string"

definition bucket_key_of :: "'r PendingNotification \<Rightarrow> bucket_key" where
  "bucket_key_of n =
     (lane_order (pn_state_kind n), StateKind_as_str (pn_state_kind n), pn_host n, detector_family (pn_kind n),
      (if pn_state_kind n = SK_LegacyUnclassified
       then pn_kind n @ '':'' @ pn_subject n @ '':'' @ pn_host n else []))"

definition finding_order :: "'r PendingNotification \<Rightarrow> int \<times> string \<times> string" where
  "finding_order n = (- int (severity_rank (pn_severity n)), pn_kind n, pn_subject n)"

text \<open>The ordered map of buckets: its keys in order, each with its findings in order of insertion.\<close>

definition rollup_of :: "'r PendingNotification list \<Rightarrow> bucket_key \<Rightarrow> 'r NotificationRollup" where
  "rollup_of pending key =
     (case key of (_, _, host, family, _) \<Rightarrow>
      let findings = sort_key finding_order (filter (\<lambda>n. bucket_key_of n = key) pending)
      in \<lparr>ru_host = host,
          ru_state_kind = (case findings of [] \<Rightarrow> SK_LegacyUnclassified | f # _ \<Rightarrow> pn_state_kind f),
          ru_detector_family = family, ru_findings = findings\<rparr>)"

definition rollup_pending :: "'r PendingNotification list \<Rightarrow> 'r NotificationRollup list" where
  "rollup_pending pending = map (rollup_of pending) (sort (remdups (map bucket_key_of pending)))"

text \<open>
  The sending loop: every finding of every rollup is marked, whatever the channels answered.
  \<open>clock\<close> is the reading at which a finding is marked.
\<close>

definition send_notifications ::
  "externals \<Rightarrow> (string \<Rightarrow> string \<Rightarrow> string \<Rightarrow> 'r option) \<Rightarrow> int \<Rightarrow> (string \<times> string \<times> string \<Rightarrow> string) \<Rightarrow> string
     \<Rightarrow> notify_tables \<Rightarrow> notify_tables"
where
  "send_notifications ext regime now clock min_severity t =
     fold (fold (\<lambda>f. mark_notified (clock (pn_key f)) (pn_host f) (pn_kind f) (pn_subject f) (pn_severity f)))
       (map ru_findings (rollup_pending (find_pending ext regime now min_severity t))) t"

section \<open>Stored vocabularies are read back\<close>

interpretation failure_class: stored_enum FailureClass_as_str FailureClass_from_str
proof
  show "FailureClass_from_str s = Some e \<longleftrightarrow> s = FailureClass_as_str e" for s e
    by (cases e) (auto simp: FailureClass_from_str_def)
qed

interpretation service_impact: stored_enum ServiceImpact_as_str ServiceImpact_from_str
proof
  show "ServiceImpact_from_str s = Some e \<longleftrightarrow> s = ServiceImpact_as_str e" for s e
    by (cases e) (auto simp: ServiceImpact_from_str_def)
qed

interpretation action_bias: stored_enum ActionBias_as_str ActionBias_from_str
proof
  show "ActionBias_from_str s = Some e \<longleftrightarrow> s = ActionBias_as_str e" for s e
    by (cases e) (auto simp: ActionBias_from_str_def)
qed

interpretation state_kind: stored_enum StateKind_as_str StateKind_from_str
proof
  show "StateKind_from_str s = Some e \<longleftrightarrow> s = StateKind_as_str e" for s e
    by (cases e) (auto simp: StateKind_from_str_def)
qed

interpretation work_state: stored_enum FindingWorkState_as_str from_stored
  by unfold_locales (auto simp: from_stored_iff)

text \<open>
  The diagnosis the lifecycle writes is the one the notifier reads, and a finding without one is
  read as without one.
\<close>

lemma diagnosis_roundtrip: "diagnosis_from_columns (diagnosis_columns_of d) = d"
  by (cases d) (simp_all add: diagnosis_columns_of_def diagnosis_from_columns_def)

section \<open>Which findings are announced\<close>

lemma filter_row_at:
  assumes "distinct (map key rows)"
  shows "filter (\<lambda>r. key r = k) rows = (case row_at key k rows of None \<Rightarrow> [] | Some r \<Rightarrow> [r])"
  using assms
proof (induction rows)
  case (Cons a rows)
  have "filter (\<lambda>r. key r = k) rows = []" if "key a = k"
    using Cons.prems that by (auto simp: filter_empty_conv image_iff)
  with Cons show ?case by (auto simp: row_at_def)
qed (simp add: row_at_def)

lemma with_history_one:
  assumes "distinct (map nh_key history)"
  shows "with_history history w = [(w, row_at nh_key (nr_key w) history)]"
  by (simp add: with_history_def filter_row_at [OF assms] split: option.split)

lemma pending_iff:
  assumes "distinct (map nh_key (nt_notification_history t))"
  shows "n \<in> set (find_pending ext regime now min_severity t) \<longleftrightarrow>
    (\<exists>w \<in> set (nt_warning_state t). unannounced w
       \<and> n \<in> set (pending_of ext regime now (severity_rank min_severity) (w, row_at nh_key (nr_key w) (nt_notification_history t))))"
  by (auto simp: find_pending_def with_history_one [OF assms])

lemma pending_key: "n \<in> set (pending_of ext regime now r (w, h)) \<Longrightarrow> pn_key n = nr_key w \<and> pn_severity n = ws_severity w"
  by (auto simp: pending_of_def pn_key_def nr_key_def split: option.splits if_splits)

lemma pending_row:
  assumes "n \<in> set (find_pending ext regime now min_severity t)"
  shows "\<exists>w \<in> set (nt_warning_state t). unannounced w \<and> pn_key n = nr_key w \<and> pn_severity n = ws_severity w"
proof -
  from assms obtain w h where w: "w \<in> set (nt_warning_state t)" "unannounced w" "h \<in> set (with_history (nt_notification_history t) w)"
    "n \<in> set (pending_of ext regime now (severity_rank min_severity) h)"
    by (auto simp: find_pending_def)
  moreover have "fst h = w" using w(3) by (auto simp: with_history_def split: list.splits)
  ultimately show ?thesis using pending_key [of n ext regime now _ "fst h" "snd h"] by auto
qed

text \<open>
  A finding is announced exactly when it is visible, its evidence is not retired, no operator has
  paused it, its severity has not been announced and reaches the threshold, and it is more severe
  than what was last announced for the same identity or the cooldown is over.
\<close>

lemma finding_announced_iff:
  assumes "distinct (map nr_key (nt_warning_state t))" and "distinct (map nh_key (nt_notification_history t))"
    and "w \<in> set (nt_warning_state t)"
  shows "nr_key w \<in> pn_key ` set (find_pending ext regime now min_severity t) \<longleftrightarrow>
    unannounced w \<and> severity_rank min_severity \<le> severity_rank (ws_severity w)
    \<and> (\<forall>h. row_at nh_key (nr_key w) (nt_notification_history t) = Some h \<longrightarrow>
         severity_rank (nh_last_notified_severity h) < severity_rank (ws_severity w) \<or> \<not> within_cooldown ext now h)"
proof -
  let ?p = "\<lambda>w. pending_of ext regime now (severity_rank min_severity) (w, row_at nh_key (nr_key w) (nt_notification_history t))"
  have "nr_key w \<in> pn_key ` set (find_pending ext regime now min_severity t) \<longleftrightarrow>
      (\<exists>v n. v \<in> set (nt_warning_state t) \<and> unannounced v \<and> n \<in> set (?p v) \<and> nr_key w = pn_key n)"
    unfolding image_iff Bex_def pending_iff [OF assms(2)] by blast
  also have "\<dots> \<longleftrightarrow> (\<exists>v. v \<in> set (nt_warning_state t) \<and> nr_key v = nr_key w \<and> unannounced v \<and> ?p v \<noteq> [])"
  proof (intro iff_exI)
    fix v
    show "(\<exists>n. v \<in> set (nt_warning_state t) \<and> unannounced v \<and> n \<in> set (?p v) \<and> nr_key w = pn_key n) \<longleftrightarrow>
        v \<in> set (nt_warning_state t) \<and> nr_key v = nr_key w \<and> unannounced v \<and> ?p v \<noteq> []"
      using pending_key [of _ ext regime now _ v] by (metis last_in_set list.set_cases list.distinct(1))
  qed
  also have "\<dots> \<longleftrightarrow> unannounced w \<and> ?p w \<noteq> []"
    using assms(1,3) by (auto simp: distinct_map inj_on_def)
  also have "?p w \<noteq> [] \<longleftrightarrow> severity_rank min_severity \<le> severity_rank (ws_severity w)
    \<and> (\<forall>h. row_at nh_key (nr_key w) (nt_notification_history t) = Some h \<longrightarrow>
         severity_rank (nh_last_notified_severity h) < severity_rank (ws_severity w) \<or> \<not> within_cooldown ext now h)"
    by (auto simp: pending_of_def notification_kind_of_def split: option.splits)
  finally show ?thesis .
qed

section \<open>What is sent is remembered\<close>

abbreviation mark :: "(string \<times> string \<times> string \<Rightarrow> string) \<Rightarrow> 'r PendingNotification \<Rightarrow> notify_tables \<Rightarrow> notify_tables" where
  "mark clock f \<equiv> mark_notified (clock (pn_key f)) (pn_host f) (pn_kind f) (pn_subject f) (pn_severity f)"

lemma fold_concat: "fold (fold f) xss = fold f (concat xss)"
  by (induction xss) (simp_all add: fun_eq_iff)

definition marked :: "string \<Rightarrow> 'r PendingNotification \<Rightarrow> notified_row \<Rightarrow> notified_row" where
  "marked now f w =
     w\<lparr>ws_notified_severity := Some (pn_severity f), ws_notified_at := Some now,
       ws_last_notification_dedup_key := Some (pn_host f @ '':'' @ pn_kind f @ '':'' @ pn_subject f @ '':'' @ pn_severity f)\<rparr>"

lemma marked_fields:
  "nr_key (marked now f w) = nr_key w" "warning_state_row.truncate (marked now f w) = warning_state_row.truncate w"
  "ws_notified_severity (marked now f w) = Some (pn_severity f)"
  by (simp_all add: marked_def nr_key_def warning_state_row.truncate_def)

lemma mark_rows:
  "nt_warning_state (mark clock f t) = update_where (\<lambda>w. nr_key w = pn_key f) (marked (clock (pn_key f)) f) (nt_warning_state t)"
  by (simp add: mark_notified_def Let_def pn_key_def marked_def [abs_def])

text \<open>The row of a finding after some findings are marked: the last mark of its key stays.\<close>

lemma marked_rows:
  "w' \<in> set (nt_warning_state (fold (mark clock) fs t)) \<Longrightarrow>
     (\<exists>w \<in> set (nt_warning_state t). warning_state_row.truncate w' = warning_state_row.truncate w
        \<and> (nr_key w' \<notin> pn_key ` set fs \<longrightarrow> w' = w))
     \<and> (nr_key w' \<in> pn_key ` set fs \<longrightarrow>
          (\<exists>f \<in> set fs. pn_key f = nr_key w' \<and> ws_notified_severity w' = Some (pn_severity f)))"
proof (induction fs arbitrary: w' rule: rev_induct)
  case (snoc f fs)
  from snoc.prems have "w' \<in> set (nt_warning_state (mark clock f (fold (mark clock) fs t)))" by simp
  then obtain v where v: "v \<in> set (nt_warning_state (fold (mark clock) fs t))"
    "w' = (if nr_key v = pn_key f then marked (clock (pn_key f)) f v else v)"
    unfolding mark_rows by (auto simp: update_where_def)
  have k: "nr_key w' = nr_key v" "warning_state_row.truncate w' = warning_state_row.truncate v"
    by (simp_all add: v(2) marked_fields)
  show ?case
  proof (cases "nr_key v = pn_key f")
    case True
    then show ?thesis using snoc.IH [OF v(1)] v(2) k by (auto simp: marked_fields)
  next
    case False
    then show ?thesis using snoc.IH [OF v(1)] v(2) k by auto
  qed
qed auto

lemma truncate_severity: "warning_state_row.truncate v = warning_state_row.truncate w \<Longrightarrow> ws_severity v = ws_severity w \<and> nr_key v = nr_key w"
  by (simp add: warning_state_row.truncate_def nr_key_def)

section \<open>Rollups\<close>

lemma rollup_findings: "ru_findings (rollup_of ps k) = sort_key finding_order (filter (\<lambda>n. bucket_key_of n = k) ps)"
  by (simp add: rollup_of_def Let_def split: prod.split)

lemma partition_by:
  assumes "distinct ks" "f ` set ps \<subseteq> set ks"
  shows "mset (concat (map (\<lambda>k. sort_key g (filter (\<lambda>n. f n = k) ps)) ks)) = mset ps"
proof -
  have "count (mset (concat (map (\<lambda>k. sort_key g (filter (\<lambda>n. f n = k) ps)) ks))) x
      = (if f x \<in> set ks then count (mset ps) x else 0)" for x
    using assms(1) by (induction ks) (auto simp: mset_filter)
  moreover have "count (mset ps) x = 0" if "f x \<notin> set ks" for x
    using assms(2) that by (auto simp: count_eq_zero_iff)
  ultimately show ?thesis by (intro multiset_eqI) auto
qed

lemma send_marks:
  "send_notifications ext regime now clock min_severity t =
     fold (mark clock) (concat (map ru_findings (rollup_pending (find_pending ext regime now min_severity t)))) t"
  by (simp add: send_notifications_def fold_concat)

lemma rollup_mset: "mset (concat (map ru_findings (rollup_pending ps))) = mset ps"
proof -
  have "map ru_findings (rollup_pending ps) =
      map (\<lambda>k. sort_key finding_order (filter (\<lambda>n. bucket_key_of n = k) ps)) (sort (remdups (map bucket_key_of ps)))"
    by (simp add: rollup_pending_def rollup_findings)
  then show ?thesis by (simp add: partition_by)
qed

lemma bucket_key_same:
  assumes "bucket_key_of a = bucket_key_of b"
  shows "pn_host a = pn_host b \<and> pn_state_kind a = pn_state_kind b \<and> detector_family (pn_kind a) = detector_family (pn_kind b)"
  using assms state_kind.stored_inject by (simp add: bucket_key_of_def)

lemma rollup_of_bucket:
  assumes "f \<in> set ps"
  shows "ru_findings (rollup_of ps (bucket_key_of f)) \<noteq> []" "ru_host (rollup_of ps (bucket_key_of f)) = pn_host f"
    "ru_state_kind (rollup_of ps (bucket_key_of f)) = pn_state_kind f"
    "ru_detector_family (rollup_of ps (bucket_key_of f)) = detector_family (pn_kind f)"
proof -
  let ?fs = "sort_key finding_order (filter (\<lambda>n. bucket_key_of n = bucket_key_of f) ps)"
  have "f \<in> set ?fs" using assms by simp
  then obtain x xs where x: "?fs = x # xs" by (cases ?fs) auto
  then have "x \<in> set ?fs" by simp
  then have "bucket_key_of x = bucket_key_of f" by simp
  from bucket_key_same [OF this] x
  show "ru_findings (rollup_of ps (bucket_key_of f)) \<noteq> []" "ru_host (rollup_of ps (bucket_key_of f)) = pn_host f"
    "ru_state_kind (rollup_of ps (bucket_key_of f)) = pn_state_kind f"
    "ru_detector_family (rollup_of ps (bucket_key_of f)) = detector_family (pn_kind f)"
    by (simp_all add: rollup_of_def Let_def) (simp_all add: bucket_key_of_def)
qed

section \<open>Properties\<close>

text \<open>
  C26: what was sent is not sent again. Whatever the channels answered, no finding of a round of
  notifications is pending afterwards, at any later time and for any threshold, until the
  lifecycle changes its row.
\<close>

theorem sent_is_not_resent:
  assumes "distinct (map nr_key (nt_warning_state t))"
    and "n \<in> set (find_pending ext regime now min_severity t)"
    and "m \<in> set (find_pending ext regime later other_severity (send_notifications ext regime now clock min_severity t))"
  shows "pn_key m \<noteq> pn_key n"
proof
  assume same: "pn_key m = pn_key n"
  let ?fs = "concat (map ru_findings (rollup_pending (find_pending ext regime now min_severity t)))"
  have fs: "set ?fs = set (find_pending ext regime now min_severity t)" using rollup_mset mset_eq_setD by blast
  from pending_row [OF assms(3)] obtain w where w: "w \<in> set (nt_warning_state (fold (mark clock) ?fs t))" "unannounced w"
    "pn_key m = nr_key w" unfolding send_marks by blast
  have "nr_key w \<in> pn_key ` set ?fs" using assms(2) same w(3) unfolding fs by auto
  with marked_rows [OF w(1)] obtain f v where f: "f \<in> set ?fs" "pn_key f = nr_key w" "ws_notified_severity w = Some (pn_severity f)"
    and v: "v \<in> set (nt_warning_state t)" "warning_state_row.truncate w = warning_state_row.truncate v" by blast
  obtain u where u: "u \<in> set (nt_warning_state t)" "pn_key f = nr_key u" "pn_severity f = ws_severity u"
    using pending_row f(1) unfolding fs by blast
  have "u = v" using assms(1) u(1,2) v f(2) truncate_severity [OF v(2)] by (auto simp: distinct_map inj_on_def)
  then have "ws_notified_severity w = Some (ws_severity w)" using f(3) u(3) truncate_severity [OF v(2)] by simp
  with w(2) show False by (simp add: unannounced_def)
qed

text \<open>
  C32: rollups lose, repeat and mix nothing. The findings of all rollups are the pending ones, each
  once; a rollup holds findings of one host, state kind and detector family only, the most severe
  first; the lanes come in order; and outside the legacy lane a host, state kind and family has
  one rollup.
\<close>

theorem rollups_partition:
  "mset (concat (map ru_findings (rollup_pending ps))) = mset ps
   \<and> sorted (map (\<lambda>r. lane_order (ru_state_kind r)) (rollup_pending ps))
   \<and> (\<forall>r \<in> set (rollup_pending ps). ru_findings r \<noteq> [] \<and> sorted (map finding_order (ru_findings r))
        \<and> (\<forall>f \<in> set (ru_findings r). pn_host f = ru_host r \<and> pn_state_kind f = ru_state_kind r
             \<and> detector_family (pn_kind f) = ru_detector_family r))
   \<and> distinct (map (\<lambda>r. (ru_host r, ru_state_kind r, ru_detector_family r))
        (filter (\<lambda>r. ru_state_kind r \<noteq> SK_LegacyUnclassified) (rollup_pending ps)))"
proof -
  define ks where "ks = sort (remdups (map bucket_key_of ps))"
  have ks: "set ks = bucket_key_of ` set ps" "distinct ks" "sorted ks" by (simp_all add: ks_def)
  have rs: "rollup_pending ps = map (rollup_of ps) ks" by (simp add: rollup_pending_def ks_def)
  have lane: "lane_order (ru_state_kind (rollup_of ps k)) = fst k" if "k \<in> set ks" for k
  proof -
    from that obtain f where "f \<in> set ps" "k = bucket_key_of f" by (auto simp: ks(1))
    moreover have "fst (bucket_key_of f) = lane_order (pn_state_kind f)" by (simp add: bucket_key_of_def)
    ultimately show ?thesis by (simp add: rollup_of_bucket)
  qed
  have "sorted (map fst ks)"
    unfolding sorted_map by (rule sorted_wrt_mono_rel [OF _ ks(3)]) (auto simp: less_eq_prod_def)
  moreover have "map (\<lambda>r. lane_order (ru_state_kind r)) (rollup_pending ps) = map fst ks" by (simp add: rs lane)
  moreover have "ru_findings r \<noteq> [] \<and> sorted (map finding_order (ru_findings r))
      \<and> (\<forall>f \<in> set (ru_findings r). pn_host f = ru_host r \<and> pn_state_kind f = ru_state_kind r
             \<and> detector_family (pn_kind f) = ru_detector_family r)" if "r \<in> set (rollup_pending ps)" for r
  proof -
    from that obtain f where f: "f \<in> set ps" "r = rollup_of ps (bucket_key_of f)" unfolding rs set_map ks(1) by auto
    show ?thesis using rollup_of_bucket [OF f(1)] bucket_key_same by (auto simp: f(2) rollup_findings)
  qed
  moreover have "distinct (map (\<lambda>r. (ru_host r, ru_state_kind r, ru_detector_family r))
        (filter (\<lambda>r. ru_state_kind r \<noteq> SK_LegacyUnclassified) (rollup_pending ps)))"
  proof -
    have "k = k'" if k: "k \<in> set ks" "k' \<in> set ks" "ru_state_kind (rollup_of ps k) \<noteq> SK_LegacyUnclassified"
      "ru_host (rollup_of ps k) = ru_host (rollup_of ps k')" "ru_state_kind (rollup_of ps k) = ru_state_kind (rollup_of ps k')"
      "ru_detector_family (rollup_of ps k) = ru_detector_family (rollup_of ps k')" for k k'
    proof -
      from k(1,2) obtain f f' where f: "f \<in> set ps" "k = bucket_key_of f" "f' \<in> set ps" "k' = bucket_key_of f'" by (auto simp: ks(1))
      with k(3-6) rollup_of_bucket [OF f(1)] rollup_of_bucket [OF f(3)] show ?thesis by (simp add: bucket_key_of_def)
    qed
    then have "inj_on (\<lambda>k. (ru_host (rollup_of ps k), ru_state_kind (rollup_of ps k), ru_detector_family (rollup_of ps k)))
        (set (filter (\<lambda>k. ru_state_kind (rollup_of ps k) \<noteq> SK_LegacyUnclassified) ks))"
      by (auto simp: inj_on_def)
    then show ?thesis using ks(2) by (simp add: rs filter_map o_def distinct_map)
  qed
  ultimately show ?thesis using rollup_mset [of ps] by simp
qed

text \<open>
  C25: an action whose contract pauses notifications does pause them: once it is applied, the
  finding is not pending, whatever its severity, its history and the time.
\<close>

theorem paused_finding_not_announced:
  assumes "distinct (map ws_key (db_warning_state db))" and "transition_finding_action ext env r db = Inr (rcpt, db')"
    and "fc_notification_effect (contract (fq_action r)) = NE_Pause"
    and "map warning_state_row.truncate (nt_warning_state t) = db_warning_state db'"
    and "n \<in> set (find_pending ext regime now min_severity t)"
  shows "local_key (pn_key n) \<noteq> fq_finding_key r"
proof
  assume key: "local_key (pn_key n) = fq_finding_key r"
  from action_row [OF assms(2,1)] obtain v where v: "actionable ext db r (ae_now env) v"
    "row_at ws_key (ws_key v) (db_warning_state db') = Some (work_update r (fr_applied_at rcpt) (fr_expires_at rcpt) v)" by metis
  from pending_row [OF assms(5)] obtain w where w: "w \<in> set (nt_warning_state t)" "unannounced w" "pn_key n = nr_key w" by blast
  let ?w = "warning_state_row.truncate w"
  have fields: "ws_key ?w = nr_key w" "ws_work_state ?w = ws_work_state w"
    by (simp_all add: warning_state_row.truncate_def ws_key_def nr_key_def)
  have mem: "?w \<in> set (db_warning_state db')" using w(1) unfolding assms(4) [symmetric] by simp
  have "local_key (ws_key v) = fq_finding_key r" using v(1) unfolding actionable_def by (elim conjE)
  with key have "ws_key v = nr_key w" by (simp add: w(3) flip: local_key_inject)
  moreover have "map ws_key (db_warning_state db') = map ws_key (db_warning_state db)"
    using assms(2) unfolding transition_ok [OF assms(1)] by (auto simp: applied_action_def worked.map_key_update)
  ultimately have "?w = work_update r (fr_applied_at rcpt) (fr_expires_at rcpt) v"
    using v(2) row_at_mem [OF _ mem, of ws_key] fields(1) assms(1) by simp
  then have "ws_work_state w = FindingWorkState_as_str (target_work_state (fq_action r))"
    using fields(2) by (simp add: work_update_def Let_def)
  then show False using assms(3) w(2) by (cases "fq_action r") (simp_all add: unannounced_def)
qed

section \<open>Witnesses\<close>

definition unsent :: "warning_state_row \<Rightarrow> notified_row" where
  "unsent w = warning_state_row.extend w (notified_row.fields None None None)"

lemma truncate_unsent: "warning_state_row.truncate (unsent w) = w"
  by (simp add: unsent_def warning_state_row.truncate_def warning_state_row.extend_def)

definition notify_demo :: notify_tables where
  "notify_demo = \<lparr>nt_warning_state = [unsent (demo_row 2 ''h'' ''k'')], nt_notification_history = []\<rparr>"

definition demo_pending :: "unit PendingNotification list" where
  "demo_pending = find_pending demo_ext (\<lambda>_ _ _. None) 0 ''info'' notify_demo"

lemma demo_pending_key: "map pn_key demo_pending = [(''h'', ''k'', ''s'')]"
  by code_simp

theorem sent_is_not_resent_witness:
  "\<exists>n. n \<in> set demo_pending \<and> (\<forall>m \<in> set (find_pending demo_ext (\<lambda>_ _ _. None :: unit option) 1 ''info''
       (send_notifications demo_ext (\<lambda>_ _ _. None :: unit option) 0 (\<lambda>_. ''9Z'') ''info'' notify_demo)). pn_key m \<noteq> pn_key n)"
proof -
  have "demo_pending \<noteq> []" using demo_pending_key by auto
  then obtain n where n: "n \<in> set demo_pending" by (meson last_in_set)
  have "distinct (map nr_key (nt_warning_state notify_demo))" by (simp add: notify_demo_def)
  from sent_is_not_resent [OF this n [unfolded demo_pending_def]] n show ?thesis by blast
qed

theorem rollups_partition_witness:
  "mset (concat (map ru_findings (rollup_pending demo_pending))) = mset demo_pending
   \<and> map ru_host (rollup_pending demo_pending) = [''h'']"
proof -
  have "map ru_host (rollup_pending demo_pending) = [''h'']" by code_simp
  with rollups_partition [of demo_pending] show ?thesis by blast
qed

theorem paused_finding_not_announced_witness:
  "\<exists>rcpt db'. transition_finding_action demo_ext demo_action_env demo_action demo_db = Inr (rcpt, db')
     \<and> (\<forall>n \<in> set (find_pending demo_ext (\<lambda>_ _ _. None :: unit option) 0 ''info''
          \<lparr>nt_warning_state = map unsent (db_warning_state db'), nt_notification_history = []\<rparr>).
          local_key (pn_key n) \<noteq> fq_finding_key demo_action)"
proof -
  obtain rcpt db' where r: "transition_finding_action demo_ext demo_action_env demo_action demo_db = Inr (rcpt, db')"
    by (rule demo_action_result)
  have "fc_notification_effect (contract (fq_action demo_action)) = NE_Pause" by (simp add: demo_action_def)
  moreover have "map warning_state_row.truncate (map unsent (db_warning_state db')) = db_warning_state db'"
    by (simp add: o_def truncate_unsent)
  ultimately show ?thesis
    using paused_finding_not_announced [OF demo_keys r, where regime = "\<lambda>_ _ _. None :: unit option"
        and t = "\<lparr>nt_warning_state = map unsent (db_warning_state db'), nt_notification_history = []\<rparr>"] r
    by simp
qed

end
