(* ===== verification/Projection_Receipt.thy ===== *)
theory Projection_Receipt
  imports Witness_Packet
begin

text \<open>
  Projection receipts, \<open>nq.projection_receipt.v1\<close> (\<open>nq-witness\<close>,
  \<open>projection_receipt.rs\<close>): the receiver's record of an import from an external system. The
  record and its serialised form, the identity computed over it without \<open>receipt_id\<close> and
  \<open>imported_at\<close>, sealing, and the validation of the closed contract with its typed failures.

  \<open>valid_projection_receipt\<close> words the contract as the operator documentation does, and
  \<open>projection_validate_iff\<close> shows that the chain of early returns accepts exactly that. The
  locale \<open>dated_artifact\<close> states what an artifact promises whose identity leaves out the time
  of the act.
\<close>

section \<open>Receipts\<close>

definition PROJECTION_RECEIPT_SCHEMA :: string where
  "PROJECTION_RECEIPT_SCHEMA = ''nq.projection_receipt.v1''"

definition PROJECTION_RECEIPT_ESTABLISHES :: string where
  "PROJECTION_RECEIPT_ESTABLISHES =
     ''this import occurred, through this profile, with these digests and limits''"

definition PROJECTION_RECEIPT_DOES_NOT_ESTABLISH :: "string list" where
  "PROJECTION_RECEIPT_DOES_NOT_ESTABLISH =
     [''this receipt does not upgrade custody'',
      ''this receipt does not establish source truth'',
      ''this receipt does not establish admissibility'',
      ''this receipt is not a claim or claim evaluation'',
      ''this receipt does not establish or authorize reliance'',
      ''this receipt authorizes nothing and mints no authority or continuity'']"

datatype ProjectionSourceSystem = Docket | Continuity

datatype ProjectionMappingProfile = DocketDossier | ContinuityRecord

datatype ProjectionContradictionStatus = Retained

record ProjectionReceiptSource =
  ps_system :: ProjectionSourceSystem
  ps_schema :: "string option"
  ps_snapshot_identity :: "string option"
  ps_raw_digest :: string
  ps_core_digest :: "string option"
  ps_record_ref :: "string option"

record ProjectionReceiptMapping =
  pm_profile :: ProjectionMappingProfile
  pm_profile_version :: string

record ProjectionReceiptPacket =
  pp_digest :: string
  pp_witness_type :: string
  pp_subject :: string

record ProjectionReceiptSubstitution =
  sub_existing_core_digest :: string
  sub_presented_core_digest :: string

record ProjectionReceiptReplay =
  rep_outcome :: string
  rep_substitution :: "ProjectionReceiptSubstitution option"

record ProjectionReceipt =
  prc_schema :: string
  prc_receipt_id :: string
  prc_source :: ProjectionReceiptSource
  prc_mapping :: ProjectionReceiptMapping
  prc_custody_basis :: string
  prc_packet :: "ProjectionReceiptPacket option"
  prc_premises_as_coverage :: "string list"
  prc_projection_limits :: "string list"
  prc_replay :: ProjectionReceiptReplay
  prc_contradiction_status :: "ProjectionContradictionStatus option"
  prc_imported_at :: string
  prc_establishes :: string
  prc_does_not_establish :: "string list"

fun ProjectionSourceSystem_json :: "ProjectionSourceSystem \<Rightarrow> json" where
  "ProjectionSourceSystem_json Docket = JStr ''docket''"
| "ProjectionSourceSystem_json Continuity = JStr ''continuity''"

fun ProjectionMappingProfile_json :: "ProjectionMappingProfile \<Rightarrow> json" where
  "ProjectionMappingProfile_json DocketDossier = JStr ''docket_dossier''"
| "ProjectionMappingProfile_json ContinuityRecord = JStr ''continuity_record''"

fun ProjectionContradictionStatus_json :: "ProjectionContradictionStatus \<Rightarrow> json" where
  "ProjectionContradictionStatus_json Retained = JStr ''retained''"

definition ProjectionReceiptSource_json :: "ProjectionReceiptSource \<Rightarrow> json" where
  "ProjectionReceiptSource_json s = JObj
     ([(''system'', ProjectionSourceSystem_json (ps_system s))]
      @ opt_field ''schema'' JStr (ps_schema s)
      @ opt_field ''snapshot_identity'' JStr (ps_snapshot_identity s)
      @ [(''raw_digest'', JStr (ps_raw_digest s))]
      @ opt_field ''core_digest'' JStr (ps_core_digest s)
      @ opt_field ''record_ref'' JStr (ps_record_ref s))"

definition ProjectionReceiptMapping_json :: "ProjectionReceiptMapping \<Rightarrow> json" where
  "ProjectionReceiptMapping_json m = JObj
     [(''profile'', ProjectionMappingProfile_json (pm_profile m)),
      (''profile_version'', JStr (pm_profile_version m))]"

definition ProjectionReceiptPacket_json :: "ProjectionReceiptPacket \<Rightarrow> json" where
  "ProjectionReceiptPacket_json p = JObj
     [(''digest'', JStr (pp_digest p)), (''witness_type'', JStr (pp_witness_type p)),
      (''subject'', JStr (pp_subject p))]"

definition ProjectionReceiptSubstitution_json :: "ProjectionReceiptSubstitution \<Rightarrow> json" where
  "ProjectionReceiptSubstitution_json s = JObj
     [(''existing_core_digest'', JStr (sub_existing_core_digest s)),
      (''presented_core_digest'', JStr (sub_presented_core_digest s))]"

definition ProjectionReceiptReplay_json :: "ProjectionReceiptReplay \<Rightarrow> json" where
  "ProjectionReceiptReplay_json r = JObj
     ([(''outcome'', JStr (rep_outcome r))]
      @ opt_field ''substitution'' ProjectionReceiptSubstitution_json (rep_substitution r))"

definition projection_receipt_json :: "ProjectionReceipt \<Rightarrow> json" where
  "projection_receipt_json r = JObj
     ([(''schema'', JStr (prc_schema r)),
       (''receipt_id'', JStr (prc_receipt_id r)),
       (''source'', ProjectionReceiptSource_json (prc_source r)),
       (''mapping'', ProjectionReceiptMapping_json (prc_mapping r)),
       (''custody_basis'', JStr (prc_custody_basis r))]
      @ opt_field ''packet'' ProjectionReceiptPacket_json (prc_packet r)
      @ [(''premises_as_coverage'', JArr (map JStr (prc_premises_as_coverage r))),
         (''projection_limits'', JArr (map JStr (prc_projection_limits r))),
         (''replay'', ProjectionReceiptReplay_json (prc_replay r))]
      @ opt_field ''contradiction_status'' ProjectionContradictionStatus_json (prc_contradiction_status r)
      @ [(''imported_at'', JStr (prc_imported_at r)),
         (''establishes'', JStr (prc_establishes r)),
         (''does_not_establish'', JArr (map JStr (prc_does_not_establish r)))])"

section \<open>Identity\<close>

text \<open>\<open>Map::remove\<close> on a serialised object.\<close>

definition object_remove :: "string \<Rightarrow> (string \<times> json) list \<Rightarrow> (string \<times> json) list" where
  "object_remove n fs = filter (\<lambda>f. fst f \<noteq> n) fs"

definition projection_identity_value :: "ProjectionReceipt \<Rightarrow> string + json" where
  "projection_identity_value r =
     (case projection_receipt_json r of
        JObj object \<Rightarrow> Inr (JObj (object_remove ''imported_at'' (object_remove ''receipt_id'' object)))
      | _ \<Rightarrow> Inl ''projection receipt did not serialize as an object'')"

definition content_receipt_id :: "externals \<Rightarrow> ProjectionReceipt \<Rightarrow> string + ContentDigest" where
  "content_receipt_id ext r = res_bind (projection_identity_value r) (witness_digest_jcs ext)"

definition compute_receipt_id :: "externals \<Rightarrow> ProjectionReceipt \<Rightarrow> string + string" where
  "compute_receipt_id ext r = res_bind (content_receipt_id ext r) (\<lambda>d. Inr (digest_as_str d))"

text \<open>\<open>seal\<close> mutates the receipt only when the identity could be computed.\<close>

definition ProjectionReceipt_seal :: "externals \<Rightarrow> ProjectionReceipt \<Rightarrow> (string + unit) \<times> ProjectionReceipt" where
  "ProjectionReceipt_seal ext r =
     (case compute_receipt_id ext r of
        Inl e \<Rightarrow> (Inl e, r)
      | Inr i \<Rightarrow> (Inr (), r\<lparr>prc_receipt_id := i\<rparr>))"

section \<open>Validation\<close>

datatype ProjectionReceiptValidationFailure =
    PRF_UnsupportedSchema string
  | PRF_InvalidDigest string
  | PRF_EmptyField string
  | PRF_MappingProfileMismatch
  | PRF_InvalidCustodyBasis
  | PRF_EstablishesMismatch
  | PRF_NonclaimsMismatch
  | PRF_InvalidImportedAt string
  | PRF_EmptyListEntry string nat
  | PRF_UnsupportedOutcome string
  | PRF_PacketPresentOnRefusal
  | PRF_DerivedLimitsPresentOnRefusal
  | PRF_IncompleteSuccessfulSourceBinding
  | PRF_PacketRequired
  | PRF_SubstitutionRequired
  | PRF_UnexpectedSubstitution
  | PRF_IdentityComputation string
  | PRF_ReceiptIdMismatch string string

fun ProjectionReceiptValidationFailure_display :: "ProjectionReceiptValidationFailure \<Rightarrow> string" where
  "ProjectionReceiptValidationFailure_display (PRF_UnsupportedSchema found) =
     ''unsupported schema '' @ debug_str found @ ''; expected '' @ debug_str PROJECTION_RECEIPT_SCHEMA"
| "ProjectionReceiptValidationFailure_display (PRF_InvalidDigest field) =
     field @ '' must be sha256:<64 lowercase hexadecimal characters>''"
| "ProjectionReceiptValidationFailure_display (PRF_EmptyField field) = field @ '' must not be empty''"
| "ProjectionReceiptValidationFailure_display PRF_MappingProfileMismatch =
     ''mapping.profile does not match source.system''"
| "ProjectionReceiptValidationFailure_display PRF_InvalidCustodyBasis =
     ''custody_basis must be '' @ debug_str CUSTODY_BASIS_EXTERNAL_PROJECTION"
| "ProjectionReceiptValidationFailure_display PRF_EstablishesMismatch =
     ''establishes is not the fixed v1 statement''"
| "ProjectionReceiptValidationFailure_display PRF_NonclaimsMismatch =
     ''does_not_establish is not the fixed v1 nonclaim set''"
| "ProjectionReceiptValidationFailure_display (PRF_InvalidImportedAt reason) =
     ''imported_at is not RFC3339: '' @ reason"
| "ProjectionReceiptValidationFailure_display (PRF_EmptyListEntry field index) =
     field @ ''['' @ show_nat index @ ''] must not be empty''"
| "ProjectionReceiptValidationFailure_display (PRF_UnsupportedOutcome found) =
     ''replay.outcome is outside the v1 vocabulary: '' @ debug_str found"
| "ProjectionReceiptValidationFailure_display PRF_PacketPresentOnRefusal =
     ''packet must be absent on refusal''"
| "ProjectionReceiptValidationFailure_display PRF_DerivedLimitsPresentOnRefusal =
     ''premises_as_coverage and projection_limits must both be empty on refusal''"
| "ProjectionReceiptValidationFailure_display PRF_IncompleteSuccessfulSourceBinding =
     ''successful imports require complete source binding''"
| "ProjectionReceiptValidationFailure_display PRF_PacketRequired =
     ''packet is required on imported/duplicate''"
| "ProjectionReceiptValidationFailure_display PRF_SubstitutionRequired =
     ''snapshot substitution requires replay.substitution''"
| "ProjectionReceiptValidationFailure_display PRF_UnexpectedSubstitution =
     ''replay.substitution is only valid for snapshot substitution''"
| "ProjectionReceiptValidationFailure_display (PRF_IdentityComputation source) =
     ''computing receipt_id: '' @ source"
| "ProjectionReceiptValidationFailure_display (PRF_ReceiptIdMismatch stored computed) =
     ''receipt_id mismatch: stored '' @ debug_str stored @ '', computed '' @ debug_str computed"

fun projection_failure_code :: "ProjectionReceiptValidationFailure \<Rightarrow> string" where
  "projection_failure_code (PRF_UnsupportedSchema _) = ''projection_receipt.unsupported_schema''"
| "projection_failure_code (PRF_InvalidDigest _) = ''projection_receipt.invalid_digest''"
| "projection_failure_code (PRF_EmptyField _) = ''projection_receipt.empty_field''"
| "projection_failure_code PRF_MappingProfileMismatch = ''projection_receipt.mapping_profile_mismatch''"
| "projection_failure_code PRF_InvalidCustodyBasis = ''projection_receipt.invalid_custody_basis''"
| "projection_failure_code PRF_EstablishesMismatch = ''projection_receipt.establishes_mismatch''"
| "projection_failure_code PRF_NonclaimsMismatch = ''projection_receipt.nonclaims_mismatch''"
| "projection_failure_code (PRF_InvalidImportedAt _) = ''projection_receipt.invalid_timestamp''"
| "projection_failure_code (PRF_EmptyListEntry _ _) = ''projection_receipt.empty_list_entry''"
| "projection_failure_code (PRF_UnsupportedOutcome _) = ''projection_receipt.unsupported_outcome''"
| "projection_failure_code PRF_PacketPresentOnRefusal = ''projection_receipt.packet_on_refusal''"
| "projection_failure_code PRF_DerivedLimitsPresentOnRefusal =
     ''projection_receipt.derived_limits_on_refusal''"
| "projection_failure_code PRF_IncompleteSuccessfulSourceBinding =
     ''projection_receipt.incomplete_source_binding''"
| "projection_failure_code PRF_PacketRequired = ''projection_receipt.packet_required''"
| "projection_failure_code PRF_SubstitutionRequired = ''projection_receipt.substitution_required''"
| "projection_failure_code PRF_UnexpectedSubstitution = ''projection_receipt.unexpected_substitution''"
| "projection_failure_code (PRF_IdentityComputation _) = ''projection_receipt.digest_failed''"
| "projection_failure_code (PRF_ReceiptIdMismatch _ _) = ''projection_receipt.identity_mismatch''"

definition ProjectionReceiptValidationFailure_refusal :: "ProjectionReceiptValidationFailure \<Rightarrow> Refusal option" where
  "ProjectionReceiptValidationFailure_refusal f =
     fixed_refusal (projection_failure_code f)
       ''The external-projection receipt failed structural validation.''"

definition validate_digest :: "string \<Rightarrow> string \<Rightarrow> ProjectionReceiptValidationFailure + unit" where
  "validate_digest value field =
     (let valid = (case strip_prefix DIGEST_ALGORITHM_PREFIX value of
          None \<Rightarrow> False
        | Some hx \<Rightarrow> length hx = 64 \<and> list_all (\<lambda>c. in_range 48 57 c \<or> in_range 97 102 c) hx)
      in if valid then Inr () else Inl (PRF_InvalidDigest field))"

definition OUTCOMES :: "string list" where
  "OUTCOMES =
     [''imported'', ''duplicate'', ''refused:unsupported_schema'', ''refused:malformed'',
      ''refused:missing_premise'', ''refused:unenforceable_premise'', ''refused:unknown_rely_code'',
      ''refused:snapshot_substitution'', ''refused:store'']"

fun expected_profile :: "ProjectionSourceSystem \<Rightarrow> ProjectionMappingProfile" where
  "expected_profile Docket = DocketDossier"
| "expected_profile Continuity = ContinuityRecord"

definition outcome_refused :: "string \<Rightarrow> bool" where
  "outcome_refused outcome \<longleftrightarrow> strip_prefix ''refused:'' outcome \<noteq> None"

definition check_import_shape :: "ProjectionReceipt \<Rightarrow> ProjectionReceiptValidationFailure + unit" where
  "check_import_shape r =
     (if outcome_refused (rep_outcome (prc_replay r)) then
        checks
         [refuse_if (prc_packet r \<noteq> None) PRF_PacketPresentOnRefusal,
          refuse_if (prc_premises_as_coverage r \<noteq> [] \<or> prc_projection_limits r \<noteq> [])
            PRF_DerivedLimitsPresentOnRefusal]
      else
        (let source = prc_source r in
         if ps_schema source = None \<or> ps_snapshot_identity source = None
           \<or> ps_core_digest source = None \<or> ps_record_ref source = None
         then Inl PRF_IncompleteSuccessfulSourceBinding
         else case prc_packet r of
             None \<Rightarrow> Inl PRF_PacketRequired
           | Some packet \<Rightarrow>
               checks
                [validate_digest (pp_digest packet) ''packet.digest'',
                 refuse_if (trim (pp_witness_type packet) = []) (PRF_EmptyField ''packet.witness_type''),
                 refuse_if (trim (pp_subject packet) = []) (PRF_EmptyField ''packet.subject'')]))"

definition check_substitution :: "ProjectionReceiptReplay \<Rightarrow> ProjectionReceiptValidationFailure + unit" where
  "check_substitution replay =
     (case rep_substitution replay of
        Some substitution \<Rightarrow>
          if rep_outcome replay = ''refused:snapshot_substitution'' then
            checks
             [validate_digest (sub_existing_core_digest substitution) ''replay.substitution.existing_core_digest'',
              validate_digest (sub_presented_core_digest substitution) ''replay.substitution.presented_core_digest'']
          else Inl PRF_UnexpectedSubstitution
      | None \<Rightarrow>
          if rep_outcome replay = ''refused:snapshot_substitution'' then Inl PRF_SubstitutionRequired
          else Inr ())"

definition check_receipt_id :: "externals \<Rightarrow> ProjectionReceipt \<Rightarrow> ProjectionReceiptValidationFailure + unit" where
  "check_receipt_id ext r =
     res_bind (map_err PRF_IdentityComputation (compute_receipt_id ext r))
       (\<lambda>computed. refuse_if (prc_receipt_id r \<noteq> computed) (PRF_ReceiptIdMismatch (prc_receipt_id r) computed))"

definition projection_validate_typed ::
  "externals \<Rightarrow> ProjectionReceipt \<Rightarrow> ProjectionReceiptValidationFailure + unit"
where
  "projection_validate_typed ext r =
     (let source = prc_source r; mapping = prc_mapping r in
      checks
       [refuse_if (prc_schema r \<noteq> PROJECTION_RECEIPT_SCHEMA) (PRF_UnsupportedSchema (prc_schema r)),
        validate_digest (prc_receipt_id r) ''receipt_id'',
        validate_digest (ps_raw_digest source) ''source.raw_digest'',
        (case ps_core_digest source of None \<Rightarrow> Inr () | Some d \<Rightarrow> validate_digest d ''source.core_digest''),
        for_each
          (\<lambda>(field, value). refuse_if (case value of None \<Rightarrow> False | Some v \<Rightarrow> trim v = []) (PRF_EmptyField field))
          [(''source.schema'', ps_schema source),
           (''source.snapshot_identity'', ps_snapshot_identity source),
           (''source.record_ref'', ps_record_ref source)],
        refuse_if (pm_profile mapping \<noteq> expected_profile (ps_system source)) PRF_MappingProfileMismatch,
        validate_digest (pm_profile_version mapping) ''mapping.profile_version'',
        refuse_if (prc_custody_basis r \<noteq> CUSTODY_BASIS_EXTERNAL_PROJECTION) PRF_InvalidCustodyBasis,
        refuse_if (prc_establishes r \<noteq> PROJECTION_RECEIPT_ESTABLISHES) PRF_EstablishesMismatch,
        refuse_if (prc_does_not_establish r \<noteq> PROJECTION_RECEIPT_DOES_NOT_ESTABLISH) PRF_NonclaimsMismatch,
        map_err PRF_InvalidImportedAt (discard (rfc3339_parse ext (prc_imported_at r))),
        for_each
          (\<lambda>(field, values).
             for_each (\<lambda>(index, value). refuse_if (trim value = []) (PRF_EmptyListEntry field index))
               (enumerate 0 values))
          [(''premises_as_coverage'', prc_premises_as_coverage r),
           (''projection_limits'', prc_projection_limits r)],
        refuse_if (rep_outcome (prc_replay r) \<notin> set OUTCOMES) (PRF_UnsupportedOutcome (rep_outcome (prc_replay r))),
        check_import_shape r,
        check_substitution (prc_replay r),
        check_receipt_id ext r])"

definition ProjectionReceipt_validate :: "externals \<Rightarrow> ProjectionReceipt \<Rightarrow> string + unit" where
  "ProjectionReceipt_validate ext r =
     map_err ProjectionReceiptValidationFailure_display (projection_validate_typed ext r)"

section \<open>The identity material\<close>

definition projection_material :: "ProjectionReceipt \<Rightarrow> json" where
  "projection_material r = JObj
     ([(''schema'', JStr (prc_schema r)),
       (''source'', ProjectionReceiptSource_json (prc_source r)),
       (''mapping'', ProjectionReceiptMapping_json (prc_mapping r)),
       (''custody_basis'', JStr (prc_custody_basis r))]
      @ opt_field ''packet'' ProjectionReceiptPacket_json (prc_packet r)
      @ [(''premises_as_coverage'', JArr (map JStr (prc_premises_as_coverage r))),
         (''projection_limits'', JArr (map JStr (prc_projection_limits r))),
         (''replay'', ProjectionReceiptReplay_json (prc_replay r))]
      @ opt_field ''contradiction_status'' ProjectionContradictionStatus_json (prc_contradiction_status r)
      @ [(''establishes'', JStr (prc_establishes r)),
         (''does_not_establish'', JArr (map JStr (prc_does_not_establish r)))])"

lemma object_remove_simps [simp]:
  "object_remove n [] = []"
  "object_remove n (f # fs) = (if fst f = n then object_remove n fs else f # object_remove n fs)"
  "object_remove n (fs @ gs) = object_remove n fs @ object_remove n gs"
  "object_remove n (opt_field m g x) = (if m = n then [] else opt_field m g x)"
  by (auto simp: object_remove_def opt_field_def split: option.splits)

lemma projection_identity_value_eq: "projection_identity_value r = Inr (projection_material r)"
  by (simp add: projection_identity_value_def projection_receipt_json_def projection_material_def)

lemma compute_receipt_id_eq: "compute_receipt_id ext r = digest_jcs ext (projection_material r)"
  by (simp add: compute_receipt_id_def content_receipt_id_def projection_identity_value_eq
      witness_digest_jcs_eq split: sum.splits)

lemma projection_material_updates [simp]:
  "projection_material (r\<lparr>prc_receipt_id := i\<rparr>) = projection_material r"
  "projection_material (r\<lparr>prc_imported_at := t\<rparr>) = projection_material r"
  by (simp_all add: projection_material_def)

text \<open>Each part of a receipt is determined by its serialised form.\<close>

lemma source_system_json_inject [simp]:
  "ProjectionSourceSystem_json a = ProjectionSourceSystem_json b \<longleftrightarrow> a = b"
  by (cases a; cases b) simp_all

lemma mapping_profile_json_inject [simp]:
  "ProjectionMappingProfile_json a = ProjectionMappingProfile_json b \<longleftrightarrow> a = b"
  by (cases a; cases b) simp_all

lemma mapping_json_inject [simp]:
  "ProjectionReceiptMapping_json a = ProjectionReceiptMapping_json b \<longleftrightarrow> a = b"
  by (cases a; cases b) (simp add: ProjectionReceiptMapping_json_def)

lemma receipt_source_lookup:
  "json_field (ProjectionReceiptSource_json s) ''system'' = Some (ProjectionSourceSystem_json (ps_system s))"
  "json_field (ProjectionReceiptSource_json s) ''schema'' = map_option JStr (ps_schema s)"
  "json_field (ProjectionReceiptSource_json s) ''snapshot_identity'' = map_option JStr (ps_snapshot_identity s)"
  "json_field (ProjectionReceiptSource_json s) ''raw_digest'' = Some (JStr (ps_raw_digest s))"
  "json_field (ProjectionReceiptSource_json s) ''core_digest'' = map_option JStr (ps_core_digest s)"
  "json_field (ProjectionReceiptSource_json s) ''record_ref'' = map_option JStr (ps_record_ref s)"
  by (simp_all add: ProjectionReceiptSource_json_def json_lookup case_option_map_option del: map_of_append
      split: option.split)

lemma replay_lookup:
  "json_field (ProjectionReceiptReplay_json p) ''outcome'' = Some (JStr (rep_outcome p))"
  "json_field (ProjectionReceiptReplay_json p) ''substitution'' =
     map_option ProjectionReceiptSubstitution_json (rep_substitution p)"
  by (simp_all add: ProjectionReceiptReplay_json_def json_lookup)

lemma projection_material_lookup:
  "json_field (projection_material r) ''schema'' = Some (JStr (prc_schema r))"
  "json_field (projection_material r) ''source'' = Some (ProjectionReceiptSource_json (prc_source r))"
  "json_field (projection_material r) ''mapping'' = Some (ProjectionReceiptMapping_json (prc_mapping r))"
  "json_field (projection_material r) ''custody_basis'' = Some (JStr (prc_custody_basis r))"
  "json_field (projection_material r) ''packet'' = map_option ProjectionReceiptPacket_json (prc_packet r)"
  "json_field (projection_material r) ''premises_as_coverage'' = Some (JArr (map JStr (prc_premises_as_coverage r)))"
  "json_field (projection_material r) ''projection_limits'' = Some (JArr (map JStr (prc_projection_limits r)))"
  "json_field (projection_material r) ''replay'' = Some (ProjectionReceiptReplay_json (prc_replay r))"
  "json_field (projection_material r) ''contradiction_status'' =
     map_option ProjectionContradictionStatus_json (prc_contradiction_status r)"
  "json_field (projection_material r) ''establishes'' = Some (JStr (prc_establishes r))"
  "json_field (projection_material r) ''does_not_establish'' = Some (JArr (map JStr (prc_does_not_establish r)))"
  by (simp_all add: projection_material_def json_lookup case_option_map_option del: map_of_append split: option.split)

lemma receipt_source_json_inject [simp]:
  "ProjectionReceiptSource_json a = ProjectionReceiptSource_json b \<longleftrightarrow> a = b"
proof
  assume eq: "ProjectionReceiptSource_json a = ProjectionReceiptSource_json b"
  have f: "json_field (ProjectionReceiptSource_json a) n = json_field (ProjectionReceiptSource_json b) n" for n
    using eq by simp
  show "a = b"
    using f [of "''system''"] f [of "''schema''"] f [of "''snapshot_identity''"] f [of "''raw_digest''"]
      f [of "''core_digest''"] f [of "''record_ref''"]
    unfolding receipt_source_lookup by (cases a; cases b) simp
qed simp

lemma inj_projection_parts [simp]:
  "inj ProjectionReceiptPacket_json" "inj ProjectionReceiptSubstitution_json"
  "inj ProjectionContradictionStatus_json"
proof -
  show "inj ProjectionReceiptPacket_json"
    by (rule injI, rename_tac a b, case_tac a, case_tac b) (simp add: ProjectionReceiptPacket_json_def)
  show "inj ProjectionReceiptSubstitution_json"
    by (rule injI, rename_tac a b, case_tac a, case_tac b) (simp add: ProjectionReceiptSubstitution_json_def)
  show "inj ProjectionContradictionStatus_json"
    by (rule injI, rename_tac a b, case_tac a, case_tac b) simp
qed

lemma replay_json_inject [simp]: "ProjectionReceiptReplay_json a = ProjectionReceiptReplay_json b \<longleftrightarrow> a = b"
proof
  assume eq: "ProjectionReceiptReplay_json a = ProjectionReceiptReplay_json b"
  show "a = b"
    using json_fields_eq [OF eq, of "''outcome''"] json_fields_eq [OF eq, of "''substitution''"]
    unfolding replay_lookup by (cases a; cases b) simp
qed simp

lemma projection_material_inject:
  assumes eq: "projection_material r = projection_material s"
    and "prc_receipt_id r = prc_receipt_id s" "prc_imported_at r = prc_imported_at s"
  shows "r = s"
proof -
  note f = json_fields_eq [OF eq]
  show ?thesis
    using assms(2,3) f [of "''schema''"] f [of "''source''"] f [of "''mapping''"] f [of "''custody_basis''"]
      f [of "''packet''"] f [of "''premises_as_coverage''"] f [of "''projection_limits''"]
      f [of "''replay''"] f [of "''contradiction_status''"] f [of "''establishes''"]
      f [of "''does_not_establish''"]
    unfolding projection_material_lookup by (cases r; cases s) simp
qed

section \<open>Artifacts whose identity leaves out a date\<close>

text \<open>
  The provider promises that neither the identity nor the date is part of the material, that
  both can be read back, and that material, identity and date determine the artifact. A client
  gets that an artifact sealed at one time verifies at any other, and that, short of a
  collision, two verified artifacts of one identity differ at most in their date.
\<close>

locale dated_artifact =
  fixes material :: "'a \<Rightarrow> json"
    and identity_of :: "'a \<Rightarrow> string"
    and put_identity :: "string \<Rightarrow> 'a \<Rightarrow> 'a"
    and date_of :: "'a \<Rightarrow> string"
    and put_date :: "string \<Rightarrow> 'a \<Rightarrow> 'a"
  assumes material_put_identity: "material (put_identity i x) = material x"
    and material_put_date: "material (put_date t x) = material x"
    and identity_put_identity: "identity_of (put_identity i x) = i"
    and identity_put_date: "identity_of (put_date t x) = identity_of x"
    and date_put_date: "date_of (put_date t x) = t"
    and material_determines:
      "material x = material y \<Longrightarrow> identity_of x = identity_of y \<Longrightarrow> date_of x = date_of y \<Longrightarrow> x = y"
begin

lemma redated_verifies:
  "digest_jcs ext (material x) = Inr d \<Longrightarrow>
     digest_jcs ext (material (put_date t (put_identity d x))) = Inr (identity_of (put_date t (put_identity d x)))"
  by (simp add: material_put_identity material_put_date identity_put_identity identity_put_date)

lemma same_identity_redated:
  "digest_jcs ext (material x) = Inr (identity_of x) \<Longrightarrow>
   digest_jcs ext (material y) = Inr (identity_of y) \<Longrightarrow>
   identity_of x = identity_of y \<Longrightarrow> no_collision ext (material x) (material y) \<Longrightarrow>
   put_date (date_of y) x = y"
  by (metis date_put_date identity_put_date material_determines material_put_date no_collisionD)

end

interpretation projection_artifact: dated_artifact projection_material prc_receipt_id
  "\<lambda>i. prc_receipt_id_update (\<lambda>_. i)" prc_imported_at "\<lambda>t. prc_imported_at_update (\<lambda>_. t)"
  by unfold_locales (simp_all add: projection_material_inject)

section \<open>The contract\<close>

text \<open>
  The contract of \<open>nq.projection_receipt.v1\<close> as the operator documentation words it: fixed
  schema, custody basis, statement and nonclaims; digests of the closed shape; the profile of
  the source system; no blank text; an outcome of the vocabulary. A refusal carries no packet
  and no limits, a success carries a complete source binding and the packet, and exactly a
  snapshot substitution carries the pair of core digests.
\<close>

definition complete_binding :: "ProjectionReceipt \<Rightarrow> bool" where
  "complete_binding r \<longleftrightarrow>
     ps_schema (prc_source r) \<noteq> None \<and> ps_snapshot_identity (prc_source r) \<noteq> None
     \<and> ps_core_digest (prc_source r) \<noteq> None \<and> ps_record_ref (prc_source r) \<noteq> None
     \<and> (\<exists>p. prc_packet r = Some p \<and> is_sha256_digest (pp_digest p)
          \<and> trim (pp_witness_type p) \<noteq> [] \<and> trim (pp_subject p) \<noteq> [])"

definition valid_import_shape :: "ProjectionReceipt \<Rightarrow> bool" where
  "valid_import_shape r \<longleftrightarrow>
     (if outcome_refused (rep_outcome (prc_replay r))
      then prc_packet r = None \<and> prc_premises_as_coverage r = [] \<and> prc_projection_limits r = []
      else complete_binding r)"

definition valid_substitution :: "ProjectionReceiptReplay \<Rightarrow> bool" where
  "valid_substitution p \<longleftrightarrow>
     (rep_substitution p \<noteq> None \<longleftrightarrow> rep_outcome p = ''refused:snapshot_substitution'')
     \<and> (\<forall>s. rep_substitution p = Some s \<longrightarrow>
          is_sha256_digest (sub_existing_core_digest s) \<and> is_sha256_digest (sub_presented_core_digest s))"

definition present_not_blank :: "string option \<Rightarrow> bool" where
  "present_not_blank x \<longleftrightarrow> (\<forall>v. x = Some v \<longrightarrow> trim v \<noteq> [])"

definition valid_source :: "ProjectionReceiptSource \<Rightarrow> bool" where
  "valid_source s \<longleftrightarrow>
     is_sha256_digest (ps_raw_digest s) \<and> (\<forall>d. ps_core_digest s = Some d \<longrightarrow> is_sha256_digest d)
     \<and> present_not_blank (ps_schema s) \<and> present_not_blank (ps_snapshot_identity s)
     \<and> present_not_blank (ps_record_ref s)"

definition well_formed_projection :: "externals \<Rightarrow> ProjectionReceipt \<Rightarrow> bool" where
  "well_formed_projection ext r \<longleftrightarrow>
     prc_schema r = PROJECTION_RECEIPT_SCHEMA \<and> valid_source (prc_source r)
     \<and> pm_profile (prc_mapping r) = expected_profile (ps_system (prc_source r))
     \<and> is_sha256_digest (pm_profile_version (prc_mapping r))
     \<and> prc_custody_basis r = CUSTODY_BASIS_EXTERNAL_PROJECTION
     \<and> prc_establishes r = PROJECTION_RECEIPT_ESTABLISHES
     \<and> prc_does_not_establish r = PROJECTION_RECEIPT_DOES_NOT_ESTABLISH
     \<and> is_ok (rfc3339_parse ext (prc_imported_at r))
     \<and> (\<forall>l \<in> set (prc_premises_as_coverage r @ prc_projection_limits r). trim l \<noteq> [])
     \<and> rep_outcome (prc_replay r) \<in> set OUTCOMES
     \<and> valid_import_shape r \<and> valid_substitution (prc_replay r)"

definition valid_projection_receipt :: "externals \<Rightarrow> ProjectionReceipt \<Rightarrow> bool" where
  "valid_projection_receipt ext r \<longleftrightarrow>
     well_formed_projection ext r \<and> is_sha256_digest (prc_receipt_id r)
     \<and> digest_jcs ext (projection_material r) = Inr (prc_receipt_id r)"

lemma validate_digest_ok [res_ok]: "validate_digest v f = Inr () \<longleftrightarrow> is_sha256_digest v"
  by (simp add: validate_digest_def is_sha256_digest_def is_lower_hex_def [abs_def] is_digit_def Let_def
      split: option.splits)

lemma check_import_shape_ok [res_ok]: "check_import_shape r = Inr () \<longleftrightarrow> valid_import_shape r"
  by (auto simp: check_import_shape_def valid_import_shape_def complete_binding_def Let_def res_ok
      split: option.splits)

lemma check_substitution_ok [res_ok]: "check_substitution p = Inr () \<longleftrightarrow> valid_substitution p"
  by (auto simp: check_substitution_def valid_substitution_def res_ok split: option.splits)

lemma check_receipt_id_ok [res_ok]:
  "check_receipt_id ext r = Inr () \<longleftrightarrow> digest_jcs ext (projection_material r) = Inr (prc_receipt_id r)"
  by (auto simp: check_receipt_id_def compute_receipt_id_eq res_ok)

lemmas list_entries_checked = enumerate_checked [where f = "\<lambda>i l. refuse_if (trim l = []) (PRF_EmptyListEntry n i)"
    and P = "\<lambda>l. trim l \<noteq> []", OF refuse_if_ok] for n

lemma not_blank_checked: "\<not> (case x of None \<Rightarrow> False | Some v \<Rightarrow> trim v = []) \<longleftrightarrow> present_not_blank x"
  by (cases x) (simp_all add: present_not_blank_def)

lemma projection_validate_iff [res_ok]:
  "projection_validate_typed ext r = Inr () \<longleftrightarrow> valid_projection_receipt ext r"
  by (simp add: projection_validate_typed_def valid_projection_receipt_def well_formed_projection_def
      valid_source_def Let_def res_ok not_blank_checked list_entries_checked ball_Un)
    blast

lemma ProjectionReceipt_validate_ok [res_ok]:
  "ProjectionReceipt_validate ext r = Inr () \<longleftrightarrow> valid_projection_receipt ext r"
  by (simp add: ProjectionReceipt_validate_def res_ok)

lemma seal_projection:
  assumes "jcs_total ext"
  obtains i where "ProjectionReceipt_seal ext r = (Inr (), r\<lparr>prc_receipt_id := i\<rparr>)"
    "digest_jcs ext (projection_material r) = Inr i"
  using digest_jcs_total [OF assms, of "projection_material r"]
  by (auto simp: ProjectionReceipt_seal_def compute_receipt_id_eq)

lemma well_formed_updates [simp]:
  "well_formed_projection ext (r\<lparr>prc_receipt_id := i\<rparr>) = well_formed_projection ext r"
  by (simp add: well_formed_projection_def valid_import_shape_def complete_binding_def)

lemma sealed_projection_valid:
  assumes "jcs_total ext" "sha256_shape ext"
  shows "valid_projection_receipt ext (snd (ProjectionReceipt_seal ext r)) \<longleftrightarrow> well_formed_projection ext r"
proof -
  obtain i where "ProjectionReceipt_seal ext r = (Inr (), r\<lparr>prc_receipt_id := i\<rparr>)"
    "digest_jcs ext (projection_material r) = Inr i"
    using assms(1) by (rule seal_projection)
  with digest_jcs_shape [OF assms(2)] show ?thesis by (simp add: valid_projection_receipt_def)
qed

lemma projection_failure_code_valid: "validate_code (projection_failure_code f) = Inr ()"
  by (cases f)
    (simp_all add: validate_code_ok MAX_REFUSAL_CODE_LEN_def is_ascii_def code_segment_def code_char_def
      is_lower_def is_digit_def in_range_def)

lemma projection_message_printable:
  "printable ''The external-projection receipt failed structural validation.''"
  by code_simp

text \<open>
  Every structural failure of a projection receipt is reported: the refusal of any
  validation failure is constructed without a panic, with a code of the protocol's grammar.
\<close>

lemma projection_failure_refusal:
  "ProjectionReceiptValidationFailure_refusal f =
     Some \<lparr>rf_code = RefusalCode (projection_failure_code f),
           rf_message = ''The external-projection receipt failed structural validation.'',
           rf_retryable = False, rf_artifact_ref = None\<rparr>"
  by (simp add: ProjectionReceiptValidationFailure_refusal_def fixed_refusal_def expect_def
      RefusalCode_new_def projection_failure_code_valid Refusal_new_printable projection_message_printable)

section \<open>Properties\<close>

text \<open>
  Sealing makes a receipt valid exactly when it meets the contract, at whatever time the
  import is repeated: the identity leaves out the time, so the receipt sealed once and dated
  again with any RFC 3339 time validates under the same identity; and, short of a collision of
  the digest, a valid receipt of that identity is this one up to its date.
\<close>

theorem projection_identity_undated:
  assumes "jcs_total ext" "sha256_shape ext" "is_ok (rfc3339_parse ext t)"
    and "is_ok (rfc3339_parse ext (prc_imported_at r))"
  defines "s \<equiv> snd (ProjectionReceipt_seal ext r)"
  shows "(ProjectionReceipt_validate ext s = Inr () \<longleftrightarrow> well_formed_projection ext r)
     \<and> (ProjectionReceipt_validate ext (s\<lparr>prc_imported_at := t\<rparr>) = Inr () \<longleftrightarrow> well_formed_projection ext r)
     \<and> (\<forall>q. ProjectionReceipt_validate ext q = Inr () \<and> prc_receipt_id q = prc_receipt_id s
          \<and> no_collision ext (projection_material s) (projection_material q)
          \<longrightarrow> s\<lparr>prc_imported_at := prc_imported_at q\<rparr> = q)"
proof (intro conjI allI impI)
  obtain i where s: "s = r\<lparr>prc_receipt_id := i\<rparr>" and i: "digest_jcs ext (projection_material r) = Inr i"
    using seal_projection [OF assms(1), of r] unfolding s_def by (metis snd_conv)
  show "ProjectionReceipt_validate ext s = Inr () \<longleftrightarrow> well_formed_projection ext r"
    unfolding s_def by (simp add: res_ok sealed_projection_valid assms(1,2))
  have "well_formed_projection ext (s\<lparr>prc_imported_at := t\<rparr>) \<longleftrightarrow> well_formed_projection ext r"
    using assms(3,4)
    by (simp add: s well_formed_projection_def valid_import_shape_def complete_binding_def)
  with i digest_jcs_shape [OF assms(2) i]
  show "ProjectionReceipt_validate ext (s\<lparr>prc_imported_at := t\<rparr>) = Inr () \<longleftrightarrow> well_formed_projection ext r"
    by (simp add: res_ok valid_projection_receipt_def s)
  show "s\<lparr>prc_imported_at := prc_imported_at q\<rparr> = q"
    if "ProjectionReceipt_validate ext q = Inr () \<and> prc_receipt_id q = prc_receipt_id s
      \<and> no_collision ext (projection_material s) (projection_material q)" for q
    using projection_artifact.same_identity_redated [of ext s q] that i
    by (simp add: res_ok valid_projection_receipt_def s)
qed

definition demo_projection :: ProjectionReceipt where
  "demo_projection =
     \<lparr>prc_schema = ''nq.projection_receipt.v1'', prc_receipt_id = [],
      prc_source = \<lparr>ps_system = Continuity, ps_schema = None, ps_snapshot_identity = None,
        ps_raw_digest = ''sha256:'' @ replicate 64 (CHR ''1''), ps_core_digest = None, ps_record_ref = None\<rparr>,
      prc_mapping = \<lparr>pm_profile = ContinuityRecord, pm_profile_version = ''sha256:'' @ replicate 64 (CHR ''2'')\<rparr>,
      prc_custody_basis = ''external_projection'', prc_packet = None, prc_premises_as_coverage = [],
      prc_projection_limits = [],
      prc_replay = \<lparr>rep_outcome = ''refused:malformed'', rep_substitution = None\<rparr>,
      prc_contradiction_status = None, prc_imported_at = ''2026Z'',
      prc_establishes = PROJECTION_RECEIPT_ESTABLISHES,
      prc_does_not_establish = PROJECTION_RECEIPT_DOES_NOT_ESTABLISH\<rparr>"

lemma replicate_digest: "is_lower_hex c \<Longrightarrow> is_sha256_digest (''sha256:'' @ replicate 64 c)"
  by (simp add: is_sha256_digest_def DIGEST_ALGORITHM_PREFIX_def list_all_iff)

lemma demo_projection_well_formed: "well_formed_projection demo_ext demo_projection"
proof -
  have "is_sha256_digest (''sha256:'' @ replicate 64 (CHR ''1''))" "is_sha256_digest (''sha256:'' @ replicate 64 (CHR ''2''))"
    by (rule replicate_digest, simp add: is_lower_hex_def is_digit_def in_range_def)+
  then show ?thesis
    by (simp add: well_formed_projection_def demo_projection_def valid_source_def present_not_blank_def
        valid_import_shape_def valid_substitution_def outcome_refused_def OUTCOMES_def
        PROJECTION_RECEIPT_SCHEMA_def CUSTODY_BASIS_EXTERNAL_PROJECTION_def demo_ext_def
        del: append.simps)
qed

theorem projection_identity_undated_witness:
  "ProjectionReceipt_validate demo_ext (snd (ProjectionReceipt_seal demo_ext demo_projection)\<lparr>prc_imported_at := ''2027-01-01Z''\<rparr>) = Inr ()"
proof -
  have t: "is_ok (rfc3339_parse demo_ext ''2027-01-01Z'')" "is_ok (rfc3339_parse demo_ext (prc_imported_at demo_projection))"
    by (simp_all add: demo_ext_def demo_projection_def)
  show ?thesis
    using projection_identity_undated [OF demo_ext_total demo_ext_shape t] demo_projection_well_formed
    by simp
qed

text \<open>
  The documentation of the substitution record calls the presented digest a different one; the
  validation does not compare the two.
\<close>

theorem equal_substitution_validates:
  assumes "jcs_total ext" "sha256_shape ext" "well_formed_projection ext r" "is_sha256_digest d"
    and "outcome_refused (rep_outcome (prc_replay r))"
  shows "ProjectionReceipt_validate ext
     (snd (ProjectionReceipt_seal ext (r\<lparr>prc_replay := \<lparr>rep_outcome = ''refused:snapshot_substitution'',
        rep_substitution = Some \<lparr>sub_existing_core_digest = d, sub_presented_core_digest = d\<rparr>\<rparr>\<rparr>))) = Inr ()"
  using assms(3-5)
  by (simp add: res_ok sealed_projection_valid [OF assms(1,2)] well_formed_projection_def
      valid_import_shape_def valid_substitution_def outcome_refused_def OUTCOMES_def)

end
