(* ===== verification/Serde_Wire.thy ===== *)
theory Serde_Wire
  imports Projection_Receipt "HOL-Library.Monad_Syntax"
begin

text \<open>
  Reading artifacts back from bytes, as the import of external records does it. The JSON
  parser and printer of \<open>serde_json\<close> are parameters (\<open>serde\<close>): \<open>parse_doc\<close> gives the syntax
  tree of a document, its objects as the list of their members in the order of the text,
  repeated keys included.

  \<^item> \<open>json_value\<close> is \<open>serde_json::Value\<close> of a tree: every object becomes a \<open>BTreeMap\<close>, sorted by
    key, the last of repeated members kept. \<open>btree\<close> is also what \<open>json!\<close> and
    \<open>Map::insert\<close> build.
  \<^item> \<open>struct_fields\<close> is the decoder that \<open>derive(Deserialize)\<close> with \<open>deny_unknown_fields\<close>
    generates for a struct: it reads an object or, as the generated visitor also does, an
    array of the fields in order.
  \<^item> \<open>packet_of_doc\<close> and \<open>projection_of_doc\<close> decode the two artifacts that are read back.

  The lemmas \<open>packet_roundtrip\<close> and \<open>projection_roundtrip\<close> show that decoding inverts the
  serialised forms. A prefix code with its decoder, \<open>demo_serde\<close>, shows that the hypothesis
  on the third-party parser can hold.
\<close>

section \<open>Documents and values\<close>

record serde =
  parse_doc :: "string \<Rightarrow> string + json"
  to_vec_pretty :: "json \<Rightarrow> string + string"
  decode_message :: "string \<Rightarrow> json \<Rightarrow> string"

fun btree_insert :: "string \<Rightarrow> json \<Rightarrow> (string \<times> json) list \<Rightarrow> (string \<times> json) list" where
  "btree_insert k v [] = [(k, v)]"
| "btree_insert k v (e # m) =
     (if k = fst e then (k, v) # m
      else if k < fst e then (k, v) # e # m
      else e # btree_insert k v m)"

definition btree :: "(string \<times> json) list \<Rightarrow> (string \<times> json) list" where
  "btree fs = fold (\<lambda>(k, v). btree_insert k v) fs []"

fun json_value :: "json \<Rightarrow> json" where
  "json_value (JArr vs) = JArr (map json_value vs)"
| "json_value (JObj fs) = JObj (btree (map (\<lambda>f. (fst f, json_value (snd f))) fs))"
| "json_value v = v"

definition value_from_slice :: "serde \<Rightarrow> string \<Rightarrow> string + json" where
  "value_from_slice sd bytes = res_bind (parse_doc sd bytes) (\<lambda>v. Inr (json_value v))"

fun as_str :: "json \<Rightarrow> string option" where
  "as_str (JStr s) = Some s"
| "as_str _ = None"

fun as_array :: "json \<Rightarrow> json list option" where
  "as_array (JArr vs) = Some vs"
| "as_array _ = None"

section \<open>Derived decoders\<close>

text \<open>
  A field is required, or an \<open>Option\<close> that may be missing from an object, or carries
  \<open>serde(default)\<close> and may also be missing from the end of an array.
\<close>

datatype field_presence = Required | Nullable | Defaulted

fun struct_fields :: "(string \<times> field_presence) list \<Rightarrow> json \<Rightarrow> json option list option" where
  "struct_fields spec (JObj fs) =
     (if distinct (map fst fs) \<and> list_all (\<lambda>f. fst f \<in> fst ` set spec) fs
         \<and> list_all (\<lambda>(n, p). p = Required \<longrightarrow> map_of fs n \<noteq> None) spec
      then Some (map (\<lambda>(n, p). map_of fs n) spec) else None)"
| "struct_fields spec (JArr vs) =
     (if length vs \<le> length spec \<and> list_all (\<lambda>(n, p). p = Defaulted) (drop (length vs) spec)
      then Some (map Some vs @ replicate (length spec - length vs) None) else None)"
| "struct_fields spec _ = None"

fun decode_bool :: "json \<Rightarrow> bool option" where
  "decode_bool (JBool b) = Some b"
| "decode_bool _ = None"

fun decode_u64 :: "json \<Rightarrow> u64 option" where
  "decode_u64 (JInt i) = (if 0 \<le> i \<and> i < 2 ^ 64 then Some (word_of_int i) else None)"
| "decode_u64 _ = None"

definition decode_req :: "(json \<Rightarrow> 'a option) \<Rightarrow> json option \<Rightarrow> 'a option" where
  "decode_req d x = Option.bind x d"

fun decode_opt :: "(json \<Rightarrow> 'a option) \<Rightarrow> json option \<Rightarrow> 'a option option" where
  "decode_opt d None = Some None"
| "decode_opt d (Some JNull) = Some None"
| "decode_opt d (Some v) = map_option Some (d v)"

fun decode_vec :: "(json \<Rightarrow> 'a option) \<Rightarrow> json \<Rightarrow> 'a list option" where
  "decode_vec d (JArr vs) = those (map d vs)"
| "decode_vec d _ = None"

definition decode_default_vec :: "(json \<Rightarrow> 'a option) \<Rightarrow> json option \<Rightarrow> 'a list option" where
  "decode_default_vec d x = (case x of None \<Rightarrow> Some [] | Some v \<Rightarrow> decode_vec d v)"

text \<open>A unit variant is its name, or an object with the name as its only key and null below it.\<close>

fun variant_name :: "json \<Rightarrow> string option" where
  "variant_name (JStr s) = Some s"
| "variant_name (JObj [(s, JNull)]) = Some s"
| "variant_name _ = None"

definition decode_variant :: "(string \<times> 'a) list \<Rightarrow> json \<Rightarrow> 'a option" where
  "decode_variant vs v = Option.bind (variant_name v) (map_of vs)"

section \<open>Witness packets and projection receipts\<close>

definition packet_spec :: "(string \<times> field_presence) list" where
  "packet_spec =
     [(''schema'', Required), (''witness_type'', Required), (''subject'', Required),
      (''access_path'', Required), (''observed_at'', Required), (''generated_at'', Required),
      (''observations'', Required), (''coverage_limits'', Required), (''dependencies'', Defaulted),
      (''custody_basis'', Defaulted), (''source_finding_ref'', Defaulted),
      (''projection_limits'', Defaulted), (''position'', Defaulted)]"

definition decode_position :: "json \<Rightarrow> WitnessPosition option" where
  "decode_position = decode_variant
     [(''substrate'', Substrate), (''application_internal'', ApplicationInternal), (''platform'', Platform)]"

definition packet_of_doc :: "json \<Rightarrow> WitnessPacket option" where
  "packet_of_doc v = do {
     fs \<leftarrow> struct_fields packet_spec v;
     schema \<leftarrow> decode_req as_str (fs ! 0);
     witness_type \<leftarrow> decode_req as_str (fs ! 1);
     subject \<leftarrow> decode_req as_str (fs ! 2);
     access_path \<leftarrow> decode_req as_str (fs ! 3);
     observed_at \<leftarrow> decode_req as_str (fs ! 4);
     generated_at \<leftarrow> decode_req as_str (fs ! 5);
     observations \<leftarrow> decode_req (decode_vec (\<lambda>v. Some (json_value v))) (fs ! 6);
     coverage_limits \<leftarrow> decode_req (decode_vec as_str) (fs ! 7);
     dependencies \<leftarrow> decode_default_vec as_str (fs ! 8);
     custody_basis \<leftarrow> decode_opt as_str (fs ! 9);
     source_finding_ref \<leftarrow> decode_opt as_str (fs ! 10);
     projection_limits \<leftarrow> decode_default_vec as_str (fs ! 11);
     position \<leftarrow> decode_opt decode_position (fs ! 12);
     Some \<lparr>wp_schema = schema, wp_witness_type = witness_type, wp_subject = subject,
       wp_access_path = access_path, wp_observed_at = observed_at, wp_generated_at = generated_at,
       wp_observations = observations, wp_coverage_limits = coverage_limits,
       wp_dependencies = dependencies, wp_custody_basis = custody_basis,
       wp_source_finding_ref = source_finding_ref, wp_projection_limits = projection_limits,
       wp_position = position\<rparr> }"

definition decode_source_system :: "json \<Rightarrow> ProjectionSourceSystem option" where
  "decode_source_system = decode_variant [(''docket'', Docket), (''continuity'', Continuity)]"

definition decode_mapping_profile :: "json \<Rightarrow> ProjectionMappingProfile option" where
  "decode_mapping_profile =
     decode_variant [(''docket_dossier'', DocketDossier), (''continuity_record'', ContinuityRecord)]"

definition decode_receipt_source :: "json \<Rightarrow> ProjectionReceiptSource option" where
  "decode_receipt_source v = do {
     fs \<leftarrow> struct_fields
       [(''system'', Required), (''schema'', Defaulted), (''snapshot_identity'', Defaulted),
        (''raw_digest'', Required), (''core_digest'', Defaulted), (''record_ref'', Defaulted)] v;
     system \<leftarrow> decode_req decode_source_system (fs ! 0);
     schema \<leftarrow> decode_opt as_str (fs ! 1);
     snapshot_identity \<leftarrow> decode_opt as_str (fs ! 2);
     raw_digest \<leftarrow> decode_req as_str (fs ! 3);
     core_digest \<leftarrow> decode_opt as_str (fs ! 4);
     record_ref \<leftarrow> decode_opt as_str (fs ! 5);
     Some \<lparr>ps_system = system, ps_schema = schema, ps_snapshot_identity = snapshot_identity,
       ps_raw_digest = raw_digest, ps_core_digest = core_digest, ps_record_ref = record_ref\<rparr> }"

definition decode_receipt_mapping :: "json \<Rightarrow> ProjectionReceiptMapping option" where
  "decode_receipt_mapping v = do {
     fs \<leftarrow> struct_fields [(''profile'', Required), (''profile_version'', Required)] v;
     profile \<leftarrow> decode_req decode_mapping_profile (fs ! 0);
     profile_version \<leftarrow> decode_req as_str (fs ! 1);
     Some \<lparr>pm_profile = profile, pm_profile_version = profile_version\<rparr> }"

definition decode_receipt_packet :: "json \<Rightarrow> ProjectionReceiptPacket option" where
  "decode_receipt_packet v = do {
     fs \<leftarrow> struct_fields [(''digest'', Required), (''witness_type'', Required), (''subject'', Required)] v;
     digest \<leftarrow> decode_req as_str (fs ! 0);
     witness_type \<leftarrow> decode_req as_str (fs ! 1);
     subject \<leftarrow> decode_req as_str (fs ! 2);
     Some \<lparr>pp_digest = digest, pp_witness_type = witness_type, pp_subject = subject\<rparr> }"

definition decode_substitution :: "json \<Rightarrow> ProjectionReceiptSubstitution option" where
  "decode_substitution v = do {
     fs \<leftarrow> struct_fields [(''existing_core_digest'', Required), (''presented_core_digest'', Required)] v;
     existing \<leftarrow> decode_req as_str (fs ! 0);
     presented \<leftarrow> decode_req as_str (fs ! 1);
     Some \<lparr>sub_existing_core_digest = existing, sub_presented_core_digest = presented\<rparr> }"

definition decode_replay :: "json \<Rightarrow> ProjectionReceiptReplay option" where
  "decode_replay v = do {
     fs \<leftarrow> struct_fields [(''outcome'', Required), (''substitution'', Defaulted)] v;
     outcome \<leftarrow> decode_req as_str (fs ! 0);
     substitution \<leftarrow> decode_opt decode_substitution (fs ! 1);
     Some \<lparr>rep_outcome = outcome, rep_substitution = substitution\<rparr> }"

definition projection_spec :: "(string \<times> field_presence) list" where
  "projection_spec =
     [(''schema'', Required), (''receipt_id'', Required), (''source'', Required), (''mapping'', Required),
      (''custody_basis'', Required), (''packet'', Defaulted), (''premises_as_coverage'', Required),
      (''projection_limits'', Required), (''replay'', Required), (''contradiction_status'', Defaulted),
      (''imported_at'', Required), (''establishes'', Required), (''does_not_establish'', Required)]"

definition projection_of_doc :: "json \<Rightarrow> ProjectionReceipt option" where
  "projection_of_doc v = do {
     fs \<leftarrow> struct_fields projection_spec v;
     schema \<leftarrow> decode_req as_str (fs ! 0);
     receipt_id \<leftarrow> decode_req as_str (fs ! 1);
     source \<leftarrow> decode_req decode_receipt_source (fs ! 2);
     mapping \<leftarrow> decode_req decode_receipt_mapping (fs ! 3);
     custody_basis \<leftarrow> decode_req as_str (fs ! 4);
     packet \<leftarrow> decode_opt decode_receipt_packet (fs ! 5);
     premises \<leftarrow> decode_req (decode_vec as_str) (fs ! 6);
     limits \<leftarrow> decode_req (decode_vec as_str) (fs ! 7);
     replay \<leftarrow> decode_req decode_replay (fs ! 8);
     contradiction \<leftarrow> decode_opt (decode_variant [(''retained'', Retained)]) (fs ! 9);
     imported_at \<leftarrow> decode_req as_str (fs ! 10);
     establishes \<leftarrow> decode_req as_str (fs ! 11);
     does_not_establish \<leftarrow> decode_req (decode_vec as_str) (fs ! 12);
     Some \<lparr>prc_schema = schema, prc_receipt_id = receipt_id, prc_source = source,
       prc_mapping = mapping, prc_custody_basis = custody_basis, prc_packet = packet,
       prc_premises_as_coverage = premises, prc_projection_limits = limits, prc_replay = replay,
       prc_contradiction_status = contradiction, prc_imported_at = imported_at,
       prc_establishes = establishes, prc_does_not_establish = does_not_establish\<rparr> }"

text \<open>\<open>serde_json::from_slice\<close> at a struct: the document must parse and decode.\<close>

definition typed_from_slice :: "serde \<Rightarrow> string \<Rightarrow> (json \<Rightarrow> 'a option) \<Rightarrow> string \<Rightarrow> string + 'a" where
  "typed_from_slice sd name d bytes =
     res_bind (parse_doc sd bytes) (\<lambda>v. ok_or (decode_message sd name v) (d v))"

definition packet_from_slice :: "serde \<Rightarrow> string \<Rightarrow> string + WitnessPacket" where
  "packet_from_slice sd = typed_from_slice sd ''WitnessPacket'' packet_of_doc"

definition receipt_from_slice :: "serde \<Rightarrow> string \<Rightarrow> string + ProjectionReceipt" where
  "receipt_from_slice sd = typed_from_slice sd ''ProjectionReceipt'' projection_of_doc"

section \<open>Ordered maps\<close>

lemma map_of_btree_insert: "map_of (btree_insert k v m) n = (if n = k then Some v else map_of m n)"
  by (induction m) auto

lemma map_of_fold_btree:
  "map_of (fold (\<lambda>(k, v). btree_insert k v) fs m) n = (map_of m ++ map_of fs) n"
  if "distinct (map fst fs)"
  using that
proof (induction fs arbitrary: m)
  case (Cons f fs)
  then have "map_of fs (fst f) = None" by (simp add: map_of_eq_None_iff)
  with Cons show ?case
    by (cases f) (auto simp: map_of_btree_insert map_add_def split: option.splits)
qed simp

lemma map_of_btree: "distinct (map fst fs) \<Longrightarrow> map_of (btree fs) n = map_of fs n"
  by (simp add: btree_def map_of_fold_btree)

lemma btree_insert_last:
  "(\<forall>e \<in> set m. fst e < k) \<Longrightarrow> btree_insert k v m = m @ [(k, v)]"
  by (induction m) auto

lemma fold_btree_sorted:
  "sorted_wrt (<) (map fst (m @ fs)) \<Longrightarrow> fold (\<lambda>(k, v). btree_insert k v) fs m = m @ fs"
proof (induction fs arbitrary: m)
  case (Cons f fs)
  then have "\<forall>e \<in> set m. fst e < fst f" by (auto simp: sorted_wrt_append)
  with Cons show ?case by (cases f) (simp add: btree_insert_last)
qed simp

lemma btree_sorted: "sorted_wrt (<) (map fst fs) \<Longrightarrow> btree fs = fs"
  using fold_btree_sorted [of "[]" fs] by (simp add: btree_def)

lemma set_btree_insert_keys: "fst ` set (btree_insert k v m) = insert k (fst ` set m)"
  by (induction m) (auto simp: image_iff)

lemma strict_sorted_btree_insert:
  "sorted_wrt (<) (map fst m) \<Longrightarrow> sorted_wrt (<) (map fst (btree_insert k v m))"
proof (induction m)
  case (Cons e m)
  have "\<forall>x \<in> fst ` set (btree_insert k v m). fst e < x" if "fst e < k"
    using Cons.prems that by (simp add: set_btree_insert_keys)
  with Cons show ?case by (auto simp: not_less_iff_gr_or_eq)
qed simp

lemma strict_sorted_btree: "sorted_wrt (<) (map fst (btree fs))"
proof -
  have "sorted_wrt (<) (map fst m) \<Longrightarrow> sorted_wrt (<) (map fst (fold (\<lambda>(k, v). btree_insert k v) fs m))" for m
    by (induction fs arbitrary: m) (auto intro: strict_sorted_btree_insert)
  then show ?thesis by (simp add: btree_def)
qed

lemma set_btree_subset: "set (btree fs) \<subseteq> set fs"
proof -
  have ins: "set (btree_insert k v m) \<subseteq> insert (k, v) (set m)" for k v m
    by (induction m) auto
  have "set (fold (\<lambda>(k, v). btree_insert k v) fs m) \<subseteq> set fs \<union> set m" for m
  proof (induction fs arbitrary: m)
    case (Cons f fs)
    with ins [of "fst f" "snd f" m] show ?case by (cases f) (simp, blast)
  qed simp
  from this [of "[]"] show ?thesis by (simp add: btree_def)
qed

definition canonical :: "json \<Rightarrow> bool" where
  "canonical v \<longleftrightarrow> json_value v = v"

lemma canonical_btree:
  "(\<forall>f \<in> set fs. canonical (snd f)) \<Longrightarrow> canonical (JObj (btree fs))"
proof -
  assume c: "\<forall>f \<in> set fs. canonical (snd f)"
  with set_btree_subset [of fs] have "map (\<lambda>f. (fst f, json_value (snd f))) (btree fs) = btree fs"
    by (intro map_idI) (force simp: canonical_def)
  then show ?thesis by (simp add: canonical_def btree_sorted strict_sorted_btree)
qed

lemma canonical_value: "canonical (json_value v)"
proof (induction v rule: json_value.induct)
  case (2 fs)
  have "\<forall>f \<in> set (map (\<lambda>f. (fst f, json_value (snd f))) fs). canonical (snd f)"
    using 2 by auto
  then show ?case by (simp add: canonical_btree)
qed (simp_all add: canonical_def)

lemma canonical_simps [simp]:
  "canonical JNull" "canonical (JBool b)" "canonical (JInt i)" "canonical (JF64 w)" "canonical (JStr s)"
  "canonical (JArr vs) \<longleftrightarrow> list_all canonical vs"
  by (simp_all add: canonical_def list_all_iff map_idI) (metis map_eq_conv map_ident)

lemma canonical_json_opt [simp]: "(\<And>x. canonical (f x)) \<Longrightarrow> canonical (json_opt f y)"
  by (cases y) simp_all

section \<open>Round trips\<close>

lemma decode_simps [simp]:
  "decode_req d (Some v) = d v"
  "decode_opt as_str (map_option JStr x) = Some x"
  "those (map (\<lambda>x. Some (f x)) xs) = Some (map f xs)"
  "decode_vec as_str (JArr (map JStr ss)) = Some ss"
proof -
  show those: "those (map (\<lambda>x. Some (f x)) xs) = Some (map f xs)" for xs :: "'z list" and f :: "'z \<Rightarrow> 'y"
    by (induction xs) simp_all
  show "decode_vec as_str (JArr (map JStr ss)) = Some ss"
    using those [of "\<lambda>x. x" ss] by (simp add: comp_def)
qed (cases x; simp add: decode_req_def)+

lemma those_strings [simp]: "those (map (as_str \<circ> JStr) ss) = Some ss"
  by (induction ss) simp_all

lemma map_fst_fields [simp]:
  "map fst (opt_field n f x) = (if x = None then [] else [n])"
  "map fst (vec_field n g xs) = (if xs = [] then [] else [n])"
  by (auto simp: opt_field_def vec_field_def)

lemma struct_fields_obj:
  assumes "distinct (map fst fs)" "set (map fst fs) \<subseteq> set (map fst spec)"
    and "\<forall>(n, p) \<in> set spec. p = Required \<longrightarrow> map_of fs n \<noteq> None"
  shows "struct_fields spec (JObj fs) = Some (map (\<lambda>(n, p). json_field (JObj fs) n) spec)"
  using assms by (auto simp: list_all_iff)

lemma packet_lookup:
  "json_field (packet_json p) ''schema'' = Some (JStr (wp_schema p))"
  "json_field (packet_json p) ''witness_type'' = Some (JStr (wp_witness_type p))"
  "json_field (packet_json p) ''subject'' = Some (JStr (wp_subject p))"
  "json_field (packet_json p) ''access_path'' = Some (JStr (wp_access_path p))"
  "json_field (packet_json p) ''observed_at'' = Some (JStr (wp_observed_at p))"
  "json_field (packet_json p) ''generated_at'' = Some (JStr (wp_generated_at p))"
  "json_field (packet_json p) ''observations'' = Some (JArr (wp_observations p))"
  "json_field (packet_json p) ''coverage_limits'' = Some (JArr (map JStr (wp_coverage_limits p)))"
  "json_field (packet_json p) ''dependencies'' = Some (JArr (map JStr (wp_dependencies p)))"
  "json_field (packet_json p) ''custody_basis'' = map_option JStr (wp_custody_basis p)"
  "json_field (packet_json p) ''source_finding_ref'' = map_option JStr (wp_source_finding_ref p)"
  "json_field (packet_json p) ''projection_limits'' =
     (if wp_projection_limits p = [] then None else Some (JArr (map JStr (wp_projection_limits p))))"
  "json_field (packet_json p) ''position'' = map_option WitnessPosition_json (wp_position p)"
  by (simp_all add: packet_json_def json_lookup case_option_map_option del: map_of_append
      split: option.split)

lemma packet_fields:
  "struct_fields packet_spec (packet_json p) = Some (map (\<lambda>(n, q). json_field (packet_json p) n) packet_spec)"
  unfolding packet_json_def
  by (rule struct_fields_obj)
    (simp_all add: packet_spec_def del: set_map)

lemma decode_position_json [simp]: "decode_opt decode_position (map_option WitnessPosition_json x) = Some x"
proof (cases x)
  case (Some y)
  then show ?thesis by (cases y) (simp_all add: decode_position_def decode_variant_def)
qed simp

lemma decode_default_simps [simp]:
  "decode_default_vec d None = Some []"
  "decode_default_vec d (Some v) = decode_vec d v"
  by (simp_all add: decode_default_vec_def)

lemma packet_roundtrip:
  "list_all canonical (wp_observations p) \<Longrightarrow> packet_of_doc (packet_json p) = Some p"
proof -
  assume "list_all canonical (wp_observations p)"
  then have "map json_value (wp_observations p) = wp_observations p"
    by (intro map_idI) (simp add: list_all_iff canonical_def)
  then show ?thesis
    unfolding packet_of_doc_def packet_fields
    by (simp add: packet_spec_def packet_lookup eval_nat_numeral)
qed

lemma receipt_source_roundtrip [simp]: "decode_receipt_source (ProjectionReceiptSource_json s) = Some s"
proof -
  have "struct_fields [(''system'', Required), (''schema'', Defaulted), (''snapshot_identity'', Defaulted),
      (''raw_digest'', Required), (''core_digest'', Defaulted), (''record_ref'', Defaulted)]
      (ProjectionReceiptSource_json s) =
    Some (map (json_field (ProjectionReceiptSource_json s))
      [''system'', ''schema'', ''snapshot_identity'', ''raw_digest'', ''core_digest'', ''record_ref''])"
    unfolding ProjectionReceiptSource_json_def
    by (subst struct_fields_obj) (simp_all add: json_lookup del: set_map map_of_append split: option.split)
  moreover have "decode_source_system (ProjectionSourceSystem_json (ps_system s)) = Some (ps_system s)"
    by (cases "ps_system s") (simp_all add: decode_source_system_def decode_variant_def)
  ultimately show ?thesis
    by (cases s) (simp add: decode_receipt_source_def receipt_source_lookup)
qed

lemma receipt_parts_roundtrip [simp]:
  "decode_receipt_mapping (ProjectionReceiptMapping_json m) = Some m"
  "decode_receipt_packet (ProjectionReceiptPacket_json p) = Some p"
  "decode_substitution (ProjectionReceiptSubstitution_json u) = Some u"
proof -
  have "decode_mapping_profile (ProjectionMappingProfile_json (pm_profile m)) = Some (pm_profile m)"
    by (cases "pm_profile m") (simp_all add: decode_mapping_profile_def decode_variant_def)
  then show "decode_receipt_mapping (ProjectionReceiptMapping_json m) = Some m"
    by (cases m) (simp add: decode_receipt_mapping_def ProjectionReceiptMapping_json_def)
  show "decode_receipt_packet (ProjectionReceiptPacket_json p) = Some p"
    by (cases p) (simp add: decode_receipt_packet_def ProjectionReceiptPacket_json_def)
  show "decode_substitution (ProjectionReceiptSubstitution_json u) = Some u"
    by (cases u) (simp add: decode_substitution_def ProjectionReceiptSubstitution_json_def)
qed

lemma decode_opt_obj [simp]:
  "decode_opt decode_receipt_packet (map_option ProjectionReceiptPacket_json x) = Some x"
  "decode_opt decode_substitution (map_option ProjectionReceiptSubstitution_json y) = Some y"
  "decode_opt (decode_variant [(''retained'', Retained)]) (map_option ProjectionContradictionStatus_json z) = Some z"
proof -
  have obj: "decode_opt d (Some (JObj fs)) = map_option Some (d (JObj fs))" for d fs by simp
  show "decode_opt decode_receipt_packet (map_option ProjectionReceiptPacket_json x) = Some x"
    using receipt_parts_roundtrip(2) by (cases x) (simp_all add: ProjectionReceiptPacket_json_def)
  show "decode_opt decode_substitution (map_option ProjectionReceiptSubstitution_json y) = Some y"
    using receipt_parts_roundtrip(3) by (cases y) (simp_all add: ProjectionReceiptSubstitution_json_def)
  show "decode_opt (decode_variant [(''retained'', Retained)]) (map_option ProjectionContradictionStatus_json z) = Some z"
  proof (cases z)
    case (Some y)
    then show ?thesis by (cases y) (simp add: decode_variant_def)
  qed simp
qed

lemma replay_roundtrip [simp]: "decode_replay (ProjectionReceiptReplay_json p) = Some p"
proof -
  have "struct_fields [(''outcome'', Required), (''substitution'', Defaulted)] (ProjectionReceiptReplay_json p) =
      Some (map (json_field (ProjectionReceiptReplay_json p)) [''outcome'', ''substitution''])"
    unfolding ProjectionReceiptReplay_json_def
    by (subst struct_fields_obj) (simp_all add: json_lookup del: set_map map_of_append split: option.split)
  then show ?thesis by (cases p) (simp add: decode_replay_def replay_lookup)
qed

lemma projection_lookup:
  "json_field (projection_receipt_json r) ''schema'' = Some (JStr (prc_schema r))"
  "json_field (projection_receipt_json r) ''receipt_id'' = Some (JStr (prc_receipt_id r))"
  "json_field (projection_receipt_json r) ''source'' = Some (ProjectionReceiptSource_json (prc_source r))"
  "json_field (projection_receipt_json r) ''mapping'' = Some (ProjectionReceiptMapping_json (prc_mapping r))"
  "json_field (projection_receipt_json r) ''custody_basis'' = Some (JStr (prc_custody_basis r))"
  "json_field (projection_receipt_json r) ''packet'' = map_option ProjectionReceiptPacket_json (prc_packet r)"
  "json_field (projection_receipt_json r) ''premises_as_coverage'' = Some (JArr (map JStr (prc_premises_as_coverage r)))"
  "json_field (projection_receipt_json r) ''projection_limits'' = Some (JArr (map JStr (prc_projection_limits r)))"
  "json_field (projection_receipt_json r) ''replay'' = Some (ProjectionReceiptReplay_json (prc_replay r))"
  "json_field (projection_receipt_json r) ''contradiction_status'' =
     map_option ProjectionContradictionStatus_json (prc_contradiction_status r)"
  "json_field (projection_receipt_json r) ''imported_at'' = Some (JStr (prc_imported_at r))"
  "json_field (projection_receipt_json r) ''establishes'' = Some (JStr (prc_establishes r))"
  "json_field (projection_receipt_json r) ''does_not_establish'' = Some (JArr (map JStr (prc_does_not_establish r)))"
  by (simp_all add: projection_receipt_json_def json_lookup case_option_map_option del: map_of_append split: option.split)

lemma projection_fields:
  "struct_fields projection_spec (projection_receipt_json r) =
     Some (map (\<lambda>(n, q). json_field (projection_receipt_json r) n) projection_spec)"
  unfolding projection_receipt_json_def
  by (rule struct_fields_obj)
    (simp_all add: projection_spec_def json_lookup del: set_map map_of_append split: option.split)

lemma projection_roundtrip: "projection_of_doc (projection_receipt_json r) = Some r"
  unfolding projection_of_doc_def projection_fields
  by (simp add: projection_spec_def projection_lookup eval_nat_numeral)

section \<open>What the parser and the printer promise\<close>

text \<open>
  The printer succeeds, and parsing what it printed gives the document back. The promise is
  made for documents without floating-point numbers, whose shortest decimal form the parser
  is not documented to read exactly, with integers of 64 bits, and with fewer than 128 levels of
  arrays and objects, the recursion limit of the parser. \<open>exact_json n\<close> is such a document of at
  most \<open>n\<close> levels.
\<close>

fun exact_json :: "nat \<Rightarrow> json \<Rightarrow> bool" where
  "exact_json n (JF64 _) = False"
| "exact_json n (JInt i) = (- (2 ^ 63) \<le> i \<and> i < 2 ^ 64)"
| "exact_json n (JArr vs) = (0 < n \<and> list_all (exact_json (n - 1)) vs)"
| "exact_json n (JObj fs) = (0 < n \<and> list_all (\<lambda>f. exact_json (n - 1) (snd f)) fs)"
| "exact_json _ _ = True"

definition serde_roundtrip :: "serde \<Rightarrow> bool" where
  "serde_roundtrip sd \<longleftrightarrow>
     (\<forall>v. exact_json 127 v \<longrightarrow> (\<exists>b. to_vec_pretty sd v = Inr b \<and> parse_doc sd b = Inr v))"

lemma serde_roundtripE:
  assumes "serde_roundtrip sd" "exact_json 127 v"
  obtains b where "to_vec_pretty sd v = Inr b" "parse_doc sd b = Inr v"
  using assms unfolding serde_roundtrip_def by blast

lemma exact_JStrs [simp]: "list_all (exact_json n) (map JStr ss)"
  by (simp add: list_all_iff)

lemma exact_btree:
  "0 < n \<Longrightarrow> list_all (\<lambda>f. exact_json (n - 1) (snd f)) fs \<Longrightarrow> exact_json n (JObj (btree fs))"
  using set_btree_subset [of fs] by (auto simp: list_all_iff)

lemma exact_json_opt: "(\<And>x. exact_json n (f x)) \<Longrightarrow> exact_json n (json_opt f y)"
  by (cases y) simp_all

lemma exact_json_u64 [simp]: "exact_json n (json_word (w :: u64))"
proof -
  have "- (2 ^ 63) \<le> uint w" "uint w < 2 ^ 64"
    using uint_bounded [of w] uint_ge_0 [of w] by (simp, linarith, simp)
  then show ?thesis by simp
qed

lemma exact_fields [simp]:
  "(\<And>y. exact_json n (g y)) \<Longrightarrow> list_all (\<lambda>f. exact_json n (snd f)) (opt_field k g x)"
  "0 < n \<Longrightarrow> list_all (\<lambda>f. exact_json n (snd f)) (vec_field k JStr ss)"
  by (simp_all add: opt_field_def vec_field_def split: option.split)

lemma exact_variants [simp]:
  "exact_json n (WitnessPosition_json a)" "exact_json n (ProjectionSourceSystem_json b)"
  "exact_json n (ProjectionMappingProfile_json c)" "exact_json n (ProjectionContradictionStatus_json d)"
proof -
  show "exact_json n (WitnessPosition_json a)" by (cases a) simp_all
  show "exact_json n (ProjectionSourceSystem_json b)" by (cases b) simp_all
  show "exact_json n (ProjectionMappingProfile_json c)" by (cases c) simp_all
  show "exact_json n (ProjectionContradictionStatus_json d)" by (cases d) simp
qed

lemma exact_packet_json: "list_all (exact_json 125) (wp_observations p) \<Longrightarrow> exact_json 127 (packet_json p)"
  by (simp add: packet_json_def)

lemma exact_projection_json: "exact_json 127 (projection_receipt_json r)"
  by (simp add: projection_receipt_json_def ProjectionReceiptSource_json_def
      ProjectionReceiptMapping_json_def ProjectionReceiptPacket_json_def ProjectionReceiptReplay_json_def
      ProjectionReceiptSubstitution_json_def)

lemma receipt_reads_back:
  assumes "serde_roundtrip sd"
  obtains b where "to_vec_pretty sd (projection_receipt_json r) = Inr b" "receipt_from_slice sd b = Inr r"
proof -
  obtain b where b: "to_vec_pretty sd (projection_receipt_json r) = Inr b"
    "parse_doc sd b = Inr (projection_receipt_json r)"
    using assms exact_projection_json by (rule serde_roundtripE)
  show thesis
  proof (rule that [OF b(1)])
    show "receipt_from_slice sd b = Inr r"
      by (simp add: receipt_from_slice_def typed_from_slice_def b(2) projection_roundtrip)
  qed
qed

lemma packet_reads_back:
  assumes "serde_roundtrip sd" "list_all (exact_json 125) (wp_observations p)" "list_all canonical (wp_observations p)"
  obtains b where "to_vec_pretty sd (packet_json p) = Inr b" "packet_from_slice sd b = Inr p"
    "value_from_slice sd b = Inr (json_value (packet_json p))"
proof -
  obtain b where b: "to_vec_pretty sd (packet_json p) = Inr b" "parse_doc sd b = Inr (packet_json p)"
    using assms(1) exact_packet_json [OF assms(2)] by (rule serde_roundtripE)
  show thesis
  proof (rule that [OF b(1)])
    show "packet_from_slice sd b = Inr p"
      by (simp add: packet_from_slice_def typed_from_slice_def b(2) packet_roundtrip assms(3))
    show "value_from_slice sd b = Inr (json_value (packet_json p))"
      by (simp add: value_from_slice_def b(2))
  qed
qed

text \<open>Reading a member of a packet that was parsed as a value.\<close>

lemma map_of_mapped: "map_of (map (\<lambda>f. (fst f, g (snd f))) fs) n = map_option g (map_of fs n)"
  by (induction fs) auto

lemma packet_value_observations:
  assumes "list_all canonical (wp_observations p)"
  shows "json_field (json_value (packet_json p)) ''observations'' = Some (JArr (wp_observations p))"
proof -
  obtain fs where fs: "packet_json p = JObj fs" by (simp add: packet_json_def)
  have d: "distinct (map fst fs)" using packet_fields [of p] by (simp add: fs split: if_splits)
  have "map json_value (wp_observations p) = wp_observations p"
    using assms by (intro map_idI) (simp add: list_all_iff canonical_def)
  moreover have "json_field (json_value (packet_json p)) ''observations'' =
      map_option json_value (json_field (packet_json p) ''observations'')"
    using d by (simp add: fs map_of_btree comp_def map_of_mapped)
  ultimately show ?thesis by (simp add: packet_lookup)
qed

section \<open>A concrete parser and printer\<close>

text \<open>
  A prefix code: a tag, and for text, arrays and objects a decimal count in front. The reader
  takes the length of its input as the bound on the depth it descends, which is enough since
  every level of a document costs a byte.
\<close>

definition put_num :: "nat \<Rightarrow> string" where
  "put_num n = show_nat n @ '':''"

definition get_num :: "string \<Rightarrow> nat \<times> string" where
  "get_num s = (let ds = takeWhile is_digit s in (decimal_value ds, drop (Suc (length ds)) s))"

definition put_text :: "string \<Rightarrow> string" where
  "put_text s = put_num (length s) @ s"

definition get_text :: "string \<Rightarrow> string \<times> string" where
  "get_text s = (case get_num s of (n, r) \<Rightarrow> (take n r, drop n r))"

fun put_doc :: "json \<Rightarrow> string" where
  "put_doc JNull = ''n''"
| "put_doc (JBool b) = (if b then ''t'' else ''f'')"
| "put_doc (JInt i) = (if i < 0 then ''m'' @ put_num (nat (- i)) else ''p'' @ put_num (nat i))"
| "put_doc (JF64 w) = ''d'' @ put_num (unat w)"
| "put_doc (JStr s) = ''s'' @ put_text s"
| "put_doc (JArr vs) = ''a'' @ put_num (length vs) @ concat (map put_doc vs)"
| "put_doc (JObj fs) =
     ''o'' @ put_num (length fs) @ concat (map (\<lambda>f. put_text (fst f) @ put_doc (snd f)) fs)"

fun get_many :: "(string \<Rightarrow> ('a \<times> string) option) \<Rightarrow> nat \<Rightarrow> string \<Rightarrow> ('a list \<times> string) option" where
  "get_many g 0 s = Some ([], s)"
| "get_many g (Suc n) s =
     Option.bind (g s) (\<lambda>(x, r). map_option (\<lambda>(xs, r'). (x # xs, r')) (get_many g n r))"

definition get_member ::
  "(string \<Rightarrow> (json \<times> string) option) \<Rightarrow> string \<Rightarrow> ((string \<times> json) \<times> string) option"
where
  "get_member g s = (case get_text s of (k, r) \<Rightarrow> map_option (\<lambda>(v, r'). ((k, v), r')) (g r))"

fun get_doc :: "nat \<Rightarrow> string \<Rightarrow> (json \<times> string) option" where
  "get_doc 0 s = None"
| "get_doc (Suc k) [] = None"
| "get_doc (Suc k) (c # s) =
     (if c = CHR ''n'' then Some (JNull, s)
      else if c = CHR ''t'' then Some (JBool True, s)
      else if c = CHR ''f'' then Some (JBool False, s)
      else if c = CHR ''s'' then (case get_text s of (x, r) \<Rightarrow> Some (JStr x, r))
      else case get_num s of (n, r) \<Rightarrow>
        if c = CHR ''m'' then Some (JInt (- int n), r)
        else if c = CHR ''p'' then Some (JInt (int n), r)
        else if c = CHR ''d'' then Some (JF64 (of_nat n), r)
        else if c = CHR ''a'' then map_option (\<lambda>(vs, r'). (JArr vs, r')) (get_many (get_doc k) n r)
        else if c = CHR ''o'' then
          map_option (\<lambda>(fs, r'). (JObj fs, r')) (get_many (get_member (get_doc k)) n r)
        else None)"

definition demo_serde :: serde where
  "demo_serde =
     \<lparr>parse_doc = (\<lambda>b. case get_doc (length b) b of Some (v, []) \<Rightarrow> Inr v | _ \<Rightarrow> Inl ''syntax''),
      to_vec_pretty = (\<lambda>v. Inr (put_doc v)),
      decode_message = (\<lambda>name v. ''cannot decode '' @ name)\<rparr>"

lemma get_put_num [simp]: "get_num (put_num n @ r) = (n, r)"
proof -
  have "takeWhile is_digit (show_nat n @ '':'' @ r) = show_nat n"
    using show_nat_digits [of n]
    by (simp add: takeWhile_append2 list_all_iff) (simp add: is_digit_def in_range_def)
  then show ?thesis by (simp add: get_num_def put_num_def Let_def decimal_value_show_nat)
qed

lemma get_put_text [simp]: "get_text (put_text s @ r) = (s, r)"
  by (simp add: get_text_def put_text_def)

lemma get_many_map:
  "(\<And>x r. x \<in> set xs \<Longrightarrow> g (h x @ r) = Some (x, r)) \<Longrightarrow>
     get_many g (length xs) (concat (map h xs) @ r) = Some (xs, r)"
  by (induction xs) simp_all

lemma length_concat_member: "x \<in> set xs \<Longrightarrow> length (h x) \<le> length (concat (map h xs))"
  by (induction xs) auto

lemma get_put_doc: "length (put_doc v) \<le> k \<Longrightarrow> get_doc k (put_doc v @ r) = Some (v, r)"
proof (induction v arbitrary: k r)
  case (JArr vs)
  then obtain k' where k: "k = Suc k'" by (cases k) auto
  have "get_doc k' (put_doc v @ r) = Some (v, r)" if "v \<in> set vs" for v r
    using JArr that length_concat_member [of v vs put_doc] k by fastforce
  then have "get_many (get_doc k') (length vs) (concat (map put_doc vs) @ r) = Some (vs, r)"
    by (rule get_many_map)
  with k show ?case by simp
next
  case (JObj fs)
  then obtain k' where k: "k = Suc k'" by (cases k) auto
  let ?h = "\<lambda>f. put_text (fst f) @ put_doc (snd f)"
  have "get_member (get_doc k') (?h f @ r) = Some (f, r)" if f: "f \<in> set fs" for f r
  proof -
    have "length (put_doc (snd f)) \<le> k'"
      using JObj.prems f length_concat_member [of f fs ?h] k by simp
    with JObj.IH [OF f] have "get_doc k' (put_doc (snd f) @ r) = Some (snd f, r)"
      by (simp add: snds.intros)
    then show ?thesis by (simp add: get_member_def)
  qed
  then have "get_many (get_member (get_doc k')) (length fs) (concat (map ?h fs) @ r) = Some (fs, r)"
    by (rule get_many_map)
  with k show ?case by simp
next
  case JNull
  then show ?case by (cases k) auto
next
  case (JBool b)
  then show ?case by (cases b; cases k) auto
next
  case (JInt i)
  then obtain k' where "k = Suc k'" by (cases k) (auto split: if_splits)
  then show ?case by simp
next
  case (JF64 w)
  then obtain k' where "k = Suc k'" by (cases k) auto
  then show ?case by simp
next
  case (JStr s)
  then obtain k' where "k = Suc k'" by (cases k) auto
  then show ?case by simp
qed

lemma demo_serde_roundtrip: "serde_roundtrip demo_serde"
  using get_put_doc [of v "length (put_doc v)" "[]" for v]
  by (simp add: serde_roundtrip_def demo_serde_def)

end
