(* ===== verification/Projection_Store.thy ===== *)
theory Projection_Store
  imports Serde_Wire
begin

text \<open>
  The packet store on disk and the publication of projection receipts below it
  (\<open>nq-monitor\<close>, \<open>projection_import.rs\<close>). A directory is the list of its files in the order
  in which \<open>read_dir\<close> lists them; subdirectories are directories of their own and are not
  listed in their parent, and a directory is known by the spelling of its path. Every
  operation may fail with a text chosen by \<open>io\<close>, a failed write may leave any bytes behind,
  and between the steps of a publication another process may change the directories
  (\<open>io_interfere\<close>).
\<close>

section \<open>Files\<close>

type_synonym directories = "string \<Rightarrow> (string \<times> string) list option"

record store_state =
  st_dirs :: directories
  st_sequence :: u64

datatype io_op =
    ReadDir string
  | ReadEntry string string
  | ReadFile string
  | Stat string
  | CreateDirAll string
  | WriteFile string
  | Rename string
  | OpenNew string
  | SyncFile string
  | HardLink string
  | RemoveFile string

record io =
  io_fault :: "io_op \<Rightarrow> string option"
  io_text :: "io_op \<Rightarrow> string"
  io_partial :: "string \<Rightarrow> string option"
  io_interfere :: "nat \<Rightarrow> directories \<Rightarrow> directories"
  io_pid :: u32

datatype file_path = FilePath (fp_dir: string) (fp_name: string)

text \<open>\<open>Path::join\<close> on Unix: an absolute second path replaces the first.\<close>

definition path_join :: "string \<Rightarrow> string \<Rightarrow> string" where
  "path_join p q =
     (if q \<noteq> [] \<and> hd q = CHR ''/'' then q
      else if p = [] \<or> last p = CHR ''/'' then p @ q
      else p @ ''/'' @ q)"

fun path_display :: "file_path \<Rightarrow> string" where
  "path_display (FilePath d n) = path_join d n"

definition lookup_file :: "directories \<Rightarrow> file_path \<Rightarrow> string option" where
  "lookup_file ds p = Option.bind (ds (fp_dir p)) (\<lambda>es. map_of es (fp_name p))"

definition put_entry :: "string \<Rightarrow> string \<Rightarrow> (string \<times> string) list \<Rightarrow> (string \<times> string) list" where
  "put_entry n b es =
     (if n \<in> fst ` set es then map (\<lambda>e. if fst e = n then (n, b) else e) es else es @ [(n, b)])"

definition put_file :: "file_path \<Rightarrow> string \<Rightarrow> directories \<Rightarrow> directories" where
  "put_file p b ds =
     (case ds (fp_dir p) of None \<Rightarrow> ds | Some es \<Rightarrow> ds(fp_dir p \<mapsto> put_entry (fp_name p) b es))"

definition drop_file :: "file_path \<Rightarrow> directories \<Rightarrow> directories" where
  "drop_file p ds =
     (case ds (fp_dir p) of None \<Rightarrow> ds
      | Some es \<Rightarrow> ds(fp_dir p \<mapsto> filter (\<lambda>e. fst e \<noteq> fp_name p) es))"

definition fs_read :: "io \<Rightarrow> directories \<Rightarrow> file_path \<Rightarrow> string + string" where
  "fs_read x ds p =
     (case io_fault x (ReadFile (path_display p)) of
        Some e \<Rightarrow> Inl e
      | None \<Rightarrow> ok_or (io_text x (ReadFile (path_display p))) (lookup_file ds p))"

definition fs_exists :: "io \<Rightarrow> directories \<Rightarrow> file_path \<Rightarrow> bool" where
  "fs_exists x ds p \<longleftrightarrow> io_fault x (Stat (path_display p)) = None \<and> lookup_file ds p \<noteq> None"

definition create_dir_all :: "io \<Rightarrow> string \<Rightarrow> directories \<Rightarrow> (string + unit) \<times> directories" where
  "create_dir_all x d ds =
     (case io_fault x (CreateDirAll d) of
        Some e \<Rightarrow> (Inl e, ds)
      | None \<Rightarrow> (Inr (), if ds d = None then ds(d \<mapsto> []) else ds))"

definition leave_partial :: "io \<Rightarrow> file_path \<Rightarrow> directories \<Rightarrow> directories" where
  "leave_partial x p ds =
     (case io_partial x (path_display p) of None \<Rightarrow> ds | Some b \<Rightarrow> put_file p b ds)"

definition fs_write :: "io \<Rightarrow> file_path \<Rightarrow> string \<Rightarrow> directories \<Rightarrow> (string + unit) \<times> directories" where
  "fs_write x p b ds =
     (case io_fault x (WriteFile (path_display p)) of
        Some e \<Rightarrow> (Inl e, leave_partial x p ds)
      | None \<Rightarrow>
          if ds (fp_dir p) = None then (Inl (io_text x (WriteFile (path_display p))), ds)
          else (Inr (), put_file p b ds))"

definition fs_rename :: "io \<Rightarrow> file_path \<Rightarrow> file_path \<Rightarrow> directories \<Rightarrow> (string + unit) \<times> directories" where
  "fs_rename x src dst ds =
     (case (io_fault x (Rename (path_display dst)), lookup_file ds src) of
        (Some e, _) \<Rightarrow> (Inl e, ds)
      | (None, None) \<Rightarrow> (Inl (io_text x (Rename (path_display dst))), ds)
      | (None, Some b) \<Rightarrow>
          if ds (fp_dir dst) = None then (Inl (io_text x (Rename (path_display dst))), ds)
          else (Inr (), put_file dst b (drop_file src ds)))"

definition open_new :: "io \<Rightarrow> file_path \<Rightarrow> directories \<Rightarrow> (string + unit) \<times> directories" where
  "open_new x p ds =
     (case io_fault x (OpenNew (path_display p)) of
        Some e \<Rightarrow> (Inl e, ds)
      | None \<Rightarrow>
          if ds (fp_dir p) = None \<or> lookup_file ds p \<noteq> None
          then (Inl (io_text x (OpenNew (path_display p))), ds)
          else (Inr (), put_file p [] ds))"

definition write_and_sync :: "io \<Rightarrow> file_path \<Rightarrow> string \<Rightarrow> directories \<Rightarrow> (string + unit) \<times> directories" where
  "write_and_sync x p b ds =
     (case io_fault x (WriteFile (path_display p)) of
        Some e \<Rightarrow> (Inl e, leave_partial x p ds)
      | None \<Rightarrow>
          (case io_fault x (SyncFile (path_display p)) of
             Some e \<Rightarrow> (Inl e, put_file p b ds)
           | None \<Rightarrow> (Inr (), put_file p b ds)))"

definition try_remove :: "io \<Rightarrow> file_path \<Rightarrow> directories \<Rightarrow> directories" where
  "try_remove x p ds = (if io_fault x (RemoveFile (path_display p)) = None then drop_file p ds else ds)"

datatype link_result = Linked | AlreadyExists | LinkFailed string

definition hard_link :: "io \<Rightarrow> file_path \<Rightarrow> file_path \<Rightarrow> directories \<Rightarrow> link_result \<times> directories" where
  "hard_link x src dst ds =
     (if lookup_file ds dst \<noteq> None then (AlreadyExists, ds)
      else case (io_fault x (HardLink (path_display dst)), lookup_file ds src) of
          (Some e, _) \<Rightarrow> (LinkFailed e, ds)
        | (None, None) \<Rightarrow> (LinkFailed (io_text x (HardLink (path_display dst))), ds)
        | (None, Some b) \<Rightarrow>
            if ds (fp_dir dst) = None then (LinkFailed (io_text x (HardLink (path_display dst))), ds)
            else (Linked, put_file dst b ds))"

section \<open>Publication of receipts\<close>

definition RECEIPT_STORE_DIR :: string where
  "RECEIPT_STORE_DIR = ''.projection-receipts''"

definition read_existing ::
  "externals \<Rightarrow> serde \<Rightarrow> io \<Rightarrow> directories \<Rightarrow> file_path \<Rightarrow> string \<Rightarrow> string + ProjectionReceipt"
where
  "read_existing ext sd x ds path expected_id =
     res_bind (map_err (\<lambda>e. ''reading existing '' @ path_display path @ '': '' @ e) (fs_read x ds path)) (\<lambda>bytes.
     res_bind (map_err (\<lambda>e. ''existing '' @ path_display path @ '' is not a strict receipt: '' @ e)
       (receipt_from_slice sd bytes)) (\<lambda>receipt.
     res_bind (map_err (\<lambda>e. ''existing '' @ path_display path @ '' is invalid: '' @ e)
       (ProjectionReceipt_validate ext receipt)) (\<lambda>_.
     if prc_receipt_id receipt \<noteq> expected_id
     then Inl (''existing '' @ path_display path @ '' has receipt_id '' @ debug_str (prc_receipt_id receipt)
       @ '', expected '' @ debug_str expected_id)
     else Inr receipt)))"

definition read_published ::
  "externals \<Rightarrow> serde \<Rightarrow> io \<Rightarrow> directories \<Rightarrow> file_path \<Rightarrow> string \<Rightarrow> string + ProjectionReceipt \<times> file_path"
where
  "read_published ext sd x ds path expected_id =
     res_bind (read_existing ext sd x ds path expected_id) (\<lambda>existing. Inr (existing, path))"

definition temp_receipt_path :: "io \<Rightarrow> string \<Rightarrow> string \<Rightarrow> u64 \<Rightarrow> file_path" where
  "temp_receipt_path x dir receipt_hex sequence =
     FilePath dir (''.'' @ receipt_hex @ ''.'' @ show_word (io_pid x) @ ''.'' @ show_word sequence @ ''.tmp'')"

text \<open>The part of the function after the second test for an existing file.\<close>

definition publish_new ::
  "externals \<Rightarrow> serde \<Rightarrow> io \<Rightarrow> ProjectionReceipt \<Rightarrow> string \<Rightarrow> file_path \<Rightarrow> store_state \<Rightarrow>
     (string + ProjectionReceipt \<times> file_path) \<times> store_state"
where
  "publish_new ext sd x receipt receipt_hex final_path st =
     (case to_vec_pretty sd (projection_receipt_json receipt) of
        Inl e \<Rightarrow> (Inl (''serializing projection receipt: '' @ e), st)
      | Inr rendered \<Rightarrow>
          (let sequence = st_sequence st;
               st = st\<lparr>st_sequence := sequence + 1\<rparr>;
               tmp_path = temp_receipt_path x (fp_dir final_path) receipt_hex sequence
           in case open_new x tmp_path (st_dirs st) of
               (Inl e, ds) \<Rightarrow> (Inl (''creating '' @ path_display tmp_path @ '': '' @ e), st\<lparr>st_dirs := ds\<rparr>)
             | (Inr _, ds) \<Rightarrow>
                 (case write_and_sync x tmp_path rendered ds of
                    (Inl e, ds) \<Rightarrow>
                      (Inl (''writing '' @ path_display tmp_path @ '': '' @ e),
                       st\<lparr>st_dirs := try_remove x tmp_path ds\<rparr>)
                  | (Inr _, ds) \<Rightarrow>
                      (case hard_link x tmp_path final_path (io_interfere x 1 ds) of
                         (Linked, ds) \<Rightarrow>
                           (Inr (receipt, final_path), st\<lparr>st_dirs := try_remove x tmp_path ds\<rparr>)
                       | (AlreadyExists, ds) \<Rightarrow>
                           (let ds = try_remove x tmp_path ds in
                            (read_published ext sd x ds final_path (prc_receipt_id receipt), st\<lparr>st_dirs := ds\<rparr>))
                       | (LinkFailed e, ds) \<Rightarrow>
                           (Inl (''publishing immutable '' @ path_display final_path @ '': '' @ e),
                            st\<lparr>st_dirs := try_remove x tmp_path ds\<rparr>)))))"

definition persist_projection_receipt ::
  "externals \<Rightarrow> serde \<Rightarrow> io \<Rightarrow> ProjectionReceipt \<Rightarrow> string \<Rightarrow> store_state \<Rightarrow>
     (string + ProjectionReceipt \<times> file_path) \<times> store_state"
where
  "persist_projection_receipt ext sd x receipt store st =
     (case ProjectionReceipt_validate ext receipt of
        Inl e \<Rightarrow> (Inl (''refusing invalid receipt: '' @ e), st)
      | Inr _ \<Rightarrow>
         (case strip_prefix ''sha256:'' (prc_receipt_id receipt) of
            None \<Rightarrow> (Inl ''validated receipt_id lost sha256 prefix'', st)
          | Some receipt_hex \<Rightarrow>
              (let receipt_dir = path_join store RECEIPT_STORE_DIR;
                   final_path = FilePath receipt_dir (receipt_hex @ ''.projection-receipt.json'')
               in if fs_exists x (st_dirs st) final_path
                  then (read_published ext sd x (st_dirs st) final_path (prc_receipt_id receipt), st)
                  else case create_dir_all x receipt_dir (io_interfere x 0 (st_dirs st)) of
                      (Inl e, ds) \<Rightarrow> (Inl (''creating '' @ receipt_dir @ '': '' @ e), st\<lparr>st_dirs := ds\<rparr>)
                    | (Inr _, ds) \<Rightarrow>
                        if fs_exists x ds final_path
                        then (read_published ext sd x ds final_path (prc_receipt_id receipt), st\<lparr>st_dirs := ds\<rparr>)
                        else publish_new ext sd x receipt receipt_hex final_path (st\<lparr>st_dirs := ds\<rparr>))))"

definition ProjectionReceiptStoreError_display :: "string \<Rightarrow> string" where
  "ProjectionReceiptStoreError_display detail = ''projection receipt store error: '' @ detail"

section \<open>Laws of the file operations\<close>

definition quiet :: "io \<Rightarrow> bool" where
  "quiet x \<longleftrightarrow> (\<forall>op. io_fault x op = None) \<and> (\<forall>k ds. io_interfere x k ds = ds)"

lemma quietD [simp]: "quiet x \<Longrightarrow> io_fault x op = None" "quiet x \<Longrightarrow> io_interfere x k ds = ds"
  by (simp_all add: quiet_def)

lemma file_path_eq: "p = q \<longleftrightarrow> fp_dir p = fp_dir q \<and> fp_name p = fp_name q"
  by (cases p; cases q) simp

lemma map_of_put_entry: "map_of (put_entry n b es) m = (if m = n then Some b else map_of es m)"
proof (cases "n \<in> fst ` set es")
  case True
  have "map_of (map (\<lambda>e. if fst e = n then (n, b) else e) es) m =
      (if m = n then map_option (\<lambda>_. b) (map_of es m) else map_of es m)"
    by (cases "m = n"; induction es) (simp_all add: split_beta)
  moreover have "map_of es n \<noteq> None" using True by (simp add: map_of_eq_None_iff)
  ultimately show ?thesis using True by (auto simp: put_entry_def)
next
  case False
  then have "map_of es n = None" by (simp add: map_of_eq_None_iff)
  with False show ?thesis by (auto simp: put_entry_def map_add_def split: option.split)
qed

lemma lookup_put_file:
  "lookup_file (put_file p b ds) q =
     (if q = p \<and> ds (fp_dir p) \<noteq> None then Some b else lookup_file ds q)"
  by (auto simp: lookup_file_def put_file_def map_of_put_entry file_path_eq split: option.split)

lemma lookup_drop_file: "lookup_file (drop_file p ds) q = (if q = p then None else lookup_file ds q)"
proof -
  have "map_of (filter (\<lambda>e. fst e \<noteq> n) es) m = (if m = n then None else map_of es m)"
    for n m and es :: "(string \<times> string) list"
    by (induction es) auto
  then show ?thesis
    by (auto simp: lookup_file_def drop_file_def file_path_eq split: option.split)
qed

lemma dirs_put_drop [simp]:
  "put_file p b ds d = None \<longleftrightarrow> ds d = None" "drop_file p ds d = None \<longleftrightarrow> ds d = None"
  by (auto simp: put_file_def drop_file_def split: option.split)

lemma lookup_create_dir: "lookup_file (snd (create_dir_all x d ds)) q = lookup_file ds q"
  by (auto simp: create_dir_all_def lookup_file_def split: option.split)

lemma lookup_leave_partial: "q \<noteq> p \<Longrightarrow> lookup_file (leave_partial x p ds) q = lookup_file ds q"
  by (simp add: leave_partial_def lookup_put_file split: option.split)

lemma lookup_try_remove: "q \<noteq> p \<Longrightarrow> lookup_file (try_remove x p ds) q = lookup_file ds q"
  by (simp add: try_remove_def lookup_drop_file)

lemma lookup_open_new: "q \<noteq> p \<Longrightarrow> lookup_file (snd (open_new x p ds)) q = lookup_file ds q"
  by (simp add: open_new_def lookup_put_file split: option.split)

lemma lookup_write_and_sync: "q \<noteq> p \<Longrightarrow> lookup_file (snd (write_and_sync x p b ds)) q = lookup_file ds q"
  by (simp add: write_and_sync_def lookup_put_file lookup_leave_partial split: option.split)

text \<open>A hard link never replaces what is there.\<close>

lemma lookup_hard_link: "lookup_file ds q = Some c \<Longrightarrow> lookup_file (snd (hard_link x src dst ds)) q = Some c"
  by (auto simp: hard_link_def lookup_put_file split: option.split)

section \<open>Publication\<close>

definition visible :: "file_path \<Rightarrow> bool" where
  "visible p \<longleftrightarrow> fp_name p \<noteq> [] \<and> hd (fp_name p) \<noteq> CHR ''.''"

text \<open>Other processes may create files, but do not change one that is visible.\<close>

definition others_keep :: "io \<Rightarrow> bool" where
  "others_keep x \<longleftrightarrow>
     (\<forall>k ds p b. visible p \<and> lookup_file ds p = Some b \<longrightarrow> lookup_file (io_interfere x k ds) p = Some b)"

lemma quiet_others_keep: "quiet x \<Longrightarrow> others_keep x"
  by (simp add: others_keep_def)

lemma temp_not_visible [simp]: "\<not> visible (temp_receipt_path x dir hx n)"
  by (simp add: visible_def temp_receipt_path_def)

lemma publish_new_keeps:
  assumes "others_keep x" "visible p" "lookup_file (st_dirs st) p = Some b"
  shows "lookup_file (st_dirs (snd (publish_new ext sd x receipt hx final st))) p = Some b"
proof (cases "to_vec_pretty sd (projection_receipt_json receipt)")
  case (Inr rendered)
  define tmp where "tmp = temp_receipt_path x (fp_dir final) hx (st_sequence st)"
  define d1 where "d1 = snd (open_new x tmp (st_dirs st))"
  define d2 where "d2 = snd (write_and_sync x tmp rendered d1)"
  define d3 where "d3 = snd (hard_link x tmp final (io_interfere x 1 d2))"
  have ne: "p \<noteq> tmp" using assms(2) by (auto simp: tmp_def)
  have l1: "lookup_file d1 p = Some b" using ne assms(3) by (simp add: d1_def lookup_open_new)
  have l2: "lookup_file d2 p = Some b" using ne l1 by (simp add: d2_def lookup_write_and_sync)
  have "lookup_file (io_interfere x 1 d2) p = Some b"
    using assms(1,2) l2 by (simp add: others_keep_def)
  then have l3: "lookup_file d3 p = Some b" by (simp add: d3_def lookup_hard_link)
  have "st_dirs (snd (publish_new ext sd x receipt hx final st)) \<in>
      {d1, try_remove x tmp d2, try_remove x tmp d3}"
    by (cases "open_new x tmp (st_dirs st)"; cases "fst (open_new x tmp (st_dirs st))";
        cases "write_and_sync x tmp rendered d1"; cases "fst (write_and_sync x tmp rendered d1)";
        cases "hard_link x tmp final (io_interfere x 1 d2)"; cases "fst (hard_link x tmp final (io_interfere x 1 d2))")
      (simp_all add: publish_new_def Inr Let_def tmp_def [symmetric] d1_def d2_def d3_def)
  then show ?thesis using l1 l2 l3 ne by (auto simp: lookup_try_remove)
qed (simp add: publish_new_def assms(3))

lemma persist_keeps:
  assumes "others_keep x" "visible p" "lookup_file (st_dirs st) p = Some b"
  shows "lookup_file (st_dirs (snd (persist_projection_receipt ext sd x receipt store st))) p = Some b"
proof -
  have "lookup_file (io_interfere x 0 (st_dirs st)) p = Some b"
    using assms by (simp add: others_keep_def)
  then have l: "lookup_file ds p = Some b"
    if "create_dir_all x d (io_interfere x 0 (st_dirs st)) = (r, ds)" for d r ds
    using lookup_create_dir [of x d "io_interfere x 0 (st_dirs st)" p] that by simp
  show ?thesis
    using assms(3) l publish_new_keeps [OF assms(1,2)]
    by (auto simp: persist_projection_receipt_def Let_def split: sum.split option.split prod.split)
qed

text \<open>The path of the receipt with a given identity.\<close>

definition receipt_file :: "string \<Rightarrow> ProjectionReceipt \<Rightarrow> file_path" where
  "receipt_file store r =
     FilePath (path_join store RECEIPT_STORE_DIR) (drop 7 (prc_receipt_id r) @ ''.projection-receipt.json'')"

lemma valid_id_strip:
  assumes "valid_projection_receipt ext r"
  obtains hx where "strip_prefix ''sha256:'' (prc_receipt_id r) = Some hx" "drop 7 (prc_receipt_id r) = hx"
    "length hx = 64" "list_all is_lower_hex hx"
proof -
  have "is_sha256_digest (prc_receipt_id r)" using assms by (simp add: valid_projection_receipt_def)
  then obtain hx where hx: "strip_prefix ''sha256:'' (prc_receipt_id r) = Some hx"
    "length hx = 64" "list_all is_lower_hex hx"
    by (auto simp: is_sha256_digest_def DIGEST_ALGORITHM_PREFIX_def split: option.splits)
  then have "prc_receipt_id r = ''sha256:'' @ hx" by (simp add: strip_prefix_iff)
  with hx show thesis by (intro that) simp_all
qed

lemma receipt_file_visible: "valid_projection_receipt ext r \<Longrightarrow> visible (receipt_file store r)"
proof -
  assume "valid_projection_receipt ext r"
  then obtain hx where hx: "drop 7 (prc_receipt_id r) = hx" "length hx = 64" "list_all is_lower_hex hx"
    by (rule valid_id_strip)
  then obtain c cs where c: "hx = c # cs" "is_lower_hex c" by (cases hx) auto
  then have "c \<noteq> CHR ''.''" by (auto simp: is_lower_hex_def is_digit_def in_range_def)
  with hx c show ?thesis by (simp add: visible_def receipt_file_def)
qed

lemma redated_valid:
  "valid_projection_receipt ext r \<Longrightarrow> is_ok (rfc3339_parse ext t) \<Longrightarrow>
     valid_projection_receipt ext (r\<lparr>prc_imported_at := t\<rparr>)"
proof -
  have "valid_import_shape (r\<lparr>prc_imported_at := t\<rparr>) = valid_import_shape r"
    by (simp add: valid_import_shape_def complete_binding_def)
  then show "valid_projection_receipt ext r \<Longrightarrow> is_ok (rfc3339_parse ext t) \<Longrightarrow> ?thesis"
    by (simp add: valid_projection_receipt_def well_formed_projection_def)
qed

lemma read_published_ok:
  "read_published ext sd x ds p i = Inr y \<longleftrightarrow>
     (\<exists>b r. fs_read x ds p = Inr b \<and> receipt_from_slice sd b = Inr r \<and> valid_projection_receipt ext r
        \<and> prc_receipt_id r = i \<and> y = (r, p))"
  by (auto simp: read_published_def read_existing_def res_ok)

lemma publish_new_quiet:
  assumes "quiet x" "to_vec_pretty sd (projection_receipt_json r) = Inr b"
    and "st_dirs st (fp_dir final) \<noteq> None" "lookup_file (st_dirs st) final = None" "visible final"
    and free: "\<And>n. lookup_file (st_dirs st) (FilePath (fp_dir final) (''.'' @ n)) = None"
  shows "fst (publish_new ext sd x r hx final st) = Inr (r, final)"
    and "lookup_file (st_dirs (snd (publish_new ext sd x r hx final st))) final = Some b"
proof -
  define tmp where "tmp = temp_receipt_path x (fp_dir final) hx (st_sequence st)"
  define d1 where "d1 = put_file tmp [] (st_dirs st)"
  have ne: "final \<noteq> tmp" using assms(5) unfolding tmp_def by (metis temp_not_visible)
  have tmp: "lookup_file (st_dirs st) tmp = None" "fp_dir tmp = fp_dir final"
    using free by (simp_all add: tmp_def temp_receipt_path_def)
  have 1: "open_new x tmp (st_dirs st) = (Inr (), d1)"
    using assms(1,3) tmp by (simp add: open_new_def d1_def)
  have 2: "write_and_sync x tmp b d1 = (Inr (), put_file tmp b d1)"
    using assms(1) by (simp add: write_and_sync_def)
  have 3: "hard_link x tmp final (put_file tmp b d1) = (Linked, put_file final b (put_file tmp b d1))"
    using assms(1,3,4) ne tmp by (simp add: hard_link_def lookup_put_file d1_def)
  have p: "publish_new ext sd x r hx final st =
      (Inr (r, final), st\<lparr>st_sequence := st_sequence st + 1,
         st_dirs := try_remove x tmp (put_file final b (put_file tmp b d1))\<rparr>)"
    using assms(1,2) 1 2 3 by (simp add: publish_new_def Let_def tmp_def [symmetric])
  show "fst (publish_new ext sd x r hx final st) = Inr (r, final)" by (simp add: p)
  show "lookup_file (st_dirs (snd (publish_new ext sd x r hx final st))) final = Some b"
    using ne assms(3) tmp by (simp add: p lookup_try_remove lookup_put_file d1_def)
qed

lemma persist_unfold:
  fixes store :: string
  assumes "valid_projection_receipt ext r" "quiet x"
  defines "dir \<equiv> path_join store RECEIPT_STORE_DIR"
  shows "persist_projection_receipt ext sd x r store st =
     (let final = receipt_file store r in
      if lookup_file (st_dirs st) final \<noteq> None
      then (read_published ext sd x (st_dirs st) final (prc_receipt_id r), st)
      else publish_new ext sd x r (drop 7 (prc_receipt_id r)) final
        (st\<lparr>st_dirs := if st_dirs st dir = None then (st_dirs st)(dir \<mapsto> []) else st_dirs st\<rparr>))"
proof -
  obtain hx where hx: "strip_prefix ''sha256:'' (prc_receipt_id r) = Some hx" "drop 7 (prc_receipt_id r) = hx"
    using assms(1) by (rule valid_id_strip)
  have v: "ProjectionReceipt_validate ext r = Inr ()" using assms(1) by (simp add: res_ok)
  have l: "lookup_file ((st_dirs st)(dir \<mapsto> [])) (receipt_file store r) = None" if "st_dirs st dir = None"
    by (simp add: lookup_file_def receipt_file_def dir_def)
  show ?thesis
    using assms(2) l
    by (auto simp: persist_projection_receipt_def v hx receipt_file_def create_dir_all_def fs_exists_def
        Let_def dir_def)
qed

text \<open>The first receipt of an identity is stored and reads back.\<close>

lemma persist_first:
  assumes "quiet x" "serde_roundtrip sd" "valid_projection_receipt ext r"
    and "lookup_file (st_dirs st) (receipt_file store r) = None"
    and "\<forall>n. lookup_file (st_dirs st) (FilePath (path_join store RECEIPT_STORE_DIR) (''.'' @ n)) = None"
  obtains st' b where "persist_projection_receipt ext sd x r store st = (Inr (r, receipt_file store r), st')"
    "lookup_file (st_dirs st') (receipt_file store r) = Some b" "receipt_from_slice sd b = Inr r"
proof -
  define dir where "dir = path_join store RECEIPT_STORE_DIR"
  define st0 where "st0 = st\<lparr>st_dirs := if st_dirs st dir = None then (st_dirs st)(dir \<mapsto> []) else st_dirs st\<rparr>"
  define st' where "st' = snd (publish_new ext sd x r (drop 7 (prc_receipt_id r)) (receipt_file store r) st0)"
  obtain b where b: "to_vec_pretty sd (projection_receipt_json r) = Inr b" "receipt_from_slice sd b = Inr r"
    using assms(2) by (rule receipt_reads_back)
  have dir: "fp_dir (receipt_file store r) = dir" by (simp add: receipt_file_def dir_def)
  have l0: "lookup_file (st_dirs st0) q = lookup_file (st_dirs st) q" for q
    by (simp add: st0_def lookup_file_def)
  have d0: "st_dirs st0 dir \<noteq> None" by (simp add: st0_def)
  note new = publish_new_quiet [OF assms(1) b(1), of st0 "receipt_file store r" ext "drop 7 (prc_receipt_id r)"]
  have pub: "fst (publish_new ext sd x r (drop 7 (prc_receipt_id r)) (receipt_file store r) st0)
        = Inr (r, receipt_file store r)"
      "lookup_file (st_dirs st') (receipt_file store r) = Some b"
    unfolding st'_def
    using new assms(4,5) d0 receipt_file_visible [OF assms(3)] by (simp_all add: l0 dir dir_def [symmetric])
  have "persist_projection_receipt ext sd x r store st = (Inr (r, receipt_file store r), st')"
    using assms(4) pub(1) unfolding persist_unfold [OF assms(3,1)] st'_def st0_def dir_def
    by (simp add: Let_def prod_eq_iff split del: if_split)
  with pub(2) b(2) show thesis by (intro that)
qed

section \<open>Properties\<close>

text \<open>
  C24: publication is create-only. Whatever operations fail, whatever a failed write leaves
  behind, and whatever other processes do between the steps short of changing a visible file
  themselves, no visible file of the store is replaced or removed by persisting a receipt: the
  bytes of every receipt and packet that was there are there afterwards.
\<close>

theorem receipts_are_immutable:
  assumes "others_keep x" "visible p" "lookup_file (st_dirs st) p = Some b"
  shows "lookup_file (st_dirs (snd (persist_projection_receipt ext sd x receipt store st))) p = Some b"
  using assms by (rule persist_keeps)

text \<open>
  C34: a repeated identity keeps the first receipt. On a store whose receipt directory holds no
  file of this identity and no leftover temporary file, and without faults, persisting a valid
  receipt stores it; persisting the same receipt dated at any other time then returns the first
  one, with its original date, and changes nothing.
\<close>

theorem repeated_identity_keeps_first:
  assumes "quiet x" "serde_roundtrip sd" "valid_projection_receipt ext r" "is_ok (rfc3339_parse ext t)"
    and "lookup_file (st_dirs st) (receipt_file store r) = None"
    and "\<forall>n. lookup_file (st_dirs st) (FilePath (path_join store RECEIPT_STORE_DIR) (''.'' @ n)) = None"
  shows "\<exists>st'. persist_projection_receipt ext sd x r store st = (Inr (r, receipt_file store r), st')
     \<and> persist_projection_receipt ext sd x (r\<lparr>prc_imported_at := t\<rparr>) store st'
         = (Inr (r, receipt_file store r), st')"
proof -
  obtain st' b where 1: "persist_projection_receipt ext sd x r store st = (Inr (r, receipt_file store r), st')"
    and pub: "lookup_file (st_dirs st') (receipt_file store r) = Some b" "receipt_from_slice sd b = Inr r"
    using assms(1-3,5,6) by (rule persist_first)
  have v: "valid_projection_receipt ext (r\<lparr>prc_imported_at := t\<rparr>)"
    using assms(3,4) by (rule redated_valid)
  have f: "receipt_file store (r\<lparr>prc_imported_at := t\<rparr>) = receipt_file store r"
    by (simp add: receipt_file_def)
  have "read_published ext sd x (st_dirs st') (receipt_file store r) (prc_receipt_id r)
      = Inr (r, receipt_file store r)"
    using pub assms(1,3) by (simp add: read_published_ok fs_read_def)
  then have "persist_projection_receipt ext sd x (r\<lparr>prc_imported_at := t\<rparr>) store st'
      = (Inr (r, receipt_file store r), st')"
    using pub(1) unfolding persist_unfold [OF v assms(1)] by (simp add: f)
  with 1 show ?thesis by blast
qed

definition demo_io :: io where
  "demo_io = \<lparr>io_fault = (\<lambda>_. None), io_text = (\<lambda>_. ''not found''), io_partial = (\<lambda>_. None),
     io_interfere = (\<lambda>_ ds. ds), io_pid = 7\<rparr>"

definition demo_store_state :: store_state where
  "demo_store_state = \<lparr>st_dirs = Map.empty, st_sequence = - 1\<rparr>"

lemma demo_io_quiet: "quiet demo_io"
  by (simp add: quiet_def demo_io_def)

lemma demo_sealed_valid: "valid_projection_receipt demo_ext (snd (ProjectionReceipt_seal demo_ext demo_projection))"
  using sealed_projection_valid [OF demo_ext_total demo_ext_shape] demo_projection_well_formed by blast

theorem receipts_are_immutable_witness:
  "lookup_file (st_dirs (snd (persist_projection_receipt demo_ext demo_serde demo_io
     (snd (ProjectionReceipt_seal demo_ext demo_projection)) ''s'' \<lparr>st_dirs = [''s/m'' \<mapsto> [(''e.packet.json'', ''x'')]], st_sequence = 0\<rparr>))) (FilePath ''s/m'' ''e.packet.json'') = Some ''x''"
  by (rule receipts_are_immutable)
    (simp_all add: quiet_others_keep demo_io_quiet visible_def lookup_file_def)

theorem repeated_identity_keeps_first_witness:
  "\<exists>st'. persist_projection_receipt demo_ext demo_serde demo_io
       (snd (ProjectionReceipt_seal demo_ext demo_projection)\<lparr>prc_imported_at := ''2027-01-01Z''\<rparr>) ''s'' st'
     = (Inr (snd (ProjectionReceipt_seal demo_ext demo_projection),
             receipt_file ''s'' (snd (ProjectionReceipt_seal demo_ext demo_projection))), st')"
proof -
  have "is_ok (rfc3339_parse demo_ext ''2027-01-01Z'')" by (simp add: demo_ext_def)
  moreover have "lookup_file (st_dirs demo_store_state) p = None" for p
    by (simp add: demo_store_state_def lookup_file_def)
  ultimately show ?thesis
    using repeated_identity_keeps_first [OF demo_io_quiet demo_serde_roundtrip demo_sealed_valid, of _ demo_store_state]
    by blast
qed

end
