(* ===== verification/Continuity_Record.thy ===== *)
theory Continuity_Record
  imports Projection_Store
begin

text \<open>
  The import of a Continuity rely export as a projection-marked witness packet
  (\<open>nq-monitor\<close>, \<open>continuity_record.rs\<close>): the strict source schema and its derived decoder,
  the core-consistency digest, the coverage limits, the packet, the store of packets read
  back for replay and substitution, the publication of a packet, and the projection receipt
  that is issued for every outcome.

  An operation that may change the store takes it and returns it beside its result.
\<close>

section \<open>The source schema\<close>

definition SUPPORTED_RECORD_SCHEMA :: string where
  "SUPPORTED_RECORD_SCHEMA = ''continuity.rely_export.v0''"

definition WITNESS_TYPE :: string where
  "WITNESS_TYPE = ''continuity_rely_record''"

definition KNOWN_RELY_CODES :: "string list" where
  "KNOWN_RELY_CODES =
     [''eligible'', ''status_not_committed'', ''expired'', ''reliance_none'',
      ''authoring_tier_capped'', ''kind_basis_policy'', ''hard_premise_unavailable'']"

definition FIXED_COVERAGE_LIMITS :: "string list" where
  "FIXED_COVERAGE_LIMITS =
     [''projection of continuity-held records; not native witness custody'',
      ''operational testimony; no notary; source digests are producer ''
        @ ''self-consistency, not independent custody'',
      ''a continuity rely verdict is source testimony, not nq admissibility; ''
        @ ''rely advises, never authorizes'',
      ''the verdict is consumer-neutral and evaluation-time-relative; absence ''
        @ ''of newer continuity testimony is not evidence of continuity or ''
        @ ''discontinuity'',
      ''authoring-tier and reliance-class ceilings are continuity law, carried ''
        @ ''for disclosure and never elevated by import'',
      ''import does not discharge any obligation and mints no claim; the ''
        @ ''subject binding is continuity's declared scope, not verified by nq'']"

record Exporter =
  ex_tool :: string
  ex_version :: string
  ex_repo :: "string option"
  ex_commit :: "string option"

record SourceBlock =
  sb_system :: string
  sb_store_id :: "string option"
  sb_scope_kind :: "string option"
  sb_schema_version :: "u64 option"
  sb_exporter :: Exporter

record Subject =
  sj_memory_id :: string
  sj_scope :: string
  sj_kind :: string
  sj_basis :: string

record RelyLifecycle =
  lf_observe_event_id :: "string option"
  lf_observe_receipt_hash :: "string option"
  lf_latest_commit_event_id :: "string option"
  lf_latest_commit_receipt_hash :: "string option"

record Times =
  tm_created_at :: string
  tm_updated_at :: string
  tm_source_observed_at :: "string option"
  tm_expires_at :: "string option"

record Rely =
  rv_rely_ok :: bool
  rv_code :: string
  rv_message :: string
  rv_details :: json

record Premise =
  pre_src :: string
  pre_relation :: string
  pre_strength :: string
  pre_status :: string

record History =
  hi_event_count :: u64
  hi_receipt_count :: u64

record RelyRecord =
  ry_schema :: string
  ry_export_id :: string
  ry_exported_at :: string
  ry_source :: SourceBlock
  ry_subject :: Subject
  ry_content_hash :: string
  ry_status :: string
  ry_supersedes :: "string option"
  ry_revoked_by :: "string option"
  ry_authoring_tier :: string
  ry_reliance_class :: string
  ry_effective_reliance :: string
  ry_lifecycle :: RelyLifecycle
  ry_times :: Times
  ry_evaluation_time :: string
  ry_rely :: Rely
  ry_premises :: "Premise list"
  ry_history :: History
  ry_establishes :: "string list"
  ry_does_not_establish :: "string list"

definition decode_exporter :: "json \<Rightarrow> Exporter option" where
  "decode_exporter v = do {
     fs \<leftarrow> struct_fields
       [(''tool'', Required), (''version'', Required), (''repo'', Nullable), (''commit'', Nullable)] v;
     tool \<leftarrow> decode_req as_str (fs ! 0);
     version \<leftarrow> decode_req as_str (fs ! 1);
     repo \<leftarrow> decode_opt as_str (fs ! 2);
     commit \<leftarrow> decode_opt as_str (fs ! 3);
     Some \<lparr>ex_tool = tool, ex_version = version, ex_repo = repo, ex_commit = commit\<rparr> }"

definition decode_source_block :: "json \<Rightarrow> SourceBlock option" where
  "decode_source_block v = do {
     fs \<leftarrow> struct_fields
       [(''system'', Required), (''store_id'', Nullable), (''scope_kind'', Nullable),
        (''schema_version'', Nullable), (''exporter'', Required)] v;
     system \<leftarrow> decode_req as_str (fs ! 0);
     store_id \<leftarrow> decode_opt as_str (fs ! 1);
     scope_kind \<leftarrow> decode_opt as_str (fs ! 2);
     schema_version \<leftarrow> decode_opt decode_u64 (fs ! 3);
     exporter \<leftarrow> decode_req decode_exporter (fs ! 4);
     Some \<lparr>sb_system = system, sb_store_id = store_id, sb_scope_kind = scope_kind,
       sb_schema_version = schema_version, sb_exporter = exporter\<rparr> }"

definition decode_subject :: "json \<Rightarrow> Subject option" where
  "decode_subject v = do {
     fs \<leftarrow> struct_fields
       [(''memory_id'', Required), (''scope'', Required), (''kind'', Required), (''basis'', Required)] v;
     memory_id \<leftarrow> decode_req as_str (fs ! 0);
     scope \<leftarrow> decode_req as_str (fs ! 1);
     kind \<leftarrow> decode_req as_str (fs ! 2);
     basis \<leftarrow> decode_req as_str (fs ! 3);
     Some \<lparr>sj_memory_id = memory_id, sj_scope = scope, sj_kind = kind, sj_basis = basis\<rparr> }"

definition decode_lifecycle :: "json \<Rightarrow> RelyLifecycle option" where
  "decode_lifecycle v = do {
     fs \<leftarrow> struct_fields
       [(''observe_event_id'', Defaulted), (''observe_receipt_hash'', Defaulted),
        (''latest_commit_event_id'', Defaulted), (''latest_commit_receipt_hash'', Defaulted)] v;
     observe_event_id \<leftarrow> decode_opt as_str (fs ! 0);
     observe_receipt_hash \<leftarrow> decode_opt as_str (fs ! 1);
     latest_commit_event_id \<leftarrow> decode_opt as_str (fs ! 2);
     latest_commit_receipt_hash \<leftarrow> decode_opt as_str (fs ! 3);
     Some \<lparr>lf_observe_event_id = observe_event_id, lf_observe_receipt_hash = observe_receipt_hash,
       lf_latest_commit_event_id = latest_commit_event_id,
       lf_latest_commit_receipt_hash = latest_commit_receipt_hash\<rparr> }"

definition decode_times :: "json \<Rightarrow> Times option" where
  "decode_times v = do {
     fs \<leftarrow> struct_fields
       [(''created_at'', Required), (''updated_at'', Required),
        (''source_observed_at'', Defaulted), (''expires_at'', Defaulted)] v;
     created_at \<leftarrow> decode_req as_str (fs ! 0);
     updated_at \<leftarrow> decode_req as_str (fs ! 1);
     source_observed_at \<leftarrow> decode_opt as_str (fs ! 2);
     expires_at \<leftarrow> decode_opt as_str (fs ! 3);
     Some \<lparr>tm_created_at = created_at, tm_updated_at = updated_at,
       tm_source_observed_at = source_observed_at, tm_expires_at = expires_at\<rparr> }"

definition decode_rely :: "json \<Rightarrow> Rely option" where
  "decode_rely v = do {
     fs \<leftarrow> struct_fields
       [(''rely_ok'', Required), (''code'', Required), (''message'', Required), (''details'', Required)] v;
     rely_ok \<leftarrow> decode_req decode_bool (fs ! 0);
     code \<leftarrow> decode_req as_str (fs ! 1);
     message \<leftarrow> decode_req as_str (fs ! 2);
     details \<leftarrow> decode_req Some (fs ! 3);
     Some \<lparr>rv_rely_ok = rely_ok, rv_code = code, rv_message = message, rv_details = details\<rparr> }"

definition decode_premise :: "json \<Rightarrow> Premise option" where
  "decode_premise v = do {
     fs \<leftarrow> struct_fields
       [(''src'', Required), (''relation'', Required), (''strength'', Required), (''status'', Required)] v;
     src \<leftarrow> decode_req as_str (fs ! 0);
     relation \<leftarrow> decode_req as_str (fs ! 1);
     strength \<leftarrow> decode_req as_str (fs ! 2);
     status \<leftarrow> decode_req as_str (fs ! 3);
     Some \<lparr>pre_src = src, pre_relation = relation, pre_strength = strength, pre_status = status\<rparr> }"

definition decode_history :: "json \<Rightarrow> History option" where
  "decode_history v = do {
     fs \<leftarrow> struct_fields [(''event_count'', Required), (''receipt_count'', Required)] v;
     event_count \<leftarrow> decode_req decode_u64 (fs ! 0);
     receipt_count \<leftarrow> decode_req decode_u64 (fs ! 1);
     Some \<lparr>hi_event_count = event_count, hi_receipt_count = receipt_count\<rparr> }"

definition rely_record_spec :: "(string \<times> field_presence) list" where
  "rely_record_spec =
     [(''schema'', Required), (''export_id'', Required), (''exported_at'', Required),
      (''source'', Required), (''subject'', Required), (''content_hash'', Required),
      (''status'', Required), (''supersedes'', Nullable), (''revoked_by'', Nullable),
      (''authoring_tier'', Required), (''reliance_class'', Required),
      (''effective_reliance'', Required), (''lifecycle'', Required), (''times'', Required),
      (''evaluation_time'', Required), (''rely'', Required), (''premises'', Required),
      (''history'', Required), (''establishes'', Required), (''does_not_establish'', Required)]"

definition decode_rely_record :: "json \<Rightarrow> RelyRecord option" where
  "decode_rely_record v = do {
     fs \<leftarrow> struct_fields rely_record_spec v;
     schema \<leftarrow> decode_req as_str (fs ! 0);
     export_id \<leftarrow> decode_req as_str (fs ! 1);
     exported_at \<leftarrow> decode_req as_str (fs ! 2);
     source \<leftarrow> decode_req decode_source_block (fs ! 3);
     subject \<leftarrow> decode_req decode_subject (fs ! 4);
     content_hash \<leftarrow> decode_req as_str (fs ! 5);
     status \<leftarrow> decode_req as_str (fs ! 6);
     supersedes \<leftarrow> decode_opt as_str (fs ! 7);
     revoked_by \<leftarrow> decode_opt as_str (fs ! 8);
     authoring_tier \<leftarrow> decode_req as_str (fs ! 9);
     reliance_class \<leftarrow> decode_req as_str (fs ! 10);
     effective_reliance \<leftarrow> decode_req as_str (fs ! 11);
     lifecycle \<leftarrow> decode_req decode_lifecycle (fs ! 12);
     times \<leftarrow> decode_req decode_times (fs ! 13);
     evaluation_time \<leftarrow> decode_req as_str (fs ! 14);
     rely \<leftarrow> decode_req decode_rely (fs ! 15);
     premises \<leftarrow> decode_req (decode_vec decode_premise) (fs ! 16);
     history \<leftarrow> decode_req decode_history (fs ! 17);
     establishes \<leftarrow> decode_req (decode_vec as_str) (fs ! 18);
     does_not_establish \<leftarrow> decode_req (decode_vec as_str) (fs ! 19);
     Some \<lparr>ry_schema = schema, ry_export_id = export_id, ry_exported_at = exported_at,
       ry_source = source, ry_subject = subject, ry_content_hash = content_hash,
       ry_status = status, ry_supersedes = supersedes, ry_revoked_by = revoked_by,
       ry_authoring_tier = authoring_tier, ry_reliance_class = reliance_class,
       ry_effective_reliance = effective_reliance, ry_lifecycle = lifecycle, ry_times = times,
       ry_evaluation_time = evaluation_time, ry_rely = rely, ry_premises = premises,
       ry_history = history, ry_establishes = establishes,
       ry_does_not_establish = does_not_establish\<rparr> }"

section \<open>Outcomes\<close>

datatype ImportRefusal =
    IR_UnsupportedSchema string
  | IR_Malformed string
  | IR_UnknownRelyCode string
  | IR_UnenforceablePremise string
  | IR_SnapshotSubstitution string string string string
  | IR_Store string

fun ImportRefusal_display :: "ImportRefusal \<Rightarrow> string" where
  "ImportRefusal_display (IR_UnsupportedSchema found) =
     ''unsupported_schema: expected '' @ debug_str SUPPORTED_RECORD_SCHEMA @ '', found '' @ debug_str found"
| "ImportRefusal_display (IR_Malformed detail) = ''malformed_record: '' @ detail"
| "ImportRefusal_display (IR_UnknownRelyCode code) =
     ''unknown_rely_code: '' @ debug_str code @ '' is outside the supported source ''
       @ ''vocabulary; an unknown verdict cannot be imported as testimony''"
| "ImportRefusal_display (IR_UnenforceablePremise detail) = ''unenforceable_premise: '' @ detail"
| "ImportRefusal_display (IR_SnapshotSubstitution memory_id evaluation_time existing presented) =
     ''snapshot_substitution: memory '' @ memory_id @ '' at evaluation time '' @ evaluation_time
       @ '' semantic core changed (stored '' @ existing @ '', presented '' @ presented
       @ ''); source mutation under the same snapshot identity is refused''"
| "ImportRefusal_display (IR_Store detail) = ''store_error: '' @ detail"

datatype ImportOutcome =
    Imported file_path string string string
  | Duplicate file_path string

section \<open>Digests and limits\<close>

definition prefixed_sha256 :: "externals \<Rightarrow> string \<Rightarrow> string" where
  "prefixed_sha256 ext bytes = ''sha256:'' @ sha256_hex ext bytes"

definition CORE_KEYS :: "string list" where
  "CORE_KEYS =
     [''schema'', ''subject'', ''content_hash'', ''status'', ''supersedes'', ''revoked_by'',
      ''authoring_tier'', ''reliance_class'', ''effective_reliance'', ''evaluation_time'', ''rely'', ''premises'']"

definition record_core :: "json \<Rightarrow> json" where
  "record_core v =
     JObj (btree (map (\<lambda>k. (k, case json_field v k of None \<Rightarrow> JNull | Some x \<Rightarrow> x)) CORE_KEYS))"

definition core_consistency_digest :: "externals \<Rightarrow> json \<Rightarrow> ImportRefusal + string" where
  "core_consistency_digest ext v =
     (case jcs_to_vec ext (record_core v) of
        Inl e \<Rightarrow> Inl (IR_Malformed (''core canonicalization failed: '' @ e))
      | Inr bytes \<Rightarrow> Inr (prefixed_sha256 ext bytes))"

fun try_map :: "('a \<Rightarrow> 'e + 'b) \<Rightarrow> 'a list \<Rightarrow> 'e + 'b list" where
  "try_map f [] = Inr []"
| "try_map f (x # xs) = res_bind (f x) (\<lambda>y. res_bind (try_map f xs) (\<lambda>ys. Inr (y # ys)))"

definition utf8_em_dash :: string where
  "utf8_em_dash = [CHR 0xE2, CHR 0x80, CHR 0x94]"

definition premise_limit :: "Premise \<Rightarrow> string" where
  "premise_limit p =
     ''coverage bounded by continuity premise: '' @ pre_relation p @ '' '' @ pre_src p @ '' (''
       @ pre_strength p @ '', '' @ pre_status p @ '') '' @ utf8_em_dash
       @ '' premise availability is continuity's answer at the recorded evaluation ''
       @ ''time, asserted, not verified by nq''"

definition nonclaim_limit :: "string \<Rightarrow> string" where
  "nonclaim_limit line = ''cannot testify: '' @ line"

definition tier_limit :: "RelyRecord \<Rightarrow> string" where
  "tier_limit r =
     ''coverage bounded by continuity authoring tier: '' @ ry_authoring_tier r @ '' (effective ''
       @ ''reliance ceiling '' @ ry_effective_reliance r @ ''; carried, never elevated)''"

definition premise_coverage :: "RelyRecord \<Rightarrow> ImportRefusal + string list" where
  "premise_coverage r =
     res_bind (try_map
       (\<lambda>p. if trim (pre_src p) = []
            then Inl (IR_UnenforceablePremise
              (''premise with empty source; an empty premise cannot be '' @ ''enforced as a coverage limitation''))
            else Inr (premise_limit p)) (ry_premises r)) (\<lambda>premises.
     res_bind (try_map
       (\<lambda>line. if trim line = []
            then Inl (IR_UnenforceablePremise
              (''empty does_not_establish line cannot be enforced as a '' @ ''cannot-testify limitation''))
            else Inr (nonclaim_limit line)) (ry_does_not_establish r)) (\<lambda>nonclaims.
     Inr (premises @ nonclaims @ [tier_limit r])))"

section \<open>The packet\<close>

abbreviation jobject :: "(string \<times> json) list \<Rightarrow> json" where
  "jobject fs \<equiv> JObj (btree fs)"

abbreviation json_strings :: "string list \<Rightarrow> json" where
  "json_strings ss \<equiv> JArr (map JStr ss)"

definition source_identity :: "RelyRecord \<Rightarrow> string \<Rightarrow> string \<Rightarrow> json" where
  "source_identity r raw_digest core_digest = jobject
     [(''type'', JStr ''continuity_source_identity''),
      (''continuity_schema'', JStr (ry_schema r)),
      (''continuity_memory_id'', JStr (sj_memory_id (ry_subject r))),
      (''continuity_scope'', JStr (sj_scope (ry_subject r))),
      (''continuity_kind'', JStr (sj_kind (ry_subject r))),
      (''continuity_basis'', JStr (sj_basis (ry_subject r))),
      (''continuity_store_id'', json_opt JStr (sb_store_id (ry_source r))),
      (''continuity_store_scope_kind'', json_opt JStr (sb_scope_kind (ry_source r))),
      (''continuity_store_schema_version'', json_opt (\<lambda>w. json_word w) (sb_schema_version (ry_source r))),
      (''continuity_exporter'', jobject
        [(''tool'', JStr (ex_tool (sb_exporter (ry_source r)))),
         (''version'', JStr (ex_version (sb_exporter (ry_source r)))),
         (''repo'', json_opt JStr (ex_repo (sb_exporter (ry_source r)))),
         (''commit'', json_opt JStr (ex_commit (sb_exporter (ry_source r))))]),
      (''continuity_export_id'', JStr (ry_export_id r)),
      (''continuity_export_id_covers'',
        JStr (''continuity's own canonicalization of the record minus the export ''
          @ ''envelope; carried opaquely, not recomputed by nq'')),
      (''continuity_content_hash'', JStr (ry_content_hash r)),
      (''continuity_content_hash_covers'',
        JStr (''continuity's portable content identity in its own digest domain; ''
          @ ''carried opaquely, not recomputed by nq'')),
      (''raw_source_digest'', JStr raw_digest),
      (''raw_source_digest_covers'', JStr ''the exact record bytes as supplied''),
      (''core_consistency_digest'', JStr core_digest),
      (''core_consistency_digest_covers'',
        JStr (''JCS canonicalization of the record's semantic core (subject, '' @ ''verdict, lifecycle state, premises)'')),
      (''continuity_lifecycle'', jobject
        [(''observe_event_id'', json_opt JStr (lf_observe_event_id (ry_lifecycle r))),
         (''observe_receipt_hash'', json_opt JStr (lf_observe_receipt_hash (ry_lifecycle r))),
         (''latest_commit_event_id'', json_opt JStr (lf_latest_commit_event_id (ry_lifecycle r))),
         (''latest_commit_receipt_hash'', json_opt JStr (lf_latest_commit_receipt_hash (ry_lifecycle r)))]),
      (''exported_at'', JStr (ry_exported_at r))]"

definition rely_result :: "RelyRecord \<Rightarrow> json" where
  "rely_result r = jobject
     [(''type'', JStr ''continuity_rely_result''),
      (''rely_ok'', JBool (rv_rely_ok (ry_rely r))),
      (''continuity_rely_code'', JStr (rv_code (ry_rely r))),
      (''continuity_rely_message'', JStr (rv_message (ry_rely r))),
      (''continuity_rely_details'', rv_details (ry_rely r)),
      (''evaluation_time'', JStr (ry_evaluation_time r)),
      (''continuity_status'', JStr (ry_status r)),
      (''continuity_supersedes'', json_opt JStr (ry_supersedes r)),
      (''continuity_revoked_by'', json_opt JStr (ry_revoked_by r)),
      (''continuity_authoring_tier'', JStr (ry_authoring_tier r)),
      (''continuity_reliance_class'', JStr (ry_reliance_class r)),
      (''continuity_effective_reliance'', JStr (ry_effective_reliance r)),
      (''times'', jobject
        [(''created_at'', JStr (tm_created_at (ry_times r))),
         (''updated_at'', JStr (tm_updated_at (ry_times r))),
         (''source_observed_at'', json_opt JStr (tm_source_observed_at (ry_times r))),
         (''expires_at'', json_opt JStr (tm_expires_at (ry_times r)))]),
      (''continuity_establishes'', json_strings (ry_establishes r)),
      (''history'', jobject
        [(''event_count'', json_word (hi_event_count (ry_history r))),
         (''receipt_count'', json_word (hi_receipt_count (ry_history r)))]),
      (''meaning'',
        JStr (''continuity's rely verdict is source testimony at one ''
          @ ''evaluation time; it is not an nq status, a refusal is not ''
          @ ''the negation of any historical claim, and ''
          @ ''cannot-establish flavors (:missing, status observed) are ''
          @ ''distinct from discontinuity flavors (:revoked, status '' @ ''revoked) and are never collapsed''))]"

definition premise_observation :: "Premise \<Rightarrow> json" where
  "premise_observation p = jobject
     [(''type'', JStr ''continuity_premise''), (''src'', JStr (pre_src p)), (''relation'', JStr (pre_relation p)),
      (''strength'', JStr (pre_strength p)), (''status'', JStr (pre_status p))]"

definition record_packet ::
  "RelyRecord \<Rightarrow> string \<Rightarrow> string \<Rightarrow> string \<Rightarrow> string \<Rightarrow> string list \<Rightarrow> WitnessPacket"
where
  "record_packet r source_path raw_digest core_digest generated_at coverage =
     \<lparr>wp_schema = WITNESS_SCHEMA, wp_witness_type = WITNESS_TYPE, wp_subject = sj_scope (ry_subject r),
      wp_access_path = source_path, wp_observed_at = ry_evaluation_time r, wp_generated_at = generated_at,
      wp_observations =
        [source_identity r raw_digest core_digest, rely_result r] @ map premise_observation (ry_premises r),
      wp_coverage_limits = coverage, wp_dependencies = [],
      wp_custody_basis = Some CUSTODY_BASIS_EXTERNAL_PROJECTION,
      wp_source_finding_ref = Some (''continuity:memory:'' @ sj_memory_id (ry_subject r) @ ''@''
        @ ry_evaluation_time r @ '' export='' @ ry_schema r @ '' '' @ raw_digest),
      wp_projection_limits =
        [PROJECTION_LIMIT_NATIVE_WITNESS_CUSTODY, ''source assertions not independently verified''],
      wp_position = Some ApplicationInternal\<rparr>"

definition build_packet ::
  "externals \<Rightarrow> RelyRecord \<Rightarrow> string \<Rightarrow> string \<Rightarrow> string \<Rightarrow> string \<Rightarrow> ImportRefusal + WitnessPacket"
where
  "build_packet ext r source_path raw_digest core_digest generated_at =
     res_bind (premise_coverage r) (\<lambda>limits.
       let packet = record_packet r source_path raw_digest core_digest generated_at
             (remdups_adj (sort (FIXED_COVERAGE_LIMITS @ limits)))
       in res_bind (map_err (\<lambda>e. IR_Malformed (''constructed packet failed wire validation: '' @ e))
            (WitnessPacket_validate ext packet)) (\<lambda>_. Inr packet))"

section \<open>The store of packets\<close>

record StoredSnapshot =
  ss_path :: file_path
  ss_evaluation_time :: string
  ss_raw_source_digest :: string
  ss_core_consistency_digest :: string

text \<open>\<open>Path::extension\<close> of a file name.\<close>

definition extension :: "string \<Rightarrow> string option" where
  "extension n =
     (if CHR ''.'' \<notin> set n then None
      else let ext = rev (takeWhile (\<lambda>c. c \<noteq> CHR ''.'') (rev n))
           in if length n \<le> Suc (length ext) then None else Some ext)"

fun find_map :: "('a \<Rightarrow> 'b option) \<Rightarrow> 'a list \<Rightarrow> 'b option" where
  "find_map f [] = None"
| "find_map f (x # xs) = (case f x of None \<Rightarrow> find_map f xs | Some y \<Rightarrow> Some y)"

definition observation_type :: "json \<Rightarrow> string option" where
  "observation_type ob = Option.bind (json_field ob ''type'') as_str"

definition observations_of :: "json \<Rightarrow> json list option" where
  "observations_of v = Option.bind (json_field v ''observations'') as_array"

definition read_snapshot :: "file_path \<Rightarrow> json \<Rightarrow> ImportRefusal + StoredSnapshot" where
  "read_snapshot path v =
     res_bind (ok_or
       (IR_Store (''stored packet '' @ path_display path @ '' carries no continuity_source_identity''))
       (Option.bind (observations_of v)
         (List.find (\<lambda>ob. observation_type ob = Some ''continuity_source_identity'')))) (\<lambda>identity.
     let get = (\<lambda>k. ok_or (IR_Store (''stored packet '' @ path_display path @ '' lacks '' @ k))
                 (Option.bind (json_field identity k) as_str))
     in
     res_bind (ok_or
       (IR_Store (''stored packet '' @ path_display path @ '' lacks a rely-result evaluation_time''))
       (Option.bind (observations_of v)
         (find_map (\<lambda>ob. if observation_type ob = Some ''continuity_rely_result''
            then Option.bind (json_field ob ''evaluation_time'') as_str else None)))) (\<lambda>evaluation_time.
     res_bind (get ''raw_source_digest'') (\<lambda>raw.
     res_bind (get ''core_consistency_digest'') (\<lambda>core.
     Inr \<lparr>ss_path = path, ss_evaluation_time = evaluation_time, ss_raw_source_digest = raw,
          ss_core_consistency_digest = core\<rparr>))))"

fun read_entries ::
  "serde \<Rightarrow> io \<Rightarrow> directories \<Rightarrow> string \<Rightarrow> (string \<times> string) list \<Rightarrow> ImportRefusal + StoredSnapshot list"
where
  "read_entries sd x ds dir [] = Inr []"
| "read_entries sd x ds dir (e # es) =
     (case io_fault x (ReadEntry dir (fst e)) of
        Some err \<Rightarrow> Inl (IR_Store (''reading '' @ dir @ '': '' @ err))
      | None \<Rightarrow>
          if extension (fst e) \<noteq> Some ''json'' then read_entries sd x ds dir es
          else
            (let path = FilePath dir (fst e) in
             res_bind (map_err (\<lambda>err. IR_Store (''reading '' @ path_display path @ '': '' @ err))
               (fs_read x ds path)) (\<lambda>bytes.
             res_bind (map_err (\<lambda>err. IR_Store (''stored packet '' @ path_display path @ '' is not JSON: '' @ err))
               (value_from_slice sd bytes)) (\<lambda>v.
             res_bind (read_snapshot path v) (\<lambda>s.
             res_bind (read_entries sd x ds dir es) (\<lambda>ss. Inr (s # ss))))))) "

definition read_store :: "serde \<Rightarrow> io \<Rightarrow> directories \<Rightarrow> string \<Rightarrow> ImportRefusal + StoredSnapshot list" where
  "read_store sd x ds memory_dir =
     (case io_fault x (ReadDir memory_dir) of
        Some e \<Rightarrow> Inl (IR_Store (''reading '' @ memory_dir @ '': '' @ e))
      | None \<Rightarrow>
          (case ds memory_dir of
             None \<Rightarrow> Inr []
           | Some es \<Rightarrow> read_entries sd x ds memory_dir es))"

section \<open>Importing a packet\<close>

text \<open>The checks before the store is consulted: the record and its core-consistency digest.\<close>

definition recognise_record :: "externals \<Rightarrow> serde \<Rightarrow> string \<Rightarrow> ImportRefusal + RelyRecord \<times> string" where
  "recognise_record ext sd bytes =
     res_bind (map_err (\<lambda>e. IR_Malformed (''not JSON: '' @ e)) (value_from_slice sd bytes)) (\<lambda>v.
     let found = (case Option.bind (json_field v ''schema'') as_str of None \<Rightarrow> ''(absent)'' | Some s \<Rightarrow> s)
     in if found \<noteq> SUPPORTED_RECORD_SCHEMA then Inl (IR_UnsupportedSchema found)
        else
     res_bind (ok_or (IR_Malformed (decode_message sd ''RelyRecord'' v)) (decode_rely_record v)) (\<lambda>record.
     if sb_system (ry_source record) \<noteq> ''continuity''
     then Inl (IR_Malformed (''source.system is '' @ debug_str (sb_system (ry_source record))
       @ '', not '' @ [CHR 0x22] @ ''continuity'' @ [CHR 0x22]))
     else if rv_code (ry_rely record) \<notin> set KNOWN_RELY_CODES
     then Inl (IR_UnknownRelyCode (rv_code (ry_rely record)))
     else res_bind (core_consistency_digest ext v) (\<lambda>core. Inr (record, core))))"

function trim_start_matches :: "string \<Rightarrow> string \<Rightarrow> string" where
  "trim_start_matches pat s =
     (if pat = [] then s
      else case strip_prefix pat s of None \<Rightarrow> s | Some r \<Rightarrow> trim_start_matches pat r)"
  by pat_completeness auto
termination
  by (relation "measure (length \<circ> snd)") (auto simp: strip_prefix_iff)

declare trim_start_matches.simps [simp del]

text \<open>One character of the tag per code point: the continuation bytes of UTF-8 add nothing.\<close>

definition eval_tag :: "string \<Rightarrow> string" where
  "eval_tag t =
     concat (map (\<lambda>c. if is_alnum c then [c] else if in_range 128 191 c then [] else ''-'') t)"

definition packet_file_name :: "string \<Rightarrow> string \<Rightarrow> string" where
  "packet_file_name evaluation_time raw_digest =
     ''e'' @ eval_tag evaluation_time @ ''-'' @ take 16 (trim_start_matches ''sha256:'' raw_digest)
       @ ''.packet.json''"

definition publish_packet ::
  "serde \<Rightarrow> io \<Rightarrow> string \<Rightarrow> string \<Rightarrow> WitnessPacket \<Rightarrow> store_state \<Rightarrow> (ImportRefusal + file_path) \<times> store_state"
where
  "publish_packet sd x memory_dir file_name packet st =
     (case create_dir_all x memory_dir (st_dirs st) of
        (Inl e, ds) \<Rightarrow> (Inl (IR_Store (''creating '' @ memory_dir @ '': '' @ e)), st\<lparr>st_dirs := ds\<rparr>)
      | (Inr _, ds) \<Rightarrow>
          (let final_path = FilePath memory_dir file_name; tmp_path = FilePath memory_dir ''.tmp-import'' in
           case to_vec_pretty sd (packet_json packet) of
             Inl e \<Rightarrow> (Inl (IR_Store (''serializing packet: '' @ e)), st\<lparr>st_dirs := ds\<rparr>)
           | Inr rendered \<Rightarrow>
               (case fs_write x tmp_path rendered ds of
                  (Inl e, ds) \<Rightarrow>
                    (Inl (IR_Store (''writing '' @ path_display tmp_path @ '': '' @ e)), st\<lparr>st_dirs := ds\<rparr>)
                | (Inr _, ds) \<Rightarrow>
                    (case fs_rename x tmp_path final_path ds of
                       (Inl e, ds) \<Rightarrow>
                         (Inl (IR_Store (''publishing '' @ path_display final_path @ '': '' @ e)), st\<lparr>st_dirs := ds\<rparr>)
                     | (Inr _, ds) \<Rightarrow> (Inr final_path, st\<lparr>st_dirs := ds\<rparr>)))))"

definition import_record_packet ::
  "externals \<Rightarrow> serde \<Rightarrow> io \<Rightarrow> string \<Rightarrow> string \<Rightarrow> string \<Rightarrow> string \<Rightarrow> store_state \<Rightarrow>
     (ImportRefusal + ImportOutcome) \<times> store_state"
where
  "import_record_packet ext sd x bytes source_path store generated_at st =
     (let raw_digest = prefixed_sha256 ext bytes in
      case recognise_record ext sd bytes of
        Inl e \<Rightarrow> (Inl e, st)
      | Inr (record, core_digest) \<Rightarrow>
         (let memory_dir = path_join store (sj_memory_id (ry_subject record)) in
          case read_store sd x (st_dirs st) memory_dir of
            Inl e \<Rightarrow> (Inl e, st)
          | Inr stored \<Rightarrow>
             (case List.find (\<lambda>s. ss_raw_source_digest s = raw_digest) stored of
                Some dup \<Rightarrow> (Inr (Duplicate (ss_path dup) raw_digest), st)
              | None \<Rightarrow>
                 (case List.find (\<lambda>s. ss_evaluation_time s = ry_evaluation_time record
                      \<and> ss_core_consistency_digest s \<noteq> core_digest) stored of
                    Some conflict \<Rightarrow>
                      (Inl (IR_SnapshotSubstitution (sj_memory_id (ry_subject record)) (ry_evaluation_time record)
                         (ss_core_consistency_digest conflict) core_digest), st)
                  | None \<Rightarrow>
                     (case build_packet ext record source_path raw_digest core_digest generated_at of
                        Inl e \<Rightarrow> (Inl e, st)
                      | Inr packet \<Rightarrow>
                         (case WitnessPacket_digest ext packet of
                            Inl e \<Rightarrow> (Inl (IR_Malformed (''packet digest: '' @ e)), st)
                          | Inr packet_digest \<Rightarrow>
                             (case publish_packet sd x memory_dir
                                  (packet_file_name (ry_evaluation_time record) raw_digest) packet st of
                                (Inl e, st) \<Rightarrow> (Inl e, st)
                              | (Inr final_path, st) \<Rightarrow>
                                  (Inr (Imported final_path packet_digest raw_digest core_digest), st))))))))"

section \<open>Receipted imports\<close>

fun projection_refusal_outcome :: "ImportRefusal \<Rightarrow> string \<times> ProjectionReceiptSubstitution option" where
  "projection_refusal_outcome (IR_UnsupportedSchema _) = (''refused:unsupported_schema'', None)"
| "projection_refusal_outcome (IR_Malformed _) = (''refused:malformed'', None)"
| "projection_refusal_outcome (IR_UnknownRelyCode _) = (''refused:unknown_rely_code'', None)"
| "projection_refusal_outcome (IR_UnenforceablePremise _) = (''refused:unenforceable_premise'', None)"
| "projection_refusal_outcome (IR_SnapshotSubstitution _ _ existing presented) =
     (''refused:snapshot_substitution'',
      Some \<lparr>sub_existing_core_digest = existing, sub_presented_core_digest = presented\<rparr>)"
| "projection_refusal_outcome (IR_Store _) = (''refused:store'', None)"

fun outcome_path :: "ImportOutcome \<Rightarrow> file_path" where
  "outcome_path (Imported path _ _ _) = path"
| "outcome_path (Duplicate path _) = path"

definition emitted_packet ::
  "externals \<Rightarrow> serde \<Rightarrow> io \<Rightarrow> directories \<Rightarrow> ImportRefusal + ImportOutcome \<Rightarrow> string + WitnessPacket option"
where
  "emitted_packet ext sd x ds outcome =
     (case outcome of
        Inl _ \<Rightarrow> Inr None
      | Inr imported \<Rightarrow>
          (let path = outcome_path imported in
           res_bind (map_err (\<lambda>e. ''reading emitted packet '' @ path_display path @ '' for receipt: '' @ e)
             (fs_read x ds path)) (\<lambda>bytes.
           res_bind (map_err (\<lambda>e. ''parsing emitted packet '' @ path_display path @ '' for receipt: '' @ e)
             (packet_from_slice sd bytes)) (\<lambda>packet.
           res_bind (map_err (\<lambda>e. ''validating emitted packet '' @ path_display path @ '' for receipt: '' @ e)
             (WitnessPacket_validate ext packet)) (\<lambda>_. Inr (Some packet))))))"

fun transpose_digest :: "externals \<Rightarrow> WitnessPacket option \<Rightarrow> string + string option" where
  "transpose_digest ext None = Inr None"
| "transpose_digest ext (Some packet) =
     res_bind (map_err (\<lambda>e. ''digesting emitted packet for receipt: '' @ e) (WitnessPacket_digest ext packet))
       (\<lambda>d. Inr (Some d))"

definition check_emitted :: "ImportRefusal + ImportOutcome \<Rightarrow> string option \<Rightarrow> string + unit" where
  "check_emitted outcome packet_digest =
     (case (outcome, packet_digest) of
        (Inr (Imported _ emitted _ _), Some recomputed) \<Rightarrow>
          refuse_if (emitted \<noteq> recomputed)
            (''emitted packet digest mismatch: outcome '' @ emitted @ '', recomputed '' @ recomputed)
      | _ \<Rightarrow> Inr ())"

fun import_replay :: "ImportRefusal + ImportOutcome \<Rightarrow> ProjectionReceiptReplay" where
  "import_replay (Inr (Imported _ _ _ _)) = \<lparr>rep_outcome = ''imported'', rep_substitution = None\<rparr>"
| "import_replay (Inr (Duplicate _ _)) = \<lparr>rep_outcome = ''duplicate'', rep_substitution = None\<rparr>"
| "import_replay (Inl refusal) =
     (case projection_refusal_outcome refusal of (outcome, substitution) \<Rightarrow>
       \<lparr>rep_outcome = outcome, rep_substitution = substitution\<rparr>)"

definition bind_packet :: "WitnessPacket option \<Rightarrow> string option \<Rightarrow> string + ProjectionReceiptPacket option" where
  "bind_packet packet digest =
     (case (packet, digest) of
        (Some p, Some d) \<Rightarrow>
          Inr (Some \<lparr>pp_digest = d, pp_witness_type = wp_witness_type p, pp_subject = wp_subject p\<rparr>)
      | (None, None) \<Rightarrow> Inr None
      | _ \<Rightarrow> Inl ''emitted packet and computed digest availability diverged'')"

definition source_binding :: "externals \<Rightarrow> serde \<Rightarrow> string \<Rightarrow> string option \<Rightarrow> ProjectionReceiptSource" where
  "source_binding ext sd bytes record_ref =
     (let v = (case value_from_slice sd bytes of Inl _ \<Rightarrow> None | Inr v \<Rightarrow> Some v);
          schema = Option.bind v (\<lambda>v. Option.bind (json_field v ''schema'') as_str)
      in \<lparr>ps_system = Continuity, ps_schema = schema,
          ps_snapshot_identity = Option.bind v (\<lambda>v.
            do { subject \<leftarrow> json_field v ''subject'';
                 memory \<leftarrow> json_field subject ''memory_id'';
                 memory_id \<leftarrow> as_str memory;
                 time \<leftarrow> json_field v ''evaluation_time'';
                 evaluation_time \<leftarrow> as_str time;
                 Some (memory_id @ ''@'' @ evaluation_time) }),
          ps_raw_digest = prefixed_sha256 ext bytes,
          ps_core_digest = Option.bind v (\<lambda>v.
            if schema = Some SUPPORTED_RECORD_SCHEMA
            then (case core_consistency_digest ext v of Inl _ \<Rightarrow> None | Inr d \<Rightarrow> Some d) else None),
          ps_record_ref = record_ref\<rparr>)"

definition unsealed_receipt ::
  "externals \<Rightarrow> serde \<Rightarrow> string \<Rightarrow> string \<Rightarrow> ImportRefusal + ImportOutcome \<Rightarrow> string \<Rightarrow>
     WitnessPacket option \<Rightarrow> ProjectionReceiptPacket option \<Rightarrow> ProjectionReceipt"
where
  "unsealed_receipt ext sd mapping_source bytes outcome imported_at packet packet_binding =
     \<lparr>prc_schema = PROJECTION_RECEIPT_SCHEMA, prc_receipt_id = [],
      prc_source = source_binding ext sd bytes (Option.bind packet wp_source_finding_ref),
      prc_mapping = \<lparr>pm_profile = ContinuityRecord, pm_profile_version = prefixed_sha256 ext mapping_source\<rparr>,
      prc_custody_basis = CUSTODY_BASIS_EXTERNAL_PROJECTION,
      prc_packet = packet_binding,
      prc_premises_as_coverage = (case packet of None \<Rightarrow> [] | Some p \<Rightarrow> wp_coverage_limits p),
      prc_projection_limits = (case packet of None \<Rightarrow> [] | Some p \<Rightarrow> wp_projection_limits p),
      prc_replay = import_replay outcome, prc_contradiction_status = None, prc_imported_at = imported_at,
      prc_establishes = PROJECTION_RECEIPT_ESTABLISHES,
      prc_does_not_establish = PROJECTION_RECEIPT_DOES_NOT_ESTABLISH\<rparr>"

definition projection_receipt ::
  "externals \<Rightarrow> serde \<Rightarrow> io \<Rightarrow> string \<Rightarrow> directories \<Rightarrow> string \<Rightarrow> ImportRefusal + ImportOutcome \<Rightarrow> string \<Rightarrow>
     string + ProjectionReceipt"
where
  "projection_receipt ext sd x mapping_source ds bytes outcome imported_at =
     res_bind (emitted_packet ext sd x ds outcome) (\<lambda>packet.
     res_bind (transpose_digest ext packet) (\<lambda>packet_digest.
     res_bind (check_emitted outcome packet_digest) (\<lambda>_.
     res_bind (bind_packet packet packet_digest) (\<lambda>packet_binding.
       case ProjectionReceipt_seal ext
           (unsealed_receipt ext sd mapping_source bytes outcome imported_at packet packet_binding) of
         (Inl e, _) \<Rightarrow> Inl (''sealing projection receipt: '' @ e)
       | (Inr _, receipt) \<Rightarrow> Inr receipt))))"

record ReceiptedImport =
  ri_outcome :: "ImportRefusal + ImportOutcome"
  ri_receipt :: ProjectionReceipt
  ri_receipt_path :: file_path

definition import_record_with_receipt ::
  "externals \<Rightarrow> serde \<Rightarrow> io \<Rightarrow> string \<Rightarrow> string \<Rightarrow> string \<Rightarrow> string \<Rightarrow> string \<Rightarrow> store_state \<Rightarrow>
     (string + ReceiptedImport) \<times> store_state"
where
  "import_record_with_receipt ext sd x mapping_source bytes source_path store generated_at st =
     (case import_record_packet ext sd x bytes source_path store generated_at st of (outcome, st) \<Rightarrow>
        case projection_receipt ext sd x mapping_source (st_dirs st) bytes outcome generated_at of
          Inl e \<Rightarrow> (Inl e, st)
        | Inr receipt \<Rightarrow>
            (case persist_projection_receipt ext sd x receipt store st of
               (Inl e, st) \<Rightarrow> (Inl e, st)
             | (Inr (receipt, receipt_path), st) \<Rightarrow>
                 (Inr \<lparr>ri_outcome = outcome, ri_receipt = receipt, ri_receipt_path = receipt_path\<rparr>, st)))"

definition import_record ::
  "externals \<Rightarrow> serde \<Rightarrow> io \<Rightarrow> string \<Rightarrow> string \<Rightarrow> string \<Rightarrow> string \<Rightarrow> string \<Rightarrow> store_state \<Rightarrow>
     (ImportRefusal + ImportOutcome) \<times> store_state"
where
  "import_record ext sd x mapping_source bytes source_path store generated_at st =
     (case import_record_with_receipt ext sd x mapping_source bytes source_path store generated_at st of
        (Inr imported, st) \<Rightarrow> (ri_outcome imported, st)
      | (Inl e, st) \<Rightarrow> (Inl (IR_Store (ProjectionReceiptStoreError_display e)), st))"

end
