(* ===== verification/Continuity_Laws.thy ===== *)
theory Continuity_Laws
  imports Continuity_Record
begin

text \<open>
  Laws of the import of Continuity records: what a decoded record takes from the document,
  what an emitted packet carries, what reading the store back gives, and the properties of
  imports one after another.
\<close>

section \<open>Decoded records\<close>

lemma canonical_members:
  assumes "canonical (JObj fs)" "(k, v) \<in> set fs"
  shows "canonical v"
proof -
  have "(k, v) \<in> set (btree (map (\<lambda>f. (fst f, json_value (snd f))) fs))"
    using assms by (simp add: canonical_def)
  then have "(k, v) \<in> set (map (\<lambda>f. (fst f, json_value (snd f))) fs)"
    using set_btree_subset by blast
  then show ?thesis by (auto simp: canonical_value)
qed

text \<open>A field read by a derived decoder is a part of the document.\<close>

lemma struct_fields_part:
  assumes "struct_fields spec v = Some fs" "i < length spec" "fs ! i = Some w"
  shows "(canonical v \<longrightarrow> canonical w) \<and> (exact_json (Suc n) v \<longrightarrow> exact_json n w)"
proof (cases v)
  case (JArr vs)
  then have fs: "fs = map Some vs @ replicate (length spec - length vs) None"
    using assms(1) by (simp split: if_splits)
  have "w \<in> set vs"
    using assms(2,3) by (cases "i < length vs") (auto simp: fs nth_append)
  then show ?thesis by (simp add: JArr list_all_iff)
next
  case (JObj gs)
  then have "fs = map (\<lambda>(n, p). map_of gs n) spec" using assms(1) by (simp split: if_splits)
  then have "map_of gs (fst (spec ! i)) = Some w" using assms(2,3) by (simp add: split_beta)
  then have w: "(fst (spec ! i), w) \<in> set gs" by (rule map_of_SomeD)
  then show ?thesis using canonical_members [OF _ w] by (auto simp: JObj list_all_iff)
qed (use assms(1) in simp_all)

lemma decode_req_Some: "decode_req d x = Some y \<longleftrightarrow> (\<exists>w. x = Some w \<and> d w = Some y)"
  by (cases x) (simp_all add: decode_req_def)

lemma rely_record_parts:
  assumes "decode_rely_record v = Some r"
  obtains fs where "struct_fields rely_record_spec v = Some fs"
    "decode_req as_str (fs ! 0) = Some (ry_schema r)"
    "decode_req decode_subject (fs ! 4) = Some (ry_subject r)"
    "decode_req as_str (fs ! 14) = Some (ry_evaluation_time r)"
    "decode_req decode_rely (fs ! 15) = Some (ry_rely r)"
  using assms unfolding decode_rely_record_def by (auto simp: bind_eq_Some_conv)

lemma rely_details_part:
  assumes "decode_rely v = Some r"
  shows "(canonical v \<longrightarrow> canonical (rv_details r)) \<and> (exact_json (Suc n) v \<longrightarrow> exact_json n (rv_details r))"
proof -
  obtain fs w where fs: "struct_fields [(''rely_ok'', Required), (''code'', Required), (''message'', Required),
      (''details'', Required)] v = Some fs" "fs ! 3 = Some (rv_details r)"
    using assms unfolding decode_rely_def by (auto simp: bind_eq_Some_conv decode_req_Some)
  then show ?thesis using struct_fields_part [OF fs(1), of 3] by simp
qed

lemma record_details:
  assumes "decode_rely_record v = Some r" "canonical v" "exact_json (Suc (Suc n)) v"
  shows "canonical (rv_details (ry_rely r)) \<and> exact_json n (rv_details (ry_rely r))"
proof -
  obtain fs where fs: "struct_fields rely_record_spec v = Some fs"
    "decode_req decode_rely (fs ! 15) = Some (ry_rely r)"
    using assms(1) by (rule rely_record_parts)
  then obtain w where w: "fs ! 15 = Some w" "decode_rely w = Some (ry_rely r)"
    by (auto simp: decode_req_Some)
  have "15 < length rely_record_spec" by (simp add: rely_record_spec_def)
  with struct_fields_part [OF fs(1) _ w(1)] rely_details_part [OF w(2)] assms(2,3) show ?thesis by blast
qed

section \<open>Emitted packets\<close>

lemma canonical_jobject: "list_all (\<lambda>f. canonical (snd f)) fs \<Longrightarrow> canonical (jobject fs)"
  by (simp add: canonical_btree list_all_iff)

lemma canonical_observations:
  "canonical (source_identity r raw core)"
  "canonical (rv_details (ry_rely r)) \<Longrightarrow> canonical (rely_result r)"
  "canonical (premise_observation p)"
  by (simp_all add: source_identity_def rely_result_def premise_observation_def canonical_jobject
      list.pred_map comp_def list.pred_True)

lemma exact_observations:
  "exact_json 125 (source_identity r raw core)"
  "exact_json 124 (rv_details (ry_rely r)) \<Longrightarrow> exact_json 125 (rely_result r)"
  "exact_json 125 (premise_observation p)"
  by (simp_all add: source_identity_def rely_result_def premise_observation_def exact_btree exact_json_opt
      del: exact_json.simps(2,4))

lemma observations_regular:
  assumes "canonical (rv_details (ry_rely r))" "exact_json 124 (rv_details (ry_rely r))"
  shows "list_all canonical (wp_observations (record_packet r path raw core t limits))"
    and "list_all (exact_json 125) (wp_observations (record_packet r path raw core t limits))"
  using assms
  by (simp_all add: record_packet_def canonical_observations exact_observations list.pred_map comp_def list.pred_True)

lemma try_map_ok: "try_map f xs = Inr ys \<longleftrightarrow> list_all2 (\<lambda>x y. f x = Inr y) xs ys"
  by (induction xs arbitrary: ys) (auto simp: res_ok list_all2_Cons1)

lemma try_map_guarded:
  "try_map (\<lambda>x. if blank x then Inl e else Inr (g x)) xs = Inr ys \<longleftrightarrow>
     (\<forall>x \<in> set xs. \<not> blank x) \<and> ys = map g xs"
  by (induction xs arbitrary: ys) (auto simp: res_ok)

lemma sorted_distinct_remdups_adj: "sorted (xs :: 'a::linorder list) \<Longrightarrow> distinct (remdups_adj xs)"
  by (induction xs rule: remdups_adj.induct) (auto simp: order.antisym)

definition record_limits :: "RelyRecord \<Rightarrow> string list" where
  "record_limits r =
     map premise_limit (ry_premises r) @ map nonclaim_limit (ry_does_not_establish r) @ [tier_limit r]"

lemma premise_coverage_ok:
  "premise_coverage r = Inr ls \<longleftrightarrow>
     (\<forall>p \<in> set (ry_premises r). trim (pre_src p) \<noteq> []) \<and> (\<forall>l \<in> set (ry_does_not_establish r). trim l \<noteq> [])
     \<and> ls = record_limits r"
  by (auto simp: premise_coverage_def res_ok try_map_guarded record_limits_def)

lemma build_packet_ok:
  "build_packet ext r path raw core t = Inr p \<longleftrightarrow>
     (\<forall>q \<in> set (ry_premises r). trim (pre_src q) \<noteq> []) \<and> (\<forall>l \<in> set (ry_does_not_establish r). trim l \<noteq> [])
     \<and> p = record_packet r path raw core t (remdups_adj (sort (FIXED_COVERAGE_LIMITS @ record_limits r)))
     \<and> valid_packet ext p"
  by (auto simp: build_packet_def Let_def res_ok premise_coverage_ok)

section \<open>Reading a packet back\<close>

lemma source_identity_lookup:
  "json_field (source_identity r raw core) ''type'' = Some (JStr ''continuity_source_identity'')"
  "json_field (source_identity r raw core) ''raw_source_digest'' = Some (JStr raw)"
  "json_field (source_identity r raw core) ''core_consistency_digest'' = Some (JStr core)"
  by (simp_all add: source_identity_def map_of_btree)

lemma rely_result_lookup:
  "json_field (rely_result r) ''type'' = Some (JStr ''continuity_rely_result'')"
  "json_field (rely_result r) ''evaluation_time'' = Some (JStr (ry_evaluation_time r))"
  by (simp_all add: rely_result_def map_of_btree)

lemma read_snapshot_packet:
  assumes "canonical (rv_details (ry_rely r))" "exact_json 124 (rv_details (ry_rely r))"
  shows "read_snapshot file (json_value (packet_json (record_packet r path raw core t limits))) =
    Inr \<lparr>ss_path = file, ss_evaluation_time = ry_evaluation_time r, ss_raw_source_digest = raw,
         ss_core_consistency_digest = core\<rparr>"
proof -
  have obs: "wp_observations (record_packet r path raw core t limits) =
      source_identity r raw core # rely_result r # map premise_observation (ry_premises r)"
    by (simp add: record_packet_def)
  have "observations_of (json_value (packet_json (record_packet r path raw core t limits))) =
      Some (source_identity r raw core # rely_result r # map premise_observation (ry_premises r))"
    using packet_value_observations [OF observations_regular(1) [OF assms]]
    by (simp add: observations_of_def obs)
  then show ?thesis
    by (simp add: read_snapshot_def observation_type_def source_identity_lookup rely_result_lookup Let_def)
qed

section \<open>The store after a publication\<close>

definition is_json :: "string \<Rightarrow> bool" where
  "is_json n \<longleftrightarrow> extension n = Some ''json''"

definition json_names :: "directories \<Rightarrow> string \<Rightarrow> string list" where
  "json_names ds d = (case ds d of None \<Rightarrow> [] | Some es \<Rightarrow> filter is_json (map fst es))"

definition read_stored :: "serde \<Rightarrow> directories \<Rightarrow> io \<Rightarrow> file_path \<Rightarrow> ImportRefusal + StoredSnapshot" where
  "read_stored sd ds x path =
     res_bind (map_err (\<lambda>err. IR_Store (''reading '' @ path_display path @ '': '' @ err)) (fs_read x ds path))
      (\<lambda>bytes. res_bind
        (map_err (\<lambda>err. IR_Store (''stored packet '' @ path_display path @ '' is not JSON: '' @ err))
          (value_from_slice sd bytes)) (read_snapshot path))"

lemma res_bind_assoc: "res_bind (res_bind m f) g = res_bind m (\<lambda>y. res_bind (f y) g)"
  by (cases m) simp_all

lemma read_entries_quiet:
  "quiet x \<Longrightarrow> read_entries sd x ds d es =
     try_map (\<lambda>n. read_stored sd ds x (FilePath d n)) (filter is_json (map fst es))"
  by (induction es) (simp_all add: is_json_def read_stored_def res_bind_assoc Let_def)

lemma read_store_quiet:
  "quiet x \<Longrightarrow> read_store sd x ds d = try_map (\<lambda>n. read_stored sd ds x (FilePath d n)) (json_names ds d)"
  by (simp add: read_store_def json_names_def read_entries_quiet split: option.split)

lemma read_stored_path: "read_stored sd ds x p = Inr s \<Longrightarrow> ss_path s = p"
  by (auto simp: read_stored_def read_snapshot_def Let_def res_ok)

lemma read_stored_cong:
  "lookup_file ds p = lookup_file ds' p \<Longrightarrow> read_stored sd ds x p = read_stored sd ds' x p"
  by (simp only: read_stored_def fs_read_def)

lemma is_json_suffix: "a \<noteq> [] \<Longrightarrow> is_json (a @ ''.json'')"
  by (simp add: is_json_def extension_def Let_def)

lemma temp_not_json: "\<not> is_json ''.tmp-import''"
  by (simp add: is_json_def extension_def Let_def)

lemma packet_name_json: "is_json (packet_file_name t raw)"
proof -
  have "packet_file_name t raw =
      (''e'' @ eval_tag t @ ''-'' @ take 16 (trim_start_matches ''sha256:'' raw) @ ''.packet'') @ ''.json''"
    by (simp add: packet_file_name_def)
  then show ?thesis by (metis append_is_Nil_conv is_json_suffix list.distinct(1))
qed

lemma packet_name_not_temp: "packet_file_name t raw \<noteq> ''.tmp-import''"
  using packet_name_json temp_not_json by metis

lemma map_fst_put_entry:
  "map fst (put_entry n b es) = (if n \<in> set (map fst es) then map fst es else map fst es @ [n])"
  by (auto simp: put_entry_def)

lemma json_names_put:
  "ds (fp_dir p) \<noteq> None \<Longrightarrow> json_names (put_file p b ds) d =
     (if d = fp_dir p \<and> is_json (fp_name p) \<and> fp_name p \<notin> set (json_names ds d)
      then json_names ds d @ [fp_name p] else json_names ds d)"
  by (auto simp: json_names_def put_file_def map_fst_put_entry) (metis fst_conv image_eqI)

lemma json_names_drop:
  "\<not> is_json (fp_name p) \<Longrightarrow> json_names (drop_file p ds) d = json_names ds d"
  by (auto simp: json_names_def drop_file_def filter_map comp_def intro!: arg_cong [where f = "map fst"] filter_cong
      split: option.split)

text \<open>Without faults a packet is published, and the directory differs in that one file.\<close>

lemma publish_packet_quiet:
  assumes "quiet x" "to_vec_pretty sd (packet_json p) = Inr b" "is_json name"
  obtains ds where "publish_packet sd x d name p st = (Inr (FilePath d name), st\<lparr>st_dirs := ds\<rparr>)"
    "lookup_file ds (FilePath d name) = Some b"
    "\<forall>q. q \<noteq> FilePath d name \<and> q \<noteq> FilePath d ''.tmp-import'' \<longrightarrow> lookup_file ds q = lookup_file (st_dirs st) q"
    "json_names ds d = (if name \<in> set (json_names (st_dirs st) d) then json_names (st_dirs st) d
       else json_names (st_dirs st) d @ [name])"
proof -
  define tmp where "tmp = FilePath d ''.tmp-import''"
  define final where "final = FilePath d name"
  define ds0 where "ds0 = (if st_dirs st d = None then (st_dirs st)(d \<mapsto> []) else st_dirs st)"
  define ds1 where "ds1 = put_file tmp b ds0"
  define ds where "ds = put_file final b (drop_file tmp ds1)"
  have ne: "tmp \<noteq> final" "final \<noteq> tmp" using assms(3) temp_not_json by (auto simp: tmp_def final_def)
  have d0: "ds0 d \<noteq> None" by (simp add: ds0_def)
  have c: "create_dir_all x d (st_dirs st) = (Inr (), ds0)"
    using assms(1) by (simp add: create_dir_all_def ds0_def)
  have l0: "lookup_file ds0 q = lookup_file (st_dirs st) q" for q by (simp add: ds0_def lookup_file_def)
  have n0: "json_names ds0 d = json_names (st_dirs st) d" by (simp add: ds0_def json_names_def split: option.split)
  have w: "fs_write x tmp b ds0 = (Inr (), ds1)"
    using assms(1) d0 by (simp add: fs_write_def ds1_def tmp_def)
  have "lookup_file ds1 tmp = Some b" using d0 by (simp add: ds1_def lookup_put_file tmp_def)
  then have r: "fs_rename x tmp final ds1 = (Inr (), ds)"
    using assms(1) d0 by (simp add: fs_rename_def ds_def ds1_def final_def)
  have "publish_packet sd x d name p st = (Inr (FilePath d name), st\<lparr>st_dirs := ds\<rparr>)"
    using assms(2) c w r by (simp add: publish_packet_def Let_def tmp_def [symmetric] final_def [symmetric])
  moreover have "lookup_file ds (FilePath d name) = Some b"
    using d0 by (simp add: ds_def ds1_def lookup_put_file final_def)
  moreover have "lookup_file ds q = lookup_file (st_dirs st) q" if "q \<noteq> final" "q \<noteq> tmp" for q
    using that by (simp add: ds_def ds1_def lookup_put_file lookup_drop_file l0)
  moreover have "json_names ds d = (if name \<in> set (json_names (st_dirs st) d) then json_names (st_dirs st) d
       else json_names (st_dirs st) d @ [name])"
    using assms(3) d0
    by (simp add: ds_def ds1_def json_names_put json_names_drop temp_not_json n0 final_def tmp_def)
  ultimately show thesis by (intro that) (simp_all add: final_def tmp_def)
qed

lemma publish_packet_succeeds:
  assumes "quiet x" "to_vec_pretty sd (packet_json p) = Inr b" "is_json name"
  shows "\<exists>st'. publish_packet sd x d name p st = (Inr (FilePath d name), st')
     \<and> (\<forall>q. fp_dir q \<noteq> d \<longrightarrow> lookup_file (st_dirs st') q = lookup_file (st_dirs st) q)"
proof -
  obtain ds where ds: "publish_packet sd x d name p st = (Inr (FilePath d name), st\<lparr>st_dirs := ds\<rparr>)"
    "\<forall>q. q \<noteq> FilePath d name \<and> q \<noteq> FilePath d ''.tmp-import'' \<longrightarrow> lookup_file ds q = lookup_file (st_dirs st) q"
    by (rule publish_packet_quiet [OF assms, where d = d and st = st]) blast
  have "lookup_file ds q = lookup_file (st_dirs st) q" if "fp_dir q \<noteq> d" for q
    using ds(2) that by (cases q) simp
  with ds(1) show ?thesis by simp
qed

section \<open>Imports\<close>

text \<open>The source document holds no floating-point number and no integer beyond 64 bits, and is
  nested so that the packet, which wraps a part of it once more, is not too deep to be read.\<close>

definition exact_source :: "serde \<Rightarrow> string \<Rightarrow> bool" where
  "exact_source sd bytes \<longleftrightarrow> (\<forall>v. value_from_slice sd bytes = Inr v \<longrightarrow> exact_json 126 v)"

lemma recognised:
  assumes "recognise_record ext sd bytes = Inr (r, core)"
  obtains v where "value_from_slice sd bytes = Inr v" "canonical v" "decode_rely_record v = Some r"
    "json_field v ''schema'' = Some (JStr SUPPORTED_RECORD_SCHEMA)" "core_consistency_digest ext v = Inr core"
proof -
  obtain v where v: "value_from_slice sd bytes = Inr v" "decode_rely_record v = Some r"
    "core_consistency_digest ext v = Inr core"
    "Option.bind (json_field v ''schema'') as_str = Some SUPPORTED_RECORD_SCHEMA"
    using assms
    by (auto simp: recognise_record_def res_ok Let_def SUPPORTED_RECORD_SCHEMA_def split: if_splits option.splits)
  moreover have "canonical v" using v(1) by (auto simp: value_from_slice_def res_ok canonical_value)
  moreover from v(4) obtain j where "json_field v ''schema'' = Some j" "as_str j = Some SUPPORTED_RECORD_SCHEMA"
    by (auto simp: bind_eq_Some_conv)
  then have "json_field v ''schema'' = Some (JStr SUPPORTED_RECORD_SCHEMA)" by (cases j) simp_all
  ultimately show thesis using that by blast
qed

lemma recognised_details:
  "recognise_record ext sd bytes = Inr (r, core) \<Longrightarrow> exact_source sd bytes \<Longrightarrow>
     canonical (rv_details (ry_rely r)) \<and> exact_json 124 (rv_details (ry_rely r))"
  by (elim recognised) (use record_details [of _ r 124] in \<open>simp add: exact_source_def\<close>)

abbreviation memory_dir :: "string \<Rightarrow> RelyRecord \<Rightarrow> string" where
  "memory_dir store r \<equiv> path_join store (sj_memory_id (ry_subject r))"

lemma import_Imported:
  assumes "import_record_packet ext sd x bytes path store t st = (Inr (Imported file d raw core), st')"
  obtains r stored p where "recognise_record ext sd bytes = Inr (r, core)" "raw = prefixed_sha256 ext bytes"
    "read_store sd x (st_dirs st) (memory_dir store r) = Inr stored"
    "\<forall>s \<in> set stored. ss_raw_source_digest s \<noteq> raw"
    "\<forall>s \<in> set stored. ss_evaluation_time s = ry_evaluation_time r \<longrightarrow> ss_core_consistency_digest s = core"
    "build_packet ext r path raw core t = Inr p" "WitnessPacket_digest ext p = Inr d"
    "publish_packet sd x (memory_dir store r) (packet_file_name (ry_evaluation_time r) raw) p st = (Inr file, st')"
  using assms
  by (auto simp: import_record_packet_def Let_def find_None_iff
      split: sum.splits prod.splits option.splits intro: that)

lemma try_map_total:
  "\<forall>n \<in> set xs. is_ok (f n) \<Longrightarrow> \<exists>ys. try_map f xs = Inr ys \<and> set ys = {y. \<exists>n \<in> set xs. f n = Inr y}"
  by (induction xs) (auto simp: is_ok_iff)

lemma try_map_Inr_set: "try_map f xs = Inr ys \<Longrightarrow> n \<in> set xs \<Longrightarrow> \<exists>y \<in> set ys. f n = Inr y"
  by (induction xs arbitrary: ys) (auto simp: res_ok)

definition record_snapshot :: "file_path \<Rightarrow> RelyRecord \<Rightarrow> string \<Rightarrow> string \<Rightarrow> StoredSnapshot" where
  "record_snapshot file r raw core =
     \<lparr>ss_path = file, ss_evaluation_time = ry_evaluation_time r, ss_raw_source_digest = raw,
      ss_core_consistency_digest = core\<rparr>"

text \<open>
  What an import leaves behind: the packet in its file, and a store that reads back as the old
  snapshots, less one of the same file, and the new one.
\<close>

lemma after_import:
  assumes "quiet x" "serde_roundtrip sd" "exact_source sd bytes"
    and "import_record_packet ext sd x bytes path store t st = (Inr (Imported file d raw core), st')"
  obtains r p b stored stored' where "recognise_record ext sd bytes = Inr (r, core)"
    "raw = prefixed_sha256 ext bytes" "build_packet ext r path raw core t = Inr p"
    "WitnessPacket_digest ext p = Inr d" "lookup_file (st_dirs st') file = Some b"
    "packet_from_slice sd b = Inr p"
    "read_store sd x (st_dirs st) (memory_dir store r) = Inr stored"
    "\<forall>s \<in> set stored. ss_raw_source_digest s \<noteq> raw"
    "\<forall>s \<in> set stored. ss_evaluation_time s = ry_evaluation_time r \<longrightarrow> ss_core_consistency_digest s = core"
    "read_store sd x (st_dirs st') (memory_dir store r) = Inr stored'"
    "record_snapshot file r raw core \<in> set stored'"
    "set stored' \<subseteq> insert (record_snapshot file r raw core) (set stored)"
proof -
  obtain r stored p where r: "recognise_record ext sd bytes = Inr (r, core)" "raw = prefixed_sha256 ext bytes"
    "read_store sd x (st_dirs st) (memory_dir store r) = Inr stored"
    "\<forall>s \<in> set stored. ss_raw_source_digest s \<noteq> raw"
    "\<forall>s \<in> set stored. ss_evaluation_time s = ry_evaluation_time r \<longrightarrow> ss_core_consistency_digest s = core"
    "build_packet ext r path raw core t = Inr p" "WitnessPacket_digest ext p = Inr d"
    "publish_packet sd x (memory_dir store r) (packet_file_name (ry_evaluation_time r) raw) p st = (Inr file, st')"
    using assms(4) by (rule import_Imported)
  define dir where "dir = memory_dir store r"
  define name where "name = packet_file_name (ry_evaluation_time r) raw"
  have det: "canonical (rv_details (ry_rely r))" "exact_json 124 (rv_details (ry_rely r))"
    using recognised_details [OF r(1) assms(3)] by simp_all
  obtain limits where p: "p = record_packet r path raw core t limits"
    using r(6) by (auto simp: build_packet_ok)
  obtain b where b: "to_vec_pretty sd (packet_json p) = Inr b" "packet_from_slice sd b = Inr p"
    "value_from_slice sd b = Inr (json_value (packet_json p))"
    unfolding p by (rule packet_reads_back [OF assms(2) observations_regular(2,1) [OF det]])
  have j: "is_json name" by (simp add: name_def packet_name_json)
  obtain ds where ds: "publish_packet sd x dir name p st = (Inr (FilePath dir name), st\<lparr>st_dirs := ds\<rparr>)"
    "lookup_file ds (FilePath dir name) = Some b"
    "\<forall>q. q \<noteq> FilePath dir name \<and> q \<noteq> FilePath dir ''.tmp-import'' \<longrightarrow> lookup_file ds q = lookup_file (st_dirs st) q"
    "json_names ds dir = (if name \<in> set (json_names (st_dirs st) dir) then json_names (st_dirs st) dir
       else json_names (st_dirs st) dir @ [name])"
    by (rule publish_packet_quiet [OF assms(1) b(1) j, where d = dir and st = st])
  have st': "file = FilePath dir name" "st_dirs st' = ds"
    using ds(1) r(8) by (simp_all add: dir_def name_def)
  let ?new = "record_snapshot file r raw core"
  let ?rd = "\<lambda>ds n. read_stored sd ds x (FilePath dir n)"
  have "read_snapshot file (json_value (packet_json p)) = Inr ?new"
    unfolding p record_snapshot_def by (rule read_snapshot_packet [OF det])
  moreover have "fs_read x ds file = Inr b" using ds(2) assms(1) by (simp add: fs_read_def st'(1))
  ultimately have "read_stored sd ds x file = Inr ?new"
    by (simp only: read_stored_def map_err.simps res_bind.simps b(3))
  then have new: "?rd ds name = Inr ?new" by (simp only: st'(1))
  have all: "try_map (?rd (st_dirs st)) (json_names (st_dirs st) dir) = Inr stored"
    using r(3) by (simp only: read_store_quiet [OF assms(1)] dir_def)
  have old: "\<exists>s \<in> set stored. ?rd (st_dirs st) n = Inr s" if "n \<in> set (json_names (st_dirs st) dir)" for n
    using all that by (rule try_map_Inr_set)
  have names: "is_json n" if "n \<in> set (json_names ds dir)" for n
    using that by (auto simp: json_names_def split: option.splits)
  have rd: "?rd ds n = Inr ?new \<and> n = name \<or> (\<exists>s \<in> set stored. ?rd ds n = Inr s)"
    if n: "n \<in> set (json_names ds dir)" for n
  proof (cases "n = name")
    case False
    have "n \<noteq> ''.tmp-import''" using names [OF n] temp_not_json by auto
    with False have "?rd ds n = ?rd (st_dirs st) n" by (intro read_stored_cong) (simp add: ds(3))
    moreover have "n \<in> set (json_names (st_dirs st) dir)" using n False ds(4) by (auto split: if_splits)
    ultimately show ?thesis using old by simp
  qed (simp add: new)
  have "\<forall>n \<in> set (json_names ds dir). is_ok (?rd ds n)" unfolding is_ok_iff using rd by blast
  from try_map_total [OF this]
  obtain stored' where s': "try_map (?rd ds) (json_names ds dir) = Inr stored'"
    "set stored' = {s. \<exists>n \<in> set (json_names ds dir). ?rd ds n = Inr s}"
    by blast
  have "name \<in> set (json_names ds dir)" by (simp add: ds(4))
  with new have "?new \<in> set stored'" by (auto simp: s'(2))
  moreover have "set stored' \<subseteq> insert ?new (set stored)" using rd by (fastforce simp: s'(2))
  moreover have "read_store sd x (st_dirs st') (memory_dir store r) = Inr stored'"
    using s'(1) by (simp add: read_store_quiet [OF assms(1)] st'(2) dir_def)
  moreover have "lookup_file (st_dirs st') file = Some b" using ds(2) by (simp add: st')
  ultimately show thesis using that r(1-7) b(2) by blast
qed

section \<open>Properties of imports\<close>

text \<open>
  C22: importing is idempotent. Once a record has been imported, importing the same bytes into
  the same store again, from whatever path and at whatever time, finds the packet it left and
  reports a duplicate of that file, and the store is unchanged.
\<close>

theorem reimport_is_duplicate:
  assumes "quiet x" "serde_roundtrip sd" "exact_source sd bytes"
    and "import_record_packet ext sd x bytes path store t st = (Inr (Imported file d raw core), st')"
  shows "import_record_packet ext sd x bytes path' store t' st' = (Inr (Duplicate file raw), st')"
proof -
  obtain r stored stored' where r: "recognise_record ext sd bytes = Inr (r, core)"
    "raw = prefixed_sha256 ext bytes" "\<forall>s \<in> set stored. ss_raw_source_digest s \<noteq> raw"
    "read_store sd x (st_dirs st') (memory_dir store r) = Inr stored'"
    "record_snapshot file r raw core \<in> set stored'"
    "set stored' \<subseteq> insert (record_snapshot file r raw core) (set stored)"
    using assms by (rule after_import)
  have "List.find (\<lambda>s. ss_raw_source_digest s = raw) stored' \<noteq> None"
    using r(5) by (auto simp: find_None_iff record_snapshot_def)
  then obtain s where s: "List.find (\<lambda>s. ss_raw_source_digest s = raw) stored' = Some s" by blast
  then have "s \<in> set stored'" "ss_raw_source_digest s = raw"
    by (auto simp: find_Some_iff in_set_conv_nth)
  then have "s = record_snapshot file r raw core" using r(3,6) by auto
  then show ?thesis
    using r(1,2,4) s by (simp add: import_record_packet_def Let_def record_snapshot_def)
qed

text \<open>
  C21: a changed core under the same snapshot identity is refused. Once a record has been
  imported, a record of the same memory and evaluation time whose semantic core has another
  digest, and whose bytes the store did not hold already, is refused as a substitution that
  names the digest stored and the digest presented, and the store is unchanged.
\<close>

theorem substitution_refused:
  assumes "quiet x" "serde_roundtrip sd" "exact_source sd bytes"
    and "import_record_packet ext sd x bytes path store t st = (Inr (Imported file d raw core), st')"
    and "recognise_record ext sd bytes = Inr (r, core)" "recognise_record ext sd bytes' = Inr (r', core')"
    and "sj_memory_id (ry_subject r') = sj_memory_id (ry_subject r)"
    and "ry_evaluation_time r' = ry_evaluation_time r" "core' \<noteq> core"
    and "prefixed_sha256 ext bytes' \<noteq> raw"
    and fresh: "\<forall>stored. read_store sd x (st_dirs st) (memory_dir store r) = Inr stored \<longrightarrow>
           (\<forall>s \<in> set stored. ss_raw_source_digest s \<noteq> prefixed_sha256 ext bytes')"
  shows "import_record_packet ext sd x bytes' path' store t' st' =
     (Inl (IR_SnapshotSubstitution (sj_memory_id (ry_subject r)) (ry_evaluation_time r) core core'), st')"
proof -
  obtain q stored stored' where q: "recognise_record ext sd bytes = Inr (q, core)"
    "read_store sd x (st_dirs st) (memory_dir store q) = Inr stored"
    "\<forall>s \<in> set stored. ss_evaluation_time s = ry_evaluation_time q \<longrightarrow> ss_core_consistency_digest s = core"
    "read_store sd x (st_dirs st') (memory_dir store q) = Inr stored'"
    "record_snapshot file q raw core \<in> set stored'"
    "set stored' \<subseteq> insert (record_snapshot file q raw core) (set stored)"
    using assms(1-4) by (rule after_import)
  have [simp]: "q = r" using q(1) assms(5) by simp
  let ?conflict = "\<lambda>s. ss_evaluation_time s = ry_evaluation_time r \<and> ss_core_consistency_digest s \<noteq> core'"
  have "List.find (\<lambda>s. ss_raw_source_digest s = prefixed_sha256 ext bytes') stored' = None"
  proof -
    have "\<forall>s \<in> set stored. ss_raw_source_digest s \<noteq> prefixed_sha256 ext bytes'" using q(2) fresh by simp
    then have "ss_raw_source_digest s \<noteq> prefixed_sha256 ext bytes'" if "s \<in> set stored'" for s
      using that subsetD [OF q(6) that] assms(10) by (auto simp: record_snapshot_def)
    then show ?thesis by (auto simp: find_None_iff)
  qed
  moreover have "?conflict (record_snapshot file r raw core)"
    using assms(9) by (simp add: record_snapshot_def)
  then have "List.find ?conflict stored' \<noteq> None"
    using q(5) unfolding find_None_iff by auto
  then obtain s where s: "List.find ?conflict stored' = Some s" by blast
  then have "s \<in> set stored'" "ss_evaluation_time s = ry_evaluation_time r"
    by (auto simp: find_Some_iff in_set_conv_nth)
  then have "ss_core_consistency_digest s = core"
    using q(3,6) by (auto simp: record_snapshot_def)
  ultimately show ?thesis
    using assms(6-8) q(4) s by (simp add: import_record_packet_def Let_def)
qed

text \<open>
  C20: an import loses no limitation. The packet that an import leaves in its file is read back
  as the one whose digest the outcome names; it validates, it is marked as an external
  projection observed at the evaluation time of the record, and its coverage limits are
  exactly the fixed statement of the office boundary, one limit for every premise, one for
  everything the record says it does not establish, and the authoring tier, each once and in
  order.
\<close>

theorem import_keeps_every_limit:
  assumes "quiet x" "serde_roundtrip sd" "exact_source sd bytes"
    and "import_record_packet ext sd x bytes path store t st = (Inr (Imported file d raw core), st')"
  shows "\<exists>r p b. recognise_record ext sd bytes = Inr (r, core)
     \<and> lookup_file (st_dirs st') file = Some b \<and> packet_from_slice sd b = Inr p
     \<and> WitnessPacket_digest ext p = Inr d \<and> WitnessPacket_validate ext p = Inr ()
     \<and> wp_custody_basis p = Some CUSTODY_BASIS_EXTERNAL_PROJECTION
     \<and> wp_observed_at p = ry_evaluation_time r
     \<and> sorted (wp_coverage_limits p) \<and> distinct (wp_coverage_limits p)
     \<and> set (wp_coverage_limits p) =
         set FIXED_COVERAGE_LIMITS \<union> premise_limit ` set (ry_premises r)
         \<union> nonclaim_limit ` set (ry_does_not_establish r) \<union> {tier_limit r}"
proof -
  obtain r p b where r: "recognise_record ext sd bytes = Inr (r, core)" "build_packet ext r path raw core t = Inr p"
    "WitnessPacket_digest ext p = Inr d" "lookup_file (st_dirs st') file = Some b"
    "packet_from_slice sd b = Inr p"
    using assms by (rule after_import)
  let ?limits = "FIXED_COVERAGE_LIMITS @ record_limits r"
  have p: "p = record_packet r path raw core t (remdups_adj (sort ?limits))" "valid_packet ext p"
    using r(2) unfolding build_packet_ok by blast+
  have "sorted (remdups_adj (sort ?limits))" "distinct (remdups_adj (sort ?limits))"
    by (simp_all add: sorted_distinct_remdups_adj)
  with p(1) have "sorted (wp_coverage_limits p)" "distinct (wp_coverage_limits p)"
    "set (wp_coverage_limits p) = set FIXED_COVERAGE_LIMITS \<union> set (record_limits r)"
    "wp_custody_basis p = Some CUSTODY_BASIS_EXTERNAL_PROJECTION" "wp_observed_at p = ry_evaluation_time r"
    by (simp_all add: record_packet_def)
  with r p(2) show ?thesis by (auto simp: res_ok record_limits_def)
qed

section \<open>Which records are imported\<close>

lemma btree_keys: "fst ` set (btree fs) = fst ` set fs"
proof -
  have "fst ` set (fold (\<lambda>(k, v). btree_insert k v) fs m) = fst ` set m \<union> fst ` set fs" for m
    by (induction fs arbitrary: m) (simp_all add: split_beta set_btree_insert_keys)
  then show ?thesis by (simp add: btree_def)
qed

lemma observations_name_no_claim:
  "\<not> names_claim (source_identity r raw core)" "\<not> names_claim (rely_result r)"
  "\<not> names_claim (premise_observation p)"
  by (simp_all add: source_identity_def rely_result_def premise_observation_def btree_keys)

lemma source_ref_not_blank: "trim (''continuity:memory:'' @ s) \<noteq> []"
  by (rule trim_nonempty) (simp add: plain_eval)

lemma record_packet_valid:
  "valid_packet ext (record_packet r path raw core t limits) \<longleftrightarrow>
     trim (sj_scope (ry_subject r)) \<noteq> [] \<and> trim path \<noteq> [] \<and> trim (ry_evaluation_time r) \<noteq> [] \<and> trim t \<noteq> []
     \<and> is_ok (rfc3339_parse ext (ry_evaluation_time r)) \<and> is_ok (rfc3339_parse ext t)"
proof -
  have "trim WITNESS_TYPE \<noteq> []" "trim PROJECTION_LIMIT_NATIVE_WITNESS_CUSTODY \<noteq> []"
    "trim ''source assertions not independently verified'' \<noteq> []"
    by (rule trim_nonempty,
        simp add: WITNESS_TYPE_def PROJECTION_LIMIT_NATIVE_WITNESS_CUSTODY_def plain_eval)+
  then show ?thesis
    using source_ref_not_blank
    by (auto simp: valid_packet_def record_packet_def custody_declared_def is_projection_def
        observations_name_no_claim list.pred_map comp_def list.pred_True)
qed

text \<open>What a record must say for a packet to be built from it.\<close>

definition importable :: "externals \<Rightarrow> RelyRecord \<Rightarrow> string \<Rightarrow> string \<Rightarrow> bool" where
  "importable ext r path t \<longleftrightarrow>
     (\<forall>q \<in> set (ry_premises r). trim (pre_src q) \<noteq> []) \<and> (\<forall>l \<in> set (ry_does_not_establish r). trim l \<noteq> [])
     \<and> trim (sj_scope (ry_subject r)) \<noteq> [] \<and> trim path \<noteq> [] \<and> trim (ry_evaluation_time r) \<noteq> [] \<and> trim t \<noteq> []
     \<and> is_ok (rfc3339_parse ext (ry_evaluation_time r)) \<and> is_ok (rfc3339_parse ext t)"

lemma build_packet_iff: "is_ok (build_packet ext r path raw core t) \<longleftrightarrow> importable ext r path t"
  by (auto simp: is_ok_iff build_packet_ok importable_def record_packet_valid)

lemma new_record_outcome:
  assumes "quiet x" "serde_roundtrip sd" "jcs_total ext" "exact_source sd bytes"
    and "recognise_record ext sd bytes = Inr (r, core)" "json_names (st_dirs st) (memory_dir store r) = []"
  shows "if importable ext r path t
     then \<exists>d st'. import_record_packet ext sd x bytes path store t st =
       (Inr (Imported (FilePath (memory_dir store r)
          (packet_file_name (ry_evaluation_time r) (prefixed_sha256 ext bytes))) d (prefixed_sha256 ext bytes) core), st')
       \<and> (\<forall>q. fp_dir q \<noteq> memory_dir store r \<longrightarrow> lookup_file (st_dirs st') q = lookup_file (st_dirs st) q)
     else \<exists>e. import_record_packet ext sd x bytes path store t st = (Inl e, st)"
proof -
  let ?raw = "prefixed_sha256 ext bytes"
  have rs: "read_store sd x (st_dirs st) (memory_dir store r) = Inr []"
    using assms(1,6) by (simp add: read_store_quiet)
  show ?thesis
  proof (cases "build_packet ext r path ?raw core t")
    case (Inl e)
    then have "\<not> importable ext r path t" using build_packet_iff [of ext r path ?raw core t] by simp
    moreover have "import_record_packet ext sd x bytes path store t st = (Inl e, st)"
      using assms(5) rs Inl by (simp add: import_record_packet_def Let_def)
    ultimately show ?thesis by simp
  next
    case (Inr p)
    then have i: "importable ext r path t" using build_packet_iff [of ext r path ?raw core t] by simp
    obtain limits where p: "p = record_packet r path ?raw core t limits" using Inr by (auto simp: build_packet_ok)
    have det: "canonical (rv_details (ry_rely r))" "exact_json 124 (rv_details (ry_rely r))"
      using recognised_details [OF assms(5,4)] by simp_all
    obtain b where b: "to_vec_pretty sd (packet_json p) = Inr b"
      unfolding p by (rule packet_reads_back [OF assms(2) observations_regular(2,1) [OF det]]) blast
    obtain d where d: "WitnessPacket_digest ext p = Inr d"
      using digest_jcs_total [OF assms(3)] by (auto simp: WitnessPacket_digest_eq)
    obtain st' where st': "publish_packet sd x (memory_dir store r) (packet_file_name (ry_evaluation_time r) ?raw) p st =
        (Inr (FilePath (memory_dir store r) (packet_file_name (ry_evaluation_time r) ?raw)), st')"
      "\<forall>q. fp_dir q \<noteq> memory_dir store r \<longrightarrow> lookup_file (st_dirs st') q = lookup_file (st_dirs st) q"
      using publish_packet_succeeds [OF assms(1) b packet_name_json] by blast
    have "import_record_packet ext sd x bytes path store t st =
       (Inr (Imported (FilePath (memory_dir store r) (packet_file_name (ry_evaluation_time r) ?raw)) d ?raw core), st')"
      using assms(5) rs Inr d st'(1) by (simp add: import_record_packet_def Let_def)
    with i st'(2) show ?thesis by simp
  qed
qed

text \<open>
  Into a store that holds no packet of its memory, a recognised record is imported exactly
  when every premise and every nonclaim can be rendered as a limit, its scope and the source
  path are not blank, and its evaluation time and the time of the import are RFC 3339 times;
  the import then changes no
  other directory. Otherwise it is refused and the store is unchanged.
\<close>

theorem new_record_imported_iff:
  assumes "quiet x" "serde_roundtrip sd" "jcs_total ext" "exact_source sd bytes"
    and "recognise_record ext sd bytes = Inr (r, core)" "json_names (st_dirs st) (memory_dir store r) = []"
  shows "if importable ext r path t
     then \<exists>d st'. import_record_packet ext sd x bytes path store t st =
       (Inr (Imported (FilePath (memory_dir store r)
          (packet_file_name (ry_evaluation_time r) (prefixed_sha256 ext bytes))) d (prefixed_sha256 ext bytes) core), st')
       \<and> (\<forall>q. fp_dir q \<noteq> memory_dir store r \<longrightarrow> lookup_file (st_dirs st') q = lookup_file (st_dirs st) q)
     else \<exists>e. import_record_packet ext sd x bytes path store t st = (Inl e, st)"
  using assms by (rule new_record_outcome)

section \<open>Receipts of imports\<close>

lemma prefixed_sha256_digest: "sha256_shape ext \<Longrightarrow> is_sha256_digest (prefixed_sha256 ext b)"
  by (simp add: is_sha256_digest_def prefixed_sha256_def DIGEST_ALGORITHM_PREFIX_def sha256_shape_def)

lemma core_digest_shape:
  "sha256_shape ext \<Longrightarrow> core_consistency_digest ext v = Inr d \<Longrightarrow> is_sha256_digest d"
  by (auto simp: core_consistency_digest_def prefixed_sha256_digest split: sum.splits)

lemma snapshot_identity_not_blank: "trim (a @ ''@'' @ b) \<noteq> []"
  by (rule trim_nonempty) (simp add: plain_eval)

lemma source_binding_valid:
  assumes "sha256_shape ext"
  shows "valid_source (source_binding ext sd bytes ref) \<longleftrightarrow>
     present_not_blank (ps_schema (source_binding ext sd bytes ref)) \<and> present_not_blank ref"
proof -
  have "present_not_blank (ps_snapshot_identity (source_binding ext sd bytes ref))"
    using snapshot_identity_not_blank
    by (auto simp: present_not_blank_def source_binding_def Let_def bind_eq_Some_conv)
  moreover have "is_sha256_digest d" if "ps_core_digest (source_binding ext sd bytes ref) = Some d" for d
    using that core_digest_shape [OF assms]
    by (auto simp: source_binding_def Let_def bind_eq_Some_conv split: if_splits sum.splits)
  ultimately show ?thesis
    by (auto simp: valid_source_def prefixed_sha256_digest [OF assms])
      (simp_all add: source_binding_def Let_def prefixed_sha256_digest [OF assms])
qed

text \<open>A receipt that does not meet the contract is never stored: the caller gets an error instead.\<close>

lemma persist_refuses:
  "\<not> valid_projection_receipt ext r \<Longrightarrow> \<exists>e. persist_projection_receipt ext sd x r store st = (Inl e, st)"
proof -
  assume "\<not> valid_projection_receipt ext r"
  then have "ProjectionReceipt_validate ext r \<noteq> Inr ()" by (simp add: res_ok)
  then obtain e where "ProjectionReceipt_validate ext r = Inl e" by (cases "ProjectionReceipt_validate ext r") auto
  then show ?thesis by (simp add: persist_projection_receipt_def)
qed

lemma seal_keeps_form:
  assumes "ProjectionReceipt_seal ext r = (y, s)" "valid_projection_receipt ext s"
  shows "well_formed_projection ext r"
  using assms by (auto simp: ProjectionReceipt_seal_def valid_projection_receipt_def split: sum.splits)

lemma projection_receipt_ok:
  "projection_receipt ext sd x ms ds bytes outcome t = Inr r \<longleftrightarrow>
     (\<exists>packet digest binding. emitted_packet ext sd x ds outcome = Inr packet
        \<and> transpose_digest ext packet = Inr digest \<and> check_emitted outcome digest = Inr ()
        \<and> bind_packet packet digest = Inr binding
        \<and> ProjectionReceipt_seal ext (unsealed_receipt ext sd ms bytes outcome t packet binding) = (Inr (), r))"
proof -
  have "(case s of (Inl e, _) \<Rightarrow> Inl (f e) | (Inr _, c) \<Rightarrow> Inr c) = Inr r \<longleftrightarrow> s = (Inr (), r)"
    for s :: "(string + unit) \<times> ProjectionReceipt" and f :: "string \<Rightarrow> string"
    by (cases s; cases "fst s") auto
  then show ?thesis by (simp add: projection_receipt_def res_bind_Inr_iff)
qed

lemma unsound_receipt_not_issued:
  assumes "import_record_packet ext sd x bytes path store t st = (outcome, st')"
    and "\<And>p q. \<not> well_formed_projection ext (unsealed_receipt ext sd ms bytes outcome t p q)"
  shows "\<exists>e. import_record_with_receipt ext sd x ms bytes path store t st = (Inl e, st')"
proof (cases "projection_receipt ext sd x ms (st_dirs st') bytes outcome t")
  case (Inl e)
  then show ?thesis using assms(1) by (simp add: import_record_with_receipt_def)
next
  case (Inr r)
  then obtain p q y where "ProjectionReceipt_seal ext (unsealed_receipt ext sd ms bytes outcome t p q) = (y, r)"
    by (auto simp: projection_receipt_ok)
  then have "\<not> valid_projection_receipt ext r" using seal_keeps_form assms(2) by blast
  then obtain e where "persist_projection_receipt ext sd x r store st' = (Inl e, st')"
    using persist_refuses by blast
  then show ?thesis using assms(1) Inr by (simp add: import_record_with_receipt_def)
qed

end
