(* ===== verification/Continuity_Receipts.thy ===== *)
theory Continuity_Receipts
  imports Continuity_Laws
begin

text \<open>
  The receipts of Continuity imports: an import is receipted when the document carries what a
  receipt must bind, and two kinds of documents for which an outcome is left without a
  receipt. The last section imports a concrete record and applies the properties to it.
\<close>

section \<open>The receipt of a new packet\<close>

lemma coverage_limits_not_blank:
  "l \<in> set FIXED_COVERAGE_LIMITS \<union> set (record_limits r) \<Longrightarrow> trim l \<noteq> []"
  by (rule trim_nonempty)
    (auto simp: FIXED_COVERAGE_LIMITS_def record_limits_def premise_limit_def nonclaim_limit_def tier_limit_def
      plain_eval)

lemma subject_memory_id:
  "decode_subject (JObj fs) = Some s \<Longrightarrow> Option.bind (map_of fs ''memory_id'') as_str = Some (sj_memory_id s)"
  by (auto simp: decode_subject_def bind_eq_Some_conv decode_req_Some split: if_splits)

lemma snapshot_identity_bound:
  assumes "value_from_slice sd bytes = Inr v" "decode_rely_record v = Some r" "canonical v"
    and "json_field v ''schema'' \<noteq> None" "json_field v ''subject'' = Some (JObj fs)"
  shows "ps_snapshot_identity (source_binding ext sd bytes ref) =
     Some (sj_memory_id (ry_subject r) @ ''@'' @ ry_evaluation_time r)"
proof -
  obtain gs where v: "v = JObj gs" using assms(4) by (cases v) (simp_all add: json_field_def)
  obtain hs where hs: "struct_fields rely_record_spec v = Some hs"
    "decode_req decode_subject (hs ! 4) = Some (ry_subject r)"
    "decode_req as_str (hs ! 14) = Some (ry_evaluation_time r)"
    using assms(2) by (rule rely_record_parts)
  have h: "hs = map (\<lambda>(n, p). map_of gs n) rely_record_spec" using hs(1) by (simp add: v split: if_splits)
  have sub: "decode_subject (JObj fs) = Some (ry_subject r)"
    using hs(2) assms(5) by (simp add: h v rely_record_spec_def)
  then have "Option.bind (map_of fs ''memory_id'') as_str = Some (sj_memory_id (ry_subject r))"
    by (rule subject_memory_id)
  moreover have "Option.bind (json_field v ''evaluation_time'') as_str = Some (ry_evaluation_time r)"
    using hs(3) by (simp add: h v rely_record_spec_def decode_req_def eval_nat_numeral)
  ultimately show ?thesis
    using assms(1,5) by (auto simp: source_binding_def Let_def bind_eq_Some_conv)
qed

lemma imported_receipt_well_formed:
  assumes "sha256_shape ext" "build_packet ext r path raw core t = Inr p" "WitnessPacket_digest ext p = Inr d"
    and "ps_schema (source_binding ext sd bytes (wp_source_finding_ref p)) = Some SUPPORTED_RECORD_SCHEMA"
    and "ps_core_digest (source_binding ext sd bytes (wp_source_finding_ref p)) \<noteq> None"
    and "ps_snapshot_identity (source_binding ext sd bytes (wp_source_finding_ref p)) \<noteq> None"
  shows "well_formed_projection ext (unsealed_receipt ext sd ms bytes (Inr (Imported file d raw core)) t (Some p)
     (Some \<lparr>pp_digest = d, pp_witness_type = wp_witness_type p, pp_subject = wp_subject p\<rparr>))"
proof -
  let ?limits = "remdups_adj (sort (FIXED_COVERAGE_LIMITS @ record_limits r))"
  have p: "p = record_packet r path raw core t ?limits" and v: "valid_packet ext p"
    using assms(2) unfolding build_packet_ok by blast+
  have ref: "wp_source_finding_ref p \<noteq> None" "present_not_blank (wp_source_finding_ref p)"
    using source_ref_not_blank unfolding p by (simp_all add: record_packet_def present_not_blank_def)
  have "trim SUPPORTED_RECORD_SCHEMA \<noteq> []"
    by (rule trim_nonempty) (simp add: SUPPORTED_RECORD_SCHEMA_def plain_eval)
  then have src: "valid_source (source_binding ext sd bytes (wp_source_finding_ref p))"
    using assms(4) ref(2) by (simp add: source_binding_valid [OF assms(1)] present_not_blank_def)
  have lim: "trim l \<noteq> []" if "l \<in> set (wp_coverage_limits p @ wp_projection_limits p)" for l
  proof -
    have "trim PROJECTION_LIMIT_NATIVE_WITNESS_CUSTODY \<noteq> []" "trim ''source assertions not independently verified'' \<noteq> []"
      by (rule trim_nonempty, simp add: PROJECTION_LIMIT_NATIVE_WITNESS_CUSTODY_def plain_eval)+
    with that coverage_limits_not_blank [of l r] show ?thesis unfolding p by (auto simp: record_packet_def)
  qed
  have "is_sha256_digest d" using assms(3) digest_jcs_shape [OF assms(1)] by (auto simp: WitnessPacket_digest_eq)
  then have "complete_binding (unsealed_receipt ext sd ms bytes (Inr (Imported file d raw core)) t (Some p)
      (Some \<lparr>pp_digest = d, pp_witness_type = wp_witness_type p, pp_subject = wp_subject p\<rparr>))"
    using assms(4-6) ref(1) v
    by (auto simp: complete_binding_def unsealed_receipt_def valid_packet_def source_binding_def Let_def)
  then show ?thesis
    using src lim v prefixed_sha256_digest [OF assms(1)]
    unfolding well_formed_projection_def valid_import_shape_def
    by (simp add: unsealed_receipt_def valid_packet_def outcome_refused_def OUTCOMES_def valid_substitution_def)
      (simp add: p record_packet_def source_binding_def Let_def)
qed

text \<open>
  C23: a new packet is receipted. When an import has emitted a packet for a document whose
  subject is written as an object, and no receipt is in the way, the import returns; its
  receipt validates, names the digest, witness type and subject of the packet that the emitted
  file reads back as, and the file it names reads back as that receipt.
\<close>

theorem imported_packet_is_receipted:
  assumes "quiet x" "serde_roundtrip sd" "jcs_total ext" "sha256_shape ext" "exact_source sd bytes"
    and "import_record_packet ext sd x bytes path store t st = (Inr (Imported file d raw core), st')"
    and "value_from_slice sd bytes = Inr v" "json_field v ''subject'' = Some (JObj fs)"
    and "\<forall>n. lookup_file (st_dirs st') (FilePath (path_join store RECEIPT_STORE_DIR) n) = None"
  shows "\<exists>ri st'' b p c. import_record_with_receipt ext sd x ms bytes path store t st = (Inr ri, st'')
     \<and> ri_outcome ri = Inr (Imported file d raw core)
     \<and> ProjectionReceipt_validate ext (ri_receipt ri) = Inr ()
     \<and> lookup_file (st_dirs st') file = Some c \<and> packet_from_slice sd c = Inr p
     \<and> WitnessPacket_digest ext p = Inr d
     \<and> prc_packet (ri_receipt ri) = Some \<lparr>pp_digest = d, pp_witness_type = wp_witness_type p, pp_subject = wp_subject p\<rparr>
     \<and> rep_outcome (prc_replay (ri_receipt ri)) = ''imported''
     \<and> lookup_file (st_dirs st'') (ri_receipt_path ri) = Some b
     \<and> receipt_from_slice sd b = Inr (ri_receipt ri)"
proof -
  obtain r p b where r: "recognise_record ext sd bytes = Inr (r, core)" "build_packet ext r path raw core t = Inr p"
    "WitnessPacket_digest ext p = Inr d" "lookup_file (st_dirs st') file = Some b" "packet_from_slice sd b = Inr p"
    using assms(1,2,5,6) by (rule after_import)
  obtain w where w: "value_from_slice sd bytes = Inr w" "canonical w" "decode_rely_record w = Some r"
    "json_field w ''schema'' = Some (JStr SUPPORTED_RECORD_SCHEMA)" "core_consistency_digest ext w = Inr core"
    using r(1) by (rule recognised)
  have [simp]: "w = v" using w(1) assms(7) by simp
  have valid: "valid_packet ext p" using r(2) unfolding build_packet_ok by blast
  let ?outcome = "Inr (Imported file d raw core)"
  let ?q = "Some \<lparr>pp_digest = d, pp_witness_type = wp_witness_type p, pp_subject = wp_subject p\<rparr>"
  let ?u = "unsealed_receipt ext sd ms bytes ?outcome t (Some p) ?q"
  have wf: "well_formed_projection ext ?u"
  proof (rule imported_receipt_well_formed [OF assms(4) r(2,3)])
    show "ps_snapshot_identity (source_binding ext sd bytes (wp_source_finding_ref p)) \<noteq> None"
      using snapshot_identity_bound [OF w(1,3,2)] w(4) assms(8) by simp
    show "ps_schema (source_binding ext sd bytes (wp_source_finding_ref p)) = Some SUPPORTED_RECORD_SCHEMA"
      "ps_core_digest (source_binding ext sd bytes (wp_source_finding_ref p)) \<noteq> None"
      using w by (simp_all add: source_binding_def Let_def)
  qed
  obtain i where seal: "ProjectionReceipt_seal ext ?u = (Inr (), ?u\<lparr>prc_receipt_id := i\<rparr>)"
    using assms(3) by (rule seal_projection)
  define rc where "rc = ?u\<lparr>prc_receipt_id := i\<rparr>"
  have rc: "valid_projection_receipt ext rc"
    using sealed_projection_valid [OF assms(3,4), of ?u] wf seal by (simp add: rc_def)
  have "emitted_packet ext sd x (st_dirs st') ?outcome = Inr (Some p)"
    using r(4,5) assms(1) valid by (simp add: emitted_packet_def Let_def fs_read_def res_ok WitnessPacket_validate_ok)
  then have pr: "projection_receipt ext sd x ms (st_dirs st') bytes ?outcome t = Inr rc"
    using r(3) seal by (simp add: projection_receipt_def check_emitted_def bind_packet_def rc_def)
  have free: "lookup_file (st_dirs st') (receipt_file store rc) = None"
    "\<forall>n. lookup_file (st_dirs st') (FilePath (path_join store RECEIPT_STORE_DIR) (''.'' @ n)) = None"
    using assms(9) by (simp_all add: receipt_file_def)
  obtain st'' c where "persist_projection_receipt ext sd x rc store st' = (Inr (rc, receipt_file store rc), st'')"
    "lookup_file (st_dirs st'') (receipt_file store rc) = Some c" "receipt_from_slice sd c = Inr rc"
    by (rule persist_first [OF assms(1,2) rc free])
  moreover have "prc_packet rc = ?q" "rep_outcome (prc_replay rc) = ''imported''" by (simp_all add: rc_def unsealed_receipt_def)
  ultimately show ?thesis
    using assms(6) pr rc r(3-5)
    by (intro exI [of _ "\<lparr>ri_outcome = ?outcome, ri_receipt = rc, ri_receipt_path = receipt_file store rc\<rparr>"]
        exI [of _ st''] exI [of _ c] exI [of _ p] exI [of _ b])
      (simp add: import_record_with_receipt_def res_ok)
qed

section \<open>Outcomes without a receipt\<close>

text \<open>
  The documentation promises a receipt for every outcome. A document whose \<open>schema\<close> is
  present but blank is refused as unsupported, but no receipt is issued: the receipt would carry
  the blank schema, its own validation refuses it, and the caller gets a store error with the
  store unchanged, whatever the services and the file system do.
\<close>

theorem blank_schema_unreceipted:
  assumes "value_from_slice sd bytes = Inr v" "json_field v ''schema'' = Some (JStr s)" "trim s = []"
  shows "fst (import_record_packet ext sd x bytes path store t st) = Inl (IR_UnsupportedSchema s)
     \<and> (\<exists>e. import_record_with_receipt ext sd x ms bytes path store t st = (Inl e, st))"
proof -
  have "trim SUPPORTED_RECORD_SCHEMA \<noteq> []"
    by (rule trim_nonempty) (simp add: SUPPORTED_RECORD_SCHEMA_def plain_eval)
  with assms(3) have "s \<noteq> SUPPORTED_RECORD_SCHEMA" by auto
  then have "recognise_record ext sd bytes = Inl (IR_UnsupportedSchema s)"
    using assms(1,2) by (simp add: recognise_record_def Let_def)
  then have i: "import_record_packet ext sd x bytes path store t st = (Inl (IR_UnsupportedSchema s), st)"
    by (simp add: import_record_packet_def Let_def)
  have "\<not> valid_source (source_binding ext sd bytes ref)" for ref
    using assms by (simp add: valid_source_def present_not_blank_def source_binding_def Let_def)
  then have "\<not> well_formed_projection ext (unsealed_receipt ext sd ms bytes (Inl (IR_UnsupportedSchema s)) t p q)" for p q
    by (simp add: well_formed_projection_def unsealed_receipt_def)
  with unsound_receipt_not_issued [OF i] i show ?thesis by simp
qed

text \<open>
  C35: the derived decoder of the subject also reads an array of its fields, while the receipt
  looks the memory up by name. A record with such a subject is imported, its packet is in the
  store, but no receipt is issued and the caller is told that the import failed.
\<close>

theorem positional_subject_unreceipted:
  assumes "quiet x" "serde_roundtrip sd" "exact_source sd bytes"
    and "import_record_packet ext sd x bytes path store t st = (Inr (Imported file d raw core), st')"
    and "value_from_slice sd bytes = Inr v" "json_field v ''subject'' = Some (JArr ws)"
  shows "\<exists>e p b. import_record_with_receipt ext sd x ms bytes path store t st = (Inl e, st')
     \<and> lookup_file (st_dirs st') file = Some b \<and> packet_from_slice sd b = Inr p"
proof -
  have "ps_snapshot_identity (source_binding ext sd bytes ref) = None" for ref
    using assms(5,6) by (simp add: source_binding_def Let_def json_field_def)
  then have "\<not> well_formed_projection ext (unsealed_receipt ext sd ms bytes (Inr (Imported file d raw core)) t p q)" for p q
    by (simp add: well_formed_projection_def unsealed_receipt_def valid_import_shape_def complete_binding_def
        outcome_refused_def)
  from unsound_receipt_not_issued [OF assms(4) this] show ?thesis
    using after_import [OF assms(1-4)] by metis
qed

section \<open>Records that are nested too deep\<close>

text \<open>A document of at least so many levels, and a parser that reads fewer than 128.\<close>

fun nested :: "nat \<Rightarrow> json \<Rightarrow> bool" where
  "nested 0 v = True"
| "nested (Suc n) (JArr vs) = (n = 0 \<or> list_ex (nested n) vs)"
| "nested (Suc n) (JObj fs) = (n = 0 \<or> list_ex (\<lambda>f. nested n (snd f)) fs)"
| "nested (Suc n) v = False"

definition recursion_limited :: "serde \<Rightarrow> bool" where
  "recursion_limited sd \<longleftrightarrow>
     (\<forall>v b. to_vec_pretty sd v = Inr b \<longrightarrow> nested 128 v \<longrightarrow> (\<exists>e. parse_doc sd b = Inl e))"

lemma nested_member: "json_field v k = Some w \<Longrightarrow> nested n w \<Longrightarrow> nested (Suc n) v"
  by (cases v) (auto simp: json_field_def list_ex_iff dest!: map_of_SomeD bspec)

lemma packet_nested:
  assumes "nested n (rv_details (ry_rely r))"
  shows "nested (Suc (Suc (Suc n))) (packet_json (record_packet r path raw core t limits))"
proof -
  have "json_field (rely_result r) ''continuity_rely_details'' = Some (rv_details (ry_rely r))"
    by (simp add: rely_result_def map_of_btree)
  then have "nested (Suc n) (rely_result r)" using assms by (rule nested_member)
  then have "nested (Suc (Suc n)) (JArr (wp_observations (record_packet r path raw core t limits)))"
    by (simp add: record_packet_def)
  moreover have "json_field (packet_json p) ''observations'' = Some (JArr (wp_observations p))" for p
    by (simp add: packet_json_def)
  ultimately show ?thesis by (rule nested_member [rotated])
qed

lemma try_map_Inl: "n \<in> set xs \<Longrightarrow> f n = Inl e \<Longrightarrow> \<exists>e. try_map f xs = Inl e"
proof (induction xs)
  case (Cons y ys)
  then show ?case by (cases "f y") auto
qed simp

text \<open>
  The packet carries the details of the record one level deeper than the record does. A record
  that the parser just reads is imported, but its packet cannot be read back: every later
  import of that memory, the same record included, is refused.
\<close>

theorem deep_record_blocks_memory:
  assumes "quiet x" "recursion_limited sd"
    and "import_record_packet ext sd x bytes path store t st = (Inr (Imported file d raw core), st')"
    and "recognise_record ext sd bytes = Inr (r, core)" "nested 125 (rv_details (ry_rely r))"
    and "recognise_record ext sd bytes' = Inr (r', core')"
    and "sj_memory_id (ry_subject r') = sj_memory_id (ry_subject r)"
  shows "\<exists>e. import_record_packet ext sd x bytes' path' store t' st' = (Inl e, st')"
proof -
  define dir where "dir = memory_dir store r"
  define name where "name = packet_file_name (ry_evaluation_time r) raw"
  obtain p where p: "build_packet ext r path raw core t = Inr p" "publish_packet sd x dir name p st = (Inr file, st')"
    using assms(3,4) unfolding dir_def name_def by (elim import_Imported) auto
  then obtain b where b: "to_vec_pretty sd (packet_json p) = Inr b"
    by (cases "to_vec_pretty sd (packet_json p)") (auto simp: publish_packet_def split: prod.splits sum.splits)
  have "nested 128 (packet_json p)"
    using p(1) packet_nested [OF assms(5)] by (auto simp: build_packet_ok)
  with assms(2) b obtain e where e: "parse_doc sd b = Inl e" unfolding recursion_limited_def by blast
  obtain ds where ds: "publish_packet sd x dir name p st = (Inr (FilePath dir name), st\<lparr>st_dirs := ds\<rparr>)"
    "lookup_file ds (FilePath dir name) = Some b"
    "json_names ds dir = (if name \<in> set (json_names (st_dirs st) dir) then json_names (st_dirs st) dir
       else json_names (st_dirs st) dir @ [name])"
    using publish_packet_quiet [OF assms(1) b, of name dir st] by (auto simp: name_def packet_name_json)
  have st': "st_dirs st' = ds" using ds(1) p(2) by simp
  have "fs_read x ds (FilePath dir name) = Inr b" using ds(2) assms(1) by (simp add: fs_read_def)
  then have "\<exists>e. read_stored sd ds x (FilePath dir name) = Inl e"
    by (simp add: read_stored_def value_from_slice_def e)
  moreover have "name \<in> set (json_names ds dir)" by (simp add: ds(3))
  ultimately obtain e' where "read_store sd x (st_dirs st') dir = Inl e'"
    using try_map_Inl unfolding read_store_quiet [OF assms(1)] st' by metis
  with assms(6,7) show ?thesis by (auto simp: import_record_packet_def Let_def dir_def)
qed

section \<open>A concrete record\<close>

text \<open>
  Records that differ in the way their subject is written, in what they supersede and in what
  they say they do not establish.
\<close>

definition demo_fields :: "json \<Rightarrow> json \<Rightarrow> (string \<times> json) list" where
  "demo_fields subject supersedes =
     [(''schema'', JStr ''continuity.rely_export.v0''), (''export_id'', JStr ''x1''),
      (''exported_at'', JStr ''2026Z''),
      (''source'', JObj [(''system'', JStr ''continuity''),
         (''exporter'', JObj [(''tool'', JStr ''contctl''), (''version'', JStr ''1'')])]),
      (''subject'', subject), (''content_hash'', JStr ''h''), (''status'', JStr ''committed''),
      (''supersedes'', supersedes), (''authoring_tier'', JStr ''agent''),
      (''reliance_class'', JStr ''advisory''), (''effective_reliance'', JStr ''advisory''),
      (''lifecycle'', JObj []), (''times'', JArr [JStr ''2026Z'', JStr ''2026Z'']),
      (''evaluation_time'', JStr ''2026Z''),
      (''rely'', JObj [(''rely_ok'', JBool True), (''code'', JStr ''eligible''),
         (''message'', JStr ''ok''), (''details'', JNull)]),
      (''premises'', JArr [JObj [(''src'', JStr ''mem_p''), (''relation'', JStr ''depends_on''),
         (''strength'', JStr ''hard''), (''status'', JStr ''active'')]]),
      (''history'', JObj [(''event_count'', JInt 2), (''receipt_count'', JInt 1)]),
      (''establishes'', JArr [])]"

definition demo_doc :: "json \<Rightarrow> json \<Rightarrow> string \<Rightarrow> json" where
  "demo_doc subject supersedes nonclaim =
     JObj (demo_fields subject supersedes @ [(''does_not_establish'', JArr [JStr nonclaim])])"

definition demo_subject :: json where
  "demo_subject = JObj [(''memory_id'', JStr ''m1''), (''scope'', JStr ''repo''), (''kind'', JStr ''fact''),
     (''basis'', JStr ''seen'')]"

definition demo_positional :: json where
  "demo_positional = JArr [JStr ''m1'', JStr ''repo'', JStr ''fact'', JStr ''seen'']"

definition demo_record_ok :: "json \<Rightarrow> bool" where
  "demo_record_ok doc \<longleftrightarrow>
     exact_json 126 (json_value doc)
     \<and> json_field (json_value doc) ''schema'' = Some (JStr SUPPORTED_RECORD_SCHEMA)
     \<and> (case decode_rely_record (json_value doc) of
          None \<Rightarrow> False
        | Some r \<Rightarrow> sb_system (ry_source r) = ''continuity'' \<and> rv_code (ry_rely r) \<in> set KNOWN_RELY_CODES
            \<and> sj_memory_id (ry_subject r) = ''m1'' \<and> ry_evaluation_time r = ''2026Z''
            \<and> importable demo_ext r ''p'' ''2026Z'')"

definition demo_core :: "json \<Rightarrow> string" where
  "demo_core doc = prefixed_sha256 demo_ext (render_json (record_core (json_value doc)))"

lemma demo_records_ok:
  "demo_record_ok (demo_doc demo_subject JNull ''truth'')"
  "demo_record_ok (demo_doc demo_subject (JStr ''aaaa'') ''decade'')"
  "demo_record_ok (demo_doc demo_positional JNull ''truth'')"
  by code_simp+

lemma demo_value: "value_from_slice demo_serde (put_doc v) = Inr (json_value v)"
proof -
  have "parse_doc demo_serde (put_doc v) = Inr v"
    using get_put_doc [of v "length (put_doc v)" "[]"] by (simp add: demo_serde_def)
  then show ?thesis by (simp add: value_from_slice_def)
qed

lemma demo_exact: "demo_record_ok doc \<Longrightarrow> exact_source demo_serde (put_doc doc)"
  by (simp add: exact_source_def demo_value demo_record_ok_def)

lemma demo_recognised:
  assumes "demo_record_ok doc"
  obtains r where "recognise_record demo_ext demo_serde (put_doc doc) = Inr (r, demo_core doc)"
    "sj_memory_id (ry_subject r) = ''m1''" "ry_evaluation_time r = ''2026Z''"
    "importable demo_ext r ''p'' ''2026Z''"
proof -
  have core: "core_consistency_digest demo_ext v = Inr (prefixed_sha256 demo_ext (render_json (record_core v)))" for v
    by (simp add: core_consistency_digest_def demo_ext_def)
  from assms obtain r where "decode_rely_record (json_value doc) = Some r" "sb_system (ry_source r) = ''continuity''"
    "rv_code (ry_rely r) \<in> set KNOWN_RELY_CODES" "sj_memory_id (ry_subject r) = ''m1''"
    "ry_evaluation_time r = ''2026Z''" "importable demo_ext r ''p'' ''2026Z''"
    by (auto simp: demo_record_ok_def split: option.splits)
  moreover have "json_field (json_value doc) ''schema'' = Some (JStr SUPPORTED_RECORD_SCHEMA)"
    using assms by (simp add: demo_record_ok_def)
  ultimately show thesis
    by (intro that) (simp_all add: recognise_record_def demo_value core demo_core_def Let_def)
qed

abbreviation demo_run :: "json \<Rightarrow> store_state \<Rightarrow> (ImportRefusal + ImportOutcome) \<times> store_state" where
  "demo_run doc st \<equiv> import_record_packet demo_ext demo_serde demo_io (put_doc doc) ''p'' ''s'' ''2026Z'' st"

lemma demo_imported:
  assumes "demo_record_ok doc"
  obtains fpath d st' where
    "demo_run doc demo_store_state = (Inr (Imported fpath d (prefixed_sha256 demo_ext (put_doc doc)) (demo_core doc)), st')"
    "\<forall>n. lookup_file (st_dirs st') (FilePath (path_join ''s'' RECEIPT_STORE_DIR) n) = None"
proof -
  obtain r where r: "recognise_record demo_ext demo_serde (put_doc doc) = Inr (r, demo_core doc)"
    "sj_memory_id (ry_subject r) = ''m1''" "importable demo_ext r ''p'' ''2026Z''"
    using assms by (rule demo_recognised)
  have "json_names (st_dirs demo_store_state) (memory_dir ''s'' r) = []"
    by (simp add: json_names_def demo_store_state_def)
  from new_record_outcome [OF demo_io_quiet demo_serde_roundtrip demo_ext_total demo_exact [OF assms] r(1) this,
      of "''p''" "''2026Z''"] r(3)
  obtain fpath d st' where
    i: "demo_run doc demo_store_state = (Inr (Imported fpath d (prefixed_sha256 demo_ext (put_doc doc)) (demo_core doc)), st')"
    and f: "\<forall>q. fp_dir q \<noteq> memory_dir ''s'' r \<longrightarrow> lookup_file (st_dirs st') q = lookup_file (st_dirs demo_store_state) q"
    by auto
  have "path_join ''s'' RECEIPT_STORE_DIR \<noteq> memory_dir ''s'' r"
    by (simp add: r(2) path_join_def RECEIPT_STORE_DIR_def)
  with f have "lookup_file (st_dirs st') (FilePath (path_join ''s'' RECEIPT_STORE_DIR) n) =
      lookup_file (st_dirs demo_store_state) (FilePath (path_join ''s'' RECEIPT_STORE_DIR) n)" for n
    by simp
  then have "lookup_file (st_dirs st') (FilePath (path_join ''s'' RECEIPT_STORE_DIR) n) = None" for n
    by (simp add: lookup_file_def demo_store_state_def)
  with i show thesis using that by blast
qed

theorem reimport_is_duplicate_witness:
  "\<exists>fpath d raw core st'. demo_run (demo_doc demo_subject JNull ''truth'') demo_store_state =
       (Inr (Imported fpath d raw core), st')
     \<and> demo_run (demo_doc demo_subject JNull ''truth'') st' = (Inr (Duplicate fpath raw), st')"
proof -
  let ?doc = "demo_doc demo_subject JNull ''truth''"
  obtain fpath d st' where "demo_run ?doc demo_store_state =
      (Inr (Imported fpath d (prefixed_sha256 demo_ext (put_doc ?doc)) (demo_core ?doc)), st')"
    using demo_records_ok(1) by (rule demo_imported)
  with reimport_is_duplicate [OF demo_io_quiet demo_serde_roundtrip demo_exact [OF demo_records_ok(1)] this]
  show ?thesis by blast
qed

text \<open>The digests of the two records are told apart near the end of the bytes they digest.\<close>

lemma tail_hex_nth:
  "i < 64 \<Longrightarrow> i < length u \<Longrightarrow>
     tail_hex (p @ u) ! i = (if is_lower_hex (rev u ! i) then rev u ! i else CHR ''0'')"
  by (simp add: tail_hex_def nth_append)

lemma join_with_snoc: "\<exists>p. join_with sep (xs @ [x]) = p @ x"
proof (induction xs)
  case (Cons y ys)
  then obtain p where "join_with sep (ys @ [x]) = p @ x" by blast
  then have "join_with sep ((y # ys) @ [x]) = (y @ sep @ p) @ x" by (simp add: join_with_Cons)
  then show ?case by blast
qed simp

lemma demo_core_end:
  assumes "case record_core (json_value doc) of JObj fs \<Rightarrow> fs \<noteq> [] \<and> last fs = (k, v) | _ \<Rightarrow> False"
  shows "\<exists>p. render_json (record_core (json_value doc)) = p @ render_json v @ ''}''"
proof -
  obtain fs where fs: "record_core (json_value doc) = JObj fs" "fs \<noteq> []" "last fs = (k, v)"
    using assms by (auto split: json.splits)
  define gs where "gs = butlast fs"
  have "fs = gs @ [(k, v)]" using fs(2,3) by (metis append_butlast_last_id gs_def)
  moreover obtain p where
    "join_with '','' (map (\<lambda>f. debug_str (fst f) @ '':'' @ render_json (snd f)) gs @ [debug_str k @ '':'' @ render_json v]) =
       p @ debug_str k @ '':'' @ render_json v"
    using join_with_snoc by blast
  ultimately have "render_json (record_core (json_value doc)) =
      (''{'' @ p @ debug_str k @ '':'') @ render_json v @ ''}''"
    by (simp add: fs(1))
  then show ?thesis by blast
qed

lemma demo_core_eq: "demo_core doc = ''sha256:'' @ tail_hex (render_json (record_core (json_value doc)))"
  by (simp add: demo_core_def prefixed_sha256_def demo_ext_def)

lemma demo_cores_differ:
  "demo_core (demo_doc demo_subject (JStr ''aaaa'') ''decade'') \<noteq> demo_core (demo_doc demo_subject JNull ''truth'')"
proof -
  let ?render = "\<lambda>doc. render_json (record_core (json_value doc))"
  let ?u = "[CHR 0x22] @ ''aaaa'' @ [CHR 0x22] @ ''}''"
  have "\<exists>p. ?render (demo_doc demo_subject (JStr ''aaaa'') ''decade'') = p @ render_json (JStr ''aaaa'') @ ''}''"
    by (rule demo_core_end [where k = "''supersedes''"]) code_simp
  then obtain p where "?render (demo_doc demo_subject (JStr ''aaaa'') ''decade'') = p @ render_json (JStr ''aaaa'') @ ''}''"
    by blast
  moreover have "render_json (JStr ''aaaa'') @ ''}'' = ?u" by code_simp
  ultimately have p: "?render (demo_doc demo_subject (JStr ''aaaa'') ''decade'') = p @ ?u" by metis
  have "\<exists>q. ?render (demo_doc demo_subject JNull ''truth'') = q @ render_json JNull @ ''}''"
    by (rule demo_core_end [where k = "''supersedes''"]) code_simp
  then obtain q where q: "?render (demo_doc demo_subject JNull ''truth'') = q @ ''null}''" by auto
  have "tail_hex (p @ ?u) ! 2 = CHR ''a''" "tail_hex (q @ ''null}'') ! 2 = CHR ''0''"
    by (simp_all only: tail_hex_nth [of 2 ?u] tail_hex_nth [of 2 "''null}''"] list.size append.simps)
      (simp_all add: tail_hex_nth is_lower_hex_def is_digit_def in_range_def)
  then have "tail_hex (p @ ?u) ! 2 \<noteq> tail_hex (q @ ''null}'') ! 2" by (simp only:) simp
  then have "tail_hex (p @ ?u) \<noteq> tail_hex (q @ ''null}'')" by auto
  then show ?thesis unfolding demo_core_eq p q same_append_eq .
qed

lemma demo_bytes_differ:
  "prefixed_sha256 demo_ext (put_doc (demo_doc demo_subject (JStr ''aaaa'') ''decade'')) \<noteq>
     prefixed_sha256 demo_ext (put_doc (demo_doc demo_subject JNull ''truth''))"
proof -
  have put: "\<exists>p. put_doc (demo_doc a b n) = p @ n" for a b n
  proof -
    have "put_doc (JObj (fs @ [(k, JArr [JStr n])])) =
        (''o'' @ put_num (Suc (length fs)) @ concat (map (\<lambda>f. put_text (fst f) @ put_doc (snd f)) fs)
          @ put_text k @ ''a'' @ put_num 1 @ ''s'' @ put_num (length n)) @ n" for fs k
      by (simp add: put_text_def)
    then show ?thesis unfolding demo_doc_def by blast
  qed
  obtain p q where "put_doc (demo_doc demo_subject (JStr ''aaaa'') ''decade'') = p @ ''decade''"
    "put_doc (demo_doc demo_subject JNull ''truth'') = q @ ''truth''"
    using put by metis
  moreover have "tail_hex (p @ ''decade'') ! 0 \<noteq> tail_hex (q @ ''truth'') ! 0"
    by (simp add: tail_hex_nth is_lower_hex_def is_digit_def in_range_def)
  ultimately show ?thesis by (auto simp: prefixed_sha256_def demo_ext_def)
qed

theorem substitution_refused_witness:
  "\<exists>st' core core'. snd (demo_run (demo_doc demo_subject JNull ''truth'') demo_store_state) = st'
     \<and> demo_run (demo_doc demo_subject (JStr ''aaaa'') ''decade'') st' =
         (Inl (IR_SnapshotSubstitution ''m1'' ''2026Z'' core core'), st')"
proof -
  let ?doc = "demo_doc demo_subject JNull ''truth''" and ?doc' = "demo_doc demo_subject (JStr ''aaaa'') ''decade''"
  obtain fpath d st' where i: "demo_run ?doc demo_store_state =
      (Inr (Imported fpath d (prefixed_sha256 demo_ext (put_doc ?doc)) (demo_core ?doc)), st')"
    using demo_records_ok(1) by (rule demo_imported)
  obtain r where r: "recognise_record demo_ext demo_serde (put_doc ?doc) = Inr (r, demo_core ?doc)"
    "sj_memory_id (ry_subject r) = ''m1''" "ry_evaluation_time r = ''2026Z''"
    using demo_records_ok(1) by (rule demo_recognised)
  obtain r' where r': "recognise_record demo_ext demo_serde (put_doc ?doc') = Inr (r', demo_core ?doc')"
    "sj_memory_id (ry_subject r') = ''m1''" "ry_evaluation_time r' = ''2026Z''"
    using demo_records_ok(2) by (rule demo_recognised)
  have none: "read_store demo_serde demo_io (st_dirs demo_store_state) (memory_dir ''s'' r) = Inr []"
    by (simp add: read_store_quiet demo_io_quiet json_names_def demo_store_state_def)
  then have none': "read_store demo_serde demo_io (st_dirs demo_store_state) (path_join ''s'' ''m1'') = Inr []"
    by (simp add: r(2))
  have "demo_run ?doc' st' = (Inl (IR_SnapshotSubstitution (sj_memory_id (ry_subject r)) (ry_evaluation_time r)
      (demo_core ?doc) (demo_core ?doc')), st')"
    by (rule substitution_refused [OF demo_io_quiet demo_serde_roundtrip demo_exact [OF demo_records_ok(1)] i r(1) r'(1)])
      (simp_all add: r r' none' demo_cores_differ demo_bytes_differ)
  with i r show ?thesis by simp
qed

theorem import_keeps_every_limit_witness:
  "\<exists>fpath b p d raw core st'. demo_run (demo_doc demo_subject JNull ''truth'') demo_store_state =
       (Inr (Imported fpath d raw core), st')
     \<and> lookup_file (st_dirs st') fpath = Some b \<and> packet_from_slice demo_serde b = Inr p
     \<and> set FIXED_COVERAGE_LIMITS \<subseteq> set (wp_coverage_limits p)"
proof -
  let ?doc = "demo_doc demo_subject JNull ''truth''"
  obtain fpath d st' where i: "demo_run ?doc demo_store_state =
      (Inr (Imported fpath d (prefixed_sha256 demo_ext (put_doc ?doc)) (demo_core ?doc)), st')"
    using demo_records_ok(1) by (rule demo_imported)
  from import_keeps_every_limit [OF demo_io_quiet demo_serde_roundtrip demo_exact [OF demo_records_ok(1)] i]
  obtain p b where "lookup_file (st_dirs st') fpath = Some b" "packet_from_slice demo_serde b = Inr p"
    "set FIXED_COVERAGE_LIMITS \<subseteq> set (wp_coverage_limits p)"
    by blast
  with i show ?thesis by blast
qed

theorem new_record_imported_iff_witness:
  "\<exists>fpath d raw core st'. demo_run (demo_doc demo_subject JNull ''truth'') demo_store_state =
     (Inr (Imported fpath d raw core), st')"
proof -
  let ?doc = "demo_doc demo_subject JNull ''truth''"
  obtain r where r: "recognise_record demo_ext demo_serde (put_doc ?doc) = Inr (r, demo_core ?doc)"
    "importable demo_ext r ''p'' ''2026Z''"
    using demo_records_ok(1) by (rule demo_recognised)
  have "json_names (st_dirs demo_store_state) (memory_dir ''s'' r) = []"
    by (simp add: json_names_def demo_store_state_def)
  from new_record_imported_iff [OF demo_io_quiet demo_serde_roundtrip demo_ext_total
      demo_exact [OF demo_records_ok(1)] r(1) this, of "''p''" "''2026Z''"] r(2)
  show ?thesis by auto
qed

lemma demo_subject_field:
  "json_field (json_value (demo_doc demo_subject JNull ''truth'')) ''subject'' =
     Some (JObj [(''basis'', JStr ''seen''), (''kind'', JStr ''fact''), (''memory_id'', JStr ''m1''), (''scope'', JStr ''repo'')])"
  "json_field (json_value (demo_doc demo_positional JNull ''truth'')) ''subject'' =
     Some (JArr [JStr ''m1'', JStr ''repo'', JStr ''fact'', JStr ''seen''])"
  by code_simp+

theorem imported_packet_is_receipted_witness:
  "\<exists>ri st'. import_record_with_receipt demo_ext demo_serde demo_io ''mapping''
       (put_doc (demo_doc demo_subject JNull ''truth'')) ''p'' ''s'' ''2026Z'' demo_store_state = (Inr ri, st')
     \<and> ProjectionReceipt_validate demo_ext (ri_receipt ri) = Inr ()"
proof -
  let ?doc = "demo_doc demo_subject JNull ''truth''"
  obtain fpath d st' where "demo_run ?doc demo_store_state =
      (Inr (Imported fpath d (prefixed_sha256 demo_ext (put_doc ?doc)) (demo_core ?doc)), st')"
    "\<forall>n. lookup_file (st_dirs st') (FilePath (path_join ''s'' RECEIPT_STORE_DIR) n) = None"
    using demo_records_ok(1) by (rule demo_imported)
  from imported_packet_is_receipted [OF demo_io_quiet demo_serde_roundtrip demo_ext_total demo_ext_shape
      demo_exact [OF demo_records_ok(1)] this(1) demo_value demo_subject_field(1) this(2)]
  show ?thesis by blast
qed

theorem blank_schema_unreceipted_witness:
  "\<exists>e. import_record_with_receipt demo_ext demo_serde demo_io ''mapping''
     (put_doc (JObj [(''schema'', JStr '' '')])) ''p'' ''s'' ''2026Z'' demo_store_state = (Inl e, demo_store_state)"
proof -
  have "json_field (json_value (JObj [(''schema'', JStr '' '')])) ''schema'' = Some (JStr '' '')" "trim '' '' = []"
    by code_simp+
  from blank_schema_unreceipted [OF demo_value this] show ?thesis by blast
qed

theorem positional_subject_unreceipted_witness:
  "\<exists>e fpath b st'. import_record_with_receipt demo_ext demo_serde demo_io ''mapping''
       (put_doc (demo_doc demo_positional JNull ''truth'')) ''p'' ''s'' ''2026Z'' demo_store_state = (Inl e, st')
     \<and> lookup_file (st_dirs st') fpath = Some b"
proof -
  let ?doc = "demo_doc demo_positional JNull ''truth''"
  obtain fpath d st' where "demo_run ?doc demo_store_state =
      (Inr (Imported fpath d (prefixed_sha256 demo_ext (put_doc ?doc)) (demo_core ?doc)), st')"
    using demo_records_ok(3) by (rule demo_imported)
  from positional_subject_unreceipted [OF demo_io_quiet demo_serde_roundtrip demo_exact [OF demo_records_ok(3)] this
      demo_value demo_subject_field(2)]
  show ?thesis by blast
qed

end
