(* ===== verification/Spec2Isabelle.thy ===== *)
theory Spec2Isabelle
  imports Protocol Inquiry_Escalation Inquiry_Survey Receipt_Replay Reliance Pipeline Notifications Continuity_Receipts
begin

text \<open>
  A model of the core of nq, a monitor that separates what it has observed from what may be
  concluded from it, and theorems about the model. Paths are under \<open>src/\<close>.

  \<^bold>\<open>The program.\<close> nq has three parts that this development follows.
  The \<^emph>\<open>finding store\<close> (\<open>crates/nq-db\<close>, driven by \<open>crates/nq-monitor/src/cmd/serve.rs\<close>): each
  cycle publishes a generation, detectors emit findings, one transaction moves the lifecycle of
  every finding on, and the generation is sealed; operators act on findings, withdraw sources
  and declare intents; a sweep forgets old generations.
  The \<^emph>\<open>governed inquiry\<close> (\<open>crates/nq-core/src/inquiry.rs\<close>): a plan is admitted against a
  content-addressed profile; a report inquiry reads the store (\<open>crates/nq-db/src/inquiry.rs\<close>), an
  active one probes TLS endpoints under a grant whose position only ever narrows
  (\<open>crates/nq-monitor/src/inquiry.rs\<close>); either way a sealed receipt says what was found and what
  cannot be testified to.
  The \<^emph>\<open>evidence chain\<close> (\<open>crates/nq-witness\<close>, \<open>crates/nq-core\<close>, \<open>crates/nq\<close>): witness packets
  are adopted, a claim registry evaluates claims over them to receipts, receipts are checked and
  replayed, and a consumer decides whether to rely on one.

  \<^bold>\<open>Theories.\<close>

  \<^item> \<open>Prelude\<close>: results as sums (\<open>Inl\<close> is the error), ordered checks, UTF-8 strings, JSON,
    digests, and the locales \<open>sealed_artifact\<close> and \<open>content_addressed\<close> that every digested record
    interprets. \<open>Std_Net\<close>: the textual IP addresses of the standard library.
  \<^item> \<open>Protocol\<close> (\<open>crates/nq-protocol\<close>): validated wire primitives; the grammar of schema
    identifiers and the round trip of content digests.
  \<^item> \<open>Inquiry_Profile\<close>, \<open>Inquiry_Plan\<close>, \<open>Inquiry_Preflight\<close>, \<open>Inquiry_Ratchet\<close>,
    \<open>Inquiry_Receipt\<close>, \<open>Inquiry_Escalation\<close> (\<open>crates/nq-core/src/inquiry.rs\<close>, in the order of
    the file): profiles and admission, witness plans, the preflight, grants and positions with
    the same-grant ratchet, receipts with their envelopes and sealing, escalation requests. Shown:
    what is admitted is what the profile declares, whatever the order of the plan; a run of
    authorised transitions never raises the remaining spend, refines an abstract ratchet, and
    leaves a chain of receipts; a completed receipt balances its spend; a sealed receipt cannot
    be altered unnoticed.
  \<^item> \<open>Tls_Probe\<close> (\<open>crates/nq-monitor/src/tls_cert_probe.rs\<close>, \<open>tls_cert_transport.rs\<close>),
    \<open>Inquiry_Execution\<close> and \<open>Inquiry_Survey\<close> (\<open>crates/nq-monitor/src/inquiry.rs\<close>): the probe, the
    executor and its survey loop over a locale of acquirers. Shown: no execution spends beyond
    its grant, every observation has a shape the verifier accepts, and exactly when a receipt is
    sealed.
  \<^item> \<open>Store\<close>, \<open>Lifecycle\<close>, \<open>Declarations\<close>, \<open>Finding_Actions\<close>, \<open>Retention\<close> (\<open>crates/nq-db/src\<close>:
    \<open>detect.rs\<close> types, \<open>publish.rs\<close>, \<open>declarations.rs\<close>, \<open>finding_actions.rs\<close>,
    \<open>source_retirement.rs\<close>, \<open>digest.rs\<close>, \<open>retention.rs\<close>): a table is a list of typed rows, a
    statement a function on it that a primary key, unique or foreign-key constraint may refuse;
    \<open>keyed_update\<close> is the interface of updates that keep the key. \<open>Lifecycle_Rows\<close> refines a
    whole update to a function on one row, \<open>Lifecycle_Laws\<close> draws the laws of counting, masking
    and recovery from it, \<open>Store_Machine\<close> runs all operations in any order and proves the
    invariant of every reachable store. \<open>Store_Demo\<close> is a concrete store.
  \<^item> \<open>Notifications\<close> (\<open>crates/nq-db/src/notify.rs\<close>): which findings are announced and how they are
    grouped. Shown: what was sent is not sent again, rollups partition what is pending, and an
    action whose contract pauses notifications pauses them.
  \<^item> \<open>Inquiry_Report\<close> (\<open>crates/nq-db/src/inquiry.rs\<close>) and \<open>Pipeline\<close> (\<open>serve.rs\<close>): the report
    executor answers exactly when a finding is operationally active in the store; a pass of the
    monitor makes it so for what it records, unless the row was imported and its producer's
    extraction is out of date, since a pass keeps the origin of a row. Two theorems of \<open>Pipeline\<close> and one of \<open>Retention\<close>
    state defects: the \<open>latest\<close> mode refuses what the pass has just recorded, a declarations file
    that repeats an identifier stops the lifecycle, a host that vanished stops retention.
  \<^item> \<open>Witness_Packet\<close> (\<open>crates/nq-witness\<close>), \<open>Preflight_Core\<close> (\<open>crates/nq\<close>,
    \<open>crates/nq-core/src/preflight.rs\<close>), \<open>Claim_Receipt\<close>, \<open>Claim_Registry\<close>, \<open>Receipt_Check\<close>,
    \<open>Receipt_Replay\<close> (\<open>crates/nq-core/src\<close>), \<open>Reliance\<close> (\<open>crates/nq/src/reliance.rs\<close>): adoption,
    evaluation, checking, replay and reliance. Shown: a claim is verified exactly when the packets
    support it, replay accepts only what they still support, tampering has its own exit code,
    and reliance is authorised exactly when the written conditions hold. This theory joins
    reliance with replay.
  \<^item> \<open>Projection_Receipt\<close> (\<open>crates/nq-witness/src/projection_receipt.rs\<close>), \<open>Serde_Wire\<close> (the
    decoders that serde derives for packets and receipts), \<open>Projection_Store\<close>
    (\<open>crates/nq-monitor/src/projection_import.rs\<close>) and \<open>Continuity_Record\<close>
    (\<open>crates/nq-monitor/src/continuity_record.rs\<close>): the import of a record held by another
    system as a packet marked as a projection, and its receipt. \<open>Continuity_Laws\<close> and
    \<open>Continuity_Receipts\<close> hold the theorems. Shown: the packet on disk carries every limit of the
    record, a second import is a duplicate, another record under the same identity is refused,
    a new packet is receipted, and no receipt is ever overwritten, whatever fails. Three theorems
    state defects: a record with a blank schema and one whose subject is written as an array
    leave no receipt, and a record nested as deep as the parser reads leaves a packet that it
    does not read, which blocks the memory.

  \<^bold>\<open>Data.\<close> A struct is a record whose fields carry a short prefix, an enum a datatype. \<open>u32\<close> and
  \<open>u64\<close> are words, \<open>i64\<close> columns and times in nanoseconds are \<open>int\<close>, \<open>f64\<close> is its bit pattern.
  Strings are their UTF-8 bytes. Errors are the message or a datatype of the source's error enum.

  \<^bold>\<open>Parameters.\<close> Code outside the repository is an argument: \<open>externals\<close> (canonical JSON, SHA-256,
  the RFC 3339 parser), \<open>tls_crates\<close> (X.509 and WebPKI), \<open>platform\<close> (clocks, resolver, sockets),
  \<open>from_str\<close>, \<open>from_slice\<close> and \<open>read_file\<close> (serde and files), \<open>serde\<close> (the JSON parser and
  printer), \<open>io\<close> (faults of the file system and steps of other processes), \<open>connection\<close>
  (what SQLite yields to the report executor); the records \<open>lifecycle_env\<close>, \<open>action_env\<close> and \<open>sweep_env\<close> carry clock
  readings and the order of a hash map. What a theorem needs of them is a named hypothesis:
  \<open>jcs_total\<close>, \<open>sha256_shape\<close>, \<open>collision_free\<close>, \<open>rfc3339_bounded\<close>, \<open>readable\<close>, \<open>serde_roundtrip\<close>
  (parsing inverts printing, for documents below the recursion limit of the parser and without
  floating-point numbers), \<open>exact_source\<close> (the imported document is such a one), \<open>quiet\<close> (no fault, no other process), \<open>others_keep\<close> (other processes do not touch
  a published file), \<open>recursion_limited\<close> (the parser refuses 128 levels).

  \<^bold>\<open>Termination and bounds.\<close> Everything is total by structure except the evaluation of claims,
  which recurses through the registry: it takes fuel and returns an option, three levels are
  enough for the registry the program ships, and a registry with a cycle is shown to diverge.
  In the store, the failure of the storage engine itself (disk, lock) is not modelled: it rolls
  the transaction back and returns an error.

  \<^bold>\<open>Not modelled.\<close> \<open>publish_batch\<close> and the witness publishers, which copy collected rows to
  tables: the publish step of \<open>Store_Machine\<close> lets them write any rows of the tables they own.
  The detectors (\<open>detect.rs\<close>), regime features, state evaluators and exports: SQL over the
  collected tables with floating point; the findings of a pass are universally quantified
  instead. The dossiers of Docket and their artifact registry. Migrations, dashboards, rendering,
  notification delivery, collectors, the other probes, command lines and HTTP: input, output and presentation.
\<close>

section \<open>Reliance and replay\<close>

text \<open>
  C19: when a reliance on a receipt is authorised and the receipt replays \<open>Ok\<close> over some packets,
  the decision rests on those packets: the receipt is sealed and is the one the decision names,
  the packets are all valid, and those about the receipt's subject support the receipt's claim.
\<close>

theorem reliance_rests_on_packets:
  assumes "jcs_total ext" and "collision_free ext ps"
    and "reliance_decide ext evaluation_view request receipt supporting evidence catalog t = Inr d"
    and "rl_decision d = RO_AuthorizedReliance"
    and "replay_receipt fuel ext receipt ps opts = Some rep" and "rr_status rep = RS_Ok"
  shows "sealed_receipt ext receipt \<and> rcp_content_hash receipt = Some (rl_receipt_content_hash d)
    \<and> (\<forall>w \<in> set ps. valid_packet ext w)
    \<and> claim_supported track_b_starter (about_subject (rcp_subject receipt) ps) (rcp_claim receipt)"
proof -
  have "may_rely request (evaluation_view receipt) (map evaluation_view supporting) evidence catalog"
    using decide_ok [OF assms(3)] assms(4)
      reliance_evaluate_cases [of request "evaluation_view receipt" "map evaluation_view supporting" evidence catalog]
    by auto
  then have "rcp_status receipt = Verified" "rcp_content_hash receipt = Some (rq_receipt_content_hash request)"
    by (auto simp: may_rely_def receipt_stands_def evaluation_view_def split: option.splits)
  then show ?thesis
    using decide_ok [OF assms(3)] replay_ok_supported [OF assms(1,2,5,6)] by auto
qed

lemma demo_evaluated:
  obtains r h where
    "registry_evaluate 3 demo_ext track_b_starter ''tests_passed'' ''repo'' [demo_packet] ''2026Z'' = Some r"
    "rcp_content_hash r = Some h"
    "\<And>claim. claim = ''tests_passed'' \<or> claim = ''docket_attempt_settled'' \<Longrightarrow>
       may_rely (demo_request claim h) (evaluation_view r) [] demo_context demo_profiles"
proof -
  have v: "\<forall>w \<in> set [demo_packet]. valid_packet demo_ext w" by (rule demo_all_valid) simp
  obtain r where r: "registry_evaluate 3 demo_ext track_b_starter ''tests_passed'' ''repo'' [demo_packet] ''2026Z'' = Some r"
    by (rule demo_minted)
  note sealed = evaluate_sealed [OF v demo_ext_total r]
  then obtain h where h: "rcp_content_hash r = Some h" by (auto simp: sealed_receipt_def split: option.splits)
  have "ClaimRegistry_get track_b_starter ''tests_passed'' = Some (Leaf
        \<lparr>lc_name = ''tests_passed'', lc_witness_type = ''pytest'',
         lc_observation_type = ''pytest_run'', lc_condition = ExitCodeZero,
         lc_describes = ''pytest run exited zero in this checkout''\<rparr>)"
    by (simp add: ClaimRegistry_get_def track_b_starter_def ClaimRegistry_register_def)
  then have f: "rcp_status r = Verified" "rcp_status_reasons r = [AllRequirementsVerified]" "rcp_cannot_testify r = []"
    using r evaluate_valid [OF v, of 3 track_b_starter "''tests_passed''" "''repo''" "''2026Z''"]
    by (auto simp: evaluation_core_def numeral_3_eq_3 resolve_leaf_def matching_observations_def demo_packet_def
        Receipt_new_def)
  have w: "\<forall>x \<in> set (rcp_witnesses r). wr_custody_basis x = Some ''native_observation''"
    by (auto simp: sealed(3) packet_ref_def demo_packet_def)
  have "may_rely (demo_request claim h) (evaluation_view r) [] demo_context demo_profiles"
    if "claim = ''tests_passed'' \<or> claim = ''docket_attempt_settled''" for claim
    by (rule demo_may_rely [OF that]) (use f w h in \<open>auto simp: evaluation_view_def\<close>)
  then show ?thesis by (rule that [OF r h])
qed

theorem reliance_rests_on_packets_witness:
  "\<exists>r d rep. reliance_decide demo_ext evaluation_view (demo_request ''tests_passed'' (rl_receipt_content_hash d)) r []
       demo_context demo_profiles ''2026Z'' = Inr d
     \<and> rl_decision d = RO_AuthorizedReliance
     \<and> replay_receipt 3 demo_ext r [demo_packet] \<lparr>ro_strict = False, ro_fresh = False, ro_as_of = None\<rparr> = Some rep
     \<and> rr_status rep = RS_Ok \<and> claim_supported track_b_starter (about_subject (rcp_subject r) [demo_packet]) (rcp_claim r)"
proof -
  obtain r h where r: "registry_evaluate 3 demo_ext track_b_starter ''tests_passed'' ''repo'' [demo_packet] ''2026Z'' = Some r"
    and m: "\<And>claim. claim = ''tests_passed'' \<or> claim = ''docket_attempt_settled'' \<Longrightarrow>
       may_rely (demo_request claim h) (evaluation_view r) [] demo_context demo_profiles"
    by (rule demo_evaluated) blast
  let ?q = "demo_request ''tests_passed'' h"
  obtain d where d: "reliance_decide demo_ext evaluation_view ?q r [] demo_context demo_profiles ''2026Z'' = Inr d"
    using decide_total [OF demo_ext_total, of evaluation_view ?q r "[]"] by blast
  have a: "rl_decision d = RO_AuthorizedReliance" and h: "rl_receipt_content_hash d = h"
    using decide_ok [OF d] m [of "''tests_passed''"]
      reliance_evaluate_cases [of ?q "evaluation_view r" "[]" demo_context demo_profiles]
    by (auto simp: demo_request_def)
  have v: "\<forall>w \<in> set [demo_packet]. valid_packet demo_ext w" by (rule demo_all_valid) simp
  obtain rep ded r' where rep: "replay_receipt 3 demo_ext r [demo_packet] \<lparr>ro_strict = False, ro_fresh = False, ro_as_of = None\<rparr> = Some rep"
    "rr_status rep = (if same_decision r r' then RS_Ok else RS_Mismatch)"
    "rr_duplicate_packet_digests rep = [] \<longleftrightarrow> distinct [demo_packet]"
    "replay_exit_code_for rep = (if same_decision r r' then 0 else 1)"
    and ded: "distinct ded" "set ded = set [demo_packet]"
    "registry_evaluate 3 demo_ext track_b_starter ''tests_passed'' ''repo'' ded ''2026Z'' = Some r'"
    by (rule replay_of_minted [OF demo_ext_total v demo_collision_free(2) refl _ _ r, where fuel' = 3]) simp_all
  have "same_decision r r'"
    by (rule evaluate_same_decision [OF v ded(2) [symmetric] _ ded(1) r ded(3)]) simp
  with rep have ok: "rr_status rep = RS_Ok" by simp
  from reliance_rests_on_packets [OF demo_ext_total demo_collision_free(2) d a rep(1) ok] d a h rep(1) ok
  show ?thesis by blast
qed

text \<open>
  C39: the claim a reliance is authorised for is not compared with the claim of the receipt: the
  conjuncts read every part of the receipt but its claim, so a sealed receipt that verifies
  \<open>tests_passed\<close> authorises a consumer to rely on \<open>docket_attempt_settled\<close>, which the same
  packets do not support.
\<close>

theorem authorised_claim_is_not_the_receipts:
  "reliance_evaluate request (view\<lparr>ev_claim := other\<rparr>) supporting evidence catalog
     = reliance_evaluate request view supporting evidence catalog
   \<and> (\<exists>r h d. registry_evaluate 3 demo_ext track_b_starter ''tests_passed'' ''repo'' [demo_packet] ''2026Z'' = Some r
        \<and> reliance_decide demo_ext evaluation_view (demo_request ''docket_attempt_settled'' h) r []
            demo_context demo_profiles ''2026Z'' = Inr d
        \<and> rl_decision d = RO_AuthorizedReliance \<and> rl_claim d = ''docket_attempt_settled''
        \<and> \<not> claim_supported track_b_starter [demo_packet] ''docket_attempt_settled'')"
proof
  show "reliance_evaluate request (view\<lparr>ev_claim := other\<rparr>) supporting evidence catalog
     = reliance_evaluate request view supporting evidence catalog"
    unfolding reliance_evaluate_def reliance_conjuncts_def receipt_claim_unread ..
  obtain r h where r: "registry_evaluate 3 demo_ext track_b_starter ''tests_passed'' ''repo'' [demo_packet] ''2026Z'' = Some r"
    and m: "\<And>claim. claim = ''tests_passed'' \<or> claim = ''docket_attempt_settled'' \<Longrightarrow>
       may_rely (demo_request claim h) (evaluation_view r) [] demo_context demo_profiles"
    by (rule demo_evaluated) blast
  let ?q = "demo_request ''docket_attempt_settled'' h"
  obtain d where d: "reliance_decide demo_ext evaluation_view ?q r [] demo_context demo_profiles ''2026Z'' = Inr d"
    using decide_total [OF demo_ext_total, of evaluation_view ?q r "[]"] by blast
  have "rl_decision d = RO_AuthorizedReliance" "rl_claim d = ''docket_attempt_settled''"
    using decide_ok [OF d] m [of "''docket_attempt_settled''"]
      reliance_evaluate_cases [of ?q "evaluation_view r" "[]" demo_context demo_profiles]
    by (auto simp: demo_request_def)
  moreover have "\<not> claim_supported track_b_starter [demo_packet] ''docket_attempt_settled''"
    by (auto simp: claim_supported_iff [of _ _ "''docket_attempt_settled''"] ClaimRegistry_get_def track_b_starter_def
        ClaimRegistry_register_def leaf_supported_def matching_observations_def demo_packet_def)
  ultimately show "\<exists>r h d. registry_evaluate 3 demo_ext track_b_starter ''tests_passed'' ''repo'' [demo_packet] ''2026Z'' = Some r
        \<and> reliance_decide demo_ext evaluation_view (demo_request ''docket_attempt_settled'' h) r []
            demo_context demo_profiles ''2026Z'' = Inr d
        \<and> rl_decision d = RO_AuthorizedReliance \<and> rl_claim d = ''docket_attempt_settled''
        \<and> \<not> claim_supported track_b_starter [demo_packet] ''docket_attempt_settled''"
    using r d by blast
qed

end
